(* ===== verification/Sk_Prelude.thy ===== *)
theory Sk_Prelude
  imports Main "HOL-Library.Word" "HOL-Library.List_Lexorder" "HOL-Library.Char_ord"
    "HOL-Library.Multiset"
begin

text \<open>
  Shared vocabulary of the development.

  \<^item> \<open>dbId\<close>: the 32 bit row id of \<^verbatim>\<open>src/src/db/dbId.h\<close>, with \<open>invalidId\<close>.
  \<^item> \<open>qstring\<close>: a QString, restricted to the Latin-1 code points 0..255, which is what an
    Isabelle \<open>char\<close> holds. On these code points the operations below agree with Qt's:
    \<open>trimmed\<close> removes the Latin-1 white space, \<open>toLower\<close> maps A-Z and the capital letters of
    the upper half (no lower case letter leaves Latin-1), and \<open>\<le>\<close> on lists
    (List\_Lexorder) is QString's code point order. A null and an empty QString are not told
    apart, as \<open>==\<close> and \<open>isEmpty\<close> do not.
  \<^item> \<open>qdatetime\<close>: a QDateTime as milliseconds since the epoch in UTC, \<open>None\<close> if it is null;
    \<open>qdate\<close>: a day number, \<open>None\<close> if it is null; \<open>qtime\<close>: seconds since midnight, \<open>None\<close>
    if it is null.
  \<^item> \<open>sk_setters\<close>, \<open>sk_defs\<close>: the collections that the component proofs unfold with.
\<close>

named_theorems sk_defs \<open>small definitions that are always unfolded\<close>
named_theorems sk_inv \<open>preservation facts of the component invariants\<close>

section \<open>Row ids\<close>

type_synonym dbId = "32 word"

definition invalidId :: dbId where
  "invalidId = 0"

definition idInvalid :: "dbId \<Rightarrow> bool" where
  "idInvalid i \<longleftrightarrow> i = 0"

definition idValid :: "dbId \<Rightarrow> bool" where
  "idValid i \<longleftrightarrow> \<not> idInvalid i"

declare invalidId_def [sk_defs] idInvalid_def [sk_defs] idValid_def [sk_defs]

section \<open>Strings\<close>

type_synonym qstring = string

definition isSpaceChar :: "char \<Rightarrow> bool" where
  "isSpaceChar c \<longleftrightarrow>
     (let n = (of_char c :: nat) in n = 32 \<or> (9 \<le> n \<and> n \<le> 13) \<or> n = 133 \<or> n = 160)"

definition trimmed :: "qstring \<Rightarrow> qstring" where
  "trimmed s = rev (dropWhile isSpaceChar (rev (dropWhile isSpaceChar s)))"

definition toLowerChar :: "char \<Rightarrow> char" where
  "toLowerChar c =
     (let n = (of_char c :: nat) in
      if (65 \<le> n \<and> n \<le> 90) \<or> (192 \<le> n \<and> n \<le> 222 \<and> n \<noteq> 215) then char_of (n + 32) else c)"

definition toLower :: "qstring \<Rightarrow> qstring" where
  "toLower s = map toLowerChar s"

text \<open>QString::simplified: trimmed, and every inner run of white space becomes one blank.\<close>

function collapseSpaces :: "qstring \<Rightarrow> qstring" where
  "collapseSpaces [] = []"
| "collapseSpaces (c # cs) =
     (if isSpaceChar c then CHR '' '' # collapseSpaces (dropWhile isSpaceChar cs)
      else c # collapseSpaces cs)"
  by pat_completeness auto
termination
  by (relation "measure length") (auto simp: less_Suc_eq_le length_dropWhile_le)

definition simplified :: "qstring \<Rightarrow> qstring" where
  "simplified s = collapseSpaces (trimmed s)"

lemma toLower_simps [simp]:
  "toLower [] = []" "toLower (c # s) = toLowerChar c # toLower s"
  "toLower (s @ t) = toLower s @ toLower t" "length (toLower s) = length s"
  by (simp_all add: toLower_def)

lemma toLowerChar_idem [simp]: "toLowerChar (toLowerChar c) = toLowerChar c"
  by (auto simp: toLowerChar_def Let_def)

lemma toLower_idem [simp]: "toLower (toLower s) = toLower s"
  by (induction s) auto

lemma trimmed_Nil [simp]: "trimmed [] = []"
  by (simp add: trimmed_def)

lemma trimmed_eq_Nil_iff: "trimmed s = [] \<longleftrightarrow> (\<forall>c \<in> set s. isSpaceChar c)"
proof -
  have "trimmed s = [] \<longleftrightarrow> (\<forall>c \<in> set (dropWhile isSpaceChar s). isSpaceChar c)"
    by (simp add: trimmed_def)
  also have "\<dots> \<longleftrightarrow> (\<forall>c \<in> set s. isSpaceChar c)"
    by (induction s) auto
  finally show ?thesis .
qed

section \<open>Numbers in strings and QString::arg\<close>

definition isDigitChar :: "char \<Rightarrow> bool" where
  "isDigitChar c \<longleftrightarrow> 48 \<le> (of_char c :: nat) \<and> (of_char c :: nat) \<le> 57"

definition digitVal :: "char \<Rightarrow> nat" where
  "digitVal c = of_char c - 48"

definition digitChar :: "nat \<Rightarrow> char" where
  "digitChar n = char_of (48 + n)"

fun decimalNat :: "nat \<Rightarrow> qstring" where
  "decimalNat n = (if n < 10 then [digitChar n] else decimalNat (n div 10) @ [digitChar (n mod 10)])"

declare decimalNat.simps [simp del]

definition decimal :: "int \<Rightarrow> qstring" where
  "decimal i = (if i < 0 then CHR ''-'' # decimalNat (nat (- i)) else decimalNat (nat i))"

text \<open>The value of a digit string.\<close>

definition digitsVal :: "qstring \<Rightarrow> nat" where
  "digitsVal s = foldl (\<lambda>n c. 10 * n + digitVal c) 0 s"

lemma digitChar_props [simp]:
  assumes "n < 10"
  shows "isDigitChar (digitChar n)" "digitVal (digitChar n) = n"
  using assms by (simp_all add: isDigitChar_def digitVal_def digitChar_def)

lemma decimalNat_digits: "\<forall>c \<in> set (decimalNat n). isDigitChar c"
proof (induction n rule: decimalNat.induct)
  case (1 n)
  then show ?case by (cases "n < 10") (auto simp: decimalNat.simps [of n])
qed

lemma digitsVal_decimalNat [simp]: "digitsVal (decimalNat n) = n"
proof (induction n rule: decimalNat.induct)
  case (1 n)
  then show ?case by (cases "n < 10") (simp_all add: digitsVal_def decimalNat.simps [of n])
qed

text \<open>
  A place marker is \<open>%\<close>, an optional \<open>L\<close> and one or two digits. \<open>markerAt s\<close> gives its
  number and the rest of the string, if \<open>s\<close> starts with one. One argument replaces all
  occurrences of the marker with the lowest number (QString::arg).
\<close>

fun markerDigits :: "qstring \<Rightarrow> (nat \<times> qstring) option" where
  "markerDigits (a # b # r) =
     (if isDigitChar a
      then (if isDigitChar b then Some (10 * digitVal a + digitVal b, r) else Some (digitVal a, b # r))
      else None)"
| "markerDigits [a] = (if isDigitChar a then Some (digitVal a, []) else None)"
| "markerDigits [] = None"

fun markerAt :: "qstring \<Rightarrow> (nat \<times> qstring) option" where
  "markerAt (p # r) =
     (if p \<noteq> CHR ''%'' then None
      else (case r of c # r' \<Rightarrow> if c = CHR ''L'' then markerDigits r' else markerDigits r
            | [] \<Rightarrow> None))"
| "markerAt [] = None"

fun markers :: "qstring \<Rightarrow> nat list" where
  "markers [] = []"
| "markers (c # r) = (case markerAt (c # r) of Some (n, _) \<Rightarrow> n # markers r | None \<Rightarrow> markers r)"

text \<open>The number of characters of the marker that are still to be skipped is \<open>k\<close>.\<close>

fun substMarkers :: "nat \<Rightarrow> (nat \<Rightarrow> qstring option) \<Rightarrow> qstring \<Rightarrow> qstring" where
  "substMarkers k f [] = []"
| "substMarkers (Suc k) f (c # r) = substMarkers k f r"
| "substMarkers 0 f (c # r) =
     (case markerAt (c # r) of
        Some (n, rest) \<Rightarrow> (case f n of
           Some a \<Rightarrow> a @ substMarkers (length r - length rest) f r
         | None \<Rightarrow> c # substMarkers 0 f r)
      | None \<Rightarrow> c # substMarkers 0 f r)"

definition qArg :: "qstring \<Rightarrow> qstring \<Rightarrow> qstring" where
  "qArg s a = (case markers s of [] \<Rightarrow> s
     | m # ms \<Rightarrow> substMarkers 0 (\<lambda>n. if n = Min (set (m # ms)) then Some a else None) s)"

text \<open>The multi-argument form replaces the lowest markers simultaneously, in order.\<close>

definition qArgs :: "qstring \<Rightarrow> qstring list \<Rightarrow> qstring" where
  "qArgs s as = (let ns = sorted_list_of_set (set (markers s)) in
     substMarkers 0 (map_of (zip ns as)) s)"

section \<open>Dates and times\<close>

type_synonym qdatetime = "int option"
type_synonym qdate = "int option"
type_synonym qtime = "int option"

text \<open>The number QDateTime compares by: a null value holds 0 ms.\<close>

definition msecs :: "qdatetime \<Rightarrow> int" where
  "msecs t = (case t of None \<Rightarrow> 0 | Some m \<Rightarrow> m)"

lemma msecs_simps [simp]: "msecs None = 0" "msecs (Some m) = m"
  by (simp_all add: msecs_def)

text \<open>A time zone is its offset from UTC (in ms) at a UTC instant; UTC itself has offset 0.\<close>

type_synonym qtimezone = "int \<Rightarrow> int"

definition utc :: qtimezone where
  "utc t = 0"

definition dateIn :: "qtimezone \<Rightarrow> qdatetime \<Rightarrow> qdate" where
  "dateIn tz t = map_option (\<lambda>m. (m + tz m) div 86400000) t"

text \<open>QDateTime::secsTo: the difference in whole seconds, truncated towards zero; 0 if one of
  the two is invalid.\<close>

definition secsTo :: "qdatetime \<Rightarrow> qdatetime \<Rightarrow> int" where
  "secsTo a b = (case (a, b) of
     (Some x, Some y) \<Rightarrow> sgn (y - x) * (\<bar>y - x\<bar> div 1000)
   | _ \<Rightarrow> 0)"

text \<open>QTime::addSecs wraps around at midnight; a null time stays null.\<close>

definition addSecs :: "qtime \<Rightarrow> int \<Rightarrow> qtime" where
  "addSecs t s = map_option (\<lambda>x. (x + s) mod 86400) t"

definition midnight :: qtime where
  "midnight = Some 0"

lemma addSecs_midnight: "addSecs midnight s = Some (s mod 86400)"
  by (simp add: addSecs_def midnight_def)

lemma addSecs_addSecs: "addSecs (addSecs t a) b = addSecs t (a + b)"
  by (cases t) (simp_all add: addSecs_def mod_add_left_eq add.assoc)

section \<open>Lists and multisets\<close>

lemma mset_filter_key_notin:
  "x \<notin> set xs \<Longrightarrow> filter (\<lambda>y. y \<noteq> x) xs = xs"
  by (induction xs) auto

lemma distinct_map_filter [simp]:
  "distinct (map f xs) \<Longrightarrow> distinct (map f (filter P xs))"
  by (induction xs) auto

lemma map_of_distinct_Some:
  "distinct (map f xs) \<Longrightarrow> x \<in> set xs \<Longrightarrow> y \<in> set xs \<Longrightarrow> f x = f y \<Longrightarrow> x = y"
  by (metis distinct_map inj_onD)

end
