(* ===== verification/Sk_Text.thy ===== *)
theory Sk_Text
  imports Sk_Prelude
begin

text \<open>
  The text helpers of \<^verbatim>\<open>src/src/text.cpp\<close> and the time helpers of
  \<^verbatim>\<open>src/src/util/time.cpp\<close>. The numeric string order keeps its regular expression
  \<^verbatim>\<open>(.*)(\d+)\<close>: the match is the split with the longest first group, as the greedy
  quantifier takes it.
\<close>

section \<open>Blank entries\<close>

definition isBlank :: "qstring \<Rightarrow> bool" where
  "isBlank s \<longleftrightarrow> trimmed s = []"

definition isNone :: "qstring \<Rightarrow> bool" where
  "isNone s = (let t = trimmed s in t = [] \<or> s = ''-'')"

definition isNone2 :: "qstring \<Rightarrow> qstring \<Rightarrow> bool" where
  "isNone2 s t \<longleftrightarrow> isNone s \<and> isNone t"

definition trim_list :: "qstring list \<Rightarrow> qstring list" where
  "trim_list ss = map trimmed ss"

lemma isBlank_Nil [simp]: "isBlank []"
  by (simp add: isBlank_def)

lemma isBlank_isNone: "isBlank s \<Longrightarrow> isNone s"
  by (simp add: isBlank_def isNone_def)

lemma isNone_Nil [simp]: "isNone []" "isNone ''-''"
  by (simp_all add: isNone_def)

section \<open>Case conversion\<close>

text \<open>Upper case within Latin-1; the sharp s becomes \<open>SS\<close>. The two letters whose upper case
  form is outside Latin-1 (codes 181 and 255) are outside the modelled fragment.\<close>

definition toUpperChar :: "char \<Rightarrow> qstring" where
  "toUpperChar c =
     (let n = (of_char c :: nat) in
      if (97 \<le> n \<and> n \<le> 122) \<or> (224 \<le> n \<and> n \<le> 254 \<and> n \<noteq> 247) then [char_of (n - 32)]
      else if n = 223 then ''SS'' else [c])"

definition toUpper :: "qstring \<Rightarrow> qstring" where
  "toUpper s = concat (map toUpperChar s)"

definition firstToUpper :: "qstring \<Rightarrow> qstring" where
  "firstToUpper s = toUpper (take 1 s) @ drop 1 s"

definition firstToLower :: "qstring \<Rightarrow> qstring" where
  "firstToLower s = toLower (take 1 s) @ drop 1 s"

definition capitalize :: "qstring \<Rightarrow> qstring" where
  "capitalize s = toUpper (take 1 s) @ toLower (drop 1 s)"

definition simplifyClubName :: "qstring \<Rightarrow> qstring" where
  "simplifyClubName s = toLower (simplified s)"

text \<open>\<open>loc\<close> is \<open>Settings::instance ().location\<close>.\<close>

definition locationEntryCanBeChanged :: "qstring \<Rightarrow> qstring \<Rightarrow> bool" where
  "locationEntryCanBeChanged loc s \<longleftrightarrow> isNone s \<or> toLower (simplified s) = toLower (simplified loc)"

section \<open>Counts, mnemonics, repetition\<close>

definition countText :: "int \<Rightarrow> qstring \<Rightarrow> qstring \<Rightarrow> qstring" where
  "countText n singular plural = (if n = 1 then singular else qArg plural (decimal n))"

definition countTextNone :: "int \<Rightarrow> qstring \<Rightarrow> qstring \<Rightarrow> qstring \<Rightarrow> qstring" where
  "countTextNone n singular plural none =
     (if n = 0 then none else if n = 1 then singular else qArg plural (decimal n))"

text \<open>The loop of \<open>insertMnemonic\<close> from index \<open>i\<close>: the first allowed character gets an
  ampersand before it.\<close>

fun insertMnemonicFrom :: "qstring \<Rightarrow> qstring \<Rightarrow> qstring option" where
  "insertMnemonicFrom dis [] = None"
| "insertMnemonicFrom dis (c # cs) =
     (if toLowerChar c \<notin> set dis then Some (CHR ''&'' # c # cs)
      else map_option (Cons c) (insertMnemonicFrom dis cs))"

definition insertMnemonic :: "qstring \<Rightarrow> qstring \<Rightarrow> bool \<Rightarrow> qstring" where
  "insertMnemonic s disallowed fallbackToFirst =
     (case insertMnemonicFrom (toLower disallowed) s of
        Some r \<Rightarrow> r
      | None \<Rightarrow> if fallbackToFirst then CHR ''&'' # s else s)"

fun getMnemonic :: "qstring \<Rightarrow> char option" where
  "getMnemonic [] = None"
| "getMnemonic (c # cs) =
     (if c = CHR ''&'' then (case cs of [] \<Rightarrow> None | d # _ \<Rightarrow> Some d) else getMnemonic cs)"

fun repeatLoop :: "nat \<Rightarrow> qstring \<Rightarrow> qstring \<Rightarrow> qstring \<Rightarrow> qstring" where
  "repeatLoop 0 s sep acc = acc"
| "repeatLoop (Suc n) s sep acc = repeatLoop n s sep (acc @ sep @ s)"

definition repeatString :: "qstring \<Rightarrow> nat \<Rightarrow> qstring \<Rightarrow> qstring" where
  "repeatString s num sep = (if num = 0 then [] else repeatLoop (num - 1) s sep s)"

lemma insertMnemonicFrom_Some:
  assumes "insertMnemonicFrom dis s = Some r" and "CHR ''&'' \<notin> set s"
  shows "\<exists>p c q. s = p @ c # q \<and> r = p @ CHR ''&'' # c # q \<and> toLowerChar c \<notin> set dis
    \<and> getMnemonic r = Some c"
  using assms
proof (induction s arbitrary: r)
  case (Cons a s)
  show ?case
  proof (cases "toLowerChar a \<notin> set dis")
    case True
    with Cons.prems have "a # s = [] @ a # s \<and> r = [] @ CHR ''&'' # a # s \<and> toLowerChar a \<notin> set dis
      \<and> getMnemonic r = Some a" by auto
    then show ?thesis by blast
  next
    case False
    with Cons.prems obtain r' where r': "insertMnemonicFrom dis s = Some r'" "r = a # r'" by auto
    from Cons.IH [OF r'(1)] Cons.prems obtain p c q where
      "s = p @ c # q" "r' = p @ CHR ''&'' # c # q" "toLowerChar c \<notin> set dis" "getMnemonic r' = Some c"
      by auto
    with r' Cons.prems have "a # s = (a # p) @ c # q \<and> r = (a # p) @ CHR ''&'' # c # q
      \<and> toLowerChar c \<notin> set dis \<and> getMnemonic r = Some c" by auto
    then show ?thesis by blast
  qed
qed simp

lemma repeatLoop_eq: "repeatLoop n s sep acc = acc @ concat (replicate n (sep @ s))"
  by (induction n arbitrary: acc) auto

lemma repeatString_count:
  "x \<notin> set sep \<Longrightarrow> count_list (repeatString s n sep) x = n * count_list s x"
proof -
  assume sep: "x \<notin> set sep"
  have "count_list (concat (replicate k (sep @ s))) x = k * count_list s x" for k
    using sep by (induction k) auto
  with sep show ?thesis
    by (cases n) (auto simp: repeatString_def repeatLoop_eq)
qed

section \<open>The numeric string order\<close>

text \<open>The split of \<open>s\<close> after \<open>i\<close> characters matches \<^verbatim>\<open>(.*)(\d+)\<close> when the prefix has no
  line feed (which \<open>.\<close> does not match) and the rest is a non-empty run of digits. The
  greedy first group makes the regular expression engine try the longest prefix first.\<close>

definition reMatches :: "qstring \<Rightarrow> nat \<Rightarrow> bool" where
  "reMatches s i \<longleftrightarrow> CHR 0x0A \<notin> set (take i s) \<and> drop i s \<noteq> [] \<and> list_all isDigitChar (drop i s)"

definition reMatch :: "qstring \<Rightarrow> (qstring \<times> qstring) option" where
  "reMatch s = map_option (\<lambda>i. (take i s, drop i s)) (find (reMatches s) (rev [0..<Suc (length s)]))"

text \<open>QString::toInt of a digit string: 0 when the number does not fit an \<open>int\<close>.\<close>

definition toIntDigits :: "qstring \<Rightarrow> int" where
  "toIntDigits s = (if digitsVal s < 2 ^ 31 then int (digitsVal s) else 0)"

definition stringNumericLessThan :: "qstring \<Rightarrow> qstring \<Rightarrow> bool" where
  "stringNumericLessThan s1 s2 =
     (case reMatch s1 of
        Some (a1, d1) \<Rightarrow>
          (case reMatch s2 of
             Some (a2, d2) \<Rightarrow>
               (let b1 = toIntDigits d1; b2 = toIntDigits d2 in
                if a1 \<noteq> a2 then a1 < a2
                else if b1 \<noteq> b2 then b1 < b2
                else s1 < s2)
           | None \<Rightarrow> s1 < s2)
      | None \<Rightarrow> s1 < s2)"

text \<open>The greedy prefix leaves a single digit for the numeric group.\<close>

lemma reMatch_eq:
  "reMatch s = (if s \<noteq> [] \<and> isDigitChar (last s) \<and> CHR 0x0A \<notin> set (butlast s)
     then Some (butlast s, [last s]) else None)"
proof (cases s rule: rev_cases)
  case Nil
  then show ?thesis by (simp add: reMatch_def reMatches_def)
next
  case (snoc p d)
  show ?thesis
  proof (cases "isDigitChar d \<and> CHR 0x0A \<notin> set p")
    case True
    then show ?thesis using snoc by (simp add: reMatch_def reMatches_def)
  next
    case False
    have "\<not> reMatches s i" for i
    proof
      assume m: "reMatches s i"
      then have i: "i \<le> length p" using snoc by (cases "i \<le> length p") (auto simp: reMatches_def)
      with m False snoc have lf: "CHR 0x0A \<in> set p" by (auto simp: reMatches_def)
      from m i snoc have "CHR 0x0A \<notin> set (take i p)" "\<forall>c \<in> set (drop i p). isDigitChar c"
        by (auto simp: reMatches_def list_all_iff)
      moreover have "\<not> isDigitChar (CHR 0x0A)" by (simp add: isDigitChar_def)
      ultimately show False using lf by (metis Un_iff append_take_drop_id set_append)
    qed
    then have "find (reMatches s) (rev [0..<Suc (length s)]) = None" by (simp only: find_None_iff) simp
    then have "reMatch s = None" by (simp only: reMatch_def option.map)
    with False snoc show ?thesis by auto
  qed
qed

lemma toIntDigits_single:
  assumes "isDigitChar c" and "isDigitChar d"
  shows "toIntDigits [c] = toIntDigits [d] \<longleftrightarrow> c = d"
proof -
  have "digitVal c < 10" "digitVal d < 10" using assms by (auto simp: digitVal_def isDigitChar_def)
  then have "toIntDigits [c] = toIntDigits [d] \<longleftrightarrow> digitVal c = digitVal d"
    by (simp add: toIntDigits_def digitsVal_def)
  also have "\<dots> \<longleftrightarrow> (of_char c :: nat) = of_char d"
    unfolding digitVal_def using assms by (intro eq_diff_iff) (auto simp: isDigitChar_def)
  finally show ?thesis by simp
qed

lemma reMatch_SomeD:
  "reMatch s = Some (a, d) \<Longrightarrow> s = a @ d \<and> (\<exists>c. d = [c] \<and> isDigitChar c)"
  by (auto simp: reMatch_eq split: if_splits)

lemma stringNumericLessThan_cases:
  "stringNumericLessThan s1 s2 =
     (case (reMatch s1, reMatch s2) of
        (Some (a1, d1), Some (a2, d2)) \<Rightarrow>
          a1 < a2 \<or> (a1 = a2 \<and> toIntDigits d1 < toIntDigits d2)
      | _ \<Rightarrow> s1 < s2)"
proof -
  have "toIntDigits d1 = toIntDigits d2 \<Longrightarrow> a1 = a2 \<Longrightarrow> \<not> s1 < s2"
    if "reMatch s1 = Some (a1, d1)" "reMatch s2 = Some (a2, d2)" for a1 d1 a2 d2
    using that by (auto dest!: reMatch_SomeD simp: toIntDigits_single)
  then show ?thesis
    by (force simp: stringNumericLessThan_def Let_def split: option.split prod.split)
qed

lemma toIntDigits_single_less:
  "isDigitChar c \<Longrightarrow> isDigitChar d \<Longrightarrow> c \<noteq> d \<Longrightarrow>
    toIntDigits [c] < toIntDigits [d] \<longleftrightarrow> \<not> toIntDigits [d] < toIntDigits [c]"
  using toIntDigits_single [of c d] by linarith

text \<open>The order that sorts the serial port names is a strict total relation: of two different
  strings exactly one comes first, and no string comes before itself (the trichotomy that the
  special case of the source is there for).\<close>

theorem stringNumericLessThan_trichotomy:
  "stringNumericLessThan s t \<longleftrightarrow> s \<noteq> t \<and> \<not> stringNumericLessThan t s"
proof (cases "reMatch s")
  case None
  then show ?thesis
    by (auto simp: stringNumericLessThan_cases split: option.split prod.split)
next
  case (Some ad)
  then show ?thesis
  proof (cases "reMatch t")
    case None
    with Some show ?thesis
      by (auto simp: stringNumericLessThan_cases split: option.split prod.split)
  next
    case (Some be)
    obtain a c where s: "ad = (a, [c])" "s = a @ [c]" "isDigitChar c"
      using reMatch_SomeD [of s "fst ad" "snd ad"] \<open>reMatch s = Some ad\<close> by (cases ad) auto
    obtain b d where t: "be = (b, [d])" "t = b @ [d]" "isDigitChar d"
      using reMatch_SomeD [of t "fst be" "snd be"] Some by (cases be) auto
    have st: "stringNumericLessThan s t \<longleftrightarrow> a < b \<or> a = b \<and> toIntDigits [c] < toIntDigits [d]"
      and ts: "stringNumericLessThan t s \<longleftrightarrow> b < a \<or> b = a \<and> toIntDigits [d] < toIntDigits [c]"
      using Some \<open>reMatch s = Some ad\<close> s(1) t(1) by (simp_all add: stringNumericLessThan_cases)
    show ?thesis
    proof (cases "a = b \<and> c \<noteq> d")
      case True
      then show ?thesis using st ts s t toIntDigits_single_less [of c d] by auto
    next
      case False
      then show ?thesis using st ts s(2) t(2) by auto
    qed
  qed
qed

text \<open>The documented numeric comparison is not what the regular expression gives. The greedy
  first group leaves one digit to the numeric group, so \<open>ttyS100\<close> sorts before \<open>ttyS20\<close>; and
  mixing names with and without a numeric suffix makes the relation cyclic.\<close>

theorem stringNumericLessThan_not_numeric:
  "stringNumericLessThan ''ttyS100'' ''ttyS20''
   \<and> (stringNumericLessThan ''a9'' ''a10'' \<and> stringNumericLessThan ''a10'' ''a5x''
      \<and> stringNumericLessThan ''a5x'' ''a9'')"
  by (simp add: stringNumericLessThan_cases reMatch_eq isDigitChar_def toIntDigits_def
      digitsVal_def digitVal_def less_char_def)

end
