(* ===== verification/Sk_Query.thy ===== *)
theory Sk_Query
  imports Sk_Text
begin

text \<open>
  Parameterised SQL queries, \<^verbatim>\<open>src/src/db/Query.cpp\<close>: a query string with place
  holders and the list of values bound to them, the generators and the concatenation of queries;
  and the QVariant conversions that the result readers of the model classes use. A query is
  balanced when it has as many place holders as bound values, which is what
  \<open>QSqlQuery::addBindValue\<close> needs.
\<close>

section \<open>Variants\<close>

datatype qvariant =
    VInvalid | VInt int | VId dbId | VBool bool | VString qstring | VDateTime qdatetime | VDate qdate

text \<open>QString::toLongLong / toInt: optional surrounding white space, an optional sign, digits;
  0 if the string is not a number or out of range.\<close>

definition toIntegerIn :: "int \<Rightarrow> int \<Rightarrow> qstring \<Rightarrow> int" where
  "toIntegerIn lo hi s =
     (let t = trimmed s;
          neg = (t \<noteq> [] \<and> hd t = CHR ''-'');
          d = (if t \<noteq> [] \<and> (hd t = CHR ''-'' \<or> hd t = CHR ''+'') then tl t else t);
          v = (if neg then - int (digitsVal d) else int (digitsVal d))
      in if d \<noteq> [] \<and> list_all isDigitChar d \<and> lo \<le> v \<and> v \<le> hi then v else 0)"

definition strToLongLong :: "qstring \<Rightarrow> int" where
  "strToLongLong = toIntegerIn (- (2 ^ 63)) (2 ^ 63 - 1)"

definition strToInt :: "qstring \<Rightarrow> int" where
  "strToInt = toIntegerIn (- (2 ^ 31)) (2 ^ 31 - 1)"

fun vToLongLong :: "qvariant \<Rightarrow> int" where
  "vToLongLong (VInt n) = n"
| "vToLongLong (VId i) = uint i"
| "vToLongLong (VBool b) = (if b then 1 else 0)"
| "vToLongLong (VString s) = strToLongLong s"
| "vToLongLong _ = 0"

fun vToULongLong :: "qvariant \<Rightarrow> int" where
  "vToULongLong (VInt n) = n"
| "vToULongLong (VId i) = uint i"
| "vToULongLong (VBool b) = (if b then 1 else 0)"
| "vToULongLong (VString s) = toIntegerIn 0 (2 ^ 64 - 1) s"
| "vToULongLong _ = 0"

fun vToInt :: "qvariant \<Rightarrow> int" where
  "vToInt (VInt n) = n"
| "vToInt (VId i) = uint i"
| "vToInt (VBool b) = (if b then 1 else 0)"
| "vToInt (VString s) = strToInt s"
| "vToInt _ = 0"

fun vToBool :: "qvariant \<Rightarrow> bool" where
  "vToBool (VBool b) = b"
| "vToBool (VInt n) = (n \<noteq> 0)"
| "vToBool (VId i) = (i \<noteq> 0)"
| "vToBool (VString s) = (toLower s \<notin> {[], ''0'', ''false''})"
| "vToBool _ = False"

fun vToString :: "qvariant \<Rightarrow> qstring" where
  "vToString (VString s) = s"
| "vToString (VInt n) = decimal n"
| "vToString (VId i) = decimal (uint i)"
| "vToString (VBool b) = (if b then ''true'' else ''false'')"
| "vToString _ = []"

text \<open>The columns holding times are read as strings; \<open>parse\<close> is Qt's parser of date strings.\<close>

fun vToDateTime :: "(qstring \<Rightarrow> qdatetime) \<Rightarrow> qvariant \<Rightarrow> qdatetime" where
  "vToDateTime parse (VDateTime t) = t"
| "vToDateTime parse (VString s) = parse s"
| "vToDateTime parse _ = None"

fun vToDate :: "(qstring \<Rightarrow> qdate) \<Rightarrow> qvariant \<Rightarrow> qdate" where
  "vToDate parse (VDate d) = d"
| "vToDate parse (VString s) = parse s"
| "vToDate parse _ = None"

definition toDbId :: "int \<Rightarrow> dbId" where
  "toDbId n = word_of_int n"

lemma toDbId_uint [simp]: "toDbId (uint i) = i"
  by (simp add: toDbId_def)

text \<open>The map of strings the data map constructors read; a missing key gives an empty string.\<close>

definition mapAt :: "(qstring \<rightharpoonup> qstring) \<Rightarrow> qstring \<Rightarrow> qstring" where
  "mapAt m k = (case m k of None \<Rightarrow> [] | Some v \<Rightarrow> v)"

section \<open>Queries\<close>

record query =
  queryString :: qstring
  bindValues :: "qvariant list"

definition mkQuery :: "qstring \<Rightarrow> query" where
  "mkQuery s = \<lparr>queryString = s, bindValues = []\<rparr>"

definition q_isEmpty :: "query \<Rightarrow> bool" where
  "q_isEmpty q \<longleftrightarrow> queryString q = []"

definition q_bind :: "query \<Rightarrow> qvariant \<Rightarrow> query" where
  "q_bind q v = q\<lparr>bindValues := bindValues q @ [v]\<rparr>"

definition q_append :: "query \<Rightarrow> query \<Rightarrow> query" where
  "q_append q r = \<lparr>queryString = queryString q @ queryString r,
     bindValues = bindValues q @ bindValues r\<rparr>"

definition q_appendString :: "query \<Rightarrow> qstring \<Rightarrow> query" where
  "q_appendString q s = q\<lparr>queryString := queryString q @ s\<rparr>"

definition q_condition :: "query \<Rightarrow> query \<Rightarrow> query" where
  "q_condition q c =
     (if \<not> q_isEmpty c then q_append (q_appendString q '' WHERE '') c else q)"

definition q_arg :: "query \<Rightarrow> qstring \<Rightarrow> query" where
  "q_arg q a = q\<lparr>queryString := qArg (queryString q) a\<rparr>"

definition q_args :: "query \<Rightarrow> qstring list \<Rightarrow> query" where
  "q_args q as = q\<lparr>queryString := qArgs (queryString q) as\<rparr>"

definition q_toString :: "query \<Rightarrow> qstring" where
  "q_toString q = (case bindValues q of
     [] \<Rightarrow> queryString q
   | [v] \<Rightarrow> qArgs ''%1 [%2]'' [queryString q, vToString v]
   | v # vs \<Rightarrow> queryString q @ '' ['' @ foldl (\<lambda>r w. r @ '', '' @ vToString w) (vToString v) vs @ '']'')"

subsection \<open>Generation\<close>

definition q_selectDistinctColumns :: "qstring \<Rightarrow> qstring \<Rightarrow> bool \<Rightarrow> query" where
  "q_selectDistinctColumns table column excludeEmpty =
     mkQuery (qArgs ''SELECT DISTINCT %1 FROM %2'' [column, table]
       @ (if excludeEmpty then qArg ('' WHERE %1!='' @ [CHR 0x27, CHR 0x27]) column else []))"

fun joinStrings :: "qstring \<Rightarrow> qstring list \<Rightarrow> qstring" where
  "joinStrings sep [] = []"
| "joinStrings sep [s] = s"
| "joinStrings sep (s # t # r) = s @ sep @ joinStrings sep (t # r)"

definition q_selectDistinctColumnsOf :: "qstring list \<Rightarrow> qstring list \<Rightarrow> bool \<Rightarrow> query" where
  "q_selectDistinctColumnsOf tables columns excludeEmpty =
     mkQuery (joinStrings '' UNION ''
       (concat (map (\<lambda>table. map (\<lambda>column.
          queryString (q_selectDistinctColumns table column excludeEmpty)) columns) tables)))"

definition q_select :: "qstring \<Rightarrow> qstring \<Rightarrow> query" where
  "q_select table columns = q_args (mkQuery ''SELECT %1 FROM %2'') [columns, table]"

definition q_count :: "qstring \<Rightarrow> query" where
  "q_count table = q_arg (mkQuery ''SELECT COUNT(*) FROM %1'') table"

definition q_countCondition :: "qstring \<Rightarrow> query \<Rightarrow> query" where
  "q_countCondition table c =
     (if q_isEmpty c then q_arg (mkQuery ''SELECT COUNT(*) FROM %1'') table
      else q_append (q_arg (mkQuery ''SELECT COUNT(*) FROM %1 WHERE '') table) c)"

definition q_valueInListCondition :: "qstring \<Rightarrow> qvariant list \<Rightarrow> query" where
  "q_valueInListCondition column vs =
     foldl q_bind (q_arg (q_arg (mkQuery ''%1 IN (%2)'') column)
       (repeatString ''?'' (length vs) '','')) vs"

definition q_updateColumnValue :: "qstring \<Rightarrow> qstring \<Rightarrow> qvariant \<Rightarrow> qvariant list \<Rightarrow> query" where
  "q_updateColumnValue table column newValue oldValues =
     q_append (q_bind (q_arg (q_arg (mkQuery ''UPDATE %1 SET %2 = ? WHERE '') table) column) newValue)
       (q_valueInListCondition column oldValues)"

section \<open>Place holders and bound values\<close>

definition placeholders :: "query \<Rightarrow> nat" where
  "placeholders q = count_list (queryString q) (CHR ''?'')"

definition balanced :: "query \<Rightarrow> bool" where
  "balanced q \<longleftrightarrow> placeholders q = length (bindValues q)"

lemma balanced_append [intro]: "balanced q \<Longrightarrow> balanced r \<Longrightarrow> balanced (q_append q r)"
  by (simp add: balanced_def placeholders_def q_append_def count_list_append)

lemma balanced_condition:
  "balanced q \<Longrightarrow> balanced c \<Longrightarrow> balanced (q_condition q c)"
  by (auto simp: q_condition_def balanced_def placeholders_def q_append_def q_appendString_def
      count_list_append)

text \<open>Markers are only found at a percent sign, so plain text before a template is kept.\<close>

lemma markerAt_plain [simp]: "c \<noteq> CHR ''%'' \<Longrightarrow> markerAt (c # r) = None"
  by simp

lemma markers_plain_append: "CHR ''%'' \<notin> set a \<Longrightarrow> markers (a @ b) = markers b"
  by (induction a) auto

lemma substMarkers_plain_append:
  "CHR ''%'' \<notin> set a \<Longrightarrow> substMarkers 0 f (a @ b) = a @ substMarkers 0 f b"
  by (induction a) auto

lemma qArg_plain_append: "CHR ''%'' \<notin> set a \<Longrightarrow> qArg (a @ b) x = a @ qArg b x"
  by (auto simp: qArg_def markers_plain_append substMarkers_plain_append split: list.split)

lemma qArg_inList: "qArg ''%1 IN (%2)'' col = col @ '' IN (%2)''"
  by (simp add: qArg_def isDigitChar_def digitVal_def)

lemma qArg_inList2: "qArg '' IN (%2)'' x = '' IN ('' @ x @ '')''"
  by (simp add: qArg_def isDigitChar_def digitVal_def)

lemma foldl_q_bind: "foldl q_bind q vs = q\<lparr>bindValues := bindValues q @ vs\<rparr>"
  by (induction vs arbitrary: q) (simp_all add: q_bind_def)

lemma q_valueInListCondition_eq:
  assumes "CHR ''%'' \<notin> set col"
  shows "q_valueInListCondition col vs =
    \<lparr>queryString = col @ '' IN ('' @ repeatString ''?'' (length vs) '','' @ '')'', bindValues = vs\<rparr>"
  using assms
  by (simp add: q_valueInListCondition_def foldl_q_bind q_arg_def mkQuery_def qArg_inList
      qArg_plain_append qArg_inList2)

lemma placeholders_repeat: "count_list (repeatString ''?'' n '','') (CHR ''?'') = n"
  by (simp add: repeatString_count)

text \<open>The IN condition and the UPDATE that replaces one reference by another have exactly one
  place holder per bound value, for every list of values, so that the values are bound to the
  places they belong to.\<close>

theorem q_updateColumnValue_balanced:
  assumes "CHR ''%'' \<notin> set table" "CHR ''%'' \<notin> set column"
    and "CHR ''?'' \<notin> set table" "CHR ''?'' \<notin> set column"
  shows "balanced (q_valueInListCondition column vs)
    \<and> balanced (q_updateColumnValue table column new vs)
    \<and> bindValues (q_updateColumnValue table column new vs) = new # vs"
proof -
  have "qArg (qArg ''UPDATE %1 SET %2 = ? WHERE '' table) column
      = ''UPDATE '' @ table @ '' SET '' @ column @ '' = ? WHERE ''"
  proof -
    have "qArg ''UPDATE %1 SET %2 = ? WHERE '' table = ''UPDATE '' @ table @ '' SET %2 = ? WHERE ''"
      by (simp add: qArg_def isDigitChar_def digitVal_def)
    moreover have "qArg ('' SET %2 = ? WHERE '') column = '' SET '' @ column @ '' = ? WHERE ''"
      by (simp add: qArg_def isDigitChar_def digitVal_def)
    moreover have "qArg (''UPDATE '' @ table @ '' SET %2 = ? WHERE '') column
        = ''UPDATE '' @ table @ qArg '' SET %2 = ? WHERE '' column"
      using assms(1) qArg_plain_append [of "''UPDATE '' @ table" "'' SET %2 = ? WHERE ''" column]
      by simp
    ultimately show ?thesis by simp
  qed
  moreover have no: "count_list table (CHR ''?'') = 0" "count_list column (CHR ''?'') = 0"
    using assms(3,4) by (simp_all add: count_list_0_iff)
  ultimately show ?thesis
    using assms(2)
    by (simp add: balanced_def placeholders_def q_updateColumnValue_def q_append_def q_bind_def
        q_arg_def mkQuery_def q_valueInListCondition_eq count_list_append placeholders_repeat)
qed

theorem q_updateColumnValue_balanced_witness:
  "balanced (q_valueInListCondition ''pilot_id'' [VId 3, VId 4])
    \<and> balanced (q_updateColumnValue ''flights'' ''pilot_id'' (VId 7) [VId 3, VId 4])
    \<and> bindValues (q_updateColumnValue ''flights'' ''pilot_id'' (VId 7) [VId 3, VId 4])
      = VId 7 # [VId 3, VId 4]"
  by (rule q_updateColumnValue_balanced) simp_all

end
