(* ===== verification/Sk_Entity.thy ===== *)
theory Sk_Entity
  imports Sk_Query
begin

text \<open>
  What \<^verbatim>\<open>src/src/db/Database.cpp\<close> asks of a class whose objects it stores (the list at the
  end of that file): a table name, the column lists, a reader of result rows and \<open>bindValues\<close>;
  the statements \<open>createObject\<close> and \<open>updateObject\<close> build from them; and, as the locale
  \<open>stored_entity\<close>, the contract that makes an object read back as it was written. The model
  classes interpret it.

  The database driver is outside the repository: \<open>drv\<close> maps a bound value to the value a later
  SELECT returns for its column, \<open>driver_ok\<close> says what is used of it.
\<close>

definition driver_ok :: "(qstring \<Rightarrow> qdatetime) \<Rightarrow> (qstring \<Rightarrow> qdate) \<Rightarrow> (qvariant \<Rightarrow> qvariant) \<Rightarrow> bool" where
  "driver_ok pt pd drv \<longleftrightarrow>
     (\<forall>i. vToLongLong (drv (VId i)) = uint i) \<and>
     (\<forall>n. - (2 ^ 31) \<le> n \<and> n < 2 ^ 31 \<longrightarrow> vToInt (drv (VInt n)) = n) \<and>
     (\<forall>n. 0 \<le> n \<and> n < 2 ^ 64 \<longrightarrow> vToULongLong (drv (VInt n)) = n) \<and>
     (\<forall>b. vToBool (drv (VBool b)) = b) \<and>
     (\<forall>s. vToString (drv (VString s)) = s) \<and>
     (\<forall>t. (\<forall>m. t = Some m \<longrightarrow> m mod 1000 = 0) \<longrightarrow> vToDateTime pt (drv (VDateTime t)) = t) \<and>
     (\<forall>d. vToDate pd (drv (VDate d)) = d)"

lemma driver_okD:
  assumes "driver_ok pt pd drv"
  shows "vToLongLong (drv (VId i)) = uint i"
    and "- (2 ^ 31) \<le> n \<Longrightarrow> n < 2 ^ 31 \<Longrightarrow> vToInt (drv (VInt n)) = n"
    and "0 \<le> n \<Longrightarrow> n < 2 ^ 64 \<Longrightarrow> vToULongLong (drv (VInt n)) = n"
    and "vToBool (drv (VBool b)) = b"
    and "vToString (drv (VString s)) = s"
    and "(\<And>m. t = Some m \<Longrightarrow> m mod 1000 = 0) \<Longrightarrow> vToDateTime pt (drv (VDateTime t)) = t"
    and "vToDate pd (drv (VDate d)) = d"
  using assms by (auto simp: driver_ok_def)

lemma driver_ok_id: "driver_ok (\<lambda>_. None) (\<lambda>_. None) (\<lambda>v. v)"
  by (simp add: driver_ok_def)

text \<open>A result row, as \<open>Result::value (int)\<close> reads it.\<close>

type_synonym result_row = "nat \<Rightarrow> qvariant"

definition stored_row :: "(qvariant \<Rightarrow> qvariant) \<Rightarrow> dbId \<Rightarrow> qvariant list \<Rightarrow> result_row" where
  "stored_row drv i vs n = drv ((VId i # vs) ! n)"

lemma stored_row_simps [simp]:
  "stored_row drv i vs 0 = drv (VId i)"
  "stored_row drv i vs (Suc n) = drv (vs ! n)"
  by (simp_all add: stored_row_def)

text \<open>The number of columns in a comma separated column list.\<close>

definition columns :: "qstring \<Rightarrow> nat" where
  "columns s = Suc (count_list s (CHR '',''))"

text \<open>Database::createObject and Database::updateObject.\<close>

definition insertQuery :: "qstring \<Rightarrow> qstring \<Rightarrow> qstring \<Rightarrow> qvariant list \<Rightarrow> query" where
  "insertQuery table cols phs vs =
     foldl q_bind (q_args (mkQuery ''INSERT INTO %1 (%2) values (%3)'') [table, cols, phs]) vs"

definition replaceQuery :: "qstring \<Rightarrow> qstring \<Rightarrow> qstring \<Rightarrow> dbId \<Rightarrow> qvariant list \<Rightarrow> query" where
  "replaceQuery table cols phs i vs =
     foldl q_bind (q_bind (q_args (mkQuery ''REPLACE INTO %1 (id,%2) values (?,%3)'')
       [table, cols, phs]) (VId i)) vs"

lemma qArgs_insert:
  "qArgs ''INSERT INTO %1 (%2) values (%3)'' [a, b, c]
    = ''INSERT INTO '' @ a @ '' ('' @ b @ '') values ('' @ c @ '')''"
  by (simp add: qArgs_def isDigitChar_def digitVal_def Let_def)

lemma qArgs_replace:
  "qArgs ''REPLACE INTO %1 (id,%2) values (?,%3)'' [a, b, c]
    = ''REPLACE INTO '' @ a @ '' (id,'' @ b @ '') values (?,'' @ c @ '')''"
  by (simp add: qArgs_def isDigitChar_def digitVal_def Let_def)

locale stored_entity =
  fixes getId :: "'t \<Rightarrow> dbId"
    and fromRow :: "(qstring \<Rightarrow> qdatetime) \<Rightarrow> (qstring \<Rightarrow> qdate) \<Rightarrow> result_row \<Rightarrow> 't"
    and bindVals :: "'t \<Rightarrow> qvariant list"
    and table cols phs :: qstring
    and wf :: "'t \<Rightarrow> bool"
  assumes no_marks: "count_list table (CHR ''?'') = 0" "count_list cols (CHR ''?'') = 0"
    and phs_length: "count_list phs (CHR ''?'') = length (bindVals x)"
    and cols_length: "columns cols = length (bindVals x)"
    and phs_columns: "columns phs = length (bindVals x)"
    and row_roundtrip: "wf x \<Longrightarrow> driver_ok pt pd drv \<Longrightarrow>
      fromRow pt pd (stored_row drv (getId x) (bindVals x)) = x"
begin

lemma insert_balanced: "balanced (insertQuery table cols phs (bindVals x))"
  using no_marks phs_length [of x]
  by (simp add: insertQuery_def foldl_q_bind balanced_def placeholders_def q_args_def mkQuery_def
      qArgs_insert count_list_append)

lemma replace_balanced: "balanced (replaceQuery table cols phs (getId x) (bindVals x))"
  using no_marks phs_length [of x]
  by (simp add: replaceQuery_def foldl_q_bind balanced_def placeholders_def q_args_def mkQuery_def
      qArgs_replace count_list_append q_bind_def)

lemma write_read:
  assumes "wf x" "driver_ok pt pd drv"
  shows "balanced (replaceQuery table cols phs (getId x) (bindVals x))
    \<and> columns phs = columns cols
    \<and> fromRow pt pd (stored_row drv (getId x)
        (tl (bindValues (replaceQuery table cols phs (getId x) (bindVals x))))) = x"
proof -
  have "bindValues (replaceQuery table cols phs (getId x) (bindVals x)) = VId (getId x) # bindVals x"
    by (simp add: replaceQuery_def foldl_q_bind q_bind_def q_args_def mkQuery_def)
  with assms show ?thesis
    using replace_balanced [of x] row_roundtrip [OF assms] cols_length [of x] phs_columns [of x] by simp
qed

end

end
