(* ===== verification/Sk_LaunchMethod.thy ===== *)
theory Sk_LaunchMethod
  imports Sk_Entity
begin

text \<open>
  Launch methods, \<^verbatim>\<open>src/src/model/LaunchMethod.cpp\<close>: the object, its types and their database
  names, the SQL interface, the table display and the parser of the old configuration file lines.
  Translated texts are their source text.
\<close>

datatype lm_type = typeWinch | typeAirtow | typeSelf | typeOther

record launchMethod =
  lm_id :: dbId
  lm_comments :: qstring
  lm_name :: qstring
  lm_shortName :: qstring
  lm_logString :: qstring
  lm_keyboardShortcut :: qstring
  lm_type :: lm_type
  lm_towplaneRegistration :: qstring
  lm_personRequired :: bool

definition lm_new :: "dbId \<Rightarrow> launchMethod" where
  "lm_new i = \<lparr>lm_id = i, lm_comments = [], lm_name = ''---'', lm_shortName = ''-'',
     lm_logString = ''-'', lm_keyboardShortcut = [], lm_type = typeOther,
     lm_towplaneRegistration = [], lm_personRequired = True\<rparr>"

definition lm_isAirtow :: "launchMethod \<Rightarrow> bool" where
  "lm_isAirtow l \<longleftrightarrow> lm_type l = typeAirtow"

definition lm_towplaneKnown :: "launchMethod \<Rightarrow> bool" where
  "lm_towplaneKnown l \<longleftrightarrow> lm_towplaneRegistration l \<noteq> []"

definition lm_nameWithShortcut :: "launchMethod \<Rightarrow> qstring" where
  "lm_nameWithShortcut l =
     (if lm_keyboardShortcut l = [] then '' '' @ lm_name l
      else lm_keyboardShortcut l @ '' - '' @ lm_name l)"

fun lm_typeString :: "lm_type \<Rightarrow> qstring" where
  "lm_typeString typeWinch = ''winch launch''"
| "lm_typeString typeAirtow = ''airtow''"
| "lm_typeString typeSelf = ''self launch''"
| "lm_typeString typeOther = ''other''"

definition lm_listTypes :: "lm_type list" where
  "lm_listTypes = [typeWinch, typeAirtow, typeSelf, typeOther]"

definition lm_toString :: "launchMethod \<Rightarrow> qstring" where
  "lm_toString l =
     (if lm_personRequired l
      then qArg (qArg (qArg (qArg ''id=%1, description=%2 (%3), type=%4, person required''
             (decimal (uint (lm_id l)))) (lm_name l)) (lm_shortName l)) (lm_typeString (lm_type l))
      else qArg (qArg (qArg (qArg ''id=%1, description=%2 (%3), type=%4, person not required''
             (decimal (uint (lm_id l)))) (lm_name l)) (lm_shortName l)) (lm_typeString (lm_type l)))"

section \<open>The parser of configuration lines\<close>

fun splitAt :: "char \<Rightarrow> qstring \<Rightarrow> qstring list" where
  "splitAt sep [] = [[]]"
| "splitAt sep (c # cs) =
     (if c = sep then [] # splitAt sep cs
      else (case splitAt sep cs of [] \<Rightarrow> [[c]] | w # ws \<Rightarrow> (c # w) # ws))"

lemma length_splitAt: "length (splitAt sep s) = Suc (count_list s sep)"
  by (induction s) (auto split: list.split)

text \<open>An access beyond the end of the list is a failed assertion: \<open>None\<close>. The guards are those
  of the source, which compare the index with the number of parts by \<open>\<ge>\<close>.\<close>

definition partAt :: "qstring list \<Rightarrow> nat \<Rightarrow> qstring option" where
  "partAt ws i = (if i < length ws then Some (ws ! i) else None)"

definition guarded :: "qstring list \<Rightarrow> nat \<Rightarrow> (qstring \<Rightarrow> launchMethod \<Rightarrow> launchMethod) \<Rightarrow>
    launchMethod \<Rightarrow> launchMethod option" where
  "guarded ws i f l =
     (if length ws \<ge> i then map_option (\<lambda>w. f w l) (partAt ws i) else Some l)"

fun lm_typeFromConfig :: "qstring \<Rightarrow> lm_type" where
  "lm_typeFromConfig w =
     (if toLower w = ''winch'' then typeWinch
      else if toLower w = ''airtow'' then typeAirtow
      else if toLower w = ''self'' then typeSelf
      else typeOther)"

definition lm_parseConfigLine :: "qstring \<Rightarrow> launchMethod option" where
  "lm_parseConfigLine line =
     (let ws = map simplified (splitAt (CHR '','') line) in
      Option.bind (guarded ws 0 (\<lambda>w l. l\<lparr>lm_id := toDbId (strToLongLong w)\<rparr>) (lm_new 0)) (\<lambda>l.
      Option.bind (guarded ws 1 (\<lambda>w l. l\<lparr>lm_type := lm_typeFromConfig w\<rparr>) l) (\<lambda>l.
      Option.bind (guarded ws 2 (\<lambda>w l. l\<lparr>lm_towplaneRegistration := w\<rparr>) l) (\<lambda>l.
      Option.bind (guarded ws 3 (\<lambda>w l. l\<lparr>lm_name := w\<rparr>) l) (\<lambda>l.
      Option.bind (guarded ws 4 (\<lambda>w l. l\<lparr>lm_shortName := w\<rparr>) l) (\<lambda>l.
      Option.bind (guarded ws 5 (\<lambda>w l. l\<lparr>lm_keyboardShortcut := w\<rparr>) l) (\<lambda>l.
      Option.bind (guarded ws 6 (\<lambda>w l. l\<lparr>lm_logString := w\<rparr>) l) (\<lambda>l.
      guarded ws 7 (\<lambda>w l. if toLower w = ''false'' then l\<lparr>lm_personRequired := False\<rparr> else l) l))))))))"

lemma guarded_None_iff: "guarded ws i f l = None \<longleftrightarrow> length ws = i"
  by (auto simp: guarded_def partAt_def)

lemma guarded_beyond: "length ws < i \<Longrightarrow> guarded ws i f l = Some l"
  by (simp add: guarded_def)

text \<open>Parsing a configuration line fails with an out of range access exactly when the line has
  fewer than eight parts: the guards admit the index that equals the number of parts.\<close>

theorem lm_parseConfigLine_crashes:
  "lm_parseConfigLine line = None \<longleftrightarrow> count_list line (CHR '','') < 7"
proof -
  define n where "n = length (map simplified (splitAt (CHR '','') line))"
  have n: "n = Suc (count_list line (CHR '',''))" by (simp add: n_def length_splitAt)
  have "lm_parseConfigLine line = None \<longleftrightarrow> n \<in> {0, 1, 2, 3, 4, 5, 6, 7}"
    unfolding lm_parseConfigLine_def Let_def Option.bind_eq_None_conv guarded_None_iff n_def
    by (auto simp: guarded_None_iff dest: sym)
  also have "\<dots> \<longleftrightarrow> count_list line (CHR '','') < 7" using n by auto
  finally show ?thesis .
qed

section \<open>The table display\<close>

definition lm_columnCount :: nat where
  "lm_columnCount = 9"

fun lm_displayHeaderData :: "nat \<Rightarrow> qvariant" where
  "lm_displayHeaderData column =
     (if column = 0 then VString ''Name''
      else if column = 1 then VString ''Short name''
      else if column = 2 then VString ''Logbook label''
      else if column = 3 then VString ''Keyboard shortcut''
      else if column = 4 then VString ''Type''
      else if column = 5 then VString ''Towplane''
      else if column = 6 then VString ''Person required''
      else if column = 7 then VString ''Comments''
      else if column = 8 then VString ''ID''
      else VInvalid)"

fun lm_displayData :: "launchMethod \<Rightarrow> nat \<Rightarrow> qvariant" where
  "lm_displayData l column =
     (if column = 0 then VString (lm_name l)
      else if column = 1 then VString (lm_shortName l)
      else if column = 2 then VString (lm_logString l)
      else if column = 3 then VString (lm_keyboardShortcut l)
      else if column = 4 then VString (firstToUpper (lm_typeString (lm_type l)))
      else if column = 5 then VString (if lm_isAirtow l then lm_towplaneRegistration l else ''-'')
      else if column = 6 then VString (if lm_personRequired l then ''No'' else ''No'')
      else if column = 7 then VString (lm_comments l)
      else if column = 8 then VId (lm_id l)
      else VInvalid)"

text \<open>The column \<open>Person required\<close> does not depend on the value: it shows \<open>No\<close> for a launch
  method that requires a person as well.\<close>

theorem lm_personRequired_column:
  "lm_displayData (l\<lparr>lm_personRequired := b\<rparr>) 6 = VString ''No''"
  by simp

section \<open>The SQL interface\<close>

definition lm_dbTableName :: qstring where
  "lm_dbTableName = ''launch_methods''"

definition lm_selectColumnList :: qstring where
  "lm_selectColumnList = ''id,name,short_name,log_string,keyboard_shortcut,type,towplane_registration,person_required,comments''"

definition lm_insertColumnList :: qstring where
  "lm_insertColumnList = ''name,short_name,log_string,keyboard_shortcut,type,towplane_registration,person_required,comments''"

definition lm_insertPlaceholderList :: qstring where
  "lm_insertPlaceholderList = ''?,?,?,?,?,?,?,?''"

fun lm_typeToDb :: "lm_type \<Rightarrow> qstring" where
  "lm_typeToDb typeWinch = ''winch''"
| "lm_typeToDb typeAirtow = ''airtow''"
| "lm_typeToDb typeSelf = ''self''"
| "lm_typeToDb typeOther = ''other''"

definition lm_typeFromDb :: "qstring \<Rightarrow> lm_type" where
  "lm_typeFromDb s =
     (if s = ''winch'' then typeWinch else if s = ''airtow'' then typeAirtow
      else if s = ''self'' then typeSelf else if s = ''other'' then typeOther
      else typeOther)"

definition lm_createFromResult ::
    "(qstring \<Rightarrow> qdatetime) \<Rightarrow> (qstring \<Rightarrow> qdate) \<Rightarrow> result_row \<Rightarrow> launchMethod" where
  "lm_createFromResult pt pd r =
     (lm_new (toDbId (vToLongLong (r 0))))
       \<lparr>lm_name := vToString (r 1), lm_shortName := vToString (r 2),
        lm_logString := vToString (r 3), lm_keyboardShortcut := vToString (r 4),
        lm_type := lm_typeFromDb (vToString (r 5)),
        lm_towplaneRegistration := vToString (r 6),
        lm_personRequired := vToBool (r 7), lm_comments := vToString (r 8)\<rparr>"

definition lm_createFromDataMap :: "(qstring \<rightharpoonup> qstring) \<Rightarrow> launchMethod" where
  "lm_createFromDataMap m =
     (lm_new (toDbId (strToLongLong (mapAt m ''id''))))
       \<lparr>lm_name := mapAt m ''name'', lm_shortName := mapAt m ''short_name'',
        lm_logString := mapAt m ''log_string'', lm_keyboardShortcut := mapAt m ''keyboard_shortcut'',
        lm_type := lm_typeFromDb (mapAt m ''type''),
        lm_towplaneRegistration := mapAt m ''towplane_registration'',
        lm_personRequired := (strToInt (mapAt m ''person_required'') \<noteq> 0),
        lm_comments := mapAt m ''comments''\<rparr>"

definition lm_bindValues :: "launchMethod \<Rightarrow> qvariant list" where
  "lm_bindValues l =
     [VString (lm_name l), VString (lm_shortName l), VString (lm_logString l),
      VString (lm_keyboardShortcut l), VString (lm_typeToDb (lm_type l)),
      VString (lm_towplaneRegistration l), VBool (lm_personRequired l), VString (lm_comments l)]"

lemma lm_typeFromDb_toDb [simp]: "lm_typeFromDb (lm_typeToDb t) = t"
  by (cases t) (simp_all add: lm_typeFromDb_def)

interpretation lm: stored_entity lm_id lm_createFromResult lm_bindValues lm_dbTableName
  lm_insertColumnList lm_insertPlaceholderList "\<lambda>_. True"
proof
  show "lm_createFromResult pt pd (stored_row drv (lm_id x) (lm_bindValues x)) = x"
    if "driver_ok pt pd drv" for x pt pd drv
    by (simp add: lm_createFromResult_def lm_bindValues_def lm_new_def driver_okD [OF that]
        eval_nat_numeral)
qed (simp_all add: lm_dbTableName_def lm_insertColumnList_def lm_insertPlaceholderList_def
      lm_bindValues_def columns_def)

end
