(* ===== verification/Sk_Plane.thy ===== *)
theory Sk_Plane
  imports Sk_Entity
begin

text \<open>
  Planes, \<^verbatim>\<open>src/src/model/Plane.cpp\<close>, and the FlarmNet records that planes are created from,
  \<^verbatim>\<open>src/src/flarm/flarmNet/FlarmNetRecord.cpp\<close>.
\<close>

section \<open>Planes\<close>

datatype category =
    categoryNone | categoryAirplane | categoryGlider | categoryMotorglider
  | categoryUltralight | categoryHelicopter | categoryOther

record plane =
  pl_id :: dbId
  pl_comments :: qstring
  pl_registration :: qstring
  pl_club :: qstring
  pl_numSeats :: int
  pl_type :: qstring
  pl_category :: category
  pl_callsign :: qstring
  pl_flarmId :: qstring

definition pl_new :: "dbId \<Rightarrow> plane" where
  "pl_new i = \<lparr>pl_id = i, pl_comments = [], pl_registration = [], pl_club = [], pl_numSeats = 0,
     pl_type = [], pl_category = categoryNone, pl_callsign = [], pl_flarmId = []\<rparr>"

definition pl_selfLaunchOnly :: "plane \<Rightarrow> bool" where
  "pl_selfLaunchOnly p \<longleftrightarrow> pl_category p = categoryAirplane \<or> pl_category p = categoryUltralight"

definition pl_fullRegistration :: "qstring \<Rightarrow> plane \<Rightarrow> qstring" where
  "pl_fullRegistration fullTemplate p =
     (if isBlank (pl_callsign p) then pl_registration p
      else if isBlank (pl_registration p) then pl_callsign p
      else qArgs fullTemplate [pl_registration p, pl_callsign p])"

definition pl_registrationWithType :: "plane \<Rightarrow> qstring" where
  "pl_registrationWithType p =
     (if isBlank (pl_type p) then pl_registration p
      else if isBlank (pl_registration p) then pl_type p
      else qArgs ''%1 (%2)'' [pl_registration p, pl_type p])"

definition pl_toNiceString :: "plane \<Rightarrow> qstring" where
  "pl_toNiceString p =
     pl_registration p
     @ (if pl_callsign p \<noteq> [] then qArg '' (%1)'' (pl_callsign p) else [])
     @ (if pl_type p \<noteq> [] then qArg '', %1'' (pl_type p) else [])"

definition pl_clubAwareLessThan :: "plane \<Rightarrow> plane \<Rightarrow> bool" where
  "pl_clubAwareLessThan p1 p2 =
     (let club1 = simplifyClubName (pl_club p1); club2 = simplifyClubName (pl_club p2) in
      if club1 < club2 then True
      else if club1 > club2 then False
      else if pl_registration p1 < pl_registration p2 then True
      else if pl_registration p1 > pl_registration p2 then False
      else False)"

subsection \<open>Categories\<close>

definition pl_listCategories :: "bool \<Rightarrow> category list" where
  "pl_listCategories includeInvalid =
     [categoryAirplane, categoryGlider, categoryMotorglider, categoryUltralight,
      categoryHelicopter, categoryOther] @ (if includeInvalid then [categoryNone] else [])"

fun pl_categoryText :: "category \<Rightarrow> qstring" where
  "pl_categoryText categoryAirplane = ''airplane''"
| "pl_categoryText categoryGlider = ''glider''"
| "pl_categoryText categoryMotorglider = ''motorglider''"
| "pl_categoryText categoryUltralight = ''ultralight''"
| "pl_categoryText categoryHelicopter = ''helicopter''"
| "pl_categoryText categoryOther = ''other''"
| "pl_categoryText categoryNone = ''none''"

definition pl_categoryFromRegistration :: "qstring \<Rightarrow> category" where
  "pl_categoryFromRegistration r =
     (if length r < 3 then categoryNone
      else if r ! 0 \<noteq> CHR ''D'' then categoryNone
      else if r ! 1 \<noteq> CHR ''-'' then categoryNone
      else (let kbu = toLowerChar (r ! 2) in
        if kbu \<in> set ''0123456789n'' then categoryGlider
        else if kbu \<in> set ''efgicba'' then categoryAirplane
        else if kbu = CHR ''m'' then categoryUltralight
        else if kbu = CHR ''k'' then categoryMotorglider
        else if kbu = CHR ''h'' then categoryHelicopter
        else categoryOther))"

fun pl_categoryMaxSeats :: "category \<Rightarrow> int" where
  "pl_categoryMaxSeats categoryNone = -1"
| "pl_categoryMaxSeats categoryAirplane = -1"
| "pl_categoryMaxSeats categoryGlider = 2"
| "pl_categoryMaxSeats categoryMotorglider = 2"
| "pl_categoryMaxSeats categoryUltralight = 2"
| "pl_categoryMaxSeats categoryHelicopter = -1"
| "pl_categoryMaxSeats categoryOther = -1"

definition pl_toString :: "plane \<Rightarrow> qstring" where
  "pl_toString p = foldl qArg
     ''id=%1, registration=%2, callsign=%3, type=%4, club=%5, category=%6, seats=%7, Flarm ID=%8''
     [decimal (uint (pl_id p)), pl_registration p, pl_callsign p, pl_type p, pl_club p,
      pl_categoryText (pl_category p), decimal (pl_numSeats p), pl_flarmId p]"

subsection \<open>The table display\<close>

definition pl_columnCount :: nat where
  "pl_columnCount = 9"

fun pl_displayHeaderData :: "nat \<Rightarrow> qvariant" where
  "pl_displayHeaderData column =
     (if column = 0 then VString ''Registration''
      else if column = 1 then VString ''Callsign''
      else if column = 2 then VString ''Model''
      else if column = 3 then VString ''Category''
      else if column = 4 then VString ''Seats''
      else if column = 5 then VString ''Club''
      else if column = 6 then VString ''Flarm ID''
      else if column = 7 then VString ''Comments''
      else if column = 8 then VString ''ID''
      else VInvalid)"

fun pl_displayData :: "plane \<Rightarrow> nat \<Rightarrow> qvariant" where
  "pl_displayData p column =
     (if column = 0 then VString (pl_registration p)
      else if column = 1 then VString (pl_callsign p)
      else if column = 2 then VString (pl_type p)
      else if column = 3 then VString (firstToUpper (pl_categoryText (pl_category p)))
      else if column = 4 then (if pl_numSeats p \<ge> 0 then VInt (pl_numSeats p) else VString ''?'')
      else if column = 5 then VString (pl_club p)
      else if column = 6 then VString (pl_flarmId p)
      else if column = 7 then VString (pl_comments p)
      else if column = 8 then VId (pl_id p)
      else VInvalid)"

subsection \<open>The SQL interface\<close>

definition pl_dbTableName :: qstring where
  "pl_dbTableName = ''planes''"

definition pl_selectColumnList :: qstring where
  "pl_selectColumnList = ''id,registration,club,num_seats,type,category,callsign,flarm_id,comments''"

definition pl_insertColumnList :: qstring where
  "pl_insertColumnList = ''registration,club,num_seats,type,category,callsign,flarm_id,comments''"

definition pl_insertPlaceholderList :: qstring where
  "pl_insertPlaceholderList = ''?,?,?,?,?,?,?,?''"

fun pl_categoryToDb :: "category \<Rightarrow> qstring" where
  "pl_categoryToDb categoryNone = ''?''"
| "pl_categoryToDb categoryAirplane = ''airplane''"
| "pl_categoryToDb categoryGlider = ''glider''"
| "pl_categoryToDb categoryMotorglider = ''motorglider''"
| "pl_categoryToDb categoryUltralight = ''ultralight''"
| "pl_categoryToDb categoryHelicopter = ''helicopter''"
| "pl_categoryToDb categoryOther = ''other''"

definition pl_categoryFromDb :: "qstring \<Rightarrow> category" where
  "pl_categoryFromDb s =
     (if s = ''airplane'' then categoryAirplane
      else if s = ''glider'' then categoryGlider
      else if s = ''motorglider'' then categoryMotorglider
      else if s = ''ultralight'' then categoryUltralight
      else if s = ''helicopter'' then categoryHelicopter
      else if s = ''other'' then categoryOther
      else categoryNone)"

definition pl_createFromResult ::
    "(qstring \<Rightarrow> qdatetime) \<Rightarrow> (qstring \<Rightarrow> qdate) \<Rightarrow> result_row \<Rightarrow> plane" where
  "pl_createFromResult pt pd r =
     (pl_new (toDbId (vToLongLong (r 0))))
       \<lparr>pl_registration := vToString (r 1), pl_club := vToString (r 2),
        pl_numSeats := vToInt (r 3), pl_type := vToString (r 4),
        pl_category := pl_categoryFromDb (vToString (r 5)), pl_callsign := vToString (r 6),
        pl_flarmId := vToString (r 7), pl_comments := vToString (r 8)\<rparr>"

definition pl_createFromDataMap :: "(qstring \<rightharpoonup> qstring) \<Rightarrow> plane" where
  "pl_createFromDataMap m =
     (pl_new (toDbId (strToLongLong (mapAt m ''id''))))
       \<lparr>pl_registration := mapAt m ''registration'', pl_club := mapAt m ''club'',
        pl_numSeats := strToInt (mapAt m ''num_seats''), pl_type := mapAt m ''type'',
        pl_category := pl_categoryFromDb (mapAt m ''category''),
        pl_callsign := mapAt m ''callsign'', pl_flarmId := mapAt m ''flarm_id'',
        pl_comments := mapAt m ''comments''\<rparr>"

definition pl_bindValues :: "plane \<Rightarrow> qvariant list" where
  "pl_bindValues p =
     [VString (pl_registration p), VString (pl_club p), VInt (pl_numSeats p), VString (pl_type p),
      VString (pl_categoryToDb (pl_category p)), VString (pl_callsign p), VString (pl_flarmId p),
      VString (pl_comments p)]"

definition fits_int :: "int \<Rightarrow> bool" where
  "fits_int n \<longleftrightarrow> - (2 ^ 31) \<le> n \<and> n < 2 ^ 31"

lemma pl_categoryFromDb_toDb [simp]: "pl_categoryFromDb (pl_categoryToDb c) = c"
  by (cases c) (simp_all add: pl_categoryFromDb_def)

interpretation pl: stored_entity pl_id pl_createFromResult pl_bindValues pl_dbTableName
  pl_insertColumnList pl_insertPlaceholderList "\<lambda>p. fits_int (pl_numSeats p)"
proof
  show "pl_createFromResult pt pd (stored_row drv (pl_id x) (pl_bindValues x)) = x"
    if "fits_int (pl_numSeats x)" "driver_ok pt pd drv" for x pt pd drv
    using that(1) by (simp add: pl_createFromResult_def pl_bindValues_def pl_new_def
        driver_okD [OF that(2)] fits_int_def eval_nat_numeral)
qed (simp_all add: pl_dbTableName_def pl_insertColumnList_def pl_insertPlaceholderList_def
      pl_bindValues_def columns_def)

text \<open>The club-aware order is a strict weak order, as \<open>std::sort\<close> needs.\<close>

lemma pl_clubAwareLessThan_eq:
  "pl_clubAwareLessThan p q \<longleftrightarrow>
     simplifyClubName (pl_club p) < simplifyClubName (pl_club q)
     \<or> simplifyClubName (pl_club p) = simplifyClubName (pl_club q)
       \<and> pl_registration p < pl_registration q"
  by (auto simp: pl_clubAwareLessThan_def Let_def)

text \<open>The order that sorts the planes of the logbooks is irreflexive and transitive, and being
  incomparable in it is transitive too, so that the precondition of \<open>std::sort\<close> holds; planes
  are incomparable exactly when their simplified club and their registration agree.\<close>

theorem pl_clubAwareLessThan_strict_weak:
  "\<not> pl_clubAwareLessThan p p
   \<and> (pl_clubAwareLessThan p q \<and> pl_clubAwareLessThan q r \<longrightarrow> pl_clubAwareLessThan p r)
   \<and> ((\<not> pl_clubAwareLessThan p q \<and> \<not> pl_clubAwareLessThan q p) \<longleftrightarrow>
        (simplifyClubName (pl_club p), pl_registration p)
          = (simplifyClubName (pl_club q), pl_registration q))"
  by (auto simp: pl_clubAwareLessThan_eq)

theorem pl_clubAwareLessThan_strict_weak_witness:
  "pl_clubAwareLessThan ((pl_new 1)\<lparr>pl_club := ''a''\<rparr>) ((pl_new 3)\<lparr>pl_club := ''c''\<rparr>)"
proof -
  have "pl_clubAwareLessThan ((pl_new 1)\<lparr>pl_club := ''a''\<rparr>) ((pl_new 2)\<lparr>pl_club := '' B''\<rparr>)"
    and "pl_clubAwareLessThan ((pl_new 2)\<lparr>pl_club := '' B''\<rparr>) ((pl_new 3)\<lparr>pl_club := ''c''\<rparr>)"
    by (simp_all add: pl_clubAwareLessThan_eq pl_new_def simplifyClubName_def simplified_def
        trimmed_def isSpaceChar_def toLowerChar_def Let_def less_char_def)
  then show ?thesis
    using pl_clubAwareLessThan_strict_weak [of "(pl_new 1)\<lparr>pl_club := ''a''\<rparr>"
        "(pl_new 2)\<lparr>pl_club := '' B''\<rparr>" "(pl_new 3)\<lparr>pl_club := ''c''\<rparr>"] by blast
qed

section \<open>FlarmNet records\<close>

record flarmNetRecord =
  fn_id :: dbId
  fn_flarmId :: qstring
  fn_registration :: qstring
  fn_owner :: qstring
  fn_airfield :: qstring
  fn_type :: qstring
  fn_callsign :: qstring
  fn_frequency :: qstring

definition fn_new :: "dbId \<Rightarrow> flarmNetRecord" where
  "fn_new i = \<lparr>fn_id = i, fn_flarmId = [], fn_registration = [], fn_owner = [], fn_airfield = [],
     fn_type = [], fn_callsign = [], fn_frequency = []\<rparr>"

definition fn_toString :: "flarmNetRecord \<Rightarrow> qstring" where
  "fn_toString r = foldl qArg
     ''id=%1, flarm_id=%2, registration=%3, callsign=%4, owner=%5, airfield=%6, type=%7, frequency=%8''
     [decimal (uint (fn_id r)), fn_flarmId r, fn_registration r, fn_callsign r, fn_owner r,
      fn_airfield r, fn_type r, fn_frequency r]"

definition fn_fullRegistration :: "qstring \<Rightarrow> flarmNetRecord \<Rightarrow> qstring" where
  "fn_fullRegistration fullTemplate r =
     (if isBlank (fn_callsign r) then fn_registration r
      else if isBlank (fn_registration r) then fn_callsign r
      else qArgs fullTemplate [fn_registration r, fn_callsign r])"

definition fn_dbTableName :: qstring where
  "fn_dbTableName = ''flarmnet''"

definition fn_selectColumnList :: qstring where
  "fn_selectColumnList = ''id,flarm_id,registration,callsign,owner,airfield,type,frequency''"

definition fn_insertColumnList :: qstring where
  "fn_insertColumnList = ''flarm_id,registration,callsign,owner,airfield,type,frequency''"

definition fn_insertPlaceholderList :: qstring where
  "fn_insertPlaceholderList = ''?,?,?,?,?,?,?''"

definition fn_createFromResult ::
    "(qstring \<Rightarrow> qdatetime) \<Rightarrow> (qstring \<Rightarrow> qdate) \<Rightarrow> result_row \<Rightarrow> flarmNetRecord" where
  "fn_createFromResult pt pd r =
     (fn_new (toDbId (vToLongLong (r 0))))
       \<lparr>fn_flarmId := vToString (r 1), fn_registration := vToString (r 2),
        fn_callsign := vToString (r 3), fn_owner := vToString (r 4),
        fn_airfield := vToString (r 5), fn_type := vToString (r 6), fn_frequency := vToString (r 7)\<rparr>"

definition fn_bindValues :: "flarmNetRecord \<Rightarrow> qvariant list" where
  "fn_bindValues r = map VString [fn_flarmId r, fn_registration r, fn_callsign r, fn_owner r,
     fn_airfield r, fn_type r, fn_frequency r]"

definition fn_toPlane :: "flarmNetRecord \<Rightarrow> bool \<Rightarrow> plane" where
  "fn_toPlane r guessCategory =
     (let p = (pl_new 0)\<lparr>pl_registration := fn_registration r, pl_club := fn_owner r,
        pl_type := fn_type r, pl_callsign := fn_callsign r, pl_flarmId := fn_flarmId r\<rparr>
      in if guessCategory
         then p\<lparr>pl_category := pl_categoryFromRegistration (fn_registration r)\<rparr> else p)"

interpretation fn: stored_entity fn_id fn_createFromResult fn_bindValues fn_dbTableName
  fn_insertColumnList fn_insertPlaceholderList "\<lambda>_. True"
proof
  show "fn_createFromResult pt pd (stored_row drv (fn_id x) (fn_bindValues x)) = x"
    if "driver_ok pt pd drv" for x pt pd drv
    by (simp add: fn_createFromResult_def fn_bindValues_def fn_new_def driver_okD [OF that]
        eval_nat_numeral)
qed (simp_all add: fn_dbTableName_def fn_insertColumnList_def fn_insertPlaceholderList_def
      fn_bindValues_def columns_def)

end
