(* ===== verification/Sk_Person.thy ===== *)
theory Sk_Person
  imports Sk_Plane
begin

text \<open>People, \<^verbatim>\<open>src/src/model/Person.cpp\<close>.\<close>

record person =
  pe_id :: dbId
  pe_comments :: qstring
  pe_lastName :: qstring
  pe_firstName :: qstring
  pe_nickname :: qstring
  pe_club :: qstring
  pe_clubId :: qstring
  pe_vfid :: int
  pe_checkMedical :: bool
  pe_medicalValidity :: qdate

text \<open>The constructor leaves \<open>vfid\<close> uninitialised: \<open>mem\<close> is what the memory held.\<close>

definition pe_new :: "int \<Rightarrow> dbId \<Rightarrow> person" where
  "pe_new mem i = \<lparr>pe_id = i, pe_comments = [], pe_lastName = [], pe_firstName = [],
     pe_nickname = [], pe_club = [], pe_clubId = [], pe_vfid = mem, pe_checkMedical = False,
     pe_medicalValidity = None\<rparr>"

definition pe_less :: "person \<Rightarrow> person \<Rightarrow> bool" where
  "pe_less p o' =
     (if pe_lastName p < pe_lastName o' then True
      else if pe_lastName p > pe_lastName o' then False
      else if pe_firstName p < pe_firstName o' then True
      else if pe_firstName p > pe_firstName o' then False
      else False)"

section \<open>Names\<close>

definition orUnknown :: "qstring \<Rightarrow> qstring" where
  "orUnknown s = (if s = [] then ''?'' else s)"

definition pe_fullName :: "person \<Rightarrow> qstring" where
  "pe_fullName p = qArg (qArg ''%1 %2'' (orUnknown (pe_lastName p))) (orUnknown (pe_firstName p))"

fun splitSkipEmpty :: "char \<Rightarrow> qstring \<Rightarrow> qstring \<Rightarrow> qstring list" where
  "splitSkipEmpty sep acc [] = (if acc = [] then [] else [acc])"
| "splitSkipEmpty sep acc (c # cs) =
     (if c = sep then (if acc = [] then [] else [acc]) @ splitSkipEmpty sep [] cs
      else splitSkipEmpty sep (acc @ [c]) cs)"

definition pe_nicknamesAsList :: "person \<Rightarrow> qstring list" where
  "pe_nicknamesAsList p = map trimmed (splitSkipEmpty (CHR '','') [] (pe_nickname p))"

definition pe_fullNameWithNick :: "person \<Rightarrow> qstring" where
  "pe_fullNameWithNick p =
     (let l = orUnknown (pe_lastName p); f = orUnknown (pe_firstName p) in
      case pe_nicknamesAsList p of
        n # _ \<Rightarrow> qArgs (''%1 '' @ [CHR 0x22] @ ''%3'' @ [CHR 0x22] @ '' %2'') [f, l, n]
      | [] \<Rightarrow> qArgs ''%1 %2'' [f, l])"

definition pe_formalName :: "person \<Rightarrow> qstring" where
  "pe_formalName p = orUnknown (pe_lastName p) @ '', '' @ orUnknown (pe_firstName p)"

definition pe_formalNameWithClub :: "person \<Rightarrow> qstring" where
  "pe_formalNameWithClub p =
     (if isNone (pe_club p) then pe_formalName p
      else pe_formalName p @ '' ('' @ pe_club p @ '')'')"

definition pe_toString :: "(qdate \<Rightarrow> qstring) \<Rightarrow> person \<Rightarrow> qstring" where
  "pe_toString dateText p = foldl qArg
     ''id=%1, lastName=%2, firstName=%3, club=%4, clubId=%5, vfid=%6, medicalValidity=%7, checkMedical=%8''
     [decimal (uint (pe_id p)), pe_lastName p, pe_firstName p, pe_club p, pe_clubId p,
      decimal (pe_vfid p), dateText (pe_medicalValidity p), decimal (if pe_checkMedical p then 1 else 0)]"

section \<open>The table display\<close>

definition pe_columnCount :: nat where
  "pe_columnCount = 9"

fun pe_displayHeaderData :: "nat \<Rightarrow> qvariant" where
  "pe_displayHeaderData column =
     (if column = 0 then VString ''Last name''
      else if column = 1 then VString ''First name''
      else if column = 2 then VString ''Nicknames''
      else if column = 3 then VString ''Club''
      else if column = 4 then VString ''Medical until''
      else if column = 5 then VString ''Check medical''
      else if column = 6 then VString ''Comments''
      else if column = 7 then VString ''Club ID''
      else if column = 8 then VString ''Vereinsflieger ID''
      else if column = 9 then VString ''ID''
      else VInvalid)"

text \<open>\<open>fmt\<close> formats a date in the default numeric format.\<close>

fun pe_displayData :: "(int \<Rightarrow> qstring) \<Rightarrow> bool \<Rightarrow> person \<Rightarrow> nat \<Rightarrow> qvariant" where
  "pe_displayData fmt displayMedicalData p column =
     (if column = 0 then VString (pe_lastName p)
      else if column = 1 then VString (pe_firstName p)
      else if column = 2 then VString (pe_nickname p)
      else if column = 3 then VString (pe_club p)
      else if column = 4 then
        (if \<not> displayMedicalData then VString ''not displayed''
         else case pe_medicalValidity p of None \<Rightarrow> VString ''unknown'' | Some d \<Rightarrow> VString (fmt d))
      else if column = 5 then (if pe_checkMedical p then VString ''Yes'' else VString ''No'')
      else if column = 6 then VString (pe_comments p)
      else if column = 7 then VString (pe_clubId p)
      else if column = 8 then VString (if pe_vfid p > 0 then decimal (pe_vfid p) else [])
      else if column = 9 then VId (pe_id p)
      else VInvalid)"

definition pe_medicalColumn :: nat where
  "pe_medicalColumn = 3"

text \<open>The column that \<open>medicalColumn ()\<close> names, and that is refreshed when the display of
  medical data is switched, is the club column; the column whose content the switch changes is
  the next one, and no other column depends on the switch.\<close>

theorem pe_medicalColumn_wrong:
  "pe_displayHeaderData pe_medicalColumn = VString ''Club''
   \<and> (pe_displayData fmt True p column \<noteq> pe_displayData fmt False p column
        \<longrightarrow> column = Suc pe_medicalColumn)
   \<and> pe_displayData fmt False p (Suc pe_medicalColumn) \<noteq>
       pe_displayData fmt True (p\<lparr>pe_medicalValidity := None\<rparr>) (Suc pe_medicalColumn)"
  by (simp add: pe_medicalColumn_def)

theorem pe_medicalColumn_wrong_witness:
  "pe_displayData (\<lambda>_. ''1/1/2026'') True (pe_new 0 1) 4
     \<noteq> pe_displayData (\<lambda>_. ''1/1/2026'') False (pe_new 0 1) 4
   \<and> 4 = Suc pe_medicalColumn"
proof
  show "pe_displayData (\<lambda>_. ''1/1/2026'') True (pe_new 0 1) 4
     \<noteq> pe_displayData (\<lambda>_. ''1/1/2026'') False (pe_new 0 1) 4"
    by (simp add: pe_new_def)
  then show "4 = Suc pe_medicalColumn"
    using pe_medicalColumn_wrong by blast
qed

section \<open>The SQL interface\<close>

definition pe_dbTableName :: qstring where
  "pe_dbTableName = ''people''"

definition pe_selectColumnList :: qstring where
  "pe_selectColumnList = ''id,last_name,first_name,nickname,club,club_id,vfid,comments,CAST(medical_validity AS CHAR),check_medical_validity''"

definition pe_insertColumnList :: qstring where
  "pe_insertColumnList = ''last_name,first_name,nickname,club,club_id,vfid,comments,medical_validity,check_medical_validity''"

definition pe_insertPlaceholderList :: qstring where
  "pe_insertPlaceholderList = ''?,?,?,?,?,?,?,?,?''"

definition pe_createFromResult ::
    "(qstring \<Rightarrow> qdatetime) \<Rightarrow> (qstring \<Rightarrow> qdate) \<Rightarrow> result_row \<Rightarrow> person" where
  "pe_createFromResult pt pd r =
     (pe_new 0 (toDbId (vToLongLong (r 0))))
       \<lparr>pe_lastName := vToString (r 1), pe_firstName := vToString (r 2),
        pe_nickname := vToString (r 3), pe_club := vToString (r 4), pe_clubId := vToString (r 5),
        pe_vfid := vToULongLong (r 6), pe_comments := vToString (r 7),
        pe_medicalValidity := vToDate pd (r 8), pe_checkMedical := vToBool (r 9)\<rparr>"

text \<open>\<open>QDate::fromString\<close> is the parameter \<open>pd\<close>; \<open>toInt\<close> is converted to an unsigned 64 bit
  number.\<close>

definition pe_createFromDataMap :: "(qstring \<Rightarrow> qdate) \<Rightarrow> (qstring \<rightharpoonup> qstring) \<Rightarrow> person" where
  "pe_createFromDataMap pd m =
     (pe_new 0 (toDbId (strToLongLong (mapAt m ''id''))))
       \<lparr>pe_lastName := mapAt m ''last_name'', pe_firstName := mapAt m ''first_name'',
        pe_nickname := mapAt m ''nickname'', pe_club := mapAt m ''club'',
        pe_clubId := mapAt m ''club_id'', pe_vfid := strToInt (mapAt m ''vfid'') mod 2 ^ 64,
        pe_comments := mapAt m ''comments'', pe_medicalValidity := pd (mapAt m ''medical_validity''),
        pe_checkMedical := (strToInt (mapAt m ''check_medical_validity'') \<noteq> 0)\<rparr>"

definition pe_bindValues :: "person \<Rightarrow> qvariant list" where
  "pe_bindValues p =
     [VString (pe_lastName p), VString (pe_firstName p), VString (pe_nickname p),
      VString (pe_club p), VString (pe_clubId p), VInt (pe_vfid p), VString (pe_comments p),
      VDate (pe_medicalValidity p), VBool (pe_checkMedical p)]"

interpretation pe: stored_entity pe_id pe_createFromResult pe_bindValues pe_dbTableName
  pe_insertColumnList pe_insertPlaceholderList "\<lambda>p. 0 \<le> pe_vfid p \<and> pe_vfid p < 2 ^ 64"
proof
  show "pe_createFromResult pt pd (stored_row drv (pe_id x) (pe_bindValues x)) = x"
    if "0 \<le> pe_vfid x \<and> pe_vfid x < 2 ^ 64" "driver_ok pt pd drv" for x pt pd drv
    using that(1) by (simp add: pe_createFromResult_def pe_bindValues_def pe_new_def
        driver_okD [OF that(2)] eval_nat_numeral)
qed (simp_all add: pe_dbTableName_def pe_insertColumnList_def pe_insertPlaceholderList_def
      pe_bindValues_def columns_def)

end
