(* ===== verification/Sk_Flight.thy ===== *)
theory Sk_Flight
  imports Sk_Person Sk_LaunchMethod
begin

text \<open>
  Flights, \<^verbatim>\<open>src/src/model/Flight.cpp\<close>, \<^verbatim>\<open>FlightBase.h\<close>, \<^verbatim>\<open>FlightBase.cpp\<close>,
  \<^verbatim>\<open>Flight_Type.cpp\<close> and \<^verbatim>\<open>Flight_Mode.cpp\<close>: the object with its cached error list, the type
  and mode tables, the status predicates, departing and landing, the times, the sort order and
  the towflights. The fields carry the names of their accessors. A method that reads the
  \<open>Settings\<close> singleton, the clock or the \<open>Cache\<close> takes it as an argument.
\<close>

section \<open>Types and modes\<close>

datatype flight_type =
    typeNone | typeNormal | typeTraining2 | typeTraining1 | typeAuffrischung
  | typeGuestPrivate | typeGuestExternal | typeTow

datatype flight_mode = modeLocal | modeComing | modeLeaving

definition listTypes :: "bool \<Rightarrow> flight_type list" where
  "listTypes includeInvalid =
     [typeNormal, typeTraining2, typeTraining1, typeAuffrischung, typeGuestPrivate,
      typeGuestExternal] @ (if includeInvalid then [typeNone] else [])"

text \<open>The capital U umlaut of the shortcut texts is code 220.\<close>

fun typeText :: "flight_type \<Rightarrow> bool \<Rightarrow> qstring" where
  "typeText typeNone withShortcut = ''-''"
| "typeText typeNormal True = ''R - Regular flight''"
| "typeText typeTraining2 True = ''2 - Two-seated training''"
| "typeText typeTraining1 True = ''1 - Solo training''"
| "typeText typeAuffrischung True = CHR 0xDC # '' - Two-seated refresher training''"
| "typeText typeTow True = ''T - Towflight''"
| "typeText typeGuestPrivate True = ''P - Passenger flight''"
| "typeText typeGuestExternal True = ''E - Passenger flight (extern)''"
| "typeText typeNormal False = ''Regular flight''"
| "typeText typeTraining2 False = ''Two-seated training''"
| "typeText typeTraining1 False = ''Solo training''"
| "typeText typeAuffrischung False = ''Two-seated refresher training''"
| "typeText typeTow False = ''Towflight''"
| "typeText typeGuestPrivate False = ''Passenger flight''"
| "typeText typeGuestExternal False = ''Passenger flight (external)''"

fun shortTypeText :: "flight_type \<Rightarrow> qstring" where
  "shortTypeText typeNone = ''-''"
| "shortTypeText typeNormal = ''Regular''"
| "shortTypeText typeTraining2 = ''Training (2)''"
| "shortTypeText typeTraining1 = ''Training (1)''"
| "shortTypeText typeAuffrischung = ''Refresher training ('' @ [CHR 0xDC] @ '')''"
| "shortTypeText typeTow = ''Tow''"
| "shortTypeText typeGuestPrivate = ''Passenger''"
| "shortTypeText typeGuestExternal = ''Passenger (E)''"

fun typeCopilotRecorded :: "flight_type \<Rightarrow> bool" where
  "typeCopilotRecorded typeNone = True"
| "typeCopilotRecorded typeNormal = True"
| "typeCopilotRecorded typeTraining2 = True"
| "typeCopilotRecorded typeTraining1 = False"
| "typeCopilotRecorded typeAuffrischung = True"
| "typeCopilotRecorded typeTow = True"
| "typeCopilotRecorded typeGuestPrivate = False"
| "typeCopilotRecorded typeGuestExternal = False"

definition typeSupervisorRecorded :: "flight_type \<Rightarrow> bool" where
  "typeSupervisorRecorded t \<longleftrightarrow> t = typeTraining1"

fun typeAlwaysHasCopilot :: "flight_type \<Rightarrow> bool" where
  "typeAlwaysHasCopilot typeNone = False"
| "typeAlwaysHasCopilot typeNormal = False"
| "typeAlwaysHasCopilot typeTraining2 = True"
| "typeAlwaysHasCopilot typeTraining1 = False"
| "typeAlwaysHasCopilot typeAuffrischung = True"
| "typeAlwaysHasCopilot typeTow = False"
| "typeAlwaysHasCopilot typeGuestPrivate = True"
| "typeAlwaysHasCopilot typeGuestExternal = True"

fun typePilotDescription :: "flight_type \<Rightarrow> qstring" where
  "typePilotDescription typeTraining2 = ''student''"
| "typePilotDescription typeTraining1 = ''student''"
| "typePilotDescription typeAuffrischung = ''pilot being checked''"
| "typePilotDescription typeNone = ''pilot''"
| "typePilotDescription typeNormal = ''pilot''"
| "typePilotDescription typeGuestPrivate = ''pilot''"
| "typePilotDescription typeGuestExternal = ''pilot''"
| "typePilotDescription typeTow = ''towpilot''"

fun typeCopilotDescription :: "flight_type \<Rightarrow> qstring" where
  "typeCopilotDescription typeTraining2 = ''flight instructor''"
| "typeCopilotDescription typeAuffrischung = ''checking flight instructor''"
| "typeCopilotDescription typeGuestPrivate = ''passenger''"
| "typeCopilotDescription typeGuestExternal = ''passenger''"
| "typeCopilotDescription typeNone = ''copilot''"
| "typeCopilotDescription typeNormal = ''copilot''"
| "typeCopilotDescription typeTow = ''copilot''"
| "typeCopilotDescription typeTraining1 = ''supervising flight instructor''"

fun typeIsGuest :: "flight_type \<Rightarrow> bool" where
  "typeIsGuest typeGuestPrivate = True"
| "typeIsGuest typeGuestExternal = True"
| "typeIsGuest _ = False"

fun typeIsTraining :: "flight_type \<Rightarrow> bool" where
  "typeIsTraining typeTraining2 = True"
| "typeIsTraining typeTraining1 = True"
| "typeIsTraining typeAuffrischung = True"
| "typeIsTraining _ = False"

fun flighttypeRemark :: "flight_type \<Rightarrow> qstring" where
  "flighttypeRemark typeGuestPrivate = ''Pilot is charged''"
| "flighttypeRemark typeGuestExternal = ''Guest pays guest flight fee''"
| "flighttypeRemark typeAuffrischung = ''Flight type for the 2 refresher flights every 2 years with instructor according to SFCL.160''"
| "flighttypeRemark _ = []"

definition listModes :: "flight_mode list" where
  "listModes = [modeLocal, modeComing, modeLeaving]"

definition listTowModes :: "flight_mode list" where
  "listTowModes = [modeLocal, modeLeaving]"

fun modeText :: "flight_mode \<Rightarrow> qstring" where
  "modeText modeLocal = ''local''"
| "modeText modeComing = ''coming''"
| "modeText modeLeaving = ''leaving''"

definition modeLandsHere :: "flight_mode \<Rightarrow> bool" where
  "modeLandsHere m \<longleftrightarrow> m = modeLocal \<or> m = modeComing"

definition modeDepartsHere :: "flight_mode \<Rightarrow> bool" where
  "modeDepartsHere m \<longleftrightarrow> m = modeLocal \<or> m = modeLeaving"

declare modeLandsHere_def [sk_defs] modeDepartsHere_def [sk_defs] typeSupervisorRecorded_def [sk_defs]

subsection \<open>Enum mappers\<close>

fun modeToDb :: "flight_mode \<Rightarrow> qstring" where
  "modeToDb modeLocal = ''local''"
| "modeToDb modeComing = ''coming''"
| "modeToDb modeLeaving = ''leaving''"

definition modeFromDb :: "qstring \<Rightarrow> flight_mode" where
  "modeFromDb s =
     (if s = ''local'' then modeLocal else if s = ''coming'' then modeComing
      else if s = ''leaving'' then modeLeaving else modeLocal)"

fun typeToDb :: "flight_type \<Rightarrow> qstring" where
  "typeToDb typeNone = ''?''"
| "typeToDb typeNormal = ''normal''"
| "typeToDb typeTraining2 = ''training_2''"
| "typeToDb typeTraining1 = ''training_1''"
| "typeToDb typeAuffrischung = ''refresh_2''"
| "typeToDb typeTow = ''tow''"
| "typeToDb typeGuestPrivate = ''guest_private''"
| "typeToDb typeGuestExternal = ''guest_external''"

definition typeFromDb :: "qstring \<Rightarrow> flight_type" where
  "typeFromDb s =
     (if s = ''normal'' then typeNormal
      else if s = ''training_2'' then typeTraining2
      else if s = ''training_1'' then typeTraining1
      else if s = ''refresh_2'' then typeAuffrischung
      else if s = ''tow'' then typeTow
      else if s = ''guest_private'' then typeGuestPrivate
      else if s = ''guest_external'' then typeGuestExternal
      else typeNone)"

lemma modeFromDb_toDb [simp]: "modeFromDb (modeToDb m) = m"
  by (cases m) (simp_all add: modeFromDb_def)

lemma typeFromDb_toDb [simp]: "typeFromDb (typeToDb t) = t"
  by (cases t) (simp_all add: typeFromDb_def)

section \<open>The flight object\<close>

datatype flight_error =
    noError
  | idMissing
  | modeMissing | towflightModeMissing | typeMissing
  | departureLocationMissing | landingLocationMissing | towflightLandingLocationMissing
  | planeMissing | pilotMissing | launchMethodMissing
  | pilotLastNameMissing | pilotFirstNameMissing | pilotNotIdentified
  | copilotLastNameMissing | copilotFirstNameMissing | copilotNotIdentified
  | towpilotLastNameMissing | towpilotFirstNameMissing | towpilotNotIdentified
  | pilotEqualsCopilot | pilotEqualsTowpilot
  | landingLocationEqualsDepartureLocation
  | numLandingsNegative
  | landingWithoutDeparture | landingBeforeDeparture
  | landingsWithoutDeparture | numLandingsZero
  | towflightLandingWithoutDeparture | towflightLandingBeforeDeparture
  | copilotNotAllowed | trainingWithoutInstructor
  | towplaneMissing
  | copilotInSingleSeater | trainingInSingleSeater | passengerFlightInSingleSeater
  | gliderMultipleLandings | gliderLandingsWithoutLandingTime
  | gliderSelfLaunch | towplaneIsGlider

record flight =
  getId :: dbId
  getPlaneId :: dbId
  getPilotId :: dbId
  getCopilotId :: dbId
  getSupervisorId :: dbId
  getNumCrew :: int
  getNumPax :: int
  getType :: flight_type
  getMode :: flight_mode
  getDeparted :: bool
  getLanded :: bool
  getTowflightLanded :: bool
  getLaunchMethodId :: dbId
  getDepartureLocation :: qstring
  getLandingLocation :: qstring
  getDepartureTime :: qdatetime
  getLandingTime :: qdatetime
  getNumLandings :: int
  getTowplaneId :: dbId
  getTowflightMode :: flight_mode
  getTowflightLandingLocation :: qstring
  getTowflightLandingTime :: qdatetime
  getTowpilotId :: dbId
  getPilotLastName :: qstring
  getPilotFirstName :: qstring
  getCopilotLastName :: qstring
  getCopilotFirstName :: qstring
  getTowpilotLastName :: qstring
  getTowpilotFirstName :: qstring
  getComments :: qstring
  getAccountingNotes :: qstring
  getFlarmId :: qstring
  getVfId :: dbId
  getUploaded :: bool
  cachedErrors :: "flight_error list"
  cachedErrorsValid :: bool

text \<open>\<open>Flight::Flight (dbId)\<close> with \<open>FlightBase::initialize\<close>. The members that the constructors do
  not initialise (\<open>numCrew\<close>, \<open>numPax\<close>, \<open>uploaded\<close>) keep what the memory \<open>mem\<close> held; strings,
  times and the cached error list have default constructors.\<close>

definition newFlight :: "flight \<Rightarrow> dbId \<Rightarrow> flight" where
  "newFlight mem i =
     \<lparr>getId = i, getPlaneId = invalidId, getPilotId = invalidId, getCopilotId = invalidId,
      getSupervisorId = invalidId, getNumCrew = getNumCrew mem, getNumPax = getNumPax mem,
      getType = typeNone, getMode = modeLocal, getDeparted = False, getLanded = False,
      getTowflightLanded = False, getLaunchMethodId = invalidId, getDepartureLocation = [],
      getLandingLocation = [], getDepartureTime = None, getLandingTime = None,
      getNumLandings = uint invalidId, getTowplaneId = invalidId, getTowflightMode = modeLocal,
      getTowflightLandingLocation = [], getTowflightLandingTime = None, getTowpilotId = invalidId,
      getPilotLastName = [], getPilotFirstName = [], getCopilotLastName = [],
      getCopilotFirstName = [], getTowpilotLastName = [], getTowpilotFirstName = [],
      getComments = [], getAccountingNotes = [], getFlarmId = [], getVfId = invalidId,
      getUploaded = getUploaded mem, cachedErrors = [], cachedErrorsValid = False\<rparr>"

text \<open>Every setter of the accessor macro ends with \<open>dataChanged ()\<close>, which marks the cached error
  list as invalid; \<open>setId\<close> does not.\<close>

definition dataChanged :: "flight \<Rightarrow> flight" where
  "dataChanged f = f\<lparr>cachedErrorsValid := False\<rparr>"

definition setDepartureTime :: "qdatetime \<Rightarrow> flight \<Rightarrow> flight" where
  "setDepartureTime t f = dataChanged (f\<lparr>getDepartureTime := t\<rparr>)"
definition setLandingTime :: "qdatetime \<Rightarrow> flight \<Rightarrow> flight" where
  "setLandingTime t f = dataChanged (f\<lparr>getLandingTime := t\<rparr>)"
definition setTowflightLandingTime :: "qdatetime \<Rightarrow> flight \<Rightarrow> flight" where
  "setTowflightLandingTime t f = dataChanged (f\<lparr>getTowflightLandingTime := t\<rparr>)"
definition setDeparted :: "bool \<Rightarrow> flight \<Rightarrow> flight" where
  "setDeparted b f = dataChanged (f\<lparr>getDeparted := b\<rparr>)"
definition setLanded :: "bool \<Rightarrow> flight \<Rightarrow> flight" where
  "setLanded b f = dataChanged (f\<lparr>getLanded := b\<rparr>)"
definition setTowflightLanded :: "bool \<Rightarrow> flight \<Rightarrow> flight" where
  "setTowflightLanded b f = dataChanged (f\<lparr>getTowflightLanded := b\<rparr>)"
definition setNumLandings :: "int \<Rightarrow> flight \<Rightarrow> flight" where
  "setNumLandings n f = dataChanged (f\<lparr>getNumLandings := n\<rparr>)"
definition setDepartureLocation :: "qstring \<Rightarrow> flight \<Rightarrow> flight" where
  "setDepartureLocation s f = dataChanged (f\<lparr>getDepartureLocation := s\<rparr>)"
definition setLandingLocation :: "qstring \<Rightarrow> flight \<Rightarrow> flight" where
  "setLandingLocation s f = dataChanged (f\<lparr>getLandingLocation := s\<rparr>)"
definition setTowflightLandingLocation :: "qstring \<Rightarrow> flight \<Rightarrow> flight" where
  "setTowflightLandingLocation s f = dataChanged (f\<lparr>getTowflightLandingLocation := s\<rparr>)"

lemmas flight_setters [sk_defs] =
  dataChanged_def setDepartureTime_def setLandingTime_def setTowflightLandingTime_def
  setDeparted_def setLanded_def setTowflightLanded_def setNumLandings_def
  setDepartureLocation_def setLandingLocation_def setTowflightLandingLocation_def

text \<open>What the flight methods read of the settings.\<close>

record settings =
  set_location :: qstring
  set_anonymousMode :: bool
  set_recordTowpilot :: bool

text \<open>What the flight methods read of the cache: the objects by id (\<open>None\<close> for a
  \<open>NotFoundException\<close> or a null pointer) and the lookups by property.\<close>

record cache_view =
  cv_plane :: "dbId \<Rightarrow> plane option"
  cv_launchMethod :: "dbId \<Rightarrow> launchMethod option"
  cv_planeIdByRegistration :: "qstring \<Rightarrow> dbId"
  cv_launchMethodByType :: "lm_type \<Rightarrow> dbId"

section \<open>Status\<close>

definition departsHere :: "flight \<Rightarrow> bool" where
  "departsHere f = modeDepartsHere (getMode f)"
definition landsHere :: "flight \<Rightarrow> bool" where
  "landsHere f = modeLandsHere (getMode f)"
definition towflightLandsHere :: "flight \<Rightarrow> bool" where
  "towflightLandsHere f = modeLandsHere (getTowflightMode f)"
definition isTowflight :: "flight \<Rightarrow> bool" where
  "isTowflight f \<longleftrightarrow> getType f = typeTow"
definition isTraining :: "flight \<Rightarrow> bool" where
  "isTraining f = typeIsTraining (getType f)"
definition isExternal :: "flight \<Rightarrow> bool" where
  "isExternal f \<longleftrightarrow> \<not> landsHere f \<or> \<not> departsHere f"

definition happened :: "flight \<Rightarrow> bool" where
  "happened f = (if departsHere f \<and> getDeparted f then True
     else if landsHere f \<and> getLanded f then True else False)"

definition finished :: "flight \<Rightarrow> bool" where
  "finished f = (if isTowflight f then getLanded f
     else if landsHere f then getLanded f else getDeparted f)"

definition isFlying :: "flight \<Rightarrow> bool" where
  "isFlying f \<longleftrightarrow> getDeparted f \<and> landsHere f \<and> \<not> getLanded f"
definition fliegt :: "flight \<Rightarrow> bool" where
  "fliegt f \<longleftrightarrow> happened f \<and> \<not> finished f"
definition sfz_fliegt :: "flight \<Rightarrow> bool" where
  "sfz_fliegt f \<longleftrightarrow> happened f \<and> \<not> getTowflightLanded f"
definition isPrepared :: "flight \<Rightarrow> bool" where
  "isPrepared f \<longleftrightarrow> \<not> happened f"
definition isTowplaneFlying :: "flight \<Rightarrow> bool" where
  "isTowplaneFlying f \<longleftrightarrow>
     departsHere f \<and> towflightLandsHere f \<and> getDeparted f \<and> \<not> getTowflightLanded f"

definition countFlying :: "flight list \<Rightarrow> int" where
  "countFlying fs = foldl (\<lambda>n f. if isFlying f then n + 1 else n) 0 fs"
definition countHappened :: "flight list \<Rightarrow> int" where
  "countHappened fs = foldl (\<lambda>n f. if happened f then n + 1 else n) 0 fs"

lemmas status_defs [sk_defs] =
  departsHere_def landsHere_def towflightLandsHere_def isTowflight_def isTraining_def
  isExternal_def happened_def finished_def isFlying_def fliegt_def isPrepared_def
  isTowplaneFlying_def sfz_fliegt_def

section \<open>Crew\<close>

definition pilotSpecified :: "flight \<Rightarrow> bool" where
  "pilotSpecified f \<longleftrightarrow>
     idValid (getPilotId f) \<or> \<not> isNone2 (getPilotLastName f) (getPilotFirstName f)"
definition copilotSpecified :: "flight \<Rightarrow> bool" where
  "copilotSpecified f \<longleftrightarrow> \<not> typeSupervisorRecorded (getType f) \<and>
     (idValid (getCopilotId f) \<or> \<not> isNone2 (getCopilotLastName f) (getCopilotFirstName f))"
definition towpilotSpecified :: "flight \<Rightarrow> bool" where
  "towpilotSpecified f \<longleftrightarrow>
     idValid (getTowpilotId f) \<or> \<not> isNone2 (getTowpilotLastName f) (getTowpilotFirstName f)"

definition hasCopilot :: "flight \<Rightarrow> bool" where
  "hasCopilot f \<longleftrightarrow> typeAlwaysHasCopilot (getType f)
     \<or> (typeCopilotRecorded (getType f) \<and> copilotSpecified f)"
definition numPassengers :: "flight \<Rightarrow> int" where
  "numPassengers f = (if hasCopilot f then 2 else 1)"

definition incompletePersonName :: "qstring \<Rightarrow> qstring \<Rightarrow> qstring" where
  "incompletePersonName lastName firstName =
     (if isNone lastName \<and> isNone firstName then ''-''
      else if isNone lastName then qArg ''(???, %1)'' firstName
      else if isNone firstName then qArg ''(%1, ???)'' lastName
      else qArg (qArg ''%1, %2'' lastName) firstName)"

definition incompletePilotName :: "flight \<Rightarrow> qstring" where
  "incompletePilotName f = incompletePersonName (getPilotLastName f) (getPilotFirstName f)"
definition incompleteCopilotName :: "flight \<Rightarrow> qstring" where
  "incompleteCopilotName f = incompletePersonName (getCopilotLastName f) (getCopilotFirstName f)"
definition incompleteTowpilotName :: "flight \<Rightarrow> qstring" where
  "incompleteTowpilotName f = incompletePersonName (getTowpilotLastName f) (getTowpilotFirstName f)"

section \<open>Launch method\<close>

definition isAirtow :: "cache_view \<Rightarrow> flight \<Rightarrow> bool" where
  "isAirtow cv f =
     (if \<not> departsHere f then False
      else if idInvalid (getLaunchMethodId f) then False
      else (case cv_launchMethod cv (getLaunchMethodId f) of
          Some l \<Rightarrow> lm_isAirtow l
        | None \<Rightarrow> False))"

text \<open>The handler of the exception returns \<open>false\<close>, which converts to the id 0.\<close>

definition effectiveTowplaneId :: "cache_view \<Rightarrow> flight \<Rightarrow> dbId" where
  "effectiveTowplaneId cv f =
     (if idInvalid (getLaunchMethodId f) then invalidId
      else (case cv_launchMethod cv (getLaunchMethodId f) of
          Some l \<Rightarrow>
            (if \<not> lm_isAirtow l then invalidId
             else if lm_towplaneKnown l then cv_planeIdByRegistration cv (lm_towplaneRegistration l)
             else getTowplaneId f)
        | None \<Rightarrow> 0))"

section \<open>Departing and landing\<close>

text \<open>\<open>notPossibleIf (condition, reason)\<close> returns early with a reason: the list of guards is
  checked in order; the result is the reason, or \<open>None\<close> if the action is possible.\<close>

fun firstReason :: "(bool \<times> qstring) list \<Rightarrow> qstring option" where
  "firstReason [] = None"
| "firstReason ((c, r) # cs) = (if c then Some r else firstReason cs)"

definition canDepartReason :: "flight \<Rightarrow> qstring option" where
  "canDepartReason f = firstReason
     [(landsHere f \<and> getLanded f, ''The flight has already landed.''),
      (\<not> departsHere f, ''The flight does not depart here.''),
      (getDeparted f, ''The flight has already departed.'')]"

definition canLandReason :: "flight \<Rightarrow> qstring option" where
  "canLandReason f = firstReason
     [(getLanded f, ''The flight has already landed.''),
      (\<not> isTowflight f \<and> \<not> landsHere f, ''The flight does not land here.''),
      (departsHere f \<and> \<not> getDeparted f, ''The flight has not departed yet.'')]"

definition canTouchngoReason :: "flight \<Rightarrow> qstring option" where
  "canTouchngoReason f = firstReason
     [(isTowflight f, ''The flight is a towflight.''),
      (getLanded f, ''The flight has already landed.''),
      (departsHere f \<and> \<not> getDeparted f, ''The flight has not departed yet.'')]"

definition canTowflightLandReason :: "flight \<Rightarrow> qstring option" where
  "canTowflightLandReason f = firstReason
     [(getTowflightLanded f, ''The towflight has already landed.''),
      (departsHere f \<and> \<not> getDeparted f, ''The flight has not departed yet.'')]"

definition canDepart :: "flight \<Rightarrow> bool" where
  "canDepart f \<longleftrightarrow> canDepartReason f = None"
definition canLand :: "flight \<Rightarrow> bool" where
  "canLand f \<longleftrightarrow> canLandReason f = None"
definition canTouchngo :: "flight \<Rightarrow> bool" where
  "canTouchngo f \<longleftrightarrow> canTouchngoReason f = None"
definition canTowflightLand :: "flight \<Rightarrow> bool" where
  "canTowflightLand f \<longleftrightarrow> canTowflightLandReason f = None"

lemmas can_defs [sk_defs] =
  canDepartReason_def canLandReason_def canTouchngoReason_def canTowflightLandReason_def
  canDepart_def canLand_def canTouchngo_def canTowflightLand_def

text \<open>\<open>nullSeconds\<close> of a UTC time: the start of its minute.\<close>

definition nullSeconds :: "qdatetime \<Rightarrow> qdatetime" where
  "nullSeconds t = map_option (\<lambda>m. m - m mod 60000) t"

text \<open>The actions return whether they were performed. \<open>now\<close> is the current time in UTC,
  \<open>s\<close> the settings.\<close>

definition departNow :: "qdatetime \<Rightarrow> bool \<Rightarrow> flight \<Rightarrow> bool \<times> flight" where
  "departNow now force f =
     (if force \<or> canDepart f
      then (True, setDeparted True (setDepartureTime (nullSeconds now) f))
      else (False, f))"

definition landNow :: "settings \<Rightarrow> qdatetime \<Rightarrow> bool \<Rightarrow> flight \<Rightarrow> bool \<times> flight" where
  "landNow s now force f =
     (if force \<or> canLand f
      then (let f1 = setLandingTime (nullSeconds now) f;
                f2 = setNumLandings (getNumLandings f1 + 1) f1;
                f3 = setLanded True f2
            in (True, if isNone (getLandingLocation f3) then setLandingLocation (set_location s) f3 else f3))
      else (False, f))"

definition landTowflightNow :: "settings \<Rightarrow> qdatetime \<Rightarrow> bool \<Rightarrow> flight \<Rightarrow> bool \<times> flight" where
  "landTowflightNow s now force f =
     (if force \<or> canTowflightLand f
      then (let f1 = setTowflightLandingTime (nullSeconds now) f;
                f2 = setTowflightLanded True f1
            in (True, if towflightLandsHere f2 \<and> isNone (getTowflightLandingLocation f2)
                      then setTowflightLandingLocation (set_location s) f2 else f2))
      else (False, f))"

definition performTouchngo :: "bool \<Rightarrow> flight \<Rightarrow> bool \<times> flight" where
  "performTouchngo force f =
     (if force \<or> canTouchngo f then (True, setNumLandings (getNumLandings f + 1) f) else (False, f))"

definition departNowAt :: "qdatetime \<Rightarrow> qstring \<Rightarrow> bool \<Rightarrow> flight \<Rightarrow> bool \<times> flight" where
  "departNowAt now location force f =
     (case departNow now force f of
        (ok, g) \<Rightarrow> if \<not> ok then (False, g) else (True, setDepartureLocation location g))"

definition landNowAt :: "settings \<Rightarrow> qdatetime \<Rightarrow> qstring \<Rightarrow> bool \<Rightarrow> flight \<Rightarrow> bool \<times> flight" where
  "landNowAt s now location force f =
     (case landNow s now force f of
        (ok, g) \<Rightarrow> if \<not> ok then (False, g) else (True, setLandingLocation location g))"

definition landTowflightNowAt ::
    "settings \<Rightarrow> qdatetime \<Rightarrow> qstring \<Rightarrow> bool \<Rightarrow> flight \<Rightarrow> bool \<times> flight" where
  "landTowflightNowAt s now location force f =
     (case landTowflightNow s now force f of
        (ok, g) \<Rightarrow> if \<not> ok then (False, g) else (True, setTowflightLandingLocation location g))"

section \<open>Times\<close>

definition effectiveTime :: "flight \<Rightarrow> qdatetime" where
  "effectiveTime f =
     (if departsHere f \<and> getDeparted f then getDepartureTime f
      else if landsHere f \<and> getLanded f then getLandingTime f
      else None)"

definition effdatum :: "qtimezone \<Rightarrow> flight \<Rightarrow> qdate" where
  "effdatum tz f = dateIn tz (effectiveTime f)"

definition getEffectiveDate :: "qtimezone \<Rightarrow> qdate \<Rightarrow> flight \<Rightarrow> qdate" where
  "getEffectiveDate tz defaultDate f =
     (if departsHere f \<and> getDeparted f then dateIn tz (getDepartureTime f)
      else if landsHere f \<and> getLanded f then dateIn tz (getLandingTime f)
      else defaultDate)"

text \<open>\<open>systemTz\<close> is the system time zone, \<open>today\<close> the current date.\<close>

definition isCurrent :: "qtimezone \<Rightarrow> qdate \<Rightarrow> flight \<Rightarrow> bool" where
  "isCurrent systemTz today f \<longleftrightarrow> getEffectiveDate systemTz None f = today"

definition canHaveDepartureTime :: "flight \<Rightarrow> bool" where
  "canHaveDepartureTime f = departsHere f"
definition canHaveLandingTime :: "flight \<Rightarrow> bool" where
  "canHaveLandingTime f \<longleftrightarrow> landsHere f \<or> isTowflight f"
definition hasDepartureTime :: "flight \<Rightarrow> bool" where
  "hasDepartureTime f \<longleftrightarrow> canHaveDepartureTime f \<and> getDeparted f"
definition hasLandingTime :: "flight \<Rightarrow> bool" where
  "hasLandingTime f \<longleftrightarrow> canHaveLandingTime f \<and> getLanded f"
definition hasTowflightLandingTime :: "flight \<Rightarrow> bool" where
  "hasTowflightLandingTime f \<longleftrightarrow> True \<and> getTowflightLanded f"
definition hasDuration :: "flight \<Rightarrow> bool" where
  "hasDuration f \<longleftrightarrow> hasDepartureTime f \<and> canHaveLandingTime f"
definition hasTowflightDuration :: "flight \<Rightarrow> bool" where
  "hasTowflightDuration f \<longleftrightarrow> hasDepartureTime f \<and> True"

definition flightDuration :: "qdatetime \<Rightarrow> flight \<Rightarrow> qtime" where
  "flightDuration now f =
     (if getDeparted f \<and> getLanded f
      then addSecs midnight (secsTo (getDepartureTime f) (getLandingTime f))
      else if getDeparted f then addSecs midnight (secsTo (getDepartureTime f) now)
      else midnight)"

definition towflightDuration :: "qdatetime \<Rightarrow> flight \<Rightarrow> qtime" where
  "towflightDuration now f =
     (if getDeparted f \<and> getTowflightLanded f
      then addSecs midnight (secsTo (getDepartureTime f) (getTowflightLandingTime f))
      else if getDeparted f then addSecs midnight (secsTo (getDepartureTime f) now)
      else midnight)"

section \<open>Comparison\<close>

definition flight_sort :: "flight \<Rightarrow> flight \<Rightarrow> int" where
  "flight_sort f g =
     (if isPrepared f \<and> isPrepared g
      then (if departsHere f \<and> \<not> departsHere g then 1
            else if \<not> departsHere f \<and> departsHere g then -1
            else 0)
      else if isPrepared f then 1
      else if isPrepared g then -1
      else (let t1 = effectiveTime f; t2 = effectiveTime g in
            if msecs t1 > msecs t2 then 1 else if msecs t1 < msecs t2 then -1 else 0))"

definition flight_less :: "flight \<Rightarrow> flight \<Rightarrow> bool" where
  "flight_less f g \<longleftrightarrow> flight_sort f g < 0"

end
