(* ===== verification/Sk_FlightErrors.thy ===== *)
theory Sk_FlightErrors
  imports Sk_Flight
begin

text \<open>
  The error check of \<^verbatim>\<open>src/src/model/Flight.cpp\<close>: the list of errors, its descriptions, the
  cached copy that \<open>getErrors\<close> returns and the events of \<^verbatim>\<open>src/src/db/event/DbEvent.h\<close> that
  invalidate it. The lemmas characterise when an error is reported and how long the cached copy is
  right.
\<close>

section \<open>Database events\<close>

datatype db_table = tablePeople | tableFlights | tableLaunchMethods | tablePlanes | tableFlarmNetRecords
datatype db_type = typeAdd | typeDelete | typeChange

text \<open>The value of an event is a QVariant holding an object of one of the stored classes, or
  nothing for a deletion by id.\<close>

datatype db_value =
    ValuePerson person | ValueFlight flight | ValueLaunchMethod launchMethod | ValuePlane plane
  | ValueFlarmNetRecord flarmNetRecord | NoValue

record db_event =
  ev_type :: db_type
  ev_table :: db_table
  ev_id :: dbId
  ev_value :: db_value

fun ev_typeString :: "db_type \<Rightarrow> qstring" where
  "ev_typeString typeAdd = ''add''"
| "ev_typeString typeDelete = ''delete''"
| "ev_typeString typeChange = ''change''"

fun ev_tableString :: "db_table \<Rightarrow> qstring" where
  "ev_tableString tablePeople = ''people''"
| "ev_tableString tableFlights = ''flights''"
| "ev_tableString tableLaunchMethods = ''launch methods''"
| "ev_tableString tablePlanes = ''planes''"
| "ev_tableString tableFlarmNetRecords = ''flarmnet''"

definition ev_toString :: "db_event \<Rightarrow> qstring" where
  "ev_toString e = qArg (qArgs ''db_event (type: %1, table: %2, id: %3)''
     [ev_typeString (ev_type e), ev_tableString (ev_table e)]) (decimal (uint (ev_id e)))"

text \<open>\<open>DbEvent::getTable<T>\<close> and \<open>getId\<close> of the object an event carries.\<close>

fun value_table :: "db_value \<Rightarrow> db_table" where
  "value_table (ValueFlight f) = tableFlights"
| "value_table (ValuePlane p) = tablePlanes"
| "value_table (ValuePerson p) = tablePeople"
| "value_table (ValueLaunchMethod l) = tableLaunchMethods"
| "value_table (ValueFlarmNetRecord r) = tableFlarmNetRecords"
| "value_table NoValue = tablePeople"

fun value_id :: "db_value \<Rightarrow> dbId" where
  "value_id (ValueFlight f) = getId f"
| "value_id (ValuePlane p) = pl_id p"
| "value_id (ValuePerson p) = pe_id p"
| "value_id (ValueLaunchMethod l) = lm_id l"
| "value_id (ValueFlarmNetRecord r) = fn_id r"
| "value_id NoValue = invalidId"

definition ev_added :: "db_value \<Rightarrow> db_event" where
  "ev_added v = \<lparr>ev_type = typeAdd, ev_table = value_table v, ev_id = value_id v, ev_value = v\<rparr>"

definition ev_changed :: "db_value \<Rightarrow> db_event" where
  "ev_changed v = \<lparr>ev_type = typeChange, ev_table = value_table v, ev_id = value_id v, ev_value = v\<rparr>"

definition ev_deleted :: "db_table \<Rightarrow> dbId \<Rightarrow> db_event" where
  "ev_deleted t i = \<lparr>ev_type = typeDelete, ev_table = t, ev_id = i, ev_value = NoValue\<rparr>"

section \<open>The check\<close>

definition checkPerson :: "settings \<Rightarrow> dbId \<Rightarrow> qstring \<Rightarrow> qstring \<Rightarrow> bool \<Rightarrow> flight_error \<Rightarrow>
    flight_error \<Rightarrow> flight_error \<Rightarrow> flight_error \<Rightarrow> flight_error list" where
  "checkPerson s i lastName firstName required
      notSpecifiedError lastNameOnlyError firstNameOnlyError notIdentifiedError =
     (if set_anonymousMode s then []
      else if idValid i then []
      else (let lastNameSpecified = \<not> isBlank lastName; firstNameSpecified = \<not> isBlank firstName in
        if lastNameSpecified \<and> firstNameSpecified then [notIdentifiedError]
        else if lastNameSpecified then [lastNameOnlyError]
        else if firstNameSpecified then [firstNameOnlyError]
        else if required then [notSpecifiedError] else []))"

definition err :: "bool \<Rightarrow> flight_error \<Rightarrow> flight_error list" where
  "err c e = (if c then [e] else [])"

lemma set_err [simp]: "set (err c e) = (if c then {e} else {})"
  by (simp add: err_def)

text \<open>The sections of \<open>getErrorsImpl\<close>, in its order. \<open>Cache::getNewObject\<close> gives a null pointer for
  an invalid or unknown id; \<open>airtow\<close> is \<open>launchMethod && launchMethod->isAirtow ()\<close>.\<close>

definition view_airtow :: "cache_view \<Rightarrow> flight \<Rightarrow> bool" where
  "view_airtow cv f =
     (case cv_launchMethod cv (getLaunchMethodId f) of Some l \<Rightarrow> lm_isAirtow l | None \<Rightarrow> False)"

definition errorsBasic :: "flight \<Rightarrow> flight_error list" where
  "errorsBasic f = err (idInvalid (getId f)) idMissing @ err (getType f = typeNone) typeMissing"

definition errorsPilot :: "settings \<Rightarrow> cache_view \<Rightarrow> flight \<Rightarrow> flight_error list" where
  "errorsPilot s cv f =
     checkPerson s (getPilotId f) (getPilotLastName f) (getPilotFirstName f)
       (case cv_launchMethod cv (getLaunchMethodId f) of Some l \<Rightarrow> lm_personRequired l | None \<Rightarrow> False)
       pilotMissing pilotFirstNameMissing pilotLastNameMissing pilotNotIdentified"

definition errorsCopilot :: "settings \<Rightarrow> flight \<Rightarrow> flight_error list" where
  "errorsCopilot s f =
     (if typeCopilotRecorded (getType f) \<or> typeSupervisorRecorded (getType f)
      then checkPerson s (getCopilotId f) (getCopilotLastName f) (getCopilotFirstName f) False
             noError copilotFirstNameMissing copilotLastNameMissing copilotNotIdentified
           @ err (idValid (getPilotId f) \<and> getPilotId f = getCopilotId f
                  \<and> \<not> typeSupervisorRecorded (getType f)) pilotEqualsCopilot
           @ err (getType f = typeTraining2 \<and> \<not> copilotSpecified f) trainingWithoutInstructor
      else [])"

definition errorsTowpilot :: "settings \<Rightarrow> cache_view \<Rightarrow> flight \<Rightarrow> flight_error list" where
  "errorsTowpilot s cv f =
     (if set_recordTowpilot s \<and> view_airtow cv f
      then checkPerson s (getTowpilotId f) (getTowpilotLastName f) (getTowpilotFirstName f) False
             noError towpilotFirstNameMissing towpilotLastNameMissing towpilotNotIdentified
           @ err (idValid (getTowpilotId f) \<and> getPilotId f = getTowpilotId f) pilotEqualsTowpilot
      else [])"

definition errorsPlane :: "cache_view \<Rightarrow> flight \<Rightarrow> flight_error list" where
  "errorsPlane cv f =
     err (idInvalid (getPlaneId f)) planeMissing
     @ (case cv_plane cv (getPlaneId f) of None \<Rightarrow> []
        | Some p \<Rightarrow>
            (if pl_numSeats p = 1
             then err (getType f = typeTraining2) trainingInSingleSeater
                  @ err (getType f = typeGuestPrivate) passengerFlightInSingleSeater
                  @ err (getType f = typeGuestExternal) passengerFlightInSingleSeater
                  @ err (typeCopilotRecorded (getType f) \<and> copilotSpecified f) copilotInSingleSeater
             else [])
            @ (if pl_category p = categoryGlider
               then err (case cv_launchMethod cv (getLaunchMethodId f) of
                           Some l \<Rightarrow> lm_type l = typeSelf | None \<Rightarrow> False) gliderSelfLaunch
               else [])
            @ (if pl_category p = categoryGlider \<and> cv_launchMethod cv (getLaunchMethodId f) \<noteq> None
                  \<and> \<not> view_airtow cv f
               then err (getNumLandings f > 1) gliderMultipleLandings
                    @ err (getNumLandings f > 0 \<and> \<not> getLanded f) gliderLandingsWithoutLandingTime
               else []))"

definition errorsStatus :: "flight \<Rightarrow> flight_error list" where
  "errorsStatus f =
     err (getNumLandings f < 0) numLandingsNegative
     @ err (departsHere f \<noteq> landsHere f \<and> getDepartureLocation f = getLandingLocation f)
         landingLocationEqualsDepartureLocation
     @ (if departsHere f \<and> landsHere f
        then err (\<not> getDeparted f \<and> getLanded f) landingWithoutDeparture
             @ err (getDeparted f \<and> getLanded f
                    \<and> msecs (getDepartureTime f) > msecs (getLandingTime f)) landingBeforeDeparture
        else [])
     @ (if departsHere f
        then err (getDeparted f \<and> idInvalid (getLaunchMethodId f) \<and> \<not> isTowflight f) launchMethodMissing
             @ err (\<not> getDeparted f \<and> getNumLandings f > 0) landingsWithoutDeparture
        else [])
     @ (if landsHere f then err (getNumLandings f = 0 \<and> getLanded f) numLandingsZero else [])
     @ err ((getDeparted f \<or> \<not> departsHere f) \<and> isNone (getDepartureLocation f)) departureLocationMissing
     @ err ((getLanded f \<or> \<not> landsHere f) \<and> isNone (getLandingLocation f)) landingLocationMissing"

definition errorsTowflight :: "cache_view \<Rightarrow> flight \<Rightarrow> flight_error list" where
  "errorsTowflight cv f =
     (if view_airtow cv f
      then err ((getTowflightLanded f \<or> \<not> towflightLandsHere f)
                \<and> isNone (getTowflightLandingLocation f)) towflightLandingLocationMissing
           @ (case cv_launchMethod cv (getLaunchMethodId f) of None \<Rightarrow> []
              | Some l \<Rightarrow>
                  err (\<not> lm_towplaneKnown l \<and> idInvalid (getTowplaneId f)) towplaneMissing
                  @ err (\<not> lm_towplaneKnown l
                         \<and> (case cv_plane cv (getTowplaneId f) of
                               Some p \<Rightarrow> pl_category p = categoryGlider | None \<Rightarrow> False)) towplaneIsGlider)
      else [])"

definition getErrorsImpl :: "settings \<Rightarrow> bool \<Rightarrow> cache_view \<Rightarrow> flight \<Rightarrow> flight_error list" where
  "getErrorsImpl s includeTowflightErrors cv f =
     errorsBasic f @ errorsPilot s cv f @ errorsCopilot s f @ errorsTowpilot s cv f
     @ errorsPlane cv f @ errorsStatus f
     @ (if includeTowflightErrors then errorsTowflight cv f else [])"

lemmas errors_defs =
  view_airtow_def errorsBasic_def errorsPilot_def errorsCopilot_def errorsTowpilot_def
  errorsPlane_def errorsStatus_def errorsTowflight_def getErrorsImpl_def

text \<open>The const method \<open>getErrors\<close> fills the mutable cached list.\<close>

definition getErrors :: "settings \<Rightarrow> bool \<Rightarrow> cache_view \<Rightarrow> flight \<Rightarrow> flight_error list \<times> flight" where
  "getErrors s includeTowflightErrors cv f =
     (let g = (if \<not> cachedErrorsValid f
               then f\<lparr>cachedErrors := getErrorsImpl s includeTowflightErrors cv f, cachedErrorsValid := True\<rparr>
               else f)
      in (cachedErrors g, g))"

definition trainee :: "flight \<Rightarrow> qstring \<Rightarrow> qstring \<Rightarrow> qstring" where
  "trainee f training other = (if isTraining f then training else other)"

fun errorDescription :: "flight \<Rightarrow> flight_error \<Rightarrow> qstring" where
  "errorDescription f noError = ''No errors''"
| "errorDescription f idMissing = ''Flight has no ID''"
| "errorDescription f planeMissing = ''No plane specified''"
| "errorDescription f pilotFirstNameMissing =
     trainee f (''The student'' @ [CHR 0x27] @ ''s first name is missing'')
       (''The pilot'' @ [CHR 0x27] @ ''s first name is missing'')"
| "errorDescription f pilotLastNameMissing =
     trainee f (''The student'' @ [CHR 0x27] @ ''s last name is missing'')
       (''The pilot'' @ [CHR 0x27] @ ''s last name is missing'')"
| "errorDescription f pilotNotIdentified =
     trainee f ''The student is not identified'' ''The pilot is not identified''"
| "errorDescription f copilotFirstNameMissing =
     trainee f (''The flight instructor'' @ [CHR 0x27] @ ''s first name is missing'')
       (''The copilot'' @ [CHR 0x27] @ ''s first name is missing'')"
| "errorDescription f copilotLastNameMissing =
     trainee f (''The flight instructor'' @ [CHR 0x27] @ ''s last name is missing'')
       (''The copilot'' @ [CHR 0x27] @ ''s last name is missing'')"
| "errorDescription f copilotNotIdentified =
     trainee f ''The flight instructor is not identified'' ''The copilot is not identified''"
| "errorDescription f towpilotFirstNameMissing = ''The towpilot'' @ [CHR 0x27] @ ''s first name is missing''"
| "errorDescription f towpilotLastNameMissing = ''The towpilot'' @ [CHR 0x27] @ ''s last name is missing''"
| "errorDescription f towpilotNotIdentified = ''The towpilot is not identified''"
| "errorDescription f pilotMissing = trainee f ''No student specified'' ''No pilot specified''"
| "errorDescription f pilotEqualsCopilot =
     trainee f ''Student and flight instructor are identical'' ''Pilot and copilot are identical''"
| "errorDescription f pilotEqualsTowpilot =
     trainee f ''Student and towpilot are identical'' ''Pilot and towpilot are identical''"
| "errorDescription f trainingWithoutInstructor = ''Two-seated training without flight instructor''"
| "errorDescription f copilotNotAllowed = ''No copilot allowed''"
| "errorDescription f landingWithoutDeparture = ''Flight has landed but not departed''"
| "errorDescription f landingBeforeDeparture = ''Landing before departure''"
| "errorDescription f launchMethodMissing = ''No launch method specified''"
| "errorDescription f modeMissing = ''No mode specified''"
| "errorDescription f towflightModeMissing = ''No mode specified for towflight''"
| "errorDescription f typeMissing = ''No flight type specified''"
| "errorDescription f numLandingsNegative = ''Negative number of landings''"
| "errorDescription f numLandingsZero = ''Flight has landed, but number of landings is zero''"
| "errorDescription f towflightLandingWithoutDeparture = ''Towflight has landed but not departed''"
| "errorDescription f towflightLandingBeforeDeparture = ''Towflight landing before departure''"
| "errorDescription f trainingInSingleSeater = ''Two-seated training in single-seater''"
| "errorDescription f departureLocationMissing = ''No departure location specified''"
| "errorDescription f landingLocationMissing = ''No landing location specified''"
| "errorDescription f towflightLandingLocationMissing = ''No landing location specified for towplane''"
| "errorDescription f gliderMultipleLandings = ''Glider performs more than one landing''"
| "errorDescription f gliderLandingsWithoutLandingTime = ''Glider performs landing without landing time''"
| "errorDescription f copilotInSingleSeater = ''Copilot in single-seater''"
| "errorDescription f passengerFlightInSingleSeater = ''Passenger flight in single-seater''"
| "errorDescription f gliderSelfLaunch = ''Glider performs self launch''"
| "errorDescription f landingsWithoutDeparture = ''Number of landings is greater than zero without departure''"
| "errorDescription f landingLocationEqualsDepartureLocation = ''Landing location and departure location are identical''"
| "errorDescription f towplaneMissing = ''Towplane not specified''"
| "errorDescription f towplaneIsGlider = ''Towplane is glider''"

text \<open>The error text is written only if there is an error.\<close>

definition isErroneous :: "settings \<Rightarrow> cache_view \<Rightarrow> flight \<Rightarrow> qstring option \<times> flight" where
  "isErroneous s cv f =
     (case getErrors s False cv f of
        (errors, g) \<Rightarrow> (case errors of [] \<Rightarrow> (None, g) | e # _ \<Rightarrow> (Some (errorDescription g e), g)))"

definition databaseChanged :: "db_event \<Rightarrow> flight \<Rightarrow> flight" where
  "databaseChanged e f =
     (case ev_table e of
        tableFlights \<Rightarrow> f
      | tableLaunchMethods \<Rightarrow> if ev_id e = getLaunchMethodId f then dataChanged f else f
      | tablePeople \<Rightarrow>
          if ev_id e = getPilotId f \<or> ev_id e = getCopilotId f \<or> ev_id e = getTowpilotId f
          then dataChanged f else f
      | tablePlanes \<Rightarrow>
          if ev_id e = getPlaneId f \<or> ev_id e = getTowplaneId f then dataChanged f else f
      | tableFlarmNetRecords \<Rightarrow> f)"

section \<open>When an error is reported\<close>

lemma checkPerson_notin:
  "e \<notin> {a, b, c, d} \<Longrightarrow> e \<notin> set (checkPerson s i l n r a b c d)"
  by (auto simp: checkPerson_def Let_def)

text \<open>The status errors come from the status section alone.\<close>

definition status_error :: "flight_error \<Rightarrow> bool" where
  "status_error e \<longleftrightarrow> e \<in> {landingWithoutDeparture, landingBeforeDeparture, landingsWithoutDeparture,
     numLandingsZero, numLandingsNegative, landingLocationMissing, departureLocationMissing,
     launchMethodMissing, landingLocationEqualsDepartureLocation}"

lemma status_error_section:
  assumes "status_error e"
  shows "e \<in> set (getErrorsImpl s b cv f) \<longleftrightarrow> e \<in> set (errorsStatus f)"
proof -
  have "e \<notin> set (errorsBasic f)" "e \<notin> set (errorsPilot s cv f)" "e \<notin> set (errorsCopilot s f)"
    "e \<notin> set (errorsTowpilot s cv f)" "e \<notin> set (errorsPlane cv f)" "e \<notin> set (errorsTowflight cv f)"
    using assms
    by (auto simp: status_error_def errorsBasic_def errorsPilot_def errorsCopilot_def
        errorsTowpilot_def errorsPlane_def errorsTowflight_def checkPerson_def Let_def
        split: option.splits if_splits)
  then show ?thesis by (simp add: getErrorsImpl_def)
qed

text \<open>The errors about the landings and the landing location do not depend on the cache, the
  settings or the crew: each is reported exactly under its condition.\<close>

theorem status_errors_iff:
  "(landingWithoutDeparture \<in> set (getErrorsImpl s b cv f) \<longleftrightarrow>
      getMode f = modeLocal \<and> \<not> getDeparted f \<and> getLanded f)
   \<and> (landingBeforeDeparture \<in> set (getErrorsImpl s b cv f) \<longleftrightarrow>
      getMode f = modeLocal \<and> getDeparted f \<and> getLanded f
      \<and> msecs (getLandingTime f) < msecs (getDepartureTime f))
   \<and> (landingsWithoutDeparture \<in> set (getErrorsImpl s b cv f) \<longleftrightarrow>
      getMode f \<noteq> modeComing \<and> \<not> getDeparted f \<and> getNumLandings f > 0)
   \<and> (numLandingsZero \<in> set (getErrorsImpl s b cv f) \<longleftrightarrow>
      getMode f \<noteq> modeLeaving \<and> getLanded f \<and> getNumLandings f = 0)
   \<and> (numLandingsNegative \<in> set (getErrorsImpl s b cv f) \<longleftrightarrow> getNumLandings f < 0)
   \<and> (landingLocationMissing \<in> set (getErrorsImpl s b cv f) \<longleftrightarrow>
      (getLanded f \<or> getMode f = modeLeaving) \<and> isNone (getLandingLocation f))"
  by (cases "getMode f")
    (auto simp: status_error_section status_error_def errorsStatus_def departsHere_def landsHere_def
      modeDepartsHere_def modeLandsHere_def)

section \<open>The cached list\<close>

text \<open>The cached list is right with respect to a view of the cache.\<close>

definition errors_coherent :: "settings \<Rightarrow> bool \<Rightarrow> cache_view \<Rightarrow> flight \<Rightarrow> bool" where
  "errors_coherent s b cv f \<longleftrightarrow> (cachedErrorsValid f \<longrightarrow> cachedErrors f = getErrorsImpl s b cv f)"

lemma getErrorsImpl_cached [simp]:
  "getErrorsImpl s b cv (f\<lparr>cachedErrors := es\<rparr>) = getErrorsImpl s b cv f"
  "getErrorsImpl s b cv (f\<lparr>cachedErrorsValid := v\<rparr>) = getErrorsImpl s b cv f"
  by (simp_all add: errors_defs departsHere_def landsHere_def towflightLandsHere_def
      isTowflight_def copilotSpecified_def cong: option.case_cong if_cong)

lemma errors_coherent_dataChanged [sk_inv, simp]: "errors_coherent s b cv (dataChanged f)"
  by (simp add: errors_coherent_def dataChanged_def)

lemma getErrors_coherent:
  "errors_coherent s b cv f \<Longrightarrow>
     fst (getErrors s b cv f) = getErrorsImpl s b cv f \<and> errors_coherent s b cv (snd (getErrors s b cv f))"
  by (auto simp: getErrors_def errors_coherent_def)

text \<open>The check reads the cache at three ids only.\<close>

lemma getErrorsImpl_view_cong:
  assumes "cv_plane cv (getPlaneId f) = cv_plane cv' (getPlaneId f)"
    and "cv_plane cv (getTowplaneId f) = cv_plane cv' (getTowplaneId f)"
    and "cv_launchMethod cv (getLaunchMethodId f) = cv_launchMethod cv' (getLaunchMethodId f)"
  shows "getErrorsImpl s b cv f = getErrorsImpl s b cv' f"
  by (simp add: errors_defs assms cong: option.case_cong if_cong)

text \<open>An event that describes the change from one view to another: only the object it names may
  differ.\<close>

definition event_explains :: "db_event \<Rightarrow> cache_view \<Rightarrow> cache_view \<Rightarrow> bool" where
  "event_explains e cv cv' \<longleftrightarrow>
     (\<forall>i. cv_plane cv i \<noteq> cv_plane cv' i \<longrightarrow> ev_table e = tablePlanes \<and> ev_id e = i) \<and>
     (\<forall>i. cv_launchMethod cv i \<noteq> cv_launchMethod cv' i \<longrightarrow> ev_table e = tableLaunchMethods \<and> ev_id e = i)"

lemma databaseChanged_keeps:
  assumes "errors_coherent s b cv f" and "event_explains e cv cv'"
  shows "errors_coherent s b cv' (databaseChanged e f)
    \<and> fst (getErrors s b cv' (databaseChanged e f)) = getErrorsImpl s b cv' f"
proof -
  have "errors_coherent s b cv' (databaseChanged e f)"
  proof (cases "databaseChanged e f = dataChanged f")
    case True
    then show ?thesis by simp
  next
    case False
    then have "databaseChanged e f = f"
      "ev_table e = tablePlanes \<longrightarrow> ev_id e \<noteq> getPlaneId f \<and> ev_id e \<noteq> getTowplaneId f"
      "ev_table e = tableLaunchMethods \<longrightarrow> ev_id e \<noteq> getLaunchMethodId f"
      by (auto simp: databaseChanged_def split: db_table.splits if_splits)
    with assms have "getErrorsImpl s b cv f = getErrorsImpl s b cv' f"
      by (intro getErrorsImpl_view_cong) (auto simp: event_explains_def)
    with assms(1) \<open>databaseChanged e f = f\<close> show ?thesis
      by (simp add: errors_coherent_def)
  qed
  moreover have "getErrorsImpl s b cv' (databaseChanged e f) = getErrorsImpl s b cv' f"
    by (auto simp: databaseChanged_def dataChanged_def split: db_table.split)
  ultimately show ?thesis using getErrors_coherent by metis
qed

text \<open>\<open>databaseChanged\<close> invalidates enough: if the cached error list was right before a change
  of the database and the flight is told the event of that change, then the list it answers with
  afterwards is the one computed from the new data.\<close>

theorem databaseChanged_coherent:
  assumes "errors_coherent s b cv f" and "event_explains e cv cv'"
  shows "errors_coherent s b cv' (databaseChanged e f)
    \<and> fst (getErrors s b cv' (databaseChanged e f)) = getErrorsImpl s b cv' f"
  using assms by (rule databaseChanged_keeps)

text \<open>A concrete flight and two views, for the witnesses.\<close>

definition mem0 :: flight where
  "mem0 = \<lparr>getId = 0, getPlaneId = 0, getPilotId = 0, getCopilotId = 0, getSupervisorId = 0,
     getNumCrew = 0, getNumPax = 0, getType = typeNone, getMode = modeLocal, getDeparted = False,
     getLanded = False, getTowflightLanded = False, getLaunchMethodId = 0, getDepartureLocation = [],
     getLandingLocation = [], getDepartureTime = None, getLandingTime = None, getNumLandings = 0,
     getTowplaneId = 0, getTowflightMode = modeLocal, getTowflightLandingLocation = [],
     getTowflightLandingTime = None, getTowpilotId = 0, getPilotLastName = [], getPilotFirstName = [],
     getCopilotLastName = [], getCopilotFirstName = [], getTowpilotLastName = [],
     getTowpilotFirstName = [], getComments = [], getAccountingNotes = [], getFlarmId = [],
     getVfId = 0, getUploaded = False, cachedErrors = [], cachedErrorsValid = False\<rparr>"

definition view0 :: cache_view where
  "view0 = \<lparr>cv_plane = (\<lambda>i. if i = 5 then Some (pl_new 5) else None),
     cv_launchMethod = (\<lambda>i. if i = 3 then Some ((lm_new 3)\<lparr>lm_type := typeAirtow\<rparr>) else None),
     cv_planeIdByRegistration = (\<lambda>_. 0), cv_launchMethodByType = (\<lambda>_. 0)\<rparr>"

definition view1 :: cache_view where
  "view1 = view0\<lparr>cv_plane := (\<lambda>i. if i = 5 then Some ((pl_new 5)\<lparr>pl_numSeats := 1\<rparr>) else None)\<rparr>"

definition settings0 :: settings where
  "settings0 = \<lparr>set_location = ''Berlin'', set_anonymousMode = False, set_recordTowpilot = True\<rparr>"

definition flight0 :: flight where
  "flight0 = (newFlight mem0 7)\<lparr>getType := typeGuestPrivate, getPilotId := 2, getPlaneId := 5,
     getLaunchMethodId := 3\<rparr>"

theorem databaseChanged_coherent_witness:
  "fst (getErrors settings0 True view1
      (databaseChanged (ev_changed (ValuePlane ((pl_new 5)\<lparr>pl_numSeats := 1\<rparr>)))
        (snd (getErrors settings0 True view0 flight0))))
    = getErrorsImpl settings0 True view1 (snd (getErrors settings0 True view0 flight0))"
proof -
  have "errors_coherent settings0 True view0 flight0"
    by (simp add: errors_coherent_def flight0_def newFlight_def)
  then have a: "errors_coherent settings0 True view0 (snd (getErrors settings0 True view0 flight0))"
    using getErrors_coherent by blast
  have e: "event_explains (ev_changed (ValuePlane ((pl_new 5)\<lparr>pl_numSeats := 1\<rparr>))) view0 view1"
    by (simp add: event_explains_def view1_def view0_def ev_changed_def pl_new_def)
  show ?thesis using databaseChanged_coherent [OF a e] by blast
qed

text \<open>The cached list ignores the parameter \<open>includeTowflightErrors\<close>: after \<open>isErroneous\<close>, which
  asks without the towflight errors, \<open>getErrors\<close> with them returns the list without, although the
  check itself finds the missing towplane.\<close>

theorem getErrors_ignores_towflight_flag:
  "towplaneMissing \<in> set (getErrorsImpl settings0 True view0 flight0)
   \<and> towplaneMissing \<notin> set (fst (getErrors settings0 True view0
        (snd (isErroneous settings0 view0 flight0))))"
proof -
  have "cachedErrorsValid (snd (isErroneous settings0 view0 flight0))"
    and c: "cachedErrors (snd (isErroneous settings0 view0 flight0)) = getErrorsImpl settings0 False view0 flight0"
    by (simp_all add: isErroneous_def getErrors_def flight0_def newFlight_def split: list.split)
  then have "fst (getErrors settings0 True view0 (snd (isErroneous settings0 view0 flight0)))
      = getErrorsImpl settings0 False view0 flight0"
    by (simp add: getErrors_def)
  then show ?thesis
    by (simp add: errors_defs flight0_def newFlight_def view0_def lm_isAirtow_def
        lm_towplaneKnown_def lm_new_def checkPerson_def settings0_def idInvalid_def invalidId_def
        pl_new_def)
qed

end
