(* ===== verification/Sk_FlightLife.thy ===== *)
theory Sk_FlightLife
  imports Sk_FlightErrors
begin

text \<open>
  The life of a flight under the actions of \<^verbatim>\<open>src/src/model/Flight.cpp\<close>: a run of the unforced
  actions \<open>departNow\<close>, \<open>landNow\<close>, \<open>landTowflightNow\<close> and \<open>performTouchngo\<close> with the times at
  which they are performed, the invariant that every such run keeps, and what follows for the error
  check; and the sort order of flights.
\<close>

section \<open>Runs of actions\<close>

datatype flight_action = Depart | Land | LandTowflight | Touchngo

fun perform :: "settings \<Rightarrow> qdatetime \<Rightarrow> flight_action \<Rightarrow> flight \<Rightarrow> bool \<times> flight" where
  "perform s now Depart f = departNow now False f"
| "perform s now Land f = landNow s now False f"
| "perform s now LandTowflight f = landTowflightNow s now False f"
| "perform s now Touchngo f = performTouchngo False f"

text \<open>A run pairs each action with the clock reading (in ms) when it is tried.\<close>

fun run :: "settings \<Rightarrow> (int \<times> flight_action) list \<Rightarrow> flight \<Rightarrow> flight" where
  "run s [] f = f"
| "run s ((t, a) # as) f = run s as (snd (perform s (Some t) a f))"

text \<open>The number of actions of a run that count as a landing and were performed.\<close>

fun landings :: "settings \<Rightarrow> (int \<times> flight_action) list \<Rightarrow> flight \<Rightarrow> int" where
  "landings s [] f = 0"
| "landings s ((t, a) # as) f =
     (let (ok, g) = perform s (Some t) a f in
      (if ok \<and> (a = Land \<or> a = Touchngo) then 1 else 0) + landings s as g)"

text \<open>A prepared flight of any mode.\<close>

definition prepared :: "flight \<Rightarrow> bool" where
  "prepared f \<longleftrightarrow> \<not> getDeparted f \<and> \<not> getLanded f \<and> \<not> getTowflightLanded f \<and> getNumLandings f = 0"

text \<open>The invariant, relative to the clock reading \<open>now\<close>: landing and touch-and-go of a flight that
  departs here come after its departure; a landed flight has a landing counted; the times are
  minutes not later than the clock.\<close>

definition life_inv :: "int \<Rightarrow> flight \<Rightarrow> bool" where
  "life_inv now f \<longleftrightarrow>
     0 \<le> getNumLandings f
     \<and> (getLanded f \<longrightarrow> 0 < getNumLandings f)
     \<and> (departsHere f \<and> (getLanded f \<or> getTowflightLanded f \<or> 0 < getNumLandings f) \<longrightarrow> getDeparted f)
     \<and> (getDeparted f \<longrightarrow> (\<exists>d. getDepartureTime f = Some d \<and> d \<le> now - now mod 60000 \<and> d mod 60000 = 0))
     \<and> (getLanded f \<longrightarrow> (\<exists>l. getLandingTime f = Some l \<and> l \<le> now - now mod 60000 \<and> l mod 60000 = 0))
     \<and> (getDeparted f \<and> getLanded f \<and> departsHere f \<longrightarrow>
          msecs (getDepartureTime f) \<le> msecs (getLandingTime f))"

lemma minute_mono: "t \<le> u \<Longrightarrow> t - t mod 60000 \<le> u - u mod (60000::int)"
proof -
  assume "t \<le> u"
  then have "t div 60000 \<le> u div 60000" by (rule zdiv_mono1) simp
  then show ?thesis by (simp add: minus_mod_eq_mult_div)
qed

lemma life_inv_prepared: "prepared f \<Longrightarrow> life_inv now f"
  by (simp add: life_inv_def prepared_def)

lemma life_inv_mono: "life_inv t f \<Longrightarrow> t \<le> u \<Longrightarrow> life_inv u f"
  unfolding life_inv_def using minute_mono [of t u] by (meson order_trans)

lemmas action_defs =
  departNow_def landNow_def landTowflightNow_def performTouchngo_def nullSeconds_def Let_def

lemma perform_mode [simp]:
  "getMode (snd (perform s now a f)) = getMode f"
  "getType (snd (perform s now a f)) = getType f"
  "getTowflightMode (snd (perform s now a f)) = getTowflightMode f"
  by (cases a; simp add: action_defs flight_setters)+

lemma perform_life_inv [sk_inv]:
  assumes "life_inv t f"
  shows "life_inv t (snd (perform s (Some t) a f))"
proof (cases "fst (perform s (Some t) a f)")
  case False
  then have "snd (perform s (Some t) a f) = f"
    by (cases a) (auto simp: action_defs split: if_splits)
  with assms show ?thesis by simp
next
  case True
  note [simp] = action_defs sk_defs life_inv_def mod_diff_left_eq
  show ?thesis
  proof (cases a)
    case Depart
    with assms True show ?thesis by (auto split: if_splits)
  next
    case Land
    with assms True show ?thesis by (auto split: if_splits)
  next
    case LandTowflight
    with assms True show ?thesis by (auto split: if_splits)
  next
    case Touchngo
    with assms True show ?thesis by (auto split: if_splits)
  qed
qed

text \<open>A run with a clock that does not go back: the clock readings are ordered.\<close>

definition clock_ok :: "int \<Rightarrow> (int \<times> flight_action) list \<Rightarrow> bool" where
  "clock_ok t0 as \<longleftrightarrow> sorted (t0 # map fst as)"

lemma run_life_inv:
  assumes "life_inv t0 f" "clock_ok t0 as"
  shows "life_inv (last (t0 # map fst as)) (run s as f)"
  using assms
proof (induction as arbitrary: t0 f)
  case (Cons x as)
  obtain t a where x: "x = (t, a)" by (cases x)
  from Cons.prems x have "life_inv t f" "clock_ok t as"
    by (auto simp: clock_ok_def intro: life_inv_mono)
  then show ?case using Cons.IH [of t "snd (perform s (Some t) a f)"] x perform_life_inv by auto
qed simp

lemma run_mode [simp]: "getMode (run s as f) = getMode f"
  by (induction s as f rule: run.induct) auto

lemma run_numLandings: "getNumLandings (run s as f) = getNumLandings f + landings s as f"
proof (induction as arbitrary: f)
  case (Cons x as)
  obtain t a where x: "x = (t, a)" by (cases x)
  show ?case
    using Cons [of "snd (perform s (Some t) a f)"] x
    by (cases a) (auto simp: action_defs flight_setters split: if_splits)
qed simp

text \<open>C8: a flight that is prepared and then handled by the unforced actions only, with a clock that
  does not go back, never shows one of the errors about landings: the check reports no landing
  without departure, no landing before departure, no landings without departure, no landed flight
  without a landing and no negative count; and the number of landings is the number of performed
  landings and touch-and-goes.\<close>

theorem run_no_landing_errors:
  assumes "prepared f" and "clock_ok t0 as"
  shows "set (getErrorsImpl cfg b cv (run s as f))
      \<inter> {landingWithoutDeparture, landingBeforeDeparture, landingsWithoutDeparture, numLandingsZero,
         numLandingsNegative} = {}
    \<and> getNumLandings (run s as f) = landings s as f"
proof -
  have inv: "life_inv (last (t0 # map fst as)) (run s as f)"
    using assms run_life_inv life_inv_prepared by blast
  have "e \<notin> set (errorsStatus (run s as f))"
    if "e \<in> {landingWithoutDeparture, landingBeforeDeparture, landingsWithoutDeparture, numLandingsZero,
         numLandingsNegative}" for e
    using inv that
    by (cases "getMode f") (auto simp: errorsStatus_def life_inv_def departsHere_def landsHere_def
        modeDepartsHere_def modeLandsHere_def)
  then have "set (getErrorsImpl cfg b cv (run s as f))
      \<inter> {landingWithoutDeparture, landingBeforeDeparture, landingsWithoutDeparture, numLandingsZero,
         numLandingsNegative} = {}"
    using status_error_section [of _ cfg b cv "run s as f"] by (auto simp: status_error_def)
  moreover have "getNumLandings (run s as f) = landings s as f"
    using assms(1) by (simp add: run_numLandings prepared_def)
  ultimately show ?thesis ..
qed

theorem run_no_landing_errors_witness:
  "set (getErrorsImpl settings0 True view0
       (run settings0 [(600000, Depart), (900000, Touchngo), (1300000, Land), (1400000, Land)] flight0))
     \<inter> {landingWithoutDeparture, landingBeforeDeparture, landingsWithoutDeparture, numLandingsZero,
        numLandingsNegative} = {}
   \<and> getNumLandings (run settings0 [(600000, Depart), (900000, Touchngo), (1300000, Land), (1400000, Land)]
        flight0) = 2"
proof -
  have p: "prepared flight0" by (simp add: prepared_def flight0_def newFlight_def invalidId_def)
  have c: "clock_ok 0 [(600000, Depart), (900000, Touchngo), (1300000, Land), (1400000, Land)]"
    by (simp add: clock_ok_def)
  have "landings settings0 [(600000, Depart), (900000, Touchngo), (1300000, Land), (1400000, Land)] flight0 = 2"
    by (simp add: action_defs sk_defs flight0_def newFlight_def settings0_def)
  with run_no_landing_errors [OF p c, of settings0 True view0 settings0] show ?thesis by simp
qed

section \<open>What the actions do\<close>

lemma perform_ok_iff:
  "fst (perform s now Depart f) \<longleftrightarrow> canDepartReason f = None"
  "fst (perform s now Land f) \<longleftrightarrow> canLandReason f = None"
  "fst (perform s now LandTowflight f) \<longleftrightarrow> canTowflightLandReason f = None"
  "fst (perform s now Touchngo f) \<longleftrightarrow> canTouchngoReason f = None"
  by (simp_all add: action_defs canDepart_def canLand_def canTowflightLand_def canTouchngo_def)

lemma perform_refused: "\<not> fst (perform s now a f) \<Longrightarrow> snd (perform s now a f) = f"
  by (cases a) (simp_all add: action_defs split: if_splits)

lemma perform_status:
  assumes "fst (perform s now a f)"
  shows "a = Depart \<Longrightarrow> getDeparted (snd (perform s now a f))"
    and "a = Land \<Longrightarrow> getLanded (snd (perform s now a f))"
    and "a = LandTowflight \<Longrightarrow> getTowflightLanded (snd (perform s now a f))"
  using assms by (auto simp: action_defs flight_setters split: if_splits)

lemma status_final:
  "getDeparted f \<Longrightarrow> \<not> canDepart f" "getLanded f \<Longrightarrow> \<not> canLand f"
  "getTowflightLanded f \<Longrightarrow> \<not> canTowflightLand f" "getLanded f \<Longrightarrow> \<not> canTouchngo f"
  "getLanded f \<Longrightarrow> landsHere f \<Longrightarrow> \<not> canDepart f \<and> finished f"
  by (auto simp: can_defs finished_def)

lemma perform_final:
  "getDeparted f \<Longrightarrow> \<not> fst (perform s now Depart f)"
  "getLanded f \<Longrightarrow> \<not> fst (perform s now Land f)"
  "getTowflightLanded f \<Longrightarrow> \<not> fst (perform s now LandTowflight f)"
  by (simp_all add: action_defs can_defs)

text \<open>An unforced departure, landing, towflight landing or touch-and-go is refused exactly with
  one of the documented reasons and then changes nothing. Once performed, a departure or landing is
  refused the next time; and after a landing here the flight is finished and can neither depart nor
  touch and go.\<close>

theorem actions_once:
  "(fst (perform s now Depart f) \<longleftrightarrow> canDepartReason f = None)
   \<and> (fst (perform s now Land f) \<longleftrightarrow> canLandReason f = None)
   \<and> (fst (perform s now LandTowflight f) \<longleftrightarrow> canTowflightLandReason f = None)
   \<and> (fst (perform s now Touchngo f) \<longleftrightarrow> canTouchngoReason f = None)
   \<and> (\<not> fst (perform s now a f) \<longrightarrow> snd (perform s now a f) = f)
   \<and> (a \<noteq> Touchngo \<longrightarrow> \<not> fst (perform s now' a (snd (perform s now a f))))
   \<and> (canLand f \<and> landsHere f \<longrightarrow>
        (let g = snd (perform s now Land f) in finished g \<and> \<not> canDepart g \<and> \<not> canTouchngo g))"
proof -
  have once: "\<not> fst (perform s now' a (snd (perform s now a f)))" if "a \<noteq> Touchngo"
  proof (cases "fst (perform s now a f)")
    case True
    note st = perform_status [OF True] and fin = perform_final [of "snd (perform s now a f)" s now']
    from that show ?thesis
    proof (cases a)
      case Depart
      then show ?thesis using st(1) fin(1) by blast
    next
      case Land
      then show ?thesis using st(2) fin(2) by blast
    next
      case LandTowflight
      then show ?thesis using st(3) fin(3) by blast
    qed simp
  next
    case False
    have "fst (perform s now' a f) = fst (perform s now a f)"
      by (cases a) (simp_all only: perform_ok_iff)
    with False perform_refused [OF False] show ?thesis by simp
  qed
  have "finished g \<and> \<not> canDepart g \<and> \<not> canTouchngo g"
    if "canLand f" "landsHere f" "g = snd (perform s now Land f)" for g
  proof -
    have "getLanded g" using that perform_status(2) [of s now Land f]
      by (simp only: perform_ok_iff canLand_def simp_thms)
    moreover have "landsHere g" using that(2) unfolding that(3) landsHere_def perform_mode .
    ultimately show ?thesis using status_final(4,5) by blast
  qed
  with once show ?thesis unfolding Let_def perform_ok_iff using perform_refused by blast
qed

theorem actions_once_witness:
  "\<not> fst (perform settings0 (Some 120000) Depart (snd (perform settings0 (Some 60000) Depart flight0)))"
  using actions_once [of settings0 "Some 60000" flight0 Depart "Some 120000"] by blast

section \<open>The sort order\<close>

text \<open>The key the order compares: prepared flights last, those coming before those departing here;
  the others by their effective time.\<close>

definition sort_key :: "flight \<Rightarrow> int \<times> int" where
  "sort_key f = (if isPrepared f then (1, if departsHere f then 1 else 0) else (0, msecs (effectiveTime f)))"

lemma flight_less_key:
  "flight_less f g \<longleftrightarrow>
     fst (sort_key f) < fst (sort_key g)
     \<or> fst (sort_key f) = fst (sort_key g) \<and> snd (sort_key f) < snd (sort_key g)"
  by (auto simp: flight_less_def flight_sort_def sort_key_def Let_def)

text \<open>The order of flights is a strict weak order, \<open>sort\<close> is antisymmetric in its sign, and the
  flights that compare equal are those with the same sort key; prepared flights come after all
  others.\<close>

theorem flight_less_strict_weak:
  "\<not> flight_less f f
   \<and> (flight_less f g \<and> flight_less g h \<longrightarrow> flight_less f h)
   \<and> ((\<not> flight_less f g \<and> \<not> flight_less g f) \<longleftrightarrow> sort_key f = sort_key g)
   \<and> flight_sort g f = - flight_sort f g
   \<and> (isPrepared g \<and> \<not> isPrepared f \<longrightarrow> flight_less f g)"
proof -
  have sort: "flight_sort g f = - flight_sort f g"
    by (simp add: flight_sort_def Let_def)
  have "isPrepared g \<and> \<not> isPrepared f \<longrightarrow> flight_less f g"
    by (simp add: flight_less_key sort_key_def)
  moreover have "\<not> flight_less f f" by (simp add: flight_less_key)
  moreover have "flight_less f g \<and> flight_less g h \<longrightarrow> flight_less f h"
    unfolding flight_less_key by linarith
  moreover have "(\<not> flight_less f g \<and> \<not> flight_less g f) \<longleftrightarrow> sort_key f = sort_key g"
    unfolding flight_less_key prod_eq_iff by linarith
  ultimately show ?thesis using sort by blast
qed

theorem flight_less_strict_weak_witness:
  "flight_less (flight0\<lparr>getDeparted := True, getDepartureTime := Some 60000\<rparr>)
     (flight0\<lparr>getMode := modeLocal\<rparr>)"
proof -
  let ?a = "flight0\<lparr>getDeparted := True, getDepartureTime := Some 60000\<rparr>"
  have "isPrepared (flight0\<lparr>getMode := modeLocal\<rparr>) \<and> \<not> isPrepared ?a"
    by (simp add: sk_defs flight0_def newFlight_def)
  then show ?thesis
    using flight_less_strict_weak [of ?a "flight0\<lparr>getMode := modeLocal\<rparr>"] by blast
qed

end
