(* ===== verification/Sk_FlightDb.thy ===== *)
theory Sk_FlightDb
  imports Sk_FlightLife
begin

text \<open>
  The remaining parts of \<^verbatim>\<open>src/src/model/Flight.cpp\<close>: the towflights made from airtows, the
  logbook criterion for collective entries, the SQL interface and the selection of flights by date.
\<close>

section \<open>Towflights\<close>

text \<open>\<open>mem\<close> is the memory the new object is built in (see \<open>newFlight\<close>).\<close>

definition makeTowflight :: "flight \<Rightarrow> dbId \<Rightarrow> dbId \<Rightarrow> flight \<Rightarrow> flight" where
  "makeTowflight mem theTowplaneId towLaunchMethod f =
     (newFlight mem 0)
       \<lparr>getId := getId f,
        getPlaneId := theTowplaneId,
        getPilotId := getTowpilotId f,
        getCopilotId := invalidId,
        getTowpilotId := invalidId,
        getDepartureTime := getDepartureTime f,
        getLandingTime := getTowflightLandingTime f,
        getTowflightLandingTime := None,
        getLaunchMethodId := towLaunchMethod,
        getType := typeTow,
        getDepartureLocation := getDepartureLocation f,
        getLandingLocation := getTowflightLandingLocation f,
        getTowflightLandingLocation := [],
        getNumLandings := (if towflightLandsHere f \<and> getTowflightLanded f then 1 else 0),
        getComments := qArg ''Towflight for flight %1'' (decimal (uint (getId f))),
        getAccountingNotes := ''(See glider flight)'',
        getMode := getTowflightMode f,
        getTowflightMode := modeLocal,
        getPilotLastName := getTowpilotLastName f,
        getPilotFirstName := getTowpilotFirstName f,
        getCopilotLastName := [],
        getCopilotFirstName := [],
        getTowpilotLastName := [],
        getTowpilotFirstName := [],
        getTowplaneId := invalidId,
        getDeparted := getDeparted f,
        getLanded := getTowflightLanded f,
        getTowflightLanded := False,
        getFlarmId := []\<rparr>"

definition makeTowflightFrom :: "flight \<Rightarrow> cache_view \<Rightarrow> flight \<Rightarrow> flight" where
  "makeTowflightFrom mem cv f =
     makeTowflight mem (effectiveTowplaneId cv f) (cv_launchMethodByType cv typeSelf) f"

definition makeTowflights :: "flight \<Rightarrow> cache_view \<Rightarrow> flight list \<Rightarrow> flight list" where
  "makeTowflights mem cv fs =
     (let towLaunchMethod = cv_launchMethodByType cv typeSelf in
      foldl (\<lambda>tows f. if isAirtow cv f
         then tows @ [makeTowflight mem (effectiveTowplaneId cv f) towLaunchMethod f] else tows) [] fs)"

lemma makeTowflights_eq:
  "makeTowflights mem cv fs = map (makeTowflightFrom mem cv) (filter (isAirtow cv) fs)"
proof -
  have "foldl (\<lambda>tows f. if isAirtow cv f then tows @ [g f] else tows) acc fs
      = acc @ map g (filter (isAirtow cv) fs)" for g :: "flight \<Rightarrow> flight" and acc
    by (induction fs arbitrary: acc) auto
  then show ?thesis by (simp add: makeTowflights_def makeTowflightFrom_def)
qed

lemma makeTowflight_fields [simp]:
  "getId (makeTowflight mem p l f) = getId f"
  "getPlaneId (makeTowflight mem p l f) = p"
  "getType (makeTowflight mem p l f) = typeTow"
  "getMode (makeTowflight mem p l f) = getTowflightMode f"
  "getDeparted (makeTowflight mem p l f) = getDeparted f"
  "getLanded (makeTowflight mem p l f) = getTowflightLanded f"
  "getDepartureTime (makeTowflight mem p l f) = getDepartureTime f"
  "getLandingTime (makeTowflight mem p l f) = getTowflightLandingTime f"
  "getLaunchMethodId (makeTowflight mem p l f) = l"
  "cachedErrorsValid (makeTowflight mem p l f) = False"
  by (simp_all add: makeTowflight_def newFlight_def)

text \<open>The modes a towflight can have are those of \<open>listTowModes\<close>; the status of a flight is
  plausible if nothing landed without a departure.\<close>

definition tow_ok :: "flight \<Rightarrow> bool" where
  "tow_ok f \<longleftrightarrow> getTowflightMode f \<in> set listTowModes
     \<and> (getLanded f \<or> getTowflightLanded f \<longrightarrow> getDeparted f)"

text \<open>Making the towflights keeps one towflight per airtow, in order, with the flight's id; a
  towflight is flying exactly when the towplane of its flight is, and it is prepared exactly when
  its flight is (the assumption on which \<open>Cache::getPreparedFlights\<close> rests).\<close>

theorem makeTowflights_status:
  assumes "\<forall>f \<in> set fs. tow_ok f"
  shows "map getId (makeTowflights mem cv fs) = map getId (filter (isAirtow cv) fs)
    \<and> list_all2 (\<lambda>t f. isTowflight t \<and> (isFlying t \<longleftrightarrow> isTowplaneFlying f)
         \<and> (isPrepared t \<longleftrightarrow> isPrepared f) \<and> (finished t \<longleftrightarrow> getTowflightLanded f))
        (makeTowflights mem cv fs) (filter (isAirtow cv) fs)"
proof -
  have one: "isTowflight t \<and> (isFlying t \<longleftrightarrow> isTowplaneFlying f) \<and> (isPrepared t \<longleftrightarrow> isPrepared f)
      \<and> (finished t \<longleftrightarrow> getTowflightLanded f)"
    if "isAirtow cv f" "tow_ok f" "t = makeTowflightFrom mem cv f" for t f
    using that
    by (auto simp: makeTowflightFrom_def isAirtow_def tow_ok_def listTowModes_def status_defs
        modeLandsHere_def modeDepartsHere_def split: if_splits)
  have ids: "map getId (makeTowflights mem cv fs) = map getId (filter (isAirtow cv) fs)"
    by (simp add: makeTowflights_eq makeTowflightFrom_def o_def)
  have "list_all2 (\<lambda>t f. isTowflight t \<and> (isFlying t \<longleftrightarrow> isTowplaneFlying f)
         \<and> (isPrepared t \<longleftrightarrow> isPrepared f) \<and> (finished t \<longleftrightarrow> getTowflightLanded f))
        (map (makeTowflightFrom mem cv) gs) gs"
    if "\<forall>f \<in> set gs. isAirtow cv f \<and> tow_ok f" for gs
    using that by (induction gs) (simp, use one in \<open>simp\<close>)
  with assms ids show ?thesis by (simp add: makeTowflights_eq)
qed

theorem makeTowflights_status_witness:
  "map getId (makeTowflights mem0 view0 [flight0\<lparr>getDeparted := True\<rparr>, flight0\<lparr>getLaunchMethodId := 0\<rparr>]) = [7]"
proof -
  have "\<forall>f \<in> set [flight0\<lparr>getDeparted := True\<rparr>, flight0\<lparr>getLaunchMethodId := 0\<rparr>]. tow_ok f"
    by (simp add: tow_ok_def flight0_def newFlight_def listTowModes_def)
  from makeTowflights_status [OF this, of mem0 view0] show ?thesis
    by (simp add: isAirtow_def flight0_def newFlight_def view0_def status_defs sk_defs lm_isAirtow_def)
qed

text \<open>The constructor leaves the crew size, the passenger count and the uploaded mark of a towflight
  unset: they are what the memory held, whatever the flight says.\<close>

theorem makeTowflight_uninitialised:
  "getNumCrew (makeTowflight mem p l f) = getNumCrew mem
   \<and> getNumPax (makeTowflight mem p l f) = getNumPax mem
   \<and> getUploaded (makeTowflight mem p l f) = getUploaded mem
   \<and> (makeTowflight mem p l f)\<lparr>getNumCrew := a, getNumPax := b, getUploaded := c\<rparr>
       = (makeTowflight mem' p l f)\<lparr>getNumCrew := a, getNumPax := b, getUploaded := c\<rparr>"
  by (simp add: makeTowflight_def newFlight_def)

section \<open>Collective log entries\<close>

definition sameLocation :: "qstring \<Rightarrow> qstring \<Rightarrow> bool" where
  "sameLocation a b \<longleftrightarrow> toLower (trimmed a) = toLower (trimmed b)"

definition collectiveLogEntryPossible :: "flight \<Rightarrow> plane option \<Rightarrow> flight \<Rightarrow> bool" where
  "collectiveLogEntryPossible prev plane f =
     (if getMode prev \<noteq> modeLocal \<or> getMode f \<noteq> modeLocal then False
      else if \<not> sameLocation (getDepartureLocation prev) (getLandingLocation prev) then False
      else if \<not> sameLocation (getLandingLocation prev) (getDepartureLocation f) then False
      else if \<not> sameLocation (getDepartureLocation f) (getLandingLocation f) then False
      else (case plane of
          Some p \<Rightarrow> if pl_category p = categoryGlider \<or> pl_category p = categoryMotorglider then True
                    else isTowflight prev \<and> isTowflight f
        | None \<Rightarrow> isTowflight prev \<and> isTowflight f))"

section \<open>The SQL interface\<close>

definition f_dbTableName :: qstring where
  "f_dbTableName = ''flights''"

definition f_selectColumnList :: qstring where
  "f_selectColumnList =
     ''id,pilot_id,copilot_id,supervisor_id,plane_id,type,mode,departed,landed,towflight_landed''
     @ '',launch_method_id,departure_location,landing_location,num_landings,CAST(departure_time AS CHAR),CAST(landing_time AS CHAR)''
     @ '',pilot_last_name,pilot_first_name,copilot_last_name,copilot_first_name''
     @ '',CAST(towflight_landing_time AS CHAR),towflight_mode,towflight_landing_location,towplane_id''
     @ '',accounting_notes,comments''
     @ '',towpilot_id,towpilot_last_name,towpilot_first_name''
     @ '',flarm_id,vfid''
     @ '',num_crew, num_pax''
     @ '',uploaded''"

definition f_insertColumnList :: qstring where
  "f_insertColumnList =
     ''pilot_id,copilot_id,supervisor_id,plane_id,type,mode,departed,landed,towflight_landed''
     @ '',launch_method_id,departure_location,landing_location,num_landings,departure_time,landing_time''
     @ '',pilot_last_name,pilot_first_name,copilot_last_name,copilot_first_name''
     @ '',towflight_landing_time,towflight_mode,towflight_landing_location,towplane_id''
     @ '',accounting_notes,comments''
     @ '',towpilot_id,towpilot_last_name,towpilot_first_name''
     @ '',flarm_id,vfid''
     @ '',num_crew,num_pax''
     @ '',uploaded''"

definition f_insertPlaceholderList :: qstring where
  "f_insertPlaceholderList =
     ''?,?,?,?,?,?,?,?,?'' @ '',?,?,?,?,?,?'' @ '',?,?,?,?'' @ '',?,?,?,?'' @ '',?,?'' @ '',?,?,?''
     @ '',?,?'' @ '',?,?'' @ '',?''"

definition f_createFromResult ::
    "(qstring \<Rightarrow> qdatetime) \<Rightarrow> (qstring \<Rightarrow> qdate) \<Rightarrow> result_row \<Rightarrow> flight" where
  "f_createFromResult pt pd r =
     (newFlight mem0 (toDbId (vToLongLong (r 0))))
       \<lparr>getPilotId := toDbId (vToLongLong (r 1)),
        getCopilotId := toDbId (vToLongLong (r 2)),
        getSupervisorId := toDbId (vToLongLong (r 3)),
        getPlaneId := toDbId (vToLongLong (r 4)),
        getType := typeFromDb (vToString (r 5)),
        getMode := modeFromDb (vToString (r 6)),
        getDeparted := vToBool (r 7),
        getLanded := vToBool (r 8),
        getTowflightLanded := vToBool (r 9),
        getLaunchMethodId := toDbId (vToLongLong (r 10)),
        getDepartureLocation := vToString (r 11),
        getLandingLocation := vToString (r 12),
        getNumLandings := vToInt (r 13),
        getDepartureTime := vToDateTime pt (r 14),
        getLandingTime := vToDateTime pt (r 15),
        getPilotLastName := vToString (r 16),
        getPilotFirstName := vToString (r 17),
        getCopilotLastName := vToString (r 18),
        getCopilotFirstName := vToString (r 19),
        getTowflightLandingTime := vToDateTime pt (r 20),
        getTowflightMode := modeFromDb (vToString (r 21)),
        getTowflightLandingLocation := vToString (r 22),
        getTowplaneId := toDbId (vToLongLong (r 23)),
        getAccountingNotes := vToString (r 24),
        getComments := vToString (r 25),
        getTowpilotId := toDbId (vToLongLong (r 26)),
        getTowpilotLastName := vToString (r 27),
        getTowpilotFirstName := vToString (r 28),
        getFlarmId := vToString (r 29),
        getVfId := toDbId (vToLongLong (r 30)),
        getNumCrew := vToInt (r 31),
        getNumPax := vToInt (r 32),
        getUploaded := vToBool (r 33)\<rparr>"

definition f_createFromDataMap :: "(qstring \<Rightarrow> qdatetime) \<Rightarrow> (qstring \<rightharpoonup> qstring) \<Rightarrow> flight" where
  "f_createFromDataMap pt m =
     (newFlight mem0 (toDbId (strToLongLong (mapAt m ''id''))))
       \<lparr>getPilotId := toDbId (strToLongLong (mapAt m ''pilot_id'')),
        getCopilotId := toDbId (strToLongLong (mapAt m ''copilot_id'')),
        getSupervisorId := toDbId (strToLongLong (mapAt m ''supervisor_id'')),
        getPlaneId := toDbId (strToLongLong (mapAt m ''plane_id'')),
        getType := typeFromDb (mapAt m ''type''),
        getMode := modeFromDb (mapAt m ''mode''),
        getDeparted := (strToInt (mapAt m ''departed'') \<noteq> 0),
        getLanded := (strToInt (mapAt m ''landed'') \<noteq> 0),
        getTowflightLanded := (strToInt (mapAt m ''towflight_landed'') \<noteq> 0),
        getLaunchMethodId := toDbId (strToLongLong (mapAt m ''launch_method_id'')),
        getDepartureLocation := mapAt m ''departure_location'',
        getLandingLocation := mapAt m ''landing_location'',
        getNumLandings := strToInt (mapAt m ''num_landings''),
        getDepartureTime := pt (mapAt m ''departure_time''),
        getLandingTime := pt (mapAt m ''landing_time''),
        getPilotLastName := mapAt m ''pilot_last_name'',
        getPilotFirstName := mapAt m ''pilot_first_name'',
        getCopilotLastName := mapAt m ''copilot_last_name'',
        getCopilotFirstName := mapAt m ''copilot_first_name'',
        getTowflightLandingTime := pt (mapAt m ''towflight_landing_time''),
        getTowflightMode := modeFromDb (mapAt m ''towflight_mode''),
        getTowflightLandingLocation := mapAt m ''towflight_landing_location'',
        getTowplaneId := toDbId (strToLongLong (mapAt m ''towplane_id'')),
        getAccountingNotes := mapAt m ''accounting_notes'',
        getComments := mapAt m ''comments'',
        getTowpilotId := toDbId (strToLongLong (mapAt m ''towpilot_id'')),
        getTowpilotLastName := mapAt m ''towpilot_last_name'',
        getTowpilotFirstName := mapAt m ''towpilot_first_name'',
        getFlarmId := mapAt m ''flarm_id'',
        getNumCrew := strToInt (mapAt m ''num_crew''),
        getNumPax := strToInt (mapAt m ''num_pax''),
        getUploaded := (strToInt (mapAt m ''uploaded'') \<noteq> 0)\<rparr>"

definition f_bindValues :: "flight \<Rightarrow> qvariant list" where
  "f_bindValues f =
     [VId (getPilotId f), VId (getCopilotId f), VId (getSupervisorId f), VId (getPlaneId f),
      VString (typeToDb (getType f)), VString (modeToDb (getMode f)), VBool (getDeparted f),
      VBool (getLanded f), VBool (getTowflightLanded f),
      VId (getLaunchMethodId f), VString (getDepartureLocation f), VString (getLandingLocation f),
      VInt (getNumLandings f), VDateTime (getDepartureTime f), VDateTime (getLandingTime f),
      VString (getPilotLastName f), VString (getPilotFirstName f), VString (getCopilotLastName f),
      VString (getCopilotFirstName f),
      VDateTime (getTowflightLandingTime f), VString (modeToDb (getTowflightMode f)),
      VString (getTowflightLandingLocation f), VId (getTowplaneId f),
      VString (getAccountingNotes f), VString (getComments f),
      VId (getTowpilotId f), VString (getTowpilotLastName f), VString (getTowpilotFirstName f),
      VString (getFlarmId f), VId (getVfId f),
      VInt (getNumCrew f), VInt (getNumPax f), VBool (getUploaded f)]"

text \<open>A flight that can be stored: the counts fit an \<open>int\<close>, the times are whole seconds (the actions
  only store whole minutes), and its cached error list is the empty one of a new object.\<close>

definition whole_seconds :: "qdatetime \<Rightarrow> bool" where
  "whole_seconds t \<longleftrightarrow> (case t of None \<Rightarrow> True | Some m \<Rightarrow> m mod 1000 = 0)"

definition storable :: "flight \<Rightarrow> bool" where
  "storable f \<longleftrightarrow> fits_int (getNumLandings f) \<and> fits_int (getNumCrew f) \<and> fits_int (getNumPax f)
     \<and> whole_seconds (getDepartureTime f) \<and> whole_seconds (getLandingTime f)
     \<and> whole_seconds (getTowflightLandingTime f)
     \<and> cachedErrors f = [] \<and> \<not> cachedErrorsValid f"

lemma driver_ok_time:
  assumes "driver_ok pt pd drv" "whole_seconds t"
  shows "vToDateTime pt (drv (VDateTime t)) = t"
  using assms(2) by (intro driver_okD(6) [OF assms(1)]) (simp add: whole_seconds_def)

lemma nullSeconds_whole: "whole_seconds (nullSeconds t)"
proof (cases t)
  case (Some m)
  have "m - m mod 60000 = 1000 * (60 * (m div 60000))"
    by (simp add: minus_mod_eq_mult_div)
  with Some show ?thesis by (simp add: whole_seconds_def nullSeconds_def)
qed (simp add: whole_seconds_def nullSeconds_def)

lemma f_row_roundtrip:
  assumes "storable f" "driver_ok pt pd drv"
  shows "f_createFromResult pt pd (stored_row drv (getId f) (f_bindValues f)) = f"
  using assms(1)
  by (simp add: f_createFromResult_def f_bindValues_def newFlight_def driver_okD(1-5) [OF assms(2)]
      driver_ok_time [OF assms(2)] storable_def fits_int_def eval_nat_numeral)

lemma columns_append: "columns (s @ CHR '','' # t) = columns s + columns t"
  by (simp add: columns_def count_list_append)

interpretation fl: stored_entity getId f_createFromResult f_bindValues f_dbTableName
  f_insertColumnList f_insertPlaceholderList storable
proof
  show "f_createFromResult pt pd (stored_row drv (getId x) (f_bindValues x)) = x"
    if "storable x" "driver_ok pt pd drv" for x pt pd drv
    using that by (rule f_row_roundtrip)
qed (simp_all add: f_dbTableName_def f_insertColumnList_def f_insertPlaceholderList_def
      f_bindValues_def columns_def)



text \<open>Reading a flight from a data map loses the Vereinsflieger id: the constructor does not look
  at any key for it, although \<open>createFromResult\<close> restores it from the row.\<close>

theorem f_createFromDataMap_loses_vfid:
  "getVfId (f_createFromDataMap pt (m(''vfid'' \<mapsto> v))) = invalidId
   \<and> getVfId (f_createFromResult pt' pd (stored_row (\<lambda>v. v) i (f_bindValues (f\<lparr>getVfId := w\<rparr>)))) = w"
  by (simp add: f_createFromDataMap_def f_createFromResult_def newFlight_def f_bindValues_def
      eval_nat_numeral)

section \<open>Conditions on references and dates\<close>

definition referencesPersonCondition :: "dbId \<Rightarrow> query" where
  "referencesPersonCondition i =
     q_bind (q_bind (q_bind (mkQuery ''pilot_id=? OR copilot_id=? OR towpilot_id=?'') (VId i)) (VId i)) (VId i)"

definition referencesPlaneCondition :: "dbId \<Rightarrow> query" where
  "referencesPlaneCondition i = q_bind (q_bind (mkQuery ''plane_id=? OR towplane_id=?'') (VId i)) (VId i)"

definition referencesLaunchMethodCondition :: "dbId \<Rightarrow> query" where
  "referencesLaunchMethodCondition i = q_bind (mkQuery ''launch_method_id=?'') (VId i)"

text \<open>A date-time that is bound as the midnight of a date; the driver passes the wall clock fields.\<close>

definition midnightOf :: "int \<Rightarrow> qdatetime" where
  "midnightOf d = Some (d * 86400000)"

definition dateRangeSupersetCondition :: "int \<Rightarrow> int \<Rightarrow> query" where
  "dateRangeSupersetCondition firstDay lastDay =
     (let firstMidnight = midnightOf firstDay; lastMidnight = midnightOf (lastDay + 1) in
      foldl q_bind (mkQuery ''(departure_time>=? AND departure_time<?) OR (landing_time>=? AND landing_time<?)'')
        [VDateTime firstMidnight, VDateTime lastMidnight, VDateTime firstMidnight, VDateTime lastMidnight])"

text \<open>QDate comparison: a null date is before every other date.\<close>

definition qdate_le :: "qdate \<Rightarrow> qdate \<Rightarrow> bool" where
  "qdate_le a b \<longleftrightarrow> (case (a, b) of (None, _) \<Rightarrow> True | (Some x, None) \<Rightarrow> False | (Some x, Some y) \<Rightarrow> x \<le> y)"

definition dateRangeSupersetFilter :: "flight list \<Rightarrow> qdate \<Rightarrow> qdate \<Rightarrow> flight list" where
  "dateRangeSupersetFilter superset firstDay lastDay =
     foldl (\<lambda>result f. let effectiveDate = effdatum utc f in
       if happened f \<and> qdate_le firstDay effectiveDate \<and> qdate_le effectiveDate lastDay
       then result @ [f] else result) [] superset"

definition dateSupersetCondition :: "int \<Rightarrow> query" where
  "dateSupersetCondition d = dateRangeSupersetCondition d d"

definition dateSupersetFilter :: "flight list \<Rightarrow> qdate \<Rightarrow> flight list" where
  "dateSupersetFilter superset d = dateRangeSupersetFilter superset d d"

text \<open>What the condition says of a row, as SQL evaluates it: a comparison with NULL is not true.\<close>

definition sql_in_range :: "qdatetime \<Rightarrow> qdatetime \<Rightarrow> qdatetime \<Rightarrow> bool" where
  "sql_in_range lo hi t = (case (lo, hi, t) of (Some l, Some h, Some x) \<Rightarrow> l \<le> x \<and> x < h | _ \<Rightarrow> False)"

fun sql_date_condition :: "qvariant list \<Rightarrow> flight \<Rightarrow> bool" where
  "sql_date_condition [VDateTime a, VDateTime b, VDateTime c, VDateTime d] f \<longleftrightarrow>
     sql_in_range a b (getDepartureTime f) \<or> sql_in_range c d (getLandingTime f)"
| "sql_date_condition _ f \<longleftrightarrow> False"

lemma dateRangeSupersetFilter_eq:
  "dateRangeSupersetFilter fs a b =
     filter (\<lambda>f. happened f \<and> qdate_le a (effdatum utc f) \<and> qdate_le (effdatum utc f) b) fs"
proof -
  have "foldl (\<lambda>result f. let e = effdatum utc f in
      if happened f \<and> qdate_le a e \<and> qdate_le e b then result @ [f] else result) acc fs
      = acc @ filter (\<lambda>f. happened f \<and> qdate_le a (effdatum utc f) \<and> qdate_le (effdatum utc f) b) fs" for acc
    by (induction fs arbitrary: acc) (auto simp: Let_def)
  then show ?thesis by (simp add: dateRangeSupersetFilter_def)
qed

lemma day_range:
  assumes "(a::int) \<le> x div 86400000" "x div 86400000 \<le> b"
  shows "a * 86400000 \<le> x \<and> x < (b + 1) * 86400000"
proof -
  have "a * 86400000 \<le> x div 86400000 * 86400000" "x div 86400000 * 86400000 \<le> b * 86400000"
    using assms by simp_all
  moreover have "x = x div 86400000 * 86400000 + x mod 86400000" by simp
  moreover have "0 \<le> x mod 86400000" "x mod 86400000 < 86400000" by simp_all
  ultimately show ?thesis unfolding distrib_right by linarith
qed

text \<open>Selecting flights by date in two steps is exact: the SQL condition selects a superset of the
  flights that happened on a day of the range, so filtering the selected rows gives the same list as
  filtering all flights.\<close>

theorem date_selection_exact:
  assumes "\<forall>f \<in> set fs. happened f \<longrightarrow> effectiveTime f \<noteq> None"
  shows "dateRangeSupersetFilter
      (filter (sql_date_condition (bindValues (dateRangeSupersetCondition a b))) fs) (Some a) (Some b)
    = dateRangeSupersetFilter fs (Some a) (Some b)"
proof -
  have "sql_date_condition (bindValues (dateRangeSupersetCondition a b)) f"
    if f: "f \<in> set fs" "happened f" "qdate_le (Some a) (effdatum utc f)" "qdate_le (effdatum utc f) (Some b)" for f
  proof -
    obtain x where x: "effectiveTime f = Some x" using assms f by auto
    with f(3,4) have "a \<le> x div 86400000" "x div 86400000 \<le> b"
      by (auto simp: effdatum_def dateIn_def utc_def qdate_le_def)
    from day_range [OF this] have "sql_in_range (midnightOf a) (midnightOf (b + 1)) (Some x)"
      by (simp add: sql_in_range_def midnightOf_def)
    moreover from x have "getDepartureTime f = Some x \<or> getLandingTime f = Some x"
      by (auto simp: effectiveTime_def split: if_splits)
    ultimately show ?thesis
      by (auto simp: dateRangeSupersetCondition_def Let_def q_bind_def mkQuery_def)
  qed
  then show ?thesis unfolding dateRangeSupersetFilter_eq filter_filter by (auto intro: filter_cong)
qed

theorem date_selection_exact_witness:
  "dateRangeSupersetFilter
      (filter (sql_date_condition (bindValues (dateRangeSupersetCondition 0 1)))
         [flight0\<lparr>getDeparted := True, getDepartureTime := Some 60000\<rparr>, flight0]) (Some 0) (Some 1)
    = [flight0\<lparr>getDeparted := True, getDepartureTime := Some 60000\<rparr>]"
proof -
  let ?fs = "[flight0\<lparr>getDeparted := True, getDepartureTime := Some 60000\<rparr>, flight0]"
  have "\<forall>f \<in> set ?fs. happened f \<longrightarrow> effectiveTime f \<noteq> None"
    by (simp add: flight0_def newFlight_def status_defs sk_defs effectiveTime_def)
  from date_selection_exact [OF this, of 0 1] show ?thesis
    by (simp add: dateRangeSupersetFilter_eq flight0_def newFlight_def status_defs sk_defs
        effectiveTime_def effdatum_def dateIn_def qdate_le_def utc_def)
qed

text \<open>Which flights \<open>referencesPersonCondition\<close> selects.\<close>

fun sql_person_condition :: "qvariant list \<Rightarrow> flight \<Rightarrow> bool" where
  "sql_person_condition [VId a, VId b, VId c] f \<longleftrightarrow>
     getPilotId f = a \<or> getCopilotId f = b \<or> getTowpilotId f = c"
| "sql_person_condition _ f \<longleftrightarrow> False"

text \<open>The check whether a person is used misses supervisors: the condition does not mention the
  column \<open>supervisor_id\<close>, so that a person who is only the supervisor of a flight counts as unused
  and can be deleted.\<close>

theorem supervisor_not_referenced:
  "sql_person_condition (bindValues (referencesPersonCondition i))
      (f\<lparr>getPilotId := p, getCopilotId := c, getTowpilotId := t, getSupervisorId := i\<rparr>)
    \<longleftrightarrow> i \<in> {p, c, t}"
  by (auto simp: referencesPersonCondition_def q_bind_def mkQuery_def)

end
