(* ===== verification/Sk_Containers.thy ===== *)
theory Sk_Containers
  imports Sk_Prelude
begin

text \<open>
  The containers of \<^verbatim>\<open>src/src/container\<close> and \<^verbatim>\<open>src/src/model/objectList\<close>: the object lists
  that tell their observers about row changes (\<open>MutableObjectList\<close>, \<open>EntityList\<close>), the sorted set
  with its cached list (\<open>SortedSet\<close>), the multi hash (\<open>SkMultiHash\<close>), the optional value
  (\<open>Maybe\<close>) and the value with a sort key. The locale \<open>sorted_store\<close> is the contract the cache's
  string lists rest on.
\<close>

section \<open>MutableObjectList\<close>

text \<open>The signals of QAbstractItemModel; a trace pairs a signal with the list an observer sees when it
  is emitted (the end of the change).\<close>

datatype row_signal =
    rowsInserted nat nat | rowsRemoved nat nat | rowsChanged nat nat | modelReset

record 'a objectList =
  rows :: "'a list"
  trace :: "(row_signal \<times> 'a list) list"

definition mkList :: "'a list \<Rightarrow> 'a objectList" where
  "mkList xs = \<lparr>rows = xs, trace = []\<rparr>"

definition notify :: "row_signal \<Rightarrow> 'a list \<Rightarrow> 'a objectList \<Rightarrow> 'a objectList" where
  "notify s xs l = \<lparr>rows = xs, trace = trace l @ [(s, xs)]\<rparr>"

definition ol_removeAt :: "nat \<Rightarrow> 'a objectList \<Rightarrow> 'a objectList" where
  "ol_removeAt i l = notify (rowsRemoved i i) (take i (rows l) @ drop (Suc i) (rows l)) l"

definition ol_append :: "'a \<Rightarrow> 'a objectList \<Rightarrow> 'a objectList" where
  "ol_append x l = notify (rowsInserted (length (rows l)) (length (rows l))) (rows l @ [x]) l"

definition ol_prepend :: "'a \<Rightarrow> 'a objectList \<Rightarrow> 'a objectList" where
  "ol_prepend x l = notify (rowsInserted 0 0) (x # rows l) l"

definition ol_insert :: "nat \<Rightarrow> 'a \<Rightarrow> 'a objectList \<Rightarrow> 'a objectList" where
  "ol_insert i x l = notify (rowsInserted i i) (take i (rows l) @ x # drop i (rows l)) l"

definition ol_update :: "nat \<Rightarrow> 'a objectList \<Rightarrow> 'a objectList" where
  "ol_update i l = notify (rowsChanged i i) (rows l) l"

definition ol_replace :: "nat \<Rightarrow> 'a \<Rightarrow> 'a objectList \<Rightarrow> 'a objectList" where
  "ol_replace i x l = ol_update i (l\<lparr>rows := (rows l)[i := x]\<rparr>)"

definition ol_clear :: "'a objectList \<Rightarrow> 'a objectList" where
  "ol_clear l = notify modelReset [] l"

definition ol_replaceList :: "'a list \<Rightarrow> 'a objectList \<Rightarrow> 'a objectList" where
  "ol_replaceList xs l = notify modelReset xs l"

text \<open>An assignment takes the other list over without a signal.\<close>

definition ol_assign :: "'a objectList \<Rightarrow> 'a objectList \<Rightarrow> 'a objectList" where
  "ol_assign other l = l\<lparr>rows := rows other\<rparr>"

definition ol_plus :: "'a objectList \<Rightarrow> 'a objectList \<Rightarrow> 'a objectList" where
  "ol_plus a b = mkList (rows a @ rows b)"

lemma mkList_simps [simp]: "rows (mkList xs) = xs" "trace (mkList xs) = []"
  by (simp_all add: mkList_def)

lemma ol_simps [simp]:
  "rows (ol_removeAt i l) = take i (rows l) @ drop (Suc i) (rows l)"
  "rows (ol_append x l) = rows l @ [x]"
  "rows (ol_prepend x l) = x # rows l"
  "rows (ol_insert i x l) = take i (rows l) @ x # drop i (rows l)"
  "rows (ol_update i l) = rows l"
  "rows (ol_replace i x l) = (rows l)[i := x]"
  "rows (ol_clear l) = []"
  "rows (ol_replaceList xs l) = xs"
  by (simp_all add: ol_removeAt_def ol_append_def ol_prepend_def ol_insert_def ol_update_def
      ol_replace_def ol_clear_def ol_replaceList_def notify_def)

section \<open>EntityList\<close>

text \<open>The loops count an index up, as the code does; \<open>gid\<close> is \<open>T::getId\<close>.\<close>

function findFrom :: "('a \<Rightarrow> dbId) \<Rightarrow> dbId \<Rightarrow> nat \<Rightarrow> 'a objectList \<Rightarrow> int" where
  "findFrom gid i n l =
     (if n < length (rows l) then (if gid (rows l ! n) = i then int n else findFrom gid i (Suc n) l)
      else -1)"
  by pat_completeness auto
termination
  by (relation "measure (\<lambda>(gid, i, n, l). length (rows l) - n)") auto

definition findById :: "('a \<Rightarrow> dbId) \<Rightarrow> dbId \<Rightarrow> 'a objectList \<Rightarrow> int" where
  "findById gid i l = findFrom gid i 0 l"

function removeFrom :: "('a \<Rightarrow> dbId) \<Rightarrow> dbId \<Rightarrow> nat \<Rightarrow> 'a objectList \<Rightarrow> 'a objectList" where
  "removeFrom gid i n l =
     (if n < length (rows l)
      then (if gid (rows l ! n) = i then removeFrom gid i n (ol_removeAt n l)
            else removeFrom gid i (Suc n) l)
      else l)"
  by pat_completeness auto
termination
  by (relation "measure (\<lambda>(gid, i, n, l). length (rows l) - n)") auto

definition removeById :: "('a \<Rightarrow> dbId) \<Rightarrow> dbId \<Rightarrow> 'a objectList \<Rightarrow> 'a objectList" where
  "removeById gid i l = removeFrom gid i 0 l"

function replaceFrom :: "('a \<Rightarrow> dbId) \<Rightarrow> dbId \<Rightarrow> 'a \<Rightarrow> nat \<Rightarrow> 'a objectList \<Rightarrow> 'a objectList" where
  "replaceFrom gid i x n l =
     (if n < length (rows l)
      then replaceFrom gid i x (Suc n) (if gid (rows l ! n) = i then ol_replace n x l else l)
      else l)"
  by pat_completeness auto
termination
  by (relation "measure (\<lambda>(gid, i, x, n, l). length (rows l) - n)") auto

definition replaceById :: "('a \<Rightarrow> dbId) \<Rightarrow> dbId \<Rightarrow> 'a \<Rightarrow> 'a objectList \<Rightarrow> 'a objectList" where
  "replaceById gid i x l = replaceFrom gid i x 0 l"

definition replaceOrAdd :: "('a \<Rightarrow> dbId) \<Rightarrow> dbId \<Rightarrow> 'a \<Rightarrow> 'a objectList \<Rightarrow> 'a objectList" where
  "replaceOrAdd gid i x l =
     (if findById gid i l \<ge> 0 then replaceById gid i x l else ol_append x l)"

declare findFrom.simps [simp del] removeFrom.simps [simp del] replaceFrom.simps [simp del]

lemma take_nth_drop: "n < length xs \<Longrightarrow> take n xs @ xs ! n # drop (Suc n) xs = xs"
  by (simp add: id_take_nth_drop [symmetric])

lemma findFrom_nonneg: "findFrom gid i n l \<ge> 0 \<longleftrightarrow> (\<exists>x \<in> set (drop n (rows l)). gid x = i)"
proof (induction gid i n l rule: findFrom.induct)
  case (1 gid i n l)
  show ?case
  proof (cases "n < length (rows l)")
    case True
    then have "drop n (rows l) = rows l ! n # drop (Suc n) (rows l)" by (simp add: Cons_nth_drop_Suc)
    with 1 True show ?thesis by (subst findFrom.simps) auto
  qed (subst findFrom.simps, simp)
qed

lemma findById_nonneg: "findById gid i l \<ge> 0 \<longleftrightarrow> i \<in> gid ` set (rows l)"
  by (auto simp: findById_def findFrom_nonneg)

lemma findFrom_sound:
  "findFrom gid i n l = int k \<Longrightarrow> k < length (rows l) \<and> gid (rows l ! k) = i"
proof (induction gid i n l rule: findFrom.induct)
  case (1 gid i n l)
  from "1.prems" have "(if n < length (rows l) then (if gid (rows l ! n) = i then int n
      else findFrom gid i (Suc n) l) else -1) = int k"
    by (simp only: findFrom.simps [of gid i n l, symmetric])
  with "1.IH" show ?case by (auto split: if_splits)
qed

lemma removeFrom_rows:
  "n \<le> length (rows l) \<Longrightarrow>
    rows (removeFrom gid i n l) = take n (rows l) @ filter (\<lambda>x. gid x \<noteq> i) (drop n (rows l))"
proof (induction gid i n l rule: removeFrom.induct)
  case (1 gid i n l)
  show ?case
  proof (cases "n < length (rows l)")
    case True
    then have d: "drop n (rows l) = rows l ! n # drop (Suc n) (rows l)" by (simp add: Cons_nth_drop_Suc)
    have t: "take (Suc n) (rows l) = take n (rows l) @ [rows l ! n]"
      using True by (simp add: take_Suc_conv_app_nth)
    from 1 True d t show ?thesis by (subst removeFrom.simps) auto
  qed (use 1 in \<open>subst removeFrom.simps, simp\<close>)
qed

lemma removeById_rows [simp]: "rows (removeById gid i l) = filter (\<lambda>x. gid x \<noteq> i) (rows l)"
  by (simp add: removeById_def removeFrom_rows)

lemma replaceFrom_rows:
  "n \<le> length (rows l) \<Longrightarrow>
    rows (replaceFrom gid i x n l)
      = take n (rows l) @ map (\<lambda>y. if gid y = i then x else y) (drop n (rows l))"
proof (induction gid i x n l rule: replaceFrom.induct)
  case (1 gid i x n l)
  show ?case
  proof (cases "n < length (rows l)")
    case True
    then have d: "drop n (rows l) = rows l ! n # drop (Suc n) (rows l)" by (simp add: Cons_nth_drop_Suc)
    have t: "take (Suc n) (rows l) = take n (rows l) @ [rows l ! n]"
      "take (Suc n) ((rows l)[n := x]) = take n (rows l) @ [x]"
      using True by (simp_all add: take_Suc_conv_app_nth)
    from 1 True d t show ?thesis by (subst replaceFrom.simps) auto
  qed (use 1 in \<open>subst replaceFrom.simps, simp\<close>)
qed

lemma replaceById_rows [simp]:
  "rows (replaceById gid i x l) = map (\<lambda>y. if gid y = i then x else y) (rows l)"
  by (simp add: replaceById_def replaceFrom_rows)

lemma replaceOrAdd_rows [simp]:
  "rows (replaceOrAdd gid i x l) =
     (if i \<in> gid ` set (rows l) then map (\<lambda>y. if gid y = i then x else y) (rows l) else rows l @ [x])"
  by (simp add: replaceOrAdd_def findById_nonneg)

lemma replaceOrAdd_in: "x \<in> set (rows (replaceOrAdd gid i x l))"
  by (auto simp: image_iff)

subsection \<open>Observers\<close>

text \<open>An observer keeps a copy of the rows; at a signal it changes only the rows the signal names and
  reads the new ones from the list.\<close>

fun observe :: "'a list \<Rightarrow> row_signal \<times> 'a list \<Rightarrow> 'a list" where
  "observe v (rowsInserted a b, xs) = take a v @ take (Suc b - a) (drop a xs) @ drop a v"
| "observe v (rowsRemoved a b, xs) = take a v @ drop (Suc b) v"
| "observe v (rowsChanged a b, xs) = take a v @ take (Suc b - a) (drop a xs) @ drop (Suc b) v"
| "observe v (modelReset, xs) = xs"

definition replay :: "'a list \<Rightarrow> (row_signal \<times> 'a list) list \<Rightarrow> 'a list" where
  "replay v t = foldl observe v t"

text \<open>The list is in sync with an observer that started from the rows \<open>v\<close>.\<close>

definition in_sync :: "'a list \<Rightarrow> 'a objectList \<Rightarrow> bool" where
  "in_sync v l \<longleftrightarrow> replay v (trace l) = rows l"

lemma notify_sync: "in_sync v l \<Longrightarrow> observe (rows l) (s, xs) = xs \<Longrightarrow> in_sync v (notify s xs l)"
  by (simp add: in_sync_def replay_def notify_def)

lemma sync_removeAt: "in_sync v l \<Longrightarrow> in_sync v (ol_removeAt i l)"
  by (simp add: ol_removeAt_def notify_sync)

lemma sync_append: "in_sync v l \<Longrightarrow> in_sync v (ol_append x l)"
  by (simp add: ol_append_def notify_sync)

lemma sync_prepend: "in_sync v l \<Longrightarrow> in_sync v (ol_prepend x l)"
  by (simp add: ol_prepend_def notify_sync)

lemma sync_insert:
  assumes "in_sync v l" "i \<le> length (rows l)"
  shows "in_sync v (ol_insert i x l)"
proof -
  have "take (Suc i - i) (drop i (take i (rows l) @ x # drop i (rows l))) = [x]"
    using assms(2) by simp
  then show ?thesis using assms by (simp add: ol_insert_def notify_sync)
qed

lemma sync_reset: "in_sync v l \<Longrightarrow> in_sync v (ol_clear l)" "in_sync v l \<Longrightarrow> in_sync v (ol_replaceList xs l)"
  by (simp_all add: ol_clear_def ol_replaceList_def notify_sync)

lemma sync_replace:
  assumes "in_sync v l" "i < length (rows l)"
  shows "in_sync v (ol_replace i x l)"
proof -
  have "(rows l)[i := x] = take i (rows l) @ x # drop (Suc i) (rows l)"
    using assms(2) by (simp add: upd_conv_take_nth_drop)
  then have "take (Suc i - i) (drop i ((rows l)[i := x])) = [x]" using assms(2) by simp
  then have "observe (rows l) (rowsChanged i i, (rows l)[i := x]) = (rows l)[i := x]"
    using assms(2) by (simp add: upd_conv_take_nth_drop)
  with assms(1) show ?thesis
    by (simp add: ol_replace_def ol_update_def in_sync_def replay_def notify_def)
qed

lemma sync_removeFrom: "in_sync v l \<Longrightarrow> in_sync v (removeFrom gid i n l)"
proof (induction gid i n l rule: removeFrom.induct)
  case (1 gid i n l)
  then show ?case by (subst removeFrom.simps) (simp add: sync_removeAt)
qed

lemma sync_replaceFrom: "in_sync v l \<Longrightarrow> in_sync v (replaceFrom gid i x n l)"
proof (induction gid i x n l rule: replaceFrom.induct)
  case (1 gid i x n l)
  then show ?case by (subst replaceFrom.simps) (simp add: sync_replace)
qed

text \<open>An observer that applies the row signals of an entity list to its own copy of the rows always
  ends with the rows of the list: \<open>removeById\<close>, \<open>replaceById\<close> and \<open>replaceOrAdd\<close> announce every
  change at the right index, also when several rows have the id (the index is stepped back after a
  removal), and the rows are then exactly those the operation promises.\<close>

theorem entity_list_observed:
  assumes "in_sync v l"
  shows "in_sync v (removeById gid i l) \<and> in_sync v (replaceById gid i x l)
    \<and> in_sync v (replaceOrAdd gid i x l)
    \<and> rows (removeById gid i l) = filter (\<lambda>y. gid y \<noteq> i) (rows l)
    \<and> rows (replaceById gid i x l) = map (\<lambda>y. if gid y = i then x else y) (rows l)
    \<and> x \<in> set (rows (replaceOrAdd gid i x l))"
proof -
  have "in_sync v (removeById gid i l)" "in_sync v (replaceById gid i x l)"
    "in_sync v (replaceOrAdd gid i x l)"
    using assms by (simp_all add: removeById_def sync_removeFrom replaceById_def sync_replaceFrom
        replaceOrAdd_def sync_append)
  with replaceOrAdd_in [of x gid i l] show ?thesis
    unfolding removeById_rows replaceById_rows by blast
qed

theorem entity_list_observed_witness:
  "replay [1, 2, 2, 3 :: dbId] (trace (removeById id 2 (mkList [1, 2, 2, 3]))) = [1, 3]"
proof -
  have "in_sync [1, 2, 2, 3 :: dbId] (mkList [1, 2, 2, 3])"
    by (simp add: in_sync_def replay_def)
  from entity_list_observed [OF this, of id 2] show ?thesis
    by (simp add: in_sync_def)
qed

section \<open>SortedSet\<close>

text \<open>The keys of the QMap in order, the generated list and whether it is valid.\<close>

record 'a sortedSet =
  ss_data :: "'a list"
  ss_generatedList :: "'a list"
  ss_listValid :: bool

definition ss_new :: "'a sortedSet" where
  "ss_new = \<lparr>ss_data = [], ss_generatedList = [], ss_listValid = False\<rparr>"

definition ss_invalidateList :: "'a sortedSet \<Rightarrow> 'a sortedSet" where
  "ss_invalidateList s = s\<lparr>ss_listValid := False\<rparr>"

definition ss_generateList :: "'a sortedSet \<Rightarrow> 'a sortedSet" where
  "ss_generateList s =
     (if \<not> ss_listValid s then s\<lparr>ss_generatedList := ss_data s, ss_listValid := True\<rparr> else s)"

definition ss_clear :: "'a sortedSet \<Rightarrow> bool \<times> 'a sortedSet" where
  "ss_clear s = (if ss_data s = [] then (False, s) else (True, ss_invalidateList (s\<lparr>ss_data := []\<rparr>)))"

definition ss_contains :: "'a \<Rightarrow> 'a sortedSet \<Rightarrow> bool" where
  "ss_contains x s \<longleftrightarrow> x \<in> set (ss_data s)"

definition ss_insert :: "'a::linorder \<Rightarrow> 'a sortedSet \<Rightarrow> bool \<times> 'a sortedSet" where
  "ss_insert x s =
     (if ss_contains x s then (False, s)
      else (True, ss_invalidateList (s\<lparr>ss_data := insort x (ss_data s)\<rparr>)))"

definition ss_isEmpty :: "'a sortedSet \<Rightarrow> bool" where
  "ss_isEmpty s \<longleftrightarrow> ss_data s = []"

definition ss_remove :: "'a \<Rightarrow> 'a sortedSet \<Rightarrow> bool \<times> 'a sortedSet" where
  "ss_remove x s =
     (if x \<in> set (ss_data s) then (True, ss_invalidateList (s\<lparr>ss_data := remove1 x (ss_data s)\<rparr>))
      else (False, s))"

definition ss_size :: "'a sortedSet \<Rightarrow> nat" where
  "ss_size s = length (ss_data s)"

definition ss_toQList :: "'a sortedSet \<Rightarrow> 'a list \<times> 'a sortedSet" where
  "ss_toQList s = (ss_generatedList (ss_generateList s), ss_generateList s)"

text \<open>\<open>QMap::insert\<close> of a key that is present overwrites its value, which is always 0.\<close>

definition ss_assign :: "('a::linorder) list \<Rightarrow> 'a sortedSet \<Rightarrow> 'a sortedSet" where
  "ss_assign xs s = ss_invalidateList (s\<lparr>ss_data := foldl (\<lambda>d x. insort_insert x d) [] xs\<rparr>)"

definition ss_inv :: "('a::linorder) sortedSet \<Rightarrow> bool" where
  "ss_inv s \<longleftrightarrow> sorted (ss_data s) \<and> distinct (ss_data s)
     \<and> (ss_listValid s \<longrightarrow> ss_generatedList s = ss_data s)"

definition ss_set :: "'a sortedSet \<Rightarrow> 'a set" where
  "ss_set s = set (ss_data s)"

lemma foldl_insort_insert:
  "sorted d \<and> distinct d \<Longrightarrow>
    sorted (foldl (\<lambda>d x. insort_insert x d) d xs) \<and> distinct (foldl (\<lambda>d x. insort_insert x d) d xs)
    \<and> set (foldl (\<lambda>d x. insort_insert x d) d xs) = set d \<union> set xs"
  by (induction xs arbitrary: d)
    (auto simp: sorted_insort_insert distinct_insort_insert set_insort_insert)

lemma foldl_insort_insert_ordset [simp]:
  "sorted (foldl (\<lambda>d x. insort_insert x d) [] xs)" "distinct (foldl (\<lambda>d x. insort_insert x d) [] xs)"
  "set (foldl (\<lambda>d x. insort_insert x d) [] xs) = set xs"
  using foldl_insort_insert [of "[]" xs] by simp_all

text \<open>The contract of a store of strings: what the cache uses of its sorted sets.\<close>

locale sorted_store =
  fixes empty :: 's and ins rem :: "'a::linorder \<Rightarrow> 's \<Rightarrow> bool \<times> 's"
    and clr :: "'s \<Rightarrow> bool \<times> 's" and toList :: "'s \<Rightarrow> 'a list \<times> 's" and assign :: "'a list \<Rightarrow> 's \<Rightarrow> 's"
    and inv :: "'s \<Rightarrow> bool" and elems :: "'s \<Rightarrow> 'a set"
  assumes empty [simp]: "inv empty" "elems empty = {}"
    and ins_inv: "inv s \<Longrightarrow> inv (snd (ins x s))"
    and ins_elems [simp]: "elems (snd (ins x s)) = insert x (elems s)"
    and ins_changed: "fst (ins x s) \<longleftrightarrow> x \<notin> elems s"
    and rem_inv: "inv s \<Longrightarrow> inv (snd (rem x s))"
    and rem_elems: "inv s \<Longrightarrow> elems (snd (rem x s)) = elems s - {x}"
    and clr_inv: "inv s \<Longrightarrow> inv (snd (clr s))"
    and clr_elems [simp]: "elems (snd (clr s)) = {}"
    and toList_inv: "inv s \<Longrightarrow> inv (snd (toList s))"
    and toList_elems [simp]: "elems (snd (toList s)) = elems s"
    and toList_list: "inv s \<Longrightarrow> fst (toList s) = sorted_list_of_set (elems s)"
    and finite_elems: "finite (elems s)"
    and assign_inv: "inv (assign xs s)"
    and assign_elems [simp]: "elems (assign xs s) = set xs"
begin

lemma ins_list: "inv s \<Longrightarrow> fst (toList (snd (ins x s))) = sorted_list_of_set (insert x (elems s))"
  by (simp add: toList_list ins_inv)

lemma toList_props:
  "inv s \<Longrightarrow> sorted (fst (toList s)) \<and> distinct (fst (toList s)) \<and> set (fst (toList s)) = elems s"
  by (simp add: toList_list finite_elems)

lemma toList_twice: "inv s \<Longrightarrow> fst (toList (snd (toList s))) = fst (toList s)"
  by (simp add: toList_list toList_inv)

lemma assign_list: "fst (toList (assign xs s)) = sorted_list_of_set (set xs)"
  by (simp add: toList_list assign_inv)

end

interpretation ss: sorted_store ss_new ss_insert ss_remove ss_clear ss_toQList ss_assign ss_inv ss_set
proof
  fix s :: "('a::linorder) sortedSet" and x
  show "ss_inv (snd (ss_insert x s))" if "ss_inv s"
    using that
    by (auto simp: ss_inv_def ss_insert_def ss_invalidateList_def ss_contains_def sorted_insort
        distinct_insort)
  show "ss_set (snd (ss_insert x s)) = insert x (ss_set s)"
    by (auto simp: ss_insert_def ss_set_def ss_invalidateList_def ss_contains_def set_insort_key)
  show "ss_inv (snd (ss_remove x s))" if "ss_inv s"
    using that by (auto simp: ss_inv_def ss_remove_def ss_invalidateList_def sorted_remove1)
  show "ss_set (snd (ss_remove x s)) = ss_set s - {x}" if "ss_inv s"
    using that by (auto simp: ss_inv_def ss_remove_def ss_invalidateList_def ss_set_def)
  show "fst (ss_toQList s) = sorted_list_of_set (ss_set s)" if "ss_inv s"
    using that
    by (auto simp: ss_inv_def ss_toQList_def ss_generateList_def ss_set_def
        sorted_list_of_set_sort_remdups distinct_remdups_id sorted_sort_id)
qed (auto simp: ss_inv_def ss_new_def ss_set_def ss_insert_def ss_contains_def ss_invalidateList_def
    ss_clear_def ss_toQList_def ss_generateList_def ss_assign_def)

datatype 'a set_op = SInsert 'a | SRemove 'a | SClear | SAssign "'a list" | SToList

fun set_step :: "('a::linorder) set_op \<Rightarrow> 'a sortedSet \<Rightarrow> 'a sortedSet" where
  "set_step (SInsert x) s = snd (ss_insert x s)"
| "set_step (SRemove x) s = snd (ss_remove x s)"
| "set_step SClear s = snd (ss_clear s)"
| "set_step (SAssign xs) s = ss_assign xs s"
| "set_step SToList s = snd (ss_toQList s)"

fun set_spec :: "'a set_op \<Rightarrow> 'a set \<Rightarrow> 'a set" where
  "set_spec (SInsert x) A = insert x A"
| "set_spec (SRemove x) A = A - {x}"
| "set_spec SClear A = {}"
| "set_spec (SAssign xs) A = set xs"
| "set_spec SToList A = A"

lemma set_step_ok: "ss_inv s \<Longrightarrow> ss_inv (set_step a s) \<and> ss_set (set_step a s) = set_spec a (ss_set s)"
  by (cases a) (auto simp: ss.ins_inv ss.rem_inv ss.rem_elems ss.clr_inv ss.toList_inv ss.assign_inv)

text \<open>Whatever sequence of insertions, removals, clears, assignments and reads a sorted set goes
  through, \<open>toQList\<close> returns exactly its elements in ascending order without duplicates: the cached
  list is never stale; \<open>size\<close> counts them, and insertions and removals report whether they change
  the set.\<close>

theorem sortedSet_refines:
  "(let s = fold set_step ops ss_new; A = fold set_spec ops {} in
      fst (ss_toQList s) = sorted_list_of_set A \<and> ss_size s = card A
      \<and> (fst (ss_insert x s) \<longleftrightarrow> x \<notin> A) \<and> (fst (ss_remove x s) \<longleftrightarrow> x \<in> A))"
proof -
  have "ss_inv s \<Longrightarrow> ss_inv (fold set_step ops s) \<and> ss_set (fold set_step ops s) = fold set_spec ops (ss_set s)"
    for s :: "'a sortedSet"
    by (induction ops arbitrary: s) (simp_all add: set_step_ok)
  from this [of ss_new] have inv: "ss_inv (fold set_step ops ss_new)"
    and elems: "ss_set (fold set_step ops ss_new) = fold set_spec ops {}" by simp_all
  have "ss_size (fold set_step ops ss_new) = card (ss_set (fold set_step ops ss_new))"
    using inv by (simp add: ss_size_def ss_set_def ss_inv_def distinct_card)
  with inv elems show ?thesis
    by (simp add: Let_def ss.toList_list ss_insert_def ss_remove_def ss_contains_def ss_set_def)
qed

section \<open>SkMultiHash\<close>

text \<open>A QMultiHash as the list of its pairs, the most recently inserted first, which is the order in
  which \<open>values (key)\<close> returns them.\<close>

type_synonym ('k, 'v) multiHash = "('k \<times> 'v) list"

definition mh_insert :: "'k \<Rightarrow> 'v \<Rightarrow> ('k, 'v) multiHash \<Rightarrow> ('k, 'v) multiHash" where
  "mh_insert k v h = (k, v) # h"

definition mh_contains :: "'k \<Rightarrow> ('k, 'v) multiHash \<Rightarrow> bool" where
  "mh_contains k h \<longleftrightarrow> k \<in> fst ` set h"

definition mh_containsPair :: "'k \<Rightarrow> 'v \<Rightarrow> ('k, 'v) multiHash \<Rightarrow> bool" where
  "mh_containsPair k v h \<longleftrightarrow> (k, v) \<in> set h"

definition mh_values :: "'k \<Rightarrow> ('k, 'v) multiHash \<Rightarrow> 'v list" where
  "mh_values k h = map snd (filter (\<lambda>p. fst p = k) h)"

text \<open>\<open>value (key)\<close> is the first of \<open>values (key)\<close>, a default value if there is none; \<open>remove (key,
  value)\<close> removes all pairs equal to it.\<close>

definition mh_value :: "'v \<Rightarrow> 'k \<Rightarrow> ('k, 'v) multiHash \<Rightarrow> 'v" where
  "mh_value d k h = (case mh_values k h of [] \<Rightarrow> d | v # _ \<Rightarrow> v)"

definition mh_remove :: "'k \<Rightarrow> 'v \<Rightarrow> ('k, 'v) multiHash \<Rightarrow> ('k, 'v) multiHash" where
  "mh_remove k v h = filter (\<lambda>p. p \<noteq> (k, v)) h"

definition mh_insertUnique :: "'k \<Rightarrow> 'v \<Rightarrow> ('k, 'v) multiHash \<Rightarrow> bool \<times> ('k, 'v) multiHash" where
  "mh_insertUnique k v h = (if mh_containsPair k v h then (False, h) else (True, mh_insert k v h))"

lemma mh_values_set: "v \<in> set (mh_values k h) \<longleftrightarrow> (k, v) \<in> set h"
  by (force simp: mh_values_def)

lemma mh_contains_values: "mh_contains k h \<longleftrightarrow> mh_values k h \<noteq> []"
  by (auto simp: mh_contains_def mh_values_def filter_empty_conv)

lemma mh_values_simps [simp]:
  "mh_values k [] = []"
  "mh_values k (mh_insert k' v h) = (if k' = k then v # mh_values k h else mh_values k h)"
  by (simp_all add: mh_values_def mh_insert_def)

lemma mh_set [simp]:
  "set (mh_insert k v h) = insert (k, v) (set h)" "set (mh_remove k v h) = set h - {(k, v)}"
  by (auto simp: mh_insert_def mh_remove_def)

lemma mh_mset:
  "mset (mh_insert k v h) = add_mset (k, v) (mset h)"
  "mset (mh_remove k v h) = filter_mset (\<lambda>p. p \<noteq> (k, v)) (mset h)"
  by (simp_all add: mh_insert_def mh_remove_def)

lemma mh_insertUnique_distinct: "distinct h \<Longrightarrow> distinct (snd (mh_insertUnique k v h))"
  by (simp add: mh_insertUnique_def mh_containsPair_def mh_insert_def)

lemma mh_insertUnique_set [simp]: "set (snd (mh_insertUnique k v h)) = insert (k, v) (set h)"
  by (auto simp: mh_insertUnique_def mh_containsPair_def)

section \<open>WithSortkey\<close>

text \<open>A value with a sort key; \<open>operator<\<close> sorts descending by the key. \<open>std::sort\<close> leaves the order of
  equal keys open; the model keeps it.\<close>

type_synonym 'a withSortkey = "'a \<times> int"

definition wk_less :: "'a withSortkey \<Rightarrow> 'a withSortkey \<Rightarrow> bool" where
  "wk_less a b \<longleftrightarrow> snd a > snd b"

definition wk_sort :: "'a withSortkey list \<Rightarrow> 'a withSortkey list" where
  "wk_sort ws = sort_key (\<lambda>w. - snd w) ws"

lemma wk_sort_mset [simp]: "mset (wk_sort ws) = mset ws"
  by (simp add: wk_sort_def)

lemma wk_sort_set [simp]: "set (wk_sort ws) = set ws"
  by (simp add: wk_sort_def)

lemma wk_sort_sorted: "sorted_wrt (\<lambda>a b. \<not> wk_less b a) (wk_sort ws)"
proof -
  have "sorted (map (\<lambda>w. - snd w) (wk_sort ws))" by (simp add: wk_sort_def)
  then show ?thesis by (simp add: sorted_wrt_map wk_less_def not_less)
qed

section \<open>Maybe\<close>

text \<open>A list of at most one value; \<open>getValue\<close> fails an assertion on an invalid one.\<close>

type_synonym 'a maybe = "'a list"

definition mb_of :: "'a \<Rightarrow> 'a maybe" where
  "mb_of x = [x]"
definition mb_ofPointer :: "'a option \<Rightarrow> 'a maybe" where
  "mb_ofPointer p = (case p of Some x \<Rightarrow> [x] | None \<Rightarrow> [])"
definition mb_invalid :: "'a maybe" where
  "mb_invalid = []"
definition mb_isValid :: "'a maybe \<Rightarrow> bool" where
  "mb_isValid m \<longleftrightarrow> m \<noteq> []"
definition mb_getValue :: "'a maybe \<Rightarrow> 'a option" where
  "mb_getValue m = (case m of [] \<Rightarrow> None | x # _ \<Rightarrow> Some x)"
definition mb_setValue :: "'a \<Rightarrow> 'a maybe \<Rightarrow> 'a maybe" where
  "mb_setValue x m = [] @ [x]"
definition mb_clearValue :: "'a maybe \<Rightarrow> 'a maybe" where
  "mb_clearValue m = []"

lemma mb_getValue_valid: "mb_isValid m \<longleftrightarrow> mb_getValue m \<noteq> None"
  by (cases m) (simp_all add: mb_isValid_def mb_getValue_def)

end
