(* ===== verification/Sk_Cache.thy ===== *)
theory Sk_Cache
  imports Sk_Containers Sk_FlightDb
begin

text \<open>
  The cache of \<^verbatim>\<open>src/src/db/cache/Cache.h\<close>: its data, the updates of the specific hashes
  (\<^verbatim>\<open>Cache_hashUpdates.cpp\<close>) and the handling of database events (\<^verbatim>\<open>Cache.cpp\<close>). The
  member templates that are specialised per class (\<open>objectList\<close>, \<open>objectsByIdHash\<close>,
  \<open>clearHashes\<close>, \<open>updateHashesObject...\<close>) are the fields of the record \<open>kind\<close>. All methods hold the
  data mutex while they touch the data, so that they are modelled as atomic.
\<close>

section \<open>Data\<close>

record cache =
  planes :: "plane list"
  planesSortedByUsage :: "plane withSortkey list"
  people :: "person list"
  peopleSortedByFrequency :: "person withSortkey list"
  launchMethods :: "launchMethod list"
  flarmNetRecords :: "flarmNetRecord list"
  flightsToday :: "flight list"
  todayDate :: qdate
  flightsOther :: "flight list"
  otherDate :: qdate
  preparedFlights :: "flight list"
  locations :: "qstring sortedSet"
  accountingNotes :: "qstring sortedSet"
  clubs :: "qstring sortedSet"
  planeTypes :: "qstring sortedSet"
  planeRegistrations :: "qstring sortedSet"
  personLastNames :: "qstring sortedSet"
  personFirstNames :: "qstring sortedSet"
  planesById :: "dbId \<rightharpoonup> plane"
  peopleById :: "dbId \<rightharpoonup> person"
  launchMethodsById :: "dbId \<rightharpoonup> launchMethod"
  flightsById :: "dbId \<rightharpoonup> flight"
  flarmNetRecordsById :: "dbId \<rightharpoonup> flarmNetRecord"
  planeIdsByRegistration :: "(qstring, dbId) multiHash"
  planeIdsByFlarmId :: "(qstring, dbId) multiHash"
  launchMethodIdsByType :: "(lm_type, dbId) multiHash"
  lastNamesByFirstName :: "(qstring, qstring) multiHash"
  firstNamesByLastName :: "(qstring, qstring) multiHash"
  personIdsByLastName :: "(qstring, dbId) multiHash"
  personIdsByFirstName :: "(qstring, dbId) multiHash"
  personIdsByName :: "(qstring \<times> qstring, dbId) multiHash"
  flarmNetRecordIdsByFlarmId :: "(qstring, dbId) multiHash"
  roughNumberOfFlightsByPlaneIdLastYear :: "dbId \<rightharpoonup> int"
  roughNumberOfFlightsByPersonIdLastYear :: "dbId \<rightharpoonup> int"
  numberOfHoursByPersonIdLastHalfYear :: "dbId \<rightharpoonup> int"
  numberOfFlightsByPersonIdLastHalfYear :: "dbId \<rightharpoonup> int"

definition newCache :: cache where
  "newCache =
     \<lparr>planes = [], planesSortedByUsage = [], people = [], peopleSortedByFrequency = [],
      launchMethods = [], flarmNetRecords = [], flightsToday = [], todayDate = None,
      flightsOther = [], otherDate = None, preparedFlights = [],
      locations = ss_new, accountingNotes = ss_new, clubs = ss_new, planeTypes = ss_new,
      planeRegistrations = ss_new, personLastNames = ss_new, personFirstNames = ss_new,
      planesById = Map.empty, peopleById = Map.empty, launchMethodsById = Map.empty,
      flightsById = Map.empty, flarmNetRecordsById = Map.empty,
      planeIdsByRegistration = [], planeIdsByFlarmId = [], launchMethodIdsByType = [],
      lastNamesByFirstName = [], firstNamesByLastName = [], personIdsByLastName = [],
      personIdsByFirstName = [], personIdsByName = [], flarmNetRecordIdsByFlarmId = [],
      roughNumberOfFlightsByPlaneIdLastYear = Map.empty,
      roughNumberOfFlightsByPersonIdLastYear = Map.empty,
      numberOfHoursByPersonIdLastHalfYear = Map.empty,
      numberOfFlightsByPersonIdLastHalfYear = Map.empty\<rparr>"

text \<open>The entity list operations on the plain rows (nothing observes the lists of the cache).\<close>

definition el_removeById :: "('a \<Rightarrow> dbId) \<Rightarrow> dbId \<Rightarrow> 'a list \<Rightarrow> 'a list" where
  "el_removeById gid i xs = rows (removeById gid i (mkList xs))"

definition el_replaceById :: "('a \<Rightarrow> dbId) \<Rightarrow> dbId \<Rightarrow> 'a \<Rightarrow> 'a list \<Rightarrow> 'a list" where
  "el_replaceById gid i x xs = rows (replaceById gid i x (mkList xs))"

definition el_replaceOrAdd :: "('a \<Rightarrow> dbId) \<Rightarrow> dbId \<Rightarrow> 'a \<Rightarrow> 'a list \<Rightarrow> 'a list" where
  "el_replaceOrAdd gid i x xs = rows (replaceOrAdd gid i x (mkList xs))"

lemma el_simps [simp]:
  "el_removeById gid i xs = filter (\<lambda>x. gid x \<noteq> i) xs"
  "el_replaceById gid i x xs = map (\<lambda>y. if gid y = i then x else y) xs"
  "el_replaceOrAdd gid i x xs =
     (if i \<in> gid ` set xs then map (\<lambda>y. if gid y = i then x else y) xs else xs @ [x])"
  by (simp_all add: el_removeById_def el_replaceById_def el_replaceOrAdd_def)

section \<open>Hash updates\<close>

definition ssClear :: "qstring sortedSet \<Rightarrow> qstring sortedSet" where
  "ssClear s = snd (ss_clear s)"
definition ssInsert :: "qstring \<Rightarrow> qstring sortedSet \<Rightarrow> qstring sortedSet" where
  "ssInsert x s = snd (ss_insert x s)"
definition ssInsertUnlessBlank :: "qstring \<Rightarrow> qstring sortedSet \<Rightarrow> qstring sortedSet" where
  "ssInsertUnlessBlank x s = (if \<not> isBlank x then ssInsert x s else s)"
definition ssRemove :: "qstring \<Rightarrow> qstring sortedSet \<Rightarrow> qstring sortedSet" where
  "ssRemove x s = snd (ss_remove x s)"

definition clearMultiTypeHashes :: "cache \<Rightarrow> cache" where
  "clearMultiTypeHashes c = c\<lparr>clubs := ssClear (clubs c)\<rparr>"

subsection \<open>Planes\<close>

definition clearHashesPlane :: "cache \<Rightarrow> cache" where
  "clearHashesPlane c = c
     \<lparr>planeTypes := ssClear (planeTypes c),
      planeRegistrations := ssClear (planeRegistrations c),
      planeIdsByRegistration := [],
      planeIdsByFlarmId := []\<rparr>"

definition updateHashesPlaneAdded :: "plane \<Rightarrow> cache \<Rightarrow> cache" where
  "updateHashesPlaneAdded p c = c
     \<lparr>planeTypes := ssInsertUnlessBlank (pl_type p) (planeTypes c),
      planeRegistrations := ssInsert (pl_registration p) (planeRegistrations c),
      planeIdsByRegistration :=
        mh_insert (toLower (pl_registration p)) (pl_id p) (planeIdsByRegistration c),
      planeIdsByFlarmId := mh_insert (pl_flarmId p) (pl_id p) (planeIdsByFlarmId c),
      clubs := ssInsertUnlessBlank (pl_club p) (clubs c),
      planesSortedByUsage := (p, 0) # planesSortedByUsage c\<rparr>"

definition updateHashesPlaneDeleted :: "dbId \<Rightarrow> plane option \<Rightarrow> cache \<Rightarrow> cache option" where
  "updateHashesPlaneDeleted i oldPlane c = Some (case oldPlane of
     None \<Rightarrow> c
   | Some p \<Rightarrow>
      (let registrationLower = toLower (pl_registration p);
           c1 = c\<lparr>planeIdsByRegistration := mh_remove registrationLower i (planeIdsByRegistration c)\<rparr>;
           c2 = (if \<not> mh_contains registrationLower (planeIdsByRegistration c1)
                 then c1\<lparr>planeRegistrations := ssRemove (pl_registration p) (planeRegistrations c1)\<rparr>
                 else c1)
       in c2\<lparr>planeIdsByFlarmId := mh_remove (pl_flarmId p) i (planeIdsByFlarmId c2),
             planesSortedByUsage := filter (\<lambda>w. pl_id (fst w) \<noteq> pl_id p) (planesSortedByUsage c2)\<rparr>))"

definition updateHashesPlaneUpdated :: "plane \<Rightarrow> plane option \<Rightarrow> cache \<Rightarrow> cache option" where
  "updateHashesPlaneUpdated p oldPlane c =
     map_option (updateHashesPlaneAdded p) (updateHashesPlaneDeleted (pl_id p) oldPlane c)"

subsection \<open>People\<close>

definition clearHashesPerson :: "cache \<Rightarrow> cache" where
  "clearHashesPerson c = c
     \<lparr>personLastNames := ssClear (personLastNames c),
      personFirstNames := ssClear (personFirstNames c),
      lastNamesByFirstName := [], firstNamesByLastName := [],
      personIdsByLastName := [], personIdsByFirstName := [], personIdsByName := []\<rparr>"

definition updateHashesPersonAdded :: "person \<Rightarrow> cache \<Rightarrow> cache" where
  "updateHashesPersonAdded p c =
     (let lst = pe_lastName p; lastLower = toLower lst;
          fst' = pe_firstName p; firstLower = toLower fst'; i = pe_id p in c
     \<lparr>personLastNames := ssInsert lst (personLastNames c),
      personFirstNames := ssInsert fst' (personFirstNames c),
      lastNamesByFirstName := snd (mh_insertUnique firstLower lst (lastNamesByFirstName c)),
      firstNamesByLastName := snd (mh_insertUnique lastLower fst' (firstNamesByLastName c)),
      personIdsByLastName := mh_insert lastLower i (personIdsByLastName c),
      personIdsByFirstName := mh_insert firstLower i (personIdsByFirstName c),
      personIdsByName := mh_insert (lastLower, firstLower) i (personIdsByName c),
      clubs := ssInsertUnlessBlank (pe_club p) (clubs c),
      peopleSortedByFrequency := (p, 0) # peopleSortedByFrequency c\<rparr>)"

definition updateHashesPersonDeleted :: "dbId \<Rightarrow> person option \<Rightarrow> cache \<Rightarrow> cache option" where
  "updateHashesPersonDeleted i oldPerson c = Some (case oldPerson of
     None \<Rightarrow> c
   | Some p \<Rightarrow>
      (let lastLower = toLower (pe_lastName p); firstLower = toLower (pe_firstName p) in c
       \<lparr>personIdsByLastName := mh_remove lastLower i (personIdsByLastName c),
        personIdsByFirstName := mh_remove firstLower i (personIdsByFirstName c),
        personIdsByName := mh_remove (lastLower, firstLower) i (personIdsByName c),
        peopleSortedByFrequency :=
          filter (\<lambda>w. pe_id (fst w) \<noteq> pe_id p) (peopleSortedByFrequency c)\<rparr>))"

definition updateHashesPersonUpdated :: "person \<Rightarrow> person option \<Rightarrow> cache \<Rightarrow> cache option" where
  "updateHashesPersonUpdated p oldPerson c =
     map_option (updateHashesPersonAdded p) (updateHashesPersonDeleted (pe_id p) oldPerson c)"

subsection \<open>Launch methods\<close>

definition clearHashesLaunchMethod :: "cache \<Rightarrow> cache" where
  "clearHashesLaunchMethod c = c\<lparr>launchMethodIdsByType := []\<rparr>"

definition updateHashesLaunchMethodAdded :: "launchMethod \<Rightarrow> cache \<Rightarrow> cache" where
  "updateHashesLaunchMethodAdded l c =
     c\<lparr>launchMethodIdsByType := mh_insert (lm_type l) (lm_id l) (launchMethodIdsByType c)\<rparr>"

definition updateHashesLaunchMethodDeleted ::
    "dbId \<Rightarrow> launchMethod option \<Rightarrow> cache \<Rightarrow> cache option" where
  "updateHashesLaunchMethodDeleted i old c = Some (case old of
     None \<Rightarrow> c
   | Some l \<Rightarrow> c\<lparr>launchMethodIdsByType := mh_remove (lm_type l) i (launchMethodIdsByType c)\<rparr>)"

definition updateHashesLaunchMethodUpdated ::
    "launchMethod \<Rightarrow> launchMethod option \<Rightarrow> cache \<Rightarrow> cache option" where
  "updateHashesLaunchMethodUpdated l old c =
     map_option (updateHashesLaunchMethodAdded l) (updateHashesLaunchMethodDeleted (lm_id l) old c)"

subsection \<open>Flights\<close>

definition clearHashesFlight :: "cache \<Rightarrow> cache" where
  "clearHashesFlight c =
     c\<lparr>locations := ssClear (locations c), accountingNotes := ssClear (accountingNotes c)\<rparr>"

definition updateHashesFlightAdded :: "flight \<Rightarrow> cache \<Rightarrow> cache" where
  "updateHashesFlightAdded f c = c
     \<lparr>locations := ssInsertUnlessBlank (getTowflightLandingLocation f)
        (ssInsertUnlessBlank (getLandingLocation f)
          (ssInsertUnlessBlank (getDepartureLocation f) (locations c))),
      accountingNotes := ssInsertUnlessBlank (getAccountingNotes f) (accountingNotes c)\<rparr>"

definition updateHashesFlightDeleted :: "dbId \<Rightarrow> flight option \<Rightarrow> cache \<Rightarrow> cache" where
  "updateHashesFlightDeleted i oldFlight c = c"

definition updateHashesFlightUpdated :: "flight \<Rightarrow> flight option \<Rightarrow> cache \<Rightarrow> cache" where
  "updateHashesFlightUpdated f oldFlight c =
     updateHashesFlightAdded f (updateHashesFlightDeleted (getId f) oldFlight c)"

subsection \<open>FlarmNet records\<close>

definition clearHashesFlarmNetRecord :: "cache \<Rightarrow> cache" where
  "clearHashesFlarmNetRecord c = c\<lparr>flarmNetRecordIdsByFlarmId := []\<rparr>"

definition updateHashesFlarmNetRecordAdded :: "flarmNetRecord \<Rightarrow> cache \<Rightarrow> cache" where
  "updateHashesFlarmNetRecordAdded r c =
     c\<lparr>flarmNetRecordIdsByFlarmId := mh_insert (fn_flarmId r) (fn_id r) (flarmNetRecordIdsByFlarmId c)\<rparr>"

text \<open>Contrary to the other classes the old record is not checked: \<open>None\<close> is a null dereference.\<close>

definition updateHashesFlarmNetRecordDeleted ::
    "dbId \<Rightarrow> flarmNetRecord option \<Rightarrow> cache \<Rightarrow> cache option" where
  "updateHashesFlarmNetRecordDeleted i oldRecord c = (case oldRecord of
     None \<Rightarrow> None
   | Some r \<Rightarrow> Some (if mh_contains (fn_flarmId r) (flarmNetRecordIdsByFlarmId c)
       then c\<lparr>flarmNetRecordIdsByFlarmId :=
         mh_remove (fn_flarmId r) i (flarmNetRecordIdsByFlarmId c)\<rparr> else c))"

definition updateHashesFlarmNetRecordUpdated ::
    "flarmNetRecord \<Rightarrow> flarmNetRecord option \<Rightarrow> cache \<Rightarrow> cache option" where
  "updateHashesFlarmNetRecordUpdated r oldRecord c =
     map_option (updateHashesFlarmNetRecordAdded r)
       (updateHashesFlarmNetRecordDeleted (fn_id r) oldRecord c)"

section \<open>The specialised templates\<close>

record 't kind =
  k_id :: "'t \<Rightarrow> dbId"
  k_list :: "cache \<Rightarrow> 't list"
  k_setList :: "'t list \<Rightarrow> cache \<Rightarrow> cache"
  k_byId :: "cache \<Rightarrow> dbId \<rightharpoonup> 't"
  k_setById :: "(dbId \<rightharpoonup> 't) \<Rightarrow> cache \<Rightarrow> cache"
  k_clear :: "cache \<Rightarrow> cache"
  k_added :: "'t \<Rightarrow> cache \<Rightarrow> cache"
  k_deleted :: "dbId \<Rightarrow> 't option \<Rightarrow> cache \<Rightarrow> cache option"
  k_updated :: "'t \<Rightarrow> 't option \<Rightarrow> cache \<Rightarrow> cache option"

definition planeKind :: "plane kind" where
  "planeKind = \<lparr>k_id = pl_id, k_list = planes, k_setList = (\<lambda>xs c. c\<lparr>planes := xs\<rparr>),
     k_byId = planesById, k_setById = (\<lambda>m c. c\<lparr>planesById := m\<rparr>), k_clear = clearHashesPlane,
     k_added = updateHashesPlaneAdded, k_deleted = updateHashesPlaneDeleted,
     k_updated = updateHashesPlaneUpdated\<rparr>"

definition personKind :: "person kind" where
  "personKind = \<lparr>k_id = pe_id, k_list = people, k_setList = (\<lambda>xs c. c\<lparr>people := xs\<rparr>),
     k_byId = peopleById, k_setById = (\<lambda>m c. c\<lparr>peopleById := m\<rparr>), k_clear = clearHashesPerson,
     k_added = updateHashesPersonAdded, k_deleted = updateHashesPersonDeleted,
     k_updated = updateHashesPersonUpdated\<rparr>"

definition launchMethodKind :: "launchMethod kind" where
  "launchMethodKind = \<lparr>k_id = lm_id, k_list = launchMethods,
     k_setList = (\<lambda>xs c. c\<lparr>launchMethods := xs\<rparr>), k_byId = launchMethodsById,
     k_setById = (\<lambda>m c. c\<lparr>launchMethodsById := m\<rparr>), k_clear = clearHashesLaunchMethod,
     k_added = updateHashesLaunchMethodAdded, k_deleted = updateHashesLaunchMethodDeleted,
     k_updated = updateHashesLaunchMethodUpdated\<rparr>"

definition flarmNetRecordKind :: "flarmNetRecord kind" where
  "flarmNetRecordKind = \<lparr>k_id = fn_id, k_list = flarmNetRecords,
     k_setList = (\<lambda>xs c. c\<lparr>flarmNetRecords := xs\<rparr>), k_byId = flarmNetRecordsById,
     k_setById = (\<lambda>m c. c\<lparr>flarmNetRecordsById := m\<rparr>), k_clear = clearHashesFlarmNetRecord,
     k_added = updateHashesFlarmNetRecordAdded, k_deleted = updateHashesFlarmNetRecordDeleted,
     k_updated = updateHashesFlarmNetRecordUpdated\<rparr>"

section \<open>Individual objects\<close>

datatype not_found = NotFoundException dbId

text \<open>The hash is the one \<open>objectsByIdHash<T>\<close> selects.\<close>

definition getObject :: "(dbId \<rightharpoonup> 't) \<Rightarrow> dbId \<Rightarrow> not_found + 't" where
  "getObject hash i =
     (if idInvalid i then Inl (NotFoundException i)
      else case hash i of None \<Rightarrow> Inl (NotFoundException i) | Some x \<Rightarrow> Inr x)"

definition getNewObject :: "(dbId \<rightharpoonup> 't) \<Rightarrow> dbId \<Rightarrow> 't option" where
  "getNewObject hash i = (case getObject hash i of Inr x \<Rightarrow> Some x | Inl _ \<Rightarrow> None)"

definition objectExists :: "(dbId \<rightharpoonup> 't) \<Rightarrow> dbId \<Rightarrow> bool" where
  "objectExists hash i \<longleftrightarrow> hash i \<noteq> None"

fun getObjectsByIds :: "(dbId \<rightharpoonup> 't) \<Rightarrow> dbId list \<Rightarrow> bool \<Rightarrow> not_found + 't list" where
  "getObjectsByIds hash [] ignoreNotFound = Inr []"
| "getObjectsByIds hash (i # is) ignoreNotFound =
     (case getObject hash i of
        Inr x \<Rightarrow> map_sum id ((#) x) (getObjectsByIds hash is ignoreNotFound)
      | Inl e \<Rightarrow> if \<not> ignoreNotFound then Inl e else getObjectsByIds hash is ignoreNotFound)"

lemma getNewObject_eq: "getNewObject hash i = (if i = 0 then None else hash i)"
  by (simp add: getNewObject_def getObject_def idInvalid_def split: option.split)

section \<open>Change handling\<close>

definition objectAdded :: "'t kind \<Rightarrow> 't \<Rightarrow> cache \<Rightarrow> cache" where
  "objectAdded k x c =
     (let c1 = k_setList k (k_list k c @ [x]) c;
          c2 = k_setById k ((k_byId k c1)(k_id k x \<mapsto> x)) c1
      in k_added k x c2)"

definition objectDeleted :: "'t kind \<Rightarrow> dbId \<Rightarrow> cache \<Rightarrow> cache option" where
  "objectDeleted k i c =
     (let old = getNewObject (k_byId k c) i;
          c1 = k_setList k (el_removeById (k_id k) i (k_list k c)) c;
          c2 = k_setById k ((k_byId k c1)(i := None)) c1
      in k_deleted k i old c2)"

definition objectUpdated :: "'t kind \<Rightarrow> 't \<Rightarrow> cache \<Rightarrow> cache option" where
  "objectUpdated k x c =
     (let old = getNewObject (k_byId k c) (k_id k x);
          c1 = k_setList k (el_replaceById (k_id k) (k_id k x) x (k_list k c)) c;
          c2 = k_setById k ((k_byId k c1)(k_id k x \<mapsto> x)) c1
      in k_updated k x old c2)"

definition flightAdded :: "flight \<Rightarrow> cache \<Rightarrow> cache" where
  "flightAdded f c =
     (let (interested, c1) =
        (if isPrepared f then (True, c\<lparr>preparedFlights := preparedFlights c @ [f]\<rparr>)
         else if effdatum utc f = todayDate c then (True, c\<lparr>flightsToday := flightsToday c @ [f]\<rparr>)
         else if effdatum utc f = otherDate c then (True, c\<lparr>flightsOther := flightsOther c @ [f]\<rparr>)
         else (False, c))
      in if interested
         then updateHashesFlightAdded f (c1\<lparr>flightsById := (flightsById c1)(getId f \<mapsto> f)\<rparr>)
         else c1)"

definition flightDeleted :: "dbId \<Rightarrow> cache \<Rightarrow> cache" where
  "flightDeleted i c =
     (let old = getNewObject (flightsById c) i;
          c1 = c\<lparr>preparedFlights := el_removeById getId i (preparedFlights c),
                 flightsToday := el_removeById getId i (flightsToday c),
                 flightsOther := el_removeById getId i (flightsOther c)\<rparr>
      in updateHashesFlightDeleted i old (c1\<lparr>flightsById := (flightsById c1)(i := None)\<rparr>))"

definition flightUpdated :: "flight \<Rightarrow> cache \<Rightarrow> cache" where
  "flightUpdated f c =
     (let old = getNewObject (flightsById c) (getId f);
          i = getId f;
          (interested, c1) =
            (if isPrepared f then (True, c
               \<lparr>preparedFlights := el_replaceOrAdd getId i f (preparedFlights c),
                flightsToday := el_removeById getId i (flightsToday c),
                flightsOther := el_removeById getId i (flightsOther c)\<rparr>)
             else if effdatum utc f = todayDate c then (True, c
               \<lparr>preparedFlights := el_removeById getId i (preparedFlights c),
                flightsToday := el_replaceOrAdd getId i f (flightsToday c),
                flightsOther := el_removeById getId i (flightsOther c)\<rparr>)
             else if effdatum utc f = otherDate c then (True, c
               \<lparr>preparedFlights := el_removeById getId i (preparedFlights c),
                flightsToday := el_removeById getId i (flightsToday c),
                flightsOther := el_replaceOrAdd getId i f (flightsOther c)\<rparr>)
             else (False, c
               \<lparr>preparedFlights := el_removeById getId i (preparedFlights c),
                flightsToday := el_removeById getId i (flightsToday c),
                flightsOther := el_removeById getId i (flightsOther c)\<rparr>))
      in if interested
         then updateHashesFlightUpdated f old (c1\<lparr>flightsById := (flightsById c1)(getId f \<mapsto> f)\<rparr>)
         else c1)"

text \<open>The value of an event as an object of a class; events are only made by the templates of
  \<open>DbEvent\<close>, so that the value belongs to the table. \<open>None\<close> stands for a mismatch.\<close>

fun valuePlane :: "db_value \<Rightarrow> plane option" where
  "valuePlane (ValuePlane p) = Some p" | "valuePlane _ = None"
fun valuePerson :: "db_value \<Rightarrow> person option" where
  "valuePerson (ValuePerson p) = Some p" | "valuePerson _ = None"
fun valueLaunchMethod :: "db_value \<Rightarrow> launchMethod option" where
  "valueLaunchMethod (ValueLaunchMethod l) = Some l" | "valueLaunchMethod _ = None"
fun valueFlarmNetRecord :: "db_value \<Rightarrow> flarmNetRecord option" where
  "valueFlarmNetRecord (ValueFlarmNetRecord r) = Some r" | "valueFlarmNetRecord _ = None"
fun valueFlight :: "db_value \<Rightarrow> flight option" where
  "valueFlight (ValueFlight f) = Some f" | "valueFlight _ = None"

definition handleDbChanged ::
    "'t kind \<Rightarrow> (db_value \<Rightarrow> 't option) \<Rightarrow> db_event \<Rightarrow> cache \<Rightarrow> cache option" where
  "handleDbChanged k val e c = (case ev_type e of
     typeAdd \<Rightarrow> map_option (\<lambda>x. objectAdded k x c) (val (ev_value e))
   | typeChange \<Rightarrow> Option.bind (val (ev_value e)) (\<lambda>x. objectUpdated k x c)
   | typeDelete \<Rightarrow> objectDeleted k (ev_id e) c)"

definition handleDbChangedFlight :: "db_event \<Rightarrow> cache \<Rightarrow> cache option" where
  "handleDbChangedFlight e c = (case ev_type e of
     typeAdd \<Rightarrow> map_option (\<lambda>f. flightAdded f c) (valueFlight (ev_value e))
   | typeChange \<Rightarrow> map_option (\<lambda>f. flightUpdated f c) (valueFlight (ev_value e))
   | typeDelete \<Rightarrow> Some (flightDeleted (ev_id e) c))"

text \<open>The slot returns the new cache and the event it re-emits; \<open>None\<close> is a crash.\<close>

definition dbChanged :: "db_event \<Rightarrow> cache \<Rightarrow> (cache \<times> db_event) option" where
  "dbChanged e c = map_option (\<lambda>c'. (c', e)) (case ev_table e of
     tableFlights \<Rightarrow> handleDbChangedFlight e c
   | tableLaunchMethods \<Rightarrow> handleDbChanged launchMethodKind valueLaunchMethod e c
   | tablePeople \<Rightarrow> handleDbChanged personKind valuePerson e c
   | tablePlanes \<Rightarrow> handleDbChanged planeKind valuePlane e c
   | tableFlarmNetRecords \<Rightarrow> handleDbChanged flarmNetRecordKind valueFlarmNetRecord e c)"

end
