(* ===== verification/Sk_CacheSync.thy ===== *)
theory Sk_CacheSync
  imports Sk_Cache
begin

text \<open>
  The cache follows the database: after every event the object lists, the hashes by id and the
  specific hashes are those of the changed database. The locale \<open>object_kind\<close> states what the change
  handling needs of the specialised templates; it is interpreted for planes, people, launch methods
  and FlarmNet records. The lists of flights are treated separately, as their handlers are.
\<close>

section \<open>Lists with distinct ids\<close>

lemma mset_update_by_id:
  assumes "distinct (map gid xs)" "y \<in> set xs" "gid y = gid x"
  shows "mset (map (\<lambda>z. if gid z = gid x then x else z) xs)
    = add_mset x (mset (filter (\<lambda>z. gid z \<noteq> gid x) xs))"
  using assms
proof (induction xs)
  case (Cons a xs)
  show ?case
  proof (cases "gid a = gid x")
    case True
    from Cons.prems(1) have "gid a \<notin> gid ` set xs" by simp
    with True have "\<forall>z \<in> set xs. gid z \<noteq> gid x" by (metis imageI)
    then have "map (\<lambda>z. if gid z = gid x then x else z) xs = xs"
      "filter (\<lambda>z. gid z \<noteq> gid x) xs = xs"
      by (auto intro: map_idI filter_True)
    with True show ?thesis by simp
  next
    case False
    with Cons have "y \<in> set xs" by auto
    with Cons False show ?thesis by simp
  qed
qed simp

lemma map_update_ids:
  "map gid (map (\<lambda>z. if gid z = gid x then x else z) xs) = map gid xs"
  by (induction xs) auto

lemma set_update_by_id:
  "set (map (\<lambda>z. if gid z = gid x then x else z) xs)
    = (if gid x \<in> gid ` set xs then insert x {z \<in> set xs. gid z \<noteq> gid x} else set xs)"
  by (auto simp: image_iff)

lemma mset_filter_pair:
  assumes "distinct (map gid xs)" "x \<in> set xs"
  shows "filter_mset (\<lambda>p. p \<noteq> (key x, gid x)) (image_mset (\<lambda>z. (key z, gid z)) (mset xs))
    = image_mset (\<lambda>z. (key z, gid z)) (mset (filter (\<lambda>z. gid z \<noteq> gid x) xs))"
proof -
  have "key z = key x" if "z \<in> set xs" "gid z = gid x" for z
    using map_of_distinct_Some [OF assms(1) that(1) assms(2) that(2)] by simp
  then show ?thesis
    by (auto simp: filter_mset_image_mset mset_filter intro!: arg_cong [where f = "image_mset _"]
        filter_mset_cong)
qed

section \<open>The contract of the specialised templates\<close>

text \<open>\<open>idx c xs\<close>: the specific hashes of the class describe the objects \<open>xs\<close>.\<close>

locale object_kind =
  fixes k :: "'t kind" and idx :: "cache \<Rightarrow> 't list \<Rightarrow> bool"
  assumes list_set [simp]: "k_list k (k_setList k xs c) = xs"
      "k_list k (k_setById k m c) = k_list k c" "k_list k (k_added k x c) = k_list k c"
      "k_list k (k_clear k c) = k_list k c"
    and byId_set [simp]: "k_byId k (k_setList k xs c) = k_byId k c" "k_byId k (k_setById k m c) = m"
      "k_byId k (k_added k x c) = k_byId k c" "k_byId k (k_clear k c) = k_byId k c"
    and deleted_keeps: "k_deleted k i old c = Some c' \<Longrightarrow> k_list k c' = k_list k c \<and> k_byId k c' = k_byId k c"
    and deleted_some: "\<exists>c'. k_deleted k i (Some x) c = Some c'"
    and updated: "k_updated k x old c = map_option (k_added k x) (k_deleted k (k_id k x) old c)"
    and idx_set [simp]: "idx (k_setList k ys c) xs = idx c xs" "idx (k_setById k m c) xs = idx c xs"
    and idx_mset: "mset xs = mset ys \<Longrightarrow> idx c xs = idx c ys"
    and idx_added: "idx c xs \<Longrightarrow> idx (k_added k x c) (x # xs)"
    and idx_deleted: "idx c xs \<Longrightarrow> distinct (map (k_id k) xs) \<Longrightarrow> x \<in> set xs
      \<Longrightarrow> k_deleted k (k_id k x) (Some x) c = Some c'
      \<Longrightarrow> idx c' (filter (\<lambda>z. k_id k z \<noteq> k_id k x) xs)"

text \<open>For the refresh the hashes also have to be empty after \<open>clearHashes\<close>. The lists sorted by usage
  are not among them.\<close>

locale clearable_kind = object_kind +
  assumes idx_clear: "idx c xs \<Longrightarrow> idx (k_clear k c) []"

text \<open>The cache mirrors the table \<open>db\<close> of the class.\<close>

definition table_ok :: "('t \<Rightarrow> dbId) \<Rightarrow> (dbId \<rightharpoonup> 't) \<Rightarrow> bool" where
  "table_ok gid db \<longleftrightarrow> (\<forall>i x. db i = Some x \<longrightarrow> gid x = i \<and> i \<noteq> 0)"

definition mirrors :: "'t kind \<Rightarrow> (cache \<Rightarrow> 't list \<Rightarrow> bool) \<Rightarrow> cache \<Rightarrow> (dbId \<rightharpoonup> 't) \<Rightarrow> bool" where
  "mirrors k idx c db \<longleftrightarrow> table_ok (k_id k) db \<and> distinct (map (k_id k) (k_list k c))
     \<and> set (k_list k c) = ran db \<and> k_byId k c = db \<and> idx c (k_list k c)"

lemma table_ran: "table_ok gid db \<Longrightarrow> x \<in> ran db \<longleftrightarrow> db (gid x) = Some x"
  by (auto simp: table_ok_def ran_def)

lemma table_delete: "table_ok gid db \<Longrightarrow> ran (db(i := None)) = {x \<in> ran db. gid x \<noteq> i}"
  by (auto simp: table_ok_def ran_def)

lemma table_update:
  "table_ok gid db \<Longrightarrow> ran (db(gid x \<mapsto> x)) = insert x {z \<in> ran db. gid z \<noteq> gid x}"
  by (auto simp: table_ok_def ran_def)

lemma table_ok_upd: "table_ok gid db \<Longrightarrow> gid x \<noteq> 0 \<Longrightarrow> table_ok gid (db(gid x \<mapsto> x))"
  "table_ok gid db \<Longrightarrow> table_ok gid (db(i := None))"
  by (auto simp: table_ok_def)

context object_kind begin

lemma added_mirrors:
  assumes "mirrors k idx c db" "k_id k x \<noteq> 0" "db (k_id k x) = None"
  shows "mirrors k idx (objectAdded k x c) (db(k_id k x \<mapsto> x))"
proof -
  have t: "table_ok (k_id k) db" and m: "distinct (map (k_id k) (k_list k c))"
    "set (k_list k c) = ran db" "k_byId k c = db" "idx c (k_list k c)"
    using assms(1) by (auto simp: mirrors_def)
  have new: "k_id k x \<notin> k_id k ` ran db"
    using t assms(3) by (auto simp: table_ran)
  let ?c = "k_setById k (db(k_id k x \<mapsto> x)) (k_setList k (k_list k c @ [x]) c)"
  have "idx (k_added k x ?c) (x # k_list k c)"
    using m(4) by (intro idx_added) simp
  then have "idx (k_added k x ?c) (k_list k c @ [x])"
    by (subst idx_mset [where ys = "x # k_list k c"]) simp_all
  moreover have "ran (db(k_id k x \<mapsto> x)) = insert x (ran db)"
    using assms(3) by simp
  ultimately show ?thesis
    using t m new assms(2)
    by (simp add: mirrors_def objectAdded_def Let_def table_ok_upd)
qed

lemma old_object:
  assumes "mirrors k idx c db" "db i = Some x"
  shows "getNewObject (k_byId k c) i = Some x" "x \<in> set (k_list k c)" "k_id k x = i"
  using assms by (auto simp: mirrors_def table_ok_def getNewObject_eq ran_def)

lemma deleted_mirrors:
  assumes "mirrors k idx c db" "db i = Some x"
  shows "\<exists>c'. objectDeleted k i c = Some c' \<and> mirrors k idx c' (db(i := None))"
proof -
  note old = old_object [OF assms]
  have t: "table_ok (k_id k) db" and m: "distinct (map (k_id k) (k_list k c))"
    "set (k_list k c) = ran db" "k_byId k c = db" "idx c (k_list k c)"
    using assms(1) by (auto simp: mirrors_def)
  let ?xs = "filter (\<lambda>z. k_id k z \<noteq> i) (k_list k c)"
  let ?c = "k_setById k (db(i := None)) (k_setList k ?xs c)"
  obtain c' where c': "k_deleted k i (Some x) ?c = Some c'" using deleted_some by blast
  have "idx c' ?xs"
    using idx_deleted [of ?c "k_list k c" x c'] m old c' by simp
  moreover have "set ?xs = ran (db(i := None))"
    using t m(2) by (auto simp: table_delete)
  ultimately have "mirrors k idx c' (db(i := None))"
    using deleted_keeps [OF c'] t m(1) by (simp add: mirrors_def table_ok_upd)
  moreover have "objectDeleted k i c = Some c'"
    using c' old m(3) by (simp add: objectDeleted_def Let_def)
  ultimately show ?thesis by blast
qed

lemma updated_mirrors:
  assumes "mirrors k idx c db" "db (k_id k x) = Some y"
  shows "\<exists>c'. objectUpdated k x c = Some c' \<and> mirrors k idx c' (db(k_id k x \<mapsto> x))"
proof -
  note old = old_object [OF assms]
  have t: "table_ok (k_id k) db" and m: "distinct (map (k_id k) (k_list k c))"
    "set (k_list k c) = ran db" "k_byId k c = db" "idx c (k_list k c)"
    using assms(1) by (auto simp: mirrors_def)
  let ?i = "k_id k x"
  let ?xs = "map (\<lambda>z. if k_id k z = ?i then x else z) (k_list k c)"
  let ?c = "k_setById k (db(?i \<mapsto> x)) (k_setList k ?xs c)"
  obtain c' where c': "k_deleted k ?i (Some y) ?c = Some c'" using deleted_some by blast
  have "idx c' (filter (\<lambda>z. k_id k z \<noteq> ?i) (k_list k c))"
    using idx_deleted [of ?c "k_list k c" y c'] m old c' by simp
  then have "idx (k_added k x c') (x # filter (\<lambda>z. k_id k z \<noteq> ?i) (k_list k c))"
    by (rule idx_added)
  then have "idx (k_added k x c') ?xs"
    using mset_update_by_id [of "k_id k" "k_list k c" y x] m(1) old(2,3)
    by (subst idx_mset [where ys = "x # filter (\<lambda>z. k_id k z \<noteq> ?i) (k_list k c)"]) simp_all
  moreover have "set ?xs = ran (db(?i \<mapsto> x))"
    using t m(2) old by (auto simp: set_update_by_id table_update)
  moreover have "?i \<noteq> 0" using t assms(2) by (auto simp: table_ok_def)
  ultimately have "mirrors k idx (k_added k x c') (db(?i \<mapsto> x))"
    using deleted_keeps [OF c'] t m(1)
    by (simp add: mirrors_def table_ok_upd map_update_ids del: map_map)
  moreover have "objectUpdated k x c = Some (k_added k x c')"
    using c' old m(3) by (simp add: objectUpdated_def Let_def updated)
  ultimately show ?thesis by blast
qed

end

section \<open>Planes\<close>

text \<open>A multi hash from a key of the objects to their ids.\<close>

definition hash_indexes ::
    "('t \<Rightarrow> 'k) \<Rightarrow> ('t \<Rightarrow> dbId) \<Rightarrow> ('k, dbId) multiHash \<Rightarrow> 't list \<Rightarrow> bool" where
  "hash_indexes key gid h xs \<longleftrightarrow> mset h = image_mset (\<lambda>z. (key z, gid z)) (mset xs)"

lemma hash_indexes_Nil [simp]: "hash_indexes key gid [] xs \<longleftrightarrow> xs = []"
  by (cases xs) (auto simp: hash_indexes_def)

lemma hash_indexes_mset: "mset xs = mset ys \<Longrightarrow> hash_indexes key gid h xs = hash_indexes key gid h ys"
  by (simp add: hash_indexes_def)

lemma hash_indexes_insert:
  "hash_indexes key gid h xs \<Longrightarrow> kx = key x \<Longrightarrow> gx = gid x
    \<Longrightarrow> hash_indexes key gid (mh_insert kx gx h) (x # xs)"
  by (simp add: hash_indexes_def mh_mset)

lemma hash_indexes_remove:
  "hash_indexes key gid h xs \<Longrightarrow> distinct (map gid xs) \<Longrightarrow> x \<in> set xs \<Longrightarrow> kx = key x
    \<Longrightarrow> hash_indexes key gid (mh_remove kx (gid x) h) (filter (\<lambda>z. gid z \<noteq> gid x) xs)"
  by (simp add: hash_indexes_def mh_mset mset_filter_pair)

lemma hash_indexes_set:
  assumes "hash_indexes key gid h xs"
  shows "set h = (\<lambda>z. (key z, gid z)) ` set xs"
  using assms unfolding hash_indexes_def by (metis set_image_mset set_mset_mset)

lemma hash_indexes_values:
  assumes "hash_indexes key gid h xs"
  shows "mset (mh_values q h) = image_mset gid (mset (filter (\<lambda>z. key z = q) xs))"
proof -
  have "mset (mh_values q h) = image_mset snd (filter_mset (\<lambda>p. fst p = q) (mset h))"
    by (simp add: mh_values_def)
  also have "\<dots> = image_mset gid (filter_mset (\<lambda>z. key z = q) (mset xs))"
    using assms by (simp add: hash_indexes_def filter_mset_image_mset multiset.map_comp o_def)
  finally show ?thesis by simp
qed

text \<open>A list of objects with sort keys holds the objects \<open>xs\<close>.\<close>

definition keyed :: "'t withSortkey list \<Rightarrow> 't list \<Rightarrow> bool" where
  "keyed ws xs \<longleftrightarrow> image_mset fst (mset ws) = mset xs"

lemma keyed_Cons: "keyed ws xs \<Longrightarrow> keyed ((x, n) # ws) (x # xs)"
  by (simp add: keyed_def)

lemma keyed_filter:
  "keyed ws xs \<Longrightarrow> keyed (filter (\<lambda>w. gid (fst w) \<noteq> i) ws) (filter (\<lambda>z. gid z \<noteq> i) xs)"
proof -
  assume "keyed ws xs"
  moreover have "image_mset fst (filter_mset (\<lambda>w. gid (fst w) \<noteq> i) (mset ws))
      = filter_mset (\<lambda>z. gid z \<noteq> i) (image_mset fst (mset ws))"
    by (simp add: filter_mset_image_mset)
  ultimately show ?thesis by (simp add: keyed_def)
qed

lemma keyed_mset: "mset xs = mset ys \<Longrightarrow> keyed ws xs = keyed ws ys"
  by (simp add: keyed_def)

lemma ssInsert_facts [simp]:
  "ss_inv s \<Longrightarrow> ss_inv (ssInsert x s)" "ss_set (ssInsert x s) = insert x (ss_set s)"
  "ss_inv s \<Longrightarrow> ss_inv (ssRemove x s)" "ss_inv s \<Longrightarrow> ss_set (ssRemove x s) = ss_set s - {x}"
  "ss_inv s \<Longrightarrow> ss_inv (ssClear s)" "ss_set (ssClear s) = {}"
  "ss_inv s \<Longrightarrow> ss_inv (ssInsertUnlessBlank x s)"
  by (simp_all add: ssInsert_def ssRemove_def ssClear_def ssInsertUnlessBlank_def ss.ins_inv
      ss.rem_inv ss.rem_elems ss.clr_inv)

definition planeHashes :: "cache \<Rightarrow> plane list \<Rightarrow> bool" where
  "planeHashes c xs \<longleftrightarrow>
     hash_indexes (\<lambda>p. toLower (pl_registration p)) pl_id (planeIdsByRegistration c) xs
     \<and> hash_indexes pl_flarmId pl_id (planeIdsByFlarmId c) xs
     \<and> ss_inv (planeRegistrations c) \<and> pl_registration ` set xs \<subseteq> ss_set (planeRegistrations c)"

definition planeIdx :: "cache \<Rightarrow> plane list \<Rightarrow> bool" where
  "planeIdx c xs \<longleftrightarrow> planeHashes c xs \<and> keyed (planesSortedByUsage c) xs"

lemma planeHashes_mset: "mset xs = mset ys \<Longrightarrow> planeHashes c xs = planeHashes c ys"
  using mset_eq_setD [of xs ys] by (simp add: planeHashes_def hash_indexes_def)

lemma planeHashes_added:
  "planeHashes c xs \<Longrightarrow> planeHashes (updateHashesPlaneAdded p c) (p # xs)"
  by (auto simp: planeHashes_def updateHashesPlaneAdded_def intro: hash_indexes_insert)

lemma planeHashes_deleted:
  assumes "planeHashes c xs" "distinct (map pl_id xs)" "p \<in> set xs"
    and "updateHashesPlaneDeleted (pl_id p) (Some p) c = Some c'"
  shows "planeHashes c' (filter (\<lambda>z. pl_id z \<noteq> pl_id p) xs)"
proof -
  let ?xs = "filter (\<lambda>z. pl_id z \<noteq> pl_id p) xs"
  let ?h = "mh_remove (toLower (pl_registration p)) (pl_id p) (planeIdsByRegistration c)"
  have h: "hash_indexes (\<lambda>p. toLower (pl_registration p)) pl_id ?h ?xs"
    "hash_indexes pl_flarmId pl_id (mh_remove (pl_flarmId p) (pl_id p) (planeIdsByFlarmId c)) ?xs"
    using assms(1-3) by (auto simp: planeHashes_def intro: hash_indexes_remove)
  have "pl_registration z \<noteq> pl_registration p"
    if "\<not> mh_contains (toLower (pl_registration p)) ?h" "z \<in> set ?xs" for z
    using that hash_indexes_set [OF h(1)] by (auto simp: mh_contains_def image_iff)
  then have "pl_registration ` set ?xs \<subseteq> ss_set (planeRegistrations c')"
    using assms(1,4)
    by (auto simp: updateHashesPlaneDeleted_def planeHashes_def Let_def split: if_splits)
  moreover have "ss_inv (planeRegistrations c')" "planeIdsByRegistration c' = ?h"
    "planeIdsByFlarmId c' = mh_remove (pl_flarmId p) (pl_id p) (planeIdsByFlarmId c)"
    using assms(1,4)
    by (auto simp: updateHashesPlaneDeleted_def planeHashes_def Let_def split: if_splits)
  ultimately show ?thesis using h by (simp add: planeHashes_def)
qed

lemma plane_sorted:
  "planesSortedByUsage (updateHashesPlaneAdded p c) = (p, 0) # planesSortedByUsage c"
  "updateHashesPlaneDeleted i (Some p) c = Some c' \<Longrightarrow>
     planesSortedByUsage c' = filter (\<lambda>w. pl_id (fst w) \<noteq> pl_id p) (planesSortedByUsage c)"
  by (auto simp: updateHashesPlaneAdded_def updateHashesPlaneDeleted_def Let_def split: if_splits)

lemma planeKind_simps [simp]:
  "k_id planeKind = pl_id" "k_list planeKind = planes" "k_byId planeKind = planesById"
  "k_setList planeKind xs c = c\<lparr>planes := xs\<rparr>" "k_setById planeKind m c = c\<lparr>planesById := m\<rparr>"
  "k_clear planeKind = clearHashesPlane" "k_added planeKind = updateHashesPlaneAdded"
  "k_deleted planeKind = updateHashesPlaneDeleted" "k_updated planeKind = updateHashesPlaneUpdated"
  by (simp_all add: planeKind_def)

lemma planeKind_frame:
  "planes (updateHashesPlaneAdded p c) = planes c" "planes (clearHashesPlane c) = planes c"
  "planesById (updateHashesPlaneAdded p c) = planesById c" "planesById (clearHashesPlane c) = planesById c"
  "updateHashesPlaneDeleted i old c = Some c' \<Longrightarrow> planes c' = planes c \<and> planesById c' = planesById c"
  "\<exists>c'. updateHashesPlaneDeleted i old c = Some c'"
  by (auto simp: updateHashesPlaneAdded_def clearHashesPlane_def updateHashesPlaneDeleted_def Let_def
      split: option.splits if_splits)

interpretation pk: clearable_kind planeKind planeHashes
proof
  fix c c' :: cache and xs ys :: "plane list" and x i old m
  show "mset xs = mset ys \<Longrightarrow> planeHashes c xs = planeHashes c ys" by (rule planeHashes_mset)
  show "planeHashes c xs \<Longrightarrow> planeHashes (k_added planeKind x c) (x # xs)"
    by (simp add: planeHashes_added)
  show "planeHashes c' (filter (\<lambda>z. k_id planeKind z \<noteq> k_id planeKind x) xs)"
    if "planeHashes c xs" "distinct (map (k_id planeKind) xs)" "x \<in> set xs"
      "k_deleted planeKind (k_id planeKind x) (Some x) c = Some c'"
    using that planeHashes_deleted [of c xs x c'] by simp
  show "planeHashes c xs \<Longrightarrow> planeHashes (k_clear planeKind c) []"
    by (simp add: planeHashes_def clearHashesPlane_def)
qed (simp_all add: planeKind_frame updateHashesPlaneUpdated_def planeHashes_def)

interpretation pk': object_kind planeKind planeIdx
proof
  fix c c' :: cache and xs ys :: "plane list" and x i old m
  show "mset xs = mset ys \<Longrightarrow> planeIdx c xs = planeIdx c ys"
    unfolding planeIdx_def using planeHashes_mset keyed_mset by blast
  show "planeIdx c xs \<Longrightarrow> planeIdx (k_added planeKind x c) (x # xs)"
    by (simp add: planeIdx_def planeHashes_added plane_sorted keyed_Cons)
  show "planeIdx c' (filter (\<lambda>z. k_id planeKind z \<noteq> k_id planeKind x) xs)"
    if "planeIdx c xs" "distinct (map (k_id planeKind) xs)" "x \<in> set xs"
      "k_deleted planeKind (k_id planeKind x) (Some x) c = Some c'"
    using that planeHashes_deleted [of c xs x c'] by (simp add: planeIdx_def plane_sorted keyed_filter)
qed (simp_all add: planeKind_frame updateHashesPlaneUpdated_def planeIdx_def planeHashes_def)

section \<open>People\<close>

definition personHashes :: "cache \<Rightarrow> person list \<Rightarrow> bool" where
  "personHashes c xs \<longleftrightarrow>
     hash_indexes (\<lambda>p. toLower (pe_lastName p)) pe_id (personIdsByLastName c) xs
     \<and> hash_indexes (\<lambda>p. toLower (pe_firstName p)) pe_id (personIdsByFirstName c) xs
     \<and> hash_indexes (\<lambda>p. (toLower (pe_lastName p), toLower (pe_firstName p))) pe_id (personIdsByName c) xs
     \<and> ss_inv (personLastNames c) \<and> ss_inv (personFirstNames c)
     \<and> pe_lastName ` set xs \<subseteq> ss_set (personLastNames c)
     \<and> pe_firstName ` set xs \<subseteq> ss_set (personFirstNames c)
     \<and> distinct (lastNamesByFirstName c) \<and> distinct (firstNamesByLastName c)
     \<and> (\<lambda>p. (toLower (pe_firstName p), pe_lastName p)) ` set xs \<subseteq> set (lastNamesByFirstName c)
     \<and> (\<lambda>p. (toLower (pe_lastName p), pe_firstName p)) ` set xs \<subseteq> set (firstNamesByLastName c)"

definition personIdx :: "cache \<Rightarrow> person list \<Rightarrow> bool" where
  "personIdx c xs \<longleftrightarrow> personHashes c xs \<and> keyed (peopleSortedByFrequency c) xs"

lemma personHashes_mset: "mset xs = mset ys \<Longrightarrow> personHashes c xs = personHashes c ys"
  using mset_eq_setD [of xs ys] by (simp add: personHashes_def hash_indexes_def)

lemma personHashes_added:
  "personHashes c xs \<Longrightarrow> personHashes (updateHashesPersonAdded p c) (p # xs)"
  by (simp add: personHashes_def updateHashesPersonAdded_def Let_def hash_indexes_insert
      mh_insertUnique_distinct) blast

lemma personHashes_deleted:
  assumes "personHashes c xs" "distinct (map pe_id xs)" "p \<in> set xs"
    and "updateHashesPersonDeleted (pe_id p) (Some p) c = Some c'"
  shows "personHashes c' (filter (\<lambda>z. pe_id z \<noteq> pe_id p) xs)"
proof -
  have c': "c' = c
       \<lparr>personIdsByLastName := mh_remove (toLower (pe_lastName p)) (pe_id p) (personIdsByLastName c),
        personIdsByFirstName := mh_remove (toLower (pe_firstName p)) (pe_id p) (personIdsByFirstName c),
        personIdsByName := mh_remove (toLower (pe_lastName p), toLower (pe_firstName p)) (pe_id p)
          (personIdsByName c),
        peopleSortedByFrequency :=
          filter (\<lambda>w. pe_id (fst w) \<noteq> pe_id p) (peopleSortedByFrequency c)\<rparr>"
    using assms(4) by (simp add: updateHashesPersonDeleted_def Let_def)
  show ?thesis
    using assms(1-3) unfolding c' personHashes_def by (simp add: hash_indexes_remove) blast
qed

lemma personKind_simps [simp]:
  "k_id personKind = pe_id" "k_list personKind = people" "k_byId personKind = peopleById"
  "k_setList personKind xs c = c\<lparr>people := xs\<rparr>" "k_setById personKind m c = c\<lparr>peopleById := m\<rparr>"
  "k_clear personKind = clearHashesPerson" "k_added personKind = updateHashesPersonAdded"
  "k_deleted personKind = updateHashesPersonDeleted" "k_updated personKind = updateHashesPersonUpdated"
  by (simp_all add: personKind_def)

lemma personKind_frame:
  "people (updateHashesPersonAdded p c) = people c" "people (clearHashesPerson c) = people c"
  "peopleById (updateHashesPersonAdded p c) = peopleById c" "peopleById (clearHashesPerson c) = peopleById c"
  "updateHashesPersonDeleted i old c = Some c' \<Longrightarrow> people c' = people c \<and> peopleById c' = peopleById c"
  "\<exists>c'. updateHashesPersonDeleted i old c = Some c'"
  by (auto simp: updateHashesPersonAdded_def clearHashesPerson_def updateHashesPersonDeleted_def Let_def
      split: option.splits)

lemma person_sorted:
  "peopleSortedByFrequency (updateHashesPersonAdded p c) = (p, 0) # peopleSortedByFrequency c"
  "updateHashesPersonDeleted i (Some p) c = Some c' \<Longrightarrow>
     peopleSortedByFrequency c' = filter (\<lambda>w. pe_id (fst w) \<noteq> pe_id p) (peopleSortedByFrequency c)"
  by (auto simp: updateHashesPersonAdded_def updateHashesPersonDeleted_def Let_def)

interpretation ek: clearable_kind personKind personHashes
proof
  fix c c' :: cache and xs ys :: "person list" and x i old m
  show "mset xs = mset ys \<Longrightarrow> personHashes c xs = personHashes c ys" by (rule personHashes_mset)
  show "personHashes c xs \<Longrightarrow> personHashes (k_added personKind x c) (x # xs)"
    by (simp add: personHashes_added)
  show "personHashes c' (filter (\<lambda>z. k_id personKind z \<noteq> k_id personKind x) xs)"
    if "personHashes c xs" "distinct (map (k_id personKind) xs)" "x \<in> set xs"
      "k_deleted personKind (k_id personKind x) (Some x) c = Some c'"
    using that personHashes_deleted [of c xs x c'] by simp
  show "personHashes c xs \<Longrightarrow> personHashes (k_clear personKind c) []"
    by (simp add: personHashes_def clearHashesPerson_def)
qed (simp_all add: personKind_frame updateHashesPersonUpdated_def personHashes_def)

interpretation ek': object_kind personKind personIdx
proof
  fix c c' :: cache and xs ys :: "person list" and x i old m
  show "mset xs = mset ys \<Longrightarrow> personIdx c xs = personIdx c ys"
    unfolding personIdx_def using personHashes_mset keyed_mset by blast
  show "personIdx c xs \<Longrightarrow> personIdx (k_added personKind x c) (x # xs)"
    by (simp add: personIdx_def personHashes_added person_sorted keyed_Cons)
  show "personIdx c' (filter (\<lambda>z. k_id personKind z \<noteq> k_id personKind x) xs)"
    if "personIdx c xs" "distinct (map (k_id personKind) xs)" "x \<in> set xs"
      "k_deleted personKind (k_id personKind x) (Some x) c = Some c'"
    using that personHashes_deleted [of c xs x c'] by (simp add: personIdx_def person_sorted keyed_filter)
qed (simp_all add: personKind_frame updateHashesPersonUpdated_def personIdx_def personHashes_def)

section \<open>Launch methods and FlarmNet records\<close>

definition launchMethodIdx :: "cache \<Rightarrow> launchMethod list \<Rightarrow> bool" where
  "launchMethodIdx c xs \<longleftrightarrow> hash_indexes lm_type lm_id (launchMethodIdsByType c) xs"

definition flarmNetRecordIdx :: "cache \<Rightarrow> flarmNetRecord list \<Rightarrow> bool" where
  "flarmNetRecordIdx c xs \<longleftrightarrow> hash_indexes fn_flarmId fn_id (flarmNetRecordIdsByFlarmId c) xs"

lemmas launchMethod_hash_defs =
  updateHashesLaunchMethodAdded_def updateHashesLaunchMethodDeleted_def
  updateHashesLaunchMethodUpdated_def clearHashesLaunchMethod_def

lemmas flarmNetRecord_hash_defs =
  updateHashesFlarmNetRecordAdded_def updateHashesFlarmNetRecordDeleted_def
  updateHashesFlarmNetRecordUpdated_def clearHashesFlarmNetRecord_def

interpretation lk: clearable_kind launchMethodKind launchMethodIdx
proof
  fix c c' :: cache and xs ys :: "launchMethod list" and x i old m
  show "mset xs = mset ys \<Longrightarrow> launchMethodIdx c xs = launchMethodIdx c ys"
    unfolding launchMethodIdx_def by (rule hash_indexes_mset)
  show "launchMethodIdx c' (filter (\<lambda>z. k_id launchMethodKind z \<noteq> k_id launchMethodKind x) xs)"
    if "launchMethodIdx c xs" "distinct (map (k_id launchMethodKind) xs)" "x \<in> set xs"
      "k_deleted launchMethodKind (k_id launchMethodKind x) (Some x) c = Some c'"
    using that
    by (auto simp: launchMethodIdx_def launchMethodKind_def launchMethod_hash_defs hash_indexes_remove)
qed (auto simp: launchMethodKind_def launchMethod_hash_defs launchMethodIdx_def hash_indexes_insert
    split: option.splits)

lemma mh_remove_absent: "\<not> mh_contains q h \<Longrightarrow> mh_remove q i h = h"
  unfolding mh_contains_def mh_remove_def filter_id_conv by force

interpretation rk: clearable_kind flarmNetRecordKind flarmNetRecordIdx
proof
  fix c c' :: cache and xs ys :: "flarmNetRecord list" and x i old m
  show "mset xs = mset ys \<Longrightarrow> flarmNetRecordIdx c xs = flarmNetRecordIdx c ys"
    unfolding flarmNetRecordIdx_def by (rule hash_indexes_mset)
  show "flarmNetRecordIdx c' (filter (\<lambda>z. k_id flarmNetRecordKind z \<noteq> k_id flarmNetRecordKind x) xs)"
    if "flarmNetRecordIdx c xs" "distinct (map (k_id flarmNetRecordKind) xs)" "x \<in> set xs"
      "k_deleted flarmNetRecordKind (k_id flarmNetRecordKind x) (Some x) c = Some c'"
  proof -
    have "hash_indexes fn_flarmId fn_id
        (mh_remove (fn_flarmId x) (fn_id x) (flarmNetRecordIdsByFlarmId c)) (filter (\<lambda>z. fn_id z \<noteq> fn_id x) xs)"
      using that by (intro hash_indexes_remove) (simp_all add: flarmNetRecordIdx_def flarmNetRecordKind_def)
    moreover have "flarmNetRecordIdsByFlarmId c'
        = mh_remove (fn_flarmId x) (fn_id x) (flarmNetRecordIdsByFlarmId c)"
      using that(4)
      by (auto simp: flarmNetRecordKind_def flarmNetRecord_hash_defs mh_remove_absent split: if_splits)
    ultimately show ?thesis by (simp add: flarmNetRecordIdx_def flarmNetRecordKind_def)
  qed
qed (auto simp: flarmNetRecordKind_def flarmNetRecord_hash_defs flarmNetRecordIdx_def hash_indexes_insert
    split: option.splits if_splits)

end
