(* ===== verification/Sk_CacheRefine.thy ===== *)
theory Sk_CacheRefine
  imports Sk_CacheSync
begin

text \<open>
  The event handling of the cache as a refinement of the database: the abstract state is the set of
  tables, an event changes one row of one table, and \<open>Cache::dbChanged\<close> keeps the cache a mirror of
  the tables. The flights are distributed over three lists.
\<close>

section \<open>A list that holds the rows with a property\<close>

definition holds :: "('a \<Rightarrow> dbId) \<Rightarrow> ('a \<Rightarrow> bool) \<Rightarrow> 'a list \<Rightarrow> (dbId \<rightharpoonup> 'a) \<Rightarrow> bool" where
  "holds gid P xs db \<longleftrightarrow> distinct (map gid xs) \<and> set xs = {x \<in> ran db. P x}"

lemma holds_add:
  assumes "holds gid P xs db" "table_ok gid db" "db (gid x) = None"
  shows "holds gid P (if P x then xs @ [x] else xs) (db(gid x \<mapsto> x))"
proof -
  have "gid x \<notin> gid ` set xs"
    using assms by (auto simp: holds_def table_ran)
  moreover have "ran (db(gid x \<mapsto> x)) = insert x (ran db)" using assms(3) by simp
  ultimately show ?thesis using assms(1) by (auto simp: holds_def)
qed

lemma holds_remove:
  "holds gid P xs db \<Longrightarrow> table_ok gid db
    \<Longrightarrow> holds gid P (filter (\<lambda>z. gid z \<noteq> i) xs) (db(i := None))"
  by (auto simp: holds_def table_delete)

lemma holds_update_out:
  "holds gid P xs db \<Longrightarrow> table_ok gid db \<Longrightarrow> \<not> P x
    \<Longrightarrow> holds gid P (filter (\<lambda>z. gid z \<noteq> gid x) xs) (db(gid x \<mapsto> x))"
  by (auto simp: holds_def table_update)

lemma holds_update_in:
  assumes "holds gid P xs db" "table_ok gid db" "P x"
  shows "holds gid P (el_replaceOrAdd gid (gid x) x xs) (db(gid x \<mapsto> x))"
proof (cases "gid x \<in> gid ` set xs")
  case True
  then have "set (el_replaceOrAdd gid (gid x) x xs) = insert x {z \<in> set xs. gid z \<noteq> gid x}"
    by (simp only: el_simps if_True set_update_by_id)
  moreover have "map gid (el_replaceOrAdd gid (gid x) x xs) = map gid xs"
    using True by (simp only: el_simps if_True map_update_ids)
  ultimately show ?thesis
    using assms unfolding holds_def by (auto simp: table_update simp del: el_simps)
next
  case False
  then show ?thesis using assms by (auto simp: holds_def table_update image_iff)
qed

lemma holds_update:
  "holds gid P xs db \<Longrightarrow> table_ok gid db
    \<Longrightarrow> holds gid P (if P x then el_replaceOrAdd gid (gid x) x xs else el_removeById gid (gid x) xs)
          (db(gid x \<mapsto> x))"
  using holds_update_in [of gid P xs db x] holds_update_out [of gid P xs db x]
  by (cases "P x") (simp_all del: el_simps(2,3))

section \<open>The lists of flights\<close>

definition isToday :: "cache \<Rightarrow> flight \<Rightarrow> bool" where
  "isToday c f \<longleftrightarrow> \<not> isPrepared f \<and> effdatum utc f = todayDate c"

definition isOther :: "cache \<Rightarrow> flight \<Rightarrow> bool" where
  "isOther c f \<longleftrightarrow> \<not> isPrepared f \<and> effdatum utc f \<noteq> todayDate c \<and> effdatum utc f = otherDate c"

definition interesting :: "cache \<Rightarrow> flight \<Rightarrow> bool" where
  "interesting c f \<longleftrightarrow> isPrepared f \<or> isToday c f \<or> isOther c f"

definition flightsMirror :: "cache \<Rightarrow> (dbId \<rightharpoonup> flight) \<Rightarrow> bool" where
  "flightsMirror c db \<longleftrightarrow> table_ok getId db
     \<and> holds getId isPrepared (preparedFlights c) db
     \<and> holds getId (isToday c) (flightsToday c) db
     \<and> holds getId (isOther c) (flightsOther c) db
     \<and> (\<forall>f \<in> ran db. interesting c f \<longrightarrow> flightsById c (getId f) = Some f)"

text \<open>The handlers in closed form.\<close>

lemma flightAdded_lists:
  "preparedFlights (flightAdded f c) = (if isPrepared f then preparedFlights c @ [f] else preparedFlights c)"
  "flightsToday (flightAdded f c) = (if isToday c f then flightsToday c @ [f] else flightsToday c)"
  "flightsOther (flightAdded f c) = (if isOther c f then flightsOther c @ [f] else flightsOther c)"
  "todayDate (flightAdded f c) = todayDate c" "otherDate (flightAdded f c) = otherDate c"
  "flightsById (flightAdded f c) = (if interesting c f then (flightsById c)(getId f \<mapsto> f) else flightsById c)"
  by (simp_all add: flightAdded_def isToday_def isOther_def interesting_def updateHashesFlightAdded_def
      split: prod.split)

lemma flightDeleted_lists:
  "\<exists>c'. flightDeleted i c = c'
     \<and> preparedFlights c' = filter (\<lambda>z. getId z \<noteq> i) (preparedFlights c)
     \<and> flightsToday c' = filter (\<lambda>z. getId z \<noteq> i) (flightsToday c)
     \<and> flightsOther c' = filter (\<lambda>z. getId z \<noteq> i) (flightsOther c)
     \<and> todayDate c' = todayDate c \<and> otherDate c' = otherDate c
     \<and> flightsById c' = (flightsById c)(i := None)"
  by (simp add: flightDeleted_def updateHashesFlightDeleted_def Let_def)

lemma flightUpdated_lists:
  "\<exists>c'. flightUpdated f c = c'
     \<and> preparedFlights c' = (if isPrepared f then el_replaceOrAdd getId (getId f) f (preparedFlights c)
         else el_removeById getId (getId f) (preparedFlights c))
     \<and> flightsToday c' = (if isToday c f then el_replaceOrAdd getId (getId f) f (flightsToday c)
         else el_removeById getId (getId f) (flightsToday c))
     \<and> flightsOther c' = (if isOther c f then el_replaceOrAdd getId (getId f) f (flightsOther c)
         else el_removeById getId (getId f) (flightsOther c))
     \<and> todayDate c' = todayDate c \<and> otherDate c' = otherDate c
     \<and> flightsById c' = (if interesting c f then (flightsById c)(getId f \<mapsto> f) else flightsById c)"
  by (simp add: flightUpdated_def Let_def isToday_def isOther_def interesting_def
      updateHashesFlightUpdated_def updateHashesFlightDeleted_def updateHashesFlightAdded_def
      del: el_simps split: prod.split)

lemma flight_preds_cong:
  assumes "todayDate c' = todayDate c" "otherDate c' = otherDate c"
  shows "isToday c' = isToday c" "isOther c' = isOther c" "interesting c' = interesting c"
  using assms by (auto simp: fun_eq_iff isToday_def isOther_def interesting_def)

lemma flightAdded_mirror:
  assumes "flightsMirror c db" "getId f \<noteq> 0" "db (getId f) = None"
  shows "flightsMirror (flightAdded f c) (db(getId f \<mapsto> f))"
proof -
  let ?c = "flightAdded f c"
  have t: "table_ok getId db" using assms(1) by (simp add: flightsMirror_def)
  note cong = flight_preds_cong [OF flightAdded_lists(4,5), of f c]
  have "holds getId isPrepared (preparedFlights ?c) (db(getId f \<mapsto> f))"
    "holds getId (isToday ?c) (flightsToday ?c) (db(getId f \<mapsto> f))"
    "holds getId (isOther ?c) (flightsOther ?c) (db(getId f \<mapsto> f))"
    using assms t unfolding cong flightAdded_lists(1-3) by (simp_all only: flightsMirror_def holds_add)
  moreover have "ran (db(getId f \<mapsto> f)) = insert f (ran db)" using assms(3) by simp
  moreover have "\<forall>g \<in> ran db. getId g \<noteq> getId f"
    using assms(3) t by (auto simp: table_ran)
  then have "\<forall>g \<in> insert f (ran db). interesting c g \<longrightarrow> flightsById ?c (getId g) = Some g"
    using assms(1) by (auto simp: flightsMirror_def flightAdded_lists(6))
  ultimately show ?thesis
    using t assms(2) by (simp add: flightsMirror_def table_ok_upd cong)
qed

lemma flightDeleted_mirror:
  assumes "flightsMirror c db"
  shows "\<exists>c'. flightDeleted i c = c' \<and> flightsMirror c' (db(i := None))"
proof -
  have t: "table_ok getId db" using assms by (simp add: flightsMirror_def)
  obtain c' where c': "flightDeleted i c = c'"
    "preparedFlights c' = filter (\<lambda>z. getId z \<noteq> i) (preparedFlights c)"
    "flightsToday c' = filter (\<lambda>z. getId z \<noteq> i) (flightsToday c)"
    "flightsOther c' = filter (\<lambda>z. getId z \<noteq> i) (flightsOther c)"
    "todayDate c' = todayDate c" "otherDate c' = otherDate c"
    "flightsById c' = (flightsById c)(i := None)"
    using flightDeleted_lists by blast
  have "flightsMirror c' (db(i := None))"
    using assms t
    by (auto simp: flightsMirror_def c' flight_preds_cong [OF c'(5,6)] table_ok_upd holds_remove
        table_delete)
  with c'(1) show ?thesis by blast
qed

lemma flightUpdated_mirror:
  assumes "flightsMirror c db" "getId f \<noteq> 0"
  shows "\<exists>c'. flightUpdated f c = c' \<and> flightsMirror c' (db(getId f \<mapsto> f))"
proof -
  have t: "table_ok getId db" using assms by (simp add: flightsMirror_def)
  obtain c' where c': "flightUpdated f c = c'"
    "preparedFlights c' = (if isPrepared f then el_replaceOrAdd getId (getId f) f (preparedFlights c)
         else el_removeById getId (getId f) (preparedFlights c))"
    "flightsToday c' = (if isToday c f then el_replaceOrAdd getId (getId f) f (flightsToday c)
         else el_removeById getId (getId f) (flightsToday c))"
    "flightsOther c' = (if isOther c f then el_replaceOrAdd getId (getId f) f (flightsOther c)
         else el_removeById getId (getId f) (flightsOther c))"
    "todayDate c' = todayDate c" "otherDate c' = otherDate c"
    "flightsById c' = (if interesting c f then (flightsById c)(getId f \<mapsto> f) else flightsById c)"
    using flightUpdated_lists by blast
  note cong = flight_preds_cong [OF c'(5,6)]
  have "holds getId isPrepared (preparedFlights c') (db(getId f \<mapsto> f))"
    "holds getId (isToday c') (flightsToday c') (db(getId f \<mapsto> f))"
    "holds getId (isOther c') (flightsOther c') (db(getId f \<mapsto> f))"
    using assms(1) t unfolding c' cong by (simp_all only: flightsMirror_def holds_update)
  moreover have "\<forall>g \<in> ran (db(getId f \<mapsto> f)). interesting c' g \<longrightarrow> flightsById c' (getId g) = Some g"
    using assms(1) t by (auto simp: flightsMirror_def cong c'(7) table_update)
  ultimately show ?thesis
    using c'(1) t assms(2) by (auto simp: flightsMirror_def table_ok_upd)
qed

section \<open>The whole cache\<close>

text \<open>The tables of the database as the cache sees them.\<close>

record tables =
  tb_planes :: "dbId \<rightharpoonup> plane"
  tb_people :: "dbId \<rightharpoonup> person"
  tb_launchMethods :: "dbId \<rightharpoonup> launchMethod"
  tb_flarmNetRecords :: "dbId \<rightharpoonup> flarmNetRecord"
  tb_flights :: "dbId \<rightharpoonup> flight"

text \<open>What an event says has happened: one row of one table.\<close>

definition row_event :: "db_type \<Rightarrow> dbId \<Rightarrow> 't option \<Rightarrow> (dbId \<rightharpoonup> 't) \<Rightarrow> (dbId \<rightharpoonup> 't)" where
  "row_event t i x db = db(i := (case t of typeDelete \<Rightarrow> None | _ \<Rightarrow> x))"

definition apply_event :: "db_event \<Rightarrow> tables \<Rightarrow> tables" where
  "apply_event e d = (case ev_table e of
     tablePlanes \<Rightarrow> d\<lparr>tb_planes := row_event (ev_type e) (ev_id e) (valuePlane (ev_value e)) (tb_planes d)\<rparr>
   | tablePeople \<Rightarrow> d\<lparr>tb_people := row_event (ev_type e) (ev_id e) (valuePerson (ev_value e)) (tb_people d)\<rparr>
   | tableLaunchMethods \<Rightarrow> d\<lparr>tb_launchMethods :=
       row_event (ev_type e) (ev_id e) (valueLaunchMethod (ev_value e)) (tb_launchMethods d)\<rparr>
   | tableFlarmNetRecords \<Rightarrow> d\<lparr>tb_flarmNetRecords :=
       row_event (ev_type e) (ev_id e) (valueFlarmNetRecord (ev_value e)) (tb_flarmNetRecords d)\<rparr>
   | tableFlights \<Rightarrow> d\<lparr>tb_flights := row_event (ev_type e) (ev_id e) (valueFlight (ev_value e)) (tb_flights d)\<rparr>)"

text \<open>An event that fits the tables before it: a new row has a new valid id, a changed or deleted row
  exists. The events are those the templates of \<open>DbEvent\<close> make.\<close>

definition row_legal :: "db_type \<Rightarrow> dbId \<Rightarrow> (dbId \<rightharpoonup> 't) \<Rightarrow> bool" where
  "row_legal t i db \<longleftrightarrow> (case t of typeAdd \<Rightarrow> i \<noteq> 0 \<and> db i = None | _ \<Rightarrow> db i \<noteq> None)"

definition made_event :: "db_event \<Rightarrow> bool" where
  "made_event e \<longleftrightarrow> (case ev_type e of
     typeDelete \<Rightarrow> e = ev_deleted (ev_table e) (ev_id e)
   | typeAdd \<Rightarrow> ev_value e \<noteq> NoValue \<and> e = ev_added (ev_value e)
   | typeChange \<Rightarrow> ev_value e \<noteq> NoValue \<and> e = ev_changed (ev_value e))"

definition legal_event :: "db_event \<Rightarrow> tables \<Rightarrow> bool" where
  "legal_event e d \<longleftrightarrow> made_event e \<and> (case ev_table e of
     tablePlanes \<Rightarrow> row_legal (ev_type e) (ev_id e) (tb_planes d)
   | tablePeople \<Rightarrow> row_legal (ev_type e) (ev_id e) (tb_people d)
   | tableLaunchMethods \<Rightarrow> row_legal (ev_type e) (ev_id e) (tb_launchMethods d)
   | tableFlarmNetRecords \<Rightarrow> row_legal (ev_type e) (ev_id e) (tb_flarmNetRecords d)
   | tableFlights \<Rightarrow> row_legal (ev_type e) (ev_id e) (tb_flights d))"

definition cacheMirrors :: "cache \<Rightarrow> tables \<Rightarrow> bool" where
  "cacheMirrors c d \<longleftrightarrow> mirrors planeKind planeIdx c (tb_planes d)
     \<and> mirrors personKind personIdx c (tb_people d)
     \<and> mirrors launchMethodKind launchMethodIdx c (tb_launchMethods d)
     \<and> mirrors flarmNetRecordKind flarmNetRecordIdx c (tb_flarmNetRecords d)
     \<and> flightsMirror c (tb_flights d)"

text \<open>The parts of the cache: what each of the five conditions depends on.\<close>

definition planePart where
  "planePart c = (planes c, planesById c, planeIdsByRegistration c, planeIdsByFlarmId c,
     planesSortedByUsage c, planeRegistrations c)"

definition personPart where
  "personPart c = (people c, peopleById c, personIdsByLastName c, personIdsByFirstName c,
     personIdsByName c, personLastNames c, personFirstNames c, lastNamesByFirstName c,
     firstNamesByLastName c, peopleSortedByFrequency c)"

definition smallPart where
  "smallPart c = (launchMethods c, launchMethodsById c, launchMethodIdsByType c)"

definition flarmPart where
  "flarmPart c = (flarmNetRecords c, flarmNetRecordsById c, flarmNetRecordIdsByFlarmId c)"

definition flightPart where
  "flightPart c = (preparedFlights c, flightsToday c, flightsOther c, todayDate c, otherDate c, flightsById c)"

lemmas part_defs = planePart_def personPart_def smallPart_def flarmPart_def flightPart_def

lemma mirror_parts:
  "planePart c' = planePart c \<Longrightarrow> mirrors planeKind planeIdx c' db = mirrors planeKind planeIdx c db"
  "personPart c' = personPart c \<Longrightarrow> mirrors personKind personIdx c' db2 = mirrors personKind personIdx c db2"
  "smallPart c' = smallPart c \<Longrightarrow>
     mirrors launchMethodKind launchMethodIdx c' db3 = mirrors launchMethodKind launchMethodIdx c db3"
  "flarmPart c' = flarmPart c \<Longrightarrow>
     mirrors flarmNetRecordKind flarmNetRecordIdx c' db4 = mirrors flarmNetRecordKind flarmNetRecordIdx c db4"
  by (simp_all add: mirrors_def part_defs planeIdx_def planeHashes_def personIdx_def personHashes_def
      launchMethodIdx_def flarmNetRecordIdx_def launchMethodKind_def flarmNetRecordKind_def)

lemma flight_part:
  assumes "flightPart c' = flightPart c"
  shows "flightsMirror c' db = flightsMirror c db"
proof -
  have "isToday c' = isToday c" "isOther c' = isOther c" "interesting c' = interesting c"
    using assms by (intro flight_preds_cong; simp add: flightPart_def)+
  with assms show ?thesis by (simp add: flightsMirror_def flightPart_def)
qed

text \<open>A handler changes its own part only.\<close>

lemma plane_handlers_frame:
  "personPart (objectAdded planeKind p c) = personPart c" "smallPart (objectAdded planeKind p c) = smallPart c"
  "flarmPart (objectAdded planeKind p c) = flarmPart c" "flightPart (objectAdded planeKind p c) = flightPart c"
  "objectDeleted planeKind i c = Some c' \<Longrightarrow> personPart c' = personPart c \<and> smallPart c' = smallPart c
     \<and> flarmPart c' = flarmPart c \<and> flightPart c' = flightPart c"
  "objectUpdated planeKind p c = Some c' \<Longrightarrow> personPart c' = personPart c \<and> smallPart c' = smallPart c
     \<and> flarmPart c' = flarmPart c \<and> flightPart c' = flightPart c"
  by (auto simp: objectAdded_def objectDeleted_def objectUpdated_def updateHashesPlaneAdded_def
      updateHashesPlaneDeleted_def updateHashesPlaneUpdated_def Let_def part_defs
      split: option.splits if_splits)

lemma person_handlers_frame:
  "planePart (objectAdded personKind p c) = planePart c" "smallPart (objectAdded personKind p c) = smallPart c"
  "flarmPart (objectAdded personKind p c) = flarmPart c" "flightPart (objectAdded personKind p c) = flightPart c"
  "objectDeleted personKind i c = Some c' \<Longrightarrow> planePart c' = planePart c \<and> smallPart c' = smallPart c
     \<and> flarmPart c' = flarmPart c \<and> flightPart c' = flightPart c"
  "objectUpdated personKind p c = Some c' \<Longrightarrow> planePart c' = planePart c \<and> smallPart c' = smallPart c
     \<and> flarmPart c' = flarmPart c \<and> flightPart c' = flightPart c"
  by (auto simp: objectAdded_def objectDeleted_def objectUpdated_def updateHashesPersonAdded_def
      updateHashesPersonDeleted_def updateHashesPersonUpdated_def Let_def part_defs
      split: option.splits)

lemma launchMethod_handlers_frame:
  "planePart (objectAdded launchMethodKind l c) = planePart c"
  "personPart (objectAdded launchMethodKind l c) = personPart c"
  "flarmPart (objectAdded launchMethodKind l c) = flarmPart c"
  "flightPart (objectAdded launchMethodKind l c) = flightPart c"
  "objectDeleted launchMethodKind i c = Some c' \<Longrightarrow> planePart c' = planePart c \<and> personPart c' = personPart c
     \<and> flarmPart c' = flarmPart c \<and> flightPart c' = flightPart c"
  "objectUpdated launchMethodKind l c = Some c' \<Longrightarrow> planePart c' = planePart c \<and> personPart c' = personPart c
     \<and> flarmPart c' = flarmPart c \<and> flightPart c' = flightPart c"
  by (auto simp: objectAdded_def objectDeleted_def objectUpdated_def launchMethod_hash_defs
      launchMethodKind_def Let_def part_defs split: option.splits)

lemma flarmNetRecord_handlers_frame:
  "planePart (objectAdded flarmNetRecordKind r c) = planePart c"
  "personPart (objectAdded flarmNetRecordKind r c) = personPart c"
  "smallPart (objectAdded flarmNetRecordKind r c) = smallPart c"
  "flightPart (objectAdded flarmNetRecordKind r c) = flightPart c"
  "objectDeleted flarmNetRecordKind i c = Some c' \<Longrightarrow> planePart c' = planePart c \<and> personPart c' = personPart c
     \<and> smallPart c' = smallPart c \<and> flightPart c' = flightPart c"
  "objectUpdated flarmNetRecordKind r c = Some c' \<Longrightarrow> planePart c' = planePart c \<and> personPart c' = personPart c
     \<and> smallPart c' = smallPart c \<and> flightPart c' = flightPart c"
  by (auto simp: objectAdded_def objectDeleted_def objectUpdated_def flarmNetRecord_hash_defs
      flarmNetRecordKind_def Let_def part_defs split: option.splits if_splits)

lemma flight_handlers_frame:
  "planePart (flightAdded f c) = planePart c" "personPart (flightAdded f c) = personPart c"
  "smallPart (flightAdded f c) = smallPart c" "flarmPart (flightAdded f c) = flarmPart c"
  "flightDeleted i c = c' \<Longrightarrow> planePart c' = planePart c \<and> personPart c' = personPart c
     \<and> smallPart c' = smallPart c \<and> flarmPart c' = flarmPart c"
  "flightUpdated f c = c' \<Longrightarrow> planePart c' = planePart c \<and> personPart c' = personPart c
     \<and> smallPart c' = smallPart c \<and> flarmPart c' = flarmPart c"
  by (auto simp: flightAdded_def flightDeleted_def flightUpdated_def updateHashesFlightAdded_def
      updateHashesFlightDeleted_def updateHashesFlightUpdated_def Let_def part_defs
      split: if_splits)

lemma handle_frame:
  "handleDbChanged planeKind v1 e c = Some c' \<Longrightarrow> personPart c' = personPart c \<and> smallPart c' = smallPart c
     \<and> flarmPart c' = flarmPart c \<and> flightPart c' = flightPart c"
  "handleDbChanged personKind v2 e c = Some c' \<Longrightarrow> planePart c' = planePart c \<and> smallPart c' = smallPart c
     \<and> flarmPart c' = flarmPart c \<and> flightPart c' = flightPart c"
  "handleDbChanged launchMethodKind v3 e c = Some c' \<Longrightarrow> planePart c' = planePart c \<and> personPart c' = personPart c
     \<and> flarmPart c' = flarmPart c \<and> flightPart c' = flightPart c"
  "handleDbChanged flarmNetRecordKind v4 e c = Some c' \<Longrightarrow> planePart c' = planePart c \<and> personPart c' = personPart c
     \<and> smallPart c' = smallPart c \<and> flightPart c' = flightPart c"
  "handleDbChangedFlight e c = Some c' \<Longrightarrow> planePart c' = planePart c \<and> personPart c' = personPart c
     \<and> smallPart c' = smallPart c \<and> flarmPart c' = flarmPart c"
  unfolding handleDbChanged_def handleDbChangedFlight_def
      apply (auto simp only: db_type.simps map_option_eq_Some bind_eq_Some_conv
        plane_handlers_frame person_handlers_frame launchMethod_handlers_frame
        flarmNetRecord_handlers_frame flight_handlers_frame
        dest: plane_handlers_frame(5,6) person_handlers_frame(5,6)
        launchMethod_handlers_frame(5,6) flarmNetRecord_handlers_frame(5,6) flight_handlers_frame(5,6)
        split: db_type.splits)
  done

context object_kind begin

lemma handle_mirrors:
  assumes "mirrors k idx c db" "row_legal (ev_type e) (ev_id e) db"
    and "ev_type e \<noteq> typeDelete \<Longrightarrow> \<exists>x. val (ev_value e) = Some x \<and> k_id k x = ev_id e"
  shows "\<exists>c'. handleDbChanged k val e c = Some c'
    \<and> mirrors k idx c' (row_event (ev_type e) (ev_id e) (val (ev_value e)) db)"
proof (cases "ev_type e")
  case typeAdd
  then obtain x where "val (ev_value e) = Some x" "k_id k x = ev_id e" using assms(3) by auto
  with typeAdd assms(1,2) show ?thesis
    using added_mirrors [of c db x] by (simp add: handleDbChanged_def row_event_def row_legal_def)
next
  case typeChange
  then obtain x where "val (ev_value e) = Some x" "k_id k x = ev_id e" using assms(3) by auto
  with typeChange assms(1,2) show ?thesis
    using updated_mirrors [of c db x] by (auto simp: handleDbChanged_def row_event_def row_legal_def)
next
  case typeDelete
  with assms(1,2) show ?thesis
    using deleted_mirrors [of c db "ev_id e"]
    by (auto simp: handleDbChanged_def row_event_def row_legal_def)
qed

end

lemma flight_handle_mirrors:
  assumes "flightsMirror c db" "row_legal (ev_type e) (ev_id e) db"
    and "ev_type e \<noteq> typeDelete \<Longrightarrow> \<exists>f. valueFlight (ev_value e) = Some f \<and> getId f = ev_id e"
  shows "\<exists>c'. handleDbChangedFlight e c = Some c'
    \<and> flightsMirror c' (row_event (ev_type e) (ev_id e) (valueFlight (ev_value e)) db)"
proof (cases "ev_type e")
  case typeAdd
  then obtain x where "valueFlight (ev_value e) = Some x" "getId x = ev_id e" using assms(3) by auto
  with typeAdd assms(1,2) show ?thesis
    using flightAdded_mirror [of c db x] by (simp add: handleDbChangedFlight_def row_event_def row_legal_def)
next
  case typeChange
  then obtain x where "valueFlight (ev_value e) = Some x" "getId x = ev_id e" using assms(3) by auto
  moreover from typeChange assms(1,2) have "ev_id e \<noteq> 0"
    by (auto simp: row_legal_def flightsMirror_def table_ok_def)
  ultimately show ?thesis using typeChange assms(1,2)
    using flightUpdated_mirror [of c db x]
    by (simp add: handleDbChangedFlight_def row_event_def row_legal_def)
next
  case typeDelete
  with assms(1,2) show ?thesis
    using flightDeleted_mirror [of c db "ev_id e"]
    by (simp add: handleDbChangedFlight_def row_event_def row_legal_def)
qed

lemma made_event_value:
  assumes "made_event e" "ev_type e \<noteq> typeDelete"
  shows "ev_table e = value_table (ev_value e) \<and> ev_id e = value_id (ev_value e) \<and> ev_value e \<noteq> NoValue"
proof -
  from assms have "ev_value e \<noteq> NoValue"
    "e = ev_added (ev_value e) \<or> e = ev_changed (ev_value e)"
    by (cases "ev_type e"; simp add: made_event_def)+
  then show ?thesis by (metis ev_added_def ev_changed_def db_event.select_convs(2,3))
qed

lemma made_event_val:
  assumes "made_event e" "ev_type e \<noteq> typeDelete"
  shows "ev_table e = tablePlanes \<Longrightarrow> \<exists>x. valuePlane (ev_value e) = Some x \<and> pl_id x = ev_id e"
    "ev_table e = tablePeople \<Longrightarrow> \<exists>x. valuePerson (ev_value e) = Some x \<and> pe_id x = ev_id e"
    "ev_table e = tableLaunchMethods \<Longrightarrow> \<exists>x. valueLaunchMethod (ev_value e) = Some x \<and> lm_id x = ev_id e"
    "ev_table e = tableFlarmNetRecords \<Longrightarrow> \<exists>x. valueFlarmNetRecord (ev_value e) = Some x \<and> fn_id x = ev_id e"
    "ev_table e = tableFlights \<Longrightarrow> \<exists>x. valueFlight (ev_value e) = Some x \<and> getId x = ev_id e"
  using made_event_value [OF assms] by (cases "ev_value e"; simp)+

lemma cacheMirrors_change:
  assumes "cacheMirrors c d"
  shows "mirrors planeKind planeIdx c' P \<Longrightarrow> personPart c' = personPart c \<and> smallPart c' = smallPart c
     \<and> flarmPart c' = flarmPart c \<and> flightPart c' = flightPart c \<Longrightarrow> cacheMirrors c' (d\<lparr>tb_planes := P\<rparr>)"
    "mirrors personKind personIdx c' E \<Longrightarrow> planePart c' = planePart c \<and> smallPart c' = smallPart c
     \<and> flarmPart c' = flarmPart c \<and> flightPart c' = flightPart c \<Longrightarrow> cacheMirrors c' (d\<lparr>tb_people := E\<rparr>)"
    "mirrors launchMethodKind launchMethodIdx c' L \<Longrightarrow> planePart c' = planePart c \<and> personPart c' = personPart c
     \<and> flarmPart c' = flarmPart c \<and> flightPart c' = flightPart c \<Longrightarrow> cacheMirrors c' (d\<lparr>tb_launchMethods := L\<rparr>)"
    "mirrors flarmNetRecordKind flarmNetRecordIdx c' R \<Longrightarrow> planePart c' = planePart c \<and> personPart c' = personPart c
     \<and> smallPart c' = smallPart c \<and> flightPart c' = flightPart c \<Longrightarrow> cacheMirrors c' (d\<lparr>tb_flarmNetRecords := R\<rparr>)"
    "flightsMirror c' F \<Longrightarrow> planePart c' = planePart c \<and> personPart c' = personPart c
     \<and> smallPart c' = smallPart c \<and> flarmPart c' = flarmPart c \<Longrightarrow> cacheMirrors c' (d\<lparr>tb_flights := F\<rparr>)"
  using assms mirror_parts(1) [of c' c "tb_planes d"] mirror_parts(2) [of c' c "tb_people d"]
    mirror_parts(3) [of c' c "tb_launchMethods d"] mirror_parts(4) [of c' c "tb_flarmNetRecords d"]
    flight_part [of c' c "tb_flights d"]
  by (simp_all add: cacheMirrors_def)

lemma dbChanged_mirrors:
  assumes "cacheMirrors c d" and "legal_event e d"
  shows "\<exists>c'. dbChanged e c = Some (c', e) \<and> cacheMirrors c' (apply_event e d)"
proof -
  have made: "made_event e" using assms(2) by (simp add: legal_event_def)
  note val = made_event_val [OF made]
  note m = assms(1) [unfolded cacheMirrors_def]
  note change = cacheMirrors_change [OF assms(1)]
  show ?thesis
  proof (cases "ev_table e")
    case tablePlanes
    then have "row_legal (ev_type e) (ev_id e) (tb_planes d)" using assms(2) by (simp add: legal_event_def)
    then obtain c' where "handleDbChanged planeKind valuePlane e c = Some c'"
      "mirrors planeKind planeIdx c' (row_event (ev_type e) (ev_id e) (valuePlane (ev_value e)) (tb_planes d))"
      using m val(1) tablePlanes pk'.handle_mirrors [of c "tb_planes d" e valuePlane] by auto
    then show ?thesis using tablePlanes change(1) handle_frame(1)
      by (simp add: dbChanged_def apply_event_def)
  next
    case tablePeople
    then have "row_legal (ev_type e) (ev_id e) (tb_people d)" using assms(2) by (simp add: legal_event_def)
    then obtain c' where "handleDbChanged personKind valuePerson e c = Some c'"
      "mirrors personKind personIdx c' (row_event (ev_type e) (ev_id e) (valuePerson (ev_value e)) (tb_people d))"
      using m val(2) tablePeople ek'.handle_mirrors [of c "tb_people d" e valuePerson] by auto
    then show ?thesis using tablePeople change(2) handle_frame(2)
      by (simp add: dbChanged_def apply_event_def)
  next
    case tableLaunchMethods
    then have "row_legal (ev_type e) (ev_id e) (tb_launchMethods d)" using assms(2) by (simp add: legal_event_def)
    then obtain c' where "handleDbChanged launchMethodKind valueLaunchMethod e c = Some c'"
      "mirrors launchMethodKind launchMethodIdx c' (row_event (ev_type e) (ev_id e) (valueLaunchMethod (ev_value e)) (tb_launchMethods d))"
      using m val(3) tableLaunchMethods lk.handle_mirrors [of c "tb_launchMethods d" e valueLaunchMethod] by (auto simp: launchMethodKind_def)
    then show ?thesis using tableLaunchMethods change(3) handle_frame(3)
      by (simp add: dbChanged_def apply_event_def)
  next
    case tableFlarmNetRecords
    then have "row_legal (ev_type e) (ev_id e) (tb_flarmNetRecords d)" using assms(2) by (simp add: legal_event_def)
    then obtain c' where "handleDbChanged flarmNetRecordKind valueFlarmNetRecord e c = Some c'"
      "mirrors flarmNetRecordKind flarmNetRecordIdx c' (row_event (ev_type e) (ev_id e) (valueFlarmNetRecord (ev_value e)) (tb_flarmNetRecords d))"
      using m val(4) tableFlarmNetRecords rk.handle_mirrors [of c "tb_flarmNetRecords d" e valueFlarmNetRecord] by (auto simp: flarmNetRecordKind_def)
    then show ?thesis using tableFlarmNetRecords change(4) handle_frame(4)
      by (simp add: dbChanged_def apply_event_def)
  next
    case tableFlights
    then have "row_legal (ev_type e) (ev_id e) (tb_flights d)" using assms(2) by (simp add: legal_event_def)
    then obtain c' where "handleDbChangedFlight e c = Some c'"
      "flightsMirror c' (row_event (ev_type e) (ev_id e) (valueFlight (ev_value e)) (tb_flights d))"
      using m val(5) tableFlights flight_handle_mirrors [of c "tb_flights d" e] by auto
    then show ?thesis using tableFlights change(5) handle_frame(5)
      by (simp add: dbChanged_def apply_event_def)
  qed
qed

text \<open>C1: the cache follows the database. If the cache mirrors the tables and an event reports a
  legal change of one row, then handling it does not fail, the same event is re-emitted, and the
  cache mirrors the changed tables: the object lists, the hashes by id, the hashes by registration,
  FLARM id, name and type, the usage lists and the three flight lists with the flight on exactly the
  list its status and date ask for.\<close>

theorem dbChanged_refines:
  assumes "cacheMirrors c d" and "legal_event e d"
  shows "\<exists>c'. dbChanged e c = Some (c', e) \<and> cacheMirrors c' (apply_event e d)"
  using assms by (rule dbChanged_mirrors)

text \<open>A new cache mirrors an empty database.\<close>

definition tables0 :: tables where
  "tables0 = \<lparr>tb_planes = Map.empty, tb_people = Map.empty, tb_launchMethods = Map.empty,
     tb_flarmNetRecords = Map.empty, tb_flights = Map.empty\<rparr>"

lemma new_mirrors_empty: "cacheMirrors newCache tables0"
  by (simp add: cacheMirrors_def mirrors_def flightsMirror_def holds_def table_ok_def newCache_def
      tables0_def planeIdx_def planeHashes_def personIdx_def personHashes_def launchMethodIdx_def
      flarmNetRecordIdx_def keyed_def launchMethodKind_def flarmNetRecordKind_def)

theorem dbChanged_refines_witness:
  "\<exists>c'. dbChanged (ev_added (ValueFlight flight0)) newCache = Some (c', ev_added (ValueFlight flight0))
     \<and> preparedFlights c' = [flight0] \<and> cacheMirrors c' (tables0\<lparr>tb_flights := [7 \<mapsto> flight0]\<rparr>)"
proof -
  let ?e = "ev_added (ValueFlight flight0)"
  have f: "getId flight0 = 7" "isPrepared flight0"
    by (simp_all add: flight0_def newFlight_def status_defs sk_defs)
  have "legal_event ?e tables0"
    by (simp add: legal_event_def made_event_def row_legal_def ev_added_def tables0_def f)
  from dbChanged_refines [OF new_mirrors_empty this] obtain c' where
    c': "dbChanged ?e newCache = Some (c', ?e)" "cacheMirrors c' (apply_event ?e tables0)" by blast
  moreover have "apply_event ?e tables0 = tables0\<lparr>tb_flights := [7 \<mapsto> flight0]\<rparr>"
    by (simp add: apply_event_def row_event_def ev_added_def tables0_def f)
  moreover have "preparedFlights c' = [flight0]"
    using c'(1) by (auto simp: dbChanged_def handleDbChangedFlight_def ev_added_def flightAdded_lists f newCache_def)
  ultimately show ?thesis by simp
qed

end
