(* ===== verification/Sk_CacheOps.thy ===== *)
theory Sk_CacheOps
  imports Sk_CacheRefine
begin

text \<open>
  Refreshing and clearing the cache (\<^verbatim>\<open>src/src/db/cache/Cache.cpp\<close>) and the lookups of
  \<^verbatim>\<open>Cache_lookup.cpp\<close>. The operation monitor and the database may end a refresh with an
  exception between two steps; a step reads the database before it touches the cache.
\<close>

section \<open>Refreshing\<close>

text \<open>What the database answers.\<close>

record db_source =
  src_planes :: "plane list"
  src_people :: "person list"
  src_launchMethods :: "launchMethod list"
  src_flarmNetRecords :: "flarmNetRecord list"
  src_preparedFlights :: "flight list"
  src_flightsDate :: "qdate \<Rightarrow> flight list"
  src_locations :: "qstring list"
  src_accountingNotes :: "qstring list"
  src_flightsPerPlane :: "qdate \<Rightarrow> qdate \<Rightarrow> dbId \<rightharpoonup> int"
  src_flightsPerPerson :: "qdate \<Rightarrow> qdate \<Rightarrow> dbId \<rightharpoonup> int"
  src_flightsPerPersonAsPic :: "qdate \<Rightarrow> qdate \<Rightarrow> dbId \<rightharpoonup> int"
  src_hoursPerPersonAsPic :: "qdate \<Rightarrow> qdate \<Rightarrow> dbId \<rightharpoonup> int"

definition addDays :: "qdate \<Rightarrow> int \<Rightarrow> qdate" where
  "addDays d n = map_option (\<lambda>x. x + n) d"

text \<open>\<open>lastYear\<close> is \<open>QDate::currentDate ().addYears (-1)\<close>.\<close>

definition refreshStatic :: "qdate \<Rightarrow> qdate \<Rightarrow> db_source \<Rightarrow> cache \<Rightarrow> cache" where
  "refreshStatic today lastYear src c = c
     \<lparr>roughNumberOfFlightsByPlaneIdLastYear := src_flightsPerPlane src lastYear today,
      roughNumberOfFlightsByPersonIdLastYear := src_flightsPerPerson src lastYear today,
      numberOfFlightsByPersonIdLastHalfYear :=
        src_flightsPerPersonAsPic src (addDays today (-183)) (addDays today (-1)),
      numberOfHoursByPersonIdLastHalfYear :=
        src_hoursPerPersonAsPic src (addDays today (-183)) (addDays today (-1))\<rparr>"

definition insertObject :: "'t kind \<Rightarrow> 't \<Rightarrow> cache \<Rightarrow> cache" where
  "insertObject k x c = k_added k x (k_setById k ((k_byId k c)(k_id k x \<mapsto> x)) c)"

definition refreshObjects :: "'t kind \<Rightarrow> 't list \<Rightarrow> cache \<Rightarrow> cache" where
  "refreshObjects k newObjects c =
     (let c1 = k_setList k newObjects c;
          c2 = k_clear k (k_setById k Map.empty c1)
      in fold (insertObject k) newObjects c2)"

definition valueOr0 :: "(dbId \<rightharpoonup> int) \<Rightarrow> dbId \<Rightarrow> int" where
  "valueOr0 m i = (case m i of None \<Rightarrow> 0 | Some n \<Rightarrow> n)"

definition refreshPlanes :: "db_source \<Rightarrow> cache \<Rightarrow> cache" where
  "refreshPlanes src c =
     (let c1 = refreshObjects planeKind (src_planes src) c in c1
      \<lparr>planesSortedByUsage := wk_sort (map (\<lambda>p.
         (p, valueOr0 (roughNumberOfFlightsByPlaneIdLastYear c1) (pl_id p))) (planes c1))\<rparr>)"

definition refreshPeople :: "db_source \<Rightarrow> cache \<Rightarrow> cache" where
  "refreshPeople src c =
     (let c1 = refreshObjects personKind (src_people src) c in c1
      \<lparr>peopleSortedByFrequency := wk_sort (map (\<lambda>p.
         (p, valueOr0 (roughNumberOfFlightsByPersonIdLastYear c1) (pe_id p))) (people c1))\<rparr>)"

definition refreshLaunchMethods :: "db_source \<Rightarrow> cache \<Rightarrow> cache" where
  "refreshLaunchMethods src c = refreshObjects launchMethodKind (src_launchMethods src) c"

definition refreshFlarmNetRecords :: "db_source \<Rightarrow> cache \<Rightarrow> cache" where
  "refreshFlarmNetRecords src c = refreshObjects flarmNetRecordKind (src_flarmNetRecords src) c"

text \<open>The target list is given by its reader and writer, the target date by its writer (a null
  pointer is \<open>None\<close>).\<close>

definition refreshFlightsOf ::
    "db_source \<Rightarrow> qdate \<Rightarrow> (cache \<Rightarrow> flight list) \<Rightarrow> (flight list \<Rightarrow> cache \<Rightarrow> cache)
      \<Rightarrow> (qdate \<Rightarrow> cache \<Rightarrow> cache) option \<Rightarrow> cache \<Rightarrow> cache" where
  "refreshFlightsOf src date targetList setTarget targetDate c =
     (let newFlights = (if date = None then src_preparedFlights src else src_flightsDate src date);
          c1 = fold (\<lambda>f c. updateHashesFlightDeleted (getId f) (Some f)
                 (c\<lparr>flightsById := (flightsById c)(getId f := None)\<rparr>)) (targetList c) c;
          c2 = (case targetDate of Some setDate \<Rightarrow> setDate date c1 | None \<Rightarrow> c1);
          c3 = setTarget newFlights c2
      in fold (\<lambda>f c. updateHashesFlightAdded f
           (c\<lparr>flightsById := (flightsById c)(getId f \<mapsto> f)\<rparr>)) newFlights c3)"

definition refreshFlightsToday :: "qdate \<Rightarrow> db_source \<Rightarrow> cache \<Rightarrow> cache" where
  "refreshFlightsToday today src c = refreshFlightsOf src today flightsToday
     (\<lambda>fs c. c\<lparr>flightsToday := fs\<rparr>) (Some (\<lambda>d c. c\<lparr>todayDate := d\<rparr>)) c"

definition refreshFlightsOther :: "db_source \<Rightarrow> cache \<Rightarrow> cache" where
  "refreshFlightsOther src c = (if otherDate c = None then c
     else refreshFlightsOf src (otherDate c) flightsOther (\<lambda>fs c. c\<lparr>flightsOther := fs\<rparr>) None c)"

definition fetchFlightsOther :: "qdate \<Rightarrow> db_source \<Rightarrow> cache \<Rightarrow> cache" where
  "fetchFlightsOther date src c = (if date = None then c
     else refreshFlightsOf src date flightsOther (\<lambda>fs c. c\<lparr>flightsOther := fs\<rparr>)
       (Some (\<lambda>d c. c\<lparr>otherDate := d\<rparr>)) c)"

definition refreshPreparedFlights :: "db_source \<Rightarrow> cache \<Rightarrow> cache" where
  "refreshPreparedFlights src c =
     refreshFlightsOf src None preparedFlights (\<lambda>fs c. c\<lparr>preparedFlights := fs\<rparr>) None c"

definition refreshLocations :: "db_source \<Rightarrow> cache \<Rightarrow> cache" where
  "refreshLocations src c = c\<lparr>locations := ss_assign (src_locations src) (locations c)\<rparr>"

definition refreshAccountingNotes :: "db_source \<Rightarrow> cache \<Rightarrow> cache" where
  "refreshAccountingNotes src c =
     c\<lparr>accountingNotes := ss_assign (src_accountingNotes src) (accountingNotes c)\<rparr>"

definition refreshSteps :: "qdate \<Rightarrow> qdate \<Rightarrow> db_source \<Rightarrow> (cache \<Rightarrow> cache) list" where
  "refreshSteps today lastYear src =
     [refreshStatic today lastYear src, refreshPlanes src, refreshPeople src,
      refreshLaunchMethods src, refreshFlightsToday today src, refreshFlightsOther src,
      refreshPreparedFlights src, refreshLocations src, refreshAccountingNotes src,
      refreshFlarmNetRecords src]"

text \<open>\<open>n\<close>: the number of steps that are done before the refresh is canceled or fails.\<close>

definition refreshAllUntil :: "nat \<Rightarrow> qdate \<Rightarrow> qdate \<Rightarrow> db_source \<Rightarrow> cache \<Rightarrow> cache" where
  "refreshAllUntil n today lastYear src c =
     fold (\<lambda>step. step) (take n (refreshSteps today lastYear src))
       (clearHashesFlight (clearMultiTypeHashes c))"

definition refreshAll :: "qdate \<Rightarrow> qdate \<Rightarrow> db_source \<Rightarrow> cache \<Rightarrow> cache" where
  "refreshAll today lastYear src c = refreshAllUntil 10 today lastYear src c"

definition refreshFlights :: "qdate \<Rightarrow> db_source \<Rightarrow> cache \<Rightarrow> cache" where
  "refreshFlights today src c =
     refreshPreparedFlights src (refreshFlightsOther src (refreshFlightsToday today src
       (clearHashesFlight c)))"

definition clear :: "cache \<Rightarrow> cache" where
  "clear c =
     (let c1 = c\<lparr>planes := [], people := [], launchMethods := [],
                 flightsToday := [], todayDate := None, flightsOther := [], otherDate := None,
                 preparedFlights := [],
                 planesById := Map.empty, peopleById := Map.empty, launchMethodsById := Map.empty,
                 flightsById := Map.empty\<rparr>
      in clearHashesFlight (clearHashesLaunchMethod (clearHashesPerson (clearHashesPlane
           (clearMultiTypeHashes c1)))))"

subsection \<open>Refreshing the objects of a class\<close>

context object_kind begin

lemma insert_one:
  "k_list k (insertObject k x c) = k_list k c"
  "k_byId k (insertObject k x c) = (k_byId k c)(k_id k x \<mapsto> x)"
  "idx c ys \<Longrightarrow> idx (insertObject k x c) (x # ys)"
  by (auto simp: insertObject_def intro: idx_added)

lemma insert_fold:
  assumes "idx c ys"
  shows "idx (fold (insertObject k) xs c) (rev xs @ ys)"
  using assms by (induction xs arbitrary: c ys) (simp_all add: insert_one)

lemma insert_fold_list: "k_list k (fold (insertObject k) xs c) = k_list k c"
  by (induction xs arbitrary: c) (simp_all add: insert_one)

lemma insert_fold_byId:
  "k_byId k (fold (insertObject k) xs c) = k_byId k c ++ map_of (rev (map (\<lambda>x. (k_id k x, x)) xs))"
proof (induction xs arbitrary: c)
  case (Cons x xs)
  let ?m = "map_of (rev (map (\<lambda>x. (k_id k x, x)) xs))"
  have "k_byId k (fold (insertObject k) (x # xs) c) = k_byId k (insertObject k x c) ++ ?m"
    using Cons.IH [of "insertObject k x c"] by simp
  also have "\<dots> = (k_byId k c ++ [k_id k x \<mapsto> x]) ++ ?m"
    unfolding insert_one(2) by simp
  also have "\<dots> = k_byId k c ++ map_of (rev (map (\<lambda>x. (k_id k x, x)) (x # xs)))"
    by (simp only: map_add_assoc [symmetric] rev.simps list.map map_of_append map_of.simps) simp
  finally show ?case .
qed simp

end

lemma map_of_ids:
  assumes "table_ok gid db" "holds gid (\<lambda>_. True) xs db"
  shows "map_of (rev (map (\<lambda>x. (gid x, x)) xs)) = db"
proof
  fix i
  let ?l = "rev (map (\<lambda>x. (gid x, x)) xs)"
  have d: "distinct (map fst ?l)" using assms(2) by (simp add: holds_def o_def rev_map [symmetric])
  have "map_of ?l i = Some x \<longleftrightarrow> db i = Some x" for x
  proof -
    have "map_of ?l i = Some x \<longleftrightarrow> (i, x) \<in> set ?l" using d by (rule map_of_eq_Some_iff)
    also have "\<dots> \<longleftrightarrow> gid x = i \<and> x \<in> ran db" using assms(2) by (auto simp: holds_def)
    also have "\<dots> \<longleftrightarrow> db i = Some x" using assms(1) by (auto simp: ran_def table_ok_def)
    finally show ?thesis .
  qed
  then show "map_of ?l i = db i" by (metis not_None_eq)
qed

context clearable_kind begin

lemma refresh_mirrors:
  assumes "idx c ys" and "table_ok (k_id k) db" and "holds (k_id k) (\<lambda>_. True) xs db"
  shows "mirrors k idx (refreshObjects k xs c) db"
proof -
  let ?c = "k_clear k (k_setById k Map.empty (k_setList k xs c))"
  let ?c' = "fold (insertObject k) xs ?c"
  have "idx ?c []" using assms(1) by (intro idx_clear [where xs = ys]) simp
  from insert_fold [OF this, of xs]
  have "idx ?c' (rev xs)" and eqs: "k_list k ?c' = xs"
    by (simp_all add: insert_fold_list)
  have byId: "k_byId k ?c' = map_of (rev (map (\<lambda>x. (k_id k x, x)) xs))"
    unfolding insert_fold_byId by simp
  from \<open>idx ?c' (rev xs)\<close> have "idx ?c' xs" using idx_mset [of "rev xs" xs ?c'] by simp
  then show ?thesis using eqs byId assms(2,3) map_of_ids [OF assms(2,3)]
    by (simp add: mirrors_def refreshObjects_def holds_def)
qed

end

text \<open>What a refresh of one class leaves alone.\<close>

lemma refreshObjects_frame:
  assumes "\<And>x c. F (insertObject k x c) = F c" "\<And>m c. F (k_setById k m c) = F c"
    "\<And>xs c. F (k_setList k xs c) = F c" "\<And>c. F (k_clear k c) = F c"
  shows "F (refreshObjects k xs c) = F c"
proof -
  have "F (fold (insertObject k) ys c) = F c" for ys c
    by (induction ys arbitrary: c) (simp_all add: assms(1))
  then show ?thesis by (simp add: refreshObjects_def assms)
qed

lemmas kind_hash_defs =
  updateHashesPlaneAdded_def clearHashesPlane_def updateHashesPersonAdded_def clearHashesPerson_def
  updateHashesLaunchMethodAdded_def clearHashesLaunchMethod_def
  updateHashesFlarmNetRecordAdded_def clearHashesFlarmNetRecord_def

lemma refreshObjects_parts:
  "personPart (refreshObjects planeKind ps c) = personPart c"
  "smallPart (refreshObjects planeKind ps c) = smallPart c"
  "flarmPart (refreshObjects planeKind ps c) = flarmPart c"
  "flightPart (refreshObjects planeKind ps c) = flightPart c"
  "planePart (refreshObjects personKind es c) = planePart c"
  "smallPart (refreshObjects personKind es c) = smallPart c"
  "flarmPart (refreshObjects personKind es c) = flarmPart c"
  "flightPart (refreshObjects personKind es c) = flightPart c"
  "planePart (refreshObjects launchMethodKind ls c) = planePart c"
  "personPart (refreshObjects launchMethodKind ls c) = personPart c"
  "flarmPart (refreshObjects launchMethodKind ls c) = flarmPart c"
  "flightPart (refreshObjects launchMethodKind ls c) = flightPart c"
  "planePart (refreshObjects flarmNetRecordKind rs c) = planePart c"
  "personPart (refreshObjects flarmNetRecordKind rs c) = personPart c"
  "smallPart (refreshObjects flarmNetRecordKind rs c) = smallPart c"
  "flightPart (refreshObjects flarmNetRecordKind rs c) = flightPart c"
  by (rule refreshObjects_frame;
      simp add: insertObject_def kind_hash_defs part_defs Let_def launchMethodKind_def
        flarmNetRecordKind_def)+

definition parts where
  "parts c = (planePart c, personPart c, smallPart c, flarmPart c, flightPart c)"

lemma refreshPlanes_parts:
  "personPart (refreshPlanes src c) = personPart c" "smallPart (refreshPlanes src c) = smallPart c"
  "flarmPart (refreshPlanes src c) = flarmPart c" "flightPart (refreshPlanes src c) = flightPart c"
  using refreshObjects_parts(1-4) [of "src_planes src" c]
  by (simp_all add: refreshPlanes_def Let_def part_defs)

lemma refreshPeople_parts:
  "planePart (refreshPeople src c) = planePart c" "smallPart (refreshPeople src c) = smallPart c"
  "flarmPart (refreshPeople src c) = flarmPart c" "flightPart (refreshPeople src c) = flightPart c"
  using refreshObjects_parts(5-8) [of "src_people src" c]
  by (simp_all add: refreshPeople_def Let_def part_defs)

lemma other_steps_parts:
  "parts (refreshStatic today lastYear src c) = parts c"
  "parts (refreshLocations src c) = parts c" "parts (refreshAccountingNotes src c) = parts c"
  "parts (clearHashesFlight c) = parts c" "parts (clearMultiTypeHashes c) = parts c"
  by (simp_all add: parts_def part_defs refreshStatic_def refreshLocations_def
      refreshAccountingNotes_def clearHashesFlight_def clearMultiTypeHashes_def)

lemma hashes_usage [simp]:
  "planeHashes (c\<lparr>planesSortedByUsage := w\<rparr>) xs = planeHashes c xs"
  "personHashes (c\<lparr>peopleSortedByFrequency := v\<rparr>) ys = personHashes c ys"
  by (simp_all add: planeHashes_def personHashes_def)

lemma refreshPlanes_mirrors:
  assumes "planeHashes c ys" "table_ok pl_id db" "holds pl_id (\<lambda>_. True) (src_planes src) db"
  shows "mirrors planeKind planeIdx (refreshPlanes src c) db"
proof -
  have "mirrors planeKind planeHashes (refreshObjects planeKind (src_planes src) c) db"
    using assms by (intro pk.refresh_mirrors [where ys = ys]) simp_all
  then show ?thesis
    by (simp add: mirrors_def refreshPlanes_def Let_def planeIdx_def keyed_def multiset.map_comp o_def)
qed

lemma refreshPeople_mirrors:
  assumes "personHashes c ys" "table_ok pe_id db" "holds pe_id (\<lambda>_. True) (src_people src) db"
  shows "mirrors personKind personIdx (refreshPeople src c) db"
proof -
  have "mirrors personKind personHashes (refreshObjects personKind (src_people src) c) db"
    using assms by (intro ek.refresh_mirrors [where ys = ys]) simp_all
  then show ?thesis
    by (simp add: mirrors_def refreshPeople_def Let_def personIdx_def keyed_def multiset.map_comp o_def)
qed

section \<open>Refreshing the flights\<close>

lemma forget_fold:
  "fold (\<lambda>f c. updateHashesFlightDeleted (getId f) (Some f)
      (c\<lparr>flightsById := (flightsById c)(getId f := None)\<rparr>)) fs c
    = c\<lparr>flightsById := (\<lambda>i. if i \<in> getId ` set fs then None else flightsById c i)\<rparr>"
  by (induction fs arbitrary: c) (auto simp: updateHashesFlightDeleted_def fun_eq_iff
      intro!: arg_cong2 [where f = flightsById_update])

lemma learn_fold:
  fixes c :: cache
  defines "step \<equiv> \<lambda>f c. updateHashesFlightAdded f (c\<lparr>flightsById := (flightsById c)(getId f \<mapsto> f)\<rparr>)"
  shows "flightsById (fold step fs c) = flightsById c ++ map_of (rev (map (\<lambda>f. (getId f, f)) fs))"
    and "(planePart (fold step fs c), personPart (fold step fs c), smallPart (fold step fs c),
        flarmPart (fold step fs c)) = (planePart c, personPart c, smallPart c, flarmPart c)"
    and "(preparedFlights (fold step fs c), flightsToday (fold step fs c), flightsOther (fold step fs c),
        todayDate (fold step fs c), otherDate (fold step fs c))
      = (preparedFlights c, flightsToday c, flightsOther c, todayDate c, otherDate c)"
  by (induction fs arbitrary: c)
    (simp_all add: step_def updateHashesFlightAdded_def part_defs)

definition forget :: "flight list \<Rightarrow> (dbId \<rightharpoonup> flight) \<Rightarrow> (dbId \<rightharpoonup> flight)" where
  "forget fs m = (\<lambda>i. if i \<in> getId ` set fs then None else m i)"

definition learn :: "flight list \<Rightarrow> (dbId \<rightharpoonup> flight) \<Rightarrow> (dbId \<rightharpoonup> flight)" where
  "learn fs m = m ++ map_of (rev (map (\<lambda>f. (getId f, f)) fs))"

lemma learn_in: "distinct (map getId fs) \<Longrightarrow> f \<in> set fs \<Longrightarrow> learn fs m (getId f) = Some f"
  unfolding learn_def
  by (rule map_add_find_right, rule map_of_is_SomeI) (auto simp: rev_map [symmetric] o_def)

lemma learn_out: "i \<notin> getId ` set fs \<Longrightarrow> learn fs m i = m i"
  unfolding learn_def by (rule map_add_dom_app_simps(3)) (simp add: dom_map_of_conv_image_fst image_image)

lemma refreshFlightsToday_lists:
  shows "flightsToday (refreshFlightsToday (Some t) src c) = src_flightsDate src (Some t)" "todayDate (refreshFlightsToday (Some t) src c) = Some t"
    "preparedFlights (refreshFlightsToday (Some t) src c) = preparedFlights c" "flightsOther (refreshFlightsToday (Some t) src c) = flightsOther c" "otherDate (refreshFlightsToday (Some t) src c) = otherDate c"
    "flightsById (refreshFlightsToday (Some t) src c) = learn (src_flightsDate src (Some t)) (forget (flightsToday c) (flightsById c))"
    "(planePart (refreshFlightsToday (Some t) src c), personPart (refreshFlightsToday (Some t) src c), smallPart (refreshFlightsToday (Some t) src c), flarmPart (refreshFlightsToday (Some t) src c)) = (planePart c, personPart c, smallPart c, flarmPart c)"
  by (simp_all add: refreshFlightsToday_def refreshFlightsOf_def Let_def forget_fold
      learn_fold(1) learn_fold(2) learn_fold(3) [simplified] forget_def learn_def part_defs
      learn_fold(2) [simplified part_defs prod.inject])

lemma refreshPreparedFlights_lists:
  shows "preparedFlights (refreshPreparedFlights src c) = src_preparedFlights src" "todayDate (refreshPreparedFlights src c) = todayDate c"
    "flightsToday (refreshPreparedFlights src c) = flightsToday c" "flightsOther (refreshPreparedFlights src c) = flightsOther c" "otherDate (refreshPreparedFlights src c) = otherDate c"
    "flightsById (refreshPreparedFlights src c) = learn (src_preparedFlights src) (forget (preparedFlights c) (flightsById c))"
    "(planePart (refreshPreparedFlights src c), personPart (refreshPreparedFlights src c), smallPart (refreshPreparedFlights src c), flarmPart (refreshPreparedFlights src c)) = (planePart c, personPart c, smallPart c, flarmPart c)"
  by (simp_all add: refreshPreparedFlights_def refreshFlightsOf_def Let_def forget_fold
      learn_fold(1) learn_fold(3) [simplified] forget_def learn_def part_defs
      learn_fold(2) [simplified part_defs prod.inject])

lemma fetchFlightsOther_lists:
  shows "flightsOther (fetchFlightsOther (Some t) src c) = src_flightsDate src (Some t)" "otherDate (fetchFlightsOther (Some t) src c) = Some t"
    "preparedFlights (fetchFlightsOther (Some t) src c) = preparedFlights c" "flightsToday (fetchFlightsOther (Some t) src c) = flightsToday c" "todayDate (fetchFlightsOther (Some t) src c) = todayDate c"
    "flightsById (fetchFlightsOther (Some t) src c) = learn (src_flightsDate src (Some t)) (forget (flightsOther c) (flightsById c))"
    "(planePart (fetchFlightsOther (Some t) src c), personPart (fetchFlightsOther (Some t) src c), smallPart (fetchFlightsOther (Some t) src c), flarmPart (fetchFlightsOther (Some t) src c)) = (planePart c, personPart c, smallPart c, flarmPart c)"
  by (simp_all add: fetchFlightsOther_def refreshFlightsOf_def Let_def forget_fold
      learn_fold(1) learn_fold(3) [simplified] forget_def learn_def part_defs
      learn_fold(2) [simplified part_defs prod.inject])

text \<open>The database answers with the rows of the tables; the selection of flights is the one of
  \<open>date_selection_exact\<close>, whose assumption on the times is repeated here.\<close>

definition source_ok :: "db_source \<Rightarrow> tables \<Rightarrow> bool" where
  "source_ok src d \<longleftrightarrow>
     table_ok pl_id (tb_planes d) \<and> holds pl_id (\<lambda>_. True) (src_planes src) (tb_planes d)
     \<and> table_ok pe_id (tb_people d) \<and> holds pe_id (\<lambda>_. True) (src_people src) (tb_people d)
     \<and> table_ok lm_id (tb_launchMethods d)
     \<and> holds lm_id (\<lambda>_. True) (src_launchMethods src) (tb_launchMethods d)
     \<and> table_ok fn_id (tb_flarmNetRecords d)
     \<and> holds fn_id (\<lambda>_. True) (src_flarmNetRecords src) (tb_flarmNetRecords d)
     \<and> table_ok getId (tb_flights d) \<and> holds getId isPrepared (src_preparedFlights src) (tb_flights d)
     \<and> (\<forall>t. holds getId (\<lambda>f. \<not> isPrepared f \<and> effdatum utc f = Some t)
           (src_flightsDate src (Some t)) (tb_flights d))
     \<and> (\<forall>f \<in> ran (tb_flights d). \<not> isPrepared f \<longrightarrow> effdatum utc f \<noteq> None)"

text \<open>Two lists of rows of one table with different properties share no id.\<close>

lemma holds_disjoint:
  assumes "table_ok gid db" "holds gid P xs db" "holds gid Q ys db" "x \<in> set xs" "\<not> Q x"
  shows "gid x \<notin> gid ` set ys"
proof
  assume "gid x \<in> gid ` set ys"
  then obtain y where "y \<in> set ys" "gid y = gid x" by auto
  with assms have "db (gid x) = Some x" "db (gid x) = Some y"
    by (auto simp: holds_def table_ran)
  with assms(3,5) \<open>y \<in> set ys\<close> show False by (auto simp: holds_def)
qed

lemma holds_cong: "(\<And>x. x \<in> ran db \<Longrightarrow> P x = Q x) \<Longrightarrow> holds gid P xs db = holds gid Q xs db"
  by (auto simp: holds_def)

lemma flights_refreshed:
  assumes src: "source_ok src d" and empty: "flightsToday c = []" "flightsOther c = []"
    "preparedFlights c = []" "otherDate c = None"
  shows "flightsMirror (refreshPreparedFlights src (refreshFlightsToday (Some t) src c)) (tb_flights d)"
proof -
  let ?a = "src_flightsDate src (Some t)" and ?p = "src_preparedFlights src"
  let ?c = "refreshPreparedFlights src (refreshFlightsToday (Some t) src c)"
  note lists = refreshPreparedFlights_lists refreshFlightsToday_lists
  let ?db = "tb_flights d"
  have t: "table_ok getId ?db" and p: "holds getId isPrepared ?p ?db"
    and a: "holds getId (\<lambda>f. \<not> isPrepared f \<and> effdatum utc f = Some t) ?a ?db"
    and time: "\<forall>f \<in> ran ?db. \<not> isPrepared f \<longrightarrow> effdatum utc f \<noteq> None"
    using src by (auto simp: source_ok_def)
  have today: "isToday ?c = (\<lambda>f. \<not> isPrepared f \<and> effdatum utc f = Some t)"
    by (simp add: fun_eq_iff isToday_def lists)
  have none: "\<not> isOther ?c f" if "f \<in> ran ?db" for f
    using that time by (auto simp: isOther_def lists empty)
  have byId: "flightsById ?c = learn ?p (learn ?a (forget [] (flightsById c)))"
    by (simp add: lists empty) (simp add: forget_def)
  have "flightsById ?c (getId f) = Some f" if "f \<in> ran ?db" "interesting ?c f" for f
  proof (cases "isPrepared f")
    case True
    then have "f \<in> set ?p" using that p by (simp add: holds_def)
    then show ?thesis using p by (simp add: byId learn_in holds_def)
  next
    case False
    then have f: "f \<in> set ?a" using that a none by (auto simp: interesting_def today holds_def)
    then have "getId f \<notin> getId ` set ?p" using holds_disjoint [OF t a p f] False by simp
    then show ?thesis using a f by (simp add: byId learn_in learn_out holds_def)
  qed
  moreover have "holds getId (isOther ?c) [] ?db" using none by (auto simp: holds_def)
  ultimately show ?thesis
    using t p a by (simp add: flightsMirror_def today lists empty)
qed

section \<open>The whole refresh\<close>

text \<open>The specific hashes of the cache belong to some lists of objects (which need not be the current
  ones); \<open>cache\_sane\<close> holds of a new cache and of every cache that mirrors tables.\<close>

definition cache_sane :: "cache \<Rightarrow> bool" where
  "cache_sane c \<longleftrightarrow> (\<exists>ps. planeHashes c ps) \<and> (\<exists>es. personHashes c es)
     \<and> (\<exists>ls. launchMethodIdx c ls) \<and> (\<exists>rs. flarmNetRecordIdx c rs)"

lemma idx_parts:
  "planePart c' = planePart c \<Longrightarrow> planeHashes c' = planeHashes c"
  "personPart c' = personPart c \<Longrightarrow> personHashes c' = personHashes c"
  "smallPart c' = smallPart c \<Longrightarrow> launchMethodIdx c' = launchMethodIdx c"
  "flarmPart c' = flarmPart c \<Longrightarrow> flarmNetRecordIdx c' = flarmNetRecordIdx c"
  by (simp_all add: fun_eq_iff part_defs planeHashes_def personHashes_def launchMethodIdx_def
      flarmNetRecordIdx_def)

lemma cache_sane_new: "cache_sane newCache"
  unfolding cache_sane_def
  by (intro conjI exI [of _ "[]"])
    (simp_all add: newCache_def planeHashes_def personHashes_def launchMethodIdx_def flarmNetRecordIdx_def)

lemma cache_sane_mirrors: "cacheMirrors c d \<Longrightarrow> cache_sane c"
  unfolding cacheMirrors_def mirrors_def cache_sane_def planeIdx_def personIdx_def by blast

lemma refreshAll_makes_mirror:
  assumes src: "source_ok src d" and sane: "cache_sane c"
    and empty: "flightsToday c = []" "flightsOther c = []" "preparedFlights c = []" "otherDate c = None"
  shows "cacheMirrors (refreshAll (Some t) lastYear src c) d"
proof -
  define s1 where "s1 = refreshStatic (Some t) lastYear src (clearHashesFlight (clearMultiTypeHashes c))"
  define s2 where "s2 = refreshPlanes src s1"
  define s3 where "s3 = refreshPeople src s2"
  define s4 where "s4 = refreshLaunchMethods src s3"
  define s7 where "s7 = refreshPreparedFlights src (refreshFlightsToday (Some t) src s4)"
  define s9 where "s9 = refreshAccountingNotes src (refreshLocations src s7)"
  define s10 where "s10 = refreshFlarmNetRecords src s9"
  obtain ps es ls rs where sane': "planeHashes c ps" "personHashes c es" "launchMethodIdx c ls"
    "flarmNetRecordIdx c rs" using sane by (auto simp: cache_sane_def)
  have p1: "parts s1 = parts c" by (simp add: s1_def other_steps_parts)
  have p2: "personPart s2 = personPart c" "smallPart s2 = smallPart c" "flarmPart s2 = flarmPart c"
    "flightPart s2 = flightPart c"
    using p1 by (simp_all add: s2_def refreshPlanes_parts parts_def)
  have p3: "planePart s3 = planePart s2" "smallPart s3 = smallPart c" "flarmPart s3 = flarmPart c"
    "flightPart s3 = flightPart c"
    using p2 by (simp_all add: s3_def refreshPeople_parts)
  have p4: "planePart s4 = planePart s2" "personPart s4 = personPart s3" "flarmPart s4 = flarmPart c"
    "flightPart s4 = flightPart c"
    using p3 by (simp_all add: s4_def refreshLaunchMethods_def refreshObjects_parts)
  have p7: "planePart s7 = planePart s2" "personPart s7 = personPart s3" "smallPart s7 = smallPart s4"
    "flarmPart s7 = flarmPart c"
    using p4 by (simp_all add: s7_def refreshPreparedFlights_lists(7) [simplified]
        refreshFlightsToday_lists(7) [simplified])
  have "parts s9 = parts s7" by (simp add: s9_def other_steps_parts)
  then have p10: "planePart s10 = planePart s2" "personPart s10 = personPart s3" "smallPart s10 = smallPart s4"
    "flightPart s10 = flightPart s7" and p9: "flarmPart s9 = flarmPart c"
    using p7 by (simp_all add: s10_def refreshFlarmNetRecords_def refreshObjects_parts parts_def)
  have "mirrors planeKind planeIdx s2 (tb_planes d)"
    unfolding s2_def using src sane' idx_parts(1) [of s1 c] p1
    by (intro refreshPlanes_mirrors [where ys = ps]) (simp_all add: source_ok_def parts_def)
  moreover have "mirrors personKind personIdx s3 (tb_people d)"
    unfolding s3_def using src sane' idx_parts(2) [of s2 c] p2
    by (intro refreshPeople_mirrors [where ys = es]) (simp_all add: source_ok_def)
  moreover have "mirrors launchMethodKind launchMethodIdx s4 (tb_launchMethods d)"
    unfolding s4_def refreshLaunchMethods_def using src sane' idx_parts(3) [of s3 c] p3
    by (intro lk.refresh_mirrors [where ys = ls]) (simp_all add: source_ok_def launchMethodKind_def)
  moreover have "mirrors flarmNetRecordKind flarmNetRecordIdx s10 (tb_flarmNetRecords d)"
    unfolding s10_def refreshFlarmNetRecords_def using src sane' idx_parts(4) [of s9 c] p9
    by (intro rk.refresh_mirrors [where ys = rs]) (simp_all add: source_ok_def flarmNetRecordKind_def)
  moreover have "flightsMirror s7 (tb_flights d)"
    unfolding s7_def using src empty p4(4)
    by (intro flights_refreshed) (simp_all add: flightPart_def)
  ultimately have "cacheMirrors s10 d"
    using p10 mirror_parts(1) [of s10 s2] mirror_parts(2) [of s10 s3] mirror_parts(3) [of s10 s4]
      flight_part [of s10 s7] by (simp add: cacheMirrors_def)
  moreover have "refreshAll (Some t) lastYear src c = s10"
  proof -
    have "otherDate (refreshFlightsToday (Some t) src s4) = None"
      using empty p4(4) by (simp add: refreshFlightsToday_lists flightPart_def)
    then have "refreshFlightsOther src (refreshFlightsToday (Some t) src s4)
        = refreshFlightsToday (Some t) src s4" by (simp add: refreshFlightsOther_def)
    then show ?thesis
      by (simp add: refreshAll_def refreshAllUntil_def refreshSteps_def s1_def s2_def s3_def s4_def
          s7_def s9_def s10_def)
  qed
  ultimately show ?thesis by simp
qed

lemma refreshAll_today:
  "todayDate (refreshAll (Some t) lastYear src c) = Some t"
proof -
  have "todayDate (refreshFlarmNetRecords src x) = todayDate x" "todayDate (refreshAccountingNotes src x) = todayDate x"
    "todayDate (refreshLocations src x) = todayDate x" for x
    using refreshObjects_parts(16) [of "src_flarmNetRecords src" x]
    by (simp_all add: refreshFlarmNetRecords_def flightPart_def refreshAccountingNotes_def refreshLocations_def)
  moreover have "todayDate (refreshFlightsOther src (refreshFlightsToday (Some t) src x)) = Some t" for x
    using learn_fold(3) [simplified] by (simp add: refreshFlightsOther_def refreshFlightsOf_def Let_def
        forget_fold refreshFlightsToday_lists)
  ultimately show ?thesis
    by (simp add: refreshAll_def refreshAllUntil_def refreshSteps_def refreshPreparedFlights_lists)
qed

text \<open>C2: a complete refresh of a cache without flights (a new one, or one that was cleared) makes it a
  mirror of the database: every object list, every index, the flight lists and the flights by id.
  With \<open>dbChanged_refines\<close> it stays one as long as the events of the database arrive.\<close>

theorem refreshAll_mirrors:
  assumes "source_ok src d" "cache_sane c"
    and "flightsToday c = []" "flightsOther c = []" "preparedFlights c = []" "otherDate c = None"
  shows "cacheMirrors (refreshAll (Some t) lastYear src c) d"
  using assms by (rule refreshAll_makes_mirror)

text \<open>An empty database, for the witnesses.\<close>

definition src0 :: db_source where
  "src0 = \<lparr>src_planes = [], src_people = [], src_launchMethods = [], src_flarmNetRecords = [],
     src_preparedFlights = [], src_flightsDate = (\<lambda>_. []), src_locations = [], src_accountingNotes = [],
     src_flightsPerPlane = (\<lambda>_ _. Map.empty), src_flightsPerPerson = (\<lambda>_ _. Map.empty),
     src_flightsPerPersonAsPic = (\<lambda>_ _. Map.empty), src_hoursPerPersonAsPic = (\<lambda>_ _. Map.empty)\<rparr>"

definition plane1 :: plane where
  "plane1 = (pl_new 1)\<lparr>pl_registration := ''D-1234'', pl_flarmId := ''DDA1B2''\<rparr>"

definition src1 :: db_source where
  "src1 = src0\<lparr>src_planes := [plane1], src_preparedFlights := [flight0]\<rparr>"

definition tables1 :: tables where
  "tables1 = \<lparr>tb_planes = [1 \<mapsto> plane1], tb_people = Map.empty, tb_launchMethods = Map.empty,
     tb_flarmNetRecords = Map.empty, tb_flights = [7 \<mapsto> flight0]\<rparr>"

lemma flight0_facts: "getId flight0 = 7" "isPrepared flight0"
  by (simp_all add: flight0_def newFlight_def status_defs sk_defs)

lemma source_ok_1: "source_ok src1 tables1"
  by (auto simp: source_ok_def src1_def src0_def tables1_def table_ok_def holds_def plane1_def pl_new_def
      flight0_facts)

theorem refreshAll_mirrors_witness:
  "cacheMirrors (refreshAll (Some 100) None src1 newCache) tables1"
  by (rule refreshAll_mirrors [OF source_ok_1 cache_sane_new]) (simp_all add: newCache_def)

section \<open>Another date\<close>

text \<open>Fetching the flights of another day keeps the cache a mirror of the database, as long as the day
  is not the one of today's list.\<close>

theorem fetchFlightsOther_mirrors:
  assumes src: "source_ok src d" and c: "cacheMirrors c d" and day: "todayDate c \<noteq> Some t"
  shows "cacheMirrors (fetchFlightsOther (Some t) src c) d
    \<and> otherDate (fetchFlightsOther (Some t) src c) = Some t"
proof -
  let ?c = "fetchFlightsOther (Some t) src c" and ?o = "src_flightsDate src (Some t)"
  let ?db = "tb_flights d"
  note lists = fetchFlightsOther_lists
  have m: "flightsMirror c ?db" using c by (simp add: cacheMirrors_def)
  have t: "table_ok getId ?db" and o: "holds getId (\<lambda>f. \<not> isPrepared f \<and> effdatum utc f = Some t) ?o ?db"
    using src by (simp_all add: source_ok_def)
  have today: "isToday ?c = isToday c"
    and other: "isOther ?c = (\<lambda>f. \<not> isPrepared f \<and> effdatum utc f = Some t)"
    using day by (auto simp: fun_eq_iff isToday_def isOther_def lists)
  have "flightsById ?c (getId f) = Some f" if f: "f \<in> ran ?db" "interesting ?c f" for f
  proof (cases "f \<in> set ?o")
    case True
    then show ?thesis using o by (simp add: lists learn_in holds_def)
  next
    case False
    with f o have no: "\<not> isOther ?c f" by (simp add: other holds_def)
    with f have i: "isPrepared f \<or> isToday c f" by (simp add: interesting_def today)
    then have "\<not> isOther c f" by (auto simp: isToday_def isOther_def)
    have fdb: "?db (getId f) = Some f" using f t by (simp add: table_ran)
    have "getId f \<notin> getId ` set ?o" "getId f \<notin> getId ` set (flightsOther c)"
      using fdb False m o t \<open>\<not> isOther c f\<close>
      by (auto simp: holds_def table_ran flightsMirror_def)
    moreover have "flightsById c (getId f) = Some f"
      using m f(1) i by (auto simp: flightsMirror_def interesting_def)
    ultimately show ?thesis by (simp add: lists learn_out) (simp add: forget_def)
  qed
  then have "flightsMirror ?c ?db" using m o by (simp add: flightsMirror_def today other lists)
  moreover have "planePart ?c = planePart c" "personPart ?c = personPart c" "smallPart ?c = smallPart c"
    "flarmPart ?c = flarmPart c"
    using lists(7) [of t src c] by simp_all
  ultimately show ?thesis
    using c mirror_parts(1) [of ?c c] mirror_parts(2) [of ?c c] mirror_parts(3) [of ?c c]
      mirror_parts(4) [of ?c c] lists(2) by (simp add: cacheMirrors_def)
qed

theorem fetchFlightsOther_mirrors_witness:
  "cacheMirrors (fetchFlightsOther (Some 99) src1 (refreshAll (Some 100) None src1 newCache)) tables1"
proof -
  have m: "cacheMirrors (refreshAll (Some 100) None src1 newCache) tables1"
    by (rule refreshAll_makes_mirror [OF source_ok_1 cache_sane_new]) (simp_all add: newCache_def)
  have "todayDate (refreshAll (Some 100) None src1 newCache) \<noteq> Some 99"
    by (simp add: refreshAll_today)
  from fetchFlightsOther_mirrors [OF source_ok_1 m this] show ?thesis by blast
qed

end
