(* ===== verification/Sk_CacheLookup.thy ===== *)
theory Sk_CacheLookup
  imports Sk_CacheOps
begin

text \<open>
  The lookups of \<^verbatim>\<open>src/src/db/cache/Cache_lookup.cpp\<close>, what they answer when the cache mirrors
  the database, and the places where the code loses the mirror.
\<close>

section \<open>Lookups\<close>

definition getPlanesSortedByUsage :: "cache \<Rightarrow> plane list" where
  "getPlanesSortedByUsage c = map fst (planesSortedByUsage c)"

definition getPeopleSortedByFrequency :: "cache \<Rightarrow> person list" where
  "getPeopleSortedByFrequency c = map fst (peopleSortedByFrequency c)"

definition getPlaneIdByRegistration :: "cache \<Rightarrow> qstring \<Rightarrow> dbId" where
  "getPlaneIdByRegistration c registration =
     (if \<not> mh_contains (toLower registration) (planeIdsByRegistration c) then invalidId
      else mh_value invalidId (toLower registration) (planeIdsByRegistration c))"

definition getPlaneIdsByFlarmId :: "cache \<Rightarrow> qstring \<Rightarrow> dbId list" where
  "getPlaneIdsByFlarmId c flarmId = mh_values flarmId (planeIdsByFlarmId c)"

definition getPlaneIdByFlarmId :: "cache \<Rightarrow> qstring \<Rightarrow> dbId" where
  "getPlaneIdByFlarmId c flarmId =
     (if \<not> mh_contains flarmId (planeIdsByFlarmId c) then invalidId
      else mh_value invalidId flarmId (planeIdsByFlarmId c))"

definition getFlarmNetRecordIdByFlarmId :: "cache \<Rightarrow> qstring \<Rightarrow> dbId" where
  "getFlarmNetRecordIdByFlarmId c flarmId =
     (if \<not> mh_contains flarmId (flarmNetRecordIdsByFlarmId c) then invalidId
      else mh_value invalidId flarmId (flarmNetRecordIdsByFlarmId c))"

definition getPersonIdsByName :: "cache \<Rightarrow> qstring \<Rightarrow> qstring \<Rightarrow> dbId list" where
  "getPersonIdsByName c lastName firstName =
     mh_values (toLower lastName, toLower firstName) (personIdsByName c)"

definition getUniquePersonIdByName :: "cache \<Rightarrow> qstring \<Rightarrow> qstring \<Rightarrow> dbId" where
  "getUniquePersonIdByName c lastName firstName =
     (let personIds = getPersonIdsByName c lastName firstName in
      if length personIds = 1 then personIds ! 0 else invalidId)"

definition getPersonIdsByLastName :: "cache \<Rightarrow> qstring \<Rightarrow> dbId list" where
  "getPersonIdsByLastName c lastName = mh_values (toLower lastName) (personIdsByLastName c)"

definition getPersonIdsByFirstName :: "cache \<Rightarrow> qstring \<Rightarrow> dbId list" where
  "getPersonIdsByFirstName c firstName = mh_values (toLower firstName) (personIdsByFirstName c)"

definition getLaunchMethodByType :: "cache \<Rightarrow> lm_type \<Rightarrow> dbId" where
  "getLaunchMethodByType c t =
     (case mh_values t (launchMethodIdsByType c) of i # _ \<Rightarrow> i | [] \<Rightarrow> invalidId)"

text \<open>The order of \<open>QMultiHash::values ()\<close> over all keys is open.\<close>

definition getFlarmNetRecordIds :: "cache \<Rightarrow> dbId list" where
  "getFlarmNetRecordIds c = map snd (flarmNetRecordIdsByFlarmId c)"

definition getNumberOfTakeoffsByPersonId :: "cache \<Rightarrow> dbId \<Rightarrow> int" where
  "getNumberOfTakeoffsByPersonId c i = valueOr0 (numberOfFlightsByPersonIdLastHalfYear c) i"

definition getNumberOfHoursByPersonId :: "cache \<Rightarrow> dbId \<Rightarrow> int" where
  "getNumberOfHoursByPersonId c i = valueOr0 (numberOfHoursByPersonIdLastHalfYear c) i"

definition getPersonFirstNames :: "cache \<Rightarrow> qstring \<Rightarrow> qstring list" where
  "getPersonFirstNames c lastName = sort (mh_values (toLower lastName) (firstNamesByLastName c))"

definition getPersonLastNames :: "cache \<Rightarrow> qstring \<Rightarrow> qstring list" where
  "getPersonLastNames c firstName = sort (mh_values (toLower firstName) (lastNamesByFirstName c))"

definition getLocations :: "cache \<Rightarrow> qstring list" where
  "getLocations c = fst (ss_toQList (locations c))"

definition getPlaneRegistrations :: "cache \<Rightarrow> qstring list" where
  "getPlaneRegistrations c = fst (ss_toQList (planeRegistrations c))"

text \<open>The cache as the flights read it.\<close>

definition cacheView :: "cache \<Rightarrow> cache_view" where
  "cacheView c = \<lparr>cv_plane = getNewObject (planesById c),
     cv_launchMethod = getNewObject (launchMethodsById c),
     cv_planeIdByRegistration = getPlaneIdByRegistration c,
     cv_launchMethodByType = getLaunchMethodByType c\<rparr>"

text \<open>\<open>mem\<close> is the memory the towflights are allocated in (see \<open>newFlight\<close>).\<close>

definition getFlightsToday :: "flight \<Rightarrow> cache \<Rightarrow> bool \<Rightarrow> flight list" where
  "getFlightsToday mem c includeTowflights =
     (if includeTowflights then flightsToday c @ makeTowflights mem (cacheView c) (flightsToday c)
      else flightsToday c)"

definition getPreparedFlights :: "flight \<Rightarrow> cache \<Rightarrow> bool \<Rightarrow> flight list" where
  "getPreparedFlights mem c includeTowflights =
     (if includeTowflights then preparedFlights c @ makeTowflights mem (cacheView c) (preparedFlights c)
      else preparedFlights c)"

definition getFlyingFlights :: "flight \<Rightarrow> cache \<Rightarrow> bool \<Rightarrow> flight list" where
  "getFlyingFlights mem c includeTowflights =
     foldl (\<lambda>result f. if isFlying f then result @ [f] else result) []
       (getFlightsToday mem c includeTowflights @ getPreparedFlights mem c False)"

definition getAllKnownFlights :: "cache \<Rightarrow> flight list" where
  "getAllKnownFlights c = flightsToday c @ flightsOther c @ preparedFlights c"

fun planeFlyingIn :: "cache_view \<Rightarrow> flight list \<Rightarrow> dbId \<Rightarrow> dbId" where
  "planeFlyingIn cv [] i = invalidId"
| "planeFlyingIn cv (f # fs) i =
     (if getPlaneId f = i \<and> isFlying f then getId f
      else if isTowplaneFlying f \<and> isAirtow cv f \<and> effectiveTowplaneId cv f = i then getId f
      else planeFlyingIn cv fs i)"

definition planeFlying :: "cache \<Rightarrow> dbId \<Rightarrow> dbId" where
  "planeFlying c i = planeFlyingIn (cacheView c) (flightsToday c) i"

fun personFlyingIn :: "flight list \<Rightarrow> dbId \<Rightarrow> dbId" where
  "personFlyingIn [] i = invalidId"
| "personFlyingIn (f # fs) i =
     (if (isFlying f \<and> getPilotId f = i) \<or> (isFlying f \<and> getCopilotId f = i)
         \<or> (isTowplaneFlying f \<and> getTowpilotId f = i)
      then getId f else personFlyingIn fs i)"

definition personFlying :: "cache \<Rightarrow> dbId \<Rightarrow> dbId" where
  "personFlying c i = personFlyingIn (flightsToday c) i"

section \<open>What the lookups answer\<close>

lemma mirror_indexes:
  assumes "cacheMirrors c d"
  shows "set (planes c) = ran (tb_planes d)" "set (people c) = ran (tb_people d)"
    "set (launchMethods c) = ran (tb_launchMethods d)"
    "planesById c = tb_planes d" "peopleById c = tb_people d" "launchMethodsById c = tb_launchMethods d"
    "distinct (map pe_id (people c))"
    "hash_indexes (\<lambda>p. toLower (pl_registration p)) pl_id (planeIdsByRegistration c) (planes c)"
    "hash_indexes pl_flarmId pl_id (planeIdsByFlarmId c) (planes c)"
    "hash_indexes (\<lambda>p. (toLower (pe_lastName p), toLower (pe_firstName p))) pe_id (personIdsByName c) (people c)"
    "hash_indexes lm_type lm_id (launchMethodIdsByType c) (launchMethods c)"
    "table_ok pl_id (tb_planes d)" "table_ok pe_id (tb_people d)" "table_ok lm_id (tb_launchMethods d)"
  using assms
  by (simp_all add: cacheMirrors_def mirrors_def planeIdx_def planeHashes_def personIdx_def
      personHashes_def launchMethodIdx_def launchMethodKind_def)

lemma hash_lookup:
  assumes "hash_indexes key gid h xs" "table_ok gid db" "set xs = ran db"
  shows "mh_contains q h \<longleftrightarrow> (\<exists>x \<in> ran db. key x = q)"
    and "mh_contains q h \<Longrightarrow> \<exists>x. db (mh_value e q h) = Some x \<and> key x = q \<and> mh_value e q h \<noteq> 0"
proof -
  have h: "set h = (\<lambda>z. (key z, gid z)) ` ran db"
    using hash_indexes_set [OF assms(1)] assms(3) by simp
  then show "mh_contains q h \<longleftrightarrow> (\<exists>x \<in> ran db. key x = q)"
    by (auto simp: mh_contains_def image_iff)
  assume "mh_contains q h"
  then obtain v vs where v: "mh_values q h = v # vs"
    by (auto simp: mh_contains_values neq_Nil_conv)
  then have "(q, v) \<in> set h" by (metis list.set_intros(1) mh_values_set)
  then obtain x where "x \<in> ran db" "key x = q" "gid x = v" using h by auto
  with assms(2) v show "\<exists>x. db (mh_value e q h) = Some x \<and> key x = q \<and> mh_value e q h \<noteq> 0"
    by (auto simp: mh_value_def ran_def table_ok_def)
qed



lemma unique_lookup:
  fixes gid :: "'a \<Rightarrow> dbId"
  assumes "mset ids = image_mset gid (mset fs)" "distinct fs" "gid x \<noteq> 0"
    and inj: "\<And>y. y \<in> set fs \<Longrightarrow> gid y = gid x \<Longrightarrow> y = x"
  shows "(if length ids = 1 then ids ! 0 else 0) = gid x \<longleftrightarrow> set fs = {x}"
proof -
  have len: "length ids = length fs"
    using mset_eq_length [of ids "map gid fs"] assms(1) by simp
  show ?thesis
  proof (cases "\<exists>y. fs = [y]")
    case True
    then obtain y where y: "fs = [y]" by blast
    with assms(1) have "ids = [gid y]" by simp
    with y inj show ?thesis by auto
  next
    case False
    then have "length fs \<noteq> 1" by (auto simp: length_Suc_conv)
    moreover have "set fs \<noteq> {x}"
      using \<open>length fs \<noteq> 1\<close> distinct_card [OF assms(2)] by auto
    ultimately show ?thesis using len assms(3) by simp
  qed
qed

definition person1 :: person where
  "person1 = (pe_new 0 1)\<lparr>pe_lastName := ''Muster'', pe_firstName := ''Max''\<rparr>"

text \<open>\<open>getUniquePersonIdByName\<close> answers the id of a person exactly if this person is the only one with
  the names (compared without case).\<close>

theorem getUniquePersonIdByName_iff:
  assumes "cacheMirrors c d" "x \<in> ran (tb_people d)"
  shows "getUniquePersonIdByName c l f = pe_id x
    \<longleftrightarrow> {e \<in> ran (tb_people d). toLower (pe_lastName e) = toLower l \<and> toLower (pe_firstName e) = toLower f} = {x}"
proof -
  note m = mirror_indexes [OF assms(1)]
  let ?P = "\<lambda>e. toLower (pe_lastName e) = toLower l \<and> toLower (pe_firstName e) = toLower f"
  let ?ids = "getPersonIdsByName c l f" and ?fs = "filter ?P (people c)"
  have ids: "mset ?ids = image_mset pe_id (mset ?fs)"
    using hash_indexes_values [OF m(10), of "(toLower l, toLower f)"]
    by (simp only: getPersonIdsByName_def prod.inject)
  have d: "distinct ?fs" using m(7) by (simp add: distinct_map)
  have set: "set ?fs = {e \<in> ran (tb_people d). ?P e}" using m(2) by auto
  have x1: "tb_people d (pe_id x) = Some x" using assms(2) m(13) by (simp add: table_ran)
  have x0: "pe_id x \<noteq> 0" "tb_people d (pe_id x) = Some x"
    using m(13) x1 unfolding table_ok_def by blast+
  have "y = x" if "y \<in> set ?fs" "pe_id y = pe_id x" for y
  proof -
    have "y \<in> ran (tb_people d)" using that(1) set by blast
    then have "tb_people d (pe_id y) = Some y" using m(13) by (simp add: table_ran)
    with that(2) x0(2) show ?thesis by simp
  qed
  from unique_lookup [OF ids d x0(1) this] set
  show ?thesis by (simp only: getUniquePersonIdByName_def Let_def invalidId_def)
qed

lemma cached_person1:
  "cacheMirrors (objectAdded personKind person1 newCache) (tables0\<lparr>tb_people := [1 \<mapsto> person1]\<rparr>)"
proof -
  have "mirrors personKind personIdx newCache (tb_people tables0)"
    using new_mirrors_empty by (simp add: cacheMirrors_def)
  from ek'.added_mirrors [OF this, of person1]
  have "mirrors personKind personIdx (objectAdded personKind person1 newCache) [1 \<mapsto> person1]"
    by (simp add: person1_def pe_new_def tables0_def)
  then show ?thesis using cacheMirrors_change(2) [OF new_mirrors_empty]
    by (simp add: person_handlers_frame)
qed

theorem getUniquePersonIdByName_iff_witness:
  "getUniquePersonIdByName (objectAdded personKind person1 newCache) ''MUSTER'' ''max'' = 1"
proof -
  note m = cached_person1
  have "toLower ''MUSTER'' = toLower ''Muster''" "toLower ''max'' = toLower ''Max''" by code_simp+
  then have "{e \<in> ran [1 \<mapsto> person1]. toLower (pe_lastName e) = toLower ''MUSTER''
      \<and> toLower (pe_firstName e) = toLower ''max''} = {person1}"
    by (auto simp: person1_def)
  then show ?thesis
    using getUniquePersonIdByName_iff [OF m, of person1 "''MUSTER''" "''max''"]
    by (simp add: person1_def pe_new_def)
qed

section \<open>Flying\<close>

lemma planeFlyingIn_cases:
  "(\<exists>f \<in> set fs. planeFlyingIn cv fs i = getId f
      \<and> (getPlaneId f = i \<and> isFlying f
         \<or> isTowplaneFlying f \<and> isAirtow cv f \<and> effectiveTowplaneId cv f = i))
   \<or> (planeFlyingIn cv fs i = invalidId
      \<and> (\<forall>f \<in> set fs. \<not> (getPlaneId f = i \<and> isFlying f)
          \<and> \<not> (isTowplaneFlying f \<and> isAirtow cv f \<and> effectiveTowplaneId cv f = i)))"
  by (induction fs) auto

lemma personFlyingIn_cases:
  "(\<exists>f \<in> set fs. personFlyingIn fs i = getId f
      \<and> (isFlying f \<and> (getPilotId f = i \<or> getCopilotId f = i) \<or> isTowplaneFlying f \<and> getTowpilotId f = i))
   \<or> (personFlyingIn fs i = invalidId
      \<and> (\<forall>f \<in> set fs. \<not> (isFlying f \<and> (getPilotId f = i \<or> getCopilotId f = i))
          \<and> \<not> (isTowplaneFlying f \<and> getTowpilotId f = i)))"
  by (induction fs) auto

text \<open>On a cache that mirrors the database, \<open>planeFlying\<close> and \<open>personFlying\<close> answer the invalid id
  exactly if no flight of today in the database has the plane (as plane, or as towplane that is still
  in the air) or the person (as pilot, copilot or towpilot) flying.\<close>

theorem flying_iff:
  assumes "cacheMirrors c d"
  shows "(planeFlying c i = invalidId \<longleftrightarrow>
        \<not> (\<exists>f \<in> ran (tb_flights d). isToday c f \<and> (getPlaneId f = i \<and> isFlying f
          \<or> isTowplaneFlying f \<and> isAirtow (cacheView c) f \<and> effectiveTowplaneId (cacheView c) f = i)))
    \<and> (personFlying c i = invalidId \<longleftrightarrow>
        \<not> (\<exists>f \<in> ran (tb_flights d). isToday c f
          \<and> (isFlying f \<and> (getPilotId f = i \<or> getCopilotId f = i)
             \<or> isTowplaneFlying f \<and> getTowpilotId f = i)))"
proof -
  have m: "table_ok getId (tb_flights d)" "set (flightsToday c) = {f \<in> ran (tb_flights d). isToday c f}"
    using assms by (auto simp: cacheMirrors_def flightsMirror_def holds_def)
  have nz: "getId f \<noteq> invalidId" if "f \<in> set (flightsToday c)" for f
    using that m by (auto simp: ran_def table_ok_def invalidId_def)
  have "planeFlying c i = invalidId \<longleftrightarrow> \<not> (\<exists>f \<in> set (flightsToday c). getPlaneId f = i \<and> isFlying f
          \<or> isTowplaneFlying f \<and> isAirtow (cacheView c) f \<and> effectiveTowplaneId (cacheView c) f = i)"
    unfolding planeFlying_def
    using planeFlyingIn_cases [of "flightsToday c" "cacheView c" i] nz by metis
  moreover have "personFlying c i = invalidId \<longleftrightarrow> \<not> (\<exists>f \<in> set (flightsToday c).
          isFlying f \<and> (getPilotId f = i \<or> getCopilotId f = i)
             \<or> isTowplaneFlying f \<and> getTowpilotId f = i)"
    unfolding personFlying_def
    using personFlyingIn_cases [of "flightsToday c" i] nz by metis
  ultimately show ?thesis unfolding m(2) by blast
qed

theorem flying_iff_witness:
  "planeFlying newCache 5 = invalidId \<and> personFlying newCache 5 = invalidId"
  using flying_iff [OF new_mirrors_empty, of 5] by (simp add: tables0_def)

section \<open>Flights are told what changed\<close>

lemma row_view:
  assumes "mirrors k idx c db" "mirrors k idx c' (row_event t i x db)" "j \<noteq> i"
  shows "getNewObject (k_byId k c) j = getNewObject (k_byId k c') j"
  using assms by (simp add: mirrors_def getNewObject_eq row_event_def)

text \<open>The event the cache re-emits is the one the flights need: after a legal event, the plane and
  launch method that the cache answers with differ at most at the id the event names; so a flight
  that is told the event answers \<open>getErrors\<close> with the errors computed from the new contents.\<close>

theorem dbChanged_keeps_errors:
  assumes "cacheMirrors c d" "legal_event e d" "dbChanged e c = Some (c', e')"
    and "errors_coherent s b (cacheView c) f"
  shows "errors_coherent s b (cacheView c') (databaseChanged e' f)
    \<and> fst (getErrors s b (cacheView c') (databaseChanged e' f)) = getErrorsImpl s b (cacheView c') f"
proof -
  have m: "cacheMirrors c' (apply_event e d)" and e': "e' = e"
    using dbChanged_mirrors [OF assms(1,2)] assms(3) by auto
  have "event_explains e (cacheView c) (cacheView c')"
    using assms(1) m
    by (cases "ev_table e")
      (auto simp: event_explains_def cacheView_def cacheMirrors_def mirrors_def apply_event_def
        row_event_def getNewObject_eq launchMethodKind_def split: if_splits)
  from databaseChanged_keeps [OF assms(4) this] show ?thesis by (simp add: e')
qed

theorem dbChanged_keeps_errors_witness:
  "errors_coherent settings0 False (cacheView (objectAdded planeKind plane1 newCache))
     (databaseChanged (ev_added (ValuePlane plane1)) flight0)"
proof -
  let ?e = "ev_added (ValuePlane plane1)"
  have l: "legal_event ?e tables0"
    by (simp add: legal_event_def made_event_def row_legal_def ev_added_def tables0_def plane1_def pl_new_def)
  have c: "dbChanged ?e newCache = Some (objectAdded planeKind plane1 newCache, ?e)"
    by (simp add: dbChanged_def handleDbChanged_def ev_added_def)
  have f: "errors_coherent settings0 False (cacheView newCache) flight0"
    by (simp add: errors_coherent_def flight0_def newFlight_def)
  from dbChanged_keeps_errors [OF new_mirrors_empty l c f] show ?thesis by blast
qed

section \<open>Where the mirror is lost\<close>

text \<open>A flight that is changed so that it belongs to none of the lists leaves the lists, but its old
  version stays in the hash by id, so that \<open>getObject\<close> keeps answering it.\<close>

theorem flightUpdated_leaves_stale:
  assumes "\<not> interesting c f"
  shows "getId f \<notin> getId ` set (getAllKnownFlights (flightUpdated f c))
    \<and> getObject (flightsById (flightUpdated f c)) (getId f) = getObject (flightsById c) (getId f)"
proof -
  have no: "\<not> isPrepared f" "\<not> isToday c f" "\<not> isOther c f" using assms by (auto simp: interesting_def)
  obtain c' where c': "flightUpdated f c = c'"
    "preparedFlights c' = el_removeById getId (getId f) (preparedFlights c)"
    "flightsToday c' = el_removeById getId (getId f) (flightsToday c)"
    "flightsOther c' = el_removeById getId (getId f) (flightsOther c)"
    "flightsById c' = flightsById c"
    using flightUpdated_lists [of f c] assms no by auto
  then show ?thesis by (auto simp: getAllKnownFlights_def)
qed

theorem flightUpdated_leaves_stale_witness:
  "getObject (flightsById (flightUpdated (flight0\<lparr>getDeparted := True, getDepartureTime := Some 0\<rparr>)
      (flightAdded flight0 (newCache\<lparr>todayDate := Some 100\<rparr>)))) 7 = Inr flight0"
proof -
  let ?c = "flightAdded flight0 (newCache\<lparr>todayDate := Some 100\<rparr>)"
  let ?f = "flight0\<lparr>getDeparted := True, getDepartureTime := Some 0\<rparr>"
  have "\<not> interesting ?c ?f"
    by (simp add: interesting_def isToday_def isOther_def flightAdded_lists newCache_def flight0_def
        newFlight_def status_defs sk_defs effdatum_def effectiveTime_def dateIn_def utc_def)
  from flightUpdated_leaves_stale [OF this]
  have "getObject (flightsById (flightUpdated ?f ?c)) 7 = getObject (flightsById ?c) 7"
    using flight0_facts by simp
  also have "\<dots> = Inr flight0"
    by (simp add: flightAdded_lists interesting_def flight0_facts getObject_def idInvalid_def)
  finally show ?thesis .
qed

text \<open>Refreshing the flights loses a flight that went from the prepared flights to today's flights since
  the last refresh: it is in today's list, but the refresh of the prepared flights, which comes later,
  removes it from the hash by id, so that \<open>getObject\<close> throws a \<open>NotFoundException\<close> for a listed flight.\<close>

theorem refreshFlights_loses_departed:
  assumes "g \<in> set (preparedFlights c)" "getId g = getId f" "otherDate c = None"
    and "f \<in> set (src_flightsDate src (Some t))" "getId f \<notin> getId ` set (src_preparedFlights src)"
  shows "f \<in> set (flightsToday (refreshFlights (Some t) src c))
    \<and> getObject (flightsById (refreshFlights (Some t) src c)) (getId f) = Inl (NotFoundException (getId f))"
proof -
  let ?c = "clearHashesFlight c"
  have part: "preparedFlights ?c = preparedFlights c" "otherDate ?c = otherDate c"
    by (simp_all add: clearHashesFlight_def)
  have eq: "refreshFlights (Some t) src c = refreshPreparedFlights src (refreshFlightsToday (Some t) src ?c)"
    using assms(3) part by (simp add: refreshFlights_def refreshFlightsOther_def refreshFlightsToday_lists)
  have "getId f \<in> getId ` set (preparedFlights c)" using assms(1,2) by (metis imageI)
  then have "flightsById (refreshFlights (Some t) src c) (getId f) = None"
    using assms(5) by (simp add: eq refreshPreparedFlights_lists refreshFlightsToday_lists learn_out part)
      (simp add: forget_def part)
  then show ?thesis
    using assms(4) by (simp add: eq refreshPreparedFlights_lists refreshFlightsToday_lists getObject_def)
qed

theorem refreshFlights_loses_departed_witness:
  "getObject (flightsById (refreshFlights (Some 0)
      (src0\<lparr>src_flightsDate := (\<lambda>_. [flight0\<lparr>getDeparted := True, getDepartureTime := Some 0\<rparr>])\<rparr>)
      (flightAdded flight0 newCache))) 7 = Inl (NotFoundException 7)"
proof -
  let ?f = "flight0\<lparr>getDeparted := True, getDepartureTime := Some 0\<rparr>"
  have "flight0 \<in> set (preparedFlights (flightAdded flight0 newCache))" "getId flight0 = getId ?f"
    "otherDate (flightAdded flight0 newCache) = None"
    by (simp_all add: flightAdded_lists flight0_facts newCache_def)
  from refreshFlights_loses_departed [OF this, of "src0\<lparr>src_flightsDate := (\<lambda>_. [?f])\<rparr>" 0]
  show ?thesis by (simp add: src0_def flight0_facts)
qed

text \<open>\<open>refreshFlights\<close> clears the lists of locations and accounting notes, which must include the values of
  all flights, and only puts back those of the flights it loads.\<close>

theorem refreshFlights_drops_locations:
  "ss_set (locations (refreshFlights (Some t)
      (src\<lparr>src_preparedFlights := [], src_flightsDate := (\<lambda>_. [])\<rparr>) c)) = {}"
  by (simp add: refreshFlights_def refreshPreparedFlights_def refreshFlightsToday_def
      refreshFlightsOther_def refreshFlightsOf_def Let_def forget_fold clearHashesFlight_def)

text \<open>\<open>clear\<close> leaves the FlarmNet records, their hash by id and the lists sorted by usage; everything else
  the lookups by id read is emptied.\<close>

theorem clear_leaves_flarmNetRecords:
  "flarmNetRecords (clear c) = flarmNetRecords c \<and> flarmNetRecordsById (clear c) = flarmNetRecordsById c
   \<and> getPlanesSortedByUsage (clear c) = getPlanesSortedByUsage c
   \<and> getPeopleSortedByFrequency (clear c) = getPeopleSortedByFrequency c
   \<and> planes (clear c) = [] \<and> people (clear c) = [] \<and> launchMethods (clear c) = []
   \<and> getAllKnownFlights (clear c) = []
   \<and> planesById (clear c) = Map.empty \<and> peopleById (clear c) = Map.empty
   \<and> launchMethodsById (clear c) = Map.empty \<and> flightsById (clear c) = Map.empty"
  by (simp add: clear_def Let_def kind_hash_defs clearHashesFlight_def clearMultiTypeHashes_def
      getPlanesSortedByUsage_def getPeopleSortedByFrequency_def getAllKnownFlights_def)

text \<open>An event about an object that is not in the cache is handled for planes, people and launch methods,
  but deleting or changing an unknown FlarmNet record dereferences a null pointer.\<close>

theorem unknown_flarmNetRecord_crashes:
  assumes "flarmNetRecordsById c i = None"
  shows "dbChanged (ev_deleted tableFlarmNetRecords i) c = None
    \<and> dbChanged (ev_changed (ValueFlarmNetRecord (r\<lparr>fn_id := i\<rparr>))) c = None
    \<and> dbChanged (ev_deleted tablePlanes j) c \<noteq> None
    \<and> dbChanged (ev_deleted tablePeople j) c \<noteq> None
    \<and> dbChanged (ev_deleted tableLaunchMethods j) c \<noteq> None"
  using assms
  by (simp add: dbChanged_def handleDbChanged_def ev_deleted_def ev_changed_def objectDeleted_def
      objectUpdated_def flarmNetRecordKind_def flarmNetRecord_hash_defs getNewObject_eq Let_def
      launchMethodKind_def launchMethod_hash_defs updateHashesPlaneDeleted_def
      updateHashesPersonDeleted_def)

theorem unknown_flarmNetRecord_crashes_witness:
  "dbChanged (ev_deleted tableFlarmNetRecords 4) newCache = None"
  using unknown_flarmNetRecord_crashes [of newCache 4] by (simp add: newCache_def)

end
