(* ===== verification/Sk_Migrator.thy ===== *)
theory Sk_Migrator
  imports Sk_Prelude
begin

text \<open>
  Database versions, \<^verbatim>\<open>src/src/db/migration/Migrator.cpp\<close> and
  \<^verbatim>\<open>MigrationFactory.cpp\<close>: which action a database needs when the program connects to it, and
  that loading the schema and running the migrations lead to a current database, also when they are
  interrupted. The single migrations are registered with the factory at start-up and the schema is
  generated at build time; both are arguments of the model. \<open>'d\<close> is the contents of the tables other
  than the migrations table and \<open>names\<close> their names.
\<close>

type_synonym version = "64 word"

text \<open>A migration changes the other tables; the result says whether it ended without an exception
  (MySQL does not roll back changes of the table structure).\<close>

record 'd migration =
  mg_name :: qstring
  mg_up :: "'d \<Rightarrow> bool \<times> 'd"
  mg_down :: "'d \<Rightarrow> bool \<times> 'd"

section \<open>MigrationFactory\<close>

text \<open>The builders: a QMap, that is a list sorted by the version.\<close>

type_synonym 'd builders = "(version \<times> 'd migration) list"

fun registration :: "version \<Rightarrow> 'd migration \<Rightarrow> 'd builders \<Rightarrow> 'd builders" where
  "registration v b [] = [(v, b)]"
| "registration v b ((w, c) # bs) =
     (if v < w then (v, b) # (w, c) # bs
      else if v = w then (v, b) # bs
      else (w, c) # registration v b bs)"

definition availableVersions :: "'d builders \<Rightarrow> version list" where
  "availableVersions bs = map fst bs"

definition factoryLatestVersion :: "'d builders \<Rightarrow> version" where
  "factoryLatestVersion bs =
     (let versions = availableVersions bs in if versions = [] then 0 else last versions)"

datatype mig_error = NoSuchMigrationException version | MigrationFailed version

definition createMigration :: "'d builders \<Rightarrow> version \<Rightarrow> mig_error + 'd migration" where
  "createMigration bs v =
     (case map_of bs v of Some b \<Rightarrow> Inr b | None \<Rightarrow> Inl (NoSuchMigrationException v))"

definition migrationName :: "'d builders \<Rightarrow> version \<Rightarrow> mig_error + qstring" where
  "migrationName bs v = map_sum id mg_name (createMigration bs v)"

section \<open>The migrations table\<close>

text \<open>\<open>None\<close>: the table does not exist. The version is the primary key, a text column.\<close>

record 'd mig_db =
  md_other :: 'd
  md_versions :: "version list option"

definition showTables :: "('d \<Rightarrow> qstring list) \<Rightarrow> 'd mig_db \<Rightarrow> qstring list" where
  "showTables names d =
     names (md_other d) @ (if md_versions d = None then [] else [''schema_migrations''])"

definition versionText :: "version \<Rightarrow> qstring" where
  "versionText v = decimalNat (unat v)"

text \<open>\<open>ORDER BY version DESC LIMIT 1\<close> orders the texts.\<close>

definition currentVersion :: "'d mig_db \<Rightarrow> version" where
  "currentVersion d = (case md_versions d of
     None \<Rightarrow> 0
   | Some vs \<Rightarrow> if vs = [] then 0 else last (sort_key versionText vs))"

definition createMigrationsTable :: "'d mig_db \<Rightarrow> 'd mig_db" where
  "createMigrationsTable d =
     d\<lparr>md_versions := (case md_versions d of None \<Rightarrow> Some [] | Some vs \<Rightarrow> Some vs)\<rparr>"

definition clearMigrationsTable :: "'d mig_db \<Rightarrow> 'd mig_db" where
  "clearMigrationsTable d = d\<lparr>md_versions := map_option (\<lambda>_. []) (md_versions d)\<rparr>"

definition hasMigration :: "version \<Rightarrow> 'd mig_db \<Rightarrow> bool" where
  "hasMigration v d = (case md_versions d of None \<Rightarrow> False | Some vs \<Rightarrow> v \<in> set vs)"

definition addMigration :: "version \<Rightarrow> 'd mig_db \<Rightarrow> 'd mig_db" where
  "addMigration v d =
     (let d1 = (if md_versions d = None then createMigrationsTable d else d) in
      if hasMigration v d1 then d1
      else d1\<lparr>md_versions := map_option (\<lambda>vs. vs @ [v]) (md_versions d1)\<rparr>)"

definition removeMigration :: "version \<Rightarrow> 'd mig_db \<Rightarrow> 'd mig_db" where
  "removeMigration v d =
     (if md_versions d = None then d
      else d\<lparr>md_versions := map_option (filter (\<lambda>w. w \<noteq> v)) (md_versions d)\<rparr>)"

definition appliedMigrations :: "'d mig_db \<Rightarrow> version list" where
  "appliedMigrations d = (case md_versions d of None \<Rightarrow> [] | Some vs \<Rightarrow> remdups vs)"

definition assumeMigrated :: "version list \<Rightarrow> 'd mig_db \<Rightarrow> 'd mig_db" where
  "assumeMigrated versions d = d\<lparr>md_versions := map_option (\<lambda>vs. vs @ versions) (md_versions d)\<rparr>"

section \<open>Migration listing\<close>

definition pendingMigrations :: "'d builders \<Rightarrow> 'd mig_db \<Rightarrow> version list" where
  "pendingMigrations bs d =
     (let applied = appliedMigrations d in
      foldl (\<lambda>pending v. if v \<notin> set applied then pending @ [v] else pending) [] (availableVersions bs))"

fun firstNotIn :: "version list \<Rightarrow> version list \<Rightarrow> version" where
  "firstNotIn applied [] = 0"
| "firstNotIn applied (v # vs) = (if v \<notin> set applied then v else firstNotIn applied vs)"

definition nextMigration :: "'d builders \<Rightarrow> 'd mig_db \<Rightarrow> version" where
  "nextMigration bs d = firstNotIn (appliedMigrations d) (availableVersions bs)"

definition isCurrentDb :: "'d builders \<Rightarrow> 'd mig_db \<Rightarrow> bool" where
  "isCurrentDb bs d \<longleftrightarrow> nextMigration bs d = 0"

section \<open>Migrating\<close>

datatype direction = dirUp | dirDown

text \<open>The result is the exception, if there is one, and the database as it is left.\<close>

definition runMigration ::
    "'d builders \<Rightarrow> version \<Rightarrow> direction \<Rightarrow> 'd mig_db \<Rightarrow> mig_error option \<times> 'd mig_db" where
  "runMigration bs v dir d = (case createMigration bs v of
     Inl e \<Rightarrow> (Some e, d)
   | Inr m \<Rightarrow> (case dir of
       dirUp \<Rightarrow> (case mg_up m (md_other d) of
           (ok, x) \<Rightarrow> if ok then (None, addMigration v (d\<lparr>md_other := x\<rparr>))
                      else (Some (MigrationFailed v), d\<lparr>md_other := x\<rparr>))
     | dirDown \<Rightarrow> (case mg_down m (md_other d) of
           (ok, x) \<Rightarrow> if ok then (None, removeMigration v (d\<lparr>md_other := x\<rparr>))
                      else (Some (MigrationFailed v), d\<lparr>md_other := x\<rparr>))))"

definition up :: "'d builders \<Rightarrow> 'd mig_db \<Rightarrow> mig_error option \<times> 'd mig_db" where
  "up bs d = (let v = nextMigration bs d in if v = 0 then (None, d) else runMigration bs v dirUp d)"

definition down :: "'d builders \<Rightarrow> 'd mig_db \<Rightarrow> mig_error option \<times> 'd mig_db" where
  "down bs d = (let v = currentVersion d in
     if v = 0 then (None, d) else runMigration bs (currentVersion d) dirDown d)"

fun runAll :: "'d builders \<Rightarrow> version list \<Rightarrow> 'd mig_db \<Rightarrow> mig_error option \<times> 'd mig_db" where
  "runAll bs [] d = (None, d)"
| "runAll bs (v # vs) d = (case runMigration bs v dirUp d of
     (None, d') \<Rightarrow> runAll bs vs d' | (Some e, d') \<Rightarrow> (Some e, d'))"

definition migrate :: "'d builders \<Rightarrow> 'd mig_db \<Rightarrow> mig_error option \<times> 'd mig_db" where
  "migrate bs d = runAll bs (pendingMigrations bs d) d"

section \<open>Schema\<close>

text \<open>The generated schema: the versions it stands for and its steps (one per table or index).
  \<open>loadSchemaUntil n\<close> is interrupted after \<open>n\<close> steps; the insertion of the versions is one query.\<close>

record 'd schema =
  sc_versions :: "version list"
  sc_steps :: "('d \<Rightarrow> 'd) list"

definition loadSteps :: "'d schema \<Rightarrow> ('d mig_db \<Rightarrow> 'd mig_db) list" where
  "loadSteps s = [createMigrationsTable, clearMigrationsTable]
     @ map (\<lambda>f d. d\<lparr>md_other := f (md_other d)\<rparr>) (sc_steps s)
     @ [assumeMigrated (sc_versions s)]"

definition loadSchemaUntil :: "nat \<Rightarrow> 'd schema \<Rightarrow> 'd mig_db \<Rightarrow> 'd mig_db" where
  "loadSchemaUntil n s d = fold (\<lambda>step. step) (take n (loadSteps s)) d"

definition loadSchema :: "'d schema \<Rightarrow> 'd mig_db \<Rightarrow> 'd mig_db" where
  "loadSchema s d = loadSchemaUntil (length (loadSteps s)) s d"

text \<open>\<open>drop\<close> and \<open>create\<close>: an empty database, \<open>none\<close> being the contents without tables.\<close>

definition recreate :: "'d \<Rightarrow> 'd mig_db" where
  "recreate none = \<lparr>md_other = none, md_versions = None\<rparr>"

definition reset :: "'d \<Rightarrow> 'd schema \<Rightarrow> 'd mig_db" where
  "reset none s = loadSchema s (recreate none)"

section \<open>The required action\<close>

datatype mig_action = actionNone | actionMigrate | actionLoad

text \<open>The result is the action with the current version and the number of pending migrations, where the
  code sets them.\<close>

definition getRequiredAction ::
    "('d \<Rightarrow> qstring list) \<Rightarrow> 'd builders \<Rightarrow> 'd mig_db \<Rightarrow> mig_action \<times> (version \<times> nat) option" where
  "getRequiredAction names bs d =
     (let tables = showTables names d;
          migrationsTableExists = (''schema_migrations'' \<in> set tables);
          otherTablesExist = (filter (\<lambda>t. t \<noteq> ''schema_migrations'') tables \<noteq> []) in
      if \<not> otherTablesExist then (actionLoad, None)
      else if \<not> migrationsTableExists then (actionMigrate, Some (0, length (availableVersions bs)))
      else let current = currentVersion d in
        if current = 0 then (actionLoad, None)
        else let latest = factoryLatestVersion bs in
          if current = latest then (actionNone, None)
          else (actionMigrate, Some (current, length (pendingMigrations bs d))))"

section \<open>Facts\<close>

lemma pendingMigrations_eq:
  "pendingMigrations bs d = filter (\<lambda>v. v \<notin> set (appliedMigrations d)) (availableVersions bs)"
proof -
  have "foldl (\<lambda>pending v. if v \<notin> A then pending @ [v] else pending) acc vs = acc @ filter (\<lambda>v. v \<notin> A) vs"
    for A acc and vs :: "version list"
    by (induction vs arbitrary: acc) auto
  then show ?thesis by (simp add: pendingMigrations_def)
qed

lemma firstNotIn_eq:
  "firstNotIn A vs = (case filter (\<lambda>v. v \<notin> set A) vs of [] \<Rightarrow> 0 | v # _ \<Rightarrow> v)"
  by (induction vs) auto

lemma nextMigration_pending:
  "nextMigration bs d = (case pendingMigrations bs d of [] \<Rightarrow> 0 | v # _ \<Rightarrow> v)"
  by (simp add: nextMigration_def firstNotIn_eq pendingMigrations_eq)

lemma registration_keys:
  "sorted (map fst bs) \<Longrightarrow> distinct (map fst bs) \<Longrightarrow>
    sorted (map fst (registration v b bs)) \<and> distinct (map fst (registration v b bs))
    \<and> set (map fst (registration v b bs)) = insert v (set (map fst bs))"
  by (induction v b bs rule: registration.induct) (auto simp: less_imp_le)

text \<open>A factory that was filled by registrations, with no version 0.\<close>

definition factory_ok :: "'d builders \<Rightarrow> bool" where
  "factory_ok bs \<longleftrightarrow> sorted (map fst bs) \<and> distinct (map fst bs) \<and> 0 \<notin> set (map fst bs)"

lemma factory_ok_registration:
  assumes "factory_ok bs" "v \<noteq> 0"
  shows "factory_ok (registration v b bs)"
  using registration_keys [of bs v b] assms by (simp add: factory_ok_def)

lemma isCurrentDb_iff:
  assumes "factory_ok bs"
  shows "isCurrentDb bs d \<longleftrightarrow> pendingMigrations bs d = []"
proof -
  have "0 \<notin> set (pendingMigrations bs d)"
    using assms by (auto simp: pendingMigrations_eq availableVersions_def factory_ok_def)
  then show ?thesis by (auto simp: isCurrentDb_def nextMigration_pending split: list.split)
qed

subsection \<open>The order of the version texts\<close>

lemma snoc_less:
  "length xs = length ys \<Longrightarrow> (xs @ [c] < ys @ [d]) = (xs < ys \<or> xs = ys \<and> c < (d :: char))"
  by (induction xs ys rule: list_induct2) auto

lemma digitChar_less: "m < 10 \<Longrightarrow> n < 10 \<Longrightarrow> digitChar m < digitChar n \<longleftrightarrow> m < n"
  by (simp add: digitChar_def less_char_def)

lemma decimalNat_inj: "decimalNat a = decimalNat b \<longleftrightarrow> a = b"
  by (metis digitsVal_decimalNat)

lemma decimalNat_single: "length (decimalNat n) = 1 \<longleftrightarrow> n < 10"
proof (cases "n < 10")
  case False
  have "length (decimalNat m) > 0" for m by (cases "m < 10") (simp_all add: decimalNat.simps [of m])
  then show ?thesis using False by (simp add: decimalNat.simps [of n])
qed (simp add: decimalNat.simps [of n])

lemma decimalNat_less:
  "length (decimalNat a) = length (decimalNat b) \<Longrightarrow> decimalNat a < decimalNat b \<longleftrightarrow> a < b"
proof (induction a arbitrary: b rule: decimalNat.induct)
  case (1 a)
  show ?case
  proof (cases "a < 10")
    case True
    then have "b < 10" using 1(2) decimalNat_single [of a] decimalNat_single [of b] by simp
    with True show ?thesis
      by (simp add: decimalNat.simps [of a] decimalNat.simps [of b] digitChar_less)
  next
    case False
    then have b: "\<not> b < 10" using 1(2) decimalNat_single [of a] decimalNat_single [of b] by simp
    have len: "length (decimalNat (a div 10)) = length (decimalNat (b div 10))"
      using 1(2) False b by (simp add: decimalNat.simps [of a] decimalNat.simps [of b])
    have "decimalNat a < decimalNat b \<longleftrightarrow> decimalNat (a div 10) < decimalNat (b div 10)
        \<or> decimalNat (a div 10) = decimalNat (b div 10) \<and> digitChar (a mod 10) < digitChar (b mod 10)"
      using False b snoc_less [OF len]
      by (simp add: decimalNat.simps [of a] decimalNat.simps [of b])
    also have "\<dots> \<longleftrightarrow> a div 10 < b div 10 \<or> a div 10 = b div 10 \<and> a mod 10 < b mod 10"
      using 1(1) [OF False len] by (simp add: decimalNat_inj digitChar_less)
    also have "\<dots> \<longleftrightarrow> a < b"
      using div_mult_mod_eq [of a 10] div_mult_mod_eq [of b 10]
        mod_less_divisor [of 10 a] mod_less_divisor [of 10 b] by linarith
    finally show ?thesis .
  qed
qed

text \<open>The versions are time stamps of 14 digits.\<close>

definition timestamps :: "version set \<Rightarrow> bool" where
  "timestamps V \<longleftrightarrow> (\<forall>v \<in> V. length (versionText v) = 14)"

lemma versionText_le:
  assumes "timestamps V" "v \<in> V" "w \<in> V"
  shows "versionText v \<le> versionText w \<longleftrightarrow> v \<le> w"
proof -
  have "length (decimalNat (unat w)) = length (decimalNat (unat v))"
    using assms by (simp add: timestamps_def versionText_def)
  from decimalNat_less [OF this] show ?thesis
    by (simp add: versionText_def not_less [symmetric] word_less_nat_alt)
qed

lemma sorted_le_last: "sorted xs \<Longrightarrow> x \<in> set xs \<Longrightarrow> x \<le> (last xs :: 'a::linorder)"
  by (induction xs) auto

text \<open>The current version is the greatest one in the table.\<close>

lemma currentVersion_greatest:
  assumes "md_versions d = Some vs" "vs \<noteq> []" "timestamps (set vs)"
  shows "currentVersion d \<in> set vs \<and> (\<forall>v \<in> set vs. v \<le> currentVersion d)"
proof -
  let ?s = "sort_key versionText vs"
  have ne: "?s \<noteq> []" using assms(2) by (metis set_empty set_sort)
  have c: "currentVersion d = last ?s" using assms by (simp add: currentVersion_def)
  have mem: "last ?s \<in> set vs" using last_in_set [OF ne] by simp
  have "versionText v \<le> versionText (last ?s)" if "v \<in> set vs" for v
    using sorted_le_last [of "map versionText ?s" "versionText v"] that ne by (simp add: last_map)
  then show ?thesis using c mem versionText_le [OF assms(3)] by auto
qed

lemma latest_greatest:
  assumes "factory_ok bs" "bs \<noteq> []"
  shows "factoryLatestVersion bs \<in> set (availableVersions bs)
    \<and> (\<forall>v \<in> set (availableVersions bs). v \<le> factoryLatestVersion bs)"
proof -
  let ?v = "availableVersions bs"
  have ne: "?v \<noteq> []" using assms(2) by (simp add: availableVersions_def)
  have "sorted ?v" using assms(1) by (simp add: factory_ok_def availableVersions_def)
  then have "\<forall>v \<in> set ?v. v \<le> last ?v" by (simp add: sorted_le_last)
  with ne show ?thesis by (simp add: factoryLatestVersion_def Let_def)
qed

lemma currentVersion_latest:
  assumes "factory_ok bs" "bs \<noteq> []" "md_versions d = Some vs" "timestamps (set vs)"
    and "set vs = set (availableVersions bs)"
  shows "currentVersion d = factoryLatestVersion bs \<and> currentVersion d \<noteq> 0"
proof -
  note l = latest_greatest [OF assms(1,2)]
  have "vs \<noteq> []" using assms(2,5) l by auto
  note c = currentVersion_greatest [OF assms(3) this assms(4)]
  have eq: "currentVersion d = factoryLatestVersion bs" using c l assms(5) by (intro order.antisym) auto
  moreover have "0 \<notin> set (availableVersions bs)" using assms(1) by (simp add: factory_ok_def availableVersions_def)
  ultimately show ?thesis using l by metis
qed

section \<open>Loading the schema\<close>

lemma load_schema_steps:
  "fold (\<lambda>step. step) (map (\<lambda>f d. d\<lparr>md_other := f (md_other d)\<rparr>) fs) d
    = d\<lparr>md_other := fold (\<lambda>f. f) fs (md_other d)\<rparr>"
  by (induction fs arbitrary: d) simp_all

lemma loadSchemaUntil_simps:
  "loadSchemaUntil 0 s d = d"
  "loadSchemaUntil (Suc 0) s d = createMigrationsTable d"
  "n \<le> length (sc_steps s) \<Longrightarrow> loadSchemaUntil (Suc (Suc n)) s d
     = \<lparr>md_other = fold (\<lambda>f. f) (take n (sc_steps s)) (md_other d), md_versions = Some [], \<dots> = mig_db.more d\<rparr>"
  by (simp_all add: loadSchemaUntil_def loadSteps_def take_map load_schema_steps
      createMigrationsTable_def clearMigrationsTable_def split: option.split)

lemma loadSchema_eq:
  "loadSchema s d = \<lparr>md_other = fold (\<lambda>f. f) (sc_steps s) (md_other d),
     md_versions = Some (sc_versions s), \<dots> = mig_db.more d\<rparr>"
  by (simp add: loadSchema_def loadSchemaUntil_def loadSteps_def load_schema_steps
      createMigrationsTable_def clearMigrationsTable_def assumeMigrated_def split: option.split)

lemma required_load:
  "fst (getRequiredAction names bs d) = actionLoad
    \<longleftrightarrow> filter (\<lambda>t. t \<noteq> ''schema_migrations'') (names (md_other d)) = []
       \<or> ''schema_migrations'' \<in> set (showTables names d) \<and> currentVersion d = 0"
  by (auto simp: getRequiredAction_def showTables_def Let_def)


text \<open>Two registered migrations and a schema, for the witnesses; the other tables are the list of their
  names.\<close>

definition mig0 :: "qstring list migration" where
  "mig0 = \<lparr>mg_name = ''initial'', mg_up = (\<lambda>d. (True, ''flights'' # d)), mg_down = (\<lambda>d. (True, tl d))\<rparr>"

definition builders0 :: "qstring list builders" where
  "builders0 = registration 20100214140000 mig0 (registration 20100215000000 mig0 [])"

definition schema0 :: "qstring list schema" where
  "schema0 = \<lparr>sc_versions = [20100214140000, 20100215000000], sc_steps = [\<lambda>d. ''flights'' # d]\<rparr>"

lemma builders0_ok: "factory_ok builders0" "builders0 \<noteq> []"
  "availableVersions builders0 = [20100214140000, 20100215000000]"
  by (simp_all add: builders0_def factory_ok_def availableVersions_def)

lemma timestamps0: "timestamps {20100214140000, 20100215000000}"
proof -
  have "length (versionText 20100214140000) = 14" "length (versionText 20100215000000) = 14"
    by (simp_all add: versionText_def decimalNat.simps)
  then show ?thesis by (simp add: timestamps_def)
qed


section \<open>Running the migrations\<close>

lemma addMigration_set:
  "md_other (addMigration v d) = md_other d"
  "set (appliedMigrations (addMigration v d)) = insert v (set (appliedMigrations d))"
  by (auto simp: addMigration_def Let_def appliedMigrations_def hasMigration_def
      createMigrationsTable_def split: option.splits)

lemma runMigration_up:
  assumes "runMigration bs v dirUp d = (e, d')"
  shows "set (appliedMigrations d') = (if e = None then insert v (set (appliedMigrations d)) else set (appliedMigrations d))"
  using assms
  by (auto simp: runMigration_def addMigration_set split: sum.splits prod.splits if_splits)
    (auto simp: appliedMigrations_def)

text \<open>The versions that are applied when the run stops at an exception are those before it.\<close>

lemma runAll_applied:
  assumes "runAll bs vs d = (e, d')"
  shows "\<exists>us ws. vs = us @ ws \<and> set (appliedMigrations d') = set (appliedMigrations d) \<union> set us
    \<and> (e = None \<longleftrightarrow> ws = [])"
  using assms
proof (induction vs arbitrary: d)
  case (Cons v vs)
  obtain e1 d1 where r: "runMigration bs v dirUp d = (e1, d1)" by fastforce
  show ?case
  proof (cases e1)
    case None
    with Cons.prems r have "runAll bs vs d1 = (e, d')" by simp
    from Cons.IH [OF this] obtain us ws where "vs = us @ ws"
      "set (appliedMigrations d') = set (appliedMigrations d1) \<union> set us" "e = None \<longleftrightarrow> ws = []" by blast
    with runMigration_up [OF r] None show ?thesis
      by (intro exI [of _ "v # us"] exI [of _ ws]) auto
  next
    case (Some x)
    with Cons.prems r have "e = Some x" "d' = d1" by auto
    with runMigration_up [OF r] Some show ?thesis by (intro exI [of _ "[]"] exI [of _ "v # vs"]) auto
  qed
qed simp

text \<open>C33: running the migrations is resumable: whether it ends normally or with an exception, the migrations
  recorded as applied are the old ones and a prefix of the pending ones, and what is pending afterwards
  is exactly the rest, in order; if it ends normally nothing is pending and the database is current.\<close>

theorem migrate_resumable:
  assumes "factory_ok bs" "migrate bs d = (e, d')"
  shows "\<exists>us. pendingMigrations bs d = us @ pendingMigrations bs d'
    \<and> set (appliedMigrations d') = set (appliedMigrations d) \<union> set us
    \<and> (e = None \<longleftrightarrow> isCurrentDb bs d')"
proof -
  obtain us ws where p: "pendingMigrations bs d = us @ ws"
    and a: "set (appliedMigrations d') = set (appliedMigrations d) \<union> set us" and e: "e = None \<longleftrightarrow> ws = []"
    using runAll_applied [OF assms(2) [unfolded migrate_def]] by blast
  have d: "distinct (pendingMigrations bs d)"
    using assms(1) by (simp add: pendingMigrations_eq factory_ok_def availableVersions_def)
  have "pendingMigrations bs d' = filter (\<lambda>v. v \<notin> set us) (pendingMigrations bs d)"
    unfolding pendingMigrations_eq a by (simp add: conj_commute)
  also have "\<dots> = ws" using d by (auto simp: p filter_empty_conv intro!: filter_True)
  finally have "pendingMigrations bs d' = ws" .
  with p a e assms(1) show ?thesis by (auto simp: isCurrentDb_iff)
qed

theorem migrate_resumable_witness:
  "isCurrentDb builders0 (snd (migrate builders0 (recreate [''users''])))"
proof -
  let ?d = "recreate [''users'']"
  have "fst (migrate builders0 ?d) = None"
    by (simp add: migrate_def pendingMigrations_eq availableVersions_def appliedMigrations_def
        recreate_def runMigration_def createMigration_def builders0_def mig0_def)
  then have "migrate builders0 ?d = (None, snd (migrate builders0 ?d))" by (metis prod.collapse)
  from migrate_resumable [OF builders0_ok(1) this] show ?thesis by auto
qed

section \<open>Gaps and newer databases\<close>

text \<open>The required action is decided by the greatest applied version only. A database that has the latest
  migration but misses an older one needs no action although \<open>isCurrent\<close>, which was written to work with
  gaps, says that it is not current; and a database of a newer program (all migrations applied and
  a greater version) is to be migrated although nothing is pending.\<close>

theorem getRequiredAction_ignores_gaps:
  assumes "factory_ok bs" "bs \<noteq> []" "filter (\<lambda>t. t \<noteq> ''schema_migrations'') (names x) \<noteq> []"
    and "v \<in> set (availableVersions bs)" "v \<noteq> factoryLatestVersion bs"
    and "timestamps (insert w (set (availableVersions bs)))" "factoryLatestVersion bs < w"
  shows "(let d = \<lparr>md_other = x, md_versions = Some (filter (\<lambda>u. u \<noteq> v) (availableVersions bs))\<rparr> in
      getRequiredAction names bs d = (actionNone, None) \<and> \<not> isCurrentDb bs d)
    \<and> (let d = \<lparr>md_other = x, md_versions = Some (availableVersions bs @ [w])\<rparr> in
      getRequiredAction names bs d = (actionMigrate, Some (w, 0)) \<and> isCurrentDb bs d)"
proof -
  note l = latest_greatest [OF assms(1,2)]
  have nz: "0 \<notin> set (availableVersions bs)" using assms(1) by (simp add: factory_ok_def availableVersions_def)
  let ?gap = "\<lparr>md_other = x, md_versions = Some (filter (\<lambda>u. u \<noteq> v) (availableVersions bs))\<rparr>"
  let ?new = "\<lparr>md_other = x, md_versions = Some (availableVersions bs @ [w])\<rparr>"
  have mem: "factoryLatestVersion bs \<in> set (filter (\<lambda>u. u \<noteq> v) (availableVersions bs))"
    using l assms(5) by auto
  have t: "timestamps (set (filter (\<lambda>u. u \<noteq> v) (availableVersions bs)))"
    using assms(6) by (auto simp: timestamps_def)
  have "filter (\<lambda>u. u \<noteq> v) (availableVersions bs) \<noteq> []" using mem by (metis empty_iff list.set(1))
  from currentVersion_greatest [OF _ this t, of ?gap]
  have cg: "currentVersion ?gap = factoryLatestVersion bs"
    using l mem by (intro order.antisym) auto
  have ne: "availableVersions bs @ [w] \<noteq> []" by simp
  have t': "timestamps (set (availableVersions bs @ [w]))" using assms(6) by (auto simp: timestamps_def)
  from currentVersion_greatest [OF _ ne t', of ?new]
  have cn: "currentVersion ?new = w"
    using l assms(7) by (intro order.antisym) (auto intro: order.strict_implies_order order.trans)
  have "w \<noteq> 0" using assms(7) by auto
  have "getRequiredAction names bs ?gap = (actionNone, None)" "\<not> isCurrentDb bs ?gap"
    using assms(1,3,4) cg l nz
    by (auto simp: getRequiredAction_def Let_def showTables_def isCurrentDb_iff pendingMigrations_eq
        appliedMigrations_def filter_empty_conv)
  moreover have "pendingMigrations bs ?new = []"
    by (simp add: pendingMigrations_eq appliedMigrations_def filter_empty_conv)
  then have "getRequiredAction names bs ?new = (actionMigrate, Some (w, 0))" "isCurrentDb bs ?new"
    using assms(1,3,7) cn \<open>w \<noteq> 0\<close>
    by (auto simp: getRequiredAction_def Let_def showTables_def isCurrentDb_iff)
  ultimately show ?thesis by (simp add: Let_def)
qed

theorem getRequiredAction_ignores_gaps_witness:
  "getRequiredAction id builders0
     \<lparr>md_other = [''flights''], md_versions = Some (filter (\<lambda>u. u \<noteq> 20100214140000) [20100214140000, 20100215000000])\<rparr>
   = (actionNone, None)"
proof -
  have l: "factoryLatestVersion builders0 = 20100215000000"
    by (simp add: factoryLatestVersion_def builders0_ok)
  have "timestamps (insert 20250126193900 (set (availableVersions builders0)))"
  proof -
    have "length (versionText 20250126193900) = 14" by (simp add: versionText_def decimalNat.simps)
    with timestamps0 show ?thesis by (simp add: builders0_ok timestamps_def)
  qed
  then show ?thesis
    using getRequiredAction_ignores_gaps [OF builders0_ok(1,2), of id "[''flights'']" 20100214140000 20250126193900]
    by (simp add: builders0_ok l Let_def)
qed

end
