(* ===== verification/Sk_Flarm.thy ===== *)
theory Sk_Flarm
  imports Sk_Plane
begin

text \<open>
  Detecting departures and landings from the data of a Flarm receiver,
  \<^verbatim>\<open>src/src/flarm/FlarmRecord.cpp\<close>: one record per plane in range, with its plausibility
  check, the situation and the state machine with its two timers. The values of a PFLAA sentence are
  integers (metres and metres per second), so that the doubles of the record are modelled as
  integers; \<open>rng\<close> (the range) is \<open>Settings::flarmRange\<close>.
\<close>

section \<open>Records\<close>

datatype flarm_state =
    stateUnknown | stateOnGround | stateStarting | stateFlying | stateFlyingFar | stateLanding

datatype situation = groundSituation | lowSituation | flyingSituation

datatype flarm_signal =
    departureDetected qstring | landingDetected qstring | touchAndGoDetected qstring | removeRecord qstring

text \<open>What the record reads of a PFLAA sentence. The climb rate only goes through.\<close>

record pflaa =
  ps_relativeNorth :: int
  ps_relativeEast :: int
  ps_relativeVertical :: int
  ps_flarmId :: qstring
  ps_groundSpeed :: int

record flarmRecord =
  fr_flarmId :: qstring
  fr_relativePosition :: "int \<times> int"
  fr_previousRelativePositions :: "(int \<times> int) list"
  fr_relativeAltitude :: int
  fr_lastRelativeAltitude :: int
  fr_groundSpeed :: int
  fr_lastGroundSpeed :: int
  fr_state :: flarm_state
  fr_registration :: qstring
  fr_category :: category
  fr_frequency :: qstring
  fr_keepaliveTimer :: bool
  fr_landingTimer :: bool

definition newFlarmRecord :: "qstring \<Rightarrow> flarmRecord" where
  "newFlarmRecord i =
     \<lparr>fr_flarmId = i, fr_relativePosition = (0, 0), fr_previousRelativePositions = [],
      fr_relativeAltitude = 0, fr_lastRelativeAltitude = 0, fr_groundSpeed = 0, fr_lastGroundSpeed = 0,
      fr_state = stateUnknown, fr_registration = [], fr_category = categoryNone, fr_frequency = [],
      fr_keepaliveTimer = True, fr_landingTimer = False\<rparr>"

text \<open>1 km/h is 1000/3600 m/s; the comparisons are multiplied by 3600.\<close>

definition isPlausible :: "flarmRecord \<Rightarrow> bool" where
  "isPlausible r =
     (if fr_groundSpeed r < 0 then False
      else if 3600 * fr_groundSpeed r > 400 * 1000 then False
      else if \<bar>fr_relativeAltitude r - fr_lastRelativeAltitude r\<bar> > 100 then False
      else if 3600 * \<bar>fr_groundSpeed r - fr_lastGroundSpeed r\<bar> > 100 * 1000 then False
      else True)"

definition getSituation :: "flarmRecord \<Rightarrow> situation" where
  "getSituation r =
     (if fr_groundSpeed r < 2 then groundSituation
      else if fr_groundSpeed r < 10
        then (if fr_relativeAltitude r < 40 then groundSituation else flyingSituation)
      else if fr_groundSpeed r < 40
        then (if fr_relativeAltitude r < 40 then lowSituation else flyingSituation)
      else flyingSituation)"

fun stateText :: "flarm_state \<Rightarrow> qstring" where
  "stateText stateUnknown = ''Unknown''"
| "stateText stateOnGround = ''On ground''"
| "stateText stateStarting = ''Departing''"
| "stateText stateLanding = ''Approach''"
| "stateText stateFlying = ''Flying near airfield''"
| "stateText stateFlyingFar = ''Out of range''"

text \<open>The distance is compared by its square; the configured range is positive there.\<close>

definition generalFilterMatch :: "int \<Rightarrow> flarmRecord \<Rightarrow> bool" where
  "generalFilterMatch rng r =
     (if rng > 0 then
        (let x = fst (fr_relativePosition r); y = snd (fr_relativePosition r) in
         if x * x + y * y > rng * rng then False else True)
      else True)"

definition emitIf :: "int \<Rightarrow> flarm_signal \<Rightarrow> flarmRecord \<Rightarrow> flarmRecord \<times> flarm_signal list" where
  "emitIf rng s r = (r, if generalFilterMatch rng r then [s] else [])"

definition setState :: "flarm_state \<Rightarrow> flarmRecord \<Rightarrow> flarmRecord" where
  "setState s r = r\<lparr>fr_state := s\<rparr>"

definition landed :: "int \<Rightarrow> flarmRecord \<Rightarrow> flarmRecord \<times> flarm_signal list" where
  "landed rng r =
     (if fr_category r = categoryMotorglider then (r\<lparr>fr_landingTimer := True\<rparr>, [])
      else emitIf rng (landingDetected (fr_flarmId r)) r)"

definition touchedAndGone :: "int \<Rightarrow> flarmRecord \<Rightarrow> flarmRecord \<times> flarm_signal list" where
  "touchedAndGone rng r =
     (if fr_category r = categoryMotorglider then emitIf rng (touchAndGoDetected (fr_flarmId r)) r
      else (r, []))"

definition stateTransition :: "int \<Rightarrow> flarmRecord \<Rightarrow> flarmRecord \<times> flarm_signal list" where
  "stateTransition rng r = (case fr_state r of
     stateUnknown \<Rightarrow> (case getSituation r of
         groundSituation \<Rightarrow> (setState stateOnGround r, [])
       | flyingSituation \<Rightarrow> (setState stateFlying r, [])
       | lowSituation \<Rightarrow> (setState stateLanding r, []))
   | stateOnGround \<Rightarrow> (case getSituation r of
         flyingSituation \<Rightarrow>
           (if fr_landingTimer r
            then touchedAndGone rng ((setState stateFlying r)\<lparr>fr_landingTimer := False\<rparr>)
            else emitIf rng (departureDetected (fr_flarmId r)) (setState stateFlying r))
       | lowSituation \<Rightarrow>
           (if fr_landingTimer r
            then touchedAndGone rng ((setState stateStarting r)\<lparr>fr_landingTimer := False\<rparr>)
            else emitIf rng (departureDetected (fr_flarmId r)) (setState stateStarting r))
       | groundSituation \<Rightarrow> (r, []))
   | stateLanding \<Rightarrow> (case getSituation r of
         groundSituation \<Rightarrow> landed rng (setState stateOnGround r)
       | flyingSituation \<Rightarrow> touchedAndGone rng (setState stateFlying r)
       | lowSituation \<Rightarrow> (r, []))
   | stateFlying \<Rightarrow> (case getSituation r of
         groundSituation \<Rightarrow> landed rng (setState stateOnGround r)
       | lowSituation \<Rightarrow> (setState stateLanding r, [])
       | flyingSituation \<Rightarrow> (r, []))
   | stateFlyingFar \<Rightarrow> (case getSituation r of
         groundSituation \<Rightarrow> landed rng (setState stateOnGround r)
       | lowSituation \<Rightarrow> (setState stateLanding r, [])
       | flyingSituation \<Rightarrow> (setState stateFlying r, []))
   | stateStarting \<Rightarrow> (case getSituation r of
         groundSituation \<Rightarrow>
           emitIf rng (landingDetected (fr_flarmId r)) (setState stateOnGround r)
       | flyingSituation \<Rightarrow> (setState stateFlying r, [])
       | lowSituation \<Rightarrow> (r, [])))"

text \<open>\<open>removeLast\<close> while the index is below the current size minus 20.\<close>

function truncatePositions :: "int \<Rightarrow> 'a list \<Rightarrow> 'a list" where
  "truncatePositions i xs =
     (if i < int (length xs) - 20 then truncatePositions (i + 1) (butlast xs) else xs)"
  by pat_completeness auto
termination
  by (relation "measure (\<lambda>(i, xs). nat (int (length xs) - i))") auto

declare truncatePositions.simps [simp del]

definition storeSentence :: "pflaa \<Rightarrow> flarmRecord \<Rightarrow> flarmRecord" where
  "storeSentence s r =
     (let position = (ps_relativeEast s, ps_relativeNorth s) in
      r\<lparr>fr_keepaliveTimer := True,
        fr_lastRelativeAltitude := fr_relativeAltitude r,
        fr_lastGroundSpeed := fr_groundSpeed r,
        fr_relativeAltitude := ps_relativeVertical s,
        fr_groundSpeed := ps_groundSpeed s,
        fr_relativePosition := position,
        fr_previousRelativePositions :=
          truncatePositions 0 (position # fr_previousRelativePositions r)\<rparr>)"

definition processPflaaSentence :: "int \<Rightarrow> pflaa \<Rightarrow> flarmRecord \<Rightarrow> flarmRecord \<times> flarm_signal list" where
  "processPflaaSentence rng s r =
     (let r1 = storeSentence s r in
      if isPlausible r1 then stateTransition rng r1 else (r1, []))"

definition keepaliveTimeout :: "int \<Rightarrow> flarmRecord \<Rightarrow> flarmRecord \<times> flarm_signal list" where
  "keepaliveTimeout rng r =
     (let r1 = r\<lparr>fr_keepaliveTimer := False\<rparr>;
          (r2, out) = (case fr_state r1 of
              stateLanding \<Rightarrow>
                emitIf rng (landingDetected (fr_flarmId r1)) (setState stateOnGround r1)
            | stateFlying \<Rightarrow> (setState stateFlyingFar r1, [])
            | _ \<Rightarrow> (r1, []))
      in (r2, out @ [removeRecord (fr_flarmId r2)]))"

text \<open>The second component of the result is \<open>None\<close> for the message about an invalid state.\<close>

definition landingTimeout :: "int \<Rightarrow> flarmRecord \<Rightarrow> flarmRecord \<times> flarm_signal list option" where
  "landingTimeout rng r =
     (let r1 = r\<lparr>fr_landingTimer := False\<rparr> in
      case fr_state r1 of
        stateOnGround \<Rightarrow> map_prod id Some (emitIf rng (landingDetected (fr_flarmId r1)) r1)
      | _ \<Rightarrow> (r1, None))"

section \<open>The table of transitions\<close>

text \<open>The table in the comment of \<open>stateTransition\<close>: the next state (\<open>None\<close>: no change) and what is told.
  \<open>[landing]\<close> and \<open>[touch and go]\<close> are explained above it.\<close>

datatype table_action = tellNothing | tellDeparture | tellLanding | bracketLanding | bracketTouchAndGo

fun transition_table :: "flarm_state \<Rightarrow> situation \<Rightarrow> bool \<Rightarrow> flarm_state option \<times> table_action" where
  "transition_table stateUnknown groundSituation timer = (Some stateOnGround, tellNothing)"
| "transition_table stateUnknown lowSituation timer = (Some stateLanding, tellNothing)"
| "transition_table stateUnknown flyingSituation timer = (Some stateFlying, tellNothing)"
| "transition_table stateOnGround groundSituation timer = (None, tellNothing)"
| "transition_table stateOnGround lowSituation timer =
     (Some stateStarting, if timer then bracketTouchAndGo else tellDeparture)"
| "transition_table stateOnGround flyingSituation timer =
     (Some stateFlying, if timer then bracketTouchAndGo else tellDeparture)"
| "transition_table stateStarting groundSituation timer = (Some stateOnGround, tellLanding)"
| "transition_table stateStarting lowSituation timer = (None, tellNothing)"
| "transition_table stateStarting flyingSituation timer = (Some stateFlying, tellNothing)"
| "transition_table stateFlying groundSituation timer = (Some stateOnGround, bracketLanding)"
| "transition_table stateFlying lowSituation timer = (Some stateLanding, tellNothing)"
| "transition_table stateFlying flyingSituation timer = (None, tellNothing)"
| "transition_table stateFlyingFar groundSituation timer = (Some stateOnGround, bracketLanding)"
| "transition_table stateFlyingFar lowSituation timer = (Some stateLanding, tellNothing)"
| "transition_table stateFlyingFar flyingSituation timer = (Some stateFlying, tellNothing)"
| "transition_table stateLanding groundSituation timer = (Some stateOnGround, bracketLanding)"
| "transition_table stateLanding lowSituation timer = (None, tellNothing)"
| "transition_table stateLanding flyingSituation timer = (Some stateFlying, bracketTouchAndGo)"

definition table_signals :: "table_action \<Rightarrow> category \<Rightarrow> qstring \<Rightarrow> flarm_signal list" where
  "table_signals a cat i = (case a of
     tellNothing \<Rightarrow> []
   | tellDeparture \<Rightarrow> [departureDetected i]
   | tellLanding \<Rightarrow> [landingDetected i]
   | bracketLanding \<Rightarrow> if cat = categoryMotorglider then [] else [landingDetected i]
   | bracketTouchAndGo \<Rightarrow> if cat = categoryMotorglider then [touchAndGoDetected i] else [])"

definition table_timer :: "table_action \<Rightarrow> category \<Rightarrow> bool \<Rightarrow> flarm_state option \<Rightarrow> flarm_state \<Rightarrow> bool" where
  "table_timer a cat timer new old =
     (if a = bracketLanding \<and> cat = categoryMotorglider then True
      else if old = stateOnGround \<and> new \<noteq> None then False else timer)"

lemmas transition_defs = stateTransition_def emitIf_def setState_def landed_def touchedAndGone_def

text \<open>The state machine implements its table: for every state, situation and timer state the next state,
  the landing timer and the signals are those of the table (the signals if the plane is in the
  configured range); nothing else of the record changes.\<close>

theorem stateTransition_table:
  "stateTransition rng r =
     (let (new, action) = transition_table (fr_state r) (getSituation r) (fr_landingTimer r) in
      (r\<lparr>fr_state := (case new of Some s \<Rightarrow> s | None \<Rightarrow> fr_state r),
         fr_landingTimer := table_timer action (fr_category r) (fr_landingTimer r) new (fr_state r)\<rparr>,
       if generalFilterMatch rng r then table_signals action (fr_category r) (fr_flarmId r) else []))"
  by (cases "fr_state r"; cases "getSituation r")
    (simp_all add: transition_defs table_signals_def table_timer_def generalFilterMatch_def Let_def)

section \<open>Histories\<close>

text \<open>What can happen to a record. A timer only fires while it is active.\<close>

datatype flarm_input =
    Sentence pflaa | KeepaliveFires | LandingFires
  | SetRegistration qstring | SetCategory category | SetFrequency qstring

definition flarm_step :: "int \<Rightarrow> flarm_input \<Rightarrow> flarmRecord \<Rightarrow> flarmRecord \<times> flarm_signal list" where
  "flarm_step rng a r = (case a of
     Sentence s \<Rightarrow> processPflaaSentence rng s r
   | KeepaliveFires \<Rightarrow> if fr_keepaliveTimer r then keepaliveTimeout rng r else (r, [])
   | LandingFires \<Rightarrow> if fr_landingTimer r
       then (case landingTimeout rng r of (r', out) \<Rightarrow> (r', case out of Some ss \<Rightarrow> ss | None \<Rightarrow> []))
       else (r, [])
   | SetRegistration x \<Rightarrow> (r\<lparr>fr_registration := x\<rparr>, [])
   | SetCategory c \<Rightarrow> (r\<lparr>fr_category := c\<rparr>, [])
   | SetFrequency x \<Rightarrow> (r\<lparr>fr_frequency := x\<rparr>, []))"

fun flarm_run :: "int \<Rightarrow> flarm_input list \<Rightarrow> flarmRecord \<Rightarrow> flarmRecord \<times> flarm_signal list" where
  "flarm_run rng [] r = (r, [])"
| "flarm_run rng (a # as) r =
     (case flarm_step rng a r of (r1, out1) \<Rightarrow>
      case flarm_run rng as r1 of (r2, out2) \<Rightarrow> (r2, out1 @ out2))"

text \<open>Departures and landings alternate: \<open>last\<close> is whether the last of them was a departure. A touch and go
  only happens to a plane that has not landed.\<close>

fun alternates :: "bool option \<Rightarrow> flarm_signal list \<Rightarrow> bool" where
  "alternates prev [] = True"
| "alternates prev (departureDetected i # ss) = (prev \<noteq> Some True \<and> alternates (Some True) ss)"
| "alternates prev (landingDetected i # ss) = (prev \<noteq> Some False \<and> alternates (Some False) ss)"
| "alternates prev (touchAndGoDetected i # ss) = (prev \<noteq> Some False \<and> alternates prev ss)"
| "alternates prev (removeRecord i # ss) = alternates prev ss"

fun last_move :: "bool option \<Rightarrow> flarm_signal list \<Rightarrow> bool option" where
  "last_move prev [] = prev"
| "last_move prev (departureDetected i # ss) = last_move (Some True) ss"
| "last_move prev (landingDetected i # ss) = last_move (Some False) ss"
| "last_move prev (touchAndGoDetected i # ss) = last_move prev ss"
| "last_move prev (removeRecord i # ss) = last_move prev ss"

lemma alternates_append:
  "alternates prev (ss @ ts) \<longleftrightarrow> alternates prev ss \<and> alternates (last_move prev ss) ts"
  "last_move prev (ss @ ts) = last_move (last_move prev ss) ts"
  by (induction prev ss rule: alternates.induct) auto

lemma truncatePositions_le:
  "length xs \<le> 21 \<Longrightarrow> truncatePositions 0 xs = take 20 xs"
proof -
  assume "length xs \<le> 21"
  then consider "length xs \<le> 20" | "length xs = 21" by linarith
  then show ?thesis
  proof cases
    case 1
    then show ?thesis by (simp add: truncatePositions.simps [of 0])
  next
    case 2
    then show ?thesis
      by (simp add: truncatePositions.simps [of 0] truncatePositions.simps [of 1] butlast_conv_take)
  qed
qed

definition flarm_inv :: "flarmRecord \<Rightarrow> bool" where
  "flarm_inv r \<longleftrightarrow> (fr_landingTimer r \<longrightarrow> fr_state r = stateOnGround)
     \<and> length (fr_previousRelativePositions r) \<le> 20
     \<and> (fr_previousRelativePositions r \<noteq> [] \<longrightarrow> hd (fr_previousRelativePositions r) = fr_relativePosition r)"

definition move_inv :: "bool option \<Rightarrow> flarmRecord \<Rightarrow> bool" where
  "move_inv prev r \<longleftrightarrow> (fr_state r = stateUnknown \<longrightarrow> prev = None) \<and> (fr_landingTimer r \<longrightarrow> fr_state r = stateOnGround)
     \<and> (fr_state r = stateOnGround \<and> \<not> fr_landingTimer r \<longrightarrow> prev \<noteq> Some True)
     \<and> (fr_state r \<noteq> stateOnGround \<or> fr_landingTimer r \<longrightarrow> prev \<noteq> Some False)"

lemma stateTransition_inv:
  assumes "flarm_inv r"
  shows "flarm_inv (fst (stateTransition rng r))"
  using assms
  by (cases "fr_state r"; cases "getSituation r")
    (simp_all add: transition_defs flarm_inv_def)

lemma stateTransition_moves:
  assumes "move_inv prev r" "rng \<le> 0"
  shows "alternates prev (snd (stateTransition rng r))
    \<and> move_inv (last_move prev (snd (stateTransition rng r))) (fst (stateTransition rng r))"
  using assms
  by (cases "fr_state r"; cases "getSituation r")
    (auto simp: transition_defs move_inv_def generalFilterMatch_def)

lemma storeSentence_inv: "flarm_inv r \<Longrightarrow> flarm_inv (storeSentence s r)"
  by (simp add: flarm_inv_def storeSentence_def Let_def truncatePositions_le)

lemma flarm_step_inv:
  assumes "flarm_inv r"
  shows "flarm_inv (fst (flarm_step rng a r))"
proof (cases a)
  case (Sentence s)
  then show ?thesis using assms
    by (auto simp: flarm_step_def processPflaaSentence_def Let_def
        intro!: stateTransition_inv storeSentence_inv)
next
  case KeepaliveFires
  then show ?thesis using assms
    by (auto simp: flarm_step_def keepaliveTimeout_def Let_def flarm_inv_def emitIf_def setState_def
        split: flarm_state.split)
next
  case LandingFires
  then show ?thesis using assms
    by (auto simp: flarm_step_def landingTimeout_def Let_def flarm_inv_def emitIf_def
        split: flarm_state.split)
qed (use assms in \<open>simp_all add: flarm_step_def flarm_inv_def\<close>)

lemma storeSentence_moves: "move_inv prev r \<Longrightarrow> move_inv prev (storeSentence s r)"
  by (simp add: move_inv_def storeSentence_def Let_def)

lemma flarm_step_moves:
  assumes "move_inv prev r" "rng \<le> 0"
  shows "alternates prev (snd (flarm_step rng a r))
    \<and> move_inv (last_move prev (snd (flarm_step rng a r))) (fst (flarm_step rng a r))"
proof (cases a)
  case (Sentence s)
  then show ?thesis using assms stateTransition_moves [OF storeSentence_moves [OF assms(1)] assms(2)]
    by (auto simp: flarm_step_def processPflaaSentence_def Let_def storeSentence_moves)
next
  case KeepaliveFires
  then show ?thesis using assms
    by (auto simp: flarm_step_def keepaliveTimeout_def Let_def move_inv_def emitIf_def setState_def
        generalFilterMatch_def split: flarm_state.split)
next
  case LandingFires
  then show ?thesis using assms
    by (auto simp: flarm_step_def landingTimeout_def Let_def move_inv_def emitIf_def
        generalFilterMatch_def split: flarm_state.split)
qed (use assms in \<open>simp_all add: flarm_step_def move_inv_def\<close>)

lemma flarm_run_inv: "flarm_inv r \<Longrightarrow> flarm_inv (fst (flarm_run rng as r))"
proof (induction "as" arbitrary: r)
  case (Cons a as)
  from Cons.IH [OF flarm_step_inv [OF Cons.prems, of rng a]] show ?case
    by (simp add: split_beta)
qed simp

lemma flarm_run_moves: "move_inv prev r \<Longrightarrow> rng \<le> 0 \<Longrightarrow> alternates prev (snd (flarm_run rng as r))"
proof (induction "as" arbitrary: r prev)
  case (Cons a as)
  note s = flarm_step_moves [OF Cons.prems, of a]
  from Cons.IH [of "last_move prev (snd (flarm_step rng a r))" "fst (flarm_step rng a r)"] s Cons.prems(2)
  show ?case by (simp add: split_beta alternates_append)
qed simp

text \<open>C34: whatever sentences a record processes and however its timers fire and its category is set, without
  a configured range the departures and landings it detects alternate, and a touch and go is only
  detected between a departure and the next landing (or before the first of them).\<close>

theorem flarm_moves_alternate:
  assumes "rng \<le> 0"
  shows "alternates None (snd (flarm_run rng as (newFlarmRecord i)))"
  using assms by (intro flarm_run_moves) (simp_all add: move_inv_def newFlarmRecord_def)

theorem flarm_moves_alternate_witness:
  "alternates None (snd (flarm_run 0
     [Sentence \<lparr>ps_relativeNorth = 0, ps_relativeEast = 0, ps_relativeVertical = 0, ps_flarmId = ''A'', ps_groundSpeed = 0\<rparr>,
      Sentence \<lparr>ps_relativeNorth = 9, ps_relativeEast = 0, ps_relativeVertical = 2, ps_flarmId = ''A'', ps_groundSpeed = 20\<rparr>]
     (newFlarmRecord ''A'')))"
  by (rule flarm_moves_alternate) simp

text \<open>The landing timer only runs while the plane is on the ground, so that the message about an invalid
  state when it fires cannot occur, and the history holds at most 20 positions, the current one first.\<close>

theorem flarm_record_invariant:
  "(let r = fst (flarm_run rng as (newFlarmRecord i)) in
     (fr_landingTimer r \<longrightarrow> fr_state r = stateOnGround \<and> snd (landingTimeout rng r) \<noteq> None)
     \<and> length (fr_previousRelativePositions r) \<le> 20
     \<and> (fr_previousRelativePositions r \<noteq> []
         \<longrightarrow> hd (fr_previousRelativePositions r) = fr_relativePosition r))"
proof -
  have "flarm_inv (newFlarmRecord i)" by (simp add: flarm_inv_def newFlarmRecord_def)
  from flarm_run_inv [OF this, of rng "as"] show ?thesis
    by (simp add: flarm_inv_def Let_def landingTimeout_def emitIf_def)
qed

theorem flarm_record_invariant_witness:
  "snd (landingTimeout 0 (fst (flarm_run 0 [SetCategory categoryMotorglider,
     Sentence \<lparr>ps_relativeNorth = 0, ps_relativeEast = 0, ps_relativeVertical = 20, ps_flarmId = ''A'', ps_groundSpeed = 20\<rparr>,
     Sentence \<lparr>ps_relativeNorth = 9, ps_relativeEast = 0, ps_relativeVertical = 0, ps_flarmId = ''A'', ps_groundSpeed = 1\<rparr>]
     (newFlarmRecord ''A'')))) \<noteq> None"
  using flarm_record_invariant [of 0 "[SetCategory categoryMotorglider,
     Sentence \<lparr>ps_relativeNorth = 0, ps_relativeEast = 0, ps_relativeVertical = 20, ps_flarmId = ''A'', ps_groundSpeed = 20\<rparr>,
     Sentence \<lparr>ps_relativeNorth = 9, ps_relativeEast = 0, ps_relativeVertical = 0, ps_flarmId = ''A'', ps_groundSpeed = 1\<rparr>]" "''A''"]
  by (simp add: Let_def flarm_step_def processPflaaSentence_def storeSentence_def transition_defs
      isPlausible_def getSituation_def newFlarmRecord_def truncatePositions.simps)

end
