(* ===== verification/Sk_Nmea.thy ===== *)
theory Sk_Nmea
  imports Complex_Main Sk_Flarm Sk_LaunchMethod
begin

unbundle bit_operations_syntax

text \<open>
  Decoding NMEA sentences (\<^verbatim>\<open>src/src/nmea\<close>): the helpers of \<^verbatim>\<open>Nmea.cpp\<close>, \<^verbatim>\<open>NmeaSentence.cpp\<close> with the two
  sentences the program knows, the decoder that cuts the received data into lines, and the GPS tracker.
\<close>

section \<open>Helpers\<close>

definition isType :: "qstring \<Rightarrow> qstring \<Rightarrow> bool" where
  "isType type line \<longleftrightarrow> take (Suc (length type)) (trimmed line) = CHR ''$'' # type"

definition calculateChecksum :: "qstring \<Rightarrow> 8 word" where
  "calculateChecksum data = foldl (\<lambda>checksum c. checksum XOR of_nat (of_char c)) 0 data"

text \<open>QString::toInt with its flag, and QString::toUShort in base 16 (0 for a text that is no number).\<close>

definition toIntOk :: "qstring \<Rightarrow> int option" where
  "toIntOk s =
     (let t = trimmed s;
          neg = (t \<noteq> [] \<and> hd t = CHR ''-'');
          d = (if t \<noteq> [] \<and> (hd t = CHR ''-'' \<or> hd t = CHR ''+'') then tl t else t);
          v = (if neg then - int (digitsVal d) else int (digitsVal d))
      in if d \<noteq> [] \<and> list_all isDigitChar d \<and> - (2 ^ 31) \<le> v \<and> v \<le> 2 ^ 31 - 1 then Some v else None)"

lemma strToInt_toIntOk: "strToInt s = (case toIntOk s of Some v \<Rightarrow> v | None \<Rightarrow> 0)"
  by (simp add: strToInt_def toIntegerIn_def toIntOk_def Let_def)

definition hexVal :: "char \<Rightarrow> nat option" where
  "hexVal c =
     (let n = (of_char c :: nat) in
      if 48 \<le> n \<and> n \<le> 57 then Some (n - 48)
      else if 65 \<le> n \<and> n \<le> 70 then Some (n - 55)
      else if 97 \<le> n \<and> n \<le> 102 then Some (n - 87)
      else None)"

definition toUShort16 :: "qstring \<Rightarrow> nat" where
  "toUShort16 s =
     (let t = trimmed s;
          u = (if t \<noteq> [] \<and> hd t = CHR ''+'' then tl t else t);
          d = (if take 2 (toLower u) = ''0x'' then drop 2 u else u);
          v = foldl (\<lambda>n c. 16 * n + (case hexVal c of Some k \<Rightarrow> k | None \<Rightarrow> 0)) 0 d
      in if d \<noteq> [] \<and> list_all (\<lambda>c. hexVal c \<noteq> None) d \<and> v < 65536 then v else 0)"

section \<open>Sentences\<close>

record nmea_sentence =
  ns_line :: qstring
  ns_parts :: "qstring list"
  ns_valid :: bool

definition setValid :: "bool \<Rightarrow> nmea_sentence \<Rightarrow> nmea_sentence" where
  "setValid v s = s\<lparr>ns_valid := v\<rparr>"

text \<open>The constructor: every early return leaves the sentence invalid, with or without its parts.\<close>

definition nmeaSentence :: "qstring \<Rightarrow> qstring \<Rightarrow> nat \<Rightarrow> nmea_sentence" where
  "nmeaSentence received expectedType expectedNumberOfParts =
     (let line = trimmed received; len = length line;
          s = \<lparr>ns_line = line, ns_parts = [], ns_valid = False\<rparr>
      in if len < 4 then s
         else if line ! 0 \<noteq> CHR ''$'' then s
         else if line ! (len - 3) \<noteq> CHR ''*'' then s
         else (let data = take (len - 4) (drop 1 line);
                   checksum = take 2 (drop (len - 2) line)
               in if calculateChecksum data \<noteq> of_nat (toUShort16 checksum) then s
                  else (let s1 = s\<lparr>ns_parts := splitAt (CHR '','') data\<rparr>
                        in if length (ns_parts s1) \<noteq> expectedNumberOfParts then s1
                           else if ns_parts s1 ! 0 \<noteq> expectedType then s1
                           else setValid True s1)))"

text \<open>A field of a sentence that must be an integer: the value (0 if it is none) and the sentence, which
  becomes invalid if it is none.\<close>

definition intField :: "nat \<Rightarrow> nmea_sentence \<Rightarrow> int \<times> nmea_sentence" where
  "intField i s = (case toIntOk (ns_parts s ! i) of
     Some v \<Rightarrow> (v, s) | None \<Rightarrow> (0, setValid False s))"

text \<open>\<open>dbl\<close> says whether QString::toDouble accepts a text; the climb rate itself is not kept.\<close>

definition pflaaSentence :: "(qstring \<Rightarrow> bool) \<Rightarrow> qstring \<Rightarrow> nmea_sentence \<times> pflaa" where
  "pflaaSentence dbl line =
     (let s = nmeaSentence line ''PFLAA'' 12 in
      if \<not> ns_valid s
      then (s, \<lparr>ps_relativeNorth = 0, ps_relativeEast = 0, ps_relativeVertical = 0, ps_flarmId = [], ps_groundSpeed = 0\<rparr>)
      else (let (north, s1) = intField 2 s; (east, s2) = intField 3 s1; (vertical, s3) = intField 4 s2;
                (speed, s4) = intField 9 s3;
                s5 = (if dbl (ns_parts s4 ! 10) then s4 else setValid False s4)
            in (s5, \<lparr>ps_relativeNorth = north, ps_relativeEast = east, ps_relativeVertical = vertical,
                      ps_flarmId = ns_parts s ! 6, ps_groundSpeed = speed\<rparr>)))"

section \<open>Dates, times and angles\<close>

definition leapYear :: "int \<Rightarrow> bool" where
  "leapYear y \<longleftrightarrow> (4 dvd y \<and> \<not> 100 dvd y) \<or> 400 dvd y"

definition monthLength :: "int \<Rightarrow> nat \<Rightarrow> nat" where
  "monthLength y m = (if m = 2 then (if leapYear y then 29 else 28) else if m \<in> {4, 6, 9, 11} then 30 else 31)"

definition validDate :: "int \<Rightarrow> nat \<Rightarrow> nat \<Rightarrow> bool" where
  "validDate y m d \<longleftrightarrow> 1 \<le> m \<and> m \<le> 12 \<and> 1 \<le> d \<and> d \<le> monthLength y m"

text \<open>The number of a day; day 0 is 1 January 1970.\<close>

definition dayNumber :: "int \<Rightarrow> nat \<Rightarrow> nat \<Rightarrow> int" where
  "dayNumber y m d =
     365 * (y - 1970) + ((y - 1) div 4 - (y - 1) div 100 + (y - 1) div 400 - 477)
     + int (sum_list (map (monthLength y) [1..<m])) + int d - 1"

definition twoDigits :: "qstring \<Rightarrow> nat option" where
  "twoDigits s = (if length s = 2 \<and> list_all isDigitChar s then Some (digitsVal s) else None)"

text \<open>\<open>QDate::fromString (value, "ddMMyy")\<close> reads the years 1900 to 1999, and \<open>addYears\<close> moves a
  29 February that does not exist to the 28th.\<close>

definition parseDate :: "qstring \<Rightarrow> qdate" where
  "parseDate value =
     (if length value \<noteq> 6 then None
      else (case (twoDigits (take 2 value), twoDigits (take 2 (drop 2 value)), twoDigits (drop 4 value)) of
        (Some d, Some m, Some yy) \<Rightarrow>
          (if validDate (1900 + int yy) m d
           then Some (dayNumber (2000 + int yy) m (min d (monthLength (2000 + int yy) m))) else None)
      | _ \<Rightarrow> None))"

definition parseTime :: "qstring \<Rightarrow> qtime" where
  "parseTime value =
     (let hhmmss = splitAt (CHR ''.'') value ! 0 in
      if length hhmmss \<noteq> 6 then None
      else (case (twoDigits (take 2 hhmmss), twoDigits (take 2 (drop 2 hhmmss)), twoDigits (drop 4 hhmmss)) of
        (Some h, Some m, Some s) \<Rightarrow>
          (if h < 24 \<and> m < 60 \<and> s < 60 then Some (int (((h * 60 + m) * 60 + s) * 1000)) else None)
      | _ \<Rightarrow> None))"

text \<open>A QDateTime of a valid date and an invalid time is midnight.\<close>

definition parseDateTime :: "qstring \<Rightarrow> qstring \<Rightarrow> qdatetime" where
  "parseDateTime dateValue timeValue =
     map_option (\<lambda>d. d * 86400000 + (case parseTime timeValue of Some t \<Rightarrow> t | None \<Rightarrow> 0)) (parseDate dateValue)"

text \<open>Angles in degrees, \<open>None\<close> for an invalid one; \<open>toDouble\<close> is QString::toDouble.\<close>

type_synonym angle = "rat option"

definition parseAngle ::
    "(qstring \<Rightarrow> rat option) \<Rightarrow> qstring \<Rightarrow> qstring \<Rightarrow> nat \<Rightarrow> qstring \<Rightarrow> qstring \<Rightarrow> angle" where
  "parseAngle toDouble value sign degreeDigits positiveSign negativeSign =
     (if length value < degreeDigits + 1 then None
      else (case toIntOk (take degreeDigits value) of None \<Rightarrow> None
        | Some degrees \<Rightarrow> (case toDouble (drop degreeDigits value) of None \<Rightarrow> None
            | Some minutes \<Rightarrow>
                (let magnitude = of_int degrees + minutes / 60 in
                 if sign = positiveSign then Some magnitude
                 else if sign = negativeSign then Some (- magnitude)
                 else None))))"

definition parseLatitude :: "(qstring \<Rightarrow> rat option) \<Rightarrow> qstring \<Rightarrow> qstring \<Rightarrow> angle" where
  "parseLatitude toDouble value sign = parseAngle toDouble value sign 2 ''N'' ''S''"

definition parseLongitude :: "(qstring \<Rightarrow> rat option) \<Rightarrow> qstring \<Rightarrow> qstring \<Rightarrow> angle" where
  "parseLongitude toDouble value sign = parseAngle toDouble value sign 3 ''E'' ''W''"

record gprmc =
  gp_timestamp :: qdatetime
  gp_status :: bool
  gp_position :: "angle \<times> angle"

definition gprmcSentence :: "(qstring \<Rightarrow> rat option) \<Rightarrow> qstring \<Rightarrow> nmea_sentence \<times> gprmc" where
  "gprmcSentence toDouble line =
     (let s = nmeaSentence line ''GPRMC'' 13; p = ns_parts s in
      if \<not> ns_valid s then (s, \<lparr>gp_timestamp = None, gp_status = False, gp_position = (None, None)\<rparr>)
      else (s, \<lparr>gp_timestamp = parseDateTime (p ! 9) (p ! 1), gp_status = (p ! 2 = ''A''),
                gp_position = (parseLatitude toDouble (p ! 3) (p ! 4), parseLongitude toDouble (p ! 5) (p ! 6))\<rparr>))"

section \<open>The decoder\<close>

datatype nmea_signal = GprmcReceived gprmc | PflaaReceived pflaa

definition processLine :: "(qstring \<Rightarrow> rat option) \<Rightarrow> qstring \<Rightarrow> nmea_signal list" where
  "processLine toDouble line =
     (if isType ''GPRMC'' line
      then (case gprmcSentence toDouble line of (s, g) \<Rightarrow> if ns_valid s then [GprmcReceived g] else [])
      else if isType ''PFLAA'' line
      then (case pflaaSentence (\<lambda>x. toDouble x \<noteq> None) line of (s, p) \<Rightarrow>
              if ns_valid s then [PflaaReceived p] else [])
      else [])"

abbreviation newline :: char where
  "newline \<equiv> CHR 0x0A"

text \<open>The loop takes the lines off the front of the buffer, which is a static variable: there is one for
  all decoders.\<close>

function drainBuffer :: "(qstring \<Rightarrow> rat option) \<Rightarrow> qstring \<Rightarrow> qstring \<times> nmea_signal list" where
  "drainBuffer toDouble buffer =
     (if newline \<in> set buffer
      then (let pos = length (takeWhile (\<lambda>c. c \<noteq> newline) buffer);
                line = trimmed (take pos buffer);
                (buffer', out) = drainBuffer toDouble (drop (pos + 1) buffer)
            in (buffer', processLine toDouble line @ out))
      else (buffer, []))"
  by pat_completeness auto
termination
  by (relation "measure (\<lambda>(d, b). length b)") (auto intro!: diff_less length_pos_if_in_set)

declare drainBuffer.simps [simp del]

text \<open>\<open>fromUtf8\<close> is QString::fromUtf8 of one chunk.\<close>

definition processData ::
    "(qstring \<Rightarrow> qstring) \<Rightarrow> (qstring \<Rightarrow> rat option) \<Rightarrow> qstring \<Rightarrow> qstring \<Rightarrow> qstring \<times> nmea_signal list" where
  "processData fromUtf8 toDouble data buffer = drainBuffer toDouble (buffer @ fromUtf8 data)"

section \<open>The GPS tracker\<close>

definition samePosition :: "angle \<times> angle \<Rightarrow> angle \<times> angle \<Rightarrow> bool" where
  "samePosition p q \<longleftrightarrow>
     (let pv = fst p \<noteq> None \<and> snd p \<noteq> None; qv = fst q \<noteq> None \<and> snd q \<noteq> None in
      if \<not> pv \<and> \<not> qv then True else if pv \<and> qv then p = q else False)"

record gps_tracker =
  gt_position :: "angle \<times> angle"
  gt_gpsTime :: qdatetime
  gt_timer :: bool

datatype gps_signal = positionChanged "angle \<times> angle" | gpsTimeChanged qdatetime

definition gt_gprmcSentence :: "gprmc \<Rightarrow> gps_tracker \<Rightarrow> gps_tracker \<times> gps_signal list" where
  "gt_gprmcSentence g t =
     (let positionHasChanged = \<not> samePosition (gp_position g) (gt_position t) in
      (t\<lparr>gt_timer := True, gt_gpsTime := gp_timestamp g, gt_position := gp_position g\<rparr>,
       (if positionHasChanged then [positionChanged (gp_position g)] else []) @ [gpsTimeChanged (gp_timestamp g)]))"

definition gt_timeout :: "gps_tracker \<Rightarrow> gps_tracker \<times> gps_signal list" where
  "gt_timeout t = (t\<lparr>gt_position := (None, None), gt_gpsTime := None\<rparr>,
     [positionChanged (None, None), gpsTimeChanged None])"

section \<open>Sentences: which are accepted\<close>

lemma foldl_xor:
  "foldl (\<lambda>k c. k XOR f c) x b = x XOR foldl (\<lambda>k c. k XOR f c) (0 :: 'a::len word) b"
proof (induction b arbitrary: x)
  case (Cons c b)
  have "foldl (\<lambda>k c. k XOR f c) x (c # b) = (x XOR f c) XOR foldl (\<lambda>k c. k XOR f c) 0 b"
    using Cons [of "x XOR f c"] by simp
  also have "\<dots> = x XOR foldl (\<lambda>k c. k XOR f c) (0 XOR f c) b"
    using Cons [of "0 XOR f c"] by (simp add: xor.assoc)
  finally show ?case by simp
qed simp

lemma calculateChecksum_append:
  "calculateChecksum (a @ b) = calculateChecksum a XOR calculateChecksum b"
  unfolding calculateChecksum_def foldl_append by (rule foldl_xor)

lemma calculateChecksum_Cons:
  "calculateChecksum (c # b) = of_nat (of_char c) XOR calculateChecksum b"
  using calculateChecksum_append [of "[c]" b] by (simp add: calculateChecksum_def)

lemma of_nat_of_char_inject: "(of_nat (of_char a) :: 8 word) = of_nat (of_char b) \<longleftrightarrow> a = b"
proof
  assume eq: "(of_nat (of_char a) :: 8 word) = of_nat (of_char b)"
  have "unat (of_nat (of_char c) :: 8 word) = of_char c" for c
    using nat_of_char_less_256 [of c] by (simp add: unat_of_nat)
  then have "(of_char a :: nat) = of_char b" using eq by metis
  then show "a = b" by simp
qed simp

lemma xor_cancel: "a XOR b = a XOR c \<longleftrightarrow> b = (c :: 'a::len word)"
  by (metis xor.assoc xor_self_eq xor.left_neutral)

lemma xor_cancel_right: "b XOR a = c XOR a \<longleftrightarrow> b = (c :: 'a::len word)"
  by (metis xor.commute xor_cancel)

lemma checksum_detects:
  "x \<noteq> y \<Longrightarrow> calculateChecksum (a @ x # b) \<noteq> calculateChecksum (a @ y # b)"
  by (simp add: calculateChecksum_append calculateChecksum_Cons xor_cancel xor_cancel_right of_nat_of_char_inject)

text \<open>The shape of an acceptable line.\<close>

definition framed :: "qstring \<Rightarrow> qstring \<Rightarrow> qstring \<Rightarrow> bool" where
  "framed line data cs \<longleftrightarrow> line = CHR ''$'' # data @ CHR ''*'' # cs \<and> length cs = 2"

lemma nmeaSentence_framed:
  assumes "framed (trimmed r) data cs"
  shows "ns_valid (nmeaSentence r type n) \<longleftrightarrow>
      calculateChecksum data = of_nat (toUShort16 cs) \<and> length (splitAt (CHR '','') data) = n
      \<and> hd (splitAt (CHR '','') data) = type"
    and "ns_valid (nmeaSentence r type n) \<Longrightarrow> ns_parts (nmeaSentence r type n) = splitAt (CHR '','') data"
proof -
  obtain u v where cs: "cs = [u, v]" using assms by (auto simp: framed_def length_Suc_conv numeral_2_eq_2)
  have t: "trimmed r = CHR ''$'' # data @ CHR ''*'' # [u, v]" using assms by (simp add: framed_def cs)
  have ne: "splitAt (CHR '','') data \<noteq> []" using length_splitAt [of "CHR '',''" data] by auto
  then have hd: "splitAt (CHR '','') data ! 0 = hd (splitAt (CHR '','') data)" by (simp add: hd_conv_nth)
  have d: "drop (Suc (length data)) (data @ CHR ''*'' # [u, v]) = [u, v]" by simp
  have l: "length (trimmed r) = length data + 4" by (simp add: t)
  have nth0: "trimmed r ! 0 = CHR ''$''" by (simp add: t)
  have nth: "trimmed r ! (length data + 1) = CHR ''*''" by (simp add: t nth_append)
  have data: "take (length data) (drop 1 (trimmed r)) = data" by (simp add: t)
  have chk: "take 2 (drop (length data + 2) (trimmed r)) = cs" by (simp add: t cs)
  show "ns_valid (nmeaSentence r type n) \<longleftrightarrow>
      calculateChecksum data = of_nat (toUShort16 cs) \<and> length (splitAt (CHR '','') data) = n
      \<and> hd (splitAt (CHR '','') data) = type"
    "ns_valid (nmeaSentence r type n) \<Longrightarrow> ns_parts (nmeaSentence r type n) = splitAt (CHR '','') data"
    using nth0 nth data chk hd cs by (simp_all add: nmeaSentence_def Let_def l setValid_def split: if_splits)
qed

lemma framed_if_valid:
  assumes "ns_valid (nmeaSentence r type n)"
  shows "\<exists>data cs. framed (trimmed r) data cs"
proof -
  let ?l = "trimmed r"
  have c: "4 \<le> length ?l" "?l ! 0 = CHR ''$''" "?l ! (length ?l - 3) = CHR ''*''"
    using assms by (auto simp: nmeaSentence_def Let_def split: if_splits)
  obtain m where m: "length ?l = m + 4" using c(1) by (metis add.commute le_Suc_ex)
  have "?l = ?l ! 0 # take m (drop 1 ?l) @ ?l ! (m + 1) # drop (m + 2) ?l"
  proof -
    have "?l = ?l ! 0 # drop 1 ?l" using m by (cases ?l) auto
    moreover have "drop 1 ?l = take m (drop 1 ?l) @ drop (m + 1) ?l"
      by (metis append_take_drop_id drop_drop)
    moreover have "drop (m + 1) ?l = ?l ! (m + 1) # drop (m + 2) ?l"
      using Cons_nth_drop_Suc [of "m + 1" ?l] m by simp
    ultimately show ?thesis by metis
  qed
  then have "framed ?l (take m (drop 1 ?l)) (drop (m + 2) ?l)"
    using c m by (simp add: framed_def)
  then show ?thesis by blast
qed

text \<open>A sentence is accepted exactly if the received line, without the white space around it, is a dollar
  sign, the data, an asterisk and two characters whose value in base 16 is the exclusive or of the
  data, and the data has exactly the expected number of parts, the first being the expected type.\<close>

theorem nmeaSentence_valid_iff:
  "ns_valid (nmeaSentence r type n) \<longleftrightarrow>
     (\<exists>data cs. trimmed r = CHR ''$'' # data @ CHR ''*'' # cs \<and> length cs = 2
        \<and> calculateChecksum data = of_nat (toUShort16 cs)
        \<and> length (splitAt (CHR '','') data) = n \<and> hd (splitAt (CHR '','') data) = type)"
proof
  assume v: "ns_valid (nmeaSentence r type n)"
  then obtain data cs where f: "framed (trimmed r) data cs" using framed_if_valid by blast
  with nmeaSentence_framed(1) [OF f] v show "\<exists>data cs. trimmed r = CHR ''$'' # data @ CHR ''*'' # cs \<and> length cs = 2
        \<and> calculateChecksum data = of_nat (toUShort16 cs)
        \<and> length (splitAt (CHR '','') data) = n \<and> hd (splitAt (CHR '','') data) = type"
    by (auto simp: framed_def)
next
  assume "\<exists>data cs. trimmed r = CHR ''$'' # data @ CHR ''*'' # cs \<and> length cs = 2
        \<and> calculateChecksum data = of_nat (toUShort16 cs)
        \<and> length (splitAt (CHR '','') data) = n \<and> hd (splitAt (CHR '','') data) = type"
  then obtain data cs where "framed (trimmed r) data cs" "calculateChecksum data = of_nat (toUShort16 cs)"
    "length (splitAt (CHR '','') data) = n" "hd (splitAt (CHR '','') data) = type"
    by (auto simp: framed_def)
  then show "ns_valid (nmeaSentence r type n)" using nmeaSentence_framed(1) by blast
qed

lemma dropWhile_hd: "s \<noteq> [] \<Longrightarrow> \<not> P (hd s) \<Longrightarrow> dropWhile P s = s"
  by (cases s) auto

lemma trimmed_id: "s \<noteq> [] \<Longrightarrow> \<not> isSpaceChar (hd s) \<Longrightarrow> \<not> isSpaceChar (last s) \<Longrightarrow> trimmed s = s"
  by (simp add: trimmed_def dropWhile_hd hd_rev)

lemma last_trimmed: "trimmed s \<noteq> [] \<Longrightarrow> \<not> isSpaceChar (last (trimmed s))"
  unfolding trimmed_def by (metis hd_dropWhile last_rev rev_is_Nil_conv)

text \<open>The checksum detects every change of one character of the data: if a sentence is accepted and one of
  its data characters is replaced by another, the sentence is rejected, whatever type and number of
  parts are expected.\<close>

theorem nmea_detects_corruption:
  assumes "ns_valid (nmeaSentence r type n)"
    and "trimmed r = CHR ''$'' # (a @ x # b) @ CHR ''*'' # cs" "length cs = 2" "x \<noteq> y"
  shows "\<not> ns_valid (nmeaSentence (CHR ''$'' # (a @ y # b) @ CHR ''*'' # cs) type' n')"
proof -
  let ?l = "CHR ''$'' # (a @ y # b) @ CHR ''*'' # cs"
  have ne: "cs \<noteq> []" using assms(3) by auto
  then have "last (trimmed r) = last cs" "last ?l = last cs" using assms(2) by simp_all
  moreover have "\<not> isSpaceChar (last (trimmed r))" using last_trimmed [of r] assms(2) by simp
  ultimately have "trimmed ?l = ?l" by (intro trimmed_id) (simp_all add: isSpaceChar_def)
  then have f: "framed (trimmed ?l) (a @ y # b) cs" "framed (trimmed r) (a @ x # b) cs"
    using assms(2,3) by (simp_all add: framed_def)
  have "calculateChecksum (a @ x # b) = of_nat (toUShort16 cs)"
    using nmeaSentence_framed(1) [OF f(2)] assms(1) by blast
  then show ?thesis using nmeaSentence_framed(1) [OF f(1)] checksum_detects [OF assms(4)] by metis
qed

text \<open>The example of the comment in \<^verbatim>\<open>PflaaSentence.cpp\<close>.\<close>

definition pflaaLine :: qstring where
  "pflaaLine = ''$PFLAA,0,-52,-11,-4,2,DDAFD0,0,,0,0.1,1*07''"

lemma pflaaLine_framed: "framed (trimmed pflaaLine) ''PFLAA,0,-52,-11,-4,2,DDAFD0,0,,0,0.1,1'' ''07''"
proof -
  have "trimmed pflaaLine = pflaaLine"
    by (rule trimmed_id) (simp_all add: pflaaLine_def isSpaceChar_def)
  then show ?thesis by (simp add: framed_def pflaaLine_def)
qed

lemma pflaaLine_valid: "ns_valid (nmeaSentence pflaaLine ''PFLAA'' 12)"
  by (simp add: nmeaSentence_framed(1) [OF pflaaLine_framed] calculateChecksum_def toUShort16_def
      trimmed_def isSpaceChar_def hexVal_def toLowerChar_def Let_def)

lemma toIntOk_examples: "toIntOk ''-52'' = Some (-52)" "toIntOk ''-11'' = Some (-11)" "toIntOk ''-4'' = Some (-4)"
  "toIntOk ''0'' = Some 0"
  by (simp_all add: toIntOk_def trimmed_def isSpaceChar_def isDigitChar_def digitsVal_def digitVal_def)

lemma pflaaLine_decoded:
  "ns_valid (fst (pflaaSentence (\<lambda>_. True) pflaaLine))
   \<and> snd (pflaaSentence (\<lambda>_. True) pflaaLine) = \<lparr>ps_relativeNorth = -52, ps_relativeEast = -11,
       ps_relativeVertical = -4, ps_flarmId = ''DDAFD0'', ps_groundSpeed = 0\<rparr>"
proof -
  have "ns_parts (nmeaSentence pflaaLine ''PFLAA'' 12) =
      splitAt (CHR '','') ''PFLAA,0,-52,-11,-4,2,DDAFD0,0,,0,0.1,1''"
    by (rule nmeaSentence_framed(2) [OF pflaaLine_framed pflaaLine_valid])
  then have "ns_parts (nmeaSentence pflaaLine ''PFLAA'' 12) =
      [''PFLAA'', ''0'', ''-52'', ''-11'', ''-4'', ''2'', ''DDAFD0'', ''0'', [], ''0'', ''0.1'', ''1'']"
    by simp
  then show ?thesis
    using pflaaLine_valid by (simp add: pflaaSentence_def Let_def intField_def toIntOk_examples)
qed

theorem nmea_detects_corruption_witness:
  "\<not> ns_valid (nmeaSentence ''$PFLAA,0,-52,-11,-4,2,DDAFD1,0,,0,0.1,1*07'' ''PFLAA'' 12)"
proof -
  have t: "trimmed pflaaLine = CHR ''$'' # (''PFLAA,0,-52,-11,-4,2,DDAFD'' @ CHR ''0'' # '',0,,0,0.1,1'') @ CHR ''*'' # ''07''"
    using pflaaLine_framed by (simp add: framed_def)
  have "\<not> ns_valid (nmeaSentence (CHR ''$'' # (''PFLAA,0,-52,-11,-4,2,DDAFD'' @ CHR ''1'' # '',0,,0,0.1,1'')
      @ CHR ''*'' # ''07'') ''PFLAA'' 12)"
    by (rule nmea_detects_corruption [OF pflaaLine_valid t]) simp_all
  then show ?thesis by simp
qed

section \<open>Chunks\<close>

lemma splitAt_ne [simp]: "splitAt sep s \<noteq> []"
  using length_splitAt [of sep s] by auto

lemma splitAt_no_sep: "sep \<notin> set u \<Longrightarrow> splitAt sep u = [u]"
  by (induction u) auto

lemma splitAt_at_sep: "sep \<notin> set u \<Longrightarrow> splitAt sep (u @ sep # v) = u # splitAt sep v"
  by (induction u) auto

lemma splitAt_join:
  "sep \<notin> set u \<Longrightarrow> splitAt sep (u @ v) = (u @ hd (splitAt sep v)) # tl (splitAt sep v)"
  by (induction u) (auto split: list.split)

lemma splitAt_last: "sep \<notin> set (last (splitAt sep s))"
  by (induction s) (auto split: list.split)

lemma splitAt_append:
  "splitAt sep (u @ v) = butlast (splitAt sep u) @ splitAt sep (last (splitAt sep u) @ v)"
proof (induction u)
  case (Cons c u)
  show ?case
  proof (cases "c = sep")
    case False
    obtain w ws where w: "splitAt sep u = w # ws" by (cases "splitAt sep u") auto
    show ?thesis
    proof (cases "ws = []")
      case True
      then have "sep \<notin> set w" using splitAt_last [of sep u] w by simp
      with True False w Cons show ?thesis by (simp add: splitAt_join)
    qed (use False w Cons in simp)
  qed (use Cons in simp)
qed simp

lemma drainBuffer_lines:
  "drainBuffer d b = (last (splitAt newline b),
     concat (map (\<lambda>l. processLine d (trimmed l)) (butlast (splitAt newline b))))"
proof (induction d b rule: drainBuffer.induct)
  case (1 d b)
  show ?case
  proof (cases "newline \<in> set b")
    case True
    define u where "u = takeWhile (\<lambda>c. c \<noteq> newline) b"
    have u: "newline \<notin> set u" by (auto simp: u_def dest: set_takeWhileD)
    have ne: "dropWhile (\<lambda>c. c \<noteq> newline) b \<noteq> []" using True by (auto simp: dropWhile_eq_Nil_conv)
    have "hd (dropWhile (\<lambda>c. c \<noteq> newline) b) = newline" using hd_dropWhile [OF ne] by simp
    with ne obtain v where "dropWhile (\<lambda>c. c \<noteq> newline) b = newline # v"
      by (cases "dropWhile (\<lambda>c. c \<noteq> newline) b") auto
    then have b: "b = u @ newline # v"
      using takeWhile_dropWhile_id [of "\<lambda>c. c \<noteq> newline" b] by (simp add: u_def)
    have len: "length (takeWhile (\<lambda>c. c \<noteq> newline) b) = length u" by (simp add: u_def)
    have parts: "take (length u) b = u" "drop (length u + 1) b = v" "splitAt newline b = u # splitAt newline v"
      by (simp_all add: b splitAt_at_sep [OF u])
    have "drainBuffer d v = (last (splitAt newline v),
        concat (map (\<lambda>l. processLine d (trimmed l)) (butlast (splitAt newline v))))"
      using 1 [OF True refl refl] unfolding len parts .
    then show ?thesis
      using True by (subst drainBuffer.simps) (simp only: Let_def len parts if_True, simp)
  qed (simp add: drainBuffer.simps splitAt_no_sep)
qed

text \<open>The decoder over a sequence of chunks.\<close>

fun decodeAll ::
    "(qstring \<Rightarrow> qstring) \<Rightarrow> (qstring \<Rightarrow> rat option) \<Rightarrow> qstring list \<Rightarrow> qstring \<Rightarrow> qstring \<times> nmea_signal list" where
  "decodeAll u d [] b = (b, [])"
| "decodeAll u d (c # cs) b =
     (let (b1, out1) = processData u d c b; (b2, out2) = decodeAll u d cs b1 in (b2, out1 @ out2))"

definition ascii :: "qstring \<Rightarrow> bool" where
  "ascii s \<longleftrightarrow> (\<forall>c \<in> set s. (of_char c :: nat) < 128)"

lemma decodeAll_lines:
  assumes "\<forall>s. ascii s \<longrightarrow> u s = s" "\<forall>c \<in> set chunks. ascii c" "newline \<notin> set b"
  shows "decodeAll u d chunks b = (last (splitAt newline (b @ concat chunks)),
     concat (map (\<lambda>l. processLine d (trimmed l)) (butlast (splitAt newline (b @ concat chunks)))))"
  using assms(2,3)
proof (induction chunks arbitrary: b)
  case Nil
  then show ?case by (simp add: splitAt_no_sep)
next
  case (Cons c cs)
  let ?b = "last (splitAt newline (b @ c))"
  have "processData u d c b = drainBuffer d (b @ c)"
    using assms(1) Cons.prems by (simp add: processData_def)
  moreover have "decodeAll u d cs ?b = (last (splitAt newline (?b @ concat cs)),
     concat (map (\<lambda>l. processLine d (trimmed l)) (butlast (splitAt newline (?b @ concat cs)))))"
    using Cons.prems by (intro Cons.IH) (simp_all add: splitAt_last)
  moreover have "splitAt newline (b @ concat (c # cs)) = butlast (splitAt newline (b @ c)) @ splitAt newline (?b @ concat cs)"
    using splitAt_append [of newline "b @ c" "concat cs"] by simp
  ultimately show ?case by (simp add: drainBuffer_lines Let_def butlast_append)
qed

text \<open>C35: how the received data is cut into chunks does not matter: the decoder emits the sentences of the
  complete lines of everything received so far, in order, and keeps the incomplete last line (for
  ASCII data, which NMEA data is, where decoding a chunk as UTF-8 gives the chunk).\<close>

theorem decoder_chunking:
  assumes "\<forall>s. ascii s \<longrightarrow> fromUtf8 s = s" "\<forall>c \<in> set chunks. ascii c"
  shows "decodeAll fromUtf8 toDouble chunks [] = (last (splitAt newline (concat chunks)),
     concat (map (\<lambda>line. processLine toDouble (trimmed line)) (butlast (splitAt newline (concat chunks)))))"
  using decodeAll_lines [OF assms, of "[]"] by simp

theorem decoder_chunking_witness:
  "decodeAll (\<lambda>s. s) (\<lambda>_. None) [''$GP'', ''X*00'' @ [newline] @ ''$''] [] = (''$'', [])"
proof -
  have "\<forall>c \<in> set [''$GP'', ''X*00'' @ [newline] @ ''$'']. ascii c" by (simp add: ascii_def)
  from decoder_chunking [of "\<lambda>s. s" _ "\<lambda>_. None", OF _ this]
  show ?thesis by (simp add: processLine_def isType_def trimmed_def isSpaceChar_def)
qed

section \<open>Dates\<close>

text \<open>\<open>dayNumber\<close> counts the days: the day after the last one of a month is the first of the next.\<close>

lemma dayNumber_start: "dayNumber 1970 1 1 = 0"
  by (simp add: dayNumber_def)

lemma dayNumber_next:
  "dayNumber y m (d + 1) = dayNumber y m d + 1"
  "1 \<le> m \<Longrightarrow> dayNumber y (m + 1) 1 = dayNumber y m (monthLength y m) + 1"
  by (simp_all add: dayNumber_def)

lemma leap_count: "(y div 4 - y div 100 + y div 400) - ((y - 1) div 4 - (y - 1) div 100 + (y - 1) div 400)
    = (if leapYear y then 1 else (0 :: int))"
proof -
  have one: "y div n - (y - 1) div n = (if n dvd y then 1 else 0)" if "n > 1" for n :: int
  proof (cases "n dvd y")
    case True
    then obtain k where y: "y = n * k" by blast
    have "(n * k - 1) div n = ((n - 1) + n * (k - 1)) div n" by (simp add: algebra_simps)
    also have "\<dots> = k - 1" using that by (simp add: div_pos_pos_trivial)
    finally show ?thesis using True that y by simp
  next
    case False
    then have "y mod n \<noteq> 0" by (simp add: dvd_eq_mod_eq_0)
    moreover have "0 \<le> y mod n" "y mod n < n" using that by simp_all
    ultimately have "(y div n * n + (y mod n - 1)) div n = y div n" by (subst div_mult_self3) (simp_all add: that)
    moreover have "y div n * n + (y mod n - 1) = y - 1" by (metis add_diff_eq div_mult_mod_eq)
    ultimately show ?thesis using False by simp
  qed
  have "100 dvd y \<Longrightarrow> 4 dvd y" "400 dvd y \<Longrightarrow> 100 dvd y"
    using dvd_trans [of 4 100 y] dvd_trans [of 100 400 y] by simp_all
  note dvd = this
  have "(p - q + r) - (p' - q' + r') = a - b + c" if "p - p' = a" "q - q' = b" "r - r' = c"
    for p q r p' q' r' a b c :: int using that by simp
  note this [OF one [of 4] one [of 100] one [of 400]]
  then show ?thesis using dvd by (auto simp only: leapYear_def if_True if_False split: if_splits)
qed

lemma dayNumber_year: "dayNumber (y + 1) 1 1 = dayNumber y 12 31 + 1"
proof -
  have "[1..<12] = [1, 2, 3, 4, 5, 6, 7, 8, 9, 10, 11 :: nat]" by (simp add: upt_rec)
  then have "dayNumber y 12 31 = 365 * (y - 1970)
      + ((y - 1) div 4 - (y - 1) div 100 + (y - 1) div 400 - 477) + 364 + (if leapYear y then 1 else 0)"
    by (simp add: dayNumber_def monthLength_def)
  moreover have "dayNumber (y + 1) 1 1 = 365 * (y - 1969) + (y div 4 - y div 100 + y div 400 - 477)"
    by (simp add: dayNumber_def)
  moreover have "n2 = n1 + 1" if "n1 = 365 * (y - 1970) + (a - 477) + 364 + c"
    "n2 = 365 * (y - 1969) + (b - 477)" "b - a = c" for n1 n2 a b c :: int
    using that by simp
  ultimately show ?thesis using leap_count [of y] by blast
qed

definition twoDigitText :: "nat \<Rightarrow> qstring" where
  "twoDigitText n = [digitChar (n div 10), digitChar (n mod 10)]"

lemma twoDigits_text: "n < 100 \<Longrightarrow> twoDigits (twoDigitText n) = Some n" "length (twoDigitText n) = 2"
  by (simp_all add: twoDigits_def twoDigitText_def digitsVal_def)

lemma leapYear_century: "0 < yy \<Longrightarrow> yy < 100 \<Longrightarrow> leapYear (1900 + int yy) = leapYear (2000 + int yy)"
proof -
  assume "0 < yy" "yy < 100"
  then have "\<not> 100 dvd int yy" by (auto dest: zdvd_imp_le)
  then have "\<not> 100 dvd 1900 + int yy" "\<not> 100 dvd 2000 + int yy"
    using dvd_add_right_iff [of 100 1900 "int yy"] dvd_add_right_iff [of 100 2000 "int yy"] by simp_all
  moreover from this have "\<not> 400 dvd 1900 + int yy" "\<not> 400 dvd 2000 + int yy"
    using dvd_trans [of 100 400 "1900 + int yy"] dvd_trans [of 100 400 "2000 + int yy"] by auto
  moreover have "4 dvd 1900 + int yy \<longleftrightarrow> 4 dvd 2000 + int yy"
    using dvd_add_right_iff [of 4 1900 "int yy"] dvd_add_right_iff [of 4 2000 "int yy"] by simp
  ultimately show ?thesis by (simp add: leapYear_def)
qed

text \<open>The date of a GPRMC sentence is read right for every day of the years 2000 to 2099 but one: because
  the two-digit year is read as 19yy before a century is added, the 29 February 2000, a leap day that
  1900 did not have, is an invalid date.\<close>

theorem parseDate_century:
  assumes "yy < 100" "validDate (2000 + int yy) m d"
  shows "parseDate (twoDigitText d @ twoDigitText m @ twoDigitText yy) =
     (if yy = 0 \<and> m = 2 \<and> d = 29 then None else Some (dayNumber (2000 + int yy) m d))"
proof -
  have md: "m < 100" "d < 100" using assms(2) by (auto simp: validDate_def monthLength_def split: if_splits)
  have leap: "\<not> leapYear 1900" "leapYear 2000" by (simp_all add: leapYear_def)
  have v: "validDate (1900 + int yy) m d \<longleftrightarrow> \<not> (yy = 0 \<and> m = 2 \<and> d = 29)"
  proof (cases "yy = 0")
    case True
    with assms(2) leap show ?thesis by (auto simp: validDate_def monthLength_def split: if_splits)
  next
    case False
    then have "monthLength (1900 + int yy) m = monthLength (2000 + int yy) m"
      using assms(1) leapYear_century [of yy] by (simp add: monthLength_def)
    with False assms(2) show ?thesis by (simp add: validDate_def)
  qed
  have "d \<le> monthLength (2000 + int yy) m" using assms(2) by (simp add: validDate_def)
  then show ?thesis
    by (simp add: parseDate_def twoDigits_text md assms(1) v min_absorb1 drop_Cons' take_Cons')
qed

theorem parseDate_century_witness:
  "parseDate ''290200'' = None \<and> parseDate ''100911'' = Some (dayNumber 2011 9 10)"
proof -
  have "twoDigitText 29 @ twoDigitText 2 @ twoDigitText 0 = ''290200''"
    "twoDigitText 10 @ twoDigitText 9 @ twoDigitText 11 = ''100911''"
    by code_simp+
  with parseDate_century [of 0 2 29] parseDate_century [of 11 9 10] show ?thesis
    by (simp add: validDate_def monthLength_def leapYear_def)
qed

end
