(* ===== verification/Sk_FlarmNet.thy ===== *)
theory Sk_FlarmNet
  imports Sk_Nmea Sk_Plane
begin

text \<open>
  FlarmNet files (\<^verbatim>\<open>src/src/flarm/flarmNet/FlarmNetFile.cpp\<close>): lines of fixed columns, each character
  written as two hexadecimal digits. The strings are Latin 1, which the file format is, so that
  \<open>toLatin1\<close> and \<open>fromLatin1\<close> change nothing.
\<close>

section \<open>Individual lines\<close>

text \<open>QString::toInt in base 16 with its flag.\<close>

definition toInt16 :: "qstring \<Rightarrow> int option" where
  "toInt16 s =
     (let t = trimmed s;
          neg = (t \<noteq> [] \<and> hd t = CHR ''-'');
          u = (if t \<noteq> [] \<and> (hd t = CHR ''-'' \<or> hd t = CHR ''+'') then tl t else t);
          d = (if take 2 (toLower u) = ''0x'' then drop 2 u else u);
          n = int (foldl (\<lambda>n c. 16 * n + (case hexVal c of Some k \<Rightarrow> k | None \<Rightarrow> 0)) 0 d);
          v = (if neg then - n else n)
      in if d \<noteq> [] \<and> list_all (\<lambda>c. hexVal c \<noteq> None) d \<and> - (2 ^ 31) \<le> v \<and> v \<le> 2 ^ 31 - 1
         then Some v else None)"

text \<open>The characters of a pair with a sign are outside Latin 1; they are represented by their low byte.\<close>

fun decodeLine :: "qstring \<Rightarrow> qstring" where
  "decodeLine (a # b # rest) =
     (case toInt16 [a, b] of Some v \<Rightarrow> [char_of (nat (v mod 256))] | None \<Rightarrow> []) @ decodeLine rest"
| "decodeLine _ = []"

definition hexDigit :: "nat \<Rightarrow> char" where
  "hexDigit n = (if n < 10 then char_of (48 + n) else char_of (87 + n))"

definition byteString :: "char \<Rightarrow> qstring" where
  "byteString c =
     (let value = of_char c in
      if value < 16 then [hexDigit value] else [hexDigit (value div 16), hexDigit (value mod 16)])"

text \<open>The leading zero is added if the result so far has one character.\<close>

definition encodeLine :: "qstring \<Rightarrow> qstring" where
  "encodeLine plainLine =
     toLower (foldl (\<lambda>result c. if length result = 1 then result @ CHR ''0'' # byteString c
                               else result @ byteString c) [] plainLine)"

section \<open>Files\<close>

definition decodeLines :: "qstring list \<Rightarrow> qstring list" where
  "decodeLines encodedLines = map decodeLine encodedLines"

definition encodeLines :: "qstring list \<Rightarrow> qstring list" where
  "encodeLines plainLines = map encodeLine plainLines"

definition isLineEnd :: "char \<Rightarrow> bool" where
  "isLineEnd c \<longleftrightarrow> c = CHR 0x0D \<or> c = CHR 0x0A"

fun splitLines :: "qstring \<Rightarrow> qstring \<Rightarrow> qstring list" where
  "splitLines acc [] = (if acc = [] then [] else [acc])"
| "splitLines acc (c # cs) =
     (if isLineEnd c then (if acc = [] then [] else [acc]) @ splitLines [] cs
      else splitLines (acc @ [c]) cs)"

text \<open>\<open>removeFirst\<close> of an empty list is a failed assertion: \<open>None\<close>.\<close>

definition decodeFile :: "qstring \<Rightarrow> qstring list option" where
  "decodeFile encodedFile = (case splitLines [] encodedFile of
     [] \<Rightarrow> None | _ # encodedLines \<Rightarrow> Some (decodeLines encodedLines))"

definition encodeFile :: "qstring list \<Rightarrow> qstring" where
  "encodeFile lines = joinStrings [newline] (''000000'' # encodeLines lines)"

section \<open>Records\<close>

definition mid :: "nat \<Rightarrow> nat \<Rightarrow> qstring \<Rightarrow> qstring" where
  "mid position n s = take n (drop position s)"

definition createRecord :: "qstring \<Rightarrow> flarmNetRecord \<times> bool" where
  "createRecord plainLine =
     (if length plainLine = 86
      then (let r = (fn_new invalidId)
              \<lparr>fn_flarmId := trimmed (mid 0 6 plainLine),
               fn_owner := trimmed (mid 6 21 plainLine),
               fn_airfield := trimmed (mid 27 21 plainLine),
               fn_type := trimmed (mid 48 20 plainLine),
               fn_registration := trimmed (mid 69 7 plainLine),
               fn_callsign := trimmed (mid 76 3 plainLine),
               fn_frequency := trimmed (mid 79 7 plainLine)\<rparr>
            in (r, length (fn_flarmId r) = 6 \<and> length (fn_registration r) > 0))
      else (fn_new invalidId, False))"

fun countRecords :: "qstring list \<Rightarrow> flarmNetRecord list \<times> nat \<times> nat \<Rightarrow> flarmNetRecord list \<times> nat \<times> nat" where
  "countRecords [] acc = acc"
| "countRecords (l # ls) (result, good, bad) =
     (let (record, ok) = createRecord l in
      countRecords ls (if ok then (result @ [record], good + 1, bad) else (result, good, bad + 1)))"

definition createRecords :: "qstring \<Rightarrow> (flarmNetRecord list \<times> nat \<times> nat) option" where
  "createRecords rawFile = map_option (\<lambda>ls. countRecords ls ([], 0, 0)) (decodeFile rawFile)"

section \<open>Encoding and decoding\<close>

lemma hexDigit_code:
  "n < 16 \<Longrightarrow> (of_char (hexDigit n) :: nat) = (if n < 10 then 48 + n else 87 + n)"
  by (simp add: hexDigit_def)

lemma char_neq: "(of_char c :: nat) \<noteq> of_char d \<Longrightarrow> c \<noteq> d"
  by auto

lemma hexDigit_props [simp]:
  assumes "n < 16"
  shows "hexVal (hexDigit n) = Some n" "\<not> isSpaceChar (hexDigit n)" "toLowerChar (hexDigit n) = hexDigit n"
    "hexDigit n \<noteq> CHR ''-''" "hexDigit n \<noteq> CHR ''+''" "hexDigit n \<noteq> CHR ''x''" "\<not> isLineEnd (hexDigit n)"
proof -
  note code = hexDigit_code [OF assms]
  show "hexVal (hexDigit n) = Some n" "\<not> isSpaceChar (hexDigit n)" "toLowerChar (hexDigit n) = hexDigit n"
    using assms by (simp_all add: hexVal_def isSpaceChar_def toLowerChar_def code)
  show "hexDigit n \<noteq> CHR ''-''" "hexDigit n \<noteq> CHR ''+''" "hexDigit n \<noteq> CHR ''x''"
    by (rule char_neq, use assms in \<open>simp add: code\<close>)+
  have "hexDigit n \<noteq> CHR 0x0D" "hexDigit n \<noteq> CHR 0x0A"
    by (rule char_neq, use assms in \<open>simp add: code\<close>)+
  then show "\<not> isLineEnd (hexDigit n)" by (simp add: isLineEnd_def)
qed

abbreviation wide :: "char \<Rightarrow> bool" where
  "wide c \<equiv> 16 \<le> (of_char c :: nat)"

lemma byteString_wide:
  assumes "wide c"
  obtains h l where "byteString c = [hexDigit h, hexDigit l]" "h < 16" "l < 16" "of_char c = 16 * h + l"
proof
  have "(of_char c :: nat) < 256" by (rule nat_of_char_less_256)
  then show "(of_char c :: nat) div 16 < 16" "(of_char c :: nat) mod 16 < 16"
    by (simp_all add: less_mult_imp_div_less)
  show "byteString c = [hexDigit (of_char c div 16), hexDigit (of_char c mod 16)]"
    using assms by (simp add: byteString_def Let_def)
qed simp

lemma byteString_length: "length (byteString c) = (if wide c then 2 else 1)"
  by (simp add: byteString_def Let_def)

abbreviation encodeStep :: "qstring \<Rightarrow> char \<Rightarrow> qstring" where
  "encodeStep result c \<equiv>
     (if length result = 1 then result @ CHR ''0'' # byteString c else result @ byteString c)"

lemma encode_wide:
  "\<forall>c \<in> set s. wide c \<Longrightarrow> even (length acc) \<Longrightarrow> foldl encodeStep acc s = acc @ concat (map byteString s)"
proof (induction s arbitrary: acc)
  case (Cons c s)
  have "length acc \<noteq> 1" using Cons.prems(2) by auto
  with Cons.prems Cons.IH [of "acc @ byteString c"] show ?case by (simp add: byteString_length)
qed simp

lemma toLower_bytes: "\<forall>c \<in> set s. wide c \<Longrightarrow> toLower (concat (map byteString s)) = concat (map byteString s)"
proof (induction s)
  case (Cons c s)
  obtain h l where "byteString c = [hexDigit h, hexDigit l]" "h < 16" "l < 16"
    using byteString_wide Cons.prems by (metis list.set_intros(1))
  with Cons show ?case by simp
qed simp

lemma encodeLine_wide: "\<forall>c \<in> set s. wide c \<Longrightarrow> encodeLine s = concat (map byteString s)"
  using encode_wide [of s "[]"] toLower_bytes [of s] by (simp add: encodeLine_def)

lemma toInt16_pair:
  assumes "h < 16" "l < 16"
  shows "toInt16 [hexDigit h, hexDigit l] = Some (int (16 * h + l))"
proof -
  have "trimmed [hexDigit h, hexDigit l] = [hexDigit h, hexDigit l]"
    using assms by (intro trimmed_id) simp_all
  then show ?thesis using assms by (simp add: toInt16_def Let_def)
qed

lemma decode_bytes: "\<forall>c \<in> set s. wide c \<Longrightarrow> decodeLine (concat (map byteString s)) = s"
proof (induction s)
  case (Cons c s)
  obtain h l where b: "byteString c = [hexDigit h, hexDigit l]" "h < 16" "l < 16" "of_char c = 16 * h + l"
    using byteString_wide Cons.prems by (metis list.set_intros(1))
  have "nat (int (16 * h + l) mod 256) = of_char c"
    using b(2,3) by (simp add: b(4) mod_pos_pos_trivial nat_eq_iff)
  then have "char_of (nat (int (16 * h + l) mod 256)) = c" by simp
  with Cons b show ?case by (simp only: list.map concat.simps append.simps decodeLine.simps toInt16_pair [OF b(2,3)]) simp
qed simp

lemma decodeLine_length: "2 * length (decodeLine e) \<le> length e"
  by (induction e rule: decodeLine.induct) (auto split: option.split)

lemma encode_length:
  "length acc \<ge> 2 \<Longrightarrow> length (foldl encodeStep acc s) = length acc + sum_list (map (length \<circ> byteString) s)"
  by (induction s arbitrary: acc) simp_all

lemma bytes_length: "sum_list (map (length \<circ> byteString) s) \<le> 2 * length s"
  by (induction s) (simp_all add: byteString_length)

lemma bytes_length_short:
  "c \<in> set s \<Longrightarrow> \<not> wide c \<Longrightarrow> sum_list (map (length \<circ> byteString) s) < 2 * length s"
proof (induction s)
  case (Cons a s)
  then show ?case using bytes_length [of s] by (auto simp: byteString_length comp_def)
qed simp

text \<open>Encoding a line and decoding it gives the line if all its characters have codes of at least 16; a line
  with a smaller code after its first character is never restored, because the check for a
  single digit looks at the result instead of the digits of the byte.\<close>

theorem flarmNet_line_roundtrip:
  "((\<forall>c \<in> set s. wide c) \<longrightarrow> decodeLine (encodeLine s) = s)
   \<and> ((\<exists>c \<in> set (tl s). \<not> wide c) \<longrightarrow> decodeLine (encodeLine s) \<noteq> s)"
proof (intro conjI impI)
  assume "\<forall>c \<in> set s. wide c"
  then show "decodeLine (encodeLine s) = s" by (simp add: encodeLine_wide decode_bytes)
next
  assume "\<exists>c \<in> set (tl s). \<not> wide c"
  then obtain a b t where s: "s = a # b # t" and short: "sum_list (map (length \<circ> byteString) (b # t)) < 2 * length (b # t)"
    using bytes_length_short by (metis list.sel(2,3) list.set_cases list.exhaust)
  have "length (encodeLine s) = length (foldl encodeStep (encodeStep (encodeStep [] a) b) t)"
    by (simp add: encodeLine_def s)
  also have "\<dots> = length (encodeStep (encodeStep [] a) b) + sum_list (map (length \<circ> byteString) t)"
    by (rule encode_length) (simp add: byteString_length)
  also have "\<dots> = 2 + sum_list (map (length \<circ> byteString) (b # t))"
    by (simp add: byteString_length)
  finally have "length (encodeLine s) < 2 * length s" using short by (simp add: s)
  with decodeLine_length [of "encodeLine s"] show "decodeLine (encodeLine s) \<noteq> s" by auto
qed

theorem flarmNet_line_roundtrip_witness:
  "decodeLine (encodeLine ''D-1234'') = ''D-1234'' \<and> decodeLine (encodeLine [CHR ''A'', CHR 0x09]) \<noteq> [CHR ''A'', CHR 0x09]"
  using flarmNet_line_roundtrip [of "''D-1234''"] flarmNet_line_roundtrip [of "[CHR ''A'', CHR 0x09]"]
  by simp

section \<open>Files of records\<close>

lemma bytes_no_lineEnd: "\<forall>c \<in> set s. wide c \<Longrightarrow> \<forall>c \<in> set (concat (map byteString s)). \<not> isLineEnd c"
proof (induction s)
  case (Cons c s)
  obtain h l where "byteString c = [hexDigit h, hexDigit l]" "h < 16" "l < 16"
    using byteString_wide Cons.prems by (metis list.set_intros(1))
  with Cons show ?case by auto
qed simp

lemma splitLines_word:
  "\<forall>c \<in> set w. \<not> isLineEnd c \<Longrightarrow> splitLines acc (w @ rest) = splitLines (acc @ w) rest"
  by (induction w arbitrary: acc) simp_all

lemma splitLines_join:
  "\<forall>w \<in> set ws. w \<noteq> [] \<and> (\<forall>c \<in> set w. \<not> isLineEnd c) \<Longrightarrow> splitLines [] (joinStrings [newline] ws) = ws"
proof (induction "[newline]" ws rule: joinStrings.induct)
  case (2 s)
  then show ?case using splitLines_word [of s "[]" "[]"] by simp
next
  case (3 s t r)
  then show ?case
    using splitLines_word [of s "[]" "newline # joinStrings [newline] (t # r)"] by (simp add: isLineEnd_def)
qed simp

lemma decode_encode_file:
  assumes "\<forall>l \<in> set lines. l \<noteq> [] \<and> (\<forall>c \<in> set l. wide c)"
  shows "decodeFile (encodeFile lines) = Some lines"
proof -
  have enc: "encodeLines lines = map (\<lambda>l. concat (map byteString l)) lines"
    using assms by (simp add: encodeLines_def encodeLine_wide)
  have "w \<noteq> [] \<and> (\<forall>c \<in> set w. \<not> isLineEnd c)" if "w \<in> set (''000000'' # encodeLines lines)" for w
  proof -
    from that consider "w = ''000000''" | l where "l \<in> set lines" "w = concat (map byteString l)"
      by (auto simp: enc)
    then show ?thesis
    proof cases
      case (2 l)
      then have l: "l \<noteq> []" "\<forall>c \<in> set l. wide c" using assms by auto
      then have "w \<noteq> []" unfolding 2(2) by (cases l) (auto simp: byteString_def Let_def)
      with bytes_no_lineEnd [OF l(2)] show ?thesis unfolding 2(2) by (rule conjI [rotated])
    qed (simp add: isLineEnd_def)
  qed
  then have "\<forall>w \<in> set (''000000'' # encodeLines lines). w \<noteq> [] \<and> (\<forall>c \<in> set w. \<not> isLineEnd c)" by blast
  then have "splitLines [] (encodeFile lines) = ''000000'' # encodeLines lines"
    unfolding encodeFile_def by (rule splitLines_join)
  moreover have "decodeLines (encodeLines lines) = lines"
    using assms by (simp add: decodeLines_def enc decode_bytes cong: map_cong)
  ultimately show ?thesis by (simp add: decodeFile_def)
qed

text \<open>The layout of a line: fields padded with blanks to the widths of their columns.\<close>

definition pad :: "nat \<Rightarrow> qstring \<Rightarrow> qstring" where
  "pad n s = s @ replicate (n - length s) (CHR '' '')"

definition layout :: "flarmNetRecord \<Rightarrow> qstring" where
  "layout r = pad 6 (fn_flarmId r) @ pad 21 (fn_owner r) @ pad 21 (fn_airfield r) @ pad 20 (fn_type r)
     @ '' '' @ pad 7 (fn_registration r) @ pad 3 (fn_callsign r) @ pad 7 (fn_frequency r)"

definition fits :: "nat \<Rightarrow> qstring \<Rightarrow> bool" where
  "fits n s \<longleftrightarrow> length s \<le> n \<and> trimmed s = s \<and> (\<forall>c \<in> set s. wide c)"

definition fileRecord :: "flarmNetRecord \<Rightarrow> bool" where
  "fileRecord r \<longleftrightarrow> fn_id r = invalidId \<and> length (fn_flarmId r) = 6 \<and> fn_registration r \<noteq> []
     \<and> fits 6 (fn_flarmId r) \<and> fits 21 (fn_owner r) \<and> fits 21 (fn_airfield r) \<and> fits 20 (fn_type r)
     \<and> fits 7 (fn_registration r) \<and> fits 3 (fn_callsign r) \<and> fits 7 (fn_frequency r)"

lemma trimmed_pad: "trimmed s = s \<Longrightarrow> trimmed (pad n s) = s"
proof -
  assume t: "trimmed s = s"
  have sp: "isSpaceChar (CHR '' '')" by (simp add: isSpaceChar_def)
  let ?k = "replicate (n - length s) (CHR '' '')"
  have all: "dropWhile isSpaceChar ?k = []" by (simp add: sp)
  show ?thesis
  proof (cases "\<forall>c \<in> set s. isSpaceChar c")
    case True
    then have "s = []" using t trimmed_eq_Nil_iff [of s] by simp
    then show ?thesis using all by (simp add: pad_def trimmed_def)
  next
    case False
    then have "dropWhile isSpaceChar (s @ ?k) = dropWhile isSpaceChar s @ ?k" by (auto simp: dropWhile_append1)
    moreover have "dropWhile isSpaceChar (rev ?k @ u) = dropWhile isSpaceChar u" for u
      by (rule dropWhile_append2) (auto simp: sp)
    ultimately show ?thesis using t by (simp add: pad_def trimmed_def)
  qed
qed

lemma length_pad: "length s \<le> n \<Longrightarrow> length (pad n s) = n"
  by (simp add: pad_def)

lemma mid_skip: "length a \<le> i \<Longrightarrow> mid i n (a @ b) = mid (i - length a) n b"
  by (simp add: mid_def)

lemma mid_here: "length a = n \<Longrightarrow> mid 0 n (a @ b) = a" "length a = n \<Longrightarrow> mid 0 n a = a"
  by (simp_all add: mid_def)

lemma createRecord_layout:
  assumes "fileRecord r"
  shows "createRecord (layout r) = (r, True)"
proof -
  note r = assms [unfolded fileRecord_def fits_def]
  have len: "length (pad 6 (fn_flarmId r)) = 6" "length (pad 21 (fn_owner r)) = 21" "length (pad 21 (fn_airfield r)) = 21"
    "length (pad 20 (fn_type r)) = 20" "length (pad 7 (fn_registration r)) = 7" "length (pad 3 (fn_callsign r)) = 3"
    "length (pad 7 (fn_frequency r)) = 7"
    using r by (simp_all add: length_pad)
  have "length (layout r) = 86" by (simp add: layout_def len)
  moreover have "mid 0 6 (layout r) = pad 6 (fn_flarmId r)" "mid 6 21 (layout r) = pad 21 (fn_owner r)"
    "mid 27 21 (layout r) = pad 21 (fn_airfield r)" "mid 48 20 (layout r) = pad 20 (fn_type r)"
    "mid 69 7 (layout r) = pad 7 (fn_registration r)" "mid 76 3 (layout r) = pad 3 (fn_callsign r)"
    "mid 79 7 (layout r) = pad 7 (fn_frequency r)"
    by (simp_all add: layout_def mid_def len)
  ultimately show ?thesis
    using r by (simp add: createRecord_def Let_def trimmed_pad fn_new_def)
qed

lemma layout_wide: "fileRecord r \<Longrightarrow> layout r \<noteq> [] \<and> (\<forall>c \<in> set (layout r). wide c)"
  by (auto simp: fileRecord_def fits_def layout_def pad_def)

lemma countRecords_counts:
  "countRecords ls (rs, g, b) = (rs', g', b') \<Longrightarrow> length rs = g \<Longrightarrow>
     (\<forall>r \<in> set rs. length (fn_flarmId r) = 6 \<and> fn_registration r \<noteq> []) \<Longrightarrow>
     length rs' = g' \<and> g' + b' = g + b + length ls
     \<and> (\<forall>r \<in> set rs'. length (fn_flarmId r) = 6 \<and> fn_registration r \<noteq> [])"
proof (induction ls arbitrary: rs g b)
  case (Cons l ls)
  obtain r ok where c: "createRecord l = (r, ok)" by fastforce
  have ok: "length (fn_flarmId r) = 6 \<and> fn_registration r \<noteq> []" if "ok"
    using that c by (auto simp: createRecord_def Let_def split: if_splits)
  show ?case
  proof (cases ok)
    case True
    then have "countRecords ls (rs @ [r], g + 1, b) = (rs', g', b')" using Cons.prems(1) by (simp add: c)
    from Cons.IH [OF this] Cons.prems(2,3) ok True show ?thesis by auto
  next
    case False
    then have "countRecords ls (rs, g, b + 1) = (rs', g', b')" using Cons.prems(1) by (simp add: c)
    from Cons.IH [OF this Cons.prems(2,3)] show ?thesis by simp
  qed
qed simp

lemma countRecords_layout:
  "\<forall>r \<in> set xs. fileRecord r \<Longrightarrow>
     countRecords (map layout xs) (rs, g, b) = (rs @ xs, g + length xs, b)"
  by (induction xs arbitrary: rs g) (simp_all add: createRecord_layout)

text \<open>A file of records in the columns of the format is read back completely and in order, with no bad
  line. Of any other file, every line is counted once, and each record that is kept has a FLARM
  id of six characters and a registration.\<close>

theorem flarmNet_file_roundtrip:
  assumes "\<forall>r \<in> set rs. fileRecord r" "createRecords file = Some (xs, good, bad)"
  shows "createRecords (encodeFile (map layout rs)) = Some (rs, length rs, 0)
    \<and> length xs = good \<and> decodeFile file \<noteq> None \<and> good + bad = length (the (decodeFile file))
    \<and> (\<forall>r \<in> set xs. length (fn_flarmId r) = 6 \<and> fn_registration r \<noteq> [])"
proof -
  have "decodeFile (encodeFile (map layout rs)) = Some (map layout rs)"
    using assms(1) layout_wide by (intro decode_encode_file) auto
  then have "createRecords (encodeFile (map layout rs)) = Some (rs, length rs, 0)"
    using countRecords_layout [OF assms(1), of "[]" 0 0] by (simp add: createRecords_def)
  moreover obtain ls where "decodeFile file = Some ls" "countRecords ls ([], 0, 0) = (xs, good, bad)"
    using assms(2) by (auto simp: createRecords_def)
  ultimately show ?thesis using countRecords_counts [of ls "[]" 0 0 xs good bad] by auto
qed

definition record1 :: flarmNetRecord where
  "record1 = (fn_new 0)\<lparr>fn_flarmId := ''DDAFD0'', fn_registration := ''D-1234'', fn_type := ''ASK 21''\<rparr>"

theorem flarmNet_file_roundtrip_witness:
  "createRecords (encodeFile [layout record1]) = Some ([record1], 1, 0)"
proof -
  have "trimmed ''DDAFD0'' = ''DDAFD0''" "trimmed ''D-1234'' = ''D-1234''" "trimmed ''ASK 21'' = ''ASK 21''"
    by (rule trimmed_id; simp add: isSpaceChar_def)+
  then have "fileRecord record1" by (simp add: fileRecord_def fits_def record1_def fn_new_def invalidId_def)
  moreover have "createRecords ''0'' = Some ([], 0, 0)"
    by (simp add: createRecords_def decodeFile_def decodeLines_def isLineEnd_def)
  ultimately show ?thesis using flarmNet_file_roundtrip [of "[record1]" "''0''" "[]" 0 0] by simp
qed

end
