(* ===== verification/Sk_FlarmLookup.thy ===== *)
theory Sk_FlarmLookup
  imports Sk_CacheLookup
begin

text \<open>
  Finding planes and flights by FLARM id (\<^verbatim>\<open>src/src/flarm/algorithms\<close>): \<^verbatim>\<open>PlaneLookup.cpp\<close>,
  \<^verbatim>\<open>FlightLookup.cpp\<close> with \<^verbatim>\<open>FlightReference.cpp\<close>, \<^verbatim>\<open>PlaneIdentification.cpp\<close>, and the update of the
  FLARM id of a plane with its conflicts, \<^verbatim>\<open>FlarmIdCheck.cpp\<close> and \<^verbatim>\<open>FlarmIdUpdate.cpp\<close>. A \<open>Maybe\<close> is an
  option; what the user answers in a dialog is a parameter.
\<close>

section \<open>Planes\<close>

record lookup_result =
  lr_plane :: "plane option"
  lr_flarmNetRecord :: "flarmNetRecord option"

definition nothing :: lookup_result where
  "nothing = \<lparr>lr_plane = None, lr_flarmNetRecord = None\<rparr>"

definition lookupPlaneByFlarmId :: "cache \<Rightarrow> qstring \<Rightarrow> lookup_result" where
  "lookupPlaneByFlarmId c flarmId =
     (let planeId = getPlaneIdByFlarmId c flarmId in
      if idValid planeId
      then (case getObject (planesById c) planeId of
              Inr plane \<Rightarrow> \<lparr>lr_plane = Some plane, lr_flarmNetRecord = None\<rparr>
            | Inl _ \<Rightarrow> nothing)
      else nothing)"

definition lookupPlaneByFlarmNetDatabase :: "cache \<Rightarrow> qstring \<Rightarrow> lookup_result" where
  "lookupPlaneByFlarmNetDatabase c flarmId =
     (let recordId = getFlarmNetRecordIdByFlarmId c flarmId in
      if \<not> idValid recordId then nothing
      else (case getObject (flarmNetRecordsById c) recordId of
          Inl _ \<Rightarrow> nothing
        | Inr record \<Rightarrow>
            if fn_registration record = [] then nothing
            else (let planeId = getPlaneIdByRegistration c (fn_registration record) in
                  if \<not> idValid planeId then \<lparr>lr_plane = None, lr_flarmNetRecord = Some record\<rparr>
                  else (case getObject (planesById c) planeId of
                      Inl _ \<Rightarrow> nothing
                    | Inr plane \<Rightarrow>
                        if pl_flarmId plane \<noteq> [] \<and> pl_flarmId plane \<noteq> flarmId then nothing
                        else \<lparr>lr_plane = Some plane, lr_flarmNetRecord = Some record\<rparr>))))"

definition lookupPlane :: "bool \<Rightarrow> cache \<Rightarrow> qstring \<Rightarrow> lookup_result" where
  "lookupPlane flarmNetEnabled c flarmId =
     (let result = lookupPlaneByFlarmId c flarmId in
      if lr_plane result \<noteq> None then result
      else if flarmNetEnabled
      then (let result = lookupPlaneByFlarmNetDatabase c flarmId in
            if lr_plane result \<noteq> None then result
            else if lr_flarmNetRecord result \<noteq> None then result
            else nothing)
      else nothing)"

section \<open>Flights\<close>

record flightReference =
  rf_id :: dbId
  rf_towflight :: bool

definition rf_invalid :: flightReference where
  "rf_invalid = \<lparr>rf_id = invalidId, rf_towflight = False\<rparr>"

definition rf_of :: "flight \<Rightarrow> flightReference" where
  "rf_of f = \<lparr>rf_id = getId f, rf_towflight = isTowflight f\<rparr>"

definition rf_isValid :: "flightReference \<Rightarrow> bool" where
  "rf_isValid r \<longleftrightarrow> idValid (rf_id r)"

definition rf_hash :: "flightReference \<Rightarrow> 32 word" where
  "rf_hash r = (if rf_towflight r then 2 * rf_id r + 1 else 2 * rf_id r)"

record flight_lookup =
  fl_reference :: flightReference
  fl_plane :: "plane option"
  fl_flarmNetRecord :: "flarmNetRecord option"

definition flightNothing :: flight_lookup where
  "flightNothing = \<lparr>fl_reference = rf_invalid, fl_plane = None, fl_flarmNetRecord = None\<rparr>"

fun firstFlight :: "(flight \<Rightarrow> bool) \<Rightarrow> flight list \<Rightarrow> flight option" where
  "firstFlight P [] = None"
| "firstFlight P (f # fs) = (if P f then Some f else firstFlight P fs)"

definition lookupFlightByFlarmId :: "flight list \<Rightarrow> qstring \<Rightarrow> flight_lookup" where
  "lookupFlightByFlarmId candidates flarmId =
     (case firstFlight (\<lambda>f. getFlarmId f = flarmId) candidates of
        Some f \<Rightarrow> \<lparr>fl_reference = rf_of f, fl_plane = None, fl_flarmNetRecord = None\<rparr>
      | None \<Rightarrow> flightNothing)"

definition lookupFlightByPlane :: "bool \<Rightarrow> cache \<Rightarrow> flight list \<Rightarrow> qstring \<Rightarrow> flight_lookup" where
  "lookupFlightByPlane flarmNetEnabled c candidates flarmId =
     (let planeResult = lookupPlane flarmNetEnabled c flarmId in
      case lr_plane planeResult of
        None \<Rightarrow> \<lparr>fl_reference = rf_invalid, fl_plane = None, fl_flarmNetRecord = lr_flarmNetRecord planeResult\<rparr>
      | Some plane \<Rightarrow>
          \<lparr>fl_reference = (case firstFlight (\<lambda>f. getPlaneId f = pl_id plane) candidates of
             Some f \<Rightarrow> rf_of f | None \<Rightarrow> rf_invalid),
           fl_plane = Some plane, fl_flarmNetRecord = lr_flarmNetRecord planeResult\<rparr>)"

definition lookupFlight :: "bool \<Rightarrow> cache \<Rightarrow> flight list \<Rightarrow> qstring \<Rightarrow> flight_lookup" where
  "lookupFlight flarmNetEnabled c candidates flarmId =
     (let result = lookupFlightByFlarmId candidates flarmId in
      if rf_isValid (fl_reference result) then result
      else lookupFlightByPlane flarmNetEnabled c candidates flarmId)"

section \<open>Identifying the plane of a flight\<close>

datatype ident_message = notCreatedAutomatically | notCurrent | identificationFailure | alreadyCurrent

text \<open>\<open>usePlane\<close> and \<open>createPlane\<close> are the answers to the two questions, \<open>created\<close> the id of the plane that
  is created in the editor (invalid if the user cancels), \<open>current\<close> whether the flight is of today.
  The result is the plane id and the messages shown.\<close>

definition interactiveIdentifyPlane ::
    "bool \<Rightarrow> cache \<Rightarrow> bool \<Rightarrow> (plane \<Rightarrow> bool) \<Rightarrow> (flarmNetRecord \<Rightarrow> bool) \<Rightarrow> (plane \<Rightarrow> dbId) \<Rightarrow> flight \<Rightarrow> bool
      \<Rightarrow> dbId \<times> ident_message list" where
  "interactiveIdentifyPlane flarmNetEnabled c current usePlane createPlane created f manualOperation =
     (if isBlank (getFlarmId f) then (invalidId, if manualOperation then [notCreatedAutomatically] else [])
      else if \<not> current then (invalidId, if manualOperation then [notCurrent] else [])
      else (let result = lookupPlane flarmNetEnabled c (getFlarmId f) in
            case lr_plane result of
              Some plane \<Rightarrow>
                if pl_id plane = getPlaneId f then (invalidId, [alreadyCurrent])
                else if usePlane plane then (pl_id plane, []) else (invalidId, [])
            | None \<Rightarrow> (case lr_flarmNetRecord result of
                Some record \<Rightarrow>
                  if createPlane record then (created (fn_toPlane record True), []) else (invalidId, [])
              | None \<Rightarrow> (invalidId, if manualOperation then [identificationFailure] else []))))"

section \<open>Conflicts of FLARM ids\<close>

datatype resolution = resClear | resSwap | resKeep | resIgnore | resCancel

record flarm_id_check =
  ck_newFlarmId :: qstring
  ck_planeId :: dbId
  ck_oldFlarmId :: qstring
  ck_conflictingPlane :: "plane option"
  ck_selectedResolution :: resolution

definition ck_new :: flarm_id_check where
  "ck_new = \<lparr>ck_newFlarmId = [], ck_planeId = invalidId, ck_oldFlarmId = [], ck_conflictingPlane = None,
     ck_selectedResolution = resIgnore\<rparr>"

fun firstConflict :: "(dbId \<rightharpoonup> plane) \<Rightarrow> dbId \<Rightarrow> dbId list \<Rightarrow> plane option" where
  "firstConflict hash planeId [] = None"
| "firstConflict hash planeId (i # is) =
     (if i \<noteq> planeId
      then (case getObject hash i of Inr plane \<Rightarrow> Some plane | Inl _ \<Rightarrow> firstConflict hash planeId is)
      else firstConflict hash planeId is)"

definition findConflictingPlane :: "cache \<Rightarrow> flarm_id_check \<Rightarrow> plane option" where
  "findConflictingPlane c k =
     (if isBlank (ck_newFlarmId k) then None
      else if getPlaneIdsByFlarmId c (ck_newFlarmId k) = [] then None
      else firstConflict (planesById c) (ck_planeId k) (getPlaneIdsByFlarmId c (ck_newFlarmId k)))"

text \<open>The resolutions offered and the default one.\<close>

definition getPossibleResolutions :: "flarm_id_check \<Rightarrow> resolution list \<times> resolution" where
  "getPossibleResolutions k =
     (if ck_newFlarmId k \<noteq> ck_oldFlarmId k
      then ([resClear] @ (if ck_oldFlarmId k \<noteq> [] then [resSwap] else []) @ [resKeep, resIgnore], resClear)
      else ([resClear, resIgnore], resIgnore))"

text \<open>\<open>chosenIndex\<close> is what the choice dialog returns: negative if the user cancels.\<close>

definition showChoiceDialog :: "int \<Rightarrow> resolution list \<Rightarrow> flarm_id_check \<Rightarrow> resolution" where
  "showChoiceDialog chosenIndex resolutions k =
     (if ck_conflictingPlane k = None then resKeep
      else if chosenIndex < 0 then resCancel
      else resolutions ! nat chosenIndex)"

definition interactiveCheck ::
    "cache \<Rightarrow> int \<Rightarrow> qstring \<Rightarrow> dbId \<Rightarrow> qstring \<Rightarrow> flarm_id_check \<Rightarrow> bool \<times> flarm_id_check" where
  "interactiveCheck c chosenIndex newFlarmId planeId oldFlarmId k =
     (let k1 = k\<lparr>ck_newFlarmId := newFlarmId, ck_planeId := planeId, ck_oldFlarmId := oldFlarmId\<rparr>;
          k2 = k1\<lparr>ck_conflictingPlane := findConflictingPlane c k1\<rparr>
      in if ck_conflictingPlane k2 = None then (True, k2)
         else (let r = showChoiceDialog chosenIndex (fst (getPossibleResolutions k2)) k2 in
               (r \<noteq> resCancel, k2\<lparr>ck_selectedResolution := r\<rparr>)))"

text \<open>\<open>canceled\<close>: the user cancels the update of the other plane in the database. The result is the return
  value, the FLARM id written to the plane, and the other plane as it is written to the database.\<close>

definition interactiveApply :: "bool \<Rightarrow> flarm_id_check \<Rightarrow> qstring \<Rightarrow> bool \<times> qstring \<times> plane option" where
  "interactiveApply canceled k planeFlarmId =
     (case ck_conflictingPlane k of
        None \<Rightarrow> (True, ck_newFlarmId k, None)
      | Some other \<Rightarrow> (case ck_selectedResolution k of
          resClear \<Rightarrow>
            if canceled then (False, ck_newFlarmId k, None)
            else (True, ck_newFlarmId k, Some (other\<lparr>pl_flarmId := []\<rparr>))
        | resSwap \<Rightarrow>
            if canceled then (False, ck_newFlarmId k, None)
            else (True, ck_newFlarmId k, Some (other\<lparr>pl_flarmId := ck_oldFlarmId k\<rparr>))
        | resKeep \<Rightarrow> (True, ck_oldFlarmId k, None)
        | resIgnore \<Rightarrow> (True, ck_newFlarmId k, None)
        | resCancel \<Rightarrow> (False, planeFlarmId, None)))"

section \<open>Updating the FLARM id of a plane\<close>

datatype update_action = updUpdate | updDontUpdate | updCancel
datatype update_message = updNoPlane | updNotCreatedAutomatically | updNotCurrent | updCurrent

text \<open>The plane updates of the database are listed in order. \<open>canceled2\<close>: the user cancels the update of the
  plane itself, which ends the method with an exception (\<open>None\<close>).\<close>

definition checkAndUpdate ::
    "cache \<Rightarrow> int \<Rightarrow> bool \<Rightarrow> bool \<Rightarrow> plane \<Rightarrow> flight \<Rightarrow> bool option \<times> plane list" where
  "checkAndUpdate c chosenIndex canceled canceled2 plane f =
     (let oldFlarmId = pl_flarmId plane;
          (_, k) = interactiveCheck c chosenIndex (getFlarmId f) (pl_id plane) (pl_flarmId plane) ck_new;
          (ok, newId, other) = interactiveApply canceled k (pl_flarmId plane);
          updates = (case other of Some p \<Rightarrow> [p] | None \<Rightarrow> [])
      in if \<not> ok then (Some False, updates)
         else if newId \<noteq> oldFlarmId
         then (if canceled2 then (None, updates) else (Some True, updates @ [plane\<lparr>pl_flarmId := newId\<rparr>]))
         else (Some True, updates))"

definition canUpdateSilently :: "cache \<Rightarrow> bool \<Rightarrow> dbId \<Rightarrow> plane \<Rightarrow> flight \<Rightarrow> bool" where
  "canUpdateSilently c manualOperation oldPlaneId plane f =
     (if manualOperation then False
      else if idValid oldPlaneId then False
      else if \<not> isBlank (pl_flarmId plane) then False
      else if getPlaneIdsByFlarmId c (getFlarmId f) \<noteq> [] then False
      else True)"

definition interactiveUpdateFlarmId ::
    "cache \<Rightarrow> bool \<Rightarrow> update_action \<Rightarrow> int \<Rightarrow> bool \<Rightarrow> bool \<Rightarrow> flight \<Rightarrow> bool \<Rightarrow> dbId
      \<Rightarrow> bool \<times> plane list \<times> update_message list" where
  "interactiveUpdateFlarmId c current answer chosenIndex canceled canceled2 f manualOperation oldPlaneId =
     (if \<not> idValid (getPlaneId f) then (True, [], if manualOperation then [updNoPlane] else [])
      else if getFlarmId f = [] then (True, [], if manualOperation then [updNotCreatedAutomatically] else [])
      else if \<not> current then (True, [], if manualOperation then [updNotCurrent] else [])
      else (case getObject (planesById c) (getPlaneId f) of
          Inl _ \<Rightarrow> (True, [], [])
        | Inr plane \<Rightarrow>
            if pl_flarmId plane = getFlarmId f then (True, [], if manualOperation then [updCurrent] else [])
            else (case (if canUpdateSilently c manualOperation oldPlaneId plane f then updUpdate else answer) of
                updUpdate \<Rightarrow>
                  (case checkAndUpdate c chosenIndex canceled canceled2 plane f of
                     (Some ok, updates) \<Rightarrow> (ok, updates, []) | (None, updates) \<Rightarrow> (False, updates, []))
              | updDontUpdate \<Rightarrow> (True, [], [])
              | updCancel \<Rightarrow> (False, [], []))))"

section \<open>What the lookups guarantee\<close>

lemma mirror_flarmNet:
  assumes "cacheMirrors c d"
  shows "set (flarmNetRecords c) = ran (tb_flarmNetRecords d)" "flarmNetRecordsById c = tb_flarmNetRecords d"
    "hash_indexes fn_flarmId fn_id (flarmNetRecordIdsByFlarmId c) (flarmNetRecords c)"
    "table_ok fn_id (tb_flarmNetRecords d)"
  using assms by (simp_all add: cacheMirrors_def mirrors_def flarmNetRecordIdx_def flarmNetRecordKind_def)

lemma getObject_table:
  assumes "table_ok gid db"
  shows "getObject db i = Inr x \<longleftrightarrow> db i = Some x"
proof -
  have "db 0 = None" using assms by (auto simp: table_ok_def) (metis not_None_eq)
  then show ?thesis
    by (auto simp: getObject_def idInvalid_def invalidId_def split: option.split)
qed

text \<open>The lookups on a mirror, as one rule each: \<open>None\<close> or a row with the key.\<close>

lemma planeByFlarmId_cases:
  assumes "cacheMirrors c d"
  shows "(getPlaneIdByFlarmId c x = 0 \<and> (\<forall>p \<in> ran (tb_planes d). pl_flarmId p \<noteq> x))
    \<or> (\<exists>p. tb_planes d (getPlaneIdByFlarmId c x) = Some p \<and> pl_flarmId p = x \<and> getPlaneIdByFlarmId c x \<noteq> 0)"
proof -
  note m = mirror_indexes [OF assms]
  note f = hash_lookup [OF m(9) m(12) m(1)]
  show ?thesis using f(1) [of x] f(2) [of x invalidId] by (auto simp: getPlaneIdByFlarmId_def invalidId_def)
qed

lemma planeByRegistration_cases:
  assumes "cacheMirrors c d"
  shows "(getPlaneIdByRegistration c x = 0 \<and> (\<forall>p \<in> ran (tb_planes d). toLower (pl_registration p) \<noteq> toLower x))
    \<or> (\<exists>p. tb_planes d (getPlaneIdByRegistration c x) = Some p \<and> toLower (pl_registration p) = toLower x
        \<and> getPlaneIdByRegistration c x \<noteq> 0)"
proof -
  note m = mirror_indexes [OF assms]
  note f = hash_lookup [OF m(8) m(12) m(1)]
  show ?thesis
    using f(1) [of "toLower x"] f(2) [of "toLower x" invalidId] by (auto simp: getPlaneIdByRegistration_def invalidId_def)
qed

lemma recordByFlarmId_cases:
  assumes "cacheMirrors c d"
  shows "(getFlarmNetRecordIdByFlarmId c x = 0 \<and> (\<forall>r \<in> ran (tb_flarmNetRecords d). fn_flarmId r \<noteq> x))
    \<or> (\<exists>r. tb_flarmNetRecords d (getFlarmNetRecordIdByFlarmId c x) = Some r \<and> fn_flarmId r = x
        \<and> getFlarmNetRecordIdByFlarmId c x \<noteq> 0)"
proof -
  note m = mirror_flarmNet [OF assms]
  note f = hash_lookup [OF m(3) m(4) m(1)]
  show ?thesis
    using f(1) [of x] f(2) [of x invalidId] by (auto simp: getFlarmNetRecordIdByFlarmId_def invalidId_def)
qed

lemma lookupPlaneByFlarmId_mirror:
  assumes "cacheMirrors c d"
  shows "(lookupPlaneByFlarmId c x = nothing \<and> (\<forall>p \<in> ran (tb_planes d). pl_flarmId p \<noteq> x))
    \<or> (\<exists>p \<in> ran (tb_planes d). pl_flarmId p = x
        \<and> lookupPlaneByFlarmId c x = \<lparr>lr_plane = Some p, lr_flarmNetRecord = None\<rparr>)"
proof -
  note m = mirror_indexes [OF assms]
  have get: "getObject (planesById c) i = Inr p \<longleftrightarrow> tb_planes d i = Some p" for i p
    using getObject_table [OF m(12)] m(4) by simp
  from planeByFlarmId_cases [OF assms, of x] show ?thesis
  proof (elim disjE exE conjE)
    fix p assume "tb_planes d (getPlaneIdByFlarmId c x) = Some p" "pl_flarmId p = x" "getPlaneIdByFlarmId c x \<noteq> 0"
    moreover from this(1) have "getObject (planesById c) (getPlaneIdByFlarmId c x) = Inr p" by (simp add: get)
    ultimately show ?thesis
      by (auto simp: lookupPlaneByFlarmId_def Let_def idValid_def idInvalid_def invalidId_def intro: ranI)
  qed (simp add: lookupPlaneByFlarmId_def idValid_def idInvalid_def invalidId_def)
qed

lemma lookupPlaneByFlarmNet_eq:
  assumes "cacheMirrors c d"
  shows "lookupPlaneByFlarmNetDatabase c x = nothing
    \<or> (\<exists>n \<in> ran (tb_flarmNetRecords d). fn_flarmId n = x \<and> fn_registration n \<noteq> []
        \<and> (lookupPlaneByFlarmNetDatabase c x = \<lparr>lr_plane = None, lr_flarmNetRecord = Some n\<rparr>
             \<and> (\<forall>q \<in> ran (tb_planes d). toLower (pl_registration q) \<noteq> toLower (fn_registration n))
           \<or> (\<exists>q \<in> ran (tb_planes d). toLower (pl_registration q) = toLower (fn_registration n)
               \<and> (pl_flarmId q = [] \<or> pl_flarmId q = x)
               \<and> lookupPlaneByFlarmNetDatabase c x = \<lparr>lr_plane = Some q, lr_flarmNetRecord = Some n\<rparr>)))"
proof -
  note m = mirror_indexes [OF assms(1)] and mf = mirror_flarmNet [OF assms(1)]
  note get = getObject_table [OF m(12)] getObject_table [OF mf(4)]
  note ids = idValid_def idInvalid_def invalidId_def
  let ?i = "getFlarmNetRecordIdByFlarmId c x"
  from recordByFlarmId_cases [OF assms(1), of x] show ?thesis
  proof (elim disjE exE conjE)
    assume "?i = 0"
    then show ?thesis by (simp add: lookupPlaneByFlarmNetDatabase_def ids)
  next
    fix n assume n: "tb_flarmNetRecords d ?i = Some n" "fn_flarmId n = x" "?i \<noteq> 0"
    have rec: "getObject (flarmNetRecordsById c) ?i = Inr n" using get(2) mf(2) n(1) by simp
    have nr: "n \<in> ran (tb_flarmNetRecords d)" using n(1) by (rule ranI)
    let ?j = "getPlaneIdByRegistration c (fn_registration n)"
    from planeByRegistration_cases [OF assms(1), of "fn_registration n"] show ?thesis
    proof (elim disjE exE conjE)
      assume j: "?j = 0" and no: "\<forall>q \<in> ran (tb_planes d). toLower (pl_registration q) \<noteq> toLower (fn_registration n)"
      have "lookupPlaneByFlarmNetDatabase c x
          = (if fn_registration n = [] then nothing else \<lparr>lr_plane = None, lr_flarmNetRecord = Some n\<rparr>)"
        using rec n(3) j by (simp add: lookupPlaneByFlarmNetDatabase_def ids)
      then show ?thesis using nr n(2) no by (cases "fn_registration n = []") auto
    next
      fix q assume q: "tb_planes d ?j = Some q" "toLower (pl_registration q) = toLower (fn_registration n)" "?j \<noteq> 0"
      have "getObject (planesById c) ?j = Inr q" using get(1) m(4) q(1) by simp
      then have eq: "lookupPlaneByFlarmNetDatabase c x
          = (if fn_registration n = [] \<or> pl_flarmId q \<noteq> [] \<and> pl_flarmId q \<noteq> x then nothing
             else \<lparr>lr_plane = Some q, lr_flarmNetRecord = Some n\<rparr>)"
        using rec n(3) q(3) by (simp add: lookupPlaneByFlarmNetDatabase_def ids)
      have qr: "q \<in> ran (tb_planes d)" using q(1) by (rule ranI)
      show ?thesis
      proof (cases "fn_registration n = [] \<or> pl_flarmId q \<noteq> [] \<and> pl_flarmId q \<noteq> x")
        case True
        then show ?thesis using eq by simp
      next
        case False
        then show ?thesis using eq nr qr n(2) q(2) by auto
      qed
    qed
  qed
qed

lemma lookupPlaneByFlarmNet_mirror:
  assumes "cacheMirrors c d" "lookupPlaneByFlarmNetDatabase c x = \<lparr>lr_plane = p, lr_flarmNetRecord = r\<rparr>"
  shows "(p = None \<and> r = None) \<or> (\<exists>n \<in> ran (tb_flarmNetRecords d). r = Some n \<and> fn_flarmId n = x \<and> fn_registration n \<noteq> []
      \<and> (case p of
           None \<Rightarrow> \<forall>q \<in> ran (tb_planes d). toLower (pl_registration q) \<noteq> toLower (fn_registration n)
         | Some q \<Rightarrow> q \<in> ran (tb_planes d) \<and> toLower (pl_registration q) = toLower (fn_registration n)
             \<and> (pl_flarmId q = [] \<or> pl_flarmId q = x)))"
  using lookupPlaneByFlarmNet_eq [OF assms(1), of x] unfolding assms(2)
  by (elim disjE bexE conjE) (auto simp: nothing_def)

text \<open>Looking up a plane on a cache that mirrors the database finds a plane with the FLARM id whenever there
  is one; a plane that is found has the FLARM id or none at all; a plane without the id is found
  only if FlarmNet is enabled and has a record of the FLARM id with its registration; and a FlarmNet
  record without a plane means that no plane has its registration.\<close>

theorem lookupPlane_guarantee:
  assumes "cacheMirrors c d" "lookupPlane enabled c x = \<lparr>lr_plane = p, lr_flarmNetRecord = r\<rparr>"
  shows "((\<exists>q \<in> ran (tb_planes d). pl_flarmId q = x) \<longrightarrow> (\<exists>q \<in> ran (tb_planes d). p = Some q \<and> pl_flarmId q = x \<and> r = None))
    \<and> (\<forall>q. p = Some q \<longrightarrow> q \<in> ran (tb_planes d) \<and> (pl_flarmId q = [] \<or> pl_flarmId q = x)
        \<and> (r = None \<longrightarrow> pl_flarmId q = x))
    \<and> (\<forall>n. r = Some n \<longrightarrow> enabled \<and> n \<in> ran (tb_flarmNetRecords d) \<and> fn_flarmId n = x \<and> fn_registration n \<noteq> []
        \<and> (p = None \<longrightarrow> (\<forall>q \<in> ran (tb_planes d). toLower (pl_registration q) \<noteq> toLower (fn_registration n)))
        \<and> (\<forall>q. p = Some q \<longrightarrow> toLower (pl_registration q) = toLower (fn_registration n)))"
  using lookupPlaneByFlarmId_mirror [OF assms(1), of x]
proof (elim disjE conjE bexE)
  assume none: "lookupPlaneByFlarmId c x = nothing" "\<forall>p \<in> ran (tb_planes d). pl_flarmId p \<noteq> x"
  obtain p' r' where db: "lookupPlaneByFlarmNetDatabase c x = \<lparr>lr_plane = p', lr_flarmNetRecord = r'\<rparr>"
    by (metis lookup_result.surjective old.unit.exhaust)
  note db' = lookupPlaneByFlarmNet_mirror [OF assms(1) db]
  show ?thesis
  proof (cases enabled)
    case False
    then have "p = None \<and> r = None" using assms(2) none(1) by (simp add: lookupPlane_def nothing_def)
    then show ?thesis using none(2) by blast
  next
    case True
    then have "p = p' \<and> r = r'"
      using assms(2) none(1) db by (auto simp: lookupPlane_def nothing_def Let_def split: if_splits)
    then show ?thesis using none(2) db' True by (cases p; cases r) auto
  qed
next
  fix q assume "q \<in> ran (tb_planes d)" "pl_flarmId q = x"
    "lookupPlaneByFlarmId c x = \<lparr>lr_plane = Some q, lr_flarmNetRecord = None\<rparr>"
  then show ?thesis using assms(2) by (auto simp: lookupPlane_def)
qed

theorem lookupPlane_guarantee_witness:
  "lr_plane (lookupPlane True (refreshAll (Some 100) None src1 newCache) ''DDA1B2'') = Some plane1"
proof -
  have m: "cacheMirrors (refreshAll (Some 100) None src1 newCache) tables1"
    by (rule refreshAll_makes_mirror [OF source_ok_1 cache_sane_new]) (simp_all add: newCache_def)
  obtain p r where l: "lookupPlane True (refreshAll (Some 100) None src1 newCache) ''DDA1B2''
      = \<lparr>lr_plane = p, lr_flarmNetRecord = r\<rparr>"
    by (metis lookup_result.surjective old.unit.exhaust)
  have "ran (tb_planes tables1) = {plane1}" "pl_flarmId plane1 = ''DDA1B2''" by (simp_all add: tables1_def plane1_def)
  then show ?thesis using lookupPlane_guarantee [OF m l] l by simp
qed

section \<open>What an update of a FLARM id guarantees\<close>

definition flarmIdsUnique :: "(dbId \<rightharpoonup> plane) \<Rightarrow> bool" where
  "flarmIdsUnique db \<longleftrightarrow> (\<forall>i j p q. db i = Some p \<longrightarrow> db j = Some q \<longrightarrow> pl_flarmId p = pl_flarmId q
     \<longrightarrow> \<not> isBlank (pl_flarmId p) \<longrightarrow> i = j)"

definition storePlanes :: "plane list \<Rightarrow> (dbId \<rightharpoonup> plane) \<Rightarrow> (dbId \<rightharpoonup> plane)" where
  "storePlanes updates db = foldl (\<lambda>m p. m(pl_id p \<mapsto> p)) db updates"

lemma flarmIdsUniqueD:
  "flarmIdsUnique db \<Longrightarrow> db i = Some p \<Longrightarrow> db j = Some q \<Longrightarrow> pl_flarmId p = pl_flarmId q
    \<Longrightarrow> \<not> isBlank (pl_flarmId p) \<Longrightarrow> i = j"
  unfolding flarmIdsUnique_def by blast

lemma flarmIdsUnique_update:
  assumes "flarmIdsUnique db"
    and "\<not> isBlank (pl_flarmId p) \<Longrightarrow> \<forall>j q. db j = Some q \<longrightarrow> pl_flarmId q = pl_flarmId p \<longrightarrow> j = i"
  shows "flarmIdsUnique (db(i \<mapsto> p))"
  unfolding flarmIdsUnique_def
proof (intro allI impI)
  fix k l a b
  assume h: "(db(i \<mapsto> p)) k = Some a" "(db(i \<mapsto> p)) l = Some b" "pl_flarmId a = pl_flarmId b" "\<not> isBlank (pl_flarmId a)"
  show "k = l"
  proof (cases "k = i")
    case True
    then have a: "a = p" using h(1) by simp
    then have "\<not> isBlank (pl_flarmId p)" using h(4) by simp
    then show ?thesis using assms(2) h(2,3) a True by (auto split: if_splits)
  next
    case k: False
    show ?thesis
    proof (cases "l = i")
      case True
      then have b: "b = p" using h(2) by simp
      then have "\<not> isBlank (pl_flarmId p)" using h(3,4) by simp
      then show ?thesis using assms(2) h(1,3) b True k by auto
    next
      case False
      then show ?thesis using assms(1) h k unfolding flarmIdsUnique_def by auto
    qed
  qed
qed

lemma planeIds_of_flarmId:
  assumes "cacheMirrors c d"
  shows "i \<in> set (getPlaneIdsByFlarmId c x) \<longleftrightarrow> (\<exists>p. tb_planes d i = Some p \<and> pl_flarmId p = x)"
proof -
  note m = mirror_indexes [OF assms]
  have "set (planeIdsByFlarmId c) = (\<lambda>z. (pl_flarmId z, pl_id z)) ` ran (tb_planes d)"
    using hash_indexes_set [OF m(9)] m(1) by simp
  moreover have "\<And>p. p \<in> ran (tb_planes d) \<Longrightarrow> tb_planes d (pl_id p) = Some p"
    using m(12) by (auto simp: ran_def table_ok_def)
  moreover have "\<And>p. tb_planes d i = Some p \<Longrightarrow> pl_id p = i" using m(12) by (auto simp: table_ok_def)
  ultimately show ?thesis unfolding getPlaneIdsByFlarmId_def mh_values_set by (auto simp: image_iff intro: ranI)
qed

lemma firstConflict_None:
  assumes "\<And>i p. getObject db i = Inr p \<longleftrightarrow> db i = Some p" "\<And>i. i \<in> set is \<Longrightarrow> db i \<noteq> None"
  shows "firstConflict db k is = None \<longleftrightarrow> set is \<subseteq> {k}"
  using assms(2)
proof (induction "is")
  case (Cons i "is")
  obtain p where "db i = Some p" using Cons.prems [of i] by auto
  then have "getObject db i = Inr p" using assms(1) by simp
  then show ?case using Cons by (cases "i = k") auto
qed simp

lemma firstConflict_Some:
  assumes "\<And>i p. getObject db i = Inr p \<longleftrightarrow> db i = Some p" "firstConflict db k is = Some p"
  shows "\<exists>i \<in> set is. i \<noteq> k \<and> db i = Some p"
  using assms(2)
proof (induction "is")
  case (Cons i "is")
  show ?case
  proof (cases "i \<noteq> k \<and> (\<exists>q. getObject db i = Inr q)")
    case True
    then obtain q where q: "getObject db i = Inr q" "i \<noteq> k" by auto
    then have "q = p" using Cons.prems by simp
    then show ?thesis using q assms(1) by auto
  next
    case False
    then have "firstConflict db k is = Some p" using Cons.prems by (auto split: sum.splits if_splits)
    then show ?thesis using Cons.IH by auto
  qed
qed simp

text \<open>The conflict that is found, and that there is none otherwise.\<close>

lemma findConflictingPlane_None:
  assumes "cacheMirrors c d" "findConflictingPlane c k = None" "\<not> isBlank (ck_newFlarmId k)"
    "tb_planes d j = Some q" "pl_flarmId q = ck_newFlarmId k"
  shows "j = ck_planeId k"
proof -
  note m = mirror_indexes [OF assms(1)]
  have get: "\<And>i p. getObject (tb_planes d) i = Inr p \<longleftrightarrow> tb_planes d i = Some p" by (rule getObject_table [OF m(12)])
  note ids = planeIds_of_flarmId [OF assms(1), of _ "ck_newFlarmId k"]
  have j: "j \<in> set (getPlaneIdsByFlarmId c (ck_newFlarmId k))" using ids assms(4,5) by blast
  moreover have "firstConflict (tb_planes d) (ck_planeId k) (getPlaneIdsByFlarmId c (ck_newFlarmId k)) = None"
    using assms(2,3) j m(4) by (auto simp: findConflictingPlane_def split: if_splits)
  then have "set (getPlaneIdsByFlarmId c (ck_newFlarmId k)) \<subseteq> {ck_planeId k}"
    by (subst (asm) firstConflict_None [OF get]) (auto simp: ids)
  ultimately show ?thesis by auto
qed

lemma findConflictingPlane_Some:
  assumes "cacheMirrors c d" "findConflictingPlane c k = Some p"
  shows "\<not> isBlank (ck_newFlarmId k)" "pl_flarmId p = ck_newFlarmId k" "pl_id p \<noteq> ck_planeId k"
    "tb_planes d (pl_id p) = Some p"
proof -
  note m = mirror_indexes [OF assms(1)]
  have get: "\<And>i p. getObject (tb_planes d) i = Inr p \<longleftrightarrow> tb_planes d i = Some p" by (rule getObject_table [OF m(12)])
  show "\<not> isBlank (ck_newFlarmId k)" using assms(2) by (auto simp: findConflictingPlane_def)
  have "firstConflict (tb_planes d) (ck_planeId k) (getPlaneIdsByFlarmId c (ck_newFlarmId k)) = Some p"
    using assms(2) m(4) by (auto simp: findConflictingPlane_def split: if_splits)
  from firstConflict_Some [OF get this] obtain i where i: "i \<in> set (getPlaneIdsByFlarmId c (ck_newFlarmId k))"
    "i \<noteq> ck_planeId k" "tb_planes d i = Some p" by auto
  have "pl_id p = i" using m(12) i(3) by (auto simp: table_ok_def)
  then show "pl_id p \<noteq> ck_planeId k" "tb_planes d (pl_id p) = Some p" using i by simp_all
  show "pl_flarmId p = ck_newFlarmId k" using i(1,3) planeIds_of_flarmId [OF assms(1)] by auto
qed

text \<open>The check that \<open>checkAndUpdate\<close> performs.\<close>

definition updateCheck :: "cache \<Rightarrow> int \<Rightarrow> plane \<Rightarrow> flight \<Rightarrow> flarm_id_check" where
  "updateCheck c chosenIndex plane f
    = snd (interactiveCheck c chosenIndex (getFlarmId f) (pl_id plane) (pl_flarmId plane) ck_new)"

lemma updateCheck_fields:
  "ck_newFlarmId (updateCheck c i plane f) = getFlarmId f"
  "ck_planeId (updateCheck c i plane f) = pl_id plane"
  "ck_oldFlarmId (updateCheck c i plane f) = pl_flarmId plane"
  "ck_conflictingPlane (updateCheck c i plane f) = findConflictingPlane c
     \<lparr>ck_newFlarmId = getFlarmId f, ck_planeId = pl_id plane, ck_oldFlarmId = pl_flarmId plane,
      ck_conflictingPlane = None, ck_selectedResolution = resIgnore\<rparr>"
  by (simp_all add: updateCheck_def interactiveCheck_def ck_new_def Let_def)

lemma updateCheck_conflict:
  assumes "cacheMirrors c d" "ck_conflictingPlane (updateCheck c i plane f) = Some p"
  shows "\<not> isBlank (getFlarmId f)" "pl_flarmId p = getFlarmId f" "pl_id p \<noteq> pl_id plane" "tb_planes d (pl_id p) = Some p"
  using findConflictingPlane_Some [OF assms(1) assms(2) [unfolded updateCheck_fields]] by simp_all

lemma updateCheck_no_conflict:
  assumes "cacheMirrors c d" "ck_conflictingPlane (updateCheck c i plane f) = None" "\<not> isBlank (getFlarmId f)"
    "tb_planes d j = Some q" "pl_flarmId q = getFlarmId f"
  shows "j = pl_id plane"
  using findConflictingPlane_None [OF assms(1) assms(2) [unfolded updateCheck_fields]] assms(3-5) by simp

lemma checkAndUpdate_eq:
  "checkAndUpdate c i canceled canceled2 plane f =
    (let (ok, newId, other) = interactiveApply canceled (updateCheck c i plane f) (pl_flarmId plane);
         updates = (case other of Some p \<Rightarrow> [p] | None \<Rightarrow> [])
     in if \<not> ok then (Some False, updates)
        else if newId \<noteq> pl_flarmId plane
        then (if canceled2 then (None, updates) else (Some True, updates @ [plane\<lparr>pl_flarmId := newId\<rparr>]))
        else (Some True, updates))"
  by (simp add: checkAndUpdate_def updateCheck_def split_beta Let_def)

text \<open>Storing the new id of the plane after the other plane has got another one.\<close>

lemma unique_after_update:
  assumes "flarmIdsUnique db" "\<And>j q. \<not> isBlank x \<Longrightarrow> db j = Some q \<Longrightarrow> pl_flarmId q = x \<Longrightarrow> j = i"
  shows "flarmIdsUnique (db(i \<mapsto> plane\<lparr>pl_flarmId := x\<rparr>))"
  using flarmIdsUnique_update [OF assms(1), of "plane\<lparr>pl_flarmId := x\<rparr>" i] assms(2) by auto

lemma unique_after_exchange:
  assumes u: "flarmIdsUnique db" and plane: "db i = Some plane" and p: "db j = Some p" "i \<noteq> j"
    and x: "\<not> isBlank (pl_flarmId p)" "y = [] \<or> y = pl_flarmId plane"
  shows "flarmIdsUnique (db(j \<mapsto> p\<lparr>pl_flarmId := y\<rparr>, i \<mapsto> plane\<lparr>pl_flarmId := pl_flarmId p\<rparr>))"
proof -
  define ex where "ex = db(j \<mapsto> p\<lparr>pl_flarmId := y\<rparr>, i \<mapsto> plane\<lparr>pl_flarmId := pl_flarmId p\<rparr>)"
  note uD = flarmIdsUniqueD [OF u]
  have ne: "pl_flarmId plane \<noteq> pl_flarmId p" using uD [OF plane p(1)] p(2) x(1) by auto
  define old where "old k = (if k = j then i else if k = i then j else k)" for k
  have orig: "\<exists>a'. db (old k) = Some a' \<and> pl_flarmId a' = pl_flarmId a" if ka: "ex k = Some a" "\<not> isBlank (pl_flarmId a)" for k a
    using ka plane p x by (auto simp: ex_def old_def split: if_splits)
  have "inj old" by (auto simp: old_def inj_def split: if_splits)
  moreover have "old k = old l"
    if kl: "ex k = Some a" "ex l = Some b" "pl_flarmId a = pl_flarmId b" "\<not> isBlank (pl_flarmId a)" for k l a b
  proof -
    obtain a' where "db (old k) = Some a'" "pl_flarmId a' = pl_flarmId a" using orig [OF kl(1) kl(4)] by blast
    moreover have "\<not> isBlank (pl_flarmId b)" using kl(3,4) by simp
    then obtain b' where "db (old l) = Some b'" "pl_flarmId b' = pl_flarmId b" using orig [OF kl(2)] by blast
    ultimately show ?thesis using uD kl(3,4) by simp
  qed
  ultimately have "flarmIdsUnique ex" unfolding flarmIdsUnique_def by (meson injD)
  then show ?thesis by (simp add: ex_def)
qed

text \<open>C36: an update of the FLARM id of a plane keeps the FLARM ids of the planes unique, unless the user chooses
  to ignore a conflict, or cancels the second of the two updates of a swap; and when it reports
  success, the stored plane has the FLARM id of the flight, or its old one if the user chose to keep it.\<close>

theorem checkAndUpdate_unique:
  assumes "cacheMirrors c d" "tb_planes d (pl_id plane) = Some plane" "flarmIdsUnique (tb_planes d)"
    and "checkAndUpdate c i canceled canceled2 plane f = (result, updates)"
    and "ck_conflictingPlane (updateCheck c i plane f) = None
      \<or> ck_selectedResolution (updateCheck c i plane f) \<noteq> resIgnore
        \<and> (ck_selectedResolution (updateCheck c i plane f) \<noteq> resSwap \<or> result \<noteq> None)"
  shows "flarmIdsUnique (storePlanes updates (tb_planes d))
    \<and> (result = Some True \<longrightarrow> storePlanes updates (tb_planes d) (pl_id plane) = Some (plane\<lparr>pl_flarmId :=
         if ck_conflictingPlane (updateCheck c i plane f) \<noteq> None
            \<and> ck_selectedResolution (updateCheck c i plane f) = resKeep
         then pl_flarmId plane else getFlarmId f\<rparr>))"
proof (cases "ck_conflictingPlane (updateCheck c i plane f)")
  case None
  then have *: "(result, updates) = (if getFlarmId f \<noteq> pl_flarmId plane
      then (if canceled2 then (None, []) else (Some True, [plane\<lparr>pl_flarmId := getFlarmId f\<rparr>])) else (Some True, []))"
    using assms(4) by (auto simp: checkAndUpdate_eq interactiveApply_def updateCheck_fields split: if_splits)
  have "flarmIdsUnique ((tb_planes d)(pl_id plane \<mapsto> plane\<lparr>pl_flarmId := getFlarmId f\<rparr>))"
    using updateCheck_no_conflict [OF assms(1) None] by (rule unique_after_update [OF assms(3)])
  with * None assms(2,3) show ?thesis by (auto simp: storePlanes_def split: if_splits)
next
  case (Some p)
  note p = updateCheck_conflict [OF assms(1) Some]
  note exch = unique_after_exchange [OF assms(3,2) p(4) p(3) [symmetric] p(1) [folded p(2)], unfolded p(2)]
  note eq = assms(4) [unfolded checkAndUpdate_eq interactiveApply_def Some updateCheck_fields(1-3)]
  have ne: "getFlarmId f \<noteq> pl_flarmId plane"
    using assms(2,3) p unfolding flarmIdsUnique_def by metis
  have clear: "flarmIdsUnique ((tb_planes d)(pl_id p \<mapsto> p\<lparr>pl_flarmId := []\<rparr>))"
    by (rule unique_after_update [OF assms(3)]) simp
  show ?thesis
  proof (cases "ck_selectedResolution (updateCheck c i plane f)")
    case resClear
    then show ?thesis using eq ne exch [of "[]"] clear assms(3) p(3)
      by (auto simp: storePlanes_def Some Let_def split: if_splits)
  next
    case resSwap
    then show ?thesis using eq ne exch [of "pl_flarmId plane"] assms(3,5) p(3)
      by (auto simp: storePlanes_def Some Let_def split: if_splits)
  qed (use eq assms(2,3,5) Some in \<open>auto simp: storePlanes_def Let_def split: if_splits\<close>)
qed

text \<open>Two planes, and a flight of the second one with the FLARM id of the first.\<close>

definition plane2 :: plane where
  "plane2 = (pl_new 2)\<lparr>pl_registration := ''D-5678'', pl_flarmId := ''DDFFFF''\<rparr>"

definition tables2 :: tables where
  "tables2 = tables1\<lparr>tb_planes := [1 \<mapsto> plane1, 2 \<mapsto> plane2]\<rparr>"

definition cache2 :: cache where
  "cache2 = refreshAll (Some 100) None (src1\<lparr>src_planes := [plane1, plane2]\<rparr>) newCache"

definition flight2 :: flight where
  "flight2 = flight0\<lparr>getPlaneId := 2, getFlarmId := ''DDA1B2''\<rparr>"

lemma planes2: "tb_planes tables2 = [1 \<mapsto> plane1, 2 \<mapsto> plane2]"
    "pl_id plane1 = 1" "pl_id plane2 = 2" "pl_flarmId plane1 = ''DDA1B2''" "pl_flarmId plane2 = ''DDFFFF''"
    "getFlarmId flight2 = ''DDA1B2''"
  by (simp_all add: tables2_def plane1_def plane2_def pl_new_def flight2_def)

lemma planes2_ok:
  "table_ok pl_id [1 \<mapsto> plane1, 2 \<mapsto> plane2]"
  "holds pl_id (\<lambda>_. True) [plane1, plane2] [1 \<mapsto> plane1, 2 \<mapsto> plane2]"
  by (auto simp: table_ok_def holds_def planes2 split: if_splits)

lemma mirror2: "cacheMirrors cache2 tables2"
  unfolding cache2_def
proof (rule refreshAll_makes_mirror [OF _ cache_sane_new])
  show "source_ok (src1\<lparr>src_planes := [plane1, plane2]\<rparr>) tables2"
    using source_ok_1 planes2_ok by (simp add: source_ok_def tables2_def)
qed (simp_all add: newCache_def)

lemma not_blank: "\<not> isBlank ''DDA1B2''" "\<not> isBlank ''DDFFFF''"
  by (simp_all add: isBlank_def trimmed_def isSpaceChar_def)

lemma conflict2: "ck_conflictingPlane (updateCheck cache2 i plane2 flight2) = Some plane1"
proof (cases "ck_conflictingPlane (updateCheck cache2 i plane2 flight2)")
  case None
  then have "1 = pl_id plane2"
    using updateCheck_no_conflict [OF mirror2 None, of 1 plane1] by (simp add: planes2 not_blank)
  then show ?thesis by (simp add: planes2)
next
  case (Some p)
  then show ?thesis using updateCheck_conflict [OF mirror2 Some] by (simp add: planes2 split: if_splits)
qed

lemma resolution2: "ck_selectedResolution (updateCheck cache2 1 plane2 flight2) = resSwap"
proof -
  have "findConflictingPlane cache2 \<lparr>ck_newFlarmId = getFlarmId flight2, ck_planeId = pl_id plane2,
      ck_oldFlarmId = pl_flarmId plane2, ck_conflictingPlane = None, ck_selectedResolution = resIgnore\<rparr> = Some plane1"
    using conflict2 [of 1] by (simp add: updateCheck_fields)
  then show ?thesis
    by (simp add: updateCheck_def interactiveCheck_def ck_new_def Let_def showChoiceDialog_def
        getPossibleResolutions_def planes2)
qed

theorem checkAndUpdate_unique_witness:
  "flarmIdsUnique (storePlanes (snd (checkAndUpdate cache2 1 False False plane2 flight2)) (tb_planes tables2))"
proof -
  have "tb_planes tables2 (pl_id plane2) = Some plane2" "flarmIdsUnique (tb_planes tables2)"
    by (simp_all add: planes2 flarmIdsUnique_def)
  note th = checkAndUpdate_unique [OF mirror2 this prod.collapse [symmetric], where i = 1 and canceled = False and ?canceled2.0 = False and f = flight2]
  have "fst (checkAndUpdate cache2 1 False False plane2 flight2) \<noteq> None"
    by (simp add: checkAndUpdate_eq interactiveApply_def updateCheck_fields(1-3) conflict2 resolution2 Let_def planes2)
  then show ?thesis using th by (simp add: resolution2)
qed

text \<open>If the user swaps the FLARM ids of two planes and cancels the second of the two updates, both planes are
  stored with the same FLARM id.\<close>

theorem swap_cancelled_duplicates:
  assumes "cacheMirrors c d" "tb_planes d (pl_id plane) = Some plane"
    and "ck_conflictingPlane (updateCheck c i plane f) = Some p"
    and "ck_selectedResolution (updateCheck c i plane f) = resSwap"
    and "getFlarmId f \<noteq> pl_flarmId plane" "\<not> isBlank (pl_flarmId plane)"
  shows "\<not> flarmIdsUnique (storePlanes (snd (checkAndUpdate c i False True plane f)) (tb_planes d))"
proof -
  note p = updateCheck_conflict [OF assms(1,3)]
  have "snd (checkAndUpdate c i False True plane f) = [p\<lparr>pl_flarmId := pl_flarmId plane\<rparr>]"
    using assms(3-5) by (simp add: checkAndUpdate_eq interactiveApply_def updateCheck_fields(1-3) Let_def)
  then have st: "storePlanes (snd (checkAndUpdate c i False True plane f)) (tb_planes d)
      = (tb_planes d)(pl_id p \<mapsto> p\<lparr>pl_flarmId := pl_flarmId plane\<rparr>)" (is "_ = ?db")
    by (simp add: storePlanes_def)
  have db: "?db (pl_id plane) = Some plane" "?db (pl_id p) = Some (p\<lparr>pl_flarmId := pl_flarmId plane\<rparr>)"
    using assms(2) p(3) by simp_all
  have "pl_id plane = pl_id p" if "flarmIdsUnique ?db"
    using assms(6) by (intro flarmIdsUniqueD [OF that db]) simp_all
  then show ?thesis using p(3) st by auto
qed

theorem swap_cancelled_duplicates_witness:
  "\<not> flarmIdsUnique (storePlanes (snd (checkAndUpdate cache2 1 False True plane2 flight2)) (tb_planes tables2))"
  by (rule swap_cancelled_duplicates [OF mirror2 _ conflict2 resolution2]) (simp_all add: planes2 not_blank)

end
