(* ===== verification/Sk_FlarmList.thy ===== *)
theory Sk_FlarmList
  imports Sk_FlarmLookup Sk_Flarm Sk_Containers
begin

text \<open>
  The list of the aircraft a FLARM receives, \<^verbatim>\<open>src/src/flarm/FlarmList.cpp\<close>: the records in the order of
  their rows, and the hash from FLARM ids to persistent indexes of rows. A removed record is taken out
  of the list but not deleted: it becomes an orphan whose timers keep running and whose signals still
  arrive.
\<close>

section \<open>The list\<close>

record flarmList =
  ll_list :: "flarmRecord objectList"
  ll_byFlarmId :: "qstring \<rightharpoonup> nat"
  ll_orphans :: "flarmRecord list"

abbreviation ll_records :: "flarmList \<Rightarrow> flarmRecord list" where
  "ll_records l \<equiv> rows (ll_list l)"

definition newFlarmList :: flarmList where
  "newFlarmList = \<lparr>ll_list = mkList [], ll_byFlarmId = Map.empty, ll_orphans = []\<rparr>"

definition ll_size :: "flarmList \<Rightarrow> nat" where
  "ll_size l = length (ll_records l)"

text \<open>Reading a row that does not exist is a failed assertion.\<close>

definition ll_at :: "flarmList \<Rightarrow> nat \<Rightarrow> flarmRecord option" where
  "ll_at l i = (if i < ll_size l then Some (ll_records l ! i) else None)"

text \<open>The record of a plane that is seen for the first time.\<close>

definition describeRecord :: "lookup_result \<Rightarrow> flarmRecord \<Rightarrow> flarmRecord" where
  "describeRecord result r =
     (case lr_plane result of
        Some p \<Rightarrow>
          (let r1 = r\<lparr>fr_registration := pl_registration p, fr_category := pl_category p\<rparr> in
           case lr_flarmNetRecord result of Some n \<Rightarrow> r1\<lparr>fr_frequency := fn_frequency n\<rparr> | None \<Rightarrow> r1)
      | None \<Rightarrow> (case lr_flarmNetRecord result of
          Some n \<Rightarrow> r\<lparr>fr_registration := fn_registration n, fr_frequency := fn_frequency n\<rparr>
        | None \<Rightarrow> r))"

definition ll_pflaaSentence ::
    "bool \<Rightarrow> cache \<Rightarrow> int \<Rightarrow> bool \<Rightarrow> pflaa \<Rightarrow> flarmList \<Rightarrow> flarmList \<times> flarm_signal list" where
  "ll_pflaaSentence flarmNetEnabled c rng valid s l =
     (if \<not> valid then (l, [])
      else (case ll_byFlarmId l (ps_flarmId s) of
          Some row \<Rightarrow>
            (let (r, out) = processPflaaSentence rng s (ll_records l ! row) in
             (l\<lparr>ll_list := ol_replace row r (ll_list l)\<rparr>, out))
        | None \<Rightarrow>
            (let (r, out) = processPflaaSentence rng s (newFlarmRecord (ps_flarmId s));
                 r1 = describeRecord (lookupPlane flarmNetEnabled c (ps_flarmId s)) r;
                 newRow = ll_size l
             in (l\<lparr>ll_list := ol_append r1 (ll_list l),
                   ll_byFlarmId := (ll_byFlarmId l)(ps_flarmId s \<mapsto> newRow)\<rparr>, out))))"

text \<open>Removing a row moves the persistent indexes of the rows behind it.\<close>

definition rowsShifted :: "nat \<Rightarrow> ('k \<rightharpoonup> nat) \<Rightarrow> ('k \<rightharpoonup> nat)" where
  "rowsShifted row m k = map_option (\<lambda>i. if row < i then i - 1 else i) (m k)"

definition removeFlarmRecord :: "qstring \<Rightarrow> flarmList \<Rightarrow> flarmList" where
  "removeFlarmRecord flarmId l =
     (case ll_byFlarmId l flarmId of
        None \<Rightarrow> l
      | Some row \<Rightarrow>
          l\<lparr>ll_list := ol_removeAt row (ll_list l),
            ll_byFlarmId := rowsShifted row ((ll_byFlarmId l)(flarmId := None)),
            ll_orphans := ll_orphans l @ [ll_records l ! row]\<rparr>)"

text \<open>The signals of a record: \<open>remove\<close> goes to the list, the others are passed on.\<close>

fun receiveSignals :: "flarm_signal list \<Rightarrow> flarmList \<Rightarrow> flarmList \<times> flarm_signal list" where
  "receiveSignals [] l = (l, [])"
| "receiveSignals (removeRecord i # ss) l = receiveSignals ss (removeFlarmRecord i l)"
| "receiveSignals (s # ss) l = (case receiveSignals ss l of (l', out) \<Rightarrow> (l', s # out))"

section \<open>Histories\<close>

text \<open>What can happen to the list: a sentence, or a timer of a record or of an orphan. The keepalive timer of
  an orphan is stopped.\<close>

datatype list_input =
    ListSentence bool pflaa | ListKeepalive nat | ListLanding nat | OrphanLanding nat

definition fireTimer :: "int \<Rightarrow> flarm_input \<Rightarrow> nat \<Rightarrow> flarmList \<Rightarrow> flarmList \<times> flarm_signal list" where
  "fireTimer rng a n l =
     (if n < ll_size l
      then (case flarm_step rng a (ll_records l ! n) of (r, out) \<Rightarrow>
              receiveSignals out (l\<lparr>ll_list := (ll_list l)\<lparr>rows := (ll_records l)[n := r]\<rparr>\<rparr>))
      else (l, []))"

definition list_step :: "bool \<Rightarrow> cache \<Rightarrow> int \<Rightarrow> list_input \<Rightarrow> flarmList \<Rightarrow> flarmList \<times> flarm_signal list" where
  "list_step fe c rng a l = (case a of
     ListSentence valid s \<Rightarrow> ll_pflaaSentence fe c rng valid s l
   | ListKeepalive n \<Rightarrow> fireTimer rng KeepaliveFires n l
   | ListLanding n \<Rightarrow> fireTimer rng LandingFires n l
   | OrphanLanding n \<Rightarrow>
       if n < length (ll_orphans l)
       then (case flarm_step rng LandingFires (ll_orphans l ! n) of (r, out) \<Rightarrow>
               receiveSignals out (l\<lparr>ll_orphans := (ll_orphans l)[n := r]\<rparr>))
       else (l, []))"

fun list_run :: "bool \<Rightarrow> cache \<Rightarrow> int \<Rightarrow> list_input list \<Rightarrow> flarmList \<Rightarrow> flarmList \<times> flarm_signal list" where
  "list_run fe c rng [] l = (l, [])"
| "list_run fe c rng (a # as) l =
     (case list_step fe c rng a l of (l1, out1) \<Rightarrow>
      case list_run fe c rng as l1 of (l2, out2) \<Rightarrow> (l2, out1 @ out2))"

section \<open>The list and its hash\<close>

definition indexes :: "flarmRecord list \<Rightarrow> (qstring \<rightharpoonup> nat) \<Rightarrow> bool" where
  "indexes rs m \<longleftrightarrow> (\<forall>i n. m i = Some n \<longleftrightarrow> n < length rs \<and> fr_flarmId (rs ! n) = i)"

lemma indexesD: "indexes rs m \<Longrightarrow> m i = Some n \<Longrightarrow> n < length rs \<and> fr_flarmId (rs ! n) = i"
  by (simp add: indexes_def)

lemma indexes_distinct: "indexes rs m \<Longrightarrow> distinct (map fr_flarmId rs)"
  unfolding indexes_def distinct_conv_nth by (metis length_map nth_map option.inject)

lemma indexes_update:
  assumes "indexes rs m" "n < length rs" "fr_flarmId r = fr_flarmId (rs ! n)"
  shows "indexes (rs[n := r]) m"
  using assms unfolding indexes_def by (metis length_list_update nth_list_update_eq nth_list_update_neq)

lemma indexes_append:
  assumes "indexes rs m" "m (fr_flarmId r) = None"
  shows "indexes (rs @ [r]) (m(fr_flarmId r \<mapsto> length rs))"
  unfolding indexes_def
proof (intro allI)
  fix i n
  have none: "\<not> (k < length rs \<and> fr_flarmId (rs ! k) = fr_flarmId r)" for k
    using assms unfolding indexes_def by (metis option.distinct(1))
  show "(m(fr_flarmId r \<mapsto> length rs)) i = Some n \<longleftrightarrow> n < length (rs @ [r]) \<and> fr_flarmId ((rs @ [r]) ! n) = i"
    using assms(1) none [of n] unfolding indexes_def by (auto simp: nth_append less_Suc_eq)
qed

lemma indexes_remove:
  assumes "indexes rs m" "m x = Some row"
  shows "indexes (take row rs @ drop (Suc row) rs) (rowsShifted row (m(x := None)))"
  unfolding indexes_def
proof (intro allI)
  fix i n
  have row: "row < length rs" "fr_flarmId (rs ! row) = x" using indexesD [OF assms] by simp_all
  let ?old = "if n < row then n else Suc n"
  have nth: "n < length (take row rs @ drop (Suc row) rs)
      \<Longrightarrow> (take row rs @ drop (Suc row) rs) ! n = rs ! ?old"
    using row by (auto simp: nth_append min_def)
  have len: "n < length (take row rs @ drop (Suc row) rs) \<longleftrightarrow> ?old < length rs" using row by auto
  have "rowsShifted row (m(x := None)) i = Some n \<longleftrightarrow> i \<noteq> x \<and> m i = Some ?old"
  proof
    assume "rowsShifted row (m(x := None)) i = Some n"
    then obtain k where "(m(x := None)) i = Some k" and n: "(if row < k then k - 1 else k) = n"
      unfolding rowsShifted_def map_option_eq_Some by blast
    then have k: "i \<noteq> x" "m i = Some k" by (cases "i = x"; simp)+
    have "k \<noteq> row" using indexesD [OF assms(1) k(2)] row k(1) by auto
    then show "i \<noteq> x \<and> m i = Some ?old" using k n by (auto split: if_splits)
  qed (auto simp: rowsShifted_def)
  also have "\<dots> \<longleftrightarrow> ?old < length rs \<and> fr_flarmId (rs ! ?old) = i"
  proof -
    define k where "k = ?old"
    have "k \<noteq> row" by (simp add: k_def)
    then have "m x \<noteq> Some k" using assms(2) by simp
    moreover have "m i = Some k \<longleftrightarrow> k < length rs \<and> fr_flarmId (rs ! k) = i"
      using assms(1) unfolding indexes_def by blast
    ultimately show ?thesis unfolding k_def [symmetric] by metis
  qed
  finally show "rowsShifted row (m(x := None)) i = Some n
      \<longleftrightarrow> n < length (take row rs @ drop (Suc row) rs) \<and> fr_flarmId ((take row rs @ drop (Suc row) rs) ! n) = i"
    using nth unfolding len by metis
qed

text \<open>No operation changes the FLARM id of a record.\<close>

lemma flarmId_stateTransition [simp]: "fr_flarmId (fst (stateTransition rng r)) = fr_flarmId r"
  by (cases "fr_state r"; cases "getSituation r") (simp_all add: transition_defs)

lemma flarmId_process [simp]: "fr_flarmId (fst (processPflaaSentence rng s r)) = fr_flarmId r"
  by (simp add: processPflaaSentence_def storeSentence_def Let_def)

lemma flarmId_step [simp]: "fr_flarmId (fst (flarm_step rng a r)) = fr_flarmId r"
  by (cases a) (simp_all add: flarm_step_def keepaliveTimeout_def landingTimeout_def emitIf_def setState_def Let_def
      split: flarm_state.split)

lemma flarmId_describe [simp]: "fr_flarmId (describeRecord x r) = fr_flarmId r"
  by (simp add: describeRecord_def Let_def split: option.split)

definition list_inv :: "flarmList \<Rightarrow> bool" where
  "list_inv l \<longleftrightarrow> indexes (ll_records l) (ll_byFlarmId l)"

lemma removeFlarmRecord_inv: "list_inv l \<Longrightarrow> list_inv (removeFlarmRecord i l)"
  by (auto simp: list_inv_def removeFlarmRecord_def intro: indexes_remove split: option.split)

lemma receiveSignals_inv: "list_inv l \<Longrightarrow> list_inv (fst (receiveSignals ss l))"
  by (induction ss l rule: receiveSignals.induct) (auto simp: removeFlarmRecord_inv split: prod.splits)

lemma ll_pflaaSentence_inv:
  assumes "list_inv l"
  shows "list_inv (fst (ll_pflaaSentence fe c rng valid s l))"
proof (cases "ll_byFlarmId l (ps_flarmId s)")
  case None
  have id: "fr_flarmId (newFlarmRecord (ps_flarmId s)) = ps_flarmId s" by (simp add: newFlarmRecord_def)
  show ?thesis
    using assms None
      indexes_append [of "ll_records l" "ll_byFlarmId l" "describeRecord (lookupPlane fe c (ps_flarmId s))
        (fst (processPflaaSentence rng s (newFlarmRecord (ps_flarmId s))))"]
    by (simp add: list_inv_def ll_pflaaSentence_def split_beta Let_def ll_size_def id)
next
  case (Some row)
  then have "row < length (ll_records l)" using assms by (auto simp: list_inv_def dest: indexesD)
  then show ?thesis using assms Some
    by (simp add: list_inv_def ll_pflaaSentence_def split_beta Let_def indexes_update)
qed

lemma fireTimer_inv: "list_inv l \<Longrightarrow> list_inv (fst (fireTimer rng a n l))"
  by (auto simp: fireTimer_def split_beta ll_size_def list_inv_def [of "l\<lparr>ll_list := x\<rparr>" for x] list_inv_def [of l]
      intro!: receiveSignals_inv indexes_update)

lemma list_step_inv: "list_inv l \<Longrightarrow> list_inv (fst (list_step fe c rng a l))"
  by (cases a) (auto simp: list_step_def ll_pflaaSentence_inv fireTimer_inv split_beta
      list_inv_def [of "l\<lparr>ll_orphans := x\<rparr>" for x] list_inv_def [of l] intro!: receiveSignals_inv)

lemma list_run_inv: "list_inv l \<Longrightarrow> list_inv (fst (list_run fe c rng as l))"
proof (induction "as" arbitrary: l)
  case (Cons a as)
  from Cons.IH [OF list_step_inv [OF Cons.prems, of fe c rng a]] show ?case by (simp add: split_beta)
qed simp

text \<open>C22: whatever is received and whichever timers fire, the list has one row per FLARM id, and the hash maps a
  FLARM id to a row exactly if that row shows the record of the id: rows are never mixed up when a
  record before them is removed.\<close>

theorem flarmList_consistent:
  "(let l = fst (list_run fe c rng as newFlarmList) in
     distinct (map fr_flarmId (ll_records l))
     \<and> (\<forall>i n. ll_byFlarmId l i = Some n \<longleftrightarrow> (\<exists>r. ll_at l n = Some r \<and> fr_flarmId r = i)))"
proof -
  have "list_inv newFlarmList" by (simp add: list_inv_def newFlarmList_def indexes_def)
  from list_run_inv [OF this, of fe c rng "as"] have l: "list_inv (fst (list_run fe c rng as newFlarmList))" .
  then show ?thesis using indexes_distinct [OF l [unfolded list_inv_def]]
    by (simp add: list_inv_def indexes_def ll_at_def ll_size_def Let_def)
qed

section \<open>Records that are removed\<close>

text \<open>Orphans are only added at the end.\<close>

definition keepsOrphan :: "nat \<Rightarrow> flarmList \<Rightarrow> flarmList \<Rightarrow> bool" where
  "keepsOrphan k l l' \<longleftrightarrow> (k < length (ll_orphans l) \<longrightarrow> k < length (ll_orphans l') \<and> ll_orphans l' ! k = ll_orphans l ! k)"

lemma keepsOrphan_trans: "keepsOrphan k l l' \<Longrightarrow> keepsOrphan k l' l'' \<Longrightarrow> keepsOrphan k l l''"
  by (simp add: keepsOrphan_def)

lemma keepsOrphan_remove: "keepsOrphan k l (removeFlarmRecord i l)"
  by (auto simp: keepsOrphan_def removeFlarmRecord_def nth_append split: option.split)

lemma keepsOrphan_receive: "keepsOrphan k l (fst (receiveSignals ss l))"
proof (induction ss l rule: receiveSignals.induct)
  case (2 i ss l)
  then show ?case using keepsOrphan_trans [OF keepsOrphan_remove] by simp
qed (simp_all add: keepsOrphan_def split_beta)

lemma keepsOrphan_fire: "keepsOrphan k l (fst (fireTimer rng a n l))"
  using keepsOrphan_receive by (auto simp: fireTimer_def split_beta keepsOrphan_def)

lemma keepsOrphan_step:
  assumes "a \<noteq> OrphanLanding k"
  shows "keepsOrphan k l (fst (list_step fe c rng a l))"
proof (cases a)
  case (ListSentence valid s)
  then show ?thesis
    by (auto simp: list_step_def ll_pflaaSentence_def keepsOrphan_def split_beta Let_def split: option.split)
next
  case (OrphanLanding n)
  then have "n \<noteq> k" using assms by simp
  then show ?thesis using OrphanLanding keepsOrphan_receive
    by (auto simp: list_step_def split_beta keepsOrphan_def)
qed (simp_all add: list_step_def keepsOrphan_fire)

lemma keepsOrphan_run:
  "OrphanLanding k \<notin> set as \<Longrightarrow> keepsOrphan k l (fst (list_run fe c rng as l))"
proof (induction "as" arbitrary: l)
  case Nil
  then show ?case by (simp add: keepsOrphan_def)
next
  case (Cons a as)
  then have "keepsOrphan k l (fst (list_step fe c rng a l))" by (intro keepsOrphan_step) auto
  moreover have "keepsOrphan k (fst (list_step fe c rng a l)) (fst (list_run fe c rng as (fst (list_step fe c rng a l))))"
    using Cons by simp
  ultimately show ?case by (auto simp: split_beta intro: keepsOrphan_trans)
qed

text \<open>A motorglider that has landed and goes out of range before its landing timer fires is taken from the
  list, but its record keeps its timer: whatever the list receives from then on, also that the plane
  is seen again and departs, the landing is told when the timer fires.\<close>

theorem removed_record_still_lands:
  assumes "list_inv l" "ll_at l n = Some r"
    and "fr_state r = stateOnGround" "fr_landingTimer r" "fr_keepaliveTimer r" "generalFilterMatch rng r"
    and "OrphanLanding (length (ll_orphans l)) \<notin> set as"
  shows "(let l1 = fst (list_step fe c rng (ListKeepalive n) l); l2 = fst (list_run fe c rng as l1) in
      ll_byFlarmId l1 (fr_flarmId r) = None
      \<and> snd (list_step fe c rng (OrphanLanding (length (ll_orphans l))) l2) = [landingDetected (fr_flarmId r)])"
proof -
  let ?r1 = "r\<lparr>fr_keepaliveTimer := False\<rparr>" and ?k = "length (ll_orphans l)"
  define l1 where "l1 = fst (list_step fe c rng (ListKeepalive n) l)"
  have n: "n < length (ll_records l)" "ll_records l ! n = r" using assms(2) by (auto simp: ll_at_def ll_size_def split: if_splits)
  have step: "flarm_step rng KeepaliveFires r = (?r1, [removeRecord (fr_flarmId r)])"
    using assms(3,5) by (simp add: flarm_step_def keepaliveTimeout_def Let_def)
  have idx: "ll_byFlarmId l (fr_flarmId r) = Some n" using assms(1) n by (simp add: list_inv_def indexes_def)
  have l1: "l1 = removeFlarmRecord (fr_flarmId r) (l\<lparr>ll_list := (ll_list l)\<lparr>rows := (ll_records l)[n := ?r1]\<rparr>\<rparr>)"
    using n step by (simp add: l1_def list_step_def fireTimer_def ll_size_def)
  have gone: "ll_byFlarmId l1 (fr_flarmId r) = None" "ll_orphans l1 = ll_orphans l @ [?r1]"
    using idx n(1) by (simp_all add: l1 removeFlarmRecord_def rowsShifted_def)
  have keeps: "keepsOrphan ?k l1 (fst (list_run fe c rng as l1))" by (rule keepsOrphan_run [OF assms(7)])
  then have k: "?k < length (ll_orphans (fst (list_run fe c rng as l1)))" "ll_orphans (fst (list_run fe c rng as l1)) ! ?k = ?r1"
    using gone(2) by (simp_all add: keepsOrphan_def)
  have "generalFilterMatch rng (?r1\<lparr>fr_landingTimer := False\<rparr>)" using assms(6) by (simp add: generalFilterMatch_def)
  then have "snd (flarm_step rng LandingFires ?r1) = [landingDetected (fr_flarmId r)]"
    using assms(3,4) by (simp add: flarm_step_def landingTimeout_def emitIf_def Let_def)
  then have "snd (list_step fe c rng (OrphanLanding ?k) (fst (list_run fe c rng as l1))) = [landingDetected (fr_flarmId r)]"
    using k by (simp add: list_step_def split_beta)
  then show ?thesis using gone(1) by (simp add: Let_def l1_def)
qed

text \<open>A motorglider whose landing timer runs, that disappears, comes back, departs, and is told to have landed.\<close>

definition seen :: "int \<Rightarrow> int \<Rightarrow> list_input" where
  "seen speed altitude = ListSentence True
     \<lparr>ps_relativeNorth = 0, ps_relativeEast = 0, ps_relativeVertical = altitude, ps_flarmId = ''DDA1B2'', ps_groundSpeed = speed\<rparr>"

definition landedList :: flarmList where
  "landedList = (let r = (newFlarmRecord ''DDA1B2'')\<lparr>fr_state := stateOnGround, fr_category := categoryMotorglider,
       fr_landingTimer := True\<rparr>
     in \<lparr>ll_list = mkList [r], ll_byFlarmId = [''DDA1B2'' \<mapsto> 0], ll_orphans = []\<rparr>)"

theorem removed_record_still_lands_witness:
  "snd (list_run False newCache 0 [seen 0 0, seen 20 20] (fst (list_step False newCache 0 (ListKeepalive 0) landedList)))
     = [departureDetected ''DDA1B2'']
   \<and> snd (list_step False newCache 0 (OrphanLanding 0) (fst (list_run False newCache 0 [seen 0 0, seen 20 20]
        (fst (list_step False newCache 0 (ListKeepalive 0) landedList))))) = [landingDetected ''DDA1B2'']"
proof -
  let ?r = "(newFlarmRecord ''DDA1B2'')\<lparr>fr_state := stateOnGround, fr_category := categoryMotorglider, fr_landingTimer := True\<rparr>"
  have inv: "list_inv landedList" "ll_at landedList 0 = Some ?r"
    by (auto simp: list_inv_def landedList_def indexes_def newFlarmRecord_def ll_at_def ll_size_def Let_def)
  have "fr_state ?r = stateOnGround" "fr_landingTimer ?r" "fr_keepaliveTimer ?r" "generalFilterMatch 0 ?r"
    "OrphanLanding (length (ll_orphans landedList)) \<notin> set [seen 0 0, seen 20 20]"
    by (simp_all add: newFlarmRecord_def generalFilterMatch_def seen_def)
  note removed_record_still_lands [OF inv this, of False newCache]
  moreover have "ll_orphans landedList = []" "fr_flarmId ?r = ''DDA1B2''"
    by (simp_all add: landedList_def newFlarmRecord_def Let_def)
  moreover have "lookupPlane False newCache x = nothing" for x
    by (simp add: lookupPlane_def lookupPlaneByFlarmId_def getPlaneIdByFlarmId_def newCache_def mh_contains_def
        idValid_def idInvalid_def invalidId_def nothing_def)
  then have "snd (list_run False newCache 0 [seen 0 0, seen 20 20] (fst (list_step False newCache 0 (ListKeepalive 0) landedList)))
     = [departureDetected ''DDA1B2'']"
    by (simp add: landedList_def list_step_def fireTimer_def ll_size_def flarm_step_def keepaliveTimeout_def
        newFlarmRecord_def removeFlarmRecord_def rowsShifted_def seen_def ll_pflaaSentence_def Let_def
        processPflaaSentence_def storeSentence_def isPlausible_def transition_defs getSituation_def
        generalFilterMatch_def describeRecord_def nothing_def truncatePositions.simps)
  ultimately show ?thesis by (simp add: Let_def)
qed

end
