(* ===== verification/Sk_MainFlights.thy ===== *)
theory Sk_MainFlights
  imports Sk_FlarmLookup
begin

text \<open>
  The flight operations of the main window, \<^verbatim>\<open>src/src/gui/windows/MainWindow.cpp\<close>: departing and
  landing flights on request of the user, and handling the departures, landings and touch-and-goes
  that the FLARM list detects, with the trackers of \<^verbatim>\<open>src/src/time/EventTimeTracker.cpp\<close> that
  suppress events told twice. An update of the database reaches the cache as the event the database
  announces. What the user answers and the settings are parameters.
\<close>

section \<open>Event trackers\<close>

type_synonym event_tracker = "qstring \<rightharpoonup> int"

definition eventNow :: "int \<Rightarrow> qstring \<Rightarrow> event_tracker \<Rightarrow> event_tracker" where
  "eventNow now value t = t(value \<mapsto> now)"

definition timeSinceEvent :: "int \<Rightarrow> qstring \<Rightarrow> event_tracker \<Rightarrow> qtime" where
  "timeSinceEvent now value t = addSecs midnight (secsTo (t value) (Some now))"

definition eventWithin :: "int \<Rightarrow> qstring \<Rightarrow> int \<Rightarrow> event_tracker \<Rightarrow> bool" where
  "eventWithin now value spanSeconds t =
     (case t value of None \<Rightarrow> False | Some lastTime \<Rightarrow> secsTo (Some lastTime) (Some now) \<le> spanSeconds)"

section \<open>The main window\<close>

record main_window =
  mw_cache :: cache
  mw_departures :: event_tracker
  mw_landings :: event_tracker
  mw_touchngos :: event_tracker

text \<open>The settings, the clock, the memory new flights are built in, the id the database gives to a new
  flight, whether the user cancels the update of the database, and the answer to each question.\<close>

datatype main_question = planeStillFlying plane qstring | personStillFlying person qstring

record main_env =
  en_settings :: settings
  en_flarmEnabled :: bool
  en_flarmAutoDepartures :: bool
  en_flarmNetEnabled :: bool
  en_preselectedLaunchMethod :: dbId
  en_now :: int
  en_mem :: flight
  en_newId :: dbId
  en_canceled :: bool
  en_yes :: "main_question \<Rightarrow> bool"

text \<open>The notifications and warnings that are shown.\<close>

datatype main_notice =
    noticeDeparted flightReference | noticeLanded flightReference | noticeTouchngo flightReference
  | noticeCreated flightReference | warnDepart qstring | warnLand qstring | warnTouchngo qstring

text \<open>The database announces a stored flight, and the cache handles the event.\<close>

definition announce :: "db_event \<Rightarrow> main_window \<Rightarrow> main_window" where
  "announce e w = (case dbChanged e (mw_cache w) of Some (c, _) \<Rightarrow> w\<lparr>mw_cache := c\<rparr> | None \<Rightarrow> w)"

definition updateFlight :: "main_env \<Rightarrow> flight \<Rightarrow> main_window \<Rightarrow> bool \<times> main_window" where
  "updateFlight en f w =
     (if en_canceled en then (False, w) else (True, announce (ev_changed (ValueFlight f)) w))"

text \<open>\<open>None\<close>: the user cancels, which is an exception here. The result is the id of the new flight.\<close>

definition createFlight :: "main_env \<Rightarrow> flight \<Rightarrow> main_window \<Rightarrow> (dbId \<times> main_window) option" where
  "createFlight en f w =
     (if en_canceled en then None
      else Some (en_newId en, announce (ev_added (ValueFlight (f\<lparr>getId := en_newId en\<rparr>))) w))"

definition determineFlarmId :: "flight \<Rightarrow> cache \<Rightarrow> dbId \<Rightarrow> bool \<Rightarrow> qstring" where
  "determineFlarmId mem c flightId ofTowflight =
     (case getObject (flightsById c) flightId of
        Inl _ \<Rightarrow> []
      | Inr f0 \<Rightarrow>
          (let f = (if ofTowflight then makeTowflightFrom mem (cacheView c) f0 else f0) in
           if getFlarmId f \<noteq> [] then getFlarmId f
           else if idValid (getPlaneId f)
           then (case getObject (planesById c) (getPlaneId f) of
                   Inl _ \<Rightarrow> [] | Inr p \<Rightarrow> if pl_flarmId p \<noteq> [] then pl_flarmId p else [])
           else []))"

definition track :: "int \<Rightarrow> qstring \<Rightarrow> event_tracker \<Rightarrow> event_tracker" where
  "track now flarmId t = (if flarmId \<noteq> [] then eventNow now flarmId t else t)"

definition flightDeparted :: "main_env \<Rightarrow> dbId \<Rightarrow> main_window \<Rightarrow> main_window" where
  "flightDeparted en i w = w\<lparr>mw_departures :=
     track (en_now en) (determineFlarmId (en_mem en) (mw_cache w) i True)
       (track (en_now en) (determineFlarmId (en_mem en) (mw_cache w) i False) (mw_departures w))\<rparr>"

definition flightLanded :: "main_env \<Rightarrow> dbId \<Rightarrow> main_window \<Rightarrow> main_window" where
  "flightLanded en i w = w\<lparr>mw_landings :=
     track (en_now en) (determineFlarmId (en_mem en) (mw_cache w) i False) (mw_landings w)\<rparr>"

definition towflightLanded :: "main_env \<Rightarrow> dbId \<Rightarrow> main_window \<Rightarrow> main_window" where
  "towflightLanded en i w = w\<lparr>mw_landings :=
     track (en_now en) (determineFlarmId (en_mem en) (mw_cache w) i True) (mw_landings w)\<rparr>"

definition touchAndGoPerformed :: "main_env \<Rightarrow> dbId \<Rightarrow> main_window \<Rightarrow> main_window" where
  "touchAndGoPerformed en i w = w\<lparr>mw_touchngos :=
     track (en_now en) (determineFlarmId (en_mem en) (mw_cache w) i False) (mw_touchngos w)\<rparr>"

section \<open>Operations of the user\<close>

text \<open>Both the answer no and an object that is not found end the departure.\<close>

definition checkPlaneFlying :: "main_env \<Rightarrow> cache \<Rightarrow> dbId \<Rightarrow> qstring \<Rightarrow> bool" where
  "checkPlaneFlying en c i description =
     (if idValid i \<and> planeFlying c i \<noteq> 0
      then (case getObject (planesById c) i of
              Inl _ \<Rightarrow> False | Inr p \<Rightarrow> en_yes en (planeStillFlying p description))
      else True)"

definition checkPersonFlying :: "main_env \<Rightarrow> cache \<Rightarrow> dbId \<Rightarrow> qstring \<Rightarrow> bool" where
  "checkPersonFlying en c i description =
     (if idValid i \<and> personFlying c i \<noteq> 0
      then (case getObject (peopleById c) i of
              Inl _ \<Rightarrow> False | Inr p \<Rightarrow> en_yes en (personStillFlying p description))
      else True)"

text \<open>The common end of the operations: perform the action, store the flight, and, unless the user cancels,
  tell the tracker (\<open>done\<close>).\<close>

definition actOnFlight ::
    "main_env \<Rightarrow> (flight \<Rightarrow> bool \<times> flight) \<Rightarrow> (dbId \<Rightarrow> main_window \<Rightarrow> main_window) \<Rightarrow> flight \<Rightarrow> dbId
      \<Rightarrow> main_window \<Rightarrow> bool \<times> main_window" where
  "actOnFlight en act done f i w =
     (case updateFlight en (snd (act f)) w of
        (ok, w') \<Rightarrow> (ok, if ok then done i w' else w'))"

abbreviation departAct :: "main_env \<Rightarrow> flight \<Rightarrow> bool \<times> flight" where
  "departAct en \<equiv> departNow (Some (en_now en)) False"
abbreviation landAct :: "main_env \<Rightarrow> flight \<Rightarrow> bool \<times> flight" where
  "landAct en \<equiv> landNow (en_settings en) (Some (en_now en)) False"
abbreviation landTowAct :: "main_env \<Rightarrow> flight \<Rightarrow> bool \<times> flight" where
  "landTowAct en \<equiv> landTowflightNow (en_settings en) (Some (en_now en)) False"
abbreviation touchngoAct :: "flight \<Rightarrow> bool \<times> flight" where
  "touchngoAct \<equiv> performTouchngo False"

definition pilotDescription :: "flight \<Rightarrow> qstring" where
  "pilotDescription f = typePilotDescription (getType f)"
definition copilotDescription :: "flight \<Rightarrow> qstring" where
  "copilotDescription f = typeCopilotDescription (getType f)"
definition towpilotDescription :: "flight \<Rightarrow> qstring" where
  "towpilotDescription f = ''Towpilot''"
definition copilotRecorded :: "flight \<Rightarrow> bool" where
  "copilotRecorded f = typeCopilotRecorded (getType f)"

definition departureChecks :: "main_env \<Rightarrow> cache \<Rightarrow> flight \<Rightarrow> bool" where
  "departureChecks en c f =
     (let airtow = isAirtow (cacheView c) f in
      if \<not> checkPlaneFlying en c (getPlaneId f) ''plane'' then False
      else if airtow \<and> \<not> checkPlaneFlying en c (effectiveTowplaneId (cacheView c) f) ''towplane'' then False
      else if \<not> checkPersonFlying en c (getPilotId f) (pilotDescription f) then False
      else if copilotRecorded f \<and> \<not> checkPersonFlying en c (getCopilotId f) (copilotDescription f) then False
      else if airtow \<and> set_recordTowpilot (en_settings en)
              \<and> \<not> checkPersonFlying en c (getTowpilotId f) (towpilotDescription f) then False
      else True)"

definition interactiveDepartFlight :: "main_env \<Rightarrow> dbId \<Rightarrow> main_window \<Rightarrow> main_window \<times> main_notice list" where
  "interactiveDepartFlight en i w =
     (if idInvalid i then (w, [])
      else (case getObject (flightsById (mw_cache w)) i of
          Inl _ \<Rightarrow> (w, [])
        | Inr f \<Rightarrow> (case canDepartReason f of
            Some reason \<Rightarrow> (w, [warnDepart reason])
          | None \<Rightarrow>
              if departureChecks en (mw_cache w) f
              then (snd (actOnFlight en (departAct en) (flightDeparted en) f i w), [])
              else (w, []))))"

definition interactiveLandFlight :: "main_env \<Rightarrow> dbId \<Rightarrow> main_window \<Rightarrow> main_window \<times> main_notice list" where
  "interactiveLandFlight en i w =
     (if idInvalid i then (w, [])
      else (case getObject (flightsById (mw_cache w)) i of
          Inl _ \<Rightarrow> (w, [])
        | Inr f \<Rightarrow> (case canLandReason f of
            Some reason \<Rightarrow> (w, [warnLand reason])
          | None \<Rightarrow> (snd (actOnFlight en (landAct en) (flightLanded en) f i w), []))))"

definition interactiveTouchAndGo :: "main_env \<Rightarrow> dbId \<Rightarrow> main_window \<Rightarrow> main_window \<times> main_notice list" where
  "interactiveTouchAndGo en i w =
     (if idInvalid i then (w, [])
      else (case getObject (flightsById (mw_cache w)) i of
          Inl _ \<Rightarrow> (w, [])
        | Inr f \<Rightarrow> (case canTouchngoReason f of
            Some reason \<Rightarrow> (w, [warnTouchngo reason])
          | None \<Rightarrow> (snd (actOnFlight en touchngoAct (touchAndGoPerformed en) f i w), []))))"

definition interactiveLandTowflight :: "main_env \<Rightarrow> dbId \<Rightarrow> main_window \<Rightarrow> main_window \<times> main_notice list" where
  "interactiveLandTowflight en i w =
     (if idInvalid i then (w, [])
      else (case getObject (flightsById (mw_cache w)) i of
          Inl _ \<Rightarrow> (w, [])
        | Inr f \<Rightarrow> (case canTowflightLandReason f of
            Some reason \<Rightarrow> (w, [warnLand reason])
          | None \<Rightarrow> (snd (actOnFlight en (landTowAct en) (towflightLanded en) f i w), []))))"

text \<open>The actions of the menu on the selected row, and the key that departs or lands.\<close>

definition on_actionLand :: "main_env \<Rightarrow> flightReference \<Rightarrow> main_window \<Rightarrow> main_window \<times> main_notice list" where
  "on_actionLand en r w =
     (if rf_towflight r then interactiveLandTowflight en (rf_id r) w else interactiveLandFlight en (rf_id r) w)"

definition on_actionTouchngo :: "main_env \<Rightarrow> flightReference \<Rightarrow> main_window \<Rightarrow> main_window \<times> main_notice list" where
  "on_actionTouchngo en r w =
     (if rf_towflight r
      then (w, [warnTouchngo ''The selected flight is a towflight. Towflights cannot perform a touch-and-go.''])
      else interactiveTouchAndGo en (rf_id r) w)"

definition departOrLand :: "main_env \<Rightarrow> flightReference \<Rightarrow> main_window \<Rightarrow> main_window" where
  "departOrLand en r w =
     (if \<not> rf_isValid r then w
      else (case getObject (flightsById (mw_cache w)) (rf_id r) of
          Inl _ \<Rightarrow> w
        | Inr f \<Rightarrow>
            if canDepart f then snd (actOnFlight en (departAct en) (flightDeparted en) f (rf_id r) w)
            else if rf_towflight r \<and> canTowflightLand f
            then snd (actOnFlight en (landTowAct en) (towflightLanded en) f (rf_id r) w)
            else if \<not> rf_towflight r \<and> canLand f
            then snd (actOnFlight en (landAct en) (flightLanded en) f (rf_id r) w)
            else w))"

section \<open>Operations on detected events\<close>

text \<open>A departure is reported as performed also if its update was cancelled.\<close>

definition nonInteractiveDepartFlight :: "main_env \<Rightarrow> dbId \<Rightarrow> main_window \<Rightarrow> bool \<times> main_window" where
  "nonInteractiveDepartFlight en i w =
     (case getObject (flightsById (mw_cache w)) i of
        Inl _ \<Rightarrow> (False, w)
      | Inr f \<Rightarrow>
          if canDepart f then (True, snd (actOnFlight en (departAct en) (flightDeparted en) f i w)) else (False, w))"

definition nonInteractiveLandFlight :: "main_env \<Rightarrow> dbId \<Rightarrow> main_window \<Rightarrow> bool \<times> main_window" where
  "nonInteractiveLandFlight en i w =
     (case getObject (flightsById (mw_cache w)) i of
        Inl _ \<Rightarrow> (False, w)
      | Inr f \<Rightarrow> if canLand f then actOnFlight en (landAct en) (flightLanded en) f i w else (False, w))"

definition nonInteractiveLandTowflight :: "main_env \<Rightarrow> dbId \<Rightarrow> main_window \<Rightarrow> bool \<times> main_window" where
  "nonInteractiveLandTowflight en i w =
     (case getObject (flightsById (mw_cache w)) i of
        Inl _ \<Rightarrow> (False, w)
      | Inr f \<Rightarrow>
          if canTowflightLand f then actOnFlight en (landTowAct en) (towflightLanded en) f i w else (False, w))"

definition nonInteractiveTouchAndGo :: "main_env \<Rightarrow> dbId \<Rightarrow> main_window \<Rightarrow> bool \<times> main_window" where
  "nonInteractiveTouchAndGo en i w =
     (case getObject (flightsById (mw_cache w)) i of
        Inl _ \<Rightarrow> (False, w)
      | Inr f \<Rightarrow> if canTouchngo f then actOnFlight en touchngoAct (touchAndGoPerformed en) f i w else (False, w))"

definition createFlarmFlight :: "flight \<Rightarrow> flight_lookup \<Rightarrow> qstring \<Rightarrow> flight" where
  "createFlarmFlight mem r flarmId =
     (let f = newFlight mem invalidId;
          f1 = (case fl_plane r of Some p \<Rightarrow> dataChanged (f\<lparr>getPlaneId := pl_id p\<rparr>) | None \<Rightarrow> f);
          f2 = dataChanged (f1\<lparr>getFlarmId := flarmId\<rparr>)
      in (case fl_flarmNetRecord r of
            Some n \<Rightarrow> dataChanged (f2\<lparr>getComments := qArg ''Registration from FlarmNet: %1'' (fn_registration n)\<rparr>)
          | None \<Rightarrow> f2))"

text \<open>A flight is created, stored and told to the tracker.\<close>

definition createdFlight ::
    "main_env \<Rightarrow> (dbId \<Rightarrow> main_window \<Rightarrow> main_window) \<Rightarrow> flight \<Rightarrow> main_window \<Rightarrow> (main_window \<times> main_notice list) option" where
  "createdFlight en done f w =
     (case createFlight en f w of
        None \<Rightarrow> None
      | Some (i, w') \<Rightarrow>
          Some (done i w', if idValid i then [noticeCreated \<lparr>rf_id = i, rf_towflight = False\<rparr>] else []))"

definition ignoreInterval :: int where
  "ignoreInterval = 10"

definition departureCandidates :: "main_env \<Rightarrow> cache \<Rightarrow> flight list" where
  "departureCandidates en c = getPreparedFlights (en_mem en) c True @ getFlyingFlights (en_mem en) c True"

text \<open>The handlers; \<open>None\<close> is the exception that leaves the slot when the user cancels the creation of a
  flight.\<close>

definition flarmList_departureDetected ::
    "main_env \<Rightarrow> qstring \<Rightarrow> main_window \<Rightarrow> (main_window \<times> main_notice list) option" where
  "flarmList_departureDetected en flarmId w =
     (if \<not> (en_flarmEnabled en \<and> en_flarmAutoDepartures en) then Some (w, [])
      else if eventWithin (en_now en) flarmId ignoreInterval (mw_departures w) then Some (w, [])
      else (let flights = departureCandidates en (mw_cache w);
                r = lookupFlight (en_flarmNetEnabled en) (mw_cache w) flights flarmId
            in if rf_isValid (fl_reference r)
               then (case getObject (flightsById (mw_cache w)) (rf_id (fl_reference r)) of
                   Inl _ \<Rightarrow> Some (w, [])
                 | Inr f \<Rightarrow>
                     if isFlying f then Some (w, [])
                     else (let (departed, w') = nonInteractiveDepartFlight en (rf_id (fl_reference r)) w in
                           Some (w', if departed then [noticeDeparted (fl_reference r)] else [])))
               else (let f = createFlarmFlight (en_mem en) r flarmId;
                         f1 = dataChanged (f\<lparr>getMode := modeLocal\<rparr>);
                         f2 = dataChanged (f1\<lparr>getLaunchMethodId := en_preselectedLaunchMethod en\<rparr>);
                         f3 = snd (departNowAt (Some (en_now en)) (set_location (en_settings en)) False f2)
                     in createdFlight en (flightDeparted en) f3 w)))"

definition flarmList_landingDetected ::
    "main_env \<Rightarrow> qstring \<Rightarrow> main_window \<Rightarrow> (main_window \<times> main_notice list) option" where
  "flarmList_landingDetected en flarmId w =
     (if \<not> (en_flarmEnabled en \<and> en_flarmAutoDepartures en) then Some (w, [])
      else if eventWithin (en_now en) flarmId ignoreInterval (mw_landings w) then Some (w, [])
      else (let flights = getFlyingFlights (en_mem en) (mw_cache w) True;
                r = lookupFlight (en_flarmNetEnabled en) (mw_cache w) flights flarmId
            in if rf_isValid (fl_reference r)
               then (let (landed, w') =
                       (if rf_towflight (fl_reference r) then nonInteractiveLandTowflight en (rf_id (fl_reference r)) w
                        else nonInteractiveLandFlight en (rf_id (fl_reference r)) w)
                     in Some (w', if landed then [noticeLanded (fl_reference r)] else []))
               else (let f = createFlarmFlight (en_mem en) r flarmId;
                         f1 = dataChanged (f\<lparr>getMode := modeComing\<rparr>);
                         f2 = snd (landNowAt (en_settings en) (Some (en_now en)) (set_location (en_settings en)) False f1)
                     in createdFlight en (flightLanded en) f2 w)))"

definition flarmList_touchAndGoDetected ::
    "main_env \<Rightarrow> qstring \<Rightarrow> main_window \<Rightarrow> (main_window \<times> main_notice list) option" where
  "flarmList_touchAndGoDetected en flarmId w =
     (if \<not> (en_flarmEnabled en \<and> en_flarmAutoDepartures en) then Some (w, [])
      else if eventWithin (en_now en) flarmId ignoreInterval (mw_touchngos w) then Some (w, [])
      else (let flights = getFlyingFlights (en_mem en) (mw_cache w) True;
                r = lookupFlight (en_flarmNetEnabled en) (mw_cache w) flights flarmId
            in if rf_isValid (fl_reference r)
               then (if rf_towflight (fl_reference r) then Some (w, [])
                     else (let (performed, w') = nonInteractiveTouchAndGo en (rf_id (fl_reference r)) w
                           in Some (w', if performed then [noticeTouchngo (fl_reference r)] else [])))
               else (let f = createFlarmFlight (en_mem en) r flarmId;
                         f1 = dataChanged (f\<lparr>getMode := modeComing\<rparr>);
                         f2 = snd (performTouchngo False f1)
                     in createdFlight en (touchAndGoPerformed en) f2 w)))"

section \<open>What an event does to the cache\<close>

lemma announce_added:
  "announce (ev_added (ValueFlight f)) w = w\<lparr>mw_cache := flightAdded f (mw_cache w)\<rparr>"
  by (simp add: announce_def dbChanged_def ev_added_def handleDbChangedFlight_def)

lemma announce_changed:
  "announce (ev_changed (ValueFlight f)) w = w\<lparr>mw_cache := flightUpdated f (mw_cache w)\<rparr>"
  by (simp add: announce_def dbChanged_def ev_changed_def handleDbChangedFlight_def)

text \<open>What the lookups read of the cache is not changed by an event of a flight.\<close>

lemma parts_lookups:
  assumes "planePart c' = planePart c" "smallPart c' = smallPart c" "flarmPart c' = flarmPart c"
  shows "planesById c' = planesById c" "cacheView c' = cacheView c" "lookupPlane fe c' x = lookupPlane fe c x"
proof -
  have ids: "planesById c' = planesById c" "flarmNetRecordsById c' = flarmNetRecordsById c"
    "launchMethodsById c' = launchMethodsById c"
    using assms by (simp_all add: part_defs)
  have lookups: "getLaunchMethodByType c' = getLaunchMethodByType c"
    "getPlaneIdByFlarmId c' = getPlaneIdByFlarmId c" "getPlaneIdByRegistration c' = getPlaneIdByRegistration c"
    "getFlarmNetRecordIdByFlarmId c' = getFlarmNetRecordIdByFlarmId c"
    using assms by (auto simp: part_defs fun_eq_iff getPlaneIdByFlarmId_def getPlaneIdByRegistration_def
        getFlarmNetRecordIdByFlarmId_def getLaunchMethodByType_def)
  from ids show "planesById c' = planesById c" by simp
  show "cacheView c' = cacheView c"
    by (simp add: cacheView_def ids lookups)
  have "lookupPlaneByFlarmId c' = lookupPlaneByFlarmId c"
    "lookupPlaneByFlarmNetDatabase c' = lookupPlaneByFlarmNetDatabase c"
    unfolding fun_eq_iff lookupPlaneByFlarmId_def lookupPlaneByFlarmNetDatabase_def ids lookups by simp_all
  then show "lookupPlane fe c' x = lookupPlane fe c x" by (simp add: lookupPlane_def Let_def)
qed

lemma flight_event_lookups:
  "planesById (flightAdded f c) = planesById c" "cacheView (flightAdded f c) = cacheView c"
  "lookupPlane fe (flightAdded f c) x = lookupPlane fe c x"
  "planesById (flightUpdated f c) = planesById c" "cacheView (flightUpdated f c) = cacheView c"
  "lookupPlane fe (flightUpdated f c) x = lookupPlane fe c x"
  using parts_lookups [of "flightAdded f c" c] parts_lookups [of "flightUpdated f c" c]
    flight_handlers_frame(1-4) [of f c] flight_handlers_frame(6) [OF refl, of f c] by simp_all

lemma flight_event_dates:
  "todayDate (flightAdded f c) = todayDate c" "otherDate (flightAdded f c) = otherDate c"
  "todayDate (flightUpdated f c) = todayDate c" "otherDate (flightUpdated f c) = otherDate c"
  using flightAdded_lists(4,5) [of f c] flightUpdated_lists [of f c] by auto

lemma flight_event_byId:
  "interesting c f \<Longrightarrow> flightsById (flightAdded f c) (getId f) = Some f"
  "interesting c f \<Longrightarrow> flightsById (flightUpdated f c) (getId f) = Some f"
  using flightAdded_lists(6) [of f c] flightUpdated_lists [of f c] by auto

section \<open>The candidates\<close>

lemma getFlyingFlights_eq:
  "getFlyingFlights mem c b = filter isFlying (getFlightsToday mem c b @ getPreparedFlights mem c False)"
proof -
  have "foldl (\<lambda>result f. if isFlying f then result @ [f] else result) acc fs = acc @ filter isFlying fs"
    for acc and fs :: "flight list"
    by (induction fs arbitrary: acc) auto
  then show ?thesis by (simp add: getFlyingFlights_def)
qed

text \<open>A candidate is a flight of the cache or the towflight of one.\<close>

definition candidateOf :: "flight \<Rightarrow> cache \<Rightarrow> flight \<Rightarrow> flight \<Rightarrow> bool" where
  "candidateOf mem c f g \<longleftrightarrow> g = f \<or> (isAirtow (cacheView c) f \<and> g = makeTowflightFrom mem (cacheView c) f)"

lemma candidate_cases:
  assumes "g \<in> set (departureCandidates en c) \<or> g \<in> set (getFlyingFlights (en_mem en) c True)"
  shows "\<exists>f \<in> set (flightsToday c) \<union> set (preparedFlights c). candidateOf (en_mem en) c f g"
  using assms
  by (auto simp: departureCandidates_def getFlyingFlights_eq getFlightsToday_def getPreparedFlights_def
      makeTowflights_eq candidateOf_def)

lemma firstFlight_Some: "firstFlight P fs = Some f \<Longrightarrow> f \<in> set fs \<and> P f"
  by (induction fs) (auto split: if_splits)

lemma firstFlight_None: "firstFlight P fs = None \<longleftrightarrow> (\<forall>f \<in> set fs. \<not> P f)"
  by (induction fs) auto

text \<open>What a lookup that finds a flight has found.\<close>

lemma lookupFlight_found:
  assumes "rf_isValid (fl_reference (lookupFlight fe c fs x))"
  shows "\<exists>g \<in> set fs. fl_reference (lookupFlight fe c fs x) = rf_of g
    \<and> (fl_plane (lookupFlight fe c fs x) = None \<and> getFlarmId g = x
      \<or> (\<exists>p. fl_plane (lookupFlight fe c fs x) = Some p \<and> lr_plane (lookupPlane fe c x) = Some p \<and> getPlaneId g = pl_id p))"
proof -
  have inv: "\<not> rf_isValid rf_invalid" by (simp add: rf_isValid_def rf_invalid_def idValid_def idInvalid_def invalidId_def)
  show ?thesis
  proof (cases "rf_isValid (fl_reference (lookupFlightByFlarmId fs x))")
    case True
    then obtain g where g: "firstFlight (\<lambda>f. getFlarmId f = x) fs = Some g"
      using inv by (auto simp: lookupFlightByFlarmId_def flightNothing_def split: option.splits)
    then show ?thesis using True firstFlight_Some [OF g]
      by (auto simp: lookupFlight_def lookupFlightByFlarmId_def)
  next
    case False
    then have eq: "lookupFlight fe c fs x = lookupFlightByPlane fe c fs x" by (simp add: lookupFlight_def)
    then obtain p where p: "lr_plane (lookupPlane fe c x) = Some p"
      using assms inv by (auto simp: lookupFlightByPlane_def Let_def split: option.splits)
    then obtain g where g: "firstFlight (\<lambda>f. getPlaneId f = pl_id p) fs = Some g"
      using assms inv eq by (auto simp: lookupFlightByPlane_def Let_def split: option.splits)
    then show ?thesis using p firstFlight_Some [OF g] by (auto simp: eq lookupFlightByPlane_def Let_def)
  qed
qed

section \<open>The tracked FLARM id\<close>

lemma determine_own:
  assumes "flightsById c i = Some f" "i \<noteq> 0" "getFlarmId f \<noteq> []"
  shows "determineFlarmId mem c i False = getFlarmId f"
  using assms by (simp add: determineFlarmId_def getObject_def idInvalid_def invalidId_def Let_def)

lemma determine_plane:
  assumes "flightsById c i = Some f" "i \<noteq> 0" "getFlarmId f = []"
    and "getPlaneId f = pl_id p" "pl_id p \<noteq> 0" "planesById c (pl_id p) = Some p"
  shows "determineFlarmId mem c i False = pl_flarmId p"
  using assms by (simp add: determineFlarmId_def getObject_def idInvalid_def idValid_def invalidId_def Let_def)

lemma tow_flarmId [simp]: "getFlarmId (makeTowflightFrom mem cv f) = []"
  by (simp add: makeTowflightFrom_def makeTowflight_def)

lemma determine_tow:
  assumes "flightsById c i = Some f" "i \<noteq> 0"
    and "effectiveTowplaneId (cacheView c) f = pl_id p" "pl_id p \<noteq> 0" "planesById c (pl_id p) = Some p"
  shows "determineFlarmId mem c i True = pl_flarmId p"
proof -
  have "getPlaneId (makeTowflightFrom mem (cacheView c) f) = pl_id p" using assms(3) by (simp add: makeTowflightFrom_def)
  then show ?thesis
    using assms by (simp add: determineFlarmId_def getObject_def idInvalid_def idValid_def invalidId_def Let_def)
qed

section \<open>The actions keep a flight in the cache\<close>

lemma minute_day: "(t - t mod 60000) div 86400000 = t div (86400000::int)"
proof -
  have "t - t mod 60000 = 60000 * (t div 60000)" by (simp add: minus_mod_eq_mult_div)
  moreover have "(60000 * (t div 60000)) div 86400000 = (t div 60000) div 1440"
    using div_mult_mult1 [of 60000 "t div 60000" 1440] by simp
  moreover have "t div 60000 div 1440 = t div 86400000" using zdiv_zmult2_eq [of 1440 t 60000] by simp
  ultimately show ?thesis by simp
qed

lemmas act_defs = departNow_def landNow_def landTowflightNow_def performTouchngo_def flight_setters Let_def

lemma act_fields [simp]:
  "getId (snd (departNow t b f)) = getId f" "getFlarmId (snd (departNow t b f)) = getFlarmId f" "getPlaneId (snd (departNow t b f)) = getPlaneId f"
  "getId (snd (landNow s t b f)) = getId f" "getFlarmId (snd (landNow s t b f)) = getFlarmId f" "getPlaneId (snd (landNow s t b f)) = getPlaneId f"
  "getId (snd (landTowflightNow s t b f)) = getId f" "getFlarmId (snd (landTowflightNow s t b f)) = getFlarmId f" "getPlaneId (snd (landTowflightNow s t b f)) = getPlaneId f"
  "getId (snd (performTouchngo b f)) = getId f" "getFlarmId (snd (performTouchngo b f)) = getFlarmId f" "getPlaneId (snd (performTouchngo b f)) = getPlaneId f"
  "getLaunchMethodId (snd (departNow t b f)) = getLaunchMethodId f" "getTowplaneId (snd (departNow t b f)) = getTowplaneId f"
  "getLaunchMethodId (snd (landNow s t b f)) = getLaunchMethodId f" "getTowplaneId (snd (landNow s t b f)) = getTowplaneId f"
  "getLaunchMethodId (snd (landTowflightNow s t b f)) = getLaunchMethodId f" "getTowplaneId (snd (landTowflightNow s t b f)) = getTowplaneId f"
  "getLaunchMethodId (snd (performTouchngo b f)) = getLaunchMethodId f" "getTowplaneId (snd (performTouchngo b f)) = getTowplaneId f"
  by (simp_all add: act_defs)

lemma act_towplane [simp]:
  "effectiveTowplaneId cv (snd (departNow t b f)) = effectiveTowplaneId cv f"
  "effectiveTowplaneId cv (snd (landNow s t b f)) = effectiveTowplaneId cv f"
  "effectiveTowplaneId cv (snd (landTowflightNow s t b f)) = effectiveTowplaneId cv f"
  "effectiveTowplaneId cv (snd (performTouchngo b f)) = effectiveTowplaneId cv f"
  by (auto simp: effectiveTowplaneId_def split: option.split)

lemma interesting_depart:
  assumes "canDepart f" "todayDate c = dateIn utc (Some now)"
  shows "interesting c (snd (departNow (Some now) False f))"
  using assms
  by (auto simp: interesting_def isToday_def act_defs can_defs status_defs effdatum_def effectiveTime_def
      dateIn_def nullSeconds_def utc_def minute_day canDepartReason_def split: if_splits)

lemma interesting_land:
  assumes "canLand f" "interesting c f" "\<not> isTowflight f" "todayDate c = dateIn utc (Some now)"
  shows "interesting c (snd (landNow s (Some now) False f))"
  using assms
  by (auto simp: interesting_def isToday_def isOther_def act_defs can_defs status_defs effdatum_def effectiveTime_def
      dateIn_def nullSeconds_def utc_def minute_day canLandReason_def split: if_splits)

lemma interesting_tow: "interesting c f \<Longrightarrow> interesting c (snd (landTowflightNow s t b f))"
  by (auto simp: interesting_def isToday_def isOther_def act_defs status_defs effdatum_def effectiveTime_def)

lemma interesting_touchngo: "interesting c f \<Longrightarrow> interesting c (snd (performTouchngo b f))"
  by (auto simp: interesting_def isToday_def isOther_def act_defs status_defs effdatum_def effectiveTime_def)

section \<open>Events told twice\<close>

text \<open>What a lookup that finds a flight must have found so that the event is remembered under the FLARM id that
  was told: the flight with the id, or a plane with the id, and then no other id in the flight itself.\<close>

definition identified :: "cache \<Rightarrow> flight_lookup \<Rightarrow> qstring \<Rightarrow> bool" where
  "identified c r x \<longleftrightarrow> (\<forall>p. fl_plane r = Some p \<longrightarrow> pl_flarmId p = x
     \<and> (rf_towflight (fl_reference r) \<or> (\<forall>f. flightsById c (rf_id (fl_reference r)) = Some f \<longrightarrow> getFlarmId f = [])))"

lemma cached_flight:
  assumes "cacheMirrors c d" "f \<in> set (flightsToday c) \<union> set (preparedFlights c)"
  shows "f \<in> ran (tb_flights d)" "interesting c f" "flightsById c (getId f) = Some f" "getId f \<noteq> 0"
    "tb_flights d (getId f) = Some f"
proof -
  have m: "flightsMirror c (tb_flights d)" using assms(1) by (simp add: cacheMirrors_def)
  show r: "f \<in> ran (tb_flights d)" and int: "interesting c f"
    using m assms(2) by (auto simp: flightsMirror_def holds_def interesting_def)
  show "flightsById c (getId f) = Some f" using m r int by (simp add: flightsMirror_def)
  show "getId f \<noteq> 0" "tb_flights d (getId f) = Some f"
    using m r by (auto simp: flightsMirror_def table_ok_def ran_def)
qed

lemma lookupPlane_row:
  assumes "cacheMirrors c d" "lr_plane (lookupPlane fe c x) = Some p"
  shows "planesById c (pl_id p) = Some p" "pl_id p \<noteq> 0"
proof -
  note m = mirror_indexes [OF assms(1)]
  have "p \<in> ran (tb_planes d)"
  proof (rule disjE [OF lookupPlaneByFlarmId_mirror [OF assms(1), of x]])
    assume n: "lookupPlaneByFlarmId c x = nothing \<and> (\<forall>p \<in> ran (tb_planes d). pl_flarmId p \<noteq> x)"
    then have "lookupPlaneByFlarmNetDatabase c x \<noteq> nothing" "lr_plane (lookupPlaneByFlarmNetDatabase c x) = Some p"
      using assms(2) by (auto simp: lookupPlane_def nothing_def Let_def split: if_splits)
    then show ?thesis using lookupPlaneByFlarmNet_eq [OF assms(1), of x] by auto
  next
    assume "\<exists>p \<in> ran (tb_planes d). pl_flarmId p = x
        \<and> lookupPlaneByFlarmId c x = \<lparr>lr_plane = Some p, lr_flarmNetRecord = None\<rparr>"
    then show ?thesis using assms(2) by (auto simp: lookupPlane_def)
  qed
  then show "planesById c (pl_id p) = Some p" "pl_id p \<noteq> 0" using m(4,12) by (auto simp: table_ok_def ran_def)
qed

lemma found_tracked:
  assumes m: "cacheMirrors c d" and notow: "\<forall>f \<in> ran (tb_flights d). \<not> isTowflight f" and x: "x \<noteq> []"
    and fs: "fs = departureCandidates en c \<or> fs = getFlyingFlights (en_mem en) c True"
    and r: "r = lookupFlight fe c fs x" "rf_isValid (fl_reference r)" "identified c r x"
  obtains f where "f \<in> ran (tb_flights d)" "flightsById c (rf_id (fl_reference r)) = Some f" "getId f = rf_id (fl_reference r)"
    "getId f \<noteq> 0" "interesting c f" "\<not> isTowflight f"
    "\<And>f'. interesting c f' \<Longrightarrow> getId f' = getId f \<Longrightarrow> getFlarmId f' = getFlarmId f \<Longrightarrow> getPlaneId f' = getPlaneId f
      \<Longrightarrow> effectiveTowplaneId (cacheView c) f' = effectiveTowplaneId (cacheView c) f
      \<Longrightarrow> determineFlarmId (en_mem en) (flightUpdated f' c) (rf_id (fl_reference r)) (rf_towflight (fl_reference r)) = x"
proof -
  obtain g where g: "g \<in> set fs" "fl_reference r = rf_of g"
    "fl_plane r = None \<and> getFlarmId g = x
      \<or> (\<exists>p. fl_plane r = Some p \<and> lr_plane (lookupPlane fe c x) = Some p \<and> getPlaneId g = pl_id p)"
    using lookupFlight_found [of fe c fs x] r(1,2) by auto
  obtain f where f: "f \<in> set (flightsToday c) \<union> set (preparedFlights c)" "candidateOf (en_mem en) c f g"
    using candidate_cases [of g en c] g(1) fs by auto
  note cf = cached_flight [OF m f(1)]
  have nt: "\<not> isTowflight f" using notow cf(1) by blast
  have id: "rf_id (fl_reference r) = getId f" "rf_towflight (fl_reference r) = (g \<noteq> f)"
    using f(2) g(2) nt by (auto simp: candidateOf_def rf_of_def makeTowflightFrom_def isTowflight_def)
  show ?thesis
  proof (rule that [of f])
    fix f'
    assume f': "interesting c f'" "getId f' = getId f" "getFlarmId f' = getFlarmId f" "getPlaneId f' = getPlaneId f"
      "effectiveTowplaneId (cacheView c) f' = effectiveTowplaneId (cacheView c) f"
    have byId: "flightsById (flightUpdated f' c) (getId f) = Some f'" using flight_event_byId(2) [OF f'(1)] f'(2) by simp
    have pl: "planesById (flightUpdated f' c) = planesById c" "cacheView (flightUpdated f' c) = cacheView c"
      by (simp_all add: flight_event_lookups)
    show "determineFlarmId (en_mem en) (flightUpdated f' c) (rf_id (fl_reference r)) (rf_towflight (fl_reference r)) = x"
    proof (cases "fl_plane r")
      case None
      then have own: "getFlarmId g = x" using g(3) by simp
      then have "g = f" using f(2) x by (auto simp: candidateOf_def)
      then show ?thesis using determine_own [OF byId cf(4)] f'(3) own x id by simp
    next
      case (Some p)
      then have p: "lr_plane (lookupPlane fe c x) = Some p" "getPlaneId g = pl_id p" using g(3) by auto
      note row = lookupPlane_row [OF m p(1)]
      have pid: "pl_flarmId p = x" using r(3) Some by (simp add: identified_def)
      show ?thesis
      proof (cases "g = f")
        case True
        then have "getFlarmId f = []" using r(3) Some id cf(3) by (auto simp: identified_def)
        then show ?thesis using determine_plane [OF byId cf(4)] f'(3,4) p(2) row pid True id pl by simp
      next
        case False
        then have "effectiveTowplaneId (cacheView c) f = pl_id p"
          using f(2) p(2) by (auto simp: candidateOf_def makeTowflightFrom_def)
        then show ?thesis using determine_tow [OF byId cf(4)] f'(5) row pid False id pl by simp
      qed
    qed
  qed (use cf id nt in auto)
qed

lemma track_set: "x \<noteq> [] \<Longrightarrow> track now x t x = Some now"
  by (simp add: track_def eventNow_def)

lemma track_keep: "t x = Some now \<Longrightarrow> track now y t x = Some now"
  by (simp add: track_def eventNow_def)

text \<open>The events, and what is remembered of each.\<close>

datatype detected = DetectedDeparture | DetectedLanding | DetectedTouchngo

fun onDetected :: "detected \<Rightarrow> main_env \<Rightarrow> qstring \<Rightarrow> main_window \<Rightarrow> (main_window \<times> main_notice list) option" where
  "onDetected DetectedDeparture = flarmList_departureDetected"
| "onDetected DetectedLanding = flarmList_landingDetected"
| "onDetected DetectedTouchngo = flarmList_touchAndGoDetected"

fun trackerOf :: "detected \<Rightarrow> main_window \<Rightarrow> event_tracker" where
  "trackerOf DetectedDeparture = mw_departures"
| "trackerOf DetectedLanding = mw_landings"
| "trackerOf DetectedTouchngo = mw_touchngos"

fun candidatesOf :: "detected \<Rightarrow> main_env \<Rightarrow> cache \<Rightarrow> flight list" where
  "candidatesOf DetectedDeparture en c = departureCandidates en c"
| "candidatesOf _ en c = getFlyingFlights (en_mem en) c True"

lemma ignored_within:
  assumes "eventWithin (en_now en) x ignoreInterval (trackerOf ev w)"
  shows "onDetected ev en x w = Some (w, [])"
  using assms
  by (cases ev) (simp_all add: flarmList_departureDetected_def flarmList_landingDetected_def flarmList_touchAndGoDetected_def)

lemma within_interval:
  assumes "t x = Some now" "now \<le> now'" "now' < now + 11000"
  shows "eventWithin now' x ignoreInterval t"
proof -
  have "(now' - now) div 1000 \<le> 10" using assms(3) by simp
  then have "sgn (now' - now) * (\<bar>now' - now\<bar> div 1000) \<le> 10"
    using assms(2) by (cases "now' = now") (simp_all add: sgn_if)
  then show ?thesis using assms(1) by (simp add: eventWithin_def secsTo_def ignoreInterval_def)
qed

lemma created_tracked:
  assumes "createdFlight en done f w = Some (w', ns)" "en_newId en \<noteq> 0" "getFlarmId f = x" "x \<noteq> []"
    and "interesting (mw_cache w) (f\<lparr>getId := en_newId en\<rparr>)"
  shows "done = flightDeparted en \<Longrightarrow> mw_departures w' x = Some (en_now en)"
    and "done = flightLanded en \<Longrightarrow> mw_landings w' x = Some (en_now en)"
    and "done = touchAndGoPerformed en \<Longrightarrow> mw_touchngos w' x = Some (en_now en)"
proof -
  let ?f = "f\<lparr>getId := en_newId en\<rparr>" and ?w = "w\<lparr>mw_cache := flightAdded (f\<lparr>getId := en_newId en\<rparr>) (mw_cache w)\<rparr>"
  have w': "w' = done (en_newId en) ?w"
    using assms(1) by (auto simp: createdFlight_def createFlight_def announce_added split: if_splits)
  have "flightsById (flightAdded ?f (mw_cache w)) (en_newId en) = Some ?f"
    using flight_event_byId(1) [OF assms(5)] by simp
  from determine_own [OF this assms(2)] have det: "determineFlarmId (en_mem en) (mw_cache ?w) (en_newId en) False = x"
    using assms(3,4) by simp
  show "done = flightDeparted en \<Longrightarrow> mw_departures w' x = Some (en_now en)"
    using w' det track_set [OF assms(4)] track_keep by (simp add: flightDeparted_def)
  show "done = flightLanded en \<Longrightarrow> mw_landings w' x = Some (en_now en)"
    using w' det track_set [OF assms(4)] by (simp add: flightLanded_def)
  show "done = touchAndGoPerformed en \<Longrightarrow> mw_touchngos w' x = Some (en_now en)"
    using w' det track_set [OF assms(4)] by (simp add: touchAndGoPerformed_def)
qed

lemma createFlarmFlight_fields [simp]:
  "getFlarmId (createFlarmFlight mem r x) = x" "getDeparted (createFlarmFlight mem r x) = False"
  "getLanded (createFlarmFlight mem r x) = False" "getType (createFlarmFlight mem r x) = typeNone"
  by (simp_all add: createFlarmFlight_def newFlight_def dataChanged_def Let_def split: option.split)

text \<open>The outcome of an event that is not ignored: it is remembered, or nothing happens, now or later.\<close>

definition outcome :: "detected \<Rightarrow> main_env \<Rightarrow> qstring \<Rightarrow> main_window \<Rightarrow> main_window \<Rightarrow> bool" where
  "outcome ev en x w w' \<longleftrightarrow> trackerOf ev w' x = Some (en_now en)
     \<or> (w' = w \<and> (\<forall>t. onDetected ev (en\<lparr>en_now := t\<rparr>) x w = Some (w, [])))"

lemma env_same_time: "en\<lparr>en_now := en_now en\<rparr> = en"
  by simp

lemma stuckI:
  assumes "\<And>t. onDetected ev (en\<lparr>en_now := t\<rparr>) x w = Some (w, [])" "onDetected ev en x w = Some (w', ns)"
  shows "outcome ev en x w w'"
  using assms(1) [of "en_now en"] assms by (simp add: outcome_def)

lemma lookup_other_time [simp]:
  "departureCandidates (en\<lparr>en_now := t\<rparr>) c = departureCandidates en c"
  by (simp add: departureCandidates_def)

lemma getObject_stored:
  "flightsById c i = Some f \<Longrightarrow> i \<noteq> 0 \<Longrightarrow> getObject (flightsById c) i = Inr f"
  by (simp add: getObject_def idInvalid_def invalidId_def)

lemma departure_outcome:
  assumes m: "cacheMirrors (mw_cache w) d" "\<forall>f \<in> ran (tb_flights d). \<not> isTowflight f" "x \<noteq> []"
    and env: "\<not> en_canceled en" "en_newId en \<noteq> 0" "todayDate (mw_cache w) = dateIn utc (Some (en_now en))"
    and ident: "r = lookupFlight (en_flarmNetEnabled en) (mw_cache w) (departureCandidates en (mw_cache w)) x"
      "rf_isValid (fl_reference r) \<Longrightarrow> identified (mw_cache w) r x"
    and new: "\<not> eventWithin (en_now en) x ignoreInterval (mw_departures w)" "en_flarmEnabled en" "en_flarmAutoDepartures en"
    and res: "flarmList_departureDetected en x w = Some (w', ns)"
  shows "outcome DetectedDeparture en x w w'"
proof (cases "rf_isValid (fl_reference r)")
  case True
  obtain f where f: "f \<in> ran (tb_flights d)" "flightsById (mw_cache w) (rf_id (fl_reference r)) = Some f"
    "getId f = rf_id (fl_reference r)" "getId f \<noteq> 0" "interesting (mw_cache w) f" "\<not> isTowflight f"
    and det: "\<And>f'. interesting (mw_cache w) f' \<Longrightarrow> getId f' = getId f \<Longrightarrow> getFlarmId f' = getFlarmId f \<Longrightarrow> getPlaneId f' = getPlaneId f
      \<Longrightarrow> effectiveTowplaneId (cacheView (mw_cache w)) f' = effectiveTowplaneId (cacheView (mw_cache w)) f
      \<Longrightarrow> determineFlarmId (en_mem en) (flightUpdated f' (mw_cache w)) (rf_id (fl_reference r)) (rf_towflight (fl_reference r)) = x"
    using found_tracked [OF m disjI1 [OF refl] ident(1) True ident(2) [OF True]] by blast
  have obj: "getObject (flightsById (mw_cache w)) (rf_id (fl_reference r)) = Inr f"
    using getObject_stored f(2-4) by simp
  show ?thesis
  proof (cases "isFlying f \<or> \<not> canDepart f")
    case stuck: True
    have "onDetected DetectedDeparture (en\<lparr>en_now := t\<rparr>) x w = Some (w, [])" for t
      using True obj stuck ident(1) new(2,3)
      by (auto simp: flarmList_departureDetected_def Let_def nonInteractiveDepartFlight_def)
    then show ?thesis by (rule stuckI) (simp add: res)
  next
    case False
    let ?f = "snd (departAct en f)"
    have "interesting (mw_cache w) ?f" using interesting_depart False env(3) by simp
    from det [OF this] have dx: "determineFlarmId (en_mem en) (flightUpdated ?f (mw_cache w)) (rf_id (fl_reference r)) (rf_towflight (fl_reference r)) = x"
      by simp
    have "w' = flightDeparted en (rf_id (fl_reference r)) (w\<lparr>mw_cache := flightUpdated ?f (mw_cache w)\<rparr>)"
      using res True obj False ident(1) new env(1)
      by (simp add: flarmList_departureDetected_def Let_def nonInteractiveDepartFlight_def actOnFlight_def
          updateFlight_def announce_changed)
    then show ?thesis using dx track_set [OF m(3)] track_keep
      by (cases "rf_towflight (fl_reference r)") (simp_all add: outcome_def flightDeparted_def)
  qed
next
  case False
  define f where "f = snd (departNowAt (Some (en_now en)) (set_location (en_settings en)) False
    (dataChanged ((dataChanged ((createFlarmFlight (en_mem en) r x)\<lparr>getMode := modeLocal\<rparr>))\<lparr>getLaunchMethodId := en_preselectedLaunchMethod en\<rparr>)))"
  have created: "createdFlight en (flightDeparted en) f w = Some (w', ns)"
    using res False new ident(1) by (simp add: flarmList_departureDetected_def Let_def f_def)
  have "getFlarmId f = x" by (simp add: f_def departNowAt_def departNow_def flight_setters split: prod.split)
  moreover have "interesting (mw_cache w) (f\<lparr>getId := en_newId en\<rparr>)"
    using env(3)
    by (auto simp: f_def departNowAt_def departNow_def flight_setters can_defs canDepartReason_def status_defs sk_defs
        interesting_def isToday_def effdatum_def effectiveTime_def dateIn_def nullSeconds_def utc_def minute_day)
  ultimately show ?thesis using created_tracked(1) [OF created env(2) _ m(3)] by (simp add: outcome_def)
qed

lemma landing_outcome:
  assumes m: "cacheMirrors (mw_cache w) d" "\<forall>f \<in> ran (tb_flights d). \<not> isTowflight f" "x \<noteq> []"
    and env: "\<not> en_canceled en" "en_newId en \<noteq> 0" "todayDate (mw_cache w) = dateIn utc (Some (en_now en))"
    and ident: "r = lookupFlight (en_flarmNetEnabled en) (mw_cache w) (getFlyingFlights (en_mem en) (mw_cache w) True) x"
      "rf_isValid (fl_reference r) \<Longrightarrow> identified (mw_cache w) r x"
    and new: "\<not> eventWithin (en_now en) x ignoreInterval (mw_landings w)" "en_flarmEnabled en" "en_flarmAutoDepartures en"
    and res: "flarmList_landingDetected en x w = Some (w', ns)"
  shows "outcome DetectedLanding en x w w'"
proof (cases "rf_isValid (fl_reference r)")
  case True
  let ?i = "rf_id (fl_reference r)" and ?tow = "rf_towflight (fl_reference r)"
  obtain f where f: "f \<in> ran (tb_flights d)" "flightsById (mw_cache w) ?i = Some f"
    "getId f = ?i" "getId f \<noteq> 0" "interesting (mw_cache w) f" "\<not> isTowflight f"
    and det: "\<And>f'. interesting (mw_cache w) f' \<Longrightarrow> getId f' = getId f \<Longrightarrow> getFlarmId f' = getFlarmId f \<Longrightarrow> getPlaneId f' = getPlaneId f
      \<Longrightarrow> effectiveTowplaneId (cacheView (mw_cache w)) f' = effectiveTowplaneId (cacheView (mw_cache w)) f
      \<Longrightarrow> determineFlarmId (en_mem en) (flightUpdated f' (mw_cache w)) ?i ?tow = x"
    using found_tracked [OF m disjI2 [OF refl] ident(1) True ident(2) [OF True]] by blast
  have obj: "getObject (flightsById (mw_cache w)) ?i = Inr f" using getObject_stored f(2-4) by simp
  show ?thesis
  proof (cases "if ?tow then canTowflightLand f else canLand f")
    case False
    have "onDetected DetectedLanding (en\<lparr>en_now := t\<rparr>) x w = Some (w, [])" for t
      using True obj False ident(1) new(2,3)
      by (simp add: flarmList_landingDetected_def Let_def nonInteractiveLandFlight_def nonInteractiveLandTowflight_def
          split: if_splits)
    then show ?thesis by (rule stuckI) (simp add: res)
  next
    case can: True
    let ?f = "if ?tow then snd (landTowAct en f) else snd (landAct en f)"
    have "interesting (mw_cache w) ?f" using interesting_tow [OF f(5)] interesting_land [OF _ f(5,6) env(3)] can by auto
    from det [OF this] have dx: "determineFlarmId (en_mem en) (flightUpdated ?f (mw_cache w)) ?i ?tow = x" by simp
    have "w' = (if ?tow then towflightLanded en ?i else flightLanded en ?i) (w\<lparr>mw_cache := flightUpdated ?f (mw_cache w)\<rparr>)"
      using res True obj can ident(1) new env(1)
      by (simp add: flarmList_landingDetected_def Let_def nonInteractiveLandFlight_def nonInteractiveLandTowflight_def
          actOnFlight_def updateFlight_def announce_changed split: if_splits)
    then show ?thesis using dx track_set [OF m(3)]
      by (cases ?tow) (simp_all add: outcome_def flightLanded_def towflightLanded_def)
  qed
next
  case False
  define f where "f = snd (landNowAt (en_settings en) (Some (en_now en)) (set_location (en_settings en)) False
    (dataChanged ((createFlarmFlight (en_mem en) r x)\<lparr>getMode := modeComing\<rparr>)))"
  have created: "createdFlight en (flightLanded en) f w = Some (w', ns)"
    using res False new ident(1) by (simp add: flarmList_landingDetected_def Let_def f_def)
  have "getFlarmId f = x" by (simp add: f_def landNowAt_def landNow_def flight_setters Let_def split: prod.split)
  moreover have "interesting (mw_cache w) (f\<lparr>getId := en_newId en\<rparr>)"
    using env(3)
    by (auto simp: f_def landNowAt_def landNow_def flight_setters can_defs canLandReason_def status_defs sk_defs Let_def
        interesting_def isToday_def effdatum_def effectiveTime_def dateIn_def nullSeconds_def utc_def minute_day)
  ultimately show ?thesis using created_tracked(2) [OF created env(2) _ m(3)] by (simp add: outcome_def)
qed

lemma touchngo_outcome:
  assumes m: "cacheMirrors (mw_cache w) d" "\<forall>f \<in> ran (tb_flights d). \<not> isTowflight f" "x \<noteq> []"
    and env: "\<not> en_canceled en" "en_newId en \<noteq> 0"
    and ident: "r = lookupFlight (en_flarmNetEnabled en) (mw_cache w) (getFlyingFlights (en_mem en) (mw_cache w) True) x"
      "rf_isValid (fl_reference r) \<Longrightarrow> identified (mw_cache w) r x"
    and new: "\<not> eventWithin (en_now en) x ignoreInterval (mw_touchngos w)" "en_flarmEnabled en" "en_flarmAutoDepartures en"
    and res: "flarmList_touchAndGoDetected en x w = Some (w', ns)"
  shows "outcome DetectedTouchngo en x w w'"
proof (cases "rf_isValid (fl_reference r)")
  case True
  let ?i = "rf_id (fl_reference r)" and ?tow = "rf_towflight (fl_reference r)"
  obtain f where f: "f \<in> ran (tb_flights d)" "flightsById (mw_cache w) ?i = Some f"
    "getId f = ?i" "getId f \<noteq> 0" "interesting (mw_cache w) f" "\<not> isTowflight f"
    and det: "\<And>f'. interesting (mw_cache w) f' \<Longrightarrow> getId f' = getId f \<Longrightarrow> getFlarmId f' = getFlarmId f \<Longrightarrow> getPlaneId f' = getPlaneId f
      \<Longrightarrow> effectiveTowplaneId (cacheView (mw_cache w)) f' = effectiveTowplaneId (cacheView (mw_cache w)) f
      \<Longrightarrow> determineFlarmId (en_mem en) (flightUpdated f' (mw_cache w)) ?i ?tow = x"
    using found_tracked [OF m disjI2 [OF refl] ident(1) True ident(2) [OF True]] by blast
  have obj: "getObject (flightsById (mw_cache w)) ?i = Inr f" using getObject_stored f(2-4) by simp
  show ?thesis
  proof (cases "?tow \<or> \<not> canTouchngo f")
    case stuck: True
    have "onDetected DetectedTouchngo (en\<lparr>en_now := t\<rparr>) x w = Some (w, [])" for t
      using True obj stuck ident(1) new(2,3)
      by (auto simp: flarmList_touchAndGoDetected_def Let_def nonInteractiveTouchAndGo_def)
    then show ?thesis by (rule stuckI) (simp add: res)
  next
    case False
    let ?f = "snd (touchngoAct f)"
    from det [OF interesting_touchngo [OF f(5)]] have dx: "determineFlarmId (en_mem en) (flightUpdated ?f (mw_cache w)) ?i ?tow = x"
      by simp
    have "w' = touchAndGoPerformed en ?i (w\<lparr>mw_cache := flightUpdated ?f (mw_cache w)\<rparr>)"
      using res True obj False ident(1) new env(1)
      by (simp add: flarmList_touchAndGoDetected_def Let_def nonInteractiveTouchAndGo_def actOnFlight_def
          updateFlight_def announce_changed)
    then show ?thesis using dx False track_set [OF m(3)] by (simp add: outcome_def touchAndGoPerformed_def)
  qed
next
  case False
  define f where "f = snd (touchngoAct (dataChanged ((createFlarmFlight (en_mem en) r x)\<lparr>getMode := modeComing\<rparr>)))"
  have created: "createdFlight en (touchAndGoPerformed en) f w = Some (w', ns)"
    using res False new ident(1) by (simp add: flarmList_touchAndGoDetected_def Let_def f_def)
  have "getFlarmId f = x" by (simp add: f_def flight_setters)
  moreover have "interesting (mw_cache w) (f\<lparr>getId := en_newId en\<rparr>)"
    by (simp add: f_def performTouchngo_def flight_setters status_defs sk_defs interesting_def)
  ultimately show ?thesis using created_tracked(3) [OF created env(2) _ m(3)] by (simp add: outcome_def)
qed


definition env0 :: main_env where
  "env0 = \<lparr>en_settings = settings0, en_flarmEnabled = True, en_flarmAutoDepartures = True, en_flarmNetEnabled = True,
     en_preselectedLaunchMethod = 0, en_now = 100 * 86400000 + 36000000, en_mem = mem0, en_newId = 1,
     en_canceled = False, en_yes = (\<lambda>_. True)\<rparr>"

definition window0 :: main_window where
  "window0 = \<lparr>mw_cache = newCache\<lparr>todayDate := Some 100\<rparr>, mw_departures = Map.empty, mw_landings = Map.empty,
     mw_touchngos = Map.empty\<rparr>"

lemma mirror0: "cacheMirrors (mw_cache window0) tables0"
  by (simp add: window0_def cacheMirrors_def mirrors_def flightsMirror_def holds_def table_ok_def newCache_def
      tables0_def planeIdx_def planeHashes_def personIdx_def personHashes_def launchMethodIdx_def
      flarmNetRecordIdx_def keyed_def launchMethodKind_def flarmNetRecordKind_def)

lemma no_lookup0: "lookupPlane fe (mw_cache window0) x = nothing"
  by (simp add: window0_def lookupPlane_def lookupPlaneByFlarmId_def getPlaneIdByFlarmId_def newCache_def mh_contains_def
      lookupPlaneByFlarmNetDatabase_def getFlarmNetRecordIdByFlarmId_def idValid_def idInvalid_def invalidId_def nothing_def)

lemma no_candidates0: "candidatesOf ev en (mw_cache window0) = []"
  by (cases ev) (simp_all add: window0_def newCache_def departureCandidates_def getFlyingFlights_eq getFlightsToday_def
      getPreparedFlights_def makeTowflights_eq)

lemma no_flight0: "\<not> rf_isValid (fl_reference (lookupFlight fe (mw_cache window0) [] x))"
  by (simp add: lookupFlight_def lookupFlightByFlarmId_def flightNothing_def lookupFlightByPlane_def no_lookup0
      nothing_def rf_isValid_def rf_invalid_def idValid_def idInvalid_def invalidId_def)


section \<open>Where events are not remembered\<close>

lemma canDepart_facts: "canDepart f \<Longrightarrow> departsHere f \<and> \<not> getDeparted f \<and> \<not> isFlying f"
  by (auto simp: canDepart_def canDepartReason_def isFlying_def split: if_splits)

lemma lookup_by_plane:
  assumes "\<forall>h \<in> set fs. getFlarmId h \<noteq> x" "lr_plane (lookupPlane fe c x) = Some p"
    and "firstFlight (\<lambda>h. getPlaneId h = pl_id p) fs = Some f"
  shows "fl_reference (lookupFlight fe c fs x) = rf_of f"
proof -
  have "firstFlight (\<lambda>f. getFlarmId f = x) fs = None" using assms(1) by (simp add: firstFlight_None)
  then show ?thesis using assms(2,3)
    by (simp add: lookupFlight_def lookupFlightByFlarmId_def lookupFlightByPlane_def flightNothing_def Let_def
        rf_isValid_def rf_invalid_def idValid_def idInvalid_def invalidId_def)
qed

lemma firstFlight_filter: "firstFlight P (xs @ ys) = (case filter P xs of f # _ \<Rightarrow> Some f | [] \<Rightarrow> firstFlight P ys)"
  by (induction xs) auto

text \<open>The first prepared flight of the plane that is found departs.\<close>

lemma departs_first:
  assumes "\<forall>h \<in> set (flightsToday (mw_cache w)) \<union> set (preparedFlights (mw_cache w)). getFlarmId h \<noteq> x" "x \<noteq> []"
    and "lr_plane (lookupPlane (en_flarmNetEnabled en) (mw_cache w) x) = Some p"
    and "filter (\<lambda>h. getPlaneId h = pl_id p) (preparedFlights (mw_cache w)) = f # hs"
    and "flightsById (mw_cache w) (getId f) = Some f" "getId f \<noteq> 0" "canDepart f"
    and "\<not> eventWithin (en_now en) x ignoreInterval (mw_departures w)" "en_flarmEnabled en" "en_flarmAutoDepartures en"
    and "\<not> en_canceled en"
  shows "flarmList_departureDetected en x w = Some (flightDeparted en (getId f)
     (w\<lparr>mw_cache := flightUpdated (snd (departAct en f)) (mw_cache w)\<rparr>), [noticeDeparted (rf_of f)])"
proof -
  let ?fs = "departureCandidates en (mw_cache w)"
  have "\<forall>h \<in> set ?fs. getFlarmId h \<noteq> x"
    using candidate_cases [of _ en "mw_cache w"] assms(1,2) unfolding candidateOf_def by (metis tow_flarmId)
  moreover have "firstFlight (\<lambda>h. getPlaneId h = pl_id p) ?fs = Some f"
    using assms(4) by (simp add: departureCandidates_def getPreparedFlights_def firstFlight_filter)
  ultimately have "fl_reference (lookupFlight (en_flarmNetEnabled en) (mw_cache w) ?fs x) = rf_of f"
    using lookup_by_plane [OF _ assms(3)] by blast
  then show ?thesis
    using assms(6-11) getObject_stored [OF assms(5,6)] canDepart_facts [OF assms(7)]
    by (simp add: flarmList_departureDetected_def Let_def rf_isValid_def rf_of_def idValid_def idInvalid_def invalidId_def
        nonInteractiveDepartFlight_def actOnFlight_def updateFlight_def announce_changed)
qed

text \<open>If the plane is only found by a FlarmNet record (it has no FLARM id of its own), its departure is not
  remembered: told twice at the same time, it departs the next prepared flight of the plane as well.\<close>

theorem flarmNet_departure_twice:
  assumes "\<forall>h \<in> set (flightsToday (mw_cache w)) \<union> set (preparedFlights (mw_cache w)). getFlarmId h \<noteq> x" "x \<noteq> []"
    and "lr_plane (lookupPlane (en_flarmNetEnabled en) (mw_cache w) x) = Some p" "pl_flarmId p = []"
    and "planesById (mw_cache w) (pl_id p) = Some p"
    and "filter (\<lambda>h. getPlaneId h = pl_id p) (preparedFlights (mw_cache w)) = f # g # hs" "getId f \<noteq> getId g"
    and "flightsById (mw_cache w) (getId f) = Some f" "getId f \<noteq> 0" "canDepart f" "getFlarmId f = []"
    and "effectiveTowplaneId (cacheView (mw_cache w)) f = 0"
    and "flightsById (mw_cache w) (getId g) = Some g" "getId g \<noteq> 0" "canDepart g"
    and "todayDate (mw_cache w) = dateIn utc (Some (en_now en))"
    and "\<not> eventWithin (en_now en) x ignoreInterval (mw_departures w)" "en_flarmEnabled en" "en_flarmAutoDepartures en"
    and "\<not> en_canceled en"
  shows "\<exists>w' w''. flarmList_departureDetected en x w = Some (w', [noticeDeparted (rf_of f)])
    \<and> mw_departures w' = mw_departures w
    \<and> flarmList_departureDetected en x w' = Some (w'', [noticeDeparted (rf_of g)])"
proof -
  let ?c = "mw_cache w" and ?f = "snd (departAct en f)"
  let ?c' = "flightUpdated ?f ?c"
  let ?w = "flightDeparted en (getId f) (w\<lparr>mw_cache := ?c'\<rparr>)"
  have first: "flarmList_departureDetected en x w = Some (?w, [noticeDeparted (rf_of f)])"
    by (rule departs_first [OF assms(1-3,6,8-10) assms(17-20)])
  have int: "interesting ?c ?f" using interesting_depart assms(10,16) by simp
  have byId: "flightsById ?c' (getId f) = Some ?f" using flight_event_byId(2) [OF int] by simp
  have "f \<in> set (filter (\<lambda>h. getPlaneId h = pl_id p) (preparedFlights ?c))" unfolding assms(6) by simp
  then have plane: "getPlaneId f = pl_id p" by simp
  have "determineFlarmId (en_mem en) ?c' (getId f) False = []"
    using byId plane assms(4,5,9,11) by (auto simp: determineFlarmId_def getObject_def idInvalid_def invalidId_def idValid_def
        flight_event_lookups Let_def)
  moreover have "effectiveTowplaneId (cacheView ?c') ?f = 0" using assms(12) by (simp add: flight_event_lookups)
  then have "determineFlarmId (en_mem en) ?c' (getId f) True = []"
    using byId assms(9) by (simp add: determineFlarmId_def getObject_def idInvalid_def invalidId_def idValid_def
        Let_def makeTowflightFrom_def) (simp add: makeTowflight_def)
  ultimately have w: "?w = w\<lparr>mw_cache := ?c'\<rparr>" by (simp add: flightDeparted_def track_def)
  have dep: "\<not> isPrepared ?f" using assms(10) canDepart_facts [OF assms(10)]
    by (auto simp: departNow_def flight_setters status_defs)
  have lists: "preparedFlights ?c' = filter (\<lambda>h. getId h \<noteq> getId f) (preparedFlights ?c)"
    "set (flightsToday ?c') \<subseteq> insert ?f (set (flightsToday ?c))"
    "flightsById ?c' (getId g) = Some g"
    using flightUpdated_lists [of ?f ?c] dep assms(7,13) by (auto split: if_splits)
  have "filter (\<lambda>h. getPlaneId h = pl_id p) (preparedFlights ?c')
      = filter (\<lambda>h. getId h \<noteq> getId f) (f # g # hs)"
    unfolding assms(6) [symmetric] lists(1) by (simp add: conj_commute)
  then have prep: "filter (\<lambda>h. getPlaneId h = pl_id p) (preparedFlights ?c') = g # filter (\<lambda>h. getId h \<noteq> getId f) hs"
    using assms(7) by simp
  have ids: "\<forall>h \<in> set (flightsToday ?c') \<union> set (preparedFlights ?c'). getFlarmId h \<noteq> x"
    using lists(1,2) assms(1,2,11) by auto
  have "\<exists>w''. flarmList_departureDetected en x (w\<lparr>mw_cache := ?c'\<rparr>) = Some (w'', [noticeDeparted (rf_of g)])"
    using departs_first [of "w\<lparr>mw_cache := ?c'\<rparr>" x en p g] ids assms(2,3) prep lists(3) assms(14,15,17-20)
    by (simp add: flight_event_lookups)
  then show ?thesis using first w by auto
qed

text \<open>A FlarmNet record, a plane without a FLARM id, and two prepared flights of it.\<close>

definition plane3 :: plane where
  "plane3 = (pl_new 3)\<lparr>pl_registration := ''D-0003''\<rparr>"

definition prepared3 :: "dbId \<Rightarrow> flight" where
  "prepared3 i = (newFlight mem0 i)\<lparr>getPlaneId := 3\<rparr>"

definition window3 :: main_window where
  "window3 = window0\<lparr>mw_cache := newCache
     \<lparr>todayDate := Some 100, preparedFlights := [prepared3 7, prepared3 8],
      flightsById := [7 \<mapsto> prepared3 7, 8 \<mapsto> prepared3 8],
      flarmNetRecordIdsByFlarmId := [(''DDA1B2'', 5)],
      flarmNetRecordsById := [5 \<mapsto> (fn_new 5)\<lparr>fn_flarmId := ''DDA1B2'', fn_registration := ''D-0003''\<rparr>],
      planeIdsByRegistration := [(toLower ''D-0003'', 3)], planesById := [3 \<mapsto> plane3]\<rparr>\<rparr>"

lemma prepared3_facts:
  "getFlarmId (prepared3 i) = []" "getPlaneId (prepared3 i) = 3" "getId (prepared3 i) = i" "canDepart (prepared3 i)"
  "effectiveTowplaneId cv (prepared3 i) = 0"
  by (simp_all add: prepared3_def newFlight_def can_defs canDepartReason_def status_defs sk_defs effectiveTowplaneId_def)

lemma lookup3: "lr_plane (lookupPlane True (mw_cache window3) ''DDA1B2'') = Some plane3"
  by (simp add: window3_def newCache_def lookupPlane_def lookupPlaneByFlarmId_def getPlaneIdByFlarmId_def mh_contains_def
      lookupPlaneByFlarmNetDatabase_def getFlarmNetRecordIdByFlarmId_def getPlaneIdByRegistration_def mh_value_def
      mh_values_def getObject_def idValid_def idInvalid_def invalidId_def nothing_def Let_def plane3_def pl_new_def)

theorem flarmNet_departure_twice_witness:
  "\<exists>w' w''. flarmList_departureDetected env0 ''DDA1B2'' window3 = Some (w', [noticeDeparted (rf_of (prepared3 7))])
     \<and> mw_departures w' = mw_departures window3
     \<and> flarmList_departureDetected env0 ''DDA1B2'' w' = Some (w'', [noticeDeparted (rf_of (prepared3 8))])"
  by (rule flarmNet_departure_twice [where p = plane3 and hs = "[]"])
    (simp_all add: window3_def newCache_def prepared3_facts plane3_def pl_new_def env0_def dateIn_def utc_def
      eventWithin_def window0_def lookup3 [unfolded window3_def newCache_def plane3_def pl_new_def window0_def, simplified])

text \<open>A touch-and-go of an unknown aircraft creates a flight that is prepared, not flying: the landing of the same
  aircraft does not find it, and creates a second flight.\<close>

theorem touchngo_flight_not_landed:
  assumes "\<not> rf_isValid (fl_reference (lookupFlight (en_flarmNetEnabled en) (mw_cache w)
      (getFlyingFlights (en_mem en) (mw_cache w) True) x))"
    and "\<not> eventWithin (en_now en) x ignoreInterval (mw_touchngos w)" "en_flarmEnabled en" "en_flarmAutoDepartures en"
    and "\<not> en_canceled en" "en_newId en \<noteq> 0"
    and "\<not> eventWithin (en_now en') x ignoreInterval (mw_landings w)" "en_flarmEnabled en'" "en_flarmAutoDepartures en'"
    and "\<not> en_canceled en'" "en_newId en' \<noteq> 0" "en_flarmNetEnabled en' = en_flarmNetEnabled en" "en_mem en' = en_mem en"
  shows "\<exists>w' w''. flarmList_touchAndGoDetected en x w = Some (w', [noticeCreated \<lparr>rf_id = en_newId en, rf_towflight = False\<rparr>])
    \<and> flarmList_landingDetected en' x w' = Some (w'', [noticeCreated \<lparr>rf_id = en_newId en', rf_towflight = False\<rparr>])"
proof -
  let ?c = "mw_cache w"
  let ?r = "lookupFlight (en_flarmNetEnabled en) ?c (getFlyingFlights (en_mem en) ?c True) x"
  define f where "f = (snd (touchngoAct (dataChanged ((createFlarmFlight (en_mem en) ?r x)\<lparr>getMode := modeComing\<rparr>))))\<lparr>getId := en_newId en\<rparr>"
  define w' where "w' = touchAndGoPerformed en (en_newId en) (w\<lparr>mw_cache := flightAdded f ?c\<rparr>)"
  have first: "flarmList_touchAndGoDetected en x w = Some (w', [noticeCreated \<lparr>rf_id = en_newId en, rf_towflight = False\<rparr>])"
    using assms(1-6)
    by (simp add: flarmList_touchAndGoDetected_def Let_def createdFlight_def createFlight_def announce_added f_def w'_def
        idValid_def idInvalid_def invalidId_def)
  have prep: "isPrepared f" "\<not> isFlying f"
    by (simp_all add: f_def performTouchngo_def flight_setters status_defs sk_defs)
  have "flightsToday (flightAdded f ?c) = flightsToday ?c" "preparedFlights (flightAdded f ?c) = preparedFlights ?c @ [f]"
    using prep by (simp_all add: flightAdded_lists isToday_def)
  then have "getFlyingFlights (en_mem en) (flightAdded f ?c) True = getFlyingFlights (en_mem en) ?c True"
    using prep(2) by (simp add: getFlyingFlights_eq getFlightsToday_def getPreparedFlights_def flight_event_lookups)
  then have same: "lookupFlight fe (mw_cache w') (getFlyingFlights (en_mem en) (mw_cache w') True) x
      = lookupFlight fe ?c (getFlyingFlights (en_mem en) ?c True) x" for fe
    by (simp add: w'_def touchAndGoPerformed_def lookupFlight_def lookupFlightByPlane_def flight_event_lookups Let_def)
  have "mw_landings w' = mw_landings w" by (simp add: w'_def touchAndGoPerformed_def)
  then have "\<exists>w''. flarmList_landingDetected en' x w' = Some (w'', [noticeCreated \<lparr>rf_id = en_newId en', rf_towflight = False\<rparr>])"
    using assms(1,7-13) same
    by (simp add: flarmList_landingDetected_def Let_def createdFlight_def createFlight_def announce_added
        idValid_def idInvalid_def invalidId_def)
  with first show ?thesis by blast
qed

theorem touchngo_flight_not_landed_witness:
  "\<exists>w' w''. flarmList_touchAndGoDetected env0 ''DDA1B2'' window0 = Some (w', [noticeCreated \<lparr>rf_id = 1, rf_towflight = False\<rparr>])
    \<and> flarmList_landingDetected (env0\<lparr>en_newId := 2\<rparr>) ''DDA1B2'' w' = Some (w'', [noticeCreated \<lparr>rf_id = 2, rf_towflight = False\<rparr>])"
proof -
  have "getFlyingFlights (en_mem env0) (mw_cache window0) True = []" using no_candidates0 [of DetectedLanding env0] by simp
  then have nf: "\<not> rf_isValid (fl_reference (lookupFlight (en_flarmNetEnabled env0) (mw_cache window0)
      (getFlyingFlights (en_mem env0) (mw_cache window0) True) ''DDA1B2''))" by (simp add: no_flight0)
  show ?thesis
    using touchngo_flight_not_landed [OF nf, of "env0\<lparr>en_newId := 2\<rparr>"]
    by (simp add: env0_def window0_def eventWithin_def)
qed

end
