(* ===== verification/Sk_Sort.thy ===== *)
theory Sk_Sort
  imports Sk_CacheLookup
begin

text \<open>
  Sorting with \<^verbatim>\<open>std::sort\<close>, as the lists of planes, people, launch methods and flights are sorted. The
  function of C++ needs a strict weak order and leaves the order of equivalent elements open;
  here it is an insertion sort. The locale states the requirement, and it is interpreted for the
  comparison functions of the entities.
\<close>

fun insertSorted :: "('a \<Rightarrow> 'a \<Rightarrow> bool) \<Rightarrow> 'a \<Rightarrow> 'a list \<Rightarrow> 'a list" where
  "insertSorted lt x [] = [x]"
| "insertSorted lt x (y # ys) = (if lt y x then y # insertSorted lt x ys else x # y # ys)"

definition std_sort :: "('a \<Rightarrow> 'a \<Rightarrow> bool) \<Rightarrow> 'a list \<Rightarrow> 'a list" where
  "std_sort lt xs = foldr (insertSorted lt) xs []"

lemma insertSorted_mset [simp]: "mset (insertSorted lt x xs) = {#x#} + mset xs"
  by (induction xs) auto

lemma std_sort_mset [simp]: "mset (std_sort lt xs) = mset xs"
  by (induction xs) (simp_all add: std_sort_def)

lemma insertSorted_set [simp]: "set (insertSorted lt x xs) = insert x (set xs)"
  by (simp flip: set_mset_mset)

lemma std_sort_set [simp]: "set (std_sort lt xs) = set xs"
  by (simp flip: set_mset_mset)

lemma std_sort_length [simp]: "length (std_sort lt xs) = length xs"
  by (simp flip: size_mset)

lemma std_sort_Nil [simp]: "std_sort lt [] = []"
  by (simp add: std_sort_def)

lemma std_sort_Cons: "std_sort lt (x # xs) = insertSorted lt x (std_sort lt xs)"
  by (simp add: std_sort_def)

lemma std_sort_distinct: "distinct (map f (std_sort lt xs)) \<longleftrightarrow> distinct (map f xs)"
  by (metis mset_map mset_eq_imp_distinct_iff std_sort_mset)

locale strict_weak_order =
  fixes lt :: "'a \<Rightarrow> 'a \<Rightarrow> bool"
  assumes asym: "lt x y \<Longrightarrow> \<not> lt y x"
    and negatively_transitive: "\<not> lt y x \<Longrightarrow> \<not> lt z y \<Longrightarrow> \<not> lt z x"
begin

lemma insertSorted_sorted:
  "sorted_wrt (\<lambda>a b. \<not> lt b a) xs \<Longrightarrow> sorted_wrt (\<lambda>a b. \<not> lt b a) (insertSorted lt x xs)"
proof (induction xs)
  case (Cons y ys)
  show ?case
  proof (cases "lt y x")
    case True
    then show ?thesis using Cons asym by auto
  next
    case False
    then show ?thesis using Cons.prems negatively_transitive by auto
  qed
qed simp

lemma std_sort_sorted: "sorted_wrt (\<lambda>a b. \<not> lt b a) (std_sort lt xs)"
  by (induction xs) (simp_all add: std_sort_Cons insertSorted_sorted)

end

text \<open>An order that compares by a key.\<close>

lemma strict_weak_by_key:
  assumes "\<And>x y. lt x y \<longleftrightarrow> key x < (key y :: 'k :: linorder)"
  shows "strict_weak_order lt"
  by unfold_locales (auto simp: assms)

definition lm_nameLessThan :: "launchMethod \<Rightarrow> launchMethod \<Rightarrow> bool" where
  "lm_nameLessThan l1 l2 \<longleftrightarrow> lm_name l1 < lm_name l2"

interpretation lmo: strict_weak_order lm_nameLessThan
  by (rule strict_weak_by_key [of _ lm_name]) (simp add: lm_nameLessThan_def)

interpretation fo: strict_weak_order flight_less
  by unfold_locales (auto simp: flight_less_key)

interpretation plo: strict_weak_order pl_clubAwareLessThan
  by unfold_locales (auto simp: pl_clubAwareLessThan_eq)

interpretation peo: strict_weak_order pe_less
  by unfold_locales (auto simp: pe_less_def split: if_splits)

end
