(* ===== verification/Sk_Statistics.thy ===== *)
theory Sk_Statistics
  imports Sk_Sort Sk_FlightDb
begin

text \<open>
  The statistics, \<^verbatim>\<open>src/src/statistics/\<close>: the log books of planes (\<^verbatim>\<open>PlaneLog.cpp\<close>) and pilots
  (\<^verbatim>\<open>PilotLog.cpp\<close>) and the launch method statistics (\<^verbatim>\<open>LaunchMethodStatistics.cpp\<close>), made from a list of
  flights and the cache. \<open>now\<close> is the current time (for the duration of flights that fly), \<open>vals\<close> is
  the order in which a QSet lists its elements, and \<open>dateText\<close> formats a date for the locale.
\<close>

section \<open>Texts of times\<close>

definition twoPlaces :: "int \<Rightarrow> qstring" where
  "twoPlaces n = (if n < 10 then CHR ''0'' # decimal n else decimal n)"

text \<open>QDateTime::toString of the UTC time with the format hh:mm 'UTC', and QTime::toString with h:mm.\<close>

definition hhmmUtc :: "qdatetime \<Rightarrow> qstring" where
  "hhmmUtc t = (case t of None \<Rightarrow> []
     | Some m \<Rightarrow> twoPlaces (m div 3600000 mod 24) @ '':'' @ twoPlaces (m div 60000 mod 60) @ '' UTC'')"

definition hmm :: "qtime \<Rightarrow> qstring" where
  "hmm t = (case t of None \<Rightarrow> [] | Some s \<Rightarrow> decimal (s div 3600) @ '':'' @ twoPlaces (s div 60 mod 60))"

section \<open>Plane log\<close>

record planeLog_entry =
  ple_registration :: qstring
  ple_type :: qstring
  ple_date :: qdate
  ple_pilotName :: qstring
  ple_minPassengers :: int
  ple_maxPassengers :: int
  ple_departureLocation :: qstring
  ple_landingLocation :: qstring
  ple_departureTime :: qdatetime
  ple_landingTime :: qdatetime
  ple_numLandings :: int
  ple_operationTime :: qtime
  ple_comments :: qstring
  ple_valid :: bool

definition ple_new :: planeLog_entry where
  "ple_new = \<lparr>ple_registration = [], ple_type = [], ple_date = None, ple_pilotName = [], ple_minPassengers = 0,
     ple_maxPassengers = 0, ple_departureLocation = [], ple_landingLocation = [], ple_departureTime = None,
     ple_landingTime = None, ple_numLandings = 0, ple_operationTime = None, ple_comments = [], ple_valid = True\<rparr>"

definition numPassengersString :: "planeLog_entry \<Rightarrow> qstring" where
  "numPassengersString e =
     (if ple_minPassengers e = ple_maxPassengers e then decimal (ple_minPassengers e)
      else if ple_minPassengers e = 1 \<and> ple_maxPassengers e = 2 then ''1/2''
      else qArg (qArg ''%1-%2'' (decimal (ple_minPassengers e))) (decimal (ple_maxPassengers e)))"

definition ple_departureTimeText :: "planeLog_entry \<Rightarrow> qstring" where
  "ple_departureTimeText e = (if ple_departureTime e \<noteq> None then hhmmUtc (ple_departureTime e) else ''-'')"

definition ple_landingTimeText :: "planeLog_entry \<Rightarrow> qstring" where
  "ple_landingTimeText e = (if ple_landingTime e \<noteq> None then hhmmUtc (ple_landingTime e) else ''-'')"

definition numLandingsText :: "planeLog_entry \<Rightarrow> qvariant" where
  "numLandingsText e = (if ple_numLandings e > 0 then VInt (ple_numLandings e) else VString ''-'')"

definition operationTimeText :: "planeLog_entry \<Rightarrow> qstring" where
  "operationTimeText e = (if ple_operationTime e \<noteq> None then hmm (ple_operationTime e) else ''-'')"

text \<open>The entry for a single flight.\<close>

definition planeLogEntry1 :: "qdatetime \<Rightarrow> cache \<Rightarrow> flight \<Rightarrow> planeLog_entry" where
  "planeLogEntry1 now c f =
     (let plane = getNewObject (planesById c) (getPlaneId f);
          pilot = getNewObject (peopleById c) (getPilotId f)
      in \<lparr>ple_registration = (case plane of Some p \<Rightarrow> trimmed (pl_registration p) | None \<Rightarrow> []),
           ple_type = (case plane of Some p \<Rightarrow> trimmed (pl_type p) | None \<Rightarrow> []),
           ple_date = effdatum utc f,
           ple_pilotName = (case pilot of Some p \<Rightarrow> pe_formalName p | None \<Rightarrow> []),
           ple_minPassengers = numPassengers f, ple_maxPassengers = numPassengers f,
           ple_departureLocation = trimmed (getDepartureLocation f),
           ple_landingLocation = trimmed (getLandingLocation f),
           ple_departureTime = (if hasDepartureTime f then getDepartureTime f else None),
           ple_landingTime = (if hasLandingTime f then getLandingTime f else None),
           ple_numLandings = (if landsHere f then getNumLandings f else 0),
           ple_operationTime = (if hasDuration f then flightDuration now f else None),
           ple_comments = trimmed (getComments f),
           ple_valid = finished f\<rparr>)"

text \<open>The body of the loop over the flights of an entry: the entry so far, the comments and the number of
  towflights.\<close>

definition addToEntry :: "qdatetime \<Rightarrow> planeLog_entry \<times> qstring list \<times> int \<Rightarrow> flight \<Rightarrow> planeLog_entry \<times> qstring list \<times> int" where
  "addToEntry now acc f =
     (case acc of (e, comments, numTowFlights) \<Rightarrow>
       (e\<lparr>ple_minPassengers := (if ple_minPassengers e = 0 \<or> numPassengers f < ple_minPassengers e
             then numPassengers f else ple_minPassengers e),
          ple_maxPassengers := (if ple_maxPassengers e = 0 \<or> numPassengers f > ple_maxPassengers e
             then numPassengers f else ple_maxPassengers e),
          ple_numLandings := ple_numLandings e + getNumLandings f,
          ple_operationTime := (if hasDuration f
             then addSecs (ple_operationTime e)
               (case flightDuration now f of Some s \<Rightarrow> s | None \<Rightarrow> 0)
             else ple_operationTime e),
          ple_valid := (if \<not> finished f then False else ple_valid e)\<rparr>,
        if \<not> isNone (getComments f) then comments @ [trimmed (getComments f)] else comments,
        if isTowflight f then numTowFlights + 1 else numTowFlights))"

text \<open>The entry for several flights; there must be one at least (an assertion).\<close>

definition planeLogEntry :: "qdatetime \<Rightarrow> cache \<Rightarrow> flight list \<Rightarrow> planeLog_entry option" where
  "planeLogEntry now c fs =
     (if fs = [] then None
      else (let lastFlight = last fs; firstFlight = hd fs;
          plane = getNewObject (planesById c) (getPlaneId lastFlight);
          pilot = getNewObject (peopleById c) (getPilotId lastFlight);
          entry = ple_new
            \<lparr>ple_registration := (case plane of Some p \<Rightarrow> pl_registration p | None \<Rightarrow> []),
             ple_type := (case plane of Some p \<Rightarrow> pl_type p | None \<Rightarrow> []),
             ple_operationTime := midnight,
             ple_date := effdatum utc lastFlight,
             ple_pilotName := (case pilot of Some p \<Rightarrow> pe_formalName p | None \<Rightarrow> []),
             ple_departureLocation := trimmed (getDepartureLocation firstFlight),
             ple_landingLocation := trimmed (getLandingLocation lastFlight),
             ple_departureTime := getDepartureTime firstFlight,
             ple_landingTime := getLandingTime lastFlight\<rparr>;
          (entry, comments, numTowFlights) = foldl (addToEntry now) (entry, [], 0) fs;
          comments = (if numTowFlights = 1 then comments @ [''towflight'']
            else if numTowFlights > 1 then comments @ [''towflights''] else comments)
        in Some (entry\<lparr>ple_comments := firstToUpper (joinStrings ''; '' comments)\<rparr>)))"

text \<open>The loop over the flights of a plane: flights are collected as long as they can be merged.\<close>

fun planeLogLoop ::
    "(flight list \<Rightarrow> planeLog_entry option) \<Rightarrow> plane option \<Rightarrow> flight list \<Rightarrow> flight list \<Rightarrow> flight option
      \<Rightarrow> planeLog_entry list \<Rightarrow> planeLog_entry list option" where
  "planeLogLoop create plane [] entryFlights prev result =
     (case create entryFlights of None \<Rightarrow> None | Some e \<Rightarrow> Some (result @ [e]))"
| "planeLogLoop create plane (f # fs) entryFlights prev result =
     (if (case prev of Some p \<Rightarrow> \<not> collectiveLogEntryPossible p plane f | None \<Rightarrow> False)
      then (case create entryFlights of
          None \<Rightarrow> None
        | Some e \<Rightarrow> planeLogLoop create plane fs [f] (Some f) (result @ [e]))
      else planeLogLoop create plane fs (entryFlights @ [f]) (Some f) result)"

definition planeLogOf :: "qdatetime \<Rightarrow> cache \<Rightarrow> dbId \<Rightarrow> flight list \<Rightarrow> planeLog_entry list option" where
  "planeLogOf now c planeId flights =
     (let plane = getNewObject (planesById c) planeId;
          interestingFlights = filter (\<lambda>f. finished f \<and> getPlaneId f = planeId) flights
      in planeLogLoop (planeLogEntry now c) plane (std_sort flight_less interestingFlights) [] None [])"

text \<open>The ids of the planes that have flights, without the invalid one, and the objects that are found.\<close>

definition foundObjects :: "(dbId \<rightharpoonup> 't) \<Rightarrow> dbId list \<Rightarrow> 't list" where
  "foundObjects hash is = List.map_filter (\<lambda>i. case getObject hash i of Inr x \<Rightarrow> Some x | Inl _ \<Rightarrow> None) is"

definition loggedPlanes :: "(dbId list \<Rightarrow> dbId list) \<Rightarrow> cache \<Rightarrow> flight list \<Rightarrow> plane list" where
  "loggedPlanes vals c flights =
     (let planeIds = removeAll 0 (vals (map getPlaneId (filter finished flights)))
      in std_sort pl_clubAwareLessThan (foundObjects (planesById c) planeIds))"

fun appendLogs :: "('a \<Rightarrow> 'b list option) \<Rightarrow> 'a list \<Rightarrow> 'b list option" where
  "appendLogs log [] = Some []"
| "appendLogs log (x # xs) = (case log x of
     None \<Rightarrow> None | Some es \<Rightarrow> map_option ((@) es) (appendLogs log xs))"

definition planeLog :: "(dbId list \<Rightarrow> dbId list) \<Rightarrow> qdatetime \<Rightarrow> cache \<Rightarrow> flight list \<Rightarrow> planeLog_entry list option" where
  "planeLog vals now c flights =
     appendLogs (\<lambda>p. planeLogOf now c (pl_id p) flights) (loggedPlanes vals c flights)"

definition planeLog_columnCount :: nat where
  "planeLog_columnCount = 12"

definition planeLog_data :: "(qdate \<Rightarrow> qstring) \<Rightarrow> planeLog_entry \<Rightarrow> nat \<Rightarrow> qvariant option" where
  "planeLog_data dateText e column =
     (if column = 0 then Some (VString (ple_registration e))
      else if column = 1 then Some (VString (ple_type e))
      else if column = 2 then Some (VString (dateText (ple_date e)))
      else if column = 3 then Some (VString (ple_pilotName e))
      else if column = 4 then Some (VString (numPassengersString e))
      else if column = 5 then Some (VString (ple_departureLocation e))
      else if column = 6 then Some (VString (ple_landingLocation e))
      else if column = 7 then Some (VString (ple_departureTimeText e))
      else if column = 8 then Some (VString (ple_landingTimeText e))
      else if column = 9 then Some (numLandingsText e)
      else if column = 10 then Some (VString (operationTimeText e))
      else if column = 11 then Some (VString (ple_comments e))
      else None)"

text \<open>The header of a table: the names of the columns, and the numbers of the rows.\<close>

definition tableHeader :: "qstring list \<Rightarrow> bool \<Rightarrow> nat \<Rightarrow> qvariant option" where
  "tableHeader names horizontal s =
     (if horizontal then (if s < length names then Some (VString (names ! s)) else None)
      else Some (VInt (int s + 1)))"

definition planeLog_headerData :: "bool \<Rightarrow> nat \<Rightarrow> qvariant option" where
  "planeLog_headerData = tableHeader [''Registration'', ''Model'', ''Date'', ''Pilot'', ''Passengers'',
     ''Departure location'', ''Landing location'', ''Departure time'', ''Landing time'', ''Number of landings'',
     ''Time airborne'', ''Comments'']"

section \<open>Pilot log\<close>

datatype flightInstructorMode = flightInstructorNone | flightInstructorStrict | flightInstructorLoose

record pilotLog_entry =
  pie_date :: qdate
  pie_planeType :: qstring
  pie_planeRegistration :: qstring
  pie_pilot :: qstring
  pie_copilot :: qstring
  pie_launchMethod :: qstring
  pie_departureLocation :: qstring
  pie_landingLocation :: qstring
  pie_departureTime :: qdatetime
  pie_landingTime :: qdatetime
  pie_flightDuration :: qtime
  pie_comments :: qstring
  pie_valid :: bool

definition pilotLogEntry :: "qdatetime \<Rightarrow> cache \<Rightarrow> flight \<Rightarrow> pilotLog_entry" where
  "pilotLogEntry now c f =
     (let plane = getNewObject (planesById c) (getPlaneId f);
          pilot = getNewObject (peopleById c) (getPilotId f);
          copilot = getNewObject (peopleById c) (getCopilotId f);
          launchMethod = getNewObject (launchMethodsById c) (getLaunchMethodId f)
      in \<lparr>pie_date = effdatum utc f,
          pie_planeType = (case plane of Some p \<Rightarrow> pl_type p | None \<Rightarrow> []),
          pie_planeRegistration = (case plane of Some p \<Rightarrow> pl_registration p | None \<Rightarrow> []),
          pie_pilot = (case pilot of Some p \<Rightarrow> pe_formalName p | None \<Rightarrow> []),
          pie_copilot = (case copilot of Some p \<Rightarrow> pe_formalName p | None \<Rightarrow> []),
          pie_launchMethod = (case launchMethod of Some l \<Rightarrow> lm_logString l | None \<Rightarrow> []),
          pie_departureLocation = getDepartureLocation f, pie_landingLocation = getLandingLocation f,
          pie_departureTime = getDepartureTime f, pie_landingTime = getLandingTime f,
          pie_flightDuration = flightDuration now f, pie_comments = getComments f, pie_valid = finished f\<rparr>)"

text \<open>The flights of a person: as pilot, or, depending on the mode, as instructor.\<close>

definition loggedFor :: "flightInstructorMode \<Rightarrow> dbId \<Rightarrow> flight \<Rightarrow> bool" where
  "loggedFor mode personId f \<longleftrightarrow>
     getPilotId f = personId
     \<or> mode = flightInstructorLoose \<and> getCopilotId f = personId
     \<or> mode = flightInstructorStrict \<and> getType f = typeTraining2 \<and> getCopilotId f = personId"

definition pilotLogOf :: "qdatetime \<Rightarrow> cache \<Rightarrow> flightInstructorMode \<Rightarrow> dbId \<Rightarrow> flight list \<Rightarrow> pilotLog_entry list" where
  "pilotLogOf now c mode personId flights =
     map (pilotLogEntry now c)
       (std_sort flight_less (filter (\<lambda>f. finished f \<and> loggedFor mode personId f) flights))"

definition loggedPeople :: "(dbId list \<Rightarrow> dbId list) \<Rightarrow> cache \<Rightarrow> flight list \<Rightarrow> person list" where
  "loggedPeople vals c flights =
     (let personIds = removeAll 0 (vals (concat (map (\<lambda>f. [getPilotId f, getCopilotId f]) (filter finished flights))))
      in std_sort pe_less (foundObjects (peopleById c) personIds))"

definition pilotLog ::
    "(dbId list \<Rightarrow> dbId list) \<Rightarrow> qdatetime \<Rightarrow> cache \<Rightarrow> flightInstructorMode \<Rightarrow> flight list \<Rightarrow> pilotLog_entry list" where
  "pilotLog vals now c mode flights =
     concat (map (\<lambda>p. pilotLogOf now c mode (pe_id p) flights) (loggedPeople vals c flights))"

definition pilotLog_columnCount :: nat where
  "pilotLog_columnCount = 12"

definition pilotLog_data :: "(qdate \<Rightarrow> qstring) \<Rightarrow> pilotLog_entry \<Rightarrow> nat \<Rightarrow> qvariant option" where
  "pilotLog_data dateText e column =
     (if column = 0 then Some (VString (dateText (pie_date e)))
      else if column = 1 then Some (VString (pie_planeType e))
      else if column = 2 then Some (VString (pie_planeRegistration e))
      else if column = 3 then Some (VString (pie_pilot e))
      else if column = 4 then Some (VString (pie_copilot e))
      else if column = 5 then Some (VString (pie_launchMethod e))
      else if column = 6 then Some (VString (pie_departureLocation e))
      else if column = 7 then Some (VString (pie_landingLocation e))
      else if column = 8 then Some (VString (hhmmUtc (pie_departureTime e)))
      else if column = 9 then Some (VString (hhmmUtc (pie_landingTime e)))
      else if column = 10 then Some (VString (hmm (pie_flightDuration e)))
      else if column = 11 then Some (VString (pie_comments e))
      else None)"

definition pilotLog_headerData :: "bool \<Rightarrow> nat \<Rightarrow> qvariant option" where
  "pilotLog_headerData = tableHeader [''Date'', ''Model'', ''Registration'', ''Pilot'', ''Copilot'', ''Launch method'',
     ''Departure location'', ''Landing location'', ''Departure time'', ''Landing time'', ''Flight duration'', ''Comments'']"

section \<open>Launch method statistics\<close>

record launchMethod_count =
  lmc_name :: qstring
  lmc_num :: int

text \<open>A QMap is kept in the order of its keys; incrementing a value that does not exist makes it 1.\<close>

fun qmapIncrement :: "dbId \<Rightarrow> (dbId \<times> int) list \<Rightarrow> (dbId \<times> int) list" where
  "qmapIncrement k [] = [(k, 1)]"
| "qmapIncrement k ((k', n) # m) =
     (if k = k' then (k', n + 1) # m
      else if k < k' then (k, 1) # (k', n) # m
      else (k', n) # qmapIncrement k m)"

definition qmapValue :: "(dbId \<times> int) list \<Rightarrow> dbId \<Rightarrow> int" where
  "qmapValue m k = (case map_of m k of Some n \<Rightarrow> n | None \<Rightarrow> 0)"

definition countLaunches :: "flight list \<Rightarrow> (dbId \<times> int) list \<times> int" where
  "countLaunches flights =
     foldl (\<lambda>(m, tows) f.
       if happened f
       then if isTowflight f then (m, tows + 1) else (qmapIncrement (getLaunchMethodId f) m, tows)
       else (m, tows)) ([], 0) flights"

definition launchMethodStatistics :: "cache \<Rightarrow> flight list \<Rightarrow> launchMethod_count list" where
  "launchMethodStatistics c flights =
     (let (m, numTowFlights) = countLaunches flights;
          found = (case getObjectsByIds (launchMethodsById c) (map fst m) True of Inr ls \<Rightarrow> ls | Inl _ \<Rightarrow> []);
          entries = map (\<lambda>l. \<lparr>lmc_name = lm_name l, lmc_num = qmapValue m (lm_id l)\<rparr>)
            (std_sort lm_nameLessThan found)
      in if numTowFlights > 0 then entries @ [\<lparr>lmc_name = ''Towflights'', lmc_num = numTowFlights\<rparr>] else entries)"

definition launchMethodStatistics_data :: "launchMethod_count \<Rightarrow> nat \<Rightarrow> qvariant option" where
  "launchMethodStatistics_data e column =
     (if column = 0 then Some (VString (lmc_name e)) else if column = 1 then Some (VInt (lmc_num e)) else None)"

definition launchMethodStatistics_headerData :: "bool \<Rightarrow> nat \<Rightarrow> qvariant option" where
  "launchMethodStatistics_headerData = tableHeader [''Launch method'', ''Number of launches'']"

section \<open>The entries of the plane log\<close>

text \<open>The maximal runs of a list whose neighbours are related.\<close>

fun runs :: "('a \<Rightarrow> 'a \<Rightarrow> bool) \<Rightarrow> 'a list \<Rightarrow> 'a list list" where
  "runs R [] = []"
| "runs R [x] = [[x]]"
| "runs R (x # y # zs) =
     (case runs R (y # zs) of
        [] \<Rightarrow> []
      | g # gs \<Rightarrow> if R x y then (x # g) # gs else [x] # g # gs)"

lemma runs_Cons: "\<exists>g gs. runs R (x # xs) = (x # g) # gs"
proof (induction xs arbitrary: x)
  case (Cons y ys)
  then obtain g gs where "runs R (y # ys) = (y # g) # gs" by blast
  then show ?case by simp
qed simp

lemma runs_concat [simp]: "concat (runs R xs) = xs"
  by (induction R xs rule: runs.induct) (auto split: list.splits dest: arg_cong [of _ _ concat])

lemma runs_related: "g \<in> set (runs R xs) \<Longrightarrow> g \<noteq> [] \<and> successively R g"
proof (induction R xs arbitrary: g rule: runs.induct)
  case (3 R x y zs)
  obtain h hs where h: "runs R (y # zs) = (y # h) # hs" using runs_Cons by metis
  show ?case using 3 by (auto simp: h split: if_splits)
qed simp_all

lemma runs_append:
  assumes "\<not> R x y"
  shows "successively R (xs @ [x]) \<Longrightarrow> runs R (xs @ x # y # ys) = (xs @ [x]) # runs R (y # ys)"
proof (induction xs)
  case Nil
  obtain g gs where "runs R (y # ys) = (y # g) # gs" using runs_Cons by metis
  then show ?case using assms by simp
next
  case (Cons z zs)
  obtain w ws where w: "zs @ [x] = w # ws" by (cases "zs @ [x]") auto
  then have split: "zs @ x # y # ys = w # ws @ y # ys" by (metis append.assoc append_Cons append_Nil)
  have "runs R (w # ws @ y # ys) = (w # ws) # runs R (y # ys)"
    using Cons by (simp add: successively_Cons split w)
  moreover have "R z w" using Cons.prems by (simp add: w)
  ultimately show ?case by (simp add: split w)
qed

lemma runs_single: "xs \<noteq> [] \<Longrightarrow> successively R xs \<Longrightarrow> runs R xs = [xs]"
  by (induction R xs rule: runs.induct) auto

lemma planeLogLoop_runs:
  assumes "\<And>g. g \<noteq> [] \<Longrightarrow> create g = Some (e g)" "R = (\<lambda>p f. collectiveLogEntryPossible p plane f)"
  shows "g \<noteq> [] \<Longrightarrow> successively R g \<Longrightarrow>
    planeLogLoop create plane fs g (Some (last g)) result = Some (result @ map e (runs R (g @ fs)))"
proof (induction fs arbitrary: g result)
  case Nil
  then show ?case by (simp add: assms(1) runs_single)
next
  case (Cons f fs)
  obtain xs x where g: "g = xs @ [x]" using Cons.prems(1) by (cases g rule: rev_cases) auto
  show ?case
  proof (cases "R x f")
    case True
    then have "successively R (g @ [f])" using Cons.prems g by (simp add: successively_append_iff)
    then show ?thesis using Cons.IH [of "g @ [f]" result] True g assms(2) by simp
  next
    case False
    have run: "runs R (xs @ x # f # fs) = (xs @ [x]) # runs R (f # fs)"
      by (rule runs_append) (use False Cons.prems g in simp_all)
    from False show ?thesis
      using Cons.IH [of "[f]" "result @ [e g]"] Cons.prems g assms run
      by simp
  qed
qed

text \<open>What an entry says of the flights of a plane it is made from.\<close>

definition durationSecs :: "qdatetime \<Rightarrow> flight \<Rightarrow> int" where
  "durationSecs now f = (if hasDuration f then (case flightDuration now f of Some s \<Rightarrow> s | None \<Rightarrow> 0) else 0)"

definition summarises :: "qdatetime \<Rightarrow> cache \<Rightarrow> plane \<Rightarrow> flight list \<Rightarrow> planeLog_entry \<Rightarrow> bool" where
  "summarises now c p g e \<longleftrightarrow>
     ple_registration e = pl_registration p \<and> ple_type e = pl_type p
     \<and> ple_date e = effdatum utc (last g)
     \<and> ple_pilotName e = (case getNewObject (peopleById c) (getPilotId (last g)) of
          Some q \<Rightarrow> pe_formalName q | None \<Rightarrow> [])
     \<and> ple_minPassengers e = Min (numPassengers ` set g) \<and> ple_maxPassengers e = Max (numPassengers ` set g)
     \<and> ple_departureLocation e = trimmed (getDepartureLocation (hd g)) \<and> ple_departureTime e = getDepartureTime (hd g)
     \<and> ple_landingLocation e = trimmed (getLandingLocation (last g)) \<and> ple_landingTime e = getLandingTime (last g)
     \<and> ple_numLandings e = sum_list (map getNumLandings g)
     \<and> ple_operationTime e = Some (sum_list (map (durationSecs now) g) mod 86400)
     \<and> (ple_valid e \<longleftrightarrow> list_all finished g)"

lemma addToEntry_fields [simp]:
  "ple_registration (fst (addToEntry now acc f)) = ple_registration (fst acc)"
  "ple_type (fst (addToEntry now acc f)) = ple_type (fst acc)"
  "ple_date (fst (addToEntry now acc f)) = ple_date (fst acc)"
  "ple_pilotName (fst (addToEntry now acc f)) = ple_pilotName (fst acc)"
  "ple_departureLocation (fst (addToEntry now acc f)) = ple_departureLocation (fst acc)"
  "ple_landingLocation (fst (addToEntry now acc f)) = ple_landingLocation (fst acc)"
  "ple_departureTime (fst (addToEntry now acc f)) = ple_departureTime (fst acc)"
  "ple_landingTime (fst (addToEntry now acc f)) = ple_landingTime (fst acc)"
  "ple_numLandings (fst (addToEntry now acc f)) = ple_numLandings (fst acc) + getNumLandings f"
  "ple_valid (fst (addToEntry now acc f)) \<longleftrightarrow> ple_valid (fst acc) \<and> finished f"
  by (simp_all add: addToEntry_def split: prod.split)

lemma addToEntry_passengers1:
  "ple_minPassengers (fst (addToEntry now acc f)) = (if ple_minPassengers (fst acc) = 0
      \<or> numPassengers f < ple_minPassengers (fst acc) then numPassengers f else ple_minPassengers (fst acc))"
  "ple_maxPassengers (fst (addToEntry now acc f)) = (if ple_maxPassengers (fst acc) = 0
      \<or> numPassengers f > ple_maxPassengers (fst acc) then numPassengers f else ple_maxPassengers (fst acc))"
  by (simp_all add: addToEntry_def split: prod.split)

lemma addToEntry_duration:
  "ple_operationTime (fst acc) = addSecs t s \<Longrightarrow>
     ple_operationTime (fst (addToEntry now acc f)) = addSecs t (s + durationSecs now f)"
  by (auto simp: addToEntry_def durationSecs_def addSecs_addSecs split: prod.split)

lemma foldl_addToEntry_same [simp]:
  "ple_registration (fst (foldl (addToEntry now) acc fs)) = ple_registration (fst acc)"
  "ple_type (fst (foldl (addToEntry now) acc fs)) = ple_type (fst acc)"
  "ple_date (fst (foldl (addToEntry now) acc fs)) = ple_date (fst acc)"
  "ple_pilotName (fst (foldl (addToEntry now) acc fs)) = ple_pilotName (fst acc)"
  "ple_departureLocation (fst (foldl (addToEntry now) acc fs)) = ple_departureLocation (fst acc)"
  "ple_landingLocation (fst (foldl (addToEntry now) acc fs)) = ple_landingLocation (fst acc)"
  "ple_departureTime (fst (foldl (addToEntry now) acc fs)) = ple_departureTime (fst acc)"
  "ple_landingTime (fst (foldl (addToEntry now) acc fs)) = ple_landingTime (fst acc)"
  "ple_numLandings (fst (foldl (addToEntry now) acc fs)) = ple_numLandings (fst acc) + sum_list (map getNumLandings fs)"
  "ple_valid (fst (foldl (addToEntry now) acc fs)) \<longleftrightarrow> ple_valid (fst acc) \<and> list_all finished fs"
  by (induction fs arbitrary: acc) auto

lemma foldl_addToEntry_duration:
  "ple_operationTime (fst acc) = addSecs t s \<Longrightarrow>
     ple_operationTime (fst (foldl (addToEntry now) acc fs)) = addSecs t (s + sum_list (map (durationSecs now) fs))"
proof (induction fs arbitrary: acc s)
  case (Cons f fs)
  show ?case using Cons.IH [OF addToEntry_duration [OF Cons.prems]] by (simp add: add.assoc)
qed simp

lemma numPassengers_pos: "0 < numPassengers f"
  by (simp add: numPassengers_def)

lemma foldl_addToEntry_passengers:
  assumes "ple_minPassengers (fst acc) = 0" "ple_maxPassengers (fst acc) = 0" "fs \<noteq> []"
  shows "ple_minPassengers (fst (foldl (addToEntry now) acc fs)) = Min (numPassengers ` set fs)
    \<and> ple_maxPassengers (fst (foldl (addToEntry now) acc fs)) = Max (numPassengers ` set fs)"
  using assms(3)
proof (induction fs rule: rev_induct)
  case (snoc f fs)
  show ?case
  proof (cases "fs = []")
    case False
    have "Min (numPassengers ` set fs) \<in> numPassengers ` set fs" "Max (numPassengers ` set fs) \<in> numPassengers ` set fs"
      using False by (auto intro: Min_in Max_in)
    then have "0 < Min (numPassengers ` set fs)" "0 < Max (numPassengers ` set fs)"
      using numPassengers_pos by (metis imageE)+
    moreover define m M where "m = Min (numPassengers ` set fs)" and "M = Max (numPassengers ` set fs)"
    moreover have "Min (numPassengers ` set (fs @ [f])) = min (numPassengers f) m"
      "Max (numPassengers ` set (fs @ [f])) = max (numPassengers f) M"
      using False by (simp_all add: m_def M_def)
    ultimately have "0 < m" "0 < M" "ple_minPassengers (fst (foldl (addToEntry now) acc fs)) = m"
      "ple_maxPassengers (fst (foldl (addToEntry now) acc fs)) = M" "Min (numPassengers ` set (fs @ [f])) = min (numPassengers f) m"
      "Max (numPassengers ` set (fs @ [f])) = max (numPassengers f) M"
      using snoc.IH [OF False] by metis+
    then show ?thesis by (simp only: foldl_append foldl.simps addToEntry_passengers1) (simp add: min_def max_def)
  qed (use assms(1,2) in \<open>simp add: addToEntry_passengers1\<close>)
qed simp

lemma planeLogEntry_summarises:
  assumes "getNewObject (planesById c) (getPlaneId (last g)) = Some p" "g \<noteq> []"
  shows "\<exists>e. planeLogEntry now c g = Some e \<and> summarises now c p g e"
proof -
  define e0 where "e0 = ple_new
            \<lparr>ple_registration := pl_registration p,
             ple_type := pl_type p,
             ple_operationTime := midnight,
             ple_date := effdatum utc (last g),
             ple_pilotName := (case getNewObject (peopleById c) (getPilotId (last g)) of Some p \<Rightarrow> pe_formalName p | None \<Rightarrow> []),
             ple_departureLocation := trimmed (getDepartureLocation (hd g)),
             ple_landingLocation := trimmed (getLandingLocation (last g)),
             ple_departureTime := getDepartureTime (hd g),
             ple_landingTime := getLandingTime (last g)\<rparr>"
  define r where "r = foldl (addToEntry now) (e0, [], 0) g"
  have "planeLogEntry now c g = Some (fst r\<lparr>ple_comments := firstToUpper (joinStrings ''; '' (
      if snd (snd r) = 1 then fst (snd r) @ [''towflight'']
      else if snd (snd r) > 1 then fst (snd r) @ [''towflights''] else fst (snd r)))\<rparr>)"
    using assms by (simp add: planeLogEntry_def Let_def r_def e0_def split_beta)
  moreover have "ple_operationTime (fst r) = Some (sum_list (map (durationSecs now) g) mod 86400)"
    using foldl_addToEntry_duration [of "(e0, [], 0)" midnight 0 now g]
    by (simp add: r_def e0_def ple_new_def addSecs_midnight) (simp add: midnight_def)
  moreover have "ple_minPassengers (fst r) = Min (numPassengers ` set g)" "ple_maxPassengers (fst r) = Max (numPassengers ` set g)"
    using foldl_addToEntry_passengers [of "(e0, [], 0)" g now] assms(2) by (simp_all add: r_def e0_def ple_new_def)
  moreover have "ple_numLandings (fst r) = sum_list (map getNumLandings g)" "ple_valid (fst r) \<longleftrightarrow> list_all finished g"
    by (simp_all add: r_def e0_def ple_new_def)
  ultimately show ?thesis by (simp add: summarises_def) (simp add: r_def e0_def)
qed

section \<open>The logs are complete\<close>

lemma foundObjects_ids:
  "table_ok gid hash \<Longrightarrow> map gid (foundObjects hash is) = filter (\<lambda>i. hash i \<noteq> None) is"
  by (induction "is") (auto simp: foundObjects_def List.map_filter_def getObject_def idInvalid_def invalidId_def table_ok_def
      split: option.splits)

lemma foundObjects_found: "x \<in> set (foundObjects hash is) \<Longrightarrow> \<exists>i \<in> set is. hash i = Some x"
  by (induction "is") (auto simp: foundObjects_def List.map_filter_def getObject_def split: if_splits option.splits)

lemma sum_filter_keys:
  "distinct ks \<Longrightarrow> sum_list (map (\<lambda>k. filter_mset (\<lambda>f. P f \<and> key f = k) M) ks) = filter_mset (\<lambda>f. P f \<and> key f \<in> set ks) M"
proof (induction ks)
  case (Cons k ks)
  have "filter_mset (\<lambda>f. P f \<and> key f \<in> set (k # ks)) M
      = filter_mset (\<lambda>f. P f \<and> key f = k) M + filter_mset (\<lambda>f. P f \<and> key f \<in> set ks) M"
    using Cons.prems by (intro multiset_eqI) (auto simp: not_in_iff)
  with Cons show ?case by simp
qed simp

lemma mset_concat_sum: "mset (concat xss) = sum_list (map mset xss)"
  by (induction xss) auto

lemma sum_list_groups:
  "sum_list (map h (concat gs)) = sum_list (map (\<lambda>g. sum_list (map h g)) gs)" for h :: "'a \<Rightarrow> int"
  by (induction gs) simp_all

lemma concat_concat_map: "concat (concat (map f xs)) = concat (map (\<lambda>x. concat (f x)) xs)"
  by (induction xs) simp_all

lemma appendLogs_concat: "(\<And>x. x \<in> set xs \<Longrightarrow> log x = Some (e x)) \<Longrightarrow> appendLogs log xs = Some (concat (map e xs))"
  by (induction xs) auto

definition planeGroups :: "plane \<Rightarrow> flight list \<Rightarrow> flight list list" where
  "planeGroups p flights =
     runs (\<lambda>f f'. collectiveLogEntryPossible f (Some p) f')
       (std_sort flight_less (filter (\<lambda>f. finished f \<and> getPlaneId f = pl_id p) flights))"

lemma planeLogOf_groups:
  assumes "getNewObject (planesById c) (pl_id p) = Some p" "\<exists>f \<in> set flights. finished f \<and> getPlaneId f = pl_id p"
  shows "planeLogOf now c (pl_id p) flights = Some (map (\<lambda>g. the (planeLogEntry now c g)) (planeGroups p flights))"
proof -
  let ?fs = "std_sort flight_less (filter (\<lambda>f. finished f \<and> getPlaneId f = pl_id p) flights)"
  have "set ?fs \<noteq> {}" using assms(2) by auto
  then obtain f fs where fs: "?fs = f # fs" by (cases ?fs) auto
  have "g \<noteq> [] \<Longrightarrow> planeLogEntry now c g = Some (the (planeLogEntry now c g))" for g
    by (simp add: planeLogEntry_def Let_def split_beta)
  from planeLogLoop_runs [OF this refl, where g = "[f]" and plane = "Some p" and fs = fs and result = "[]"] show ?thesis
    by (simp add: planeLogOf_def planeGroups_def assms(1) fs)
qed

lemma loggedPlanes_ids:
  assumes "table_ok pl_id (planesById c)" "distinct (vals (map getPlaneId (filter finished flights)))"
    and "set (vals (map getPlaneId (filter finished flights))) = set (map getPlaneId (filter finished flights))"
  shows "distinct (map pl_id (loggedPlanes vals c flights))"
    and "p \<in> set (loggedPlanes vals c flights) \<longleftrightarrow>
      planesById c (pl_id p) = Some p \<and> (\<exists>f \<in> set flights. finished f \<and> getPlaneId f = pl_id p)"
proof -
  let ?is = "removeAll 0 (vals (map getPlaneId (filter finished flights)))"
  let ?ps = "foundObjects (planesById c) ?is"
  have ids: "map pl_id ?ps = filter (\<lambda>i. planesById c i \<noteq> None) ?is" by (rule foundObjects_ids [OF assms(1)])
  then show "distinct (map pl_id (loggedPlanes vals c flights))"
    using assms(2) by (simp add: loggedPlanes_def std_sort_distinct distinct_removeAll)
  have own: "planesById c (pl_id q) = Some q \<and> pl_id q \<in> set ?is" if q: "q \<in> set ?ps" for q
  proof -
    obtain i where "i \<in> set ?is" "planesById c i = Some q" using foundObjects_found [OF q] by blast
    then show ?thesis using assms(1) by (simp add: table_ok_def)
  qed
  have member: "p \<in> set ?ps \<longleftrightarrow> planesById c (pl_id p) = Some p \<and> pl_id p \<in> set ?is"
  proof
    assume p: "planesById c (pl_id p) = Some p \<and> pl_id p \<in> set ?is"
    then have "pl_id p \<in> set (map pl_id ?ps)" unfolding ids by simp
    then obtain q where q: "q \<in> set ?ps" "pl_id q = pl_id p" by auto
    have "planesById c (pl_id p) = Some q" using own [OF q(1)] unfolding q(2) by blast
    then have "q = p" using p by simp
    with q(1) show "p \<in> set ?ps" by simp
  qed (rule own)
  have "planesById c (pl_id p) = Some p \<Longrightarrow> pl_id p \<noteq> 0" using assms(1) unfolding table_ok_def by blast
  moreover have "pl_id p \<in> set ?is \<longleftrightarrow> pl_id p \<noteq> 0 \<and> (\<exists>f \<in> set flights. finished f \<and> getPlaneId f = pl_id p)"
    by (simp add: assms(3) image_iff) (metis (full_types))
  moreover have "set (loggedPlanes vals c flights) = set ?ps" by (simp add: loggedPlanes_def)
  ultimately show "p \<in> set (loggedPlanes vals c flights) \<longleftrightarrow>
      planesById c (pl_id p) = Some p \<and> (\<exists>f \<in> set flights. finished f \<and> getPlaneId f = pl_id p)"
    using member by blast
qed

lemma mirrors_tables:
  assumes "cacheMirrors c d"
  shows "planesById c = tb_planes d" "table_ok pl_id (tb_planes d)" "peopleById c = tb_people d" "table_ok pe_id (tb_people d)"
    and "launchMethodsById c = tb_launchMethods d" "table_ok lm_id (tb_launchMethods d)"
  using assms by (simp_all add: cacheMirrors_def mirrors_def planeKind_def personKind_def launchMethodKind_def)


lemma loggedPeople_ids:
  assumes "table_ok pe_id (peopleById c)" "\<And>is. distinct (vals is) \<and> set (vals is) = set is"
  shows "distinct (map pe_id (loggedPeople vals c flights))"
    and "set (map pe_id (loggedPeople vals c flights))
      = {i \<in> dom (peopleById c). \<exists>f \<in> set flights. finished f \<and> (getPilotId f = i \<or> getCopilotId f = i)}"
proof -
  let ?is = "concat (map (\<lambda>f. [getPilotId f, getCopilotId f]) (filter finished flights))"
  have ids: "map pe_id (foundObjects (peopleById c) (removeAll 0 (vals ?is)))
      = filter (\<lambda>i. peopleById c i \<noteq> None) (removeAll 0 (vals ?is))" by (rule foundObjects_ids [OF assms(1)])
  then show "distinct (map pe_id (loggedPeople vals c flights))"
    using assms(2) by (simp add: loggedPeople_def std_sort_distinct distinct_removeAll)
  have "0 \<notin> dom (peopleById c)" using assms(1) unfolding table_ok_def by blast
  moreover have "set (map pe_id (loggedPeople vals c flights))
      = set (filter (\<lambda>i. peopleById c i \<noteq> None) (removeAll 0 (vals ?is)))"
    unfolding ids [symmetric] by (simp add: loggedPeople_def)
  moreover have "set (vals ?is) = {i. \<exists>f \<in> set flights. finished f \<and> (getPilotId f = i \<or> getCopilotId f = i)}"
    using assms(2) [of ?is] by auto
  ultimately show "set (map pe_id (loggedPeople vals c flights))
      = {i \<in> dom (peopleById c). \<exists>f \<in> set flights. finished f \<and> (getPilotId f = i \<or> getCopilotId f = i)}" by auto
qed

text \<open>A glider flight, and a towflight.\<close>

definition flown1 :: flight where
  "flown1 = flight0\<lparr>getPlaneId := 1, getPilotId := 1, getDeparted := True, getLanded := True, getNumLandings := 1\<rparr>"

definition towed1 :: flight where
  "towed1 = flown1\<lparr>getType := typeTow\<rparr>"

lemma flown1_facts:
  "finished flown1" "happened flown1" "\<not> isTowflight flown1" "getPlaneId flown1 = 1" "getPilotId flown1 = 1"
  "getLaunchMethodId flown1 = 3" "getNumLandings flown1 = 1" "happened towed1" "isTowflight towed1"
  by (simp_all add: flown1_def towed1_def flight0_def newFlight_def status_defs sk_defs)

lemma mirror1: "cacheMirrors (refreshAll (Some 100) None src1 newCache) tables1"
  by (rule refreshAll_makes_mirror [OF source_ok_1 cache_sane_new]) (simp_all add: newCache_def)


lemma pilotLogs_mset:
  "mset (concat (map (\<lambda>p. pilotLogOf now c flightInstructorNone (pe_id p) flights) ps))
      = image_mset (pilotLogEntry now c)
          (sum_list (map (\<lambda>k. filter_mset (\<lambda>f. finished f \<and> getPilotId f = k) (mset flights)) (map pe_id ps)))"
  by (induction ps) (simp_all add: pilotLogOf_def loggedFor_def)

text \<open>The pilot log of the default mode has exactly one entry for every finished flight whose pilot is in the
  database.\<close>

theorem pilotLog_complete:
  assumes "cacheMirrors c d" "\<And>is. distinct (vals is) \<and> set (vals is) = set is"
  shows "mset (pilotLog vals now c flightInstructorNone flights)
    = image_mset (pilotLogEntry now c)
        (filter_mset (\<lambda>f. finished f \<and> getPilotId f \<in> dom (tb_people d)) (mset flights))"
proof -
  note t = mirrors_tables [OF assms(1)]
  let ?ps = "loggedPeople vals c flights"
  have ok: "table_ok pe_id (peopleById c)" using t by simp
  note ids = loggedPeople_ids [OF ok assms(2), of flights]
  have "mset (pilotLog vals now c flightInstructorNone flights)
      = image_mset (pilotLogEntry now c)
          (sum_list (map (\<lambda>k. filter_mset (\<lambda>f. finished f \<and> getPilotId f = k) (mset flights)) (map pe_id ?ps)))"
    unfolding pilotLog_def by (rule pilotLogs_mset)
  also have "sum_list (map (\<lambda>k. filter_mset (\<lambda>f. finished f \<and> getPilotId f = k) (mset flights)) (map pe_id ?ps))
      = filter_mset (\<lambda>f. finished f \<and> getPilotId f \<in> set (map pe_id ?ps)) (mset flights)"
    by (rule sum_filter_keys [OF ids(1)])
  also have "\<dots> = filter_mset (\<lambda>f. finished f \<and> getPilotId f \<in> dom (tb_people d)) (mset flights)"
    unfolding ids(2) t(3) by (rule filter_mset_cong) auto
  finally show ?thesis .
qed

section \<open>The launch method statistics count every launch\<close>

lemma qmapIncrement_keys:
  "sorted (map fst m) \<Longrightarrow> distinct (map fst m) \<Longrightarrow>
     sorted (map fst (qmapIncrement k m)) \<and> distinct (map fst (qmapIncrement k m))
     \<and> set (map fst (qmapIncrement k m)) = insert k (set (map fst m))"
  by (induction k m rule: qmapIncrement.induct) auto

lemma qmapIncrement_value:
  "sorted (map fst m) \<Longrightarrow> distinct (map fst m) \<Longrightarrow>
     qmapValue (qmapIncrement k m) j = qmapValue m j + (if j = k then 1 else 0)"
proof (induction k m rule: qmapIncrement.induct)
  case (2 k k' n m)
  have "k < k' \<Longrightarrow> map_of m k = None" using 2(2) by (force simp: map_of_eq_None_iff)
  then show ?case using 2 by (auto simp: qmapValue_def split: option.split)
qed (simp add: qmapValue_def)

definition launchedBy :: "dbId \<Rightarrow> flight \<Rightarrow> bool" where
  "launchedBy i f \<longleftrightarrow> happened f \<and> \<not> isTowflight f \<and> getLaunchMethodId f = i"

lemma countLaunches_counts:
  "case countLaunches flights of (m, tows) \<Rightarrow>
     sorted (map fst m) \<and> distinct (map fst m) \<and> set (map fst m) = {i. \<exists>f \<in> set flights. launchedBy i f}
     \<and> (\<forall>i. qmapValue m i = int (length (filter (launchedBy i) flights)))
     \<and> tows = int (length (filter (\<lambda>f. happened f \<and> isTowflight f) flights))"
proof (induction flights rule: rev_induct)
  case (snoc f fs)
  obtain m tows where r: "countLaunches fs = (m, tows)" by (cases "countLaunches fs")
  have step: "countLaunches (fs @ [f]) = (if happened f then
      if isTowflight f then (m, tows + 1) else (qmapIncrement (getLaunchMethodId f) m, tows) else (m, tows))"
    using r by (simp add: countLaunches_def)
  have launched: "launchedBy i f \<longleftrightarrow> happened f \<and> \<not> isTowflight f \<and> getLaunchMethodId f = i" for i
    by (simp add: launchedBy_def)
  show ?case
    using snoc.IH qmapIncrement_keys [of m "getLaunchMethodId f"]
    by (auto simp: r step launched qmapIncrement_value)
qed (simp add: countLaunches_def qmapValue_def)

lemma getObjectsByIds_found: "getObjectsByIds hash is True = Inr (foundObjects hash is)"
  by (induction "is") (auto simp: foundObjects_def List.map_filter_def split: sum.split)

text \<open>The launch method statistics have one line for every launch method of the database that was used, in the
  order of the names, with the number of flights that used it, and a last line for the towflights,
  if there were any; no flight is counted twice.\<close>

theorem launchMethodStatistics_counts:
  assumes "cacheMirrors c d"
  shows "\<exists>ls. distinct (map lm_id ls) \<and> sorted (map lm_name ls)
    \<and> set ls = {l \<in> ran (tb_launchMethods d). \<exists>f \<in> set flights. launchedBy (lm_id l) f}
    \<and> launchMethodStatistics c flights
        = map (\<lambda>l. \<lparr>lmc_name = lm_name l, lmc_num = int (length (filter (launchedBy (lm_id l)) flights))\<rparr>) ls
          @ (let tows = filter (\<lambda>f. happened f \<and> isTowflight f) flights in
             if tows = [] then [] else [\<lparr>lmc_name = ''Towflights'', lmc_num = int (length tows)\<rparr>])"
proof -
  note t = mirrors_tables [OF assms]
  obtain m tows where r: "countLaunches flights = (m, tows)" by (cases "countLaunches flights")
  have m: "distinct (map fst m)" "set (map fst m) = {i. \<exists>f \<in> set flights. launchedBy i f}"
    "\<And>i. qmapValue m i = int (length (filter (launchedBy i) flights))"
    "tows = int (length (filter (\<lambda>f. happened f \<and> isTowflight f) flights))"
    using countLaunches_counts [of flights] by (simp_all add: r)
  define found where "found = foundObjects (launchMethodsById c) (map fst m)"
  have ids: "map lm_id found = filter (\<lambda>i. tb_launchMethods d i \<noteq> None) (map fst m)"
    using foundObjects_ids [of lm_id "launchMethodsById c" "map fst m"] t by (simp add: found_def)
  have own: "l \<in> set found \<longleftrightarrow> l \<in> ran (tb_launchMethods d) \<and> (\<exists>f \<in> set flights. launchedBy (lm_id l) f)" for l
  proof
    assume "l \<in> set found"
    then obtain i where "i \<in> set (map fst m)" "tb_launchMethods d i = Some l"
      unfolding found_def using foundObjects_found t(5) by metis
    moreover from this have "lm_id l = i" using t(6) by (simp add: table_ok_def)
    ultimately show "l \<in> ran (tb_launchMethods d) \<and> (\<exists>f \<in> set flights. launchedBy (lm_id l) f)"
      using m(2) by (auto intro: ranI)
  next
    assume l: "l \<in> ran (tb_launchMethods d) \<and> (\<exists>f \<in> set flights. launchedBy (lm_id l) f)"
    then have some: "tb_launchMethods d (lm_id l) = Some l" using table_ran [OF t(6)] by blast
    then have "lm_id l \<in> set (map lm_id found)" unfolding ids using l m(2) by simp
    then obtain l' where l': "l' \<in> set found" "lm_id l' = lm_id l" by auto
    then obtain i where "tb_launchMethods d i = Some l'" unfolding found_def using foundObjects_found t(5) by metis
    moreover from this have "lm_id l' = i" using t(6) unfolding table_ok_def by blast
    ultimately show "l \<in> set found" using some l' by simp
  qed
  let ?ls = "std_sort lm_nameLessThan found"
  have "distinct (map lm_id found)" unfolding ids by (rule distinct_filter [OF m(1)])
  then have "distinct (map lm_id ?ls)" by (simp add: std_sort_distinct)
  moreover have "sorted (map lm_name ?ls)"
    using lmo.std_sort_sorted [of found] by (simp add: sorted_map lm_nameLessThan_def not_less)
  moreover have "set ?ls = {l \<in> ran (tb_launchMethods d). \<exists>f \<in> set flights. launchedBy (lm_id l) f}"
    using own by auto
  moreover have "launchMethodStatistics c flights
        = map (\<lambda>l. \<lparr>lmc_name = lm_name l, lmc_num = int (length (filter (launchedBy (lm_id l)) flights))\<rparr>) ?ls
          @ (let tows = filter (\<lambda>f. happened f \<and> isTowflight f) flights in
             if tows = [] then [] else [\<lparr>lmc_name = ''Towflights'', lmc_num = int (length tows)\<rparr>])"
    by (simp add: launchMethodStatistics_def r Let_def getObjectsByIds_found m(3,4) found_def)
  ultimately show ?thesis by blast
qed

lemma person1_mirror: "cacheMirrors (objectAdded personKind person1 newCache) (tables0\<lparr>tb_people := [1 \<mapsto> person1]\<rparr>)"
proof -
  have "mirrors personKind personIdx newCache (tb_people tables0)"
    using new_mirrors_empty by (simp add: cacheMirrors_def)
  from ek'.added_mirrors [OF this, of person1]
  have "mirrors personKind personIdx (objectAdded personKind person1 newCache) [1 \<mapsto> person1]"
    by (simp add: person1_def pe_new_def tables0_def)
  then show ?thesis using cacheMirrors_change(2) [OF new_mirrors_empty] by (simp add: person_handlers_frame)
qed

theorem pilotLog_complete_witness:
  "pilotLog remdups None (objectAdded personKind person1 newCache) flightInstructorNone
     [flown1, flown1\<lparr>getPilotId := 9\<rparr>] = [pilotLogEntry None (objectAdded personKind person1 newCache) flown1]"
proof -
  have "mset (pilotLog remdups None (objectAdded personKind person1 newCache) flightInstructorNone
     [flown1, flown1\<lparr>getPilotId := 9\<rparr>]) = {#pilotLogEntry None (objectAdded personKind person1 newCache) flown1#}"
    using pilotLog_complete [OF person1_mirror, where vals = remdups and now = None and flights = "[flown1, flown1\<lparr>getPilotId := 9\<rparr>]"]
    by (simp add: flown1_facts)
  then show ?thesis by simp
qed

definition winch3 :: launchMethod where
  "winch3 = (lm_new 3)\<lparr>lm_name := ''Winch''\<rparr>"

theorem launchMethodStatistics_counts_witness:
  "launchMethodStatistics (objectAdded launchMethodKind winch3 newCache) [flown1, towed1, flown1]
     = [\<lparr>lmc_name = ''Winch'', lmc_num = 2\<rparr>, \<lparr>lmc_name = ''Towflights'', lmc_num = 1\<rparr>]"
proof -
  let ?c = "objectAdded launchMethodKind winch3 newCache" and ?d = "tables0\<lparr>tb_launchMethods := [3 \<mapsto> winch3]\<rparr>"
  have "mirrors launchMethodKind launchMethodIdx newCache (tb_launchMethods tables0)"
    using new_mirrors_empty by (simp add: cacheMirrors_def)
  moreover have id: "k_id launchMethodKind winch3 = 3" by (simp add: winch3_def lm_new_def launchMethodKind_def)
  ultimately have "mirrors launchMethodKind launchMethodIdx ?c [3 \<mapsto> winch3]"
    using lk.added_mirrors [of newCache "tb_launchMethods tables0" winch3] by (simp add: id tables0_def)
  then have m: "cacheMirrors ?c ?d"
    using cacheMirrors_change(3) [OF new_mirrors_empty] by (simp add: launchMethod_handlers_frame)
  have launched: "launchedBy i flown1 \<longleftrightarrow> i = 3" "\<not> launchedBy i towed1" for i
    by (auto simp: launchedBy_def flown1_facts)
  let ?fs = "[flown1, towed1, flown1]"
  have winch: "lm_id winch3 = 3" "lm_name winch3 = ''Winch''" by (simp_all add: winch3_def lm_new_def)
  from launchMethodStatistics_counts [OF m, of ?fs] show ?thesis
  proof (elim exE conjE)
    fix ls
    assume d: "distinct (map lm_id ls)"
      and s: "set ls = {l \<in> ran (tb_launchMethods ?d). \<exists>f \<in> set ?fs. launchedBy (lm_id l) f}"
      and r: "launchMethodStatistics ?c ?fs
        = map (\<lambda>l. \<lparr>lmc_name = lm_name l, lmc_num = int (length (filter (launchedBy (lm_id l)) ?fs))\<rparr>) ls
          @ (let tows = filter (\<lambda>f. happened f \<and> isTowflight f) ?fs in
             if tows = [] then [] else [\<lparr>lmc_name = ''Towflights'', lmc_num = int (length tows)\<rparr>])"
    have ls: "set ls = {winch3}" unfolding s by (auto simp: launched winch)
    moreover have "length ls = 1" using d distinct_card [of ls] ls by (simp add: distinct_map)
    ultimately have "ls = [winch3]" by (cases ls) auto
    with r show ?thesis by (simp add: launched winch flown1_facts)
  qed
qed

end
