(* ===== verification/Sk_Interface.thy ===== *)
theory Sk_Interface
  imports Sk_Entity
begin

text \<open>
  The connection to the database server, \<^verbatim>\<open>src/src/db/interface/DefaultInterface.cpp\<close>: opening with retries,
  statements that are repeated on a new connection when the connection was lost, transactions,
  cancellation and the exceptions; and the write operations of \<^verbatim>\<open>src/src/db/Database.cpp\<close> that wrap a
  statement into a transaction.

  The server is outside the repository: a record of functions on its state. How each call of QtSql ends is an
  input: the list of answers. A call fails with the native error number, and \<open>canceled\<close> says whether
  cancelConnection was called before; if the connection was lost, the statement may have been executed
  all the same. \<open>None\<close> is an operation that still waits when the answers are used up.
\<close>

section \<open>Server and answers\<close>

record 's server =
  srv_begin :: "'s \<Rightarrow> 's"
  srv_commit :: "'s \<Rightarrow> 's"
  srv_rollback :: "'s \<Rightarrow> 's"
  srv_execute :: "query \<Rightarrow> 's \<Rightarrow> 's"
  srv_disconnect :: "'s \<Rightarrow> 's"

datatype native_error =
    CR_CONN_HOST_ERROR | CR_UNKNOWN_HOST | CR_SERVER_GONE_ERROR | CR_SERVER_LOST | ER_BAD_DB_ERROR
  | ER_ACCESS_DENIED_ERROR | ER_DBACCESS_DENIED_ERROR | ER_TABLEACCESS_DENIED_ERROR | otherError int

datatype transactionStatement = transactionBegin | transactionCommit | transactionRollback

datatype db_exception =
    OperationCanceledException | DatabaseDoesNotExistException | AccessDeniedException native_error
  | ConnectionFailedException native_error | QueryFailedException native_error query
  | TransactionFailedException native_error transactionStatement | PingFailedException native_error

datatype answer = answerOk | answerFailed (ans_canceled: bool) (ans_number: native_error) (ans_done: bool)

text \<open>The object: whether the QSqlDatabase is open, and the server at the other end.\<close>

record 's db_interface =
  if_isOpen :: bool
  if_server :: 's

type_synonym ('s, 'a) db_action =
  "'s db_interface \<Rightarrow> answer list \<Rightarrow> ((db_exception + 'a) \<times> 's db_interface \<times> answer list) option"

definition retryOnQueryError :: "native_error \<Rightarrow> bool" where
  "retryOnQueryError n \<longleftrightarrow> n = CR_SERVER_GONE_ERROR \<or> n = CR_SERVER_LOST"

text \<open>After a cancellation or one of these errors there is no connection any more.\<close>

fun lost :: "answer \<Rightarrow> bool" where
  "lost answerOk = False"
| "lost (answerFailed canceled n executed) = (canceled \<or> retryOnQueryError n)"

definition callServer :: "'s server \<Rightarrow> ('s \<Rightarrow> 's) \<Rightarrow> answer \<Rightarrow> 's db_interface \<Rightarrow> 's db_interface" where
  "callServer srv stmt a i =
     (if a = answerOk then i\<lparr>if_server := stmt (if_server i)\<rparr>
      else if lost a then i\<lparr>if_server := srv_disconnect srv (if ans_done a then stmt (if_server i) else if_server i)\<rparr>
      else i)"

section \<open>Opening and closing\<close>

definition if_close :: "'s server \<Rightarrow> 's db_interface \<Rightarrow> 's db_interface" where
  "if_close srv i = i\<lparr>if_isOpen := False, if_server := srv_disconnect srv (if_server i)\<rparr>"

fun openImpl :: "('s, unit) db_action" where
  "openImpl i [] = None"
| "openImpl i (answerOk # as) = Some (Inr (), i\<lparr>if_isOpen := True\<rparr>, as)"
| "openImpl i (answerFailed canceled number executed # as) =
     (if canceled then Some (Inl OperationCanceledException, i, as)
      else (case number of
          CR_CONN_HOST_ERROR \<Rightarrow> openImpl i as
        | CR_UNKNOWN_HOST \<Rightarrow> openImpl i as
        | CR_SERVER_LOST \<Rightarrow> openImpl i as
        | ER_BAD_DB_ERROR \<Rightarrow> Some (Inl DatabaseDoesNotExistException, i, as)
        | ER_ACCESS_DENIED_ERROR \<Rightarrow> Some (Inl (AccessDeniedException number), i, as)
        | ER_DBACCESS_DENIED_ERROR \<Rightarrow> Some (Inl (AccessDeniedException number), i, as)
        | ER_TABLEACCESS_DENIED_ERROR \<Rightarrow> Some (Inl (AccessDeniedException number), i, as)
        | _ \<Rightarrow> Some (Inl (ConnectionFailedException number), i, as)))"

text \<open>Opening a QSqlDatabase that is open closes it first.\<close>

definition if_open :: "'s server \<Rightarrow> ('s, unit) db_action" where
  "if_open srv i as = openImpl (if if_isOpen i then if_close srv i else i) as"

definition ensureOpen :: "('s, unit) db_action" where
  "ensureOpen i as = (if \<not> if_isOpen i then openImpl i as else Some (Inr (), i, as))"

lemma openImpl_length: "openImpl i as = Some (r, i', as') \<Longrightarrow> length as' < length as"
  by (induction i as rule: openImpl.induct) (auto split: if_splits native_error.splits)

lemma ensureOpen_length: "ensureOpen i as = Some (r, i', as') \<Longrightarrow> length as' \<le> length as"
  by (auto simp: ensureOpen_def dest: openImpl_length split: if_splits)

section \<open>Transactions\<close>

fun transactionEffect :: "'s server \<Rightarrow> transactionStatement \<Rightarrow> 's \<Rightarrow> 's" where
  "transactionEffect srv transactionBegin = srv_begin srv"
| "transactionEffect srv transactionCommit = srv_commit srv"
| "transactionEffect srv transactionRollback = srv_rollback srv"

definition doTransactionStatement ::
    "'s server \<Rightarrow> transactionStatement \<Rightarrow> answer \<Rightarrow> 's db_interface \<Rightarrow> (db_exception + bool) \<times> 's db_interface" where
  "doTransactionStatement srv st a i =
     (let i' = callServer srv (transactionEffect srv st) a i in
      case a of
        answerOk \<Rightarrow> (Inr True, i')
      | answerFailed canceled number executed \<Rightarrow>
          if canceled then (Inl OperationCanceledException, i')
          else if \<not> retryOnQueryError number then (Inl (TransactionFailedException number st), i')
          else (Inr False, i'))"

function transactionStatementImpl :: "'s server \<Rightarrow> transactionStatement \<Rightarrow> ('s, unit) db_action" where
  "transactionStatementImpl srv st i as =
     (case ensureOpen i as of
        None \<Rightarrow> None
      | Some (r, i1, as1) \<Rightarrow> (case r of
          Inl e \<Rightarrow> Some (Inl e, i1, as1)
        | Inr _ \<Rightarrow> (case as1 of
            [] \<Rightarrow> None
          | a # as2 \<Rightarrow> (case doTransactionStatement srv st a i1 of
              (Inl e, i2) \<Rightarrow> Some (Inl e, i2, as2)
            | (Inr finished, i2) \<Rightarrow>
                if finished then Some (Inr (), i2, as2)
                else transactionStatementImpl srv st (if_close srv i2) as2))))"
  by pat_completeness auto
termination
  by (relation "measure (\<lambda>(srv, st, i, as). length as)") (auto dest: ensureOpen_length)

declare transactionStatementImpl.simps [simp del]

definition if_transaction :: "'s server \<Rightarrow> ('s, unit) db_action" where
  "if_transaction srv = transactionStatementImpl srv transactionBegin"

definition if_commit :: "'s server \<Rightarrow> ('s, unit) db_action" where
  "if_commit srv = transactionStatementImpl srv transactionCommit"

definition if_rollback :: "'s server \<Rightarrow> ('s, unit) db_action" where
  "if_rollback srv = transactionStatementImpl srv transactionRollback"

section \<open>Queries\<close>

text \<open>Preparing a statement and executing it are two calls.\<close>

definition doExecuteQuery :: "'s server \<Rightarrow> query \<Rightarrow> ('s, unit) db_action" where
  "doExecuteQuery srv q i as =
     (case as of
        [] \<Rightarrow> None
      | a # as1 \<Rightarrow>
          (let i1 = callServer srv id a i in
           case a of
             answerFailed canceled number executed \<Rightarrow>
               Some (Inl (if canceled then OperationCanceledException else QueryFailedException number q), i1, as1)
           | answerOk \<Rightarrow> (case as1 of
               [] \<Rightarrow> None
             | b # as2 \<Rightarrow>
                 (let i2 = callServer srv (srv_execute srv q) b i1 in
                  case b of
                    answerFailed canceled number executed \<Rightarrow>
                      Some (Inl (if canceled then OperationCanceledException else QueryFailedException number q), i2, as2)
                  | answerOk \<Rightarrow> Some (Inr (), i2, as2)))))"

lemma doExecuteQuery_length: "doExecuteQuery srv q i as = Some (r, i', as') \<Longrightarrow> length as' < length as"
  by (auto simp: doExecuteQuery_def Let_def split: list.splits answer.splits)

definition queryException :: "db_exception \<Rightarrow> db_exception" where
  "queryException e = (case e of
     QueryFailedException number q \<Rightarrow>
       if number = ER_ACCESS_DENIED_ERROR \<or> number = ER_DBACCESS_DENIED_ERROR \<or> number = ER_TABLEACCESS_DENIED_ERROR
       then AccessDeniedException number else e
   | _ \<Rightarrow> e)"

function executeQueryImpl :: "'s server \<Rightarrow> query \<Rightarrow> ('s, unit) db_action" where
  "executeQueryImpl srv q i as =
     (case ensureOpen i as of
        None \<Rightarrow> None
      | Some (r, i1, as1) \<Rightarrow> (case r of
          Inl e \<Rightarrow> Some (Inl e, i1, as1)
        | Inr _ \<Rightarrow> (case doExecuteQuery srv q i1 as1 of
            None \<Rightarrow> None
          | Some (r, i2, as2) \<Rightarrow> (case r of
              Inr _ \<Rightarrow> Some (Inr (), i2, as2)
            | Inl e \<Rightarrow>
                if (case e of QueryFailedException number _ \<Rightarrow> retryOnQueryError number | _ \<Rightarrow> False)
                then executeQueryImpl srv q (if_close srv i2) as2
                else Some (Inl (queryException e), i2, as2)))))"
  by pat_completeness auto
termination
  by (relation "measure (\<lambda>(srv, q, i, as). length as)") (auto dest!: ensureOpen_length doExecuteQuery_length)

declare executeQueryImpl.simps [simp del]

text \<open>The keepalive prepares a statement.\<close>

function ping :: "'s server \<Rightarrow> ('s, unit) db_action" where
  "ping srv i as =
     (case ensureOpen i as of
        None \<Rightarrow> None
      | Some (r, i1, as1) \<Rightarrow> (case r of
          Inl e \<Rightarrow> Some (Inl e, i1, as1)
        | Inr _ \<Rightarrow> (case as1 of
            [] \<Rightarrow> None
          | a # as2 \<Rightarrow>
              (let i2 = callServer srv id a i1 in
               case a of
                 answerOk \<Rightarrow> Some (Inr (), i2, as2)
               | answerFailed canceled number executed \<Rightarrow>
                   if canceled then Some (Inl OperationCanceledException, i2, as2)
                   else if \<not> retryOnQueryError number then Some (Inl (PingFailedException number), i2, as2)
                   else ping srv (if_close srv i2) as2))))"
  by pat_completeness auto
termination
  by (relation "measure (\<lambda>(srv, i, as). length as)") (auto dest: ensureOpen_length)

declare ping.simps [simp del]

section \<open>Write operations\<close>

text \<open>One call after the other; an exception ends the operation.\<close>

definition andThen :: "('s, 'a) db_action \<Rightarrow> ('s, 'b) db_action \<Rightarrow> ('s, 'b) db_action" where
  "andThen m n i as = (case m i as of
     None \<Rightarrow> None
   | Some (Inl e, i1, as1) \<Rightarrow> Some (Inl e, i1, as1)
   | Some (Inr _, i1, as1) \<Rightarrow> n i1 as1)"

definition inTransaction :: "'s server \<Rightarrow> query list \<Rightarrow> ('s, unit) db_action" where
  "inTransaction srv qs =
     andThen (if_transaction srv) (foldr (\<lambda>q m. andThen (executeQueryImpl srv q) m) qs (if_commit srv))"

section \<open>Every operation returns\<close>

text \<open>The number of calls at the end of the answers that succeed. An action that needs not more than \<open>n\<close> of
  them in a row still waits only if there were fewer, and leaves all but \<open>n\<close>.\<close>

definition oks :: "answer list \<Rightarrow> nat" where
  "oks as = length (takeWhile (\<lambda>a. a = answerOk) (rev as))"

definition settles :: "nat \<Rightarrow> ('s, 'a) db_action \<Rightarrow> bool" where
  "settles n m \<longleftrightarrow> (\<forall>i as. case m i as of None \<Rightarrow> oks as < n | Some (r, i', rest) \<Rightarrow> oks as \<le> n + oks rest)"

lemma oks_fail: "a \<noteq> answerOk \<Longrightarrow> oks (pre @ a # rest) = oks rest"
  by (auto simp: oks_def takeWhile_append takeWhile_eq_all_conv [THEN iffD2])

lemma oks_Cons: "oks (a # as) \<le> Suc (oks as)"
  by (auto simp: oks_def takeWhile_append takeWhile_eq_all_conv [THEN iffD2])

lemma oks_Nil [simp]: "oks [] = 0"
  by (simp add: oks_def)

lemma settles_none: "settles n m \<Longrightarrow> m i as = None \<Longrightarrow> oks as < n"
  and settles_some: "settles n m \<Longrightarrow> m i as = Some (r, i', rest) \<Longrightarrow> oks as \<le> n + oks rest"
  unfolding settles_def by (drule spec [of _ i], drule spec [of _ as], simp)+

lemma settlesI:
  "(\<And>i as. m i as = None \<Longrightarrow> oks as < n) \<Longrightarrow> (\<And>i as r i' rest. m i as = Some (r, i', rest) \<Longrightarrow> oks as \<le> n + oks rest)
     \<Longrightarrow> settles n m"
  by (auto simp: settles_def split: option.split)

lemma settles_andThen:
  assumes "settles a m" "settles b n"
  shows "settles (a + b) (andThen m n)"
proof (rule settlesI)
  fix i as assume none: "andThen m n i as = None"
  show "oks as < a + b"
  proof (cases "m i as")
    case None
    then have "oks as < a" by (rule settles_none [OF assms(1)])
    then show ?thesis by simp
  next
    case (Some t)
    then obtain x i1 as1 where both: "m i as = Some (Inr x, i1, as1)" "n i1 as1 = None"
      using none by (cases t, cases "fst t") (auto simp: andThen_def)
    show ?thesis using settles_some [OF assms(1) both(1)] settles_none [OF assms(2) both(2)] by simp
  qed
next
  fix i as r i' rest assume some: "andThen m n i as = Some (r, i', rest)"
  then obtain r1 i1 as1 where 1: "m i as = Some (r1, i1, as1)" by (auto simp: andThen_def split: option.splits)
  then have "oks as \<le> a + oks as1" by (rule settles_some [OF assms(1)])
  moreover have "oks as1 \<le> b + oks rest"
    using some 1 settles_some [OF assms(2)] by (cases r1) (auto simp: andThen_def)
  ultimately show "oks as \<le> a + b + oks rest" by simp
qed

text \<open>What is consumed; if a call was repeated, the answer before the rest is a failure.\<close>

lemma openImpl_consumes: "openImpl i as = Some (r, i', rest) \<Longrightarrow> \<exists>pre. as = pre @ rest"
  by (induction i as rule: openImpl.induct) (auto split: if_splits native_error.splits intro: exI [of _ "[x]" for x])

lemma ensureOpen_consumes: "ensureOpen i as = Some (r, i', rest) \<Longrightarrow> \<exists>pre. as = pre @ rest"
  by (auto simp: ensureOpen_def dest: openImpl_consumes split: if_splits)

lemma openImpl_settles: "settles 1 openImpl"
proof (rule settlesI)
  fix i :: "'s db_interface" and as
  assume "openImpl i as = None"
  then show "oks as < 1"
  proof (induction i as rule: openImpl.induct)
    case (3 i canceled number executed as)
    then show ?case using oks_fail [of "answerFailed canceled number executed" "[]" as]
      by (auto split: if_splits native_error.splits)
  qed simp_all
next
  fix i :: "'s db_interface" and as r i' rest
  assume "openImpl i as = Some (r, i', rest)"
  then show "oks as \<le> 1 + oks rest"
  proof (induction i as rule: openImpl.induct)
    case (2 i as)
    then show ?case using oks_Cons [of answerOk as] by simp
  next
    case (3 i canceled number executed as)
    then show ?case using oks_fail [of "answerFailed canceled number executed" "[]" as]
      by (auto split: if_splits native_error.splits)
  qed simp_all
qed

lemma ensureOpen_settles: "settles 1 ensureOpen"
  using settles_none [OF openImpl_settles] settles_some [OF openImpl_settles]
  by (auto intro!: settlesI simp: ensureOpen_def split: if_splits)

text \<open>The loops have the same form: a body after making sure that the connection is open; the body answers \<open>None\<close> to be
  repeated on a new connection.\<close>

definition retries :: "'s server \<Rightarrow> ('s, 'a option) db_action \<Rightarrow> ('s, 'a) db_action \<Rightarrow> bool" where
  "retries srv body loop \<longleftrightarrow>
     (\<forall>i as. loop i as = (case andThen ensureOpen body i as of
        None \<Rightarrow> None
      | Some (r, i2, as2) \<Rightarrow> (case r of
          Inl e \<Rightarrow> Some (Inl e, i2, as2)
        | Inr (Some x) \<Rightarrow> Some (Inr x, i2, as2)
        | Inr None \<Rightarrow> loop (if_close srv i2) as2)))
     \<and> (\<forall>i as i2 as2. body i as = Some (Inr None, i2, as2) \<longrightarrow> (\<exists>pre a. as = pre @ a # as2 \<and> a \<noteq> answerOk))"

lemma retries_step:
  assumes "retries srv body loop"
  shows "loop i as = (case andThen ensureOpen body i as of
        None \<Rightarrow> None
      | Some (r, i2, as2) \<Rightarrow> (case r of
          Inl e \<Rightarrow> Some (Inl e, i2, as2)
        | Inr (Some x) \<Rightarrow> Some (Inr x, i2, as2)
        | Inr None \<Rightarrow> loop (if_close srv i2) as2))"
  using assms unfolding retries_def by blast

lemma retries_again:
  assumes "retries srv body loop" "andThen ensureOpen body i as = Some (Inr None, i2, as2)"
  shows "\<exists>pre a. as = pre @ a # as2 \<and> a \<noteq> answerOk"
proof -
  obtain r i1 as1 where 1: "ensureOpen i as = Some (r, i1, as1)" "r \<noteq> Inl e \<or> True" for e
    using assms(2) by (auto simp: andThen_def split: option.splits)
  then have "body i1 as1 = Some (Inr None, i2, as2)" using assms(2) by (cases r) (auto simp: andThen_def)
  then obtain pre a where "as1 = pre @ a # as2" "a \<noteq> answerOk" using assms(1) unfolding retries_def by blast
  moreover obtain pre' where "as = pre' @ as1" using ensureOpen_consumes [OF 1(1)] by blast
  ultimately show ?thesis by (metis append.assoc)
qed

text \<open>Induction over the repetitions: the body ends it, or it is repeated with fewer answers.\<close>

lemma retries_induct [consumes 1, case_names body again]:
  assumes loop: "retries srv body loop"
    and body: "\<And>i as. (\<forall>i2 as2. andThen ensureOpen body i as \<noteq> Some (Inr None, i2, as2)) \<Longrightarrow> P i as"
    and again: "\<And>i as i2 as2. andThen ensureOpen body i as = Some (Inr None, i2, as2) \<Longrightarrow>
        loop i as = loop (if_close srv i2) as2 \<Longrightarrow> P (if_close srv i2) as2 \<Longrightarrow> P i as"
  shows "P i as"
proof (induction "length as" arbitrary: i as rule: less_induct)
  case less
  show ?case
  proof (cases "\<exists>i2 as2. andThen ensureOpen body i as = Some (Inr None, i2, as2)")
    case True
    then obtain i2 as2 where 2: "andThen ensureOpen body i as = Some (Inr None, i2, as2)" by blast
    then have "length as2 < length as" using retries_again [OF loop 2] by auto
    then show ?thesis using again [OF 2 _ less] retries_step [OF loop, of i as] 2 by simp
  qed (use body in blast)
qed

lemma settles_loop:
  assumes loop: "retries srv body loop" and body: "settles n body"
  shows "settles (1 + n) loop"
proof -
  have m: "settles (1 + n) (andThen ensureOpen body)" by (rule settles_andThen [OF ensureOpen_settles body])
  have "case loop i as of None \<Rightarrow> oks as < 1 + n | Some (r, i', rest) \<Rightarrow> oks as \<le> 1 + n + oks rest" for i as
    using loop
  proof (induction i as rule: retries_induct)
    case (body i as)
    then show ?case
      using settles_none [OF m, of i as] settles_some [OF m, of i as] retries_step [OF loop, of i as]
      by (auto split: option.splits sum.splits)
  next
    case (again i as i2 as2)
    have "oks as = oks as2" using retries_again [OF loop again(1)] oks_fail by metis
    with again(2,3) show ?case by (simp only:)
  qed
  then show ?thesis unfolding settles_def by blast
qed

definition transactionBody :: "'s server \<Rightarrow> transactionStatement \<Rightarrow> ('s, unit option) db_action" where
  "transactionBody srv st i as = (case as of [] \<Rightarrow> None
     | a # as2 \<Rightarrow> (case doTransactionStatement srv st a i of
         (r, i2) \<Rightarrow> Some (map_sum id (\<lambda>finished. if finished then Some () else None) r, i2, as2)))"

definition queryBody :: "'s server \<Rightarrow> query \<Rightarrow> ('s, unit option) db_action" where
  "queryBody srv q i as = (case doExecuteQuery srv q i as of
       None \<Rightarrow> None
     | Some (Inr x, i2, as2) \<Rightarrow> Some (Inr (Some x), i2, as2)
     | Some (Inl e, i2, as2) \<Rightarrow>
         if (case e of QueryFailedException number _ \<Rightarrow> retryOnQueryError number | _ \<Rightarrow> False)
         then Some (Inr None, i2, as2) else Some (Inl (queryException e), i2, as2))"

lemma transaction_retries: "retries srv (transactionBody srv st) (transactionStatementImpl srv st)"
  unfolding retries_def
proof (intro conjI allI impI)
  fix i as
  show "transactionStatementImpl srv st i as = (case andThen ensureOpen (transactionBody srv st) i as of
        None \<Rightarrow> None
      | Some (r, i2, as2) \<Rightarrow> (case r of
          Inl e \<Rightarrow> Some (Inl e, i2, as2)
        | Inr (Some x) \<Rightarrow> Some (Inr x, i2, as2)
        | Inr None \<Rightarrow> transactionStatementImpl srv st (if_close srv i2) as2))"
    by (subst transactionStatementImpl.simps)
      (auto simp: andThen_def transactionBody_def split: option.splits sum.splits list.splits prod.splits)
next
  fix i as i2 as2 assume "transactionBody srv st i as = Some (Inr None, i2, as2)"
  then show "\<exists>pre a. as = pre @ a # as2 \<and> a \<noteq> answerOk"
    by (auto simp: transactionBody_def doTransactionStatement_def Let_def split: list.splits answer.splits if_splits
        intro: exI [of _ "[]"])
qed

lemma query_retries: "retries srv (queryBody srv q) (executeQueryImpl srv q)"
  unfolding retries_def
proof (intro conjI allI impI)
  fix i as
  show "executeQueryImpl srv q i as = (case andThen ensureOpen (queryBody srv q) i as of
        None \<Rightarrow> None
      | Some (r, i2, as2) \<Rightarrow> (case r of
          Inl e \<Rightarrow> Some (Inl e, i2, as2)
        | Inr (Some x) \<Rightarrow> Some (Inr x, i2, as2)
        | Inr None \<Rightarrow> executeQueryImpl srv q (if_close srv i2) as2))"
    by (subst executeQueryImpl.simps)
      (auto simp: andThen_def queryBody_def split: option.splits sum.splits prod.splits)
next
  fix i as i2 as2 assume "queryBody srv q i as = Some (Inr None, i2, as2)"
  then show "\<exists>pre a. as = pre @ a # as2 \<and> a \<noteq> answerOk"
    by (auto simp: queryBody_def doExecuteQuery_def Let_def split: list.splits answer.splits if_splits option.splits sum.splits
        intro: exI [of _ "[]"] exI [of _ "[answerOk]"])
qed

lemma transactionBody_settles: "settles 1 (transactionBody srv st)"
  by (rule settlesI) (auto simp: transactionBody_def split: list.splits prod.splits simp: oks_Cons)

lemma queryBody_settles: "settles 2 (queryBody srv q)"
proof (rule settlesI)
  fix i as assume "queryBody srv q i as = None"
  then have "as = [] \<or> as = [answerOk]"
    by (auto simp: queryBody_def doExecuteQuery_def Let_def split: list.splits answer.splits option.splits sum.splits if_splits)
  then show "oks as < 2" using oks_Cons [of answerOk "[]"] by auto
next
  fix i as r i' rest assume "queryBody srv q i as = Some (r, i', rest)"
  then consider a where "as = a # rest" | a b where "as = a # b # rest"
    by (auto simp: queryBody_def doExecuteQuery_def Let_def split: list.splits answer.splits option.splits sum.splits if_splits)
  then show "oks as \<le> 2 + oks rest"
  proof cases
    case (1 a)
    then show ?thesis using oks_Cons [of a rest] by simp
  next
    case (2 a b)
    then show ?thesis using oks_Cons [of a "b # rest"] oks_Cons [of b rest] by simp
  qed
qed

lemma inTransaction_settles: "settles (4 + 3 * length qs) (inTransaction srv qs)"
proof -
  have t: "settles 2 (transactionStatementImpl srv st)" for st
    using settles_loop [OF transaction_retries transactionBody_settles] by (simp add: numeral_2_eq_2)
  have q: "settles 3 (executeQueryImpl srv q)" for q
    using settles_loop [OF query_retries queryBody_settles] by (simp add: eval_nat_numeral)
  have "settles (3 * length qs + 2) (foldr (\<lambda>q m. andThen (executeQueryImpl srv q) m) qs (if_commit srv))"
  proof (induction qs)
    case Nil
    show ?case using t [of transactionCommit] by (simp only: list.size mult_0_right add_0 foldr.simps id_apply if_commit_def)
  next
    case (Cons q qs)
    from settles_andThen [OF q this] show ?case by (simp add: ac_simps)
  qed
  moreover have "2 + (3 * length qs + 2) = 4 + 3 * length qs" by simp
  ultimately show ?thesis
    using settles_andThen [OF t [of transactionBegin]] unfolding inTransaction_def if_transaction_def by metis
qed

text \<open>C40: a write operation always returns, with a result or an exception, once enough calls in a row succeed: whatever
  the calls before answered, it does not wait for ever.\<close>

theorem inTransaction_returns:
  "\<exists>r i' rest. inTransaction srv qs i (as @ replicate (4 + 3 * length qs) answerOk) = Some (r, i', rest)"
proof (cases "inTransaction srv qs i (as @ replicate (4 + 3 * length qs) answerOk)")
  case None
  then have "oks (as @ replicate (4 + 3 * length qs) answerOk) < 4 + 3 * length qs"
    by (rule settles_none [OF inTransaction_settles])
  moreover have "4 + 3 * length qs \<le> oks (as @ replicate (4 + 3 * length qs) answerOk)"
    by (simp add: oks_def takeWhile_append)
  ultimately show ?thesis by simp
qed auto

section \<open>What the server has stored\<close>

text \<open>What is used of the server: \<open>committed\<close> is the stored data, \<open>pending\<close> the data of an open transaction. Beginning a
  transaction commits one that is open; a connection that ends rolls back (documented behaviour of MySQL).\<close>

definition server_ok :: "'s server \<Rightarrow> ('s \<Rightarrow> 'd) \<Rightarrow> ('s \<Rightarrow> 'd option) \<Rightarrow> (query \<Rightarrow> 'd \<Rightarrow> 'd) \<Rightarrow> bool" where
  "server_ok srv committed pending sem \<longleftrightarrow> (\<forall>s.
     (let current = (case pending s of Some d \<Rightarrow> d | None \<Rightarrow> committed s) in
      committed (srv_begin srv s) = current \<and> pending (srv_begin srv s) = Some current
      \<and> committed (srv_commit srv s) = current \<and> pending (srv_commit srv s) = None
      \<and> committed (srv_rollback srv s) = committed s \<and> pending (srv_rollback srv s) = None
      \<and> committed (srv_disconnect srv s) = committed s \<and> pending (srv_disconnect srv s) = None
      \<and> (\<forall>q. committed (srv_execute srv q s) = (if pending s = None then sem q (committed s) else committed s)
           \<and> pending (srv_execute srv q s) = map_option (sem q) (pending s))))"

lemma server_okD:
  assumes "server_ok srv committed pending sem"
  shows "committed (srv_begin srv s) = (case pending s of Some d \<Rightarrow> d | None \<Rightarrow> committed s)"
    and "pending (srv_begin srv s) = Some (case pending s of Some d \<Rightarrow> d | None \<Rightarrow> committed s)"
    and "committed (srv_commit srv s) = (case pending s of Some d \<Rightarrow> d | None \<Rightarrow> committed s)"
    and "pending (srv_commit srv s) = None"
    and "committed (srv_rollback srv s) = committed s" "pending (srv_rollback srv s) = None"
    and "committed (srv_disconnect srv s) = committed s" "pending (srv_disconnect srv s) = None"
    and "committed (srv_execute srv q s) = (if pending s = None then sem q (committed s) else committed s)"
    and "pending (srv_execute srv q s) = map_option (sem q) (pending s)"
  using assms by (simp_all add: server_ok_def Let_def)

section \<open>Partial correctness of actions\<close>

text \<open>If the answers satisfy \<open>A\<close> and the interface \<open>P\<close>, then \<open>Q\<close> holds of the result and the interface afterwards.\<close>

definition triple ::
    "(answer \<Rightarrow> bool) \<Rightarrow> ('s db_interface \<Rightarrow> bool) \<Rightarrow> ('s, 'a) db_action \<Rightarrow> (db_exception + 'a \<Rightarrow> 's db_interface \<Rightarrow> bool) \<Rightarrow> bool" where
  "triple A P m Q \<longleftrightarrow> (\<forall>i as r i' rest. list_all A as \<longrightarrow> P i \<longrightarrow> m i as = Some (r, i', rest) \<longrightarrow> Q r i' \<and> list_all A rest)"

lemma tripleI:
  "(\<And>i as r i' rest. list_all A as \<Longrightarrow> P i \<Longrightarrow> m i as = Some (r, i', rest) \<Longrightarrow> Q r i' \<and> list_all A rest) \<Longrightarrow> triple A P m Q"
  unfolding triple_def by blast

lemma tripleD:
  "triple A P m Q \<Longrightarrow> list_all A as \<Longrightarrow> P i \<Longrightarrow> m i as = Some (r, i', rest) \<Longrightarrow> Q r i' \<and> list_all A rest"
  unfolding triple_def by blast

lemma triple_conseq:
  "triple A P m Q \<Longrightarrow> (\<And>i. P' i \<Longrightarrow> P i) \<Longrightarrow> (\<And>r i. Q r i \<Longrightarrow> Q' r i) \<Longrightarrow> triple A P' m Q'"
  unfolding triple_def by blast

lemma triple_andThen:
  assumes "triple A P m (\<lambda>r i. case r of Inl e \<Rightarrow> Q (Inl e) i | Inr _ \<Rightarrow> R i)" "triple A R n Q"
  shows "triple A P (andThen m n) Q"
proof (rule tripleI)
  fix i as r i' rest
  assume a: "list_all A as" "P i" "andThen m n i as = Some (r, i', rest)"
  then obtain r1 i1 as1 where 1: "m i as = Some (r1, i1, as1)" by (auto simp: andThen_def split: option.splits)
  have q: "case r1 of Inl e \<Rightarrow> Q (Inl e) i1 | Inr _ \<Rightarrow> R i1" "list_all A as1"
    using tripleD [OF assms(1) a(1,2) 1] by simp_all
  show "Q r i' \<and> list_all A rest"
  proof (cases r1)
    case (Inl e)
    then show ?thesis using a(3) 1 q by (simp add: andThen_def)
  next
    case (Inr x)
    then have "R i1" "n i1 as1 = Some (r, i', rest)" using a(3) 1 q by (simp_all add: andThen_def)
    then show ?thesis using tripleD [OF assms(2) q(2)] by blast
  qed
qed

text \<open>\<open>E\<close> holds when an exception is thrown, \<open>R\<close> when the action returns.\<close>

definition throwsOr :: "('s db_interface \<Rightarrow> bool) \<Rightarrow> ('s db_interface \<Rightarrow> bool) \<Rightarrow> db_exception + 'a \<Rightarrow> 's db_interface \<Rightarrow> bool" where
  "throwsOr E R r i = (case r of Inl _ \<Rightarrow> E i | Inr _ \<Rightarrow> R i)"

lemma triple_seq:
  assumes "triple A P m (throwsOr E R)" "triple A R n (throwsOr E Q)"
  shows "triple A P (andThen m n) (throwsOr E Q)"
  by (rule triple_andThen [OF _ assms(2)], rule triple_conseq [OF assms(1)]) (auto simp: throwsOr_def split: sum.splits)

lemma triple_throws:
  "triple A P m (throwsOr E R) \<Longrightarrow> (\<And>i. P' i \<Longrightarrow> P i) \<Longrightarrow> (\<And>i. E i \<Longrightarrow> E' i) \<Longrightarrow> (\<And>i. R i \<Longrightarrow> R' i) \<Longrightarrow>
     triple A P' m (throwsOr E' R')"
  by (erule triple_conseq) (auto simp: throwsOr_def split: sum.splits)

lemma triple_loop:
  assumes loop: "retries srv body loop"
    and open_ok: "triple A J ensureOpen (\<lambda>r i. case r of Inl e \<Rightarrow> Q (Inl e) i | Inr _ \<Rightarrow> J' i)"
    and body: "triple A J' body (\<lambda>r i. case r of
      Inl e \<Rightarrow> Q (Inl e) i | Inr (Some x) \<Rightarrow> Q (Inr x) i | Inr None \<Rightarrow> J (if_close srv i))"
  shows "triple A J loop Q"
proof (rule tripleI)
  let ?R = "\<lambda>r i. case r of Inl e \<Rightarrow> Q (Inl e) i | Inr (Some x) \<Rightarrow> Q (Inr x) i | Inr None \<Rightarrow> J (if_close srv i)"
  have m: "triple A J (andThen ensureOpen body) ?R"
    by (rule triple_andThen [OF _ body], rule triple_conseq [OF open_ok]) (auto split: sum.splits)
  fix i as r i' rest
  from loop show "list_all A as \<Longrightarrow> J i \<Longrightarrow> loop i as = Some (r, i', rest) \<Longrightarrow> Q r i' \<and> list_all A rest"
  proof (induction i as rule: retries_induct)
    case (body i as)
    then show ?case
      using tripleD [OF m body(2,3)] retries_step [OF loop, of i as]
      by (auto split: option.splits sum.splits)
  next
    case (again i as i2 as2)
    then show ?case using tripleD [OF m again(4,5,1)] by simp
  qed
qed

lemma triple_openImpl:
  assumes "\<And>i. P (i\<lparr>if_isOpen := True\<rparr>) = P i"
  shows "triple A P openImpl (\<lambda>r i. P i)"
proof (rule tripleI)
  fix i :: "'a db_interface" and as r i' rest
  assume "list_all A as" "P i" "openImpl i as = Some (r, i', rest)"
  then show "P i' \<and> list_all A rest"
    by (induction i as rule: openImpl.induct) (auto simp: assms split: if_splits native_error.splits)
qed

lemma triple_ensureOpen:
  assumes "\<And>i. P (i\<lparr>if_isOpen := True\<rparr>) = P i"
  shows "triple A P ensureOpen (\<lambda>r i. P i)"
proof (rule tripleI)
  fix i as r i' rest
  assume a: "list_all A as" "P i" "ensureOpen i as = Some (r, i', rest)"
  show "P i' \<and> list_all A rest"
  proof (cases "if_isOpen i")
    case False
    then show ?thesis using tripleD [OF triple_openImpl [where P = P, OF assms] a(1,2)] a(3) by (simp add: ensureOpen_def)
  qed (use a in \<open>simp add: ensureOpen_def\<close>)
qed

section \<open>Transactions are atomic unless the connection is lost\<close>

definition holdsAt :: "('s \<Rightarrow> 'd) \<Rightarrow> ('s \<Rightarrow> 'd option) \<Rightarrow> 'd \<Rightarrow> 'd option \<Rightarrow> 's db_interface \<Rightarrow> bool" where
  "holdsAt committed pending d p i \<longleftrightarrow> committed (if_server i) = d \<and> pending (if_server i) = p"

lemma holdsAt_open [simp]: "holdsAt committed pending d p (i\<lparr>if_isOpen := x\<rparr>) = holdsAt committed pending d p i"
  by (simp add: holdsAt_def)

lemma holdsAt_close:
  "server_ok srv committed pending sem \<Longrightarrow> holdsAt committed pending d p i \<Longrightarrow> holdsAt committed pending d None (if_close srv i)"
  by (simp add: holdsAt_def if_close_def server_okD)

lemma holdsAt_failed:
  "\<not> lost a \<Longrightarrow> a \<noteq> answerOk \<Longrightarrow> callServer srv stmt a i = i"
  "callServer srv stmt answerOk i = i\<lparr>if_server := stmt (if_server i)\<rparr>"
  by (simp_all add: callServer_def)

lemma holdsAt_statement:
  assumes "server_ok srv committed pending sem"
  shows "holdsAt committed pending d None i \<Longrightarrow> holdsAt committed pending d (Some d) (i\<lparr>if_server := srv_begin srv (if_server i)\<rparr>)"
    and "holdsAt committed pending d (Some e) i \<Longrightarrow> holdsAt committed pending e None (i\<lparr>if_server := srv_commit srv (if_server i)\<rparr>)"
    and "holdsAt committed pending d None i \<Longrightarrow> holdsAt committed pending d None (i\<lparr>if_server := srv_commit srv (if_server i)\<rparr>)"
    and "holdsAt committed pending d (Some e) i \<Longrightarrow>
      holdsAt committed pending d (Some (sem q e)) (i\<lparr>if_server := srv_execute srv q (if_server i)\<rparr>)"
    and "holdsAt committed pending d None i \<Longrightarrow>
      holdsAt committed pending (sem q d) None (i\<lparr>if_server := srv_execute srv q (if_server i)\<rparr>)"
  using assms by (simp_all add: holdsAt_def server_okD)

lemma holdsAt_cut:
  assumes "server_ok srv committed pending sem" "lost a"
  shows "holdsAt committed pending d p i \<Longrightarrow> holdsAt committed pending d None (callServer srv id a i)"
    and "holdsAt committed pending d None i \<Longrightarrow> holdsAt committed pending d None (callServer srv (srv_begin srv) a i)"
    and "holdsAt committed pending d (Some e) i \<Longrightarrow>
      holdsAt committed pending (if ans_done a then e else d) None (callServer srv (srv_commit srv) a i)"
    and "holdsAt committed pending d None i \<Longrightarrow> holdsAt committed pending d None (callServer srv (srv_commit srv) a i)"
    and "holdsAt committed pending d (Some e) i \<Longrightarrow> holdsAt committed pending d None (callServer srv (srv_execute srv q) a i)"
    and "holdsAt committed pending d None i \<Longrightarrow>
      holdsAt committed pending (if ans_done a then sem q d else d) None (callServer srv (srv_execute srv q) a i)"
proof -
  have "a \<noteq> answerOk" using assms(2) by auto
  then show "holdsAt committed pending d p i \<Longrightarrow> holdsAt committed pending d None (callServer srv id a i)"
    "holdsAt committed pending d None i \<Longrightarrow> holdsAt committed pending d None (callServer srv (srv_begin srv) a i)"
    "holdsAt committed pending d (Some e) i \<Longrightarrow>
      holdsAt committed pending (if ans_done a then e else d) None (callServer srv (srv_commit srv) a i)"
    "holdsAt committed pending d None i \<Longrightarrow> holdsAt committed pending d None (callServer srv (srv_commit srv) a i)"
    "holdsAt committed pending d (Some e) i \<Longrightarrow> holdsAt committed pending d None (callServer srv (srv_execute srv q) a i)"
    "holdsAt committed pending d None i \<Longrightarrow>
      holdsAt committed pending (if ans_done a then sem q d else d) None (callServer srv (srv_execute srv q) a i)"
    using assms by (auto simp: holdsAt_def callServer_def server_okD)
qed

text \<open>The two kinds of statements. \<open>P\<close> holds before each attempt, \<open>E\<close> when an exception is thrown, \<open>R\<close> on success.\<close>

lemma transaction_triple:
  fixes P :: "'s db_interface \<Rightarrow> bool"
  assumes stay: "\<And>i x. P (i\<lparr>if_isOpen := x\<rparr>) = P i" "\<And>i. P i \<Longrightarrow> E i"
    and good: "\<And>i. P i \<Longrightarrow> R (callServer srv (transactionEffect srv st) answerOk i)"
    and cut: "\<And>a i. P i \<Longrightarrow> A a \<Longrightarrow> lost a \<Longrightarrow>
      E (callServer srv (transactionEffect srv st) a i) \<and> P (if_close srv (callServer srv (transactionEffect srv st) a i))"
  shows "triple A P (transactionStatementImpl srv st) (throwsOr E R)"
proof (rule triple_loop [OF transaction_retries, where J' = P])
  show "triple A P ensureOpen (\<lambda>r i. case r of Inl e \<Rightarrow> throwsOr E R (Inl e) i | Inr _ \<Rightarrow> P i)"
    by (rule triple_conseq [OF triple_ensureOpen [where P = P, OF stay(1)]]) (auto simp: throwsOr_def split: sum.splits intro: stay(2))
  show "triple A P (transactionBody srv st) (\<lambda>r i. case r of Inl e \<Rightarrow> throwsOr E R (Inl e) i
      | Inr (Some x) \<Rightarrow> throwsOr E R (Inr x) i | Inr None \<Rightarrow> P (if_close srv i))"
    using good cut stay(2)
    by (intro tripleI)
      (auto simp: transactionBody_def doTransactionStatement_def Let_def holdsAt_failed throwsOr_def
        split: list.splits answer.splits if_splits)
qed

lemma query_triple:
  fixes P :: "'s db_interface \<Rightarrow> bool"
  assumes stay: "\<And>i x. P (i\<lparr>if_isOpen := x\<rparr>) = P i" "\<And>i. P i \<Longrightarrow> E i"
    and good: "\<And>i. P i \<Longrightarrow> R (callServer srv (srv_execute srv q) answerOk i)"
    and cut: "\<And>stmt a i. P i \<Longrightarrow> A a \<Longrightarrow> lost a \<Longrightarrow> stmt = id \<or> stmt = srv_execute srv q \<Longrightarrow>
      E (callServer srv stmt a i) \<and> P (if_close srv (callServer srv stmt a i))"
  shows "triple A P (executeQueryImpl srv q) (throwsOr E R)"
proof (rule triple_loop [OF query_retries, where J' = P])
  show "triple A P ensureOpen (\<lambda>r i. case r of Inl e \<Rightarrow> throwsOr E R (Inl e) i | Inr _ \<Rightarrow> P i)"
    by (rule triple_conseq [OF triple_ensureOpen [where P = P, OF stay(1)]]) (auto simp: throwsOr_def split: sum.splits intro: stay(2))
  have prep: "P i \<Longrightarrow> P (callServer srv id answerOk i)" for i by (simp add: callServer_def)
  show "triple A P (queryBody srv q) (\<lambda>r i. case r of Inl e \<Rightarrow> throwsOr E R (Inl e) i
      | Inr (Some x) \<Rightarrow> throwsOr E R (Inr x) i | Inr None \<Rightarrow> P (if_close srv i))"
  proof (intro tripleI)
    fix i as r i' rest
    assume a: "list_all A as" "P i" "queryBody srv q i as = Some (r, i', rest)"
    show "(case r of Inl e \<Rightarrow> throwsOr E R (Inl e) i'
      | Inr (Some x) \<Rightarrow> throwsOr E R (Inr x) i' | Inr None \<Rightarrow> P (if_close srv i')) \<and> list_all A rest"
      using a good cut stay(2) prep
      by (auto simp: queryBody_def doExecuteQuery_def Let_def holdsAt_failed throwsOr_def
        split: list.splits answer.splits if_splits option.splits sum.splits)
  qed
qed

lemma queries_atomic:
  assumes ok: "server_ok srv committed pending sem"
  shows "triple (\<lambda>a. \<not> lost a) (holdsAt committed pending d (Some e))
    (foldr (\<lambda>q m. andThen (executeQueryImpl srv q) m) qs (if_commit srv))
    (throwsOr (\<lambda>i. \<exists>p. holdsAt committed pending d p i) (holdsAt committed pending (fold sem qs e) None))"
proof (induction qs arbitrary: e)
  case Nil
  have "triple (\<lambda>a. \<not> lost a) (holdsAt committed pending d (Some e)) (transactionStatementImpl srv transactionCommit)
    (throwsOr (holdsAt committed pending d (Some e)) (holdsAt committed pending e None))"
    by (rule transaction_triple) (simp_all add: holdsAt_failed holdsAt_statement [OF ok])
  then show ?case by (auto simp: if_commit_def elim: triple_throws)
next
  case (Cons q qs)
  have "triple (\<lambda>a. \<not> lost a) (holdsAt committed pending d (Some e)) (executeQueryImpl srv q)
    (throwsOr (holdsAt committed pending d (Some e)) (holdsAt committed pending d (Some (sem q e))))"
    by (rule query_triple) (simp_all add: holdsAt_failed holdsAt_statement [OF ok])
  then have "triple (\<lambda>a. \<not> lost a) (holdsAt committed pending d (Some e)) (executeQueryImpl srv q)
    (throwsOr (\<lambda>i. \<exists>p. holdsAt committed pending d p i) (holdsAt committed pending d (Some (sem q e))))"
    by (rule triple_throws) blast+
  from triple_seq [OF this Cons.IH] show ?case by simp
qed

lemma inTransaction_triple:
  assumes "server_ok srv committed pending sem"
  shows "triple (\<lambda>a. \<not> lost a) (holdsAt committed pending d None) (inTransaction srv qs)
    (throwsOr (\<lambda>i. \<exists>p. holdsAt committed pending d p i) (holdsAt committed pending (fold sem qs d) None))"
proof -
  have "triple (\<lambda>a. \<not> lost a) (holdsAt committed pending d None) (transactionStatementImpl srv transactionBegin)
    (throwsOr (holdsAt committed pending d None) (holdsAt committed pending d (Some d)))"
    by (rule transaction_triple) (simp_all add: holdsAt_failed holdsAt_statement [OF assms(1)])
  then have "triple (\<lambda>a. \<not> lost a) (holdsAt committed pending d None) (if_transaction srv)
    (throwsOr (\<lambda>i. \<exists>p. holdsAt committed pending d p i) (holdsAt committed pending d (Some d)))"
    unfolding if_transaction_def by (rule triple_throws) blast+
  from triple_seq [OF this queries_atomic [OF assms(1)]] show ?thesis by (simp add: inTransaction_def)
qed

lemma inTransaction_stores:
  assumes "server_ok srv committed pending sem" "pending (if_server i) = None" "list_all (\<lambda>a. \<not> lost a) as"
    and "inTransaction srv qs i as = Some (r, i', rest)"
  shows "case r of
      Inl e \<Rightarrow> committed (if_server i') = committed (if_server i)
    | Inr _ \<Rightarrow> committed (if_server i') = fold sem qs (committed (if_server i)) \<and> pending (if_server i') = None"
  using tripleD [OF inTransaction_triple [OF assms(1)] assms(3) _ assms(4), of "committed (if_server i)"] assms(2)
  by (auto simp: holdsAt_def throwsOr_def split: sum.splits)

text \<open>A statement outside of a transaction is stored at once.\<close>

lemma query_stores:
  assumes "server_ok srv committed pending sem"
  shows "triple (\<lambda>a. \<not> lost a) (holdsAt committed pending d None) (executeQueryImpl srv q)
    (throwsOr (holdsAt committed pending d None) (holdsAt committed pending (sem q d) None))"
  by (rule query_triple) (simp_all add: holdsAt_failed holdsAt_statement [OF assms])


text \<open>Even if connections are lost and statements repeated, a write operation whose statement may be repeated
  (REPLACE and DELETE) leaves either the old or the new data, and no open transaction when it returns.\<close>

theorem single_write_old_or_new:
  assumes "server_ok srv committed pending sem" "pending (if_server i) = None" "\<And>d. sem q (sem q d) = sem q d"
    and "inTransaction srv [q] i as = Some (r, i', rest)"
  shows "committed (if_server i') \<in> {committed (if_server i), sem q (committed (if_server i))}
    \<and> (\<forall>x. r = Inr x \<longrightarrow> pending (if_server i') = None)"
proof -
  note laws = holdsAt_statement [OF assms(1)] and cut = holdsAt_cut [OF assms(1)] and closed = holdsAt_close [OF assms(1)]
  let ?d = "committed (if_server i)"
  let ?at = "holdsAt committed pending" and ?A = "\<lambda>_ :: answer. True"
  let ?old = "\<lambda>i. ?at ?d None i" and ?new = "\<lambda>i. ?at (sem q ?d) None i"
  let ?E = "\<lambda>i. \<exists>p. ?at ?d p i \<or> ?at (sem q ?d) p i"
  have start: "triple ?A ?old (if_transaction srv) (throwsOr ?E (?at ?d (Some ?d)))"
    unfolding if_transaction_def
  proof (rule transaction_triple)
    fix a i assume "?old i" "lost a"
    then have "?old (callServer srv (transactionEffect srv transactionBegin) a i)" by (simp add: cut)
    then show "?E (callServer srv (transactionEffect srv transactionBegin) a i)
        \<and> ?old (if_close srv (callServer srv (transactionEffect srv transactionBegin) a i))" using closed by blast
  qed (use laws in \<open>auto simp: holdsAt_failed\<close>)
  let ?P = "\<lambda>i. ?at ?d (Some ?d) i \<or> ?old i \<or> ?new i"
  have exec: "triple ?A ?P (executeQueryImpl srv q) (throwsOr ?E (\<lambda>i. ?at ?d (Some (sem q ?d)) i \<or> ?new i))"
  proof (rule query_triple)
    fix stmt a i assume i: "?P i" and a: "lost a" "stmt = id \<or> stmt = srv_execute srv q"
    have "?old (callServer srv stmt a i) \<or> ?new (callServer srv stmt a i)"
      using i a(2) cut(1) [OF a(1)] cut(5) [OF a(1), of ?d ?d i q] cut(6) [OF a(1), of ?d i q]
        cut(6) [OF a(1), of "sem q ?d" i q] by (cases "ans_done a") (auto simp: assms(3))
    then show "?E (callServer srv stmt a i) \<and> ?P (if_close srv (callServer srv stmt a i))" using closed by blast
  next
    fix i assume "?P i"
    then show "?at ?d (Some (sem q ?d)) (callServer srv (srv_execute srv q) answerOk i)
        \<or> ?new (callServer srv (srv_execute srv q) answerOk i)"
      using laws(4) [of ?d ?d i q] laws(5) [of ?d i q] laws(5) [of "sem q ?d" i q] by (auto simp: holdsAt_failed assms(3))
  qed auto
  let ?C = "\<lambda>i. ?at ?d (Some (sem q ?d)) i \<or> ?old i \<or> ?new i"
  have commit: "triple ?A ?C (if_commit srv) (throwsOr ?E (\<lambda>i. ?old i \<or> ?new i))"
    unfolding if_commit_def
  proof (rule transaction_triple)
    fix a i assume i: "?C i" and a: "lost a"
    have "?old (callServer srv (srv_commit srv) a i) \<or> ?new (callServer srv (srv_commit srv) a i)"
      using i cut(3) [OF a, of ?d "sem q ?d" i] cut(4) [OF a, of ?d i] cut(4) [OF a, of "sem q ?d" i]
      by (cases "ans_done a") auto
    then show "?E (callServer srv (transactionEffect srv transactionCommit) a i)
        \<and> ?C (if_close srv (callServer srv (transactionEffect srv transactionCommit) a i))"
      using closed by (simp del: holdsAt_open) blast
  next
    fix i assume "?C i"
    then show "?old (callServer srv (transactionEffect srv transactionCommit) answerOk i)
        \<or> ?new (callServer srv (transactionEffect srv transactionCommit) answerOk i)"
      using laws(2) [of ?d "sem q ?d" i] laws(3) [of ?d i] laws(3) [of "sem q ?d" i] by (auto simp: holdsAt_failed)
  qed auto
  have exec': "triple ?A (?at ?d (Some ?d)) (executeQueryImpl srv q) (throwsOr ?E ?C)"
    by (rule triple_throws [OF exec]) blast+
  have "triple ?A ?old (inTransaction srv [q]) (throwsOr ?E (\<lambda>i. ?old i \<or> ?new i))"
    using triple_seq [OF start triple_seq [OF exec' commit]] by (simp add: inTransaction_def)
  from tripleD [OF this _ _ assms(4)] show ?thesis
    using assms(2) by (auto simp: holdsAt_def throwsOr_def list_all_iff split: sum.splits)
qed

section \<open>What a lost connection does to a transaction\<close>

abbreviation cutOff :: answer where
  "cutOff \<equiv> answerFailed False CR_SERVER_LOST False"

lemma action_steps:
  "if_isOpen i \<Longrightarrow> transactionStatementImpl srv st i (answerOk # as)
     = Some (Inr (), i\<lparr>if_server := transactionEffect srv st (if_server i)\<rparr>, as)"
  "if_isOpen i \<Longrightarrow> transactionStatementImpl srv st i (cutOff # answerOk # answerOk # as)
     = Some (Inr (), i\<lparr>if_server := transactionEffect srv st (srv_disconnect srv (srv_disconnect srv (if_server i)))\<rparr>, as)"
  "if_isOpen i \<Longrightarrow> executeQueryImpl srv q i (answerOk # answerOk # as)
     = Some (Inr (), i\<lparr>if_server := srv_execute srv q (if_server i)\<rparr>, as)"
  "if_isOpen i \<Longrightarrow> executeQueryImpl srv q i (cutOff # answerOk # answerOk # answerOk # as)
     = Some (Inr (), i\<lparr>if_server := srv_execute srv q (srv_disconnect srv (srv_disconnect srv (if_server i)))\<rparr>, as)"
  by (cases i; simp add: transactionStatementImpl.simps executeQueryImpl.simps ensureOpen_def doTransactionStatement_def
      doExecuteQuery_def callServer_def if_close_def retryOnQueryError_def Let_def)+

text \<open>If the connection is lost in a transaction, the statement at which this is noticed is repeated on a new
  connection, outside of any transaction: the operation returns without an exception, but what the
  statements before did is gone. If it is noticed by the commit, nothing is stored at all.\<close>

theorem lost_connection_not_reported:
  assumes "server_ok srv committed pending sem" "if_isOpen i" "pending (if_server i) = None"
  shows "(\<exists>i'. inTransaction srv [q] i [answerOk, answerOk, answerOk, cutOff, answerOk, answerOk] = Some (Inr (), i', [])
      \<and> committed (if_server i') = committed (if_server i))
    \<and> (\<exists>i'. inTransaction srv [q, q'] i [answerOk, answerOk, answerOk, cutOff, answerOk, answerOk, answerOk, answerOk]
        = Some (Inr (), i', []) \<and> committed (if_server i') = sem q' (committed (if_server i)))"
  using assms(2,3)
  by (simp_all add: inTransaction_def andThen_def if_transaction_def if_commit_def action_steps
      server_okD [OF assms(1)])

text \<open>A server that behaves as MySQL does: the stored data, and those of an open transaction.\<close>

definition plainServer :: "(query \<Rightarrow> 'd \<Rightarrow> 'd) \<Rightarrow> ('d \<times> 'd option) server" where
  "plainServer sem = \<lparr>srv_begin = (\<lambda>s. let d = (case snd s of Some d \<Rightarrow> d | None \<Rightarrow> fst s) in (d, Some d)),
     srv_commit = (\<lambda>s. (case snd s of Some d \<Rightarrow> d | None \<Rightarrow> fst s, None)),
     srv_rollback = (\<lambda>s. (fst s, None)),
     srv_execute = (\<lambda>q s. case snd s of Some d \<Rightarrow> (fst s, Some (sem q d)) | None \<Rightarrow> (sem q (fst s), None)),
     srv_disconnect = (\<lambda>s. (fst s, None))\<rparr>"

lemma plainServer_ok: "server_ok (plainServer sem) fst snd sem"
  by (auto simp: server_ok_def plainServer_def Let_def split: option.split)


theorem single_write_old_or_new_witness:
  "\<exists>i'. inTransaction (plainServer List.insert) [mkQuery ''a''] \<lparr>if_isOpen = True, if_server = ([], None)\<rparr>
        [answerOk, cutOff, answerOk, answerOk, answerOk, answerOk] = Some (Inr (), i', [])
     \<and> fst (if_server i') \<in> {[], [mkQuery ''a'']}"
proof -
  let ?i = "\<lparr>if_isOpen = True, if_server = ([], None)\<rparr>"
  obtain i' where i': "inTransaction (plainServer List.insert) [mkQuery ''a''] ?i [answerOk, cutOff, answerOk, answerOk, answerOk, answerOk]
      = Some (Inr (), i', [])"
    by (simp add: inTransaction_def andThen_def if_transaction_def if_commit_def action_steps)
  from single_write_old_or_new [OF plainServer_ok _ _ i'] show ?thesis using i' by (simp add: List.insert_def)
qed

theorem lost_connection_not_reported_witness:
  "\<exists>i'. inTransaction (plainServer List.insert) [mkQuery ''a''] \<lparr>if_isOpen = True, if_server = ([], None)\<rparr>
        [answerOk, answerOk, answerOk, cutOff, answerOk, answerOk] = Some (Inr (), i', [])
     \<and> fst (if_server i') = []"
  using lost_connection_not_reported [OF plainServer_ok [of List.insert], of "\<lparr>if_isOpen = True, if_server = ([], None)\<rparr>" "mkQuery ''a''"]
  by simp

end
