(* ===== verification/Sk_Database.thy ===== *)
theory Sk_Database
  imports Sk_Interface Sk_CacheLookup
begin

text \<open>
  The operations of \<^verbatim>\<open>src/src/db/Database.cpp\<close> that change or count rows, over the connection of
  \<open>Sk_Interface\<close>. A write operation returns the events that are emitted (\<open>dbEvent\<close>), which the
  cache handles; if it throws, no event is emitted. What a statement does to the tables is a
  parameter \<open>sem\<close>, the id of a new row and the result of a count are what the server says.
\<close>

section \<open>Statements\<close>

fun dbTableName :: "db_table \<Rightarrow> qstring" where
  "dbTableName tablePlanes = pl_dbTableName"
| "dbTableName tablePeople = pe_dbTableName"
| "dbTableName tableLaunchMethods = lm_dbTableName"
| "dbTableName tableFlarmNetRecords = fn_dbTableName"
| "dbTableName tableFlights = f_dbTableName"

fun insertColumnList :: "db_table \<Rightarrow> qstring" where
  "insertColumnList tablePlanes = pl_insertColumnList"
| "insertColumnList tablePeople = pe_insertColumnList"
| "insertColumnList tableLaunchMethods = lm_insertColumnList"
| "insertColumnList tableFlarmNetRecords = fn_insertColumnList"
| "insertColumnList tableFlights = f_insertColumnList"

fun insertPlaceholderList :: "db_table \<Rightarrow> qstring" where
  "insertPlaceholderList tablePlanes = pl_insertPlaceholderList"
| "insertPlaceholderList tablePeople = pe_insertPlaceholderList"
| "insertPlaceholderList tableLaunchMethods = lm_insertPlaceholderList"
| "insertPlaceholderList tableFlarmNetRecords = fn_insertPlaceholderList"
| "insertPlaceholderList tableFlights = f_insertPlaceholderList"

fun boundValues :: "db_value \<Rightarrow> qvariant list" where
  "boundValues (ValuePlane p) = pl_bindValues p"
| "boundValues (ValuePerson p) = pe_bindValues p"
| "boundValues (ValueLaunchMethod l) = lm_bindValues l"
| "boundValues (ValueFlarmNetRecord n) = fn_bindValues n"
| "boundValues (ValueFlight f) = f_bindValues f"
| "boundValues NoValue = []"

fun withId :: "dbId \<Rightarrow> db_value \<Rightarrow> db_value" where
  "withId i (ValuePlane p) = ValuePlane (p\<lparr>pl_id := i\<rparr>)"
| "withId i (ValuePerson p) = ValuePerson (p\<lparr>pe_id := i\<rparr>)"
| "withId i (ValueLaunchMethod l) = ValueLaunchMethod (l\<lparr>lm_id := i\<rparr>)"
| "withId i (ValueFlarmNetRecord n) = ValueFlarmNetRecord (n\<lparr>fn_id := i\<rparr>)"
| "withId i (ValueFlight f) = ValueFlight (f\<lparr>getId := i\<rparr>)"
| "withId i NoValue = NoValue"

definition createQuery :: "db_value \<Rightarrow> query" where
  "createQuery v = (let t = value_table v in
     insertQuery (dbTableName t) (insertColumnList t) (insertPlaceholderList t) (boundValues v))"

definition updateQuery :: "db_value \<Rightarrow> query" where
  "updateQuery v = (let t = value_table v in
     replaceQuery (dbTableName t) (insertColumnList t) (insertPlaceholderList t) (value_id v) (boundValues v))"

definition deleteQuery :: "db_table \<Rightarrow> dbId \<Rightarrow> query" where
  "deleteQuery t i = q_bind (q_arg (mkQuery ''DELETE FROM %1 WHERE ID=?'') (dbTableName t)) (VId i)"

definition deleteListQuery :: "db_table \<Rightarrow> dbId list \<Rightarrow> query" where
  "deleteListQuery t is =
     q_append (q_arg (mkQuery ''DELETE FROM %1 WHERE '') (dbTableName t)) (q_valueInListCondition ''id'' (map VId is))"

section \<open>Operations\<close>

definition emitting :: "('a \<Rightarrow> 'b) \<Rightarrow> ('s, 'a) db_action \<Rightarrow> ('s, 'b) db_action" where
  "emitting g m i as = map_option (\<lambda>(r, i', rest). (map_sum id g r, i', rest)) (m i as)"

definition db_deleteObject :: "'s server \<Rightarrow> db_table \<Rightarrow> dbId \<Rightarrow> ('s, db_event list) db_action" where
  "db_deleteObject srv t n = emitting (\<lambda>_. [ev_deleted t n]) (inTransaction srv [deleteQuery t n])"

definition db_deleteObjects :: "'s server \<Rightarrow> db_table \<Rightarrow> dbId list \<Rightarrow> ('s, db_event list) db_action" where
  "db_deleteObjects srv t ids =
     (if ids = [] then (\<lambda>i as. Some (Inr [], i, as))
      else emitting (\<lambda>_. map (ev_deleted t) ids) (inTransaction srv [deleteListQuery t ids]))"

text \<open>\<open>newId\<close> is the id the server gave to the row.\<close>

definition db_createObject :: "'s server \<Rightarrow> dbId \<Rightarrow> db_value \<Rightarrow> ('s, db_event list) db_action" where
  "db_createObject srv newId v =
     emitting (\<lambda>_. if idValid newId then [ev_added (withId newId v)] else []) (inTransaction srv [createQuery v])"

definition db_updateObject :: "'s server \<Rightarrow> db_value \<Rightarrow> ('s, db_event list) db_action" where
  "db_updateObject srv v = emitting (\<lambda>_. [ev_changed v]) (inTransaction srv [updateQuery v])"

text \<open>A query for a number: \<open>counted\<close> is what the server answers.\<close>

definition countQuery :: "'s server \<Rightarrow> (query \<Rightarrow> 's \<Rightarrow> int) \<Rightarrow> query \<Rightarrow> ('s, int) db_action" where
  "countQuery srv counted q i as =
     map_option (\<lambda>(r, i', rest). (map_sum id (\<lambda>_. counted q (if_server i')) r, i', rest)) (executeQueryImpl srv q i as)"

definition bindAction :: "('s, 'a) db_action \<Rightarrow> ('a \<Rightarrow> ('s, 'b) db_action) \<Rightarrow> ('s, 'b) db_action" where
  "bindAction m f i as = (case m i as of
     None \<Rightarrow> None
   | Some (Inl e, i1, as1) \<Rightarrow> Some (Inl e, i1, as1)
   | Some (Inr x, i1, as1) \<Rightarrow> f x i1 as1)"

definition returnAction :: "'a \<Rightarrow> ('s, 'a) db_action" where
  "returnAction x i as = Some (Inr x, i, as)"

definition referencedBy :: "query \<Rightarrow> query" where
  "referencedBy condition = q_condition (q_count f_dbTableName) condition"

definition personUsed :: "'s server \<Rightarrow> (query \<Rightarrow> 's \<Rightarrow> int) \<Rightarrow> dbId \<Rightarrow> ('s, bool) db_action" where
  "personUsed srv counted i =
     bindAction (countQuery srv counted (referencedBy (referencesPersonCondition i)))
       (\<lambda>n. if n > 0 then returnAction True
          else bindAction (countQuery srv counted (q_countCondition ''users'' (q_bind (mkQuery ''person_id=?'') (VId i))))
            (\<lambda>n. returnAction (n \<noteq> 0)))"

definition planeUsed :: "'s server \<Rightarrow> (query \<Rightarrow> 's \<Rightarrow> int) \<Rightarrow> dbId \<Rightarrow> ('s, bool) db_action" where
  "planeUsed srv counted i =
     bindAction (countQuery srv counted (referencedBy (referencesPlaneCondition i))) (\<lambda>n. returnAction (n > 0))"

definition launchMethodUsed :: "'s server \<Rightarrow> (query \<Rightarrow> 's \<Rightarrow> int) \<Rightarrow> dbId \<Rightarrow> ('s, bool) db_action" where
  "launchMethodUsed srv counted i =
     bindAction (countQuery srv counted (referencedBy (referencesLaunchMethodCondition i))) (\<lambda>n. returnAction (n > 0))"

text \<open>The class \<open>FlarmNetRecord\<close> has no specialisation: the template answers true.\<close>

definition objectUsed :: "'s server \<Rightarrow> (query \<Rightarrow> 's \<Rightarrow> int) \<Rightarrow> db_table \<Rightarrow> dbId \<Rightarrow> ('s, bool) db_action" where
  "objectUsed srv counted t i = (case t of
     tablePeople \<Rightarrow> personUsed srv counted i
   | tablePlanes \<Rightarrow> planeUsed srv counted i
   | tableLaunchMethods \<Rightarrow> launchMethodUsed srv counted i
   | tableFlights \<Rightarrow> returnAction False
   | tableFlarmNetRecords \<Rightarrow> returnAction True)"

section \<open>Queries for the cache\<close>

definition listLocationsQuery :: query where
  "listLocationsQuery =
     q_selectDistinctColumnsOf [f_dbTableName] [''departure_location'', ''landing_location'', ''towflight_landing_location''] True"

definition listAccountingNotesQuery :: query where
  "listAccountingNotesQuery = q_selectDistinctColumns f_dbTableName ''accounting_notes'' True"

definition listClubsQuery :: query where
  "listClubsQuery = q_selectDistinctColumnsOf [pl_dbTableName, pe_dbTableName] [''club''] True"

definition listPlaneTypesQuery :: query where
  "listPlaneTypesQuery = q_selectDistinctColumns pl_dbTableName ''type'' True"

definition preparedFlightsCondition :: query where
  "preparedFlightsCondition =
     q_bind (q_bind (q_bind (mkQuery (''!(mode=? AND !(departed=0 AND landed=0)) AND !(mode=? AND departed!=0) AND ''
       @ ''!(mode=? AND landed!=0)'')) (VString (modeToDb modeLocal))) (VString (modeToDb modeLeaving)))
       (VString (modeToDb modeComing))"

text \<open>The numbers of flights per person: the rows of the query for the pilots, and those for the copilots.\<close>

definition flightsPerPerson :: "(dbId \<times> int) list \<Rightarrow> (dbId \<times> int) list \<Rightarrow> dbId \<rightharpoonup> int" where
  "flightsPerPerson pilots copilots =
     foldl (\<lambda>m (i, n). case m i of Some k \<Rightarrow> m(i \<mapsto> k + n) | None \<Rightarrow> m(i \<mapsto> n))
       (foldl (\<lambda>m (i, n). m(i \<mapsto> n)) Map.empty pilots) copilots"

definition hoursPerPersonAsPic :: "(dbId \<times> int) list \<Rightarrow> dbId \<rightharpoonup> int" where
  "hoursPerPersonAsPic pilots = foldl (\<lambda>m (i, n). m(i \<mapsto> sgn n * (\<bar>n\<bar> div 60))) Map.empty pilots"

section \<open>The prepared flights\<close>

text \<open>The meaning of the condition, with the values bound to its three place holders.\<close>

fun sql_prepared_condition :: "qvariant list \<Rightarrow> flight \<Rightarrow> bool" where
  "sql_prepared_condition [VString a, VString b, VString c] f \<longleftrightarrow>
     \<not> (modeToDb (getMode f) = a \<and> \<not> (\<not> getDeparted f \<and> \<not> getLanded f))
     \<and> \<not> (modeToDb (getMode f) = b \<and> getDeparted f) \<and> \<not> (modeToDb (getMode f) = c \<and> getLanded f)"
| "sql_prepared_condition _ f \<longleftrightarrow> False"

lemma prepared_condition:
  "sql_prepared_condition (bindValues preparedFlightsCondition) f = isPrepared f"
  by (cases "getMode f")
    (auto simp: preparedFlightsCondition_def q_bind_def mkQuery_def status_defs modeDepartsHere_def modeLandsHere_def)

text \<open>The condition that selects the prepared flights in the database is the status \<open>isPrepared\<close> of the program.\<close>

theorem preparedFlights_exact:
  "sql_prepared_condition (bindValues preparedFlightsCondition) f \<longleftrightarrow> isPrepared f"
  by (rule prepared_condition)

text \<open>The number of flights of a person is that as pilot and that as copilot together.\<close>

lemma foldl_map_put:
  "distinct (map fst rs) \<Longrightarrow> foldl (\<lambda>m (i, n). m(i \<mapsto> n)) m rs = m ++ map_of rs"
proof (induction rs arbitrary: m)
  case (Cons r rs)
  then have "map_of rs (fst r) = None" by (simp add: map_of_eq_None_iff)
  with Cons show ?case by (auto simp: split_beta map_add_def fun_eq_iff split: option.split)
qed simp

lemma flightsPerPerson_sum:
  assumes "distinct (map fst pilots)" "distinct (map fst copilots)"
  shows "flightsPerPerson pilots copilots i = (case (map_of pilots i, map_of copilots i) of
    (Some n, Some k) \<Rightarrow> Some (n + k) | (Some n, None) \<Rightarrow> Some n | (None, x) \<Rightarrow> x)"
proof -
  have pilots: "foldl (\<lambda>m (i, n). m(i \<mapsto> n)) Map.empty pilots = map_of pilots"
    using assms(1) by (simp add: foldl_map_put)
  have "foldl (\<lambda>m (i, n). case m i of Some k \<Rightarrow> m(i \<mapsto> k + n) | None \<Rightarrow> m(i \<mapsto> n)) m copilots i =
      (case (m i, map_of copilots i) of (Some n, Some k) \<Rightarrow> Some (n + k) | (Some n, None) \<Rightarrow> Some n | (None, x) \<Rightarrow> x)" for m
    using assms(2)
  proof (induction copilots arbitrary: m)
    case (Cons r rs)
    obtain j n where r: "r = (j, n)" by (cases r)
    have "i = j \<Longrightarrow> map_of rs i = None" using Cons.prems r by (auto simp: map_of_eq_None_iff)
    then show ?case using Cons by (auto simp: r split: option.splits)
  qed (simp split: option.split)
  then show ?thesis by (simp add: flightsPerPerson_def pilots)
qed

section \<open>Stored changes reach the cache\<close>

text \<open>The events are handled by the cache, one after the other.\<close>

fun handleEvents :: "db_event list \<Rightarrow> cache \<Rightarrow> cache option" where
  "handleEvents [] c = Some c"
| "handleEvents (e # es) c = (case dbChanged e c of None \<Rightarrow> None | Some (c', _) \<Rightarrow> handleEvents es c')"

fun legal_events :: "db_event list \<Rightarrow> tables \<Rightarrow> bool" where
  "legal_events [] d \<longleftrightarrow> True"
| "legal_events (e # es) d \<longleftrightarrow> legal_event e d \<and> legal_events es (apply_event e d)"

lemma handleEvents_mirror:
  "cacheMirrors c d \<Longrightarrow> legal_events es d \<Longrightarrow>
     \<exists>c'. handleEvents es c = Some c' \<and> cacheMirrors c' (fold apply_event es d)"
proof (induction es arbitrary: c d)
  case (Cons e es)
  obtain c' where "dbChanged e c = Some (c', e)" "cacheMirrors c' (apply_event e d)"
    using dbChanged_mirrors [OF Cons.prems(1)] Cons.prems(2) by auto
  then show ?case using Cons.IH [of c' "apply_event e d"] Cons.prems(2) by simp
qed simp

text \<open>A write operation of the database.\<close>

datatype db_write = CreateObject db_value dbId | UpdateObject db_value | DeleteObject db_table dbId
  | DeleteObjects db_table "dbId list"

fun db_perform :: "'s server \<Rightarrow> db_write \<Rightarrow> ('s, db_event list) db_action" where
  "db_perform srv (CreateObject v newId) = db_createObject srv newId v"
| "db_perform srv (UpdateObject v) = db_updateObject srv v"
| "db_perform srv (DeleteObject t i) = db_deleteObject srv t i"
| "db_perform srv (DeleteObjects t is) = db_deleteObjects srv t is"

fun write_queries :: "db_write \<Rightarrow> query list" where
  "write_queries (CreateObject v newId) = [createQuery v]"
| "write_queries (UpdateObject v) = [updateQuery v]"
| "write_queries (DeleteObject t i) = [deleteQuery t i]"
| "write_queries (DeleteObjects t is) = (if is = [] then [] else [deleteListQuery t is])"

fun write_events :: "db_write \<Rightarrow> db_event list" where
  "write_events (CreateObject v newId) = (if idValid newId then [ev_added (withId newId v)] else [])"
| "write_events (UpdateObject v) = [ev_changed v]"
| "write_events (DeleteObject t i) = [ev_deleted t i]"
| "write_events (DeleteObjects t is) = map (ev_deleted t) is"

lemma db_perform_eq:
  "db_perform srv w = (if write_queries w = [] then (\<lambda>i as. Some (Inr [], i, as))
     else emitting (\<lambda>_. write_events w) (inTransaction srv (write_queries w)))"
  by (cases w) (simp_all add: db_createObject_def db_updateObject_def db_deleteObject_def db_deleteObjects_def)


text \<open>The server of the examples knows one statement.\<close>

definition oneStatement :: "query \<Rightarrow> ('d \<Rightarrow> 'd) \<Rightarrow> query \<Rightarrow> 'd \<Rightarrow> 'd" where
  "oneStatement q f q' = (if q' = q then f else id)"


end
