(* ===== verification/Sk_DbSource.thy ===== *)
theory Sk_DbSource
  imports Sk_Database
begin

text \<open>
  The operations of \<^verbatim>\<open>src/src/db/Database.cpp\<close> that read: the queries they send, and what they make of the rows.
  What the server answers to a query is a parameter (\<open>server_rows\<close>); together they are the \<open>db_source\<close> the cache
  is refreshed from.
\<close>

section \<open>Reading\<close>

record server_rows =
  rw_planes :: "query \<Rightarrow> plane list"
  rw_people :: "query \<Rightarrow> person list"
  rw_launchMethods :: "query \<Rightarrow> launchMethod list"
  rw_flarmNetRecords :: "query \<Rightarrow> flarmNetRecord list"
  rw_flights :: "query \<Rightarrow> flight list"
  rw_strings :: "query \<Rightarrow> qstring list"
  rw_numbers :: "query \<Rightarrow> (dbId \<times> int) list"

fun selectColumnList :: "db_table \<Rightarrow> qstring" where
  "selectColumnList tablePlanes = pl_selectColumnList"
| "selectColumnList tablePeople = pe_selectColumnList"
| "selectColumnList tableLaunchMethods = lm_selectColumnList"
| "selectColumnList tableFlarmNetRecords = fn_selectColumnList"
| "selectColumnList tableFlights = f_selectColumnList"

definition getObjectsQuery :: "db_table \<Rightarrow> query \<Rightarrow> query" where
  "getObjectsQuery t condition = q_condition (q_select (dbTableName t) (selectColumnList t)) condition"

definition getAllObjectsQuery :: "db_table \<Rightarrow> query" where
  "getAllObjectsQuery t = getObjectsQuery t (mkQuery [])"

definition getObjectQuery :: "db_table \<Rightarrow> dbId \<Rightarrow> query" where
  "getObjectQuery t i = q_condition (q_select (dbTableName t) (selectColumnList t)) (q_bind (mkQuery ''id=?'') (VId i))"

text \<open>The first row, or the NotFoundException.\<close>

definition db_getObject :: "(query \<Rightarrow> 't list) \<Rightarrow> db_table \<Rightarrow> dbId \<Rightarrow> 't option" where
  "db_getObject select t i = (case select (getObjectQuery t i) of [] \<Rightarrow> None | x # _ \<Rightarrow> Some x)"

definition db_getPreparedFlights :: "server_rows \<Rightarrow> flight list" where
  "db_getPreparedFlights rw = rw_flights rw (getObjectsQuery tableFlights preparedFlightsCondition)"

definition db_getFlightsDate :: "server_rows \<Rightarrow> int \<Rightarrow> flight list" where
  "db_getFlightsDate rw date =
     (let condition = dateSupersetCondition date;
          candidates = rw_flights rw (getObjectsQuery tableFlights condition);
          flights = dateSupersetFilter candidates (Some date)
      in flights)"

definition db_getFlightsUnimportedVF :: "server_rows \<Rightarrow> flight list" where
  "db_getFlightsUnimportedVF rw = rw_flights rw (getObjectsQuery tableFlights
     (mkQuery (''((departure_time >= '' @ [CHR 0x27] @ ''2016-01-01'' @ [CHR 0x27]
       @ '' OR departure_time IS NULL) AND (landing_time >= '' @ [CHR 0x27] @ ''2016-01-01'' @ [CHR 0x27]
       @ '' OR landing_time IS NULL)) AND (vfid IS NULL OR vfid = 0 OR NOT uploaded)'')))"

definition flightsSelection :: "qstring \<Rightarrow> qdate \<Rightarrow> qdate \<Rightarrow> query" where
  "flightsSelection cols from until = q_bind (q_bind (mkQuery (''SELECT '' @ cols
     @ '' FROM flights WHERE landed=1 AND departed=1 AND date(departure_time) >= ? AND date(departure_time) <= ? GROUP BY ''
     @ takeWhile (\<lambda>ch. ch \<noteq> CHR '','') cols)) (VDate from)) (VDate until)"

definition insertRows :: "(dbId \<times> int) list \<Rightarrow> dbId \<rightharpoonup> int" where
  "insertRows rs = foldl (\<lambda>m (i, n). m(i \<mapsto> n)) Map.empty rs"

definition db_flightsPerPlane :: "server_rows \<Rightarrow> qdate \<Rightarrow> qdate \<Rightarrow> dbId \<rightharpoonup> int" where
  "db_flightsPerPlane rw from until = insertRows (rw_numbers rw (flightsSelection ''plane_id, COUNT(*)'' from until))"

definition db_flightsPerPerson :: "server_rows \<Rightarrow> qdate \<Rightarrow> qdate \<Rightarrow> dbId \<rightharpoonup> int" where
  "db_flightsPerPerson rw from until =
     flightsPerPerson (rw_numbers rw (flightsSelection ''pilot_id, COUNT(*)'' from until))
       (rw_numbers rw (flightsSelection ''copilot_id, COUNT(*)'' from until))"

definition db_flightsPerPersonAsPic :: "server_rows \<Rightarrow> qdate \<Rightarrow> qdate \<Rightarrow> dbId \<rightharpoonup> int" where
  "db_flightsPerPersonAsPic rw from until = insertRows (rw_numbers rw (flightsSelection ''pilot_id, COUNT(*)'' from until))"

definition db_hoursPerPersonAsPic :: "server_rows \<Rightarrow> qdate \<Rightarrow> qdate \<Rightarrow> dbId \<rightharpoonup> int" where
  "db_hoursPerPersonAsPic rw from until = hoursPerPersonAsPic (rw_numbers rw
     (flightsSelection ''pilot_id, SUM(TIMESTAMPDIFF(MINUTE, departure_time, landing_time))'' from until))"

text \<open>The database as the cache sees it. The cache asks for the flights of a valid date only.\<close>

definition databaseSource :: "server_rows \<Rightarrow> db_source" where
  "databaseSource rw = \<lparr>src_planes = rw_planes rw (getAllObjectsQuery tablePlanes),
     src_people = rw_people rw (getAllObjectsQuery tablePeople),
     src_launchMethods = rw_launchMethods rw (getAllObjectsQuery tableLaunchMethods),
     src_flarmNetRecords = rw_flarmNetRecords rw (getAllObjectsQuery tableFlarmNetRecords),
     src_preparedFlights = db_getPreparedFlights rw,
     src_flightsDate = (\<lambda>date. case date of Some d \<Rightarrow> db_getFlightsDate rw d | None \<Rightarrow> []),
     src_locations = rw_strings rw listLocationsQuery,
     src_accountingNotes = rw_strings rw listAccountingNotesQuery,
     src_flightsPerPlane = db_flightsPerPlane rw, src_flightsPerPerson = db_flightsPerPerson rw,
     src_flightsPerPersonAsPic = db_flightsPerPersonAsPic rw, src_hoursPerPersonAsPic = db_hoursPerPersonAsPic rw\<rparr>"

section \<open>Writing several objects\<close>

text \<open>The objects with the ids the server gives them; the events emitted before an exception stay emitted.\<close>

fun db_createObjects :: "'s server \<Rightarrow> (dbId \<times> db_value) list \<Rightarrow> 's db_interface \<Rightarrow> answer list
    \<Rightarrow> (db_exception option \<times> db_event list \<times> 's db_interface \<times> answer list) option" where
  "db_createObjects srv [] i as = Some (None, [], i, as)"
| "db_createObjects srv ((newId, v) # vs) i as = (case db_createObject srv newId v i as of
     None \<Rightarrow> None
   | Some (Inl e, i1, as1) \<Rightarrow> Some (Some e, [], i1, as1)
   | Some (Inr es, i1, as1) \<Rightarrow>
       map_option (\<lambda>(e, es', i2, as2). (e, es @ es', i2, as2)) (db_createObjects srv vs i1 as1))"

section \<open>The answers describe the tables\<close>

text \<open>A server that answers a SELECT with the rows its condition is true of.\<close>

definition rows_of :: "server_rows \<Rightarrow> tables \<Rightarrow> bool" where
  "rows_of rw d \<longleftrightarrow>
     holds pl_id (\<lambda>_. True) (rw_planes rw (getAllObjectsQuery tablePlanes)) (tb_planes d)
     \<and> holds pe_id (\<lambda>_. True) (rw_people rw (getAllObjectsQuery tablePeople)) (tb_people d)
     \<and> holds lm_id (\<lambda>_. True) (rw_launchMethods rw (getAllObjectsQuery tableLaunchMethods)) (tb_launchMethods d)
     \<and> holds fn_id (\<lambda>_. True) (rw_flarmNetRecords rw (getAllObjectsQuery tableFlarmNetRecords)) (tb_flarmNetRecords d)
     \<and> holds getId (sql_prepared_condition (bindValues preparedFlightsCondition))
         (rw_flights rw (getObjectsQuery tableFlights preparedFlightsCondition)) (tb_flights d)
     \<and> (\<forall>t. holds getId (sql_date_condition (bindValues (dateSupersetCondition t)))
         (rw_flights rw (getObjectsQuery tableFlights (dateSupersetCondition t))) (tb_flights d))"

definition keyed_tables :: "tables \<Rightarrow> bool" where
  "keyed_tables d \<longleftrightarrow> table_ok pl_id (tb_planes d) \<and> table_ok pe_id (tb_people d) \<and> table_ok lm_id (tb_launchMethods d)
     \<and> table_ok fn_id (tb_flarmNetRecords d) \<and> table_ok getId (tb_flights d)"

lemma date_condition_superset:
  assumes "happened f" "effdatum utc f = Some t"
  shows "sql_date_condition (bindValues (dateSupersetCondition t)) f"
proof -
  obtain x where x: "effectiveTime f = Some x" using assms(2) by (auto simp: effdatum_def dateIn_def split: option.splits)
  with assms(2) have "t = x div 86400000" by (simp add: effdatum_def dateIn_def utc_def)
  then have "sql_in_range (midnightOf t) (midnightOf (t + 1)) (Some x)"
    using day_range [of t x t] by (simp add: sql_in_range_def midnightOf_def)
  moreover from x have "getDepartureTime f = Some x \<or> getLandingTime f = Some x"
    by (auto simp: effectiveTime_def split: if_splits)
  ultimately show ?thesis
    by (auto simp: dateSupersetCondition_def dateRangeSupersetCondition_def Let_def q_bind_def mkQuery_def)
qed

lemma happened_not_prepared: "happened f \<longleftrightarrow> \<not> isPrepared f"
  by (simp add: status_defs)

lemma getFlightsDate_holds:
  assumes "rows_of rw d"
  shows "holds getId (\<lambda>f. \<not> isPrepared f \<and> effdatum utc f = Some t) (db_getFlightsDate rw t) (tb_flights d)"
proof -
  let ?rows = "rw_flights rw (getObjectsQuery tableFlights (dateSupersetCondition t))"
  have rows: "distinct (map getId ?rows)" "set ?rows = {f \<in> ran (tb_flights d). sql_date_condition (bindValues (dateSupersetCondition t)) f}"
    using assms by (simp_all add: rows_of_def holds_def)
  have day: "qdate_le (Some t) e \<and> qdate_le e (Some t) \<longleftrightarrow> e = Some t" for e
    by (cases e) (auto simp: qdate_le_def)
  have "db_getFlightsDate rw t = filter (\<lambda>f. \<not> isPrepared f \<and> effdatum utc f = Some t) ?rows"
    by (simp add: db_getFlightsDate_def dateSupersetFilter_def dateRangeSupersetFilter_eq day happened_not_prepared)
  moreover have "distinct (map getId (filter P ?rows))" for P
    using rows(1) by (rule distinct_map_filter)
  ultimately show ?thesis
    using rows(2) date_condition_superset by (auto simp: holds_def happened_not_prepared)
qed

lemma databaseSource_describes:
  assumes "keyed_tables d" "rows_of rw d" "\<forall>f \<in> ran (tb_flights d). happened f \<longrightarrow> effectiveTime f \<noteq> None"
  shows "source_ok (databaseSource rw) d"
proof -
  have p: "sql_prepared_condition (bindValues preparedFlightsCondition) = isPrepared"
    by (rule ext) (rule prepared_condition)
  have times: "effdatum utc f \<noteq> None" if "f \<in> ran (tb_flights d)" "\<not> isPrepared f" for f
    using assms(3) that by (auto simp: effdatum_def dateIn_def happened_not_prepared split: option.splits)
  show ?thesis
    using assms(1,2) getFlightsDate_holds [OF assms(2)] times
    by (auto simp: source_ok_def databaseSource_def keyed_tables_def rows_of_def db_getPreparedFlights_def p)
qed


text \<open>A server with one prepared flight, one of day 100, and nothing else.\<close>

definition flightD :: flight where
  "flightD = flight0\<lparr>getId := 8, getDeparted := True, getDepartureTime := Some (100 * 86400000)\<rparr>"

definition rowsD :: server_rows where
  "rowsD = \<lparr>rw_planes = (\<lambda>_. []), rw_people = (\<lambda>_. []), rw_launchMethods = (\<lambda>_. []), rw_flarmNetRecords = (\<lambda>_. []),
     rw_flights = (\<lambda>q. filter (\<lambda>f. sql_prepared_condition (bindValues q) f \<or> sql_date_condition (bindValues q) f) [flight0, flightD]),
     rw_strings = (\<lambda>_. []), rw_numbers = (\<lambda>_. [])\<rparr>"

definition tablesD :: tables where
  "tablesD = tables0\<lparr>tb_flights := [7 \<mapsto> flight0, 8 \<mapsto> flightD]\<rparr>"


end
