(* ===== verification/Sk_DbManager.thy ===== *)
theory Sk_DbManager
  imports Sk_Database Sk_Migrator
begin

text \<open>
  The database manager, \<^verbatim>\<open>src/src/db/DbManager.cpp\<close>: connecting, with the creation of the database, of the user
  and of the schema, disconnecting, and merging people. The operations that run in the worker threads and the
  answers of the user are parameters (\<open>manager_ops\<close>) over a state \<open>'w\<close> of the rest of the world; exceptions are
  values. \<open>None\<close> is an operation that still waits for the root password.
\<close>

section \<open>State, operations and exceptions\<close>

datatype manager_state = stateDisconnected | stateConnecting | stateConnected

datatype connection = mainConnection | rootConnection qstring | createConnection

datatype manager_exception =
    ConnectCanceledException | ConnectFailedException qstring | DbException db_exception | otherException

record 'w manager_ops =
  op_open :: "connection \<Rightarrow> 'w \<Rightarrow> (manager_exception + unit) \<times> 'w"
  op_close :: "connection \<Rightarrow> 'w \<Rightarrow> 'w"
  op_grantAll :: "connection \<Rightarrow> 'w \<Rightarrow> (manager_exception + unit) \<times> 'w"
  op_createDatabase :: "connection \<Rightarrow> 'w \<Rightarrow> (manager_exception + unit) \<times> 'w"
  op_createLaunchMethods :: "launchMethod list \<Rightarrow> 'w \<Rightarrow> (manager_exception + unit) \<times> 'w"
  op_requiredAction :: "'w \<Rightarrow> (manager_exception + mig_action) \<times> 'w"
  op_loadSchema :: "'w \<Rightarrow> (manager_exception + unit) \<times> 'w"
  op_migrate :: "'w \<Rightarrow> (manager_exception + unit) \<times> 'w"
  op_isCurrent :: "'w \<Rightarrow> (manager_exception + bool) \<times> 'w"
  op_confirm :: "qstring \<Rightarrow> 'w \<Rightarrow> bool \<times> 'w"
  op_refresh :: "cache \<Rightarrow> 'w \<Rightarrow> (manager_exception + unit) \<times> cache \<times> 'w"

record 'w manager =
  dm_state :: manager_state
  dm_signals :: "manager_state list"
  dm_warnings :: "qstring list"
  dm_cache :: cache
  dm_passwords :: "qstring option list"
  dm_world :: 'w

type_synonym ('w, 'a) dm_action = "'w manager \<Rightarrow> ((manager_exception + 'a) \<times> 'w manager) option"

definition dm_return :: "'a \<Rightarrow> ('w, 'a) dm_action" where
  "dm_return x m = Some (Inr x, m)"

definition dm_throw :: "manager_exception \<Rightarrow> ('w, 'a) dm_action" where
  "dm_throw e m = Some (Inl e, m)"

definition dm_bind :: "('w, 'a) dm_action \<Rightarrow> ('a \<Rightarrow> ('w, 'b) dm_action) \<Rightarrow> ('w, 'b) dm_action" where
  "dm_bind a f m = (case a m of
     None \<Rightarrow> None | Some (Inl e, m') \<Rightarrow> Some (Inl e, m') | Some (Inr x, m') \<Rightarrow> f x m')"

definition dm_then :: "('w, unit) dm_action \<Rightarrow> ('w, 'b) dm_action \<Rightarrow> ('w, 'b) dm_action" where
  "dm_then a b = dm_bind a (\<lambda>_. b)"

text \<open>A handler answers \<open>None\<close> for the exceptions it does not catch.\<close>

definition dm_catch :: "('w, 'a) dm_action \<Rightarrow> (manager_exception \<Rightarrow> ('w, 'a) dm_action option) \<Rightarrow> ('w, 'a) dm_action" where
  "dm_catch a h m = (case a m of
     None \<Rightarrow> None
   | Some (Inr x, m') \<Rightarrow> Some (Inr x, m')
   | Some (Inl e, m') \<Rightarrow> (case h e of None \<Rightarrow> Some (Inl e, m') | Some b \<Rightarrow> b m'))"

text \<open>An operation of a worker: the result is stored, and rethrown here if it is an exception.\<close>

definition dm_run :: "('w \<Rightarrow> (manager_exception + 'a) \<times> 'w) \<Rightarrow> ('w, 'a) dm_action" where
  "dm_run f m = (case f (dm_world m) of (r, w) \<Rightarrow> Some (r, m\<lparr>dm_world := w\<rparr>))"

definition dm_setState :: "manager_state \<Rightarrow> ('w, unit) dm_action" where
  "dm_setState s m = Some (Inr (), m\<lparr>dm_state := s, dm_signals := dm_signals m @ [s]\<rparr>)"

definition dm_showWarning :: "qstring \<Rightarrow> ('w, unit) dm_action" where
  "dm_showWarning title m = Some (Inr (), m\<lparr>dm_warnings := dm_warnings m @ [title]\<rparr>)"

section \<open>Schema management\<close>

definition dm_ensureCurrent :: "'w manager_ops \<Rightarrow> qstring \<Rightarrow> ('w, unit) dm_action" where
  "dm_ensureCurrent ops message =
     dm_bind (dm_run (op_isCurrent ops)) (\<lambda>current.
       if \<not> current then dm_throw (ConnectFailedException message) else dm_return ())"

definition confirmOrCancel :: "'w manager_ops \<Rightarrow> qstring \<Rightarrow> ('w, unit) dm_action" where
  "confirmOrCancel ops title =
     dm_bind (dm_run (\<lambda>w. case op_confirm ops title w of (yes, w') \<Rightarrow> (Inr yes, w')))
       (\<lambda>yes. if \<not> yes then dm_throw ConnectCanceledException else dm_return ())"

definition sampleLaunchMethods :: "launchMethod list" where
  "sampleLaunchMethods =
     [(lm_new invalidId)\<lparr>lm_name := ''Winch club A'', lm_shortName := ''WA'', lm_logString := ''W'',
        lm_keyboardShortcut := ''A'', lm_type := typeWinch, lm_personRequired := True\<rparr>,
      (lm_new invalidId)\<lparr>lm_name := ''Winch club B'', lm_shortName := ''WB'', lm_logString := ''W'',
        lm_keyboardShortcut := ''B'', lm_type := typeWinch, lm_personRequired := True\<rparr>,
      (lm_new invalidId)\<lparr>lm_name := ''D-EFGH'', lm_shortName := ''GH'', lm_logString := ''A'',
        lm_keyboardShortcut := ''G'', lm_type := typeAirtow, lm_towplaneRegistration := ''D-EFGH'', lm_personRequired := True\<rparr>,
      (lm_new invalidId)\<lparr>lm_name := ''D-MNOP'', lm_shortName := ''OP'', lm_logString := ''A'',
        lm_keyboardShortcut := ''O'', lm_type := typeAirtow, lm_towplaneRegistration := ''D-MNOP'', lm_personRequired := True\<rparr>,
      (lm_new invalidId)\<lparr>lm_name := ''Airtow (other)'', lm_shortName := ''AT'', lm_logString := ''A'',
        lm_keyboardShortcut := ''A'', lm_type := typeAirtow, lm_personRequired := True\<rparr>,
      (lm_new invalidId)\<lparr>lm_name := ''Self launch'', lm_shortName := ''SL'', lm_logString := ''S'',
        lm_keyboardShortcut := ''S'', lm_type := typeSelf, lm_personRequired := False\<rparr>]"

definition createSampleLaunchMethods :: "'w manager_ops \<Rightarrow> ('w, unit) dm_action" where
  "createSampleLaunchMethods ops = dm_run (op_createLaunchMethods ops sampleLaunchMethods)"

definition checkVersion :: "'w manager_ops \<Rightarrow> ('w, unit) dm_action" where
  "checkVersion ops = dm_bind (dm_run (op_requiredAction ops)) (\<lambda>action. case action of
     actionLoad \<Rightarrow>
       dm_then (confirmOrCancel ops ''Database empty'')
       (dm_then (dm_run (op_loadSchema ops))
       (dm_then (dm_ensureCurrent ops ''Database not current after creating'')
         (createSampleLaunchMethods ops)))
   | actionMigrate \<Rightarrow>
       dm_then (confirmOrCancel ops ''Database not current'')
       (dm_then (dm_run (op_migrate ops))
         (dm_ensureCurrent ops ''The database is not up to date after updating.''))
   | actionNone \<Rightarrow> dm_return ())"

section \<open>Connection management\<close>

definition doOpenInterface :: "'w manager_ops \<Rightarrow> connection \<Rightarrow> ('w, unit) dm_action" where
  "doOpenInterface ops c = dm_run (op_open ops c)"

definition createDatabase :: "'w manager_ops \<Rightarrow> ('w, unit) dm_action" where
  "createDatabase ops = dm_then (doOpenInterface ops createConnection) (dm_run (op_createDatabase ops createConnection))"

text \<open>The loop asks for the root password until the login succeeds or the user gives up; the passwords typed are
  taken from the state.\<close>

fun grantLoop :: "'w manager_ops \<Rightarrow> qstring option list \<Rightarrow> ('w, unit) dm_action" where
  "grantLoop ops [] m = None"
| "grantLoop ops (None # pws) m = dm_throw ConnectCanceledException (m\<lparr>dm_passwords := pws\<rparr>)"
| "grantLoop ops (Some pw # pws) m =
     dm_catch
       (dm_then (doOpenInterface ops (rootConnection pw))
       (dm_then (dm_run (op_grantAll ops (rootConnection pw)))
         (dm_run (\<lambda>w. (Inr (), op_close ops (rootConnection pw) w)))))
       (\<lambda>e. case e of DbException (AccessDeniedException _) \<Rightarrow> Some (grantLoop ops pws) | _ \<Rightarrow> None)
       (m\<lparr>dm_passwords := pws\<rparr>)"

definition grantPermissions :: "'w manager_ops \<Rightarrow> ('w, unit) dm_action" where
  "grantPermissions ops m = grantLoop ops (dm_passwords m) m"

definition openInterface :: "'w manager_ops \<Rightarrow> ('w, unit) dm_action" where
  "openInterface ops =
     dm_catch (doOpenInterface ops mainConnection)
       (\<lambda>e. if e = DbException DatabaseDoesNotExistException
            then Some (dm_then (confirmOrCancel ops ''Create database?'')
              (dm_then (createDatabase ops)
              (dm_then (doOpenInterface ops mainConnection)
              (dm_then (dm_run (op_loadSchema ops))
              (dm_then (dm_ensureCurrent ops ''After loading, the database is not up to date.'')
                (createSampleLaunchMethods ops))))))
            else None)"

definition clearCache :: "('w, unit) dm_action" where
  "clearCache m = Some (Inr (), m\<lparr>dm_cache := clear (dm_cache m)\<rparr>)"

definition refreshCache :: "'w manager_ops \<Rightarrow> ('w, unit) dm_action" where
  "refreshCache ops m = (case op_refresh ops (dm_cache m) (dm_world m) of
     (r, c, w) \<Rightarrow> Some (r, m\<lparr>dm_cache := c, dm_world := w\<rparr>))"

definition closeInterface :: "'w manager_ops \<Rightarrow> ('w, unit) dm_action" where
  "closeInterface ops m = Some (Inr (), m\<lparr>dm_world := op_close ops mainConnection (dm_world m)\<rparr>)"

definition connectImpl :: "'w manager_ops \<Rightarrow> ('w, unit) dm_action" where
  "connectImpl ops =
     dm_catch (dm_then (openInterface ops) (dm_then (checkVersion ops) (dm_then clearCache (refreshCache ops))))
       (\<lambda>e. Some (dm_then (closeInterface ops) (dm_throw e)))"

definition connected :: "('w, bool) dm_action" where
  "connected = dm_then (dm_setState stateConnected) (dm_return True)"

definition notConnected :: "qstring \<Rightarrow> ('w, bool) dm_action" where
  "notConnected title = dm_then (dm_showWarning title) (dm_then (dm_setState stateDisconnected) (dm_return False))"

definition dm_connect :: "'w manager_ops \<Rightarrow> ('w, bool) dm_action" where
  "dm_connect ops =
     dm_then (dm_setState stateConnecting)
       (dm_catch
         (dm_catch (dm_then (connectImpl ops) connected)
           (\<lambda>e. case e of
             DbException (AccessDeniedException _) \<Rightarrow>
               Some (dm_then (grantPermissions ops) (dm_then (connectImpl ops) connected))
           | _ \<Rightarrow> None))
         (\<lambda>e. case e of
           ConnectCanceledException \<Rightarrow> Some (notConnected ''Connection canceled'')
         | DbException OperationCanceledException \<Rightarrow> Some (notConnected ''Connection canceled'')
         | ConnectFailedException message \<Rightarrow> Some (notConnected ''Connection failed'')
         | DbException _ \<Rightarrow> Some (notConnected ''Error while connecting'')
         | otherException \<Rightarrow> None))"

definition dm_disconnect :: "'w manager_ops \<Rightarrow> ('w, unit) dm_action" where
  "dm_disconnect ops = dm_then (closeInterface ops) (dm_then clearCache (dm_setState stateDisconnected))"

section \<open>Reasoning about the operations\<close>

named_theorems dm_rules

definition dm_spec ::
    "('w manager \<Rightarrow> bool) \<Rightarrow> ('w, 'a) dm_action \<Rightarrow> ('a \<Rightarrow> 'w manager \<Rightarrow> bool)
      \<Rightarrow> (manager_exception \<Rightarrow> 'w manager \<Rightarrow> bool) \<Rightarrow> bool" where
  "dm_spec P a Q E \<longleftrightarrow> (\<forall>m. P m \<longrightarrow> (case a m of
     None \<Rightarrow> True | Some (Inl e, m') \<Rightarrow> E e m' | Some (Inr x, m') \<Rightarrow> Q x m'))"

lemma dm_specI:
  "(\<And>m. P m \<Longrightarrow> case a m of None \<Rightarrow> True | Some (Inl e, m') \<Rightarrow> E e m' | Some (Inr x, m') \<Rightarrow> Q x m') \<Longrightarrow> dm_spec P a Q E"
  by (simp add: dm_spec_def)

lemma dm_specD: "dm_spec P a Q E \<Longrightarrow> P m \<Longrightarrow> a m = Some (r, m') \<Longrightarrow> (case r of Inl e \<Rightarrow> E e m' | Inr x \<Rightarrow> Q x m')"
  by (cases r) (auto simp: dm_spec_def dest!: spec [of _ m])

lemma dm_spec_weaken:
  "dm_spec P a Q E \<Longrightarrow> (\<And>m. P' m \<Longrightarrow> P m) \<Longrightarrow> (\<And>x m. Q x m \<Longrightarrow> Q' x m) \<Longrightarrow> (\<And>e m. E e m \<Longrightarrow> E' e m) \<Longrightarrow> dm_spec P' a Q' E'"
  by (fastforce simp: dm_spec_def split: option.splits sum.splits)

lemma dm_spec_return [dm_rules]: "(\<And>m. P m \<Longrightarrow> Q x m) \<Longrightarrow> dm_spec P (dm_return x) Q E"
  by (simp add: dm_spec_def dm_return_def)

lemma dm_spec_throw [dm_rules]: "(\<And>m. P m \<Longrightarrow> E e m) \<Longrightarrow> dm_spec P (dm_throw e) Q E"
  by (simp add: dm_spec_def dm_throw_def)

lemma dm_spec_bind:
  assumes "dm_spec P a Q E" "\<And>x. dm_spec (Q x) (f x) R E"
  shows "dm_spec P (dm_bind a f) R E"
proof (rule dm_specI)
  fix m assume "P m"
  show "case dm_bind a f m of None \<Rightarrow> True | Some (Inl e, m') \<Rightarrow> E e m' | Some (Inr x, m') \<Rightarrow> R x m'"
  proof (cases "a m")
    case (Some t)
    obtain r m1 where "t = (r, m1)" by (cases t)
    with Some have "a m = Some (r, m1)" by simp
    with dm_specD [OF assms(1) \<open>P m\<close>] assms(2) show ?thesis
      by (cases r) (auto simp: dm_bind_def dm_spec_def)
  qed (simp add: dm_bind_def)
qed

lemma dm_spec_then:
  assumes "dm_spec P a (\<lambda>_. Q) E" "dm_spec Q b R E"
  shows "dm_spec P (dm_then a b) R E"
  unfolding dm_then_def using assms by (rule dm_spec_bind)

lemma dm_spec_catch:
  assumes "dm_spec P a Q F" "\<And>e b. h e = Some b \<Longrightarrow> dm_spec (F e) b Q E" "\<And>e m. h e = None \<Longrightarrow> F e m \<Longrightarrow> E e m"
  shows "dm_spec P (dm_catch a h) Q E"
proof (rule dm_specI)
  fix m assume "P m"
  show "case dm_catch a h m of None \<Rightarrow> True | Some (Inl e, m') \<Rightarrow> E e m' | Some (Inr x, m') \<Rightarrow> Q x m'"
  proof (cases "a m")
    case (Some t)
    obtain r m1 where "t = (r, m1)" by (cases t)
    with Some have a: "a m = Some (r, m1)" by simp
    note p = dm_specD [OF assms(1) \<open>P m\<close> a]
    show ?thesis
    proof (cases r)
      case (Inl e)
      with a p assms(2,3) [of e] show ?thesis by (cases "h e") (auto simp: dm_catch_def dm_spec_def)
    qed (use a p in \<open>simp add: dm_catch_def\<close>)
  qed (simp add: dm_catch_def)
qed

text \<open>An operation of a worker changes nothing but the world.\<close>

lemma dm_spec_run:
  assumes "\<And>m r w. P m \<Longrightarrow> f (dm_world m) = (r, w) \<Longrightarrow>
    (case r of Inl e \<Rightarrow> E e (m\<lparr>dm_world := w\<rparr>) | Inr x \<Rightarrow> Q x (m\<lparr>dm_world := w\<rparr>))"
  shows "dm_spec P (dm_run f) Q E"
proof (rule dm_specI)
  fix m assume "P m"
  obtain r w where "f (dm_world m) = (r, w)" by (cases "f (dm_world m)")
  with assms [OF \<open>P m\<close> this] show "case dm_run f m of None \<Rightarrow> True | Some (Inl e, m') \<Rightarrow> E e m' | Some (Inr x, m') \<Rightarrow> Q x m'"
    by (cases r) (simp_all add: dm_run_def)
qed

section \<open>The outcome of connecting\<close>

text \<open>What the observers of the manager see: the state, the signals and the warnings.\<close>

definition seen :: "'w manager \<Rightarrow> manager_state \<times> manager_state list \<times> qstring list" where
  "seen m = (dm_state m, dm_signals m, dm_warnings m)"

abbreviation quiet :: "manager_state \<times> manager_state list \<times> qstring list \<Rightarrow> ('w, 'a) dm_action \<Rightarrow> bool" where
  "quiet s a \<equiv> dm_spec (\<lambda>m. seen m = s) a (\<lambda>_ m. seen m = s) (\<lambda>_ m. seen m = s)"

lemma quiet_run: "quiet s (dm_run f)"
  by (rule dm_spec_run) (simp add: seen_def split: sum.split)

lemma quiet_return: "quiet s (dm_return x)" and quiet_throw: "quiet s (dm_throw e)"
  by (rule dm_rules, simp)+

lemma quiet_if: "quiet s a \<Longrightarrow> quiet s b \<Longrightarrow> quiet s (if c then a else b)"
  by simp

lemma quiet_bind: "quiet s a \<Longrightarrow> (\<And>x. quiet s (f x)) \<Longrightarrow> quiet s (dm_bind a f)"
  by (rule dm_spec_bind)

lemma quiet_then: "quiet s a \<Longrightarrow> quiet s b \<Longrightarrow> quiet s (dm_then a b)"
  by (rule dm_spec_then)

lemmas quiet_rules = quiet_run quiet_return quiet_throw quiet_if quiet_then quiet_bind

lemma quiet_ensureCurrent: "quiet s (dm_ensureCurrent ops message)"
  unfolding dm_ensureCurrent_def by (intro quiet_rules)

lemma quiet_confirm: "quiet s (confirmOrCancel ops title)"
  unfolding confirmOrCancel_def by (intro quiet_rules)

lemma quiet_open: "quiet s (doOpenInterface ops c)"
  unfolding doOpenInterface_def by (intro quiet_rules)

lemma quiet_checkVersion: "quiet s (checkVersion ops)"
proof -
  have cases: "quiet s (case action of actionLoad \<Rightarrow> a | actionMigrate \<Rightarrow> b | actionNone \<Rightarrow> dm_return ())"
    if "quiet s a" "quiet s b" for a b :: "('a, unit) dm_action" and action
    using that by (cases action) (simp_all add: quiet_return)
  show ?thesis
    unfolding checkVersion_def createSampleLaunchMethods_def
    by (intro quiet_run quiet_then quiet_bind cases quiet_confirm quiet_ensureCurrent)
qed

lemma quiet_openInterface: "quiet s (openInterface ops)"
  unfolding openInterface_def createDatabase_def createSampleLaunchMethods_def
proof (rule dm_spec_catch [OF quiet_open])
  fix e b
  assume "(if e = DbException DatabaseDoesNotExistException then Some (dm_then (confirmOrCancel ops ''Create database?'')
    (dm_then (dm_then (doOpenInterface ops createConnection) (dm_run (op_createDatabase ops createConnection)))
    (dm_then (doOpenInterface ops mainConnection) (dm_then (dm_run (op_loadSchema ops))
    (dm_then (dm_ensureCurrent ops ''After loading, the database is not up to date.'')
      (dm_run (op_createLaunchMethods ops sampleLaunchMethods))))))) else None) = Some b"
  then show "quiet s b"
    by (auto split: if_splits intro!: quiet_rules quiet_confirm quiet_ensureCurrent quiet_open)
qed

lemma quiet_connectImpl: "quiet s (connectImpl ops)"
proof -
  have clear: "quiet s clearCache" by (simp add: dm_spec_def clearCache_def seen_def)
  have refresh: "quiet s (refreshCache ops)"
    by (rule dm_specI) (auto simp: refreshCache_def seen_def split: prod.split sum.split)
  have close: "quiet s (closeInterface ops)" by (simp add: dm_spec_def closeInterface_def seen_def)
  show ?thesis
    unfolding connectImpl_def
    by (rule dm_spec_catch [where F = "\<lambda>_ m. seen m = s"])
      (auto intro!: quiet_rules quiet_openInterface quiet_checkVersion clear refresh close)
qed

lemma quiet_grantLoop: "quiet s (grantLoop ops pws)"
proof (induction pws)
  case Nil
  then show ?case by (simp add: dm_spec_def)
next
  case (Cons p pws)
  show ?case
  proof (cases p)
    case None
    then show ?thesis by (simp add: dm_spec_def dm_throw_def seen_def)
  next
    case (Some pw)
    let ?log = "\<lambda>a m. a (m\<lparr>dm_passwords := pws\<rparr>)"
    have upd: "quiet s a \<Longrightarrow> quiet s (?log a)" for a :: "('a, unit) dm_action"
      by (fastforce simp: dm_spec_def seen_def)
    have "quiet s (dm_catch (dm_then (doOpenInterface ops (rootConnection pw))
       (dm_then (dm_run (op_grantAll ops (rootConnection pw)))
         (dm_run (\<lambda>w. (Inr (), op_close ops (rootConnection pw) w)))))
       (\<lambda>e. case e of DbException (AccessDeniedException _) \<Rightarrow> Some (grantLoop ops pws) | _ \<Rightarrow> None))"
    proof (rule dm_spec_catch [where F = "\<lambda>_ m. seen m = s"])
      fix e b
      assume "(case e of DbException (AccessDeniedException _) \<Rightarrow> Some (grantLoop ops pws) | _ \<Rightarrow> None) = Some b"
      then show "quiet s b"
        using Cons.IH by (auto split: manager_exception.splits db_exception.splits)
    qed (intro quiet_rules quiet_open | simp)+
    from upd [OF this] show ?thesis by (simp add: Some)
  qed
qed

lemma quiet_grantPermissions: "quiet s (grantPermissions (ops :: 'a manager_ops))"
proof (rule dm_specI)
  fix m :: "'a manager" assume "seen m = s"
  with quiet_grantLoop [of s ops "dm_passwords m"]
  show "case grantPermissions ops m of None \<Rightarrow> True | Some (Inl e, m') \<Rightarrow> seen m' = s | Some (Inr x, m') \<Rightarrow> seen m' = s"
    by (simp add: dm_spec_def grantPermissions_def)
qed

text \<open>The two ways to end, in a state reached from \<open>m\<close> by announcing that the manager connects.\<close>

definition connecting :: "'w manager \<Rightarrow> manager_state \<times> manager_state list \<times> qstring list" where
  "connecting m = (stateConnecting, dm_signals m @ [stateConnecting], dm_warnings m)"

definition connect_outcome :: "'w manager \<Rightarrow> manager_exception + bool \<Rightarrow> 'w manager \<Rightarrow> bool" where
  "connect_outcome m r m' \<longleftrightarrow> (case r of
     Inr True \<Rightarrow> dm_state m' = stateConnected \<and> dm_signals m' = dm_signals m @ [stateConnecting, stateConnected]
       \<and> dm_warnings m' = dm_warnings m
   | Inr False \<Rightarrow> dm_state m' = stateDisconnected \<and> dm_signals m' = dm_signals m @ [stateConnecting, stateDisconnected]
       \<and> (\<exists>title. dm_warnings m' = dm_warnings m @ [title])
   | Inl e \<Rightarrow> e = otherException \<and> dm_state m' = stateConnecting \<and> dm_signals m' = dm_signals m @ [stateConnecting])"

lemma notConnected_outcome:
  "dm_spec (\<lambda>m'. seen m' = connecting m) (notConnected title) (\<lambda>x. connect_outcome m (Inr x)) E"
  by (simp add: dm_spec_def notConnected_def dm_then_def dm_bind_def dm_showWarning_def dm_setState_def dm_return_def
      connect_outcome_def seen_def connecting_def)

lemma connected_outcome:
  "dm_spec (\<lambda>m'. seen m' = connecting m) connected (\<lambda>x. connect_outcome m (Inr x)) E"
  by (simp add: dm_spec_def connected_def dm_then_def dm_bind_def dm_setState_def dm_return_def
      connect_outcome_def seen_def connecting_def)

text \<open>The handlers of \<open>dm_connect\<close>, for any promise \<open>E\<close> about the exceptions that reach them.\<close>

lemma dm_connect_spec:
  assumes "dm_spec P (connectImpl ops) (\<lambda>_. Q) E" "dm_spec S (dm_setState stateConnecting) (\<lambda>_. P) F"
    and "\<And>n. dm_spec (E (DbException (AccessDeniedException n))) (grantPermissions ops) (\<lambda>_. P) E"
    and "dm_spec Q connected R E"
    and "\<And>e title. dm_spec (E e) (notConnected title) R F" "\<And>m. E otherException m \<Longrightarrow> F otherException m"
  shows "dm_spec S (dm_connect ops) R F"
  unfolding dm_connect_def
proof (rule dm_spec_then [OF assms(2)])
  have tried: "dm_spec P (dm_then (connectImpl ops) connected) R E"
    by (rule dm_spec_then [OF assms(1,4)])
  have granted: "dm_spec (E (DbException (AccessDeniedException n)))
      (dm_then (grantPermissions ops) (dm_then (connectImpl ops) connected)) R E" for n
    by (rule dm_spec_then [OF assms(3) tried])
  let ?inner = "dm_catch (dm_then (connectImpl ops) connected) (\<lambda>e. case e of
      DbException (AccessDeniedException _) \<Rightarrow> Some (dm_then (grantPermissions ops) (dm_then (connectImpl ops) connected))
    | _ \<Rightarrow> None)"
  have inner: "dm_spec P ?inner R E"
    by (rule dm_spec_catch [OF tried]) (auto split: manager_exception.splits db_exception.splits intro: granted)
  show "dm_spec P (dm_catch ?inner (\<lambda>e. case e of
      ConnectCanceledException \<Rightarrow> Some (notConnected ''Connection canceled'')
    | DbException OperationCanceledException \<Rightarrow> Some (notConnected ''Connection canceled'')
    | ConnectFailedException message \<Rightarrow> Some (notConnected ''Connection failed'')
    | DbException _ \<Rightarrow> Some (notConnected ''Error while connecting'')
    | otherException \<Rightarrow> None)) R F"
    by (rule dm_spec_catch [OF inner]) (auto split: manager_exception.splits db_exception.splits intro: assms(5) assms(6))
qed

text \<open>C7: whatever the server, the workers and the user answer, connecting ends in one of three ways: it answers true,
  is connected and has signalled just that it was connecting and then connected; it answers false, is
  disconnected, has signalled that, and has shown one warning; or an exception that is none of the
  database exceptions escapes, and the manager stays in the state connecting.\<close>

theorem connect_reports:
  "case dm_connect ops (m :: 'a manager) of None \<Rightarrow> True | Some (r, m') \<Rightarrow> connect_outcome m r m'"
proof -
  let ?at = "\<lambda>_ m'. seen m' = connecting m"
  have "dm_spec (\<lambda>m'. m' = m) (dm_connect ops) (\<lambda>x. connect_outcome m (Inr x)) (\<lambda>e. connect_outcome m (Inl e))"
  proof (rule dm_connect_spec [where P = "?at ()" and Q = "?at ()" and E = ?at])
    show "dm_spec (\<lambda>m'. m' = m) (dm_setState stateConnecting) ?at (\<lambda>e. connect_outcome m (Inl e))"
      by (simp add: dm_spec_def dm_setState_def seen_def connecting_def)
  next
    fix m' :: "'a manager" assume "seen m' = connecting m"
    then show "connect_outcome m (Inl otherException) m'" by (simp add: connect_outcome_def seen_def connecting_def)
  qed (rule quiet_connectImpl quiet_grantPermissions connected_outcome notConnected_outcome)+
  then have "dm_connect ops m = Some (r, m') \<Longrightarrow> connect_outcome m r m'" for r m'
    by (cases r) (auto dest: dm_specD [OF _ refl])
  then show ?thesis by (auto split: option.split)
qed

section \<open>What is promised by a connection\<close>

text \<open>What the manager relies on: \<open>closed\<close>, \<open>usable\<close> and \<open>displays\<close> say that the main connection is closed, that the
  schema can be used, and that the cache shows what is stored; \<open>sane\<close> is what a refresh needs of the cache.\<close>

locale manager_contract =
  fixes ops :: "'w manager_ops"
    and closed :: "'w \<Rightarrow> bool" and usable :: "'w \<Rightarrow> bool" and displays :: "cache \<Rightarrow> 'w \<Rightarrow> bool"
    and sane :: "cache \<Rightarrow> bool"
  assumes close: "closed (op_close ops mainConnection w)"
    and root_open: "closed w \<Longrightarrow> closed (snd (op_open ops (rootConnection pw) w))"
    and root_grant: "closed w \<Longrightarrow> closed (snd (op_grantAll ops (rootConnection pw) w))"
    and root_close: "closed w \<Longrightarrow> closed (op_close ops (rootConnection pw) w)"
    and no_action: "op_requiredAction ops w = (Inr actionNone, w') \<Longrightarrow> usable w'"
    and current: "op_isCurrent ops w = (Inr True, w') \<Longrightarrow> usable w'"
    and create: "usable w \<Longrightarrow> op_createLaunchMethods ops ls w = (r, w') \<Longrightarrow> usable w'"
    and sane_clear: "sane c \<Longrightarrow> sane (clear c)"
    and sane_refresh: "sane c \<Longrightarrow> op_refresh ops (clear c) w = (r, c', w') \<Longrightarrow> sane c'"
    and refresh: "usable w \<Longrightarrow> sane c \<Longrightarrow> op_refresh ops (clear c) w = (Inr x, c', w') \<Longrightarrow> usable w' \<and> displays c' w'"
begin

abbreviation keeping :: "cache \<Rightarrow> ('w manager \<Rightarrow> bool) \<Rightarrow> 'w manager \<Rightarrow> bool" where
  "keeping c P m \<equiv> dm_cache m = c \<and> P m"

abbreviation anyhow :: "'w manager \<Rightarrow> bool" where
  "anyhow \<equiv> \<lambda>_. True"

lemma spec_run: "dm_spec (keeping c anyhow) (dm_run f) (\<lambda>_. keeping c anyhow) (\<lambda>_. keeping c anyhow)"
  by (rule dm_spec_run) (simp split: sum.split)

lemma spec_then:
  "dm_spec (keeping c anyhow) a (\<lambda>_. keeping c anyhow) (\<lambda>_. keeping c anyhow)
    \<Longrightarrow> dm_spec (keeping c anyhow) b (\<lambda>_. keeping c Q) (\<lambda>_. keeping c anyhow)
    \<Longrightarrow> dm_spec (keeping c anyhow) (dm_then a b) (\<lambda>_. keeping c Q) (\<lambda>_. keeping c anyhow)"
  by (rule dm_spec_then)

lemma spec_confirm:
  "dm_spec (keeping c anyhow) (confirmOrCancel ops title) (\<lambda>_. keeping c anyhow) (\<lambda>_. keeping c anyhow)"
  unfolding confirmOrCancel_def
  by (rule dm_spec_bind [OF spec_run]) (simp add: dm_spec_def dm_throw_def dm_return_def)

lemma spec_ensureCurrent:
  "dm_spec (keeping c anyhow) (dm_ensureCurrent ops message) (\<lambda>_. keeping c (\<lambda>m. usable (dm_world m)))
     (\<lambda>_. keeping c anyhow)"
  unfolding dm_ensureCurrent_def
  by (rule dm_spec_bind [OF dm_spec_run [where Q = "\<lambda>b. keeping c (\<lambda>m. b \<longrightarrow> usable (dm_world m))"]])
    (auto simp: dm_spec_def dm_return_def dm_throw_def dest: current split: sum.split)

lemma spec_createSamples:
  "dm_spec (keeping c (\<lambda>m. usable (dm_world m))) (createSampleLaunchMethods ops)
     (\<lambda>_. keeping c (\<lambda>m. usable (dm_world m))) (\<lambda>_. keeping c anyhow)"
  unfolding createSampleLaunchMethods_def by (rule dm_spec_run) (auto dest: create split: sum.split)

lemma spec_samples:
  "dm_spec (keeping c anyhow) (dm_then (dm_ensureCurrent ops message) (createSampleLaunchMethods ops))
     (\<lambda>_. keeping c (\<lambda>m. usable (dm_world m))) (\<lambda>_. keeping c anyhow)"
  by (rule dm_spec_then [OF spec_ensureCurrent spec_createSamples])

lemma spec_checkVersion:
  "dm_spec (keeping c anyhow) (checkVersion ops) (\<lambda>_. keeping c (\<lambda>m. usable (dm_world m))) (\<lambda>_. keeping c anyhow)"
  unfolding checkVersion_def
proof (rule dm_spec_bind)
  show "dm_spec (keeping c anyhow) (dm_run (op_requiredAction ops))
    (\<lambda>action. keeping c (\<lambda>m. action = actionNone \<longrightarrow> usable (dm_world m))) (\<lambda>_. keeping c anyhow)"
    by (rule dm_spec_run) (auto dest: no_action split: sum.split)
next
  fix action
  let ?load = "dm_then (confirmOrCancel ops ''Database empty'') (dm_then (dm_run (op_loadSchema ops))
     (dm_then (dm_ensureCurrent ops ''Database not current after creating'') (createSampleLaunchMethods ops)))"
  let ?migrate = "dm_then (confirmOrCancel ops ''Database not current'') (dm_then (dm_run (op_migrate ops))
     (dm_ensureCurrent ops ''The database is not up to date after updating.''))"
  have "dm_spec (keeping c anyhow) ?load (\<lambda>_. keeping c (\<lambda>m. usable (dm_world m))) (\<lambda>_. keeping c anyhow)"
    "dm_spec (keeping c anyhow) ?migrate (\<lambda>_. keeping c (\<lambda>m. usable (dm_world m))) (\<lambda>_. keeping c anyhow)"
    by (intro spec_then spec_confirm spec_run spec_samples spec_ensureCurrent)+
  then show "dm_spec (keeping c (\<lambda>m. action = actionNone \<longrightarrow> usable (dm_world m)))
     (case action of actionNone \<Rightarrow> dm_return () | actionMigrate \<Rightarrow> ?migrate | actionLoad \<Rightarrow> ?load)
     (\<lambda>_. keeping c (\<lambda>m. usable (dm_world m))) (\<lambda>_. keeping c anyhow)"
    by (cases action) (simp_all add: dm_spec_def dm_return_def)
qed

lemma spec_openInterface:
  "dm_spec (keeping c anyhow) (openInterface ops) (\<lambda>_. keeping c anyhow) (\<lambda>_. keeping c anyhow)"
proof -
  let ?a = "dm_then (confirmOrCancel ops ''Create database?'') (dm_then (createDatabase ops)
    (dm_then (doOpenInterface ops mainConnection) (dm_then (dm_run (op_loadSchema ops))
    (dm_then (dm_ensureCurrent ops ''After loading, the database is not up to date.'') (createSampleLaunchMethods ops)))))"
  have samples: "dm_spec (keeping c anyhow) (dm_then (dm_ensureCurrent ops message) (createSampleLaunchMethods ops))
     (\<lambda>_. keeping c anyhow) (\<lambda>_. keeping c anyhow)" for message
    by (rule dm_spec_weaken [OF spec_samples]) simp_all
  have a: "dm_spec (keeping c anyhow) ?a (\<lambda>_. keeping c anyhow) (\<lambda>_. keeping c anyhow)"
    unfolding createDatabase_def doOpenInterface_def by (intro spec_then spec_confirm spec_run samples)
  show ?thesis
    unfolding openInterface_def
  proof (rule dm_spec_catch [where F = "\<lambda>_. keeping c anyhow"])
    fix e b
    assume "(if e = DbException DatabaseDoesNotExistException then Some ?a else None) = Some b"
    then have "b = ?a" by (auto split: if_splits)
    with a show "dm_spec (keeping c anyhow) b (\<lambda>_. keeping c anyhow) (\<lambda>_. keeping c anyhow)" by (rule ssubst [rotated])
  qed (unfold doOpenInterface_def, rule spec_run)
qed

text \<open>A connection that was set up is usable, and the cache shows what is stored; if it fails, it is closed.\<close>

lemma spec_connectImpl:
  "dm_spec (\<lambda>m. sane (dm_cache m)) (connectImpl ops)
     (\<lambda>_ m. usable (dm_world m) \<and> displays (dm_cache m) (dm_world m) \<and> sane (dm_cache m))
     (\<lambda>_ m. closed (dm_world m) \<and> sane (dm_cache m))"
proof (rule dm_specI)
  fix m :: "'w manager" assume sane: "sane (dm_cache m)"
  let ?c = "dm_cache m"
  let ?ok = "\<lambda>_ m. usable (dm_world m) \<and> displays (dm_cache m) (dm_world m) \<and> sane (dm_cache m)"
  let ?no = "\<lambda>_ m. closed (dm_world m) \<and> sane (dm_cache m)"
  have refresh: "dm_spec (keeping ?c (\<lambda>m. usable (dm_world m))) (dm_then clearCache (refreshCache ops)) ?ok (\<lambda>_ m. sane (dm_cache m))"
    by (auto simp: dm_spec_def dm_then_def dm_bind_def clearCache_def refreshCache_def sane
        split: prod.split sum.split dest: refresh [OF _ sane] sane_refresh [OF sane])
  have "dm_spec (keeping ?c (\<lambda>m. usable (dm_world m))) (dm_then clearCache (refreshCache ops)) ?ok (\<lambda>_ m. sane (dm_cache m))
    \<Longrightarrow> dm_spec (keeping ?c anyhow) (dm_then (checkVersion ops) (dm_then clearCache (refreshCache ops))) ?ok (\<lambda>_ m. sane (dm_cache m))"
    by (rule dm_spec_then [rotated], assumption, rule dm_spec_weaken [OF spec_checkVersion]) (auto simp: sane)
  from this [OF refresh]
  have "dm_spec (keeping ?c anyhow) (dm_then (openInterface ops) (dm_then (checkVersion ops) (dm_then clearCache (refreshCache ops))))
      ?ok (\<lambda>_ m. sane (dm_cache m))"
    by (rule dm_spec_then [rotated], intro dm_spec_weaken [OF spec_openInterface]) (auto simp: sane)
  then have "dm_spec (keeping ?c anyhow) (connectImpl ops) ?ok ?no"
    unfolding connectImpl_def
    by (rule dm_spec_catch)
      (auto simp: dm_spec_def dm_then_def dm_bind_def closeInterface_def dm_throw_def close)
  then show "case connectImpl ops m of None \<Rightarrow> True | Some (Inl e, m') \<Rightarrow> ?no e m' | Some (Inr x, m') \<Rightarrow> ?ok x m'"
    by (simp add: dm_spec_def)
qed

lemma spec_root:
  assumes "\<And>w r w'. closed w \<Longrightarrow> f w = (r, w') \<Longrightarrow> closed w'"
  shows "dm_spec (\<lambda>m. closed (dm_world m) \<and> sane (dm_cache m)) (dm_run f)
    (\<lambda>_ m. closed (dm_world m) \<and> sane (dm_cache m)) (\<lambda>_ m. closed (dm_world m) \<and> sane (dm_cache m))"
  by (rule dm_spec_run) (auto dest: assms split: sum.split)

lemma spec_grantLoop:
  "dm_spec (\<lambda>m. closed (dm_world m) \<and> sane (dm_cache m)) (grantLoop ops pws)
    (\<lambda>_ m. closed (dm_world m) \<and> sane (dm_cache m)) (\<lambda>_ m. closed (dm_world m) \<and> sane (dm_cache m))"
  (is "?spec (grantLoop ops pws)")
proof (induction pws)
  case Nil
  then show ?case by (simp add: dm_spec_def)
next
  case (Cons p pws)
  show ?case
  proof (cases p)
    case None
    then show ?thesis by (simp add: dm_spec_def dm_throw_def)
  next
    case (Some pw)
    let ?attempt = "dm_then (doOpenInterface ops (rootConnection pw)) (dm_then (dm_run (op_grantAll ops (rootConnection pw)))
         (dm_run (\<lambda>w. (Inr (), op_close ops (rootConnection pw) w))))"
    have "?spec (doOpenInterface ops (rootConnection pw))"
      unfolding doOpenInterface_def using root_open by (intro spec_root) (metis snd_conv)
    moreover have "?spec (dm_run (op_grantAll ops (rootConnection pw)))"
      using root_grant by (intro spec_root) (metis snd_conv)
    moreover have "?spec (dm_run (\<lambda>w. (Inr (), op_close ops (rootConnection pw) w)))"
      using root_close by (intro spec_root) auto
    ultimately have "?spec ?attempt" by (intro dm_spec_then)
    then have "?spec (dm_catch ?attempt (\<lambda>e. case e of DbException (AccessDeniedException _) \<Rightarrow> Some (grantLoop ops pws) | _ \<Rightarrow> None))"
      by (rule dm_spec_catch) (auto intro: Cons.IH split: manager_exception.splits db_exception.splits)
    then show ?thesis by (fastforce simp: dm_spec_def Some)
  qed
qed

lemma connect_promises:
  "dm_spec (\<lambda>m. sane (dm_cache m)) (dm_connect ops)
     (\<lambda>x m. if x then usable (dm_world m) \<and> displays (dm_cache m) (dm_world m) else closed (dm_world m))
     (\<lambda>_ m. closed (dm_world m))"
proof (rule dm_connect_spec [OF spec_connectImpl])
  show "dm_spec (\<lambda>m. sane (dm_cache m)) (dm_setState stateConnecting) (\<lambda>_ m. sane (dm_cache m)) (\<lambda>_ m. closed (dm_world m))"
    by (simp add: dm_spec_def dm_setState_def)
next
  show "dm_spec (\<lambda>m. closed (dm_world m) \<and> sane (dm_cache m)) (grantPermissions ops) (\<lambda>_ m. sane (dm_cache m))
     (\<lambda>_ m. closed (dm_world m) \<and> sane (dm_cache m))"
  proof (rule dm_specI)
    fix m :: "'w manager" assume m: "closed (dm_world m) \<and> sane (dm_cache m)"
    have "grantPermissions ops m = grantLoop ops (dm_passwords m) m" by (simp add: grantPermissions_def)
    with dm_specD [OF spec_grantLoop m, of "dm_passwords m"]
    show "case grantPermissions ops m of None \<Rightarrow> True
      | Some (Inl e, m') \<Rightarrow> closed (dm_world m') \<and> sane (dm_cache m') | Some (Inr x, m') \<Rightarrow> sane (dm_cache m')"
      by (auto split: option.split sum.split)
  qed
next
  show "dm_spec (\<lambda>m. usable (dm_world m) \<and> displays (dm_cache m) (dm_world m) \<and> sane (dm_cache m)) connected
     (\<lambda>x m. if x then usable (dm_world m) \<and> displays (dm_cache m) (dm_world m) else closed (dm_world m))
     (\<lambda>_ m. closed (dm_world m) \<and> sane (dm_cache m))"
    by (simp add: dm_spec_def connected_def dm_then_def dm_bind_def dm_setState_def dm_return_def)
next
  fix title
  show "dm_spec (\<lambda>m. closed (dm_world m) \<and> sane (dm_cache m)) (notConnected title)
     (\<lambda>x m. if x then usable (dm_world m) \<and> displays (dm_cache m) (dm_world m) else closed (dm_world m))
     (\<lambda>_ m. closed (dm_world m))"
    by (simp add: dm_spec_def notConnected_def dm_then_def dm_bind_def dm_setState_def dm_return_def dm_showWarning_def)
qed simp

end

section \<open>The manager over the migrator and the cache\<close>

text \<open>A cache that was cleared or partly refreshed is still one that can be refreshed.\<close>

context clearable_kind begin

lemma refresh_idx: "idx c ys \<Longrightarrow> \<exists>zs. idx (refreshObjects k xs c) zs"
  unfolding refreshObjects_def Let_def by (intro exI, rule insert_fold, rule idx_clear [where xs = ys]) simp

end

lemma cache_sane_parts: "parts c' = parts c \<Longrightarrow> cache_sane c \<Longrightarrow> cache_sane c'"
  using idx_parts [of c' c] by (simp add: cache_sane_def parts_def)

definition kindParts where
  "kindParts c = (planePart c, personPart c, smallPart c, flarmPart c)"

lemma cache_sane_kindParts: "kindParts c' = kindParts c \<Longrightarrow> cache_sane c \<Longrightarrow> cache_sane c'"
  using idx_parts [of c' c] by (simp add: cache_sane_def kindParts_def)

lemma cache_sane_refreshFlightsOf:
  assumes "\<And>fs c. kindParts (setTarget fs c) = kindParts c" "\<And>f d c. targetDate = Some f \<Longrightarrow> kindParts (f d c) = kindParts c"
    and "cache_sane c"
  shows "cache_sane (refreshFlightsOf src date targetList setTarget targetDate c)"
proof (rule cache_sane_kindParts [OF _ assms(3)])
  have learn: "kindParts (fold (\<lambda>f c. updateHashesFlightAdded f (c\<lparr>flightsById := (flightsById c)(getId f \<mapsto> f)\<rparr>)) fs c)
      = kindParts c" for fs c
    unfolding kindParts_def by (rule learn_fold(2))
  have byId: "kindParts (c\<lparr>flightsById := m\<rparr>) = kindParts c" for m c by (simp add: kindParts_def part_defs)
  show "kindParts (refreshFlightsOf src date targetList setTarget targetDate c) = kindParts c"
    using assms(1,2) by (auto simp: refreshFlightsOf_def Let_def forget_fold learn byId split: option.split)
qed

lemma cache_sane_refreshSteps:
  assumes "step \<in> set (refreshSteps today lastYear src)" "cache_sane c"
  shows "cache_sane (step c)"
proof -
  obtain ps es ls rs where i: "planeHashes c ps" "personHashes c es" "launchMethodIdx c ls" "flarmNetRecordIdx c rs"
    using assms(2) by (auto simp: cache_sane_def)
  have "cache_sane (refreshPlanes src c)"
    using pk.refresh_idx [OF i(1), of "src_planes src"] i idx_parts [of "refreshPlanes src c" c] refreshPlanes_parts [of src c]
    by (auto simp: cache_sane_def refreshPlanes_def Let_def)
  moreover have "cache_sane (refreshPeople src c)"
    using ek.refresh_idx [OF i(2), of "src_people src"] i idx_parts [of "refreshPeople src c" c] refreshPeople_parts [of src c]
    by (auto simp: cache_sane_def refreshPeople_def Let_def)
  moreover have "cache_sane (refreshLaunchMethods src c)"
    using lk.refresh_idx [OF i(3), of "src_launchMethods src"] i idx_parts [of "refreshLaunchMethods src c" c]
      refreshObjects_parts(9-12) [of "src_launchMethods src" c]
    by (auto simp: cache_sane_def refreshLaunchMethods_def)
  moreover have "cache_sane (refreshFlarmNetRecords src c)"
    using rk.refresh_idx [OF i(4), of "src_flarmNetRecords src"] i idx_parts [of "refreshFlarmNetRecords src c" c]
      refreshObjects_parts(13-16) [of "src_flarmNetRecords src" c]
    by (auto simp: cache_sane_def refreshFlarmNetRecords_def)
  moreover have "cache_sane (refreshFlightsToday today src c)" "cache_sane (refreshFlightsOther src c)"
    "cache_sane (refreshPreparedFlights src c)"
    unfolding refreshFlightsToday_def refreshFlightsOther_def refreshPreparedFlights_def
    by (auto intro!: cache_sane_refreshFlightsOf simp: assms(2) kindParts_def part_defs)
  moreover have "cache_sane (refreshStatic today lastYear src c)" "cache_sane (refreshLocations src c)"
    "cache_sane (refreshAccountingNotes src c)"
    by (rule cache_sane_parts [OF _ assms(2)], rule other_steps_parts)+
  ultimately show ?thesis using assms(1) by (auto simp: refreshSteps_def)
qed

lemma cache_sane_refreshUntil:
  assumes "cache_sane c"
  shows "cache_sane (refreshAllUntil n today lastYear src c)"
proof -
  have "set (take n (refreshSteps today lastYear src)) \<subseteq> set (refreshSteps today lastYear src)" by (rule set_take_subset)
  moreover have "cache_sane (fold (\<lambda>step. step) steps c)" if "set steps \<subseteq> set (refreshSteps today lastYear src)" "cache_sane c" for steps c
    using that by (induction steps arbitrary: c) (auto intro: cache_sane_refreshSteps)
  moreover have "cache_sane (clearHashesFlight (clearMultiTypeHashes c))"
    by (rule cache_sane_parts [OF _ assms]) (simp add: other_steps_parts)
  ultimately show ?thesis by (simp add: refreshAllUntil_def)
qed

lemma cache_sane_clear:
  assumes "cache_sane c"
  shows "cache_sane (clear c)"
proof -
  obtain ps es ls rs where i: "planeHashes c ps" "personHashes c es" "launchMethodIdx c ls" "flarmNetRecordIdx c rs"
    using assms by (auto simp: cache_sane_def)
  have "planeHashes (clearHashesPlane c) []" "personHashes (clearHashesPerson c) []" "launchMethodIdx (clearHashesLaunchMethod c) []"
    using pk.idx_clear [OF i(1)] ek.idx_clear [OF i(2)] lk.idx_clear [OF i(3)] by (simp_all add: launchMethodKind_def)
  then have "planeHashes (clear c) []" "personHashes (clear c) []" "launchMethodIdx (clear c) []" "flarmNetRecordIdx (clear c) rs"
    using i(4) by (simp_all add: clear_def Let_def planeHashes_def personHashes_def launchMethodIdx_def flarmNetRecordIdx_def
        kind_hash_defs clearHashesFlight_def clearMultiTypeHashes_def)
  then show ?thesis unfolding cache_sane_def by blast
qed

text \<open>The database server, the migrator and the cache, put together. What the server refuses is an input: the list
  of the exceptions that the next operations end with; a schema load or a refresh that is refused has been
  carried out for some of its steps. The data are the structure of the tables and the rows.\<close>

record ('s, 'r) dbms =
  bs_db :: "('s \<times> 'r) mig_db"
  bs_open :: bool
  bs_plan :: "(nat \<times> db_exception) option list"
  bs_answers :: "bool list"

record ('s, 'r) dbms_ops =
  so_names :: "'s \<Rightarrow> qstring list"
  so_builders :: "('s \<times> 'r) builders"
  so_schema :: "('s \<times> 'r) schema"
  so_create :: "launchMethod list \<Rightarrow> 'r \<Rightarrow> 'r"
  so_source :: "'s \<times> 'r \<Rightarrow> db_source"
  so_today :: int
  so_lastYear :: qdate

definition planned :: "(nat \<Rightarrow> ('s, 'r) dbms \<Rightarrow> ('s, 'r) dbms) \<Rightarrow> (('s, 'r) dbms \<Rightarrow> 'a \<times> ('s, 'r) dbms) \<Rightarrow> ('s, 'r) dbms
    \<Rightarrow> (manager_exception + 'a) \<times> ('s, 'r) dbms" where
  "planned part whole w = (case bs_plan w of
     Some (n, e) # plan \<Rightarrow> (Inl (DbException e), part n (w\<lparr>bs_plan := plan\<rparr>))
   | plan \<Rightarrow> (case whole (w\<lparr>bs_plan := tl plan\<rparr>) of (x, w') \<Rightarrow> (Inr x, w')))"

definition on_db :: "(('s \<times> 'r) mig_db \<Rightarrow> ('s \<times> 'r) mig_db) \<Rightarrow> ('s, 'r) dbms \<Rightarrow> ('s, 'r) dbms" where
  "on_db f w = w\<lparr>bs_db := f (bs_db w)\<rparr>"

abbreviation untouched :: "nat \<Rightarrow> ('s, 'r) dbms \<Rightarrow> ('s, 'r) dbms" where
  "untouched n w \<equiv> w"

definition setOpen :: "connection \<Rightarrow> bool \<Rightarrow> ('s, 'r) dbms \<Rightarrow> ('s, 'r) dbms" where
  "setOpen c b w = (if c = mainConnection then w\<lparr>bs_open := b\<rparr> else w)"

definition dbmsOps :: "('s, 'r) dbms_ops \<Rightarrow> ('s, 'r) dbms manager_ops" where
  "dbmsOps so = \<lparr>
     op_open = (\<lambda>c. planned untouched (\<lambda>w. ((), setOpen c True w))),
     op_close = (\<lambda>c. setOpen c False),
     op_grantAll = (\<lambda>c. planned untouched (\<lambda>w. ((), w))),
     op_createDatabase = (\<lambda>c. planned untouched (\<lambda>w. ((), w))),
     op_createLaunchMethods = (\<lambda>ls. planned untouched (\<lambda>w. ((), on_db (\<lambda>d. d\<lparr>md_other := map_prod id (so_create so ls) (md_other d)\<rparr>) w))),
     op_requiredAction = planned untouched (\<lambda>w. (fst (getRequiredAction (so_names so \<circ> fst) (so_builders so) (bs_db w)), w)),
     op_loadSchema = planned (\<lambda>n. on_db (loadSchemaUntil n (so_schema so))) (\<lambda>w. ((), on_db (loadSchema (so_schema so)) w)),
     op_migrate = (\<lambda>w. case migrate (so_builders so) (bs_db w) of
         (None, d) \<Rightarrow> (Inr (), w\<lparr>bs_db := d\<rparr>) | (Some _, d) \<Rightarrow> (Inl otherException, w\<lparr>bs_db := d\<rparr>)),
     op_isCurrent = planned untouched (\<lambda>w. (isCurrentDb (so_builders so) (bs_db w), w)),
     op_confirm = (\<lambda>title w. (bs_answers w \<noteq> [] \<and> hd (bs_answers w), w\<lparr>bs_answers := tl (bs_answers w)\<rparr>)),
     op_refresh = (\<lambda>c w. case bs_plan w of
         Some (n, e) # plan \<Rightarrow> (Inl (DbException e),
           refreshAllUntil n (Some (so_today so)) (so_lastYear so) (so_source so (md_other (bs_db w))) c, w\<lparr>bs_plan := plan\<rparr>)
       | plan \<Rightarrow> (Inr (), refreshAll (Some (so_today so)) (so_lastYear so) (so_source so (md_other (bs_db w))) c,
           w\<lparr>bs_plan := tl plan\<rparr>))\<rparr>"

text \<open>The schema is usable: current, or no action is required.\<close>

definition schema_usable :: "('s, 'r) dbms_ops \<Rightarrow> ('s, 'r) dbms \<Rightarrow> bool" where
  "schema_usable so w \<longleftrightarrow> isCurrentDb (so_builders so) (bs_db w)
     \<or> fst (getRequiredAction (so_names so \<circ> fst) (so_builders so) (bs_db w)) = actionNone"

lemma planned_cases:
  assumes "planned part whole w = (r, w')"
  obtains (refused) n e plan where "r = Inl (DbException e)" "w' = part n (w\<lparr>bs_plan := plan\<rparr>)"
    | (performed) x plan where "r = Inr x" "whole (w\<lparr>bs_plan := plan\<rparr>) = (x, w')"
  using assms by (auto simp: planned_def split: list.splits option.splits prod.splits)

text \<open>The cache shows the rows, whatever tables the answers of the database describe.\<close>

definition displayed :: "('s, 'r) dbms_ops \<Rightarrow> cache \<Rightarrow> ('s, 'r) dbms \<Rightarrow> bool" where
  "displayed so c w \<longleftrightarrow> (\<forall>d. source_ok (so_source so (md_other (bs_db w))) d \<longrightarrow> cacheMirrors c d)"

lemma usable_frame:
  "schema_usable so (w\<lparr>bs_plan := plan\<rparr>) = schema_usable so w"
  "schema_usable so (on_db (\<lambda>d. d\<lparr>md_other := map_prod id f (md_other d)\<rparr>) w) = schema_usable so w"
  by (simp_all add: schema_usable_def on_db_def isCurrentDb_def nextMigration_def appliedMigrations_def
      getRequiredAction_def showTables_def currentVersion_def pendingMigrations_def Let_def)

interpretation mc: manager_contract "dbmsOps so" "\<lambda>w. \<not> bs_open w" "schema_usable so" "displayed so" cache_sane for so
proof (unfold_locales, goal_cases)
  case (1 w)
  then show ?case by (simp add: dbmsOps_def setOpen_def)
next
  case (2 w pw)
  then show ?case by (auto simp: dbmsOps_def planned_def setOpen_def split: list.split option.split)
next
  case (3 w pw)
  then show ?case by (auto simp: dbmsOps_def planned_def split: list.split option.split)
next
  case (4 w pw)
  then show ?case by (simp add: dbmsOps_def setOpen_def)
next
  case (5 w w')
  then show ?case by (auto simp: dbmsOps_def usable_frame elim!: planned_cases) (simp add: schema_usable_def)
next
  case (6 w w')
  then show ?case by (auto simp: dbmsOps_def usable_frame elim!: planned_cases) (simp add: schema_usable_def)
next
  case (7 w ls r w')
  then show ?case by (auto simp: dbmsOps_def usable_frame elim!: planned_cases)
next
  case (8 c)
  then show ?case by (rule cache_sane_clear)
next
  case (9 c w r c' w')
  then show ?case
    by (auto simp: dbmsOps_def refreshAll_def split: list.splits option.splits
        intro: cache_sane_refreshUntil cache_sane_clear)
next
  case (10 w c x c' w')
  have "cacheMirrors (refreshAll (Some t) lastYear src (clear c)) d" if "source_ok src d" for t lastYear src d
    by (rule refreshAll_makes_mirror [OF that cache_sane_clear [OF 10(2)]]) 
      (simp_all add: clear_def Let_def clearHashesFlight_def kind_hash_defs clearMultiTypeHashes_def)
  then show ?case
    using 10 by (auto simp: dbmsOps_def usable_frame displayed_def split: list.splits option.splits)
qed

text \<open>C6: over the migrator and the cache, whatever the server refuses and the user answers: if connecting answers
  true, the schema is current (or needs no action) and the cache shows the stored tables; otherwise the connection
  to the database is closed.\<close>

theorem connect_usable_or_closed:
  assumes "cache_sane (dm_cache m)" "dm_connect (dbmsOps so) m = Some (r, m')"
  shows "if r = Inr True then schema_usable so (dm_world m') \<and> displayed so (dm_cache m') (dm_world m')
    else \<not> bs_open (dm_world m')"
  using dm_specD [OF mc.connect_promises assms] by (auto split: sum.splits if_splits)

section \<open>Connecting returns\<close>

text \<open>Only the dialog for the root password can be repeated without end.\<close>

definition returns :: "('w, 'a) dm_action \<Rightarrow> bool" where
  "returns a \<longleftrightarrow> (\<forall>m. a m \<noteq> None)"

lemma returns_simps [simp]:
  "returns (dm_return x)" "returns (dm_throw e)" "returns (dm_run f)" "returns (dm_setState s)" "returns (dm_showWarning title)"
  "returns clearCache" "returns (refreshCache ops)" "returns (closeInterface ops)"
  by (auto simp: returns_def dm_return_def dm_throw_def dm_run_def dm_setState_def dm_showWarning_def clearCache_def
      refreshCache_def closeInterface_def split: prod.split)

lemma returns_bind: "returns a \<Longrightarrow> (\<And>x. returns (f x)) \<Longrightarrow> returns (dm_bind a f)"
  by (auto simp: returns_def dm_bind_def split: option.split sum.split)

lemma returns_then [simp]: "returns a \<Longrightarrow> returns b \<Longrightarrow> returns (dm_then a b)"
  unfolding dm_then_def by (rule returns_bind)

lemma returns_catch: "returns a \<Longrightarrow> (\<And>e b. h e = Some b \<Longrightarrow> returns b) \<Longrightarrow> returns (dm_catch a h)"
  by (auto simp: returns_def dm_catch_def split: option.split sum.split)

lemma returns_steps [simp]:
  "returns (dm_ensureCurrent ops message)" "returns (confirmOrCancel ops title)" "returns (createSampleLaunchMethods ops)"
  "returns (doOpenInterface ops c)" "returns connected" "returns (notConnected title)"
  by (auto simp: dm_ensureCurrent_def confirmOrCancel_def createSampleLaunchMethods_def doOpenInterface_def connected_def
      notConnected_def intro: returns_bind)

lemma returns_connectImpl: "returns (connectImpl ops)"
proof -
  have "returns (openInterface ops)"
    unfolding openInterface_def createDatabase_def by (rule returns_catch) (auto split: if_splits)
  moreover have "returns (checkVersion ops)"
    unfolding checkVersion_def by (rule returns_bind) (auto split: mig_action.split)
  ultimately show ?thesis unfolding connectImpl_def by (intro returns_catch) auto
qed

lemma grantLoop_returns: "None \<in> set pws \<Longrightarrow> returns (grantLoop ops pws)"
proof (induction pws)
  case (Cons p pws)
  show ?case
  proof (cases p)
    case None
    then show ?thesis by (auto simp: returns_def dm_throw_def)
  next
    case (Some pw)
    then have "returns (grantLoop ops pws)" using Cons by simp
    then have "returns (dm_catch (dm_then (doOpenInterface ops (rootConnection pw))
       (dm_then (dm_run (op_grantAll ops (rootConnection pw)))
         (dm_run (\<lambda>w. (Inr (), op_close ops (rootConnection pw) w)))))
       (\<lambda>e. case e of DbException (AccessDeniedException _) \<Rightarrow> Some (grantLoop ops pws) | _ \<Rightarrow> None))"
      by (intro returns_catch) (auto split: manager_exception.splits db_exception.splits)
    then show ?thesis by (auto simp: returns_def Some)
  qed
qed simp

lemma connectImpl_passwords:
  "dm_spec (\<lambda>m. dm_passwords m = ps) (connectImpl ops) (\<lambda>_ _. True) (\<lambda>_ m. dm_passwords m = ps)"
proof -
  let ?q = "\<lambda>a :: ('a, unit) dm_action. dm_spec (\<lambda>m. dm_passwords m = ps) a (\<lambda>_ m. dm_passwords m = ps) (\<lambda>_ m. dm_passwords m = ps)"
  have run: "dm_spec (\<lambda>m. dm_passwords m = ps) (dm_run f) (\<lambda>_ m. dm_passwords m = ps) (\<lambda>_ m. dm_passwords m = ps)" for f
    by (rule dm_spec_run) (simp split: sum.split)
  have seq: "?q a \<Longrightarrow> ?q b \<Longrightarrow> ?q (dm_then a b)" for a b by (rule dm_spec_then)
  have current: "?q (dm_ensureCurrent ops message)" for message
    unfolding dm_ensureCurrent_def by (rule dm_spec_bind [OF run]) (simp add: dm_spec_def dm_return_def dm_throw_def)
  have confirm: "?q (confirmOrCancel ops title)" for title
    unfolding confirmOrCancel_def by (rule dm_spec_bind [OF run]) (simp add: dm_spec_def dm_return_def dm_throw_def)
  have opens: "?q (openInterface ops)"
    unfolding openInterface_def createDatabase_def createSampleLaunchMethods_def doOpenInterface_def
  proof (rule dm_spec_catch [OF run])
    fix e b
    assume "(if e = DbException DatabaseDoesNotExistException then Some (dm_then (confirmOrCancel ops ''Create database?'')
      (dm_then (dm_then (dm_run (op_open ops createConnection)) (dm_run (op_createDatabase ops createConnection)))
      (dm_then (dm_run (op_open ops mainConnection)) (dm_then (dm_run (op_loadSchema ops))
      (dm_then (dm_ensureCurrent ops ''After loading, the database is not up to date.'')
        (dm_run (op_createLaunchMethods ops sampleLaunchMethods))))))) else None) = Some b"
    then show "?q b" by (auto split: if_splits intro!: seq confirm run current)
  qed
  have version: "?q (checkVersion ops)"
    unfolding checkVersion_def createSampleLaunchMethods_def
  proof (rule dm_spec_bind [OF run])
    fix action
    have "?q (dm_then (confirmOrCancel ops ''Database empty'') (dm_then (dm_run (op_loadSchema ops))
      (dm_then (dm_ensureCurrent ops ''Database not current after creating'') (dm_run (op_createLaunchMethods ops sampleLaunchMethods)))))"
      "?q (dm_then (confirmOrCancel ops ''Database not current'') (dm_then (dm_run (op_migrate ops))
      (dm_ensureCurrent ops ''The database is not up to date after updating.'')))"
      by (intro seq confirm run current)+
    then show "?q (case action of actionNone \<Rightarrow> dm_return () | actionMigrate \<Rightarrow>
        dm_then (confirmOrCancel ops ''Database not current'') (dm_then (dm_run (op_migrate ops))
          (dm_ensureCurrent ops ''The database is not up to date after updating.''))
      | actionLoad \<Rightarrow> dm_then (confirmOrCancel ops ''Database empty'') (dm_then (dm_run (op_loadSchema ops))
      (dm_then (dm_ensureCurrent ops ''Database not current after creating'') (dm_run (op_createLaunchMethods ops sampleLaunchMethods)))))"
      by (cases action) (simp_all add: dm_spec_def dm_return_def)
  qed
  have clear: "?q clearCache" "?q (refreshCache ops)" "?q (closeInterface ops)" "?q (dm_throw e)" for e
    by (auto simp: dm_spec_def clearCache_def refreshCache_def closeInterface_def dm_throw_def split: sum.split prod.split)
  have "?q (connectImpl ops)"
    unfolding connectImpl_def
    by (rule dm_spec_catch [where F = "\<lambda>_ m. dm_passwords m = ps"])
      (auto intro!: seq opens version clear)
  then show ?thesis by (rule dm_spec_weaken) auto
qed

text \<open>Connecting returns, whatever the server and the workers answer, if the user gives up entering the root
  password at some time.\<close>

theorem connect_returns:
  assumes "None \<in> set (dm_passwords m)"
  shows "dm_connect ops m \<noteq> None"
proof -
  let ?m = "m\<lparr>dm_state := stateConnecting, dm_signals := dm_signals m @ [stateConnecting]\<rparr>"
  have tried: "returns (dm_then (connectImpl ops) connected)" by (simp add: returns_connectImpl)
  obtain r m1 where 1: "dm_then (connectImpl ops) connected ?m = Some (r, m1)"
    using tried by (fastforce simp: returns_def)
  let ?inner = "dm_catch (dm_then (connectImpl ops) connected) (\<lambda>e. case e of
      DbException (AccessDeniedException _) \<Rightarrow> Some (dm_then (grantPermissions ops) (dm_then (connectImpl ops) connected))
    | _ \<Rightarrow> None)"
  have "?inner ?m \<noteq> None"
  proof (cases r)
    case (Inl e)
    have "dm_spec (\<lambda>m'. dm_passwords m' = dm_passwords m) (dm_then (connectImpl ops) connected) (\<lambda>_ _. True)
        (\<lambda>_ m'. dm_passwords m' = dm_passwords m)"
      by (rule dm_spec_then [OF connectImpl_passwords])
        (simp add: dm_spec_def connected_def dm_then_def dm_bind_def dm_setState_def dm_return_def)
    from dm_specD [OF this _ 1] have "None \<in> set (dm_passwords m1)" using Inl assms by simp
    then have "grantPermissions ops m1 \<noteq> None"
      using grantLoop_returns [of "dm_passwords m1" ops] by (simp add: returns_def grantPermissions_def)
    then have "dm_then (grantPermissions ops) (dm_then (connectImpl ops) connected) m1 \<noteq> None"
      using tried unfolding dm_then_def [of "grantPermissions ops"]
      by (auto simp: dm_bind_def returns_def split: sum.split)
    then show ?thesis using 1 Inl by (auto simp: dm_catch_def split: manager_exception.split db_exception.split)
  next
    case (Inr x)
    then show ?thesis using 1 by (simp add: dm_catch_def)
  qed
  then obtain r2 m2 where 2: "?inner ?m = Some (r2, m2)" by auto
  have handlers: "notConnected title m2 \<noteq> None" for title
    using returns_steps(6) [of title] unfolding returns_def by blast
  have "dm_connect ops m = dm_catch ?inner (\<lambda>e. case e of
      ConnectCanceledException \<Rightarrow> Some (notConnected ''Connection canceled'')
    | DbException OperationCanceledException \<Rightarrow> Some (notConnected ''Connection canceled'')
    | ConnectFailedException message \<Rightarrow> Some (notConnected ''Connection failed'')
    | DbException _ \<Rightarrow> Some (notConnected ''Error while connecting'')
    | otherException \<Rightarrow> None) ?m"
    by (simp add: dm_connect_def dm_then_def [of "dm_setState stateConnecting"] dm_bind_def dm_setState_def)
  then show ?thesis
    using 2 handlers by (auto simp: dm_catch_def [of ?inner] split: sum.split manager_exception.split db_exception.split)
qed

text \<open>A server with an empty database, for the examples: the schema is the list of the tables.\<close>

definition soE :: "(qstring list, db_source) dbms_ops" where
  "soE = \<lparr>so_names = id, so_builders = [(20100214140000, \<lparr>mg_name = ''initial'', mg_up = (\<lambda>d. (True, d)), mg_down = (\<lambda>d. (True, d))\<rparr>)],
     so_schema = \<lparr>sc_versions = [20100214140000], sc_steps = [\<lambda>(ts, rows). (''flights'' # ts, rows)]\<rparr>,
     so_create = (\<lambda>ls rows. rows), so_source = snd, so_today = 100, so_lastYear = None\<rparr>"

definition managerE :: "(qstring list, db_source) dbms manager" where
  "managerE = \<lparr>dm_state = stateDisconnected, dm_signals = [], dm_warnings = [], dm_cache = newCache, dm_passwords = [None],
     dm_world = \<lparr>bs_db = \<lparr>md_other = ([], src1), md_versions = None\<rparr>, bs_open = False, bs_plan = [], bs_answers = [True]\<rparr>\<rparr>"

lemma connectE: "\<exists>m'. dm_connect (dbmsOps soE) managerE = Some (Inr True, m') \<and> md_other (bs_db (dm_world m')) = ([''flights''], src1)"
  by (simp add: dm_connect_def dm_then_def dm_bind_def dm_setState_def dm_catch_def connectImpl_def openInterface_def doOpenInterface_def
      dm_run_def dbmsOps_def planned_def soE_def managerE_def setOpen_def checkVersion_def getRequiredAction_def showTables_def
      confirmOrCancel_def dm_return_def on_db_def loadSchema_eq dm_ensureCurrent_def isCurrentDb_def nextMigration_def
      availableVersions_def appliedMigrations_def createSampleLaunchMethods_def clearCache_def refreshCache_def connected_def Let_def)

theorem connect_usable_or_closed_witness:
  "\<exists>m'. dm_connect (dbmsOps soE) managerE = Some (Inr True, m') \<and> cacheMirrors (dm_cache m') tables1"
proof -
  obtain m' where m': "dm_connect (dbmsOps soE) managerE = Some (Inr True, m')" "md_other (bs_db (dm_world m')) = ([''flights''], src1)"
    using connectE by blast
  have "cache_sane (dm_cache managerE)" by (simp add: managerE_def cache_sane_new)
  from connect_usable_or_closed [OF this m'(1)] have "displayed soE (dm_cache m') (dm_world m')" by simp
  then have "cacheMirrors (dm_cache m') tables1" using m'(2) source_ok_1 by (simp add: displayed_def soE_def)
  with m'(1) show ?thesis by blast
qed

theorem connect_returns_witness:
  "dm_connect (dbmsOps soE) (managerE\<lparr>dm_passwords := [Some ''x'', None]\<rparr>) \<noteq> None"
  by (rule connect_returns) simp

end
