(* ===== verification/Sk_Merge.thy ===== *)
theory Sk_Merge
  imports Sk_Database
begin

text \<open>
  Merging people, \<^verbatim>\<open>DbManager::mergePeople\<close> in \<^verbatim>\<open>src/src/db/DbManager.cpp\<close>: the references to the wrong people
  are replaced in the tables, the flights the cache knows are announced as changed, and the people who are not
  used any more are deleted.
\<close>

section \<open>The operation\<close>

definition mergeDeleteWarningTitle :: "nat \<Rightarrow> nat \<Rightarrow> qstring" where
  "mergeDeleteWarningTitle notDeletedCount deletedCount =
     (if notDeletedCount > 1 then ''People still in use'' else ''Person still in use'')"

definition mergeDeleteWarningText :: "nat \<Rightarrow> nat \<Rightarrow> qstring" where
  "mergeDeleteWarningText notDeletedCount deletedCount =
     (if notDeletedCount > 1 then qArg ''After merging, %1 people are still in use.'' (decimalNat notDeletedCount)
      else ''After merging, one person is still in use.'')
     @ (if deletedCount = 0 then ''No person will be deleted.''
        else if deletedCount = 1 then ''One person will be deleted.''
        else qArg ''Only %1 people will be deleted.'' (decimalNat deletedCount))"

definition mergeQueries :: "dbId \<Rightarrow> dbId list \<Rightarrow> query list" where
  "mergeQueries correctId wrongIds =
     [q_updateColumnValue ''flights'' ''pilot_id'' (VId correctId) (map VId wrongIds),
      q_updateColumnValue ''flights'' ''copilot_id'' (VId correctId) (map VId wrongIds),
      q_updateColumnValue ''flights'' ''towpilot_id'' (VId correctId) (map VId wrongIds),
      q_updateColumnValue ''users'' ''person_id'' (VId correctId) (map VId wrongIds)]"

text \<open>The body of the loop over the flights: the flight as it is announced, and whether it is.\<close>

definition mergeFlight :: "dbId \<Rightarrow> dbId list \<Rightarrow> flight \<Rightarrow> flight \<times> bool" where
  "mergeFlight correctId wrongIds flight =
     (let flightChanged = False;
          (flight, flightChanged) = (if getPilotId flight \<in> set wrongIds then (flight\<lparr>getPilotId := correctId\<rparr>, True)
            else (flight, flightChanged));
          (flight, flightChanged) = (if getCopilotId flight \<in> set wrongIds then (flight\<lparr>getCopilotId := correctId\<rparr>, True)
            else (flight, flightChanged));
          (flight, flightChanged) = (if getTowpilotId flight \<in> set wrongIds then (flight\<lparr>getTowpilotId := correctId\<rparr>, True)
            else (flight, flightChanged))
      in (flight, flightChanged))"

definition mergeEvents :: "dbId \<Rightarrow> dbId list \<Rightarrow> flight list \<Rightarrow> db_event list" where
  "mergeEvents correctId wrongIds flights =
     concat (map (\<lambda>flight. case mergeFlight correctId wrongIds flight of
       (flight, flightChanged) \<Rightarrow> if flightChanged then [ev_changed (ValueFlight flight)] else []) flights)"

text \<open>The wrong people that are not used.\<close>

fun unusedPeople :: "'s server \<Rightarrow> (query \<Rightarrow> 's \<Rightarrow> int) \<Rightarrow> dbId list \<Rightarrow> ('s, dbId list) db_action" where
  "unusedPeople srv counted [] = returnAction []"
| "unusedPeople srv counted (i # is) =
     bindAction (objectUsed srv counted tablePeople i) (\<lambda>used.
       bindAction (unusedPeople srv counted is) (\<lambda>ids. returnAction (if \<not> used then i # ids else ids)))"

text \<open>How the operation ends: the exception, if one is thrown, the events that were emitted, and the warnings.\<close>

record merge_result =
  mr_exception :: "db_exception option"
  mr_events :: "db_event list"
  mr_warnings :: "(qstring \<times> qstring) list"

text \<open>After an exception of the kind that is caught, the operation just returns.\<close>

definition uncaught :: "db_exception \<Rightarrow> db_exception option" where
  "uncaught e = (if e = OperationCanceledException then None else Some e)"

definition mergePeople ::
    "'s server \<Rightarrow> (query \<Rightarrow> 's \<Rightarrow> int) \<Rightarrow> cache \<Rightarrow> dbId \<Rightarrow> dbId list \<Rightarrow> 's db_interface \<Rightarrow> answer list
      \<Rightarrow> (merge_result \<times> 's db_interface \<times> answer list) option" where
  "mergePeople srv counted c correctId wrongIds i as =
     (case inTransaction srv (mergeQueries correctId wrongIds) i as of
        None \<Rightarrow> None
      | Some (Inl e, i1, as1) \<Rightarrow> Some (\<lparr>mr_exception = uncaught e, mr_events = [], mr_warnings = []\<rparr>, i1, as1)
      | Some (Inr _, i1, as1) \<Rightarrow>
          (let events = mergeEvents correctId wrongIds (getAllKnownFlights c) in
           case unusedPeople srv counted wrongIds i1 as1 of
             None \<Rightarrow> None
           | Some (Inl e, i2, as2) \<Rightarrow> Some (\<lparr>mr_exception = uncaught e, mr_events = events, mr_warnings = []\<rparr>, i2, as2)
           | Some (Inr idsToDelete, i2, as2) \<Rightarrow>
               (let warnings = (if length idsToDelete \<noteq> length wrongIds
                    then (let deletedCount = length idsToDelete; notDeletedCount = length wrongIds - deletedCount in
                      [(mergeDeleteWarningTitle notDeletedCount deletedCount, mergeDeleteWarningText notDeletedCount deletedCount)])
                    else []) in
                case db_deleteObjects srv tablePeople idsToDelete i2 as2 of
                  None \<Rightarrow> None
                | Some (Inl e, i3, as3) \<Rightarrow> Some (\<lparr>mr_exception = uncaught e, mr_events = events, mr_warnings = warnings\<rparr>, i3, as3)
                | Some (Inr deleted, i3, as3) \<Rightarrow>
                    Some (\<lparr>mr_exception = None, mr_events = events @ deleted, mr_warnings = warnings\<rparr>, i3, as3))))"

section \<open>The announced flights\<close>

text \<open>What the queries make of a flight.\<close>

definition merged :: "dbId \<Rightarrow> dbId list \<Rightarrow> flight \<Rightarrow> flight" where
  "merged correctId wrongIds f =
     (let r = (\<lambda>i. if i \<in> set wrongIds then correctId else i) in
      f\<lparr>getPilotId := r (getPilotId f), getCopilotId := r (getCopilotId f), getTowpilotId := r (getTowpilotId f)\<rparr>)"

lemma mergeFlight_eq:
  "mergeFlight correctId wrongIds f = (merged correctId wrongIds f,
     getPilotId f \<in> set wrongIds \<or> getCopilotId f \<in> set wrongIds \<or> getTowpilotId f \<in> set wrongIds)"
  by (simp add: mergeFlight_def merged_def Let_def)

lemma merged_same:
  "\<not> snd (mergeFlight correctId wrongIds f) \<Longrightarrow> merged correctId wrongIds f = f"
  by (cases f) (simp add: mergeFlight_eq merged_def)

lemma merged_keeps [simp]:
  "getId (merged correctId wrongIds f) = getId f" "isPrepared (merged correctId wrongIds f) = isPrepared f"
  "effdatum utc (merged correctId wrongIds f) = effdatum utc f"
  "isToday c (merged correctId wrongIds f) = isToday c f" "isOther c (merged correctId wrongIds f) = isOther c f"
  "interesting c (merged correctId wrongIds f) = interesting c f"
proof -
  show "getId (merged correctId wrongIds f) = getId f" by (simp add: merged_def)
  show p: "isPrepared (merged correctId wrongIds f) = isPrepared f" by (simp add: merged_def status_defs)
  show e: "effdatum utc (merged correctId wrongIds f) = effdatum utc f"
    by (simp add: merged_def effdatum_def effectiveTime_def sk_defs status_defs)
  show "isToday c (merged correctId wrongIds f) = isToday c f" "isOther c (merged correctId wrongIds f) = isOther c f"
    "interesting c (merged correctId wrongIds f) = interesting c f"
    by (simp_all add: isToday_def isOther_def interesting_def p e)
qed

text \<open>The tables after the queries, and after the events of some flights only.\<close>

definition mergedTables :: "dbId \<Rightarrow> dbId list \<Rightarrow> tables \<Rightarrow> tables" where
  "mergedTables correctId wrongIds d = d\<lparr>tb_flights := map_option (merged correctId wrongIds) \<circ> tb_flights d\<rparr>"

definition partlyMerged :: "dbId \<Rightarrow> dbId list \<Rightarrow> dbId set \<Rightarrow> tables \<Rightarrow> tables" where
  "partlyMerged correctId wrongIds ids d = d\<lparr>tb_flights := (\<lambda>i. if i \<in> ids
     then map_option (merged correctId wrongIds) (tb_flights d i) else tb_flights d i)\<rparr>"

lemma partlyMerged_none: "partlyMerged correctId wrongIds {} d = d"
  by (simp add: partlyMerged_def)

lemma change_flight:
  "tb_flights d (getId f) \<noteq> None \<Longrightarrow> legal_event (ev_changed (ValueFlight f)) d"
  "apply_event (ev_changed (ValueFlight f)) d = d\<lparr>tb_flights := (tb_flights d)(getId f \<mapsto> f)\<rparr>"
  "handleEvents [ev_changed (ValueFlight f)] c = Some (flightUpdated f c)"
  by (simp_all add: legal_event_def made_event_def row_legal_def ev_changed_def apply_event_def row_event_def
      dbChanged_def handleDbChangedFlight_def)

lemma mergeEvents_apply:
  assumes "\<And>f. f \<in> set fs \<Longrightarrow> tb_flights d (getId f) = Some f" "distinct (map getId fs)"
  shows "legal_events (mergeEvents correctId wrongIds fs) d
    \<and> fold apply_event (mergeEvents correctId wrongIds fs) d = partlyMerged correctId wrongIds (getId ` set fs) d"
  using assms
proof (induction fs arbitrary: d)
  case Nil
  then show ?case by (simp add: mergeEvents_def partlyMerged_none)
next
  case (Cons f fs)
  let ?g = "merged correctId wrongIds f"
  let ?d = "d\<lparr>tb_flights := (tb_flights d)(getId f \<mapsto> ?g)\<rparr>"
  have row: "tb_flights d (getId f) = Some f" using Cons.prems(1) by simp
  have other: "getId h \<noteq> getId f" if "h \<in> set fs" for h
    using that Cons.prems(2) by (metis distinct.simps(2) list.set_map imageI list.simps(9))
  have "tb_flights ?d (getId h) = Some h" if "h \<in> set fs" for h
    using that Cons.prems(1) other [OF that] by simp
  from Cons.IH [OF this] Cons.prems(2)
  have ih: "legal_events (mergeEvents correctId wrongIds fs) ?d
    \<and> fold apply_event (mergeEvents correctId wrongIds fs) ?d = partlyMerged correctId wrongIds (getId ` set fs) ?d" by simp
  have partly: "partlyMerged correctId wrongIds (getId ` set fs) ?d = partlyMerged correctId wrongIds (getId ` set (f # fs)) d"
    using Cons.prems(2) row by (cases d) (auto simp: partlyMerged_def fun_eq_iff)
  have split: "mergeEvents correctId wrongIds (f # fs)
      = (if snd (mergeFlight correctId wrongIds f) then [ev_changed (ValueFlight ?g)] else []) @ mergeEvents correctId wrongIds fs"
    by (simp add: mergeEvents_def mergeFlight_eq)
  show ?case
  proof (cases "snd (mergeFlight correctId wrongIds f)")
    case True
    have "legal_event (ev_changed (ValueFlight ?g)) d" using row by (intro change_flight(1)) simp
    moreover have "apply_event (ev_changed (ValueFlight ?g)) d = ?d" by (simp add: change_flight(2))
    ultimately show ?thesis using ih partly True by (simp add: split)
  next
    case False
    have "?d = d" using row by (cases d) (simp add: merged_same [OF False] fun_upd_idem)
    with ih partly False show ?thesis by (simp add: split)
  qed
qed

lemma mergeEvents_dates:
  "handleEvents (mergeEvents correctId wrongIds fs) c = Some c' \<Longrightarrow> todayDate c' = todayDate c \<and> otherDate c' = otherDate c"
proof (induction fs arbitrary: c)
  case (Cons f fs)
  let ?g = "merged correctId wrongIds f"
  have "todayDate (flightUpdated ?g c) = todayDate c" "otherDate (flightUpdated ?g c) = otherDate c"
    using flightUpdated_lists [of ?g c] by auto
  with Cons show ?case
    by (auto simp: mergeEvents_def mergeFlight_eq dbChanged_def handleDbChangedFlight_def ev_changed_def split: if_splits)
qed (simp add: mergeEvents_def)

text \<open>A cache that handles the announced changes shows the tables after the queries: the flights that are
  not announced are none the cache knows.\<close>

lemma mergeEvents_mirror:
  assumes "cacheMirrors c d"
  shows "\<exists>c'. handleEvents (mergeEvents correctId wrongIds (getAllKnownFlights c)) c = Some c'
    \<and> cacheMirrors c' (mergedTables correctId wrongIds d)"
proof -
  let ?fs = "getAllKnownFlights c" and ?db = "tb_flights d" and ?m = "merged correctId wrongIds"
  have fm: "flightsMirror c ?db" using assms by (simp add: cacheMirrors_def)
  then have table: "table_ok getId ?db" and known: "set ?fs = {f \<in> ran ?db. interesting c f}"
    by (auto simp: flightsMirror_def holds_def getAllKnownFlights_def interesting_def)
  have row: "?db (getId f) = Some f" if "f \<in> set ?fs" for f
    using that known table by (auto simp: table_ran)
  have lists: "distinct (map getId (flightsToday c))" "distinct (map getId (flightsOther c))" "distinct (map getId (preparedFlights c))"
    using fm by (auto simp: flightsMirror_def holds_def)
  have disjoint: "set (flightsToday c) \<inter> set (flightsOther c) = {}" "set (flightsToday c) \<inter> set (preparedFlights c) = {}"
    "set (flightsOther c) \<inter> set (preparedFlights c) = {}"
    using fm by (auto simp: flightsMirror_def holds_def isToday_def isOther_def)
  have apart: "getId ` A \<inter> getId ` B = {}" if "A \<subseteq> set ?fs" "B \<subseteq> set ?fs" "A \<inter> B = {}" for A B
    using that row by (auto; metis option.inject subsetD IntI emptyE)
  have "getId ` set (flightsToday c) \<inter> getId ` set (flightsOther c) = {}"
    "getId ` set (flightsToday c) \<inter> getId ` set (preparedFlights c) = {}"
    "getId ` set (flightsOther c) \<inter> getId ` set (preparedFlights c) = {}"
    by (rule apart; use disjoint in \<open>auto simp: getAllKnownFlights_def\<close>)+
  then have dist: "distinct (map getId ?fs)"
    using lists by (simp add: getAllKnownFlights_def Int_Un_distrib)
  note events = mergeEvents_apply [where wrongIds = wrongIds and correctId = correctId, OF row dist]
  obtain c' where c': "handleEvents (mergeEvents correctId wrongIds ?fs) c = Some c'"
    "cacheMirrors c' (partlyMerged correctId wrongIds (getId ` set ?fs) d)"
    using handleEvents_mirror [OF assms, of "mergeEvents correctId wrongIds ?fs"] events by auto
  have dates: "todayDate c' = todayDate c" "otherDate c' = otherDate c" using mergeEvents_dates [OF c'(1)] by simp_all
  note cong = flight_preds_cong [OF dates]
  let ?part = "\<lambda>i. if i \<in> getId ` set ?fs then map_option ?m (?db i) else ?db i"
  have fm': "flightsMirror c' ?part" using c'(2) by (simp add: cacheMirrors_def partlyMerged_def)
  have same: "x \<in> ran ?part \<and> P x \<longleftrightarrow> x \<in> ran (map_option ?m \<circ> ?db) \<and> P x"
    if P: "\<And>x. P x \<Longrightarrow> interesting c x" "\<And>x. P (?m x) = P x" for P x
  proof
    assume x: "x \<in> ran ?part \<and> P x"
    then obtain i where i: "?part i = Some x" by (auto simp: ran_def)
    have "i \<in> getId ` set ?fs"
    proof (rule ccontr)
      assume no: "i \<notin> getId ` set ?fs"
      then have "?db i = Some x" using i by simp
      then have "x \<in> set ?fs" "getId x = i" using known x P(1) table by (auto simp: ran_def table_ok_def)
      then show False using no by blast
    qed
    then have "(map_option ?m \<circ> ?db) i = Some x" using i by simp
    from ranI [of "map_option ?m \<circ> ?db", OF this] show "x \<in> ran (map_option ?m \<circ> ?db) \<and> P x" using x by blast
  next
    assume x: "x \<in> ran (map_option ?m \<circ> ?db) \<and> P x"
    then obtain i f where f: "?db i = Some f" "x = ?m f" by (auto simp: ran_def)
    then have "interesting c f" using x P by auto
    then have "f \<in> set ?fs" "getId f = i" using f known table by (auto simp: ran_def table_ok_def)
    then have "i \<in> getId ` set ?fs" by blast
    then have "?part i = Some x" using f by simp
    from ranI [of ?part, OF this] show "x \<in> ran ?part \<and> P x" using x by blast
  qed
  have hold: "holds getId P xs (map_option ?m \<circ> ?db) = holds getId P xs ?part"
    if "\<And>x. P x \<Longrightarrow> interesting c x" "\<And>x. P (?m x) = P x" for P xs
    using same [of P] that by (simp add: holds_def)
  have "flightsMirror c' (map_option ?m \<circ> ?db)"
  proof -
    have "table_ok getId (map_option ?m \<circ> ?db)" using table by (auto simp: table_ok_def)
    moreover have "holds getId isPrepared xs (map_option ?m \<circ> ?db) = holds getId isPrepared xs ?part"
      "holds getId (isToday c) xs (map_option ?m \<circ> ?db) = holds getId (isToday c) xs ?part"
      "holds getId (isOther c) xs (map_option ?m \<circ> ?db) = holds getId (isOther c) xs ?part" for xs
      by (rule hold; simp add: interesting_def)+
    moreover have "(\<forall>f \<in> ran (map_option ?m \<circ> ?db). interesting c f \<longrightarrow> flightsById c' (getId f) = Some f)
      \<longleftrightarrow> (\<forall>f \<in> ran ?part. interesting c f \<longrightarrow> flightsById c' (getId f) = Some f)"
    proof -
      have "x \<in> ran ?part \<and> interesting c x \<longleftrightarrow> x \<in> ran (map_option ?m \<circ> ?db) \<and> interesting c x" for x
        by (rule same) simp_all
      then show ?thesis by blast
    qed
    ultimately show ?thesis using fm' by (simp add: flightsMirror_def cong)
  qed
  then have "cacheMirrors c' (mergedTables correctId wrongIds d)"
    using c'(2) by (simp add: cacheMirrors_def partlyMerged_def mergedTables_def)
  with c'(1) show ?thesis by blast
qed

section \<open>Merging as a whole\<close>

text \<open>What is assumed of the statements: the updates replace the ids in all flights, the deletion deletes the rows,
  and the queries for the use of a person change nothing.\<close>

definition mergeSem :: "(query \<Rightarrow> tables \<Rightarrow> tables) \<Rightarrow> dbId \<Rightarrow> dbId list \<Rightarrow> tables \<Rightarrow> bool" where
  "mergeSem sem correctId wrongIds d \<longleftrightarrow>
     fold sem (mergeQueries correctId wrongIds) d = mergedTables correctId wrongIds d
     \<and> (\<forall>ids. set ids \<subseteq> set wrongIds \<longrightarrow> ids \<noteq> [] \<longrightarrow> distinct ids
          \<longrightarrow> sem (deleteListQuery tablePeople ids) (mergedTables correctId wrongIds d)
            = fold apply_event (map (ev_deleted tablePeople) ids) (mergedTables correctId wrongIds d))
     \<and> (\<forall>i \<in> set wrongIds. \<forall>q \<in> {referencedBy (referencesPersonCondition i),
            q_countCondition ''users'' (q_bind (mkQuery ''person_id=?'') (VId i))}.
          sem q (mergedTables correctId wrongIds d) = mergedTables correctId wrongIds d)"

lemma triple_bindAction:
  assumes "triple A P m (throwsOr P P)" "\<And>x. triple A P (f x) (throwsOr P P)"
  shows "triple A P (bindAction m f) (throwsOr P P)"
proof (rule tripleI)
  fix i as r i' rest
  assume a: "list_all A as" "P i" "bindAction m f i as = Some (r, i', rest)"
  obtain r1 i1 as1 where 1: "m i as = Some (r1, i1, as1)"
    using a(3) by (auto simp: bindAction_def split: option.splits)
  have "P i1 \<and> list_all A as1"
    using tripleD [OF assms(1) a(1,2) 1] by (auto simp: throwsOr_def split: sum.splits)
  then show "throwsOr P P r i' \<and> list_all A rest"
    using a(3) 1 by (cases r1) (auto simp: bindAction_def throwsOr_def dest: tripleD [OF assms(2)])
qed

lemma triple_returnAction: "triple A P (returnAction x) (throwsOr P P)"
  by (auto simp: triple_def returnAction_def throwsOr_def)

lemma triple_countQuery:
  assumes "server_ok srv committed pending sem" "sem q d = d"
  shows "triple (\<lambda>a. \<not> lost a) (holdsAt committed pending d None) (countQuery srv counted q)
    (throwsOr (holdsAt committed pending d None) (holdsAt committed pending d None))"
proof (rule tripleI)
  fix i as r i' rest
  assume a: "list_all (\<lambda>a. \<not> lost a) as" "holdsAt committed pending d None i" "countQuery srv counted q i as = Some (r, i', rest)"
  then obtain r' where "executeQueryImpl srv q i as = Some (r', i', rest)" by (auto simp: countQuery_def)
  from tripleD [OF query_stores [OF assms(1)] a(1,2) this] assms(2)
  show "throwsOr (holdsAt committed pending d None) (holdsAt committed pending d None) r i' \<and> list_all (\<lambda>a. \<not> lost a) rest"
    by (auto simp: throwsOr_def split: sum.splits)
qed

lemma unusedPeople_reads:
  assumes "server_ok srv committed pending sem"
    and "\<And>i q. i \<in> set ids \<Longrightarrow> q \<in> {referencedBy (referencesPersonCondition i),
            q_countCondition ''users'' (q_bind (mkQuery ''person_id=?'') (VId i))} \<Longrightarrow> sem q d = d"
  shows "triple (\<lambda>a. \<not> lost a) (holdsAt committed pending d None) (unusedPeople srv counted ids)
    (throwsOr (holdsAt committed pending d None) (holdsAt committed pending d None))"
  using assms(2)
proof (induction ids)
  case Nil
  then show ?case by (simp add: triple_returnAction)
next
  case (Cons i others)
  have "triple (\<lambda>a. \<not> lost a) (holdsAt committed pending d None) (objectUsed srv counted tablePeople i)
    (throwsOr (holdsAt committed pending d None) (holdsAt committed pending d None))"
    unfolding objectUsed_def personUsed_def db_table.case
    by (intro triple_bindAction triple_countQuery [OF assms(1)])
      (auto intro!: Cons.prems triple_returnAction triple_bindAction triple_countQuery [OF assms(1)])
  with Cons show ?case by (auto intro!: triple_bindAction triple_returnAction)
qed

lemma unusedPeople_some:
  "unusedPeople srv counted ids i as = Some (Inr us, i', rest) \<Longrightarrow> set us \<subseteq> set ids \<and> (distinct ids \<longrightarrow> distinct us)"
proof (induction ids arbitrary: i as us)
  case (Cons p ps)
  from Cons.prems obtain used i1 as1 vs where "unusedPeople srv counted ps i1 as1 = Some (Inr vs, i', rest)"
    "us = (if \<not> used then p # vs else vs)"
    by (auto simp: bindAction_def returnAction_def split: option.splits sum.splits)
  with Cons.IH [of i1 as1 vs] show ?case by auto
qed (simp add: returnAction_def)

lemma handleEvents_append:
  "handleEvents es c = Some c' \<Longrightarrow> handleEvents (es @ fs) c = handleEvents fs c'"
  by (induction es arbitrary: c) (auto split: option.splits)

lemma deleted_people:
  "set ids \<subseteq> dom (tb_people d) \<Longrightarrow> distinct ids \<Longrightarrow> legal_events (map (ev_deleted tablePeople) ids) d
    \<and> fold apply_event (map (ev_deleted tablePeople) ids) d = d\<lparr>tb_people := (tb_people d) |` (- set ids)\<rparr>"
proof (induction ids arbitrary: d)
  case (Cons i ids)
  let ?d = "d\<lparr>tb_people := (tb_people d)(i := None)\<rparr>"
  have "set ids \<subseteq> dom (tb_people ?d)" using Cons.prems by auto
  moreover have "distinct ids" using Cons.prems(2) by simp
  ultimately have ih: "legal_events (map (ev_deleted tablePeople) ids) ?d
    \<and> fold apply_event (map (ev_deleted tablePeople) ids) ?d = ?d\<lparr>tb_people := (tb_people ?d) |` (- set ids)\<rparr>"
    by (rule Cons.IH)
  have "legal_event (ev_deleted tablePeople i) d"
    using Cons.prems(1) by (auto simp: legal_event_def made_event_def row_legal_def ev_deleted_def)
  moreover have "apply_event (ev_deleted tablePeople i) d = ?d"
    by (simp add: apply_event_def row_event_def ev_deleted_def)
  moreover have "(tb_people d)(i := None) |` (- set ids) = tb_people d |` (- set (i # ids))"
    by (auto simp: restrict_map_def fun_eq_iff)
  then have "?d\<lparr>tb_people := (tb_people ?d) |` (- set ids)\<rparr> = d\<lparr>tb_people := (tb_people d) |` (- set (i # ids))\<rparr>"
    by (cases d) simp
  ultimately show ?case using ih by (simp only: list.map legal_events.simps fold_simps simp_thms)
qed (simp add: restrict_map_def)

text \<open>The last step: whether the people are deleted or not, the cache follows.\<close>

lemma deletion_mirrors:
  assumes "server_ok srv committed pending sem" "holdsAt committed pending d None i" "list_all (\<lambda>a. \<not> lost a) as"
    and "cacheMirrors c d" "set ids \<subseteq> dom (tb_people d)" "distinct ids"
    and "ids \<noteq> [] \<Longrightarrow> sem (deleteListQuery tablePeople ids) d = fold apply_event (map (ev_deleted tablePeople) ids) d"
    and "db_deleteObjects srv tablePeople ids i as = Some (r, i', rest)"
  shows "\<exists>c'. handleEvents (case r of Inl _ \<Rightarrow> [] | Inr es \<Rightarrow> es) c = Some c' \<and> cacheMirrors c' (committed (if_server i'))
    \<and> (\<exists>gone. set gone \<subseteq> set ids \<and> committed (if_server i') = d\<lparr>tb_people := tb_people d |` (- set gone)\<rparr>)"
proof (cases "ids = []")
  case True
  then have "r = Inr []" "i' = i" using assms(8) by (simp_all add: db_deleteObjects_def)
  then show ?thesis using assms(2,4) by (auto simp: holdsAt_def restrict_map_def intro: exI [of _ "[]"])
next
  case False
  then obtain r' where del: "inTransaction srv [deleteListQuery tablePeople ids] i as = Some (r', i', rest)"
    "r = map_sum id (\<lambda>_. map (ev_deleted tablePeople) ids) r'"
    using assms(8) by (auto simp: db_deleteObjects_def emitting_def)
  note gone = deleted_people [OF assms(5,6)]
  have stored: "throwsOr (\<lambda>i. \<exists>p. holdsAt committed pending d p i)
      (holdsAt committed pending (d\<lparr>tb_people := tb_people d |` (- set ids)\<rparr>) None) r' i'"
    using tripleD [OF inTransaction_triple [OF assms(1)] assms(3,2) del(1)] assms(7) [OF False] gone by simp
  show ?thesis
  proof (cases r')
    case (Inl e)
    then show ?thesis using stored assms(4) del(2)
      by (auto simp: throwsOr_def holdsAt_def restrict_map_def intro: exI [of _ "[]"])
  next
    case (Inr x)
    obtain c' where "handleEvents (map (ev_deleted tablePeople) ids) c = Some c'"
      "cacheMirrors c' (d\<lparr>tb_people := tb_people d |` (- set ids)\<rparr>)"
      using handleEvents_mirror [OF assms(4), of "map (ev_deleted tablePeople) ids"] gone by auto
    then show ?thesis using stored Inr del(2) by (auto simp: throwsOr_def holdsAt_def)
  qed
qed

text \<open>The ways a merge ends: the updates fail, the queries for the use fail, or the deletion is tried.\<close>

lemma mergePeople_cases:
  assumes "mergePeople srv counted c correctId wrongIds i as = Some (r, i', rest)"
  obtains (refused) e where "inTransaction srv (mergeQueries correctId wrongIds) i as = Some (Inl e, i', rest)" "mr_events r = []"
    | (asked) i1 as1 e where "inTransaction srv (mergeQueries correctId wrongIds) i as = Some (Inr (), i1, as1)"
      "unusedPeople srv counted wrongIds i1 as1 = Some (Inl e, i', rest)"
      "mr_events r = mergeEvents correctId wrongIds (getAllKnownFlights c)"
    | (tried) i1 as1 ids i2 as2 r3 where "inTransaction srv (mergeQueries correctId wrongIds) i as = Some (Inr (), i1, as1)"
      "unusedPeople srv counted wrongIds i1 as1 = Some (Inr ids, i2, as2)"
      "db_deleteObjects srv tablePeople ids i2 as2 = Some (r3, i', rest)"
      "mr_events r = mergeEvents correctId wrongIds (getAllKnownFlights c) @ (case r3 of Inl _ \<Rightarrow> [] | Inr es \<Rightarrow> es)"
proof -
  obtain r1 i1 as1 where t: "inTransaction srv (mergeQueries correctId wrongIds) i as = Some (r1, i1, as1)"
    using assms by (auto simp: mergePeople_def split: option.splits)
  show ?thesis
  proof (cases r1)
    case (Inl e)
    then show ?thesis using refused assms t by (auto simp: mergePeople_def)
  next
    case r1: (Inr x)
    obtain r2 i2 as2 where u: "unusedPeople srv counted wrongIds i1 as1 = Some (r2, i2, as2)"
      using assms t r1 by (cases "unusedPeople srv counted wrongIds i1 as1") (auto simp: mergePeople_def Let_def)
    show ?thesis
    proof (cases r2)
      case (Inl e)
      then show ?thesis using asked assms t r1 u by (auto simp: mergePeople_def)
    next
      case (Inr ids)
      then show ?thesis using tried assms t r1 u
        by (cases "db_deleteObjects srv tablePeople ids i2 as2") (auto simp: mergePeople_def Let_def split: sum.splits)
    qed
  qed
qed


section \<open>Supervisors\<close>

abbreviation allOk :: "answer list \<Rightarrow> bool" where
  "allOk as \<equiv> list_all (\<lambda>a. a = answerOk) as"

lemma ok_open:
  assumes "allOk as" "ensureOpen i as = Some (r, i', rest)"
  shows "r = Inr () \<and> allOk rest"
proof -
  have "openImpl j as = Some (r, j', rest) \<Longrightarrow> r = Inr () \<and> allOk rest" for j j'
    using assms(1) by (cases as) auto
  then show ?thesis using assms by (auto simp: ensureOpen_def split: if_splits)
qed

lemma ok_query:
  assumes "allOk as" "executeQueryImpl srv q i as = Some (r, i', rest)"
  shows "r = Inr () \<and> allOk rest"
proof -
  obtain r1 i1 as1 where 1: "ensureOpen i as = Some (r1, i1, as1)"
    using assms(2) by (auto simp: executeQueryImpl.simps [of srv q i] split: option.splits)
  note ok = ok_open [OF assms(1) 1]
  then obtain i2 as2 where "doExecuteQuery srv q i1 as1 = Some (Inr (), i2, as2)" "allOk as2"
    using assms(2) 1 by (auto simp: executeQueryImpl.simps [of srv q i] doExecuteQuery_def Let_def split: list.splits)
  then show ?thesis using assms(2) 1 ok by (simp add: executeQueryImpl.simps [of srv q i])
qed

lemma ok_transaction:
  assumes "allOk as" "transactionStatementImpl srv st i as = Some (r, i', rest)"
  shows "r = Inr () \<and> allOk rest"
proof -
  obtain r1 i1 as1 where 1: "ensureOpen i as = Some (r1, i1, as1)"
    using assms(2) by (auto simp: transactionStatementImpl.simps [of srv st i] split: option.splits)
  note ok = ok_open [OF assms(1) 1]
  then show ?thesis using assms(2) 1
    by (auto simp: transactionStatementImpl.simps [of srv st i] doTransactionStatement_def Let_def split: list.splits)
qed

abbreviation succeeds :: "('s, unit) db_action \<Rightarrow> bool" where
  "succeeds m \<equiv> triple (\<lambda>a. a = answerOk) (\<lambda>_. True) m (throwsOr (\<lambda>_. False) (\<lambda>_. True))"

lemma ok_inTransaction:
  assumes "allOk as" "inTransaction srv qs i as = Some (r, i', rest)"
  shows "r = Inr () \<and> allOk rest"
proof -
  have st: "succeeds (transactionStatementImpl srv st)" for st
    by (rule tripleI) (use ok_transaction in \<open>fastforce simp: throwsOr_def\<close>)
  have q: "succeeds (executeQueryImpl srv q)" for q
    by (rule tripleI) (use ok_query in \<open>fastforce simp: throwsOr_def\<close>)
  have "succeeds (foldr (\<lambda>q. andThen (executeQueryImpl srv q)) qs (if_commit srv))"
    by (induction qs) (simp_all add: if_commit_def st triple_seq [OF q])
  from triple_seq [OF st this] have "succeeds (inTransaction srv qs)"
    by (simp add: inTransaction_def if_transaction_def)
  from tripleD [OF this assms(1) _ assms(2)] show ?thesis by (cases r) (auto simp: throwsOr_def)
qed

text \<open>No flight refers to a wrong person as pilot, copilot or towpilot any more.\<close>

definition referring :: "dbId \<Rightarrow> tables \<Rightarrow> dbId set" where
  "referring p d = {k. \<exists>f. tb_flights d k = Some f \<and> sql_person_condition (bindValues (referencesPersonCondition p)) f}"

lemma merged_unreferenced:
  assumes "correctId \<notin> set wrongIds" "p \<in> set wrongIds"
  shows "referring p (mergedTables correctId wrongIds d) = {}"
  using assms by (auto simp: referring_def mergedTables_def merged_def Let_def referencesPersonCondition_def q_bind_def mkQuery_def
      split: if_splits)

lemma merged_supervisor: "getSupervisorId (merged correctId wrongIds f) = getSupervisorId f"
  by (simp add: merged_def Let_def)

lemma unusedPeople_all:
  assumes "server_ok srv committed pending sem" "\<And>p q. p \<in> set ids \<Longrightarrow> q \<in> {referencedBy (referencesPersonCondition p),
            q_countCondition ''users'' (q_bind (mkQuery ''person_id=?'') (VId p))} \<Longrightarrow> sem q d = d \<and>
            (\<forall>s. committed s = d \<longrightarrow> counted q s = 0)"
    and "allOk as" "holdsAt committed pending d None i" "unusedPeople srv counted ids i as = Some (r, i', rest)"
  shows "r = Inr ids \<and> allOk rest \<and> holdsAt committed pending d None i'"
  using assms(2-)
proof (induction ids arbitrary: i as r)
  case Nil
  then show ?case by (simp add: returnAction_def)
next
  case (Cons p ps)
  have count: "x = Inr 0 \<and> allOk rest' \<and> holdsAt committed pending d None j'"
    if q: "q \<in> {referencedBy (referencesPersonCondition p), q_countCondition ''users'' (q_bind (mkQuery ''person_id=?'') (VId p))}"
      and run: "allOk bs" "holdsAt committed pending d None j" "countQuery srv counted q j bs = Some (x, j', rest')"
    for q j bs x j' rest'
  proof -
    have q0: "sem q d = d" "committed s = d \<Longrightarrow> counted q s = 0" for s using Cons.prems(1) [of p q] q by auto
    obtain x' where e: "executeQueryImpl srv q j bs = Some (x', j', rest')" "x = map_sum id (\<lambda>_. counted q (if_server j')) x'"
      using run(3) by (auto simp: countQuery_def)
    have "list_all (\<lambda>a. \<not> lost a) bs" using run(1) by (auto simp: list_all_iff)
    from tripleD [OF query_stores [OF assms(1)] this run(2) e(1)] ok_query [OF run(1) e(1)]
    show ?thesis using e(2) q0 by (simp add: throwsOr_def) (simp add: holdsAt_def)
  qed
  let ?q1 = "referencedBy (referencesPersonCondition p)"
  let ?q2 = "q_countCondition ''users'' (q_bind (mkQuery ''person_id=?'') (VId p))"
  obtain x1 i1 as1 where 1: "countQuery srv counted ?q1 i as = Some (x1, i1, as1)"
    using Cons.prems(4) by (auto simp: bindAction_def objectUsed_def personUsed_def split: option.splits)
  note c1 = count [OF insertI1 Cons.prems(2,3) 1]
  obtain x2 i2 as2 where 2: "countQuery srv counted ?q2 i1 as1 = Some (x2, i2, as2)"
    using Cons.prems(4) 1 c1 by (auto simp: bindAction_def objectUsed_def personUsed_def split: option.splits)
  have c2: "x2 = Inr 0 \<and> allOk as2 \<and> holdsAt committed pending d None i2"
    by (rule count [OF _ _ _ 2]) (use c1 in auto)
  obtain r' where 3: "unusedPeople srv counted ps i2 as2 = Some (r', i', rest)" "r = map_sum id ((#) p) r'"
    using Cons.prems(4) 1 2 c1 c2
    by (auto simp: bindAction_def objectUsed_def personUsed_def returnAction_def split: option.splits sum.splits)
  have "r' = Inr ps \<and> allOk rest \<and> holdsAt committed pending d None i'"
    by (rule Cons.IH [OF _ _ _ 3(1)]) (use Cons.prems(1) c2 in auto)
  then show ?case using 3(2) by simp
qed

text \<open>If nothing fails and the server counts the references that the condition selects, a merge deletes all
  wrong people without a warning. The flights they supervised still refer to them: the supervisor is neither
  replaced nor looked for.\<close>

theorem merge_forgets_supervisor:
  assumes "server_ok srv committed pending sem" "pending (if_server i) = None" "allOk as"
    and "mergeSem sem correctId wrongIds (committed (if_server i))" "correctId \<notin> set wrongIds"
    and "set wrongIds \<subseteq> dom (tb_people (committed (if_server i)))" "distinct wrongIds"
    and "\<And>s p. p \<in> set wrongIds \<Longrightarrow> counted (referencedBy (referencesPersonCondition p)) s = int (card (referring p (committed s)))
      \<and> counted (q_countCondition ''users'' (q_bind (mkQuery ''person_id=?'') (VId p))) s = 0"
    and "mergePeople srv counted c correctId wrongIds i as = Some (r, i', rest)"
  shows "mr_exception r = None \<and> mr_warnings r = []
    \<and> tb_people (committed (if_server i')) = tb_people (committed (if_server i)) |` (- set wrongIds)
    \<and> (\<forall>k f. tb_flights (committed (if_server i)) k = Some f \<longrightarrow>
         (\<exists>g. tb_flights (committed (if_server i')) k = Some g \<and> getSupervisorId g = getSupervisorId f))"
proof -
  let ?d = "committed (if_server i)"
  let ?m = "mergedTables correctId wrongIds ?d"
  have nl: "list_all (\<lambda>a. \<not> lost a) bs" if "allOk bs" for bs using that by (auto simp: list_all_iff)
  obtain r1 i1 as1 where t: "inTransaction srv (mergeQueries correctId wrongIds) i as = Some (r1, i1, as1)"
    using assms(9) by (auto simp: mergePeople_def split: option.splits)
  note ok1 = ok_inTransaction [OF assms(3) t]
  have "holdsAt committed pending ?d None i" using assms(2) by (simp add: holdsAt_def)
  from tripleD [OF inTransaction_triple [OF assms(1)] nl [OF assms(3)] this t] ok1
  have at1: "holdsAt committed pending ?m None i1" using assms(4) by (simp add: mergeSem_def throwsOr_def)
  obtain r2 i2 as2 where u: "unusedPeople srv counted wrongIds i1 as1 = Some (r2, i2, as2)"
    using assms(9) t ok1 by (cases "unusedPeople srv counted wrongIds i1 as1") (auto simp: mergePeople_def Let_def)
  have reads: "sem q ?m = ?m \<and> (\<forall>s. committed s = ?m \<longrightarrow> counted q s = 0)"
    if "p \<in> set wrongIds" "q \<in> {referencedBy (referencesPersonCondition p),
            q_countCondition ''users'' (q_bind (mkQuery ''person_id=?'') (VId p))}" for p q
    using that assms(4) assms(8) [OF that(1)] merged_unreferenced [OF assms(5) that(1), of ?d]
    by (auto simp: mergeSem_def)
  have ok2: "r2 = Inr wrongIds" "allOk as2" "holdsAt committed pending ?m None i2"
    using unusedPeople_all [OF assms(1) reads _ at1 u] ok1 by auto
  obtain r3 where del: "db_deleteObjects srv tablePeople wrongIds i2 as2 = Some (r3, i', rest)"
    using assms(9) t ok1 u ok2(1) by (auto simp: mergePeople_def Let_def split: option.splits sum.splits)
  have "(\<exists>es. r3 = Inr es) \<and> committed (if_server i') = ?m\<lparr>tb_people := tb_people ?d |` (- set wrongIds)\<rparr>"
  proof (cases "wrongIds = []")
    case True
    then show ?thesis using del ok2(3) by (auto simp: db_deleteObjects_def holdsAt_def mergedTables_def restrict_map_def)
  next
    case False
    then obtain r4 where d: "inTransaction srv [deleteListQuery tablePeople wrongIds] i2 as2 = Some (r4, i', rest)"
      "r3 = map_sum id (\<lambda>_. map (ev_deleted tablePeople) wrongIds) r4"
      using del by (auto simp: db_deleteObjects_def emitting_def)
    have "set wrongIds \<subseteq> dom (tb_people ?m)" using assms(6) by (simp add: mergedTables_def)
    from deleted_people [OF this assms(7)] have "sem (deleteListQuery tablePeople wrongIds) ?m = ?m\<lparr>tb_people := tb_people ?d |` (- set wrongIds)\<rparr>"
      using assms(4,7) False by (simp add: mergeSem_def) (simp add: mergedTables_def)
    then show ?thesis
      using tripleD [OF inTransaction_triple [OF assms(1)] nl [OF ok2(2)] ok2(3) d(1)] ok_inTransaction [OF ok2(2) d(1)] d(2)
      by (simp add: throwsOr_def) (simp add: holdsAt_def)
  qed
  then show ?thesis
    using assms(9) t ok1 u ok2(1) del by (auto simp: mergePeople_def Let_def mergedTables_def merged_supervisor)
qed

text \<open>A person who is merged into another, and a flight that has the first as pilot and supervisor.\<close>

definition flightM :: flight where
  "flightM = flight0\<lparr>getPilotId := 4, getSupervisorId := 4\<rparr>"

definition srcM :: db_source where
  "srcM = src0\<lparr>src_people := [pe_new 0 3, pe_new 0 4], src_preparedFlights := [flightM]\<rparr>"

definition tablesM :: tables where
  "tablesM = tables0\<lparr>tb_people := [3 \<mapsto> pe_new 0 3, 4 \<mapsto> pe_new 0 4], tb_flights := [7 \<mapsto> flightM]\<rparr>"

definition semM :: "query \<Rightarrow> tables \<Rightarrow> tables" where
  "semM q d = (if hd (bindValues q) = VId 3 then mergedTables 3 [4] d
     else if hd (queryString q) = CHR ''D'' then apply_event (ev_deleted tablePeople 4) d else d)"

definition countedM :: "query \<Rightarrow> tables \<times> tables option \<Rightarrow> int" where
  "countedM q s = (if length (bindValues q) = 3 then int (card (referring 4 (fst s))) else 0)"

lemma cacheM: "cacheMirrors (refreshAll (Some 100) None srcM newCache) tablesM"
proof (rule refreshAll_makes_mirror [OF _ cache_sane_new])
  have "getId flightM = 7" "isPrepared flightM" by (simp_all add: flightM_def flight0_def newFlight_def status_defs sk_defs)
  then show "source_ok srcM tablesM"
    by (auto simp: source_ok_def srcM_def src0_def tablesM_def tables0_def table_ok_def holds_def pe_new_def)
qed (simp_all add: newCache_def)

lemma bindValues_append: "bindValues (foldl q_bind q vs) = bindValues q @ vs"
  by (induction vs arbitrary: q) (simp_all add: q_bind_def)

lemma bound_M:
  "bindValues (q_updateColumnValue t k (VId 3) [VId 4]) = [VId 3, VId 4]"
  "bindValues (deleteListQuery tablePeople [4]) = [VId 4]"
  "bindValues (referencedBy (referencesPersonCondition 4)) = [VId 4, VId 4, VId 4]"
  "bindValues (q_countCondition ''users'' (q_bind (mkQuery ''person_id=?'') (VId 4))) = [VId 4]"
  by (simp_all add: q_updateColumnValue_def deleteListQuery_def q_valueInListCondition_def q_append_def q_bind_def
      q_arg_def mkQuery_def referencedBy_def referencesPersonCondition_def q_condition_def q_count_def q_countCondition_def q_isEmpty_def q_appendString_def)

lemma first_char_M:
  "hd (queryString (deleteListQuery tablePeople [4])) = CHR ''D''"
  "hd (queryString (referencedBy (referencesPersonCondition 4))) = CHR ''S''"
  "hd (queryString (q_countCondition ''users'' (q_bind (mkQuery ''person_id=?'') (VId 4)))) = CHR ''S''"
  by code_simp+

lemma twice: "mergedTables 3 [4] (mergedTables 3 [4] d) = mergedTables 3 [4] d"
  by (cases d) (auto simp: mergedTables_def merged_def Let_def fun_eq_iff option.map_comp o_def intro!: option.map_cong)

lemma mergeSem_M: "mergeSem semM 3 [4] tablesM"
proof -
  have one: "set ids \<subseteq> {4 :: dbId} \<Longrightarrow> ids \<noteq> [] \<Longrightarrow> distinct ids \<Longrightarrow> ids = [4]" for ids
    by (cases ids; cases "tl ids") auto
  have "semM (deleteListQuery tablePeople ids) d = fold apply_event (map (ev_deleted tablePeople) ids) d"
    if "set ids \<subseteq> set [4]" "ids \<noteq> []" "distinct ids" for ids d
    using one [of ids] that by (simp add: semM_def bound_M first_char_M)
  then show ?thesis
    by (simp add: mergeSem_def) (simp add: semM_def mergeQueries_def bound_M first_char_M twice)
qed

abbreviation interfaceM :: "(tables \<times> tables option) db_interface" where
  "interfaceM \<equiv> \<lparr>if_isOpen = True, if_server = (tablesM, None)\<rparr>"

lemma mergePeople_runs:
  "\<exists>r i'. mergePeople (plainServer semM) countedM c 3 [4] interfaceM (replicate 18 answerOk) = Some (r, i', [])"
proof -
  have none: "referring 4 (mergedTables 3 [4] d) = {}" for d by (rule merged_unreferenced) simp_all
  show ?thesis
    by (simp add: mergePeople_def inTransaction_def andThen_def if_transaction_def if_commit_def action_steps mergeQueries_def
      eval_nat_numeral objectUsed_def personUsed_def bindAction_def countQuery_def returnAction_def
      db_deleteObjects_def emitting_def Let_def)
      (simp add: countedM_def bound_M first_char_M plainServer_def semM_def twice none)
qed


theorem merge_forgets_supervisor_witness:
  "\<exists>r i' g. mergePeople (plainServer semM) countedM newCache 3 [4] interfaceM (replicate 18 answerOk) = Some (r, i', [])
    \<and> tb_people (fst (if_server i')) 4 = None
    \<and> tb_flights (fst (if_server i')) 7 = Some g \<and> getSupervisorId g = 4"
proof -
  obtain r i' where run: "mergePeople (plainServer semM) countedM newCache 3 [4] interfaceM
      (replicate 18 answerOk) = Some (r, i', [])" using mergePeople_runs by blast
  have "allOk (replicate 18 answerOk)" by (simp add: list_all_iff)
  from merge_forgets_supervisor [OF plainServer_ok _ this _ _ _ _ _ run] mergeSem_M
  have "tb_people (fst (if_server i')) = tb_people tablesM |` (- {4})"
    "\<exists>g. tb_flights (fst (if_server i')) 7 = Some g \<and> getSupervisorId g = getSupervisorId flightM"
    by (auto simp: countedM_def bound_M tablesM_def)
  then show ?thesis using run by (auto simp: flightM_def)
qed

end
