(* ===== verification/Sk_FlightWindow.thy ===== *)
theory Sk_FlightWindow
  imports Sk_FlarmLookup Sk_FlightErrors
begin

text \<open>
  The flight editor, \<^verbatim>\<open>src/src/gui/windows/FlightWindow.cpp\<close> and \<^verbatim>\<open>FlightWindow.h\<close>: the input widgets
  and the data the window keeps beside them, which inputs are active, writing a flight to the
  inputs and reading it back, the slots that run when an input changes, the error list, and the
  reaction to changes of the cache. Checking and accepting a flight is in \<open>Sk_FlightAccept\<close>.

  A combo box with a free text is its text and its list; a combo box with fixed entries is the data
  of its entries and of the current one; a spin box is its number within its range; a time edit
  is the milliseconds since midnight; the date edit is a day number (within the range of the widget).
  Setting an invalid time or date leaves the widget as it is. \<open>None\<close> as the result of a slot is an
  exception that leaves it.
\<close>

section \<open>The widgets\<close>

datatype input_widget =
    registrationInput | planeTypeWidget | flightTypeInput
  | pilotLastNameInput | pilotFirstNameInput | copilotLastNameInput | copilotFirstNameInput
  | numCrewInput | numPaxInput | flightModeInput | launchMethodInput
  | towplaneRegistrationInput | towplaneTypeWidget | towpilotLastNameInput | towpilotFirstNameInput
  | towflightModeInput
  | departureTimeCheckbox | departureTimeWidget | departureTimeInput
  | landingTimeCheckbox | landingTimeWidget | landingTimeInput
  | towflightLandingTimeCheckbox | towflightLandingTimeWidget | towflightLandingTimeInput
  | departureLocationInput | landingLocationInput | towflightLandingLocationInput
  | numLandingsInput | commentInput | accountingNoteInput | dateInput | errorList | editorWindow

datatype label_widget =
    registrationLabel | planeTypeLabel | flightTypeLabel
  | pilotLastNameLabel | pilotFirstNameLabel | pilotLabel
  | copilotLastNameLabel | copilotFirstNameLabel | copilotLabel
  | numCrewLabel | numPaxLabel | flightModeLabel | launchMethodLabel
  | towplaneRegistrationLabel | towplaneTypeLabel | towpilotLabel | towpilotLastNameLabel
  | towpilotFirstNameLabel | towflightModeLabel
  | departureTimeLabel | landingTimeLabel | towflightLandingTimeLabel
  | departureLocationLabel | landingLocationLabel | towflightLandingLocationLabel | numLandingsLabel
  | commentLabel | accountingNoteLabel | dateLabel | errorLabel
  | okButton | nowButton | laterButton

datatype editor_widget = Inp input_widget | Lab label_widget

subsection \<open>Combo boxes\<close>

text \<open>The first entry that an empty box gets becomes the current one.\<close>

record combo =
  cb_text :: qstring
  cb_items :: "qstring list"

definition cb_addItems :: "qstring list \<Rightarrow> combo \<Rightarrow> combo" where
  "cb_addItems xs b = b\<lparr>cb_text := (if cb_items b = [] \<and> xs \<noteq> [] then hd xs else cb_text b),
     cb_items := cb_items b @ xs\<rparr>"

definition cb_setEditText :: "qstring \<Rightarrow> combo \<Rightarrow> combo" where
  "cb_setEditText t b = b\<lparr>cb_text := t\<rparr>"

definition cb_empty :: combo where
  "cb_empty = \<lparr>cb_text = [], cb_items = []\<rparr>"

record 'a choice =
  ch_items :: "'a list"
  ch_current :: "'a option"

definition ch_addItem :: "'a \<Rightarrow> 'a choice \<Rightarrow> 'a choice" where
  "ch_addItem x b = b\<lparr>ch_current := (if ch_items b = [] then Some x else ch_current b),
     ch_items := ch_items b @ [x]\<rparr>"

definition ch_empty :: "'a choice" where
  "ch_empty = \<lparr>ch_items = [], ch_current = None\<rparr>"

fun firstEqual :: "'a \<Rightarrow> 'a list \<Rightarrow> 'a option" where
  "firstEqual v [] = None"
| "firstEqual v (x # xs) = (if x = v then Some x else firstEqual v xs)"

definition setCurrentItemByItemData :: "'a \<Rightarrow> 'a choice \<Rightarrow> 'a choice" where
  "setCurrentItemByItemData v b =
     (case firstEqual v (ch_items b) of Some x \<Rightarrow> b\<lparr>ch_current := Some x\<rparr> | None \<Rightarrow> b)"

definition setCurrentIndex :: "nat \<Rightarrow> 'a choice \<Rightarrow> 'a choice" where
  "setCurrentIndex n b = b\<lparr>ch_current := (if n < length (ch_items b) then Some (ch_items b ! n) else None)\<rparr>"

definition clampTo :: "int \<Rightarrow> int \<Rightarrow> int \<Rightarrow> int" where
  "clampTo low high x = max low (min high x)"

lemma firstEqual_eq: "firstEqual v xs = (if v \<in> set xs then Some v else None)"
  by (induction xs) auto

section \<open>The state of the window\<close>

datatype editor_mode = modeCreate | modeEdit

record editor =
  ed_mode :: editor_mode
  ed_cache :: cache
  ed_originalFlight :: flight
  ed_originalFlightId :: dbId
  ed_selectedPlane :: dbId
  ed_selectedTowplane :: dbId
  ed_selectedPilot :: dbId
  ed_selectedCopilot :: dbId
  ed_selectedTowpilot :: dbId
  ui_registration :: combo
  ui_flightType :: "flight_type choice"
  ui_pilotLastName :: combo
  ui_pilotFirstName :: combo
  ui_copilotLastName :: combo
  ui_copilotFirstName :: combo
  ui_numCrew :: int
  ui_numPax :: int
  ui_flightMode :: "flight_mode choice"
  ui_launchMethod :: "dbId choice"
  ui_towplaneRegistration :: combo
  ui_towpilotLastName :: combo
  ui_towpilotFirstName :: combo
  ui_towflightMode :: "flight_mode choice"
  ui_departureTimeChecked :: bool
  ui_landingTimeChecked :: bool
  ui_towflightLandingTimeChecked :: bool
  ui_departureTime :: int
  ui_landingTime :: int
  ui_towflightLandingTime :: int
  ui_departureLocation :: combo
  ui_landingLocation :: combo
  ui_towflightLandingLocation :: combo
  ui_numLandings :: int
  ui_comment :: qstring
  ui_accountingNote :: combo
  ui_date :: int
  ui_text :: "editor_widget \<Rightarrow> qstring"
  ui_visible :: "editor_widget \<Rightarrow> bool"
  ui_default :: "label_widget option"
  ui_marked :: "label_widget \<Rightarrow> bool"
  ui_errors :: "flight_error list"
  ui_focus :: "input_widget option"
  ed_open :: bool

text \<open>What the window reads from outside: the settings, the translated default registration prefix, the
  clock, and the memory a new flight is built in.\<close>

record editor_env =
  ee_settings :: settings
  ee_checkMedicals :: bool
  ee_prefix :: qstring
  ee_today :: int
  ee_now :: qdatetime
  ee_mem :: flight

section \<open>Input values\<close>

definition getCurrentFlightType :: "editor \<Rightarrow> flight_type" where
  "getCurrentFlightType ed = (case ch_current (ui_flightType ed) of Some t \<Rightarrow> t | None \<Rightarrow> typeNone)"
definition getCurrentFlightMode :: "editor \<Rightarrow> flight_mode" where
  "getCurrentFlightMode ed = (case ch_current (ui_flightMode ed) of Some m \<Rightarrow> m | None \<Rightarrow> modeLocal)"
definition getCurrentTowflightMode :: "editor \<Rightarrow> flight_mode" where
  "getCurrentTowflightMode ed = (case ch_current (ui_towflightMode ed) of Some m \<Rightarrow> m | None \<Rightarrow> modeLocal)"
definition getCurrentLaunchMethodId :: "editor \<Rightarrow> dbId" where
  "getCurrentLaunchMethodId ed = (case ch_current (ui_launchMethod ed) of Some i \<Rightarrow> i | None \<Rightarrow> 0)"

definition getCurrentLaunchMethod :: "editor \<Rightarrow> not_found + launchMethod" where
  "getCurrentLaunchMethod ed = getObject (launchMethodsById (ed_cache ed)) (getCurrentLaunchMethodId ed)"

section \<open>Which inputs are active\<close>

definition isPilotActive :: "'z editor_env_scheme \<Rightarrow> editor \<Rightarrow> bool" where
  "isPilotActive en ed \<longleftrightarrow> \<not> set_anonymousMode (ee_settings en)"

definition isCopilotActive :: "'z editor_env_scheme \<Rightarrow> editor \<Rightarrow> bool" where
  "isCopilotActive en ed \<longleftrightarrow> \<not> set_anonymousMode (ee_settings en)
     \<and> (typeCopilotRecorded (getCurrentFlightType ed) \<or> typeSupervisorRecorded (getCurrentFlightType ed))"

definition isFlightModeActive :: "editor \<Rightarrow> bool" where
  "isFlightModeActive ed \<longleftrightarrow> True"

definition currentDepartsHere :: "editor \<Rightarrow> bool" where
  "currentDepartsHere ed \<longleftrightarrow> isFlightModeActive ed \<and> modeDepartsHere (getCurrentFlightMode ed)"

definition currentLandsHere :: "editor \<Rightarrow> bool" where
  "currentLandsHere ed \<longleftrightarrow> isFlightModeActive ed \<and> modeLandsHere (getCurrentFlightMode ed)"

definition isLaunchMethodActive :: "editor \<Rightarrow> bool" where
  "isLaunchMethodActive ed \<longleftrightarrow> currentDepartsHere ed"

definition currentIsAirtow :: "editor \<Rightarrow> bool" where
  "currentIsAirtow ed =
     (if \<not> isLaunchMethodActive ed then False
      else if idInvalid (getCurrentLaunchMethodId ed) then False
      else (case getCurrentLaunchMethod ed of Inr l \<Rightarrow> lm_isAirtow l | Inl _ \<Rightarrow> False))"

definition isTowplaneRegistrationActive :: "editor \<Rightarrow> bool" where
  "isTowplaneRegistrationActive ed =
     (if \<not> currentIsAirtow ed then False
      else if \<not> idValid (getCurrentLaunchMethodId ed) then False
      else (case getCurrentLaunchMethod ed of Inr l \<Rightarrow> \<not> lm_towplaneKnown l | Inl _ \<Rightarrow> False))"

definition isTowplaneTypeActive :: "editor \<Rightarrow> bool" where
  "isTowplaneTypeActive ed = currentIsAirtow ed"

definition isTowpilotActive :: "'z editor_env_scheme \<Rightarrow> editor \<Rightarrow> bool" where
  "isTowpilotActive en ed \<longleftrightarrow> currentIsAirtow ed \<and> set_recordTowpilot (ee_settings en)"

definition isTowflightModeActive :: "editor \<Rightarrow> bool" where
  "isTowflightModeActive ed = currentIsAirtow ed"

definition currentTowLandsHere :: "editor \<Rightarrow> bool" where
  "currentTowLandsHere ed \<longleftrightarrow> isTowflightModeActive ed \<and> modeLandsHere (getCurrentTowflightMode ed)"

text \<open>The checkboxes read "Automatic" in create mode and "Departed" or "Landed" in edit mode.\<close>

definition getTimeFieldActive :: "editor \<Rightarrow> bool \<Rightarrow> bool" where
  "getTimeFieldActive ed checkboxValue =
     (case ed_mode ed of modeCreate \<Rightarrow> \<not> checkboxValue | modeEdit \<Rightarrow> checkboxValue)"

definition getTimeFieldCheckboxValue :: "editor \<Rightarrow> bool \<Rightarrow> bool" where
  "getTimeFieldCheckboxValue ed active =
     (case ed_mode ed of modeCreate \<Rightarrow> \<not> active | modeEdit \<Rightarrow> active)"

definition isDepartureActive :: "editor \<Rightarrow> bool" where
  "isDepartureActive ed = currentDepartsHere ed"
definition isDepartureTimeActive :: "editor \<Rightarrow> bool" where
  "isDepartureTimeActive ed \<longleftrightarrow> isDepartureActive ed \<and> getTimeFieldActive ed (ui_departureTimeChecked ed)"
definition isLandingActive :: "editor \<Rightarrow> bool" where
  "isLandingActive ed = currentLandsHere ed"
definition isLandingTimeActive :: "editor \<Rightarrow> bool" where
  "isLandingTimeActive ed \<longleftrightarrow> isLandingActive ed \<and> getTimeFieldActive ed (ui_landingTimeChecked ed)"
definition isTowflightLandingActive :: "editor \<Rightarrow> bool" where
  "isTowflightLandingActive ed = currentIsAirtow ed"
definition isTowflightLandingTimeActive :: "editor \<Rightarrow> bool" where
  "isTowflightLandingTimeActive ed \<longleftrightarrow>
     isTowflightLandingActive ed \<and> getTimeFieldActive ed (ui_towflightLandingTimeChecked ed)"
definition isTowflightLandingLocationActive :: "editor \<Rightarrow> bool" where
  "isTowflightLandingLocationActive ed = currentIsAirtow ed"

definition isErrorListActive :: "editor \<Rightarrow> bool" where
  "isErrorListActive ed = (case ed_mode ed of modeCreate \<Rightarrow> False | modeEdit \<Rightarrow> True)"

definition isNowActionPossible :: "'z editor_env_scheme \<Rightarrow> editor \<Rightarrow> bool" where
  "isNowActionPossible en ed =
     (if ed_mode ed \<noteq> modeCreate then False
      else if isDepartureTimeActive ed then False
      else if isLandingTimeActive ed then False
      else if isTowflightLandingTimeActive ed then False
      else if ui_date ed \<noteq> ee_today en then False
      else True)"

lemmas active_defs =
  isPilotActive_def isCopilotActive_def isFlightModeActive_def currentDepartsHere_def
  currentLandsHere_def isLaunchMethodActive_def currentIsAirtow_def isTowplaneRegistrationActive_def
  isTowplaneTypeActive_def isTowpilotActive_def isTowflightModeActive_def currentTowLandsHere_def
  isDepartureActive_def isDepartureTimeActive_def isLandingActive_def isLandingTimeActive_def
  isTowflightLandingActive_def isTowflightLandingTimeActive_def isTowflightLandingLocationActive_def

section \<open>The names of people\<close>

text \<open>\<open>nameList\<close> is what the full or the partial list method of the cache answers. The result is the
  number of names and the combo box.\<close>

definition fillNames :: "qstring list \<Rightarrow> (qstring \<Rightarrow> qstring list) \<Rightarrow> qstring \<Rightarrow> bool \<Rightarrow> combo \<Rightarrow> nat \<times> combo" where
  "fillNames fullList partialList otherName preserveTarget target =
     (let oldValue = cb_text target;
          nameList = (if simplified otherName = [] then fullList else partialList otherName);
          filled = cb_addItems nameList (cb_addItems [[]] cb_empty)
      in (length nameList,
          if oldValue = [] \<and> \<not> preserveTarget \<and> length nameList = 1 \<and> simplified otherName \<noteq> []
          then cb_setEditText (nameList ! 0) filled
          else cb_setEditText oldValue filled))"

definition allLastNames :: "cache \<Rightarrow> qstring list" where
  "allLastNames c = fst (ss_toQList (personLastNames c))"
definition allFirstNames :: "cache \<Rightarrow> qstring list" where
  "allFirstNames c = fst (ss_toQList (personFirstNames c))"

definition fillLastNames :: "cache \<Rightarrow> bool \<Rightarrow> qstring \<Rightarrow> bool \<Rightarrow> combo \<Rightarrow> dbId \<times> combo" where
  "fillLastNames c active firstName preserveTarget target =
     (if \<not> active then (invalidId, target)
      else (let (_, b) = fillNames (allLastNames c) (getPersonLastNames c) firstName preserveTarget target
            in (getUniquePersonIdByName c firstName (cb_text b), b)))"

definition fillFirstNames :: "cache \<Rightarrow> bool \<Rightarrow> qstring \<Rightarrow> bool \<Rightarrow> combo \<Rightarrow> dbId \<times> combo" where
  "fillFirstNames c active lastName preserveTarget target =
     (if \<not> active then (invalidId, target)
      else (let (_, b) = fillNames (allFirstNames c) (getPersonFirstNames c) lastName preserveTarget target
            in (getUniquePersonIdByName c (cb_text b) lastName, b)))"

section \<open>Opening the window\<close>

text \<open>The widgets as the constructor of the form leaves them.\<close>

definition formWidgets :: "editor_mode \<Rightarrow> cache \<Rightarrow> flight \<Rightarrow> editor" where
  "formWidgets m c original =
     \<lparr>ed_mode = m, ed_cache = c, ed_originalFlight = original, ed_originalFlightId = invalidId,
      ed_selectedPlane = invalidId, ed_selectedTowplane = invalidId, ed_selectedPilot = invalidId,
      ed_selectedCopilot = invalidId, ed_selectedTowpilot = invalidId,
      ui_registration = cb_empty, ui_flightType = ch_empty,
      ui_pilotLastName = cb_empty, ui_pilotFirstName = cb_empty,
      ui_copilotLastName = cb_empty, ui_copilotFirstName = cb_empty,
      ui_numCrew = 1, ui_numPax = 0, ui_flightMode = ch_empty, ui_launchMethod = ch_empty,
      ui_towplaneRegistration = cb_empty, ui_towpilotLastName = cb_empty, ui_towpilotFirstName = cb_empty,
      ui_towflightMode = ch_empty,
      ui_departureTimeChecked = True, ui_landingTimeChecked = True, ui_towflightLandingTimeChecked = True,
      ui_departureTime = 0, ui_landingTime = 0, ui_towflightLandingTime = 0,
      ui_departureLocation = cb_empty, ui_landingLocation = cb_empty, ui_towflightLandingLocation = cb_empty,
      ui_numLandings = 0, ui_comment = [], ui_accountingNote = cb_empty, ui_date = 10957,
      ui_text = (\<lambda>w. ''-''), ui_visible = (\<lambda>w. True), ui_default = None, ui_marked = (\<lambda>w. False),
      ui_errors = [], ui_focus = None, ed_open = True\<rparr>"

definition fillLists :: "editor \<Rightarrow> editor" where
  "fillLists ed = ed
     \<lparr>ui_flightType := fold ch_addItem (listTypes False) (ui_flightType ed),
      ui_flightMode := fold ch_addItem listModes (ui_flightMode ed),
      ui_towflightMode := fold ch_addItem listModes (ui_towflightMode ed)\<rparr>"

text \<open>One list of entries followed by the text of the box.\<close>

definition fillCombo :: "qstring \<Rightarrow> qstring list \<Rightarrow> qstring \<Rightarrow> combo \<Rightarrow> combo" where
  "fillCombo firstItem items text b = cb_setEditText text (cb_addItems items (cb_addItems [firstItem] b))"

definition fillData :: "'z editor_env_scheme \<Rightarrow> editor \<Rightarrow> editor" where
  "fillData en ed =
     (let c = ed_cache ed; prefix = ee_prefix en; registrations = getPlaneRegistrations c;
          lastNames = allLastNames c; firstNames = allFirstNames c;
          location = set_location (ee_settings en);
          methods = fold (\<lambda>l. ch_addItem (lm_id l)) (launchMethods c) (ch_addItem invalidId (ui_launchMethod ed))
      in ed\<lparr>ui_registration := fillCombo prefix registrations prefix (ui_registration ed),
            ui_towplaneRegistration := fillCombo prefix registrations prefix (ui_towplaneRegistration ed),
            ui_pilotFirstName := fillCombo [] firstNames [] (ui_pilotFirstName ed),
            ui_copilotFirstName := fillCombo [] firstNames [] (ui_copilotFirstName ed),
            ui_towpilotFirstName := fillCombo [] firstNames [] (ui_towpilotFirstName ed),
            ui_pilotLastName := fillCombo [] lastNames [] (ui_pilotLastName ed),
            ui_copilotLastName := fillCombo [] lastNames [] (ui_copilotLastName ed),
            ui_towpilotLastName := fillCombo [] lastNames [] (ui_towpilotLastName ed),
            ui_launchMethod :=
              (if length (launchMethods c) = 1 then setCurrentIndex 1 methods else methods),
            ui_departureLocation := fillCombo [] (getLocations c) location (ui_departureLocation ed),
            ui_landingLocation := fillCombo [] (getLocations c) location (ui_landingLocation ed),
            ui_towflightLandingLocation := fillCombo [] (getLocations c) location (ui_towflightLandingLocation ed),
            ui_accountingNote := fillCombo [] (fst (ss_toQList (accountingNotes c))) [] (ui_accountingNote ed)\<rparr>)"

section \<open>Writing a flight to the inputs\<close>

definition personToFields ::
    "cache \<Rightarrow> dbId \<Rightarrow> qstring \<Rightarrow> qstring \<Rightarrow> combo \<times> combo \<Rightarrow> combo \<times> combo" where
  "personToFields c i incompleteLastName incompleteFirstName inputs =
     (let (lastNameInput, firstNameInput) = inputs;
          names = (if idValid i
                   then (case getObject (peopleById c) i of
                           Inr p \<Rightarrow> Some (pe_lastName p, pe_firstName p) | Inl _ \<Rightarrow> None)
                   else None);
          (lastName, firstName) = (case names of Some n \<Rightarrow> n | None \<Rightarrow> (incompleteLastName, incompleteFirstName));
          l1 = cb_setEditText lastName lastNameInput;
          f1 = cb_setEditText firstName firstNameInput;
          (_, l2) = fillLastNames c True (cb_text f1) True l1;
          (_, f2) = fillFirstNames c True (cb_text l2) True f1
      in (l2, f2))"

text \<open>The result is the combo box and the text of the type label.\<close>

definition planeToFields :: "cache \<Rightarrow> dbId \<Rightarrow> combo \<times> qstring \<Rightarrow> combo \<times> qstring" where
  "planeToFields c i inputs =
     (if idValid i
      then (case getObject (planesById c) i of
              Inr p \<Rightarrow> (cb_setEditText (pl_registration p) (fst inputs), pl_type p)
            | Inl _ \<Rightarrow> inputs)
      else inputs)"

definition timeOfDay :: "qdatetime \<Rightarrow> qtime" where
  "timeOfDay t = map_option (\<lambda>m. m mod 86400000) t"

text \<open>\<open>setTime\<close> and \<open>setDate\<close> of the edit widgets: an invalid value is ignored.\<close>

definition setEdit :: "int option \<Rightarrow> int \<Rightarrow> int" where
  "setEdit v old = (case v of Some x \<Rightarrow> x | None \<Rightarrow> old)"

definition launchMethodChanged :: "editor \<Rightarrow> editor option" where
  "launchMethodChanged ed =
     (let launchMethodId = getCurrentLaunchMethodId ed; c = ed_cache ed in
      if idValid launchMethodId
      then (case getObject (launchMethodsById c) launchMethodId of
          Inl _ \<Rightarrow> None
        | Inr l \<Rightarrow>
            if lm_isAirtow l
            then (let towplaneRegistration =
                        (if lm_towplaneKnown l then lm_towplaneRegistration l
                         else cb_text (ui_towplaneRegistration ed));
                      towplaneId = getPlaneIdByRegistration c towplaneRegistration
                  in if idValid towplaneId
                     then (case getObject (planesById c) towplaneId of
                         Inr p \<Rightarrow> Some (ed\<lparr>ui_text := (ui_text ed)(Inp towplaneTypeWidget := pl_type p)\<rparr>)
                       | Inl _ \<Rightarrow> Some (ed\<lparr>ui_text := (ui_text ed)(Inp towplaneTypeWidget := ''?'')\<rparr>))
                     else Some ed)
            else Some ed)
      else Some ed)"

definition copilotToEdit :: "flight \<Rightarrow> dbId" where
  "copilotToEdit f = (if getType f = typeTraining1 then getSupervisorId f else getCopilotId f)"

text \<open>The part before and the part after the launch method.\<close>

definition flightToFields1 :: "flight \<Rightarrow> bool \<Rightarrow> editor \<Rightarrow> editor" where
  "flightToFields1 f repeat ed =
     (let c = ed_cache ed;
          (registration, planeType) =
            planeToFields c (getPlaneId f) (ui_registration ed, ui_text ed (Inp planeTypeWidget));
          (pilotL, pilotF) = personToFields c (getPilotId f) (getPilotLastName f) (getPilotFirstName f)
            (ui_pilotLastName ed, ui_pilotFirstName ed);
          (copilotL, copilotF) = personToFields c (copilotToEdit f) (getCopilotLastName f) (getCopilotFirstName f)
            (ui_copilotLastName ed, ui_copilotFirstName ed)
      in ed\<lparr>ed_originalFlight := (if repeat then dataChanged (f\<lparr>getVfId := invalidId\<rparr>) else f),
            ed_originalFlightId := getId f,
            ed_selectedPlane := getPlaneId f,
            ed_selectedTowplane := getTowplaneId f,
            ed_selectedPilot := getPilotId f,
            ed_selectedCopilot := copilotToEdit f,
            ed_selectedTowpilot := getTowpilotId f,
            ui_registration := registration,
            ui_text := (ui_text ed)(Inp planeTypeWidget := planeType),
            ui_flightType := setCurrentItemByItemData (getType f) (ui_flightType ed),
            ui_numCrew := clampTo 1 99 (getNumCrew f),
            ui_numPax := clampTo 0 99 (getNumPax f),
            ui_pilotLastName := pilotL, ui_pilotFirstName := pilotF,
            ui_copilotLastName := copilotL, ui_copilotFirstName := copilotF,
            ui_flightMode := setCurrentItemByItemData (getMode f) (ui_flightMode ed),
            ui_launchMethod := setCurrentItemByItemData (getLaunchMethodId f) (ui_launchMethod ed)\<rparr>)"

definition flightToFields2 :: "'z editor_env_scheme \<Rightarrow> flight \<Rightarrow> bool \<Rightarrow> editor \<Rightarrow> editor" where
  "flightToFields2 en f repeat ed =
     (let c = ed_cache ed;
          (registration, planeType) =
            planeToFields c (getTowplaneId f) (ui_towplaneRegistration ed, ui_text ed (Inp towplaneTypeWidget));
          (towpilotL, towpilotF) = personToFields c (getTowpilotId f) (getTowpilotLastName f) (getTowpilotFirstName f)
            (ui_towpilotLastName ed, ui_towpilotFirstName ed);
          ed1 = ed\<lparr>ui_towplaneRegistration := registration,
                   ui_text := (ui_text ed)(Inp towplaneTypeWidget := planeType),
                   ui_towpilotLastName := towpilotL, ui_towpilotFirstName := towpilotF,
                   ui_towflightMode := setCurrentItemByItemData (getTowflightMode f) (ui_towflightMode ed)\<rparr>;
          ed2 = (if \<not> repeat
                 then ed1\<lparr>ui_departureTimeChecked := getTimeFieldCheckboxValue ed1 (getDeparted f),
                          ui_landingTimeChecked := getTimeFieldCheckboxValue ed1 (getLanded f),
                          ui_towflightLandingTimeChecked := getTimeFieldCheckboxValue ed1 (getTowflightLanded f),
                          ui_departureTime := setEdit (timeOfDay (getDepartureTime f)) (ui_departureTime ed1),
                          ui_landingTime := setEdit (timeOfDay (getLandingTime f)) (ui_landingTime ed1),
                          ui_towflightLandingTime :=
                            setEdit (timeOfDay (getTowflightLandingTime f)) (ui_towflightLandingTime ed1)\<rparr>
                 else ed1)
      in ed2\<lparr>ui_departureLocation := cb_setEditText (getDepartureLocation f) (ui_departureLocation ed2),
             ui_landingLocation := cb_setEditText (getLandingLocation f) (ui_landingLocation ed2),
             ui_towflightLandingLocation :=
               cb_setEditText (getTowflightLandingLocation f) (ui_towflightLandingLocation ed2),
             ui_numLandings := (if \<not> repeat then clampTo 0 65535 (getNumLandings f) else ui_numLandings ed2),
             ui_comment := (if \<not> repeat then getComments f else ui_comment ed2),
             ui_accountingNote := cb_setEditText (getAccountingNotes f) (ui_accountingNote ed2),
             ui_date := setEdit (getEffectiveDate utc (Some (ee_today en)) f) (ui_date ed2)\<rparr>)"

text \<open>\<open>copyLaunchMethod\<close> is always true, so that the preselected launch method is never used.\<close>

definition flightToFields :: "'z editor_env_scheme \<Rightarrow> flight \<Rightarrow> bool \<Rightarrow> editor \<Rightarrow> editor option" where
  "flightToFields en f repeat ed =
     map_option (flightToFields2 en f repeat) (launchMethodChanged (flightToFields1 f repeat ed))"

section \<open>Reading the flight from the inputs\<close>

definition atDate :: "int \<Rightarrow> int \<Rightarrow> qdatetime" where
  "atDate date time = Some (date * 86400000 + time)"

definition determineFlightBasic :: "'z editor_env_scheme \<Rightarrow> editor \<Rightarrow> flight" where
  "determineFlightBasic en ed =
     (let f = newFlight (ee_mem en) invalidId;
          anonymous = set_anonymousMode (ee_settings en)
      in dataChanged (f
        \<lparr>getId := ed_originalFlightId ed,
         getFlarmId := getFlarmId (ed_originalFlight ed),
         getVfId := getVfId (ed_originalFlight ed),
         getUploaded := False,
         getPlaneId := ed_selectedPlane ed,
         getTowplaneId := (if isTowplaneRegistrationActive ed then ed_selectedTowplane ed else invalidId),
         getPilotId := (if isPilotActive en ed then ed_selectedPilot ed else invalidId),
         getCopilotId := (if isCopilotActive en ed then ed_selectedCopilot ed else invalidId),
         getTowpilotId := (if isTowpilotActive en ed then ed_selectedTowpilot ed else invalidId),
         getType := getCurrentFlightType ed,
         getNumCrew := (if anonymous then ui_numCrew ed else 1),
         getNumPax := (if anonymous then ui_numPax ed else 0),
         getMode := (if isFlightModeActive ed then getCurrentFlightMode ed else getMode f),
         getLaunchMethodId := (if isLaunchMethodActive ed then getCurrentLaunchMethodId ed else getLaunchMethodId f),
         getTowflightMode := (if isTowflightModeActive ed then getCurrentTowflightMode ed else getTowflightMode f),
         getDeparted := (if isDepartureActive ed then isDepartureTimeActive ed else getDeparted f),
         getLanded := (if isLandingActive ed then isLandingTimeActive ed else getLanded f),
         getTowflightLanded :=
           (if isTowflightLandingActive ed then isTowflightLandingTimeActive ed else getTowflightLanded f),
         getDepartureLocation := simplified (cb_text (ui_departureLocation ed)),
         getLandingLocation := simplified (cb_text (ui_landingLocation ed)),
         getTowflightLandingLocation :=
           (if isTowflightLandingLocationActive ed then simplified (cb_text (ui_towflightLandingLocation ed))
            else getTowflightLandingLocation f),
         getNumLandings := ui_numLandings ed,
         getComments := simplified (ui_comment ed),
         getAccountingNotes := simplified (cb_text (ui_accountingNote ed)),
         getDepartureTime :=
           (if isDepartureTimeActive ed then atDate (ui_date ed) (ui_departureTime ed) else None),
         getLandingTime :=
           (if isLandingTimeActive ed then atDate (ui_date ed) (ui_landingTime ed) else None),
         getTowflightLandingTime :=
           (if isTowflightLandingTimeActive ed then atDate (ui_date ed) (ui_towflightLandingTime ed) else None)\<rparr>))"

section \<open>Visibility, labels and buttons\<close>

text \<open>\<open>widgetLabelMap\<close>, in the order of the insertions.\<close>

definition widgetLabelMap :: "(editor_widget \<times> label_widget) list" where
  "widgetLabelMap =
     [(Inp registrationInput, registrationLabel), (Lab planeTypeLabel, planeTypeLabel),
      (Inp flightTypeInput, flightTypeLabel),
      (Inp pilotLastNameInput, pilotLastNameLabel), (Inp pilotFirstNameInput, pilotFirstNameLabel),
      (Inp pilotLastNameInput, pilotLabel),
      (Inp copilotLastNameInput, copilotLastNameLabel), (Inp copilotFirstNameInput, copilotFirstNameLabel),
      (Inp copilotLastNameInput, copilotLabel),
      (Inp flightModeInput, flightModeLabel), (Inp launchMethodInput, launchMethodLabel),
      (Inp towplaneRegistrationInput, towplaneRegistrationLabel), (Inp towplaneTypeWidget, towplaneTypeLabel),
      (Inp towpilotLastNameInput, towpilotLabel), (Inp towpilotLastNameInput, towpilotLastNameLabel),
      (Inp towpilotFirstNameInput, towpilotFirstNameLabel), (Inp towflightModeInput, towflightModeLabel),
      (Inp departureTimeCheckbox, departureTimeLabel), (Inp departureTimeInput, departureTimeLabel),
      (Inp landingTimeCheckbox, landingTimeLabel), (Inp landingTimeInput, landingTimeLabel),
      (Inp towflightLandingTimeCheckbox, towflightLandingTimeLabel),
      (Inp towflightLandingTimeInput, towflightLandingTimeLabel),
      (Inp departureLocationInput, departureLocationLabel), (Inp landingLocationInput, landingLocationLabel),
      (Inp towflightLandingLocationInput, towflightLandingLocationLabel), (Inp numLandingsInput, numLandingsLabel),
      (Inp commentInput, commentLabel), (Inp accountingNoteInput, accountingNoteLabel),
      (Inp dateInput, dateLabel), (Inp errorList, errorLabel)]"

definition labelsOf :: "editor_widget \<Rightarrow> label_widget list" where
  "labelsOf w = map snd (filter (\<lambda>x. fst x = w) widgetLabelMap)"

type_synonym visibility = "editor_widget \<Rightarrow> bool"

definition setVisible :: "editor_widget \<Rightarrow> bool \<Rightarrow> visibility \<Rightarrow> visibility" where
  "setVisible w b v = v(w := b)"

definition enableWidget :: "input_widget \<Rightarrow> bool \<Rightarrow> visibility \<Rightarrow> visibility" where
  "enableWidget w enabled v = fold (\<lambda>l. setVisible (Lab l) enabled) (labelsOf (Inp w)) (setVisible (Inp w) enabled v)"

definition enableWidgets :: "input_widget \<Rightarrow> input_widget \<Rightarrow> bool \<Rightarrow> visibility \<Rightarrow> visibility" where
  "enableWidgets w1 w2 enabled v = enableWidget w2 enabled (enableWidget w1 enabled v)"

definition setupVisibility :: "'z editor_env_scheme \<Rightarrow> editor \<Rightarrow> (visibility \<Rightarrow> visibility) list" where
  "setupVisibility en ed =
     (let anonymous = set_anonymousMode (ee_settings en) in
      [enableWidgets copilotLastNameInput copilotFirstNameInput (isCopilotActive en ed),
       setVisible (Lab pilotLabel) (\<not> anonymous),
       setVisible (Lab pilotFirstNameLabel) (\<not> anonymous),
       setVisible (Lab pilotLastNameLabel) (\<not> anonymous),
       setVisible (Inp pilotFirstNameInput) (\<not> anonymous),
       setVisible (Inp pilotLastNameInput) (\<not> anonymous),
       setVisible (Lab copilotLabel) (\<not> anonymous),
       setVisible (Lab copilotFirstNameLabel) (\<not> anonymous),
       setVisible (Lab copilotLastNameLabel) (\<not> anonymous),
       setVisible (Inp copilotLastNameInput) (\<not> anonymous),
       setVisible (Inp copilotFirstNameInput) (\<not> anonymous),
       setVisible (Lab numPaxLabel) anonymous,
       setVisible (Inp numPaxInput) anonymous,
       setVisible (Lab numCrewLabel) anonymous,
       setVisible (Inp numCrewInput) anonymous,
       enableWidget launchMethodInput (isLaunchMethodActive ed),
       enableWidget towplaneRegistrationInput (isTowplaneRegistrationActive ed),
       enableWidget towplaneTypeWidget (isTowplaneTypeActive ed),
       enableWidgets towpilotLastNameInput towpilotFirstNameInput (isTowpilotActive en ed),
       enableWidget towflightModeInput (isTowflightModeActive ed),
       enableWidget departureTimeCheckbox (isDepartureActive ed),
       setVisible (Inp departureTimeWidget) (isDepartureTimeActive ed),
       enableWidget landingTimeCheckbox (isLandingActive ed),
       setVisible (Inp landingTimeWidget) (isLandingTimeActive ed),
       enableWidget towflightLandingTimeCheckbox (isTowflightLandingActive ed),
       setVisible (Inp towflightLandingTimeWidget) (isTowflightLandingTimeActive ed),
       enableWidget towflightLandingLocationInput (isTowflightLandingLocationActive ed),
       enableWidget errorList (isErrorListActive ed)])"

definition updateSetupVisibility :: "'z editor_env_scheme \<Rightarrow> editor \<Rightarrow> editor" where
  "updateSetupVisibility en ed =
     ed\<lparr>ui_visible := fold (\<lambda>step v. step v) (setupVisibility en ed) (ui_visible ed)\<rparr>"

text \<open>The slot of the settings.\<close>

definition settingsChanged :: "'z editor_env_scheme \<Rightarrow> editor \<Rightarrow> editor" where
  "settingsChanged en ed =
     (let tp = set_recordTowpilot (ee_settings en) in
      ed\<lparr>ui_visible := fold (\<lambda>w. setVisible w tp)
        [Inp towpilotLastNameInput, Inp towpilotFirstNameInput, Lab towpilotLabel, Lab towpilotLastNameLabel,
         Lab towpilotFirstNameLabel] (ui_visible ed)\<rparr>)"

definition updateSetupLabels :: "editor \<Rightarrow> editor" where
  "updateSetupLabels ed =
     (let t1 = (case ed_mode ed of
            modeCreate \<Rightarrow> (ui_text ed)
              (Inp departureTimeCheckbox := ''Au&tomatic'', Inp landingTimeCheckbox := ''&Automatic'',
               Inp towflightLandingTimeCheckbox := ''A&utomatic'')
          | modeEdit \<Rightarrow> (ui_text ed)
              (Inp departureTimeCheckbox := ''Depar&ted'', Inp landingTimeCheckbox := ''L&anded'',
               Inp towflightLandingTimeCheckbox :=
                 (if currentTowLandsHere ed then ''Lande&d'' else ''Finishe&d'')))
      in ed\<lparr>ui_text := t1
           (Lab towflightLandingTimeLabel :=
              (if currentTowLandsHere ed then ''Landing ti&me towplane:'' else ''Release ti&me:''),
            Lab pilotLabel := firstToUpper (typePilotDescription (getCurrentFlightType ed)) @ '':'',
            Lab copilotLabel := firstToUpper (typeCopilotDescription (getCurrentFlightType ed)) @ '':'')\<rparr>)"

definition updateSetupButtons :: "'z editor_env_scheme \<Rightarrow> editor \<Rightarrow> editor" where
  "updateSetupButtons en ed =
     (let nowPossible = isNowActionPossible en ed;
          v = setVisible (Lab okButton) (\<not> nowPossible) (setVisible (Lab laterButton) nowPossible
                (setVisible (Lab nowButton) nowPossible (ui_visible ed)));
          t = (if nowPossible
               then (if currentDepartsHere ed
                     then (ui_text ed)(Lab nowButton := ''Depart n&ow'', Lab laterButton := ''Depart &later'')
                     else if currentLandsHere ed
                     then (ui_text ed)(Lab nowButton := ''Land n&ow'', Lab laterButton := ''Land &later'')
                     else ui_text ed)
               else ui_text ed)
      in ed\<lparr>ui_visible := v, ui_default := Some (if nowPossible then laterButton else okButton), ui_text := t\<rparr>)"

definition updateSetup :: "'z editor_env_scheme \<Rightarrow> editor \<Rightarrow> editor" where
  "updateSetup en ed = updateSetupButtons en (updateSetupLabels (updateSetupVisibility en ed))"

section \<open>The error list\<close>

fun getErrorWidget :: "flight_error \<Rightarrow> input_widget option" where
  "getErrorWidget idMissing = None"
| "getErrorWidget noError = None"
| "getErrorWidget planeMissing = Some registrationInput"
| "getErrorWidget pilotMissing = Some pilotLastNameInput"
| "getErrorWidget pilotEqualsCopilot = Some copilotLastNameInput"
| "getErrorWidget pilotFirstNameMissing = Some pilotFirstNameInput"
| "getErrorWidget pilotLastNameMissing = Some pilotLastNameInput"
| "getErrorWidget pilotNotIdentified = Some pilotLastNameInput"
| "getErrorWidget copilotFirstNameMissing = Some copilotFirstNameInput"
| "getErrorWidget copilotLastNameMissing = Some copilotLastNameInput"
| "getErrorWidget copilotNotIdentified = Some copilotLastNameInput"
| "getErrorWidget trainingWithoutInstructor = Some copilotLastNameInput"
| "getErrorWidget copilotNotAllowed = Some copilotLastNameInput"
| "getErrorWidget landingWithoutDeparture = Some landingTimeInput"
| "getErrorWidget landingBeforeDeparture = Some landingTimeInput"
| "getErrorWidget launchMethodMissing = Some launchMethodInput"
| "getErrorWidget modeMissing = Some flightModeInput"
| "getErrorWidget towflightModeMissing = Some towflightModeInput"
| "getErrorWidget typeMissing = Some flightTypeInput"
| "getErrorWidget numLandingsNegative = Some numLandingsInput"
| "getErrorWidget trainingInSingleSeater = Some copilotLastNameInput"
| "getErrorWidget departureLocationMissing = Some departureLocationInput"
| "getErrorWidget landingLocationMissing = Some landingLocationInput"
| "getErrorWidget towflightLandingLocationMissing = Some towflightLandingLocationInput"
| "getErrorWidget gliderMultipleLandings = Some numLandingsInput"
| "getErrorWidget copilotInSingleSeater = Some copilotLastNameInput"
| "getErrorWidget passengerFlightInSingleSeater = Some flightTypeInput"
| "getErrorWidget gliderSelfLaunch = Some launchMethodInput"
| "getErrorWidget towflightLandingWithoutDeparture = Some towflightLandingTimeInput"
| "getErrorWidget towflightLandingBeforeDeparture = Some towflightLandingTimeInput"
| "getErrorWidget numLandingsZero = Some numLandingsInput"
| "getErrorWidget landingsWithoutDeparture = Some numLandingsInput"
| "getErrorWidget gliderLandingsWithoutLandingTime = Some numLandingsInput"
| "getErrorWidget landingLocationEqualsDepartureLocation = Some landingLocationInput"
| "getErrorWidget towplaneMissing = Some towplaneRegistrationInput"
| "getErrorWidget towplaneIsGlider = Some towplaneRegistrationInput"
| "getErrorWidget pilotEqualsTowpilot = Some pilotLastNameInput"
| "getErrorWidget towpilotFirstNameMissing = Some towpilotFirstNameInput"
| "getErrorWidget towpilotLastNameMissing = Some towpilotLastNameInput"
| "getErrorWidget towpilotNotIdentified = Some towpilotLastNameInput"

text \<open>An error that only says that the id of an input is not known yet is skipped.\<close>

definition skipError :: "'z editor_env_scheme \<Rightarrow> editor \<Rightarrow> flight_error \<Rightarrow> bool" where
  "skipError en ed e =
     (let registration = cb_text (ui_registration ed);
          towplaneRegistration = cb_text (ui_towplaneRegistration ed);
          planeSpec = (\<not> (isNone registration \<or> registration = ee_prefix en));
          towplaneSpec = (\<not> (isNone towplaneRegistration \<or> towplaneRegistration = ee_prefix en));
          pilotSpec = (\<not> isNone2 (cb_text (ui_pilotLastName ed)) (cb_text (ui_pilotFirstName ed)));
          copilotSpec = (\<not> isNone2 (cb_text (ui_copilotLastName ed)) (cb_text (ui_copilotFirstName ed)))
      in (e = planeMissing \<and> planeSpec) \<or> (e = pilotMissing \<and> pilotSpec)
         \<or> (e = trainingWithoutInstructor \<and> copilotSpec) \<or> (e = towplaneMissing \<and> towplaneSpec))"

definition shownErrors :: "'z editor_env_scheme \<Rightarrow> editor \<Rightarrow> flight_error list" where
  "shownErrors en ed =
     filter (\<lambda>e. \<not> skipError en ed e)
       (fst (getErrors (ee_settings en) True (cacheView (ed_cache ed)) (determineFlightBasic en ed)))"

text \<open>A label that belongs to the widget of an error is marked: the one that was inserted last.\<close>

definition markedLabels :: "flight_error list \<Rightarrow> label_widget list" where
  "markedLabels es = concat (map (\<lambda>e. case getErrorWidget e of
     None \<Rightarrow> [] | Some w \<Rightarrow> (case rev (labelsOf (Inp w)) of [] \<Rightarrow> [] | l # _ \<Rightarrow> [l])) es)"

definition updateErrors :: "'z editor_env_scheme \<Rightarrow> bool \<Rightarrow> editor \<Rightarrow> editor" where
  "updateErrors en setFocus ed =
     (if \<not> isErrorListActive ed then ed
      else (let es = shownErrors en ed in ed
        \<lparr>ui_errors := es, ui_marked := (\<lambda>l. l \<in> set (markedLabels es)),
         ui_focus := (if setFocus
            then (case List.map_filter getErrorWidget es of w # _ \<Rightarrow> Some w | [] \<Rightarrow> ui_focus ed)
            else ui_focus ed)\<rparr>))"

section \<open>Changes of an input\<close>

definition registrationChanged :: "qstring \<Rightarrow> editor \<Rightarrow> editor" where
  "registrationChanged registration ed =
     (let c = ed_cache ed; i = getPlaneIdByRegistration c registration;
          ed1 = ed\<lparr>ed_selectedPlane := i\<rparr>;
          typeText = (\<lambda>t. ed1\<lparr>ui_text := (ui_text ed1)(Inp planeTypeWidget := t)\<rparr>)
      in if idValid i
         then (case getObject (planesById c) i of
             Inr p \<Rightarrow> (let ed2 = typeText (pl_type p) in
               if pl_selfLaunchOnly p \<and> idInvalid (getCurrentLaunchMethodId ed2)
               then ed2\<lparr>ui_launchMethod :=
                      setCurrentItemByItemData (getLaunchMethodByType c typeSelf) (ui_launchMethod ed2)\<rparr>
               else ed2)
           | Inl _ \<Rightarrow> typeText ''?'')
         else typeText ''-'')"

text \<open>For an unknown registration the code writes to the type of the plane instead of the towplane.\<close>

definition towplaneRegistrationChanged :: "qstring \<Rightarrow> editor \<Rightarrow> editor" where
  "towplaneRegistrationChanged registration ed =
     (let c = ed_cache ed; i = getPlaneIdByRegistration c registration;
          ed1 = ed\<lparr>ed_selectedTowplane := i\<rparr>
      in if idValid i
         then (case getObject (planesById c) i of
             Inr p \<Rightarrow> ed1\<lparr>ui_text := (ui_text ed1)(Inp towplaneTypeWidget := pl_type p)\<rparr>
           | Inl _ \<Rightarrow> ed1\<lparr>ui_text := (ui_text ed1)(Inp towplaneTypeWidget := ''?'')\<rparr>)
         else ed1\<lparr>ui_text := (ui_text ed1)(Inp planeTypeWidget := ''-'')\<rparr>)"

definition pilotLastNameChanged :: "'z editor_env_scheme \<Rightarrow> qstring \<Rightarrow> editor \<Rightarrow> editor" where
  "pilotLastNameChanged en name ed =
     (let (i, b) = fillFirstNames (ed_cache ed) (isPilotActive en ed) name False (ui_pilotFirstName ed)
      in ed\<lparr>ui_pilotFirstName := b, ed_selectedPilot := i\<rparr>)"
definition pilotFirstNameChanged :: "'z editor_env_scheme \<Rightarrow> qstring \<Rightarrow> editor \<Rightarrow> editor" where
  "pilotFirstNameChanged en name ed =
     (let (i, b) = fillLastNames (ed_cache ed) (isPilotActive en ed) name False (ui_pilotLastName ed)
      in ed\<lparr>ui_pilotLastName := b, ed_selectedPilot := i\<rparr>)"
definition copilotLastNameChanged :: "'z editor_env_scheme \<Rightarrow> qstring \<Rightarrow> editor \<Rightarrow> editor" where
  "copilotLastNameChanged en name ed =
     (let (i, b) = fillFirstNames (ed_cache ed) (isCopilotActive en ed) name False (ui_copilotFirstName ed)
      in ed\<lparr>ui_copilotFirstName := b, ed_selectedCopilot := i\<rparr>)"
definition copilotFirstNameChanged :: "'z editor_env_scheme \<Rightarrow> qstring \<Rightarrow> editor \<Rightarrow> editor" where
  "copilotFirstNameChanged en name ed =
     (let (i, b) = fillLastNames (ed_cache ed) (isCopilotActive en ed) name False (ui_copilotLastName ed)
      in ed\<lparr>ui_copilotLastName := b, ed_selectedCopilot := i\<rparr>)"
definition towpilotLastNameChanged :: "'z editor_env_scheme \<Rightarrow> qstring \<Rightarrow> editor \<Rightarrow> editor" where
  "towpilotLastNameChanged en name ed =
     (let (i, b) = fillFirstNames (ed_cache ed) (isTowpilotActive en ed) name False (ui_towpilotFirstName ed)
      in ed\<lparr>ui_towpilotFirstName := b, ed_selectedTowpilot := i\<rparr>)"
definition towpilotFirstNameChanged :: "'z editor_env_scheme \<Rightarrow> qstring \<Rightarrow> editor \<Rightarrow> editor" where
  "towpilotFirstNameChanged en name ed =
     (let (i, b) = fillLastNames (ed_cache ed) (isTowpilotActive en ed) name False (ui_towpilotLastName ed)
      in ed\<lparr>ui_towpilotLastName := b, ed_selectedTowpilot := i\<rparr>)"

definition canChange :: "'z editor_env_scheme \<Rightarrow> combo \<Rightarrow> bool" where
  "canChange en b = locationEntryCanBeChanged (set_location (ee_settings en)) (cb_text b)"

definition changeLocation :: "'z editor_env_scheme \<Rightarrow> qstring \<Rightarrow> combo \<Rightarrow> combo" where
  "changeLocation en location b = (if canChange en b then cb_setEditText location b else b)"

definition flightModeChanged :: "'z editor_env_scheme \<Rightarrow> flight_mode \<Rightarrow> editor \<Rightarrow> editor" where
  "flightModeChanged en flightMode ed =
     (if ed_mode ed = modeCreate
      then (if modeDepartsHere flightMode
            then ed\<lparr>ui_departureLocation := changeLocation en (set_location (ee_settings en)) (ui_departureLocation ed),
                    ui_landingLocation := changeLocation en [] (ui_landingLocation ed)\<rparr>
            else ed\<lparr>ui_departureLocation := changeLocation en [] (ui_departureLocation ed)\<rparr>)
      else ed)"

definition landingTimeCheckboxChanged :: "'z editor_env_scheme \<Rightarrow> bool \<Rightarrow> editor \<Rightarrow> editor" where
  "landingTimeCheckboxChanged en checked ed =
     (if getTimeFieldActive ed checked
      then ed\<lparr>ui_landingLocation := changeLocation en (set_location (ee_settings en)) (ui_landingLocation ed),
              ui_numLandings := (if ui_numLandings ed = 0 then 1 else ui_numLandings ed)\<rparr>
      else ed\<lparr>ui_landingLocation := changeLocation en [] (ui_landingLocation ed)\<rparr>)"

definition towflightLandingTimeCheckboxChanged :: "'z editor_env_scheme \<Rightarrow> bool \<Rightarrow> editor \<Rightarrow> editor" where
  "towflightLandingTimeCheckboxChanged en checked ed =
     ed\<lparr>ui_towflightLandingLocation := changeLocation en
          (if currentTowLandsHere ed \<and> getTimeFieldActive ed checked then set_location (ee_settings en) else [])
          (ui_towflightLandingLocation ed)\<rparr>"

subsection \<open>What the user does\<close>

text \<open>Every input of the user changes a widget and runs its slot: the change handler, then
  \<open>updateSetup\<close> and \<open>updateErrors\<close>. The handlers that do nothing are left out.\<close>

datatype edit_action =
    EditRegistration qstring | EditFlightType flight_type
  | EditPilotLastName qstring | EditPilotFirstName qstring
  | EditCopilotLastName qstring | EditCopilotFirstName qstring
  | EditNumCrew int | EditNumPax int
  | EditFlightMode flight_mode | EditLaunchMethod dbId
  | EditTowplaneRegistration qstring | EditTowpilotLastName qstring | EditTowpilotFirstName qstring
  | EditTowflightMode flight_mode
  | ClickDepartureTime | EditDepartureTime int | ClickLandingTime | EditLandingTime int
  | ClickTowflightLandingTime | EditTowflightLandingTime int
  | EditDepartureLocation qstring | EditLandingLocation qstring | EditTowflightLandingLocation qstring
  | EditNumLandings int | EditComment qstring | EditAccountingNote qstring | EditDate int

text \<open>The widget keeps a time within the day, a number within its range and an entry of its list.\<close>

fun applyAction :: "'z editor_env_scheme \<Rightarrow> edit_action \<Rightarrow> editor \<Rightarrow> editor option" where
  "applyAction en (EditRegistration t) ed =
     Some (registrationChanged t (ed\<lparr>ui_registration := cb_setEditText t (ui_registration ed)\<rparr>))"
| "applyAction en (EditFlightType t) ed =
     Some (ed\<lparr>ui_flightType := setCurrentItemByItemData t (ui_flightType ed)\<rparr>)"
| "applyAction en (EditPilotLastName t) ed =
     Some (pilotLastNameChanged en t (ed\<lparr>ui_pilotLastName := cb_setEditText t (ui_pilotLastName ed)\<rparr>))"
| "applyAction en (EditPilotFirstName t) ed =
     Some (pilotFirstNameChanged en t (ed\<lparr>ui_pilotFirstName := cb_setEditText t (ui_pilotFirstName ed)\<rparr>))"
| "applyAction en (EditCopilotLastName t) ed =
     Some (copilotLastNameChanged en t (ed\<lparr>ui_copilotLastName := cb_setEditText t (ui_copilotLastName ed)\<rparr>))"
| "applyAction en (EditCopilotFirstName t) ed =
     Some (copilotFirstNameChanged en t (ed\<lparr>ui_copilotFirstName := cb_setEditText t (ui_copilotFirstName ed)\<rparr>))"
| "applyAction en (EditNumCrew n) ed = Some (ed\<lparr>ui_numCrew := clampTo 1 99 n\<rparr>)"
| "applyAction en (EditNumPax n) ed = Some (ed\<lparr>ui_numPax := clampTo 0 99 n\<rparr>)"
| "applyAction en (EditFlightMode m) ed =
     (let ed1 = ed\<lparr>ui_flightMode := setCurrentItemByItemData m (ui_flightMode ed)\<rparr>
      in Some (flightModeChanged en (getCurrentFlightMode ed1) ed1))"
| "applyAction en (EditLaunchMethod i) ed =
     launchMethodChanged (ed\<lparr>ui_launchMethod := setCurrentItemByItemData i (ui_launchMethod ed)\<rparr>)"
| "applyAction en (EditTowplaneRegistration t) ed =
     Some (towplaneRegistrationChanged t (ed\<lparr>ui_towplaneRegistration := cb_setEditText t (ui_towplaneRegistration ed)\<rparr>))"
| "applyAction en (EditTowpilotLastName t) ed =
     Some (towpilotLastNameChanged en t (ed\<lparr>ui_towpilotLastName := cb_setEditText t (ui_towpilotLastName ed)\<rparr>))"
| "applyAction en (EditTowpilotFirstName t) ed =
     Some (towpilotFirstNameChanged en t (ed\<lparr>ui_towpilotFirstName := cb_setEditText t (ui_towpilotFirstName ed)\<rparr>))"
| "applyAction en (EditTowflightMode m) ed =
     Some (ed\<lparr>ui_towflightMode := setCurrentItemByItemData m (ui_towflightMode ed)\<rparr>)"
| "applyAction en ClickDepartureTime ed =
     Some (ed\<lparr>ui_departureTimeChecked := \<not> ui_departureTimeChecked ed, ui_focus := Some departureTimeInput\<rparr>)"
| "applyAction en (EditDepartureTime t) ed = Some (ed\<lparr>ui_departureTime := t mod 86400000\<rparr>)"
| "applyAction en ClickLandingTime ed =
     Some (landingTimeCheckboxChanged en (\<not> ui_landingTimeChecked ed)
       (ed\<lparr>ui_landingTimeChecked := \<not> ui_landingTimeChecked ed, ui_focus := Some landingTimeInput\<rparr>))"
| "applyAction en (EditLandingTime t) ed = Some (ed\<lparr>ui_landingTime := t mod 86400000\<rparr>)"
| "applyAction en ClickTowflightLandingTime ed =
     Some (towflightLandingTimeCheckboxChanged en (\<not> ui_towflightLandingTimeChecked ed)
       (ed\<lparr>ui_towflightLandingTimeChecked := \<not> ui_towflightLandingTimeChecked ed,
           ui_focus := Some towflightLandingTimeInput\<rparr>))"
| "applyAction en (EditTowflightLandingTime t) ed = Some (ed\<lparr>ui_towflightLandingTime := t mod 86400000\<rparr>)"
| "applyAction en (EditDepartureLocation t) ed =
     Some (ed\<lparr>ui_departureLocation := cb_setEditText t (ui_departureLocation ed)\<rparr>)"
| "applyAction en (EditLandingLocation t) ed =
     Some (ed\<lparr>ui_landingLocation := cb_setEditText t (ui_landingLocation ed)\<rparr>)"
| "applyAction en (EditTowflightLandingLocation t) ed =
     Some (ed\<lparr>ui_towflightLandingLocation := cb_setEditText t (ui_towflightLandingLocation ed)\<rparr>)"
| "applyAction en (EditNumLandings n) ed = Some (ed\<lparr>ui_numLandings := clampTo 0 65535 n\<rparr>)"
| "applyAction en (EditComment t) ed = Some (ed\<lparr>ui_comment := t\<rparr>)"
| "applyAction en (EditAccountingNote t) ed =
     Some (ed\<lparr>ui_accountingNote := cb_setEditText t (ui_accountingNote ed)\<rparr>)"
| "applyAction en (EditDate d) ed = Some (ed\<lparr>ui_date := d\<rparr>)"

definition refresh :: "'z editor_env_scheme \<Rightarrow> editor \<Rightarrow> editor" where
  "refresh en ed = updateErrors en False (updateSetup en ed)"

text \<open>The crew spin boxes have no slot.\<close>

fun hasSlot :: "edit_action \<Rightarrow> bool" where
  "hasSlot (EditNumCrew n) = False"
| "hasSlot (EditNumPax n) = False"
| "hasSlot _ = True"

definition userEdit :: "'z editor_env_scheme \<Rightarrow> edit_action \<Rightarrow> editor \<Rightarrow> editor option" where
  "userEdit en a ed = map_option (if hasSlot a then refresh en else id) (applyAction en a ed)"

section \<open>Changes of the cache\<close>

text \<open>A spin box or time edit that changes runs its slot, which refreshes the window.\<close>

definition refreshIf :: "'z editor_env_scheme \<Rightarrow> bool \<Rightarrow> editor \<Rightarrow> editor" where
  "refreshIf en changed ed = (if changed then refresh en ed else ed)"

definition takeDeparture :: "'z editor_env_scheme \<Rightarrow> flight \<Rightarrow> editor \<Rightarrow> editor" where
  "takeDeparture en n ed =
     (if getDeparted n \<noteq> getDeparted (ed_originalFlight ed)
      then (let ed1 = ed\<lparr>ui_departureTimeChecked := getTimeFieldCheckboxValue ed (getDeparted n)\<rparr>;
                t = setEdit (timeOfDay (getDepartureTime n)) (ui_departureTime ed1);
                ed2 = refreshIf en (t \<noteq> ui_departureTime ed1) (ed1\<lparr>ui_departureTime := t\<rparr>)
            in ed2\<lparr>ed_originalFlight := setDepartureTime (getDepartureTime n)
                     (setDeparted (getDeparted n) (ed_originalFlight ed2))\<rparr>)
      else ed)"

definition takeLanding :: "'z editor_env_scheme \<Rightarrow> flight \<Rightarrow> editor \<Rightarrow> editor" where
  "takeLanding en n ed =
     (if getLanded n \<noteq> getLanded (ed_originalFlight ed)
      then (let ed1 = ed\<lparr>ui_landingTimeChecked := getTimeFieldCheckboxValue ed (getLanded n)\<rparr>;
                t = setEdit (timeOfDay (getLandingTime n)) (ui_landingTime ed1);
                ed2 = refreshIf en (t \<noteq> ui_landingTime ed1) (ed1\<lparr>ui_landingTime := t\<rparr>)
            in ed2\<lparr>ed_originalFlight := setLandingTime (getLandingTime n)
                     (setLanded (getLanded n) (ed_originalFlight ed2))\<rparr>)
      else ed)"

definition takeTowflightLanding :: "'z editor_env_scheme \<Rightarrow> flight \<Rightarrow> editor \<Rightarrow> editor" where
  "takeTowflightLanding en n ed =
     (if getTowflightLanded n \<noteq> getTowflightLanded (ed_originalFlight ed)
      then (let ed1 = ed\<lparr>ui_towflightLandingTimeChecked := getTimeFieldCheckboxValue ed (getTowflightLanded n)\<rparr>;
                t = setEdit (timeOfDay (getTowflightLandingTime n)) (ui_towflightLandingTime ed1);
                ed2 = refreshIf en (t \<noteq> ui_towflightLandingTime ed1) (ed1\<lparr>ui_towflightLandingTime := t\<rparr>)
            in ed2\<lparr>ed_originalFlight := setTowflightLandingTime (getTowflightLandingTime n)
                     (setTowflightLanded (getTowflightLanded n) (ed_originalFlight ed2))\<rparr>)
      else ed)"

definition takeNumLandings :: "'z editor_env_scheme \<Rightarrow> flight \<Rightarrow> editor \<Rightarrow> editor" where
  "takeNumLandings en n ed =
     (if getNumLandings n \<noteq> getNumLandings (ed_originalFlight ed)
      then (let x = clampTo 0 65535 (getNumLandings n);
                ed1 = refreshIf en (x \<noteq> ui_numLandings ed) (ed\<lparr>ui_numLandings := x\<rparr>)
            in ed1\<lparr>ed_originalFlight := setNumLandings (getNumLandings n) (ed_originalFlight ed1)\<rparr>)
      else ed)"

definition takeLandingLocation :: "'z editor_env_scheme \<Rightarrow> flight \<Rightarrow> editor \<Rightarrow> editor" where
  "takeLandingLocation en n ed =
     (if getLandingLocation n \<noteq> getLandingLocation (ed_originalFlight ed)
      then refresh en (ed\<lparr>ui_landingLocation := cb_setEditText (getLandingLocation n) (ui_landingLocation ed),
             ed_originalFlight := setLandingLocation (getLandingLocation n) (ed_originalFlight ed)\<rparr>)
      else ed)"

definition takeTowflightLandingLocation :: "'z editor_env_scheme \<Rightarrow> flight \<Rightarrow> editor \<Rightarrow> editor" where
  "takeTowflightLandingLocation en n ed =
     (if getTowflightLandingLocation n \<noteq> getTowflightLandingLocation (ed_originalFlight ed)
      then refresh en (ed\<lparr>ui_towflightLandingLocation :=
               cb_setEditText (getTowflightLandingLocation n) (ui_towflightLandingLocation ed),
             ed_originalFlight :=
               setTowflightLandingLocation (getTowflightLandingLocation n) (ed_originalFlight ed)\<rparr>)
      else ed)"

definition takeChanges :: "'z editor_env_scheme \<Rightarrow> flight \<Rightarrow> editor \<Rightarrow> editor" where
  "takeChanges en n ed =
     takeNumLandings en n (takeTowflightLandingLocation en n (takeLandingLocation en n
       (takeNumLandings en n (takeTowflightLanding en n (takeLanding en n (takeDeparture en n ed))))))"

text \<open>The cache has handled the event already and announces it; \<open>reject\<close> closes the window.\<close>

definition editorCacheChanged :: "'z editor_env_scheme \<Rightarrow> db_event \<Rightarrow> editor \<Rightarrow> editor" where
  "editorCacheChanged en e ed =
     (if ed_mode ed = modeEdit \<and> ev_table e = tableFlights \<and> ev_id e = ed_originalFlightId ed
      then (case ev_type e of
          typeChange \<Rightarrow> (case valueFlight (ev_value e) of Some n \<Rightarrow> takeChanges en n ed | None \<Rightarrow> ed)
        | typeDelete \<Rightarrow> ed\<lparr>ed_open := False\<rparr>
        | typeAdd \<Rightarrow> ed)
      else ed)"

section \<open>Invocation\<close>

definition setupTitle :: "editor \<Rightarrow> editor" where
  "setupTitle ed = ed\<lparr>ui_text := (ui_text ed)(Inp editorWindow :=
     (case ed_mode ed of modeCreate \<Rightarrow> ''Create flight'' | modeEdit \<Rightarrow> ''Edit flight''))\<rparr>"

text \<open>The constructor; \<open>original\<close> is the default constructed \<open>originalFlight\<close>.\<close>

definition newEditor :: "'z editor_env_scheme \<Rightarrow> editor_mode \<Rightarrow> cache \<Rightarrow> editor" where
  "newEditor en m c =
     (let ed1 = setupTitle (fillData en (fillLists (settingsChanged en
                  (formWidgets m c (newFlight (ee_mem en) invalidId)))));
          ed2 = (if m = modeCreate
                 then ed1\<lparr>ui_visible := setVisible (Lab errorLabel) False (setVisible (Inp errorList) False (ui_visible ed1)),
                          ui_departureLocation :=
                            cb_setEditText (set_location (ee_settings en)) (ui_departureLocation ed1)\<rparr>
                 else ed1)
      in (updateErrors en False (updateSetup en ed2))\<lparr>ui_focus := Some registrationInput\<rparr>)"

definition ew_createFlight :: "'z editor_env_scheme \<Rightarrow> cache \<Rightarrow> int \<Rightarrow> dbId \<Rightarrow> editor" where
  "ew_createFlight en c date preselectedLaunchMethod =
     (let ed = updateSetup en ((newEditor en modeCreate c)\<lparr>ui_date := date\<rparr>) in
      if idValid preselectedLaunchMethod
      then ed\<lparr>ui_launchMethod := setCurrentItemByItemData preselectedLaunchMethod (ui_launchMethod ed)\<rparr>
      else ed)"

definition ew_repeatFlight :: "'z editor_env_scheme \<Rightarrow> cache \<Rightarrow> flight \<Rightarrow> int \<Rightarrow> editor option" where
  "ew_repeatFlight en c original date =
     map_option (\<lambda>ed. (updateSetup en (ed\<lparr>ui_date := date\<rparr>))\<lparr>ui_focus := Some launchMethodInput\<rparr>)
       (flightToFields en original True (newEditor en modeCreate c))"

text \<open>\<open>identify\<close> is \<open>interactiveIdentifyPlane\<close> for the answers of the user: the plane id, and the cache
  afterwards, to which a plane may have been added. The type of the plane goes to the wrong label.\<close>

definition identifyPlane :: "(cache \<Rightarrow> flight \<Rightarrow> dbId \<times> cache) \<Rightarrow> flight \<Rightarrow> editor \<Rightarrow> editor" where
  "identifyPlane identify f ed =
     (if getFlarmId f = [] then ed
      else if idValid (getPlaneId f) then ed
      else (let (i, c) = identify (ed_cache ed) f; ed1 = ed\<lparr>ed_cache := c\<rparr> in
            if idValid i \<and> i \<noteq> getPlaneId f
            then (let (registration, typeText) =
                        planeToFields c i (ui_registration ed1, ui_text ed1 (Lab planeTypeLabel))
                  in ed1\<lparr>ed_selectedPlane := i, ui_registration := registration,
                         ui_text := (ui_text ed1)(Lab planeTypeLabel := typeText)\<rparr>)
            else ed1))"

definition ew_editFlight ::
    "'z editor_env_scheme \<Rightarrow> (cache \<Rightarrow> flight \<Rightarrow> dbId \<times> cache) \<Rightarrow> cache \<Rightarrow> flight \<Rightarrow> editor option" where
  "ew_editFlight en identify c f =
     map_option (\<lambda>ed. updateErrors en True (identifyPlane identify f (updateSetup en ed)))
       (flightToFields en f False (newEditor en modeEdit c))"

end
