(* ===== verification/Sk_FlightEdit.thy ===== *)
theory Sk_FlightEdit
  imports Sk_FlightWindow
begin

text \<open>
  What the flight editor of \<open>Sk_FlightWindow\<close> guarantees: the states of the window that a session of the
  user reaches keep their inputs in range, a flight that was read from the inputs comes back unchanged
  when it is edited again, a change of the flight in the database is merged with the inputs, and the
  inputs that are shown.
\<close>

section \<open>Sessions\<close>

text \<open>A window is opened on the cache \<open>c\<close>; then the user edits, and the cache changes and announces it.\<close>

inductive session :: "'z editor_env_scheme \<Rightarrow> cache \<Rightarrow> editor \<Rightarrow> bool" for en c where
  session_create: "session en c (ew_createFlight en c date launch)"
| session_repeat: "ew_repeatFlight en c f date = Some ed \<Longrightarrow> session en c ed"
| session_edit: "ew_editFlight en identify c f = Some ed \<Longrightarrow> session en c ed"
| session_user: "session en c ed \<Longrightarrow> userEdit en a ed = Some ed' \<Longrightarrow> session en c ed'"
| session_cache: "session en c ed \<Longrightarrow> session en c (editorCacheChanged en e (ed\<lparr>ed_cache := c'\<rparr>))"

definition choice_ok :: "'a list \<Rightarrow> 'a choice \<Rightarrow> bool" where
  "choice_ok xs b \<longleftrightarrow> ch_items b = xs \<and> ch_current b \<in> Some ` set xs"

definition launchMethodItems :: "cache \<Rightarrow> dbId list" where
  "launchMethodItems c = invalidId # map lm_id (launchMethods c)"

definition inputs_ok :: "cache \<Rightarrow> editor \<Rightarrow> bool" where
  "inputs_ok c ed \<longleftrightarrow>
     choice_ok (listTypes False) (ui_flightType ed) \<and> choice_ok listModes (ui_flightMode ed)
   \<and> choice_ok listModes (ui_towflightMode ed) \<and> choice_ok (launchMethodItems c) (ui_launchMethod ed)
   \<and> ui_departureTime ed \<in> {0..<86400000} \<and> ui_landingTime ed \<in> {0..<86400000}
   \<and> ui_towflightLandingTime ed \<in> {0..<86400000}
   \<and> ui_numLandings ed \<in> {0..65535} \<and> ui_numCrew ed \<in> {1..99} \<and> ui_numPax ed \<in> {0..99}"

lemma choice_ok_set [simp]: "choice_ok xs b \<Longrightarrow> choice_ok xs (setCurrentItemByItemData v b)"
  by (auto simp: choice_ok_def setCurrentItemByItemData_def firstEqual_eq split: option.splits)

lemma window_shape:
  "\<exists>v t d. updateSetup en ed = ed\<lparr>ui_visible := v, ui_text := t, ui_default := d\<rparr>"
  "\<exists>e m w. updateErrors en b ed = ed\<lparr>ui_errors := e, ui_marked := m, ui_focus := w\<rparr>"
proof -
  show "\<exists>v t d. updateSetup en ed = ed\<lparr>ui_visible := v, ui_text := t, ui_default := d\<rparr>"
  proof -
    have 1: "\<exists>v. updateSetupVisibility en x = x\<lparr>ui_visible := v\<rparr>" for x
      unfolding updateSetupVisibility_def by (rule exI, rule refl)
    have 2: "\<exists>t. updateSetupLabels x = x\<lparr>ui_text := t\<rparr>" for x
      unfolding updateSetupLabels_def Let_def by (rule exI, rule refl)
    have 3: "\<exists>v d t. updateSetupButtons en x = x\<lparr>ui_visible := v, ui_default := d, ui_text := t\<rparr>" for x
      unfolding updateSetupButtons_def Let_def by ((rule exI)+, rule refl)
    obtain v1 where a: "updateSetupVisibility en ed = ed\<lparr>ui_visible := v1\<rparr>" using 1 by blast
    obtain t1 where b: "updateSetupLabels (ed\<lparr>ui_visible := v1\<rparr>) = ed\<lparr>ui_visible := v1, ui_text := t1\<rparr>" using 2 by blast
    obtain v d t where "updateSetupButtons en (ed\<lparr>ui_visible := v1, ui_text := t1\<rparr>)
        = ed\<lparr>ui_visible := v1, ui_text := t1, ui_visible := v, ui_default := d, ui_text := t\<rparr>" using 3 by blast
    then have "updateSetup en ed = ed\<lparr>ui_visible := v, ui_text := t, ui_default := d\<rparr>"
      by (simp add: updateSetup_def a b)
    then show ?thesis by blast
  qed
  show "\<exists>e m w. updateErrors en b ed = ed\<lparr>ui_errors := e, ui_marked := m, ui_focus := w\<rparr>"
  proof (cases "isErrorListActive ed")
    case False
    then have "updateErrors en b ed = ed\<lparr>ui_errors := ui_errors ed, ui_marked := ui_marked ed, ui_focus := ui_focus ed\<rparr>"
      by (simp add: updateErrors_def)
    then show ?thesis by blast
  next
    case True
    then show ?thesis by (simp only: updateErrors_def Let_def not_True_eq_False if_False) ((rule exI)+, rule refl)
  qed
qed

lemma refresh_shape:
  "\<exists>v t d e m w. refresh en ed =
     ed\<lparr>ui_visible := v, ui_text := t, ui_default := d, ui_errors := e, ui_marked := m, ui_focus := w\<rparr>"
proof -
  obtain v t d where 1: "updateSetup en ed = ed\<lparr>ui_visible := v, ui_text := t, ui_default := d\<rparr>"
    using window_shape(1) by blast
  obtain e m w where "updateErrors en False (updateSetup en ed) = (updateSetup en ed)\<lparr>ui_errors := e, ui_marked := m, ui_focus := w\<rparr>"
    using window_shape(2) by blast
  with 1 have "refresh en ed =
      ed\<lparr>ui_visible := v, ui_text := t, ui_default := d, ui_errors := e, ui_marked := m, ui_focus := w\<rparr>"
    by (simp add: refresh_def)
  then show ?thesis by blast
qed

lemma refresh_fields [simp]:
  "ed_mode (updateErrors en b ed) = ed_mode ed" "ed_mode (updateSetup en ed) = ed_mode ed"
  "ed_cache (updateErrors en b ed) = ed_cache ed" "ed_cache (updateSetup en ed) = ed_cache ed"
proof -
  obtain v t d where 1: "updateSetup en ed = ed\<lparr>ui_visible := v, ui_text := t, ui_default := d\<rparr>"
    using window_shape(1) by blast
  obtain e m w where 2: "updateErrors en b ed = ed\<lparr>ui_errors := e, ui_marked := m, ui_focus := w\<rparr>"
    using window_shape(2) by blast
  show "ed_mode (updateErrors en b ed) = ed_mode ed" "ed_cache (updateErrors en b ed) = ed_cache ed"
    by (simp_all add: 2)
  show "ed_mode (updateSetup en ed) = ed_mode ed" "ed_cache (updateSetup en ed) = ed_cache ed"
    by (simp_all add: 1)
qed

lemma newEditor_fields [simp]: "ed_mode (newEditor en m c) = m" "ed_cache (newEditor en m c) = c"
  by (simp_all add: newEditor_def Let_def)
    (simp_all add: setupTitle_def fillData_def fillLists_def settingsChanged_def formWidgets_def Let_def)

lemma ch_addItems: "ch_items b \<noteq> [] \<Longrightarrow> fold ch_addItem xs b = b\<lparr>ch_items := ch_items b @ xs\<rparr>"
  by (induction xs arbitrary: b) (auto simp: ch_addItem_def)

lemma ch_addItem_empty: "fold ch_addItem (x # xs) ch_empty = \<lparr>ch_items = x # xs, ch_current = Some x\<rparr>"
  by (simp add: ch_addItem_def ch_empty_def ch_addItems)

lemma clampTo_range [simp]: "low \<le> high \<Longrightarrow> clampTo low high x \<in> {low..high}"
  by (auto simp: clampTo_def)

lemma clampTo_id: "x \<in> {low..high} \<Longrightarrow> clampTo low high x = x"
  by (auto simp: clampTo_def)

lemma setEdit_time:
  "0 \<le> t \<Longrightarrow> 0 \<le> setEdit (timeOfDay v) t" "t < 86400000 \<Longrightarrow> setEdit (timeOfDay v) t < 86400000"
  by (cases v, simp_all add: setEdit_def timeOfDay_def)+

text \<open>What changes the window without its inputs.\<close>

lemma inputs_ok_simps [simp]:
  "inputs_ok c (ed\<lparr>ui_visible := v\<rparr>) = inputs_ok c ed"
  "inputs_ok c (ed\<lparr>ui_text := t\<rparr>) = inputs_ok c ed"
  "inputs_ok c (ed\<lparr>ui_focus := w\<rparr>) = inputs_ok c ed"
  "inputs_ok c (ed\<lparr>ed_cache := c'\<rparr>) = inputs_ok c ed"
  "inputs_ok c (ed\<lparr>ui_date := d\<rparr>) = inputs_ok c ed"
  "inputs_ok c (ed\<lparr>ed_originalFlight := f\<rparr>) = inputs_ok c ed"
  "inputs_ok c (ed\<lparr>ui_registration := x\<rparr>) = inputs_ok c ed"
  "inputs_ok c (ed\<lparr>ui_pilotLastName := x\<rparr>) = inputs_ok c ed"
  "inputs_ok c (ed\<lparr>ui_pilotFirstName := x\<rparr>) = inputs_ok c ed"
  "inputs_ok c (ed\<lparr>ui_copilotLastName := x\<rparr>) = inputs_ok c ed"
  "inputs_ok c (ed\<lparr>ui_copilotFirstName := x\<rparr>) = inputs_ok c ed"
  "inputs_ok c (ed\<lparr>ui_towplaneRegistration := x\<rparr>) = inputs_ok c ed"
  "inputs_ok c (ed\<lparr>ui_towpilotLastName := x\<rparr>) = inputs_ok c ed"
  "inputs_ok c (ed\<lparr>ui_towpilotFirstName := x\<rparr>) = inputs_ok c ed"
  "inputs_ok c (ed\<lparr>ui_departureTimeChecked := b\<rparr>) = inputs_ok c ed"
  "inputs_ok c (ed\<lparr>ui_landingTimeChecked := b\<rparr>) = inputs_ok c ed"
  "inputs_ok c (ed\<lparr>ui_towflightLandingTimeChecked := b\<rparr>) = inputs_ok c ed"
  "inputs_ok c (ed\<lparr>ui_departureLocation := x\<rparr>) = inputs_ok c ed"
  "inputs_ok c (ed\<lparr>ui_landingLocation := x\<rparr>) = inputs_ok c ed"
  "inputs_ok c (ed\<lparr>ui_towflightLandingLocation := x\<rparr>) = inputs_ok c ed"
  "inputs_ok c (ed\<lparr>ui_comment := s\<rparr>) = inputs_ok c ed"
  "inputs_ok c (ed\<lparr>ui_accountingNote := x\<rparr>) = inputs_ok c ed"
  "inputs_ok c (ed\<lparr>ed_open := b\<rparr>) = inputs_ok c ed"
  "inputs_ok c (ed\<lparr>ed_selectedPlane := i\<rparr>) = inputs_ok c ed"
  "inputs_ok c (ed\<lparr>ed_selectedTowplane := i\<rparr>) = inputs_ok c ed"
  "inputs_ok c (ed\<lparr>ed_selectedPilot := i\<rparr>) = inputs_ok c ed"
  "inputs_ok c (ed\<lparr>ed_selectedCopilot := i\<rparr>) = inputs_ok c ed"
  "inputs_ok c (ed\<lparr>ed_selectedTowpilot := i\<rparr>) = inputs_ok c ed"
  "inputs_ok c (updateErrors en b ed) = inputs_ok c ed"
  "inputs_ok c (updateSetup en ed) = inputs_ok c ed"
  "inputs_ok c (refresh en ed) = inputs_ok c ed"
  "inputs_ok c (refreshIf en b ed) = inputs_ok c ed"
  by (simp_all add: inputs_ok_def updateErrors_def updateSetup_def updateSetupButtons_def
      updateSetupLabels_def updateSetupVisibility_def refresh_def refreshIf_def Let_def)

lemma inputs_ok_updates [simp]:
  assumes "inputs_ok c ed"
  shows "inputs_ok c (ed\<lparr>ui_flightType := setCurrentItemByItemData t (ui_flightType ed)\<rparr>)"
    "inputs_ok c (ed\<lparr>ui_flightMode := setCurrentItemByItemData m (ui_flightMode ed)\<rparr>)"
    "inputs_ok c (ed\<lparr>ui_towflightMode := setCurrentItemByItemData m (ui_towflightMode ed)\<rparr>)"
    "inputs_ok c (ed\<lparr>ui_launchMethod := setCurrentItemByItemData i (ui_launchMethod ed)\<rparr>)"
    "inputs_ok c (ed\<lparr>ui_numCrew := clampTo 1 99 n\<rparr>)"
    "inputs_ok c (ed\<lparr>ui_numPax := clampTo 0 99 n\<rparr>)"
    "inputs_ok c (ed\<lparr>ui_numLandings := clampTo 0 65535 n\<rparr>)"
    "inputs_ok c (ed\<lparr>ui_departureTime := x mod 86400000\<rparr>)"
    "inputs_ok c (ed\<lparr>ui_landingTime := x mod 86400000\<rparr>)"
    "inputs_ok c (ed\<lparr>ui_towflightLandingTime := x mod 86400000\<rparr>)"
  using assms by (auto simp: inputs_ok_def clampTo_def)

lemma choice_ok_fill: "xs \<noteq> [] \<Longrightarrow> choice_ok xs (fold ch_addItem xs ch_empty)"
proof (cases xs)
  case (Cons y ys)
  have "fold ch_addItem (y # ys) ch_empty = \<lparr>ch_items = y # ys, ch_current = Some y\<rparr>" by (rule ch_addItem_empty)
  then show ?thesis by (simp only: Cons choice_ok_def) simp
qed simp

lemma newEditor_ok [simp]: "inputs_ok c (newEditor en m c)"
proof -
  define methods where "methods = fold (\<lambda>l. ch_addItem (lm_id l)) (launchMethods c) (ch_addItem invalidId ch_empty)"
  have eq: "methods = fold ch_addItem (launchMethodItems c) ch_empty"
    by (simp add: methods_def launchMethodItems_def fold_map comp_def)
  have m: "choice_ok (launchMethodItems c) methods"
    unfolding eq by (rule choice_ok_fill) (simp add: launchMethodItems_def)
  have m1: "choice_ok (launchMethodItems c) (if length (launchMethods c) = 1 then setCurrentIndex 1 methods else methods)"
    using m by (auto simp: choice_ok_def setCurrentIndex_def launchMethodItems_def)
  have l: "choice_ok (listTypes False) (fold ch_addItem (listTypes False) ch_empty)"
    "choice_ok listModes (fold ch_addItem listModes ch_empty)"
    by (rule choice_ok_fill, simp add: listTypes_def listModes_def)+
  show ?thesis
    using m1 l by (simp add: newEditor_def Let_def)
      (simp add: inputs_ok_def setupTitle_def fillData_def fillLists_def settingsChanged_def formWidgets_def
        Let_def flip: methods_def split: if_splits)
qed

lemma launchMethodChanged_cases:
  "launchMethodChanged ed = Some ed' \<Longrightarrow> \<exists>t. ed' = ed\<lparr>ui_text := t\<rparr>"
  "launchMethodChanged ed = None \<longleftrightarrow> idValid (getCurrentLaunchMethodId ed)
     \<and> launchMethodsById (ed_cache ed) (getCurrentLaunchMethodId ed) = None"
proof -
  have keep: "\<exists>t. ed = ed\<lparr>ui_text := t\<rparr>" by (rule exI [of _ "ui_text ed"]) simp
  show "\<exists>t. ed' = ed\<lparr>ui_text := t\<rparr>" if "launchMethodChanged ed = Some ed'"
    using that keep unfolding launchMethodChanged_def Let_def
    by (auto split: if_splits sum.splits)
  show "launchMethodChanged ed = None \<longleftrightarrow> idValid (getCurrentLaunchMethodId ed)
     \<and> launchMethodsById (ed_cache ed) (getCurrentLaunchMethodId ed) = None"
    by (auto simp: launchMethodChanged_def Let_def getObject_def idValid_def split: if_splits sum.splits option.splits)
qed

section \<open>A flight written to the inputs\<close>

text \<open>The inputs that \<open>determineFlightBasic\<close> reads, after a flight was written to them.\<close>

lemma flightToFields1_fields:
  "ed_mode (flightToFields1 f r ed) = ed_mode ed"
  "ed_cache (flightToFields1 f r ed) = ed_cache ed"
  "ed_originalFlight (flightToFields1 f r ed) = (if r then dataChanged (f\<lparr>getVfId := invalidId\<rparr>) else f)"
  "ed_originalFlightId (flightToFields1 f r ed) = getId f"
  "ed_selectedPlane (flightToFields1 f r ed) = getPlaneId f"
  "ed_selectedTowplane (flightToFields1 f r ed) = getTowplaneId f"
  "ed_selectedPilot (flightToFields1 f r ed) = getPilotId f"
  "ed_selectedCopilot (flightToFields1 f r ed) = copilotToEdit f"
  "ed_selectedTowpilot (flightToFields1 f r ed) = getTowpilotId f"
  "ui_flightType (flightToFields1 f r ed) = setCurrentItemByItemData (getType f) (ui_flightType ed)"
  "ui_flightMode (flightToFields1 f r ed) = setCurrentItemByItemData (getMode f) (ui_flightMode ed)"
  "ui_launchMethod (flightToFields1 f r ed) = setCurrentItemByItemData (getLaunchMethodId f) (ui_launchMethod ed)"
  "ui_towflightMode (flightToFields1 f r ed) = ui_towflightMode ed"
  "ui_numCrew (flightToFields1 f r ed) = clampTo 1 99 (getNumCrew f)"
  "ui_numPax (flightToFields1 f r ed) = clampTo 0 99 (getNumPax f)"
  "ui_departureTime (flightToFields1 f r ed) = ui_departureTime ed"
  "ui_landingTime (flightToFields1 f r ed) = ui_landingTime ed"
  "ui_towflightLandingTime (flightToFields1 f r ed) = ui_towflightLandingTime ed"
  "ui_numLandings (flightToFields1 f r ed) = ui_numLandings ed"
  "ui_date (flightToFields1 f r ed) = ui_date ed"
  by (simp_all add: flightToFields1_def Let_def split_def)

lemma flightToFields2_fields:
  "ed_mode (flightToFields2 en f r ed) = ed_mode ed"
  "ed_cache (flightToFields2 en f r ed) = ed_cache ed"
  "ed_originalFlight (flightToFields2 en f r ed) = ed_originalFlight ed"
  "ed_originalFlightId (flightToFields2 en f r ed) = ed_originalFlightId ed"
  "ed_selectedPlane (flightToFields2 en f r ed) = ed_selectedPlane ed"
  "ed_selectedTowplane (flightToFields2 en f r ed) = ed_selectedTowplane ed"
  "ed_selectedPilot (flightToFields2 en f r ed) = ed_selectedPilot ed"
  "ed_selectedCopilot (flightToFields2 en f r ed) = ed_selectedCopilot ed"
  "ed_selectedTowpilot (flightToFields2 en f r ed) = ed_selectedTowpilot ed"
  "ui_flightType (flightToFields2 en f r ed) = ui_flightType ed"
  "ui_flightMode (flightToFields2 en f r ed) = ui_flightMode ed"
  "ui_launchMethod (flightToFields2 en f r ed) = ui_launchMethod ed"
  "ui_towflightMode (flightToFields2 en f r ed) = setCurrentItemByItemData (getTowflightMode f) (ui_towflightMode ed)"
  "ui_numCrew (flightToFields2 en f r ed) = ui_numCrew ed"
  "ui_numPax (flightToFields2 en f r ed) = ui_numPax ed"
  "ui_departureTimeChecked (flightToFields2 en f r ed) =
     (if r then ui_departureTimeChecked ed else getTimeFieldCheckboxValue ed (getDeparted f))"
  "ui_landingTimeChecked (flightToFields2 en f r ed) =
     (if r then ui_landingTimeChecked ed else getTimeFieldCheckboxValue ed (getLanded f))"
  "ui_towflightLandingTimeChecked (flightToFields2 en f r ed) =
     (if r then ui_towflightLandingTimeChecked ed else getTimeFieldCheckboxValue ed (getTowflightLanded f))"
  "ui_departureTime (flightToFields2 en f r ed) =
     (if r then ui_departureTime ed else setEdit (timeOfDay (getDepartureTime f)) (ui_departureTime ed))"
  "ui_landingTime (flightToFields2 en f r ed) =
     (if r then ui_landingTime ed else setEdit (timeOfDay (getLandingTime f)) (ui_landingTime ed))"
  "ui_towflightLandingTime (flightToFields2 en f r ed) =
     (if r then ui_towflightLandingTime ed else setEdit (timeOfDay (getTowflightLandingTime f)) (ui_towflightLandingTime ed))"
  "cb_text (ui_departureLocation (flightToFields2 en f r ed)) = getDepartureLocation f"
  "cb_text (ui_landingLocation (flightToFields2 en f r ed)) = getLandingLocation f"
  "cb_text (ui_towflightLandingLocation (flightToFields2 en f r ed)) = getTowflightLandingLocation f"
  "ui_numLandings (flightToFields2 en f r ed) = (if r then ui_numLandings ed else clampTo 0 65535 (getNumLandings f))"
  "ui_comment (flightToFields2 en f r ed) = (if r then ui_comment ed else getComments f)"
  "cb_text (ui_accountingNote (flightToFields2 en f r ed)) = getAccountingNotes f"
  "ui_date (flightToFields2 en f r ed) = setEdit (getEffectiveDate utc (Some (ee_today en)) f) (ui_date ed)"
  by (simp_all add: flightToFields2_def Let_def split_def cb_setEditText_def getTimeFieldCheckboxValue_def)

lemma flightToFields_ok:
  assumes "flightToFields en f r ed = Some ed'" "inputs_ok c ed"
  shows "inputs_ok c ed'"
proof -
  obtain ed1 where ed1: "launchMethodChanged (flightToFields1 f r ed) = Some ed1"
    "ed' = flightToFields2 en f r ed1"
    using assms(1) by (auto simp: flightToFields_def)
  have "inputs_ok c (flightToFields1 f r ed)"
    using assms(2) by (simp add: inputs_ok_def flightToFields1_fields) (auto simp: clampTo_def)
  then have "inputs_ok c ed1"
    using launchMethodChanged_cases(1) [OF ed1(1)] by auto
  then show ?thesis
    unfolding ed1(2)
    by (simp add: inputs_ok_def flightToFields2_fields) (auto simp: clampTo_def setEdit_time)
qed

section \<open>Every session keeps the inputs in range\<close>

lemma names_ok:
  "inputs_ok c (pilotLastNameChanged en t ed) = inputs_ok c ed"
  "inputs_ok c (pilotFirstNameChanged en t ed) = inputs_ok c ed"
  "inputs_ok c (copilotLastNameChanged en t ed) = inputs_ok c ed"
  "inputs_ok c (copilotFirstNameChanged en t ed) = inputs_ok c ed"
  "inputs_ok c (towpilotLastNameChanged en t ed) = inputs_ok c ed"
  "inputs_ok c (towpilotFirstNameChanged en t ed) = inputs_ok c ed"
  by (simp_all add: inputs_ok_def split_def Let_def pilotLastNameChanged_def pilotFirstNameChanged_def
      copilotLastNameChanged_def copilotFirstNameChanged_def towpilotLastNameChanged_def
      towpilotFirstNameChanged_def)

lemma registrations_ok:
  "inputs_ok c ed \<Longrightarrow> inputs_ok c (registrationChanged t ed)"
  "inputs_ok c (towplaneRegistrationChanged t ed) = inputs_ok c ed"
  by (auto simp: inputs_ok_def registrationChanged_def towplaneRegistrationChanged_def Let_def split: sum.splits)

lemma handlers_ok:
  "inputs_ok c (flightModeChanged en m ed) = inputs_ok c ed"
  "inputs_ok c (towflightLandingTimeCheckboxChanged en b ed) = inputs_ok c ed"
  "inputs_ok c ed \<Longrightarrow> inputs_ok c (landingTimeCheckboxChanged en b ed)"
  by (simp_all add: inputs_ok_def flightModeChanged_def towflightLandingTimeCheckboxChanged_def
      landingTimeCheckboxChanged_def)

lemma applyAction_ok:
  assumes "applyAction en a ed = Some ed'" "inputs_ok c ed"
  shows "inputs_ok c ed'"
proof (cases a)
  case (EditLaunchMethod i)
  obtain t where "ed' = ed\<lparr>ui_launchMethod := setCurrentItemByItemData i (ui_launchMethod ed), ui_text := t\<rparr>"
    using assms(1) launchMethodChanged_cases(1) EditLaunchMethod by fastforce
  then show ?thesis using assms(2) by simp
qed (use assms in \<open>auto simp: names_ok handlers_ok registrations_ok Let_def\<close>)

lemma userEdit_ok: "userEdit en a ed = Some ed' \<Longrightarrow> inputs_ok c ed \<Longrightarrow> inputs_ok c ed'"
  by (auto simp: userEdit_def applyAction_ok split: if_splits)

lemma takes_ok:
  "inputs_ok c ed \<Longrightarrow> inputs_ok c (takeDeparture en n ed)"
  "inputs_ok c ed \<Longrightarrow> inputs_ok c (takeLanding en n ed)"
  "inputs_ok c ed \<Longrightarrow> inputs_ok c (takeTowflightLanding en n ed)"
  "inputs_ok c ed \<Longrightarrow> inputs_ok c (takeNumLandings en n ed)"
  "inputs_ok c ed \<Longrightarrow> inputs_ok c (takeLandingLocation en n ed)"
  "inputs_ok c ed \<Longrightarrow> inputs_ok c (takeTowflightLandingLocation en n ed)"
  by (simp_all add: takeDeparture_def takeLanding_def takeTowflightLanding_def takeNumLandings_def
      takeLandingLocation_def takeTowflightLandingLocation_def Let_def)
    (auto simp: inputs_ok_def setEdit_time clampTo_def)

lemma editorCacheChanged_ok: "inputs_ok c ed \<Longrightarrow> inputs_ok c (editorCacheChanged en e ed)"
  by (auto simp: editorCacheChanged_def takeChanges_def intro!: takes_ok split: db_type.splits option.splits)

lemma identifyPlane_ok: "inputs_ok c (identifyPlane identify f ed) = inputs_ok c ed"
  by (simp add: identifyPlane_def Let_def split_def inputs_ok_def)

lemma session_inputs:
  assumes "session en c ed"
  shows "inputs_ok c ed"
  using assms
proof induction
  case (session_create date launch)
  show ?case by (simp add: ew_createFlight_def Let_def)
next
  case (session_repeat f date ed)
  then show ?case using flightToFields_ok by (fastforce simp: ew_repeatFlight_def)
next
  case (session_edit identify f ed)
  then show ?case using flightToFields_ok by (fastforce simp: ew_editFlight_def identifyPlane_ok)
next
  case (session_user ed a ed')
  then show ?case using userEdit_ok by blast
next
  case (session_cache ed e c')
  then show ?case by (simp add: editorCacheChanged_ok)
qed

section \<open>Editing a flight again\<close>

subsection \<open>Simplified texts\<close>

definition noOuterSpace :: "qstring \<Rightarrow> bool" where
  "noOuterSpace t \<longleftrightarrow> t = [] \<or> \<not> isSpaceChar (hd t) \<and> \<not> isSpaceChar (last t)"

lemma trimmed_unspaced: "noOuterSpace t \<Longrightarrow> trimmed t = t"
proof (cases t)
  case (Cons c cs)
  assume no: "noOuterSpace t"
  have "dropWhile isSpaceChar t = t" using no Cons by (simp add: noOuterSpace_def)
  moreover have "dropWhile isSpaceChar (rev t) = rev t"
    using no by (cases "rev t") (auto simp: noOuterSpace_def last_rev simp flip: hd_rev)
  ultimately show ?thesis by (simp add: trimmed_def)
qed simp

lemma hd_dropWhile': "dropWhile P xs \<noteq> [] \<Longrightarrow> \<not> P (hd (dropWhile P xs))"
  by (rule hd_dropWhile)

lemma trimmed_noOuterSpace: "noOuterSpace (trimmed s)"
proof -
  let ?u = "dropWhile isSpaceChar s"
  let ?v = "dropWhile isSpaceChar (rev ?u)"
  have "trimmed s = rev ?v" by (simp add: trimmed_def)
  moreover have "\<not> isSpaceChar (hd (rev ?v))" if "?v \<noteq> []"
  proof -
    obtain w where w: "rev ?u = w @ ?v" by (metis takeWhile_dropWhile_id)
    then have u: "?u = rev ?v @ rev w" by (metis rev_append rev_rev_ident)
    then have "hd ?u = hd (rev ?v)" using that by (metis hd_append2 rev_is_Nil_conv)
    moreover have "?u \<noteq> []" using that u by (metis append_is_Nil_conv rev_is_Nil_conv)
    ultimately show ?thesis using hd_dropWhile' by metis
  qed
  moreover have "\<not> isSpaceChar (last (rev ?v))" if "?v \<noteq> []"
    unfolding last_rev by (rule hd_dropWhile' [OF that])
  ultimately show ?thesis by (auto simp: noOuterSpace_def)
qed

lemma dropWhile_collapse:
  "dropWhile isSpaceChar (collapseSpaces (dropWhile isSpaceChar cs)) = collapseSpaces (dropWhile isSpaceChar cs)"
proof (cases "dropWhile isSpaceChar cs")
  case (Cons d ds)
  then have "\<not> isSpaceChar d" by (metis hd_dropWhile' list.distinct(1) list.sel(1))
  then show ?thesis by (simp add: Cons)
next
  case Nil
  then show ?thesis by (simp only: Nil collapseSpaces.simps dropWhile.simps)
qed

lemma space_isSpaceChar [simp]: "isSpaceChar (CHR '' '')"
  by (simp add: isSpaceChar_def)

lemma collapse_idem [simp]: "collapseSpaces (collapseSpaces s) = collapseSpaces s"
  by (induction s rule: collapseSpaces.induct) (simp_all add: dropWhile_collapse)

lemma collapse_Nil_iff [simp]: "collapseSpaces s = [] \<longleftrightarrow> s = []"
  by (cases s) auto

lemma last_collapse: "s \<noteq> [] \<Longrightarrow> \<not> isSpaceChar (last s) \<Longrightarrow> last (collapseSpaces s) = last s"
proof (induction s rule: collapseSpaces.induct)
  case (2 c cs)
  show ?case
  proof (cases "isSpaceChar c")
    case True
    then have ne: "cs \<noteq> []" "\<not> isSpaceChar (last cs)" using 2 by (auto split: if_splits)
    then have d: "dropWhile isSpaceChar cs \<noteq> []" by (metis dropWhile_eq_Nil_conv last_in_set)
    then have "last (dropWhile isSpaceChar cs) = last cs"
      by (metis last_appendR takeWhile_dropWhile_id)
    moreover have "collapseSpaces (dropWhile isSpaceChar cs) \<noteq> []" using d by simp
    moreover have "last (collapseSpaces (dropWhile isSpaceChar cs)) = last (dropWhile isSpaceChar cs)"
      using 2(1) True d ne calculation by simp
    ultimately show ?thesis using True ne by (simp only: collapseSpaces.simps if_True last.simps if_False)
  next
    case False
    then show ?thesis using 2 by (cases "cs = []") auto
  qed
qed simp

lemma simplified_idem [simp]: "simplified (simplified s) = simplified s"
proof -
  let ?t = "trimmed s"
  have t: "noOuterSpace ?t" by (rule trimmed_noOuterSpace)
  have "noOuterSpace (collapseSpaces ?t)"
  proof (cases ?t)
    case (Cons c cs)
    then have "\<not> isSpaceChar c" "\<not> isSpaceChar (last ?t)" using t by (auto simp: noOuterSpace_def)
    then show ?thesis
      using last_collapse [of ?t] Cons by (simp add: noOuterSpace_def)
  qed (simp add: noOuterSpace_def)
  then show ?thesis by (simp add: simplified_def trimmed_unspaced)
qed

subsection \<open>The round trip\<close>

lemma current_choice: "choice_ok xs b \<Longrightarrow> ch_current b = Some v \<Longrightarrow> v \<in> set xs"
  by (auto simp: choice_ok_def)

lemma set_choice: "choice_ok xs b \<Longrightarrow> v \<in> set xs \<Longrightarrow> ch_current (setCurrentItemByItemData v b) = Some v"
  by (simp add: choice_ok_def setCurrentItemByItemData_def firstEqual_eq)

lemma timeOfDay_atDate: "t \<in> {0..<86400000} \<Longrightarrow> timeOfDay (atDate d t) = Some t"
  by (simp add: timeOfDay_def atDate_def)

lemma dateIn_atDate: "t \<in> {0..<86400000} \<Longrightarrow> dateIn utc (atDate d t) = Some d"
  by (simp add: dateIn_def atDate_def utc_def)

lemma setEdit_Some [simp]: "setEdit (Some x) y = x"
  by (simp add: setEdit_def)

text \<open>The inputs of a window determine the flight that is read from them; two windows that agree on
  them give the same flight.\<close>

lemma airtow_cong:
  assumes "ed_cache ed = ed_cache ed'" "getCurrentFlightMode ed = getCurrentFlightMode ed'"
    "modeDepartsHere (getCurrentFlightMode ed) \<Longrightarrow> getCurrentLaunchMethodId ed = getCurrentLaunchMethodId ed'"
  shows "currentIsAirtow ed = currentIsAirtow ed'" "isTowplaneRegistrationActive ed = isTowplaneRegistrationActive ed'"
  using assms by (auto simp: active_defs getCurrentLaunchMethod_def)

text \<open>What the launch method that a flight read from the inputs has must satisfy to be known.\<close>

definition launchMethodKnown :: "cache \<Rightarrow> dbId \<Rightarrow> bool" where
  "launchMethodKnown c i \<longleftrightarrow>
     i = invalidId \<or> (i \<in> lm_id ` set (launchMethods c) \<and> launchMethodsById c i \<noteq> None)"

lemma basic_fields:
  fixes ed :: editor and en :: "'z editor_env_scheme"
  defines "f \<equiv> determineFlightBasic en ed"
  shows "getType f = getCurrentFlightType ed" "getMode f = getCurrentFlightMode ed"
    "getDeparted f = isDepartureTimeActive ed" "getLanded f = isLandingTimeActive ed"
    "getTowflightLanded f = isTowflightLandingTimeActive ed"
    "getDepartureTime f = (if isDepartureTimeActive ed then atDate (ui_date ed) (ui_departureTime ed) else None)"
    "getLandingTime f = (if isLandingTimeActive ed then atDate (ui_date ed) (ui_landingTime ed) else None)"
    "getTowflightLandingTime f =
       (if isTowflightLandingTimeActive ed then atDate (ui_date ed) (ui_towflightLandingTime ed) else None)"
    "getLaunchMethodId f = (if isLaunchMethodActive ed then getCurrentLaunchMethodId ed else invalidId)"
    "getTowflightMode f = (if currentIsAirtow ed then getCurrentTowflightMode ed else modeLocal)"
  by (auto simp: f_def determineFlightBasic_def Let_def dataChanged_def newFlight_def isFlightModeActive_def
      isDepartureTimeActive_def isLandingTimeActive_def isTowflightLandingTimeActive_def isTowflightModeActive_def
      isTowflightLandingActive_def)

lemma basic_rest:
  fixes ed :: editor and en :: "'z editor_env_scheme"
  defines "f \<equiv> determineFlightBasic en ed"
  shows "getId f = ed_originalFlightId ed" "getFlarmId f = getFlarmId (ed_originalFlight ed)"
    "getVfId f = getVfId (ed_originalFlight ed)" "getUploaded f = False" "getPlaneId f = ed_selectedPlane ed"
    "getTowplaneId f = (if isTowplaneRegistrationActive ed then ed_selectedTowplane ed else invalidId)"
    "getPilotId f = (if isPilotActive en ed then ed_selectedPilot ed else invalidId)"
    "getCopilotId f = (if isCopilotActive en ed then ed_selectedCopilot ed else invalidId)"
    "getTowpilotId f = (if isTowpilotActive en ed then ed_selectedTowpilot ed else invalidId)"
    "getSupervisorId f = invalidId"
    "getNumCrew f = (if set_anonymousMode (ee_settings en) then ui_numCrew ed else 1)"
    "getNumPax f = (if set_anonymousMode (ee_settings en) then ui_numPax ed else 0)"
    "getDepartureLocation f = simplified (cb_text (ui_departureLocation ed))"
    "getLandingLocation f = simplified (cb_text (ui_landingLocation ed))"
    "getTowflightLandingLocation f =
       (if currentIsAirtow ed then simplified (cb_text (ui_towflightLandingLocation ed)) else [])"
    "getNumLandings f = ui_numLandings ed" "getComments f = simplified (ui_comment ed)"
    "getAccountingNotes f = simplified (cb_text (ui_accountingNote ed))"
    "getPilotLastName f = []" "getPilotFirstName f = []" "getCopilotLastName f = []" "getCopilotFirstName f = []"
    "getTowpilotLastName f = []" "getTowpilotFirstName f = []" "cachedErrors f = []" "cachedErrorsValid f = False"
  by (simp_all add: f_def determineFlightBasic_def Let_def dataChanged_def newFlight_def
      isTowflightLandingLocationActive_def)

text \<open>The window in which the flight is edited again reads the same input values.\<close>

lemma reopened_inputs:
  fixes ed :: editor
  assumes ok: "inputs_ok c0 ed"
    and f: "f = determineFlightBasic en ed"
    and edited: "flightToFields en f False (newEditor en modeEdit (ed_cache ed)) = Some ed'"
    and known: "launchMethodKnown (ed_cache ed) (getLaunchMethodId f)"
    and dated: "getTowflightLanded f \<longrightarrow> getDeparted f \<or> getLanded f"
  shows "ed_mode ed' = modeEdit" "ed_cache ed' = ed_cache ed"
    "getCurrentFlightType ed' = getCurrentFlightType ed" "getCurrentFlightMode ed' = getCurrentFlightMode ed"
    "getCurrentLaunchMethodId ed' = getLaunchMethodId f"
    "getCurrentTowflightMode ed' = getTowflightMode f"
    "getDeparted f \<Longrightarrow> ui_date ed' = ui_date ed \<and> ui_departureTime ed' = ui_departureTime ed"
    "getLanded f \<Longrightarrow> ui_date ed' = ui_date ed \<and> ui_landingTime ed' = ui_landingTime ed"
    "getTowflightLanded f \<Longrightarrow> ui_date ed' = ui_date ed \<and> ui_towflightLandingTime ed' = ui_towflightLandingTime ed"
proof -
  let ?n = "newEditor en modeEdit (ed_cache ed)"
  obtain ed1 where ed1: "launchMethodChanged (flightToFields1 f False ?n) = Some ed1"
    "ed' = flightToFields2 en f False ed1"
    using edited by (auto simp: flightToFields_def)
  obtain t where t: "ed1 = (flightToFields1 f False ?n)\<lparr>ui_text := t\<rparr>"
    using launchMethodChanged_cases(1) [OF ed1(1)] by blast
  note fields = ed1(2) t flightToFields1_fields flightToFields2_fields
  have "inputs_ok (ed_cache ed) ?n" by simp
  then have n: "choice_ok (listTypes False) (ui_flightType ?n)" "choice_ok listModes (ui_flightMode ?n)"
    "choice_ok listModes (ui_towflightMode ?n)" "choice_ok (launchMethodItems (ed_cache ed)) (ui_launchMethod ?n)"
    unfolding inputs_ok_def by blast+
  show "ed_mode ed' = modeEdit" "ed_cache ed' = ed_cache ed" by (simp_all add: fields)
  have types: "getCurrentFlightType ed \<in> set (listTypes False)" "getCurrentFlightMode ed \<in> set listModes"
    "getCurrentTowflightMode ed \<in> set listModes"
    using ok by (auto simp: inputs_ok_def choice_ok_def getCurrentFlightType_def getCurrentFlightMode_def
        getCurrentTowflightMode_def)
  have ft: "getType f \<in> set (listTypes False)" "getMode f \<in> set listModes" "getTowflightMode f \<in> set listModes"
    "getLaunchMethodId f \<in> set (launchMethodItems (ed_cache ed))"
    using types known by (auto simp: f basic_fields listModes_def launchMethodKnown_def launchMethodItems_def)
  have ch: "ch_current (ui_flightType ed') = Some (getType f)" "ch_current (ui_flightMode ed') = Some (getMode f)"
    "ch_current (ui_launchMethod ed') = Some (getLaunchMethodId f)"
    "ch_current (ui_towflightMode ed') = Some (getTowflightMode f)"
    by (simp_all add: fields set_choice [OF n(1) ft(1)] set_choice [OF n(2) ft(2)] set_choice [OF n(3) ft(3)]
        set_choice [OF n(4) ft(4)])
  then show "getCurrentFlightType ed' = getCurrentFlightType ed" "getCurrentFlightMode ed' = getCurrentFlightMode ed"
    "getCurrentLaunchMethodId ed' = getLaunchMethodId f" "getCurrentTowflightMode ed' = getTowflightMode f"
    by (simp_all add: getCurrentFlightType_def getCurrentFlightMode_def getCurrentLaunchMethodId_def
        getCurrentTowflightMode_def f basic_fields(1,2))
  have tm: "ui_departureTime ed \<in> {0..<86400000}" "ui_landingTime ed \<in> {0..<86400000}"
    "ui_towflightLandingTime ed \<in> {0..<86400000}"
    using ok by (simp_all add: inputs_ok_def)
  have here: "getDeparted f \<Longrightarrow> departsHere f" "getLanded f \<Longrightarrow> landsHere f"
    by (auto simp: f basic_fields departsHere_def landsHere_def active_defs)
  have date: "ui_date ed' = ui_date ed" if "getDeparted f \<or> getLanded f"
    using that tm here by (auto simp: fields getEffectiveDate_def f basic_fields dateIn_atDate split: if_splits)
  show "getDeparted f \<Longrightarrow> ui_date ed' = ui_date ed \<and> ui_departureTime ed' = ui_departureTime ed"
    using date tm by (simp add: fields) (simp add: f basic_fields timeOfDay_atDate)
  show "getLanded f \<Longrightarrow> ui_date ed' = ui_date ed \<and> ui_landingTime ed' = ui_landingTime ed"
    using date tm by (simp add: fields) (simp add: f basic_fields timeOfDay_atDate)
  show "getTowflightLanded f \<Longrightarrow> ui_date ed' = ui_date ed \<and> ui_towflightLandingTime ed' = ui_towflightLandingTime ed"
    using date dated tm by (simp add: fields) (simp add: f basic_fields timeOfDay_atDate)
qed

lemma reopened_rest:
  assumes "flightToFields en f False ed0 = Some ed'"
  shows "ed_originalFlight ed' = f" "ed_originalFlightId ed' = getId f" "ed_selectedPlane ed' = getPlaneId f"
    "ed_selectedTowplane ed' = getTowplaneId f" "ed_selectedPilot ed' = getPilotId f"
    "ed_selectedCopilot ed' = copilotToEdit f" "ed_selectedTowpilot ed' = getTowpilotId f"
    "ui_numCrew ed' = clampTo 1 99 (getNumCrew f)" "ui_numPax ed' = clampTo 0 99 (getNumPax f)"
    "ui_departureTimeChecked ed' = getTimeFieldCheckboxValue ed0 (getDeparted f)"
    "ui_landingTimeChecked ed' = getTimeFieldCheckboxValue ed0 (getLanded f)"
    "ui_towflightLandingTimeChecked ed' = getTimeFieldCheckboxValue ed0 (getTowflightLanded f)"
    "cb_text (ui_departureLocation ed') = getDepartureLocation f"
    "cb_text (ui_landingLocation ed') = getLandingLocation f"
    "cb_text (ui_towflightLandingLocation ed') = getTowflightLandingLocation f"
    "ui_numLandings ed' = clampTo 0 65535 (getNumLandings f)" "ui_comment ed' = getComments f"
    "cb_text (ui_accountingNote ed') = getAccountingNotes f"
proof -
  obtain ed1 where ed1: "launchMethodChanged (flightToFields1 f False ed0) = Some ed1"
    "ed' = flightToFields2 en f False ed1"
    using assms by (auto simp: flightToFields_def)
  obtain t where "ed1 = (flightToFields1 f False ed0)\<lparr>ui_text := t\<rparr>"
    using launchMethodChanged_cases(1) [OF ed1(1)] by blast
  note fields = ed1(2) this flightToFields1_fields flightToFields2_fields
  show "ed_originalFlight ed' = f" "ed_originalFlightId ed' = getId f" "ed_selectedPlane ed' = getPlaneId f"
    "ed_selectedTowplane ed' = getTowplaneId f" "ed_selectedPilot ed' = getPilotId f"
    "ed_selectedCopilot ed' = copilotToEdit f" "ed_selectedTowpilot ed' = getTowpilotId f"
    "ui_numCrew ed' = clampTo 1 99 (getNumCrew f)" "ui_numPax ed' = clampTo 0 99 (getNumPax f)"
    "ui_departureTimeChecked ed' = getTimeFieldCheckboxValue ed0 (getDeparted f)"
    "ui_landingTimeChecked ed' = getTimeFieldCheckboxValue ed0 (getLanded f)"
    "ui_towflightLandingTimeChecked ed' = getTimeFieldCheckboxValue ed0 (getTowflightLanded f)"
    "cb_text (ui_departureLocation ed') = getDepartureLocation f"
    "cb_text (ui_landingLocation ed') = getLandingLocation f"
    "cb_text (ui_towflightLandingLocation ed') = getTowflightLandingLocation f"
    "ui_numLandings ed' = clampTo 0 65535 (getNumLandings f)" "ui_comment ed' = getComments f"
    "cb_text (ui_accountingNote ed') = getAccountingNotes f"
    by (simp_all add: fields getTimeFieldCheckboxValue_def)
qed

lemma flightToFields_possible:
  assumes "launchMethodKnown c (getLaunchMethodId f)"
  shows "\<exists>ed'. flightToFields en f r (newEditor en m c) = Some ed'"
proof -
  let ?ed = "flightToFields1 f r (newEditor en m c)"
  have "inputs_ok c (newEditor en m c)" by simp
  then have ok: "choice_ok (launchMethodItems c) (ui_launchMethod (newEditor en m c))"
    unfolding inputs_ok_def by blast
  have "getLaunchMethodId f \<in> set (launchMethodItems c)"
    using assms by (auto simp: launchMethodKnown_def launchMethodItems_def)
  then have "getCurrentLaunchMethodId ?ed = getLaunchMethodId f"
    by (simp add: getCurrentLaunchMethodId_def flightToFields1_fields set_choice [OF ok])
  then have "launchMethodChanged ?ed \<noteq> None"
    using assms by (auto simp: launchMethodChanged_cases(2) flightToFields1_fields launchMethodKnown_def sk_defs)
  then show ?thesis by (auto simp: flightToFields_def)
qed

text \<open>C11: a flight that is read from the inputs of the editor, however the user got there, can be opened for
  editing and is read back from the untouched inputs as it was: the identifiers, times, locations,
  crew and texts survive. Three flights are excepted: a solo training, whose supervisor is read into
  another field, a towflight that landed before anything else happened, which has no date,
  and a launch method that is gone from the database.\<close>

theorem edit_again:
  assumes "session en c ed" "f = determineFlightBasic en ed"
    "getType f \<noteq> typeTraining1" "getTowflightLanded f \<longrightarrow> getDeparted f \<or> getLanded f"
    "launchMethodKnown (ed_cache ed) (getLaunchMethodId f)"
  shows "\<exists>ed'. flightToFields en f False (newEditor en modeEdit (ed_cache ed)) = Some ed'
    \<and> determineFlightBasic en ed' = f"
proof -
  obtain ed' where e: "flightToFields en f False (newEditor en modeEdit (ed_cache ed)) = Some ed'"
    using flightToFields_possible [OF assms(5)] by blast
  have ok: "inputs_ok c ed" by (rule session_inputs [OF assms(1)])
  note read = reopened_inputs [OF ok assms(2) e assms(5) assms(4)]
  note rest = reopened_rest [OF e]
  have lm: "modeDepartsHere (getCurrentFlightMode ed) \<Longrightarrow> getCurrentLaunchMethodId ed' = getCurrentLaunchMethodId ed"
    using read(5) by (simp add: assms(2) basic_fields active_defs)
  have air: "currentIsAirtow ed' = currentIsAirtow ed" "isTowplaneRegistrationActive ed' = isTowplaneRegistrationActive ed"
    by (rule airtow_cong; use read lm in simp)+
  have act: "currentDepartsHere ed' = currentDepartsHere ed" "currentLandsHere ed' = currentLandsHere ed"
    using read by (simp_all add: active_defs)
  have time: "isDepartureTimeActive ed' = getDeparted f" "isLandingTimeActive ed' = getLanded f"
    "isTowflightLandingTimeActive ed' = getTowflightLanded f"
    by (simp_all add: isDepartureTimeActive_def isLandingTimeActive_def isTowflightLandingTimeActive_def
        isDepartureActive_def isLandingActive_def isTowflightLandingActive_def act air getTimeFieldActive_def read(1)
        rest getTimeFieldCheckboxValue_def)
      (simp_all add: assms(2) basic_fields active_defs)
  have crew: "isCopilotActive en ed' = isCopilotActive en ed" "isPilotActive en ed' = isPilotActive en ed"
    "isTowpilotActive en ed' = isTowpilotActive en ed"
    by (simp_all add: isCopilotActive_def isPilotActive_def isTowpilotActive_def read air)
  have ranges: "ui_numLandings ed \<in> {0..65535}" "ui_numCrew ed \<in> {1..99}" "ui_numPax ed \<in> {0..99}"
    using ok by (simp_all add: inputs_ok_def)
  have copilot: "copilotToEdit f = getCopilotId f" using assms(3) by (simp add: copilotToEdit_def)
  note here = basic_fields [of en ed, folded assms(2)] basic_rest [of en ed, folded assms(2)]
  have keep: "isDepartureTimeActive ed \<Longrightarrow> ui_date ed' = ui_date ed \<and> ui_departureTime ed' = ui_departureTime ed"
    "isLandingTimeActive ed \<Longrightarrow> ui_date ed' = ui_date ed \<and> ui_landingTime ed' = ui_landingTime ed"
    "isTowflightLandingTimeActive ed \<Longrightarrow> ui_date ed' = ui_date ed \<and> ui_towflightLandingTime ed' = ui_towflightLandingTime ed"
    using read(7-9) by (simp_all add: here)
  have "determineFlightBasic en ed' = f"
    by (rule flight.equality)
      (simp_all add: basic_fields [of en ed'] basic_rest [of en ed'] read(1-6) rest copilot air act time crew
        isLaunchMethodActive_def here keep clampTo_id [OF ranges(1)] clampTo_id [OF ranges(2)] clampTo_id [OF ranges(3)])
  with e show ?thesis by blast
qed

section \<open>A change in the database\<close>

lemma updateSetup_keeps [simp]:
  "ed_mode (updateSetup en ed) = ed_mode ed" "ed_cache (updateSetup en ed) = ed_cache ed"
  "ed_originalFlight (updateSetup en ed) = ed_originalFlight ed"
  "ed_originalFlightId (updateSetup en ed) = ed_originalFlightId ed"
  "ed_selectedPlane (updateSetup en ed) = ed_selectedPlane ed"
  "ed_selectedTowplane (updateSetup en ed) = ed_selectedTowplane ed"
  "ed_selectedPilot (updateSetup en ed) = ed_selectedPilot ed"
  "ed_selectedCopilot (updateSetup en ed) = ed_selectedCopilot ed"
  "ed_selectedTowpilot (updateSetup en ed) = ed_selectedTowpilot ed"
  "ui_registration (updateSetup en ed) = ui_registration ed"
  "ui_flightType (updateSetup en ed) = ui_flightType ed"
  "ui_pilotLastName (updateSetup en ed) = ui_pilotLastName ed"
  "ui_pilotFirstName (updateSetup en ed) = ui_pilotFirstName ed"
  "ui_copilotLastName (updateSetup en ed) = ui_copilotLastName ed"
  "ui_copilotFirstName (updateSetup en ed) = ui_copilotFirstName ed"
  "ui_numCrew (updateSetup en ed) = ui_numCrew ed" "ui_numPax (updateSetup en ed) = ui_numPax ed"
  "ui_flightMode (updateSetup en ed) = ui_flightMode ed"
  "ui_launchMethod (updateSetup en ed) = ui_launchMethod ed"
  "ui_towplaneRegistration (updateSetup en ed) = ui_towplaneRegistration ed"
  "ui_towflightMode (updateSetup en ed) = ui_towflightMode ed"
  "ui_departureTimeChecked (updateSetup en ed) = ui_departureTimeChecked ed"
  "ui_landingTimeChecked (updateSetup en ed) = ui_landingTimeChecked ed"
  "ui_towflightLandingTimeChecked (updateSetup en ed) = ui_towflightLandingTimeChecked ed"
  "ui_departureTime (updateSetup en ed) = ui_departureTime ed"
  "ui_landingTime (updateSetup en ed) = ui_landingTime ed"
  "ui_towflightLandingTime (updateSetup en ed) = ui_towflightLandingTime ed"
  "ui_departureLocation (updateSetup en ed) = ui_departureLocation ed"
  "ui_landingLocation (updateSetup en ed) = ui_landingLocation ed"
  "ui_towflightLandingLocation (updateSetup en ed) = ui_towflightLandingLocation ed"
  "ui_numLandings (updateSetup en ed) = ui_numLandings ed"
  "ui_comment (updateSetup en ed) = ui_comment ed"
  "ui_accountingNote (updateSetup en ed) = ui_accountingNote ed"
  "ui_date (updateSetup en ed) = ui_date ed" "ed_open (updateSetup en ed) = ed_open ed"
proof -
  obtain v t d where eq: "updateSetup en ed = ed\<lparr>ui_visible := v, ui_text := t, ui_default := d\<rparr>"
    using window_shape by blast
  show
    "ed_mode (updateSetup en ed) = ed_mode ed" "ed_cache (updateSetup en ed) = ed_cache ed"
    "ed_originalFlight (updateSetup en ed) = ed_originalFlight ed"
    "ed_originalFlightId (updateSetup en ed) = ed_originalFlightId ed"
    "ed_selectedPlane (updateSetup en ed) = ed_selectedPlane ed"
    "ed_selectedTowplane (updateSetup en ed) = ed_selectedTowplane ed"
    "ed_selectedPilot (updateSetup en ed) = ed_selectedPilot ed"
    "ed_selectedCopilot (updateSetup en ed) = ed_selectedCopilot ed"
    "ed_selectedTowpilot (updateSetup en ed) = ed_selectedTowpilot ed"
    "ui_registration (updateSetup en ed) = ui_registration ed"
    "ui_flightType (updateSetup en ed) = ui_flightType ed"
    "ui_pilotLastName (updateSetup en ed) = ui_pilotLastName ed"
    "ui_pilotFirstName (updateSetup en ed) = ui_pilotFirstName ed"
    "ui_copilotLastName (updateSetup en ed) = ui_copilotLastName ed"
    "ui_copilotFirstName (updateSetup en ed) = ui_copilotFirstName ed"
    "ui_numCrew (updateSetup en ed) = ui_numCrew ed" "ui_numPax (updateSetup en ed) = ui_numPax ed"
    "ui_flightMode (updateSetup en ed) = ui_flightMode ed"
    "ui_launchMethod (updateSetup en ed) = ui_launchMethod ed"
    "ui_towplaneRegistration (updateSetup en ed) = ui_towplaneRegistration ed"
    "ui_towflightMode (updateSetup en ed) = ui_towflightMode ed"
    "ui_departureTimeChecked (updateSetup en ed) = ui_departureTimeChecked ed"
    "ui_landingTimeChecked (updateSetup en ed) = ui_landingTimeChecked ed"
    "ui_towflightLandingTimeChecked (updateSetup en ed) = ui_towflightLandingTimeChecked ed"
    "ui_departureTime (updateSetup en ed) = ui_departureTime ed"
    "ui_landingTime (updateSetup en ed) = ui_landingTime ed"
    "ui_towflightLandingTime (updateSetup en ed) = ui_towflightLandingTime ed"
    "ui_departureLocation (updateSetup en ed) = ui_departureLocation ed"
    "ui_landingLocation (updateSetup en ed) = ui_landingLocation ed"
    "ui_towflightLandingLocation (updateSetup en ed) = ui_towflightLandingLocation ed"
    "ui_numLandings (updateSetup en ed) = ui_numLandings ed"
    "ui_comment (updateSetup en ed) = ui_comment ed"
    "ui_accountingNote (updateSetup en ed) = ui_accountingNote ed"
    "ui_date (updateSetup en ed) = ui_date ed" "ed_open (updateSetup en ed) = ed_open ed"
    by (simp_all add: eq)
qed

lemma updateErrors_keeps [simp]:
  "ed_mode (updateErrors en b ed) = ed_mode ed" "ed_cache (updateErrors en b ed) = ed_cache ed"
  "ed_originalFlight (updateErrors en b ed) = ed_originalFlight ed"
  "ed_originalFlightId (updateErrors en b ed) = ed_originalFlightId ed"
  "ed_selectedPlane (updateErrors en b ed) = ed_selectedPlane ed"
  "ed_selectedTowplane (updateErrors en b ed) = ed_selectedTowplane ed"
  "ed_selectedPilot (updateErrors en b ed) = ed_selectedPilot ed"
  "ed_selectedCopilot (updateErrors en b ed) = ed_selectedCopilot ed"
  "ed_selectedTowpilot (updateErrors en b ed) = ed_selectedTowpilot ed"
  "ui_registration (updateErrors en b ed) = ui_registration ed"
  "ui_flightType (updateErrors en b ed) = ui_flightType ed"
  "ui_pilotLastName (updateErrors en b ed) = ui_pilotLastName ed"
  "ui_pilotFirstName (updateErrors en b ed) = ui_pilotFirstName ed"
  "ui_copilotLastName (updateErrors en b ed) = ui_copilotLastName ed"
  "ui_copilotFirstName (updateErrors en b ed) = ui_copilotFirstName ed"
  "ui_numCrew (updateErrors en b ed) = ui_numCrew ed" "ui_numPax (updateErrors en b ed) = ui_numPax ed"
  "ui_flightMode (updateErrors en b ed) = ui_flightMode ed"
  "ui_launchMethod (updateErrors en b ed) = ui_launchMethod ed"
  "ui_towplaneRegistration (updateErrors en b ed) = ui_towplaneRegistration ed"
  "ui_towflightMode (updateErrors en b ed) = ui_towflightMode ed"
  "ui_departureTimeChecked (updateErrors en b ed) = ui_departureTimeChecked ed"
  "ui_landingTimeChecked (updateErrors en b ed) = ui_landingTimeChecked ed"
  "ui_towflightLandingTimeChecked (updateErrors en b ed) = ui_towflightLandingTimeChecked ed"
  "ui_departureTime (updateErrors en b ed) = ui_departureTime ed"
  "ui_landingTime (updateErrors en b ed) = ui_landingTime ed"
  "ui_towflightLandingTime (updateErrors en b ed) = ui_towflightLandingTime ed"
  "ui_departureLocation (updateErrors en b ed) = ui_departureLocation ed"
  "ui_landingLocation (updateErrors en b ed) = ui_landingLocation ed"
  "ui_towflightLandingLocation (updateErrors en b ed) = ui_towflightLandingLocation ed"
  "ui_numLandings (updateErrors en b ed) = ui_numLandings ed"
  "ui_comment (updateErrors en b ed) = ui_comment ed"
  "ui_accountingNote (updateErrors en b ed) = ui_accountingNote ed"
  "ui_date (updateErrors en b ed) = ui_date ed" "ed_open (updateErrors en b ed) = ed_open ed"
proof -
  obtain e m w where eq: "updateErrors en b ed = ed\<lparr>ui_errors := e, ui_marked := m, ui_focus := w\<rparr>"
    using window_shape by blast
  show
    "ed_mode (updateErrors en b ed) = ed_mode ed" "ed_cache (updateErrors en b ed) = ed_cache ed"
    "ed_originalFlight (updateErrors en b ed) = ed_originalFlight ed"
    "ed_originalFlightId (updateErrors en b ed) = ed_originalFlightId ed"
    "ed_selectedPlane (updateErrors en b ed) = ed_selectedPlane ed"
    "ed_selectedTowplane (updateErrors en b ed) = ed_selectedTowplane ed"
    "ed_selectedPilot (updateErrors en b ed) = ed_selectedPilot ed"
    "ed_selectedCopilot (updateErrors en b ed) = ed_selectedCopilot ed"
    "ed_selectedTowpilot (updateErrors en b ed) = ed_selectedTowpilot ed"
    "ui_registration (updateErrors en b ed) = ui_registration ed"
    "ui_flightType (updateErrors en b ed) = ui_flightType ed"
    "ui_pilotLastName (updateErrors en b ed) = ui_pilotLastName ed"
    "ui_pilotFirstName (updateErrors en b ed) = ui_pilotFirstName ed"
    "ui_copilotLastName (updateErrors en b ed) = ui_copilotLastName ed"
    "ui_copilotFirstName (updateErrors en b ed) = ui_copilotFirstName ed"
    "ui_numCrew (updateErrors en b ed) = ui_numCrew ed" "ui_numPax (updateErrors en b ed) = ui_numPax ed"
    "ui_flightMode (updateErrors en b ed) = ui_flightMode ed"
    "ui_launchMethod (updateErrors en b ed) = ui_launchMethod ed"
    "ui_towplaneRegistration (updateErrors en b ed) = ui_towplaneRegistration ed"
    "ui_towflightMode (updateErrors en b ed) = ui_towflightMode ed"
    "ui_departureTimeChecked (updateErrors en b ed) = ui_departureTimeChecked ed"
    "ui_landingTimeChecked (updateErrors en b ed) = ui_landingTimeChecked ed"
    "ui_towflightLandingTimeChecked (updateErrors en b ed) = ui_towflightLandingTimeChecked ed"
    "ui_departureTime (updateErrors en b ed) = ui_departureTime ed"
    "ui_landingTime (updateErrors en b ed) = ui_landingTime ed"
    "ui_towflightLandingTime (updateErrors en b ed) = ui_towflightLandingTime ed"
    "ui_departureLocation (updateErrors en b ed) = ui_departureLocation ed"
    "ui_landingLocation (updateErrors en b ed) = ui_landingLocation ed"
    "ui_towflightLandingLocation (updateErrors en b ed) = ui_towflightLandingLocation ed"
    "ui_numLandings (updateErrors en b ed) = ui_numLandings ed"
    "ui_comment (updateErrors en b ed) = ui_comment ed"
    "ui_accountingNote (updateErrors en b ed) = ui_accountingNote ed"
    "ui_date (updateErrors en b ed) = ui_date ed" "ed_open (updateErrors en b ed) = ed_open ed"
    by (simp_all add: eq)
qed

lemma refresh_keeps [simp]:
  "ed_mode (refresh en ed) = ed_mode ed" "ed_cache (refresh en ed) = ed_cache ed"
  "ed_originalFlight (refresh en ed) = ed_originalFlight ed"
  "ed_originalFlightId (refresh en ed) = ed_originalFlightId ed"
  "ed_selectedPlane (refresh en ed) = ed_selectedPlane ed"
  "ed_selectedTowplane (refresh en ed) = ed_selectedTowplane ed"
  "ed_selectedPilot (refresh en ed) = ed_selectedPilot ed"
  "ed_selectedCopilot (refresh en ed) = ed_selectedCopilot ed"
  "ed_selectedTowpilot (refresh en ed) = ed_selectedTowpilot ed"
  "ui_registration (refresh en ed) = ui_registration ed"
  "ui_flightType (refresh en ed) = ui_flightType ed"
  "ui_pilotLastName (refresh en ed) = ui_pilotLastName ed"
  "ui_pilotFirstName (refresh en ed) = ui_pilotFirstName ed"
  "ui_copilotLastName (refresh en ed) = ui_copilotLastName ed"
  "ui_copilotFirstName (refresh en ed) = ui_copilotFirstName ed"
  "ui_numCrew (refresh en ed) = ui_numCrew ed" "ui_numPax (refresh en ed) = ui_numPax ed"
  "ui_flightMode (refresh en ed) = ui_flightMode ed"
  "ui_launchMethod (refresh en ed) = ui_launchMethod ed"
  "ui_towplaneRegistration (refresh en ed) = ui_towplaneRegistration ed"
  "ui_towflightMode (refresh en ed) = ui_towflightMode ed"
  "ui_departureTimeChecked (refresh en ed) = ui_departureTimeChecked ed"
  "ui_landingTimeChecked (refresh en ed) = ui_landingTimeChecked ed"
  "ui_towflightLandingTimeChecked (refresh en ed) = ui_towflightLandingTimeChecked ed"
  "ui_departureTime (refresh en ed) = ui_departureTime ed"
  "ui_landingTime (refresh en ed) = ui_landingTime ed"
  "ui_towflightLandingTime (refresh en ed) = ui_towflightLandingTime ed"
  "ui_departureLocation (refresh en ed) = ui_departureLocation ed"
  "ui_landingLocation (refresh en ed) = ui_landingLocation ed"
  "ui_towflightLandingLocation (refresh en ed) = ui_towflightLandingLocation ed"
  "ui_numLandings (refresh en ed) = ui_numLandings ed" "ui_comment (refresh en ed) = ui_comment ed"
  "ui_accountingNote (refresh en ed) = ui_accountingNote ed" "ui_date (refresh en ed) = ui_date ed"
  "ed_open (refresh en ed) = ed_open ed"
  by (simp_all add: refresh_def)

lemma refreshIf_keeps [simp]:
  "ed_mode (refreshIf en changed ed) = ed_mode ed" "ed_cache (refreshIf en changed ed) = ed_cache ed"
  "ed_originalFlight (refreshIf en changed ed) = ed_originalFlight ed"
  "ed_originalFlightId (refreshIf en changed ed) = ed_originalFlightId ed"
  "ed_selectedPlane (refreshIf en changed ed) = ed_selectedPlane ed"
  "ed_selectedTowplane (refreshIf en changed ed) = ed_selectedTowplane ed"
  "ed_selectedPilot (refreshIf en changed ed) = ed_selectedPilot ed"
  "ed_selectedCopilot (refreshIf en changed ed) = ed_selectedCopilot ed"
  "ed_selectedTowpilot (refreshIf en changed ed) = ed_selectedTowpilot ed"
  "ui_registration (refreshIf en changed ed) = ui_registration ed"
  "ui_flightType (refreshIf en changed ed) = ui_flightType ed"
  "ui_pilotLastName (refreshIf en changed ed) = ui_pilotLastName ed"
  "ui_pilotFirstName (refreshIf en changed ed) = ui_pilotFirstName ed"
  "ui_copilotLastName (refreshIf en changed ed) = ui_copilotLastName ed"
  "ui_copilotFirstName (refreshIf en changed ed) = ui_copilotFirstName ed"
  "ui_numCrew (refreshIf en changed ed) = ui_numCrew ed"
  "ui_numPax (refreshIf en changed ed) = ui_numPax ed"
  "ui_flightMode (refreshIf en changed ed) = ui_flightMode ed"
  "ui_launchMethod (refreshIf en changed ed) = ui_launchMethod ed"
  "ui_towplaneRegistration (refreshIf en changed ed) = ui_towplaneRegistration ed"
  "ui_towflightMode (refreshIf en changed ed) = ui_towflightMode ed"
  "ui_departureTimeChecked (refreshIf en changed ed) = ui_departureTimeChecked ed"
  "ui_landingTimeChecked (refreshIf en changed ed) = ui_landingTimeChecked ed"
  "ui_towflightLandingTimeChecked (refreshIf en changed ed) = ui_towflightLandingTimeChecked ed"
  "ui_departureTime (refreshIf en changed ed) = ui_departureTime ed"
  "ui_landingTime (refreshIf en changed ed) = ui_landingTime ed"
  "ui_towflightLandingTime (refreshIf en changed ed) = ui_towflightLandingTime ed"
  "ui_departureLocation (refreshIf en changed ed) = ui_departureLocation ed"
  "ui_landingLocation (refreshIf en changed ed) = ui_landingLocation ed"
  "ui_towflightLandingLocation (refreshIf en changed ed) = ui_towflightLandingLocation ed"
  "ui_numLandings (refreshIf en changed ed) = ui_numLandings ed"
  "ui_comment (refreshIf en changed ed) = ui_comment ed"
  "ui_accountingNote (refreshIf en changed ed) = ui_accountingNote ed"
  "ui_date (refreshIf en changed ed) = ui_date ed" "ed_open (refreshIf en changed ed) = ed_open ed"
  by (simp_all add: refreshIf_def)

lemma active_cong:
  assumes "ed_cache x = ed_cache ed" "ui_flightMode x = ui_flightMode ed" "ui_launchMethod x = ui_launchMethod ed"
  shows "currentDepartsHere x = currentDepartsHere ed" "currentLandsHere x = currentLandsHere ed"
    "currentIsAirtow x = currentIsAirtow ed"
    "isTowplaneRegistrationActive x = isTowplaneRegistrationActive ed"
  using assms by (simp_all add: active_defs getCurrentFlightMode_def getCurrentLaunchMethodId_def getCurrentLaunchMethod_def)

text \<open>What one step of the merge does with one part of the flight.\<close>

definition changedFlight :: "flight \<Rightarrow> flight \<Rightarrow> editor \<Rightarrow> flight \<Rightarrow> flight" where
  "changedFlight old new ed f = f
     \<lparr>getDeparted := (if getDeparted new = getDeparted old then getDeparted f
        else currentDepartsHere ed \<and> getDeparted new),
      getDepartureTime := (if getDeparted new = getDeparted old then getDepartureTime f
        else if currentDepartsHere ed \<and> getDeparted new
        then atDate (ui_date ed) (setEdit (timeOfDay (getDepartureTime new)) (ui_departureTime ed)) else None),
      getLanded := (if getLanded new = getLanded old then getLanded f
        else currentLandsHere ed \<and> getLanded new),
      getLandingTime := (if getLanded new = getLanded old then getLandingTime f
        else if currentLandsHere ed \<and> getLanded new
        then atDate (ui_date ed) (setEdit (timeOfDay (getLandingTime new)) (ui_landingTime ed)) else None),
      getTowflightLanded := (if getTowflightLanded new = getTowflightLanded old then getTowflightLanded f
        else currentIsAirtow ed \<and> getTowflightLanded new),
      getTowflightLandingTime := (if getTowflightLanded new = getTowflightLanded old then getTowflightLandingTime f
        else if currentIsAirtow ed \<and> getTowflightLanded new
        then atDate (ui_date ed) (setEdit (timeOfDay (getTowflightLandingTime new)) (ui_towflightLandingTime ed)) else None),
      getNumLandings := (if getNumLandings new = getNumLandings old then getNumLandings f
        else clampTo 0 65535 (getNumLandings new)),
      getLandingLocation := (if getLandingLocation new = getLandingLocation old then getLandingLocation f
        else simplified (getLandingLocation new)),
      getTowflightLandingLocation :=
        (if getTowflightLandingLocation new = getTowflightLandingLocation old \<or> \<not> currentIsAirtow ed
         then getTowflightLandingLocation f else simplified (getTowflightLandingLocation new))\<rparr>"

text \<open>The window without what is only displayed; a refresh does not change it, and the flight is read
  from it.\<close>

definition core :: "editor \<Rightarrow> editor" where
  "core ed = ed\<lparr>ui_visible := (\<lambda>w. False), ui_text := (\<lambda>w. []), ui_default := None,
     ui_errors := [], ui_marked := (\<lambda>l. False), ui_focus := None\<rparr>"

lemma core_refresh [simp]: "core (refresh en ed) = core ed" "core (refreshIf en b ed) = core ed"
proof -
  show "core (refresh en ed) = core ed"
    using refresh_shape [of en ed] by (auto simp: core_def)
  then show "core (refreshIf en b ed) = core ed" by (simp add: refreshIf_def)
qed

lemmas current_defs = getCurrentFlightType_def getCurrentFlightMode_def getCurrentTowflightMode_def
  getCurrentLaunchMethodId_def getCurrentLaunchMethod_def getTimeFieldActive_def

lemma core_flight: "determineFlightBasic en (core ed) = determineFlightBasic en ed"
  by (simp add: core_def determineFlightBasic_def Let_def active_defs current_defs cong: if_cong)

definition plainDeparture :: "flight \<Rightarrow> editor \<Rightarrow> editor" where
  "plainDeparture n ed =
     (let old = ed_originalFlight ed; same = (getDeparted n = getDeparted old) in ed
        \<lparr>ui_departureTimeChecked := (if same then ui_departureTimeChecked ed else getDeparted n),
         ui_departureTime := (if same then ui_departureTime ed
           else setEdit (timeOfDay (getDepartureTime n)) (ui_departureTime ed)),
         ed_originalFlight := old\<lparr>getDeparted := getDeparted n,
           getDepartureTime := (if same then getDepartureTime old else getDepartureTime n),
           cachedErrorsValid := same \<and> cachedErrorsValid old\<rparr>\<rparr>)"

definition plainLanding :: "flight \<Rightarrow> editor \<Rightarrow> editor" where
  "plainLanding n ed =
     (let old = ed_originalFlight ed; same = (getLanded n = getLanded old) in ed
        \<lparr>ui_landingTimeChecked := (if same then ui_landingTimeChecked ed else getLanded n),
         ui_landingTime := (if same then ui_landingTime ed
           else setEdit (timeOfDay (getLandingTime n)) (ui_landingTime ed)),
         ed_originalFlight := old\<lparr>getLanded := getLanded n,
           getLandingTime := (if same then getLandingTime old else getLandingTime n),
           cachedErrorsValid := same \<and> cachedErrorsValid old\<rparr>\<rparr>)"

definition plainTowflightLanding :: "flight \<Rightarrow> editor \<Rightarrow> editor" where
  "plainTowflightLanding n ed =
     (let old = ed_originalFlight ed; same = (getTowflightLanded n = getTowflightLanded old) in ed
        \<lparr>ui_towflightLandingTimeChecked := (if same then ui_towflightLandingTimeChecked ed else getTowflightLanded n),
         ui_towflightLandingTime := (if same then ui_towflightLandingTime ed
           else setEdit (timeOfDay (getTowflightLandingTime n)) (ui_towflightLandingTime ed)),
         ed_originalFlight := old\<lparr>getTowflightLanded := getTowflightLanded n,
           getTowflightLandingTime := (if same then getTowflightLandingTime old else getTowflightLandingTime n),
           cachedErrorsValid := same \<and> cachedErrorsValid old\<rparr>\<rparr>)"

definition plainNumLandings :: "flight \<Rightarrow> editor \<Rightarrow> editor" where
  "plainNumLandings n ed =
     (let old = ed_originalFlight ed; same = (getNumLandings n = getNumLandings old) in ed
        \<lparr>ui_numLandings := (if same then ui_numLandings ed else clampTo 0 65535 (getNumLandings n)),
         ed_originalFlight := old\<lparr>getNumLandings := getNumLandings n,
           cachedErrorsValid := same \<and> cachedErrorsValid old\<rparr>\<rparr>)"

definition plainLandingLocation :: "flight \<Rightarrow> editor \<Rightarrow> editor" where
  "plainLandingLocation n ed =
     (let old = ed_originalFlight ed; same = (getLandingLocation n = getLandingLocation old) in ed
        \<lparr>ui_landingLocation := (if same then ui_landingLocation ed
           else cb_setEditText (getLandingLocation n) (ui_landingLocation ed)),
         ed_originalFlight := old\<lparr>getLandingLocation := getLandingLocation n,
           cachedErrorsValid := same \<and> cachedErrorsValid old\<rparr>\<rparr>)"

definition plainTowflightLandingLocation :: "flight \<Rightarrow> editor \<Rightarrow> editor" where
  "plainTowflightLandingLocation n ed =
     (let old = ed_originalFlight ed; same = (getTowflightLandingLocation n = getTowflightLandingLocation old) in ed
        \<lparr>ui_towflightLandingLocation := (if same then ui_towflightLandingLocation ed
           else cb_setEditText (getTowflightLandingLocation n) (ui_towflightLandingLocation ed)),
         ed_originalFlight := old\<lparr>getTowflightLandingLocation := getTowflightLandingLocation n,
           cachedErrorsValid := same \<and> cachedErrorsValid old\<rparr>\<rparr>)"

lemma core_keeps [simp]:
  "ed_mode (core ed) = ed_mode ed" "ed_originalFlight (core ed) = ed_originalFlight ed" "ui_date (core ed) = ui_date ed"
  by (simp_all add: core_def)

lemma core_updates:
  "core (ed\<lparr>ed_originalFlight := f\<rparr>) = (core ed)\<lparr>ed_originalFlight := f\<rparr>"
  "core (ed\<lparr>ui_departureTimeChecked := b\<rparr>) = (core ed)\<lparr>ui_departureTimeChecked := b\<rparr>"
  "core (ed\<lparr>ui_landingTimeChecked := b\<rparr>) = (core ed)\<lparr>ui_landingTimeChecked := b\<rparr>"
  "core (ed\<lparr>ui_towflightLandingTimeChecked := b\<rparr>) = (core ed)\<lparr>ui_towflightLandingTimeChecked := b\<rparr>"
  "core (ed\<lparr>ui_departureTime := t\<rparr>) = (core ed)\<lparr>ui_departureTime := t\<rparr>"
  "core (ed\<lparr>ui_landingTime := t\<rparr>) = (core ed)\<lparr>ui_landingTime := t\<rparr>"
  "core (ed\<lparr>ui_towflightLandingTime := t\<rparr>) = (core ed)\<lparr>ui_towflightLandingTime := t\<rparr>"
  "core (ed\<lparr>ui_numLandings := t\<rparr>) = (core ed)\<lparr>ui_numLandings := t\<rparr>"
  "core (ed\<lparr>ui_landingLocation := x\<rparr>) = (core ed)\<lparr>ui_landingLocation := x\<rparr>"
  "core (ed\<lparr>ui_towflightLandingLocation := x\<rparr>) = (core ed)\<lparr>ui_towflightLandingLocation := x\<rparr>"
  by (simp_all add: core_def)

lemma take_departure:
  "ed_mode ed = modeEdit \<Longrightarrow> core (takeDeparture en n ed) = plainDeparture n (core ed)
    \<and> ed_mode (takeDeparture en n ed) = modeEdit"
  by (cases "getDeparted n = getDeparted (ed_originalFlight ed)")
    (simp_all add: takeDeparture_def plainDeparture_def Let_def core_updates getTimeFieldCheckboxValue_def flight_setters,
     (simp add: core_def)?)

lemma take_landing:
  "ed_mode ed = modeEdit \<Longrightarrow> core (takeLanding en n ed) = plainLanding n (core ed)
    \<and> ed_mode (takeLanding en n ed) = modeEdit"
  by (cases "getLanded n = getLanded (ed_originalFlight ed)")
    (simp_all add: takeLanding_def plainLanding_def Let_def core_updates getTimeFieldCheckboxValue_def flight_setters,
     (simp add: core_def)?)

lemma take_towflightLanding:
  "ed_mode ed = modeEdit \<Longrightarrow> core (takeTowflightLanding en n ed) = plainTowflightLanding n (core ed)
    \<and> ed_mode (takeTowflightLanding en n ed) = modeEdit"
  by (cases "getTowflightLanded n = getTowflightLanded (ed_originalFlight ed)")
    (simp_all add: takeTowflightLanding_def plainTowflightLanding_def Let_def core_updates getTimeFieldCheckboxValue_def flight_setters,
     (simp add: core_def)?)

lemma take_numLandings:
  "ed_mode ed = modeEdit \<Longrightarrow> core (takeNumLandings en n ed) = plainNumLandings n (core ed)
    \<and> ed_mode (takeNumLandings en n ed) = modeEdit"
  by (cases "getNumLandings n = getNumLandings (ed_originalFlight ed)")
    (simp_all add: takeNumLandings_def plainNumLandings_def Let_def core_updates flight_setters,
     (simp add: core_def)?)

lemma take_landingLocation:
  "ed_mode ed = modeEdit \<Longrightarrow> core (takeLandingLocation en n ed) = plainLandingLocation n (core ed)
    \<and> ed_mode (takeLandingLocation en n ed) = modeEdit"
  by (cases "getLandingLocation n = getLandingLocation (ed_originalFlight ed)")
    (simp_all add: takeLandingLocation_def plainLandingLocation_def Let_def core_updates flight_setters,
     (simp add: core_def)?)

lemma take_towflightLandingLocation:
  "ed_mode ed = modeEdit \<Longrightarrow> core (takeTowflightLandingLocation en n ed) = plainTowflightLandingLocation n (core ed)
    \<and> ed_mode (takeTowflightLandingLocation en n ed) = modeEdit"
  by (cases "getTowflightLandingLocation n = getTowflightLandingLocation (ed_originalFlight ed)")
    (simp_all add: takeTowflightLandingLocation_def plainTowflightLandingLocation_def Let_def core_updates flight_setters,
     (simp add: core_def)?)

definition plainChanges :: "flight \<Rightarrow> editor \<Rightarrow> editor" where
  "plainChanges n ed = plainNumLandings n (plainTowflightLandingLocation n (plainLandingLocation n
     (plainNumLandings n (plainTowflightLanding n (plainLanding n (plainDeparture n ed))))))"

lemmas plain_defs = plainDeparture_def plainLanding_def plainTowflightLanding_def plainNumLandings_def
  plainLandingLocation_def plainTowflightLandingLocation_def

lemma take_changes: "ed_mode ed = modeEdit \<Longrightarrow> core (takeChanges en n ed) = plainChanges n (core ed)"
  by (simp add: takeChanges_def plainChanges_def take_departure take_landing take_towflightLanding take_numLandings
      take_landingLocation take_towflightLandingLocation)

text \<open>All steps together are one update of the window.\<close>

definition withChanges :: "flight \<Rightarrow> bool \<Rightarrow> editor \<Rightarrow> editor" where
  "withChanges n valid ed = (let old = ed_originalFlight ed in ed
    \<lparr>ui_departureTimeChecked := (if getDeparted n = getDeparted old then ui_departureTimeChecked ed else getDeparted n),
     ui_departureTime := (if getDeparted n = getDeparted old then ui_departureTime ed
       else setEdit (timeOfDay (getDepartureTime n)) (ui_departureTime ed)),
     ui_landingTimeChecked := (if getLanded n = getLanded old then ui_landingTimeChecked ed else getLanded n),
     ui_landingTime := (if getLanded n = getLanded old then ui_landingTime ed
       else setEdit (timeOfDay (getLandingTime n)) (ui_landingTime ed)),
     ui_towflightLandingTimeChecked :=
       (if getTowflightLanded n = getTowflightLanded old then ui_towflightLandingTimeChecked ed else getTowflightLanded n),
     ui_towflightLandingTime := (if getTowflightLanded n = getTowflightLanded old then ui_towflightLandingTime ed
       else setEdit (timeOfDay (getTowflightLandingTime n)) (ui_towflightLandingTime ed)),
     ui_numLandings := (if getNumLandings n = getNumLandings old then ui_numLandings ed
       else clampTo 0 65535 (getNumLandings n)),
     ui_landingLocation := (if getLandingLocation n = getLandingLocation old then ui_landingLocation ed
       else cb_setEditText (getLandingLocation n) (ui_landingLocation ed)),
     ui_towflightLandingLocation :=
       (if getTowflightLandingLocation n = getTowflightLandingLocation old then ui_towflightLandingLocation ed
        else cb_setEditText (getTowflightLandingLocation n) (ui_towflightLandingLocation ed)),
     ed_originalFlight := old
       \<lparr>getDeparted := getDeparted n,
        getDepartureTime := (if getDeparted n = getDeparted old then getDepartureTime old else getDepartureTime n),
        getLanded := getLanded n,
        getLandingTime := (if getLanded n = getLanded old then getLandingTime old else getLandingTime n),
        getTowflightLanded := getTowflightLanded n,
        getTowflightLandingTime :=
          (if getTowflightLanded n = getTowflightLanded old then getTowflightLandingTime old else getTowflightLandingTime n),
        getNumLandings := getNumLandings n, getLandingLocation := getLandingLocation n,
        getTowflightLandingLocation := getTowflightLandingLocation n, cachedErrorsValid := valid\<rparr>\<rparr>)"

lemma plainChanges_eq:
  "\<exists>valid. plainChanges n ed = withChanges n valid ed"
  unfolding withChanges_def Let_def
  by (rule exI [of _ "cachedErrorsValid (ed_originalFlight (plainChanges n ed))"])
    (simp add: plainChanges_def plain_defs Let_def)

lemma changed_flight:
  assumes "ed_mode ed = modeEdit"
  shows "determineFlightBasic en (plainChanges n ed) = changedFlight (ed_originalFlight ed) n ed (determineFlightBasic en ed)"
proof -
  obtain valid where "plainChanges n ed = withChanges n valid ed" using plainChanges_eq by blast
  note eq = this [unfolded withChanges_def Let_def]
  have act: "currentDepartsHere (plainChanges n ed) = currentDepartsHere ed"
    "currentLandsHere (plainChanges n ed) = currentLandsHere ed"
    "currentIsAirtow (plainChanges n ed) = currentIsAirtow ed"
    "isTowplaneRegistrationActive (plainChanges n ed) = isTowplaneRegistrationActive ed"
    by (rule active_cong; simp add: eq)+
  have cur: "getCurrentFlightType (plainChanges n ed) = getCurrentFlightType ed"
    "getCurrentFlightMode (plainChanges n ed) = getCurrentFlightMode ed"
    "getCurrentTowflightMode (plainChanges n ed) = getCurrentTowflightMode ed"
    "getCurrentLaunchMethodId (plainChanges n ed) = getCurrentLaunchMethodId ed"
    by (simp_all add: eq getCurrentFlightType_def getCurrentFlightMode_def getCurrentTowflightMode_def
        getCurrentLaunchMethodId_def)
  have time: "isDepartureTimeActive (plainChanges n ed) = (if getDeparted n = getDeparted (ed_originalFlight ed)
      then isDepartureTimeActive ed else currentDepartsHere ed \<and> getDeparted n)"
    "isLandingTimeActive (plainChanges n ed) = (if getLanded n = getLanded (ed_originalFlight ed)
      then isLandingTimeActive ed else currentLandsHere ed \<and> getLanded n)"
    "isTowflightLandingTimeActive (plainChanges n ed) = (if getTowflightLanded n = getTowflightLanded (ed_originalFlight ed)
      then isTowflightLandingTimeActive ed else currentIsAirtow ed \<and> getTowflightLanded n)"
    unfolding isDepartureTimeActive_def isLandingTimeActive_def isTowflightLandingTimeActive_def
      isDepartureActive_def isLandingActive_def isTowflightLandingActive_def act getTimeFieldActive_def
    by (simp_all add: eq assms)
  have rest: "isCopilotActive en (plainChanges n ed) = isCopilotActive en ed"
    "isPilotActive en (plainChanges n ed) = isPilotActive en ed"
    "isTowpilotActive en (plainChanges n ed) = isTowpilotActive en ed"
    "isLaunchMethodActive (plainChanges n ed) = isLaunchMethodActive ed"
    by (simp_all add: isCopilotActive_def isPilotActive_def isTowpilotActive_def isLaunchMethodActive_def act cur)
  have ui: "ui_date (plainChanges n ed) = ui_date ed" by (simp add: eq)
  show ?thesis
    by (rule flight.equality)
      (simp_all add: changedFlight_def basic_fields basic_rest act cur time rest,
       simp_all add: eq cb_setEditText_def)
qed

lemma changed_original:
  assumes "ed_mode ed = modeEdit" "new = ed_originalFlight (takeChanges en n ed)"
  shows "getDeparted new = getDeparted n \<and> getLanded new = getLanded n \<and> getTowflightLanded new = getTowflightLanded n
    \<and> getNumLandings new = getNumLandings n \<and> getLandingLocation new = getLandingLocation n
    \<and> getTowflightLandingLocation new = getTowflightLandingLocation n"
proof -
  have "new = ed_originalFlight (plainChanges n (core ed))"
    using take_changes [OF assms(1), of en n] assms(2) core_keeps(2) by metis
  moreover obtain valid where "plainChanges n (core ed) = withChanges n valid (core ed)"
    using plainChanges_eq by blast
  ultimately show ?thesis by (simp add: withChanges_def Let_def)
qed


section \<open>What is shown\<close>

lemma labelsOf_simps:
  "labelsOf (Inp copilotLastNameInput) = [copilotLastNameLabel, copilotLabel]"
  "labelsOf (Inp copilotFirstNameInput) = [copilotFirstNameLabel]"
  "labelsOf (Inp launchMethodInput) = [launchMethodLabel]"
  "labelsOf (Inp towplaneRegistrationInput) = [towplaneRegistrationLabel]"
  "labelsOf (Inp towplaneTypeWidget) = [towplaneTypeLabel]"
  "labelsOf (Inp towpilotLastNameInput) = [towpilotLabel, towpilotLastNameLabel]"
  "labelsOf (Inp towpilotFirstNameInput) = [towpilotFirstNameLabel]"
  "labelsOf (Inp towflightModeInput) = [towflightModeLabel]"
  "labelsOf (Inp departureTimeCheckbox) = [departureTimeLabel]"
  "labelsOf (Inp landingTimeCheckbox) = [landingTimeLabel]"
  "labelsOf (Inp towflightLandingTimeCheckbox) = [towflightLandingTimeLabel]"
  "labelsOf (Inp towflightLandingLocationInput) = [towflightLandingLocationLabel]"
  "labelsOf (Inp errorList) = [errorLabel]"
  by (simp_all add: labelsOf_def widgetLabelMap_def)

lemma updateSetup_visible:
  "ui_visible (updateSetup en ed) (Inp w) = fold (\<lambda>step v. step v) (setupVisibility en ed) (ui_visible ed) (Inp w)"
  by (simp add: updateSetup_def updateSetupVisibility_def updateSetupLabels_def updateSetupButtons_def Let_def
      setVisible_def)

lemma setup_visible:
  "fold (\<lambda>step v. step v) (setupVisibility en ed) v (Inp w) =
     (if w \<in> {copilotLastNameInput, copilotFirstNameInput, pilotFirstNameInput, pilotLastNameInput} then isPilotActive en ed
      else if w \<in> {numPaxInput, numCrewInput} then \<not> isPilotActive en ed
      else if w = launchMethodInput then isLaunchMethodActive ed
      else if w = towplaneRegistrationInput then isTowplaneRegistrationActive ed
      else if w = towplaneTypeWidget then isTowplaneTypeActive ed
      else if w \<in> {towpilotLastNameInput, towpilotFirstNameInput} then isTowpilotActive en ed
      else if w = towflightModeInput then isTowflightModeActive ed
      else if w = departureTimeCheckbox then isDepartureActive ed
      else if w = departureTimeWidget then isDepartureTimeActive ed
      else if w = landingTimeCheckbox then isLandingActive ed
      else if w = landingTimeWidget then isLandingTimeActive ed
      else if w = towflightLandingTimeCheckbox then isTowflightLandingActive ed
      else if w = towflightLandingTimeWidget then isTowflightLandingTimeActive ed
      else if w = towflightLandingLocationInput then isTowflightLandingLocationActive ed
      else if w = errorList then isErrorListActive ed
      else v (Inp w))"
  unfolding setupVisibility_def Let_def enableWidgets_def enableWidget_def labelsOf_simps isPilotActive_def
  by (cases w) (simp_all add: setVisible_def)

text \<open>After every input of the user the inputs that only some flights have are shown exactly if they are
  active, so that every value that is shown is also stored, with one exception: the names of the
  copilot are shown unless the program runs in anonymous mode.\<close>

theorem shown_inputs:
  "let v = ui_visible (updateSetup en ed) in
     v (Inp launchMethodInput) = isLaunchMethodActive ed
   \<and> v (Inp towplaneRegistrationInput) = isTowplaneRegistrationActive ed
   \<and> v (Inp towpilotLastNameInput) = isTowpilotActive en ed
   \<and> v (Inp towpilotFirstNameInput) = isTowpilotActive en ed
   \<and> v (Inp towflightModeInput) = isTowflightModeActive ed
   \<and> v (Inp departureTimeCheckbox) = isDepartureActive ed
   \<and> v (Inp departureTimeWidget) = isDepartureTimeActive ed
   \<and> v (Inp landingTimeCheckbox) = isLandingActive ed
   \<and> v (Inp landingTimeWidget) = isLandingTimeActive ed
   \<and> v (Inp towflightLandingTimeCheckbox) = isTowflightLandingActive ed
   \<and> v (Inp towflightLandingTimeWidget) = isTowflightLandingTimeActive ed
   \<and> v (Inp towflightLandingLocationInput) = isTowflightLandingLocationActive ed
   \<and> v (Inp pilotLastNameInput) = isPilotActive en ed
   \<and> v (Inp errorList) = isErrorListActive ed
   \<and> v (Inp copilotLastNameInput) = isPilotActive en ed"
  by (simp add: Let_def updateSetup_visible setup_visible)

section \<open>Where the names go wrong\<close>

text \<open>The editor does not find the one person whose last and first name were entered: the two names are
  passed to the cache in the wrong order, so that the person is unknown unless the names fit in this
  order too.\<close>

theorem entered_person_not_found:
  assumes "isPilotActive en ed" "cb_text (ui_pilotLastName ed) = lastName" "lastName \<noteq> []"
    "getPersonIdsByName (ed_cache ed) lastName firstName = [i]"
    "getPersonIdsByName (ed_cache ed) firstName lastName = []"
  shows "ed_selectedPilot (pilotFirstNameChanged en firstName ed) = invalidId"
  using assms by (simp add: pilotFirstNameChanged_def fillLastNames_def fillNames_def split_def Let_def
      cb_setEditText_def getUniquePersonIdByName_def)

section \<open>Witnesses\<close>

definition env1 :: editor_env where
  "env1 = \<lparr>ee_settings = \<lparr>set_location = ''Aachen'', set_anonymousMode = False, set_recordTowpilot = True\<rparr>,
     ee_checkMedicals = True, ee_prefix = ''D-'', ee_today = 20000, ee_now = Some 1728000000000,
     ee_mem = newFlight \<lparr>getId = 0, getPlaneId = 0, getPilotId = 0, getCopilotId = 0,
      getSupervisorId = 0, getNumCrew = 7, getNumPax = 7,
      getType = typeNone, getMode = modeLocal, getDeparted = False, getLanded = False,
      getTowflightLanded = False, getLaunchMethodId = 0, getDepartureLocation = [],
      getLandingLocation = [], getDepartureTime = None, getLandingTime = None,
      getNumLandings = 0, getTowplaneId = 0, getTowflightMode = modeLocal,
      getTowflightLandingLocation = [], getTowflightLandingTime = None, getTowpilotId = 0,
      getPilotLastName = [], getPilotFirstName = [], getCopilotLastName = [],
      getCopilotFirstName = [], getTowpilotLastName = [], getTowpilotFirstName = [],
      getComments = [], getAccountingNotes = [], getFlarmId = [], getVfId = 0,
      getUploaded = True, cachedErrors = [], cachedErrorsValid = True\<rparr> 0\<rparr>"

text \<open>The user opens an empty window on a club with one winch and types a departure at 10:00.\<close>

definition winch1 :: launchMethod where
  "winch1 = (lm_new 4)\<lparr>lm_type := typeWinch\<rparr>"

definition cache1 :: cache where
  "cache1 = newCache\<lparr>launchMethods := [winch1], launchMethodsById := [4 \<mapsto> winch1]\<rparr>"

definition typed1 :: editor where
  "typed1 = (let ed0 = ew_createFlight env1 cache1 20000 0;
     ed1 = the (userEdit env1 ClickDepartureTime ed0);
     ed2 = the (userEdit env1 (EditDepartureTime 36000000) ed1)
   in the (userEdit env1 (EditComment ''  first   flight '') ed2))"

lemma typed1_session: "session env1 cache1 typed1"
proof -
  have step: "session env1 cache1 (the (userEdit env1 a ed))"
    if "session env1 cache1 ed" "applyAction env1 a ed \<noteq> None" for a ed
    using that session_user [of env1 cache1 ed a] by (auto simp: userEdit_def)
  show ?thesis
    unfolding typed1_def Let_def by (intro step session_create) simp_all
qed

lemma newEditor_choices:
  "ch_current (ui_flightType (newEditor env1 m cache1)) = Some typeNormal"
  "ch_current (ui_flightMode (newEditor env1 m cache1)) = Some modeLocal"
  "ch_current (ui_launchMethod (newEditor env1 m cache1)) = Some 4"
  "ui_departureTimeChecked (newEditor env1 m cache1) = True"
  "ui_landingTimeChecked (newEditor env1 m cache1) = True"
  "ui_towflightLandingTimeChecked (newEditor env1 m cache1) = True"
  by (simp_all add: newEditor_def Let_def)
    (simp_all add: setupTitle_def fillData_def fillLists_def settingsChanged_def formWidgets_def Let_def
      cache1_def winch1_def lm_new_def setCurrentIndex_def ch_addItem_def ch_empty_def listTypes_def listModes_def)

lemma typed1_inputs:
  "ch_current (ui_flightType typed1) = Some typeNormal" "ch_current (ui_flightMode typed1) = Some modeLocal"
  "ch_current (ui_launchMethod typed1) = Some 4" "ed_mode typed1 = modeCreate" "ed_cache typed1 = cache1"
  "ui_departureTimeChecked typed1 = False" "ui_landingTimeChecked typed1 = True"
  "ui_departureTime typed1 = 36000000" "ui_date typed1 = 20000"
  by (simp_all add: typed1_def Let_def userEdit_def ew_createFlight_def newEditor_choices sk_defs)

lemma typed1_flight:
  "getType (determineFlightBasic env1 typed1) = typeNormal"
  "getTowflightLanded (determineFlightBasic env1 typed1) = False"
  "getLaunchMethodId (determineFlightBasic env1 typed1) = 4"
  "getDepartureTime (determineFlightBasic env1 typed1) = Some 1728036000000"
  by (simp_all add: basic_fields active_defs current_defs typed1_inputs sk_defs getObject_def cache1_def winch1_def
      lm_isAirtow_def lm_new_def atDate_def)

theorem edit_again_witness:
  "\<exists>ed'. flightToFields env1 (determineFlightBasic env1 typed1) False (newEditor env1 modeEdit cache1) = Some ed'
    \<and> determineFlightBasic env1 ed' = determineFlightBasic env1 typed1
    \<and> getDepartureTime (determineFlightBasic env1 typed1) = Some 1728036000000"
proof -
  have "launchMethodKnown cache1 4"
    by (simp add: launchMethodKnown_def cache1_def winch1_def lm_new_def)
  then show ?thesis
    using edit_again [OF typed1_session refl] by (simp add: typed1_flight typed1_inputs)
qed

text \<open>A prepared flight is edited while it lands.\<close>

definition edited1 :: editor where
  "edited1 = (newEditor env1 modeEdit cache1)\<lparr>ed_originalFlightId := 9,
     ed_originalFlight := (ed_originalFlight (newEditor env1 modeEdit cache1))\<lparr>getId := 9\<rparr>\<rparr>"

definition landed1 :: flight where
  "landed1 = (ed_originalFlight edited1)\<lparr>getId := 9, getLanded := True, getLandingTime := Some 1728050400000,
     getNumLandings := 1, getLandingLocation := ''Aachen''\<rparr>"


theorem entered_person_not_found_witness:
  "ed_selectedPilot (pilotFirstNameChanged env1 ''Orville''
     (typed1\<lparr>ed_cache := updateHashesPersonAdded ((pe_new 0 3)\<lparr>pe_lastName := ''Wright'', pe_firstName := ''Orville''\<rparr>) newCache,
        ui_pilotLastName := \<lparr>cb_text = ''Wright'', cb_items = []\<rparr>\<rparr>)) = invalidId"
  by (rule entered_person_not_found [where lastName = "''Wright''" and i = 3])
    (simp_all add: isPilotActive_def env1_def getPersonIdsByName_def updateHashesPersonAdded_def newCache_def pe_new_def
      Let_def mh_values_def mh_insert_def toLowerChar_def)

end
