(* ===== verification/Sk_FlightAccept.thy ===== *)
theory Sk_FlightAccept
  imports Sk_FlightEdit
begin

text \<open>
  Accepting the input of the flight editor, \<^verbatim>\<open>src/src/gui/windows/FlightWindow.cpp\<close>: finding the planes and
  people that were typed in, the checks that ask the user to confirm a problem, and storing the
  flight. A dialog is a step on the state of the window that returns a value, is aborted (\<open>AbortedException\<close>),
  or crashes on a null pointer. What the user answers is a function of the questions asked so far,
  so that every behaviour of a user is some environment; creating an object in its editor gives the new
  id, or the invalid id if the user cancels, and the cache afterwards.
\<close>

section \<open>Dialogs\<close>

datatype problem =
    NoLaunchMethod | NoDepartureLocation | NoLandingLocation | LocationsEqual | LandingBeforeDeparture
  | LandedNotDeparted | NumberOfLandingsZero | NoTowflightLandingLocation
  | TowflightLandingBeforeDeparture | TowflightLandedNotDeparted
  | PlaneIsTowplane | GliderSeveralLandings plane | GliderLandingWithoutTime plane | GliderSelfLaunched plane
  | AirplaneNotSelfLaunched plane | PassengersInSingleSeater plane | TrainingInSingleSeater plane
  | TowplaneGlider plane | PlaneStillFlying plane | TowplaneStillFlying plane
  | PilotIsCopilot | PilotIsTowpilot | CopilotIsTowpilot | NoInstructor | CopilotInSingleSeater plane
  | PilotStillFlying person | CopilotStillFlying person | TowpilotStillFlying person
  | MedicalExpired qstring qdate | MedicalUnknown qstring
  | NoRegistration qstring | NameIsPlusOne | NoName qstring

datatype question =
    Confirm problem
  | UsePlane qstring qstring qstring
  | AddPlane qstring qstring
  | AddPerson qstring qstring qstring
  | CreatePlane plane
  | CreatePerson qstring qstring
  | SelectPerson qstring "person list" dbId

datatype selection = SelCancelled | SelNone | SelNew | SelUnknown | SelRow nat

record dialog_env = editor_env +
  de_yes :: "question list \<Rightarrow> bool"
  de_created :: "question list \<Rightarrow> cache \<Rightarrow> dbId \<times> cache"
  de_selected :: "question list \<Rightarrow> selection"
  de_systemTz :: qtimezone
  de_flarmAnswer :: update_action
  de_flarmResolution :: int
  de_flarmCanceled :: bool
  de_flarmCanceled2 :: bool
  de_stored :: "flight \<Rightarrow> dbId option"

datatype editor_signal = SignalDeparted dbId | SignalLanded dbId | SaveError

record dialog_state =
  ds_editor :: editor
  ds_asked :: "question list"
  ds_stores :: "db_value list"
  ds_signals :: "editor_signal list"

datatype 'a outcome = Return 'a | Aborted | Crashed | NotFound

type_synonym 'a dialog = "dialog_state \<Rightarrow> 'a outcome \<times> dialog_state"

definition dlg_return :: "'a \<Rightarrow> 'a dialog" where
  "dlg_return x s = (Return x, s)"

definition dlg_abort :: "'a dialog" where
  "dlg_abort s = (Aborted, s)"

definition dlg_bind :: "'a dialog \<Rightarrow> ('a \<Rightarrow> 'b dialog) \<Rightarrow> 'b dialog" where
  "dlg_bind m f s = (case m s of
     (Return x, s') \<Rightarrow> f x s' | (Aborted, s') \<Rightarrow> (Aborted, s') | (Crashed, s') \<Rightarrow> (Crashed, s')
   | (NotFound, s') \<Rightarrow> (NotFound, s'))"

definition dlg_get :: "dialog_state dialog" where
  "dlg_get s = (Return s, s)"

definition dlg_edit :: "(editor \<Rightarrow> editor) \<Rightarrow> unit dialog" where
  "dlg_edit f s = (Return (), s\<lparr>ds_editor := f (ds_editor s)\<rparr>)"

definition dlg_asking :: "question \<Rightarrow> dialog_state \<Rightarrow> dialog_state" where
  "dlg_asking q s = s\<lparr>ds_asked := q # ds_asked s\<rparr>"

definition yesNoQuestion :: "dialog_env \<Rightarrow> question \<Rightarrow> bool dialog" where
  "yesNoQuestion en q s = (Return (de_yes en (q # ds_asked s)), dlg_asking q s)"

definition createdObject :: "dialog_env \<Rightarrow> question \<Rightarrow> dbId dialog" where
  "createdObject en q s =
     (let (i, c) = de_created en (q # ds_asked s) (ed_cache (ds_editor s))
      in (Return i, (dlg_asking q s)\<lparr>ds_editor := (ds_editor s)\<lparr>ed_cache := c\<rparr>\<rparr>))"

definition setFocusTo :: "input_widget option \<Rightarrow> editor \<Rightarrow> editor" where
  "setFocusTo w ed = (case w of Some x \<Rightarrow> ed\<lparr>ui_focus := Some x\<rparr> | None \<Rightarrow> ed)"

definition errorCheck :: "dialog_env \<Rightarrow> problem \<Rightarrow> input_widget option \<Rightarrow> unit dialog" where
  "errorCheck en p w =
     dlg_bind (yesNoQuestion en (Confirm p)) (\<lambda>accepted.
       if \<not> accepted then dlg_bind (dlg_edit (setFocusTo w)) (\<lambda>_. dlg_abort) else dlg_return ())"

text \<open>A sequence of conditional checks.\<close>

fun runChecks :: "dialog_env \<Rightarrow> (bool \<times> problem \<times> input_widget) list \<Rightarrow> unit dialog" where
  "runChecks en [] = dlg_return ()"
| "runChecks en ((c, p, w) # cs) =
     (if c then dlg_bind (errorCheck en p (Some w)) (\<lambda>_. runChecks en cs) else runChecks en cs)"

section \<open>The checks\<close>

definition phase1 :: "flight \<Rightarrow> bool \<Rightarrow> (bool \<times> problem \<times> input_widget) list" where
  "phase1 f departing =
     [((departing \<or> getDeparted f) \<and> departsHere f \<and> idInvalid (getLaunchMethodId f),
       NoLaunchMethod, launchMethodInput),
      ((getDeparted f \<or> \<not> departsHere f) \<and> isNone (getDepartureLocation f),
       NoDepartureLocation, departureLocationInput),
      ((getLanded f \<or> \<not> landsHere f) \<and> isNone (getLandingLocation f),
       NoLandingLocation, landingLocationInput),
      (departsHere f \<noteq> landsHere f \<and> simplified (getDepartureLocation f) = simplified (getLandingLocation f),
       LocationsEqual, if departsHere f then landingLocationInput else departureLocationInput),
      (getLanded f \<and> getDeparted f \<and> msecs (getDepartureTime f) > msecs (getLandingTime f),
       LandingBeforeDeparture, landingTimeInput),
      (departsHere f \<and> landsHere f \<and> getLanded f \<and> \<not> getDeparted f, LandedNotDeparted, landingTimeInput),
      (landsHere f \<and> getLanded f \<and> getNumLandings f = 0, NumberOfLandingsZero, numLandingsInput),
      (getTowflightLanded f \<and> \<not> towflightLandsHere f \<and> isNone (getTowflightLandingLocation f),
       NoTowflightLandingLocation, towflightLandingLocationInput),
      (getDeparted f \<and> getTowflightLanded f \<and> msecs (getDepartureTime f) > msecs (getTowflightLandingTime f),
       TowflightLandingBeforeDeparture, towflightLandingTimeInput),
      (getTowflightLanded f \<and> \<not> getDeparted f, TowflightLandedNotDeparted, towflightLandingTimeInput)]"

definition checkFlightPhase1 :: "dialog_env \<Rightarrow> flight \<Rightarrow> bool \<Rightarrow> unit dialog" where
  "checkFlightPhase1 en f departing = runChecks en (phase1 f departing)"

definition planeChecks ::
    "flight \<Rightarrow> plane option \<Rightarrow> launchMethod option \<Rightarrow> (bool \<times> problem \<times> input_widget) list" where
  "planeChecks f plane launchMethod =
     (idValid (getPlaneId f) \<and> getPlaneId f = getTowplaneId f, PlaneIsTowplane, towplaneRegistrationInput)
     # (case plane of None \<Rightarrow> []
        | Some p \<Rightarrow>
            [(launchMethod \<noteq> None \<and> getNumLandings f > 1 \<and> pl_category p = categoryGlider
                \<and> \<not> (case launchMethod of Some l \<Rightarrow> lm_type l = typeAirtow | None \<Rightarrow> False),
              GliderSeveralLandings p, numLandingsInput),
             (getNumLandings f > 0 \<and> \<not> getLanded f \<and> pl_category p = categoryGlider
                \<and> \<not> (case launchMethod of Some l \<Rightarrow> lm_type l = typeAirtow | None \<Rightarrow> False),
              GliderLandingWithoutTime p, numLandingsInput),
             (pl_category p = categoryGlider \<and> (case launchMethod of Some l \<Rightarrow> lm_type l = typeSelf | None \<Rightarrow> False),
              GliderSelfLaunched p, launchMethodInput),
             ((pl_category p = categoryAirplane \<or> pl_category p = categoryUltralight)
                \<and> (case launchMethod of Some l \<Rightarrow> lm_type l \<noteq> typeSelf | None \<Rightarrow> False),
              AirplaneNotSelfLaunched p, departureTimeInput),
             (pl_numSeats p = 1 \<and> (getType f = typeGuestPrivate \<or> getType f = typeGuestExternal)
                \<and> (case launchMethod of Some l \<Rightarrow> lm_type l \<noteq> typeSelf | None \<Rightarrow> False),
              PassengersInSingleSeater p, registrationInput),
             (pl_numSeats p = 1 \<and> getType f = typeTraining2
                \<and> (case launchMethod of Some l \<Rightarrow> lm_type l \<noteq> typeSelf | None \<Rightarrow> False),
              TrainingInSingleSeater p, registrationInput)])"

text \<open>The message about a towplane that is a glider reads the registration and type of the plane, which is
  a null pointer if there is no plane.\<close>

definition towplaneCheck :: "dialog_env \<Rightarrow> plane option \<Rightarrow> plane option \<Rightarrow> unit dialog" where
  "towplaneCheck en plane towplane =
     (case towplane of
        None \<Rightarrow> dlg_return ()
      | Some t \<Rightarrow>
          if pl_category t = categoryGlider
          then (case plane of
                  None \<Rightarrow> (\<lambda>s. (Crashed, s))
                | Some p \<Rightarrow> errorCheck en (TowplaneGlider p) (Some towplaneRegistrationInput))
          else dlg_return ())"

definition planeFlyingChecks ::
    "cache \<Rightarrow> bool \<Rightarrow> plane option \<Rightarrow> plane option \<Rightarrow> (bool \<times> problem \<times> input_widget) list" where
  "planeFlyingChecks c departing plane towplane =
     (case plane of None \<Rightarrow> []
      | Some p \<Rightarrow> [(departing \<and> idValid (planeFlying c (pl_id p)), PlaneStillFlying p, registrationInput)])
     @ (case towplane of None \<Rightarrow> []
      | Some t \<Rightarrow> [(departing \<and> idValid (planeFlying c (pl_id t)), TowplaneStillFlying t, registrationInput)])"

definition checkFlightPhase2 ::
    "dialog_env \<Rightarrow> flight \<Rightarrow> bool \<Rightarrow> plane option \<Rightarrow> plane option \<Rightarrow> launchMethod option \<Rightarrow> unit dialog" where
  "checkFlightPhase2 en f departing plane towplane launchMethod =
     dlg_bind (runChecks en (planeChecks f plane launchMethod)) (\<lambda>_.
       dlg_bind (towplaneCheck en plane towplane) (\<lambda>_.
         dlg_bind dlg_get (\<lambda>s.
           runChecks en (planeFlyingChecks (ed_cache (ds_editor s)) departing plane towplane))))"

definition checkMedical :: "person option \<Rightarrow> qstring \<Rightarrow> int \<Rightarrow> (bool \<times> problem \<times> input_widget) list" where
  "checkMedical person ofThePersonText date =
     (case person of None \<Rightarrow> []
      | Some p \<Rightarrow>
          if \<not> pe_checkMedical p then []
          else (case pe_medicalValidity p of
              Some validity \<Rightarrow> [(validity < date, MedicalExpired ofThePersonText (Some validity), editorWindow)]
            | None \<Rightarrow> [(True, MedicalUnknown ofThePersonText, editorWindow)]))"

definition personFlyingCheck ::
    "cache \<Rightarrow> bool \<Rightarrow> person option \<Rightarrow> (person \<Rightarrow> problem) \<Rightarrow> input_widget \<Rightarrow> (bool \<times> problem \<times> input_widget) list" where
  "personFlyingCheck c departing person p w =
     (case person of None \<Rightarrow> []
      | Some x \<Rightarrow> [(departing \<and> idValid (personFlying c (pe_id x)), p x, w)])"

definition phase3 ::
    "dialog_env \<Rightarrow> editor \<Rightarrow> flight \<Rightarrow> bool \<Rightarrow> plane option \<Rightarrow> person option \<Rightarrow> person option \<Rightarrow> person option
      \<Rightarrow> (bool \<times> problem \<times> input_widget) list" where
  "phase3 en ed f departing plane pilot copilot towpilot =
     [(idValid (getPilotId f) \<and> getPilotId f = getCopilotId f, PilotIsCopilot, pilotLastNameInput),
      (idValid (getPilotId f) \<and> getPilotId f = getTowpilotId f, PilotIsTowpilot, towpilotLastNameInput),
      (idValid (getCopilotId f) \<and> getCopilotId f = getTowpilotId f, CopilotIsTowpilot, towpilotLastNameInput),
      (getType f = typeTraining2 \<and> \<not> copilotSpecified f, NoInstructor, copilotLastNameInput)]
     @ (case plane of None \<Rightarrow> []
        | Some p \<Rightarrow> [(pl_numSeats p = 1 \<and> copilotSpecified f, CopilotInSingleSeater p, registrationInput)])
     @ personFlyingCheck (ed_cache ed) departing pilot PilotStillFlying pilotLastNameInput
     @ personFlyingCheck (ed_cache ed) departing copilot CopilotStillFlying copilotLastNameInput
     @ personFlyingCheck (ed_cache ed) departing towpilot TowpilotStillFlying towpilotLastNameInput
     @ (if ee_checkMedicals en
        then checkMedical pilot (if isTraining f then ''of the student'' else ''of the pilot'') (ui_date ed)
             @ (if getType f = typeTraining2 then checkMedical copilot ''of the flight instructor'' (ui_date ed) else [])
        else [])"

definition checkFlightPhase3 ::
    "dialog_env \<Rightarrow> flight \<Rightarrow> bool \<Rightarrow> plane option \<Rightarrow> person option \<Rightarrow> person option \<Rightarrow> person option \<Rightarrow> unit dialog" where
  "checkFlightPhase3 en f departing plane pilot copilot towpilot =
     dlg_bind dlg_get (\<lambda>s. runChecks en (phase3 en (ds_editor s) f departing plane pilot copilot towpilot))"

section \<open>Determining planes\<close>

definition determinePlane :: "dialog_env \<Rightarrow> qstring \<Rightarrow> qstring \<Rightarrow> input_widget option \<Rightarrow> dbId dialog" where
  "determinePlane en registration description widget =
     (let prefix = ee_prefix en in
      if isNone registration \<or> toLower (simplified registration) = toLower (simplified prefix)
      then dlg_bind (yesNoQuestion en (Confirm (NoRegistration description))) (\<lambda>accepted.
             if \<not> accepted then dlg_abort else dlg_return invalidId)
      else dlg_bind dlg_get (\<lambda>s.
        let c = ed_cache (ds_editor s); i = getPlaneIdByRegistration c registration in
        if \<not> idInvalid i then dlg_return i
        else (let j = getPlaneIdByRegistration c (prefix @ registration) in
          dlg_bind (if idValid j then yesNoQuestion en (UsePlane description registration (prefix @ registration))
                    else dlg_return False) (\<lambda>usePrefixed.
            if usePrefixed then dlg_return j
            else dlg_bind (yesNoQuestion en (AddPlane description (toUpper registration))) (\<lambda>add.
              if add
              then (let plane = (pl_new invalidId)
                          \<lparr>pl_registration := toUpper registration,
                           pl_flarmId := getFlarmId (ed_originalFlight (ds_editor s))\<rparr>
                    in dlg_bind (createdObject en (CreatePlane plane)) (\<lambda>result.
                      if idValid result then dlg_return result
                      else dlg_bind (dlg_edit (setFocusTo widget)) (\<lambda>_. dlg_abort)))
              else dlg_abort)))))"

text \<open>\<open>None\<close> as the input: the towplane of a known airtow has none; its type label is always the one of the
  towplane.\<close>

definition enterPlane :: "dbId \<Rightarrow> input_widget \<Rightarrow> bool \<Rightarrow> editor \<Rightarrow> editor" where
  "enterPlane i typeWidget hasInput ed =
     (if idValid i
      then (case getObject (planesById (ed_cache ed)) i of
          Inl _ \<Rightarrow> ed
        | Inr p \<Rightarrow>
            (let ed1 = (if \<not> hasInput then ed
                  else if typeWidget = planeTypeWidget
                  then ed\<lparr>ui_registration := cb_setEditText (pl_registration p) (ui_registration ed)\<rparr>
                  else ed\<lparr>ui_towplaneRegistration := cb_setEditText (pl_registration p) (ui_towplaneRegistration ed)\<rparr>)
             in ed1\<lparr>ui_text := (ui_text ed1)(Inp typeWidget := pl_type p)\<rparr>))
      else ed)"

definition determineAndEnterPlane ::
    "dialog_env \<Rightarrow> qstring \<Rightarrow> qstring \<Rightarrow> input_widget option \<Rightarrow> input_widget \<Rightarrow> dbId dialog" where
  "determineAndEnterPlane en registration description registrationInput' typeWidget =
     dlg_bind (determinePlane en registration description registrationInput') (\<lambda>i.
       dlg_bind (dlg_edit (enterPlane i typeWidget (registrationInput' \<noteq> None))) (\<lambda>_. dlg_return i))"

definition setPlaneId :: "dbId \<Rightarrow> flight \<Rightarrow> flight" where
  "setPlaneId i f = dataChanged (f\<lparr>getPlaneId := i\<rparr>)"
definition setTowplaneId :: "dbId \<Rightarrow> flight \<Rightarrow> flight" where
  "setTowplaneId i f = dataChanged (f\<lparr>getTowplaneId := i\<rparr>)"

definition determineKnownTowplane :: "dialog_env \<Rightarrow> unit dialog" where
  "determineKnownTowplane en = dlg_bind dlg_get (\<lambda>s. let ed = ds_editor s in
     if currentIsAirtow ed \<and> idValid (getCurrentLaunchMethodId ed)
     then (case getCurrentLaunchMethod ed of
         Inl _ \<Rightarrow> (\<lambda>s. (NotFound, s))
       | Inr l \<Rightarrow>
           if lm_towplaneKnown l
           then dlg_bind (determineAndEnterPlane en (lm_towplaneRegistration l) ''towplane'' None towplaneTypeWidget)
                  (\<lambda>_. dlg_return ())
           else dlg_return ())
     else dlg_return ())"

definition determineFlightPlanes :: "dialog_env \<Rightarrow> flight \<Rightarrow> flight dialog" where
  "determineFlightPlanes en f =
     dlg_bind dlg_get (\<lambda>s0.
     dlg_bind (determineAndEnterPlane en (cb_text (ui_registration (ds_editor s0))) ''plane''
                 (Some registrationInput) planeTypeWidget) (\<lambda>i.
     dlg_bind dlg_get (\<lambda>s1.
     dlg_bind (if isTowplaneRegistrationActive (ds_editor s1)
               then dlg_bind (determineAndEnterPlane en (cb_text (ui_towplaneRegistration (ds_editor s1))) ''towplane''
                      (Some towplaneRegistrationInput) towplaneTypeWidget)
                      (\<lambda>j. dlg_return (setTowplaneId j (setPlaneId i f)))
               else dlg_return (setPlaneId i f)) (\<lambda>g.
     dlg_bind (determineKnownTowplane en) (\<lambda>_. dlg_return g)))))"

section \<open>Determining people\<close>

definition createNewPerson :: "dialog_env \<Rightarrow> qstring \<Rightarrow> qstring \<Rightarrow> dbId dialog" where
  "createNewPerson en lastName firstName =
     dlg_bind (createdObject en (CreatePerson lastName firstName)) (\<lambda>i.
       if idValid i then dlg_return i else dlg_abort)"

text \<open>\<open>ObjectSelectWindow::select\<close>: the row that was selected is one of the people listed.\<close>

definition selectObject :: "dialog_env \<Rightarrow> qstring \<Rightarrow> person list \<Rightarrow> dbId \<Rightarrow> (selection \<times> dbId) dialog" where
  "selectObject en reason candidates preselectionId s =
     (let q = SelectPerson reason candidates preselectionId;
          answer = de_selected en (q # ds_asked s)
      in (Return (case answer of
            SelRow n \<Rightarrow> if n < length candidates then (answer, pe_id (candidates ! n)) else (SelNone, invalidId)
          | _ \<Rightarrow> (answer, invalidId)), dlg_asking q s))"

definition candidatesFor :: "cache \<Rightarrow> qstring \<Rightarrow> qstring \<Rightarrow> dbId list" where
  "candidatesFor c lastName firstName =
     (if \<not> isNone lastName \<and> \<not> isNone firstName then getPersonIdsByName c lastName firstName
      else if \<not> isNone lastName then getPersonIdsByLastName c lastName
      else if \<not> isNone firstName then getPersonIdsByFirstName c firstName
      else [])"

definition selectionReason :: "qstring \<Rightarrow> qstring \<Rightarrow> qstring" where
  "selectionReason lastName firstName =
     (if \<not> isNone lastName \<and> \<not> isNone firstName then ''Different people are possible. Please select (%1):''
      else if isNone firstName then ''Only the last name was specified. Please select (%1):''
      else if isNone lastName then ''Only the first name was specified. Please select (%1):''
      else [])"

text \<open>The cases 1 to 6 of the table in the code. The result is the id and the incomplete last and first name.\<close>

definition determineNamedPerson ::
    "dialog_env \<Rightarrow> qstring \<Rightarrow> qstring \<Rightarrow> qstring \<Rightarrow> qstring \<times> qstring \<Rightarrow> dbId \<Rightarrow> (dbId \<times> qstring \<times> qstring) dialog" where
  "determineNamedPerson en lastName firstName description incomplete originalId =
     dlg_bind dlg_get (\<lambda>s.
       let c = ed_cache (ds_editor s); candidates = candidatesFor c lastName firstName;
           complete = (\<not> isNone lastName \<and> \<not> isNone firstName);
           create = dlg_bind (createNewPerson en (capitalize lastName) (capitalize firstName))
                      (\<lambda>i. dlg_return (i, incomplete))
       in if complete \<and> candidates = []
          then dlg_bind (yesNoQuestion en (AddPerson (capitalize firstName) (capitalize lastName) description))
                 (\<lambda>add. if add then create else dlg_abort)
          else if complete \<and> length candidates = 1 then dlg_return (candidates ! 0, incomplete)
          else (case getObjectsByIds (peopleById c) candidates True of
              Inl _ \<Rightarrow> (\<lambda>s. (NotFound, s))
            | Inr found \<Rightarrow>
                dlg_bind (selectObject en (qArg (selectionReason lastName firstName) description) found
                            (if idValid originalId then originalId else 0)) (\<lambda>(answer, i).
                  case answer of
                    SelRow n \<Rightarrow> dlg_return (i, incomplete)
                  | SelUnknown \<Rightarrow> dlg_return (0, lastName, firstName)
                  | SelNew \<Rightarrow> create
                  | SelCancelled \<Rightarrow> dlg_abort
                  | SelNone \<Rightarrow> dlg_abort)))"

definition determinePerson ::
    "dialog_env \<Rightarrow> bool \<Rightarrow> qstring \<Rightarrow> qstring \<Rightarrow> qstring \<Rightarrow> bool \<Rightarrow> qstring \<times> qstring \<Rightarrow> dbId \<Rightarrow> input_widget option
      \<Rightarrow> (dbId \<times> qstring \<times> qstring) dialog" where
  "determinePerson en active lastName firstName description required incomplete originalId widget =
     (if \<not> active then dlg_return (invalidId, incomplete)
      else dlg_bind (if simplified lastName = ''+1'' \<or> simplified firstName = ''+1''
                     then yesNoQuestion en (Confirm NameIsPlusOne) else dlg_return True) (\<lambda>accepted.
        if \<not> accepted then dlg_abort
        else if isNone lastName \<and> isNone firstName
        then (if \<not> required then dlg_return (invalidId, incomplete)
              else dlg_bind (yesNoQuestion en (Confirm (NoName description))) (\<lambda>accepted.
                if \<not> accepted then dlg_bind (dlg_edit (setFocusTo widget)) (\<lambda>_. dlg_abort)
                else dlg_return (invalidId, incomplete)))
        else determineNamedPerson en lastName firstName description incomplete originalId))"

text \<open>Entering the person into the two name inputs.\<close>

definition enterPerson :: "((combo \<times> combo \<Rightarrow> combo \<times> combo) \<Rightarrow> editor \<Rightarrow> editor) \<Rightarrow> dbId \<Rightarrow> editor \<Rightarrow> editor" where
  "enterPerson inputs i ed =
     (if idValid i
      then (case getObject (peopleById (ed_cache ed)) i of
          Inl _ \<Rightarrow> ed
        | Inr p \<Rightarrow> inputs (\<lambda>(l, f). (cb_setEditText (pe_lastName p) l, cb_setEditText (pe_firstName p) f)) ed)
      else ed)"

definition determineAndEnterPerson ::
    "dialog_env \<Rightarrow> bool \<Rightarrow> qstring \<Rightarrow> qstring \<Rightarrow> qstring \<Rightarrow> bool \<Rightarrow> qstring \<times> qstring \<Rightarrow> dbId \<Rightarrow> input_widget
      \<Rightarrow> ((combo \<times> combo \<Rightarrow> combo \<times> combo) \<Rightarrow> editor \<Rightarrow> editor) \<Rightarrow> (dbId \<times> qstring \<times> qstring) dialog" where
  "determineAndEnterPerson en active lastName firstName description required incomplete originalId lastNameWidget inputs =
     dlg_bind (determinePerson en active lastName firstName description required incomplete originalId (Some lastNameWidget))
       (\<lambda>r. dlg_bind (dlg_edit (enterPerson inputs (fst r))) (\<lambda>_. dlg_return r))"

definition pilotInputs :: "(combo \<times> combo \<Rightarrow> combo \<times> combo) \<Rightarrow> editor \<Rightarrow> editor" where
  "pilotInputs h ed = (let (l, f) = h (ui_pilotLastName ed, ui_pilotFirstName ed)
     in ed\<lparr>ui_pilotLastName := l, ui_pilotFirstName := f\<rparr>)"
definition copilotInputs :: "(combo \<times> combo \<Rightarrow> combo \<times> combo) \<Rightarrow> editor \<Rightarrow> editor" where
  "copilotInputs h ed = (let (l, f) = h (ui_copilotLastName ed, ui_copilotFirstName ed)
     in ed\<lparr>ui_copilotLastName := l, ui_copilotFirstName := f\<rparr>)"
definition towpilotInputs :: "(combo \<times> combo \<Rightarrow> combo \<times> combo) \<Rightarrow> editor \<Rightarrow> editor" where
  "towpilotInputs h ed = (let (l, f) = h (ui_towpilotLastName ed, ui_towpilotFirstName ed)
     in ed\<lparr>ui_towpilotLastName := l, ui_towpilotFirstName := f\<rparr>)"

definition determinePilot :: "dialog_env \<Rightarrow> flight \<Rightarrow> launchMethod option \<Rightarrow> flight dialog" where
  "determinePilot en f launchMethod = dlg_bind dlg_get (\<lambda>s. let ed = ds_editor s;
       pilotRequired = (departsHere f \<and> \<not> (case launchMethod of Some l \<Rightarrow> lm_type l \<noteq> typeSelf | None \<Rightarrow> False)) in
     dlg_bind (determineAndEnterPerson en (isPilotActive en ed) (cb_text (ui_pilotLastName ed)) (cb_text (ui_pilotFirstName ed))
         (typePilotDescription (getCurrentFlightType ed)) pilotRequired (getPilotLastName f, getPilotFirstName f)
         (ed_selectedPilot ed) pilotLastNameInput pilotInputs) (\<lambda>(i, l, n).
     dlg_bind (dlg_edit (\<lambda>ed. ed\<lparr>ed_selectedPilot := i\<rparr>)) (\<lambda>_.
       dlg_return (dataChanged (f\<lparr>getPilotId := i, getPilotLastName := l, getPilotFirstName := n\<rparr>)))))"

definition determineCopilot :: "dialog_env \<Rightarrow> flight \<Rightarrow> flight dialog" where
  "determineCopilot en f = dlg_bind dlg_get (\<lambda>s. let ed = ds_editor s in
     dlg_bind (determineAndEnterPerson en (isCopilotActive en ed) (cb_text (ui_copilotLastName ed)) (cb_text (ui_copilotFirstName ed))
         (typeCopilotDescription (getCurrentFlightType ed)) False (getCopilotLastName f, getCopilotFirstName f)
         (ed_selectedCopilot ed) copilotLastNameInput copilotInputs) (\<lambda>(i, l, n).
     dlg_bind (dlg_edit (\<lambda>ed. ed\<lparr>ed_selectedCopilot := i\<rparr>)) (\<lambda>_.
       dlg_return (dataChanged (if getType f = typeTraining1 then f\<lparr>getSupervisorId := i\<rparr>
         else f\<lparr>getCopilotId := i, getCopilotLastName := l, getCopilotFirstName := n\<rparr>)))))"

definition determineTowpilot :: "dialog_env \<Rightarrow> flight \<Rightarrow> flight dialog" where
  "determineTowpilot en f = dlg_bind dlg_get (\<lambda>s. let ed = ds_editor s in
     dlg_bind (determineAndEnterPerson en (isTowpilotActive en ed) (cb_text (ui_towpilotLastName ed)) (cb_text (ui_towpilotFirstName ed))
         ''towpilot'' True (getTowpilotLastName f, getTowpilotFirstName f)
         (ed_selectedTowpilot ed) towpilotLastNameInput towpilotInputs) (\<lambda>(i, l, n).
     dlg_bind (dlg_edit (\<lambda>ed. ed\<lparr>ed_selectedTowpilot := i\<rparr>)) (\<lambda>_.
       dlg_return (dataChanged (f\<lparr>getTowpilotId := i, getTowpilotLastName := l, getTowpilotFirstName := n\<rparr>)))))"

definition determineFlightPeople :: "dialog_env \<Rightarrow> flight \<Rightarrow> launchMethod option \<Rightarrow> flight dialog" where
  "determineFlightPeople en f launchMethod =
     dlg_bind (determinePilot en f launchMethod) (\<lambda>f1.
       dlg_bind (determineCopilot en f1) (\<lambda>f2. determineTowpilot en f2))"

section \<open>Determining the flight\<close>

definition dlg_cache :: "(cache \<Rightarrow> 'a) \<Rightarrow> 'a dialog" where
  "dlg_cache f = dlg_bind dlg_get (\<lambda>s. dlg_return (f (ed_cache (ds_editor s))))"

definition determineFlight :: "dialog_env \<Rightarrow> bool \<Rightarrow> flight dialog" where
  "determineFlight en departing =
     dlg_bind dlg_get (\<lambda>s. let f0 = determineFlightBasic en (ds_editor s) in
     dlg_bind (dlg_cache (\<lambda>c. getNewObject (launchMethodsById c) (getLaunchMethodId f0))) (\<lambda>launchMethod.
     dlg_bind (checkFlightPhase1 en f0 departing) (\<lambda>_.
     dlg_bind (determineFlightPlanes en f0) (\<lambda>f1.
     dlg_bind (dlg_cache (\<lambda>c. (getNewObject (planesById c) (getPlaneId f1), getNewObject (planesById c) (getTowplaneId f1))))
       (\<lambda>(plane, towplane).
     dlg_bind (checkFlightPhase2 en f1 departing plane towplane launchMethod) (\<lambda>_.
     dlg_bind (determineFlightPeople en f1 launchMethod) (\<lambda>f2.
     dlg_bind (dlg_cache (\<lambda>c. (getNewObject (peopleById c) (getPilotId f2), getNewObject (peopleById c) (getCopilotId f2),
         getNewObject (peopleById c) (getTowpilotId f2)))) (\<lambda>(pilot, copilot, towpilot).
     dlg_bind (checkFlightPhase3 en f2 departing plane pilot copilot towpilot) (\<lambda>_.
       dlg_return (if isPrepared f2 then dataChanged (f2\<lparr>getFlarmId := []\<rparr>) else f2))))))))))"

section \<open>Storing the flight\<close>

text \<open>An update of a plane reaches the cache as the event the database announces.\<close>

definition announceStored :: "db_value \<Rightarrow> editor \<Rightarrow> editor" where
  "announceStored v ed = (case dbChanged (ev_changed v) (ed_cache ed) of
     Some (c, _) \<Rightarrow> ed\<lparr>ed_cache := c\<rparr> | None \<Rightarrow> ed)"

definition updateFlarmId :: "dialog_env \<Rightarrow> flight \<Rightarrow> bool dialog" where
  "updateFlarmId en f s =
     (if getFlarmId f = [] then (Return True, s)
      else if \<not> idValid (getPlaneId f) then (Return True, s)
      else (let ed = ds_editor s;
                (ok, updates, _) = interactiveUpdateFlarmId (ed_cache ed) (isCurrent (de_systemTz en) (Some (ee_today en)) f)
                  (de_flarmAnswer en) (de_flarmResolution en) (de_flarmCanceled en) (de_flarmCanceled2 en) f False
                  (getPlaneId (ed_originalFlight ed))
            in (Return ok, s\<lparr>ds_editor := fold announceStored (map ValuePlane updates) ed,
                  ds_stores := ds_stores s @ map ValuePlane updates\<rparr>)))"

text \<open>\<open>de_stored\<close> is \<open>None\<close> if the user cancels the operation. The database gives a new flight its id.\<close>

definition storeFlight :: "dialog_env \<Rightarrow> flight \<Rightarrow> (bool \<times> flight) dialog" where
  "storeFlight en f s =
     (case (ed_mode (ds_editor s), de_stored en f) of
        (modeCreate, Some i) \<Rightarrow>
          (Return (idValid i, f\<lparr>getId := i\<rparr>), s\<lparr>ds_stores := ds_stores s @ [ValueFlight (f\<lparr>getId := i\<rparr>)]\<rparr>)
      | (modeEdit, Some _) \<Rightarrow> (Return (True, f), s\<lparr>ds_stores := ds_stores s @ [ValueFlight f]\<rparr>)
      | (_, None) \<Rightarrow> (Return (False, f), s))"

definition dlg_signal :: "editor_signal \<Rightarrow> unit dialog" where
  "dlg_signal x s = (Return (), s\<lparr>ds_signals := ds_signals s @ [x]\<rparr>)"

definition writeToDatabase :: "dialog_env \<Rightarrow> flight \<Rightarrow> (bool \<times> flight) dialog" where
  "writeToDatabase en f =
     dlg_bind (updateFlarmId en f) (\<lambda>ok.
       if \<not> ok then dlg_return (False, f)
       else dlg_bind (storeFlight en f) (\<lambda>(success, g).
         if \<not> success then dlg_bind (dlg_signal SaveError) (\<lambda>_. dlg_return (False, g))
         else dlg_return (True, g)))"

definition closeEditor :: "unit dialog" where
  "closeEditor = dlg_edit (\<lambda>ed. ed\<lparr>ed_open := False\<rparr>)"

definition acceptLater :: "dialog_env \<Rightarrow> unit dialog" where
  "acceptLater en =
     dlg_bind (determineFlight en False) (\<lambda>f.
       dlg_bind (writeToDatabase en f) (\<lambda>(written, g). if written then closeEditor else dlg_return ()))"

definition acceptNow :: "dialog_env \<Rightarrow> unit dialog" where
  "acceptNow en =
     dlg_bind (determineFlight en True) (\<lambda>f.
     dlg_bind dlg_get (\<lambda>s. let departs = currentDepartsHere (ds_editor s);
         f1 = (if departs then snd (departNow (ee_now en) True f) else f);
         f2 = (if \<not> departs then snd (landNow (ee_settings en) (ee_now en) True f1) else f1) in
     dlg_bind (writeToDatabase en f2) (\<lambda>(written, g).
       if written
       then dlg_bind (if departs then dlg_signal (SignalDeparted (getId g)) else dlg_return ()) (\<lambda>_.
              dlg_bind (if \<not> departs then dlg_signal (SignalLanded (getId g)) else dlg_return ()) (\<lambda>_. closeEditor))
       else dlg_return ())))"

text \<open>The slots catch the abortion only.\<close>

definition catchAborted :: "unit dialog \<Rightarrow> unit dialog" where
  "catchAborted m s = (case m s of (Aborted, s') \<Rightarrow> (Return (), s') | r \<Rightarrow> r)"

definition okButton_clicked :: "dialog_env \<Rightarrow> unit dialog" where
  "okButton_clicked en = catchAborted (acceptLater en)"

definition nowButton_clicked :: "dialog_env \<Rightarrow> unit dialog" where
  "nowButton_clicked en = catchAborted (acceptNow en)"

definition laterButton_clicked :: "dialog_env \<Rightarrow> unit dialog" where
  "laterButton_clicked en = okButton_clicked en"

end
