(* ===== verification/Sk_FlightDialog.thy ===== *)
theory Sk_FlightDialog
  imports Sk_FlightAccept
begin

text \<open>
  What accepting a flight in the editor guarantees: the plane and the people that the dialogs determine,
  the errors that a flight still can have when the user confirmed no problem, what the buttons store,
  and the places where the dialogs fail.
\<close>

section \<open>Reasoning about dialogs\<close>

lemma dlg_bind_Return_iff:
  "dlg_bind m f s = (Return y, s') \<longleftrightarrow> (\<exists>x s1. m s = (Return x, s1) \<and> f x s1 = (Return y, s'))"
  by (auto simp: dlg_bind_def split: prod.splits outcome.splits)

lemma dlg_simps [simp]:
  "dlg_return x s = (Return x, s)" "dlg_abort s = (Aborted, s)" "dlg_get s = (Return s, s)"
  "dlg_edit g s = (Return (), s\<lparr>ds_editor := g (ds_editor s)\<rparr>)"
  "dlg_cache h s = (Return (h (ed_cache (ds_editor s))), s)"
  "yesNoQuestion en q s = (Return (de_yes en (q # ds_asked s)), dlg_asking q s)"
  "ds_editor (dlg_asking q s) = ds_editor s" "ds_stores (dlg_asking q s) = ds_stores s"
  "ds_signals (dlg_asking q s) = ds_signals s"
  by (simp_all add: dlg_return_def dlg_abort_def dlg_get_def dlg_edit_def dlg_cache_def dlg_bind_def
      yesNoQuestion_def dlg_asking_def)

lemma dlg_bind_simps:
  "dlg_bind (dlg_return x) f1 = f1 x" "dlg_bind dlg_get f2 s = f2 s s"
  "dlg_bind (dlg_edit g) f3 s = f3 () (s\<lparr>ds_editor := g (ds_editor s)\<rparr>)"
  "dlg_bind (dlg_cache h) f4 s = f4 (h (ed_cache (ds_editor s))) s"
  "dlg_bind (yesNoQuestion en q) f5 s = f5 (de_yes en (q # ds_asked s)) (dlg_asking q s)"
  by ((rule ext)?, simp add: dlg_bind_def)+

lemma dlg_bind_step: "m s = (Return x, s1) \<Longrightarrow> dlg_bind m f s = f x s1"
  by (simp add: dlg_bind_def)

text \<open>A relation between the editor before and after every run of a dialog.\<close>

definition keeps :: "(editor \<Rightarrow> editor \<Rightarrow> bool) \<Rightarrow> 'a dialog \<Rightarrow> bool" where
  "keeps K m \<longleftrightarrow> (\<forall>s. K (ds_editor s) (ds_editor (snd (m s))))"

lemma keepsD: "keeps K m \<Longrightarrow> m s = (r, s') \<Longrightarrow> K (ds_editor s) (ds_editor s')"
  unfolding keeps_def by (metis snd_conv)

lemma keeps_basic:
  "(\<And>e. K e e) \<Longrightarrow> keeps K (dlg_return x)" "(\<And>e. K e e) \<Longrightarrow> keeps K dlg_abort"
  "(\<And>e. K e e) \<Longrightarrow> keeps K dlg_get" "(\<And>e. K e e) \<Longrightarrow> keeps K (yesNoQuestion en q)"
  "(\<And>e. K e e) \<Longrightarrow> keeps K (\<lambda>s. (Crashed, s))" "(\<And>e. K e e) \<Longrightarrow> keeps K (\<lambda>s. (NotFound, s))"
  "(\<And>e. K e (g e)) \<Longrightarrow> keeps K (dlg_edit g)"
  "(\<And>e. K e e) \<Longrightarrow> keeps K (dlg_cache h)"
  "(\<And>e. K e e) \<Longrightarrow> keeps K (selectObject en reason found preselection)"
  by (simp_all add: keeps_def selectObject_def Let_def)

lemma keeps_bind:
  assumes "transp K" "keeps K m" "\<And>x. keeps K (f x)"
  shows "keeps K (dlg_bind m f)"
  unfolding keeps_def
proof
  fix s
  obtain r s1 where 1: "m s = (r, s1)" by fastforce
  have a: "K (ds_editor s) (ds_editor s1)" by (rule keepsD [OF assms(2) 1])
  show "K (ds_editor s) (ds_editor (snd (dlg_bind m f s)))"
  proof (cases r)
    case (Return x)
    obtain r2 s2 where 2: "f x s1 = (r2, s2)" by fastforce
    have "K (ds_editor s1) (ds_editor s2)" by (rule keepsD [OF assms(3) 2])
    with a have "K (ds_editor s) (ds_editor s2)" using assms(1) by (metis transpD)
    then show ?thesis by (simp add: dlg_bind_def 1 2 Return)
  qed (use a in \<open>simp_all add: dlg_bind_def 1\<close>)
qed

text \<open>The inputs that are not changed by determining planes and people.\<close>

definition sameFlightInputs :: "editor \<Rightarrow> editor \<Rightarrow> bool" where
  "sameFlightInputs a b \<longleftrightarrow> ed_mode b = ed_mode a \<and> ui_flightType b = ui_flightType a \<and> ui_flightMode b = ui_flightMode a
     \<and> ui_launchMethod b = ui_launchMethod a \<and> ui_towflightMode b = ui_towflightMode a \<and> ui_date b = ui_date a
     \<and> launchMethodsById (ed_cache b) = launchMethodsById (ed_cache a)"

definition samePlanes :: "editor \<Rightarrow> editor \<Rightarrow> bool" where
  "samePlanes a b \<longleftrightarrow> sameFlightInputs a b \<and> planesById (ed_cache b) = planesById (ed_cache a)"

lemma same_refl_trans [simp]:
  "sameFlightInputs a a" "transp sameFlightInputs" "samePlanes a a" "transp samePlanes"
  by (auto simp: sameFlightInputs_def samePlanes_def transp_def)

text \<open>Objects that are created in their editor: launch methods are never, planes only when asked for.\<close>

definition createsOnly :: "dialog_env \<Rightarrow> bool" where
  "createsOnly en \<longleftrightarrow> (\<forall>q h c. launchMethodsById (snd (de_created en (q # h) c)) = launchMethodsById c
     \<and> ((\<forall>p. q \<noteq> CreatePlane p) \<longrightarrow> planesById (snd (de_created en (q # h) c)) = planesById c))"

text \<open>The user never accepts a problem.\<close>

definition confirmsNothing :: "dialog_env \<Rightarrow> bool" where
  "confirmsNothing en \<longleftrightarrow> (\<forall>p h. \<not> de_yes en (Confirm p # h))"

lemma keeps_created:
  "createsOnly en \<Longrightarrow> keeps sameFlightInputs (createdObject en q)"
  "createsOnly en \<Longrightarrow> keeps samePlanes (createdObject en (CreatePerson l f))"
  by (auto simp: keeps_def createdObject_def createsOnly_def sameFlightInputs_def samePlanes_def split_def Let_def)

lemma keeps_cases:
  "(c \<Longrightarrow> keeps K a) \<Longrightarrow> (\<not> c \<Longrightarrow> keeps K b) \<Longrightarrow> keeps K (if c then a else b)"
  "(\<And>x y. keeps K (f x y)) \<Longrightarrow> keeps K (case z of (x, y) \<Rightarrow> f x y)"
  "(\<And>x. keeps K (g x)) \<Longrightarrow> keeps K a \<Longrightarrow> keeps K (case v of None \<Rightarrow> a | Some x \<Rightarrow> g x)"
  "(\<And>x. keeps K (k x)) \<Longrightarrow> (\<And>x. keeps K (l x)) \<Longrightarrow> keeps K (case w of Inl x \<Rightarrow> k x | Inr x \<Rightarrow> l x)"
  by (simp_all split: prod.split option.split sum.split)

lemma keeps_selection:
  "keeps K a \<Longrightarrow> keeps K b \<Longrightarrow> keeps K c \<Longrightarrow> keeps K d \<Longrightarrow> (\<And>n. keeps K (f n)) \<Longrightarrow>
   keeps K (case x of SelCancelled \<Rightarrow> a | SelNone \<Rightarrow> b | SelNew \<Rightarrow> c | SelUnknown \<Rightarrow> d | SelRow n \<Rightarrow> f n)"
  by (cases x) simp_all

lemmas keeps_rules = same_refl_trans keeps_cases keeps_selection keeps_basic keeps_bind keeps_created

lemma same_edits [simp]:
  "sameFlightInputs e (setFocusTo w e)" "sameFlightInputs e (enterPlane i t b e)"
  "samePlanes e (setFocusTo w e)" "samePlanes e (enterPerson pilotInputs i e)"
  "samePlanes e (enterPerson copilotInputs i e)" "samePlanes e (enterPerson towpilotInputs i e)"
  "samePlanes e (e\<lparr>ed_selectedPilot := i\<rparr>)" "samePlanes e (e\<lparr>ed_selectedCopilot := i\<rparr>)"
  "samePlanes e (e\<lparr>ed_selectedTowpilot := i\<rparr>)"
  by (auto simp: sameFlightInputs_def samePlanes_def setFocusTo_def enterPlane_def enterPerson_def Let_def split_def
      pilotInputs_def copilotInputs_def towpilotInputs_def split: option.splits sum.splits)

lemma same_planes_inputs: "keeps samePlanes m \<Longrightarrow> keeps sameFlightInputs m"
  by (simp add: keeps_def samePlanes_def)

lemma keeps_determinePlane [intro]: "createsOnly en \<Longrightarrow> keeps sameFlightInputs (determinePlane en r d w)"
  unfolding determinePlane_def Let_def by (intro keeps_rules same_edits)

lemma keeps_determineFlightPlanes: "createsOnly en \<Longrightarrow> keeps sameFlightInputs (determineFlightPlanes en f)"
  unfolding determineFlightPlanes_def determineKnownTowplane_def determineAndEnterPlane_def Let_def
  by (intro keeps_rules same_edits keeps_determinePlane)

lemma keeps_errorCheck: "keeps samePlanes (errorCheck en p w)"
  unfolding errorCheck_def by (intro keeps_rules same_edits)

lemma keeps_runChecks: "keeps samePlanes (runChecks en cs)"
proof (induction en cs rule: runChecks.induct)
  case (1 en)
  show ?case unfolding runChecks.simps by (intro keeps_rules)
next
  case (2 en c p w cs)
  then show ?case unfolding runChecks.simps by (intro keeps_rules keeps_errorCheck) auto
qed

lemma keeps_determinePerson: "createsOnly en \<Longrightarrow> keeps samePlanes (determinePerson en a l f d r inc orig w)"
  unfolding determinePerson_def determineNamedPerson_def createNewPerson_def Let_def
  by (intro keeps_rules same_edits)

lemma keeps_determineFlightPeople: "createsOnly en \<Longrightarrow> keeps samePlanes (determineFlightPeople en f lm)"
  unfolding determineFlightPeople_def determinePilot_def determineCopilot_def determineTowpilot_def
    determineAndEnterPerson_def Let_def
  by (intro keeps_rules same_edits keeps_determinePerson)

lemma keeps_checkPhases:
  "keeps samePlanes (checkFlightPhase1 en f dep)"
  "keeps samePlanes (checkFlightPhase2 en f dep plane towplane lm)"
  "keeps samePlanes (checkFlightPhase3 en f dep plane pilot copilot towpilot)"
  unfolding checkFlightPhase1_def checkFlightPhase2_def checkFlightPhase3_def towplaneCheck_def
  by (intro keeps_rules keeps_runChecks keeps_errorCheck)+

section \<open>A flight accepted without confirming a problem\<close>

lemma errorCheck_aborts: "confirmsNothing en \<Longrightarrow> errorCheck en p w s \<noteq> (Return x, s')"
  by (auto simp: errorCheck_def confirmsNothing_def dlg_bind_simps)

lemma runChecks_passed:
  assumes "confirmsNothing en" "runChecks en cs s = (Return x, s')"
  shows "s' = s \<and> (\<forall>(c, p, w) \<in> set cs. \<not> c)"
  using assms by (induction en cs rule: runChecks.induct)
    (auto simp: dlg_bind_Return_iff errorCheck_aborts split: if_splits)

lemma determinePlane_valid:
  assumes "confirmsNothing en" "determinePlane en r d w s = (Return i, s')"
  shows "idValid i"
  using assms by (auto simp: determinePlane_def Let_def dlg_bind_Return_iff confirmsNothing_def idValid_def
      split: if_splits)

lemma same_active:
  assumes "sameFlightInputs a b"
  shows "isTowplaneRegistrationActive b = isTowplaneRegistrationActive a" "currentIsAirtow b = currentIsAirtow a"
    "currentDepartsHere b = currentDepartsHere a"
  using assms by (simp_all add: sameFlightInputs_def active_defs current_defs)

lemma determineFlightPlanes_steps:
  assumes "determineFlightPlanes en f s = (Return g, s')"
  shows "\<exists>i s1. determineAndEnterPlane en (cb_text (ui_registration (ds_editor s))) ''plane''
      (Some registrationInput) planeTypeWidget s = (Return i, s1)
    \<and> (if isTowplaneRegistrationActive (ds_editor s1)
      then \<exists>j. (\<exists>s2. determineAndEnterPlane en (cb_text (ui_towplaneRegistration (ds_editor s1))) ''towplane''
                 (Some towplaneRegistrationInput) towplaneTypeWidget s1 = (Return j, s2))
             \<and> g = setTowplaneId j (setPlaneId i f)
      else g = setPlaneId i f)"
proof -
  obtain i s1 where "determineAndEnterPlane en (cb_text (ui_registration (ds_editor s))) ''plane''
      (Some registrationInput) planeTypeWidget s = (Return i, s1)"
    "(if isTowplaneRegistrationActive (ds_editor s1)
      then \<exists>j. (\<exists>s2. determineAndEnterPlane en (cb_text (ui_towplaneRegistration (ds_editor s1))) ''towplane''
                 (Some towplaneRegistrationInput) towplaneTypeWidget s1 = (Return j, s2))
             \<and> g = setTowplaneId j (setPlaneId i f)
      else g = setPlaneId i f)"
    using assms by (auto simp: determineFlightPlanes_def dlg_bind_Return_iff dlg_bind_simps split: if_splits)
  then show ?thesis by blast
qed

lemma determineFlightPlanes_result:
  assumes "confirmsNothing en" "createsOnly en" "determineFlightPlanes en f s = (Return g, s')"
  shows "\<exists>i t. g = f\<lparr>getPlaneId := i, getTowplaneId := t, cachedErrorsValid := False\<rparr> \<and> idValid i
    \<and> (if isTowplaneRegistrationActive (ds_editor s) then idValid t else t = getTowplaneId f)"
proof -
  obtain i s1 where 1: "determineAndEnterPlane en (cb_text (ui_registration (ds_editor s))) ''plane''
      (Some registrationInput) planeTypeWidget s = (Return i, s1)"
    and 2: "(if isTowplaneRegistrationActive (ds_editor s1)
      then \<exists>j. (\<exists>s2. determineAndEnterPlane en (cb_text (ui_towplaneRegistration (ds_editor s1))) ''towplane''
                 (Some towplaneRegistrationInput) towplaneTypeWidget s1 = (Return j, s2))
             \<and> g = setTowplaneId j (setPlaneId i f)
      else g = setPlaneId i f)"
    using determineFlightPlanes_steps [OF assms(3)] by blast
  have i: "idValid i"
    using 1 determinePlane_valid [OF assms(1)] by (auto simp: determineAndEnterPlane_def dlg_bind_Return_iff)
  have "keeps sameFlightInputs (determineAndEnterPlane en r d w t)" for r d w t
    unfolding determineAndEnterPlane_def by (intro keeps_rules same_edits keeps_determinePlane assms(2))
  then have "sameFlightInputs (ds_editor s) (ds_editor s1)" using 1 by (rule keepsD)
  then have a: "isTowplaneRegistrationActive (ds_editor s1) = isTowplaneRegistrationActive (ds_editor s)"
    by (rule same_active)
  show ?thesis
  proof (cases "isTowplaneRegistrationActive (ds_editor s)")
    case True
    with 2 a obtain j s2 where j: "determineAndEnterPlane en (cb_text (ui_towplaneRegistration (ds_editor s1))) ''towplane''
        (Some towplaneRegistrationInput) towplaneTypeWidget s1 = (Return j, s2)" "g = setTowplaneId j (setPlaneId i f)"
      by auto
    have "idValid j"
      using j(1) determinePlane_valid [OF assms(1)] by (auto simp: determineAndEnterPlane_def dlg_bind_Return_iff)
    then show ?thesis
      using True i j(2) by (intro exI [of _ i] exI [of _ j]) (simp add: setTowplaneId_def setPlaneId_def dataChanged_def)
  next
    case False
    with 2 a have "g = setPlaneId i f" by simp
    then show ?thesis
      using False i by (intro exI [of _ i] exI [of _ "getTowplaneId f"]) (simp add: setPlaneId_def dataChanged_def)
  qed
qed

definition people_changed :: "flight \<Rightarrow> flight \<Rightarrow> bool" where
  "people_changed f g \<longleftrightarrow> (\<exists>p pl pf c cl cf v t tl tf. g = f\<lparr>getPilotId := p, getPilotLastName := pl,
     getPilotFirstName := pf, getCopilotId := c, getCopilotLastName := cl, getCopilotFirstName := cf,
     getSupervisorId := v, getTowpilotId := t, getTowpilotLastName := tl, getTowpilotFirstName := tf,
     cachedErrorsValid := False\<rparr>)"

lemma determineFlightPeople_result:
  assumes "determineFlightPeople en f lm s = (Return g, s')"
  shows "people_changed f g"
proof -
  obtain f1 f2 s1 s2 where 1: "determinePilot en f lm s = (Return f1, s1)"
    "determineCopilot en f1 s1 = (Return f2, s2)" "determineTowpilot en f2 s2 = (Return g, s')"
    using assms by (auto simp: determineFlightPeople_def dlg_bind_Return_iff)
  obtain p pl pf where f1: "f1 = f\<lparr>getPilotId := p, getPilotLastName := pl, getPilotFirstName := pf, cachedErrorsValid := False\<rparr>"
    using 1(1) by (auto simp: determinePilot_def dlg_bind_Return_iff Let_def dataChanged_def)
  obtain c cl cf v where f2: "f2 = f1\<lparr>getCopilotId := c, getCopilotLastName := cl, getCopilotFirstName := cf,
      getSupervisorId := v, cachedErrorsValid := False\<rparr>"
  proof (cases "getType f1 = typeTraining1")
    case True
    then obtain i where "f2 = f1\<lparr>getSupervisorId := i, cachedErrorsValid := False\<rparr>"
      using 1(2) by (auto simp: determineCopilot_def dlg_bind_Return_iff Let_def dataChanged_def)
    then have "f2 = f1\<lparr>getCopilotId := getCopilotId f1, getCopilotLastName := getCopilotLastName f1,
      getCopilotFirstName := getCopilotFirstName f1, getSupervisorId := i, cachedErrorsValid := False\<rparr>" by simp
    then show ?thesis by (rule that)
  next
    case False
    then obtain i l n where "f2 = f1\<lparr>getCopilotId := i, getCopilotLastName := l, getCopilotFirstName := n,
        cachedErrorsValid := False\<rparr>"
      using 1(2) by (auto simp: determineCopilot_def dlg_bind_Return_iff Let_def dataChanged_def)
    then have "f2 = f1\<lparr>getCopilotId := i, getCopilotLastName := l,
      getCopilotFirstName := n, getSupervisorId := getSupervisorId f1, cachedErrorsValid := False\<rparr>" by simp
    then show ?thesis by (rule that)
  qed
  obtain t tl tf where g: "g = f2\<lparr>getTowpilotId := t, getTowpilotLastName := tl, getTowpilotFirstName := tf,
      cachedErrorsValid := False\<rparr>"
    using 1(3) by (auto simp: determineTowpilot_def dlg_bind_Return_iff Let_def dataChanged_def)
  have "g = f\<lparr>getPilotId := p, getPilotLastName := pl,
     getPilotFirstName := pf, getCopilotId := c, getCopilotLastName := cl, getCopilotFirstName := cf,
     getSupervisorId := v, getTowpilotId := t, getTowpilotLastName := tl, getTowpilotFirstName := tf,
     cachedErrorsValid := False\<rparr>" unfolding g f2 f1 by simp
  then show ?thesis unfolding people_changed_def by blast
qed

lemma people_changed_keeps:
  assumes "people_changed f g"
  shows "getId g = getId f" "getPlaneId g = getPlaneId f" "getTowplaneId g = getTowplaneId f" "getType g = getType f"
    "getMode g = getMode f" "getDeparted g = getDeparted f" "getLanded g = getLanded f"
    "getTowflightLanded g = getTowflightLanded f" "getTowflightLandingTime g = getTowflightLandingTime f" "getLaunchMethodId g = getLaunchMethodId f"
    "getDepartureLocation g = getDepartureLocation f" "getLandingLocation g = getLandingLocation f"
    "getDepartureTime g = getDepartureTime f" "getLandingTime g = getLandingTime f"
    "getNumLandings g = getNumLandings f" "getTowflightMode g = getTowflightMode f"
    "getTowflightLandingLocation g = getTowflightLandingLocation f" "getFlarmId g = getFlarmId f"
    "getNumCrew g = getNumCrew f" "getNumPax g = getNumPax f"
  using assms by (auto simp: people_changed_def)


text \<open>What is known of a flight that was determined without confirming a problem.\<close>

definition noneHolds :: "(bool \<times> problem \<times> input_widget) list \<Rightarrow> bool" where
  "noneHolds cs \<longleftrightarrow> (\<forall>(c, p, w) \<in> set cs. \<not> c)"

lemma noneHolds_simps [simp]:
  "noneHolds []" "noneHolds ((c, p, w) # cs) \<longleftrightarrow> \<not> c \<and> noneHolds cs"
  "noneHolds (as @ bs) \<longleftrightarrow> noneHolds as \<and> noneHolds bs"
  by (auto simp: noneHolds_def)

definition towplaneOk :: "plane option \<Rightarrow> bool" where
  "towplaneOk towplane \<longleftrightarrow> (case towplane of Some t \<Rightarrow> pl_category t \<noteq> categoryGlider | None \<Rightarrow> True)"

lemma towplaneCheck_passed:
  assumes "confirmsNothing en" "towplaneCheck en plane towplane s = (Return x, s')"
  shows "s' = s \<and> towplaneOk towplane"
  using assms by (auto simp: towplaneCheck_def towplaneOk_def errorCheck_aborts split: option.splits if_splits)

lemma phase2_passed:
  assumes "confirmsNothing en" "checkFlightPhase2 en f dep plane towplane lm s = (Return x, s')"
  shows "s' = s \<and> noneHolds (planeChecks f plane lm) \<and> towplaneOk towplane"
proof -
  obtain u s1 v s2 where 1: "runChecks en (planeChecks f plane lm) s = (Return u, s1)"
    "towplaneCheck en plane towplane s1 = (Return v, s2)"
    "runChecks en (planeFlyingChecks (ed_cache (ds_editor s2)) dep plane towplane) s2 = (Return x, s')"
    using assms(2) by (auto simp: checkFlightPhase2_def dlg_bind_Return_iff)
  show ?thesis
    using runChecks_passed [OF assms(1) 1(1)] towplaneCheck_passed [OF assms(1) 1(2)]
      runChecks_passed [OF assms(1) 1(3)] by (simp add: noneHolds_def)
qed

lemma keepsE: "keeps K m \<Longrightarrow> m s = (r, s') \<Longrightarrow> (K (ds_editor s) (ds_editor s') \<Longrightarrow> P) \<Longrightarrow> P"
  using keepsD by blast

lemma determineFlight_parts:
  assumes conf: "confirmsNothing en" and only: "createsOnly en"
    and run: "determineFlight en dep s = (Return g, s')"
  defines "f0 \<equiv> determineFlightBasic en (ds_editor s)" and "c \<equiv> ed_cache (ds_editor s')"
  obtains f1 f2 i t s2 where
    "launchMethodsById c = launchMethodsById (ed_cache (ds_editor s))"
    "noneHolds (phase1 f0 dep)"
    "f1 = f0\<lparr>getPlaneId := i, getTowplaneId := t, cachedErrorsValid := False\<rparr>"
    "idValid i" "isTowplaneRegistrationActive (ds_editor s) \<longrightarrow> idValid t"
    "noneHolds (planeChecks f1 (getNewObject (planesById c) i) (getNewObject (launchMethodsById c) (getLaunchMethodId f0)))"
    "towplaneOk (getNewObject (planesById c) t)"
    "people_changed f1 f2"
    "noneHolds (phase3 en (ds_editor s') f2 dep (getNewObject (planesById c) i)
       (getNewObject (peopleById c) (getPilotId f2)) (getNewObject (peopleById c) (getCopilotId f2))
       (getNewObject (peopleById c) (getTowpilotId f2)))"
    "g = (if isPrepared f2 then dataChanged (f2\<lparr>getFlarmId := []\<rparr>) else f2)"
proof -
  let ?lm = "getNewObject (launchMethodsById (ed_cache (ds_editor s))) (getLaunchMethodId f0)"
  obtain u s1 f1 s2 v s3 f2 s4 w where
    1: "checkFlightPhase1 en f0 dep s = (Return u, s1)" and
    2: "determineFlightPlanes en f0 s1 = (Return f1, s2)" and
    3: "checkFlightPhase2 en f1 dep (getNewObject (planesById (ed_cache (ds_editor s2))) (getPlaneId f1))
          (getNewObject (planesById (ed_cache (ds_editor s2))) (getTowplaneId f1)) ?lm s2 = (Return v, s3)" and
    4: "determineFlightPeople en f1 ?lm s3 = (Return f2, s4)" and
    5: "checkFlightPhase3 en f2 dep (getNewObject (planesById (ed_cache (ds_editor s2))) (getPlaneId f1))
          (getNewObject (peopleById (ed_cache (ds_editor s4))) (getPilotId f2))
          (getNewObject (peopleById (ed_cache (ds_editor s4))) (getCopilotId f2))
          (getNewObject (peopleById (ed_cache (ds_editor s4))) (getTowpilotId f2)) s4 = (Return w, s')" and
    6: "g = (if isPrepared f2 then dataChanged (f2\<lparr>getFlarmId := []\<rparr>) else f2)"
    using run unfolding determineFlight_def f0_def [symmetric] Let_def
    by (auto simp: dlg_bind_Return_iff Let_def f0_def [symmetric])
  have p1: "s1 = s" "noneHolds (phase1 f0 dep)"
    using runChecks_passed [OF conf 1 [unfolded checkFlightPhase1_def]] by (simp_all add: noneHolds_def)
  obtain i t where it: "f1 = f0\<lparr>getPlaneId := i, getTowplaneId := t, cachedErrorsValid := False\<rparr>" "idValid i"
    "isTowplaneRegistrationActive (ds_editor s) \<longrightarrow> idValid t"
    using determineFlightPlanes_result [OF conf only 2] p1(1) by (auto split: if_splits)
  have p2: "s3 = s2" "noneHolds (planeChecks f1 (getNewObject (planesById (ed_cache (ds_editor s2))) (getPlaneId f1)) ?lm)"
    "towplaneOk (getNewObject (planesById (ed_cache (ds_editor s2))) (getTowplaneId f1))"
    using phase2_passed [OF conf 3] by auto
  have p3: "s' = s4" "noneHolds (phase3 en (ds_editor s4) f2 dep
      (getNewObject (planesById (ed_cache (ds_editor s2))) (getPlaneId f1))
      (getNewObject (peopleById (ed_cache (ds_editor s4))) (getPilotId f2))
      (getNewObject (peopleById (ed_cache (ds_editor s4))) (getCopilotId f2))
      (getNewObject (peopleById (ed_cache (ds_editor s4))) (getTowpilotId f2)))"
    using 5 runChecks_passed [OF conf] by (auto simp: checkFlightPhase3_def dlg_bind_simps noneHolds_def)
  have k1: "sameFlightInputs (ds_editor s) (ds_editor s2)"
    using keepsD [OF keeps_determineFlightPlanes [OF only] 2] p1(1) by simp
  have k2: "samePlanes (ds_editor s2) (ds_editor s4)"
    using keepsD [OF keeps_determineFlightPeople [OF only] 4] p2(1) by simp
  have lm: "launchMethodsById c = launchMethodsById (ed_cache (ds_editor s))"
    using k1 k2 p3(1) by (simp add: c_def samePlanes_def sameFlightInputs_def)
  have pl: "planesById (ed_cache (ds_editor s2)) = planesById c"
    using k2 p3(1) by (simp add: c_def samePlanes_def)
  have pi: "getPlaneId f1 = i" "getTowplaneId f1 = t" using it(1) by simp_all
  show thesis
    by (rule that [OF lm p1(2) it])
      (use p2 p3 6 determineFlightPeople_result [OF 4] in \<open>simp_all add: pl pi lm [symmetric] c_def\<close>)
qed


lemma errors_ignore_flarmId [simp]:
  "getErrorsImpl st b cv (dataChanged (f\<lparr>getFlarmId := x\<rparr>)) = getErrorsImpl st b cv f"
  by (simp add: errors_defs departsHere_def landsHere_def towflightLandsHere_def
      isTowflight_def copilotSpecified_def dataChanged_def cong: option.case_cong if_cong)

lemma checkPerson_set:
  "set (checkPerson st i l n r a b c d) \<subseteq> {a, b, c, d}"
  by (auto simp: checkPerson_def Let_def)

text \<open>The errors that the dialogs do not look for.\<close>

definition uncheckedErrors :: "flight_error set" where
  "uncheckedErrors = {idMissing, noError,
     pilotMissing, pilotFirstNameMissing, pilotLastNameMissing, pilotNotIdentified,
     copilotFirstNameMissing, copilotLastNameMissing, copilotNotIdentified,
     towpilotFirstNameMissing, towpilotLastNameMissing, towpilotNotIdentified,
     landingsWithoutDeparture, towflightLandingLocationMissing,
     trainingInSingleSeater, passengerFlightInSingleSeater}"

lemma errors_person:
  assumes "noneHolds (phase3 en ed f dep plane p1 p2 p3)"
  shows "set (errorsPilot st cv f) \<subseteq> uncheckedErrors" "set (errorsCopilot st f) \<subseteq> uncheckedErrors"
    "set (errorsTowpilot st cv f) \<subseteq> uncheckedErrors"
proof -
  have 1: "\<not> (idValid (getPilotId f) \<and> getPilotId f = getCopilotId f)"
    "\<not> (idValid (getPilotId f) \<and> getPilotId f = getTowpilotId f)"
    "\<not> (getType f = typeTraining2 \<and> \<not> copilotSpecified f)"
    using assms by (auto simp: phase3_def)
  show "set (errorsPilot st cv f) \<subseteq> uncheckedErrors"
    unfolding errorsPilot_def by (rule subset_trans [OF checkPerson_set]) (simp add: uncheckedErrors_def)
  have c: "set (checkPerson st i l n r noError copilotFirstNameMissing copilotLastNameMissing copilotNotIdentified)
      \<subseteq> uncheckedErrors" for i l n r
    by (rule subset_trans [OF checkPerson_set]) (simp add: uncheckedErrors_def)
  have e: "err (idValid (getPilotId f) \<and> getPilotId f = getCopilotId f \<and> x) e = []"
    "err (getType f = typeTraining2 \<and> \<not> copilotSpecified f) e = []"
    "err (idValid (getTowpilotId f) \<and> getPilotId f = getTowpilotId f) e = []" for x e
    using 1 by (auto simp: err_def)
  show "set (errorsCopilot st f) \<subseteq> uncheckedErrors"
    unfolding errorsCopilot_def e by (auto dest: subsetD [OF c])
  have t: "set (checkPerson st i l n r noError towpilotFirstNameMissing towpilotLastNameMissing towpilotNotIdentified)
      \<subseteq> uncheckedErrors" for i l n r
    by (rule subset_trans [OF checkPerson_set]) (simp add: uncheckedErrors_def)
  show "set (errorsTowpilot st cv f) \<subseteq> uncheckedErrors"
    unfolding errorsTowpilot_def e by (auto dest: subsetD [OF t])
qed


lemma errors_plane:
  assumes "noneHolds (planeChecks f plane lm)" "idValid (getPlaneId f)"
    "cv_plane cv (getPlaneId f) = plane" "cv_launchMethod cv (getLaunchMethodId f) = lm"
    "\<forall>p. plane = Some p \<longrightarrow> \<not> (pl_numSeats p = 1 \<and> copilotSpecified f)"
  shows "set (errorsPlane cv f) \<subseteq> uncheckedErrors"
proof (cases plane)
  case None
  then show ?thesis using assms by (simp add: errorsPlane_def err_def idValid_def)
next
  case (Some p)
  note checks = assms(1) [unfolded planeChecks_def Some option.case noneHolds_simps]
  have e: "err (pl_numSeats p = 1 \<and> x \<and> copilotSpecified f) copilotInSingleSeater = []" for x
    using assms(5) Some by (simp add: err_def)
  have s: "set (errorsPlane cv f) \<subseteq> {trainingInSingleSeater, passengerFlightInSingleSeater} \<union>
     (if pl_category p = categoryGlider then set (err (case lm of Some l \<Rightarrow> lm_type l = typeSelf | None \<Rightarrow> False) gliderSelfLaunch)
        \<union> (if lm \<noteq> None \<and> \<not> (case lm of Some l \<Rightarrow> lm_type l = typeAirtow | None \<Rightarrow> False)
           then set (err (getNumLandings f > 1) gliderMultipleLandings)
             \<union> set (err (getNumLandings f > 0 \<and> \<not> getLanded f) gliderLandingsWithoutLandingTime) else {}) else {})"
    using assms(2-5) Some
    by (auto simp: errorsPlane_def err_def idValid_def view_airtow_def lm_isAirtow_def split: if_splits option.splits)
  show ?thesis
    by (rule subset_trans [OF s]) (use checks in \<open>auto simp: uncheckedErrors_def err_def split: option.splits\<close>)
qed

lemma err_none: "\<not> c \<Longrightarrow> err c e = []"
  by (simp add: err_def)

lemma errors_status:
  assumes "noneHolds (phase1 f dep)" "0 \<le> getNumLandings f"
    "simplified (getDepartureLocation f) = getDepartureLocation f" "simplified (getLandingLocation f) = getLandingLocation f"
  shows "set (errorsStatus f) \<subseteq> {landingsWithoutDeparture}"
proof -
  note checks = assms(1) [unfolded phase1_def noneHolds_simps assms(3,4)]
  have e: "err (getNumLandings f < 0) b = []"
    "err (departsHere f \<noteq> landsHere f \<and> getDepartureLocation f = getLandingLocation f) b = []"
    "err (getDeparted f \<and> getLanded f \<and> msecs (getDepartureTime f) > msecs (getLandingTime f)) b = []"
    "err ((getDeparted f \<or> \<not> departsHere f) \<and> isNone (getDepartureLocation f)) b = []"
    "err ((getLanded f \<or> \<not> landsHere f) \<and> isNone (getLandingLocation f)) b = []" for b
    by (rule err_none, use assms(2) in simp) (rule err_none, use checks in argo)+
  have d: "departsHere f \<Longrightarrow> err (getDeparted f \<and> idInvalid (getLaunchMethodId f) \<and> \<not> isTowflight f) b = []"
    "landsHere f \<Longrightarrow> err (getNumLandings f = 0 \<and> getLanded f) b = []"
    "departsHere f \<and> landsHere f \<Longrightarrow> err (\<not> getDeparted f \<and> getLanded f) b = []" for b
    by (rule err_none, use checks in argo)+
  have "set (err (\<not> getDeparted f \<and> getNumLandings f > 0) landingsWithoutDeparture) \<subseteq> {landingsWithoutDeparture}"
    by simp
  then show ?thesis
    unfolding errorsStatus_def e by (cases "departsHere f"; cases "landsHere f"; simp add: d del: set_err)
qed

lemma errors_towflight:
  assumes "\<And>l. view_airtow cv f \<Longrightarrow> cv_launchMethod cv (getLaunchMethodId f) = Some l \<Longrightarrow> \<not> lm_towplaneKnown l
      \<Longrightarrow> idValid (getTowplaneId f)" "towplaneOk (cv_plane cv (getTowplaneId f))"
  shows "set (errorsTowflight cv f) \<subseteq> {towflightLandingLocationMissing}"
proof (cases "cv_launchMethod cv (getLaunchMethodId f)")
  case None
  then show ?thesis by (simp add: errorsTowflight_def view_airtow_def)
next
  case (Some l)
  show ?thesis
    using assms(1) [OF _ Some] assms(2)
    by (auto simp: errorsTowflight_def Some towplaneOk_def idValid_def err_def split: option.splits)
qed

lemma basic_clean:
  assumes "session en c ed" "f = determineFlightBasic en' ed"
  shows "getType f \<noteq> typeNone" "0 \<le> getNumLandings f"
    "simplified (getDepartureLocation f) = getDepartureLocation f" "simplified (getLandingLocation f) = getLandingLocation f"
proof -
  have ok: "inputs_ok c ed" by (rule session_inputs [OF assms(1)])
  have "ch_current (ui_flightType ed) \<in> Some ` set (listTypes False)"
    using ok by (simp add: inputs_ok_def choice_ok_def)
  then show "getType f \<noteq> typeNone"
    by (auto simp: assms(2) basic_fields getCurrentFlightType_def listTypes_def)
  show "0 \<le> getNumLandings f"
    using ok by (simp add: assms(2) basic_rest inputs_ok_def)
  show "simplified (getDepartureLocation f) = getDepartureLocation f" "simplified (getLandingLocation f) = getLandingLocation f"
    by (simp_all add: assms(2) basic_rest)
qed

text \<open>The towplane input is active for an airtow whose towplane is not known.\<close>

lemma airtow_active:
  assumes "launchMethodsById (ed_cache ed) (getLaunchMethodId f) = Some l" "f = determineFlightBasic en ed"
    "idValid (getLaunchMethodId f)" "lm_isAirtow l" "\<not> lm_towplaneKnown l"
  shows "isTowplaneRegistrationActive ed"
proof -
  have m: "isLaunchMethodActive ed" "getLaunchMethodId f = getCurrentLaunchMethodId ed"
    using assms(3) by (auto simp: assms(2) basic_fields idValid_def idInvalid_def invalidId_def split: if_splits)
  have "getCurrentLaunchMethod ed = Inr l"
    using assms(1,3) by (simp add: getCurrentLaunchMethod_def getObject_def m(2) idValid_def)
  then show ?thesis
    using assms m by (simp add: isTowplaneRegistrationActive_def currentIsAirtow_def idValid_def)
qed



section \<open>The person that is determined\<close>

definition namesMatch :: "qstring \<Rightarrow> qstring \<Rightarrow> person \<Rightarrow> bool" where
  "namesMatch lastName firstName p \<longleftrightarrow> (isNone lastName \<or> toLower (pe_lastName p) = toLower lastName)
     \<and> (isNone firstName \<or> toLower (pe_firstName p) = toLower firstName)"

lemma candidates_match:
  assumes "cacheMirrors c d" "i \<in> set (candidatesFor c l f)"
  shows "\<exists>p. tb_people d i = Some p \<and> namesMatch l f p"
proof -
  have idx: "hash_indexes (\<lambda>p. (toLower (pe_lastName p), toLower (pe_firstName p))) pe_id (personIdsByName c) (people c)"
    "hash_indexes (\<lambda>p. toLower (pe_lastName p)) pe_id (personIdsByLastName c) (people c)"
    "hash_indexes (\<lambda>p. toLower (pe_firstName p)) pe_id (personIdsByFirstName c) (people c)"
    using assms(1) by (simp_all add: cacheMirrors_def mirrors_def personIdx_def personHashes_def)
  have found: "\<exists>p. tb_people d i = Some p \<and> key p = q"
    if "hash_indexes key pe_id h (people c)" "i \<in> set (mh_values q h)" for key :: "person \<Rightarrow> 'a" and h q
  proof -
    have "i \<in># image_mset pe_id (mset (filter (\<lambda>z. key z = q) (people c)))"
      using that(2) unfolding hash_indexes_values [OF that(1), symmetric] by simp
    then obtain p where "p \<in> ran (tb_people d)" "key p = q" "pe_id p = i"
      using mirror_indexes(2) [OF assms(1)] by auto
    then show ?thesis
      using mirror_indexes(13) [OF assms(1)] by (auto simp: table_ran)
  qed
  show ?thesis
    using assms(2) found [OF idx(1)] found [OF idx(2)] found [OF idx(3)]
    by (fastforce simp: candidatesFor_def namesMatch_def getPersonIdsByName_def getPersonIdsByLastName_def
        getPersonIdsByFirstName_def split: if_splits)
qed

lemma getObjectsByIds_set:
  "getObjectsByIds hash is b = Inr xs \<Longrightarrow> x \<in> set xs \<Longrightarrow> \<exists>i \<in> set is. hash i = Some x"
proof (induction "is" arbitrary: xs)
  case (Cons i "is")
  then show ?case
    by (cases "getObjectsByIds hash is b") (auto simp: getObject_def split: sum.splits if_splits option.splits)
qed simp

lemma determineNamedPerson_result:
  assumes "determineNamedPerson en l f description incomplete originalId s = (Return (i, ln, fn), s')" "i \<noteq> 0"
  shows "i \<in> set (candidatesFor (ed_cache (ds_editor s)) l f)
    \<or> (\<exists>q. createNewPerson en (capitalize l) (capitalize f) (dlg_asking q s) = (Return i, s'))
    \<or> (\<exists>found p. getObjectsByIds (peopleById (ed_cache (ds_editor s))) (candidatesFor (ed_cache (ds_editor s)) l f) True = Inr found
         \<and> p \<in> set found \<and> pe_id p = i)"
proof -
  let ?cs = "candidatesFor (ed_cache (ds_editor s)) l f"
  consider "\<not> isNone l \<and> \<not> isNone f" "?cs = []" | "\<not> isNone l \<and> \<not> isNone f" "?cs \<noteq> []" "length ?cs = 1"
    | "\<not> (\<not> isNone l \<and> \<not> isNone f) \<or> ?cs \<noteq> [] \<and> length ?cs \<noteq> 1" by blast
  then show ?thesis
  proof cases
    case 1
    then show ?thesis
      using assms by (auto simp: determineNamedPerson_def dlg_bind_simps dlg_bind_Return_iff Let_def split: if_splits)
  next
    case 2
    then show ?thesis
      using assms by (auto simp: determineNamedPerson_def dlg_bind_simps Let_def)
  next
    case 3
    show ?thesis
    proof (cases "getObjectsByIds (peopleById (ed_cache (ds_editor s))) ?cs True")
      case (Inl e)
      show ?thesis using assms 3 Inl
        by (auto simp: determineNamedPerson_def dlg_bind_simps Let_def split: if_splits)
    next
      case (Inr found)
      define run where "run = dlg_bind (selectObject en (qArg (selectionReason l f) description) found
          (if idValid originalId then originalId else 0)) (\<lambda>(answer, i). case answer of SelRow n \<Rightarrow> dlg_return (i, incomplete)
          | SelUnknown \<Rightarrow> dlg_return (0, l, f)
          | SelNew \<Rightarrow> dlg_bind (createNewPerson en (capitalize l) (capitalize f)) (\<lambda>i. dlg_return (i, incomplete))
          | SelCancelled \<Rightarrow> dlg_abort | SelNone \<Rightarrow> dlg_abort)"
      have "run s = (Return (i, ln, fn), s')"
        using assms(1) 3 unfolding determineNamedPerson_def run_def by (auto simp: dlg_bind_simps Let_def Inr split: if_splits)
      then show ?thesis
        using assms(2) Inr
        by (auto simp: run_def dlg_bind_Return_iff selectObject_def Let_def split: selection.splits if_splits)
          (metis nth_mem)+
    qed
  qed
qed

text \<open>C14: a valid person id that the editor determines from the names in two of its inputs is the id of a person who
  has the names (compared without case; an empty name fits every person), or of the person the user just
  created from these names, and only if the inputs are active.\<close>

theorem determined_person:
  assumes "cacheMirrors (ed_cache (ds_editor s)) d" "idValid i"
    "determinePerson en active lastName firstName description required incomplete originalId widget s
       = (Return (i, ln, fn), s')"
  shows "active \<and> ((\<exists>p. tb_people d i = Some p \<and> namesMatch lastName firstName p)
     \<or> (\<exists>h. i = fst (de_created en (CreatePerson (capitalize lastName) (capitalize firstName) # h)
              (ed_cache (ds_editor s)))))"
proof -
  let ?P = "(\<exists>p. tb_people d i = Some p \<and> namesMatch lastName firstName p)
     \<or> (\<exists>h. i = fst (de_created en (CreatePerson (capitalize lastName) (capitalize firstName) # h) (ed_cache (ds_editor s))))"
  have act: "active"
    using assms(2,3) by (cases active) (auto simp: determinePerson_def idValid_def idInvalid_def invalidId_def)
  obtain s1 where s1: "ds_editor s1 = ds_editor s"
    "determineNamedPerson en lastName firstName description incomplete originalId s1 = (Return (i, ln, fn), s')"
    using assms(2,3) act
    by (auto simp: determinePerson_def dlg_bind_Return_iff idValid_def idInvalid_def invalidId_def
        split: if_splits intro: that [OF dlg_simps(7)])
  let ?c = "ed_cache (ds_editor s1)"
  let ?cs = "candidatesFor ?c lastName firstName"
  have mir: "cacheMirrors ?c d" using assms(1) s1(1) by simp
  have created: ?P
    if "createNewPerson en (capitalize lastName) (capitalize firstName) s2 = (Return i, s3)" "ds_editor s2 = ds_editor s1" for s2 s3
  proof -
    have "i = fst (de_created en (CreatePerson (capitalize lastName) (capitalize firstName) # ds_asked s2) (ed_cache (ds_editor s)))"
      using that s1(1) by (auto simp: createNewPerson_def dlg_bind_Return_iff createdObject_def split_def Let_def split: if_splits)
    then show ?thesis by blast
  qed
  have candidate: ?P if "i \<in> set ?cs"
    using candidates_match [OF mir that] by blast
  have row: "i \<in> set ?cs"
    if h: "getObjectsByIds (peopleById ?c) ?cs True = Inr found" "p \<in> set found" "pe_id p = i" for found p
  proof -
    obtain j where "j \<in> set ?cs" "peopleById ?c j = Some p" using getObjectsByIds_set [OF h(1,2)] by blast
    moreover have "peopleById ?c = tb_people d" "table_ok pe_id (tb_people d)" using mirror_indexes [OF mir] by simp_all
    ultimately show ?thesis using h(3) by (auto simp: table_ok_def)
  qed
  have "i \<noteq> 0" using assms(2) by (simp add: idValid_def idInvalid_def)
  from determineNamedPerson_result [OF s1(2) this] have ?P
    using candidate row created by (metis dlg_simps(7))
  with act show ?thesis by blast
qed


section \<open>What is stored\<close>

text \<open>Determining a flight stores nothing and emits nothing, whatever the user answers and however it ends.\<close>

definition storesNothing :: "'a dialog \<Rightarrow> bool" where
  "storesNothing m \<longleftrightarrow> (\<forall>s. ds_stores (snd (m s)) = ds_stores s \<and> ds_signals (snd (m s)) = ds_signals s
     \<and> ed_open (ds_editor (snd (m s))) = ed_open (ds_editor s))"

lemma storesNothingD:
  "storesNothing m \<Longrightarrow> m s = (r, s') \<Longrightarrow> ds_stores s' = ds_stores s \<and> ds_signals s' = ds_signals s
     \<and> ed_open (ds_editor s') = ed_open (ds_editor s)"
  unfolding storesNothing_def by (metis snd_conv)

lemma storesNothing_basic:
  "storesNothing (dlg_return x)" "storesNothing dlg_abort" "storesNothing dlg_get" "storesNothing (yesNoQuestion en q)"
  "storesNothing (\<lambda>s. (Crashed, s))" "storesNothing (\<lambda>s. (NotFound, s))" "storesNothing (dlg_cache h)"
  "storesNothing (selectObject en reason found preselection)" "storesNothing (createdObject en q)"
  "(\<And>e. ed_open (g e) = ed_open e) \<Longrightarrow> storesNothing (dlg_edit g)"
  by (simp_all add: storesNothing_def selectObject_def createdObject_def split_def Let_def)

lemma storesNothing_bind:
  assumes "storesNothing m" "\<And>x. storesNothing (f x)"
  shows "storesNothing (dlg_bind m f)"
  unfolding storesNothing_def
proof
  fix s
  obtain r s1 where 1: "m s = (r, s1)" by fastforce
  note a = storesNothingD [OF assms(1) 1]
  show "ds_stores (snd (dlg_bind m f s)) = ds_stores s \<and> ds_signals (snd (dlg_bind m f s)) = ds_signals s
     \<and> ed_open (ds_editor (snd (dlg_bind m f s))) = ed_open (ds_editor s)"
  proof (cases r)
    case (Return x)
    obtain r2 s2 where 2: "f x s1 = (r2, s2)" by fastforce
    show ?thesis using a storesNothingD [OF assms(2) 2] by (simp add: dlg_bind_def 1 2 Return)
  qed (use a in \<open>simp_all add: dlg_bind_def 1\<close>)
qed

lemma storesNothing_cases:
  "(c \<Longrightarrow> storesNothing a) \<Longrightarrow> (\<not> c \<Longrightarrow> storesNothing b) \<Longrightarrow> storesNothing (if c then a else b)"
  "(\<And>x y. storesNothing (f x y)) \<Longrightarrow> storesNothing (case z of (x, y) \<Rightarrow> f x y)"
  "(\<And>x. storesNothing (g x)) \<Longrightarrow> storesNothing a \<Longrightarrow> storesNothing (case v of None \<Rightarrow> a | Some x \<Rightarrow> g x)"
  "(\<And>x. storesNothing (k x)) \<Longrightarrow> (\<And>x. storesNothing (l x)) \<Longrightarrow> storesNothing (case w of Inl x \<Rightarrow> k x | Inr x \<Rightarrow> l x)"
  "storesNothing a \<Longrightarrow> storesNothing b \<Longrightarrow> storesNothing c' \<Longrightarrow> storesNothing d \<Longrightarrow> (\<And>n. storesNothing (h n)) \<Longrightarrow>
   storesNothing (case x' of SelCancelled \<Rightarrow> a | SelNone \<Rightarrow> b | SelNew \<Rightarrow> c' | SelUnknown \<Rightarrow> d | SelRow n \<Rightarrow> h n)"
  by (simp_all split: prod.split option.split sum.split selection.split)

lemma open_edits [simp]:
  "ed_open (setFocusTo w e) = ed_open e" "ed_open (enterPlane i t b e) = ed_open e"
  "ed_open (enterPerson pilotInputs i e) = ed_open e" "ed_open (enterPerson copilotInputs i e) = ed_open e"
  "ed_open (enterPerson towpilotInputs i e) = ed_open e"
  by (auto simp: setFocusTo_def enterPlane_def enterPerson_def Let_def split_def
      pilotInputs_def copilotInputs_def towpilotInputs_def split: option.splits sum.splits)

lemmas storesNothing_rules = storesNothing_cases storesNothing_basic storesNothing_bind

lemma storesNothing_runChecks: "storesNothing (runChecks en cs)"
proof (induction en cs rule: runChecks.induct)
  case (1 en)
  show ?case unfolding runChecks.simps by (intro storesNothing_rules)
next
  case (2 en c p w cs)
  then show ?case unfolding runChecks.simps errorCheck_def by (intro storesNothing_rules open_edits) auto
qed

lemma storesNothing_determineFlight: "storesNothing (determineFlight en dep)"
proof -
  have plane: "storesNothing (determineAndEnterPlane en r d w t)" for r d w t
    unfolding determineAndEnterPlane_def determinePlane_def Let_def by (intro storesNothing_rules open_edits)
  have planes: "storesNothing (determineFlightPlanes en f)" for f
    unfolding determineFlightPlanes_def determineKnownTowplane_def Let_def by (intro storesNothing_rules plane)
  have person: "storesNothing (determinePerson en a l n d r inc orig w)" for a l n d r inc orig w
    unfolding determinePerson_def determineNamedPerson_def createNewPerson_def Let_def
    by (intro storesNothing_rules open_edits)
  have people: "storesNothing (determineFlightPeople en f lm)" for f lm
    unfolding determineFlightPeople_def determinePilot_def determineCopilot_def determineTowpilot_def
      determineAndEnterPerson_def Let_def
    by (intro storesNothing_rules person open_edits) simp_all
  show ?thesis
    unfolding determineFlight_def checkFlightPhase1_def checkFlightPhase2_def checkFlightPhase3_def towplaneCheck_def
      errorCheck_def Let_def
    by (intro storesNothing_rules storesNothing_runChecks planes people open_edits)
qed


text \<open>The database never gives a stored flight the invalid id.\<close>

definition givesIds :: "dialog_env \<Rightarrow> bool" where
  "givesIds en \<longleftrightarrow> (\<forall>f i. de_stored en f = Some i \<longrightarrow> idValid i)"

lemma announceStored_fields [simp]:
  "ed_open (fold announceStored vs e) = ed_open e" "ui_flightMode (fold announceStored vs e) = ui_flightMode e"
  "ed_mode (fold announceStored vs e) = ed_mode e"
  by (induction vs arbitrary: e) (auto simp: announceStored_def split: option.splits prod.splits)

lemma updateFlarmId_result:
  "updateFlarmId en f s = (r, s') \<Longrightarrow> \<exists>ok planes. r = Return ok \<and> ds_stores s' = ds_stores s @ map ValuePlane planes
     \<and> ds_signals s' = ds_signals s \<and> ed_open (ds_editor s') = ed_open (ds_editor s)
     \<and> ui_flightMode (ds_editor s') = ui_flightMode (ds_editor s)"
  by (auto simp: updateFlarmId_def Let_def split_def split: if_splits intro: exI [of _ "[]"])

lemma storeFlight_result:
  "givesIds en \<Longrightarrow> storeFlight en f s = (r, s') \<Longrightarrow>
     ds_editor s' = ds_editor s \<and> ds_signals s' = ds_signals s
     \<and> ((\<exists>i. r = Return (True, f\<lparr>getId := i\<rparr>) \<and> ds_stores s' = ds_stores s @ [ValueFlight (f\<lparr>getId := i\<rparr>)])
       \<or> (\<exists>g. r = Return (False, g)) \<and> ds_stores s' = ds_stores s)"
  by (auto simp: storeFlight_def givesIds_def split: editor_mode.splits option.splits intro: exI [of _ "getId f"])

lemma writeToDatabase_result:
  assumes "givesIds en" "writeToDatabase en f s = (r, s')"
  shows "\<exists>planes. ed_open (ds_editor s') = ed_open (ds_editor s) \<and> ui_flightMode (ds_editor s') = ui_flightMode (ds_editor s)
     \<and> ((\<exists>i. r = Return (True, f\<lparr>getId := i\<rparr>) \<and> ds_signals s' = ds_signals s
            \<and> ds_stores s' = ds_stores s @ map ValuePlane planes @ [ValueFlight (f\<lparr>getId := i\<rparr>)])
       \<or> (\<exists>g. r = Return (False, g)) \<and> ds_stores s' = ds_stores s @ map ValuePlane planes
           \<and> ds_signals s' \<in> {ds_signals s, ds_signals s @ [SaveError]})"
proof -
  obtain r1 s1 where 1: "updateFlarmId en f s = (r1, s1)" by fastforce
  obtain ok planes where u: "r1 = Return ok" "ds_stores s1 = ds_stores s @ map ValuePlane planes"
    "ds_signals s1 = ds_signals s" "ed_open (ds_editor s1) = ed_open (ds_editor s)"
    "ui_flightMode (ds_editor s1) = ui_flightMode (ds_editor s)"
    using updateFlarmId_result [OF 1] by blast
  obtain r2 s2 where 2: "storeFlight en f s1 = (r2, s2)" by fastforce
  note st = storeFlight_result [OF assms(1) 2]
  show ?thesis
  proof (cases ok)
    case False
    then show ?thesis using assms(2) 1 u by (intro exI [of _ planes]) (auto simp: writeToDatabase_def dlg_bind_def)
  next
    case True
    then show ?thesis using assms(2) 1 2 u st
      by (intro exI [of _ planes]) (auto simp: writeToDatabase_def dlg_bind_def dlg_signal_def split: outcome.splits)
  qed
qed

text \<open>C13: however the user answers, the button "depart now" or "land now" either stores no flight,
  announces none and leaves the editor open, or stores, as its last write, a flight that has departed (or
  landed) just now, announces this flight once, and closes the editor.\<close>

theorem now_button_stores:
  assumes "givesIds en" "ed_open (ds_editor s)" "nowButton_clicked en s = (r, s')"
  shows "\<exists>planes.
     if ed_open (ds_editor s')
     then ds_stores s' = ds_stores s @ map ValuePlane planes \<and> ds_signals s' \<in> {ds_signals s, ds_signals s @ [SaveError]}
     else (\<exists>f. ds_stores s' = ds_stores s @ map ValuePlane planes @ [ValueFlight f]
       \<and> (if currentDepartsHere (ds_editor s')
          then getDeparted f \<and> getDepartureTime f = nullSeconds (ee_now en)
               \<and> ds_signals s' = ds_signals s @ [SignalDeparted (getId f)]
          else getLanded f \<and> getLandingTime f = nullSeconds (ee_now en)
               \<and> ds_signals s' = ds_signals s @ [SignalLanded (getId f)]))"
proof -
  have keep: "ds_stores s = ds_stores s @ map ValuePlane []" by simp
  obtain r1 s1 where 1: "determineFlight en True s = (r1, s1)" by fastforce
  note n = storesNothingD [OF storesNothing_determineFlight 1]
  show ?thesis
  proof (cases r1)
    case (Return f)
    define dep where "dep = currentDepartsHere (ds_editor s1)"
    define f2 where "f2 = (if dep then snd (departNow (ee_now en) True f) else snd (landNow (ee_settings en) (ee_now en) True f))"
    have f2: "if dep then getDeparted f2 \<and> getDepartureTime f2 = nullSeconds (ee_now en)
        else getLanded f2 \<and> getLandingTime f2 = nullSeconds (ee_now en)"
      by (simp add: f2_def departNow_def landNow_def Let_def setDeparted_def setDepartureTime_def setLandingTime_def
          setNumLandings_def setLanded_def setLandingLocation_def dataChanged_def)
    obtain r2 s2 where 2: "writeToDatabase en f2 s1 = (r2, s2)" by fastforce
    obtain planes where w: "ed_open (ds_editor s2) = ed_open (ds_editor s1)" "ui_flightMode (ds_editor s2) = ui_flightMode (ds_editor s1)"
      "(\<exists>i. r2 = Return (True, f2\<lparr>getId := i\<rparr>) \<and> ds_signals s2 = ds_signals s1
            \<and> ds_stores s2 = ds_stores s1 @ map ValuePlane planes @ [ValueFlight (f2\<lparr>getId := i\<rparr>)])
       \<or> (\<exists>g. r2 = Return (False, g)) \<and> ds_stores s2 = ds_stores s1 @ map ValuePlane planes
           \<and> ds_signals s2 \<in> {ds_signals s1, ds_signals s1 @ [SaveError]}"
      using writeToDatabase_result [OF assms(1) 2] by blast
    have dep': "currentDepartsHere (ds_editor s2\<lparr>ed_open := b\<rparr>) = dep" for b
      using w(2) by (simp add: dep_def currentDepartsHere_def isFlightModeActive_def getCurrentFlightMode_def)
    have run: "acceptNow en s = (case r2 of Return (written, g) \<Rightarrow>
        if written then (Return (), s2\<lparr>ds_signals := ds_signals s2 @ [if dep then SignalDeparted (getId g) else SignalLanded (getId g)],
             ds_editor := (ds_editor s2)\<lparr>ed_open := False\<rparr>\<rparr>)
        else (Return (), s2) | Aborted \<Rightarrow> (Aborted, s2) | Crashed \<Rightarrow> (Crashed, s2) | NotFound \<Rightarrow> (NotFound, s2))"
    proof -
      have "acceptNow en s = dlg_bind (writeToDatabase en f2) (\<lambda>(written, g).
         if written
         then dlg_bind (if dep then dlg_signal (SignalDeparted (getId g)) else dlg_return ()) (\<lambda>_.
                dlg_bind (if \<not> dep then dlg_signal (SignalLanded (getId g)) else dlg_return ()) (\<lambda>_. closeEditor))
         else dlg_return ()) s1"
        unfolding dep_def f2_def
        by (cases "currentDepartsHere (ds_editor s1)")
          (simp_all add: acceptNow_def dlg_bind_def [of "determineFlight en True"] 1 Return dlg_bind_simps Let_def)
      then show ?thesis
        by (cases r2; cases dep)
          (simp_all add: dlg_bind_def 2 closeEditor_def dlg_signal_def split: prod.split)
    qed
    show ?thesis
    proof (cases "\<exists>i. r2 = Return (True, f2\<lparr>getId := i\<rparr>)")
      case True
      then obtain i where i: "r2 = Return (True, f2\<lparr>getId := i\<rparr>)" by blast
      have s': "s' = s2\<lparr>ds_signals := ds_signals s2 @ [if dep then SignalDeparted i else SignalLanded i],
          ds_editor := (ds_editor s2)\<lparr>ed_open := False\<rparr>\<rparr>"
        using assms(3) by (cases dep) (auto simp: nowButton_clicked_def catchAborted_def run i)
      have "ds_stores s' = ds_stores s @ map ValuePlane planes @ [ValueFlight (f2\<lparr>getId := i\<rparr>)]"
        "ds_signals s' = ds_signals s @ [if dep then SignalDeparted i else SignalLanded i]"
        using w(3) i n by (auto simp: s')
      moreover have "\<not> ed_open (ds_editor s')" "currentDepartsHere (ds_editor s') = dep" by (simp_all add: s' dep')
      ultimately show ?thesis
        using f2 by (intro exI [of _ planes]) (simp split: if_splits)
    next
      case False
      then obtain g where g: "r2 = Return (False, g)" "ds_stores s2 = ds_stores s1 @ map ValuePlane planes"
        "ds_signals s2 \<in> {ds_signals s1, ds_signals s1 @ [SaveError]}" using w(3) by blast
      have "s' = s2" using assms(3) by (simp add: nowButton_clicked_def catchAborted_def run g(1))
      then show ?thesis
        using g(2,3) n w(1) assms(2) by (intro exI [of _ planes]) simp
    qed
  qed (use assms(2,3) 1 n in \<open>auto simp: nowButton_clicked_def catchAborted_def acceptNow_def dlg_bind_def intro: exI [of _ "[]"]\<close>)
qed


section \<open>Where accepting goes wrong\<close>

definition sameCopilot :: "editor \<Rightarrow> editor \<Rightarrow> bool" where
  "sameCopilot a b \<longleftrightarrow> ed_selectedCopilot b = ed_selectedCopilot a \<and> ui_flightType b = ui_flightType a"

lemma same_copilot [simp]:
  "sameCopilot a a" "transp sameCopilot" "sameCopilot e (setFocusTo w e)" "sameCopilot e (enterPlane i t b e)"
  "sameCopilot e (enterPerson pilotInputs i e)" "sameCopilot e (enterPerson copilotInputs i e)"
  "sameCopilot e (enterPerson towpilotInputs i e)"
  "sameCopilot e (e\<lparr>ed_selectedPilot := i\<rparr>)" "sameCopilot e (e\<lparr>ed_selectedTowpilot := i\<rparr>)"
  by (auto simp: sameCopilot_def setFocusTo_def enterPlane_def enterPerson_def Let_def split_def transp_def
      pilotInputs_def copilotInputs_def towpilotInputs_def split: option.splits sum.splits)

lemma created_copilot: "keeps sameCopilot (createdObject en q)"
  by (simp add: keeps_def createdObject_def sameCopilot_def split_def Let_def)

lemmas copilot_rules = same_copilot keeps_cases keeps_selection keeps_basic keeps_bind created_copilot

lemma copilot_person: "keeps sameCopilot (determinePerson en a l n d r inc orig w)"
  unfolding determinePerson_def determineNamedPerson_def createNewPerson_def Let_def by (intro copilot_rules)

lemma copilot_keeps:
  "keeps sameCopilot (determineFlightPlanes en f)" "keeps sameCopilot (checkFlightPhase1 en f dep)"
  "keeps sameCopilot (checkFlightPhase2 en f dep plane towplane lm)"
  "keeps sameCopilot (checkFlightPhase3 en f dep plane pilot copilot towpilot)"
  "keeps sameCopilot (determinePilot en f lm)" "keeps sameCopilot (determineTowpilot en f)"
proof -
  have e: "keeps sameCopilot (errorCheck en p w)" for p w
    unfolding errorCheck_def by (intro copilot_rules)
  have r: "keeps sameCopilot (runChecks en cs)" for cs
  proof (induction en cs rule: runChecks.induct)
    case (2 en c p w cs)
    have "keeps sameCopilot (errorCheck en p (Some w))" unfolding errorCheck_def by (intro copilot_rules)
    with 2 show ?case unfolding runChecks.simps by (intro copilot_rules) auto
  next
    case (1 en)
    show ?case unfolding runChecks.simps by (intro copilot_rules)
  qed
  show "keeps sameCopilot (checkFlightPhase1 en f dep)"
    "keeps sameCopilot (checkFlightPhase2 en f dep plane towplane lm)"
    "keeps sameCopilot (checkFlightPhase3 en f dep plane pilot copilot towpilot)"
    unfolding checkFlightPhase1_def checkFlightPhase2_def checkFlightPhase3_def towplaneCheck_def
    by (intro copilot_rules r e)+
  show "keeps sameCopilot (determineFlightPlanes en f)"
    unfolding determineFlightPlanes_def determineKnownTowplane_def determineAndEnterPlane_def determinePlane_def Let_def
    by (intro copilot_rules)
  show "keeps sameCopilot (determinePilot en f lm)" "keeps sameCopilot (determineTowpilot en f)"
    unfolding determinePilot_def determineTowpilot_def determineAndEnterPerson_def Let_def
    by (intro copilot_rules copilot_person)+
qed

lemma determineFlightPlanes_copilot:
  "determineFlightPlanes en f s = (Return g, s') \<Longrightarrow> getCopilotId g = getCopilotId f \<and> getType g = getType f"
proof -
  assume "determineFlightPlanes en f s = (Return g, s')"
  then obtain i s1 where "if isTowplaneRegistrationActive (ds_editor s1)
      then \<exists>j. (\<exists>s2. determineAndEnterPlane en (cb_text (ui_towplaneRegistration (ds_editor s1))) ''towplane''
                 (Some towplaneRegistrationInput) towplaneTypeWidget s1 = (Return j, s2))
             \<and> g = setTowplaneId j (setPlaneId i f)
      else g = setPlaneId i f"
    using determineFlightPlanes_steps by blast
  then have "(\<exists>j. g = setTowplaneId j (setPlaneId i f)) \<or> g = setPlaneId i f"
    by (cases "isTowplaneRegistrationActive (ds_editor s1)") (simp_all only: if_True if_False simp_thms, blast+)
  then show ?thesis by (auto simp: setPlaneId_def setTowplaneId_def dataChanged_def)
qed

text \<open>Of a solo training flight the editor stores the supervisor that was determined, but leaves the
  person who was selected before as the copilot of the flight, so that the previous supervisor (or
  copilot) counts as a person on board.\<close>

theorem supervisor_stays_copilot:
  assumes "getCurrentFlightType (ds_editor s) = typeTraining1" "isCopilotActive en (ds_editor s)"
    "determineFlight en departing s = (Return f, s')"
  shows "getSupervisorId f = ed_selectedCopilot (ds_editor s') \<and> getCopilotId f = ed_selectedCopilot (ds_editor s)"
proof -
  define f0 where "f0 = determineFlightBasic en (ds_editor s)"
  obtain u s1 f1 s2 pl tp lm v s3 f2 s4 p c t w where
    1: "checkFlightPhase1 en f0 departing s = (Return u, s1)" and
    2: "determineFlightPlanes en f0 s1 = (Return f1, s2)" and
    3: "checkFlightPhase2 en f1 departing pl tp lm s2 = (Return v, s3)" and
    4: "determineFlightPeople en f1 lm s3 = (Return f2, s4)" and
    5: "checkFlightPhase3 en f2 departing pl p c t s4 = (Return w, s')" and
    6: "f = (if isPrepared f2 then dataChanged (f2\<lparr>getFlarmId := []\<rparr>) else f2)"
    using assms(3) unfolding determineFlight_def f0_def [symmetric] Let_def
    by (auto simp: dlg_bind_Return_iff Let_def f0_def [symmetric])
  obtain g1 t1 g2 t2 where g: "determinePilot en f1 lm s3 = (Return g1, t1)" "determineCopilot en g1 t1 = (Return g2, t2)"
    "determineTowpilot en g2 t2 = (Return f2, s4)"
    using 4 by (auto simp: determineFlightPeople_def dlg_bind_Return_iff)
  have f0: "getType f0 = typeTraining1" "getCopilotId f0 = ed_selectedCopilot (ds_editor s)"
    using assms(1,2) by (simp_all add: f0_def basic_fields basic_rest)
  have f1: "getType f1 = typeTraining1" "getCopilotId f1 = ed_selectedCopilot (ds_editor s)"
    using determineFlightPlanes_copilot [OF 2] f0 by simp_all
  have g1: "getType g1 = typeTraining1" "getCopilotId g1 = ed_selectedCopilot (ds_editor s)"
    using g(1) f1 by (auto simp: determinePilot_def dlg_bind_Return_iff Let_def dataChanged_def)
  have g2: "getCopilotId g2 = ed_selectedCopilot (ds_editor s)" "getSupervisorId g2 = ed_selectedCopilot (ds_editor t2)"
    using g(2) g1 by (auto simp: determineCopilot_def dlg_bind_Return_iff Let_def dataChanged_def)
  have f2: "getCopilotId f2 = getCopilotId g2" "getSupervisorId f2 = getSupervisorId g2"
    using g(3) by (auto simp: determineTowpilot_def dlg_bind_Return_iff Let_def dataChanged_def)
  have "sameCopilot (ds_editor t2) (ds_editor s4)" "sameCopilot (ds_editor s4) (ds_editor s')"
    by (rule keepsD [OF copilot_keeps(6) g(3)], rule keepsD [OF copilot_keeps(4) 5])
  then have "ed_selectedCopilot (ds_editor s') = ed_selectedCopilot (ds_editor t2)" by (simp add: sameCopilot_def)
  then show ?thesis using f2 g2 by (simp add: 6 dataChanged_def)
qed

text \<open>The message about a towplane that is a glider reads the plane, which is missing.\<close>

theorem glider_towplane_crashes:
  assumes "pl_category t = categoryGlider" "idInvalid (getPlaneId f)"
  shows "checkFlightPhase2 en f departing None (Some t) lm s = (Crashed, s)"
  using assms by (simp add: checkFlightPhase2_def planeChecks_def towplaneCheck_def dlg_bind_simps dlg_bind_def
      dlg_return_def idValid_def)


section \<open>Witnesses\<close>

text \<open>The user confirms no problem, creates every object that is asked for (with the id 5), cancels every
  selection, and the database stores every flight with the id 6.\<close>

definition env2 :: dialog_env where
  "env2 = \<lparr>ee_settings = ee_settings env1, ee_checkMedicals = True, ee_prefix = ''D-'', ee_today = 20000,
     ee_now = Some 1728000000000, ee_mem = ee_mem env1,
     de_yes = (\<lambda>qs. case qs of Confirm p # _ \<Rightarrow> False | _ \<Rightarrow> True),
     de_created = (\<lambda>qs c. (5, c)), de_selected = (\<lambda>qs. SelCancelled), de_systemTz = utc,
     de_flarmAnswer = updDontUpdate, de_flarmResolution = 0, de_flarmCanceled = False, de_flarmCanceled2 = False,
     de_stored = (\<lambda>f. Some 6)\<rparr>"

definition askedOf :: "editor \<Rightarrow> question list \<Rightarrow> dialog_state" where
  "askedOf ed qs = \<lparr>ds_editor = ed, ds_asked = qs, ds_stores = [], ds_signals = []\<rparr>"

lemma askedOf_simps [simp]:
  "ds_editor (askedOf ed qs) = ed" "ds_asked (askedOf ed qs) = qs" "ds_stores (askedOf ed qs) = []"
  "ds_signals (askedOf ed qs) = []" "dlg_asking q (askedOf ed qs) = askedOf ed (q # qs)"
  "askedOf ed qs\<lparr>ds_editor := ed'\<rparr> = askedOf ed' qs"
  by (simp_all add: askedOf_def dlg_asking_def)

text \<open>The flight of \<open>typed1\<close> with a registration that is not known.\<close>

definition typed2 :: editor where
  "typed2 = the (userEdit env1 (EditRegistration ''D-1'') typed1)"

lemma typed2_session: "session env1 cache1 typed2"
proof -
  have "userEdit env1 (EditRegistration ''D-1'') typed1 = Some typed2"
    by (simp add: typed2_def userEdit_def)
  with typed1_session show ?thesis by (rule session_user)
qed

lemma env2_answers: "confirmsNothing env2" "createsOnly env2" "givesIds env2"
  by (simp_all add: env2_def confirmsNothing_def createsOnly_def givesIds_def idValid_def idInvalid_def)


lemma newEditor_texts:
  "cb_text (ui_departureLocation (newEditor env1 m cache1)) = ''Aachen''"
  "cb_text (ui_landingLocation (newEditor env1 m cache1)) = ''Aachen''"
  "cb_text (ui_pilotLastName (newEditor env1 m cache1)) = []"
  "cb_text (ui_pilotFirstName (newEditor env1 m cache1)) = []"
  "cb_text (ui_copilotLastName (newEditor env1 m cache1)) = []"
  "cb_text (ui_copilotFirstName (newEditor env1 m cache1)) = []"
  "ui_numLandings (newEditor env1 m cache1) = 0" "ed_open (newEditor env1 m cache1)"
  by (simp_all add: newEditor_def Let_def)
    (simp_all add: setupTitle_def fillData_def fillLists_def settingsChanged_def formWidgets_def Let_def
      cache1_def winch1_def env1_def lm_new_def fillCombo_def cb_setEditText_def)

lemma cache1_planes: "getPlaneIdByRegistration cache1 r = invalidId"
  by (simp add: getPlaneIdByRegistration_def cache1_def newCache_def mh_contains_def)

lemma registrationChanged_cache1:
  "ed_cache ed = cache1 \<Longrightarrow> registrationChanged t ed =
     ed\<lparr>ed_selectedPlane := invalidId, ui_text := (ui_text ed)(Inp planeTypeWidget := ''-'')\<rparr>"
  by (simp add: registrationChanged_def cache1_planes Let_def idValid_def idInvalid_def invalidId_def)

lemma typed2_inputs:
  "getCurrentFlightType typed2 = typeNormal" "getCurrentFlightMode typed2 = modeLocal"
  "getCurrentLaunchMethodId typed2 = 4" "ed_mode typed2 = modeCreate" "ed_cache typed2 = cache1"
  "ui_departureTimeChecked typed2 = False" "ui_landingTimeChecked typed2 = True"
  "ui_departureTime typed2 = 36000000" "ui_date typed2 = 20000"
  "cb_text (ui_registration typed2) = ''D-1''"
  "cb_text (ui_departureLocation typed2) = ''Aachen''" "cb_text (ui_landingLocation typed2) = ''Aachen''"
  "cb_text (ui_pilotLastName typed2) = []" "cb_text (ui_pilotFirstName typed2) = []"
  "cb_text (ui_copilotLastName typed2) = []" "cb_text (ui_copilotFirstName typed2) = []"
  "ui_numLandings typed2 = 0" "ed_open typed2"
  by (simp_all add: typed2_def typed1_def Let_def userEdit_def ew_createFlight_def newEditor_choices newEditor_texts
      registrationChanged_cache1 cb_setEditText_def getCurrentFlightType_def getCurrentFlightMode_def getCurrentLaunchMethodId_def sk_defs)


lemma cache1_lookups:
  "getNewObject (launchMethodsById cache1) 4 = Some winch1" "getObject (launchMethodsById cache1) 4 = Inr winch1"
  "getNewObject (planesById cache1) i = None" "getNewObject (peopleById cache1) i = None"
  "getObject (planesById cache1) i = Inl (NotFoundException i)"
  by (simp_all add: getNewObject_def getObject_def idInvalid_def cache1_def newCache_def split: option.splits)

text \<open>The inputs of a window on \<open>cache1\<close> with an unknown registration, a winch launch, a departure and no names.\<close>

definition plainInputs :: "editor \<Rightarrow> bool" where
  "plainInputs ed \<longleftrightarrow> getCurrentFlightType ed \<in> {typeNormal, typeTraining1} \<and> getCurrentFlightMode ed = modeLocal
     \<and> getCurrentLaunchMethodId ed = 4 \<and> ed_mode ed = modeCreate \<and> ed_cache ed = cache1
     \<and> \<not> ui_departureTimeChecked ed \<and> ui_landingTimeChecked ed \<and> ui_numLandings ed = 0
     \<and> cb_text (ui_registration ed) = ''D-1'' \<and> cb_text (ui_departureLocation ed) = ''Aachen''
     \<and> cb_text (ui_pilotLastName ed) = [] \<and> cb_text (ui_pilotFirstName ed) = []
     \<and> cb_text (ui_copilotLastName ed) = [] \<and> cb_text (ui_copilotFirstName ed) = []"

lemma typed2_plain: "plainInputs typed2"
  by (simp add: plainInputs_def typed2_inputs)

lemma plain_updates [simp]:
  "plainInputs (ed\<lparr>ed_selectedPilot := i\<rparr>) = plainInputs ed" "plainInputs (ed\<lparr>ed_selectedCopilot := i\<rparr>) = plainInputs ed"
  "plainInputs (ed\<lparr>ed_selectedTowpilot := i\<rparr>) = plainInputs ed"
  by (simp_all add: plainInputs_def getCurrentFlightType_def getCurrentFlightMode_def getCurrentLaunchMethodId_def)

lemma plain_inputs:
  assumes "plainInputs ed"
  shows "getCurrentFlightType ed \<noteq> typeTraining2" "getCurrentFlightMode ed = modeLocal"
    "getCurrentLaunchMethodId ed = 4" "ed_cache ed = cache1" "ui_numLandings ed = 0"
    "cb_text (ui_registration ed) = ''D-1''" "cb_text (ui_departureLocation ed) = ''Aachen''"
    "cb_text (ui_pilotLastName ed) = []" "cb_text (ui_pilotFirstName ed) = []"
    "cb_text (ui_copilotLastName ed) = []" "cb_text (ui_copilotFirstName ed) = []"
    "isDepartureTimeActive ed" "\<not> isLandingTimeActive ed" "\<not> isTowflightLandingTimeActive ed"
    "isLaunchMethodActive ed" "\<not> currentIsAirtow ed" "\<not> isTowplaneRegistrationActive ed"
    "isPilotActive env2 ed" "\<not> isTowpilotActive env2 ed" "isCopilotActive env2 ed"
  using assms by (auto simp: plainInputs_def active_defs getCurrentLaunchMethod_def cache1_lookups winch1_def lm_new_def
      lm_isAirtow_def env2_def env1_def getTimeFieldActive_def sk_defs)

lemma dlg_bind_created:
  "dlg_bind (createdObject en q) f s = (let (i, c) = de_created en (q # ds_asked s) (ed_cache (ds_editor s))
     in f i ((dlg_asking q s)\<lparr>ds_editor := (ds_editor s)\<lparr>ed_cache := c\<rparr>\<rparr>))"
  by (simp add: dlg_bind_def createdObject_def Let_def split_def)

lemma plain_plane:
  assumes "plainInputs ed"
  shows "\<exists>qs. determinePlane env2 ''D-1'' ''plane'' (Some registrationInput) (askedOf ed []) = (Return 5, askedOf ed qs)"
proof -
  have c: "ed\<lparr>ed_cache := cache1\<rparr> = ed"
    by (rule editor.equality) (simp_all add: plain_inputs [OF assms])
  have "\<not> isNone ''D-1''" "toLower (simplified ''D-1'') \<noteq> toLower (simplified ''D-'')" by code_simp+
  then show ?thesis
    by (simp add: determinePlane_def env2_def Let_def dlg_bind_simps plain_inputs [OF assms] cache1_planes
        dlg_bind_created c idValid_def idInvalid_def invalidId_def) (rule exI, rule refl)
qed

lemma runChecks_none: "noneHolds cs \<Longrightarrow> runChecks en cs s = (Return (), s)"
  by (induction en cs rule: runChecks.induct) simp_all

lemma plain_fields:
  assumes "plainInputs ed" "f = determineFlightBasic env2 ed"
  shows "getType f \<noteq> typeTraining2" "getMode f = modeLocal" "getDeparted f" "\<not> getLanded f"
    "\<not> getTowflightLanded f" "getLaunchMethodId f = 4" "getTowplaneId f = 0"
    "getDepartureLocation f = ''Aachen''" "getNumLandings f = 0"
proof -
  have "simplified ''Aachen'' = ''Aachen''" by code_simp
  then show "getType f \<noteq> typeTraining2" "getMode f = modeLocal" "getDeparted f" "\<not> getLanded f"
    "\<not> getTowflightLanded f" "getLaunchMethodId f = 4" "getTowplaneId f = 0"
    "getDepartureLocation f = ''Aachen''" "getNumLandings f = 0"
    by (simp_all add: assms(2) basic_fields basic_rest plain_inputs [OF assms(1)] invalidId_def)
qed

lemma plain_phase1:
  assumes "plainInputs ed"
  shows "noneHolds (phase1 (determineFlightBasic env2 ed) dep)"
proof -
  have "\<not> isNone ''Aachen''" by code_simp
  then show ?thesis
    by (simp add: phase1_def plain_fields [OF assms refl] departsHere_def landsHere_def sk_defs idInvalid_def)
qed

lemma plain_planes:
  assumes "plainInputs ed"
  shows "\<exists>qs. determineFlightPlanes env2 f (askedOf ed []) = (Return (setPlaneId 5 f), askedOf ed qs)"
proof -
  obtain qs where p: "determinePlane env2 ''D-1'' ''plane'' (Some registrationInput) (askedOf ed [])
      = (Return 5, askedOf ed qs)" using plain_plane [OF assms] by blast
  have e: "enterPlane 5 planeTypeWidget True ed = ed"
    by (simp add: enterPlane_def plain_inputs [OF assms] cache1_lookups)
  have "determineAndEnterPlane env2 ''D-1'' ''plane'' (Some registrationInput) planeTypeWidget (askedOf ed [])
      = (Return 5, askedOf ed qs)"
    by (simp add: determineAndEnterPlane_def dlg_bind_def p e)
  moreover have "determineKnownTowplane env2 (askedOf ed qs) = (Return (), askedOf ed qs)"
    by (simp add: determineKnownTowplane_def dlg_bind_simps plain_inputs [OF assms])
  ultimately show ?thesis
    by (intro exI [of _ qs]) (simp add: determineFlightPlanes_def dlg_bind_step plain_inputs [OF assms])
qed

lemma person_not_named:
  assumes "\<not> required"
  shows "determinePerson en active [] [] description required incomplete originalId widget s = (Return (invalidId, incomplete), s)"
proof -
  have "simplified [] \<noteq> ''+1''" by code_simp
  with assms show ?thesis by (simp add: determinePerson_def dlg_bind_simps)
qed

lemma plain_people:
  assumes "plainInputs ed"
  shows "\<exists>g s'. determineFlightPeople env2 f (Some winch1) (askedOf ed qs) = (Return g, s')
    \<and> ed_cache (ds_editor s') = cache1 \<and> getPilotId g = 0 \<and> getTowpilotId g = 0"
proof -
  have enter: "enterPerson h 0 e = e" for h e
    by (simp add: enterPerson_def idValid_def idInvalid_def invalidId_def)
  have w: "lm_type winch1 \<noteq> typeSelf" by (simp add: winch1_def)
  have 1: "\<exists>g. determinePilot env2 f (Some winch1) (askedOf ed qs) = (Return g, askedOf (ed\<lparr>ed_selectedPilot := 0\<rparr>) qs)
      \<and> getPilotId g = 0"
    by (simp add: determinePilot_def determineAndEnterPerson_def Let_def dlg_bind_def person_not_named enter w invalidId_def
        plain_inputs [OF assms] dataChanged_def)
  have 2: "\<exists>g. determineCopilot env2 f1 (askedOf e qs) = (Return g, askedOf (e\<lparr>ed_selectedCopilot := 0\<rparr>) qs)
      \<and> getPilotId g = getPilotId f1" if "plainInputs e" for f1 e
    by (simp add: determineCopilot_def determineAndEnterPerson_def Let_def dlg_bind_def person_not_named enter invalidId_def
        plain_inputs [OF that] dataChanged_def)
  have 3: "\<exists>g. determineTowpilot env2 f1 (askedOf e qs) = (Return g, askedOf (e\<lparr>ed_selectedTowpilot := 0\<rparr>) qs)
      \<and> getPilotId g = getPilotId f1 \<and> getTowpilotId g = 0" if "plainInputs e" for f1 e
    by (simp add: determineTowpilot_def determineAndEnterPerson_def Let_def dlg_bind_def determinePerson_def enter invalidId_def
        plain_inputs [OF that] dataChanged_def)
  obtain f1 where f1: "determinePilot env2 f (Some winch1) (askedOf ed qs) = (Return f1, askedOf (ed\<lparr>ed_selectedPilot := 0\<rparr>) qs)"
    "getPilotId f1 = 0" using 1 by blast
  let ?e1 = "ed\<lparr>ed_selectedPilot := 0\<rparr>"
  obtain f2 where f2: "determineCopilot env2 f1 (askedOf ?e1 qs) = (Return f2, askedOf (?e1\<lparr>ed_selectedCopilot := 0\<rparr>) qs)"
    "getPilotId f2 = 0" using 2 [of ?e1 f1] assms f1(2) by auto
  let ?e2 = "?e1\<lparr>ed_selectedCopilot := 0\<rparr>"
  obtain g where g: "determineTowpilot env2 f2 (askedOf ?e2 qs) = (Return g, askedOf (?e2\<lparr>ed_selectedTowpilot := 0\<rparr>) qs)"
    "getPilotId g = 0" "getTowpilotId g = 0" using 3 [of ?e2 f2] assms f2(2) by auto
  show ?thesis
    using f1 f2 g plain_inputs(4) [OF assms] by (simp add: determineFlightPeople_def dlg_bind_step)
qed

lemma plain_determined:
  assumes "plainInputs ed"
  shows "\<exists>f s'. determineFlight env2 departing (askedOf ed []) = (Return f, s') \<and> getPlaneId f = 5 \<and> getDeparted f"
proof -
  let ?f0 = "determineFlightBasic env2 ed" and ?f1 = "setPlaneId 5 (determineFlightBasic env2 ed)"
  note fields = plain_fields [OF assms refl]
  obtain qs where p: "determineFlightPlanes env2 ?f0 (askedOf ed []) = (Return ?f1, askedOf ed qs)"
    using plain_planes [OF assms] by blast
  obtain g s' where q: "determineFlightPeople env2 ?f1 (Some winch1) (askedOf ed qs) = (Return g, s')"
    "ed_cache (ds_editor s') = cache1" "getPilotId g = 0" "getTowpilotId g = 0" using plain_people [OF assms] by blast
  note keep = people_changed_keeps [OF determineFlightPeople_result [OF q(1)]]
  have 1: "checkFlightPhase1 env2 ?f0 departing (askedOf ed []) = (Return (), askedOf ed [])"
    unfolding checkFlightPhase1_def by (rule runChecks_none [OF plain_phase1 [OF assms]])
  have 2: "checkFlightPhase2 env2 ?f1 departing None None (Some winch1) s = (Return (), s)" for s
    by (simp add: checkFlightPhase2_def planeChecks_def towplaneCheck_def planeFlyingChecks_def dlg_bind_def dlg_get_def
        dlg_return_def setPlaneId_def dataChanged_def fields)
  have n: "noneHolds (phase3 env2 e g departing None None None None)" for e
    by (simp add: phase3_def personFlyingCheck_def checkMedical_def setPlaneId_def dataChanged_def keep q fields
        idValid_def idInvalid_def)
  have 3: "checkFlightPhase3 env2 g departing None None None None s = (Return (), s)" for s
    by (simp add: checkFlightPhase3_def dlg_bind_simps runChecks_none [OF n])
  have "determineFlight env2 departing (askedOf ed []) = (Return (if isPrepared g then dataChanged (g\<lparr>getFlarmId := []\<rparr>) else g), s')"
    by (simp add: determineFlight_def dlg_bind_simps Let_def)
      (simp add: dlg_bind_step 1 p 2 q 3 cache1_lookups plain_inputs [OF assms] fields)
  then show ?thesis
    by (simp add: dataChanged_def keep setPlaneId_def fields)
qed


text \<open>The same window with a solo training flight after person 7 had been selected.\<close>

definition solo2 :: editor where
  "solo2 = typed2\<lparr>ui_flightType := (ui_flightType typed2)\<lparr>ch_current := Some typeTraining1\<rparr>, ed_selectedCopilot := 7\<rparr>"

lemma solo2_plain: "plainInputs solo2" "getCurrentFlightType solo2 = typeTraining1"
  using typed2_plain
  by (auto simp: plainInputs_def solo2_def getCurrentFlightType_def getCurrentFlightMode_def getCurrentLaunchMethodId_def)

theorem supervisor_stays_copilot_witness:
  "\<exists>f s'. determineFlight env2 False (askedOf solo2 []) = (Return f, s') \<and> getCopilotId f = 7"
proof -
  obtain f s' where "determineFlight env2 False (askedOf solo2 []) = (Return f, s')"
    using plain_determined [OF solo2_plain(1)] by blast
  moreover from this have "getCopilotId f = 7"
    using supervisor_stays_copilot [of "askedOf solo2 []" env2 False f s'] solo2_plain plain_inputs(20) [OF solo2_plain(1)]
    by (simp add: solo2_def)
  ultimately show ?thesis by blast
qed

theorem glider_towplane_crashes_witness:
  "checkFlightPhase2 env2 (newFlight (ee_mem env1) 0) True None (Some ((pl_new 3)\<lparr>pl_category := categoryGlider\<rparr>)) None (askedOf typed2 [])
     = (Crashed, askedOf typed2 [])"
  by (rule glider_towplane_crashes) (simp_all add: newFlight_def idInvalid_def invalidId_def)

theorem now_button_stores_witness:
  "\<exists>planes. if ed_open (ds_editor (snd (nowButton_clicked env2 (askedOf typed2 []))))
     then ds_stores (snd (nowButton_clicked env2 (askedOf typed2 []))) = map ValuePlane planes
     else \<exists>f. ds_stores (snd (nowButton_clicked env2 (askedOf typed2 []))) = map ValuePlane planes @ [ValueFlight f]"
proof -
  obtain r s' where "nowButton_clicked env2 (askedOf typed2 []) = (r, s')" by fastforce
  from now_button_stores [OF env2_answers(3) _ this] this typed2_inputs show ?thesis
    by (fastforce split: if_splits)
qed


text \<open>Only the last name was typed; the user selects the first person of the list.\<close>

definition named2 :: editor where
  "named2 = typed2\<lparr>ed_cache := objectAdded personKind person1 newCache\<rparr>"

definition env3 :: dialog_env where
  "env3 = env2\<lparr>de_selected := (\<lambda>qs. SelRow 0)\<rparr>"

lemma named2_candidates:
  "candidatesFor (objectAdded personKind person1 newCache) ''MUSTER'' [] = [1]"
  "getObjectsByIds (peopleById (objectAdded personKind person1 newCache)) [1] True = Inr [person1]"
proof -
  have c: "candidatesFor (objectAdded personKind person1 newCache) ''MUSTER'' []
      = getPersonIdsByLastName (objectAdded personKind person1 newCache) ''MUSTER''"
  proof -
    have "\<not> isNone ''MUSTER''" by code_simp
    then show ?thesis by (simp add: candidatesFor_def)
  qed
  have "toLower ''MUSTER'' = toLower ''Muster''" by code_simp
  then show "candidatesFor (objectAdded personKind person1 newCache) ''MUSTER'' [] = [1]"
    unfolding c by (simp add: getPersonIdsByLastName_def objectAdded_def personKind_def updateHashesPersonAdded_def
        Let_def person1_def pe_new_def newCache_def mh_values_def mh_insert_def)
  have "peopleById (objectAdded personKind person1 newCache) = [1 \<mapsto> person1]"
    using mirror_indexes(5) [OF cached_person1] by simp
  then show "getObjectsByIds (peopleById (objectAdded personKind person1 newCache)) [1] True = Inr [person1]"
    by (simp add: getObject_def idInvalid_def)
qed

theorem determined_person_witness: "namesMatch ''MUSTER'' [] person1"
proof -
  have p1: "pe_id person1 = 1" by (simp add: person1_def pe_new_def)
  have n: "simplified ''MUSTER'' \<noteq> ''+1''" "simplified [] \<noteq> ''+1''" "\<not> isNone ''MUSTER''" by code_simp+
  obtain s' where "determinePerson env3 True ''MUSTER'' [] ''pilot'' True ([], []) 0 None (askedOf named2 []) = (Return (1, [], []), s')"
    by (simp add: determinePerson_def determineNamedPerson_def dlg_bind_simps n named2_def named2_candidates Let_def
        del: getObjectsByIds.simps)
      (simp add: selectObject_def env3_def dlg_bind_def p1)
  moreover have "cacheMirrors (ed_cache (ds_editor (askedOf named2 []))) (tables0\<lparr>tb_people := [1 \<mapsto> person1]\<rparr>)"
    using cached_person1 by (simp add: named2_def)
  ultimately show ?thesis
    using determined_person [of "askedOf named2 []" "tables0\<lparr>tb_people := [1 \<mapsto> person1]\<rparr>" 1 env3 True "''MUSTER''" "[]"]
    by (fastforce simp: env3_def env2_def idValid_def idInvalid_def)
qed

end
