(* ===== verification/Sk_FlightProxy.thy ===== *)
theory Sk_FlightProxy
  imports Sk_CacheLookup Sk_FlarmLookup
begin

text \<open>
  The lists behind the flight table: \<^verbatim>\<open>src/src/model/objectList/AutomaticEntityList.h\<close>, which follows the
  events of the cache, and \<^verbatim>\<open>src/src/model/flightList/FlightProxyList.cpp\<close>, which puts the towflights
  behind the flights of its source and translates the row signals of the source. A view of a list is an
  observer that replays the row signals (\<open>Sk_Containers\<close>).
\<close>

section \<open>AutomaticEntityList\<close>

text \<open>\<open>tab\<close> and \<open>val\<close> are \<open>DbEvent::hasTable<T>\<close> and \<open>getValue<T>\<close>.\<close>

definition al_dbEvent :: "('a \<Rightarrow> dbId) \<Rightarrow> db_table \<Rightarrow> (db_value \<Rightarrow> 'a option) \<Rightarrow> db_event \<Rightarrow> 'a objectList \<Rightarrow> 'a objectList" where
  "al_dbEvent gid tab val e l =
     (if ev_table e \<noteq> tab then l
      else (case ev_type e of
          typeAdd \<Rightarrow> (case val (ev_value e) of Some x \<Rightarrow> ol_append x l | None \<Rightarrow> l)
        | typeDelete \<Rightarrow> (let i = findById gid (ev_id e) l in if i \<ge> 0 then ol_removeAt (nat i) l else l)
        | typeChange \<Rightarrow> (case val (ev_value e) of
            Some x \<Rightarrow> (let i = findById gid (ev_id e) l in if i \<ge> 0 then ol_replace (nat i) x l else ol_append x l)
          | None \<Rightarrow> l)))"

subsection \<open>The list follows the table\<close>

text \<open>The row with an id, when the ids are distinct.\<close>

lemma found_index:
  assumes "findById gid i l \<ge> 0" "distinct (map gid (rows l))"
  shows "nat (findById gid i l) < length (rows l)" "gid (rows l ! nat (findById gid i l)) = i"
proof -
  have "findById gid i l = int (nat (findById gid i l))" using assms(1) by simp
  from findFrom_sound [OF this [unfolded findById_def]]
  show "nat (findById gid i l) < length (rows l)" "gid (rows l ! nat (findById gid i l)) = i"
    by (simp_all add: findById_def)
qed

lemma replaced_rows:
  assumes "findById gid i l \<ge> 0" "distinct (map gid (rows l))" "gid x = i"
  shows "(rows l)[nat (findById gid i l) := x] = map (\<lambda>y. if gid y = i then x else y) (rows l)"
proof (rule nth_equalityI)
  fix k assume k: "k < length ((rows l)[nat (findById gid i l) := x])"
  note f = found_index [OF assms(1,2)]
  show "(rows l)[nat (findById gid i l) := x] ! k = map (\<lambda>y. if gid y = i then x else y) (rows l) ! k"
    using k f assms(2) by (cases "k = nat (findById gid i l)") (auto simp: distinct_conv_nth)
qed simp

lemma removed_rows:
  assumes "findById gid i l \<ge> 0" "distinct (map gid (rows l))"
  shows "take (nat (findById gid i l)) (rows l) @ drop (Suc (nat (findById gid i l))) (rows l)
     = filter (\<lambda>y. gid y \<noteq> i) (rows l)"
proof -
  note f = found_index [OF assms]
  let ?n = "nat (findById gid i l)"
  have split: "rows l = take ?n (rows l) @ rows l ! ?n # drop (Suc ?n) (rows l)"
    using f(1) by (rule id_take_nth_drop)
  have "distinct (map gid (take ?n (rows l) @ rows l ! ?n # drop (Suc ?n) (rows l)))"
    using assms(2) split by simp
  then have "\<forall>y \<in> set (take ?n (rows l) @ drop (Suc ?n) (rows l)). gid y \<noteq> i"
    using f(2) by (auto simp: image_iff)
  then have "filter (\<lambda>y. gid y \<noteq> i) (take ?n (rows l) @ rows l ! ?n # drop (Suc ?n) (rows l))
      = take ?n (rows l) @ drop (Suc ?n) (rows l)"
    using f(2) by (simp add: filter_id_conv)
  then show ?thesis using split by simp
qed

text \<open>What a class of objects promises: an event for its table is legal for the rows of the class and carries an
  object with the id of the event, and it changes that row and no row of another class.\<close>

locale listed_class =
  fixes gid :: "'a \<Rightarrow> dbId" and tab :: db_table and val :: "db_value \<Rightarrow> 'a option"
    and table :: "tables \<Rightarrow> dbId \<rightharpoonup> 'a"
  assumes legal: "legal_event e d \<Longrightarrow> ev_table e = tab \<Longrightarrow> row_legal (ev_type e) (ev_id e) (table d)
      \<and> (ev_type e \<noteq> typeDelete \<longrightarrow> (\<exists>x. val (ev_value e) = Some x \<and> gid x = ev_id e))"
    and applied: "table (apply_event e d) = (if ev_table e = tab
      then row_event (ev_type e) (ev_id e) (val (ev_value e)) (table d) else table d)"
begin

definition follows :: "'a list \<Rightarrow> tables \<Rightarrow> 'a objectList \<Rightarrow> bool" where
  "follows v d l \<longleftrightarrow> table_ok gid (table d) \<and> holds gid (\<lambda>_. True) (rows l) (table d) \<and> in_sync v l"

lemma event_follows:
  assumes "follows v d l" "legal_event e d"
  shows "follows v (apply_event e d) (al_dbEvent gid tab val e l)"
proof (cases "ev_table e = tab")
  case False
  then show ?thesis using assms(1) by (simp add: follows_def al_dbEvent_def applied)
next
  case True
  let ?db = "table d"
  have f: "table_ok gid ?db" "holds gid (\<lambda>_. True) (rows l) ?db" "in_sync v l" "distinct (map gid (rows l))"
    using assms(1) by (simp_all add: follows_def holds_def)
  note leg = legal [OF assms(2) True]
  show ?thesis
  proof (cases "ev_type e")
    case typeAdd
    then obtain x where x: "val (ev_value e) = Some x" "gid x = ev_id e" using leg by auto
    then have "gid x \<noteq> 0" "?db (gid x) = None" using leg typeAdd by (auto simp: row_legal_def)
    then show ?thesis
      using typeAdd True x f holds_add [OF f(2,1), of x] table_ok_upd(1) [OF f(1), of x] sync_append [OF f(3)]
      by (simp add: follows_def al_dbEvent_def applied row_event_def)
  next
    case typeDelete
    let ?l = "al_dbEvent gid tab val e l"
    have l: "?l = (if findById gid (ev_id e) l \<ge> 0 then ol_removeAt (nat (findById gid (ev_id e) l)) l else l)"
      using typeDelete True by (simp add: al_dbEvent_def Let_def)
    have "rows ?l = filter (\<lambda>y. gid y \<noteq> ev_id e) (rows l)"
    proof (cases "findById gid (ev_id e) l \<ge> 0")
      case pos: True
      then show ?thesis using removed_rows [OF pos f(4)] by (simp add: l)
    next
      case neg: False
      then have "filter (\<lambda>y. gid y \<noteq> ev_id e) (rows l) = rows l"
        unfolding findById_nonneg filter_id_conv by (metis imageI)
      with neg show ?thesis by (simp add: l)
    qed
    moreover have "in_sync v ?l" using f(3) sync_removeAt [OF f(3)] by (simp add: l)
    ultimately show ?thesis
      using typeDelete True holds_remove [OF f(2,1), of "ev_id e"] table_ok_upd(2) [OF f(1), of "ev_id e"]
      by (simp add: follows_def applied row_event_def)
  next
    case typeChange
    then obtain x where x: "val (ev_value e) = Some x" "gid x = ev_id e" using leg by auto
    have "?db (ev_id e) \<noteq> None" using leg typeChange by (simp add: row_legal_def)
    then obtain y where y: "?db (ev_id e) = Some y" by blast
    then have "gid y = ev_id e" "ev_id e \<noteq> 0" "y \<in> set (rows l)"
      using f(1,2) by (auto simp: table_ok_def holds_def ran_def)
    then have i: "findById gid (ev_id e) l \<ge> 0" "ev_id e \<noteq> 0" unfolding findById_nonneg by (metis imageI)+
    have "el_replaceOrAdd gid (gid x) x (rows l) = map (\<lambda>y. if gid y = ev_id e then x else y) (rows l)"
      using x i(1) by (simp add: findById_nonneg)
    then have "holds gid (\<lambda>_. True) ((rows l)[nat (findById gid (ev_id e) l) := x]) (?db(ev_id e \<mapsto> x))"
      using holds_update_in [OF f(2,1), of x] replaced_rows [OF i(1) f(4) x(2)] x(2) by simp
    then show ?thesis
      using typeChange True x f(1,3) i table_ok_upd(1) [OF f(1), of x]
        sync_replace [OF f(3) found_index(1) [OF i(1) f(4)], of x]
      by (simp add: follows_def al_dbEvent_def applied row_event_def Let_def)
  qed
qed

lemma start_follows:
  "table_ok gid (table d) \<Longrightarrow> holds gid (\<lambda>_. True) xs (table d) \<Longrightarrow> follows xs d (mkList xs)"
  by (simp add: follows_def in_sync_def replay_def)

end

interpretation planeList: listed_class pl_id tablePlanes valuePlane tb_planes
  by unfold_locales (auto simp: legal_event_def apply_event_def dest: made_event_val split: db_table.split)

interpretation personList: listed_class pe_id tablePeople valuePerson tb_people
  by unfold_locales (auto simp: legal_event_def apply_event_def dest: made_event_val split: db_table.split)

interpretation launchMethodList: listed_class lm_id tableLaunchMethods valueLaunchMethod tb_launchMethods
  by unfold_locales (auto simp: legal_event_def apply_event_def dest: made_event_val split: db_table.split)

fun events_legal :: "db_event list \<Rightarrow> tables \<Rightarrow> bool" where
  "events_legal [] d = True"
| "events_legal (e # es) d = (legal_event e d \<and> events_legal es (apply_event e d))"

lemma runs_follow:
  assumes "\<And>e d l. P d l \<Longrightarrow> legal_event e d \<Longrightarrow> P (apply_event e d) (h e l)"
  shows "P d l \<Longrightarrow> events_legal es d \<Longrightarrow> P (fold apply_event es d) (fold h es l)"
  using assms by (induction es arbitrary: d l) auto

text \<open>C20: an automatic list of planes, people or launch methods that starts with the rows of its table keeps them:
  after every sequence of legal events of the cache it holds exactly the rows of the table, each once, and
  a view that only replays its row signals shows them.\<close>

theorem automatic_lists_follow:
  assumes "table_ok pl_id (tb_planes d)" "holds pl_id (\<lambda>_. True) xs (tb_planes d)"
    "table_ok pe_id (tb_people d)" "holds pe_id (\<lambda>_. True) ys (tb_people d)"
    "table_ok lm_id (tb_launchMethods d)" "holds lm_id (\<lambda>_. True) zs (tb_launchMethods d)"
    "events_legal es d"
  shows "let d' = fold apply_event es d;
        ps = fold (al_dbEvent pl_id tablePlanes valuePlane) es (mkList xs);
        qs = fold (al_dbEvent pe_id tablePeople valuePerson) es (mkList ys);
        ms = fold (al_dbEvent lm_id tableLaunchMethods valueLaunchMethod) es (mkList zs) in
      holds pl_id (\<lambda>_. True) (rows ps) (tb_planes d') \<and> replay xs (trace ps) = rows ps
      \<and> holds pe_id (\<lambda>_. True) (rows qs) (tb_people d') \<and> replay ys (trace qs) = rows qs
      \<and> holds lm_id (\<lambda>_. True) (rows ms) (tb_launchMethods d') \<and> replay zs (trace ms) = rows ms"
  using runs_follow [of "planeList.follows xs", OF planeList.event_follows planeList.start_follows [OF assms(1,2)] assms(7)]
    runs_follow [of "personList.follows ys", OF personList.event_follows personList.start_follows [OF assms(3,4)] assms(7)]
    runs_follow [of "launchMethodList.follows zs", OF launchMethodList.event_follows launchMethodList.start_follows [OF assms(5,6)] assms(7)]
  by (simp add: planeList.follows_def personList.follows_def launchMethodList.follows_def in_sync_def Let_def)

definition listEvents :: "db_event list" where
  "listEvents = [ev_added (ValuePlane (pl_new 3)), ev_added (ValuePlane (pl_new 4)), ev_deleted tablePlanes 3]"

lemma listEvents_facts:
  "events_legal listEvents tables0" "tb_planes (fold apply_event listEvents tables0) = [4 \<mapsto> pl_new 4]"
  by (simp_all add: listEvents_def legal_event_def made_event_def row_legal_def ev_added_def ev_deleted_def apply_event_def
      row_event_def tables0_def pl_new_def)

lemma empty_table: "table_ok gid Map.empty" "holds gid (\<lambda>_. True) [] Map.empty"
  by (simp_all add: table_ok_def holds_def)

theorem automatic_lists_follow_witness:
  "holds pl_id (\<lambda>_. True) (rows (fold (al_dbEvent pl_id tablePlanes valuePlane) listEvents (mkList []))) [4 \<mapsto> pl_new 4]
    \<and> replay [] (trace (fold (al_dbEvent pl_id tablePlanes valuePlane) listEvents (mkList [])))
      = rows (fold (al_dbEvent pl_id tablePlanes valuePlane) listEvents (mkList []))"
proof -
  have empty: "tb_planes tables0 = Map.empty" "tb_people tables0 = Map.empty" "tb_launchMethods tables0 = Map.empty"
    by (simp_all add: tables0_def)
  with automatic_lists_follow [of tables0 "[]" "[]" "[]" listEvents] listEvents_facts
  show ?thesis by (simp add: Let_def empty_table)
qed

section \<open>FlightProxyList\<close>

text \<open>\<open>px_changes\<close> is the stack of the changes that were begun and not ended yet, as QAbstractItemModel keeps
  it; the trace pairs each emitted signal with the rows at that moment.\<close>

record flightProxy =
  px_source :: "flight list option"
  px_towflights :: "flight list"
  px_changes :: "(nat \<times> nat) list"
  px_trace :: "(row_signal \<times> flight list) list"

definition px_new :: flightProxy where
  "px_new = \<lparr>px_source = None, px_towflights = [], px_changes = [], px_trace = []\<rparr>"

definition px_getList :: "flightProxy \<Rightarrow> flight list" where
  "px_getList p = (case px_source p of None \<Rightarrow> [] | Some xs \<Rightarrow> xs @ px_towflights p)"

definition px_size :: "flightProxy \<Rightarrow> nat" where
  "px_size p = (case px_source p of None \<Rightarrow> 0 | Some xs \<Rightarrow> length xs + length (px_towflights p))"

definition px_emit :: "row_signal \<Rightarrow> flightProxy \<Rightarrow> flightProxy" where
  "px_emit s p = p\<lparr>px_trace := px_trace p @ [(s, px_getList p)]\<rparr>"

definition px_begin :: "nat \<Rightarrow> nat \<Rightarrow> flightProxy \<Rightarrow> flightProxy" where
  "px_begin a b p = p\<lparr>px_changes := (a, b) # px_changes p\<rparr>"

definition px_end :: "(nat \<Rightarrow> nat \<Rightarrow> row_signal) \<Rightarrow> flightProxy \<Rightarrow> flightProxy" where
  "px_end s p = (case px_changes p of (a, b) # cs \<Rightarrow> px_emit (s a b) (p\<lparr>px_changes := cs\<rparr>) | [] \<Rightarrow> p)"

text \<open>\<open>isAirtow\<close> with its output parameter: the launch method of an airtow.\<close>

definition airtowMethod :: "cache \<Rightarrow> flight \<Rightarrow> launchMethod option" where
  "airtowMethod c f =
     (if \<not> idValid (getLaunchMethodId f) then None
      else (case getObject (launchMethodsById c) (getLaunchMethodId f) of
          Inr l \<Rightarrow> if lm_isAirtow l then Some l else None
        | Inl _ \<Rightarrow> None))"

definition towplaneOf :: "cache \<Rightarrow> flight \<Rightarrow> launchMethod \<Rightarrow> dbId" where
  "towplaneOf c f l =
     (if lm_towplaneKnown l then getPlaneIdByRegistration c (lm_towplaneRegistration l) else getTowplaneId f)"

definition addTowflightFor :: "flight \<Rightarrow> cache \<Rightarrow> flight \<Rightarrow> launchMethod \<Rightarrow> flightProxy \<Rightarrow> flightProxy" where
  "addTowflightFor mem c f l p =
     p\<lparr>px_towflights := px_towflights p @ [makeTowflight mem (towplaneOf c f l) invalidId f]\<rparr>"

text \<open>The flight is read from the cache, and the launch method of the towflight is the self launch.\<close>

definition updateTowflight :: "flight \<Rightarrow> cache \<Rightarrow> dbId \<Rightarrow> nat \<Rightarrow> flightProxy \<Rightarrow> flightProxy" where
  "updateTowflight mem c i n p =
     (case getObject (flightsById c) i of
        Inl _ \<Rightarrow> p
      | Inr f \<Rightarrow> (case airtowMethod c f of
            None \<Rightarrow> p
          | Some l \<Rightarrow> p\<lparr>px_towflights :=
              (px_towflights p)[n := makeTowflight mem (towplaneOf c f l) (getLaunchMethodByType c typeSelf) f]\<rparr>))"

definition px_findFlight :: "dbId \<Rightarrow> flightProxy \<Rightarrow> int" where
  "px_findFlight i p = (case px_source p of None \<Rightarrow> -1 | Some xs \<Rightarrow> findFrom getId i 0 (mkList xs))"

definition px_findTowflight :: "dbId \<Rightarrow> flightProxy \<Rightarrow> int" where
  "px_findTowflight i p = findFrom getId i 0 (mkList (px_towflights p))"

definition modelIndexIsFlight :: "int \<Rightarrow> flightProxy \<Rightarrow> bool" where
  "modelIndexIsFlight n p = (case px_source p of None \<Rightarrow> False | Some xs \<Rightarrow> n < int (length xs))"

definition towflightIndexToModelIndex :: "int \<Rightarrow> flightProxy \<Rightarrow> int" where
  "towflightIndexToModelIndex n p =
     (case px_source p of None \<Rightarrow> -1 | Some xs \<Rightarrow> if n < 0 then -1 else n + int (length xs))"

definition modelIndexToTowflightIndex :: "int \<Rightarrow> flightProxy \<Rightarrow> int" where
  "modelIndexToTowflightIndex n p =
     (case px_source p of None \<Rightarrow> -1 | Some xs \<Rightarrow> if n < 0 then -1 else n - int (length xs))"

definition modelIndexIsTowflight :: "int \<Rightarrow> flightProxy \<Rightarrow> bool" where
  "modelIndexIsTowflight n p =
     (let t = modelIndexToTowflightIndex n p in t \<ge> 0 \<and> t < int (length (px_towflights p)))"

text \<open>Only for an index in the list; the code asserts that there is a source.\<close>

definition px_at :: "nat \<Rightarrow> flightProxy \<Rightarrow> flight" where
  "px_at n p = (case px_source p of
       Some xs \<Rightarrow> if n < length xs then xs ! n
         else px_towflights p ! nat (modelIndexToTowflightIndex (int n) p)
     | None \<Rightarrow> px_towflights p ! n)"

definition findTowref :: "nat \<Rightarrow> flightProxy \<Rightarrow> int" where
  "findTowref n p =
     (let i = getId (px_at n p) in
      if modelIndexIsFlight (int n) p
      then (let t = px_findTowflight i p in if t \<ge> 0 then towflightIndexToModelIndex t p else -1)
      else if modelIndexIsTowflight (int n) p
      then (let t = px_findFlight i p in if t \<ge> 0 then t else -1)
      else -1)"

definition findModelIndex :: "flightReference \<Rightarrow> flightProxy \<Rightarrow> int" where
  "findModelIndex r p =
     (if \<not> rf_isValid r then -1
      else if rf_towflight r then towflightIndexToModelIndex (px_findTowflight (rf_id r) p) p
      else px_findFlight (rf_id r) p)"

definition getFlightReference :: "int \<Rightarrow> flightProxy \<Rightarrow> flightReference" where
  "getFlightReference n p = (if n < 0 then rf_invalid else rf_of (px_at (nat n) p))"

subsection \<open>The slots for the signals of the source\<close>

definition insertTowflight :: "flight \<Rightarrow> cache \<Rightarrow> flight \<Rightarrow> launchMethod \<Rightarrow> flightProxy \<Rightarrow> flightProxy" where
  "insertTowflight mem c f l p =
     (let n = nat (towflightIndexToModelIndex (int (length (px_towflights p))) p)
      in px_end rowsInserted (addTowflightFor mem c f l (px_begin n n p)))"

definition removeTowflight :: "nat \<Rightarrow> flightProxy \<Rightarrow> flightProxy" where
  "removeTowflight t p =
     (let n = nat (towflightIndexToModelIndex (int t) p); p1 = px_begin n n p
      in px_end rowsRemoved (p1\<lparr>px_towflights := take t (px_towflights p1) @ drop (Suc t) (px_towflights p1)\<rparr>))"

definition changedFlightRow :: "flight \<Rightarrow> cache \<Rightarrow> flight \<Rightarrow> flightProxy \<Rightarrow> flightProxy" where
  "changedFlightRow mem c f p =
     (let t = px_findTowflight (getId f) p in
      case airtowMethod c f of
        Some l \<Rightarrow>
          if t \<ge> 0
          then (let p1 = updateTowflight mem c (getId f) (nat t) p; n = nat (towflightIndexToModelIndex t p1)
                in px_emit (rowsChanged n n) p1)
          else insertTowflight mem c f l p
      | None \<Rightarrow> if t \<ge> 0 then removeTowflight (nat t) p else p)"

definition sourceModel_dataChanged :: "flight \<Rightarrow> cache \<Rightarrow> nat \<Rightarrow> nat \<Rightarrow> flightProxy \<Rightarrow> flightProxy" where
  "sourceModel_dataChanged mem c first final p =
     (case px_source p of
        None \<Rightarrow> p
      | Some xs \<Rightarrow> fold (\<lambda>i. changedFlightRow mem c (xs ! i)) [first..<Suc final] (px_emit (rowsChanged first final) p))"

definition sourceModel_modelAboutToBeReset :: "flightProxy \<Rightarrow> flightProxy" where
  "sourceModel_modelAboutToBeReset p = p\<lparr>px_towflights := []\<rparr>"

definition sourceModel_modelReset :: "flight \<Rightarrow> cache \<Rightarrow> flightProxy \<Rightarrow> flightProxy" where
  "sourceModel_modelReset mem c p =
     px_emit modelReset (case px_source p of
        None \<Rightarrow> p
      | Some xs \<Rightarrow> fold (\<lambda>f q. case airtowMethod c f of Some l \<Rightarrow> addTowflightFor mem c f l q | None \<Rightarrow> q) xs p)"

definition sourceModel_rowsAboutToBeInserted :: "nat \<Rightarrow> nat \<Rightarrow> flightProxy \<Rightarrow> flightProxy" where
  "sourceModel_rowsAboutToBeInserted start end' p = px_begin start end' p"

definition sourceModel_rowsAboutToBeRemoved :: "nat \<Rightarrow> nat \<Rightarrow> flightProxy \<Rightarrow> flightProxy" where
  "sourceModel_rowsAboutToBeRemoved start end' p =
     (case px_source p of
        None \<Rightarrow> p
      | Some xs \<Rightarrow> px_begin start end' (fold (\<lambda>i q. let t = px_findTowflight (getId (xs ! i)) q in
            if t \<ge> 0 then removeTowflight (nat t) q else q) [start..<Suc end'] p))"

definition sourceModel_rowsInserted :: "flight \<Rightarrow> cache \<Rightarrow> nat \<Rightarrow> nat \<Rightarrow> flightProxy \<Rightarrow> flightProxy" where
  "sourceModel_rowsInserted mem c start end' p =
     (case px_source p of
        None \<Rightarrow> p
      | Some xs \<Rightarrow> fold (\<lambda>i q. case airtowMethod c (xs ! i) of Some l \<Rightarrow> insertTowflight mem c (xs ! i) l q | None \<Rightarrow> q)
          [start..<Suc end'] (px_end rowsInserted p))"

definition sourceModel_rowsRemoved :: "nat \<Rightarrow> nat \<Rightarrow> flightProxy \<Rightarrow> flightProxy" where
  "sourceModel_rowsRemoved start end' p = px_end rowsRemoved p"

definition sourceModel_destroyed :: "flightProxy \<Rightarrow> flightProxy" where
  "sourceModel_destroyed p = p\<lparr>px_source := None\<rparr>"

text \<open>For a source that is not the current one.\<close>

definition px_setSourceModel :: "flight \<Rightarrow> cache \<Rightarrow> flight list option \<Rightarrow> flightProxy \<Rightarrow> flightProxy" where
  "px_setSourceModel mem c xs p =
     sourceModel_modelReset mem c (sourceModel_modelAboutToBeReset (p\<lparr>px_source := xs\<rparr>))"

subsection \<open>Changes of the source\<close>

text \<open>The operations of \<open>MutableObjectList\<close> with the signals before and after the change.\<close>

datatype source_change =
    SourceInsert nat flight | SourceRemove nat | SourceReplace nat flight | SourceUpdate nat | SourceReset "flight list"

fun changeSource :: "source_change \<Rightarrow> flight objectList \<Rightarrow> flight objectList" where
  "changeSource (SourceInsert i x) l = ol_insert i x l"
| "changeSource (SourceRemove i) l = ol_removeAt i l"
| "changeSource (SourceReplace i x) l = ol_replace i x l"
| "changeSource (SourceUpdate i) l = ol_update i l"
| "changeSource (SourceReset xs) l = ol_replaceList xs l"

fun change_ok :: "source_change \<Rightarrow> flight list \<Rightarrow> bool" where
  "change_ok (SourceInsert i x) xs = (i \<le> length xs)"
| "change_ok (SourceRemove i) xs = (i < length xs)"
| "change_ok (SourceReplace i x) xs = (i < length xs)"
| "change_ok (SourceUpdate i) xs = (i < length xs)"
| "change_ok (SourceReset ys) xs = True"

definition px_step :: "flight \<Rightarrow> cache \<Rightarrow> source_change \<Rightarrow> flightProxy \<Rightarrow> flightProxy" where
  "px_step mem c ch p = (case px_source p of
     None \<Rightarrow> p
   | Some xs \<Rightarrow>
       (let change = (\<lambda>q. q\<lparr>px_source := Some (rows (changeSource ch (mkList xs)))\<rparr>) in
        case ch of
          SourceInsert i x \<Rightarrow> sourceModel_rowsInserted mem c i i (change (sourceModel_rowsAboutToBeInserted i i p))
        | SourceRemove i \<Rightarrow> sourceModel_rowsRemoved i i (change (sourceModel_rowsAboutToBeRemoved i i p))
        | SourceReplace i x \<Rightarrow> sourceModel_dataChanged mem c i i (change p)
        | SourceUpdate i \<Rightarrow> sourceModel_dataChanged mem c i i (change p)
        | SourceReset ys \<Rightarrow> sourceModel_modelReset mem c (change (sourceModel_modelAboutToBeReset p))))"


section \<open>Views of the proxy\<close>

definition px_sync :: "flight list \<Rightarrow> flightProxy \<Rightarrow> bool" where
  "px_sync v p \<longleftrightarrow> replay v (px_trace p) = px_getList p"

text \<open>What a slot keeps: the view in sync, the source and the stack of changes.\<close>

definition px_keeps :: "flight list \<Rightarrow> flight list \<Rightarrow> (nat \<times> nat) list \<Rightarrow> flightProxy \<Rightarrow> bool" where
  "px_keeps v xs cs p \<longleftrightarrow> px_sync v p \<and> px_source p = Some xs \<and> px_changes p = cs"

lemma px_emit_simps [simp]:
  "px_source (px_emit s p) = px_source p" "px_towflights (px_emit s p) = px_towflights p"
  "px_changes (px_emit s p) = px_changes p" "px_getList (px_emit s p) = px_getList p"
  "px_trace (px_emit s p) = px_trace p @ [(s, px_getList p)]"
  by (simp_all add: px_emit_def px_getList_def split: option.split)

lemma px_findTowflight_sound:
  "px_findTowflight i p \<ge> 0 \<Longrightarrow> nat (px_findTowflight i p) < length (px_towflights p)
     \<and> getId (px_towflights p ! nat (px_findTowflight i p)) = i"
proof -
  assume "px_findTowflight i p \<ge> 0"
  then have "findFrom getId i 0 (mkList (px_towflights p)) = int (nat (px_findTowflight i p))"
    by (simp add: px_findTowflight_def)
  from findFrom_sound [OF this] show ?thesis by simp
qed

lemma px_findTowflight_iff: "px_findTowflight i p \<ge> 0 \<longleftrightarrow> i \<in> getId ` set (px_towflights p)"
  using findFrom_nonneg [of getId i 0 "mkList (px_towflights p)"] by (auto simp: px_findTowflight_def)

lemma insertTowflight_keeps:
  assumes "px_keeps v xs cs p"
  shows "px_keeps v xs cs (insertTowflight mem c f l p)"
    "px_towflights (insertTowflight mem c f l p) = px_towflights p @ [makeTowflight mem (towplaneOf c f l) invalidId f]"
  using assms
  by (simp_all add: px_keeps_def px_sync_def insertTowflight_def px_begin_def px_end_def Let_def addTowflightFor_def
      towflightIndexToModelIndex_def replay_def px_getList_def nat_int_add)

lemma removeTowflight_keeps:
  assumes "px_keeps v xs cs p" "t < length (px_towflights p)"
  shows "px_keeps v xs cs (removeTowflight t p)"
    "px_towflights (removeTowflight t p) = take t (px_towflights p) @ drop (Suc t) (px_towflights p)"
proof -
  have n: "nat (int t + int (length xs)) = length xs + t" by (simp add: nat_int_add)
  have "take (length xs + t) (xs @ px_towflights p) @ drop (Suc (length xs + t)) (xs @ px_towflights p)
      = xs @ take t (px_towflights p) @ drop (Suc t) (px_towflights p)"
    by simp
  then show "px_keeps v xs cs (removeTowflight t p)"
    "px_towflights (removeTowflight t p) = take t (px_towflights p) @ drop (Suc t) (px_towflights p)"
    using assms
    by (simp_all add: px_keeps_def px_sync_def removeTowflight_def px_begin_def px_end_def Let_def
        towflightIndexToModelIndex_def replay_def px_getList_def n)
qed

lemma replaced_keeps:
  assumes "px_keeps v xs cs p" "t < length (px_towflights p)" "n = length xs + t"
  shows "px_keeps v xs cs (px_emit (rowsChanged n n) (p\<lparr>px_towflights := (px_towflights p)[t := x]\<rparr>))"
proof -
  have "take n (xs @ px_towflights p) @ take (Suc n - n) (drop n (xs @ (px_towflights p)[t := x])) @ drop (Suc n) (xs @ px_towflights p)
      = xs @ (px_towflights p)[t := x]"
    using assms(2,3) by (simp add: upd_conv_take_nth_drop min_def)
  then show ?thesis
    using assms(1) by (simp add: px_keeps_def px_sync_def replay_def px_getList_def)
qed

lemma changedFlightRow_keeps:
  assumes "px_keeps v xs cs p"
  shows "px_keeps v xs cs (changedFlightRow mem c f p)"
proof (cases "px_findTowflight (getId f) p \<ge> 0")
  case False
  then show ?thesis
    using assms insertTowflight_keeps(1) [OF assms] by (simp add: changedFlightRow_def Let_def split: option.split)
next
  case True
  note t = px_findTowflight_sound [OF True]
  let ?t = "nat (px_findTowflight (getId f) p)"
  have n: "nat (towflightIndexToModelIndex (px_findTowflight (getId f) p) q) = length xs + ?t" if "px_source q = Some xs" for q
    using True that by (simp add: towflightIndexToModelIndex_def nat_add_distrib)
  have same: "p = p\<lparr>px_towflights := (px_towflights p)[?t := px_towflights p ! ?t]\<rparr>" by simp
  have "\<exists>x. updateTowflight mem c i ?t p = p\<lparr>px_towflights := (px_towflights p)[?t := x]\<rparr>" for i
  proof -
    have "\<exists>x. p = p\<lparr>px_towflights := (px_towflights p)[?t := x]\<rparr>" by (rule exI, rule same)
    then show ?thesis unfolding updateTowflight_def by (auto split: sum.split option.split)
  qed
  then obtain x where u: "updateTowflight mem c (getId f) ?t p = p\<lparr>px_towflights := (px_towflights p)[?t := x]\<rparr>" by blast
  have "px_keeps v xs cs (px_emit (rowsChanged (length xs + ?t) (length xs + ?t)) (p\<lparr>px_towflights := (px_towflights p)[?t := x]\<rparr>))"
    using assms t by (intro replaced_keeps) simp_all
  then show ?thesis
    using True assms t removeTowflight_keeps(1) [OF assms]
    by (simp add: changedFlightRow_def Let_def u n px_keeps_def split: option.split)
qed

lemma fold_keeps:
  "(\<And>i q. px_keeps v xs cs q \<Longrightarrow> px_keeps v xs cs (g i q)) \<Longrightarrow> px_keeps v xs cs p \<Longrightarrow> px_keeps v xs cs (fold g is p)"
  by (induction "is" arbitrary: p) auto


lemma take_one_drop: "take i zs @ take (Suc i - i) (drop i zs) @ drop (Suc i) zs = zs"
proof -
  have "take 1 (drop i zs) @ drop (Suc i) zs = drop i zs"
    using append_take_drop_id [of 1 "drop i zs"] by simp
  then show ?thesis by simp
qed

lemma px_step_keeps:
  assumes "px_keeps v xs [] p" "change_ok ch xs"
  shows "px_keeps v (rows (changeSource ch (mkList xs))) [] (px_step mem c ch p)"
proof -
  have src: "px_source p = Some xs" "px_changes p = []" "replay v (px_trace p) = xs @ px_towflights p"
    using assms(1) by (simp_all add: px_keeps_def px_sync_def px_getList_def)
  define ys where "ys = rows (changeSource ch (mkList xs))"
  show ?thesis
  proof (cases ch)
    case (SourceInsert i x)
    have "take i (xs @ px_towflights p) @ take (Suc i - i) (drop i (ys @ px_towflights p)) @ drop i (xs @ px_towflights p)
        = ys @ px_towflights p"
      using assms(2) by (simp add: SourceInsert ys_def)
    then have "px_keeps v ys [] (px_end rowsInserted ((px_begin i i p)\<lparr>px_source := Some ys\<rparr>))"
      using src by (simp add: px_keeps_def px_sync_def px_end_def px_begin_def px_getList_def replay_def)
    then show ?thesis
      unfolding SourceInsert px_step_def src option.case source_change.case Let_def ys_def [unfolded SourceInsert, symmetric]
        sourceModel_rowsInserted_def sourceModel_rowsAboutToBeInserted_def
      by (simp del: upt_Suc) (rule fold_keeps, auto split: option.split intro: insertTowflight_keeps)
  next
    case (SourceRemove i)
    define q where "q = fold (\<lambda>i q. let t = px_findTowflight (getId (xs ! i)) q in
            if t \<ge> 0 then removeTowflight (nat t) q else q) [i..<Suc i] p"
    note q_def = q_def [unfolded Let_def]
    have q: "px_keeps v xs [] q"
      unfolding q_def
      by (rule fold_keeps [OF _ assms(1)]) (auto simp: Let_def intro!: removeTowflight_keeps dest: px_findTowflight_sound)
    have "take i (xs @ px_towflights q) @ drop (Suc i) (xs @ px_towflights q) = ys @ px_towflights q"
      using assms(2) by (simp add: SourceRemove ys_def)
    then have "px_keeps v ys [] (px_end rowsRemoved ((px_begin i i q)\<lparr>px_source := Some ys\<rparr>))"
      using q by (simp add: px_keeps_def px_sync_def px_end_def px_begin_def px_getList_def replay_def)
    then show ?thesis
      unfolding SourceRemove px_step_def src option.case source_change.case ys_def [unfolded SourceRemove, symmetric]
        sourceModel_rowsRemoved_def sourceModel_rowsAboutToBeRemoved_def q_def [symmetric] Let_def
      by simp
  next
    case (SourceReplace i x)
    have "take i (xs @ px_towflights p) @ take (Suc i - i) (drop i (ys @ px_towflights p)) @ drop (Suc i) (xs @ px_towflights p)
        = ys @ px_towflights p"
      using assms(2) by (simp add: SourceReplace ys_def upd_conv_take_nth_drop min_def)
    then have "px_keeps v ys [] (px_emit (rowsChanged i i) (p\<lparr>px_source := Some ys\<rparr>))"
      using src by (simp add: px_keeps_def px_sync_def px_getList_def replay_def)
    then show ?thesis
      unfolding SourceReplace px_step_def src option.case source_change.case Let_def ys_def [unfolded SourceReplace, symmetric]
        sourceModel_dataChanged_def
      by (simp del: upt_Suc) (rule fold_keeps, auto intro: changedFlightRow_keeps)
  next
    case (SourceUpdate i)
    have "take i (xs @ px_towflights p) @ take (Suc i - i) (drop i (xs @ px_towflights p)) @ drop (Suc i) (xs @ px_towflights p)
        = xs @ px_towflights p"
      by (rule take_one_drop)
    then have "px_keeps v xs [] (px_emit (rowsChanged i i) (p\<lparr>px_source := Some xs\<rparr>))"
      using src by (simp add: px_keeps_def px_sync_def px_getList_def replay_def)
    then show ?thesis
      by (simp add: SourceUpdate px_step_def src Let_def sourceModel_dataChanged_def del: upt_Suc)
        (rule fold_keeps, auto intro: changedFlightRow_keeps)
  next
    case (SourceReset zs)
    have "px_keeps v zs [] (px_emit modelReset q)" if "px_source q = Some zs" "px_changes q = []" for q
      using that by (simp add: px_keeps_def px_sync_def replay_def)
    moreover have "px_source (fold (\<lambda>f q. case airtowMethod c f of Some l \<Rightarrow> addTowflightFor mem c f l q | None \<Rightarrow> q) fs q) = px_source q"
      "px_changes (fold (\<lambda>f q. case airtowMethod c f of Some l \<Rightarrow> addTowflightFor mem c f l q | None \<Rightarrow> q) fs q) = px_changes q" for fs q
      by (induction fs arbitrary: q) (auto simp: addTowflightFor_def split: option.split)
    ultimately show ?thesis
      using src by (simp add: SourceReset px_step_def Let_def sourceModel_modelReset_def sourceModel_modelAboutToBeReset_def)
  qed
qed


section \<open>The towflights of the proxy\<close>

text \<open>The launch method of a towflight is invalid when the towflight was added, and the self launch after it
  was updated.\<close>

definition towOf :: "flight \<Rightarrow> cache \<Rightarrow> flight \<Rightarrow> flight \<Rightarrow> bool" where
  "towOf mem c f t \<longleftrightarrow> (\<exists>l i. airtowMethod c f = Some l \<and> i \<in> {invalidId, getLaunchMethodByType c typeSelf}
     \<and> t = makeTowflight mem (towplaneOf c f l) i f)"

definition tows_ok :: "flight \<Rightarrow> cache \<Rightarrow> flight list \<Rightarrow> flight list \<Rightarrow> bool" where
  "tows_ok mem c xs ts \<longleftrightarrow> distinct (map getId ts) \<and> (\<forall>t \<in> set ts. \<exists>f \<in> set xs. towOf mem c f t)
     \<and> (\<forall>f \<in> set xs. airtowMethod c f \<noteq> None \<longrightarrow> getId f \<in> getId ` set ts)"

lemma tows_okD:
  assumes "tows_ok mem c xs ts"
  shows "distinct (map getId ts)" "t \<in> set ts \<Longrightarrow> \<exists>f \<in> set xs. towOf mem c f t"
    "f \<in> set xs \<Longrightarrow> airtowMethod c f \<noteq> None \<Longrightarrow> getId f \<in> getId ` set ts"
  using assms by (simp_all add: tows_ok_def)

lemma towOf_id: "towOf mem c f t \<Longrightarrow> getId t = getId f"
  by (auto simp: towOf_def)

lemma towOf_new: "airtowMethod c f = Some l \<Longrightarrow> towOf mem c f (makeTowflight mem (towplaneOf c f l) invalidId f)"
  by (auto simp: towOf_def)

lemma tows_ok_id: "tows_ok mem c xs ts \<Longrightarrow> t \<in> set ts \<Longrightarrow> \<exists>f \<in> set xs. getId f = getId t"
  using tows_okD(2) towOf_id by metis

lemma tows_ok_add:
  assumes "tows_ok mem c xs ts" "getId x \<notin> getId ` set ts" "airtowMethod c x = Some l"
    "set ys \<subseteq> insert x (set xs)" "x \<in> set ys" "\<forall>f \<in> set xs. f \<in> set ys \<or> getId f \<notin> getId ` set ts"
  shows "tows_ok mem c ys (ts @ [makeTowflight mem (towplaneOf c x l) invalidId x])"
proof -
  let ?t = "makeTowflight mem (towplaneOf c x l) invalidId x"
  have "\<exists>f \<in> set ys. towOf mem c f t" if t: "t \<in> set ts" for t
  proof -
    obtain f where f: "f \<in> set xs" "towOf mem c f t" using tows_okD(2) [OF assms(1) t] by blast
    then have "getId f \<in> getId ` set ts" using towOf_id [OF f(2)] t by (metis imageI)
    then show ?thesis using f assms(6) by blast
  qed
  moreover have t: "towOf mem c x ?t" by (rule towOf_new [OF assms(3)])
  moreover have "distinct (map getId (ts @ [?t]))"
    using assms(1,2) towOf_id [OF t] by (simp add: tows_ok_def)
  moreover have "getId f \<in> getId ` set (ts @ [?t])" if "f \<in> set ys" "airtowMethod c f \<noteq> None" for f
  proof (cases "f = x")
    case True
    then show ?thesis using towOf_id [OF t] by simp
  next
    case False
    then have "f \<in> set xs" using that(1) assms(4) by blast
    then have "getId f \<in> getId ` set ts" using tows_okD(3) [OF assms(1) _ that(2)] by blast
    then show ?thesis by simp
  qed
  ultimately show ?thesis
    unfolding tows_ok_def using assms(5) by simp blast
qed

lemma tows_ok_remove:
  assumes "tows_ok mem c xs ts" "set ts' = {t \<in> set ts. getId t \<noteq> i}" "distinct (map getId ts')"
    "\<forall>f \<in> set xs. getId f \<noteq> i \<longrightarrow> f \<in> set ys" "\<forall>f \<in> set ys. airtowMethod c f \<noteq> None \<longrightarrow> f \<in> set xs \<and> getId f \<noteq> i"
  shows "tows_ok mem c ys ts'"
proof -
  have "\<exists>f \<in> set ys. towOf mem c f t" if "t \<in> set ts'" for t
  proof -
    have t: "t \<in> set ts" "getId t \<noteq> i" using that assms(2) by auto
    obtain f where f: "f \<in> set xs" "towOf mem c f t" using tows_okD(2) [OF assms(1) t(1)] by blast
    then show ?thesis using t(2) towOf_id [OF f(2)] assms(4) by metis
  qed
  moreover have "getId f \<in> getId ` set ts'" if f: "f \<in> set ys" "airtowMethod c f \<noteq> None" for f
  proof -
    have "f \<in> set xs" "getId f \<noteq> i" using f assms(5) by blast+
    then have "getId f \<in> getId ` set ts" using f(2) tows_okD(3) [OF assms(1)] by blast
    then show ?thesis using \<open>getId f \<noteq> i\<close> assms(2) by auto
  qed
  ultimately show ?thesis using assms(3) by (simp add: tows_ok_def)
qed

lemma list_update_other:
  assumes "u \<in> set (ts[n := t])" "u \<noteq> t"
  obtains k where "k < length ts" "ts[n := t] ! k = u" "k \<noteq> n"
proof -
  obtain k where k: "k < length ts" "ts[n := t] ! k = u"
    using assms(1) by (auto simp: in_set_conv_nth)
  have "k \<noteq> n" using k assms(2) by auto
  with k show thesis by (rule that)
qed

lemma tows_ok_replace:
  assumes "tows_ok mem c xs ts" "n < length ts" "getId (ts ! n) = getId x" "towOf mem c x t"
    "set ys = insert x {f \<in> set xs. getId f \<noteq> getId x}"
  shows "tows_ok mem c ys (ts[n := t])"
proof -
  have ids: "map getId (ts[n := t]) = map getId ts"
  proof -
    have "map getId (ts[n := t]) = (map getId ts)[n := map getId ts ! n]"
      using assms(2,3) towOf_id [OF assms(4)] by (simp add: map_update)
    then show ?thesis by (simp only: list_update_id)
  qed
  have d: "distinct (map getId ts)" using assms(1) by (simp add: tows_ok_def)
  have "\<exists>f \<in> set ys. towOf mem c f u" if mem: "u \<in> set (ts[n := t])" for u
  proof (cases "u = t")
    case True
    then show ?thesis using assms(4,5) by auto
  next
    case False
    then obtain k where k: "k < length ts" "ts[n := t] ! k = u" "k \<noteq> n"
      by (rule list_update_other [OF mem])
    then have u: "ts ! k = u" by simp
    obtain f where f: "f \<in> set xs" "towOf mem c f u" using tows_okD(2) [OF assms(1) nth_mem [OF k(1)]] u by blast
    have "getId u \<noteq> getId x"
      using d k u assms(2,3) by (metis distinct_conv_nth length_map nth_map)
    then show ?thesis using f towOf_id [OF f(2)] assms(5) by auto
  qed
  moreover have "getId ` set (ts[n := t]) = getId ` set ts" by (metis ids set_map)
  moreover have "getId x \<in> getId ` set ts" using assms(2,3) by (metis imageI nth_mem)
  moreover have "getId f \<in> getId ` set ts" if "f \<in> set ys" "airtowMethod c f \<noteq> None" "f \<noteq> x" for f
    using that assms(1,5) unfolding tows_ok_def by simp
  moreover have "distinct (map getId (ts[n := t]))" using d ids by simp
  ultimately show ?thesis
    unfolding tows_ok_def by metis
qed

lemma tows_ok_reset:
  assumes "distinct (map getId xs)"
  shows "tows_ok mem c xs (map (\<lambda>f. makeTowflight mem (towplaneOf c f (the (airtowMethod c f))) invalidId f)
     (filter (\<lambda>f. airtowMethod c f \<noteq> None) xs))"
proof -
  have "map getId (map (\<lambda>f. makeTowflight mem (towplaneOf c f (the (airtowMethod c f))) invalidId f)
     (filter (\<lambda>f. airtowMethod c f \<noteq> None) xs)) = map getId (filter (\<lambda>f. airtowMethod c f \<noteq> None) xs)"
    by simp
  moreover have "distinct (map getId (filter P xs))" for P using assms by (rule distinct_map_filter)
  moreover have "towOf mem c f (makeTowflight mem (towplaneOf c f (the (airtowMethod c f))) invalidId f)"
    if "airtowMethod c f \<noteq> None" for f
    using that towOf_new [of c f _ mem] by auto
  ultimately show ?thesis
    unfolding tows_ok_def by (simp add: image_image del: map_map) blast
qed

subsection \<open>The towflights after a slot\<close>

lemma px_end_simps [simp]:
  "px_towflights (px_end s p) = px_towflights p" "px_source (px_end s p) = px_source p"
  by (simp_all add: px_end_def split: list.split)

lemma px_begin_simps [simp]:
  "px_towflights (px_begin a b p) = px_towflights p" "px_source (px_begin a b p) = px_source p"
  by (simp_all add: px_begin_def)

lemma slot_towflights [simp]:
  "px_towflights (insertTowflight mem c f l p) = px_towflights p @ [makeTowflight mem (towplaneOf c f l) invalidId f]"
  "px_towflights (removeTowflight t p) = take t (px_towflights p) @ drop (Suc t) (px_towflights p)"
  "px_source (insertTowflight mem c f l p) = px_source p" "px_source (removeTowflight t p) = px_source p"
  by (simp_all add: insertTowflight_def removeTowflight_def addTowflightFor_def Let_def)

lemma without_one:
  assumes "t < length ts" "distinct (map getId ts)" "getId (ts ! t) = i"
  shows "set (take t ts @ drop (Suc t) ts) = {u \<in> set ts. getId u \<noteq> i}" "distinct (map getId (take t ts @ drop (Suc t) ts))"
proof -
  have "map getId (take t ts) @ map getId (drop t ts) = map getId ts"
    by (metis append_take_drop_id map_append)
  then have "distinct (map getId (take t ts) @ i # map getId (drop (Suc t) ts))"
    using assms by (simp add: Cons_nth_drop_Suc [symmetric])
  then have d: "distinct (map getId (take t ts @ drop (Suc t) ts))" "\<forall>u \<in> set (take t ts @ drop (Suc t) ts). getId u \<noteq> i"
    by (auto simp: image_iff)
  have "set ts = set (take t ts @ ts ! t # drop (Suc t) ts)" using id_take_nth_drop [OF assms(1)] by simp
  then have "set ts = insert (ts ! t) (set (take t ts @ drop (Suc t) ts))" by simp
  with d(2) assms(3) show "set (take t ts @ drop (Suc t) ts) = {u \<in> set ts. getId u \<noteq> i}" by auto
  show "distinct (map getId (take t ts @ drop (Suc t) ts))" by (rule d(1))
qed

lemma removed_towflight:
  assumes "px_findTowflight i p \<ge> 0" "distinct (map getId (px_towflights p))"
  shows "set (px_towflights (removeTowflight (nat (px_findTowflight i p)) p)) = {u \<in> set (px_towflights p). getId u \<noteq> i}"
    "distinct (map getId (px_towflights (removeTowflight (nat (px_findTowflight i p)) p)))"
  using without_one [OF _ assms(2), of "nat (px_findTowflight i p)" i] px_findTowflight_sound [OF assms(1)] by simp_all

lemma updateTowflight_tows:
  assumes "getObject (flightsById c) i = Inr x" "airtowMethod c x = Some l"
  shows "px_towflights (updateTowflight mem c i n p)
     = (px_towflights p)[n := makeTowflight mem (towplaneOf c x l) (getLaunchMethodByType c typeSelf) x]"
  using assms by (simp add: updateTowflight_def)

lemma changedFlightRow_tows:
  assumes "tows_ok mem c xs (px_towflights p)" "set ys = insert x {f \<in> set xs. getId f \<noteq> getId x}"
    "getObject (flightsById c) (getId x) = Inr x"
  shows "tows_ok mem c ys (px_towflights (changedFlightRow mem c x p))"
proof (cases "airtowMethod c x")
  case None
  show ?thesis
  proof (cases "px_findTowflight (getId x) p \<ge> 0")
    case True
    note r = removed_towflight [OF True tows_okD(1) [OF assms(1)]]
    have "tows_ok mem c ys (px_towflights (removeTowflight (nat (px_findTowflight (getId x) p)) p))"
      by (rule tows_ok_remove [OF assms(1) r(1) r(2)]) (use assms(2) None in auto)
    then show ?thesis using None True by (simp add: changedFlightRow_def Let_def)
  next
    case False
    then have n: "\<forall>u \<in> set (px_towflights p). getId u \<noteq> getId x" by (auto simp: px_findTowflight_iff image_iff)
    have "tows_ok mem c ys (px_towflights p)"
      by (rule tows_ok_remove [OF assms(1) _ tows_okD(1) [OF assms(1)], where i = "getId x"])
        (use assms(2) None n in auto)
    then show ?thesis using None False by (simp add: changedFlightRow_def Let_def)
  qed
next
  case (Some l)
  show ?thesis
  proof (cases "px_findTowflight (getId x) p \<ge> 0")
    case True
    note t = px_findTowflight_sound [OF True]
    have "towOf mem c x (makeTowflight mem (towplaneOf c x l) (getLaunchMethodByType c typeSelf) x)"
      using Some by (auto simp: towOf_def)
    from tows_ok_replace [OF assms(1) _ _ this assms(2), of "nat (px_findTowflight (getId x) p)"] t
    show ?thesis using True Some by (simp add: changedFlightRow_def Let_def updateTowflight_tows [OF assms(3) Some])
  next
    case False
    then have n: "getId x \<notin> getId ` set (px_towflights p)" by (simp add: px_findTowflight_iff)
    have "tows_ok mem c ys (px_towflights p @ [makeTowflight mem (towplaneOf c x l) invalidId x])"
      by (rule tows_ok_add [OF assms(1) n Some]) (use assms(2) n in auto)
    then show ?thesis using Some False by (simp add: changedFlightRow_def Let_def)
  qed
qed

section \<open>Runs\<close>

text \<open>The caches of a run may differ, but not in the launch methods and the lookups the proxy uses.\<close>

definition same_lookups :: "cache \<Rightarrow> cache \<Rightarrow> bool" where
  "same_lookups c d \<longleftrightarrow> launchMethodsById d = launchMethodsById c
     \<and> planeIdsByRegistration d = planeIdsByRegistration c \<and> launchMethodIdsByType d = launchMethodIdsByType c"

fun step_ok :: "cache \<Rightarrow> source_change \<Rightarrow> flight list \<Rightarrow> bool" where
  "step_ok c (SourceInsert i x) xs = (i \<le> length xs \<and> getId x \<notin> getId ` set xs)"
| "step_ok c (SourceRemove i) xs = (i < length xs)"
| "step_ok c (SourceReplace i x) xs = (i < length xs \<and> getId x = getId (xs ! i) \<and> getObject (flightsById c) (getId x) = Inr x)"
| "step_ok c (SourceUpdate i) xs = (i < length xs \<and> getObject (flightsById c) (getId (xs ! i)) = Inr (xs ! i))"
| "step_ok c (SourceReset ys) xs = distinct (map getId ys)"

definition source_after :: "source_change \<Rightarrow> flight list \<Rightarrow> flight list" where
  "source_after ch xs = rows (changeSource ch (mkList xs))"

fun indices_ok :: "source_change list \<Rightarrow> flight list \<Rightarrow> bool" where
  "indices_ok [] xs = True"
| "indices_ok (ch # chs) xs = (change_ok ch xs \<and> indices_ok chs (source_after ch xs))"

fun run_ok :: "cache \<Rightarrow> (cache \<times> source_change) list \<Rightarrow> flight list \<Rightarrow> bool" where
  "run_ok c [] xs = True"
| "run_ok c ((d, ch) # steps) xs = (same_lookups c d \<and> step_ok d ch xs \<and> run_ok c steps (source_after ch xs))"

definition px_run :: "flight \<Rightarrow> (cache \<times> source_change) list \<Rightarrow> flightProxy \<Rightarrow> flightProxy" where
  "px_run mem steps p = foldl (\<lambda>p (c, ch). px_step mem c ch p) p steps"

definition sources_after :: "(cache \<times> source_change) list \<Rightarrow> flight list \<Rightarrow> flight list" where
  "sources_after steps xs = foldl (\<lambda>xs (c, ch). source_after ch xs) xs steps"

lemma run_simps [simp]:
  "px_run mem [] p = p" "px_run mem ((c, ch) # steps) p = px_run mem steps (px_step mem c ch p)"
  "sources_after [] xs = xs" "sources_after ((c, ch) # steps) xs = sources_after steps (source_after ch xs)"
  by (simp_all add: px_run_def sources_after_def)

lemma step_change_ok: "step_ok c ch xs \<Longrightarrow> change_ok ch xs"
  by (cases ch) auto

lemma run_indices_ok: "run_ok c steps xs \<Longrightarrow> indices_ok (map snd steps) xs"
  by (induction c steps xs rule: run_ok.induct) (auto intro: step_change_ok)

lemma same_lookups_facts:
  assumes "same_lookups c d"
  shows "airtowMethod d = airtowMethod c" "towplaneOf d = towplaneOf c" "getLaunchMethodByType d = getLaunchMethodByType c"
    "tows_ok mem d = tows_ok mem c"
proof -
  show a: "airtowMethod d = airtowMethod c" "towplaneOf d = towplaneOf c" "getLaunchMethodByType d = getLaunchMethodByType c"
    using assms
    by (intro ext; simp add: same_lookups_def airtowMethod_def towplaneOf_def getPlaneIdByRegistration_def
        getLaunchMethodByType_def)+
  then show "tows_ok mem d = tows_ok mem c" by (auto simp: fun_eq_iff tows_ok_def towOf_def)
qed

lemma reset_towflights:
  "px_towflights (fold (\<lambda>f q. case airtowMethod c f of Some l \<Rightarrow> addTowflightFor mem c f l q | None \<Rightarrow> q) fs q)
     = px_towflights q @ map (\<lambda>f. makeTowflight mem (towplaneOf c f (the (airtowMethod c f))) invalidId f)
         (filter (\<lambda>f. airtowMethod c f \<noteq> None) fs)"
  by (induction fs arbitrary: q) (auto simp: addTowflightFor_def split: option.split)

lemma ids_update: "getId x = getId (xs ! i) \<Longrightarrow> map getId (xs[i := x]) = map getId xs"
  by (metis list_update_id map_update)

lemma set_update_by_index:
  assumes "distinct (map getId xs)" "i < length xs" "getId x = getId (xs ! i)"
  shows "set (xs[i := x]) = insert x {f \<in> set xs. getId f \<noteq> getId x}"
proof -
  have "set (take i xs @ drop (Suc i) xs) = {u \<in> set xs. getId u \<noteq> getId x}"
    using without_one(1) [OF assms(2,1), of "getId x"] assms(3) by simp
  moreover have "set (xs[i := x]) = insert x (set (take i xs @ drop (Suc i) xs))"
    using assms(2) by (simp add: upd_conv_take_nth_drop)
  ultimately show ?thesis by simp
qed

lemma px_step_tows:
  assumes "px_source p = Some xs" "distinct (map getId xs)" "tows_ok mem c xs (px_towflights p)" "step_ok c ch xs"
  shows "distinct (map getId (source_after ch xs)) \<and> tows_ok mem c (source_after ch xs) (px_towflights (px_step mem c ch p))"
proof (cases ch)
  case (SourceInsert i x)
  have i: "i \<le> length xs" "getId x \<notin> getId ` set xs" using assms(4) SourceInsert by simp_all
  have ys: "source_after ch xs = take i xs @ x # drop i xs" by (simp add: SourceInsert source_after_def)
  have sets: "set (source_after ch xs) = insert x (set xs)" unfolding ys by (metis append_take_drop_id list.simps(15) set_append Un_insert_right)
  have "map getId xs = map getId (take i xs) @ map getId (drop i xs)" by (metis append_take_drop_id map_append)
  then have "distinct (map getId (take i xs) @ map getId (drop i xs))" using assms(2) by simp
  moreover have "getId x \<notin> set (map getId (take i xs) @ map getId (drop i xs))"
    using i(2) by (auto dest: in_set_takeD in_set_dropD)
  ultimately have "distinct (map getId (source_after ch xs))" by (auto simp: ys)
  moreover have "tows_ok mem c (source_after ch xs) (px_towflights p @ [makeTowflight mem (towplaneOf c x l) invalidId x])"
    if "airtowMethod c x = Some l" for l
  proof (rule tows_ok_add [OF assms(3) _ that])
    show "getId x \<notin> getId ` set (px_towflights p)" using i(2) tows_ok_id [OF assms(3)] by (force simp: image_iff)
  qed (use sets in auto)
  moreover have "tows_ok mem c (source_after ch xs) (px_towflights p)" if "airtowMethod c x = None"
    using assms(3) sets that unfolding tows_ok_def by auto
  moreover have "px_towflights (px_step mem c ch p) = px_towflights p @ (case airtowMethod c x of None \<Rightarrow> []
      | Some l \<Rightarrow> [makeTowflight mem (towplaneOf c x l) invalidId x])"
    using i(1) by (simp add: SourceInsert px_step_def assms(1) Let_def sourceModel_rowsInserted_def
        sourceModel_rowsAboutToBeInserted_def nth_append split: option.split)
  ultimately show ?thesis by (cases "airtowMethod c x") simp_all
next
  case (SourceRemove i)
  then have i: "i < length xs" using assms(4) by simp
  have ys: "source_after ch xs = take i xs @ drop (Suc i) xs" by (simp add: SourceRemove source_after_def)
  note w = without_one [OF i assms(2) refl]
  let ?p = "if px_findTowflight (getId (xs ! i)) p \<ge> 0 then removeTowflight (nat (px_findTowflight (getId (xs ! i)) p)) p else p"
  have "set (px_towflights ?p) = {u \<in> set (px_towflights p). getId u \<noteq> getId (xs ! i)}
    \<and> distinct (map getId (px_towflights ?p))"
  proof (cases "px_findTowflight (getId (xs ! i)) p \<ge> 0")
    case True
    from removed_towflight [OF this tows_okD(1) [OF assms(3)]] True
    show ?thesis by simp
  next
    case False
    then show ?thesis
      using tows_okD(1) [OF assms(3)] by (auto simp: px_findTowflight_iff image_iff)
  qed
  then have "tows_ok mem c (source_after ch xs) (px_towflights ?p)"
    by (elim conjE, intro tows_ok_remove [OF assms(3)]) (use w(1) in \<open>auto simp: ys\<close>)
  moreover have "px_towflights (px_step mem c ch p) = px_towflights ?p"
    by (simp add: SourceRemove px_step_def assms(1) Let_def sourceModel_rowsRemoved_def sourceModel_rowsAboutToBeRemoved_def)
  ultimately show ?thesis using w(2) ys by simp
next
  case (SourceReplace i x)
  then have i: "i < length xs" "getId x = getId (xs ! i)" "getObject (flightsById c) (getId x) = Inr x"
    using assms(4) unfolding SourceReplace step_ok.simps by blast+
  have ys: "source_after ch xs = xs[i := x]" by (simp add: SourceReplace source_after_def)
  note u = set_update_by_index [OF assms(2) i(1,2)]
  have "px_towflights (px_step mem c ch p)
      = px_towflights (changedFlightRow mem c x (px_emit (rowsChanged i i) (p\<lparr>px_source := Some (xs[i := x])\<rparr>)))"
    using i(1) by (simp add: SourceReplace px_step_def assms(1) Let_def sourceModel_dataChanged_def)
  then show ?thesis
    using changedFlightRow_tows [OF _ u i(3), of mem "px_emit (rowsChanged i i) (p\<lparr>px_source := Some (xs[i := x])\<rparr>)"]
      assms(2,3) ids_update [OF i(2)] ys by simp
next
  case (SourceUpdate i)
  then have i: "i < length xs" "getObject (flightsById c) (getId (xs ! i)) = Inr (xs ! i)"
    using assms(4) by simp_all
  have ys: "source_after ch xs = xs" by (simp add: SourceUpdate source_after_def)
  have u: "set xs = insert (xs ! i) {f \<in> set xs. getId f \<noteq> getId (xs ! i)}"
    using set_update_by_index [OF assms(2) i(1) refl] by simp
  have "px_towflights (px_step mem c ch p)
      = px_towflights (changedFlightRow mem c (xs ! i) (px_emit (rowsChanged i i) (p\<lparr>px_source := Some xs\<rparr>)))"
    using i(1) by (simp add: SourceUpdate px_step_def assms(1) Let_def sourceModel_dataChanged_def)
  then show ?thesis
    using changedFlightRow_tows [OF _ u i(2), of mem "px_emit (rowsChanged i i) (p\<lparr>px_source := Some xs\<rparr>)"]
      assms(2,3) ys by simp
next
  case (SourceReset ys)
  then have "distinct (map getId ys)" using assms(4) by simp
  from tows_ok_reset [OF this, of mem c] this show ?thesis
    by (simp add: SourceReset source_after_def px_step_def assms(1) Let_def sourceModel_modelReset_def
        sourceModel_modelAboutToBeReset_def reset_towflights)
qed

lemma px_run_keeps:
  "px_keeps v xs [] p \<Longrightarrow> indices_ok (map snd steps) xs \<Longrightarrow> px_keeps v (sources_after steps xs) [] (px_run mem steps p)"
proof (induction steps arbitrary: xs p)
  case (Cons s steps)
  obtain c ch where s: "s = (c, ch)" by fastforce
  have "px_keeps v (source_after ch xs) [] (px_step mem c ch p)"
    unfolding source_after_def using Cons.prems s by (intro px_step_keeps) simp_all
  then show ?case using Cons.IH Cons.prems(2) by (simp add: s)
qed simp

lemma px_run_tows:
  "px_keeps v xs [] p \<Longrightarrow> distinct (map getId xs) \<Longrightarrow> tows_ok mem c xs (px_towflights p) \<Longrightarrow> run_ok c steps xs
     \<Longrightarrow> distinct (map getId (sources_after steps xs)) \<and> tows_ok mem c (sources_after steps xs) (px_towflights (px_run mem steps p))"
proof (induction steps arbitrary: xs p)
  case (Cons s steps)
  obtain d ch where s: "s = (d, ch)" by fastforce
  have ok: "same_lookups c d" "step_ok d ch xs" "run_ok c steps (source_after ch xs)"
    using Cons.prems(4) by (simp_all add: s)
  have "px_keeps v (source_after ch xs) [] (px_step mem d ch p)"
    unfolding source_after_def by (rule px_step_keeps [OF Cons.prems(1) step_change_ok [OF ok(2)]])
  moreover have "distinct (map getId (source_after ch xs)) \<and> tows_ok mem c (source_after ch xs) (px_towflights (px_step mem d ch p))"
    using px_step_tows [OF _ Cons.prems(2) _ ok(2), of p mem] Cons.prems(1,3)
    by (simp add: px_keeps_def same_lookups_facts(4) [OF ok(1)])
  ultimately show ?case using Cons.IH ok(3) by (simp add: s)
qed simp

lemma px_set_keeps:
  "px_keeps [] xs [] (px_setSourceModel mem c (Some xs) px_new)"
  "px_towflights (px_setSourceModel mem c (Some xs) px_new)
     = map (\<lambda>f. makeTowflight mem (towplaneOf c f (the (airtowMethod c f))) invalidId f)
         (filter (\<lambda>f. airtowMethod c f \<noteq> None) xs)"
proof -
  have f: "px_source (fold (\<lambda>f q. case airtowMethod c f of Some l \<Rightarrow> addTowflightFor mem c f l q | None \<Rightarrow> q) fs q) = px_source q"
    "px_changes (fold (\<lambda>f q. case airtowMethod c f of Some l \<Rightarrow> addTowflightFor mem c f l q | None \<Rightarrow> q) fs q) = px_changes q" for fs q
    by (induction fs arbitrary: q) (auto simp: addTowflightFor_def split: option.split)
  show "px_keeps [] xs [] (px_setSourceModel mem c (Some xs) px_new)"
    by (simp add: px_keeps_def px_sync_def px_setSourceModel_def sourceModel_modelReset_def
        sourceModel_modelAboutToBeReset_def px_new_def f replay_def)
  show "px_towflights (px_setSourceModel mem c (Some xs) px_new)
     = map (\<lambda>f. makeTowflight mem (towplaneOf c f (the (airtowMethod c f))) invalidId f)
         (filter (\<lambda>f. airtowMethod c f \<noteq> None) xs)"
    by (simp add: px_setSourceModel_def sourceModel_modelReset_def sourceModel_modelAboutToBeReset_def reset_towflights px_new_def)
qed

lemma px_run_final:
  assumes "distinct (map getId xs)" "run_ok c steps xs"
  shows "px_source (px_run mem steps (px_setSourceModel mem c (Some xs) px_new)) = Some (sources_after steps xs)"
    "distinct (map getId (sources_after steps xs))"
    "tows_ok mem c (sources_after steps xs) (px_towflights (px_run mem steps (px_setSourceModel mem c (Some xs) px_new)))"
proof -
  have "tows_ok mem c xs (px_towflights (px_setSourceModel mem c (Some xs) px_new))"
    unfolding px_set_keeps(2) by (rule tows_ok_reset [OF assms(1)])
  with px_run_tows [OF px_set_keeps(1) assms(1) _ assms(2)]
  show "distinct (map getId (sources_after steps xs))"
    "tows_ok mem c (sources_after steps xs) (px_towflights (px_run mem steps (px_setSourceModel mem c (Some xs) px_new)))"
    by simp_all
  show "px_source (px_run mem steps (px_setSourceModel mem c (Some xs) px_new)) = Some (sources_after steps xs)"
    using px_run_keeps [OF px_set_keeps(1) run_indices_ok [OF assms(2)]] by (simp add: px_keeps_def)
qed

lemma tows_iff:
  assumes "tows_ok mem c ys ts" "distinct (map getId ys)" "f \<in> set ys"
  shows "getId f \<in> getId ` set ts \<longleftrightarrow> airtowMethod c f \<noteq> None"
proof
  assume "getId f \<in> getId ` set ts"
  then obtain u where u: "u \<in> set ts" "getId u = getId f" by force
  then obtain g where g: "g \<in> set ys" "towOf mem c g u" using tows_okD(2) [OF assms(1) u(1)] by blast
  then have "g = f" using assms(2,3) u(2) towOf_id [OF g(2)] by (metis distinct_map inj_on_eq_iff)
  then show "airtowMethod c f \<noteq> None" using g(2) by (auto simp: towOf_def)
qed (rule tows_okD(3) [OF assms(1,3)])

text \<open>C17: for every run of changes of the source at legal indices, whatever the caches are, the signals of the
  proxy tell a view that starts empty exactly the flights and the towflights of the proxy: replaying them gives
  its list, every change that was begun is ended, and the proxy still shows all rows of its source.\<close>

theorem proxy_observed:
  assumes "indices_ok (map snd steps) xs"
  shows "let p = px_run mem steps (px_setSourceModel mem c (Some xs) px_new) in
      replay [] (px_trace p) = px_getList p \<and> px_changes p = [] \<and> px_source p = Some (sources_after steps xs)
      \<and> length (px_getList p) = px_size p"
  using px_run_keeps [OF px_set_keeps(1) assms]
  by (simp add: px_keeps_def px_sync_def Let_def px_getList_def px_size_def)

text \<open>C16: while the launch methods and registrations stay the same, after every run of legal changes of the
  source (ids unique, a replaced flight keeps its id and is the one in the cache) there is exactly one towflight
  for every airtow of the source and none for another flight, and each is the towflight of the current data of
  its flight.\<close>

theorem proxy_towflights:
  assumes "distinct (map getId xs)" "run_ok c steps xs"
  shows "let p = px_run mem steps (px_setSourceModel mem c (Some xs) px_new); ys = sources_after steps xs in
      distinct (map getId (px_towflights p))
      \<and> (\<forall>t \<in> set (px_towflights p). \<exists>f \<in> set ys. towOf mem c f t)
      \<and> (\<forall>f \<in> set ys. getId f \<in> getId ` set (px_towflights p) \<longleftrightarrow> airtowMethod c f \<noteq> None)
      \<and> length (px_towflights p) = length (filter (\<lambda>f. airtowMethod c f \<noteq> None) ys)"
proof -
  let ?p = "px_run mem steps (px_setSourceModel mem c (Some xs) px_new)" and ?ys = "sources_after steps xs"
  note d = px_run_final(2) [OF assms] and t = px_run_final(3) [OF assms, of mem]
  note iff = tows_iff [OF t d]
  have "getId ` set (px_towflights ?p) = getId ` set (filter (\<lambda>f. airtowMethod c f \<noteq> None) ?ys)"
  proof
    show "getId ` set (px_towflights ?p) \<subseteq> getId ` set (filter (\<lambda>f. airtowMethod c f \<noteq> None) ?ys)"
    proof
      fix i assume i: "i \<in> getId ` set (px_towflights ?p)"
      then obtain f where f: "f \<in> set ?ys" "getId f = i" using tows_ok_id [OF t] by force
      then have "airtowMethod c f \<noteq> None" using iff [OF f(1)] i by simp
      then show "i \<in> getId ` set (filter (\<lambda>f. airtowMethod c f \<noteq> None) ?ys)" using f by auto
    qed
    show "getId ` set (filter (\<lambda>f. airtowMethod c f \<noteq> None) ?ys) \<subseteq> getId ` set (px_towflights ?p)"
      using tows_okD(3) [OF t] by auto
  qed
  moreover have "card (getId ` set zs) = length zs" if "distinct (map getId zs)" for zs
    using distinct_card [OF that] by simp
  ultimately have "length (px_towflights ?p) = length (filter (\<lambda>f. airtowMethod c f \<noteq> None) ?ys)"
    using tows_okD(1) [OF t] distinct_map_filter [OF d] by metis
  with iff tows_okD(1,2) [OF t] show ?thesis by (simp add: Let_def)
qed

subsection \<open>Flights and their towflights\<close>

lemma findFrom_found:
  "n \<le> k \<Longrightarrow> k < length (rows l) \<Longrightarrow> distinct (map gid (rows l)) \<Longrightarrow> gid (rows l ! k) = i
     \<Longrightarrow> findFrom gid i n l = int k"
proof (induction gid i n l rule: findFrom.induct)
  case (1 gid i n l)
  show ?case
  proof (cases "n = k")
    case True
    then show ?thesis using "1.prems" by (subst findFrom.simps) simp
  next
    case False
    then have "gid (rows l ! n) \<noteq> i"
      using "1.prems" by (auto simp: distinct_conv_nth)
    then show ?thesis using "1.IH" "1.prems" False by (subst findFrom.simps) simp
  qed
qed

lemma px_findTowflight_at:
  "distinct (map getId (px_towflights p)) \<Longrightarrow> k < length (px_towflights p) \<Longrightarrow> px_findTowflight (getId (px_towflights p ! k)) p = int k"
  by (simp add: px_findTowflight_def findFrom_found)

lemma px_findFlight_at:
  "px_source p = Some xs \<Longrightarrow> distinct (map getId xs) \<Longrightarrow> k < length xs \<Longrightarrow> px_findFlight (getId (xs ! k)) p = int k"
  by (simp add: px_findFlight_def findFrom_found)

lemma find_neg:
  "px_findTowflight i p < 0 \<longleftrightarrow> i \<notin> getId ` set (px_towflights p)"
  "px_source p = Some xs \<Longrightarrow> px_findFlight i p < 0 \<longleftrightarrow> i \<notin> getId ` set xs"
  using findById_nonneg [of getId i "mkList (px_towflights p)"] findById_nonneg [of getId i "mkList xs"]
  by (simp_all add: px_findTowflight_def px_findFlight_def findById_def not_le [symmetric])

lemma px_at_cases:
  assumes "px_source p = Some xs"
  shows "n < length xs \<Longrightarrow> px_at n p = xs ! n" "px_at (length xs + k) p = px_towflights p ! k"
  using assms by (simp_all add: px_at_def modelIndexToTowflightIndex_def nat_diff_distrib)

lemma findTowref_flight:
  assumes "px_source p = Some xs" "n < length xs" "distinct (map getId (px_towflights p))"
  shows "findTowref n p = (if getId (xs ! n) \<in> getId ` set (px_towflights p)
     then int (length xs) + px_findTowflight (getId (xs ! n)) p else -1)"
  using assms find_neg(1) [of "getId (xs ! n)" p] px_findTowflight_iff [of "getId (xs ! n)" p]
  by (auto simp: findTowref_def Let_def px_at_cases modelIndexIsFlight_def towflightIndexToModelIndex_def)

lemma findTowref_towflight:
  assumes "px_source p = Some xs" "k < length (px_towflights p)"
  shows "findTowref (length xs + k) p = (if getId (px_towflights p ! k) \<in> getId ` set xs
     then px_findFlight (getId (px_towflights p ! k)) p else -1)"
  using assms find_neg(2) [OF assms(1), of "getId (px_towflights p ! k)"]
  by (auto simp: findTowref_def Let_def px_at_cases modelIndexIsFlight_def modelIndexIsTowflight_def
      modelIndexToTowflightIndex_def)

lemma towref_facts:
  assumes "distinct (map getId xs)" "run_ok c steps xs"
    "\<forall>f \<in> set (sources_after steps xs). idValid (getId f) \<and> \<not> isTowflight f"
    "p = px_run mem steps (px_setSourceModel mem c (Some xs) px_new)" "n < px_size p"
  shows "(findTowref n p = -1 \<longleftrightarrow> \<not> isTowflight (px_at n p) \<and> airtowMethod c (px_at n p) = None)
    \<and> (findTowref n p \<noteq> -1 \<longrightarrow> (\<exists>m. findTowref n p = int m \<and> m < px_size p
          \<and> getId (px_at m p) = getId (px_at n p) \<and> isTowflight (px_at m p) \<noteq> isTowflight (px_at n p)
          \<and> findTowref m p = int n))
    \<and> findModelIndex (getFlightReference (int n) p) p = int n"
proof -
  let ?ys = "sources_after steps xs" and ?ts = "px_towflights p"
  have s: "px_source p = Some ?ys" and d: "distinct (map getId ?ys)" and t: "tows_ok mem c ?ys ?ts"
    using px_run_final(1,3) [OF assms(1,2), of mem] px_run_final(2) [OF assms(1,2)] assms(4) by simp_all
  have dt: "distinct (map getId ?ts)" by (rule tows_okD(1) [OF t])
  have size: "px_size p = length ?ys + length ?ts" by (simp add: px_size_def s)
  have tow: "isTowflight u \<and> idValid (getId u) \<and> getId u \<in> getId ` set ?ys" if u: "u \<in> set ?ts" for u
  proof -
    obtain f where f: "f \<in> set ?ys" "towOf mem c f u" using tows_okD(2) [OF t u] by blast
    have "isTowflight u" using f(2) by (auto simp: towOf_def isTowflight_def makeTowflight_def)
    then show ?thesis using f(1) towOf_id [OF f(2)] assms(3) by (metis imageI)
  qed
  have air: "getId f \<in> getId ` set ?ts \<longleftrightarrow> airtowMethod c f \<noteq> None" if f: "f \<in> set ?ys" for f
    by (rule tows_iff [OF t d f])
  show ?thesis
  proof (cases "n < length ?ys")
    case True
    note at = px_at_cases(1) [OF s True]
    have f: "?ys ! n \<in> set ?ys" using True by simp
    note ref = findTowref_flight [OF s True dt]
    have found: "findModelIndex (getFlightReference (int n) p) p = int n"
      using assms(3) f px_findFlight_at [OF s d True]
      by (simp add: findModelIndex_def getFlightReference_def at rf_of_def rf_isValid_def)
    show ?thesis
    proof (cases "getId (?ys ! n) \<in> getId ` set ?ts")
      case False
      then show ?thesis using ref air [OF f] assms(3) f found at by simp
    next
      case hasTow: True
      then have "px_findTowflight (getId (?ys ! n)) p \<ge> 0" by (simp add: px_findTowflight_iff)
      then obtain k where k: "px_findTowflight (getId (?ys ! n)) p = int k" by (metis zero_le_imp_eq_int)
      then have kk: "k < length ?ts" "getId (?ts ! k) = getId (?ys ! n)"
        using px_findTowflight_sound [of "getId (?ys ! n)" p] by simp_all
      have "findTowref n p = int (length ?ys + k)" using ref hasTow k by simp
      moreover have "findTowref (length ?ys + k) p = int n"
        using findTowref_towflight [OF s kk(1)] kk(2) f px_findFlight_at [OF s d True] by simp
      moreover have "isTowflight (px_at (length ?ys + k) p)" using px_at_cases(2) [OF s] tow kk(1) by simp
      moreover have "\<not> isTowflight (?ys ! n)" using assms(3) f by blast
      ultimately show ?thesis
        using hasTow air [OF f] kk found size at px_at_cases(2) [OF s, of k]
        by (intro conjI impI exI [of _ "length ?ys + k"]) simp_all
    qed
  next
    case False
    then obtain k where n: "n = length ?ys + k" "k < length ?ts"
      using assms(5) size by (metis add_less_cancel_left le_Suc_ex not_le)
    note at = px_at_cases(2) [OF s, of k]
    note u = tow [OF nth_mem [OF n(2)]]
    have found: "findModelIndex (getFlightReference (int n) p) p = int n"
      using u px_findTowflight_at [OF dt n(2)] n(1) s at
      by (simp add: findModelIndex_def getFlightReference_def rf_of_def rf_isValid_def towflightIndexToModelIndex_def nat_int_add)
    obtain m where m: "m < length ?ys" "getId (?ys ! m) = getId (?ts ! k)"
      using u by (metis imageE in_set_conv_nth)
    have "findTowref n p = int m"
      using findTowref_towflight [OF s n(2)] u px_findFlight_at [OF s d m(1)] m(2) n(1) by simp
    moreover have "findTowref m p = int n"
      using findTowref_flight [OF s m(1) dt] px_findTowflight_at [OF dt n(2)] m(2) nth_mem [OF n(2)] n(1)
      by (metis image_eqI of_nat_add)
    moreover have "\<not> isTowflight (?ys ! m)" using assms(3) nth_mem [OF m(1)] by blast
    ultimately show ?thesis
      using found u at n(1) m size px_at_cases(1) [OF s m(1)]
      by (intro conjI impI exI [of _ m]) simp_all
  qed
qed

text \<open>In every run, the row \<open>findTowref\<close> gives for a row shows the towflight of the flight or the flight of
  the towflight: it exists exactly for an airtow and for every towflight, it is another row of the list with the
  same id, and its own towref is the row it came from; and the row of the reference to a flight of the list is
  found again, when the flights of the source have ids and are no towflights themselves.\<close>

theorem towref_symmetric:
  assumes "distinct (map getId xs)" "run_ok c steps xs"
    "\<forall>f \<in> set (sources_after steps xs). idValid (getId f) \<and> \<not> isTowflight f"
    "p = px_run mem steps (px_setSourceModel mem c (Some xs) px_new)" "n < px_size p"
  shows "(findTowref n p = -1 \<longleftrightarrow> \<not> isTowflight (px_at n p) \<and> airtowMethod c (px_at n p) = None)
    \<and> (findTowref n p \<noteq> -1 \<longrightarrow> (\<exists>m. findTowref n p = int m \<and> m < px_size p
          \<and> getId (px_at m p) = getId (px_at n p) \<and> isTowflight (px_at m p) \<noteq> isTowflight (px_at n p)
          \<and> findTowref m p = int n))
    \<and> findModelIndex (getFlightReference (int n) p) p = int n"
  using towref_facts [OF assms] .

subsection \<open>An example\<close>

definition airtow1 :: flight where
  "airtow1 = flight0\<lparr>getLaunchMethodId := 3, getTowplaneId := 9\<rparr>"

definition winch1 :: flight where
  "winch1 = flight0\<lparr>getId := 8, getLaunchMethodId := 4\<rparr>"

definition towCache :: cache where
  "towCache = newCache\<lparr>launchMethodsById := [3 \<mapsto> (lm_new 3)\<lparr>lm_type := typeAirtow\<rparr>, 4 \<mapsto> lm_new 4],
     flightsById := [7 \<mapsto> airtow1, 8 \<mapsto> winch1]\<rparr>"

lemma tow_example:
  "airtowMethod towCache airtow1 = Some ((lm_new 3)\<lparr>lm_type := typeAirtow\<rparr>)" "airtowMethod towCache winch1 = None"
  "getId airtow1 = 7" "getId winch1 = 8" "\<not> isTowflight airtow1" "\<not> isTowflight winch1"
  "getObject (flightsById towCache) 7 = Inr airtow1" "getObject (flightsById towCache) 8 = Inr winch1"
  by (simp_all add: airtowMethod_def towCache_def airtow1_def winch1_def flight0_def newFlight_def lm_new_def
      getObject_def lm_isAirtow_def isTowflight_def idValid_def idInvalid_def)

definition towRun :: "(cache \<times> source_change) list" where
  "towRun = [(towCache, SourceInsert 0 airtow1), (towCache, SourceInsert 1 winch1), (towCache, SourceUpdate 0)]"

lemma tow_run:
  "run_ok towCache towRun []" "sources_after towRun [] = [airtow1, winch1]" "indices_ok (map snd towRun) []"
  by (simp_all add: towRun_def source_after_def tow_example same_lookups_def)

theorem proxy_observed_witness:
  "replay [] (px_trace (px_run mem0 towRun (px_setSourceModel mem0 towCache (Some []) px_new)))
     = px_getList (px_run mem0 towRun (px_setSourceModel mem0 towCache (Some []) px_new))"
  using proxy_observed [OF tow_run(3), of mem0 towCache] by (simp add: Let_def)

theorem proxy_towflights_witness:
  "length (px_towflights (px_run mem0 towRun (px_setSourceModel mem0 towCache (Some []) px_new))) = 1"
  using proxy_towflights [OF _ tow_run(1), of mem0] by (simp add: Let_def tow_run tow_example)

theorem towref_symmetric_witness:
  "findTowref 0 (px_run mem0 towRun (px_setSourceModel mem0 towCache (Some []) px_new)) \<noteq> -1
    \<and> findTowref 1 (px_run mem0 towRun (px_setSourceModel mem0 towCache (Some []) px_new)) = -1"
proof -
  let ?p = "px_run mem0 towRun (px_setSourceModel mem0 towCache (Some []) px_new)"
  have s: "px_source ?p = Some [airtow1, winch1]" using px_run_final(1) [OF _ tow_run(1), of mem0] by (simp add: tow_run)
  then have n: "0 < px_size ?p" "1 < px_size ?p" "px_at 0 ?p = airtow1" "px_at 1 ?p = winch1" "px_at (Suc 0) ?p = winch1"
    by (simp_all add: px_size_def px_at_cases [OF s])
  have v: "\<forall>f \<in> set (sources_after towRun []). idValid (getId f) \<and> \<not> isTowflight f"
    by (simp add: tow_run tow_example idValid_def idInvalid_def)
  from towref_symmetric [OF _ tow_run(1) v refl n(1)] towref_symmetric [OF _ tow_run(1) v refl n(2)]
  show ?thesis by (simp add: n tow_example)
qed

end
