(* ===== verification/Sk_FlightTable.thy ===== *)
theory Sk_FlightTable
  imports Sk_FlightProxy Sk_Statistics
begin

text \<open>
  The flight table: the colours of the flights (\<^verbatim>\<open>src/src/flightColor.cpp\<close>), the cells
  (\<^verbatim>\<open>src/src/model/flightList/FlightModel.cpp\<close>), which rows and columns are shown and how they are sorted
  (\<^verbatim>\<open>FlightSortFilterProxyModel.cpp\<close>), and the view with its towflight jump, buttons, sorting and
  notifications (\<^verbatim>\<open>src/src/gui/widgets/FlightTableView.cpp\<close>).
\<close>

section \<open>Colours\<close>

datatype qcolor = QColor nat nat nat

definition lightRed :: qcolor where "lightRed = QColor 255 127 127"
definition lightBlue :: qcolor where "lightBlue = QColor 191 191 255"
definition towBlue :: qcolor where "towBlue = QColor 162 162 216"
definition lightGreen :: qcolor where "lightGreen = QColor 191 255 191"
definition yellow :: qcolor where "yellow = QColor 255 255 0"
definition lightYellow :: qcolor where "lightYellow = QColor 255 255 191"
definition magenta :: qcolor where "magenta = QColor 255 255 0"
definition white :: qcolor where "white = QColor 255 255 255"

lemmas color_defs = lightRed_def lightBlue_def towBlue_def lightGreen_def yellow_def lightYellow_def magenta_def white_def

text \<open>A line of the table: the conditions on mode, towflight, departed, landed and error (\<open>None\<close> for
  \<open>dontCare\<close>) and the colour. The first line that matches is used.\<close>

type_synonym color_line = "flight_mode option \<times> bool option \<times> bool option \<times> bool option \<times> bool option \<times> qcolor"

definition colorLines :: "color_line list" where
  "colorLines =
     [(None, Some True, None, None, Some True, lightRed),
      (None, Some False, None, None, Some True, lightRed),
      (Some modeLeaving, None, Some False, Some True, None, magenta),
      (Some modeLocal, None, Some False, Some True, None, magenta),
      (Some modeComing, Some False, None, Some False, Some False, lightBlue),
      (Some modeComing, Some False, None, Some True, Some False, lightGreen),
      (Some modeComing, Some True, None, None, Some False, magenta),
      (Some modeLeaving, Some False, Some False, None, Some False, lightYellow),
      (Some modeLeaving, Some False, Some True, None, Some False, lightGreen),
      (Some modeLeaving, Some True, Some False, None, Some False, yellow),
      (Some modeLeaving, Some True, Some True, None, Some False, lightGreen),
      (Some modeLocal, Some False, Some False, None, Some False, lightYellow),
      (Some modeLocal, Some False, Some True, Some False, Some False, lightBlue),
      (Some modeLocal, Some False, Some True, Some True, Some False, lightGreen),
      (Some modeLocal, Some True, Some False, None, Some False, yellow),
      (Some modeLocal, Some True, Some True, Some False, Some False, towBlue),
      (Some modeLocal, Some True, Some True, Some True, Some False, lightGreen)]"

definition farbe :: "'a option \<Rightarrow> 'a \<Rightarrow> bool" where
  "farbe condition v \<longleftrightarrow> (case condition of None \<Rightarrow> True | Some w \<Rightarrow> v = w)"

fun firstColor :: "color_line list \<Rightarrow> flight_mode \<Rightarrow> bool \<Rightarrow> bool \<Rightarrow> bool \<Rightarrow> bool \<Rightarrow> qcolor" where
  "firstColor [] mode error towflight departed landed = white"
| "firstColor ((m, t, d, l, e, color) # cs) mode error towflight departed landed =
     (if farbe m mode \<and> farbe t towflight \<and> farbe d departed \<and> farbe l landed \<and> farbe e error then color
      else firstColor cs mode error towflight departed landed)"

definition flightColor :: "flight_mode \<Rightarrow> bool \<Rightarrow> bool \<Rightarrow> bool \<Rightarrow> bool \<Rightarrow> qcolor" where
  "flightColor = firstColor colorLines"

text \<open>\<open>Flight::getColor\<close> of a flight without a remembered colour.\<close>

definition getColor :: "settings \<Rightarrow> cache_view \<Rightarrow> flight \<Rightarrow> qcolor" where
  "getColor s cv f =
     flightColor (getMode f) (fst (isErroneous s cv f) \<noteq> None) (isTowflight f) (getDeparted f) (getLanded f)"

section \<open>The cells\<close>

datatype data_role = DisplayRole | csvExportRole | BackgroundRole | isButtonRole | buttonTextRole | OtherRole

datatype cell = Cell qvariant | ColorCell qcolor

record flightModel =
  fm_colorEnabled :: bool
  fm_buttonsEnabled :: bool

definition fm_new :: flightModel where
  "fm_new = \<lparr>fm_colorEnabled = True, fm_buttonsEnabled = True\<rparr>"

definition setColorEnabled :: "bool \<Rightarrow> flightModel \<Rightarrow> flightModel" where
  "setColorEnabled b m = m\<lparr>fm_colorEnabled := b\<rparr>"

definition setButtonsEnabled :: "bool \<Rightarrow> flightModel \<Rightarrow> flightModel" where
  "setButtonsEnabled b m = m\<lparr>fm_buttonsEnabled := b\<rparr>"

definition fm_columnCount :: nat where "fm_columnCount = 18"
definition pilotColumn :: nat where "pilotColumn = 3"
definition departButtonColumn :: nat where "departButtonColumn = 6"
definition landButtonColumn :: nat where "landButtonColumn = 7"
definition durationColumn :: nat where "durationColumn = 8"
definition vfIdColumn :: nat where "vfIdColumn = 15"
definition idColumn :: nat where "idColumn = 16"
definition flarmIdColumn :: nat where "flarmIdColumn = 17"

lemmas column_defs = departButtonColumn_def landButtonColumn_def

definition fm_headerData :: "settings \<Rightarrow> nat \<Rightarrow> data_role \<Rightarrow> qvariant" where
  "fm_headerData s column role =
     (if role = DisplayRole \<and> column < 18
      then VString ([''Reg.'', ''Model'', ''Type'',
        if set_anonymousMode s then ''Crew members'' else ''Pilot/Student'',
        if set_anonymousMode s then ''Passengers'' else ''Copilot/FI'',
        ''Launch method'', ''Departure'', ''Landing'', ''Duration'', ''Ldgs.'', ''Departure location'',
        ''Landing location'', ''Comments'', ''Accounting notes'', ''Date'', ''Uploaded to VF'', ''ID'', ''Flarm ID''] ! column)
      else VInvalid)"

text \<open>An unhandled column is an assertion that fails: \<open>None\<close>.\<close>

definition fm_columnName :: "settings \<Rightarrow> nat \<Rightarrow> qstring option" where
  "fm_columnName s column =
     (if column < 18
      then Some ([''registration'', ''aircraftType'', ''flightType'',
        if set_anonymousMode s then ''numCrew'' else ''pilot'', if set_anonymousMode s then ''numPax'' else ''copilot'',
        ''launchMethod'', ''departureTime'', ''landingTime'', ''flightDuration'', ''numLandings'', ''departureLocation'',
        ''landingLocation'', ''comments'', ''accountingNote'', ''date'', ''vfuploaded'', ''id'', ''flarmId''] ! column)
      else None)"

definition fm_sampleText :: "nat \<Rightarrow> qstring option" where
  "fm_sampleText column =
     (if column < 18
      then Some ([''N99999 (WW)'', ''DR-400/180'', ''Passenger (E)'', ''Xxxxxxxx, Yyyyyy (Twidd'', ''Xxxxxxxx, Yyyyyy (Twidd'',
        ''Launch method'', ''  Depart  '', ''  Land  '', ''00:00'', ''Ldgs.'', ''Twiddlethorpe'', ''Twiddlethorpe'',
        ''Cable break training'', ''Landing fee paid'', ''12/34/5678'', ''424242'', ''12345'', ''ABCDEF''] ! column)
      else None)"

subsection \<open>Texts\<close>

definition registrationData :: "qstring \<Rightarrow> cache \<Rightarrow> flight \<Rightarrow> qstring" where
  "registrationData fullTemplate c f = (case getObject (planesById c) (getPlaneId f) of
     Inr p \<Rightarrow> pl_fullRegistration fullTemplate p | Inl _ \<Rightarrow> ''???'')"

definition planeTypeData :: "cache \<Rightarrow> flight \<Rightarrow> qstring" where
  "planeTypeData c f = (case getObject (planesById c) (getPlaneId f) of Inr p \<Rightarrow> pl_type p | Inl _ \<Rightarrow> ''???'')"

definition pilotData :: "cache \<Rightarrow> flight \<Rightarrow> qstring" where
  "pilotData c f = (case getObject (peopleById c) (getPilotId f) of
     Inr p \<Rightarrow> pe_formalNameWithClub p | Inl _ \<Rightarrow> incompletePilotName f)"

definition copilotData :: "cache \<Rightarrow> flight \<Rightarrow> qstring" where
  "copilotData c f =
     (if typeCopilotRecorded (getType f)
      then (case getObject (peopleById c) (getCopilotId f) of
         Inr p \<Rightarrow> pe_formalNameWithClub p | Inl _ \<Rightarrow> incompleteCopilotName f)
      else if typeSupervisorRecorded (getType f)
      then (case getObject (peopleById c) (getSupervisorId f) of
         Inr p \<Rightarrow> qArg (qArg ''(%1: %2)'' ''Supervisor'') (pe_lastName p) | Inl _ \<Rightarrow> incompleteCopilotName f)
      else if typeIsGuest (getType f) then ''(Passenger)'' else ''-'')"

definition launchMethodData :: "cache \<Rightarrow> flight \<Rightarrow> qstring" where
  "launchMethodData c f =
     (if \<not> departsHere f then ''-''
      else if idInvalid (getLaunchMethodId f) \<and> isTowflight f then ''SL''
      else (case getObject (launchMethodsById c) (getLaunchMethodId f) of
         Inr l \<Rightarrow> lm_shortName l | Inl _ \<Rightarrow> ''?''))"

definition hhmm :: "qdatetime \<Rightarrow> qstring" where
  "hhmm t = (case t of None \<Rightarrow> []
     | Some m \<Rightarrow> twoPlaces (m div 3600000 mod 24) @ '':'' @ twoPlaces (m div 60000 mod 60))"

definition departureTimeData :: "flight \<Rightarrow> data_role \<Rightarrow> qstring" where
  "departureTimeData f role =
     (if \<not> canHaveDepartureTime f then ''-'' else if \<not> hasDepartureTime f then []
      else if role = csvExportRole then hhmm (getDepartureTime f) else hhmm (getDepartureTime f) @ ''Z'')"

definition landingTimeData :: "flight \<Rightarrow> data_role \<Rightarrow> qstring" where
  "landingTimeData f role =
     (if \<not> canHaveLandingTime f then ''-'' else if \<not> hasLandingTime f then []
      else if role = csvExportRole then hhmm (getLandingTime f) else hhmm (getLandingTime f) @ ''Z'')"

definition durationData :: "qdatetime \<Rightarrow> flight \<Rightarrow> qstring" where
  "durationData now f = (if \<not> hasDuration f then ''-'' else hmm (flightDuration now f))"

text \<open>The environment of the table: the settings, the template of full registrations, the system time zone
  and the current time.\<close>

record table_env =
  te_settings :: settings
  te_fullTemplate :: qstring
  te_timeZone :: qtimezone
  te_now :: qdatetime

definition fm_text :: "table_env \<Rightarrow> cache \<Rightarrow> flight \<Rightarrow> nat \<Rightarrow> data_role \<Rightarrow> qvariant" where
  "fm_text en c f column role =
     [VString (registrationData (te_fullTemplate en) c f), VString (planeTypeData c f),
      VString (shortTypeText (getType f)),
      if set_anonymousMode (te_settings en) then VInt (getNumCrew f) else VString (pilotData c f),
      if set_anonymousMode (te_settings en) then VInt (getNumPax f) else VString (copilotData c f),
      VString (launchMethodData c f), VString (departureTimeData f role), VString (landingTimeData f role),
      VString (durationData (te_now en) f), VInt (getNumLandings f), VString (getDepartureLocation f),
      VString (getLandingLocation f), VString (getComments f), VString (getAccountingNotes f),
      VDate (effdatum utc f), VString (if getVfId f = 0 then ''No'' else ''Yes''),
      VString (qArg (if isTowflight f then ''(%1)'' else ''%1'') (decimal (uint (getId f)))),
      VString (getFlarmId f)] ! column"

definition fm_isButton :: "table_env \<Rightarrow> flightModel \<Rightarrow> flight \<Rightarrow> nat \<Rightarrow> bool" where
  "fm_isButton en m f column =
     (if \<not> fm_buttonsEnabled m then False
      else if \<not> isPrepared f \<and> dateIn (te_timeZone en) (getDepartureTime f) \<noteq> dateIn (te_timeZone en) (te_now en) then False
      else if column = departButtonColumn then canDepart f
      else if column = landButtonColumn then canLand f
      else False)"

text \<open>\<open>None\<close> is the assertion for an unhandled column.\<close>

definition fm_data :: "table_env \<Rightarrow> cache \<Rightarrow> flightModel \<Rightarrow> flight \<Rightarrow> nat \<Rightarrow> data_role \<Rightarrow> cell option" where
  "fm_data en c m f column role =
     (if role = DisplayRole \<or> role = csvExportRole
      then (if column < 18 then Some (Cell (fm_text en c f column role)) else None)
      else if role = BackgroundRole
      then Some (if fm_colorEnabled m then ColorCell (getColor (te_settings en) (cacheView c) f) else Cell VInvalid)
      else if role = isButtonRole then Some (Cell (VBool (fm_isButton en m f column)))
      else if role = buttonTextRole
      then Some (Cell (if column = departButtonColumn then VString ''Depart''
         else if column = landButtonColumn then VString (if isTowflight f \<and> \<not> landsHere f then ''End'' else ''Land'')
         else VInvalid))
      else Some (Cell VInvalid))"

section \<open>Rows and columns\<close>

text \<open>FlightSortFilterProxyModel; columns are -1 when they are not set.\<close>

record rowFilter =
  rw_showPreparedFlights :: bool
  rw_hideFinishedFlights :: bool
  rw_alwaysShowExternalFlights :: bool
  rw_alwaysShowErroneousFlights :: bool
  rw_flightsForceVisible :: "flightReference list"
  rw_flarmIdColumn :: int
  rw_idColumn :: int
  rw_vfIdColumn :: int
  rw_acceptDebugColumns :: bool
  rw_acceptVfColumns :: bool
  rw_customSorting :: bool

definition rw_new :: "bool \<Rightarrow> bool \<Rightarrow> rowFilter" where
  "rw_new enableDebug vfUploadEnabled =
     \<lparr>rw_showPreparedFlights = True, rw_hideFinishedFlights = False, rw_alwaysShowExternalFlights = True,
      rw_alwaysShowErroneousFlights = True, rw_flightsForceVisible = [], rw_flarmIdColumn = -1, rw_idColumn = -1,
      rw_vfIdColumn = -1, rw_acceptDebugColumns = enableDebug, rw_acceptVfColumns = vfUploadEnabled,
      rw_customSorting = True\<rparr>"

text \<open>\<open>QSet<FlightReference>\<close>: each reference at most once.\<close>

definition setForceVisible :: "flightReference \<Rightarrow> bool \<Rightarrow> rowFilter \<Rightarrow> rowFilter" where
  "setForceVisible r forceVisible rw =
     (if forceVisible then rw\<lparr>rw_flightsForceVisible := List.insert r (rw_flightsForceVisible rw)\<rparr>
      else rw\<lparr>rw_flightsForceVisible := removeAll r (rw_flightsForceVisible rw)\<rparr>)"

definition setShowPreparedFlights :: "bool \<Rightarrow> rowFilter \<Rightarrow> rowFilter" where
  "setShowPreparedFlights b rw = rw\<lparr>rw_showPreparedFlights := b\<rparr>"
definition setHideFinishedFlights :: "bool \<Rightarrow> rowFilter \<Rightarrow> rowFilter" where
  "setHideFinishedFlights b rw = rw\<lparr>rw_hideFinishedFlights := b\<rparr>"
definition setAlwaysShowExternalFlights :: "bool \<Rightarrow> rowFilter \<Rightarrow> rowFilter" where
  "setAlwaysShowExternalFlights b rw = rw\<lparr>rw_alwaysShowExternalFlights := b\<rparr>"
definition setAlwaysShowErroneousFlights :: "bool \<Rightarrow> rowFilter \<Rightarrow> rowFilter" where
  "setAlwaysShowErroneousFlights b rw = rw\<lparr>rw_alwaysShowErroneousFlights := b\<rparr>"
definition rw_setCustomSorting :: "bool \<Rightarrow> rowFilter \<Rightarrow> rowFilter" where
  "rw_setCustomSorting b rw = rw\<lparr>rw_customSorting := b\<rparr>"
definition setFlarmIdColumn :: "int \<Rightarrow> rowFilter \<Rightarrow> rowFilter" where
  "setFlarmIdColumn n rw = rw\<lparr>rw_flarmIdColumn := n\<rparr>"
definition setIdColumn :: "int \<Rightarrow> rowFilter \<Rightarrow> rowFilter" where
  "setIdColumn n rw = rw\<lparr>rw_idColumn := n\<rparr>"
definition setVfIdColumn :: "int \<Rightarrow> rowFilter \<Rightarrow> rowFilter" where
  "setVfIdColumn n rw = rw\<lparr>rw_vfIdColumn := n\<rparr>"
definition rw_settingsChanged :: "bool \<Rightarrow> bool \<Rightarrow> rowFilter \<Rightarrow> rowFilter" where
  "rw_settingsChanged enableDebug vfUploadEnabled rw =
     rw\<lparr>rw_acceptDebugColumns := enableDebug, rw_acceptVfColumns := vfUploadEnabled\<rparr>"

text \<open>The row is given by its flight.\<close>

definition filterAcceptsRow :: "settings \<Rightarrow> cache \<Rightarrow> rowFilter \<Rightarrow> flight \<Rightarrow> bool" where
  "filterAcceptsRow s c rw f =
     (if rf_of f \<in> set (rw_flightsForceVisible rw) then True
      else if isPrepared f
      then (if \<not> rw_showPreparedFlights rw then False
            else if isTowflight f then False
            else True)
      else if finished f
      then (if \<not> rw_hideFinishedFlights rw then True
            else if rw_alwaysShowExternalFlights rw \<and> isExternal f then True
            else if rw_alwaysShowErroneousFlights rw \<and> fst (isErroneous s (cacheView c) f) \<noteq> None then True
            else False)
      else True)"

definition filterAcceptsColumn :: "rowFilter \<Rightarrow> int \<Rightarrow> bool" where
  "filterAcceptsColumn rw column =
     (if column = rw_flarmIdColumn rw \<or> column = rw_idColumn rw then rw_acceptDebugColumns rw
      else if column = rw_vfIdColumn rw then rw_acceptVfColumns rw
      else True)"

text \<open>\<open>defaultLess\<close> is the comparison of the base class, of the texts of the sort column.\<close>

definition rw_lessThan :: "(flight \<Rightarrow> flight \<Rightarrow> bool) \<Rightarrow> rowFilter \<Rightarrow> flight \<Rightarrow> flight \<Rightarrow> bool" where
  "rw_lessThan defaultLess rw f g = (if rw_customSorting rw then flight_less f g else defaultLess f g)"

section \<open>The view\<close>

text \<open>The view: its list, its filter, the sort column (-1 for the time) and order, and the notifications that
  are open, each a widget and its flight.\<close>

record tableView =
  tv_proxy :: flightProxy
  tv_filter :: rowFilter
  tv_sortColumn :: int
  tv_ascending :: bool
  tv_notifications :: "(nat \<times> flightReference) list"

text \<open>How the cells of a column compare is a parameter.\<close>

record view_env =
  ve_settings :: settings
  ve_cache :: cache
  ve_columnLess :: "int \<Rightarrow> flight \<Rightarrow> flight \<Rightarrow> bool"

text \<open>The rows of the source in the order they are shown: QSortFilterProxyModel sorts the accepted rows
  with a stable sort, in descending order with the comparison turned around.\<close>

definition acceptedRows :: "view_env \<Rightarrow> tableView \<Rightarrow> nat list" where
  "acceptedRows en tv = filter (\<lambda>n. filterAcceptsRow (ve_settings en) (ve_cache en) (tv_filter tv) (px_at n (tv_proxy tv)))
     [0..<px_size (tv_proxy tv)]"

definition shownRows :: "view_env \<Rightarrow> tableView \<Rightarrow> nat list" where
  "shownRows en tv =
     (let lt = (\<lambda>m n. rw_lessThan (ve_columnLess en (tv_sortColumn tv)) (tv_filter tv)
                 (px_at m (tv_proxy tv)) (px_at n (tv_proxy tv)))
      in std_sort (if rw_customSorting (tv_filter tv) \<or> tv_ascending tv then lt else (\<lambda>m n. lt n m)) (acceptedRows en tv))"

definition mapToSource :: "view_env \<Rightarrow> tableView \<Rightarrow> int \<Rightarrow> int" where
  "mapToSource en tv r =
     (if r < 0 \<or> nat r \<ge> length (shownRows en tv) then -1 else int (shownRows en tv ! nat r))"

fun indexIn :: "nat \<Rightarrow> nat list \<Rightarrow> nat option" where
  "indexIn n [] = None"
| "indexIn n (m # ms) = (if n = m then Some 0 else map_option Suc (indexIn n ms))"

definition mapFromSource :: "view_env \<Rightarrow> tableView \<Rightarrow> int \<Rightarrow> int" where
  "mapFromSource en tv n =
     (if n < 0 then -1 else case indexIn (nat n) (shownRows en tv) of Some r \<Rightarrow> int r | None \<Rightarrow> -1)"

definition getModelIndex :: "view_env \<Rightarrow> tableView \<Rightarrow> flightReference \<Rightarrow> int" where
  "getModelIndex en tv r = mapFromSource en tv (findModelIndex r (tv_proxy tv))"

definition tv_getFlightReference :: "view_env \<Rightarrow> tableView \<Rightarrow> int \<Rightarrow> flightReference" where
  "tv_getFlightReference en tv r = getFlightReference (mapToSource en tv r) (tv_proxy tv)"

text \<open>The new current row, or nothing when the selection stays.\<close>

definition selectFlight :: "view_env \<Rightarrow> tableView \<Rightarrow> flightReference \<Rightarrow> int option" where
  "selectFlight en tv r =
     (if \<not> rf_isValid r then None
      else let i = getModelIndex en tv r in if i < 0 then None else Some i)"

text \<open>The jump shows a warning or sets the current row, which is -1 for an invalid index.\<close>

datatype jump = JumpWarning qstring qstring | JumpTo int

definition interactiveJumpToTowflight :: "view_env \<Rightarrow> tableView \<Rightarrow> int \<Rightarrow> jump" where
  "interactiveJumpToTowflight en tv current =
     (let n = mapToSource en tv current in
      if n < 0 then JumpWarning ''No flight selected'' ''No flight is selected.''
      else
        let f = px_at (nat n) (tv_proxy tv);
            towref = findTowref (nat n) (tv_proxy tv);
            cv = cacheView (ve_cache en)
        in
          if isAirtow cv f \<and> isPrepared f then JumpWarning ''No towflight'' ''The flight has not departed yet.''
          else if towref < 0
          then JumpWarning ''No towflight''
            (if \<not> departsHere f then ''The flight does not depart here.''
             else if \<not> isTowflight f \<and> \<not> isAirtow cv f then ''The flight is neither a towflight nor a towed flight.''
             else if \<not> getDeparted f then ''The flight has not departed yet.''
             else ''Towflight/towed flight not found'')
          else JumpTo (mapFromSource en tv towref))"

datatype click = DepartClicked flightReference | LandClicked flightReference | LogError qstring

definition base_buttonClicked :: "view_env \<Rightarrow> tableView \<Rightarrow> int \<Rightarrow> nat \<Rightarrow> click" where
  "base_buttonClicked en tv row column =
     (let n = mapToSource en tv row in
      if n < 0 then LogError ''A button with invalid persistent index was clicked.''
      else if column = departButtonColumn then DepartClicked (rf_of (px_at (nat n) (tv_proxy tv)))
      else if column = landButtonColumn then LandClicked (rf_of (px_at (nat n) (tv_proxy tv)))
      else LogError ''Unhandled button column'')"

subsection \<open>Sorting\<close>

definition setSorting :: "int \<Rightarrow> bool \<Rightarrow> tableView \<Rightarrow> tableView" where
  "setSorting column ascending tv =
     tv\<lparr>tv_filter := rw_setCustomSorting (\<not> column \<ge> 0) (tv_filter tv), tv_sortColumn := column, tv_ascending := ascending\<rparr>"

definition setCustomSorting :: "tableView \<Rightarrow> tableView" where
  "setCustomSorting tv = setSorting (-1) True tv"

definition toggleSorting :: "int \<Rightarrow> tableView \<Rightarrow> tableView" where
  "toggleSorting column tv =
     (if tv_sortColumn tv < 0 then setSorting column True tv
      else if tv_sortColumn tv = column \<and> tv_ascending tv then setSorting column False tv
      else if tv_sortColumn tv = column \<and> \<not> tv_ascending tv then setSorting (-1) True tv
      else setSorting column True tv)"

subsection \<open>Notifications\<close>

text \<open>\<open>w\<close> is the new widget. Closing takes the widget out of the hash; a widget that is not there gives the
  default reference.\<close>

definition showNotification :: "nat \<Rightarrow> flightReference \<Rightarrow> tableView \<Rightarrow> tableView" where
  "showNotification w r tv =
     tv\<lparr>tv_filter := setForceVisible r True (tv_filter tv), tv_notifications := tv_notifications tv @ [(w, r)]\<rparr>"

definition notificationWidget_closed :: "nat \<Rightarrow> tableView \<Rightarrow> tableView" where
  "notificationWidget_closed w tv =
     (let r = (case map_of (tv_notifications tv) w of Some r \<Rightarrow> r | None \<Rightarrow> rf_invalid)
      in tv\<lparr>tv_notifications := filter (\<lambda>(v, _). v \<noteq> w) (tv_notifications tv),
            tv_filter := setForceVisible r False (tv_filter tv)\<rparr>)"

text \<open>Which widgets are placed next to a row, and which are hidden.\<close>

definition layoutNotifications :: "view_env \<Rightarrow> tableView \<Rightarrow> (nat \<times> int option) list" where
  "layoutNotifications en tv = map (\<lambda>(w, r).
     let i = getModelIndex en tv r in (w, if i < 0 then None else Some i)) (tv_notifications tv)"

text \<open>\<open>init\<close> and the slots that set the options.\<close>

definition tv_init :: "bool \<Rightarrow> bool \<Rightarrow> tableView" where
  "tv_init enableDebug vfUploadEnabled = setCustomSorting
     \<lparr>tv_proxy = px_new,
      tv_filter = setVfIdColumn (int vfIdColumn) (setIdColumn (int idColumn) (setFlarmIdColumn (int flarmIdColumn)
        (rw_new enableDebug vfUploadEnabled))),
      tv_sortColumn = -1, tv_ascending = True, tv_notifications = []\<rparr>"

definition tv_setModel :: "flight \<Rightarrow> cache \<Rightarrow> flight list option \<Rightarrow> tableView \<Rightarrow> tableView" where
  "tv_setModel mem c xs tv = tv\<lparr>tv_proxy := px_setSourceModel mem c xs (tv_proxy tv)\<rparr>"

definition tv_setShowPreparedFlights :: "bool \<Rightarrow> tableView \<Rightarrow> tableView" where
  "tv_setShowPreparedFlights b tv = tv\<lparr>tv_filter := setShowPreparedFlights b (tv_filter tv)\<rparr>"
definition tv_setHideFinishedFlights :: "bool \<Rightarrow> tableView \<Rightarrow> tableView" where
  "tv_setHideFinishedFlights b tv = tv\<lparr>tv_filter := setHideFinishedFlights b (tv_filter tv)\<rparr>"
definition tv_setAlwaysShowExternalFlights :: "bool \<Rightarrow> tableView \<Rightarrow> tableView" where
  "tv_setAlwaysShowExternalFlights b tv = tv\<lparr>tv_filter := setAlwaysShowExternalFlights b (tv_filter tv)\<rparr>"
definition tv_setAlwaysShowErroneousFlights :: "bool \<Rightarrow> tableView \<Rightarrow> tableView" where
  "tv_setAlwaysShowErroneousFlights b tv = tv\<lparr>tv_filter := setAlwaysShowErroneousFlights b (tv_filter tv)\<rparr>"

section \<open>What the colours mean\<close>

text \<open>C21: the table of colours covers every flight: no combination of mode, towflight, departed, landed and error
  falls through to white, and light red is exactly the colour of an erroneous flight. For a flight without
  error that is no towflight and has not landed without departing, light green means finished, light yellow that
  its departure is still to come and light blue that it is to land.\<close>

theorem flightColor_meaning:
  "flightColor mode error towflight departed landed \<noteq> white
    \<and> (flightColor mode error towflight departed landed = lightRed \<longleftrightarrow> error)
    \<and> (fst (isErroneous s cv f) = None \<longrightarrow> \<not> isTowflight f \<longrightarrow> (departsHere f \<and> getLanded f \<longrightarrow> getDeparted f) \<longrightarrow>
        (getColor s cv f = lightGreen \<longleftrightarrow> finished f)
        \<and> (getColor s cv f = lightYellow \<longleftrightarrow> departsHere f \<and> \<not> getDeparted f)
        \<and> (getColor s cv f = lightBlue \<longleftrightarrow> landsHere f \<and> \<not> getLanded f \<and> (departsHere f \<longrightarrow> getDeparted f)))"
proof -
  have "flightColor mode error towflight departed landed \<noteq> white
    \<and> (flightColor mode error towflight departed landed = lightRed \<longleftrightarrow> error)"
    by (cases mode; cases error; cases towflight; cases departed; cases landed;
        simp add: flightColor_def colorLines_def farbe_def color_defs)
  moreover have "(getColor s cv f = lightGreen \<longleftrightarrow> finished f)
      \<and> (getColor s cv f = lightYellow \<longleftrightarrow> departsHere f \<and> \<not> getDeparted f)
      \<and> (getColor s cv f = lightBlue \<longleftrightarrow> landsHere f \<and> \<not> getLanded f \<and> (departsHere f \<longrightarrow> getDeparted f))"
    if "fst (isErroneous s cv f) = None" "\<not> isTowflight f" "departsHere f \<and> getLanded f \<longrightarrow> getDeparted f"
    using that by (cases "getMode f"; cases "getDeparted f"; cases "getLanded f";
        simp add: getColor_def flightColor_def colorLines_def farbe_def color_defs finished_def departsHere_def landsHere_def
          modeDepartsHere_def modeLandsHere_def)
  ultimately show ?thesis by blast
qed

theorem flightColor_meaning_witness:
  "getColor settings0 view0 (flight0\<lparr>cachedErrorsValid := True\<rparr>) = lightYellow"
proof -
  have "fst (isErroneous settings0 view0 (flight0\<lparr>cachedErrorsValid := True\<rparr>)) = None" "\<not> isTowflight (flight0\<lparr>cachedErrorsValid := True\<rparr>)"
    "\<not> getLanded (flight0\<lparr>cachedErrorsValid := True\<rparr>)" "departsHere (flight0\<lparr>cachedErrorsValid := True\<rparr>)"
    "\<not> getDeparted (flight0\<lparr>cachedErrorsValid := True\<rparr>)"
    by (simp_all add: isErroneous_def getErrors_def flight0_def newFlight_def isTowflight_def departsHere_def modeDepartsHere_def)
  then show ?thesis using flightColor_meaning [of modeLocal False False False False settings0 view0 "flight0\<lparr>cachedErrorsValid := True\<rparr>"]
    by blast
qed

text \<open>The colour for errors of the program is the one of a prepared towflight.\<close>

theorem magenta_is_yellow:
  "flightColor modeLeaving False True False False = flightColor modeLeaving False False False True"
  by (simp add: flightColor_def colorLines_def farbe_def color_defs)

section \<open>What is shown\<close>

text \<open>C19: a row whose departure or landing button can be pressed is never filtered away, whatever the options for
  finished flights, external flights and erroneous flights are: only a prepared flight can be hidden, when
  prepared flights are not shown or it is a towflight. The button's column is shown, too, and pressing
  it does what the text says: departing or landing the flight is possible.\<close>

theorem action_rows_visible:
  assumes "fm_isButton en m f column" "isPrepared f \<longrightarrow> rw_showPreparedFlights rw \<and> \<not> isTowflight f"
    "rw_flarmIdColumn rw = int flarmIdColumn" "rw_idColumn rw = int idColumn" "rw_vfIdColumn rw = int vfIdColumn"
  shows "filterAcceptsRow s c rw f \<and> filterAcceptsColumn rw (int column)
    \<and> (column = departButtonColumn \<and> fst (departNow now False f)
       \<or> column = landButtonColumn \<and> fst (landNow s now False f))"
proof -
  from assms(1) have b: "column = departButtonColumn \<and> canDepart f \<or> column = landButtonColumn \<and> canLand f"
    by (auto simp: fm_isButton_def split: if_splits)
  have "\<not> (\<not> isPrepared f \<and> finished f)"
    using b by (auto simp: can_defs isPrepared_def happened_def finished_def split: if_splits)
  then have "filterAcceptsRow s c rw f" using assms(2) by (auto simp: filterAcceptsRow_def)
  moreover have "filterAcceptsColumn rw (int column)"
    using b assms(3-5) by (auto simp: filterAcceptsColumn_def column_defs flarmIdColumn_def idColumn_def vfIdColumn_def)
  ultimately show ?thesis using b by (auto simp: departNow_def landNow_def Let_def)
qed

definition tableEnv1 :: table_env where
  "tableEnv1 = \<lparr>te_settings = settings0, te_fullTemplate = ''%1 (%2)'', te_timeZone = utc, te_now = Some 1000\<rparr>"

theorem action_rows_visible_witness:
  "filterAcceptsRow settings0 newCache (tv_filter (tv_setHideFinishedFlights True (tv_init False False))) flight0"
proof -
  have b: "fm_isButton tableEnv1 fm_new flight0 departButtonColumn"
    by (simp add: fm_isButton_def fm_new_def isPrepared_def happened_def flight0_def newFlight_def can_defs
        departsHere_def landsHere_def modeDepartsHere_def modeLandsHere_def)
  have "isPrepared flight0 \<longrightarrow> rw_showPreparedFlights (tv_filter (tv_setHideFinishedFlights True (tv_init False False)))
      \<and> \<not> isTowflight flight0"
    by (simp add: tv_setHideFinishedFlights_def setHideFinishedFlights_def tv_init_def setCustomSorting_def setSorting_def
        rw_setCustomSorting_def setVfIdColumn_def setIdColumn_def setFlarmIdColumn_def rw_new_def isTowflight_def
        flight0_def newFlight_def)
  from action_rows_visible [OF b this] show ?thesis
    by (simp add: tv_setHideFinishedFlights_def setHideFinishedFlights_def tv_init_def setCustomSorting_def setSorting_def
        rw_setCustomSorting_def setVfIdColumn_def setIdColumn_def setFlarmIdColumn_def rw_new_def)
qed

subsection \<open>Rows of the source and of the view\<close>

lemma indexIn_Some: "indexIn n ms = Some k \<Longrightarrow> k < length ms \<and> ms ! k = n"
  by (induction ms arbitrary: k) (auto split: if_splits)

lemma indexIn_None: "indexIn n ms = None \<longleftrightarrow> n \<notin> set ms"
  by (induction ms) auto

lemma indexIn_nth: "distinct ms \<Longrightarrow> k < length ms \<Longrightarrow> indexIn (ms ! k) ms = Some k"
  by (induction ms arbitrary: k) (auto simp: nth_Cons split: nat.splits)

lemma shownRows_distinct: "distinct (shownRows en tv)"
proof -
  have d: "distinct (std_sort lt ns)" if "distinct ns" for lt and ns :: "nat list"
    using that std_sort_distinct [of "\<lambda>n. n" lt ns] by simp
  show ?thesis unfolding shownRows_def Let_def by (rule d) (simp add: acceptedRows_def)
qed

lemma shownRows_set [simp]: "set (shownRows en tv)
   = {n. n < px_size (tv_proxy tv) \<and> filterAcceptsRow (ve_settings en) (ve_cache en) (tv_filter tv) (px_at n (tv_proxy tv))}"
  by (auto simp: shownRows_def Let_def acceptedRows_def)

lemma map_inverse:
  "mapToSource en tv r = int n \<Longrightarrow> mapFromSource en tv (int n) = r"
  "mapFromSource en tv (int n) = r \<Longrightarrow> r \<ge> 0 \<Longrightarrow> mapToSource en tv r = int n"
  using indexIn_nth [OF shownRows_distinct] indexIn_Some
  by (fastforce simp: mapToSource_def mapFromSource_def split: if_splits option.splits)+

lemma mapFromSource_shown: "mapFromSource en tv (int n) \<ge> 0 \<longleftrightarrow> n \<in> set (shownRows en tv)"
  using indexIn_None [of n "shownRows en tv"]
  by (auto simp: mapFromSource_def simp del: shownRows_set split: option.splits)

section \<open>The jump between a flight and its towflight\<close>


definition departed1 :: flight where
  "departed1 = airtow1\<lparr>getDeparted := True, getDepartureTime := Some 60000\<rparr>"

definition towView :: tableView where
  "towView = (tv_init False False)\<lparr>tv_proxy := px_run mem0 [] (px_setSourceModel mem0 towCache (Some [departed1]) px_new)\<rparr>"

definition towEnv :: view_env where
  "towEnv = \<lparr>ve_settings = settings0, ve_cache = towCache, ve_columnLess = (\<lambda>_ _ _. False)\<rparr>"

definition tow1 :: flight where
  "tow1 = makeTowflight mem0 9 invalidId departed1"

lemma towView_proxy: "px_source (tv_proxy towView) = Some [departed1]" "px_towflights (tv_proxy towView) = [tow1]"
    "px_size (tv_proxy towView) = 2" "px_at 0 (tv_proxy towView) = departed1" "px_at (Suc 0) (tv_proxy towView) = tow1"
proof -
  have a: "airtowMethod towCache departed1 = Some ((lm_new 3)\<lparr>lm_type := typeAirtow\<rparr>)"
    using tow_example(1) by (simp add: airtowMethod_def departed1_def split: if_splits)
  have "getTowplaneId departed1 = 9" by (simp add: departed1_def airtow1_def)
  then have t: "towplaneOf towCache departed1 ((lm_new 3)\<lparr>lm_type := typeAirtow\<rparr>) = 9"
    by (simp add: towplaneOf_def lm_towplaneKnown_def lm_new_def)
  show s: "px_source (tv_proxy towView) = Some [departed1]"
    using px_set_keeps(1) [of "[departed1]" mem0 towCache] by (simp add: towView_def px_keeps_def)
  show ts: "px_towflights (tv_proxy towView) = [tow1]"
    by (simp add: towView_def px_set_keeps(2) a t tow1_def)
  show "px_size (tv_proxy towView) = 2" by (simp add: px_size_def s ts)
  show "px_at 0 (tv_proxy towView) = departed1" using px_at_cases(1) [OF s, of 0] by simp
  show "px_at (Suc 0) (tv_proxy towView) = tow1" using px_at_cases(2) [OF s, of 0] ts by simp
qed

lemma towView_flights:
  "\<not> isPrepared departed1" "\<not> finished departed1" "\<not> isPrepared tow1" "\<not> finished tow1" "timeless departed1 tow1"
  if "timeless = (\<lambda>f g. effectiveTime f = effectiveTime g)"
  unfolding that
  by (simp_all add: departed1_def tow1_def airtow1_def flight0_def newFlight_def makeTowflight_def isPrepared_def happened_def
      finished_def departsHere_def landsHere_def modeDepartsHere_def modeLandsHere_def isTowflight_def effectiveTime_def)

lemma towView_rows: "shownRows towEnv towView = [0, 1]"
proof -
  note f = towView_flights [OF refl]
  have "rw_customSorting (tv_filter towView)"
    by (simp add: towView_def tv_init_def setCustomSorting_def setSorting_def rw_setCustomSorting_def)
  moreover have "acceptedRows towEnv towView = [0, 1]"
    using f by (simp add: acceptedRows_def towView_proxy filterAcceptsRow_def numeral_2_eq_2)
  moreover have "\<not> flight_less tow1 departed1"
    using f by (simp add: flight_less_key sort_key_def)
  ultimately show ?thesis
    by (simp add: shownRows_def rw_lessThan_def std_sort_def towView_proxy)
qed


text \<open>When the other row is hidden, nothing is selected and no message is shown.\<close>

theorem jump_hidden:
  assumes "mapToSource en tv r = int n" "findTowref n (tv_proxy tv) = int m" "m \<notin> set (shownRows en tv)"
    "\<not> isPrepared (px_at n (tv_proxy tv))"
  shows "interactiveJumpToTowflight en tv r = JumpTo (-1)"
proof -
  have "mapFromSource en tv (int m) = -1"
    using indexIn_None [of m "shownRows en tv"] assms(3) by (simp add: mapFromSource_def del: shownRows_set)
  then show ?thesis using assms by (simp add: interactiveJumpToTowflight_def Let_def)
qed

section \<open>Notifications\<close>

lemma force_visible [simp]:
  "rw_flightsForceVisible (setForceVisible r b rw)
     = (if b then List.insert r (rw_flightsForceVisible rw) else removeAll r (rw_flightsForceVisible rw))"
  by (simp add: setForceVisible_def)

lemma shown_source: "tv_proxy (showNotification w r tv) = tv_proxy tv" "tv_proxy (notificationWidget_closed w tv) = tv_proxy tv"
  by (simp_all add: showNotification_def notificationWidget_closed_def Let_def)

text \<open>A notification brings its flight onto the table: whatever the filter was, the row of the flight is shown
  and the new widget is placed next to a row that shows the flight.\<close>

theorem notification_shown:
  assumes "n < px_size (tv_proxy tv)" "rf_of (px_at n (tv_proxy tv)) = r" "findModelIndex r (tv_proxy tv) = int n"
  shows "n \<in> set (shownRows en (showNotification w r tv))
    \<and> (\<exists>k. (w, Some k) \<in> set (layoutNotifications en (showNotification w r tv))
         \<and> tv_getFlightReference en (showNotification w r tv) k = r)"
proof -
  let ?tv = "showNotification w r tv"
  have "r \<in> set (rw_flightsForceVisible (tv_filter ?tv))" by (simp add: showNotification_def)
  then have shown: "n \<in> set (shownRows en ?tv)" using assms by (simp add: shown_source filterAcceptsRow_def)
  then have k: "mapFromSource en ?tv (int n) \<ge> 0" by (simp only: mapFromSource_shown)
  have "(w, Some (mapFromSource en ?tv (int n))) \<in> set (layoutNotifications en ?tv)"
    using k assms(3) shown_source(1) [of w r tv]
    by (simp add: layoutNotifications_def getModelIndex_def Let_def) (simp add: showNotification_def)
  moreover have "tv_getFlightReference en ?tv (mapFromSource en ?tv (int n)) = r"
    using map_inverse(2) [OF refl k] assms(2) by (simp add: tv_getFlightReference_def getFlightReference_def shown_source)
  ultimately show ?thesis using shown by blast
qed

theorem notification_shown_witness:
  "0 \<in> set (shownRows towEnv (showNotification 3 (rf_of departed1) towView))"
proof -
  have "getId departed1 = 7" "\<not> isTowflight departed1"
    using tow_example(3,5) by (simp_all add: departed1_def isTowflight_def)
  then have "findModelIndex (rf_of departed1) (tv_proxy towView) = int 0"
    using px_findFlight_at [OF towView_proxy(1), of 0]
    by (simp add: findModelIndex_def rf_of_def rf_isValid_def idValid_def idInvalid_def)
  from notification_shown [of 0 towView, OF _ _ this] show ?thesis by (simp add: towView_proxy)
qed

text \<open>The set of flights that are kept visible does not count the notifications: when one of two notifications of
  a flight is closed, the flight is filtered again although the other one is still open.\<close>

theorem second_notification_hidden:
  assumes "w1 \<noteq> w2" "w1 \<notin> fst ` set (tv_notifications tv)" "w2 \<notin> fst ` set (tv_notifications tv)"
    "findModelIndex r (tv_proxy tv) = int n" "rf_of (px_at n (tv_proxy tv)) = r"
    "isPrepared (px_at n (tv_proxy tv))" "\<not> rw_showPreparedFlights (tv_filter tv)"
  shows "(w2, None) \<in> set (layoutNotifications en
      (notificationWidget_closed w1 (showNotification w2 r (showNotification w1 r tv))))"
proof -
  let ?tv = "notificationWidget_closed w1 (showNotification w2 r (showNotification w1 r tv))"
  have "map_of (tv_notifications tv @ [(w1, r), (w2, r)]) w1 = Some r"
    using assms(2) by (simp add: map_add_Some_iff map_of_eq_None_iff)
  then have "r \<notin> set (rw_flightsForceVisible (tv_filter ?tv))" "\<not> rw_showPreparedFlights (tv_filter ?tv)"
    using assms(7) by (simp_all add: notificationWidget_closed_def showNotification_def Let_def setForceVisible_def)
  then have "n \<notin> set (shownRows en ?tv)" using assms(5,6) by (simp add: shown_source filterAcceptsRow_def)
  then have "getModelIndex en ?tv r < 0"
    using mapFromSource_shown [of en ?tv n] assms(4) by (simp add: getModelIndex_def shown_source del: shownRows_set)
  moreover have "(w2, r) \<in> set (tv_notifications ?tv)"
    using assms(1) by (simp add: notificationWidget_closed_def showNotification_def Let_def)
  ultimately show ?thesis by (force simp: layoutNotifications_def)
qed

section \<open>Sorting by a column\<close>

text \<open>Three clicks on a header: ascending, descending, and back to the order by time.\<close>

lemma toggle_cycle:
  assumes "column \<ge> 0" "tv_sortColumn tv < 0"
  shows "tv_ascending (toggleSorting column tv)" "\<not> rw_customSorting (tv_filter (toggleSorting column tv))"
    "\<not> tv_ascending (toggleSorting column (toggleSorting column tv))"
    "toggleSorting column (toggleSorting column (toggleSorting column tv)) = setCustomSorting tv"
  using assms by (simp_all add: toggleSorting_def setSorting_def setCustomSorting_def rw_setCustomSorting_def)

text \<open>The order by time is a strict weak order, so that the rows are sorted.\<close>

lemma flight_less_weak: "strict_weak_order flight_less"
  by unfold_locales (auto simp: flight_less_key)

interpretation timeOrder: strict_weak_order flight_less
  by (rule flight_less_weak)

lemma strict_weak_rows: "strict_weak_order lt \<Longrightarrow> strict_weak_order (\<lambda>m n. lt (g m) (g n))"
  unfolding strict_weak_order_def by blast

text \<open>Sorted by time, the table shows every row that the filter accepts exactly once and no other, the flights that
  happened by their effective time and every prepared flight behind them.\<close>

theorem table_sorted:
  assumes "rw_customSorting (tv_filter tv)"
  shows "mset (shownRows en tv) = mset (acceptedRows en tv) \<and> distinct (shownRows en tv)
    \<and> sorted_wrt (\<lambda>m n. \<not> flight_less (px_at n (tv_proxy tv)) (px_at m (tv_proxy tv))) (shownRows en tv)
    \<and> sorted_wrt (\<lambda>m n. isPrepared (px_at m (tv_proxy tv)) \<longrightarrow> isPrepared (px_at n (tv_proxy tv))) (shownRows en tv)"
proof -
  let ?at = "\<lambda>n. px_at n (tv_proxy tv)"
  have rows: "shownRows en tv = std_sort (\<lambda>m n. flight_less (?at m) (?at n)) (acceptedRows en tv)"
    using assms by (simp add: shownRows_def rw_lessThan_def)
  have sorted: "sorted_wrt (\<lambda>m n. \<not> flight_less (?at n) (?at m)) (shownRows en tv)"
    unfolding rows by (rule strict_weak_order.std_sort_sorted [OF strict_weak_rows [OF flight_less_weak]])
  have "isPrepared (?at m) \<longrightarrow> isPrepared (?at n)" if "\<not> flight_less (?at n) (?at m)" for m n
    using that by (cases "isPrepared (?at n)") (auto simp: flight_less_key sort_key_def)
  then have "sorted_wrt (\<lambda>m n. isPrepared (?at m) \<longrightarrow> isPrepared (?at n)) (shownRows en tv)"
    by (rule sorted_wrt_mono_rel [OF _ sorted])
  moreover have "mset (shownRows en tv) = mset (acceptedRows en tv)" by (simp add: rows)
  ultimately show ?thesis using sorted shownRows_distinct by blast
qed

theorem table_sorted_witness:
  "mset (shownRows towEnv towView) = mset (acceptedRows towEnv towView)"
  using table_sorted [of towView towEnv]
  by (simp add: towView_def tv_init_def setCustomSorting_def setSorting_def rw_setCustomSorting_def)

end
