(* ===== verification/Sk_MainList.thy ===== *)
theory Sk_MainList
  imports Sk_FlightTable Sk_DbManager
begin

text \<open>
  The flight list of the main window, \<^verbatim>\<open>src/src/gui/windows/MainWindow.cpp\<close>: which day is displayed, building
  the list from the cache, and keeping it up to date with the events of the cache. The current date is
  a parameter, and so is fetching the flights of another date: it gives the new cache, or nothing when
  the user cancels it.
\<close>

section \<open>The list\<close>

record mainList =
  ml_cache :: cache
  ml_displayDate :: qdate
  ml_list :: "flight objectList"
  ml_databaseActionsEnabled :: bool
  ml_showPreparedFlights :: bool
  ml_resetDisplayDateOnNewFlight :: bool

type_synonym fetch = "qdate \<Rightarrow> cache \<Rightarrow> cache option"

text \<open>\<open>mem\<close> is the memory of new flights (see \<open>newFlight\<close>); no towflights are asked for.\<close>

definition ml_refreshFlights :: "flight \<Rightarrow> qdate \<Rightarrow> mainList \<Rightarrow> mainList" where
  "ml_refreshFlights mem today m =
     (let (flights, show) =
        (if ml_databaseActionsEnabled m
         then (if ml_displayDate m = today
               then (getFlightsToday mem (ml_cache m) False @ getPreparedFlights mem (ml_cache m) False, True)
               else (flightsOther (ml_cache m), False))
         else ([], ml_showPreparedFlights m))
      in m\<lparr>ml_showPreparedFlights := show, ml_list := ol_replaceList flights (ml_list m)\<rparr>)"

definition ml_setDisplayDate :: "flight \<Rightarrow> qdate \<Rightarrow> fetch \<Rightarrow> qdate \<Rightarrow> bool \<Rightarrow> mainList \<Rightarrow> mainList" where
  "ml_setDisplayDate mem today fetch newDisplayDate force m =
     (let d = (if newDisplayDate = None then today else newDisplayDate) in
      if d = ml_displayDate m \<and> \<not> force then m
      else ml_refreshFlights mem today
        (if d = today then m\<lparr>ml_displayDate := d\<rparr>
         else if d \<noteq> otherDate (ml_cache m)
         then (case fetch d (ml_cache m) of
                 Some c \<Rightarrow> m\<lparr>ml_cache := c, ml_displayDate := otherDate c\<rparr>
               | None \<Rightarrow> m)
         else m\<lparr>ml_displayDate := otherDate (ml_cache m)\<rparr>))"

definition ml_setDisplayDateCurrent :: "flight \<Rightarrow> qdate \<Rightarrow> fetch \<Rightarrow> bool \<Rightarrow> mainList \<Rightarrow> mainList" where
  "ml_setDisplayDateCurrent mem today fetch force m = ml_setDisplayDate mem today fetch today force m"

definition ml_updateFlights :: "(flight objectList \<Rightarrow> flight objectList) \<Rightarrow> mainList \<Rightarrow> mainList" where
  "ml_updateFlights g m = m\<lparr>ml_list := g (ml_list m)\<rparr>"

text \<open>The flights of the list are told the event at the end; no signal is sent for that.\<close>

definition ml_databaseChanged :: "db_event \<Rightarrow> mainList \<Rightarrow> mainList" where
  "ml_databaseChanged e m = ml_updateFlights (\<lambda>l. l\<lparr>rows := map (databaseChanged e) (rows l)\<rparr>) m"

definition ml_listEvent :: "flight \<Rightarrow> qdate \<Rightarrow> fetch \<Rightarrow> db_event \<Rightarrow> mainList \<Rightarrow> mainList" where
  "ml_listEvent mem today fetch e m =
     (if ev_table e \<noteq> tableFlights then m
      else (case ev_type e of
          typeAdd \<Rightarrow> (case valueFlight (ev_value e) of
              Some f \<Rightarrow>
                (let m1 = (if isPrepared f \<or> effdatum utc f = ml_displayDate m then ml_updateFlights (ol_append f) m else m)
                 in if ml_resetDisplayDateOnNewFlight m1
                    then (if isPrepared f then ml_setDisplayDateCurrent mem today fetch False m1
                          else ml_setDisplayDate mem today fetch (effdatum utc f) False m1)
                    else m1)
            | None \<Rightarrow> m)
        | typeChange \<Rightarrow> (case valueFlight (ev_value e) of
              Some f \<Rightarrow>
                (if isPrepared f \<or> effdatum utc f = ml_displayDate m
                 then ml_updateFlights (replaceOrAdd getId (getId f) f) m
                 else ml_updateFlights (removeById getId (getId f)) m)
            | None \<Rightarrow> m)
        | typeDelete \<Rightarrow> ml_updateFlights (removeById getId (ev_id e)) m))"

definition ml_cacheChanged :: "flight \<Rightarrow> qdate \<Rightarrow> fetch \<Rightarrow> db_event \<Rightarrow> mainList \<Rightarrow> mainList" where
  "ml_cacheChanged mem today fetch e m = ml_databaseChanged e (ml_listEvent mem today fetch e m)"

text \<open>An event of the database: the cache handles it and re-emits it for the window. \<open>None\<close> is a crash.\<close>

definition ml_event :: "flight \<Rightarrow> qdate \<Rightarrow> fetch \<Rightarrow> db_event \<Rightarrow> mainList \<Rightarrow> mainList option" where
  "ml_event mem today fetch e m =
     map_option (\<lambda>(c, e'). ml_cacheChanged mem today fetch e' (m\<lparr>ml_cache := c\<rparr>)) (dbChanged e (ml_cache m))"

text \<open>The labels: the number of flying flights (only for today) and of those that happened; \<open>None\<close> is a dash.\<close>

definition ml_flightListChanged :: "qdate \<Rightarrow> mainList \<Rightarrow> int option \<times> int option" where
  "ml_flightListChanged today m =
     (let flights = rows (ml_list m) in
      (if ml_databaseActionsEnabled m \<and> ml_displayDate m = today then Some (countFlying flights) else None,
       if ml_databaseActionsEnabled m then Some (countHappened flights) else None))"

definition ml_databaseStateChanged :: "flight \<Rightarrow> qdate \<Rightarrow> fetch \<Rightarrow> manager_state \<Rightarrow> mainList \<Rightarrow> mainList" where
  "ml_databaseStateChanged mem today fetch state m =
     (case state of
        stateConnected \<Rightarrow> ml_setDisplayDateCurrent mem today fetch True (m\<lparr>ml_databaseActionsEnabled := True\<rparr>)
      | _ \<Rightarrow> ml_refreshFlights mem today (m\<lparr>ml_databaseActionsEnabled := False\<rparr>))"

text \<open>The flights the statistics are made from.\<close>

definition ml_statisticsFlights :: "flight \<Rightarrow> mainList \<Rightarrow> flight list" where
  "ml_statisticsFlights mem m =
     rows (ml_list m) @ makeTowflights mem (cacheView (ml_cache m)) (rows (ml_list m))"

section \<open>Lists of the rows between two properties\<close>

text \<open>The list holds every row with \<open>lo\<close> and only rows with \<open>hi\<close>, each once.\<close>

definition listed :: "(flight \<Rightarrow> bool) \<Rightarrow> (flight \<Rightarrow> bool) \<Rightarrow> flight list \<Rightarrow> (dbId \<rightharpoonup> flight) \<Rightarrow> bool" where
  "listed lo hi xs db \<longleftrightarrow> distinct (map getId xs) \<and> set xs \<subseteq> {f \<in> ran db. hi f} \<and> {f \<in> ran db. lo f} \<subseteq> set xs"

lemma listed_add:
  assumes "listed lo hi xs db" "table_ok getId db" "db (getId f) = None" "\<And>f. lo f \<Longrightarrow> hi f"
  shows "listed lo hi (if hi f then xs @ [f] else xs) (db(getId f \<mapsto> f))"
proof -
  have "getId f \<notin> getId ` set xs" using assms(1-3) by (auto simp: listed_def table_ran)
  moreover have "ran (db(getId f \<mapsto> f)) = insert f (ran db)" using assms(3) by simp
  ultimately show ?thesis using assms(1,4) unfolding listed_def by (cases "hi f") auto
qed

lemma listed_remove:
  "listed lo hi xs db \<Longrightarrow> table_ok getId db \<Longrightarrow> listed lo hi (filter (\<lambda>z. getId z \<noteq> i) xs) (db(i := None))"
  unfolding listed_def by (auto simp: table_delete distinct_map_filter)

lemma listed_change:
  assumes "listed lo hi xs db" "table_ok getId db" "\<And>f. lo f \<Longrightarrow> hi f"
  shows "listed lo hi (if hi f then el_replaceOrAdd getId (getId f) f xs else el_removeById getId (getId f) xs) (db(getId f \<mapsto> f))"
proof -
  have ran: "ran (db(getId f \<mapsto> f)) = insert f {z \<in> ran db. getId z \<noteq> getId f}" by (rule table_update [OF assms(2)])
  have old: "distinct (map getId xs)" "set xs \<subseteq> {f \<in> ran db. hi f}" "{f \<in> ran db. lo f} \<subseteq> set xs"
    using assms(1) by (simp_all add: listed_def)
  consider "hi f" "getId f \<in> getId ` set xs" | "hi f" "getId f \<notin> getId ` set xs" | "\<not> hi f" by blast
  then show ?thesis
  proof cases
    case 1
    then have "set (el_replaceOrAdd getId (getId f) f xs) = insert f {z \<in> set xs. getId z \<noteq> getId f}"
      by (simp only: el_simps if_True set_update_by_id)
    moreover have "map getId (el_replaceOrAdd getId (getId f) f xs) = map getId xs"
      using 1(2) by (simp only: el_simps if_True map_update_ids)
    ultimately show ?thesis using old 1(1) unfolding listed_def ran by (auto simp del: el_simps)
  next
    case 2
    then have "\<forall>z \<in> set xs. getId z \<noteq> getId f" by (metis imageI)
    with 2 show ?thesis using old unfolding listed_def ran by auto
  next
    case 3
    then have "\<not> lo f" using assms(3) by blast
    with 3 show ?thesis using old unfolding listed_def ran by (auto simp: distinct_map_filter)
  qed
qed

text \<open>The flights of the list may have lost their remembered errors: they are compared without them.\<close>

lemma dataChanged_simps [simp]:
  "getId (dataChanged f) = getId f" "isPrepared (dataChanged f) = isPrepared f" "effdatum tz (dataChanged f) = effdatum tz f"
  "dataChanged (databaseChanged e f) = dataChanged f" "getId (databaseChanged e f) = getId f"
  by (simp_all add: dataChanged_def databaseChanged_def isPrepared_def happened_def departsHere_def landsHere_def
      effdatum_def effectiveTime_def split: db_table.split)

definition same_flights :: "flight list \<Rightarrow> flight list \<Rightarrow> bool" where
  "same_flights xs ys \<longleftrightarrow> map dataChanged xs = map dataChanged ys"

lemma same_ids: "same_flights xs ys \<Longrightarrow> map getId xs = map getId ys"
proof -
  assume "same_flights xs ys"
  then have "map getId (map dataChanged xs) = map getId (map dataChanged ys)" by (simp add: same_flights_def)
  then show ?thesis by (simp add: comp_def)
qed

lemma same_filter:
  "same_flights xs ys \<Longrightarrow> (\<And>f. P (dataChanged f) = P f) \<Longrightarrow> same_flights (filter P xs) (filter P ys)"
proof -
  assume s: "same_flights xs ys" and p: "\<And>f. P (dataChanged f) = P f"
  have "map dataChanged (filter P zs) = filter P (map dataChanged zs)" for zs
    by (induction zs) (simp_all add: p)
  with s show ?thesis by (simp add: same_flights_def)
qed

lemma same_replaceOrAdd:
  assumes "same_flights xs ys"
  shows "same_flights (el_replaceOrAdd getId i f xs) (el_replaceOrAdd getId i f ys)"
proof -
  have "getId ` set xs = getId ` set ys" using same_ids [OF assms] by (metis set_map)
  moreover have "map dataChanged (map (\<lambda>y. if getId y = i then f else y) zs)
      = map (\<lambda>y. if getId y = i then dataChanged f else y) (map dataChanged zs)" for zs
    by simp
  ultimately show ?thesis using assms by (simp add: same_flights_def del: map_map)
qed

lemma same_append: "same_flights xs ys \<Longrightarrow> same_flights (xs @ [f]) (ys @ [f])"
  by (simp add: same_flights_def)

lemma same_databaseChanged: "same_flights xs ys \<Longrightarrow> same_flights (map (databaseChanged e) xs) ys"
  by (simp add: same_flights_def comp_def)

section \<open>The list follows the database\<close>

text \<open>Fetching brings the flights of the asked date into the cache, and leaves it a mirror of the database.\<close>

definition fetch_follows :: "fetch \<Rightarrow> tables \<Rightarrow> bool" where
  "fetch_follows fetch d \<longleftrightarrow> (\<forall>t c c'. cacheMirrors c d \<and> todayDate c \<noteq> Some t \<and> fetch (Some t) c = Some c'
     \<longrightarrow> cacheMirrors c' d \<and> todayDate c' = todayDate c \<and> otherDate c' = Some t)"

text \<open>The fetch of the cache is such a function.\<close>

lemma cache_fetch_follows:
  assumes "source_ok src d"
  shows "fetch_follows (\<lambda>t c. Some (fetchFlightsOther t src c)) d"
  using fetchFlightsOther_mirrors [OF assms] fetchFlightsOther_lists
  by (auto simp: fetch_follows_def)

definition hiddenOrDate :: "qdate \<Rightarrow> flight \<Rightarrow> bool" where
  "hiddenOrDate t f \<longleftrightarrow> isPrepared f \<or> effdatum utc f = t"

definition shownOnDate :: "qdate \<Rightarrow> qdate \<Rightarrow> flight \<Rightarrow> bool" where
  "shownOnDate today t f \<longleftrightarrow> (if isPrepared f then t = today else effdatum utc f = t)"

definition list_ok :: "qdate \<Rightarrow> tables \<Rightarrow> mainList \<Rightarrow> bool" where
  "list_ok today d m \<longleftrightarrow> cacheMirrors (ml_cache m) d \<and> todayDate (ml_cache m) = today \<and> ml_databaseActionsEnabled m
     \<and> (ml_displayDate m = today \<or> ml_displayDate m = otherDate (ml_cache m) \<and> ml_displayDate m \<noteq> None)
     \<and> ml_showPreparedFlights m = (ml_displayDate m = today)
     \<and> (\<exists>xs. same_flights (rows (ml_list m)) xs
          \<and> listed (shownOnDate today (ml_displayDate m)) (hiddenOrDate (ml_displayDate m)) xs (tb_flights d))"

lemma shown_hidden: "shownOnDate today t f \<Longrightarrow> hiddenOrDate t f"
  by (auto simp: shownOnDate_def hiddenOrDate_def split: if_splits)

lemma prepared_no_date: "isPrepared f \<Longrightarrow> effdatum utc f = None"
  by (auto simp: isPrepared_def happened_def effdatum_def effectiveTime_def dateIn_def split: if_splits)

lemma shown_other: "otherDate c \<noteq> todayDate c \<Longrightarrow> shownOnDate (todayDate c) (otherDate c) f = isOther c f"
  by (auto simp: shownOnDate_def isOther_def)

lemma hidden_other: "isOther c f \<Longrightarrow> hiddenOrDate (otherDate c) f"
  by (simp add: hiddenOrDate_def isOther_def)

lemma holds_listed:
  "holds getId P xs db \<Longrightarrow> (\<And>f. lo f = P f) \<Longrightarrow> (\<And>f. P f \<Longrightarrow> hi f) \<Longrightarrow> listed lo hi xs db"
  unfolding holds_def listed_def by blast

lemma refreshed_ok:
  assumes "cacheMirrors (ml_cache m) d" "todayDate (ml_cache m) = today" "today \<noteq> None" "ml_databaseActionsEnabled m"
    "ml_displayDate m = today \<or> ml_displayDate m = otherDate (ml_cache m) \<and> ml_displayDate m \<noteq> None"
  shows "list_ok today d (ml_refreshFlights mem today m)"
proof -
  let ?c = "ml_cache m" and ?db = "tb_flights d"
  have mir: "table_ok getId ?db" "holds getId isPrepared (preparedFlights ?c) ?db" "holds getId (isToday ?c) (flightsToday ?c) ?db"
    "holds getId (isOther ?c) (flightsOther ?c) ?db"
    using assms(1) by (simp_all add: cacheMirrors_def flightsMirror_def)
  have "listed (shownOnDate today (ml_displayDate m)) (hiddenOrDate (ml_displayDate m))
      (rows (ml_list (ml_refreshFlights mem today m))) ?db"
  proof (cases "ml_displayDate m = today")
    case True
    then have r: "rows (ml_list (ml_refreshFlights mem today m)) = flightsToday ?c @ preparedFlights ?c"
      using assms(4) by (simp add: ml_refreshFlights_def getFlightsToday_def getPreparedFlights_def)
    have "getId f \<notin> getId ` set (preparedFlights ?c)" if f: "f \<in> set (flightsToday ?c)" for f
      using holds_disjoint [OF mir(1,3,2) f] f mir(3) by (auto simp: holds_def isToday_def)
    then have "distinct (map getId (flightsToday ?c @ preparedFlights ?c))"
      using mir(2,3) by (auto simp: holds_def)
    then show ?thesis
      using mir(2,3) True assms(2) unfolding r listed_def
      by (auto simp: holds_def isToday_def shownOnDate_def hiddenOrDate_def)
  next
    case False
    then have o: "ml_displayDate m = otherDate ?c" "otherDate ?c \<noteq> None" using assms(5) by metis+
    have r: "rows (ml_list (ml_refreshFlights mem today m)) = flightsOther ?c"
      using assms(4) False by (simp add: ml_refreshFlights_def)
    have ne: "otherDate ?c \<noteq> todayDate ?c" using False o(1) assms(2) by simp
    have "listed (shownOnDate (todayDate ?c) (otherDate ?c)) (hiddenOrDate (otherDate ?c)) (flightsOther ?c) ?db"
      by (rule holds_listed [OF mir(4)]) (simp_all add: shown_other [OF ne] hidden_other)
    then show ?thesis using r o(1) assms(2) by simp
  qed
  moreover have "same_flights xs xs" for xs by (simp add: same_flights_def)
  moreover have "ml_cache (ml_refreshFlights mem today m) = ?c"
    "ml_displayDate (ml_refreshFlights mem today m) = ml_displayDate m"
    "ml_databaseActionsEnabled (ml_refreshFlights mem today m)"
    "ml_showPreparedFlights (ml_refreshFlights mem today m) = (ml_displayDate m = today)"
    using assms(4) by (simp_all add: ml_refreshFlights_def)
  ultimately show ?thesis
    using assms(1,2,5) unfolding list_ok_def by metis
qed

lemma setDisplayDate_ok:
  assumes "list_ok today d m" "fetch_follows fetch d" "today \<noteq> None"
  shows "list_ok today d (ml_setDisplayDate mem today fetch t force m)"
proof -
  define u where "u = (if t = None then today else t)"
  have set: "ml_setDisplayDate mem today fetch t force m =
     (if u = ml_displayDate m \<and> \<not> force then m
      else ml_refreshFlights mem today
        (if u = today then m\<lparr>ml_displayDate := u\<rparr>
         else if u \<noteq> otherDate (ml_cache m)
         then (case fetch u (ml_cache m) of Some c \<Rightarrow> m\<lparr>ml_cache := c, ml_displayDate := otherDate c\<rparr> | None \<Rightarrow> m)
         else m\<lparr>ml_displayDate := otherDate (ml_cache m)\<rparr>))"
    by (simp only: ml_setDisplayDate_def Let_def u_def)
  have m: "cacheMirrors (ml_cache m) d" "todayDate (ml_cache m) = today" "ml_databaseActionsEnabled m"
    "ml_displayDate m = today \<or> ml_displayDate m = otherDate (ml_cache m) \<and> ml_displayDate m \<noteq> None"
    using assms(1) by (simp_all add: list_ok_def)
  consider "u = ml_displayDate m \<and> \<not> force" | "\<not> (u = ml_displayDate m \<and> \<not> force)" "u = today"
    | "\<not> (u = ml_displayDate m \<and> \<not> force)" "u \<noteq> today" by blast
  then show ?thesis
  proof cases
    case 1
    then show ?thesis unfolding set using assms(1) by simp
  next
    case 2
    have "list_ok today d (ml_refreshFlights mem today (m\<lparr>ml_displayDate := u\<rparr>))"
      by (rule refreshed_ok) (use m assms(3) 2(2) in simp_all)
    then show ?thesis unfolding set if_not_P [OF 2(1)] if_P [OF 2(2)] .
  next
    case 3
    then obtain k where k: "u = Some k" using assms(3) unfolding u_def by (cases t) auto
    let ?m = "if u \<noteq> otherDate (ml_cache m)
      then (case fetch u (ml_cache m) of Some c \<Rightarrow> m\<lparr>ml_cache := c, ml_displayDate := otherDate c\<rparr> | None \<Rightarrow> m)
      else m\<lparr>ml_displayDate := otherDate (ml_cache m)\<rparr>"
    have "list_ok today d (ml_refreshFlights mem today ?m)"
    proof (cases "u \<noteq> otherDate (ml_cache m)")
      case True
      show ?thesis
      proof (cases "fetch u (ml_cache m)")
        case None
        then show ?thesis using refreshed_ok [OF m(1,2) assms(3) m(3,4)] True by simp
      next
        case (Some c')
        then have "cacheMirrors c' d \<and> todayDate c' = todayDate (ml_cache m) \<and> otherDate c' = Some k"
          using assms(2) [unfolded fetch_follows_def, rule_format, of "ml_cache m" k c'] m(1,2) 3(2) k by simp
        then show ?thesis using True Some m(2,3) assms(3) by (simp, intro refreshed_ok) simp_all
      qed
    next
      case False
      then show ?thesis using m k assms(3) by (simp del: if_split) (intro refreshed_ok, auto)
    qed
    then show ?thesis unfolding set if_not_P [OF 3(1)] if_not_P [OF 3(2)] .
  qed
qed

lemma list_ok_update:
  assumes "list_ok today d m" "cacheMirrors c d'" "todayDate c = todayDate (ml_cache m)" "otherDate c = otherDate (ml_cache m)"
    "\<And>xs. same_flights (rows (ml_list m)) xs
       \<Longrightarrow> listed (shownOnDate today (ml_displayDate m)) (hiddenOrDate (ml_displayDate m)) xs (tb_flights d)
       \<Longrightarrow> \<exists>ys. same_flights (rows (g (ml_list m))) ys
         \<and> listed (shownOnDate today (ml_displayDate m)) (hiddenOrDate (ml_displayDate m)) ys (tb_flights d')"
  shows "list_ok today d' (ml_updateFlights g (m\<lparr>ml_cache := c\<rparr>))"
proof -
  obtain xs where "same_flights (rows (ml_list m)) xs"
    "listed (shownOnDate today (ml_displayDate m)) (hiddenOrDate (ml_displayDate m)) xs (tb_flights d)"
    using assms(1) unfolding list_ok_def by blast
  from assms(5) [OF this] show ?thesis
    using assms(1-4) unfolding list_ok_def ml_updateFlights_def by simp
qed

lemma databaseChanged_ok: "list_ok today d m \<Longrightarrow> list_ok today d (ml_databaseChanged e m)"
  unfolding list_ok_def ml_databaseChanged_def ml_updateFlights_def
  by simp (meson same_databaseChanged)

lemma list_same:
  "same_flights xs ys \<Longrightarrow> same_flights (filter (\<lambda>z. getId z \<noteq> i) xs) (filter (\<lambda>z. getId z \<noteq> i) ys)"
  by (rule same_filter) simp_all

lemma listEvent_ok:
  assumes "list_ok today d m" "legal_event e d" "cacheMirrors c (apply_event e d)"
    "todayDate c = todayDate (ml_cache m)" "otherDate c = otherDate (ml_cache m)"
    "fetch_follows fetch (apply_event e d)" "today \<noteq> None"
  shows "list_ok today (apply_event e d) (ml_listEvent mem today fetch e (m\<lparr>ml_cache := c\<rparr>))"
proof (cases "ev_table e = tableFlights")
  case False
  have "tb_flights (apply_event e d) = tb_flights d"
    using False by (simp add: apply_event_def split: db_table.split)
  then have "list_ok today (apply_event e d) (ml_updateFlights (\<lambda>l. l) (m\<lparr>ml_cache := c\<rparr>))"
    using list_ok_update [OF assms(1,3-5), of "\<lambda>l. l"] by metis
  then show ?thesis using False by (simp add: ml_listEvent_def ml_updateFlights_def)
next
  case True
  let ?db = "tb_flights d" and ?hi = "hiddenOrDate (ml_displayDate m)" and ?lo = "shownOnDate today (ml_displayDate m)"
  have made: "made_event e" and legal: "row_legal (ev_type e) (ev_id e) ?db"
    using assms(2) True by (simp_all add: legal_event_def)
  have ok: "table_ok getId ?db" using assms(1) by (simp add: list_ok_def cacheMirrors_def flightsMirror_def)
  have db': "tb_flights (apply_event e d) = row_event (ev_type e) (ev_id e) (valueFlight (ev_value e)) ?db"
    using True by (simp add: apply_event_def)
  have sh: "?lo z \<Longrightarrow> ?hi z" for z by (rule shown_hidden)
  note update = list_ok_update [OF assms(1,3-5)]
  show ?thesis
  proof (cases "ev_type e")
    case typeAdd
    then obtain f where f: "valueFlight (ev_value e) = Some f" "getId f = ev_id e"
      using made_event_val(5) [OF made _ True] by auto
    have new: "?db (getId f) = None" using legal typeAdd f(2) by (simp add: row_legal_def)
    have after: "tb_flights (apply_event e d) = ?db(getId f \<mapsto> f)" using db' typeAdd f by (simp add: row_event_def)
    let ?g = "\<lambda>l. if ?hi f then ol_append f l else l"
    have "list_ok today (apply_event e d) (ml_updateFlights ?g (m\<lparr>ml_cache := c\<rparr>))"
    proof (rule update)
      fix xs assume x: "same_flights (rows (ml_list m)) xs" "listed ?lo ?hi xs ?db"
      have "same_flights (rows (?g (ml_list m))) (if ?hi f then xs @ [f] else xs)"
        using x(1) by (simp add: same_append)
      then show "\<exists>ys. same_flights (rows (?g (ml_list m))) ys \<and> listed ?lo ?hi ys (tb_flights (apply_event e d))"
        using listed_add [OF x(2) ok new sh] unfolding after by blast
    qed
    moreover have "(if isPrepared f \<or> effdatum utc f = ml_displayDate (m\<lparr>ml_cache := c\<rparr>)
        then ml_updateFlights (ol_append f) (m\<lparr>ml_cache := c\<rparr>) else m\<lparr>ml_cache := c\<rparr>) = ml_updateFlights ?g (m\<lparr>ml_cache := c\<rparr>)"
      by (simp add: hiddenOrDate_def ml_updateFlights_def)
    ultimately show ?thesis
      using setDisplayDate_ok [OF _ assms(6,7)] True typeAdd f(1)
      by (simp add: ml_listEvent_def Let_def ml_setDisplayDateCurrent_def del: if_split)
  next
    case typeDelete
    have after: "tb_flights (apply_event e d) = ?db(ev_id e := None)" using db' typeDelete by (simp add: row_event_def)
    have "list_ok today (apply_event e d) (ml_updateFlights (removeById getId (ev_id e)) (m\<lparr>ml_cache := c\<rparr>))"
    proof (rule update)
      fix xs assume x: "same_flights (rows (ml_list m)) xs" "listed ?lo ?hi xs ?db"
      show "\<exists>ys. same_flights (rows (removeById getId (ev_id e) (ml_list m))) ys \<and> listed ?lo ?hi ys (tb_flights (apply_event e d))"
        using list_same [OF x(1)] listed_remove [OF x(2) ok] unfolding after removeById_rows by blast
    qed
    then show ?thesis using True typeDelete by (simp add: ml_listEvent_def)
  next
    case typeChange
    then obtain f where f: "valueFlight (ev_value e) = Some f" "getId f = ev_id e"
      using made_event_val(5) [OF made _ True] by auto
    have after: "tb_flights (apply_event e d) = ?db(getId f \<mapsto> f)" using db' typeChange f by (simp add: row_event_def)
    let ?g = "\<lambda>l. if ?hi f then replaceOrAdd getId (getId f) f l else removeById getId (getId f) l"
    have "list_ok today (apply_event e d) (ml_updateFlights ?g (m\<lparr>ml_cache := c\<rparr>))"
    proof (rule update)
      fix xs assume x: "same_flights (rows (ml_list m)) xs" "listed ?lo ?hi xs ?db"
      have r: "rows (?g (ml_list m)) = (if ?hi f then el_replaceOrAdd getId (getId f) f (rows (ml_list m))
          else el_removeById getId (getId f) (rows (ml_list m)))"
        by simp
      have "same_flights (rows (?g (ml_list m)))
          (if ?hi f then el_replaceOrAdd getId (getId f) f xs else el_removeById getId (getId f) xs)"
        unfolding r using same_replaceOrAdd [OF x(1)] list_same [OF x(1)] by (simp del: el_simps(3))
      then show "\<exists>ys. same_flights (rows (?g (ml_list m))) ys \<and> listed ?lo ?hi ys (tb_flights (apply_event e d))"
        using listed_change [OF x(2) ok sh] unfolding after by blast
    qed
    moreover have "isPrepared f \<or> effdatum utc f = ml_displayDate m \<longleftrightarrow> ?hi f" by (simp add: hiddenOrDate_def)
    ultimately show ?thesis
      using True typeChange f(1) by (cases "?hi f") (simp_all add: ml_listEvent_def ml_updateFlights_def)
  qed
qed

lemma dbChanged_dates:
  assumes "dbChanged e c = Some (c', e')"
  shows "todayDate c' = todayDate c" "otherDate c' = otherDate c" "e' = e"
proof -
  have part: "todayDate c' = todayDate c \<and> otherDate c' = otherDate c" if "flightPart c' = flightPart c"
    using that by (simp add: flightPart_def)
  have flights: "todayDate c' = todayDate c \<and> otherDate c' = otherDate c" if "handleDbChangedFlight e c = Some c'"
    using that flightAdded_lists(4,5) flightDeleted_lists flightUpdated_lists
    by (auto simp: handleDbChangedFlight_def split: db_type.splits)
  have "todayDate c' = todayDate c \<and> otherDate c' = otherDate c"
  proof (cases "ev_table e")
    case tableFlights
    then have "handleDbChangedFlight e c = Some c'" using assms by (auto simp: dbChanged_def)
    from flights [OF this] show ?thesis .
  next
    case tableLaunchMethods
    then have "handleDbChanged launchMethodKind valueLaunchMethod e c = Some c'" using assms by (auto simp: dbChanged_def)
    from handle_frame(3) [OF this] part show ?thesis by blast
  next
    case tablePeople
    then have "handleDbChanged personKind valuePerson e c = Some c'" using assms by (auto simp: dbChanged_def)
    from handle_frame(2) [OF this] part show ?thesis by blast
  next
    case tablePlanes
    then have "handleDbChanged planeKind valuePlane e c = Some c'" using assms by (auto simp: dbChanged_def)
    from handle_frame(1) [OF this] part show ?thesis by blast
  next
    case tableFlarmNetRecords
    then have "handleDbChanged flarmNetRecordKind valueFlarmNetRecord e c = Some c'" using assms by (auto simp: dbChanged_def)
    from handle_frame(4) [OF this] part show ?thesis by blast
  qed
  then show "todayDate c' = todayDate c" "otherDate c' = otherDate c" by simp_all
  show "e' = e" using assms by (auto simp: dbChanged_def)
qed

lemma event_ok:
  assumes "list_ok today d m" "legal_event e d" "fetch_follows fetch (apply_event e d)" "today \<noteq> None"
  shows "\<exists>m'. ml_event mem today fetch e m = Some m' \<and> list_ok today (apply_event e d) m'"
proof -
  have "cacheMirrors (ml_cache m) d" using assms(1) by (simp add: list_ok_def)
  from dbChanged_mirrors [OF this assms(2)] obtain c where
    c: "dbChanged e (ml_cache m) = Some (c, e)" "cacheMirrors c (apply_event e d)" by blast
  from listEvent_ok [OF assms(1,2) c(2) dbChanged_dates(1,2) [OF c(1)] assms(3,4)]
  show ?thesis by (simp add: ml_event_def c(1) ml_cacheChanged_def databaseChanged_ok)
qed

text \<open>A session: events of the database, each with the fetch as it works after the event.\<close>

fun session_ok :: "(db_event \<times> fetch) list \<Rightarrow> tables \<Rightarrow> bool" where
  "session_ok [] d = True"
| "session_ok ((e, fetch) # es) d =
     (legal_event e d \<and> fetch_follows fetch (apply_event e d) \<and> session_ok es (apply_event e d))"

fun ml_events :: "flight \<Rightarrow> qdate \<Rightarrow> (db_event \<times> fetch) list \<Rightarrow> mainList \<Rightarrow> mainList option" where
  "ml_events mem today [] m = Some m"
| "ml_events mem today ((e, fetch) # es) m = Option.bind (ml_event mem today fetch e m) (ml_events mem today es)"

lemma events_ok:
  "list_ok today d m \<Longrightarrow> session_ok es d \<Longrightarrow> today \<noteq> None
     \<Longrightarrow> \<exists>m'. ml_events mem today es m = Some m' \<and> list_ok today (fold apply_event (map fst es) d) m'"
proof (induction es d arbitrary: m rule: session_ok.induct)
  case (2 e fetch es d)
  from event_ok [OF "2.prems"(1) _ _ "2.prems"(3), of e fetch mem] "2.prems"(2) obtain m' where
    "ml_event mem today fetch e m = Some m'" "list_ok today (apply_event e d) m'" by auto
  with "2.IH" [of m'] "2.prems"(2,3) show ?case by simp
qed simp

text \<open>The flights the filter lets through.\<close>

definition ml_visible :: "mainList \<Rightarrow> flight list" where
  "ml_visible m = filter (\<lambda>f. isPrepared f \<longrightarrow> ml_showPreparedFlights m) (rows (ml_list m))"

lemma visible_flights:
  assumes "list_ok today d m"
  shows "dataChanged ` set (ml_visible m) = dataChanged ` {f \<in> ran (tb_flights d). shownOnDate today (ml_displayDate m) f}"
    "distinct (map getId (ml_visible m))"
proof -
  let ?P = "\<lambda>f. isPrepared f \<longrightarrow> ml_displayDate m = today"
  obtain xs where xs: "same_flights (rows (ml_list m)) xs"
    "listed (shownOnDate today (ml_displayDate m)) (hiddenOrDate (ml_displayDate m)) xs (tb_flights d)"
    using assms unfolding list_ok_def by blast
  have v: "ml_visible m = filter ?P (rows (ml_list m))" using assms by (simp add: ml_visible_def list_ok_def)
  have s: "same_flights (ml_visible m) (filter ?P xs)" unfolding v by (rule same_filter [OF xs(1)]) simp
  then have "dataChanged ` set (ml_visible m) = dataChanged ` set (filter ?P xs)"
    unfolding same_flights_def by (metis set_map)
  moreover have "set (filter ?P xs) = {f \<in> ran (tb_flights d). shownOnDate today (ml_displayDate m) f}"
    using xs(2) unfolding listed_def by (auto simp: hiddenOrDate_def shownOnDate_def split: if_splits)
  ultimately show "dataChanged ` set (ml_visible m) = dataChanged ` {f \<in> ran (tb_flights d). shownOnDate today (ml_displayDate m) f}"
    by simp
  show "distinct (map getId (ml_visible m))"
    using same_ids [OF s] xs(2) by (simp add: listed_def distinct_map_filter)
qed

lemma connected_ok:
  assumes "cacheMirrors (ml_cache m) d" "todayDate (ml_cache m) = today" "today \<noteq> None"
  shows "list_ok today d (ml_databaseStateChanged mem today fetch stateConnected m)"
proof -
  have "list_ok today d (ml_refreshFlights mem today (m\<lparr>ml_databaseActionsEnabled := True, ml_displayDate := today\<rparr>))"
    by (rule refreshed_ok) (use assms in simp_all)
  then show ?thesis
    using assms(3) by (simp add: ml_databaseStateChanged_def ml_setDisplayDateCurrent_def ml_setDisplayDate_def)
qed


definition todayCache :: cache where
  "todayCache = newCache\<lparr>todayDate := Some 100\<rparr>"

definition mainList1 :: mainList where
  "mainList1 = \<lparr>ml_cache = todayCache, ml_displayDate = None, ml_list = mkList [], ml_databaseActionsEnabled = False,
     ml_showPreparedFlights = True, ml_resetDisplayDateOnNewFlight = True\<rparr>"


section \<open>Another day\<close>

text \<open>Refreshing while the displayed date is not the current date shows the flights of the other date of the cache,
  whatever the displayed date is: after midnight, the flights of the day before are replaced by those of
  the date that was fetched last.\<close>

theorem refresh_after_midnight:
  assumes "ml_databaseActionsEnabled m" "ml_displayDate m \<noteq> today"
  shows "rows (ml_list (ml_refreshFlights mem today m)) = flightsOther (ml_cache m)
    \<and> ml_displayDate (ml_refreshFlights mem today m) = ml_displayDate m"
  using assms by (simp add: ml_refreshFlights_def)

section \<open>The list as the source of the flight table\<close>

text \<open>With distinct ids, the operations of the list are at most one change of the source each, as the flight
  table sees it.\<close>

lemma remove_change:
  assumes "distinct (map getId (rows l))"
  shows "rows (removeById getId i l) = rows l
    \<or> (\<exists>k. step_ok c (SourceRemove k) (rows l) \<and> rows (removeById getId i l) = source_after (SourceRemove k) (rows l))"
proof (cases "findById getId i l \<ge> 0")
  case True
  let ?k = "nat (findById getId i l)"
  have "step_ok c (SourceRemove ?k) (rows l) \<and> rows (removeById getId i l) = source_after (SourceRemove ?k) (rows l)"
    using found_index(1) [OF True assms] removed_rows [OF True assms] by (simp add: source_after_def)
  then show ?thesis by blast
next
  case False
  then have "filter (\<lambda>f. getId f \<noteq> i) (rows l) = rows l"
    unfolding findById_nonneg filter_id_conv by (metis imageI)
  then show ?thesis by simp
qed

lemma replaceOrAdd_change:
  assumes "distinct (map getId (rows l))" "getObject (flightsById c) (getId f) = Inr f"
  shows "\<exists>ch. step_ok c ch (rows l) \<and> rows (replaceOrAdd getId (getId f) f l) = source_after ch (rows l)"
proof (cases "findById getId (getId f) l \<ge> 0")
  case True
  let ?k = "nat (findById getId (getId f) l)"
  have "step_ok c (SourceReplace ?k f) (rows l) \<and> rows (replaceOrAdd getId (getId f) f l) = source_after (SourceReplace ?k f) (rows l)"
    using found_index [OF True assms(1)] replaced_rows [OF True assms(1), of f] True assms(2)
    by (simp add: source_after_def findById_nonneg)
  then show ?thesis by blast
next
  case False
  then have "step_ok c (SourceInsert (length (rows l)) f) (rows l)
    \<and> rows (replaceOrAdd getId (getId f) f l) = source_after (SourceInsert (length (rows l)) f) (rows l)"
    by (simp add: source_after_def findById_nonneg)
  then show ?thesis by blast
qed

lemma mirrored_flight:
  assumes "cacheMirrors c d" "f \<in> ran (tb_flights d)" "interesting c f"
  shows "getObject (flightsById c) (getId f) = Inr f"
proof -
  have "flightsById c (getId f) = Some f" "table_ok getId (tb_flights d)"
    using assms by (simp_all add: cacheMirrors_def flightsMirror_def)
  moreover from this(2) have "getId f \<noteq> 0" using assms(2) by (auto simp: table_ok_def ran_def)
  ultimately show ?thesis by (simp add: getObject_def idInvalid_def)
qed

text \<open>Every event of a flight is at most one legal change of the source of the flight table, so that the
  properties of the table hold along the events.\<close>

theorem event_is_source_change:
  assumes "list_ok today d m" "legal_event e d" "ev_table e = tableFlights" "\<not> ml_resetDisplayDateOnNewFlight m"
    "ml_event mem today fetch e m = Some m'"
  shows "rows (ml_list m') = rows (ml_list m)
    \<or> (\<exists>ch. step_ok (ml_cache m') ch (rows (ml_list m)) \<and> rows (ml_list m') = source_after ch (rows (ml_list m)))"
proof -
  let ?xs = "rows (ml_list m)"
  have mir: "cacheMirrors (ml_cache m) d" using assms(1) by (simp add: list_ok_def)
  from dbChanged_mirrors [OF this assms(2)] obtain c where
    c: "dbChanged e (ml_cache m) = Some (c, e)" "cacheMirrors c (apply_event e d)" by blast
  note dates = dbChanged_dates(1,2) [OF c(1)]
  have same: "map (databaseChanged e) ys = ys" for ys
    by (rule map_idI) (simp add: databaseChanged_def assms(3))
  have m': "m' = ml_databaseChanged e (ml_listEvent mem today fetch e (m\<lparr>ml_cache := c\<rparr>))"
    using assms(5) by (simp add: ml_event_def c(1) ml_cacheChanged_def)
  then have rows': "rows (ml_list m') = rows (ml_list (ml_listEvent mem today fetch e (m\<lparr>ml_cache := c\<rparr>)))"
    by (simp add: ml_databaseChanged_def ml_updateFlights_def same)
  obtain ys where ys: "same_flights ?xs ys" "listed (shownOnDate today (ml_displayDate m)) (hiddenOrDate (ml_displayDate m)) ys (tb_flights d)"
    using assms(1) unfolding list_ok_def by blast
  have ids: "distinct (map getId ?xs)" "getId ` set ?xs \<subseteq> getId ` ran (tb_flights d)"
    using same_ids [OF ys(1)] ys(2) unfolding listed_def by (simp, metis (no_types, lifting) image_mono mem_Collect_eq set_map subset_iff)
  have made: "made_event e" and legal: "row_legal (ev_type e) (ev_id e) (tb_flights d)"
    using assms(2,3) by (simp_all add: legal_event_def)
  show ?thesis
  proof (cases "ev_type e")
    case typeAdd
    then obtain f where f: "valueFlight (ev_value e) = Some f" "getId f = ev_id e"
      using made_event_val(5) [OF made _ assms(3)] by auto
    have "getId f \<notin> getId ` ran (tb_flights d)"
      using legal typeAdd f(2) mir
      by (auto simp: row_legal_def cacheMirrors_def flightsMirror_def table_ran)
    then have new: "getId f \<notin> getId ` set ?xs" using ids(2) by blast
    have r: "rows (ml_list m') = (if isPrepared f \<or> effdatum utc f = ml_displayDate m then ?xs @ [f] else ?xs)"
      using rows' typeAdd f(1) assms(3,4) by (simp add: ml_listEvent_def ml_updateFlights_def Let_def)
    have "step_ok (ml_cache m') (SourceInsert (length ?xs) f) ?xs \<and> ?xs @ [f] = source_after (SourceInsert (length ?xs) f) ?xs"
      using new by (simp add: source_after_def)
    then show ?thesis using r by metis
  next
    case typeDelete
    then have "rows (ml_list m') = rows (removeById getId (ev_id e) (ml_list m))"
      using rows' assms(3) by (simp add: ml_listEvent_def ml_updateFlights_def)
    then show ?thesis using remove_change [OF ids(1), of "ev_id e" "ml_cache m'"] by metis
  next
    case typeChange
    then obtain f where f: "valueFlight (ev_value e) = Some f" "getId f = ev_id e"
      using made_event_val(5) [OF made _ assms(3)] by auto
    have cache: "ml_cache m' = c"
      using m' typeChange f(1) assms(3) by (simp add: ml_databaseChanged_def ml_listEvent_def ml_updateFlights_def)
    show ?thesis
    proof (cases "isPrepared f \<or> effdatum utc f = ml_displayDate m")
      case False
      then have "rows (ml_list m') = rows (removeById getId (getId f) (ml_list m))"
        using rows' typeChange f(1) assms(3) by (simp add: ml_listEvent_def ml_updateFlights_def)
      then show ?thesis using remove_change [OF ids(1), of "getId f" "ml_cache m'"] by metis
    next
      case True
      have "ml_displayDate m = todayDate c \<or> ml_displayDate m = otherDate c"
        using assms(1) dates by (auto simp: list_ok_def)
      then have "interesting c f"
        using True by (auto simp: interesting_def isToday_def isOther_def)
      moreover have "f \<in> ran (tb_flights (apply_event e d))"
        using typeChange f assms(3) by (simp add: apply_event_def row_event_def ran_def) (metis f(2))
      ultimately have "getObject (flightsById (ml_cache m')) (getId f) = Inr f"
        unfolding cache by (intro mirrored_flight [OF c(2)])
      moreover have "rows (ml_list m') = rows (replaceOrAdd getId (getId f) f (ml_list m))"
        using rows' True typeChange f(1) assms(3) by (simp add: ml_listEvent_def ml_updateFlights_def)
      ultimately show ?thesis using replaceOrAdd_change [OF ids(1)] by metis
    qed
  qed
qed

end
