(* ===== verification/Sk_Schema.thy ===== *)
theory Sk_Schema
  imports Sk_LaunchMethod
begin

text \<open>
  Changing the structure of the database: the schema functions of
  \<^verbatim>\<open>src/src/db/interface/Interface.cpp\<close>, the column and index specifications of
  \<^verbatim>\<open>src/src/db/schema/spec/\<close> and the statements with their texts.

  The MySQL server is outside the repository: a record of two functions on its state, one that runs a statement
  and one that answers \<open>SHOW COLUMNS ... LIKE\<close>. What its manual says of these statements is the function
  \<open>ddl\<close> on a description of the tables; \<open>ddl_server_ok\<close> says that a server keeps to it. The
  description holds the columns, the indexes and the ids of the rows of each table, and the description saved by
  an open transaction.
\<close>

section \<open>Data types, columns and indexes\<close>

definition dataTypeBoolean :: qstring where "dataTypeBoolean = ''tinyint(1)''"
definition dataTypeDate :: qstring where "dataTypeDate = ''date''"
definition dataTypeDatetime :: qstring where "dataTypeDatetime = ''datetime''"
definition dataTypeInteger :: qstring where "dataTypeInteger = ''int(11)''"
definition dataTypeLong :: qstring where "dataTypeLong = ''bigint''"
definition dataTypeString :: qstring where "dataTypeString = ''varchar(255)''"
definition dataTypeString16 :: qstring where "dataTypeString16 = ''varchar(16)''"
definition dataTypeCharacter :: qstring where "dataTypeCharacter = ''varchar(1)''"
definition dataTypeId :: qstring where "dataTypeId = dataTypeInteger"

lemmas dataTypes = dataTypeBoolean_def dataTypeDate_def dataTypeDatetime_def dataTypeInteger_def
  dataTypeLong_def dataTypeString_def dataTypeString16_def dataTypeCharacter_def dataTypeId_def

record columnSpec =
  cs_name :: qstring
  cs_type :: qstring
  cs_extra :: qstring

definition columnCreateClause :: "columnSpec \<Rightarrow> qstring" where
  "columnCreateClause c =
     (if cs_extra c = [] then cs_name c @ '' '' @ cs_type c
      else cs_name c @ '' '' @ cs_type c @ '' '' @ cs_extra c)"

fun joinWith :: "qstring \<Rightarrow> qstring list \<Rightarrow> qstring" where
  "joinWith sep [] = []"
| "joinWith sep [w] = w"
| "joinWith sep (w # ws) = w @ sep @ joinWith sep ws"

definition columnsCreateClause :: "columnSpec list \<Rightarrow> qstring" where
  "columnsCreateClause cs = joinWith '', '' (map columnCreateClause cs)"

text \<open>The columns of an index are one text with commas.\<close>

record indexSpec =
  is_table :: qstring
  is_name :: qstring
  is_columns :: qstring

definition indexCreateClause :: "indexSpec \<Rightarrow> qstring" where
  "indexCreateClause i = ''INDEX '' @ is_name i @ '' ('' @ is_columns i @ '')''"

definition indexesCreateClause :: "indexSpec list \<Rightarrow> qstring" where
  "indexesCreateClause is = joinWith '', '' (map indexCreateClause is)"

definition schemaIdColumn :: columnSpec where
  "schemaIdColumn = \<lparr>cs_name = ''id'', cs_type = dataTypeId,
     cs_extra = ''NOT NULL AUTO_INCREMENT PRIMARY KEY''\<rparr>"

section \<open>Statements\<close>

datatype statement =
    CreateTable bool qstring "columnSpec list" "indexSpec list"
  | CreateTableLike bool qstring qstring
  | DropTable qstring
  | RenameTable qstring qstring
  | AddColumn qstring qstring qstring qstring
  | ModifyColumn qstring qstring qstring qstring
  | DropColumn qstring qstring
  | ChangeColumn qstring qstring qstring qstring qstring
  | CreateIndex indexSpec
  | DropIndex qstring qstring
  | UpdateWhere qstring qstring qvariant qvariant
  | UpdateStatusFlags
  | UpdateStatusNumber
  | UpdateUploaded
  | AlterEngine qstring
  | ConvertCharset qstring
  | InsertIgnoreSelect qstring qstring
  | InsertLaunchMethod launchMethod
  | TransactionStart
  | TransactionCommit
  | TransactionRollback

definition ifClause :: "bool \<Rightarrow> qstring \<Rightarrow> qstring" where
  "ifClause b s = (if b then s else [])"

definition tableOptions :: qstring where
  "tableOptions = '') ENGINE=InnoDB DEFAULT CHARSET=utf8 COLLATE=utf8_unicode_ci''"

text \<open>The text of a statement, and the values bound to its question marks.\<close>

fun statementText :: "statement \<Rightarrow> qstring" where
  "statementText (CreateTable skip name cols idx) =
     ''CREATE TABLE '' @ ifClause skip ''IF NOT EXISTS'' @ '' '' @ name @ '' (''
       @ columnsCreateClause cols
       @ (if idx = [] then [] else '', '' @ indexesCreateClause idx) @ tableOptions"
| "statementText (CreateTableLike skip likeName name) =
     ''CREATE TABLE '' @ ifClause skip ''IF NOT EXISTS'' @ '' '' @ name @ '' LIKE '' @ likeName"
| "statementText (DropTable name) = ''DROP TABLE '' @ name"
| "statementText (RenameTable old new) = ''RENAME TABLE '' @ old @ '' TO '' @ new"
| "statementText (AddColumn t name type extra) =
     ''ALTER TABLE '' @ t @ '' ADD COLUMN '' @ name @ '' '' @ type @ '' '' @ extra"
| "statementText (ModifyColumn t name type extra) =
     ''ALTER TABLE '' @ t @ '' MODIFY '' @ name @ '' '' @ type @ '' '' @ extra"
| "statementText (DropColumn t name) = ''ALTER TABLE '' @ t @ '' DROP COLUMN '' @ name"
| "statementText (ChangeColumn t old new type extra) =
     ''ALTER TABLE '' @ t @ '' CHANGE '' @ old @ '' '' @ new @ '' '' @ type @ '' '' @ extra"
| "statementText (CreateIndex i) =
     ''CREATE INDEX '' @ is_name i @ '' ON '' @ is_table i @ '' ('' @ is_columns i @ '')''"
| "statementText (DropIndex t name) = ''DROP INDEX '' @ name @ '' ON '' @ t"
| "statementText (UpdateWhere t c new old) =
     ''UPDATE '' @ t @ '' SET '' @ c @ ''=? WHERE '' @ c @ ''=?''"
| "statementText UpdateStatusFlags =
     ''UPDATE flights SET departed=IF(status&1, TRUE, FALSE),landed=IF(status&2, TRUE, FALSE),''
       @ ''towflight_landed=IF(status&4, TRUE, FALSE)''"
| "statementText UpdateStatusNumber =
     ''UPDATE flights SET status=IF(departed        , 1, 0)+IF(landed          , 2, 0)+''
       @ ''IF(towflight_landed, 4, 0)''"
| "statementText UpdateUploaded = ''UPDATE flights SET uploaded = true''"
| "statementText (AlterEngine t) = ''ALTER TABLE '' @ t @ '' ENGINE=InnoDB''"
| "statementText (ConvertCharset t) =
     ''ALTER TABLE '' @ t @ '' CONVERT TO CHARACTER SET utf8 COLLATE utf8_unicode_ci''"
| "statementText (InsertIgnoreSelect t from) =
     ''INSERT IGNORE INTO '' @ t @ '' SELECT * FROM '' @ from"
| "statementText (InsertLaunchMethod l) =
     ''INSERT INTO launch_methods(id,name,short_name,log_string,keyboard_shortcut,type,''
       @ ''towplane_registration,person_required,comments)values (?,?,?,?,?,?,?,?,?)''"
| "statementText TransactionStart = ''START TRANSACTION''"
| "statementText TransactionCommit = ''COMMIT''"
| "statementText TransactionRollback = ''ROLLBACK''"

fun statementValues :: "statement \<Rightarrow> qvariant list" where
  "statementValues (UpdateWhere t c new old) = [new, old]"
| "statementValues (InsertLaunchMethod l) = VId (lm_id l) # lm_bindValues l"
| "statementValues _ = []"

section \<open>The functions of Interface\<close>

datatype ddl_error =
    ER_TABLE_EXISTS | ER_NO_SUCH_TABLE | ER_DUP_FIELDNAME | ER_BAD_FIELD | ER_DUP_KEYNAME
  | ER_CANT_DROP_FIELD_OR_KEY | ER_DUP_ENTRY | ER_COLUMN_COUNT

text \<open>\<open>None\<close>: no exception. A failed statement changes nothing; what was done before it stays.\<close>

type_synonym 'd ddl_action = "'d \<Rightarrow> ddl_error option \<times> 'd"

record 'd ddl_server =
  ds_run :: "statement \<Rightarrow> 'd ddl_action"
  ds_showColumns :: "qstring \<Rightarrow> qstring \<Rightarrow> 'd \<Rightarrow> ddl_error + bool"

definition doNothing :: "'d ddl_action" where
  "doNothing d = (None, d)"

definition andAlso :: "'d ddl_action \<Rightarrow> 'd ddl_action \<Rightarrow> 'd ddl_action" where
  "andAlso a b d = (case a d of (None, d') \<Rightarrow> b d' | (Some e, d') \<Rightarrow> (Some e, d'))"

definition inOrder :: "'d ddl_action list \<Rightarrow> 'd ddl_action" where
  "inOrder as = foldr andAlso as doNothing"

definition ddl_columnExists :: "'d ddl_server \<Rightarrow> qstring \<Rightarrow> qstring \<Rightarrow> 'd \<Rightarrow> ddl_error + bool" where
  "ddl_columnExists srv table name d = ds_showColumns srv table name d"

definition ddl_createTable ::
    "'d ddl_server \<Rightarrow> qstring \<Rightarrow> columnSpec list \<Rightarrow> indexSpec list \<Rightarrow> bool \<Rightarrow> 'd ddl_action" where
  "ddl_createTable srv name cols idx skipIfExists = ds_run srv (CreateTable skipIfExists name cols idx)"

definition ddl_createTableWithId :: "'d ddl_server \<Rightarrow> qstring \<Rightarrow> bool \<Rightarrow> 'd ddl_action" where
  "ddl_createTableWithId srv name skipIfExists = ddl_createTable srv name [schemaIdColumn] [] skipIfExists"

definition ddl_createTableLike :: "'d ddl_server \<Rightarrow> qstring \<Rightarrow> qstring \<Rightarrow> bool \<Rightarrow> 'd ddl_action" where
  "ddl_createTableLike srv likeName name skipIfExists = ds_run srv (CreateTableLike skipIfExists likeName name)"

definition ddl_dropTable :: "'d ddl_server \<Rightarrow> qstring \<Rightarrow> 'd ddl_action" where
  "ddl_dropTable srv name = ds_run srv (DropTable name)"

definition ddl_renameTable :: "'d ddl_server \<Rightarrow> qstring \<Rightarrow> qstring \<Rightarrow> 'd ddl_action" where
  "ddl_renameTable srv oldName newName = ds_run srv (RenameTable oldName newName)"

definition ddl_addColumn ::
    "'d ddl_server \<Rightarrow> qstring \<Rightarrow> qstring \<Rightarrow> qstring \<Rightarrow> qstring \<Rightarrow> bool \<Rightarrow> 'd ddl_action" where
  "ddl_addColumn srv table name type extra skipIfExists d =
     (if skipIfExists
      then (case ddl_columnExists srv table name d of
          Inl e \<Rightarrow> (Some e, d)
        | Inr found \<Rightarrow> if found then (None, d) else ds_run srv (AddColumn table name type extra) d)
      else ds_run srv (AddColumn table name type extra) d)"

definition ddl_changeColumnType ::
    "'d ddl_server \<Rightarrow> qstring \<Rightarrow> qstring \<Rightarrow> qstring \<Rightarrow> qstring \<Rightarrow> 'd ddl_action" where
  "ddl_changeColumnType srv table name type extra = ds_run srv (ModifyColumn table name type extra)"

definition ddl_dropColumn :: "'d ddl_server \<Rightarrow> qstring \<Rightarrow> qstring \<Rightarrow> bool \<Rightarrow> 'd ddl_action" where
  "ddl_dropColumn srv table name skipIfNotExists d =
     (if skipIfNotExists
      then (case ddl_columnExists srv table name d of
          Inl e \<Rightarrow> (Some e, d)
        | Inr found \<Rightarrow> if \<not> found then (None, d) else ds_run srv (DropColumn table name) d)
      else ds_run srv (DropColumn table name) d)"

definition ddl_renameColumn ::
    "'d ddl_server \<Rightarrow> qstring \<Rightarrow> qstring \<Rightarrow> qstring \<Rightarrow> qstring \<Rightarrow> qstring \<Rightarrow> 'd ddl_action" where
  "ddl_renameColumn srv table oldName newName type extra = ds_run srv (ChangeColumn table oldName newName type extra)"

definition ddl_createIndex :: "'d ddl_server \<Rightarrow> indexSpec \<Rightarrow> bool \<Rightarrow> 'd ddl_action" where
  "ddl_createIndex srv index skipIfExists d = (case ds_run srv (CreateIndex index) d of
     (None, d') \<Rightarrow> (None, d')
   | (Some e, d') \<Rightarrow> if skipIfExists \<and> e = ER_DUP_KEYNAME then (None, d') else (Some e, d'))"

definition ddl_dropIndex :: "'d ddl_server \<Rightarrow> qstring \<Rightarrow> qstring \<Rightarrow> bool \<Rightarrow> 'd ddl_action" where
  "ddl_dropIndex srv table name skipIfNotExists d = (case ds_run srv (DropIndex table name) d of
     (None, d') \<Rightarrow> (None, d')
   | (Some e, d') \<Rightarrow> if skipIfNotExists \<and> e = ER_CANT_DROP_FIELD_OR_KEY then (None, d') else (Some e, d'))"

definition ddl_updateColumnValues ::
    "'d ddl_server \<Rightarrow> qstring \<Rightarrow> qstring \<Rightarrow> qvariant \<Rightarrow> qvariant \<Rightarrow> 'd ddl_action" where
  "ddl_updateColumnValues srv table column oldValue newValue = ds_run srv (UpdateWhere table column newValue oldValue)"

section \<open>What the server promises\<close>

record column =
  co_name :: qstring
  co_type :: qstring
  co_notNull :: bool
  co_auto :: bool
  co_primary :: bool

record dbTable =
  tb_columns :: "column list"
  tb_indexes :: "(qstring \<times> qstring list) list"
  tb_ids :: "dbId list"

type_synonym dbTables = "(qstring \<times> dbTable) list"

record tablesDb =
  td_tables :: dbTables
  td_saved :: "dbTables option"

text \<open>The attributes of a column are words; \<open>AFTER\<close> names the column it is put behind.\<close>

definition attributes :: "qstring \<Rightarrow> qstring list" where
  "attributes extra = map toLower (splitAt (CHR '' '') extra)"

definition toColumn :: "qstring \<Rightarrow> qstring \<Rightarrow> qstring \<Rightarrow> column" where
  "toColumn name type extra =
     (let ws = attributes extra in
      \<lparr>co_name = name, co_type = type, co_notNull = (''null'' \<in> set ws \<or> ''primary'' \<in> set ws),
       co_auto = (''auto_increment'' \<in> set ws), co_primary = (''primary'' \<in> set ws)\<rparr>)"

definition afterColumn :: "qstring \<Rightarrow> qstring option" where
  "afterColumn extra = (case splitAt (CHR '' '') extra of
     [w, c] \<Rightarrow> if w = ''AFTER'' then Some c else None | _ \<Rightarrow> None)"

fun insertAfter :: "qstring \<Rightarrow> column \<Rightarrow> column list \<Rightarrow> column list" where
  "insertAfter after c [] = [c]"
| "insertAfter after c (x # xs) = (if co_name x = after then x # c # xs else x # insertAfter after c xs)"

definition columnNames :: "dbTable \<Rightarrow> qstring list" where
  "columnNames t = map co_name (tb_columns t)"

definition addTableColumn :: "qstring \<Rightarrow> qstring \<Rightarrow> qstring \<Rightarrow> dbTable \<Rightarrow> ddl_error + dbTable" where
  "addTableColumn name type extra t =
     (if name \<in> set (columnNames t) then Inl ER_DUP_FIELDNAME
      else (case afterColumn extra of
          None \<Rightarrow> Inr (t\<lparr>tb_columns := tb_columns t @ [toColumn name type extra]\<rparr>)
        | Some after \<Rightarrow>
            if after \<in> set (columnNames t)
            then Inr (t\<lparr>tb_columns := insertAfter after (toColumn name type extra) (tb_columns t)\<rparr>)
            else Inl ER_BAD_FIELD))"

definition renameWord :: "qstring \<Rightarrow> qstring \<Rightarrow> qstring \<Rightarrow> qstring" where
  "renameWord old new w = (if w = old then new else w)"

definition changeTableColumn ::
    "qstring \<Rightarrow> qstring \<Rightarrow> qstring \<Rightarrow> qstring \<Rightarrow> dbTable \<Rightarrow> ddl_error + dbTable" where
  "changeTableColumn old new type extra t =
     (if old \<notin> set (columnNames t) then Inl ER_BAD_FIELD
      else if new \<noteq> old \<and> new \<in> set (columnNames t) then Inl ER_DUP_FIELDNAME
      else Inr (t\<lparr>tb_columns := map (\<lambda>c. if co_name c = old then toColumn new type extra else c) (tb_columns t),
           tb_indexes := map (\<lambda>(n, cs). (n, map (renameWord old new) cs)) (tb_indexes t)\<rparr>))"

definition dropTableColumn :: "qstring \<Rightarrow> dbTable \<Rightarrow> ddl_error + dbTable" where
  "dropTableColumn name t =
     (if name \<notin> set (columnNames t) then Inl ER_CANT_DROP_FIELD_OR_KEY
      else Inr (t\<lparr>tb_columns := filter (\<lambda>c. co_name c \<noteq> name) (tb_columns t),
           tb_indexes := filter (\<lambda>(n, cs). cs \<noteq> []) (map (\<lambda>(n, cs). (n, filter (\<lambda>c. c \<noteq> name) cs)) (tb_indexes t))\<rparr>))"

definition createTableIndex :: "indexSpec \<Rightarrow> dbTable \<Rightarrow> ddl_error + dbTable" where
  "createTableIndex i t =
     (let cs = splitAt (CHR '','') (is_columns i) in
      if is_name i \<in> fst ` set (tb_indexes t) then Inl ER_DUP_KEYNAME
      else if set cs \<subseteq> set (columnNames t) then Inr (t\<lparr>tb_indexes := tb_indexes t @ [(is_name i, cs)]\<rparr>)
      else Inl ER_BAD_FIELD)"

definition dropTableIndex :: "qstring \<Rightarrow> dbTable \<Rightarrow> ddl_error + dbTable" where
  "dropTableIndex name t =
     (if name \<notin> fst ` set (tb_indexes t) then Inl ER_CANT_DROP_FIELD_OR_KEY
      else Inr (t\<lparr>tb_indexes := filter (\<lambda>(n, cs). n \<noteq> name) (tb_indexes t)\<rparr>))"

definition needsColumns :: "qstring list \<Rightarrow> dbTable \<Rightarrow> ddl_error + dbTable" where
  "needsColumns names t = (if set names \<subseteq> set (columnNames t) then Inr t else Inl ER_BAD_FIELD)"

text \<open>A statement about one table; a row with the id 0 gets the next free id.\<close>

fun onTable :: "qstring \<Rightarrow> (dbTable \<Rightarrow> ddl_error + dbTable) \<Rightarrow> dbTables \<Rightarrow> ddl_error + dbTables" where
  "onTable n f [] = Inl ER_NO_SUCH_TABLE"
| "onTable n f ((m, t) # ts) =
     (if m = n then map_sum id (\<lambda>t'. (m, t') # ts) (f t)
      else map_sum id ((#) (m, t)) (onTable n f ts))"

definition newTable :: "columnSpec list \<Rightarrow> indexSpec list \<Rightarrow> dbTable" where
  "newTable cols idx =
     \<lparr>tb_columns = map (\<lambda>c. toColumn (cs_name c) (cs_type c) (cs_extra c)) cols,
      tb_indexes = map (\<lambda>i. (is_name i, splitAt (CHR '','') (is_columns i))) idx, tb_ids = []\<rparr>"

definition insertId :: "dbId \<Rightarrow> dbTable \<Rightarrow> ddl_error + dbTable" where
  "insertId i t =
     (let j = (if i = 0 then foldr max (tb_ids t) 0 + 1 else i) in
      if j \<in> set (tb_ids t) then Inl ER_DUP_ENTRY else Inr (t\<lparr>tb_ids := tb_ids t @ [j]\<rparr>))"

definition createNamed :: "bool \<Rightarrow> qstring \<Rightarrow> dbTable \<Rightarrow> dbTables \<Rightarrow> ddl_error + dbTables" where
  "createNamed skip name t ts =
     (if map_of ts name = None then Inr (ts @ [(name, t)]) else if skip then Inr ts else Inl ER_TABLE_EXISTS)"

text \<open>The statements that change the structure, and those that only read or write rows.\<close>

definition structureOf :: "statement \<Rightarrow> dbTables \<Rightarrow> ddl_error + dbTables" where
  "structureOf st ts = (case st of
     CreateTable skip name cols idx \<Rightarrow> createNamed skip name (newTable cols idx) ts
   | CreateTableLike skip likeName name \<Rightarrow> (case map_of ts likeName of
        None \<Rightarrow> Inl ER_NO_SUCH_TABLE | Some t \<Rightarrow> createNamed skip name (t\<lparr>tb_ids := []\<rparr>) ts)
   | DropTable name \<Rightarrow>
        (if map_of ts name = None then Inl ER_NO_SUCH_TABLE else Inr (filter (\<lambda>(n, t). n \<noteq> name) ts))
   | RenameTable old new \<Rightarrow>
        (if map_of ts old = None then Inl ER_NO_SUCH_TABLE
         else if map_of ts new \<noteq> None then Inl ER_TABLE_EXISTS
         else Inr (map (\<lambda>(n, t). (renameWord old new n, t)) ts))
   | AddColumn n name type extra \<Rightarrow> onTable n (addTableColumn name type extra) ts
   | ModifyColumn n name type extra \<Rightarrow> onTable n (changeTableColumn name name type extra) ts
   | DropColumn n name \<Rightarrow> onTable n (dropTableColumn name) ts
   | ChangeColumn n old new type extra \<Rightarrow> onTable n (changeTableColumn old new type extra) ts
   | CreateIndex i \<Rightarrow> onTable (is_table i) (createTableIndex i) ts
   | DropIndex n name \<Rightarrow> onTable n (dropTableIndex name) ts
   | AlterEngine n \<Rightarrow> onTable n Inr ts
   | ConvertCharset n \<Rightarrow> onTable n Inr ts
   | UpdateWhere n c new old \<Rightarrow> onTable n (needsColumns [c]) ts
   | UpdateStatusFlags \<Rightarrow>
        onTable ''flights'' (needsColumns [''status'', ''departed'', ''landed'', ''towflight_landed'']) ts
   | UpdateStatusNumber \<Rightarrow>
        onTable ''flights'' (needsColumns [''status'', ''departed'', ''landed'', ''towflight_landed'']) ts
   | UpdateUploaded \<Rightarrow> onTable ''flights'' (needsColumns [''uploaded'']) ts
   | InsertIgnoreSelect n from \<Rightarrow> (case map_of ts from of
        None \<Rightarrow> Inl ER_NO_SUCH_TABLE
      | Some s \<Rightarrow> onTable n (\<lambda>t.
          if length (tb_columns t) = length (tb_columns s)
          then Inr (t\<lparr>tb_ids := tb_ids t @ filter (\<lambda>i. i \<notin> set (tb_ids t)) (tb_ids s)\<rparr>)
          else Inl ER_COLUMN_COUNT) ts)
   | InsertLaunchMethod l \<Rightarrow> onTable ''launch_methods'' (\<lambda>t.
        if {''id'', ''name'', ''short_name'', ''log_string'', ''keyboard_shortcut'', ''type'',
            ''towplane_registration'', ''person_required'', ''comments''} \<subseteq> set (columnNames t)
        then insertId (lm_id l) t else Inl ER_BAD_FIELD) ts
   | _ \<Rightarrow> Inr ts)"

definition changesRowsOnly :: "statement \<Rightarrow> bool" where
  "changesRowsOnly st = (case st of
     UpdateWhere _ _ _ _ \<Rightarrow> True | UpdateStatusFlags \<Rightarrow> True | UpdateStatusNumber \<Rightarrow> True
   | UpdateUploaded \<Rightarrow> True | InsertIgnoreSelect _ _ \<Rightarrow> True | InsertLaunchMethod _ \<Rightarrow> True | _ \<Rightarrow> False)"

text \<open>A change of the structure ends an open transaction; a rollback restores the rows.\<close>

definition ddl :: "statement \<Rightarrow> tablesDb \<Rightarrow> ddl_error + tablesDb" where
  "ddl st d = (case st of
     TransactionStart \<Rightarrow> Inr (d\<lparr>td_saved := Some (td_tables d)\<rparr>)
   | TransactionCommit \<Rightarrow> Inr (d\<lparr>td_saved := None\<rparr>)
   | TransactionRollback \<Rightarrow> Inr (case td_saved d of None \<Rightarrow> d | Some ts \<Rightarrow> \<lparr>td_tables = ts, td_saved = None\<rparr>)
   | _ \<Rightarrow> (case structureOf st (td_tables d) of
        Inl e \<Rightarrow> Inl e
      | Inr ts \<Rightarrow> Inr \<lparr>td_tables = ts, td_saved = (if changesRowsOnly st then td_saved d else None)\<rparr>))"

text \<open>A faster way to compare two letters without case, for evaluation: \<open>toLowerChar\<close> keeps the lower
  five bits.\<close>

fun lowBits :: "char \<Rightarrow> bool list" where
  "lowBits (Char b0 b1 b2 b3 b4 b5 b6 b7) = [b0, b1, b2, b3, b4]"

lemma lowBits_add32: "lowBits (char_of (n + 32 :: nat)) = lowBits (char_of n)"
  by (simp add: char_of_def bit_iff_odd div_plus_div_distrib_dvd_right)

lemma lowBits_toLowerChar: "lowBits (toLowerChar c) = lowBits c"
  by (simp add: toLowerChar_def Let_def lowBits_add32)

definition sameLetter :: "char \<Rightarrow> char \<Rightarrow> bool" where
  "sameLetter p c \<longleftrightarrow> toLowerChar p = toLowerChar c"

lemma sameLetter_code [code]:
  "sameLetter p c \<longleftrightarrow>
     (if p = c then True else if lowBits p = lowBits c then toLowerChar p = toLowerChar c else False)"
  using lowBits_toLowerChar [of p] lowBits_toLowerChar [of c] by (auto simp: sameLetter_def)

text \<open>\<open>LIKE\<close>: \<open>_\<close> stands for one character, \<open>%\<close> for any number of them, case does not count.\<close>

fun likeMatch :: "qstring \<Rightarrow> qstring \<Rightarrow> bool" where
  "likeMatch [] [] = True"
| "likeMatch [] (c # cs) = False"
| "likeMatch (p # ps) [] = (p = CHR ''%'' \<and> likeMatch ps [])"
| "likeMatch (p # ps) (c # cs) =
     (if p = CHR ''%'' then likeMatch ps (c # cs) \<or> likeMatch (p # ps) cs
      else if p = CHR ''_'' then likeMatch ps cs
      else sameLetter p c \<and> likeMatch ps cs)"

definition showColumns :: "qstring \<Rightarrow> qstring \<Rightarrow> tablesDb \<Rightarrow> ddl_error + bool" where
  "showColumns table pattern d = (case map_of (td_tables d) table of
     None \<Rightarrow> Inl ER_NO_SUCH_TABLE | Some t \<Rightarrow> Inr (list_ex (likeMatch pattern) (columnNames t)))"

definition ddl_server_ok :: "'d ddl_server \<Rightarrow> ('d \<Rightarrow> tablesDb) \<Rightarrow> bool" where
  "ddl_server_ok srv view \<longleftrightarrow>
     (\<forall>st d. case ds_run srv st d of
         (None, d') \<Rightarrow> ddl st (view d) = Inr (view d')
       | (Some e, d') \<Rightarrow> ddl st (view d) = Inl e \<and> view d' = view d)
   \<and> (\<forall>table pattern d. ds_showColumns srv table pattern d = showColumns table pattern (view d))"

text \<open>The server that is nothing but the description.\<close>

definition described :: "tablesDb ddl_server" where
  "described = \<lparr>ds_run = (\<lambda>st d. case ddl st d of Inr d' \<Rightarrow> (None, d') | Inl e \<Rightarrow> (Some e, d)),
     ds_showColumns = showColumns\<rparr>"

definition noTables :: tablesDb where
  "noTables = \<lparr>td_tables = [], td_saved = None\<rparr>"

section \<open>Simulation by the description\<close>

text \<open>Every function above does on the server what it does on the description.\<close>

definition simulates :: "('d \<Rightarrow> tablesDb) \<Rightarrow> 'd ddl_action \<Rightarrow> tablesDb ddl_action \<Rightarrow> bool" where
  "simulates view a b \<longleftrightarrow> (\<forall>d. fst (a d) = fst (b (view d)) \<and> view (snd (a d)) = snd (b (view d)))"

named_theorems sim_intros \<open>actions that the description simulates\<close>

locale ddl_connection =
  fixes srv :: "'d ddl_server" and view :: "'d \<Rightarrow> tablesDb"
  assumes server_ok: "ddl_server_ok srv view"
begin

lemma sim_run: "simulates view (ds_run srv st) (ds_run described st)"
proof -
  have laws: "case ds_run srv st d of (None, d') \<Rightarrow> ddl st (view d) = Inr (view d')
      | (Some e, d') \<Rightarrow> ddl st (view d) = Inl e \<and> view d' = view d" for d
    using server_ok by (simp add: ddl_server_ok_def)
  have "fst (ds_run srv st d) = fst (ds_run described st (view d))
      \<and> view (snd (ds_run srv st d)) = snd (ds_run described st (view d))" for d
    using laws [of d] by (cases "ds_run srv st d") (simp add: described_def split: option.splits)
  then show ?thesis by (simp add: simulates_def)
qed

lemma shows_columns: "ds_showColumns srv table pattern d = ds_showColumns described table pattern (view d)"
  using server_ok by (simp add: ddl_server_ok_def described_def)

lemma sim_doNothing: "simulates view doNothing doNothing"
  by (simp add: simulates_def doNothing_def)

lemma sim_andAlso:
  assumes "simulates view a a'" "simulates view b b'"
  shows "simulates view (andAlso a b) (andAlso a' b')"
  unfolding simulates_def
proof
  fix d
  obtain r d1 where a: "a d = (r, d1)" by fastforce
  obtain r' e1 where a': "a' (view d) = (r', e1)" by fastforce
  have "r = r'" "view d1 = e1"
    using assms(1) a a' by (auto simp: simulates_def dest: spec [of _ d])
  with a a' assms(2) show "fst (andAlso a b d) = fst (andAlso a' b' (view d))
      \<and> view (snd (andAlso a b d)) = snd (andAlso a' b' (view d))"
    by (auto simp: andAlso_def simulates_def split: option.split)
qed

lemma sim_inOrder:
  assumes "list_all2 (simulates view) as bs"
  shows "simulates view (inOrder as) (inOrder bs)"
  using assms by (induction rule: list_all2_induct) (simp_all add: inOrder_def sim_doNothing sim_andAlso)

lemma sim_if:
  assumes "simulates view a a'" "simulates view b b'"
  shows "simulates view (\<lambda>d. if c then a d else b d) (\<lambda>d. if c then a' d else b' d)"
  using assms by (auto simp: simulates_def)

lemma sim_createTable: "simulates view (ddl_createTable srv n c i s) (ddl_createTable described n c i s)"
  by (simp add: ddl_createTable_def sim_run)

lemma sim_createTableWithId: "simulates view (ddl_createTableWithId srv n s) (ddl_createTableWithId described n s)"
  by (simp add: ddl_createTableWithId_def sim_createTable)

lemma sim_createTableLike: "simulates view (ddl_createTableLike srv l n s) (ddl_createTableLike described l n s)"
  by (simp add: ddl_createTableLike_def sim_run)

lemma sim_dropTable: "simulates view (ddl_dropTable srv n) (ddl_dropTable described n)"
  by (simp add: ddl_dropTable_def sim_run)

lemma sim_renameTable: "simulates view (ddl_renameTable srv o' n) (ddl_renameTable described o' n)"
  by (simp add: ddl_renameTable_def sim_run)

lemma sim_addColumn: "simulates view (ddl_addColumn srv t n ty x s) (ddl_addColumn described t n ty x s)"
  using sim_run [of "AddColumn t n ty x"]
  by (auto simp: simulates_def ddl_addColumn_def ddl_columnExists_def shows_columns split: sum.splits)

lemma sim_changeColumnType: "simulates view (ddl_changeColumnType srv t n ty x) (ddl_changeColumnType described t n ty x)"
  by (simp add: ddl_changeColumnType_def sim_run)

lemma sim_dropColumn: "simulates view (ddl_dropColumn srv t n s) (ddl_dropColumn described t n s)"
  using sim_run [of "DropColumn t n"]
  by (auto simp: simulates_def ddl_dropColumn_def ddl_columnExists_def shows_columns split: sum.splits)

lemma sim_renameColumn: "simulates view (ddl_renameColumn srv t o' n ty x) (ddl_renameColumn described t o' n ty x)"
  by (simp add: ddl_renameColumn_def sim_run)

lemma sim_caught:
  assumes "simulates view a b"
  shows "simulates view (\<lambda>d. case a d of (None, d') \<Rightarrow> (None, d') | (Some e, d') \<Rightarrow> if P e then (None, d') else (Some e, d'))
     (\<lambda>d. case b d of (None, d') \<Rightarrow> (None, d') | (Some e, d') \<Rightarrow> if P e then (None, d') else (Some e, d'))"
  using assms by (auto simp: simulates_def split: prod.splits option.splits)
    (metis fst_conv snd_conv option.distinct(1) option.inject)+

lemma sim_createIndex: "simulates view (ddl_createIndex srv i s) (ddl_createIndex described i s)"
  using sim_caught [OF sim_run [of "CreateIndex i"], of "\<lambda>e. s \<and> e = ER_DUP_KEYNAME"]
  by (simp add: ddl_createIndex_def [abs_def])

lemma sim_dropIndex: "simulates view (ddl_dropIndex srv t n s) (ddl_dropIndex described t n s)"
  using sim_caught [OF sim_run [of "DropIndex t n"], of "\<lambda>e. s \<and> e = ER_CANT_DROP_FIELD_OR_KEY"]
  by (simp add: ddl_dropIndex_def [abs_def])

lemma sim_updateColumnValues:
  "simulates view (ddl_updateColumnValues srv t c o' n) (ddl_updateColumnValues described t c o' n)"
  by (simp add: ddl_updateColumnValues_def sim_run)

lemmas sims = sim_run sim_createTable sim_createTableWithId sim_createTableLike sim_dropTable sim_renameTable
  sim_addColumn sim_changeColumnType sim_dropColumn sim_renameColumn sim_createIndex sim_dropIndex
  sim_updateColumnValues sim_doNothing sim_andAlso

end

lemma described_ok: "ddl_server_ok described (\<lambda>d. d)"
  by (auto simp: ddl_server_ok_def described_def split: sum.splits)

interpretation described: ddl_connection described "\<lambda>d. d"
  by unfold_locales (rule described_ok)

end
