(* ===== verification/Sk_Migrations.thy ===== *)
theory Sk_Migrations
  imports Sk_Schema Sk_Migrator
begin

text \<open>
  The migrations, \<^verbatim>\<open>src/src/db/migrations/\<close>: what each does up and down on a database server, as sequences of
  the schema functions of Sk\_Schema. \<^verbatim>\<open>Migration.cpp\<close> hands its calls on to the interface; its default, to
  skip what exists already (or does not exist), is written out as \<open>True\<close>. A sequence ends with the first
  statement that fails.
\<close>

section \<open>The first tables\<close>

definition up_initial :: "'d ddl_server \<Rightarrow> 'd ddl_action" where
  "up_initial srv = inOrder
     [ddl_createTableWithId srv ''person'' True,
      ddl_addColumn srv ''person'' ''nachname'' dataTypeString [] True,
      ddl_addColumn srv ''person'' ''vorname'' dataTypeString [] True,
      ddl_addColumn srv ''person'' ''verein'' dataTypeString [] True,
      ddl_addColumn srv ''person'' ''spitzname'' dataTypeString [] True,
      ddl_addColumn srv ''person'' ''vereins_id'' dataTypeString [] True,
      ddl_addColumn srv ''person'' ''bemerkung'' dataTypeString [] True,
      ddl_createTableLike srv ''person'' ''person_temp'' True,
      ddl_createTableWithId srv ''flugzeug'' True,
      ddl_addColumn srv ''flugzeug'' ''kennzeichen'' dataTypeString [] True,
      ddl_addColumn srv ''flugzeug'' ''verein'' dataTypeString [] True,
      ddl_addColumn srv ''flugzeug'' ''sitze'' dataTypeInteger [] True,
      ddl_addColumn srv ''flugzeug'' ''typ'' dataTypeString [] True,
      ddl_addColumn srv ''flugzeug'' ''gattung'' dataTypeCharacter [] True,
      ddl_addColumn srv ''flugzeug'' ''wettbewerbskennzeichen'' dataTypeString [] True,
      ddl_addColumn srv ''flugzeug'' ''bemerkung'' dataTypeString [] True,
      ddl_createTableLike srv ''flugzeug'' ''flugzeug_temp'' True,
      ddl_createTableWithId srv ''flug'' True,
      ddl_addColumn srv ''flug'' ''flugzeug'' dataTypeId [] True,
      ddl_addColumn srv ''flug'' ''pilot'' dataTypeId [] True,
      ddl_addColumn srv ''flug'' ''begleiter'' dataTypeId [] True,
      ddl_addColumn srv ''flug'' ''typ'' dataTypeInteger [] True,
      ddl_addColumn srv ''flug'' ''modus'' dataTypeCharacter [] True,
      ddl_addColumn srv ''flug'' ''status'' dataTypeInteger [] True,
      ddl_addColumn srv ''flug'' ''startart'' dataTypeId [] True,
      ddl_addColumn srv ''flug'' ''startort'' dataTypeString [] True,
      ddl_addColumn srv ''flug'' ''zielort'' dataTypeString [] True,
      ddl_addColumn srv ''flug'' ''anzahl_landungen'' dataTypeInteger [] True,
      ddl_addColumn srv ''flug'' ''startzeit'' dataTypeDatetime [] True,
      ddl_addColumn srv ''flug'' ''landezeit'' dataTypeDatetime [] True,
      ddl_addColumn srv ''flug'' ''towplane'' dataTypeId [] True,
      ddl_addColumn srv ''flug'' ''modus_sfz'' dataTypeCharacter [] True,
      ddl_addColumn srv ''flug'' ''zielort_sfz'' dataTypeString [] True,
      ddl_addColumn srv ''flug'' ''land_schlepp'' dataTypeDatetime [] True,
      ddl_addColumn srv ''flug'' ''towpilot'' dataTypeId [] True,
      ddl_addColumn srv ''flug'' ''pnn'' dataTypeString [] True,
      ddl_addColumn srv ''flug'' ''pvn'' dataTypeString [] True,
      ddl_addColumn srv ''flug'' ''bnn'' dataTypeString [] True,
      ddl_addColumn srv ''flug'' ''bvn'' dataTypeString [] True,
      ddl_addColumn srv ''flug'' ''tpnn'' dataTypeString [] True,
      ddl_addColumn srv ''flug'' ''tpvn'' dataTypeString [] True,
      ddl_addColumn srv ''flug'' ''bemerkung'' dataTypeString [] True,
      ddl_addColumn srv ''flug'' ''abrechnungshinweis'' dataTypeString [] True,
      ddl_createTableLike srv ''flug'' ''flug_temp'' True,
      ddl_createTableWithId srv ''user'' True,
      ddl_addColumn srv ''user'' ''username'' dataTypeString ''NOT NULL'' True,
      ddl_addColumn srv ''user'' ''password'' dataTypeString [] True,
      ddl_addColumn srv ''user'' ''perm_club_admin'' dataTypeBoolean [] True,
      ddl_addColumn srv ''user'' ''perm_read_flight_db'' dataTypeBoolean [] True,
      ddl_addColumn srv ''user'' ''club'' dataTypeString [] True,
      ddl_addColumn srv ''user'' ''person'' dataTypeId [] True]"

definition down_initial :: "'d ddl_server \<Rightarrow> 'd ddl_action" where
  "down_initial srv = inOrder
     [ddl_dropTable srv ''person'',
      ddl_dropTable srv ''person_temp'',
      ddl_dropTable srv ''flugzeug'',
      ddl_dropTable srv ''flugzeug_temp'',
      ddl_dropTable srv ''flug'',
      ddl_dropTable srv ''flug_temp'',
      ddl_dropTable srv ''user'']"

section \<open>Table formats\<close>

definition innodbTable :: "'d ddl_server \<Rightarrow> qstring \<Rightarrow> 'd ddl_action" where
  "innodbTable srv name = ds_run srv (AlterEngine name)"

definition up_change_to_innodb :: "'d ddl_server \<Rightarrow> 'd ddl_action" where
  "up_change_to_innodb srv = inOrder
     [innodbTable srv ''person'',
      innodbTable srv ''person_temp'',
      innodbTable srv ''flugzeug'',
      innodbTable srv ''flugzeug_temp'',
      innodbTable srv ''flug'',
      innodbTable srv ''flug_temp'',
      innodbTable srv ''user'']"

definition down_change_to_innodb :: "'d ddl_server \<Rightarrow> 'd ddl_action" where
  "down_change_to_innodb srv = doNothing"

definition utf8Table :: "'d ddl_server \<Rightarrow> qstring \<Rightarrow> 'd ddl_action" where
  "utf8Table srv name = ds_run srv (ConvertCharset name)"

definition up_convert_to_utf8 :: "'d ddl_server \<Rightarrow> 'd ddl_action" where
  "up_convert_to_utf8 srv = inOrder
     [utf8Table srv ''person'',
      utf8Table srv ''person_temp'',
      utf8Table srv ''flugzeug'',
      utf8Table srv ''flugzeug_temp'',
      utf8Table srv ''flug'',
      utf8Table srv ''flug_temp'',
      utf8Table srv ''user'']"

definition down_convert_to_utf8 :: "'d ddl_server \<Rightarrow> 'd ddl_action" where
  "down_convert_to_utf8 srv = doNothing"

section \<open>Columns of older databases\<close>

definition up_add_towpilot :: "'d ddl_server \<Rightarrow> 'd ddl_action" where
  "up_add_towpilot srv = inOrder
     [ddl_addColumn srv ''flug'' ''towpilot'' dataTypeId [] True,
      ddl_addColumn srv ''flug'' ''tpvn'' dataTypeString [] True,
      ddl_addColumn srv ''flug'' ''tpnn'' dataTypeString [] True,
      ddl_addColumn srv ''flug_temp'' ''towpilot'' dataTypeId [] True,
      ddl_addColumn srv ''flug_temp'' ''tpvn'' dataTypeString [] True,
      ddl_addColumn srv ''flug_temp'' ''tpnn'' dataTypeString [] True]"

definition down_add_towpilot :: "'d ddl_server \<Rightarrow> 'd ddl_action" where
  "down_add_towpilot srv = doNothing"

definition dropColumnAndTemp :: "'d ddl_server \<Rightarrow> qstring \<Rightarrow> qstring \<Rightarrow> 'd ddl_action" where
  "dropColumnAndTemp srv table name = inOrder
     [ddl_dropColumn srv table name True,
      ddl_dropColumn srv (table @ ''_temp'') name True]"

definition up_drop_old_columns :: "'d ddl_server \<Rightarrow> 'd ddl_action" where
  "up_drop_old_columns srv = inOrder
     [dropColumnAndTemp srv ''flug'' ''editierbar'',
      dropColumnAndTemp srv ''flug'' ''verein'',
      dropColumnAndTemp srv ''person'' ''bwlv'']"

definition down_drop_old_columns :: "'d ddl_server \<Rightarrow> 'd ddl_action" where
  "down_drop_old_columns srv = doNothing"

definition changePeopleTable :: "'d ddl_server \<Rightarrow> qstring \<Rightarrow> 'd ddl_action" where
  "changePeopleTable srv name = inOrder
     [ddl_changeColumnType srv name ''nachname'' dataTypeString [],
      ddl_changeColumnType srv name ''vorname'' dataTypeString [],
      ddl_changeColumnType srv name ''verein'' dataTypeString [],
      ddl_changeColumnType srv name ''spitzname'' dataTypeString [],
      ddl_changeColumnType srv name ''vereins_id'' dataTypeString [],
      ddl_changeColumnType srv name ''bemerkung'' dataTypeString []]"

definition changePlanesTable :: "'d ddl_server \<Rightarrow> qstring \<Rightarrow> 'd ddl_action" where
  "changePlanesTable srv name = inOrder
     [ddl_changeColumnType srv name ''kennzeichen'' dataTypeString [],
      ddl_changeColumnType srv name ''verein'' dataTypeString [],
      ddl_changeColumnType srv name ''sitze'' dataTypeInteger [],
      ddl_changeColumnType srv name ''typ'' dataTypeString [],
      ddl_changeColumnType srv name ''gattung'' dataTypeCharacter [],
      ddl_changeColumnType srv name ''wettbewerbskennzeichen'' dataTypeString [],
      ddl_changeColumnType srv name ''bemerkung'' dataTypeString []]"

definition changeFlightsTable :: "'d ddl_server \<Rightarrow> qstring \<Rightarrow> 'd ddl_action" where
  "changeFlightsTable srv name = inOrder
     [ddl_changeColumnType srv name ''flugzeug'' dataTypeId [],
      ddl_changeColumnType srv name ''pilot'' dataTypeId [],
      ddl_changeColumnType srv name ''begleiter'' dataTypeId [],
      ddl_changeColumnType srv name ''typ'' dataTypeInteger [],
      ddl_changeColumnType srv name ''modus'' dataTypeCharacter [],
      ddl_changeColumnType srv name ''status'' dataTypeInteger [],
      ddl_changeColumnType srv name ''startart'' dataTypeId [],
      ddl_changeColumnType srv name ''startort'' dataTypeString [],
      ddl_changeColumnType srv name ''zielort'' dataTypeString [],
      ddl_changeColumnType srv name ''anzahl_landungen'' dataTypeInteger [],
      ddl_changeColumnType srv name ''startzeit'' dataTypeDatetime [],
      ddl_changeColumnType srv name ''landezeit'' dataTypeDatetime [],
      ddl_changeColumnType srv name ''towplane'' dataTypeId [],
      ddl_changeColumnType srv name ''modus_sfz'' dataTypeCharacter [],
      ddl_changeColumnType srv name ''zielort_sfz'' dataTypeString [],
      ddl_changeColumnType srv name ''land_schlepp'' dataTypeDatetime [],
      ddl_changeColumnType srv name ''towpilot'' dataTypeId [],
      ddl_changeColumnType srv name ''pvn'' dataTypeString [],
      ddl_changeColumnType srv name ''pnn'' dataTypeString [],
      ddl_changeColumnType srv name ''bvn'' dataTypeString [],
      ddl_changeColumnType srv name ''bnn'' dataTypeString [],
      ddl_changeColumnType srv name ''tpvn'' dataTypeString [],
      ddl_changeColumnType srv name ''tpnn'' dataTypeString [],
      ddl_changeColumnType srv name ''bemerkung'' dataTypeString [],
      ddl_changeColumnType srv name ''abrechnungshinweis'' dataTypeString []]"

definition changeUsersTable :: "'d ddl_server \<Rightarrow> qstring \<Rightarrow> 'd ddl_action" where
  "changeUsersTable srv name = inOrder
     [ddl_changeColumnType srv name ''username'' dataTypeString ''NOT NULL'',
      ddl_changeColumnType srv name ''password'' dataTypeString [],
      ddl_changeColumnType srv name ''perm_club_admin'' dataTypeBoolean [],
      ddl_changeColumnType srv name ''perm_read_flight_db'' dataTypeBoolean [],
      ddl_changeColumnType srv name ''club'' dataTypeString [],
      ddl_changeColumnType srv name ''person'' dataTypeId []]"

definition up_fix_data_types :: "'d ddl_server \<Rightarrow> 'd ddl_action" where
  "up_fix_data_types srv = inOrder
     [changePeopleTable srv ''person'',
      changePeopleTable srv ''person_temp'',
      changePlanesTable srv ''flugzeug'',
      changePlanesTable srv ''flugzeug_temp'',
      changeFlightsTable srv ''flug'',
      changeFlightsTable srv ''flug_temp'',
      changeUsersTable srv ''user'']"

definition down_fix_data_types :: "'d ddl_server \<Rightarrow> 'd ddl_action" where
  "down_fix_data_types srv = doNothing"

section \<open>Renaming\<close>

definition removeTempTable :: "'d ddl_server \<Rightarrow> qstring \<Rightarrow> 'd ddl_action" where
  "removeTempTable srv name = inOrder
     [ds_run srv (InsertIgnoreSelect name (name @ ''_temp'')),
      ddl_dropTable srv (name @ ''_temp'')]"

definition createTempTable :: "'d ddl_server \<Rightarrow> qstring \<Rightarrow> 'd ddl_action" where
  "createTempTable srv name = inOrder
     [ddl_renameTable srv name (name @ ''_temp''),
      ddl_createTableLike srv (name @ ''_temp'') name True]"

definition up_remove_temp_tables :: "'d ddl_server \<Rightarrow> 'd ddl_action" where
  "up_remove_temp_tables srv = inOrder
     [removeTempTable srv ''person'',
      removeTempTable srv ''flugzeug'',
      removeTempTable srv ''flug'']"

definition down_remove_temp_tables :: "'d ddl_server \<Rightarrow> 'd ddl_action" where
  "down_remove_temp_tables srv = inOrder
     [createTempTable srv ''person'',
      createTempTable srv ''flugzeug'',
      createTempTable srv ''flug'']"

definition renameTableTowards :: "'d ddl_server \<Rightarrow> qstring \<Rightarrow> qstring \<Rightarrow> direction \<Rightarrow> 'd ddl_action" where
  "renameTableTowards srv oldName newName dir = (case dir of
     dirUp \<Rightarrow> ddl_renameTable srv oldName newName
   | dirDown \<Rightarrow> ddl_renameTable srv newName oldName)"

definition renameTables :: "'d ddl_server \<Rightarrow> direction \<Rightarrow> 'd ddl_action" where
  "renameTables srv dir = inOrder
     [renameTableTowards srv ''person'' ''people'' dir,
      renameTableTowards srv ''flugzeug'' ''planes'' dir,
      renameTableTowards srv ''flug'' ''flights'' dir,
      renameTableTowards srv ''user'' ''users'' dir]"

definition up_rename_tables :: "'d ddl_server \<Rightarrow> 'd ddl_action" where
  "up_rename_tables srv = renameTables srv dirUp"

definition down_rename_tables :: "'d ddl_server \<Rightarrow> 'd ddl_action" where
  "down_rename_tables srv = renameTables srv dirDown"

definition renameColumnTowards :: "'d ddl_server \<Rightarrow> qstring \<Rightarrow> qstring \<Rightarrow> qstring \<Rightarrow> qstring \<Rightarrow> direction \<Rightarrow> 'd ddl_action" where
  "renameColumnTowards srv table oldName newName type dir = (case dir of
     dirUp \<Rightarrow> ddl_renameColumn srv table oldName newName type []
   | dirDown \<Rightarrow> ddl_renameColumn srv table newName oldName type [])"

definition renameColumns :: "'d ddl_server \<Rightarrow> direction \<Rightarrow> 'd ddl_action" where
  "renameColumns srv dir = inOrder
     [renameColumnTowards srv ''people'' ''nachname'' ''last_name'' dataTypeString dir,
      renameColumnTowards srv ''people'' ''vorname'' ''first_name'' dataTypeString dir,
      renameColumnTowards srv ''people'' ''verein'' ''club'' dataTypeString dir,
      renameColumnTowards srv ''people'' ''spitzname'' ''nickname'' dataTypeString dir,
      renameColumnTowards srv ''people'' ''vereins_id'' ''club_id'' dataTypeString dir,
      renameColumnTowards srv ''people'' ''bemerkung'' ''comments'' dataTypeString dir,
      renameColumnTowards srv ''planes'' ''kennzeichen'' ''registration'' dataTypeString dir,
      renameColumnTowards srv ''planes'' ''verein'' ''club'' dataTypeString dir,
      renameColumnTowards srv ''planes'' ''sitze'' ''num_seats'' dataTypeInteger dir,
      renameColumnTowards srv ''planes'' ''typ'' ''type'' dataTypeString dir,
      renameColumnTowards srv ''planes'' ''gattung'' ''category'' dataTypeCharacter dir,
      renameColumnTowards srv ''planes'' ''wettbewerbskennzeichen'' ''callsign'' dataTypeString dir,
      renameColumnTowards srv ''planes'' ''bemerkung'' ''comments'' dataTypeString dir,
      renameColumnTowards srv ''flights'' ''flugzeug'' ''plane_id'' dataTypeId dir,
      renameColumnTowards srv ''flights'' ''pilot'' ''pilot_id'' dataTypeId dir,
      renameColumnTowards srv ''flights'' ''begleiter'' ''copilot_id'' dataTypeId dir,
      renameColumnTowards srv ''flights'' ''typ'' ''type'' dataTypeInteger dir,
      renameColumnTowards srv ''flights'' ''modus'' ''mode'' dataTypeCharacter dir,
      renameColumnTowards srv ''flights'' ''status'' ''status'' dataTypeInteger dir,
      renameColumnTowards srv ''flights'' ''startart'' ''launch_method_id'' dataTypeId dir,
      renameColumnTowards srv ''flights'' ''startort'' ''departure_location'' dataTypeString dir,
      renameColumnTowards srv ''flights'' ''zielort'' ''landing_location'' dataTypeString dir,
      renameColumnTowards srv ''flights'' ''anzahl_landungen'' ''num_landings'' dataTypeInteger dir,
      renameColumnTowards srv ''flights'' ''startzeit'' ''departure_time'' dataTypeDatetime dir,
      renameColumnTowards srv ''flights'' ''landezeit'' ''landing_time'' dataTypeDatetime dir,
      renameColumnTowards srv ''flights'' ''towplane'' ''towplane_id'' dataTypeId dir,
      renameColumnTowards srv ''flights'' ''modus_sfz'' ''towflight_mode'' dataTypeCharacter dir,
      renameColumnTowards srv ''flights'' ''zielort_sfz'' ''towflight_landing_location'' dataTypeString dir,
      renameColumnTowards srv ''flights'' ''land_schlepp'' ''towflight_landing_time'' dataTypeDatetime dir,
      renameColumnTowards srv ''flights'' ''towpilot'' ''towpilot_id'' dataTypeId dir,
      renameColumnTowards srv ''flights'' ''pnn'' ''pilot_last_name'' dataTypeString dir,
      renameColumnTowards srv ''flights'' ''pvn'' ''pilot_first_name'' dataTypeString dir,
      renameColumnTowards srv ''flights'' ''bnn'' ''copilot_last_name'' dataTypeString dir,
      renameColumnTowards srv ''flights'' ''bvn'' ''copilot_first_name'' dataTypeString dir,
      renameColumnTowards srv ''flights'' ''tpnn'' ''towpilot_last_name'' dataTypeString dir,
      renameColumnTowards srv ''flights'' ''tpvn'' ''towpilot_first_name'' dataTypeString dir,
      renameColumnTowards srv ''flights'' ''bemerkung'' ''comments'' dataTypeString dir,
      renameColumnTowards srv ''flights'' ''abrechnungshinweis'' ''accounting_notes'' dataTypeString dir,
      renameColumnTowards srv ''users'' ''person'' ''person_id'' dataTypeId dir]"

definition up_rename_columns :: "'d ddl_server \<Rightarrow> 'd ddl_action" where
  "up_rename_columns srv = renameColumns srv dirUp"

definition down_rename_columns :: "'d ddl_server \<Rightarrow> 'd ddl_action" where
  "down_rename_columns srv = renameColumns srv dirDown"

section \<open>Launch methods\<close>

text \<open>The launch methods of the configuration file: \<open>exists\<close> and \<open>readFile\<close> are the file
  system (\<open>None\<close>: the file cannot be opened), \<open>home\<close> is the environment variable. The result is
  \<open>None\<close> if parsing a line reads beyond the end of a list.\<close>

definition effectiveConfigFileName :: "(qstring \<Rightarrow> bool) \<Rightarrow> qstring \<Rightarrow> qstring" where
  "effectiveConfigFileName exists home =
     (let homeConfigFileName = home @ ''/'' @ ''.startkladde.conf'' in
      if exists homeConfigFileName then homeConfigFileName
      else if exists ''startkladde.conf'' then ''startkladde.conf'' else [])"

definition isWhitespace :: "char \<Rightarrow> bool" where
  "isWhitespace c \<longleftrightarrow> c \<in> set [CHR '' '', CHR 0x09, CHR 0x0D, CHR 0x0A]"

definition splitConfigLine :: "qstring \<Rightarrow> qstring \<times> qstring" where
  "splitConfigLine line =
     (let key = takeWhile (\<lambda>c. \<not> isWhitespace c) line; rest = dropWhile (\<lambda>c. \<not> isWhitespace c) line in
      if rest \<noteq> [] then (key, trimmed (dropWhile isWhitespace rest)) else (line, []))"

fun readConfigLines :: "qstring list \<Rightarrow> launchMethod list option" where
  "readConfigLines [] = Some []"
| "readConfigLines (raw # raws) =
     (let line = trimmed raw in
      if length line > 0 \<and> line ! 0 \<noteq> CHR ''#''
      then (case splitConfigLine line of (key, value) \<Rightarrow>
          if key = ''startart''
          then Option.bind (lm_parseConfigLine value) (\<lambda>sa.
              if idInvalid (lm_id sa) then readConfigLines raws
              else map_option ((#) sa) (readConfigLines raws))
          else readConfigLines raws)
      else readConfigLines raws)"

definition readConfiguredLaunchMethods ::
    "(qstring \<Rightarrow> bool) \<Rightarrow> (qstring \<Rightarrow> qstring list option) \<Rightarrow> qstring \<Rightarrow> launchMethod list option" where
  "readConfiguredLaunchMethods exists readFile home =
     (let filename = effectiveConfigFileName exists home in
      if filename = [] then Some []
      else (case readFile filename of None \<Rightarrow> Some [] | Some ls \<Rightarrow> readConfigLines ls))"

text \<open>The import, in a transaction that is rolled back when a statement fails.\<close>

definition importLaunchMethods :: "'d ddl_server \<Rightarrow> launchMethod list \<Rightarrow> 'd ddl_action" where
  "importLaunchMethods srv methods d =
     (case inOrder (ds_run srv TransactionStart
          # map (\<lambda>l. ds_run srv (InsertLaunchMethod l)) methods @ [ds_run srv TransactionCommit]) d of
        (None, d') \<Rightarrow> (None, d')
      | (Some e, d') \<Rightarrow> (case ds_run srv TransactionRollback d' of
          (None, d2) \<Rightarrow> (Some e, d2) | (Some e2, d2) \<Rightarrow> (Some e2, d2)))"

definition up_add_launch_methods :: "launchMethod list \<Rightarrow> 'd ddl_server \<Rightarrow> 'd ddl_action" where
  "up_add_launch_methods methods srv = inOrder
     [ddl_createTableWithId srv ''launch_methods'' True,
      ddl_addColumn srv ''launch_methods'' ''name'' dataTypeString [] True,
      ddl_addColumn srv ''launch_methods'' ''short_name'' dataTypeString [] True,
      ddl_addColumn srv ''launch_methods'' ''log_string'' dataTypeString [] True,
      ddl_addColumn srv ''launch_methods'' ''keyboard_shortcut'' dataTypeCharacter [] True,
      ddl_addColumn srv ''launch_methods'' ''type'' dataTypeString [] True,
      ddl_addColumn srv ''launch_methods'' ''towplane_registration'' dataTypeString [] True,
      ddl_addColumn srv ''launch_methods'' ''person_required'' dataTypeBoolean [] True,
      ddl_addColumn srv ''launch_methods'' ''comments'' dataTypeString [] True,
      importLaunchMethods srv methods]"

definition down_add_launch_methods :: "'d ddl_server \<Rightarrow> 'd ddl_action" where
  "down_add_launch_methods srv = inOrder
     [ddl_dropTable srv ''launch_methods'']"

section \<open>Values written out\<close>

definition up_add_comments_to_users :: "'d ddl_server \<Rightarrow> 'd ddl_action" where
  "up_add_comments_to_users srv = inOrder
     [ddl_addColumn srv ''users'' ''comments'' dataTypeString [] True]"

definition down_add_comments_to_users :: "'d ddl_server \<Rightarrow> 'd ddl_action" where
  "down_add_comments_to_users srv = inOrder
     [ddl_dropColumn srv ''users'' ''comments'' True]"

definition categoryCodes :: "(qstring \<times> qstring) list" where
  "categoryCodes = [(''e'', ''airplane''), (''1'', ''glider''), (''k'', ''motorglider''),
     (''m'', ''ultralight''), (''s'', ''other'')]"

definition updateCategory :: "'d ddl_server \<Rightarrow> direction \<Rightarrow> qstring \<Rightarrow> qstring \<Rightarrow> 'd ddl_action" where
  "updateCategory srv dir oldValue newValue = (case dir of
     dirUp \<Rightarrow> ddl_updateColumnValues srv ''planes'' ''category'' (VString oldValue) (VString newValue)
   | dirDown \<Rightarrow> ddl_updateColumnValues srv ''planes'' ''category'' (VString newValue) (VString oldValue))"

definition updateCategories :: "'d ddl_server \<Rightarrow> direction \<Rightarrow> 'd ddl_action" where
  "updateCategories srv dir = inOrder (map (\<lambda>(old, new). updateCategory srv dir old new) categoryCodes)"

definition up_full_plane_category :: "'d ddl_server \<Rightarrow> 'd ddl_action" where
  "up_full_plane_category srv = inOrder
     [ddl_changeColumnType srv ''planes'' ''category'' dataTypeString [],
      updateCategories srv dirUp]"

definition down_full_plane_category :: "'d ddl_server \<Rightarrow> 'd ddl_action" where
  "down_full_plane_category srv = inOrder
     [updateCategories srv dirDown,
      ddl_changeColumnType srv ''planes'' ''category'' dataTypeCharacter []]"

definition flightTypeCodes :: "(int \<times> qstring) list" where
  "flightTypeCodes = [(1, ''?''), (2, ''normal''), (3, ''training_2''), (4, ''training_1''),
     (7, ''tow''), (6, ''guest_private''), (8, ''guest_external'')]"

definition updateFlightType :: "'d ddl_server \<Rightarrow> direction \<Rightarrow> int \<Rightarrow> qstring \<Rightarrow> 'd ddl_action" where
  "updateFlightType srv dir oldValue newValue = (case dir of
     dirUp \<Rightarrow> ddl_updateColumnValues srv ''flights'' ''type'' (VInt oldValue) (VString newValue)
   | dirDown \<Rightarrow> ddl_updateColumnValues srv ''flights'' ''type'' (VString newValue) (VInt oldValue))"

definition updateFlightTypes :: "'d ddl_server \<Rightarrow> direction \<Rightarrow> 'd ddl_action" where
  "updateFlightTypes srv dir = inOrder (map (\<lambda>(old, new). updateFlightType srv dir old new) flightTypeCodes)"

definition up_full_flight_type :: "'d ddl_server \<Rightarrow> 'd ddl_action" where
  "up_full_flight_type srv = inOrder
     [ddl_changeColumnType srv ''flights'' ''type'' dataTypeString [],
      updateFlightTypes srv dirUp]"

definition down_full_flight_type :: "'d ddl_server \<Rightarrow> 'd ddl_action" where
  "down_full_flight_type srv = inOrder
     [updateFlightTypes srv dirDown,
      ddl_changeColumnType srv ''flights'' ''type'' dataTypeInteger []]"

definition up_flight_status_columns :: "'d ddl_server \<Rightarrow> 'd ddl_action" where
  "up_flight_status_columns srv = inOrder
     [ddl_addColumn srv ''flights'' ''departed'' dataTypeBoolean ''AFTER status'' True,
      ddl_addColumn srv ''flights'' ''landed'' dataTypeBoolean ''AFTER departed'' True,
      ddl_addColumn srv ''flights'' ''towflight_landed'' dataTypeBoolean ''AFTER landed'' True,
      ds_run srv UpdateStatusFlags,
      ddl_dropColumn srv ''flights'' ''status'' True]"

definition down_flight_status_columns :: "'d ddl_server \<Rightarrow> 'd ddl_action" where
  "down_flight_status_columns srv = inOrder
     [ddl_addColumn srv ''flights'' ''status'' dataTypeInteger ''AFTER departed'' True,
      ds_run srv UpdateStatusNumber,
      ddl_dropColumn srv ''flights'' ''departed'' True,
      ddl_dropColumn srv ''flights'' ''landed'' True,
      ddl_dropColumn srv ''flights'' ''towflight_landed'' True]"

definition flightModeCodes :: "(qstring \<times> qstring) list" where
  "flightModeCodes = [(''l'', ''local''), (''k'', ''coming''), (''g'', ''leaving'')]"

definition updateFlightMode :: "'d ddl_server \<Rightarrow> direction \<Rightarrow> qstring \<Rightarrow> qstring \<Rightarrow> 'd ddl_action" where
  "updateFlightMode srv dir oldValue newValue = (case dir of
     dirUp \<Rightarrow> inOrder
       [ddl_updateColumnValues srv ''flights'' ''mode'' (VString oldValue) (VString newValue),
        ddl_updateColumnValues srv ''flights'' ''towflight_mode'' (VString oldValue) (VString newValue)]
   | dirDown \<Rightarrow> inOrder
       [ddl_updateColumnValues srv ''flights'' ''mode'' (VString newValue) (VString oldValue),
        ddl_updateColumnValues srv ''flights'' ''towflight_mode'' (VString newValue) (VString oldValue)])"

definition updateFlightModes :: "'d ddl_server \<Rightarrow> direction \<Rightarrow> 'd ddl_action" where
  "updateFlightModes srv dir = inOrder (map (\<lambda>(old, new). updateFlightMode srv dir old new) flightModeCodes)"

definition up_full_flight_mode :: "'d ddl_server \<Rightarrow> 'd ddl_action" where
  "up_full_flight_mode srv = inOrder
     [ddl_changeColumnType srv ''flights'' ''mode'' dataTypeString [],
      ddl_changeColumnType srv ''flights'' ''towflight_mode'' dataTypeString [],
      updateFlightModes srv dirUp]"

definition down_full_flight_mode :: "'d ddl_server \<Rightarrow> 'd ddl_action" where
  "down_full_flight_mode srv = inOrder
     [updateFlightModes srv dirDown,
      ddl_changeColumnType srv ''flights'' ''mode'' dataTypeCharacter []]"

section \<open>Indexes\<close>

definition handleIndex :: "'d ddl_server \<Rightarrow> direction \<Rightarrow> qstring \<Rightarrow> qstring \<Rightarrow> qstring \<Rightarrow> 'd ddl_action" where
  "handleIndex srv dir table name cols = (case dir of
     dirUp \<Rightarrow> ddl_createIndex srv \<lparr>is_table = table, is_name = name, is_columns = cols\<rparr> True
   | dirDown \<Rightarrow> ddl_dropIndex srv table name True)"

definition handleSimpleIndex :: "'d ddl_server \<Rightarrow> direction \<Rightarrow> qstring \<Rightarrow> qstring \<Rightarrow> 'd ddl_action" where
  "handleSimpleIndex srv dir table column = handleIndex srv dir table (column @ ''_index'') column"

definition handleIndexes :: "'d ddl_server \<Rightarrow> direction \<Rightarrow> 'd ddl_action" where
  "handleIndexes srv dir = inOrder
     [handleSimpleIndex srv dir ''planes'' ''registration'',
      handleSimpleIndex srv dir ''planes'' ''club'',
      handleSimpleIndex srv dir ''people'' ''club'',
      handleSimpleIndex srv dir ''people'' ''club_id'',
      handleSimpleIndex srv dir ''users'' ''username'',
      handleSimpleIndex srv dir ''users'' ''person_id'',
      handleSimpleIndex srv dir ''flights'' ''plane_id'',
      handleSimpleIndex srv dir ''flights'' ''pilot_id'',
      handleSimpleIndex srv dir ''flights'' ''copilot_id'',
      handleSimpleIndex srv dir ''flights'' ''launch_method_id'',
      handleSimpleIndex srv dir ''flights'' ''towplane_id'',
      handleSimpleIndex srv dir ''flights'' ''towpilot_id'',
      handleSimpleIndex srv dir ''flights'' ''type'',
      handleSimpleIndex srv dir ''flights'' ''mode'',
      handleSimpleIndex srv dir ''flights'' ''towflight_mode'',
      handleSimpleIndex srv dir ''flights'' ''departed'',
      handleSimpleIndex srv dir ''flights'' ''landed'',
      handleSimpleIndex srv dir ''flights'' ''towflight_landed'',
      handleIndex srv dir ''flights'' ''status_index'' ''departed,landed,towflight_landed'',
      handleSimpleIndex srv dir ''flights'' ''departure_time'',
      handleSimpleIndex srv dir ''flights'' ''landing_time'',
      handleSimpleIndex srv dir ''flights'' ''towflight_landing_time'',
      handleSimpleIndex srv dir ''flights'' ''departure_location'',
      handleSimpleIndex srv dir ''flights'' ''landing_location'',
      handleSimpleIndex srv dir ''flights'' ''towflight_landing_location'',
      handleSimpleIndex srv dir ''flights'' ''accounting_notes'']"

definition up_add_indexes :: "'d ddl_server \<Rightarrow> 'd ddl_action" where
  "up_add_indexes srv = handleIndexes srv dirUp"

definition down_add_indexes :: "'d ddl_server \<Rightarrow> 'd ddl_action" where
  "down_add_indexes srv = handleIndexes srv dirDown"

section \<open>Later columns\<close>

definition up_add_medical_validity :: "'d ddl_server \<Rightarrow> 'd ddl_action" where
  "up_add_medical_validity srv = inOrder
     [ddl_addColumn srv ''people'' ''medical_validity'' dataTypeDate [] True,
      ddl_addColumn srv ''people'' ''check_medical_validity'' dataTypeBoolean [] True]"

definition down_add_medical_validity :: "'d ddl_server \<Rightarrow> 'd ddl_action" where
  "down_add_medical_validity srv = inOrder
     [ddl_dropColumn srv ''people'' ''medical_validity'' True,
      ddl_dropColumn srv ''people'' ''check_medical_validity'' True]"

definition up_add_flarm_id :: "'d ddl_server \<Rightarrow> 'd ddl_action" where
  "up_add_flarm_id srv = inOrder
     [ddl_addColumn srv ''planes'' ''flarm_id'' dataTypeString16 [] True,
      ddl_addColumn srv ''flights'' ''flarm_id'' dataTypeString16 [] True]"

definition down_add_flarm_id :: "'d ddl_server \<Rightarrow> 'd ddl_action" where
  "down_add_flarm_id srv = inOrder
     [ddl_dropColumn srv ''planes'' ''flarm_id'' True,
      ddl_dropColumn srv ''flights'' ''flarm_id'' True]"

definition up_add_flarmnet :: "'d ddl_server \<Rightarrow> 'd ddl_action" where
  "up_add_flarmnet srv = inOrder
     [ddl_createTableWithId srv ''flarmnet'' True,
      ddl_addColumn srv ''flarmnet'' ''flarm_id'' dataTypeString16 ''NOT NULL'' True,
      ddl_addColumn srv ''flarmnet'' ''registration'' dataTypeString16 ''NOT NULL'' True,
      ddl_addColumn srv ''flarmnet'' ''callsign'' dataTypeString16 [] True,
      ddl_addColumn srv ''flarmnet'' ''owner'' dataTypeString [] True,
      ddl_addColumn srv ''flarmnet'' ''airfield'' dataTypeString [] True,
      ddl_addColumn srv ''flarmnet'' ''type'' dataTypeString [] True,
      ddl_addColumn srv ''flarmnet'' ''frequency'' dataTypeString16 [] True]"

definition down_add_flarmnet :: "'d ddl_server \<Rightarrow> 'd ddl_action" where
  "down_add_flarmnet srv = inOrder
     [ddl_dropTable srv ''flarmnet'']"

definition up_add_vfid :: "'d ddl_server \<Rightarrow> 'd ddl_action" where
  "up_add_vfid srv = inOrder
     [ddl_addColumn srv ''flights'' ''vfid'' dataTypeInteger [] True]"

definition down_add_vfid :: "'d ddl_server \<Rightarrow> 'd ddl_action" where
  "down_add_vfid srv = inOrder
     [ddl_dropColumn srv ''flights'' ''vfid'' True]"

definition up_anonymous_columns :: "'d ddl_server \<Rightarrow> 'd ddl_action" where
  "up_anonymous_columns srv = inOrder
     [ddl_addColumn srv ''flights'' ''num_crew'' dataTypeInteger [] True,
      ddl_addColumn srv ''flights'' ''num_pax'' dataTypeInteger [] True]"

definition down_anonymous_columns :: "'d ddl_server \<Rightarrow> 'd ddl_action" where
  "down_anonymous_columns srv = inOrder
     [ddl_dropColumn srv ''flights'' ''num_crew'' True,
      ddl_dropColumn srv ''flights'' ''num_pax'' True]"

definition up_add_uploaded :: "'d ddl_server \<Rightarrow> 'd ddl_action" where
  "up_add_uploaded srv = inOrder
     [ddl_addColumn srv ''flights'' ''uploaded'' dataTypeBoolean [] True,
      ds_run srv UpdateUploaded]"

definition down_add_uploaded :: "'d ddl_server \<Rightarrow> 'd ddl_action" where
  "down_add_uploaded srv = inOrder
     [ddl_dropColumn srv ''flights'' ''uploaded'' True]"

definition up_add_supervisor :: "'d ddl_server \<Rightarrow> 'd ddl_action" where
  "up_add_supervisor srv = inOrder
     [ddl_addColumn srv ''flights'' ''supervisor_id'' dataTypeInteger [] True]"

definition down_add_supervisor :: "'d ddl_server \<Rightarrow> 'd ddl_action" where
  "down_add_supervisor srv = inOrder
     [ddl_dropColumn srv ''flights'' ''supervisor_id'' True]"

definition up_add_vfid_to_person :: "'d ddl_server \<Rightarrow> 'd ddl_action" where
  "up_add_vfid_to_person srv = inOrder
     [ddl_addColumn srv ''people'' ''vfid'' dataTypeLong [] True]"

definition down_add_vfid_to_person :: "'d ddl_server \<Rightarrow> 'd ddl_action" where
  "down_add_vfid_to_person srv = inOrder
     [ddl_dropColumn srv ''people'' ''vfid'' True]"


section \<open>Registration\<close>

text \<open>\<open>REGISTER_MIGRATION\<close> of every file; the program that builds a migration gives it the interface.\<close>

definition ending :: "'d ddl_action \<Rightarrow> 'd \<Rightarrow> bool \<times> 'd" where
  "ending a d = (case a d of (r, d') \<Rightarrow> (r = None, d'))"

definition aMigration :: "qstring \<Rightarrow> 'd ddl_action \<Rightarrow> 'd ddl_action \<Rightarrow> 'd migration" where
  "aMigration name u d = \<lparr>mg_name = name, mg_up = ending u, mg_down = ending d\<rparr>"

definition registeredMigrations :: "launchMethod list \<Rightarrow> 'd ddl_server \<Rightarrow> (version \<times> 'd migration) list" where
  "registeredMigrations methods srv =
     [(20100214140000, aMigration ''initial'' (up_initial srv) (down_initial srv)),
      (20100215000000, aMigration ''change_to_innodb'' (up_change_to_innodb srv) (down_change_to_innodb srv)),
      (20100215172237, aMigration ''add_towpilot'' (up_add_towpilot srv) (down_add_towpilot srv)),
      (20100215211913, aMigration ''drop_old_columns'' (up_drop_old_columns srv) (down_drop_old_columns srv)),
      (20100215215320, aMigration ''convert_to_utf8'' (up_convert_to_utf8 srv) (down_convert_to_utf8 srv)),
      (20100215221900, aMigration ''fix_data_types'' (up_fix_data_types srv) (down_fix_data_types srv)),
      (20100216105657, aMigration ''remove_temp_tables'' (up_remove_temp_tables srv) (down_remove_temp_tables srv)),
      (20100216122008, aMigration ''rename_tables'' (up_rename_tables srv) (down_rename_tables srv)),
      (20100216124307, aMigration ''rename_columns'' (up_rename_columns srv) (down_rename_columns srv)),
      (20100216135637, aMigration ''add_launch_methods'' (up_add_launch_methods methods srv) (down_add_launch_methods srv)),
      (20100216171107, aMigration ''add_comments_to_users'' (up_add_comments_to_users srv) (down_add_comments_to_users srv)),
      (20100216180053, aMigration ''full_plane_category'' (up_full_plane_category srv) (down_full_plane_category srv)),
      (20100216190338, aMigration ''full_flight_type'' (up_full_flight_type srv) (down_full_flight_type srv)),
      (20100217131516, aMigration ''flight_status_columns'' (up_flight_status_columns srv) (down_flight_status_columns srv)),
      (20100314190344, aMigration ''full_flight_mode'' (up_full_flight_mode srv) (down_full_flight_mode srv)),
      (20100427115235, aMigration ''add_indexes'' (up_add_indexes srv) (down_add_indexes srv)),
      (20100726124616, aMigration ''add_medical_validity'' (up_add_medical_validity srv) (down_add_medical_validity srv)),
      (20120612130803, aMigration ''add_flarm_id'' (up_add_flarm_id srv) (down_add_flarm_id srv)),
      (20120620223948, aMigration ''add_flarmnet'' (up_add_flarmnet srv) (down_add_flarmnet srv)),
      (20191018135747, aMigration ''add_vfid'' (up_add_vfid srv) (down_add_vfid srv)),
      (20200108164302, aMigration ''anonymous_columns'' (up_anonymous_columns srv) (down_anonymous_columns srv)),
      (20220328172525, aMigration ''add_uploaded'' (up_add_uploaded srv) (down_add_uploaded srv)),
      (20240323192110, aMigration ''add_supervisor'' (up_add_supervisor srv) (down_add_supervisor srv)),
      (20250126193900, aMigration ''add_vfid_to_person'' (up_add_vfid_to_person srv) (down_add_vfid_to_person srv))]"

definition migrationBuilders :: "launchMethod list \<Rightarrow> 'd ddl_server \<Rightarrow> 'd builders" where
  "migrationBuilders methods srv =
     foldl (\<lambda>bs (v, m). registration v m bs) [] (registeredMigrations methods srv)"

section \<open>The current schema\<close>

text \<open>\<^verbatim>\<open>current_schema.yaml\<close>, and what \<^verbatim>\<open>CurrentSchema.cpp.erb\<close> makes of it: the tables with
  their columns (name, type, null allowed, primary key, extra) and indexes, and the versions they stand for.\<close>

record yamlColumn =
  yc_name :: qstring
  yc_type :: qstring
  yc_nullok :: bool
  yc_primary :: bool
  yc_extra :: qstring

definition plainColumn :: "qstring \<Rightarrow> qstring \<Rightarrow> yamlColumn" where
  "plainColumn name type = \<lparr>yc_name = name, yc_type = type, yc_nullok = True, yc_primary = False, yc_extra = []\<rparr>"

definition requiredColumn :: "qstring \<Rightarrow> qstring \<Rightarrow> yamlColumn" where
  "requiredColumn name type = (plainColumn name type)\<lparr>yc_nullok := False\<rparr>"

definition keyColumn :: yamlColumn where
  "keyColumn = \<lparr>yc_name = ''id'', yc_type = ''int(11)'', yc_nullok = False, yc_primary = True,
     yc_extra = ''auto_increment''\<rparr>"

record yamlTable =
  yt_name :: qstring
  yt_columns :: "yamlColumn list"
  yt_indexes :: "(qstring \<times> qstring) list"

definition yaml_flarmnet :: yamlTable where
  "yaml_flarmnet = \<lparr>yt_name = ''flarmnet'',
     yt_columns = [keyColumn,
       requiredColumn ''flarm_id'' ''varchar(16)'',
       requiredColumn ''registration'' ''varchar(16)'',
       plainColumn ''callsign'' ''varchar(16)'',
       plainColumn ''owner'' ''varchar(255)'',
       plainColumn ''airfield'' ''varchar(255)'',
       plainColumn ''type'' ''varchar(255)'',
       plainColumn ''frequency'' ''varchar(16)''],
     yt_indexes = []\<rparr>"

definition yaml_flights :: yamlTable where
  "yaml_flights = \<lparr>yt_name = ''flights'',
     yt_columns = [keyColumn,
       plainColumn ''plane_id'' ''int(11)'',
       plainColumn ''pilot_id'' ''int(11)'',
       plainColumn ''copilot_id'' ''int(11)'',
       plainColumn ''type'' ''varchar(255)'',
       plainColumn ''mode'' ''varchar(255)'',
       plainColumn ''departed'' ''tinyint(1)'',
       plainColumn ''landed'' ''tinyint(1)'',
       plainColumn ''towflight_landed'' ''tinyint(1)'',
       plainColumn ''launch_method_id'' ''int(11)'',
       plainColumn ''departure_location'' ''varchar(255)'',
       plainColumn ''landing_location'' ''varchar(255)'',
       plainColumn ''num_landings'' ''int(11)'',
       plainColumn ''departure_time'' ''datetime'',
       plainColumn ''landing_time'' ''datetime'',
       plainColumn ''towplane_id'' ''int(11)'',
       plainColumn ''towflight_mode'' ''varchar(255)'',
       plainColumn ''towflight_landing_location'' ''varchar(255)'',
       plainColumn ''towflight_landing_time'' ''datetime'',
       plainColumn ''towpilot_id'' ''int(11)'',
       plainColumn ''pilot_last_name'' ''varchar(255)'',
       plainColumn ''pilot_first_name'' ''varchar(255)'',
       plainColumn ''copilot_last_name'' ''varchar(255)'',
       plainColumn ''copilot_first_name'' ''varchar(255)'',
       plainColumn ''towpilot_last_name'' ''varchar(255)'',
       plainColumn ''towpilot_first_name'' ''varchar(255)'',
       plainColumn ''comments'' ''varchar(255)'',
       plainColumn ''accounting_notes'' ''varchar(255)'',
       plainColumn ''flarm_id'' ''varchar(16)'',
       plainColumn ''vfid'' ''int(11)'',
       plainColumn ''num_crew'' ''int(11)'',
       plainColumn ''num_pax'' ''int(11)'',
       plainColumn ''uploaded'' ''tinyint(1)''],
     yt_indexes = [(''accounting_notes_index'', ''accounting_notes''),
       (''copilot_id_index'', ''copilot_id''),
       (''departed_index'', ''departed''),
       (''departure_location_index'', ''departure_location''),
       (''departure_time_index'', ''departure_time''),
       (''landed_index'', ''landed''),
       (''landing_location_index'', ''landing_location''),
       (''landing_time_index'', ''landing_time''),
       (''launch_method_id_index'', ''launch_method_id''),
       (''mode_index'', ''mode''),
       (''pilot_id_index'', ''pilot_id''),
       (''plane_id_index'', ''plane_id''),
       (''status_index'', ''departed,landed,towflight_landed''),
       (''towflight_landed_index'', ''towflight_landed''),
       (''towflight_landing_location_index'', ''towflight_landing_location''),
       (''towflight_landing_time_index'', ''towflight_landing_time''),
       (''towflight_mode_index'', ''towflight_mode''),
       (''towpilot_id_index'', ''towpilot_id''),
       (''towplane_id_index'', ''towplane_id''),
       (''type_index'', ''type'')]\<rparr>"

definition yaml_launch_methods :: yamlTable where
  "yaml_launch_methods = \<lparr>yt_name = ''launch_methods'',
     yt_columns = [keyColumn,
       plainColumn ''name'' ''varchar(255)'',
       plainColumn ''short_name'' ''varchar(255)'',
       plainColumn ''log_string'' ''varchar(255)'',
       plainColumn ''keyboard_shortcut'' ''varchar(1)'',
       plainColumn ''type'' ''varchar(255)'',
       plainColumn ''towplane_registration'' ''varchar(255)'',
       plainColumn ''person_required'' ''tinyint(1)'',
       plainColumn ''comments'' ''varchar(255)''],
     yt_indexes = []\<rparr>"

definition yaml_people :: yamlTable where
  "yaml_people = \<lparr>yt_name = ''people'',
     yt_columns = [keyColumn,
       plainColumn ''last_name'' ''varchar(255)'',
       plainColumn ''first_name'' ''varchar(255)'',
       plainColumn ''club'' ''varchar(255)'',
       plainColumn ''nickname'' ''varchar(255)'',
       plainColumn ''club_id'' ''varchar(255)'',
       plainColumn ''comments'' ''varchar(255)'',
       plainColumn ''medical_validity'' ''date'',
       plainColumn ''check_medical_validity'' ''tinyint(1)''],
     yt_indexes = [(''club_id_index'', ''club_id''),
       (''club_index'', ''club'')]\<rparr>"

definition yaml_planes :: yamlTable where
  "yaml_planes = \<lparr>yt_name = ''planes'',
     yt_columns = [keyColumn,
       plainColumn ''registration'' ''varchar(255)'',
       plainColumn ''club'' ''varchar(255)'',
       plainColumn ''num_seats'' ''int(11)'',
       plainColumn ''type'' ''varchar(255)'',
       plainColumn ''category'' ''varchar(255)'',
       plainColumn ''callsign'' ''varchar(255)'',
       plainColumn ''comments'' ''varchar(255)'',
       plainColumn ''flarm_id'' ''varchar(16)''],
     yt_indexes = [(''club_index'', ''club''),
       (''registration_index'', ''registration'')]\<rparr>"

definition yaml_users :: yamlTable where
  "yaml_users = \<lparr>yt_name = ''users'',
     yt_columns = [keyColumn,
       requiredColumn ''username'' ''varchar(255)'',
       plainColumn ''password'' ''varchar(255)'',
       plainColumn ''perm_club_admin'' ''tinyint(1)'',
       plainColumn ''perm_read_flight_db'' ''tinyint(1)'',
       plainColumn ''club'' ''varchar(255)'',
       plainColumn ''person_id'' ''int(11)'',
       plainColumn ''comments'' ''varchar(255)''],
     yt_indexes = [(''person_id_index'', ''person_id''),
       (''username_index'', ''username'')]\<rparr>"

definition schemaTables :: "yamlTable list" where
  "schemaTables = [yaml_flarmnet, yaml_flights, yaml_launch_methods, yaml_people, yaml_planes, yaml_users]"

definition schemaVersions :: "version list" where
  "schemaVersions =
     [20100214140000, 20100215000000, 20100215172237, 20100215211913, 20100215215320,
      20100215221900, 20100216105657, 20100216122008, 20100216124307, 20100216135637,
      20100216171107, 20100216180053, 20100216190338, 20100217131516, 20100314190344,
      20100427115235, 20100726124616, 20120612130803, 20120620223948, 20191018135747,
      20200108164302, 20220328172525]"

definition columnAttributes :: "yamlColumn \<Rightarrow> qstring" where
  "columnAttributes c = joinWith '' '' ((if trimmed (yc_extra c) = [] then [] else [yc_extra c])
     @ (if \<not> yc_nullok c then [''NOT NULL''] else []) @ (if yc_primary c then [''PRIMARY KEY''] else []))"

definition schemaTable :: "'d ddl_server \<Rightarrow> yamlTable \<Rightarrow> 'd ddl_action" where
  "schemaTable srv t = ddl_createTable srv (yt_name t)
     (map (\<lambda>c. \<lparr>cs_name = yc_name c, cs_type = yc_type c, cs_extra = columnAttributes c\<rparr>) (yt_columns t))
     (map (\<lambda>(n, cs). \<lparr>is_table = yt_name t, is_name = n, is_columns = cs\<rparr>) (yt_indexes t)) False"

definition currentSchema :: "'d ddl_server \<Rightarrow> 'd schema" where
  "currentSchema srv = \<lparr>sc_versions = schemaVersions,
     sc_steps = map (\<lambda>t d. snd (schemaTable srv t d)) schemaTables\<rparr>"

end
