(* ===== verification/Sk_SchemaStages.thy ===== *)
theory Sk_SchemaStages
  imports Sk_Migrations
begin

text \<open>
  The description of the database after every migration, starting from an empty database, and that each migration
  leads from one stage to the next and its \<^verbatim>\<open>down\<close> leads from there to the stage before (with the two
  exceptions stated). The stages are evaluated by the kernel, statement by statement.
\<close>

section \<open>Stages\<close>

definition col :: "qstring \<Rightarrow> qstring \<Rightarrow> column" where
  "col name type = toColumn name type []"

definition idCol :: column where
  "idCol = toColumn ''id'' dataTypeId ''NOT NULL AUTO_INCREMENT PRIMARY KEY''"

definition cols :: "(qstring \<times> qstring) list \<Rightarrow> column list" where
  "cols = map (\<lambda>(name, type). col name type)"

definition tableOf :: "column list \<Rightarrow> (qstring \<times> qstring list) list \<Rightarrow> dbId list \<Rightarrow> dbTable" where
  "tableOf cs idx ids = \<lparr>tb_columns = idCol # cs, tb_indexes = idx, tb_ids = ids\<rparr>"

definition personSpec :: "(qstring \<times> qstring) list" where
  "personSpec =
     [(''nachname'', dataTypeString), (''vorname'', dataTypeString), (''verein'', dataTypeString),
      (''spitzname'', dataTypeString), (''vereins_id'', dataTypeString),
      (''bemerkung'', dataTypeString)]"

definition personColumns :: "column list" where
  "personColumns = cols personSpec"

definition flugzeugSpec :: "(qstring \<times> qstring) list" where
  "flugzeugSpec =
     [(''kennzeichen'', dataTypeString), (''verein'', dataTypeString), (''sitze'', dataTypeInteger),
      (''typ'', dataTypeString), (''gattung'', dataTypeCharacter),
      (''wettbewerbskennzeichen'', dataTypeString), (''bemerkung'', dataTypeString)]"

definition flugzeugColumns :: "column list" where
  "flugzeugColumns = cols flugzeugSpec"

definition flugSpec :: "(qstring \<times> qstring) list" where
  "flugSpec =
     [(''flugzeug'', dataTypeId), (''pilot'', dataTypeId), (''begleiter'', dataTypeId),
      (''typ'', dataTypeInteger), (''modus'', dataTypeCharacter), (''status'', dataTypeInteger),
      (''startart'', dataTypeId), (''startort'', dataTypeString), (''zielort'', dataTypeString),
      (''anzahl_landungen'', dataTypeInteger), (''startzeit'', dataTypeDatetime),
      (''landezeit'', dataTypeDatetime), (''towplane'', dataTypeId),
      (''modus_sfz'', dataTypeCharacter), (''zielort_sfz'', dataTypeString),
      (''land_schlepp'', dataTypeDatetime), (''towpilot'', dataTypeId), (''pnn'', dataTypeString),
      (''pvn'', dataTypeString), (''bnn'', dataTypeString), (''bvn'', dataTypeString),
      (''tpnn'', dataTypeString), (''tpvn'', dataTypeString), (''bemerkung'', dataTypeString),
      (''abrechnungshinweis'', dataTypeString)]"

definition flugColumns :: "column list" where
  "flugColumns = cols flugSpec"

definition userSpec :: "qstring \<Rightarrow> (qstring \<times> qstring) list" where
  "userSpec personName =
     [(''password'', dataTypeString), (''perm_club_admin'', dataTypeBoolean),
      (''perm_read_flight_db'', dataTypeBoolean), (''club'', dataTypeString), (personName, dataTypeId)]"

definition usernameCol :: column where
  "usernameCol = toColumn ''username'' dataTypeString ''NOT NULL''"

definition userColumns :: "qstring \<Rightarrow> column list" where
  "userColumns personName = usernameCol # cols (userSpec personName)"

definition legacyDb :: tablesDb where
  "legacyDb = \<lparr>td_tables =
     [(''person'', tableOf personColumns [] []), (''person_temp'', tableOf personColumns [] []),
      (''flugzeug'', tableOf flugzeugColumns [] []), (''flugzeug_temp'', tableOf flugzeugColumns [] []),
      (''flug'', tableOf flugColumns [] []), (''flug_temp'', tableOf flugColumns [] []),
      (''user'', tableOf (userColumns ''person'') [] [])], td_saved = None\<rparr>"

definition mergedDb :: tablesDb where
  "mergedDb = \<lparr>td_tables =
     [(''person'', tableOf personColumns [] []), (''flugzeug'', tableOf flugzeugColumns [] []),
      (''flug'', tableOf flugColumns [] []), (''user'', tableOf (userColumns ''person'') [] [])], td_saved = None\<rparr>"

text \<open>Going down again, the tables come in another order.\<close>

definition legacyDb2 :: tablesDb where
  "legacyDb2 = \<lparr>td_tables =
     [(''person_temp'', tableOf personColumns [] []), (''flugzeug_temp'', tableOf flugzeugColumns [] []),
      (''flug_temp'', tableOf flugColumns [] []), (''user'', tableOf (userColumns ''person'') [] []),
      (''person'', tableOf personColumns [] []), (''flugzeug'', tableOf flugzeugColumns [] []),
      (''flug'', tableOf flugColumns [] [])], td_saved = None\<rparr>"

definition englishDb :: tablesDb where
  "englishDb = \<lparr>td_tables =
     [(''people'', tableOf personColumns [] []), (''planes'', tableOf flugzeugColumns [] []),
      (''flights'', tableOf flugColumns [] []), (''users'', tableOf (userColumns ''person'') [] [])], td_saved = None\<rparr>"

definition peopleSpec :: "(qstring \<times> qstring) list" where
  "peopleSpec =
     [(''last_name'', dataTypeString), (''first_name'', dataTypeString), (''club'', dataTypeString),
      (''nickname'', dataTypeString), (''club_id'', dataTypeString), (''comments'', dataTypeString)]"

definition peopleColumns :: "column list" where
  "peopleColumns = cols peopleSpec"

definition planesColumns :: "qstring \<Rightarrow> column list" where
  "planesColumns categoryType = cols
     [(''registration'', dataTypeString), (''club'', dataTypeString), (''num_seats'', dataTypeInteger),
      (''type'', dataTypeString), (''category'', categoryType), (''callsign'', dataTypeString),
      (''comments'', dataTypeString)]"

definition flightsColumns ::
    "qstring \<Rightarrow> qstring \<Rightarrow> qstring \<Rightarrow> (qstring \<times> qstring) list \<Rightarrow> column list" where
  "flightsColumns typeType modeType towModeType status = cols
     ([(''plane_id'', dataTypeId), (''pilot_id'', dataTypeId), (''copilot_id'', dataTypeId),
      (''type'', typeType), (''mode'', modeType)] @ status @
      [(''launch_method_id'', dataTypeId), (''departure_location'', dataTypeString),
      (''landing_location'', dataTypeString), (''num_landings'', dataTypeInteger),
      (''departure_time'', dataTypeDatetime), (''landing_time'', dataTypeDatetime),
      (''towplane_id'', dataTypeId)] @
      [(''towflight_mode'', towModeType), (''towflight_landing_location'', dataTypeString),
      (''towflight_landing_time'', dataTypeDatetime), (''towpilot_id'', dataTypeId),
      (''pilot_last_name'', dataTypeString), (''pilot_first_name'', dataTypeString),
      (''copilot_last_name'', dataTypeString), (''copilot_first_name'', dataTypeString),
      (''towpilot_last_name'', dataTypeString), (''towpilot_first_name'', dataTypeString),
      (''comments'', dataTypeString), (''accounting_notes'', dataTypeString)])"

definition oldStatus :: "(qstring \<times> qstring) list" where
  "oldStatus = [(''status'', dataTypeInteger)]"

definition newStatus :: "(qstring \<times> qstring) list" where
  "newStatus = [(''departed'', dataTypeBoolean), (''landed'', dataTypeBoolean), (''towflight_landed'', dataTypeBoolean)]"

definition usersColumns :: "column list" where
  "usersColumns = userColumns ''person_id''"

definition launchMethodsSpec :: "(qstring \<times> qstring) list" where
  "launchMethodsSpec =
     [(''name'', dataTypeString), (''short_name'', dataTypeString), (''log_string'', dataTypeString),
      (''keyboard_shortcut'', dataTypeCharacter), (''type'', dataTypeString),
      (''towplane_registration'', dataTypeString), (''person_required'', dataTypeBoolean),
      (''comments'', dataTypeString)]"

definition launchMethodsColumns :: "column list" where
  "launchMethodsColumns = cols launchMethodsSpec"

definition flarmnetColumns :: "column list" where
  "flarmnetColumns =
     [toColumn ''flarm_id'' dataTypeString16 ''NOT NULL'', toColumn ''registration'' dataTypeString16 ''NOT NULL'']
     @ cols [(''callsign'', dataTypeString16), (''owner'', dataTypeString), (''airfield'', dataTypeString),
      (''type'', dataTypeString), (''frequency'', dataTypeString16)]"

definition simpleIndexes :: "qstring list \<Rightarrow> (qstring \<times> qstring list) list" where
  "simpleIndexes = map (\<lambda>c. (c @ ''_index'', [c]))"

definition flightsIndexes :: "(qstring \<times> qstring list) list" where
  "flightsIndexes = simpleIndexes
      [''plane_id'', ''pilot_id'', ''copilot_id'', ''launch_method_id'', ''towplane_id'', ''towpilot_id'', ''type'',
       ''mode'', ''towflight_mode'', ''departed'', ''landed'', ''towflight_landed'']
     @ [(''status_index'', [''departed'', ''landed'', ''towflight_landed''])]
     @ simpleIndexes
      [''departure_time'', ''landing_time'', ''towflight_landing_time'', ''departure_location'', ''landing_location'',
       ''towflight_landing_location'', ''accounting_notes'']"

text \<open>The later stages: the tables without indexes, and with them.\<close>

definition renamedDb :: tablesDb where
  "renamedDb = \<lparr>td_tables =
     [(''people'', tableOf peopleColumns [] []), (''planes'', tableOf (planesColumns dataTypeCharacter) [] []),
      (''flights'', tableOf (flightsColumns dataTypeInteger dataTypeCharacter dataTypeCharacter oldStatus) [] []),
      (''users'', tableOf usersColumns [] [])], td_saved = None\<rparr>"

definition plainDb :: "column list \<Rightarrow> column list \<Rightarrow> column list \<Rightarrow> dbId list \<Rightarrow> tablesDb" where
  "plainDb planes flights users ids = \<lparr>td_tables =
     [(''people'', tableOf peopleColumns [] []), (''planes'', tableOf planes [] []),
      (''flights'', tableOf flights [] []), (''users'', tableOf users [] []),
      (''launch_methods'', tableOf launchMethodsColumns [] ids)], td_saved = None\<rparr>"

definition commentedUsers :: "column list" where
  "commentedUsers = usersColumns @ cols [(''comments'', dataTypeString)]"

definition finalPlanes :: "column list" where
  "finalPlanes = planesColumns dataTypeString"

definition finalFlights :: "column list" where
  "finalFlights = flightsColumns dataTypeString dataTypeString dataTypeString newStatus"

text \<open>With indexes; the arguments are the columns added later and whether the table of FlarmNet records is
  there.\<close>

definition indexedDb ::
    "(qstring \<times> qstring) list \<Rightarrow> (qstring \<times> qstring) list \<Rightarrow> (qstring \<times> qstring) list \<Rightarrow> bool \<Rightarrow> dbId list \<Rightarrow> tablesDb" where
  "indexedDb people planes flights flarmnet ids = \<lparr>td_tables =
     [(''people'', tableOf (peopleColumns @ cols people) (simpleIndexes [''club'', ''club_id'']) []),
      (''planes'', tableOf (finalPlanes @ cols planes) (simpleIndexes [''registration'', ''club'']) []),
      (''flights'', tableOf (finalFlights @ cols flights) flightsIndexes []),
      (''users'', tableOf commentedUsers (simpleIndexes [''username'', ''person_id'']) []),
      (''launch_methods'', tableOf launchMethodsColumns [] ids)]
     @ (if flarmnet then [(''flarmnet'', tableOf flarmnetColumns [] [])] else []), td_saved = None\<rparr>"

definition medicalColumns :: "(qstring \<times> qstring) list" where
  "medicalColumns = [(''medical_validity'', dataTypeDate), (''check_medical_validity'', dataTypeBoolean)]"

definition flarmIdColumn :: "(qstring \<times> qstring) list" where
  "flarmIdColumn = [(''flarm_id'', dataTypeString16)]"

definition vfidColumns :: "nat \<Rightarrow> (qstring \<times> qstring) list" where
  "vfidColumns n = flarmIdColumn @ take n [(''vfid'', dataTypeInteger), (''num_crew'', dataTypeInteger),
     (''num_pax'', dataTypeInteger), (''uploaded'', dataTypeBoolean), (''supervisor_id'', dataTypeInteger)]"

definition currentDb :: "dbId list \<Rightarrow> tablesDb" where
  "currentDb ids = indexedDb (medicalColumns @ [(''vfid'', dataTypeLong)]) flarmIdColumn (vfidColumns 5) True ids"

section \<open>From stage to stage\<close>

lemma inOrder_Nil: "inOrder [] d = (None, d)"
  by (simp add: inOrder_def doNothing_def)

lemma inOrder_Cons: "a d = (None, d') \<Longrightarrow> inOrder (a # as) d = inOrder as d'"
  by (simp add: inOrder_def andAlso_def)

lemma inOrder_append: "inOrder as d = (None, d') \<Longrightarrow> inOrder (as @ bs) d = inOrder bs d'"
  by (induction as arbitrary: d) (auto simp: inOrder_def andAlso_def doNothing_def split: prod.splits option.splits)

text \<open>A run of statements about one table is a run on that table alone.\<close>

definition addIfMissing :: "qstring \<Rightarrow> qstring \<Rightarrow> qstring \<Rightarrow> dbTable \<Rightarrow> ddl_error + dbTable" where
  "addIfMissing name type extra t =
     (if list_ex (likeMatch name) (columnNames t) then Inr t else addTableColumn name type extra t)"

definition dropIfThere :: "qstring \<Rightarrow> dbTable \<Rightarrow> ddl_error + dbTable" where
  "dropIfThere name t =
     (if list_ex (likeMatch name) (columnNames t) then dropTableColumn name t else Inr t)"

fun foldTable :: "(dbTable \<Rightarrow> ddl_error + dbTable) list \<Rightarrow> dbTable \<Rightarrow> ddl_error + dbTable" where
  "foldTable [] t = Inr t"
| "foldTable (f # fs) t = (case f t of Inl e \<Rightarrow> Inl e | Inr t' \<Rightarrow> foldTable fs t')"

fun putTable :: "qstring \<Rightarrow> dbTable \<Rightarrow> dbTables \<Rightarrow> dbTables" where
  "putTable n u [] = []"
| "putTable n u ((m, t) # ts) = (if m = n then (m, u) # ts else (m, t) # putTable n u ts)"

abbreviation db :: "dbTables \<Rightarrow> tablesDb" where
  "db ts \<equiv> \<lparr>td_tables = ts, td_saved = None\<rparr>"

definition tableAction :: "qstring \<Rightarrow> tablesDb ddl_action \<Rightarrow> (dbTable \<Rightarrow> ddl_error + dbTable) \<Rightarrow> bool" where
  "tableAction n a f \<longleftrightarrow> (\<forall>ts t t'. map_of ts n = Some t \<longrightarrow> f t = Inr t' \<longrightarrow> a (db ts) = (None, db (putTable n t' ts)))"

lemma onTable_put: "map_of ts n = Some t \<Longrightarrow> f t = Inr t' \<Longrightarrow> onTable n f ts = Inr (putTable n t' ts)"
  by (induction ts) auto

lemma putTable_same [simp]: "map_of ts n = Some t \<Longrightarrow> putTable n t ts = ts"
  by (induction ts) auto

lemma map_of_putTable: "map_of ts n = Some t \<Longrightarrow> map_of (putTable n u ts) n = Some u"
  by (induction ts) auto

lemma putTable_twice [simp]: "putTable n v (putTable n u ts) = putTable n v ts"
  by (induction ts) auto

lemma run_described: "ds_run described st d = (case ddl st d of Inr d' \<Rightarrow> (None, d') | Inl e \<Rightarrow> (Some e, d))"
  by (simp add: described_def)

lemma table_statements:
  "tableAction n (ds_run described (AddColumn n c ty x)) (addTableColumn c ty x)"
  "tableAction n (ds_run described (ModifyColumn n c ty x)) (changeTableColumn c c ty x)"
  "tableAction n (ds_run described (DropColumn n c)) (dropTableColumn c)"
  "tableAction n (ds_run described (ChangeColumn n c c' ty x)) (changeTableColumn c c' ty x)"
  "tableAction n (ds_run described (DropIndex n c)) (dropTableIndex c)"
  "tableAction n (ds_run described (AlterEngine n)) Inr"
  "tableAction n (ds_run described (ConvertCharset n)) Inr"
  "tableAction n (ds_run described (UpdateWhere n c v w)) (needsColumns [c])"
  "tableAction ''flights'' (ds_run described UpdateStatusFlags)
     (needsColumns [''status'', ''departed'', ''landed'', ''towflight_landed''])"
  "tableAction ''flights'' (ds_run described UpdateStatusNumber)
     (needsColumns [''status'', ''departed'', ''landed'', ''towflight_landed''])"
  "tableAction ''flights'' (ds_run described UpdateUploaded) (needsColumns [''uploaded''])"
  by (simp_all add: tableAction_def run_described ddl_def structureOf_def onTable_put changesRowsOnly_def)

lemma table_createIndex:
  "tableAction (is_table i) (ddl_createIndex described i skip) (createTableIndex i)"
  by (simp add: tableAction_def ddl_createIndex_def run_described ddl_def structureOf_def onTable_put changesRowsOnly_def)

lemma table_addColumn: "tableAction n (ddl_addColumn described n c ty x True) (addIfMissing c ty x)"
proof -
  have "ddl_addColumn described n c ty x True (db ts) = (None, db (putTable n t' ts))"
    if "map_of ts n = Some t" "addIfMissing c ty x t = Inr t'" for ts t t'
    using that table_statements(1) [of n c ty x]
    by (auto simp: ddl_addColumn_def ddl_columnExists_def described_def showColumns_def addIfMissing_def
        tableAction_def split: if_splits)
  then show ?thesis by (simp add: tableAction_def)
qed

lemma table_dropColumn: "tableAction n (ddl_dropColumn described n c True) (dropIfThere c)"
proof -
  have "ddl_dropColumn described n c True (db ts) = (None, db (putTable n t' ts))"
    if "map_of ts n = Some t" "dropIfThere c t = Inr t'" for ts t t'
    using that table_statements(3) [of n c]
    by (auto simp: ddl_dropColumn_def ddl_columnExists_def described_def showColumns_def dropIfThere_def
        tableAction_def split: if_splits)
  then show ?thesis by (simp add: tableAction_def)
qed

lemma table_changeColumnType: "tableAction n (ddl_changeColumnType described n c ty x) (changeTableColumn c c ty x)"
  by (simp add: ddl_changeColumnType_def table_statements)

lemma table_renameColumn: "tableAction n (ddl_renameColumn described n c c' ty x) (changeTableColumn c c' ty x)"
  by (simp add: ddl_renameColumn_def table_statements)

lemma table_dropIndex: "tableAction n (ddl_dropIndex described n c skip) (dropTableIndex c)"
  using table_statements(5) [of n c] by (simp add: tableAction_def ddl_dropIndex_def)

lemma table_updateColumnValues: "tableAction n (ddl_updateColumnValues described n c v w) (needsColumns [c])"
  by (simp add: ddl_updateColumnValues_def table_statements)

lemma table_run:
  assumes "list_all2 (tableAction n) as fs" "foldTable fs t = Inr t'" "map_of ts n = Some t"
  shows "inOrder as (db ts) = (None, db (putTable n t' ts))"
  using assms
proof (induction arbitrary: ts t rule: list_all2_induct)
  case (Cons a as f fs)
  from Cons.prems(1) obtain u where u: "f t = Inr u" "foldTable fs u = Inr t'"
    by (auto split: sum.splits)
  have "a (db ts) = (None, db (putTable n u ts))"
    using Cons.hyps(1) Cons.prems(2) u(1) by (simp add: tableAction_def)
  with Cons.IH [OF u(2) map_of_putTable [OF Cons.prems(2)]] show ?case by (simp add: inOrder_Cons)
qed (simp add: inOrder_Nil)

lemma table_run_append:
  assumes "list_all2 (tableAction n) as fs" "foldTable fs t = Inr t'" "map_of ts n = Some t"
  shows "inOrder (as @ bs) (db ts) = inOrder bs (db (putTable n t' ts))"
  by (rule inOrder_append) (rule table_run [OF assms])

lemma table_run_to:
  assumes "list_all2 (tableAction n) as fs" "map_of ts n = Some t" "foldTable fs t = Inr t'" "putTable n t' ts = ts'"
  shows "inOrder as (db ts) = (None, db ts')"
  using table_run [OF assms(1) assms(3) assms(2)] assms(4) by simp

lemma list_all2_intros: "list_all2 P [] []" "P a f \<Longrightarrow> list_all2 P as fs \<Longrightarrow> list_all2 P (a # as) (f # fs)"
  by simp_all

lemmas table_actions = list_all2_intros table_statements table_createIndex table_addColumn table_dropColumn
  table_changeColumnType table_renameColumn table_dropIndex table_updateColumnValues

text \<open>Adding new columns.\<close>

fun newNames :: "qstring list \<Rightarrow> (qstring \<times> qstring) list \<Rightarrow> bool" where
  "newNames ns [] = True"
| "newNames ns ((n, ty) # sp) = (\<not> list_ex (likeMatch n) ns \<and> newNames (ns @ [n]) sp)"

lemma likeMatch_percent: "likeMatch n s \<Longrightarrow> likeMatch (CHR ''%'' # n) s"
  by (cases s) simp_all

lemma likeMatch_refl: "likeMatch n n"
  by (induction n) (auto simp: sameLetter_def likeMatch_percent)

lemma addIfMissing_new:
  assumes "\<not> list_ex (likeMatch n) (''id'' # map co_name cs)"
  shows "addIfMissing n ty [] (tableOf cs idx ids) = Inr (tableOf (cs @ [col n ty]) idx ids)"
proof -
  have "n \<notin> set (''id'' # map co_name cs)"
    using assms likeMatch_refl [of n] by (auto simp: list_ex_iff)
  then show ?thesis
    using assms by (simp add: addIfMissing_def addTableColumn_def columnNames_def tableOf_def idCol_def toColumn_def
        afterColumn_def col_def Let_def)
qed

lemma adds_fold:
  "newNames (''id'' # map co_name cs) sp \<Longrightarrow>
     foldTable (map (\<lambda>(n, ty). addIfMissing n ty []) sp) (tableOf cs idx ids) = Inr (tableOf (cs @ cols sp) idx ids)"
proof (induction sp arbitrary: cs)
  case (Cons x sp)
  obtain n ty where x: "x = (n, ty)" by fastforce
  have "newNames (''id'' # map co_name (cs @ [col n ty])) sp"
    using Cons.prems by (simp add: x col_def toColumn_def Let_def)
  from Cons.IH [OF this] show ?case
    using Cons.prems addIfMissing_new [of n cs ty idx ids] by (simp add: x cols_def)
qed (simp add: cols_def)

definition adds :: "qstring \<Rightarrow> (qstring \<times> qstring) list \<Rightarrow> tablesDb ddl_action list" where
  "adds n sp = map (\<lambda>(c, ty). ddl_addColumn described n c ty [] True) sp"

lemma adds_append:
  assumes "map_of ts n = Some (tableOf cs idx ids)" "newNames (''id'' # map co_name cs) sp"
  shows "inOrder (adds n sp @ bs) (db ts) = inOrder bs (db (putTable n (tableOf (cs @ cols sp) idx ids) ts))"
proof (rule table_run_append [OF _ adds_fold [OF assms(2)] assms(1)])
  show "list_all2 (tableAction n) (adds n sp) (map (\<lambda>(n, ty). addIfMissing n ty []) sp)"
    by (induction sp) (auto simp: adds_def table_addColumn)
qed

lemma adds_stage:
  assumes "map_of ts n = Some (tableOf cs idx ids)" "newNames (''id'' # map co_name cs) sp"
    and "putTable n (tableOf (cs @ cols sp) idx ids) ts = ts'"
  shows "inOrder (adds n sp) (db ts) = (None, db ts')"
  using adds_append [OF assms(1,2), of "[]"] assms(3) by (simp add: inOrder_Nil)

lemma create_step:
  assumes "map_of ts n = None"
  shows "inOrder (ddl_createTableWithId described n True # as) (db ts) = inOrder as (db (ts @ [(n, tableOf [] [] [])]))"
  using assms by (intro inOrder_Cons) (simp add: ddl_createTableWithId_def ddl_createTable_def run_described ddl_def
      structureOf_def createNamed_def newTable_def tableOf_def idCol_def schemaIdColumn_def changesRowsOnly_def)

lemma createLike_step:
  assumes "map_of ts l = Some t" "map_of ts n = None" "tb_ids t = []"
  shows "inOrder (ddl_createTableLike described l n True # as) (db ts) = inOrder as (db (ts @ [(n, t)]))"
  using assms by (intro inOrder_Cons) (simp add: ddl_createTableLike_def run_described ddl_def
      structureOf_def createNamed_def changesRowsOnly_def)

lemma tb_ids_tableOf [simp]: "tb_ids (tableOf cs idx ids) = ids"
  by (simp add: tableOf_def)

lemma col_names [simp]: "map co_name (cols sp) = map fst sp"
  by (auto simp: cols_def col_def toColumn_def Let_def)

lemma usernameCol_name [simp]: "co_name usernameCol = ''username''"
  by (simp add: usernameCol_def toColumn_def Let_def)

lemma username_step:
  assumes "map_of ts n = Some (tableOf [] [] [])"
  shows "inOrder (ddl_addColumn described n ''username'' dataTypeString ''NOT NULL'' True # as) (db ts)
    = inOrder as (db (putTable n (tableOf [usernameCol] [] []) ts))"
proof (rule inOrder_Cons)
  have "addIfMissing ''username'' dataTypeString ''NOT NULL'' (tableOf [] [] [])
      = Inr (tableOf [usernameCol] [] [])"
    by code_simp
  then show "ddl_addColumn described n ''username'' dataTypeString ''NOT NULL'' True (db ts)
      = (None, db (putTable n (tableOf [usernameCol] [] []) ts))"
    using assms table_addColumn [of n] by (simp add: tableAction_def)
qed

lemma up_initial_split:
  "up_initial described = inOrder (ddl_createTableWithId described ''person'' True # adds ''person'' personSpec
     @ ddl_createTableLike described ''person'' ''person_temp'' True
     # ddl_createTableWithId described ''flugzeug'' True # adds ''flugzeug'' flugzeugSpec
     @ ddl_createTableLike described ''flugzeug'' ''flugzeug_temp'' True
     # ddl_createTableWithId described ''flug'' True # adds ''flug'' flugSpec
     @ ddl_createTableLike described ''flug'' ''flug_temp'' True
     # ddl_createTableWithId described ''user'' True
     # ddl_addColumn described ''user'' ''username'' dataTypeString ''NOT NULL'' True
     # adds ''user'' (userSpec ''person''))"
  by (simp add: up_initial_def adds_def personSpec_def flugzeugSpec_def flugSpec_def userSpec_def)

lemma new_legacy:
  "newNames [''id''] personSpec" "newNames [''id''] flugzeugSpec" "newNames [''id''] flugSpec"
  "newNames [''id'', ''username''] (userSpec ''person'')"
  by code_simp+

lemma up_initial_stage: "up_initial described noTables = (None, legacyDb)"
  by (simp add: up_initial_split noTables_def create_step createLike_step adds_append new_legacy username_step
      adds_stage legacyDb_def personColumns_def flugzeugColumns_def flugColumns_def userColumns_def)

lemma drop_step:
  assumes "map_of ts n \<noteq> None"
  shows "inOrder (ddl_dropTable described n # as) (db ts) = inOrder as (db (filter (\<lambda>(m, t). m \<noteq> n) ts))"
  using assms by (intro inOrder_Cons) (simp add: ddl_dropTable_def run_described ddl_def structureOf_def changesRowsOnly_def)

lemma down_initial_stage: "down_initial described legacyDb = (None, noTables)"
  by (simp add: down_initial_def legacyDb_def drop_step inOrder_Nil noTables_def)

lemma down_initial_stage2: "down_initial described legacyDb2 = (None, noTables)"
  by (simp add: down_initial_def legacyDb2_def drop_step inOrder_Nil noTables_def)

text \<open>Statements that find everything as it should be.\<close>

lemma run_step:
  assumes "tableAction n a f" "map_of ts n = Some t" "f t = Inr t"
  shows "inOrder (a # as) (db ts) = inOrder as (db ts)"
  using assms by (intro inOrder_Cons) (simp add: tableAction_def)

lemma formats_stage:
  "up_change_to_innodb described legacyDb = (None, legacyDb)"
  "up_convert_to_utf8 described legacyDb = (None, legacyDb)"
  by (simp_all add: up_change_to_innodb_def up_convert_to_utf8_def innodbTable_def utf8Table_def legacyDb_def
      run_step [OF table_statements(6)] run_step [OF table_statements(7)] inOrder_Nil)

lemma addIfMissing_known: "c \<in> set (map co_name cs) \<Longrightarrow> addIfMissing c ty x (tableOf cs idx ids) = Inr (tableOf cs idx ids)"
  using likeMatch_refl [of c] by (auto simp: addIfMissing_def list_ex_iff columnNames_def tableOf_def)

lemma up_add_towpilot_stage: "up_add_towpilot described legacyDb = (None, legacyDb)"
  by (simp add: up_add_towpilot_def legacyDb_def run_step [OF table_addColumn] addIfMissing_known inOrder_Nil
      flugColumns_def flugSpec_def)

lemma drops_known:
  "dropIfThere ''editierbar'' (tableOf flugColumns [] []) = Inr (tableOf flugColumns [] [])"
  "dropIfThere ''verein'' (tableOf flugColumns [] []) = Inr (tableOf flugColumns [] [])"
  "dropIfThere ''bwlv'' (tableOf personColumns [] []) = Inr (tableOf personColumns [] [])"
  by code_simp+

lemma up_drop_old_columns_stage: "up_drop_old_columns described legacyDb = (None, legacyDb)"
proof -
  have "up_drop_old_columns described legacyDb = inOrder [inOrder
      [ddl_dropColumn described ''flug'' ''editierbar'' True, ddl_dropColumn described ''flug_temp'' ''editierbar'' True],
     inOrder [ddl_dropColumn described ''flug'' ''verein'' True, ddl_dropColumn described ''flug_temp'' ''verein'' True],
     inOrder [ddl_dropColumn described ''person'' ''bwlv'' True, ddl_dropColumn described ''person_temp'' ''bwlv'' True]]
     legacyDb"
    by (simp add: up_drop_old_columns_def dropColumnAndTemp_def)
  also have "\<dots> = (None, legacyDb)"
    by (simp add: legacyDb_def inOrder_Cons run_step [OF table_dropColumn] drops_known inOrder_Nil)
  finally show ?thesis .
qed

text \<open>Changing a column to the type it has.\<close>

definition retypes :: "(qstring \<times> qstring) list \<Rightarrow> (dbTable \<Rightarrow> ddl_error + dbTable) list" where
  "retypes sp = map (\<lambda>(c, ty). changeTableColumn c c ty []) sp"

lemma retypes_fold:
  "foldTable (retypes personSpec) (tableOf personColumns [] []) = Inr (tableOf personColumns [] [])"
  "foldTable (retypes flugzeugSpec) (tableOf flugzeugColumns [] []) = Inr (tableOf flugzeugColumns [] [])"
  "foldTable (retypes flugSpec) (tableOf flugColumns [] []) = Inr (tableOf flugColumns [] [])"
  "foldTable (changeTableColumn ''username'' ''username'' dataTypeString ''NOT NULL'' # retypes (userSpec ''person''))
     (tableOf (userColumns ''person'') [] []) = Inr (tableOf (userColumns ''person'') [] [])"
  by code_simp+

lemma retypes_actions:
  "list_all2 (tableAction n) (map (\<lambda>(c, ty). ddl_changeColumnType described n c ty []) sp) (retypes sp)"
  by (induction sp) (auto simp: retypes_def table_changeColumnType)

lemma retype_tables:
  "map_of ts n = Some (tableOf personColumns [] []) \<Longrightarrow> changePeopleTable described n (db ts) = (None, db ts)"
  "map_of ts n = Some (tableOf flugzeugColumns [] []) \<Longrightarrow> changePlanesTable described n (db ts) = (None, db ts)"
  "map_of ts n = Some (tableOf (userColumns ''person'') [] []) \<Longrightarrow> changeUsersTable described n (db ts) = (None, db ts)"
proof -
  assume m: "map_of ts n = Some (tableOf personColumns [] [])"
  show "changePeopleTable described n (db ts) = (None, db ts)"
    using table_run [OF retypes_actions retypes_fold(1) m] m by (simp add: changePeopleTable_def personSpec_def)
next
  assume m: "map_of ts n = Some (tableOf flugzeugColumns [] [])"
  show "changePlanesTable described n (db ts) = (None, db ts)"
    using table_run [OF retypes_actions retypes_fold(2) m] m by (simp add: changePlanesTable_def flugzeugSpec_def)
next
  assume m: "map_of ts n = Some (tableOf (userColumns ''person'') [] [])"
  have l: "list_all2 (tableAction n) (ddl_changeColumnType described n ''username'' dataTypeString ''NOT NULL''
      # map (\<lambda>(c, ty). ddl_changeColumnType described n c ty []) (userSpec ''person''))
      (changeTableColumn ''username'' ''username'' dataTypeString ''NOT NULL'' # retypes (userSpec ''person''))"
    by (intro list_all2_intros retypes_actions table_changeColumnType)
  show "changeUsersTable described n (db ts) = (None, db ts)"
    using table_run [OF l retypes_fold(4) m] m by (simp add: changeUsersTable_def userSpec_def)
qed

lemma changeFlightsTable_reorder:
  "changeFlightsTable described n = inOrder (map (\<lambda>(c, ty). ddl_changeColumnType described n c ty [])
     (take 17 flugSpec @ [(''pvn'', dataTypeString), (''pnn'', dataTypeString), (''bvn'', dataTypeString),
        (''bnn'', dataTypeString), (''tpvn'', dataTypeString), (''tpnn'', dataTypeString)] @ drop 23 flugSpec))"
  by (simp add: changeFlightsTable_def flugSpec_def)

lemma retypes_flights_fold:
  "foldTable (retypes (take 17 flugSpec @ [(''pvn'', dataTypeString), (''pnn'', dataTypeString), (''bvn'', dataTypeString),
        (''bnn'', dataTypeString), (''tpvn'', dataTypeString), (''tpnn'', dataTypeString)] @ drop 23 flugSpec))
     (tableOf flugColumns [] []) = Inr (tableOf flugColumns [] [])"
  by code_simp

lemma retype_flights:
  assumes "map_of ts n = Some (tableOf flugColumns [] [])"
  shows "changeFlightsTable described n (db ts) = (None, db ts)"
  using table_run [OF retypes_actions retypes_flights_fold assms] assms by (simp add: changeFlightsTable_reorder)

lemma up_fix_data_types_stage: "up_fix_data_types described legacyDb = (None, legacyDb)"
  by (simp add: up_fix_data_types_def legacyDb_def inOrder_Cons retype_tables retype_flights inOrder_Nil)

section \<open>Renaming\<close>

lemma insertIgnore_step:
  assumes "map_of ts n = Some (tableOf cs idx [])" "map_of ts m = Some (tableOf cs idx [])"
  shows "inOrder (ds_run described (InsertIgnoreSelect n m) # as) (db ts) = inOrder as (db ts)"
  using assms by (intro inOrder_Cons) (simp add: run_described ddl_def structureOf_def tableOf_def changesRowsOnly_def
      onTable_put [where t = "\<lparr>tb_columns = idCol # cs, tb_indexes = idx, tb_ids = []\<rparr>"
        and t' = "\<lparr>tb_columns = idCol # cs, tb_indexes = idx, tb_ids = []\<rparr>"])

lemma renameTable_step:
  assumes "map_of ts n \<noteq> None" "map_of ts m = None"
  shows "inOrder (ddl_renameTable described n m # as) (db ts) = inOrder as (db (map (\<lambda>(k, t). (renameWord n m k, t)) ts))"
  using assms by (intro inOrder_Cons) (simp add: ddl_renameTable_def run_described ddl_def structureOf_def changesRowsOnly_def)

lemma up_remove_temp_tables_stage: "up_remove_temp_tables described legacyDb = (None, mergedDb)"
  by (simp add: up_remove_temp_tables_def removeTempTable_def legacyDb_def mergedDb_def inOrder_Cons insertIgnore_step
      drop_step inOrder_Nil)

lemma down_remove_temp_tables_stage: "down_remove_temp_tables described mergedDb = (None, legacyDb2)"
  by (simp add: down_remove_temp_tables_def createTempTable_def legacyDb2_def mergedDb_def inOrder_Cons renameTable_step
      renameWord_def createLike_step inOrder_Nil)

lemma rename_tables_stage:
  "up_rename_tables described mergedDb = (None, englishDb)" "down_rename_tables described englishDb = (None, mergedDb)"
  by (simp_all add: up_rename_tables_def down_rename_tables_def renameTables_def renameTableTowards_def
      englishDb_def mergedDb_def renameTable_step renameWord_def inOrder_Nil)

definition peopleNames :: "(qstring \<times> qstring \<times> qstring) list" where
  "peopleNames =
     [(''nachname'', ''last_name'', dataTypeString), (''vorname'', ''first_name'', dataTypeString),
      (''verein'', ''club'', dataTypeString), (''spitzname'', ''nickname'', dataTypeString),
      (''vereins_id'', ''club_id'', dataTypeString), (''bemerkung'', ''comments'', dataTypeString)]"

definition planesNames :: "(qstring \<times> qstring \<times> qstring) list" where
  "planesNames =
     [(''kennzeichen'', ''registration'', dataTypeString), (''verein'', ''club'', dataTypeString),
      (''sitze'', ''num_seats'', dataTypeInteger), (''typ'', ''type'', dataTypeString),
      (''gattung'', ''category'', dataTypeCharacter),
      (''wettbewerbskennzeichen'', ''callsign'', dataTypeString),
      (''bemerkung'', ''comments'', dataTypeString)]"

definition flightsNames :: "(qstring \<times> qstring \<times> qstring) list" where
  "flightsNames =
     [(''flugzeug'', ''plane_id'', dataTypeId), (''pilot'', ''pilot_id'', dataTypeId),
      (''begleiter'', ''copilot_id'', dataTypeId), (''typ'', ''type'', dataTypeInteger),
      (''modus'', ''mode'', dataTypeCharacter), (''status'', ''status'', dataTypeInteger),
      (''startart'', ''launch_method_id'', dataTypeId),
      (''startort'', ''departure_location'', dataTypeString),
      (''zielort'', ''landing_location'', dataTypeString),
      (''anzahl_landungen'', ''num_landings'', dataTypeInteger),
      (''startzeit'', ''departure_time'', dataTypeDatetime),
      (''landezeit'', ''landing_time'', dataTypeDatetime), (''towplane'', ''towplane_id'', dataTypeId),
      (''modus_sfz'', ''towflight_mode'', dataTypeCharacter),
      (''zielort_sfz'', ''towflight_landing_location'', dataTypeString),
      (''land_schlepp'', ''towflight_landing_time'', dataTypeDatetime),
      (''towpilot'', ''towpilot_id'', dataTypeId), (''pnn'', ''pilot_last_name'', dataTypeString),
      (''pvn'', ''pilot_first_name'', dataTypeString), (''bnn'', ''copilot_last_name'', dataTypeString),
      (''bvn'', ''copilot_first_name'', dataTypeString),
      (''tpnn'', ''towpilot_last_name'', dataTypeString),
      (''tpvn'', ''towpilot_first_name'', dataTypeString), (''bemerkung'', ''comments'', dataTypeString),
      (''abrechnungshinweis'', ''accounting_notes'', dataTypeString)]"

definition renames :: "direction \<Rightarrow> (qstring \<times> qstring \<times> qstring) list \<Rightarrow> (dbTable \<Rightarrow> ddl_error + dbTable) list" where
  "renames dir = map (\<lambda>(old, new, ty). case dir of
     dirUp \<Rightarrow> changeTableColumn old new ty [] | dirDown \<Rightarrow> changeTableColumn new old ty [])"

definition renamesOf :: "qstring \<Rightarrow> direction \<Rightarrow> (qstring \<times> qstring \<times> qstring) list \<Rightarrow> tablesDb ddl_action list" where
  "renamesOf n dir = map (\<lambda>(old, new, ty). renameColumnTowards described n old new ty dir)"

lemma renames_actions: "list_all2 (tableAction n) (renamesOf n dir ns) (renames dir ns)"
  by (induction ns) (auto simp: renamesOf_def renames_def renameColumnTowards_def table_renameColumn split: direction.split)

lemma renameColumns_split:
  "renameColumns described dir = inOrder (renamesOf ''people'' dir peopleNames @ renamesOf ''planes'' dir planesNames
     @ renamesOf ''flights'' dir flightsNames @ renamesOf ''users'' dir [(''person'', ''person_id'', dataTypeId)])"
  by (simp add: renameColumns_def renamesOf_def peopleNames_def planesNames_def flightsNames_def)

lemma renames_append:
  assumes "map_of ts n = Some t" "foldTable (renames dir ns) t = Inr t'"
  shows "inOrder (renamesOf n dir ns @ bs) (db ts) = inOrder bs (db (putTable n t' ts))"
  by (rule table_run_append [OF renames_actions assms(2,1)])

definition oldFlights :: "column list" where
  "oldFlights = flightsColumns dataTypeInteger dataTypeCharacter dataTypeCharacter oldStatus"

lemma renames_up:
  "foldTable (renames dirUp peopleNames) (tableOf personColumns [] []) = Inr (tableOf peopleColumns [] [])"
  "foldTable (renames dirUp planesNames) (tableOf flugzeugColumns [] []) = Inr (tableOf (planesColumns dataTypeCharacter) [] [])"
  "foldTable (renames dirUp [(''person'', ''person_id'', dataTypeId)]) (tableOf (userColumns ''person'') [] [])
     = Inr (tableOf usersColumns [] [])"
  by code_simp+

lemma renames_down:
  "foldTable (renames dirDown peopleNames) (tableOf peopleColumns [] []) = Inr (tableOf personColumns [] [])"
  "foldTable (renames dirDown planesNames) (tableOf (planesColumns dataTypeCharacter) [] []) = Inr (tableOf flugzeugColumns [] [])"
  "foldTable (renames dirDown [(''person'', ''person_id'', dataTypeId)]) (tableOf usersColumns [] [])
     = Inr (tableOf (userColumns ''person'') [] [])"
  by code_simp+

lemma renames_flights:
  "foldTable (renames dirUp flightsNames) (tableOf flugColumns [] []) = Inr (tableOf oldFlights [] [])"
  "foldTable (renames dirDown flightsNames) (tableOf oldFlights [] []) = Inr (tableOf flugColumns [] [])"
  by code_simp+

lemma rename_columns_stage:
  "up_rename_columns described englishDb = (None, renamedDb)"
  "down_rename_columns described renamedDb = (None, englishDb)"
proof -
  have "inOrder (renamesOf ''users'' dirUp [(''person'', ''person_id'', dataTypeId)] @ []) (db ts)
      = (None, db (putTable ''users'' (tableOf usersColumns [] []) ts))"
    if "map_of ts ''users'' = Some (tableOf (userColumns ''person'') [] [])" for ts
    using renames_append [OF that renames_up(3), of "[]"] by (simp add: inOrder_Nil)
  then show "up_rename_columns described englishDb = (None, renamedDb)"
    by (simp add: up_rename_columns_def renameColumns_split englishDb_def renamedDb_def oldFlights_def [symmetric]
        renames_append renames_up renames_flights)
  have "inOrder (renamesOf ''users'' dirDown [(''person'', ''person_id'', dataTypeId)] @ []) (db ts)
      = (None, db (putTable ''users'' (tableOf (userColumns ''person'') [] []) ts))"
    if "map_of ts ''users'' = Some (tableOf usersColumns [] [])" for ts
    using renames_append [OF that renames_down(3), of "[]"] by (simp add: inOrder_Nil)
  then show "down_rename_columns described renamedDb = (None, englishDb)"
    by (simp add: down_rename_columns_def renameColumns_split englishDb_def renamedDb_def oldFlights_def [symmetric]
        renames_append renames_down renames_flights)
qed

section \<open>Launch methods and values\<close>

definition launchDb :: "dbId list \<Rightarrow> tablesDb" where
  "launchDb = plainDb (planesColumns dataTypeCharacter) oldFlights usersColumns"

definition commentsDb :: "dbId list \<Rightarrow> tablesDb" where
  "commentsDb = plainDb (planesColumns dataTypeCharacter) oldFlights commentedUsers"

definition categoriesDb :: "dbId list \<Rightarrow> tablesDb" where
  "categoriesDb = plainDb finalPlanes oldFlights commentedUsers"

definition typesDb :: "dbId list \<Rightarrow> tablesDb" where
  "typesDb = plainDb finalPlanes (flightsColumns dataTypeString dataTypeCharacter dataTypeCharacter oldStatus) commentedUsers"

definition statusDb :: "qstring \<Rightarrow> dbId list \<Rightarrow> tablesDb" where
  "statusDb towModeType = plainDb finalPlanes (flightsColumns dataTypeString dataTypeCharacter towModeType newStatus) commentedUsers"

definition modesDb :: "dbId list \<Rightarrow> tablesDb" where
  "modesDb = plainDb finalPlanes finalFlights commentedUsers"

text \<open>The import of launch methods with different valid ids succeeds.\<close>

lemma insert_step:
  assumes "lm_id l \<noteq> 0" "lm_id l \<notin> set ids" "map_of ts ''launch_methods'' = None"
  shows "ds_run described (InsertLaunchMethod l) \<lparr>td_tables = ts @ [(''launch_methods'', tableOf launchMethodsColumns [] ids)], td_saved = s\<rparr>
    = (None, \<lparr>td_tables = ts @ [(''launch_methods'', tableOf launchMethodsColumns [] (ids @ [lm_id l]))], td_saved = s\<rparr>)"
proof -
  let ?f = "\<lambda>t. if {''id'', ''name'', ''short_name'', ''log_string'', ''keyboard_shortcut'', ''type'',
            ''towplane_registration'', ''person_required'', ''comments''} \<subseteq> set (columnNames t)
        then insertId (lm_id l) t else Inl ER_BAD_FIELD"
  let ?t = "\<lambda>ids. tableOf launchMethodsColumns [] ids"
  have "onTable ''launch_methods'' ?f (ts @ [(''launch_methods'', ?t ids)]) = Inr (putTable ''launch_methods'' (?t (ids @ [lm_id l]))
      (ts @ [(''launch_methods'', ?t ids)]))"
    using assms
    by (intro onTable_put [where t = "?t ids"]) (auto simp: map_add_def insertId_def columnNames_def tableOf_def idCol_def toColumn_def Let_def
        launchMethodsColumns_def launchMethodsSpec_def cols_def col_def)
  moreover have "putTable ''launch_methods'' u (ts @ [(''launch_methods'', t)]) = ts @ [(''launch_methods'', u)]" for t u
    using assms(3) by (induction ts) auto
  ultimately show ?thesis
    by (simp add: run_described ddl_def structureOf_def changesRowsOnly_def)
qed

lemma inserts:
  assumes "map_of ts ''launch_methods'' = None" "distinct (ids @ map lm_id methods)" "0 \<notin> lm_id ` set methods"
  shows "inOrder (map (\<lambda>l. ds_run described (InsertLaunchMethod l)) methods @ as)
      \<lparr>td_tables = ts @ [(''launch_methods'', tableOf launchMethodsColumns [] ids)], td_saved = s\<rparr>
    = inOrder as \<lparr>td_tables = ts @ [(''launch_methods'', tableOf launchMethodsColumns [] (ids @ map lm_id methods))], td_saved = s\<rparr>"
  using assms(2,3)
proof (induction methods arbitrary: ids)
  case (Cons l methods)
  have "lm_id l \<noteq> 0" "lm_id l \<notin> set ids" using Cons.prems by (auto simp: image_iff)
  note insert_step [OF this assms(1)]
  with Cons.IH [of "ids @ [lm_id l]"] Cons.prems show ?case by (simp add: inOrder_Cons)
qed simp

lemma import_stage:
  assumes "map_of ts ''launch_methods'' = None" "distinct (map lm_id methods)" "0 \<notin> lm_id ` set methods"
  shows "importLaunchMethods described methods (db (ts @ [(''launch_methods'', tableOf launchMethodsColumns [] [])]))
    = (None, db (ts @ [(''launch_methods'', tableOf launchMethodsColumns [] (map lm_id methods))]))"
proof -
  have "ds_run described TransactionStart (db tt) = (None, \<lparr>td_tables = tt, td_saved = Some tt\<rparr>)" for tt
    by (simp add: run_described ddl_def)
  moreover have "ds_run described TransactionCommit \<lparr>td_tables = tt, td_saved = s\<rparr> = (None, db tt)" for tt s
    by (simp add: run_described ddl_def)
  ultimately show ?thesis
    using inserts [OF assms(1), of "[]" methods] assms(2,3)
    by (simp add: importLaunchMethods_def inOrder_Cons inOrder_Nil)
qed

lemma new_launch: "newNames [''id''] launchMethodsSpec"
  by code_simp

lemma up_add_launch_methods_split:
  "up_add_launch_methods methods described = inOrder (ddl_createTableWithId described ''launch_methods'' True
     # adds ''launch_methods'' launchMethodsSpec @ [importLaunchMethods described methods])"
  by (simp add: up_add_launch_methods_def adds_def launchMethodsSpec_def)

lemma up_add_launch_methods_stage:
  assumes "distinct (map lm_id methods)" "0 \<notin> lm_id ` set methods"
  shows "up_add_launch_methods methods described renamedDb = (None, launchDb (map lm_id methods))"
  using import_stage [OF _ assms, of "[(''people'', tableOf peopleColumns [] []), (''planes'', tableOf (planesColumns dataTypeCharacter) [] []),
      (''flights'', tableOf oldFlights [] []), (''users'', tableOf usersColumns [] [])]"]
  by (simp add: up_add_launch_methods_split renamedDb_def create_step adds_append new_launch inOrder_Cons inOrder_Nil
      launchDb_def plainDb_def launchMethodsColumns_def oldFlights_def)

lemma down_add_launch_methods_stage: "down_add_launch_methods described (launchDb ids) = (None, renamedDb)"
  by (simp add: down_add_launch_methods_def launchDb_def plainDb_def drop_step inOrder_Nil renamedDb_def oldFlights_def)

end
