(* ===== verification/Sk_SchemaLater.thy ===== *)
theory Sk_SchemaLater
  imports Sk_SchemaStages
begin

text \<open>
  The stages of the database after the launch methods: the values written out, the indexes and the later columns.
\<close>

lemma on_table_stage:
  assumes "list_all2 (tableAction n) as fs" "foldTable fs t = Inr t'"
    and "ts = us @ (n, t) # vs" "map_of us n = None" "ts' = us @ (n, t') # vs"
  shows "inOrder as (db ts) = (None, db ts')"
proof -
  have "map_of ts n = Some t" using assms(3,4) by (simp add: map_add_def)
  moreover have "putTable n t' (us @ (n, t) # vs) = us @ (n, t') # vs"
    using assms(4) by (induction us) auto
  ultimately show ?thesis
    using table_run [OF assms(1,2), of ts] assms(3,5) by simp
qed

text \<open>The tables of the later databases, one of which a statement is about.\<close>

lemma plainDb_users:
  assumes "list_all2 (tableAction ''users'') as fs" "foldTable fs (tableOf u [] []) = Inr (tableOf u' [] [])"
  shows "inOrder as (plainDb p f u ids) = (None, plainDb p f u' ids)"
  unfolding plainDb_def
  by (rule on_table_stage [OF assms, where us = "[(''people'', tableOf peopleColumns [] []),
      (''planes'', tableOf p [] []), (''flights'', tableOf f [] [])]"]) simp_all

lemma plainDb_planes:
  assumes "list_all2 (tableAction ''planes'') as fs" "foldTable fs (tableOf p [] []) = Inr (tableOf p' [] [])"
  shows "inOrder as (plainDb p f u ids) = (None, plainDb p' f u ids)"
  unfolding plainDb_def
  by (rule on_table_stage [OF assms, where us = "[(''people'', tableOf peopleColumns [] [])]"]) simp_all

lemma plainDb_flights:
  assumes "list_all2 (tableAction ''flights'') as fs" "foldTable fs (tableOf f [] []) = Inr (tableOf f' [] [])"
  shows "inOrder as (plainDb p f u ids) = (None, plainDb p f' u ids)"
  unfolding plainDb_def
  by (rule on_table_stage [OF assms, where us = "[(''people'', tableOf peopleColumns [] []), (''planes'', tableOf p [] [])]"])
    simp_all

lemma comments_folds:
  "foldTable [addIfMissing ''comments'' dataTypeString []] (tableOf usersColumns [] []) = Inr (tableOf commentedUsers [] [])"
  "foldTable [dropIfThere ''comments''] (tableOf commentedUsers [] []) = Inr (tableOf usersColumns [] [])"
  by code_simp+

lemma add_comments_stage:
  "up_add_comments_to_users described (launchDb ids) = (None, commentsDb ids)"
  "down_add_comments_to_users described (commentsDb ids) = (None, launchDb ids)"
  unfolding launchDb_def commentsDb_def up_add_comments_to_users_def down_add_comments_to_users_def
  by - (rule plainDb_users, (rule table_actions)+, rule comments_folds)+

lemma category_actions:
  "list_all2 (tableAction ''planes'') (map (\<lambda>(old, new). updateCategory described dir old new) categoryCodes)
     (replicate 5 (needsColumns [''category'']))"
  by (cases dir) (simp_all add: categoryCodes_def updateCategory_def table_updateColumnValues eval_nat_numeral)

lemma category_folds:
  "foldTable [changeTableColumn ''category'' ''category'' dataTypeString []] (tableOf (planesColumns dataTypeCharacter) [] [])
     = Inr (tableOf finalPlanes [] [])"
  "foldTable [changeTableColumn ''category'' ''category'' dataTypeCharacter []] (tableOf finalPlanes [] [])
     = Inr (tableOf (planesColumns dataTypeCharacter) [] [])"
  "foldTable (replicate 5 (needsColumns [''category''])) (tableOf finalPlanes [] []) = Inr (tableOf finalPlanes [] [])"
  by code_simp+

lemma inOrder_one: "inOrder [a] d = a d"
  by (auto simp: inOrder_def andAlso_def doNothing_def split: prod.split option.split)

lemma updateCategories_stage:
  "updateCategories described dir (categoriesDb ids) = (None, categoriesDb ids)"
  unfolding updateCategories_def categoriesDb_def
  by (rule plainDb_planes [OF category_actions category_folds(3)])

lemma full_plane_category_stage:
  "up_full_plane_category described (commentsDb ids) = (None, categoriesDb ids)"
  "down_full_plane_category described (categoriesDb ids) = (None, commentsDb ids)"
proof -
  have "inOrder [ddl_changeColumnType described ''planes'' ''category'' dataTypeString []] (commentsDb ids) = (None, categoriesDb ids)"
    "inOrder [ddl_changeColumnType described ''planes'' ''category'' dataTypeCharacter []] (categoriesDb ids) = (None, commentsDb ids)"
    unfolding commentsDb_def categoriesDb_def
    by - (rule plainDb_planes, (rule table_actions)+, rule category_folds)+
  then show "up_full_plane_category described (commentsDb ids) = (None, categoriesDb ids)"
    "down_full_plane_category described (categoriesDb ids) = (None, commentsDb ids)"
    by (simp_all add: up_full_plane_category_def down_full_plane_category_def inOrder_Cons inOrder_one updateCategories_stage)
qed

lemma flightType_actions:
  "list_all2 (tableAction ''flights'') (map (\<lambda>(old, new). updateFlightType described dir old new) flightTypeCodes)
     (replicate 7 (needsColumns [''type'']))"
  by (cases dir) (simp_all add: flightTypeCodes_def updateFlightType_def table_updateColumnValues eval_nat_numeral)

definition typedFlights :: "qstring \<Rightarrow> column list" where
  "typedFlights ty = flightsColumns ty dataTypeCharacter dataTypeCharacter oldStatus"

lemma flightType_folds:
  "foldTable [changeTableColumn ''type'' ''type'' dataTypeString []] (tableOf oldFlights [] [])
     = Inr (tableOf (typedFlights dataTypeString) [] [])"
  "foldTable [changeTableColumn ''type'' ''type'' dataTypeInteger []] (tableOf (typedFlights dataTypeString) [] [])
     = Inr (tableOf oldFlights [] [])"
  "foldTable (replicate 7 (needsColumns [''type''])) (tableOf (typedFlights dataTypeString) [] [])
     = Inr (tableOf (typedFlights dataTypeString) [] [])"
  by code_simp+

lemma updateFlightTypes_stage: "updateFlightTypes described dir (typesDb ids) = (None, typesDb ids)"
  unfolding updateFlightTypes_def typesDb_def typedFlights_def [symmetric]
  by (rule plainDb_flights [OF flightType_actions flightType_folds(3)])

lemma full_flight_type_stage:
  "up_full_flight_type described (categoriesDb ids) = (None, typesDb ids)"
  "down_full_flight_type described (typesDb ids) = (None, categoriesDb ids)"
proof -
  have "inOrder [ddl_changeColumnType described ''flights'' ''type'' dataTypeString []] (categoriesDb ids) = (None, typesDb ids)"
    "inOrder [ddl_changeColumnType described ''flights'' ''type'' dataTypeInteger []] (typesDb ids) = (None, categoriesDb ids)"
    unfolding typesDb_def typedFlights_def [symmetric] categoriesDb_def
    by - (rule plainDb_flights, (rule table_actions)+, rule flightType_folds)+
  then show "up_full_flight_type described (categoriesDb ids) = (None, typesDb ids)"
    "down_full_flight_type described (typesDb ids) = (None, categoriesDb ids)"
    by (simp_all add: up_full_flight_type_def down_full_flight_type_def inOrder_Cons inOrder_one updateFlightTypes_stage)
qed

definition statusFlights :: "qstring \<Rightarrow> column list" where
  "statusFlights ty = flightsColumns dataTypeString dataTypeCharacter ty newStatus"

lemma status_fold_up:
  "foldTable [addIfMissing ''departed'' dataTypeBoolean ''AFTER status'', addIfMissing ''landed'' dataTypeBoolean ''AFTER departed'',
      addIfMissing ''towflight_landed'' dataTypeBoolean ''AFTER landed'',
      needsColumns [''status'', ''departed'', ''landed'', ''towflight_landed''], dropIfThere ''status'']
     (tableOf (typedFlights dataTypeString) [] []) = Inr (tableOf (statusFlights dataTypeCharacter) [] [])"
  by code_simp

lemma status_fold_down:
  "foldTable [addIfMissing ''status'' dataTypeInteger ''AFTER departed'',
      needsColumns [''status'', ''departed'', ''landed'', ''towflight_landed''], dropIfThere ''departed'',
      dropIfThere ''landed'', dropIfThere ''towflight_landed'']
     (tableOf (statusFlights dataTypeCharacter) [] []) = Inr (tableOf (typedFlights dataTypeString) [] [])"
  by code_simp

lemma flight_status_stage:
  "up_flight_status_columns described (typesDb ids) = (None, statusDb dataTypeCharacter ids)"
  "down_flight_status_columns described (statusDb dataTypeCharacter ids) = (None, typesDb ids)"
  unfolding typesDb_def statusDb_def statusFlights_def [symmetric] typedFlights_def [symmetric]
    up_flight_status_columns_def down_flight_status_columns_def
   apply -
   apply (rule plainDb_flights, (rule table_actions)+, rule status_fold_up)
  apply (rule plainDb_flights, (rule table_actions)+, rule status_fold_down)
  done

lemma flightMode_actions:
  "updateFlightModes described dir = inOrder (map (\<lambda>(old, new). updateFlightMode described dir old new) flightModeCodes)"
  "updateFlightMode described dir old new = inOrder
     [ddl_updateColumnValues described ''flights'' ''mode'' (VString (if dir = dirUp then old else new)) (VString (if dir = dirUp then new else old)),
      ddl_updateColumnValues described ''flights'' ''towflight_mode'' (VString (if dir = dirUp then old else new)) (VString (if dir = dirUp then new else old))]"
  by (simp_all add: updateFlightModes_def updateFlightMode_def split: direction.split)

lemma flightMode_folds:
  "foldTable [changeTableColumn ''mode'' ''mode'' dataTypeString [], changeTableColumn ''towflight_mode'' ''towflight_mode'' dataTypeString []]
     (tableOf (statusFlights dataTypeCharacter) [] []) = Inr (tableOf finalFlights [] [])"
  "foldTable [changeTableColumn ''mode'' ''mode'' dataTypeCharacter []] (tableOf finalFlights [] [])
     = Inr (tableOf (statusFlights dataTypeString) [] [])"
  "foldTable [needsColumns [''mode''], needsColumns [''towflight_mode'']] (tableOf finalFlights [] []) = Inr (tableOf finalFlights [] [])"
  by code_simp+

lemma updateFlightModes_stage: "updateFlightModes described dir (modesDb ids) = (None, modesDb ids)"
proof -
  have "updateFlightMode described dir old new (modesDb ids) = (None, modesDb ids)" for old new
    unfolding flightMode_actions(2) modesDb_def
    by (rule plainDb_flights, (rule table_actions)+, rule flightMode_folds)
  then show ?thesis
    by (simp add: updateFlightModes_def flightModeCodes_def inOrder_Cons inOrder_Nil)
qed

lemma full_flight_mode_stage:
  "up_full_flight_mode described (statusDb dataTypeCharacter ids) = (None, modesDb ids)"
  "down_full_flight_mode described (modesDb ids) = (None, statusDb dataTypeString ids)"
proof -
  have "inOrder [ddl_changeColumnType described ''flights'' ''mode'' dataTypeString [],
      ddl_changeColumnType described ''flights'' ''towflight_mode'' dataTypeString []] (statusDb dataTypeCharacter ids) = (None, modesDb ids)"
    "inOrder [ddl_changeColumnType described ''flights'' ''mode'' dataTypeCharacter []] (modesDb ids) = (None, statusDb dataTypeString ids)"
    unfolding statusDb_def statusFlights_def [symmetric] modesDb_def
    by - (rule plainDb_flights, (rule table_actions)+, rule flightMode_folds)+
  then show "up_full_flight_mode described (statusDb dataTypeCharacter ids) = (None, modesDb ids)"
    "down_full_flight_mode described (modesDb ids) = (None, statusDb dataTypeString ids)"
    using inOrder_append [of "[ddl_changeColumnType described ''flights'' ''mode'' dataTypeString [],
      ddl_changeColumnType described ''flights'' ''towflight_mode'' dataTypeString []]" _ _ "[updateFlightModes described dirUp]"]
    by (simp_all add: up_full_flight_mode_def down_full_flight_mode_def inOrder_one updateFlightModes_stage
        inOrder_Cons [of "updateFlightModes described dirDown" "modesDb ids" "modesDb ids"])
qed

section \<open>Indexes\<close>

lemma index_actions:
  "tableAction n (handleIndex described dirUp n m cs) (createTableIndex \<lparr>is_table = n, is_name = m, is_columns = cs\<rparr>)"
  "tableAction n (handleIndex described dirDown n m cs) (dropTableIndex m)"
  using table_createIndex [of "\<lparr>is_table = n, is_name = m, is_columns = cs\<rparr>"]
  by (simp_all add: handleIndex_def table_dropIndex)

definition simples :: "direction \<Rightarrow> qstring \<Rightarrow> qstring list \<Rightarrow> tablesDb ddl_action list" where
  "simples dir n = map (handleSimpleIndex described dir n)"

definition simpleFs :: "direction \<Rightarrow> qstring \<Rightarrow> qstring list \<Rightarrow> (dbTable \<Rightarrow> ddl_error + dbTable) list" where
  "simpleFs dir n = map (\<lambda>c. case dir of
     dirUp \<Rightarrow> createTableIndex \<lparr>is_table = n, is_name = c @ ''_index'', is_columns = c\<rparr>
   | dirDown \<Rightarrow> dropTableIndex (c @ ''_index''))"

lemma simples_actions: "list_all2 (tableAction n) (simples dir n cs) (simpleFs dir n cs)"
  by (cases dir; induction cs) (auto simp: simples_def simpleFs_def handleSimpleIndex_def index_actions)

definition flightsIndexes1 :: "qstring list" where
  "flightsIndexes1 = [''plane_id'', ''pilot_id'', ''copilot_id'', ''launch_method_id'', ''towplane_id'', ''towpilot_id'',
     ''type'', ''mode'', ''towflight_mode'', ''departed'', ''landed'', ''towflight_landed'']"

definition flightsIndexes2 :: "qstring list" where
  "flightsIndexes2 = [''departure_time'', ''landing_time'', ''towflight_landing_time'', ''departure_location'',
     ''landing_location'', ''towflight_landing_location'', ''accounting_notes'']"

definition statusIndex :: "direction \<Rightarrow> tablesDb ddl_action" where
  "statusIndex dir = handleIndex described dir ''flights'' ''status_index'' ''departed,landed,towflight_landed''"

definition statusIndexF :: "direction \<Rightarrow> dbTable \<Rightarrow> ddl_error + dbTable" where
  "statusIndexF dir = (case dir of
     dirUp \<Rightarrow> createTableIndex \<lparr>is_table = ''flights'', is_name = ''status_index'', is_columns = ''departed,landed,towflight_landed''\<rparr>
   | dirDown \<Rightarrow> dropTableIndex ''status_index'')"

lemma handleIndexes_split:
  "handleIndexes described dir = inOrder (simples dir ''planes'' [''registration'', ''club'']
     @ simples dir ''people'' [''club'', ''club_id''] @ simples dir ''users'' [''username'', ''person_id'']
     @ simples dir ''flights'' flightsIndexes1 @ statusIndex dir # simples dir ''flights'' flightsIndexes2)"
  by (simp add: handleIndexes_def simples_def flightsIndexes1_def flightsIndexes2_def statusIndex_def)

lemma simples_append:
  assumes "map_of ts n = Some t" "foldTable (simpleFs dir n cs) t = Inr t'"
  shows "inOrder (simples dir n cs @ bs) (db ts) = inOrder bs (db (putTable n t' ts))"
  by (rule table_run_append [OF simples_actions assms(2,1)])

lemma flights_index_run:
  assumes "map_of ts ''flights'' = Some t"
    and "foldTable (simpleFs dir ''flights'' flightsIndexes1 @ statusIndexF dir # simpleFs dir ''flights'' flightsIndexes2) t = Inr t'"
  shows "inOrder (simples dir ''flights'' flightsIndexes1 @ statusIndex dir # simples dir ''flights'' flightsIndexes2) (db ts)
    = (None, db (putTable ''flights'' t' ts))"
proof (rule table_run [OF _ assms(2,1)])
  have "tableAction ''flights'' (statusIndex dir) (statusIndexF dir)"
    by (cases dir) (simp_all add: statusIndex_def statusIndexF_def index_actions)
  then show "list_all2 (tableAction ''flights'') (simples dir ''flights'' flightsIndexes1 @ statusIndex dir # simples dir ''flights'' flightsIndexes2)
      (simpleFs dir ''flights'' flightsIndexes1 @ statusIndexF dir # simpleFs dir ''flights'' flightsIndexes2)"
    by (intro list_all2_appendI list_all2_intros simples_actions)
qed

lemma index_folds_up:
  "foldTable (simpleFs dirUp ''planes'' [''registration'', ''club'']) (tableOf finalPlanes [] [])
     = Inr (tableOf finalPlanes (simpleIndexes [''registration'', ''club'']) [])"
  "foldTable (simpleFs dirUp ''people'' [''club'', ''club_id'']) (tableOf peopleColumns [] [])
     = Inr (tableOf peopleColumns (simpleIndexes [''club'', ''club_id'']) [])"
  "foldTable (simpleFs dirUp ''users'' [''username'', ''person_id'']) (tableOf commentedUsers [] [])
     = Inr (tableOf commentedUsers (simpleIndexes [''username'', ''person_id'']) [])"
  "foldTable (simpleFs dirUp ''flights'' flightsIndexes1 @ statusIndexF dirUp # simpleFs dirUp ''flights'' flightsIndexes2)
     (tableOf finalFlights [] []) = Inr (tableOf finalFlights flightsIndexes [])"
  by code_simp+

lemma index_folds_down:
  "foldTable (simpleFs dirDown ''planes'' [''registration'', ''club'']) (tableOf finalPlanes (simpleIndexes [''registration'', ''club'']) [])
     = Inr (tableOf finalPlanes [] [])"
  "foldTable (simpleFs dirDown ''people'' [''club'', ''club_id'']) (tableOf peopleColumns (simpleIndexes [''club'', ''club_id'']) [])
     = Inr (tableOf peopleColumns [] [])"
  "foldTable (simpleFs dirDown ''users'' [''username'', ''person_id'']) (tableOf commentedUsers (simpleIndexes [''username'', ''person_id'']) [])
     = Inr (tableOf commentedUsers [] [])"
  "foldTable (simpleFs dirDown ''flights'' flightsIndexes1 @ statusIndexF dirDown # simpleFs dirDown ''flights'' flightsIndexes2)
     (tableOf finalFlights flightsIndexes []) = Inr (tableOf finalFlights [] [])"
  by code_simp+

lemma add_indexes_stage:
  "up_add_indexes described (modesDb ids) = (None, indexedDb [] [] [] False ids)"
  "down_add_indexes described (indexedDb [] [] [] False ids) = (None, modesDb ids)"
  by (simp_all add: up_add_indexes_def down_add_indexes_def handleIndexes_split modesDb_def plainDb_def indexedDb_def
      cols_def simples_append index_folds_up index_folds_down flights_index_run)

section \<open>Later columns\<close>

lemma indexedDb_people:
  assumes "list_all2 (tableAction ''people'') as fs"
    and "foldTable fs (tableOf (peopleColumns @ cols p) (simpleIndexes [''club'', ''club_id'']) [])
      = Inr (tableOf (peopleColumns @ cols p') (simpleIndexes [''club'', ''club_id'']) [])"
  shows "inOrder as (indexedDb p q f b ids) = (None, indexedDb p' q f b ids)"
  unfolding indexedDb_def by (rule on_table_stage [OF assms, where us = "[]"]) simp_all

lemma indexedDb_planes:
  assumes "list_all2 (tableAction ''planes'') as fs"
    and "foldTable fs (tableOf (finalPlanes @ cols q) (simpleIndexes [''registration'', ''club'']) [])
      = Inr (tableOf (finalPlanes @ cols q') (simpleIndexes [''registration'', ''club'']) [])"
  shows "inOrder as (indexedDb p q f b ids) = (None, indexedDb p q' f b ids)"
  unfolding indexedDb_def
  by (rule on_table_stage [OF assms, where us = "[(''people'', tableOf (peopleColumns @ cols p) (simpleIndexes [''club'', ''club_id'']) [])]"])
    simp_all

lemma indexedDb_flights:
  assumes "list_all2 (tableAction ''flights'') as fs"
    and "foldTable fs (tableOf (finalFlights @ cols f) flightsIndexes []) = Inr (tableOf (finalFlights @ cols f') flightsIndexes [])"
  shows "inOrder as (indexedDb p q f b ids) = (None, indexedDb p q f' b ids)"
  unfolding indexedDb_def
  by (rule on_table_stage [OF assms, where us = "[(''people'', tableOf (peopleColumns @ cols p) (simpleIndexes [''club'', ''club_id'']) []),
      (''planes'', tableOf (finalPlanes @ cols q) (simpleIndexes [''registration'', ''club'']) [])]"]) simp_all

lemma medical_folds:
  "foldTable [addIfMissing ''medical_validity'' dataTypeDate [], addIfMissing ''check_medical_validity'' dataTypeBoolean []]
     (tableOf (peopleColumns @ cols []) (simpleIndexes [''club'', ''club_id'']) [])
     = Inr (tableOf (peopleColumns @ cols medicalColumns) (simpleIndexes [''club'', ''club_id'']) [])"
  "foldTable [dropIfThere ''medical_validity'', dropIfThere ''check_medical_validity'']
     (tableOf (peopleColumns @ cols medicalColumns) (simpleIndexes [''club'', ''club_id'']) [])
     = Inr (tableOf (peopleColumns @ cols []) (simpleIndexes [''club'', ''club_id'']) [])"
  by code_simp+

lemma add_medical_stage:
  "up_add_medical_validity described (indexedDb [] q f b ids) = (None, indexedDb medicalColumns q f b ids)"
  "down_add_medical_validity described (indexedDb medicalColumns q f b ids) = (None, indexedDb [] q f b ids)"
  unfolding up_add_medical_validity_def down_add_medical_validity_def
  by - (rule indexedDb_people, (rule table_actions)+, rule medical_folds)+

lemma personVfid_folds:
  "foldTable [addIfMissing ''vfid'' dataTypeLong []] (tableOf (peopleColumns @ cols medicalColumns) (simpleIndexes [''club'', ''club_id'']) [])
     = Inr (tableOf (peopleColumns @ cols (medicalColumns @ [(''vfid'', dataTypeLong)])) (simpleIndexes [''club'', ''club_id'']) [])"
  "foldTable [dropIfThere ''vfid''] (tableOf (peopleColumns @ cols (medicalColumns @ [(''vfid'', dataTypeLong)])) (simpleIndexes [''club'', ''club_id'']) [])
     = Inr (tableOf (peopleColumns @ cols medicalColumns) (simpleIndexes [''club'', ''club_id'']) [])"
  by code_simp+

lemma add_vfid_to_person_stage:
  "up_add_vfid_to_person described (indexedDb medicalColumns q f b ids)
     = (None, indexedDb (medicalColumns @ [(''vfid'', dataTypeLong)]) q f b ids)"
  "down_add_vfid_to_person described (indexedDb (medicalColumns @ [(''vfid'', dataTypeLong)]) q f b ids)
     = (None, indexedDb medicalColumns q f b ids)"
  unfolding up_add_vfid_to_person_def down_add_vfid_to_person_def
  by - (rule indexedDb_people, (rule table_actions)+, rule personVfid_folds)+

lemma planeFlarm_folds:
  "foldTable [addIfMissing ''flarm_id'' dataTypeString16 []] (tableOf (finalPlanes @ cols []) (simpleIndexes [''registration'', ''club'']) [])
     = Inr (tableOf (finalPlanes @ cols flarmIdColumn) (simpleIndexes [''registration'', ''club'']) [])"
  "foldTable [dropIfThere ''flarm_id''] (tableOf (finalPlanes @ cols flarmIdColumn) (simpleIndexes [''registration'', ''club'']) [])
     = Inr (tableOf (finalPlanes @ cols []) (simpleIndexes [''registration'', ''club'']) [])"
  by code_simp+

lemma newFlights: "newNames (''id'' # map co_name finalFlights) (vfidColumns 5)"
  by code_simp

definition laterFlights :: "(qstring \<times> qstring) list \<Rightarrow> dbTable" where
  "laterFlights sp = tableOf (finalFlights @ cols sp) flightsIndexes []"

lemma flights_add_folds:
  "foldTable [addIfMissing ''flarm_id'' dataTypeString16 []] (laterFlights []) = Inr (laterFlights (vfidColumns 0))"
  "foldTable [addIfMissing ''vfid'' dataTypeInteger []] (laterFlights (vfidColumns 0)) = Inr (laterFlights (vfidColumns 1))"
  "foldTable [addIfMissing ''num_crew'' dataTypeInteger [], addIfMissing ''num_pax'' dataTypeInteger []] (laterFlights (vfidColumns 1))
     = Inr (laterFlights (vfidColumns 3))"
  "foldTable [addIfMissing ''uploaded'' dataTypeBoolean [], needsColumns [''uploaded'']] (laterFlights (vfidColumns 3))
     = Inr (laterFlights (vfidColumns 4))"
  "foldTable [addIfMissing ''supervisor_id'' dataTypeInteger []] (laterFlights (vfidColumns 4)) = Inr (laterFlights (vfidColumns 5))"
  by code_simp+

lemma flights_drop_folds:
  "foldTable [dropIfThere ''flarm_id''] (laterFlights (vfidColumns 0)) = Inr (laterFlights [])"
  "foldTable [dropIfThere ''vfid''] (laterFlights (vfidColumns 1)) = Inr (laterFlights (vfidColumns 0))"
  "foldTable [dropIfThere ''num_crew'', dropIfThere ''num_pax''] (laterFlights (vfidColumns 3)) = Inr (laterFlights (vfidColumns 1))"
  "foldTable [dropIfThere ''uploaded''] (laterFlights (vfidColumns 4)) = Inr (laterFlights (vfidColumns 3))"
  "foldTable [dropIfThere ''supervisor_id''] (laterFlights (vfidColumns 5)) = Inr (laterFlights (vfidColumns 4))"
  by code_simp+

lemmas later_folds = flights_add_folds [unfolded laterFlights_def] flights_drop_folds [unfolded laterFlights_def]

lemma flarm_id_parts:
  "inOrder [ddl_addColumn described ''planes'' ''flarm_id'' dataTypeString16 [] True] (indexedDb p [] f b ids)
     = (None, indexedDb p flarmIdColumn f b ids)"
  "inOrder [ddl_dropColumn described ''planes'' ''flarm_id'' True] (indexedDb p flarmIdColumn f b ids) = (None, indexedDb p [] f b ids)"
  by - (rule indexedDb_planes, (rule table_actions)+, rule planeFlarm_folds)+

lemma flarm_id_parts2:
  "inOrder [ddl_addColumn described ''flights'' ''flarm_id'' dataTypeString16 [] True] (indexedDb p q [] b ids)
     = (None, indexedDb p q (vfidColumns 0) b ids)"
  "inOrder [ddl_dropColumn described ''flights'' ''flarm_id'' True] (indexedDb p q (vfidColumns 0) b ids) = (None, indexedDb p q [] b ids)"
  by - (rule indexedDb_flights, (rule table_actions)+, rule later_folds)+

lemma add_flarm_id_stage:
  "up_add_flarm_id described (indexedDb p [] [] b ids) = (None, indexedDb p flarmIdColumn (vfidColumns 0) b ids)"
  "down_add_flarm_id described (indexedDb p flarmIdColumn (vfidColumns 0) b ids) = (None, indexedDb p [] [] b ids)"
  using flarm_id_parts flarm_id_parts2
  by (simp_all add: up_add_flarm_id_def down_add_flarm_id_def inOrder_Cons inOrder_one)

lemma later_flights_stages:
  "up_add_vfid described (indexedDb p q (vfidColumns 0) b ids) = (None, indexedDb p q (vfidColumns 1) b ids)"
  "up_anonymous_columns described (indexedDb p q (vfidColumns 1) b ids) = (None, indexedDb p q (vfidColumns 3) b ids)"
  "up_add_uploaded described (indexedDb p q (vfidColumns 3) b ids) = (None, indexedDb p q (vfidColumns 4) b ids)"
  "up_add_supervisor described (indexedDb p q (vfidColumns 4) b ids) = (None, indexedDb p q (vfidColumns 5) b ids)"
  "down_add_vfid described (indexedDb p q (vfidColumns 1) b ids) = (None, indexedDb p q (vfidColumns 0) b ids)"
  "down_anonymous_columns described (indexedDb p q (vfidColumns 3) b ids) = (None, indexedDb p q (vfidColumns 1) b ids)"
  "down_add_uploaded described (indexedDb p q (vfidColumns 4) b ids) = (None, indexedDb p q (vfidColumns 3) b ids)"
  "down_add_supervisor described (indexedDb p q (vfidColumns 5) b ids) = (None, indexedDb p q (vfidColumns 4) b ids)"
  unfolding up_add_vfid_def up_anonymous_columns_def up_add_uploaded_def up_add_supervisor_def
    down_add_vfid_def down_anonymous_columns_def down_add_uploaded_def down_add_supervisor_def
  by - (rule indexedDb_flights, (rule table_actions)+, rule later_folds)+

lemma flarmnet_fold:
  "foldTable [addIfMissing ''flarm_id'' dataTypeString16 ''NOT NULL'', addIfMissing ''registration'' dataTypeString16 ''NOT NULL'',
      addIfMissing ''callsign'' dataTypeString16 [], addIfMissing ''owner'' dataTypeString [], addIfMissing ''airfield'' dataTypeString [],
      addIfMissing ''type'' dataTypeString [], addIfMissing ''frequency'' dataTypeString16 []] (tableOf [] [] [])
    = Inr (tableOf flarmnetColumns [] [])"
  by code_simp

lemma add_flarmnet_stage:
  "up_add_flarmnet described (indexedDb p q f False ids) = (None, indexedDb p q f True ids)"
  "down_add_flarmnet described (indexedDb p q f True ids) = (None, indexedDb p q f False ids)"
proof -
  let ?ts = "td_tables (indexedDb p q f False ids)"
  have ts: "indexedDb p q f False ids = db ?ts" "indexedDb p q f True ids = db (?ts @ [(''flarmnet'', tableOf flarmnetColumns [] [])])"
    and no: "map_of ?ts ''flarmnet'' = None" by (simp_all add: indexedDb_def)
  have "up_add_flarmnet described (db ?ts) = inOrder (tl
      [ddl_createTableWithId described ''flarmnet'' True,
      ddl_addColumn described ''flarmnet'' ''flarm_id'' dataTypeString16 ''NOT NULL'' True,
      ddl_addColumn described ''flarmnet'' ''registration'' dataTypeString16 ''NOT NULL'' True,
      ddl_addColumn described ''flarmnet'' ''callsign'' dataTypeString16 [] True,
      ddl_addColumn described ''flarmnet'' ''owner'' dataTypeString [] True,
      ddl_addColumn described ''flarmnet'' ''airfield'' dataTypeString [] True,
      ddl_addColumn described ''flarmnet'' ''type'' dataTypeString [] True,
      ddl_addColumn described ''flarmnet'' ''frequency'' dataTypeString16 [] True]) (db (?ts @ [(''flarmnet'', tableOf [] [] [])]))"
    unfolding up_add_flarmnet_def using create_step [OF no] by simp
  also have "\<dots> = (None, db (?ts @ [(''flarmnet'', tableOf flarmnetColumns [] [])]))"
    unfolding list.sel by (rule on_table_stage [where us = ?ts and vs = "[]"], (rule table_actions)+, rule flarmnet_fold)
      (simp_all add: no)
  finally show "up_add_flarmnet described (indexedDb p q f False ids) = (None, indexedDb p q f True ids)"
    using ts by simp
  have "filter (\<lambda>(m, t). m \<noteq> ''flarmnet'') ?ts = ?ts" by (simp add: indexedDb_def)
  then show "down_add_flarmnet described (indexedDb p q f True ids) = (None, indexedDb p q f False ids)"
    using ts no by (simp add: down_add_flarmnet_def drop_step inOrder_Nil map_add_def)
qed

end
