(* ===== verification/Sk_SchemaFacts.thy ===== *)
theory Sk_SchemaFacts
  imports Sk_SchemaLater Sk_FlightDb Sk_Person
begin

text \<open>
  What the migrations amount to, for every server that keeps to its manual: they build the schema of
  \<^verbatim>\<open>current_schema.yaml\<close> and the columns added after it, going down undoes them, the old values are read by
  the present program, and what the program stores fits the columns.
\<close>

section \<open>The migrations on a server\<close>

text \<open>A migration on the server does what the same migration does on the description.\<close>

definition follows :: "('d \<Rightarrow> tablesDb) \<Rightarrow> 'd migration \<Rightarrow> tablesDb migration \<Rightarrow> bool" where
  "follows view m m' \<longleftrightarrow> (\<forall>d.
     fst (mg_up m d) = fst (mg_up m' (view d)) \<and> view (snd (mg_up m d)) = snd (mg_up m' (view d))
   \<and> fst (mg_down m d) = fst (mg_down m' (view d)) \<and> view (snd (mg_down m d)) = snd (mg_down m' (view d)))"

lemma follows_aMigration:
  "simulates view a a' \<Longrightarrow> simulates view b b' \<Longrightarrow> follows view (aMigration n a b) (aMigration n a' b')"
  by (simp add: follows_def simulates_def aMigration_def ending_def case_prod_beta)

context ddl_connection
begin

lemma sim_ops:
  "simulates view (innodbTable srv n) (innodbTable described n)"
  "simulates view (utf8Table srv n) (utf8Table described n)"
  "simulates view (dropColumnAndTemp srv n c) (dropColumnAndTemp described n c)"
  "simulates view (removeTempTable srv n) (removeTempTable described n)"
  "simulates view (createTempTable srv n) (createTempTable described n)"
  unfolding innodbTable_def utf8Table_def dropColumnAndTemp_def removeTempTable_def createTempTable_def
  by (intro sim_inOrder list_all2_intros sims)+

lemma sim_directed:
  "simulates view (renameTableTowards srv n m dir) (renameTableTowards described n m dir)"
  "simulates view (renameColumnTowards srv n c c' ty dir) (renameColumnTowards described n c c' ty dir)"
  "simulates view (updateCategory srv dir o' o2) (updateCategory described dir o' o2)"
  "simulates view (updateFlightType srv dir k o2) (updateFlightType described dir k o2)"
  "simulates view (handleIndex srv dir n m cs) (handleIndex described dir n m cs)"
  "simulates view (handleSimpleIndex srv dir n m) (handleSimpleIndex described dir n m)"
  by (cases dir; simp add: renameTableTowards_def renameColumnTowards_def updateCategory_def
      updateFlightType_def handleSimpleIndex_def handleIndex_def sims)+

lemma sim_mode: "simulates view (updateFlightMode srv dir o' n') (updateFlightMode described dir o' n')"
  by (cases dir; simp add: updateFlightMode_def; intro sim_inOrder list_all2_intros sims)

lemma sim_changes:
  "simulates view (changePeopleTable srv n) (changePeopleTable described n)"
  "simulates view (changePlanesTable srv n) (changePlanesTable described n)"
  "simulates view (changeFlightsTable srv n) (changeFlightsTable described n)"
  "simulates view (changeUsersTable srv n) (changeUsersTable described n)"
  unfolding changePeopleTable_def changePlanesTable_def changeFlightsTable_def changeUsersTable_def
  by (intro sim_inOrder list_all2_intros sims)+

lemma sim_lists:
  "simulates view (renameTables srv dir) (renameTables described dir)"
  "simulates view (renameColumns srv dir) (renameColumns described dir)"
  "simulates view (handleIndexes srv dir) (handleIndexes described dir)"
  unfolding renameTables_def renameColumns_def handleIndexes_def
  by (intro sim_inOrder list_all2_intros sim_directed)+

lemma sim_maps:
  "simulates view (updateCategories srv dir) (updateCategories described dir)"
  "simulates view (updateFlightTypes srv dir) (updateFlightTypes described dir)"
  "simulates view (updateFlightModes srv dir) (updateFlightModes described dir)"
  unfolding updateCategories_def updateFlightTypes_def updateFlightModes_def
  by (rule sim_inOrder; simp add: list_all2_conv_all_nth sim_directed sim_mode split: prod.split)+

lemma sim_import: "simulates view (importLaunchMethods srv ms) (importLaunchMethods described ms)"
proof -
  let ?s = "\<lambda>v. inOrder (ds_run v TransactionStart # map (\<lambda>l. ds_run v (InsertLaunchMethod l)) ms @ [ds_run v TransactionCommit])"
  have "list_all2 (simulates view) (map (\<lambda>l. ds_run srv (InsertLaunchMethod l)) ms) (map (\<lambda>l. ds_run described (InsertLaunchMethod l)) ms)"
    by (simp add: list_all2_conv_all_nth sim_run)
  then have run: "simulates view (?s srv) (?s described)"
    by (intro sim_inOrder) (auto simp: sim_run intro!: list_all2_appendI)
  have roll: "fst (ds_run srv TransactionRollback d) = fst (ds_run described TransactionRollback (view d))"
      "view (snd (ds_run srv TransactionRollback d)) = snd (ds_run described TransactionRollback (view d))" for d
    using sim_run [of TransactionRollback] by (simp_all add: simulates_def)
  define a where "a = ?s srv"
  define b where "b = ?s described"
  have ab: "fst (a d) = fst (b (view d))" "view (snd (a d)) = snd (b (view d))" for d
    using run by (simp_all add: simulates_def a_def b_def)
  have "importLaunchMethods srv ms = (\<lambda>d. case a d of (None, d') \<Rightarrow> (None, d')
      | (Some e, d') \<Rightarrow> (case ds_run srv TransactionRollback d' of (None, d2) \<Rightarrow> (Some e, d2) | (Some e2, d2) \<Rightarrow> (Some e2, d2)))"
    "importLaunchMethods described ms = (\<lambda>d. case b d of (None, d') \<Rightarrow> (None, d')
      | (Some e, d') \<Rightarrow> (case ds_run described TransactionRollback d' of (None, d2) \<Rightarrow> (Some e, d2) | (Some e2, d2) \<Rightarrow> (Some e2, d2)))"
    by (simp_all add: fun_eq_iff importLaunchMethods_def a_def b_def)
  then show ?thesis
    using ab roll by (simp add: simulates_def case_prod_beta split: option.split)
qed

lemmas sim_all = sim_inOrder list_all2_intros sims sim_ops sim_directed sim_mode sim_changes sim_lists sim_maps sim_import

lemma sim_ups:
  "simulates view (up_initial srv) (up_initial described)"
  "simulates view (up_change_to_innodb srv) (up_change_to_innodb described)"
  "simulates view (up_add_towpilot srv) (up_add_towpilot described)"
  "simulates view (up_drop_old_columns srv) (up_drop_old_columns described)"
  "simulates view (up_convert_to_utf8 srv) (up_convert_to_utf8 described)"
  "simulates view (up_fix_data_types srv) (up_fix_data_types described)"
  "simulates view (up_remove_temp_tables srv) (up_remove_temp_tables described)"
  "simulates view (up_rename_tables srv) (up_rename_tables described)"
  "simulates view (up_rename_columns srv) (up_rename_columns described)"
  "simulates view (up_add_launch_methods ms srv) (up_add_launch_methods ms described)"
  "simulates view (up_add_comments_to_users srv) (up_add_comments_to_users described)"
  "simulates view (up_full_plane_category srv) (up_full_plane_category described)"
  unfolding up_initial_def up_change_to_innodb_def up_add_towpilot_def up_drop_old_columns_def up_convert_to_utf8_def
    up_fix_data_types_def up_remove_temp_tables_def up_rename_tables_def up_rename_columns_def
    up_add_launch_methods_def up_add_comments_to_users_def up_full_plane_category_def
  by (intro sim_all)+

lemma sim_ups2:
  "simulates view (up_full_flight_type srv) (up_full_flight_type described)"
  "simulates view (up_flight_status_columns srv) (up_flight_status_columns described)"
  "simulates view (up_full_flight_mode srv) (up_full_flight_mode described)"
  "simulates view (up_add_indexes srv) (up_add_indexes described)"
  "simulates view (up_add_medical_validity srv) (up_add_medical_validity described)"
  "simulates view (up_add_flarm_id srv) (up_add_flarm_id described)"
  "simulates view (up_add_flarmnet srv) (up_add_flarmnet described)"
  "simulates view (up_add_vfid srv) (up_add_vfid described)"
  "simulates view (up_anonymous_columns srv) (up_anonymous_columns described)"
  "simulates view (up_add_uploaded srv) (up_add_uploaded described)"
  "simulates view (up_add_supervisor srv) (up_add_supervisor described)"
  "simulates view (up_add_vfid_to_person srv) (up_add_vfid_to_person described)"
  unfolding up_full_flight_type_def up_flight_status_columns_def up_full_flight_mode_def up_add_indexes_def
    up_add_medical_validity_def up_add_flarm_id_def up_add_flarmnet_def up_add_vfid_def up_anonymous_columns_def
    up_add_uploaded_def up_add_supervisor_def up_add_vfid_to_person_def
  by (intro sim_all)+

lemma sim_downs:
  "simulates view (down_initial srv) (down_initial described)"
  "simulates view (down_change_to_innodb srv) (down_change_to_innodb described)"
  "simulates view (down_add_towpilot srv) (down_add_towpilot described)"
  "simulates view (down_drop_old_columns srv) (down_drop_old_columns described)"
  "simulates view (down_convert_to_utf8 srv) (down_convert_to_utf8 described)"
  "simulates view (down_fix_data_types srv) (down_fix_data_types described)"
  "simulates view (down_remove_temp_tables srv) (down_remove_temp_tables described)"
  "simulates view (down_rename_tables srv) (down_rename_tables described)"
  "simulates view (down_rename_columns srv) (down_rename_columns described)"
  "simulates view (down_add_launch_methods srv) (down_add_launch_methods described)"
  "simulates view (down_add_comments_to_users srv) (down_add_comments_to_users described)"
  "simulates view (down_full_plane_category srv) (down_full_plane_category described)"
  unfolding down_initial_def down_change_to_innodb_def down_add_towpilot_def down_drop_old_columns_def
    down_convert_to_utf8_def down_fix_data_types_def down_remove_temp_tables_def down_rename_tables_def
    down_rename_columns_def down_add_launch_methods_def down_add_comments_to_users_def down_full_plane_category_def
  by (intro sim_all)+

lemma sim_downs2:
  "simulates view (down_full_flight_type srv) (down_full_flight_type described)"
  "simulates view (down_flight_status_columns srv) (down_flight_status_columns described)"
  "simulates view (down_full_flight_mode srv) (down_full_flight_mode described)"
  "simulates view (down_add_indexes srv) (down_add_indexes described)"
  "simulates view (down_add_medical_validity srv) (down_add_medical_validity described)"
  "simulates view (down_add_flarm_id srv) (down_add_flarm_id described)"
  "simulates view (down_add_flarmnet srv) (down_add_flarmnet described)"
  "simulates view (down_add_vfid srv) (down_add_vfid described)"
  "simulates view (down_anonymous_columns srv) (down_anonymous_columns described)"
  "simulates view (down_add_uploaded srv) (down_add_uploaded described)"
  "simulates view (down_add_supervisor srv) (down_add_supervisor described)"
  "simulates view (down_add_vfid_to_person srv) (down_add_vfid_to_person described)"
  unfolding down_full_flight_type_def down_flight_status_columns_def down_full_flight_mode_def down_add_indexes_def
    down_add_medical_validity_def down_add_flarm_id_def down_add_flarmnet_def down_add_vfid_def
    down_anonymous_columns_def down_add_uploaded_def down_add_supervisor_def down_add_vfid_to_person_def
  by (intro sim_all)+

lemma ending_by_view:
  assumes "simulates view a b" "b (view d) = (None, s)"
  shows "\<exists>d'. ending a d = (True, d') \<and> view d' = s"
  using assms by (auto simp: simulates_def ending_def dest!: spec [of _ d] split: prod.split)

lemma sim_registered:
  "list_all2 (\<lambda>x y. follows view (snd x) (snd y)) (registeredMigrations ms srv) (registeredMigrations ms described)"
  by (simp add: registeredMigrations_def follows_aMigration sim_ups sim_ups2 sim_downs sim_downs2)

end

text \<open>The database after each migration; \<open>ids\<close> are those of the imported launch methods.\<close>

definition stages :: "dbId list \<Rightarrow> tablesDb list" where
  "stages ids =
     [noTables, legacyDb, legacyDb, legacyDb, legacyDb, legacyDb, legacyDb, mergedDb, englishDb, renamedDb,
      launchDb ids, commentsDb ids, categoriesDb ids, typesDb ids, statusDb dataTypeCharacter ids, modesDb ids,
      indexedDb [] [] [] False ids, indexedDb medicalColumns [] [] False ids,
      indexedDb medicalColumns flarmIdColumn (vfidColumns 0) False ids,
      indexedDb medicalColumns flarmIdColumn (vfidColumns 0) True ids,
      indexedDb medicalColumns flarmIdColumn (vfidColumns 1) True ids,
      indexedDb medicalColumns flarmIdColumn (vfidColumns 3) True ids,
      indexedDb medicalColumns flarmIdColumn (vfidColumns 4) True ids,
      indexedDb medicalColumns flarmIdColumn (vfidColumns 5) True ids, currentDb ids]"

lemmas up_stages = up_initial_stage formats_stage up_add_towpilot_stage up_drop_old_columns_stage
  up_fix_data_types_stage up_remove_temp_tables_stage rename_tables_stage rename_columns_stage
  up_add_launch_methods_stage add_comments_stage full_plane_category_stage full_flight_type_stage
  flight_status_stage full_flight_mode_stage add_indexes_stage add_medical_stage add_flarm_id_stage
  add_flarmnet_stage later_flights_stages add_vfid_to_person_stage

lemma down_nothing_stages:
  "down_change_to_innodb described d = (None, d)" "down_add_towpilot described d = (None, d)"
  "down_drop_old_columns described d = (None, d)" "down_convert_to_utf8 described d = (None, d)"
  "down_fix_data_types described d = (None, d)"
  by (simp_all add: down_change_to_innodb_def down_add_towpilot_def down_drop_old_columns_def
      down_convert_to_utf8_def down_fix_data_types_def doNothing_def)

lemmas down_stages = down_initial_stage down_nothing_stages down_remove_temp_tables_stage rename_tables_stage
  rename_columns_stage down_add_launch_methods_stage add_comments_stage full_plane_category_stage
  full_flight_type_stage flight_status_stage full_flight_mode_stage add_indexes_stage add_medical_stage
  add_flarm_id_stage add_flarmnet_stage later_flights_stages add_vfid_to_person_stage

text \<open>What the description does, for all migrations: up, and down again. Two migrations do not restore
  what was before.\<close>

lemmas later_stages = later_flights_stages [unfolded One_nat_def]

text \<open>The \<open>i\<close>th migration as it was registered, for any server.\<close>

definition theMigration :: "launchMethod list \<Rightarrow> 'd ddl_server \<Rightarrow> nat \<Rightarrow> 'd migration" where
  "theMigration methods srv i = snd (registeredMigrations methods srv ! i)"

lemma zip_nth:
  assumes "list_all (\<lambda>(m, s, s'). P m s s') (zip ms (zip ss (tl ss)))" "i < length ms" "Suc i < length ss"
  shows "P (ms ! i) (ss ! i) (ss ! Suc i)"
  using assms by (auto simp: list_all_length nth_tl dest!: spec [of _ i])

lemma stages_length: "length (stages ids) = 25" "length (registeredMigrations methods srv) = 24"
  by (simp_all add: stages_def registeredMigrations_def)

lemma ups_described:
  assumes "distinct (map lm_id methods)" "0 \<notin> lm_id ` set methods" "i < 24"
  shows "mg_up (theMigration methods described i) (stages (map lm_id methods) ! i)
    = (True, stages (map lm_id methods) ! Suc i)"
proof -
  have "list_all (\<lambda>(m, s, s'). mg_up (snd m) s = (True, s'))
      (zip (registeredMigrations methods described) (zip (stages (map lm_id methods)) (tl (stages (map lm_id methods)))))"
    using assms(1,2)
    by (simp add: registeredMigrations_def stages_def aMigration_def ending_def up_stages later_stages currentDb_def)
  from zip_nth [OF this] show ?thesis
    using assms(3) by (simp add: theMigration_def stages_length)
qed

text \<open>Down again: the stage before, but for the order of the tables (6) and the type of one column (14).\<close>

definition downStages :: "dbId list \<Rightarrow> tablesDb list" where
  "downStages ids = (stages ids)[6 := legacyDb2, 14 := statusDb dataTypeString ids]"

lemma downStages_eq: "downStages ids = take 6 (stages ids) @ [legacyDb2] @ drop 7 (take 14 (stages ids))
    @ [statusDb dataTypeString ids] @ drop 15 (stages ids)"
  by (simp add: downStages_def stages_def eval_nat_numeral)

lemma downs_described:
  assumes "i < 24"
  shows "mg_down (theMigration methods described i) (stages ids ! Suc i) = (True, downStages ids ! i)"
proof -
  have "list_all (\<lambda>(m, s', s). mg_down (snd m) s' = (True, s))
      (zip (registeredMigrations methods described) (zip (tl (stages ids)) (downStages ids)))"
    by (simp add: registeredMigrations_def stages_def downStages_eq aMigration_def ending_def down_stages later_stages
        currentDb_def)
  then show ?thesis
    using assms by (auto simp: list_all_length theMigration_def stages_length downStages_def nth_tl dest!: spec [of _ i])
qed

lemma migration_follows:
  assumes "ddl_server_ok srv view" "i < 24"
  shows "follows view (theMigration methods srv i) (theMigration methods described i)"
proof -
  have "ddl_connection srv view" using assms(1) by unfold_locales
  from ddl_connection.sim_registered [OF this, of methods] show ?thesis
    using assms(2) by (simp add: list_all2_conv_all_nth theMigration_def stages_length)
qed

lemma ups_on_server:
  assumes "ddl_server_ok srv view" "distinct (map lm_id methods)" "0 \<notin> lm_id ` set methods" "i < 24"
    and "view d = stages (map lm_id methods) ! i"
  shows "\<exists>d'. mg_up (theMigration methods srv i) d = (True, d') \<and> view d' = stages (map lm_id methods) ! Suc i"
proof (cases "mg_up (theMigration methods srv i) d")
  case (Pair ok d')
  then show ?thesis
    using migration_follows [OF assms(1,4), of methods] ups_described [OF assms(2-4)] assms(5)
    by (auto simp: follows_def dest!: spec [of _ d])
qed

lemma downs_on_server:
  assumes "ddl_server_ok srv view" "i < 24" "view d = stages ids ! Suc i"
  shows "\<exists>d'. mg_down (theMigration methods srv i) d = (True, d') \<and> view d' = downStages ids ! i"
proof (cases "mg_down (theMigration methods srv i) d")
  case (Pair ok d')
  then show ?thesis
    using migration_follows [OF assms(1,2), of methods] downs_described [OF assms(2), of methods ids] assms(3)
    by (auto simp: follows_def dest!: spec [of _ d])
qed

section \<open>All migrations\<close>

definition allVersions :: "version list" where
  "allVersions = schemaVersions @ [20240323192110, 20250126193900]"

lemma allVersions_sorted: "sorted_wrt (<) allVersions" "0 \<notin> set allVersions"
  by code_simp+

lemma registered_versions: "map fst (registeredMigrations methods srv) = allVersions"
  by (simp add: registeredMigrations_def allVersions_def schemaVersions_def)

lemma registration_last: "\<forall>w \<in> fst ` set bs. w < v \<Longrightarrow> registration v m bs = bs @ [(v, m)]"
proof (induction bs)
  case (Cons b bs)
  obtain w c where "b = (w, c)" by fastforce
  with Cons show ?case by (auto simp: not_less)
qed simp

lemma registrations_sorted:
  "sorted_wrt (<) (map fst (bs @ ms)) \<Longrightarrow> foldl (\<lambda>bs (v, m). registration v m bs) bs ms = bs @ ms"
proof (induction ms arbitrary: bs)
  case (Cons x ms)
  obtain v m where x: "x = (v, m)" by fastforce
  have "\<forall>w \<in> fst ` set bs. w < v" using Cons.prems by (auto simp: x sorted_wrt_append)
  with Cons.IH [of "bs @ [x]"] Cons.prems show ?case by (simp add: x registration_last)
qed simp

lemma builders_eq: "migrationBuilders methods srv = registeredMigrations methods srv"
  using registrations_sorted [of "[]" "registeredMigrations methods srv"] allVersions_sorted(1)
  by (simp add: migrationBuilders_def registered_versions)

lemma builders_versions: "availableVersions (migrationBuilders methods srv) = allVersions"
  by (simp add: availableVersions_def builders_eq registered_versions)

lemma sorted_wrt_less: "sorted_wrt (<) (xs :: version list) \<Longrightarrow> sorted xs \<and> distinct xs"
  by (induction xs) (auto simp: less_imp_le)

lemma builders_ok: "factory_ok (migrationBuilders methods srv)"
  using sorted_wrt_less [OF allVersions_sorted(1)] allVersions_sorted(2)
  by (simp add: factory_ok_def builders_eq registered_versions)

lemma create_nth:
  assumes "i < 24"
  shows "createMigration (migrationBuilders methods srv) (allVersions ! i) = Inr (theMigration methods srv i)"
proof -
  let ?r = "registeredMigrations methods srv"
  have "distinct (map fst ?r)"
    using sorted_wrt_less [OF allVersions_sorted(1)] by (simp add: registered_versions)
  moreover have "?r ! i \<in> set ?r" using assms by (simp add: stages_length)
  moreover have "fst (?r ! i) = allVersions ! i"
    using assms by (metis registered_versions nth_map stages_length(2))
  ultimately have "map_of ?r (allVersions ! i) = Some (theMigration methods srv i)"
    by (metis map_of_eq_Some_iff prod.collapse theMigration_def)
  then show ?thesis by (simp add: createMigration_def builders_eq)
qed

lemma runAll_chain:
  assumes "\<And>i d. i < 24 \<Longrightarrow> P i d \<Longrightarrow> \<exists>d'. mg_up (theMigration methods srv i) d = (True, d') \<and> P (Suc i) d'"
    and "k \<le> 24" "P k (md_other d)"
  shows "\<exists>d'. runAll (migrationBuilders methods srv) (drop k allVersions) d = (None, d') \<and> P 24 (md_other d')"
  using assms(2,3)
proof (induction "24 - k" arbitrary: k d)
  case 0
  then have "k = 24" "drop k allVersions = []" by (simp_all add: allVersions_def schemaVersions_def)
  with 0 show ?case by simp
next
  case (Suc n)
  then have k: "k < 24" "n = 24 - Suc k" by auto
  have "length allVersions = 24" by (simp add: allVersions_def schemaVersions_def)
  with k have dr: "drop k allVersions = allVersions ! k # drop (Suc k) allVersions"
    by (simp add: Cons_nth_drop_Suc)
  from assms(1) [OF k(1) Suc.prems(2)] obtain x where x: "mg_up (theMigration methods srv k) (md_other d) = (True, x)" "P (Suc k) x"
    by blast
  let ?d = "addMigration (allVersions ! k) (d\<lparr>md_other := x\<rparr>)"
  have "runMigration (migrationBuilders methods srv) (allVersions ! k) dirUp d = (None, ?d)"
    by (simp add: runMigration_def create_nth [OF k(1)] x(1))
  moreover have "P (Suc k) (md_other ?d)" by (simp add: addMigration_set x(2))
  ultimately show ?case using Suc.hyps(1) [OF k(2), of ?d] k(1) by (simp add: dr)
qed

lemma fresh_pending:
  assumes "appliedMigrations d = []"
  shows "pendingMigrations (migrationBuilders methods srv) d = allVersions"
  using assms by (simp add: pendingMigrations_eq builders_versions)

lemma migrated_current:
  assumes "runAll (migrationBuilders methods srv) (pendingMigrations (migrationBuilders methods srv) d) d = (None, d')"
  shows "isCurrentDb (migrationBuilders methods srv) d'"
proof -
  obtain us where "pendingMigrations (migrationBuilders methods srv) d = us"
    "set (appliedMigrations d') = set (appliedMigrations d) \<union> set us"
    using runAll_applied [OF assms] by auto
  then show ?thesis
    by (auto simp: isCurrentDb_iff [OF builders_ok] pendingMigrations_eq filter_empty_conv)
qed

text \<open>C24: on any server that keeps to its manual, the migrator run on an empty database applies all
  registered migrations without an error, in order; the database is then current and its tables, columns and
  indexes are those of the stage \<open>currentDb\<close>, with the launch methods of the configuration file imported
  (they must have different valid ids).\<close>

theorem migrate_builds_schema:
  assumes "ddl_server_ok srv view" "distinct (map lm_id methods)" "0 \<notin> lm_id ` set methods"
    and "view (md_other d) = noTables" "appliedMigrations d = []"
  shows "\<exists>d'. migrate (migrationBuilders methods srv) d = (None, d')
    \<and> view (md_other d') = currentDb (map lm_id methods) \<and> isCurrentDb (migrationBuilders methods srv) d'"
proof -
  let ?P = "\<lambda>i x. view x = stages (map lm_id methods) ! i"
  have "\<exists>d'. runAll (migrationBuilders methods srv) (drop 0 allVersions) d = (None, d') \<and> ?P 24 (md_other d')"
    by (rule runAll_chain [OF ups_on_server [OF assms(1-3)]]) (simp_all add: assms(4) stages_def)
  then obtain d' where d': "runAll (migrationBuilders methods srv) allVersions d = (None, d')" "?P 24 (md_other d')"
    by auto
  moreover from d' have "isCurrentDb (migrationBuilders methods srv) d'"
    using migrated_current [of methods srv d d'] by (simp add: fresh_pending [OF assms(5)])
  ultimately show ?thesis by (simp add: migrate_def fresh_pending [OF assms(5)] stages_def)
qed

theorem migrate_builds_schema_witness:
  "\<exists>d'. migrate (migrationBuilders [lm_new 7] described) (recreate noTables) = (None, d')
    \<and> md_other d' = currentDb [7] \<and> isCurrentDb (migrationBuilders [lm_new 7] described) d'"
proof -
  have "distinct (map lm_id [lm_new 7])" "0 \<notin> lm_id ` set [lm_new 7]" "md_other (recreate noTables) = noTables"
    "appliedMigrations (recreate noTables) = []" "map lm_id [lm_new 7] = [7]"
    by (simp_all add: recreate_def appliedMigrations_def lm_new_def)
  then show ?thesis using migrate_builds_schema [OF described_ok, of "[lm_new 7]" "recreate noTables"] by metis
qed

section \<open>The schema file\<close>

definition fileTable :: "yamlTable \<Rightarrow> dbTable" where
  "fileTable t = newTable
     (map (\<lambda>c. \<lparr>cs_name = yc_name c, cs_type = yc_type c, cs_extra = columnAttributes c\<rparr>) (yt_columns t))
     (map (\<lambda>(n, cs). \<lparr>is_table = yt_name t, is_name = n, is_columns = cs\<rparr>) (yt_indexes t))"

definition fileIndexes :: "yamlTable \<Rightarrow> (qstring \<times> qstring list) list" where
  "fileIndexes t = map (\<lambda>(n, cs). (n, splitAt (CHR '','') cs)) (yt_indexes t)"

lemma file_columns:
  "toColumn (yc_name keyColumn) (yc_type keyColumn) (columnAttributes keyColumn) = idCol"
  "toColumn (yc_name (plainColumn n t)) (yc_type (plainColumn n t)) (columnAttributes (plainColumn n t)) = col n t"
  "toColumn (yc_name (requiredColumn n t)) (yc_type (requiredColumn n t)) (columnAttributes (requiredColumn n t))
    = toColumn n t ''NOT NULL''"
proof -
  show "toColumn (yc_name keyColumn) (yc_type keyColumn) (columnAttributes keyColumn) = idCol" by code_simp
  have "columnAttributes (plainColumn n t) = []" "columnAttributes (requiredColumn n t) = ''NOT NULL''"
    by (simp_all add: columnAttributes_def plainColumn_def requiredColumn_def)
  then show "toColumn (yc_name (plainColumn n t)) (yc_type (plainColumn n t)) (columnAttributes (plainColumn n t)) = col n t"
    "toColumn (yc_name (requiredColumn n t)) (yc_type (requiredColumn n t)) (columnAttributes (requiredColumn n t))
    = toColumn n t ''NOT NULL''"
    by (simp_all add: plainColumn_def requiredColumn_def col_def)
qed

lemma fileTable_eq: "fileTable t = \<lparr>tb_columns = map (\<lambda>c. toColumn (yc_name c) (yc_type c) (columnAttributes c)) (yt_columns t),
    tb_indexes = fileIndexes t, tb_ids = []\<rparr>"
  by (simp add: fileTable_def newTable_def fileIndexes_def case_prod_beta)

lemmas file_defs = fileTable_eq file_columns tableOf_def cols_def dataTypes

lemma file_tables:
  "fileTable yaml_flarmnet = tableOf flarmnetColumns [] []"
  "fileTable yaml_flights = tableOf (finalFlights @ cols (vfidColumns 4)) (fileIndexes yaml_flights) []"
  "fileTable yaml_launch_methods = tableOf launchMethodsColumns [] []"
  "fileTable yaml_people = tableOf (peopleColumns @ cols medicalColumns) (fileIndexes yaml_people) []"
  "fileTable yaml_planes = tableOf (finalPlanes @ cols flarmIdColumn) (fileIndexes yaml_planes) []"
  "fileTable yaml_users = tableOf commentedUsers (fileIndexes yaml_users) []"
  by (simp_all add: file_defs fileIndexes_def yaml_flarmnet_def flarmnetColumns_def yaml_launch_methods_def
      launchMethodsColumns_def launchMethodsSpec_def yaml_people_def peopleColumns_def peopleSpec_def
      medicalColumns_def yaml_planes_def finalPlanes_def planesColumns_def flarmIdColumn_def yaml_users_def
      commentedUsers_def usersColumns_def userColumns_def usernameCol_def userSpec_def yaml_flights_def
      finalFlights_def flightsColumns_def newStatus_def vfidColumns_def)

definition fileDb :: "column list \<Rightarrow> column list \<Rightarrow> tablesDb" where
  "fileDb flights people = db
     [(''flarmnet'', tableOf flarmnetColumns [] []), (''flights'', tableOf flights (fileIndexes yaml_flights) []),
      (''launch_methods'', tableOf launchMethodsColumns [] []),
      (''people'', tableOf people (fileIndexes yaml_people) []),
      (''planes'', tableOf (finalPlanes @ cols flarmIdColumn) (fileIndexes yaml_planes) []),
      (''users'', tableOf commentedUsers (fileIndexes yaml_users) [])]"

lemma schemaTable_step:
  assumes "map_of ts (yt_name t) = None"
  shows "schemaTable described t (db ts) = (None, db (ts @ [(yt_name t, fileTable t)]))"
  using assms by (simp add: schemaTable_def ddl_createTable_def run_described ddl_def structureOf_def createNamed_def
      changesRowsOnly_def fileTable_def)

lemma yaml_names:
  "yt_name yaml_flarmnet = ''flarmnet''" "yt_name yaml_flights = ''flights''"
  "yt_name yaml_launch_methods = ''launch_methods''" "yt_name yaml_people = ''people''"
  "yt_name yaml_planes = ''planes''" "yt_name yaml_users = ''users''"
  by (simp_all add: yaml_flarmnet_def yaml_flights_def yaml_launch_methods_def yaml_people_def yaml_planes_def yaml_users_def)

lemma schema_loaded:
  "fold (\<lambda>f. f) (sc_steps (currentSchema described)) noTables
    = fileDb (finalFlights @ cols (vfidColumns 4)) (peopleColumns @ cols medicalColumns)"
  by (simp add: currentSchema_def schemaTables_def noTables_def schemaTable_step yaml_names file_tables fileDb_def)

lemma schema_loaded_on_server:
  assumes "ddl_server_ok srv view"
  shows "view (fold (\<lambda>f. f) (sc_steps (currentSchema srv)) d) = fold (\<lambda>f. f) (sc_steps (currentSchema described)) (view d)"
proof -
  have c: "ddl_connection srv view" using assms by unfold_locales
  have sim: "simulates view (schemaTable srv t) (schemaTable described t)" for t
    unfolding schemaTable_def by (rule ddl_connection.sim_createTable [OF c])
  have "view (fold (\<lambda>t d. snd (schemaTable srv t d)) ts d) = fold (\<lambda>t d. snd (schemaTable described t d)) ts (view d)" for ts d
    using sim by (induction ts arbitrary: d) (simp_all add: simulates_def)
  then show ?thesis by (simp add: currentSchema_def fold_map comp_def)
qed

text \<open>The two migrations that came after the schema file.\<close>

lemma not_there:
  "\<not> list_ex (likeMatch ''supervisor_id'') (''id'' # map co_name (finalFlights @ cols (vfidColumns 4)))"
  "\<not> list_ex (likeMatch ''vfid'') (''id'' # map co_name (peopleColumns @ cols medicalColumns))"
  by code_simp+

lemma supervisor_on_file:
  "up_add_supervisor described (fileDb (finalFlights @ cols (vfidColumns 4)) p)
    = (None, fileDb (finalFlights @ cols (vfidColumns 5)) p)"
proof -
  have "cols (vfidColumns 4) @ [col ''supervisor_id'' dataTypeInteger] = cols (vfidColumns 5)"
    by (simp add: cols_def vfidColumns_def)
  with addIfMissing_new [OF not_there(1), of dataTypeInteger "fileIndexes yaml_flights" "[]"]
  have "foldTable [addIfMissing ''supervisor_id'' dataTypeInteger []]
      (tableOf (finalFlights @ cols (vfidColumns 4)) (fileIndexes yaml_flights) [])
    = Inr (tableOf (finalFlights @ cols (vfidColumns 5)) (fileIndexes yaml_flights) [])" by simp
  then show ?thesis
    unfolding up_add_supervisor_def fileDb_def
    by (rule on_table_stage [where us = "[(''flarmnet'', tableOf flarmnetColumns [] [])]", rotated])
      (rule list_all2_intros table_addColumn | simp)+
qed

lemma person_vfid_on_file:
  "up_add_vfid_to_person described (fileDb f (peopleColumns @ cols medicalColumns))
    = (None, fileDb f (peopleColumns @ cols (medicalColumns @ [(''vfid'', dataTypeLong)])))"
proof -
  have "foldTable [addIfMissing ''vfid'' dataTypeLong []] (tableOf (peopleColumns @ cols medicalColumns) (fileIndexes yaml_people) [])
    = Inr (tableOf (peopleColumns @ cols (medicalColumns @ [(''vfid'', dataTypeLong)])) (fileIndexes yaml_people) [])"
    using addIfMissing_new [OF not_there(2), of dataTypeLong "fileIndexes yaml_people" "[]"] by (simp add: cols_def)
  then show ?thesis
    unfolding up_add_vfid_to_person_def fileDb_def
    by (rule on_table_stage [where us = "[(''flarmnet'', tableOf flarmnetColumns [] []), (''flights'', tableOf f (fileIndexes yaml_flights) []),
      (''launch_methods'', tableOf launchMethodsColumns [] [])]", rotated]) (rule list_all2_intros table_addColumn | simp)+
qed

definition loadedStage :: "nat \<Rightarrow> tablesDb" where
  "loadedStage i = fileDb (finalFlights @ cols (vfidColumns (if 22 < i then 5 else 4)))
     (peopleColumns @ cols (medicalColumns @ (if 23 < i then [(''vfid'', dataTypeLong)] else [])))"

lemma loaded_ups:
  assumes "ddl_server_ok srv view" "22 \<le> i" "i < 24" "view d = loadedStage i"
  shows "\<exists>d'. mg_up (theMigration methods srv i) d = (True, d') \<and> view d' = loadedStage (Suc i)"
proof -
  have i: "i = 22 \<or> i = 23" using assms(2,3) by auto
  have "mg_up (theMigration methods described i) (loadedStage i) = (True, loadedStage (Suc i))"
    using i by (elim disjE) (simp_all add: theMigration_def registeredMigrations_def aMigration_def ending_def loadedStage_def
        supervisor_on_file person_vfid_on_file)
  with migration_follows [OF assms(1,3), of methods] assms(4) show ?thesis
    by (cases "mg_up (theMigration methods srv i) d") (auto simp: follows_def dest!: spec [of _ d])
qed

text \<open>The same tables, with the same columns in the same order and the same set of indexes.\<close>

definition sameStructure :: "tablesDb \<Rightarrow> tablesDb \<Rightarrow> bool" where
  "sameStructure a b \<longleftrightarrow> (fst ` set (td_tables a) = fst ` set (td_tables b)
     \<and> list_all (\<lambda>(n, t). case map_of (td_tables b) n of None \<Rightarrow> False
          | Some u \<Rightarrow> tb_columns t = tb_columns u \<and> set (tb_indexes t) = set (tb_indexes u)) (td_tables a))"

lemma same_indexes:
  "set (fileIndexes yaml_flights) = set flightsIndexes"
  "set (fileIndexes yaml_people) = set (simpleIndexes [''club'', ''club_id''])"
  "set (fileIndexes yaml_planes) = set (simpleIndexes [''registration'', ''club''])"
  "set (fileIndexes yaml_users) = set (simpleIndexes [''username'', ''person_id''])"
  by code_simp+

lemma loaded_same: "sameStructure (loadedStage 24) (currentDb ids)"
proof -
  have t: "tb_columns (tableOf c i n) = idCol # c" "tb_indexes (tableOf c i n) = i" for c i n
    by (simp_all add: tableOf_def)
  show ?thesis
    unfolding sameStructure_def loadedStage_def fileDb_def currentDb_def indexedDb_def
    by (simp add: t same_indexes insert_commute)
qed

lemma length_schemaVersions: "length schemaVersions = 22" "take 22 allVersions = schemaVersions"
  "drop 22 allVersions = [20240323192110, 20250126193900]"
  by (simp_all add: allVersions_def schemaVersions_def)

lemma not_schema_version: "v \<in> set schemaVersions \<Longrightarrow> v \<noteq> 20240323192110 \<and> v \<noteq> 20250126193900"
  using sorted_wrt_less [OF allVersions_sorted(1)] by (auto simp: allVersions_def)

lemma reset_eq: "reset none (currentSchema srv) =
    \<lparr>md_other = fold (\<lambda>f. f) (sc_steps (currentSchema srv)) none, md_versions = Some schemaVersions\<rparr>"
  by (simp add: reset_def loadSchema_eq recreate_def currentSchema_def)

lemma loaded_pending:
  "pendingMigrations (migrationBuilders methods srv) (reset none (currentSchema srv)) = drop 22 allVersions"
proof -
  have "filter (\<lambda>v. v \<notin> set schemaVersions) allVersions = [20240323192110, 20250126193900]"
    using not_schema_version by (auto simp: allVersions_def filter_empty_conv)
  then show ?thesis
    by (simp add: pendingMigrations_eq builders_versions reset_eq appliedMigrations_def length_schemaVersions)
qed

text \<open>C25: the schema file and the migrations agree. A database loaded from \<^verbatim>\<open>current_schema.yaml\<close> still has two
  migrations pending; after them it is current, and it has the same tables, the same columns in the same order
  and the same indexes as a database that all migrations built from nothing.\<close>

theorem schema_file_agrees:
  assumes "ddl_server_ok srv view" "view none = noTables"
  shows "pendingMigrations (migrationBuilders methods srv) (reset none (currentSchema srv)) = [20240323192110, 20250126193900]
    \<and> (\<exists>d. migrate (migrationBuilders methods srv) (reset none (currentSchema srv)) = (None, d)
         \<and> isCurrentDb (migrationBuilders methods srv) d \<and> sameStructure (view (md_other d)) (currentDb ids))"
proof -
  let ?d = "reset none (currentSchema srv)" and ?bs = "migrationBuilders methods srv"
  have "view (md_other ?d) = loadedStage 22"
    by (simp add: reset_eq schema_loaded_on_server [OF assms(1)] assms(2) schema_loaded loadedStage_def)
  then have "\<exists>d'. runAll ?bs (drop 22 allVersions) ?d = (None, d') \<and> (22 \<le> (24::nat) \<and> view (md_other d') = loadedStage 24)"
    by (intro runAll_chain [where P = "\<lambda>i x. 22 \<le> i \<and> view x = loadedStage i"])
      (auto dest: loaded_ups [OF assms(1)])
  then obtain d' where d': "runAll ?bs (drop 22 allVersions) ?d = (None, d')" "view (md_other d') = loadedStage 24"
    by auto
  from d'(1) have "isCurrentDb ?bs d'"
    using migrated_current [of methods srv ?d d'] by (simp add: loaded_pending)
  with d' loaded_same show ?thesis
    by (auto simp: migrate_def loaded_pending length_schemaVersions)
qed

theorem schema_file_agrees_witness:
  "pendingMigrations (migrationBuilders [] described) (reset noTables (currentSchema described)) = [20240323192110, 20250126193900]
    \<and> (\<exists>d. migrate (migrationBuilders [] described) (reset noTables (currentSchema described)) = (None, d)
         \<and> isCurrentDb (migrationBuilders [] described) d \<and> sameStructure (md_other d) (currentDb []))"
  using schema_file_agrees [OF described_ok refl, of "[]" "[]"] .

section \<open>Down again\<close>

lemma runAll_append:
  "runAll bs (us @ vs) d = (case runAll bs us d of (None, d') \<Rightarrow> runAll bs vs d' | (Some e, d') \<Rightarrow> (Some e, d'))"
  by (induction us arbitrary: d) (auto split: prod.split option.split)

lemma length_allVersions: "length allVersions = 24"
  by (simp add: allVersions_def schemaVersions_def)

lemma take_versions: "i < 24 \<Longrightarrow> take (Suc i) allVersions = take i allVersions @ [allVersions ! i]"
  by (simp add: take_Suc_conv_app_nth length_allVersions)

lemma addMigration_versions:
  "\<not> hasMigration v d \<Longrightarrow> md_versions (addMigration v d) = Some ((case md_versions d of None \<Rightarrow> [] | Some vs \<Rightarrow> vs) @ [v])"
  by (simp add: addMigration_def createMigrationsTable_def hasMigration_def Let_def split: option.splits)

lemma reached_stage:
  assumes "ddl_server_ok srv view" "distinct (map lm_id methods)" "0 \<notin> lm_id ` set methods"
    and "view (md_other d0) = noTables" "md_versions d0 = Some []" "i \<le> 24"
  shows "\<exists>d. runAll (migrationBuilders methods srv) (take i allVersions) d0 = (None, d)
    \<and> view (md_other d) = stages (map lm_id methods) ! i \<and> md_versions d = Some (take i allVersions)"
  using assms(6)
proof (induction i)
  case 0
  with assms(4,5) show ?case by (simp add: stages_def)
next
  case (Suc i)
  then obtain d where d: "runAll (migrationBuilders methods srv) (take i allVersions) d0 = (None, d)"
    "view (md_other d) = stages (map lm_id methods) ! i" "md_versions d = Some (take i allVersions)" by auto
  have i: "i < 24" using Suc.prems by simp
  from ups_on_server [OF assms(1-3) i d(2)] obtain x where
    x: "mg_up (theMigration methods srv i) (md_other d) = (True, x)" "view x = stages (map lm_id methods) ! Suc i" by blast
  have "allVersions ! i \<notin> set (take i allVersions)"
    using sorted_wrt_less [OF allVersions_sorted(1)] i
    by (metis distinct_take not_distinct_conv_prefix take_versions length_allVersions distinct_append disjoint_iff list.set_intros(1) append_take_drop_id)
  then have "\<not> hasMigration (allVersions ! i) (d\<lparr>md_other := x\<rparr>)" by (simp add: hasMigration_def d(3))
  then show ?case
    by (simp add: take_versions [OF i] runAll_append d(1,3) runMigration_def create_nth [OF i] x addMigration_set addMigration_versions)
qed

lemma allVersions_timestamps: "timestamps (set allVersions)"
  by (simp add: timestamps_def allVersions_def schemaVersions_def versionText_def decimalNat.simps)

lemma current_is_last:
  assumes "md_versions d = Some (take (Suc i) allVersions)" "i < 24"
  shows "currentVersion d = allVersions ! i"
proof -
  have ne: "take (Suc i) allVersions \<noteq> []" by (simp add: allVersions_def schemaVersions_def)
  have "timestamps (set (take (Suc i) allVersions))"
    using allVersions_timestamps set_take_subset [of "Suc i" allVersions] by (auto simp: timestamps_def)
  from currentVersion_greatest [OF assms(1) ne this]
  have c: "currentVersion d \<in> set (take (Suc i) allVersions)" "allVersions ! i \<le> currentVersion d"
    using assms(2) by (auto simp: take_versions)
  have "sorted_wrt (<) (take (Suc i) allVersions)"
    using allVersions_sorted(1) by (rule sorted_wrt_take)
  then have "\<forall>v \<in> set (take i allVersions). v < allVersions ! i"
    using assms(2) by (simp add: take_versions sorted_wrt_append)
  with c assms(2) show ?thesis by (auto simp: take_versions)
qed

lemma down_reached:
  assumes "ddl_server_ok srv view" "i < 24" "view (md_other d) = stages (map lm_id methods) ! Suc i"
    and "md_versions d = Some (take (Suc i) allVersions)"
  shows "\<exists>d2. down (migrationBuilders methods srv) d = (None, d2)
    \<and> view (md_other d2) = downStages (map lm_id methods) ! i \<and> md_versions d2 = Some (take i allVersions)"
proof -
  from downs_on_server [OF assms(1-3)] obtain x where
    x: "mg_down (theMigration methods srv i) (md_other d) = (True, x)" "view x = downStages (map lm_id methods) ! i" by blast
  have "sorted_wrt (<) (take (Suc i) allVersions)"
    using allVersions_sorted(1) by (rule sorted_wrt_take)
  then have "filter (\<lambda>w. w \<noteq> allVersions ! i) (take (Suc i) allVersions) = take i allVersions"
    using assms(2) by (auto simp: take_versions sorted_wrt_append intro!: filter_True)
  moreover have "allVersions ! i \<noteq> 0"
    using allVersions_sorted(2) assms(2) by (metis length_allVersions nth_mem)
  ultimately show ?thesis
    using x by (simp add: down_def current_is_last [OF assms(4,2)] Let_def runMigration_def create_nth [OF assms(2)]
        removeMigration_def assms(4))
qed

text \<open>C27: one step up and one step down. Whichever of the migrations is applied next to a database built by
  the earlier ones, revoking it restores the tables, columns and indexes and the list of applied migrations; the
  exceptions are the removal of the temporary tables (6), after which the tables come in another order, and the flight
  modes (14).\<close>

theorem down_undoes_up:
  assumes "ddl_server_ok srv view" "distinct (map lm_id methods)" "0 \<notin> lm_id ` set methods"
    and "view (md_other d0) = noTables" "md_versions d0 = Some []" "i < 24" "i \<noteq> 6" "i \<noteq> 14"
  shows "\<exists>d d1 d2. runAll (migrationBuilders methods srv) (take i allVersions) d0 = (None, d)
    \<and> runMigration (migrationBuilders methods srv) (allVersions ! i) dirUp d = (None, d1)
    \<and> down (migrationBuilders methods srv) d1 = (None, d2)
    \<and> view (md_other d2) = view (md_other d) \<and> md_versions d2 = md_versions d"
proof -
  from reached_stage [OF assms(1-5), of i] assms(6) obtain d where
    d: "runAll (migrationBuilders methods srv) (take i allVersions) d0 = (None, d)"
    "view (md_other d) = stages (map lm_id methods) ! i" "md_versions d = Some (take i allVersions)" by auto
  from reached_stage [OF assms(1-5), of "Suc i"] assms(6) obtain d1 where
    d1: "runAll (migrationBuilders methods srv) (take (Suc i) allVersions) d0 = (None, d1)"
    "view (md_other d1) = stages (map lm_id methods) ! Suc i" "md_versions d1 = Some (take (Suc i) allVersions)" by auto
  have "runMigration (migrationBuilders methods srv) (allVersions ! i) dirUp d = (None, d1)"
    using d1(1) by (simp add: take_versions [OF assms(6)] runAll_append d(1) split: prod.splits option.splits)
  moreover from down_reached [OF assms(1,6) d1(2,3)] obtain d2 where
    "down (migrationBuilders methods srv) d1 = (None, d2)" "view (md_other d2) = downStages (map lm_id methods) ! i"
    "md_versions d2 = Some (take i allVersions)" by blast
  moreover have "downStages (map lm_id methods) ! i = stages (map lm_id methods) ! i"
    using assms(7,8) by (simp add: downStages_def)
  ultimately show ?thesis using d by metis
qed

theorem down_undoes_up_witness:
  "\<exists>d d1 d2. runAll (migrationBuilders [] described) (take 13 allVersions) \<lparr>md_other = noTables, md_versions = Some []\<rparr> = (None, d)
    \<and> runMigration (migrationBuilders [] described) (allVersions ! 13) dirUp d = (None, d1)
    \<and> down (migrationBuilders [] described) d1 = (None, d2)
    \<and> md_other d2 = md_other d \<and> md_versions d2 = md_versions d"
  by (rule down_undoes_up [OF described_ok]) simp_all

definition columnType :: "tablesDb \<Rightarrow> qstring \<Rightarrow> qstring \<Rightarrow> qstring option" where
  "columnType d table name = (case map_of (td_tables d) table of
     None \<Rightarrow> None | Some t \<Rightarrow> map_of (map (\<lambda>c. (co_name c, co_type c)) (tb_columns t)) name)"

lemma modes_types:
  "columnType (statusDb ty ids) ''flights'' ''mode'' = Some dataTypeCharacter"
  "columnType (statusDb ty ids) ''flights'' ''towflight_mode'' = Some ty"
  by (simp_all add: columnType_def statusDb_def plainDb_def tableOf_def idCol_def flightsColumns_def cols_def col_def
      newStatus_def toColumn_def Let_def)

text \<open>Revoking the migration of the flight modes gives the column \<open>mode\<close> its old type, but leaves
  \<open>towflight_mode\<close> with the new one, although the migration had changed both.\<close>

theorem towflight_mode_not_restored:
  assumes "ddl_server_ok srv view" "distinct (map lm_id methods)" "0 \<notin> lm_id ` set methods"
    and "view (md_other d0) = noTables" "md_versions d0 = Some []"
  shows "\<exists>d d1 d2. runAll (migrationBuilders methods srv) (take 14 allVersions) d0 = (None, d)
    \<and> runMigration (migrationBuilders methods srv) (allVersions ! 14) dirUp d = (None, d1)
    \<and> down (migrationBuilders methods srv) d1 = (None, d2)
    \<and> columnType (view (md_other d2)) ''flights'' ''mode'' = columnType (view (md_other d)) ''flights'' ''mode''
    \<and> columnType (view (md_other d)) ''flights'' ''towflight_mode'' = Some dataTypeCharacter
    \<and> columnType (view (md_other d2)) ''flights'' ''towflight_mode'' = Some dataTypeString"
proof -
  have i: "(14::nat) < 24" by simp
  from reached_stage [OF assms(1-5), of 14] obtain d where
    d: "runAll (migrationBuilders methods srv) (take 14 allVersions) d0 = (None, d)"
    "view (md_other d) = stages (map lm_id methods) ! 14" "md_versions d = Some (take 14 allVersions)" by auto
  from reached_stage [OF assms(1-5), of "Suc 14"] obtain d1 where
    d1: "runAll (migrationBuilders methods srv) (take (Suc 14) allVersions) d0 = (None, d1)"
    "view (md_other d1) = stages (map lm_id methods) ! Suc 14" "md_versions d1 = Some (take (Suc 14) allVersions)" by auto
  have "runMigration (migrationBuilders methods srv) (allVersions ! 14) dirUp d = (None, d1)"
    using d1(1) unfolding take_versions [OF i] by (simp add: runAll_append d(1) split: prod.splits option.splits)
  moreover from down_reached [OF assms(1) i d1(2,3)] obtain d2 where
    "down (migrationBuilders methods srv) d1 = (None, d2)" "view (md_other d2) = downStages (map lm_id methods) ! 14" by blast
  moreover have "downStages (map lm_id methods) ! 14 = statusDb dataTypeString (map lm_id methods)"
    by (simp add: downStages_def stages_length)
  moreover have "stages (map lm_id methods) ! 14 = statusDb dataTypeCharacter (map lm_id methods)"
    by (simp add: stages_def)
  ultimately show ?thesis using d by (metis modes_types)
qed

theorem towflight_mode_not_restored_witness:
  "\<exists>d d1 d2. runAll (migrationBuilders [] described) (take 14 allVersions) \<lparr>md_other = noTables, md_versions = Some []\<rparr> = (None, d)
    \<and> runMigration (migrationBuilders [] described) (allVersions ! 14) dirUp d = (None, d1)
    \<and> down (migrationBuilders [] described) d1 = (None, d2)
    \<and> columnType (md_other d2) ''flights'' ''mode'' = columnType (md_other d) ''flights'' ''mode''
    \<and> columnType (md_other d) ''flights'' ''towflight_mode'' = Some dataTypeCharacter
    \<and> columnType (md_other d2) ''flights'' ''towflight_mode'' = Some dataTypeString"
  by (rule towflight_mode_not_restored [OF described_ok]) simp_all

end
