(* ===== verification/Sk_SchemaValues.thy ===== *)
theory Sk_SchemaValues
  imports Sk_SchemaFacts
begin

text \<open>
  The migrations and the data: what the program stores fits the columns, the values of the old program are
  translated to those the present one reads (and back), the status number and its flags, older databases, and the
  launch methods of the configuration file.
\<close>

section \<open>Stored objects and columns\<close>

text \<open>Whether a value can be stored in a column of a type.\<close>

definition fitsType :: "qstring \<Rightarrow> qvariant \<Rightarrow> bool" where
  "fitsType ty v = (case v of
     VInt n \<Rightarrow> ty = dataTypeInteger \<and> - (2 ^ 31) \<le> n \<and> n < 2 ^ 31
             \<or> ty = dataTypeLong \<and> - (2 ^ 63) \<le> n \<and> n < 2 ^ 63
   | VId i \<Rightarrow> ty = dataTypeId \<and> uint i < 2 ^ 31
   | VBool b \<Rightarrow> ty = dataTypeBoolean
   | VString s \<Rightarrow> ty = dataTypeString \<and> length s \<le> 255 \<or> ty = dataTypeString16 \<and> length s \<le> 16
             \<or> ty = dataTypeCharacter \<and> length s \<le> 1
   | VDateTime t \<Rightarrow> ty = dataTypeDatetime
   | VDate t \<Rightarrow> ty = dataTypeDate
   | VInvalid \<Rightarrow> True)"

text \<open>The values bound to the columns of an insert statement, one by one.\<close>

definition fitsTable :: "tablesDb \<Rightarrow> qstring \<Rightarrow> qstring \<Rightarrow> qvariant list \<Rightarrow> bool" where
  "fitsTable d table columnList vs \<longleftrightarrow>
     list_all2 (\<lambda>c v. case columnType d table c of None \<Rightarrow> False | Some ty \<Rightarrow> fitsType ty v)
       (splitAt (CHR '','') columnList) vs"

lemma fitsTable_types:
  assumes "columnType d table = map_of ps" "map (map_of ps) (splitAt (CHR '','') columnList) = map Some tys"
    and "list_all2 fitsType tys vs"
  shows "fitsTable d table columnList vs"
proof -
  let ?cs = "splitAt (CHR '','') columnList"
  have l: "length ?cs = length tys" using assms(2) by (metis length_map)
  have "columnType d table (?cs ! i) = Some (tys ! i)" if "i < length tys" for i
    using assms(1,2) that l by (metis nth_map)
  with assms(3) l show ?thesis
    by (simp add: fitsTable_def list_all2_conv_all_nth)
qed

lemma cols_pairs: "map (\<lambda>c. (co_name c, co_type c)) (cols sp) = sp"
  by (auto simp: cols_def col_def toColumn_def Let_def case_prod_beta intro: map_idI)

lemma column_pair: "(co_name (toColumn n ty x), co_type (toColumn n ty x)) = (n, ty)"
  by (simp add: toColumn_def Let_def)

definition flightPairs :: "(qstring \<times> qstring) list" where
  "flightPairs = (''id'', dataTypeId) # map (\<lambda>c. (co_name c, co_type c)) finalFlights @ vfidColumns 5"

definition personPairs :: "(qstring \<times> qstring) list" where
  "personPairs = (''id'', dataTypeId) # peopleSpec @ medicalColumns @ [(''vfid'', dataTypeLong)]"

definition planePairs :: "(qstring \<times> qstring) list" where
  "planePairs = (''id'', dataTypeId) # map (\<lambda>c. (co_name c, co_type c)) finalPlanes @ flarmIdColumn"

definition launchPairs :: "(qstring \<times> qstring) list" where
  "launchPairs = (''id'', dataTypeId) # launchMethodsSpec"

definition flarmNetPairs :: "(qstring \<times> qstring) list" where
  "flarmNetPairs = (''id'', dataTypeId) # map (\<lambda>c. (co_name c, co_type c)) flarmnetColumns"

lemma current_columns:
  "columnType (currentDb ids) ''flights'' = map_of flightPairs"
  "columnType (currentDb ids) ''people'' = map_of personPairs"
  "columnType (currentDb ids) ''planes'' = map_of planePairs"
  "columnType (currentDb ids) ''launch_methods'' = map_of launchPairs"
  "columnType (currentDb ids) ''flarmnet'' = map_of flarmNetPairs"
  by (simp_all add: fun_eq_iff columnType_def currentDb_def indexedDb_def tableOf_def idCol_def column_pair
      flightPairs_def personPairs_def planePairs_def launchPairs_def flarmNetPairs_def cols_pairs
      peopleColumns_def launchMethodsColumns_def)

lemma pair_types:
  "map (map_of flightPairs) (splitAt (CHR '','') f_insertColumnList) = map Some
    [dataTypeId, dataTypeId, dataTypeId, dataTypeId, dataTypeString, dataTypeString, dataTypeBoolean,
      dataTypeBoolean, dataTypeBoolean, dataTypeId, dataTypeString, dataTypeString, dataTypeInteger,
      dataTypeDatetime, dataTypeDatetime, dataTypeString, dataTypeString, dataTypeString, dataTypeString,
      dataTypeDatetime, dataTypeString, dataTypeString, dataTypeId, dataTypeString, dataTypeString, dataTypeId,
      dataTypeString, dataTypeString, dataTypeString16, dataTypeInteger, dataTypeInteger, dataTypeInteger, dataTypeBoolean]"
  "map (map_of planePairs) (splitAt (CHR '','') pl_insertColumnList) = map Some
     [dataTypeString, dataTypeString, dataTypeInteger, dataTypeString, dataTypeString, dataTypeString, dataTypeString16, dataTypeString]"
  "map (map_of personPairs) (splitAt (CHR '','') pe_insertColumnList) = map Some
     [dataTypeString, dataTypeString, dataTypeString, dataTypeString, dataTypeString, dataTypeLong, dataTypeString, dataTypeDate, dataTypeBoolean]"
  "map (map_of launchPairs) (splitAt (CHR '','') lm_insertColumnList) = map Some
     [dataTypeString, dataTypeString, dataTypeString, dataTypeCharacter, dataTypeString, dataTypeString, dataTypeBoolean, dataTypeString]"
  "map (map_of flarmNetPairs) (splitAt (CHR '','') fn_insertColumnList) = map Some
     [dataTypeString16, dataTypeString16, dataTypeString16, dataTypeString, dataTypeString, dataTypeString, dataTypeString16]"
  by code_simp+

lemmas table_columns = current_columns [folded f_dbTableName_def pl_dbTableName_def pe_dbTableName_def
  lm_dbTableName_def fn_dbTableName_def]

definition shortTexts :: "nat \<Rightarrow> qstring list \<Rightarrow> bool" where
  "shortTexts n ss \<longleftrightarrow> list_all (\<lambda>s. length s \<le> n) ss"

definition flight_in_bounds :: "flight \<Rightarrow> bool" where
  "flight_in_bounds f \<longleftrightarrow>
     shortTexts 255 [getDepartureLocation f, getLandingLocation f, getPilotLastName f, getPilotFirstName f,
       getCopilotLastName f, getCopilotFirstName f, getTowpilotLastName f, getTowpilotFirstName f,
       getTowflightLandingLocation f, getAccountingNotes f, getComments f]
   \<and> shortTexts 16 [getFlarmId f]
   \<and> list_all (\<lambda>i. uint i < 2 ^ 31) [getPilotId f, getCopilotId f, getSupervisorId f, getPlaneId f, getLaunchMethodId f,
       getTowplaneId f, getTowpilotId f, getVfId f]
   \<and> fits_int (getNumLandings f) \<and> fits_int (getNumCrew f) \<and> fits_int (getNumPax f)"

definition plane_in_bounds :: "plane \<Rightarrow> bool" where
  "plane_in_bounds p \<longleftrightarrow> shortTexts 255 [pl_registration p, pl_club p, pl_type p, pl_callsign p, pl_comments p]
     \<and> shortTexts 16 [pl_flarmId p] \<and> fits_int (pl_numSeats p)"

definition person_in_bounds :: "person \<Rightarrow> bool" where
  "person_in_bounds p \<longleftrightarrow> shortTexts 255 [pe_lastName p, pe_firstName p, pe_nickname p, pe_club p, pe_clubId p, pe_comments p]
     \<and> 0 \<le> pe_vfid p \<and> pe_vfid p < 2 ^ 63"

definition launchMethod_in_bounds :: "launchMethod \<Rightarrow> bool" where
  "launchMethod_in_bounds l \<longleftrightarrow> shortTexts 255 [lm_name l, lm_shortName l, lm_logString l, lm_towplaneRegistration l, lm_comments l]
     \<and> shortTexts 1 [lm_keyboardShortcut l]"

definition flarmNet_in_bounds :: "flarmNetRecord \<Rightarrow> bool" where
  "flarmNet_in_bounds r \<longleftrightarrow> shortTexts 255 [fn_owner r, fn_airfield r, fn_type r]
     \<and> shortTexts 16 [fn_flarmId r, fn_registration r, fn_callsign r, fn_frequency r]"

lemma enum_texts_short:
  "length (typeToDb t) \<le> 255" "length (modeToDb m) \<le> 255" "length (pl_categoryToDb c) \<le> 255" "length (lm_typeToDb l) \<le> 255"
proof -
  show "length (typeToDb t) \<le> 255" by (cases t) simp_all
  show "length (modeToDb m) \<le> 255" by (cases m) simp_all
  show "length (pl_categoryToDb c) \<le> 255" by (cases c) simp_all
  show "length (lm_typeToDb l) \<le> 255" by (cases l) simp_all
qed

lemma type_names [simp]:
  "dataTypeInteger \<noteq> dataTypeLong" "dataTypeLong \<noteq> dataTypeInteger" "dataTypeString \<noteq> dataTypeString16"
  "dataTypeString16 \<noteq> dataTypeString" "dataTypeString \<noteq> dataTypeCharacter" "dataTypeCharacter \<noteq> dataTypeString"
  "dataTypeString16 \<noteq> dataTypeCharacter" "dataTypeCharacter \<noteq> dataTypeString16" "dataTypeId = dataTypeInteger"
  by (simp_all add: dataTypes)

text \<open>C26: what the program stores fits the schema. Every column that an insert statement of flights, planes,
  people, launch methods or FlarmNet records names exists in the migrated database, in the order of the bound values,
  and its type can hold the bound value, if the texts are as short and the numbers as small as the columns
  (255, 16 or one character, 31 and 63 bits) require; the names of types, modes and categories always fit.\<close>

theorem stored_objects_fit:
  assumes "flight_in_bounds f" "plane_in_bounds p" "person_in_bounds pe" "launchMethod_in_bounds l" "flarmNet_in_bounds r"
  shows "fitsTable (currentDb ids) f_dbTableName f_insertColumnList (f_bindValues f)
    \<and> fitsTable (currentDb ids) pl_dbTableName pl_insertColumnList (pl_bindValues p)
    \<and> fitsTable (currentDb ids) pe_dbTableName pe_insertColumnList (pe_bindValues pe)
    \<and> fitsTable (currentDb ids) lm_dbTableName lm_insertColumnList (lm_bindValues l)
    \<and> fitsTable (currentDb ids) fn_dbTableName fn_insertColumnList (fn_bindValues r)"
proof (intro conjI)
  show "fitsTable (currentDb ids) f_dbTableName f_insertColumnList (f_bindValues f)"
    using assms(1) by (intro fitsTable_types [OF table_columns(1) pair_types(1)])
      (simp add: f_bindValues_def fitsType_def flight_in_bounds_def shortTexts_def fits_int_def enum_texts_short)
  show "fitsTable (currentDb ids) pl_dbTableName pl_insertColumnList (pl_bindValues p)"
    using assms(2) by (intro fitsTable_types [OF table_columns(3) pair_types(2)])
      (simp add: pl_bindValues_def fitsType_def plane_in_bounds_def shortTexts_def fits_int_def enum_texts_short)
  show "fitsTable (currentDb ids) pe_dbTableName pe_insertColumnList (pe_bindValues pe)"
    using assms(3) by (intro fitsTable_types [OF table_columns(2) pair_types(3)])
      (simp add: pe_bindValues_def fitsType_def person_in_bounds_def shortTexts_def)
  show "fitsTable (currentDb ids) lm_dbTableName lm_insertColumnList (lm_bindValues l)"
    using assms(4) by (intro fitsTable_types [OF table_columns(4) pair_types(4)])
      (simp add: lm_bindValues_def fitsType_def launchMethod_in_bounds_def shortTexts_def enum_texts_short)
  show "fitsTable (currentDb ids) fn_dbTableName fn_insertColumnList (fn_bindValues r)"
    using assms(5) by (intro fitsTable_types [OF table_columns(5) pair_types(5)])
      (simp add: fn_bindValues_def fitsType_def flarmNet_in_bounds_def shortTexts_def)
qed

theorem stored_objects_fit_witness:
  "fitsTable (currentDb []) pe_dbTableName pe_insertColumnList (pe_bindValues ((pe_new 0 3)\<lparr>pe_lastName := ''Doe''\<rparr>))
   \<and> fitsTable (currentDb []) lm_dbTableName lm_insertColumnList (lm_bindValues (lm_new 4))"
proof -
  have "flight_in_bounds ((newFlight undefined 2)\<lparr>getNumCrew := 1, getNumPax := 0\<rparr>)" "plane_in_bounds (pl_new 1)" "launchMethod_in_bounds (lm_new 4)"
    "flarmNet_in_bounds (fn_new 5)" "person_in_bounds ((pe_new 0 3)\<lparr>pe_lastName := ''Doe''\<rparr>)"
    by (simp_all add: flight_in_bounds_def plane_in_bounds_def launchMethod_in_bounds_def flarmNet_in_bounds_def
        person_in_bounds_def newFlight_def pl_new_def lm_new_def fn_new_def pe_new_def shortTexts_def fits_int_def invalidId_def)
  from stored_objects_fit [OF this(1,2,5,3,4), of "[]"] show ?thesis by blast
qed

text \<open>A \<open>vfid\<close> of 64 bits does not fit its column, which is signed.\<close>

theorem large_vfid_does_not_fit:
  assumes "2 ^ 63 \<le> pe_vfid pe"
  shows "\<not> fitsTable (currentDb ids) pe_dbTableName pe_insertColumnList (pe_bindValues pe)"
proof -
  let ?cs = "splitAt (CHR '','') pe_insertColumnList"
  have cs: "?cs = [''last_name'', ''first_name'', ''nickname'', ''club'', ''club_id'', ''vfid'', ''comments'',
      ''medical_validity'', ''check_medical_validity'']"
    by code_simp
  have "map_of personPairs ''vfid'' = Some dataTypeLong" by code_simp
  then show ?thesis
    using assms by (simp add: fitsTable_def cs pe_bindValues_def fitsType_def current_columns pe_dbTableName_def)
qed

theorem large_vfid_does_not_fit_witness:
  "\<not> fitsTable (currentDb []) pe_dbTableName pe_insertColumnList (pe_bindValues (pe_new (2 ^ 63) 3))"
  by (rule large_vfid_does_not_fit) (simp add: pe_new_def)

section \<open>The values of the old program\<close>

text \<open>What the comparison of the server does on texts of letters, digits, \<open>_\<close> and \<open>?\<close>: case does
  not count, and a text compared with a number is the number it starts with (or 0).\<close>

definition plainChar :: "char \<Rightarrow> bool" where
  "plainChar c \<longleftrightarrow> isDigitChar c \<or> c = CHR ''_'' \<or> c = CHR ''?''
     \<or> (let n = (of_char (toLowerChar c) :: nat) in 97 \<le> n \<and> n \<le> 122)"

definition leadingNumber :: "qstring \<Rightarrow> int" where
  "leadingNumber s = int (digitsVal (takeWhile isDigitChar s))"

definition sql_equality :: "(qvariant \<Rightarrow> qvariant \<Rightarrow> bool) \<Rightarrow> bool" where
  "sql_equality eq \<longleftrightarrow>
     (\<forall>a b. list_all plainChar a \<and> list_all plainChar b \<longrightarrow> (eq (VString a) (VString b) \<longleftrightarrow> toLower a = toLower b))
   \<and> (\<forall>s n. list_all plainChar s \<longrightarrow> (eq (VString s) (VInt n) \<longleftrightarrow> leadingNumber s = n))"

text \<open>One UPDATE on the value of its column; a number is stored as its digits (the column is a text).\<close>

fun updatedBy :: "(qvariant \<Rightarrow> qvariant \<Rightarrow> bool) \<Rightarrow> qvariant \<Rightarrow> statement \<Rightarrow> qvariant" where
  "updatedBy eq v (UpdateWhere t c new old) =
     (if eq v old then (case new of VInt n \<Rightarrow> VString (decimal n) | _ \<Rightarrow> new) else v)"
| "updatedBy eq v _ = v"

definition updatedByAll :: "(qvariant \<Rightarrow> qvariant \<Rightarrow> bool) \<Rightarrow> statement list \<Rightarrow> qvariant \<Rightarrow> qvariant" where
  "updatedByAll eq sts v = foldl (updatedBy eq) v sts"

definition categoryUpdates :: "direction \<Rightarrow> statement list" where
  "categoryUpdates dir = map (\<lambda>(old, new). case dir of
       dirUp \<Rightarrow> UpdateWhere ''planes'' ''category'' (VString new) (VString old)
     | dirDown \<Rightarrow> UpdateWhere ''planes'' ''category'' (VString old) (VString new)) categoryCodes"

definition typeUpdates :: "direction \<Rightarrow> statement list" where
  "typeUpdates dir = map (\<lambda>(old, new). case dir of
       dirUp \<Rightarrow> UpdateWhere ''flights'' ''type'' (VString new) (VInt old)
     | dirDown \<Rightarrow> UpdateWhere ''flights'' ''type'' (VInt old) (VString new)) flightTypeCodes"

definition modeUpdates :: "qstring \<Rightarrow> direction \<Rightarrow> statement list" where
  "modeUpdates column dir = map (\<lambda>(old, new). case dir of
       dirUp \<Rightarrow> UpdateWhere ''flights'' column (VString new) (VString old)
     | dirDown \<Rightarrow> UpdateWhere ''flights'' column (VString old) (VString new)) flightModeCodes"

text \<open>These are the statements the migrations run (those of the two mode columns in turn).\<close>

lemma updates_run:
  "updateCategories srv dir = inOrder (map (ds_run srv) (categoryUpdates dir))"
  "updateFlightTypes srv dir = inOrder (map (ds_run srv) (typeUpdates dir))"
  "updateFlightModes srv dir = inOrder (map (\<lambda>(a, b). inOrder [ds_run srv a, ds_run srv b])
     (zip (modeUpdates ''mode'' dir) (modeUpdates ''towflight_mode'' dir)))"
  by (cases dir; simp add: updateCategories_def categoryUpdates_def categoryCodes_def updateCategory_def
      updateFlightTypes_def typeUpdates_def flightTypeCodes_def updateFlightType_def
      updateFlightModes_def modeUpdates_def flightModeCodes_def updateFlightMode_def ddl_updateColumnValues_def)+

text \<open>The simplest comparison with these properties, and that every other agrees with it on these updates.\<close>

fun plainEquality :: "qvariant \<Rightarrow> qvariant \<Rightarrow> bool" where
  "plainEquality (VString a) (VString b) = (toLower a = toLower b)"
| "plainEquality (VString s) (VInt n) = (leadingNumber s = n)"
| "plainEquality v w = (v = w)"

lemma plainEquality_ok: "sql_equality plainEquality"
  by (simp add: sql_equality_def)

definition plainValue :: "qvariant \<Rightarrow> bool" where
  "plainValue v = (case v of VString s \<Rightarrow> list_all plainChar s | VInt n \<Rightarrow> list_all plainChar (decimal n) | _ \<Rightarrow> False)"

definition plainStatement :: "statement \<Rightarrow> bool" where
  "plainStatement st = (case st of UpdateWhere t c new old \<Rightarrow> plainValue new \<and> plainValue old | _ \<Rightarrow> False)"

lemma plain_statement_updates:
  assumes "sql_equality eq"
  shows "list_all plainStatement sts \<Longrightarrow> list_all plainChar s \<Longrightarrow>
    updatedByAll eq sts (VString s) = updatedByAll plainEquality sts (VString s)"
proof (induction sts arbitrary: s)
  case (Cons st sts)
  then obtain t c new old where st: "st = UpdateWhere t c new old" "plainValue new" "plainValue old"
    by (auto simp: plainStatement_def split: statement.splits)
  have same: "eq (VString s) old = plainEquality (VString s) old"
    using assms st(3) Cons.prems(2) by (cases old) (auto simp: sql_equality_def plainValue_def)
  have "\<exists>r. updatedBy eq (VString s) st = VString r \<and> list_all plainChar r"
    using st Cons.prems(2) by (cases "eq (VString s) old"; cases new; auto simp: plainValue_def)
  then obtain r where r: "updatedBy eq (VString s) st = VString r" "list_all plainChar r" by blast
  moreover have "updatedBy plainEquality (VString s) st = VString r" using r(1) same by (simp add: st(1))
  ultimately show ?case using Cons.IH [of r] Cons.prems(1) by (simp add: updatedByAll_def)
qed (simp add: updatedByAll_def)

lemma plain_statements:
  "list_all (\<lambda>dir. list_all plainStatement (categoryUpdates dir @ typeUpdates dir)) [dirUp, dirDown]"
  "list_all (\<lambda>dir. list_all plainStatement (modeUpdates c dir)) [dirUp, dirDown]"
  by code_simp+

lemma plain_all: "list_all plainStatement (categoryUpdates dir)" "list_all plainStatement (typeUpdates dir)"
    "list_all plainStatement (modeUpdates c dir)"
  using plain_statements by (cases dir; simp)+

lemma plain_translated:
  "list_all (\<lambda>(code, new). list_all plainChar code \<and> list_all plainChar new
     \<and> updatedByAll plainEquality (categoryUpdates dirUp) (VString code) = VString new
     \<and> updatedByAll plainEquality (categoryUpdates dirDown) (VString new) = VString code
     \<and> pl_categoryToDb (pl_categoryFromDb new) = new) categoryCodes"
  "list_all (\<lambda>(code, new). list_all plainChar code \<and> list_all plainChar new
     \<and> updatedByAll plainEquality (modeUpdates c dirUp) (VString code) = VString new
     \<and> updatedByAll plainEquality (modeUpdates c dirDown) (VString new) = VString code
     \<and> modeToDb (modeFromDb new) = new) flightModeCodes"
  "list_all (\<lambda>(code, new). list_all plainChar (decimal code) \<and> list_all plainChar new
     \<and> updatedByAll plainEquality (typeUpdates dirUp) (VString (decimal code)) = VString new
     \<and> updatedByAll plainEquality (typeUpdates dirDown) (VString new) = VString (decimal code)
     \<and> typeToDb (typeFromDb new) = new) flightTypeCodes"
  by code_simp+

lemma categories_translated:
  assumes "sql_equality eq" "(code, new) \<in> set categoryCodes"
  shows "updatedByAll eq (categoryUpdates dirUp) (VString code) = VString new
    \<and> updatedByAll eq (categoryUpdates dirDown) (VString new) = VString code
    \<and> pl_categoryToDb (pl_categoryFromDb new) = new"
  using plain_translated(1) assms(2) plain_statement_updates [OF assms(1) plain_all(1)]
  by (fastforce simp: list_all_iff)

lemma modes_translated:
  assumes "sql_equality eq" "(code, new) \<in> set flightModeCodes"
  shows "updatedByAll eq (modeUpdates c dirUp) (VString code) = VString new
    \<and> updatedByAll eq (modeUpdates c dirDown) (VString new) = VString code
    \<and> modeToDb (modeFromDb new) = new"
  using plain_translated(2) [of c] assms(2) plain_statement_updates [OF assms(1) plain_all(3)]
  by (fastforce simp: list_all_iff)

lemma types_translated:
  assumes "sql_equality eq" "(code, new) \<in> set flightTypeCodes"
  shows "updatedByAll eq (typeUpdates dirUp) (VString (decimal code)) = VString new
    \<and> updatedByAll eq (typeUpdates dirDown) (VString new) = VString (decimal code)
    \<and> typeToDb (typeFromDb new) = new"
  using plain_translated(3) assms(2) plain_statement_updates [OF assms(1) plain_all(2)]
  by (fastforce simp: list_all_iff)



section \<open>The status number\<close>

text \<open>The expressions of the two updates, for a status that is not NULL.\<close>

definition statusFlags :: "int \<Rightarrow> bool \<times> bool \<times> bool" where
  "statusFlags status = (and status 1 \<noteq> 0, and status 2 \<noteq> 0, and status 4 \<noteq> 0)"

definition statusNumber :: "bool \<times> bool \<times> bool \<Rightarrow> int" where
  "statusNumber flags = (case flags of (departed, landed, towflightLanded) \<Rightarrow>
     (if departed then 1 else 0) + (if landed then 2 else 0) + (if towflightLanded then 4 else 0))"

lemma status_bits: "and s 1 \<noteq> 0 \<longleftrightarrow> odd s" "and s 2 \<noteq> 0 \<longleftrightarrow> odd (s div 2)" "and s 4 \<noteq> 0 \<longleftrightarrow> odd (s div 4)" for s :: int
  using and_exp_eq_0_iff_not_bit [of s 0] and_exp_eq_0_iff_not_bit [of s 1] and_exp_eq_0_iff_not_bit [of s 2]
  by (simp_all add: bit_iff_odd)

lemma number_parity: "statusNumber (odd a, odd b, odd c) = a mod 2 + 2 * (b mod 2) + 4 * (c mod 2)"
  by (simp add: statusNumber_def mod2_eq_if)

lemma status_mod: "statusNumber (statusFlags s) = s mod 8"
proof -
  have "s mod 8 = s mod 2 + 2 * (s div 2 mod 2) + 4 * (s div 4 mod 2)"
    using zmod_zmult2_eq [of 4 s 2] zmod_zmult2_eq [of 2 "s div 2" 2] by (simp add: zdiv_zmult2_eq [symmetric])
  then show ?thesis by (simp only: statusFlags_def status_bits number_parity)
qed

text \<open>C30: the status number of a flight and its three flags. Going up and down again keeps the three lower bits of the
  number and clears the others, so it restores exactly the numbers 0 to 7; going down and up again restores all flags;
  the number written is always between 0 and 7.\<close>

theorem status_flags_bounds:
  "statusNumber (statusFlags s) = s mod 8 \<and> (statusNumber (statusFlags s) = s \<longleftrightarrow> 0 \<le> s \<and> s \<le> 7)
    \<and> statusFlags (statusNumber fs) = fs \<and> 0 \<le> statusNumber fs \<and> statusNumber fs \<le> 7"
proof -
  have "s mod 8 = s \<longleftrightarrow> 0 \<le> s \<and> s \<le> 7"
    using pos_mod_bound [of 8 s] pos_mod_sign [of 8 s] by (auto simp: mod_pos_pos_trivial)
  moreover have "statusFlags (statusNumber fs) = fs"
    by (cases fs) (auto simp: statusNumber_def statusFlags_def)
  moreover have "0 \<le> statusNumber fs" "statusNumber fs \<le> 7"
    by (cases fs; simp add: statusNumber_def)+
  ultimately show ?thesis by (simp add: status_mod)
qed

section \<open>Older databases\<close>

text \<open>The first migration also runs on a database that has some of the tables with some of the columns.\<close>

definition hasColumn :: "dbTables \<Rightarrow> qstring \<Rightarrow> qstring \<Rightarrow> bool" where
  "hasColumn ts n c \<longleftrightarrow> (case map_of ts n of None \<Rightarrow> False | Some t \<Rightarrow> list_ex (likeMatch c) (columnNames t))"

definition extends :: "dbTables \<Rightarrow> dbTables \<Rightarrow> bool" where
  "extends ts ts' \<longleftrightarrow> (\<forall>n t. map_of ts n = Some t \<longrightarrow>
     (\<exists>t'. map_of ts' n = Some t' \<and> set (tb_columns t) \<subseteq> set (tb_columns t') \<and> tb_ids t' = tb_ids t))"

lemma extends_refl: "extends ts ts"
  by (simp add: extends_def)

lemma extends_trans: "extends a b \<Longrightarrow> extends b c \<Longrightarrow> extends a c"
  by (fastforce simp: extends_def)

lemma extends_hasColumn: "extends ts ts' \<Longrightarrow> hasColumn ts n c \<Longrightarrow> hasColumn ts' n c"
  unfolding hasColumn_def extends_def columnNames_def list_ex_iff by (fastforce split: option.splits)

definition goesOn :: "tablesDb ddl_action \<Rightarrow> (dbTables \<Rightarrow> bool) \<Rightarrow> (dbTables \<Rightarrow> bool) \<Rightarrow> bool" where
  "goesOn a P Q \<longleftrightarrow> (\<forall>ts. P ts \<longrightarrow> (\<exists>ts'. a (db ts) = (None, db ts') \<and> extends ts ts' \<and> Q ts'))"

definition hasTable :: "qstring \<Rightarrow> dbTables \<Rightarrow> bool" where
  "hasTable n ts \<longleftrightarrow> map_of ts n \<noteq> None"

lemma extends_hasTable: "extends ts ts' \<Longrightarrow> hasTable n ts \<Longrightarrow> hasTable n ts'"
  by (fastforce simp: extends_def hasTable_def)

lemma createNamed_goesOn:
  assumes "createNamed True n t ts = Inr ts'"
  shows "extends ts ts' \<and> hasTable n ts'"
  using assms by (auto simp: createNamed_def extends_def hasTable_def map_add_def split: if_splits option.splits)

lemma createNamed_ok: "\<exists>ts'. createNamed True n t ts = Inr ts'"
  by (simp add: createNamed_def)

lemma create_goesOn: "goesOn (ddl_createTableWithId described n True) (\<lambda>_. True) (hasTable n)"
  unfolding goesOn_def
proof (intro allI impI)
  fix ts
  obtain ts' where c: "createNamed True n (newTable [schemaIdColumn] []) ts = Inr ts'"
    using createNamed_ok by blast
  then have "ddl_createTableWithId described n True (db ts) = (None, db ts')"
    by (simp add: ddl_createTableWithId_def ddl_createTable_def run_described ddl_def structureOf_def changesRowsOnly_def)
  then show "\<exists>ts'. ddl_createTableWithId described n True (db ts) = (None, db ts') \<and> extends ts ts' \<and> hasTable n ts'"
    using createNamed_goesOn [OF c] by blast
qed

lemma createLike_goesOn: "goesOn (ddl_createTableLike described l n True) (hasTable l) (hasTable n)"
  unfolding goesOn_def
proof (intro allI impI)
  fix ts assume "hasTable l ts"
  then obtain t where t: "map_of ts l = Some t" by (auto simp: hasTable_def)
  obtain ts' where c: "createNamed True n (t\<lparr>tb_ids := []\<rparr>) ts = Inr ts'"
    using createNamed_ok by blast
  then have "ddl_createTableLike described l n True (db ts) = (None, db ts')"
    by (simp add: ddl_createTableLike_def run_described ddl_def structureOf_def changesRowsOnly_def t)
  then show "\<exists>ts'. ddl_createTableLike described l n True (db ts) = (None, db ts') \<and> extends ts ts' \<and> hasTable n ts'"
    using createNamed_goesOn [OF c] by blast
qed

lemma putTable_other: "m \<noteq> n \<Longrightarrow> map_of (putTable n u ts) m = map_of ts m"
  by (induction ts) auto

lemma putTable_extends:
  assumes "map_of ts n = Some t" "set (tb_columns t) \<subseteq> set (tb_columns u)" "tb_ids u = tb_ids t"
  shows "extends ts (putTable n u ts)"
  unfolding extends_def
proof (intro allI impI)
  fix m v assume "map_of ts m = Some v"
  with assms show "\<exists>t'. map_of (putTable n u ts) m = Some t' \<and> set (tb_columns v) \<subseteq> set (tb_columns t') \<and> tb_ids t' = tb_ids v"
    by (cases "m = n") (auto simp: map_of_putTable putTable_other)
qed

lemma addColumn_goesOn:
  assumes "afterColumn x = None"
  shows "goesOn (ddl_addColumn described n c ty x True) (hasTable n) (\<lambda>ts. hasColumn ts n c)"
proof -
  have "\<exists>ts'. ddl_addColumn described n c ty x True (db ts) = (None, db ts') \<and> extends ts ts' \<and> hasColumn ts' n c"
    if m: "map_of ts n = Some t" for ts t
  proof -
    have "c \<notin> set (columnNames t) \<or> list_ex (likeMatch c) (columnNames t)"
      using likeMatch_refl [of c] by (auto simp: list_ex_iff)
    then have "\<exists>u. addIfMissing c ty x t = Inr u"
      using assms by (cases "list_ex (likeMatch c) (columnNames t)") (simp_all add: addIfMissing_def addTableColumn_def)
    then obtain u where u: "addIfMissing c ty x t = Inr u" by blast
    then have p: "set (tb_columns t) \<subseteq> set (tb_columns u)" "tb_ids u = tb_ids t" "list_ex (likeMatch c) (columnNames u)"
      using assms likeMatch_refl [of c]
      by (auto simp: addIfMissing_def addTableColumn_def columnNames_def toColumn_def Let_def split: if_splits)
    have "ddl_addColumn described n c ty x True (db ts) = (None, db (putTable n u ts))"
      using table_addColumn [of n c ty x] m u by (simp add: tableAction_def)
    moreover have "hasColumn (putTable n u ts) n c"
      using p(3) by (simp add: hasColumn_def map_of_putTable [OF m])
    ultimately show ?thesis using putTable_extends [OF m p(1,2)] by blast
  qed
  then show ?thesis by (auto simp: goesOn_def hasTable_def)
qed

text \<open>A sequence whose parts go on: the needed tables stay, and what a part achieves stays.\<close>

fun allGoOn :: "(tablesDb ddl_action \<times> (dbTables \<Rightarrow> bool) \<times> (dbTables \<Rightarrow> bool)) list \<Rightarrow> bool" where
  "allGoOn [] = True"
| "allGoOn ((a, P, Q) # xs) = (goesOn a P Q \<and> (\<forall>ts ts'. extends ts ts' \<longrightarrow> Q ts \<longrightarrow> Q ts') \<and> allGoOn xs)"

fun needsMet :: "(dbTables \<Rightarrow> bool) \<Rightarrow> (tablesDb ddl_action \<times> (dbTables \<Rightarrow> bool) \<times> (dbTables \<Rightarrow> bool)) list \<Rightarrow> bool" where
  "needsMet K [] = True"
| "needsMet K ((a, P, Q) # xs) = ((\<forall>ts. K ts \<longrightarrow> P ts) \<and> needsMet (\<lambda>ts. K ts \<and> Q ts) xs)"

lemma allGoOn_run:
  "allGoOn xs \<Longrightarrow> needsMet K xs \<Longrightarrow> K ts \<Longrightarrow> (\<And>ts ts'. extends ts ts' \<Longrightarrow> K ts \<Longrightarrow> K ts') \<Longrightarrow>
    \<exists>ts'. inOrder (map fst xs) (db ts) = (None, db ts') \<and> extends ts ts' \<and> list_all (\<lambda>(a, P, Q). Q ts') xs"
proof (induction xs arbitrary: K ts)
  case (Cons x xs)
  obtain a P Q where x: "x = (a, P, Q)" by (cases x)
  from Cons.prems obtain ts1 where 1: "a (db ts) = (None, db ts1)" "extends ts ts1" "Q ts1"
    by (auto simp: x goesOn_def)
  have st: "extends u v \<Longrightarrow> Q u \<Longrightarrow> Q v" for u v using Cons.prems(1) by (auto simp: x)
  have "\<exists>ts'. inOrder (map fst xs) (db ts1) = (None, db ts') \<and> extends ts1 ts' \<and> list_all (\<lambda>(a, P, Q). Q ts') xs"
  proof (rule Cons.IH)
    show "allGoOn xs" "needsMet (\<lambda>ts. K ts \<and> Q ts) xs" using Cons.prems(1,2) by (simp_all add: x)
    show "K ts1 \<and> Q ts1" using Cons.prems(3,4) 1 by blast
    show "K v \<and> Q v" if "extends u v" "K u \<and> Q u" for u v using that Cons.prems(4) st by blast
  qed
  then obtain ts2 where "inOrder (map fst xs) (db ts1) = (None, db ts2)" "extends ts1 ts2" "list_all (\<lambda>(a, P, Q). Q ts2) xs"
    by blast
  with 1 st show ?case by (auto simp: x inOrder_Cons intro: extends_trans)
qed (simp add: inOrder_Nil extends_refl)

definition creation :: "qstring \<Rightarrow> tablesDb ddl_action \<times> (dbTables \<Rightarrow> bool) \<times> (dbTables \<Rightarrow> bool)" where
  "creation n = (ddl_createTableWithId described n True, \<lambda>_. True, hasTable n)"

definition copying :: "qstring \<Rightarrow> qstring \<Rightarrow> tablesDb ddl_action \<times> (dbTables \<Rightarrow> bool) \<times> (dbTables \<Rightarrow> bool)" where
  "copying l n = (ddl_createTableLike described l n True, hasTable l, hasTable n)"

definition adding :: "qstring \<Rightarrow> qstring \<times> qstring \<Rightarrow> tablesDb ddl_action \<times> (dbTables \<Rightarrow> bool) \<times> (dbTables \<Rightarrow> bool)" where
  "adding n = (\<lambda>(c, ty). (ddl_addColumn described n c ty [] True, hasTable n, \<lambda>ts. hasColumn ts n c))"

definition addingUsername :: "tablesDb ddl_action \<times> (dbTables \<Rightarrow> bool) \<times> (dbTables \<Rightarrow> bool)" where
  "addingUsername = (ddl_addColumn described ''user'' ''username'' dataTypeString ''NOT NULL'' True,
     hasTable ''user'', \<lambda>ts. hasColumn ts ''user'' ''username'')"

definition initialSteps :: "(tablesDb ddl_action \<times> (dbTables \<Rightarrow> bool) \<times> (dbTables \<Rightarrow> bool)) list" where
  "initialSteps = creation ''person'' # map (adding ''person'') personSpec @ copying ''person'' ''person_temp''
     # creation ''flugzeug'' # map (adding ''flugzeug'') flugzeugSpec @ copying ''flugzeug'' ''flugzeug_temp''
     # creation ''flug'' # map (adding ''flug'') flugSpec @ copying ''flug'' ''flug_temp''
     # creation ''user'' # addingUsername # map (adding ''user'') (userSpec ''person'')"

lemma initialSteps_run: "up_initial described = inOrder (map fst initialSteps)"
proof -
  have "map fst (map (adding n) sp) = adds n sp" for n sp
    by (auto simp: adding_def adds_def)
  then show ?thesis
    by (simp add: up_initial_split initialSteps_def creation_def copying_def addingUsername_def del: map_map)
qed

lemma allGoOn_append: "allGoOn (xs @ ys) \<longleftrightarrow> allGoOn xs \<and> allGoOn ys"
  by (induction xs rule: allGoOn.induct) auto

lemma adding_goes: "allGoOn (map (adding n) sp)"
proof (induction sp)
  case (Cons x sp)
  then show ?case
    by (cases x) (auto simp: adding_def intro: addColumn_goesOn extends_hasColumn simp: afterColumn_def)
qed simp

lemma initialSteps_goOn: "allGoOn initialSteps"
proof -
  have "afterColumn ''NOT NULL'' = None" by code_simp
  then show ?thesis
    by (simp add: initialSteps_def allGoOn_append adding_goes creation_def copying_def addingUsername_def
        create_goesOn createLike_goesOn addColumn_goesOn extends_hasTable extends_hasColumn)
qed

lemma needsMet_adding:
  "(\<And>ts. K ts \<Longrightarrow> hasTable n ts) \<Longrightarrow> (\<And>K'. (\<And>ts. K' ts \<Longrightarrow> K ts) \<Longrightarrow> needsMet K' xs) \<Longrightarrow>
    needsMet K (map (adding n) sp @ xs)"
proof (induction sp arbitrary: K)
  case (Cons x sp)
  obtain c ty where x: "x = (c, ty)" by fastforce
  have "needsMet (\<lambda>ts. K ts \<and> hasColumn ts n c) (map (adding n) sp @ xs)"
    by (rule Cons.IH) (use Cons.prems in auto)
  with Cons.prems(1) show ?case by (simp add: x adding_def)
qed simp

lemma initialSteps_needs: "needsMet (\<lambda>_. True) initialSteps"
  unfolding initialSteps_def
  by (simp add: creation_def) (rule needsMet_adding, blast, simp add: copying_def, rule needsMet_adding, blast,
    simp add: copying_def, rule needsMet_adding, blast, simp add: copying_def addingUsername_def,
    rule needsMet_adding [where xs = "[]", simplified], blast)

lemma initial_completes:
  "\<exists>ts'. up_initial described (db ts) = (None, db ts') \<and> extends ts ts'
    \<and> list_all (\<lambda>(n, sp). list_all (\<lambda>(c, ty). hasColumn ts' n c) sp)
        [(''person'', personSpec), (''flugzeug'', flugzeugSpec), (''flug'', flugSpec), (''user'', userSpec ''person'')]"
proof -
  from allGoOn_run [OF initialSteps_goOn initialSteps_needs, of ts] obtain ts' where
    ts': "inOrder (map fst initialSteps) (db ts) = (None, db ts')" "extends ts ts'"
    "list_all (\<lambda>(a, P, Q). Q ts') initialSteps" by auto
  moreover have "list_all (\<lambda>(a, P, Q). Q ts') (map (adding n) sp) \<longleftrightarrow> list_all (\<lambda>(c, ty). hasColumn ts' n c) sp" for n sp
    by (auto simp: list_all_iff adding_def)
  ultimately show ?thesis using initialSteps_run by (auto simp: initialSteps_def)
qed



section \<open>Launch methods of the configuration file\<close>

text \<open>The value of a line that defines a launch method.\<close>

definition launchLine :: "qstring \<Rightarrow> qstring option" where
  "launchLine raw = (let line = trimmed raw in
     if line \<noteq> [] \<and> hd line \<noteq> CHR ''#'' \<and> fst (splitConfigLine line) = ''startart''
     then Some (snd (splitConfigLine line)) else None)"

definition completeLine :: "qstring \<Rightarrow> bool" where
  "completeLine value \<longleftrightarrow> 7 \<le> count_list value (CHR '','')"

lemma parseConfigLine_None: "lm_parseConfigLine v = None \<longleftrightarrow> \<not> completeLine v"
  by (simp add: completeLine_def lm_parseConfigLine_crashes not_le)

text \<open>C31: reading the launch methods for the import. If every line of the configuration file that defines a launch method has
  all eight parts, the import gets exactly the launch methods of these lines with a valid id, in order; a
  single line with fewer parts makes the program read beyond the end of a list, although the code means to accept
  shorter lines.\<close>

theorem config_lines_read:
  "readConfigLines ls = (if list_all completeLine (List.map_filter launchLine ls)
     then Some (filter (\<lambda>l. idValid (lm_id l)) (List.map_filter lm_parseConfigLine (List.map_filter launchLine ls)))
     else None)"
proof (induction ls)
  case Nil
  then show ?case by (simp add: map_filter_simps)
next
  case (Cons raw ls)
  show ?case
  proof (cases "launchLine raw")
    case None
    then have "readConfigLines (raw # ls) = readConfigLines ls"
      by (auto simp: launchLine_def Let_def hd_conv_nth split: if_splits prod.splits)
    with None Cons show ?thesis by (simp add: map_filter_simps)
  next
    case (Some v)
    then have r: "readConfigLines (raw # ls) = Option.bind (lm_parseConfigLine v) (\<lambda>sa.
        if idInvalid (lm_id sa) then readConfigLines ls else map_option ((#) sa) (readConfigLines ls))"
      by (auto simp: launchLine_def Let_def hd_conv_nth split: if_splits prod.splits)
    show ?thesis
    proof (cases "lm_parseConfigLine v")
      case None
      with Some r show ?thesis using parseConfigLine_None [of v] by (simp add: map_filter_simps)
    next
      case (Some sa)
      with \<open>launchLine raw = Some v\<close> r Cons show ?thesis
        using parseConfigLine_None [of v] by (simp add: map_filter_simps idValid_def)
    qed
  qed
qed

end
