(* ===== verification/Spec2Isabelle.thy ===== *)
theory Spec2Isabelle
  imports Sk_Prelude Sk_Text Sk_Query Sk_Entity Sk_LaunchMethod Sk_Plane Sk_Person Sk_Flight
    Sk_FlightErrors Sk_FlightLife Sk_FlightDb Sk_Containers Sk_Cache Sk_CacheSync Sk_CacheRefine
    Sk_CacheOps Sk_CacheLookup Sk_Migrator Sk_Flarm Sk_Nmea Sk_FlarmNet Sk_FlarmLookup Sk_FlarmList
    Sk_MainFlights Sk_Sort Sk_Statistics Sk_Interface Sk_Database Sk_DbSource Sk_DbManager Sk_Merge
    Sk_FlightWindow Sk_FlightEdit Sk_FlightAccept Sk_FlightDialog
    Sk_FlightProxy Sk_FlightTable Sk_MainList
    Sk_Schema Sk_Migrations Sk_SchemaStages Sk_SchemaLater Sk_SchemaFacts Sk_SchemaValues
begin

text \<open>
  Startkladde is a flight logger for gliding clubs (C++, Qt). The program keeps the planes, people,
  launch methods, FlarmNet records and flights of a club in an SQL database, shows them from a cache
  that follows the database by events, lets the user depart and land flights, and receives traffic
  from a FLARM device that detects departures and landings. This development models that core; all
  paths below are under \<^verbatim>\<open>src/src/\<close>.

  \<^bold>\<open>Parts.\<close> \<^verbatim>\<open>model/\<close> holds the entities. \<^verbatim>\<open>db/Database.cpp\<close> writes and reads them with the
  statements of \<^verbatim>\<open>db/Query.cpp\<close> and announces every change as a \<^verbatim>\<open>DbEvent\<close>. \<^verbatim>\<open>db/cache\<close> answers
  all lookups of the user interface; \<open>Cache::dbChanged\<close> handles an event and re-emits it, and a
  flight that is told the event drops its cached error list. \<^verbatim>\<open>db/migration\<close> brings the schema of a
  database to the version of the program. \<^verbatim>\<open>flarm/FlarmRecord.cpp\<close> is the state machine of one
  received aircraft.

  \<^bold>\<open>Theories.\<close>
  \<^item> \<open>Sk_Prelude\<close>: ids (\<^verbatim>\<open>db/dbId.h\<close>, 32 bit words), QString (a list of characters of Latin 1) with
    the functions the code uses, among them \<open>QString::arg\<close>, and times: a QDateTime is the milliseconds
    since the epoch, a QDate the day number, a QTime the milliseconds of the day, each with \<open>None\<close> for
    the invalid value.
  \<^item> \<open>Sk_Text\<close> (\<^verbatim>\<open>text.cpp\<close>), \<open>Sk_Query\<close> (\<^verbatim>\<open>db/Query.cpp\<close> and the conversions of QVariant), \<open>Sk_Entity\<close>
    (the statements of \<open>createObject\<close> and \<open>updateObject\<close> in \<^verbatim>\<open>db/Database.cpp\<close>; locale \<open>stored_entity\<close>:
    what is written is read back).
  \<^item> \<open>Sk_LaunchMethod\<close>, \<open>Sk_Plane\<close> (with \<^verbatim>\<open>flarm/flarmNet/FlarmNetRecord.cpp\<close>), \<open>Sk_Person\<close>: the entities of
    \<^verbatim>\<open>model/\<close>, their formats, orders, columns and SQL interface; each interprets \<open>stored_entity\<close>.
  \<^item> \<open>Sk_Flight\<close> (\<^verbatim>\<open>model/FlightBase.cpp\<close>, \<^verbatim>\<open>Flight.cpp\<close>, \<^verbatim>\<open>Flight_Type.cpp\<close>, \<^verbatim>\<open>Flight_Mode.cpp\<close>): the record
    of a flight, its status, the guarded actions, dates, durations and order. \<open>Sk_FlightErrors\<close>: the error
    check, its mutable cache and \<^verbatim>\<open>db/event/DbEvent.cpp\<close>. \<open>Sk_FlightLife\<close>: runs of actions. \<open>Sk_FlightDb\<close>:
    towflights, the SQL interface and the conditions that select flights.
  \<^item> \<open>Sk_Containers\<close>: \<^verbatim>\<open>MutableObjectList.h\<close> and \<^verbatim>\<open>EntityList.h\<close> with the row signals an item view
    receives, \<^verbatim>\<open>SortedSet_impl.h\<close> with its lazily generated list (locale \<open>sorted_store\<close>),
    \<^verbatim>\<open>SkMultiHash.h\<close>, \<^verbatim>\<open>WithSortkey.h\<close>, \<^verbatim>\<open>Maybe.h\<close>.
  \<^item> \<open>Sk_Cache\<close>: the record \<open>cache\<close> with the members of \<open>Cache\<close>, the hash updates of
    \<^verbatim>\<open>Cache_hashUpdates.cpp\<close>, and the handling of events. The template parameter of the C++ methods is a
    record \<open>kind\<close> of the specialisations; \<open>None\<close> stands for a null pointer that is dereferenced.
    \<open>Sk_CacheSync\<close>: the locales \<open>object_kind\<close> and \<open>clearable_kind\<close>, what a kind promises so that
    \<open>objectAdded\<close>, \<open>objectDeleted\<close> and \<open>objectUpdated\<close> keep the cache in step with a table, interpreted for
    the four kinds. \<open>Sk_CacheRefine\<close>: the abstract database (\<open>tables\<close>), the events that are legal for it,
    the abstraction relation \<open>cacheMirrors\<close>, and the simulation of \<open>apply_event\<close> by \<open>dbChanged\<close>.
    \<open>Sk_CacheOps\<close>: refreshing and clearing. \<open>Sk_CacheLookup\<close>: \<^verbatim>\<open>Cache_lookup.cpp\<close>.
  \<^item> \<open>Sk_Migrator\<close>: \<^verbatim>\<open>Migrator.cpp\<close> and \<^verbatim>\<open>MigrationFactory.cpp\<close> over a database that is a list of applied
    versions and something else, for any migrations and any schema.
  \<^item> \<open>Sk_Schema\<close>: the operations of \<^verbatim>\<open>db/interface/Interface.cpp\<close> that change the structure of a database, each a
    \<open>statement\<close> with its text and values, and the specifications of \<^verbatim>\<open>db/schema/spec\<close>. The server is a record
    \<open>ddl_server\<close>; what its manual promises of the statements is the function \<open>ddl\<close> on tables with their columns and
    indexes (locale \<open>ddl_connection\<close>). \<open>Sk_Migrations\<close>: both directions of the 24 migrations of \<^verbatim>\<open>db/migrations\<close>,
    the schema file \<^verbatim>\<open>current_schema.yaml\<close> and what \<^verbatim>\<open>db/schema/CurrentSchema.cpp.erb\<close> makes of it.
    \<open>Sk_SchemaStages\<close>, \<open>Sk_SchemaLater\<close>: the tables after each migration. \<open>Sk_SchemaFacts\<close>, \<open>Sk_SchemaValues\<close>: what
    the migrations build, what they do to stored values, and how the objects fit into the columns.
  \<^item> \<open>Sk_Flarm\<close>: \<^verbatim>\<open>FlarmRecord.cpp\<close>. \<open>Sk_Nmea\<close>: \<^verbatim>\<open>nmea/\<close>, from the bytes of the device to the sentences.
    \<open>Sk_FlarmNet\<close>: the files of \<^verbatim>\<open>flarm/flarmNet/FlarmNetFile.cpp\<close>. \<open>Sk_FlarmLookup\<close>: \<^verbatim>\<open>flarm/algorithms/\<close>, which
    plane and which flight a FLARM id belongs to, and the update of FLARM ids. \<open>Sk_FlarmList\<close>:
    \<^verbatim>\<open>flarm/FlarmList.cpp\<close>, the list of received aircraft with its hash of persistent indexes; records that
    left the list live on as orphans, because nothing deletes them.
  \<^item> \<open>Sk_MainFlights\<close>: the flight operations of \<^verbatim>\<open>gui/windows/MainWindow.cpp\<close> (depart, land, touch-and-go,
    by the user or by a FLARM event) over the cache and the trackers of \<^verbatim>\<open>time/EventTimeTracker.cpp\<close>. A
    stored change reaches the cache as the event that the database announces (\<open>announce\<close>).
  \<^item> \<open>Sk_Sort\<close>: \<open>std::sort\<close> by a comparison of the program (locale \<open>strict_weak_order\<close>, interpreted for the
    comparisons that are used). \<open>Sk_Statistics\<close>: \<^verbatim>\<open>statistics/\<close>, the plane log, the pilot log and the counts of
    the launch methods, with their tables.
  \<^item> \<open>Sk_Interface\<close>: the connection of \<^verbatim>\<open>db/interface/DefaultInterface.cpp\<close>. The server is a record of functions on
    its state, and how each call ends (well, refused, canceled, connection lost before or after the statement was
    executed) is an input, the list of answers; an operation that has used them up still waits. \<open>Sk_Database\<close>:
    the operations of \<^verbatim>\<open>db/Database.cpp\<close> that write, with the events they emit. \<open>Sk_DbSource\<close>: those that read.
    \<open>Sk_DbManager\<close>, \<open>Sk_Merge\<close>: \<^verbatim>\<open>db/DbManager.cpp\<close>, connecting (over the operations of the workers, locale
    \<open>manager_contract\<close>, interpreted for the migrator and the cache of this development) and merging people.
  \<^item> \<open>Sk_FlightWindow\<close>: the flight editor, \<^verbatim>\<open>gui/windows/FlightWindow.cpp\<close>: the record \<open>editor\<close> holds the
    values of the inputs, what is visible, and the selected ids; opening the window, the slots of the inputs,
    reading and writing a flight, and what a change in the database does. \<open>Sk_FlightEdit\<close>: the sessions of a
    window as an inductive set, their invariant, and what editing guarantees. \<open>Sk_FlightAccept\<close>: accepting a
    flight: a dialog is a step on \<open>dialog_state\<close> that returns, is aborted, crashes or throws; the user is a
    function from the questions asked so far to answers. \<open>Sk_FlightDialog\<close>: what is accepted and stored.
  \<^item> \<open>Sk_FlightProxy\<close>: \<^verbatim>\<open>model/objectList/AutomaticEntityList.h\<close> (locale \<open>listed_class\<close>, what a class of objects
    promises so that its list follows the events, interpreted for planes, people and launch methods) and
    \<^verbatim>\<open>model/flightList/FlightProxyList.cpp\<close>, the flights with their towflights. \<open>Sk_FlightTable\<close>: \<^verbatim>\<open>flightColor.cpp\<close>,
    \<^verbatim>\<open>FlightModel.cpp\<close>, \<^verbatim>\<open>FlightSortFilterProxyModel.cpp\<close> and \<^verbatim>\<open>gui/widgets/FlightTableView.cpp\<close>, from the list to the
    rows that are shown. \<open>Sk_MainList\<close>: the displayed date and the flight list of \<^verbatim>\<open>gui/windows/MainWindow.cpp\<close>.

  \<^bold>\<open>What the lemmas show.\<close> The cache: a complete refresh makes it a mirror of the database, every
  legal event keeps it one, and on a mirror the lookups answer what the database holds. Flights: the
  guarded actions never produce the errors about landings; the error cache is coherent with the
  events; writing and reading is the identity; the two-step selection by date is exact; the order is
  a strict weak order. Containers: item views that follow the row signals stay in step, the cached
  list of a sorted set is never stale. Migrations: interrupted loading is detected, migrating is
  resumable; on an empty database the migrations build a schema that the insert statements of all entities fit and
  that is the one of the schema file with two more columns, the first one completes the databases of the old
  program, each step down undoes its step up with one exception, and old values are translated to those the program
  reads. FLARM: the state machine is its table, detected departures and landings alternate; the
  decoder does not depend on how the bytes are split, a corrupted character is detected, FlarmNet files
  are read back; the hash of the list indexes its rows; the lookup of a plane and the update of its
  FLARM id keep the FLARM ids unique. Main window: an event that is told again within the interval has
  no effect. Statistics: every finished flight is in exactly one entry, in order, and the entries add up.
  Database: every operation returns, write operations are atomic unless the connection is lost, what is stored
  reaches the cache, the queries describe the tables; connecting ends connected to a usable database or closed;
  after a merge the cache follows the tables. Flight editor: an edited flight comes back as it was, a change in
  the database is merged with the inputs, a flight accepted without confirming a problem has no other errors than
  those the dialogs do not look for, and a flight is announced exactly if it was stored. Flight table: the list
  that is kept up by events shows what refreshing would show, the signals of the proxy describe its rows, there is
  one towflight for each airtow, the jump to a towflight leads back, and no row with a button is hidden. Some theorems pin down where the code departs from what it means to do.

  \<^bold>\<open>Bounds.\<close> No definition needs fuel: the loops are structural or have a measure (the number of rows
  left). Integers that come from C++ \<open>int\<close> counters are unbounded where no arithmetic can reach the
  bounds (landings, seats); ids and versions are words.

  \<^bold>\<open>Not modelled.\<close> The user interface apart from the flight operations, the flight list and table, and the flight editor (of the editor:
  label heights, colours, the order of the focus, the change of the language, and events of the database
  while a question is open), translation (texts are those of the source), the worker threads
  (each operation of the cache holds its mutex and is one step here), the SQL server (its answers are
  parameters, its columns convert values as \<open>driver_ok\<close> says, its tables change as \<open>ddl\<close> says; the contents of the
  tables are not part of \<open>ddl\<close>), dumping the schema, time zones other than by their offset,
  network, plugins, the FLARM map and the choice of the data stream.
\<close>

end
